(* ===== verification/Prelude.thy ===== *)
theory Prelude
  imports Main "HOL-Library.Word"
begin

text \<open>
  Shared ground of the development: the fixed-width integer types of the firmware, the
  collections of rewrite rules that the component theories fill, and the generic facts on
  machine words and optional values that their proofs share.

  Conventions used by every theory:
  \<^item> a C++ \<open>enum class\<close> is a datatype whose constructors carry a short prefix and the name of
    the enumerator (\<open>PS_Fermenting\<close> for \<open>ProcessState::Fermenting\<close>); where the code checks that a
    value is one of the enumerators, the datatype has one more constructor for a byte that names
    none of them (such a byte can come from a cast), so that the fail-closed branch exists in the
    model as it does in the code;
  \<^item> a struct is a record whose field names carry a short prefix and the name of the member;
  \<^item> a nullable pointer and a \<open>std::optional\<close> are both \<open>option\<close>;
  \<^item> \<open>std::uint8_t\<close> to \<open>std::uint64_t\<close> are machine words, so that \<open>+\<close>, \<open>-\<close> and \<open>*\<close> wrap.
\<close>

type_synonym u8 = "8 word"
type_synonym u16 = "16 word"
type_synonym u32 = "32 word"
type_synonym u64 = "64 word"

text \<open>Unfolding rules of the small predicates of a component, and of its step functions.\<close>

named_theorems predicate_defs
named_theorems step_defs

section \<open>Machine words\<close>

text \<open>Largest value of a word type: \<open>std::numeric_limits<T>::max()\<close>.\<close>

abbreviation u32_max :: u32 where
  "u32_max \<equiv> - 1"

abbreviation u64_max :: u64 where
  "u64_max \<equiv> - 1"

lemma unat_u32_max: "unat u32_max = 4294967295"
  by (simp add: unsigned_minus_1_eq_mask mask_eq_exp_minus_1)

lemma unat_u64_max: "unat u64_max = 18446744073709551615"
  by (simp add: unsigned_minus_1_eq_mask mask_eq_exp_minus_1)

text \<open>A guarded subtraction does not wrap.\<close>

lemma unat_sub_le:
  fixes a b :: "'a::len word"
  shows "b \<le> a \<Longrightarrow> unat (a - b) = unat a - unat b"
  by (rule unat_sub)

text \<open>An increment below the maximum does not wrap.\<close>

lemma unat_Suc_word:
  fixes a :: "'a::len word"
  assumes "a \<noteq> - 1"
  shows "unat (a + 1) = Suc (unat a)"
proof -
  from assms have "a + 1 \<noteq> 0"
    by (metis add_eq_0_iff2 minus_equation_iff)
  then show ?thesis
    by (metis add.commute unatSuc)
qed

lemma word_less_Suc:
  fixes a :: "'a::len word"
  shows "a \<noteq> - 1 \<Longrightarrow> a < a + 1"
  by (simp add: word_less_nat_alt unat_Suc_word)

text \<open>Widening a 32-bit value keeps it; a product of two widened 32-bit values fits in 64 bits.\<close>

lemma unat_ucast_u32_u64: "unat (ucast (a :: u32) :: u64) = unat a"
  by transfer (simp add: min_def)

lemma unat_u32_lt: "unat (a :: u32) < 4294967296"
  using unsigned_less [of a, where 'a = nat] by simp

lemma unat_u64_lt: "unat (a :: u64) < 18446744073709551616"
  using unsigned_less [of a, where 'a = nat] by simp

lemma unat_mult_no_wrap:
  fixes a b :: u64
  shows "unat a * unat b < 18446744073709551616 \<Longrightarrow> unat (a * b) = unat a * unat b"
  using unat_mult_lem [of a b] by simp

lemma unat_add_no_wrap:
  fixes a b :: u64
  shows "unat a + unat b < 18446744073709551616 \<Longrightarrow> unat (a + b) = unat a + unat b"
  using unat_add_lem [of a b] by simp

section \<open>Time: deadlines on an unsigned clock\<close>

text \<open>
  Every component measures durations as a difference of two readings of a 64-bit millisecond
  clock. The difference is only taken after the order of the two readings is known.
\<close>

lemma unat_elapsed:
  fixes now start :: u64
  shows "start \<le> now \<Longrightarrow> unat (now - start) = unat now - unat start"
  by (rule unat_sub_le)

lemma elapsed_ge_iff:
  fixes now start d :: u64
  shows "start \<le> now \<Longrightarrow> d \<le> now - start \<longleftrightarrow> unat start + unat d \<le> unat now"
  by (auto simp: word_le_nat_alt unat_elapsed)

section \<open>Optional values\<close>

lemma option_eq_not_None_iff: "(x \<noteq> None) \<longleftrightarrow> (\<exists>y. x = Some y)"
  by auto

lemma case_option_True_iff:
  "(case x of None \<Rightarrow> True | Some y \<Rightarrow> P y) \<longleftrightarrow> (\<forall>y. x = Some y \<longrightarrow> P y)"
  by (cases x) auto

lemma case_option_False_iff:
  "(case x of None \<Rightarrow> False | Some y \<Rightarrow> P y) \<longleftrightarrow> (\<exists>y. x = Some y \<and> P y)"
  by (cases x) auto

section \<open>Machines on a clock\<close>

text \<open>
  The stateful components share one contract: an operation takes an input that carries a reading
  of the monotonic clock, and an invariant relates the state to the last reading. The locale
  states it; what it proves of a whole sequence of inputs is proved once. The process state
  machine, the sensor selection and the actuator planner interpret it.
\<close>

fun ordered_from :: "('i \<Rightarrow> u64) \<Rightarrow> u64 \<Rightarrow> 'i list \<Rightarrow> bool" where
  "ordered_from clock t [] \<longleftrightarrow> True"
| "ordered_from clock t (i # is) \<longleftrightarrow> t \<le> clock i \<and> ordered_from clock (clock i) is"

fun last_time :: "('i \<Rightarrow> u64) \<Rightarrow> u64 \<Rightarrow> 'i list \<Rightarrow> u64" where
  "last_time clock t [] = t"
| "last_time clock t (i # is) = last_time clock (clock i) is"

lemma ordered_from_last_time: "ordered_from clock t is \<Longrightarrow> t \<le> last_time clock t is"
  by (induction "is" arbitrary: t) (auto intro: order_trans)

locale clocked_machine =
  fixes step :: "'i \<Rightarrow> 's \<Rightarrow> 's"
    and clock :: "'i \<Rightarrow> u64"
    and inv :: "u64 \<Rightarrow> 's \<Rightarrow> bool"
  assumes inv_later: "inv t s \<Longrightarrow> t \<le> t' \<Longrightarrow> inv t' s"
    and inv_step: "inv t s \<Longrightarrow> t \<le> clock i \<Longrightarrow> inv (clock i) (step i s)"
begin

lemma inv_run:
  "inv t s \<Longrightarrow> ordered_from clock t is \<Longrightarrow> inv (last_time clock t is) (fold step is s)"
proof (induction "is" arbitrary: t s)
  case Nil
  then show ?case by simp
next
  case (Cons i "is")
  then have "inv (clock i) (step i s)" by (auto intro: inv_step)
  with Cons show ?case by simp
qed

text \<open>What one step keeps under the invariant, a whole run keeps.\<close>

lemma run_keeps:
  assumes "\<And>t s i. inv t s \<Longrightarrow> t \<le> clock i \<Longrightarrow> P s \<Longrightarrow> P (step i s)"
  shows "inv t s \<Longrightarrow> ordered_from clock t is \<Longrightarrow> P s \<Longrightarrow> P (fold step is s)"
proof (induction "is" arbitrary: t s)
  case Nil
  then show ?case by simp
next
  case (Cons i "is")
  then have "inv (clock i) (step i s)" and "P (step i s)"
    using assms by (auto intro: inv_step)
  with Cons show ?case by simp
qed

end

end
