(* ===== verification/DomainTypes.thy ===== *)
theory DomainTypes
  imports Prelude
begin

text \<open>
  Value types that several components share: the program enumerations
  (\<open>program_model.hpp\<close>), the control-context types (\<open>control_context_types.hpp\<close>), the run and
  direction enumerations (\<open>sensor_selection_types.hpp\<close>) and the limits of a program
  (\<open>program_limits.hpp\<close>). A constructor ending in \<open>_other\<close> is a byte that names no enumerator.
\<close>

section \<open>Program enumerations\<close>

datatype SensorPreference =
    SPref_ProductIfAvailableElseAir
  | SPref_AirProductOptional
  | SPref_ProductRequired
  | SPref_AirOnly
  | SPref_other u8

datatype ProductSensorFailurePolicy =
    PFP_FallbackToAirAfterTimeout
  | PFP_WaitForUser
  | PFP_StopToSafeState
  | PFP_other u8

datatype ReturnStrategy =
    RSt_RemainOnAirUntilEnd
  | RSt_ManualReturnToProduct
  | RSt_AutomaticValidatedReturnToProduct
  | RSt_other u8

datatype CompletionMode =
    CM_FinishWithoutCooling
  | CM_CoolThenFinish
  | CM_CoolAndHoldForDuration
  | CM_CoolAndHoldUntilManualStop
  | CM_other u8

section \<open>Control context\<close>

datatype ControlSensorRole = CSR_Air | CSR_Product | CSR_other u8

record ControlRequestContext =
  ctx_processTransitionSequence :: u32
  ctx_runRevision :: u32
  ctx_controlSensorRole :: ControlSensorRole

datatype CommittedControlContextTransition =
    CCT_TargetContextChange
  | CCT_SensorRoleChange
  | CCT_ProductInserted
  | CCT_CoolingTargetContextChange

section \<open>Run mode and control direction\<close>

datatype RunSensorMode = RSM_Product | RSM_Air | RSM_other u8

datatype AbstractControlDirection =
    Dir_Unknown
  | Dir_Heating
  | Dir_Cooling
  | Dir_Idle
  | Dir_other u8

section \<open>Program limits\<close>

definition kMaximumFermentationDurationMinutes :: u32 where
  "kMaximumFermentationDurationMinutes = 20160"

definition kMinimumQualificationDurationMinutes :: u32 where
  "kMinimumQualificationDurationMinutes = 1"

definition kMaximumQualificationDurationMinutes :: u32 where
  "kMaximumQualificationDurationMinutes = u32_max"

definition kMinimumTargetReachMinutes :: u32 where
  "kMinimumTargetReachMinutes = 1"

definition kMaximumTargetReachMinutes :: u32 where
  "kMaximumTargetReachMinutes = u32_max"

definition kMinimumProductWaitMinutes :: u32 where
  "kMinimumProductWaitMinutes = 1"

definition kMaximumProductWaitMinutes :: u32 where
  "kMaximumProductWaitMinutes = 1440"

definition kMinimumHoldDurationMinutes :: u32 where
  "kMinimumHoldDurationMinutes = 1"

definition kMaximumHoldDurationMinutes :: u32 where
  "kMaximumHoldDurationMinutes = u32_max"

lemmas program_limit_defs =
  kMaximumFermentationDurationMinutes_def
  kMinimumQualificationDurationMinutes_def kMaximumQualificationDurationMinutes_def
  kMinimumTargetReachMinutes_def kMaximumTargetReachMinutes_def
  kMinimumProductWaitMinutes_def kMaximumProductWaitMinutes_def
  kMinimumHoldDurationMinutes_def kMaximumHoldDurationMinutes_def

end
