(* ===== verification/ProcessStateMachine.thy ===== *)
theory ProcessStateMachine
  imports DomainTypes
begin

text \<open>
  The process state machine (\<open>process_state_machine.hpp/.cpp\<close>, \<open>process_signal_types.hpp\<close>):
  which phase a fermentation run is in, which transition a tick or a user command proposes, and
  the independent check that an apply step makes of a proposed transition.

  A decision is computed by \<open>decideProcessTransition\<close> from the runtime state, the snapshot of the
  run, the process signals, the request and the clock, and is committed by
  \<open>applyProcessTransition\<close>. The array of at most three messages of a decision is the list of its
  used entries; \<open>addMessage\<close> drops a message when three are used.
\<close>

section \<open>Data\<close>

datatype QualificationProgress =
    QP_Unavailable | QP_Invalid | QP_OutsideBand | QP_Grace | QP_InBand | QP_Complete
  | QP_other u8

record ProcessSignals =
  sig_qualificationProgress :: QualificationProgress
  sig_coolingTargetConditionValid :: bool
  sig_criticalFault :: bool

definition qualificationHasPositiveEvidence :: "ProcessSignals \<Rightarrow> bool" where
  "qualificationHasPositiveEvidence signals =
     (case sig_qualificationProgress signals of
        QP_Grace \<Rightarrow> True | QP_InBand \<Rightarrow> True | QP_Complete \<Rightarrow> True
      | QP_Unavailable \<Rightarrow> False | QP_Invalid \<Rightarrow> False | QP_OutsideBand \<Rightarrow> False
      | QP_other _ \<Rightarrow> False)"

definition qualificationIsComplete :: "ProcessSignals \<Rightarrow> bool" where
  "qualificationIsComplete signals \<longleftrightarrow> sig_qualificationProgress signals = QP_Complete"

definition qualificationIsInterrupted :: "ProcessSignals \<Rightarrow> bool" where
  "qualificationIsInterrupted signals =
     (case sig_qualificationProgress signals of
        QP_Unavailable \<Rightarrow> True | QP_Invalid \<Rightarrow> True | QP_OutsideBand \<Rightarrow> True
      | QP_Grace \<Rightarrow> False | QP_InBand \<Rightarrow> False | QP_Complete \<Rightarrow> False
      | QP_other _ \<Rightarrow> True)"

datatype ProcessState =
    PS_Boot | PS_SafeBoot | PS_Standby | PS_Preheating | PS_WaitingForProduct
  | PS_ReachingTarget | PS_QualifyingTarget | PS_Fermenting | PS_Cooling | PS_CoolHolding
  | PS_ManualHolding | PS_Completed | PS_RecoveryEvaluation | PS_Fault | PS_ServiceMode
  | PS_other u8

datatype ProcessKind = PK_Timed | PK_ManualHolding | PK_other u8

record ProcessRunSnapshot =
  snap_kind :: ProcessKind
  snap_preheatEnabled :: bool
  snap_completionMode :: CompletionMode
  snap_qualificationDurationMinutes :: u32
  snap_maximumTargetReachMinutes :: u32
  snap_maximumProductWaitMinutes :: "u32 option"
  snap_fermentationDurationMinutes :: "u32 option"
  snap_holdDurationMinutes :: "u32 option"

record ProcessRuntimeState =
  rt_state :: ProcessState
  rt_stateEnteredAtMillis :: u64
  rt_targetReachStartedAtMillis :: u64
  rt_qualificationValidSinceMillis :: "u64 option"
  rt_targetReachWarningIssued :: bool
  rt_transitionSequence :: u32

definition initialProcessRuntimeState :: ProcessRuntimeState where
  "initialProcessRuntimeState =
     \<lparr>rt_state = PS_Boot, rt_stateEnteredAtMillis = 0, rt_targetReachStartedAtMillis = 0,
      rt_qualificationValidSinceMillis = None, rt_targetReachWarningIssued = False,
      rt_transitionSequence = 0\<rparr>"

datatype ProcessEvent =
    PE_None | PE_StartRun | PE_ProductInsertedConfirmed | PE_TargetChanged | PE_Abort
  | PE_FinishHoldConfirmed | PE_AcknowledgeCompletion | PE_EnterServiceMode
  | PE_ExitServiceMode | PE_BootReady | PE_BootSafe | PE_BootRestoreCompleted
  | PE_BootRecoverRun | PE_RecoveryResume | PE_RecoveryReject

record TransitionRequest =
  req_event :: ProcessEvent
  req_recoveredState :: "ProcessRuntimeState option"

datatype DecisionStatus =
    DS_Proposed | DS_NoTransition | DS_Rejected | DS_InvalidInput | DS_TimeWentBackwards

datatype TransitionReason =
    TR_None | TR_BootCompleted | TR_SafeBootRequired | TR_CompletedRunRestored
  | TR_RecoveryRequired | TR_RunStarted | TR_QualificationTrackingStarted
  | TR_QualificationReset | TR_PreheatQualified | TR_ProductInserted
  | TR_TargetChangedReevaluation | TR_ProductWaitExpired | TR_TargetReachTimeExceeded
  | TR_TargetQualified | TR_FermentationCompleted | TR_CoolingTargetReached
  | TR_HoldDurationCompleted | TR_HoldFinishedByUser | TR_RunAborted
  | TR_CompletionAcknowledged | TR_CriticalFault | TR_ServiceModeEntered
  | TR_ServiceModeExited | TR_RecoveryResumed | TR_RecoveryRejected
  | TR_RecoveryReentryRequired | TR_RecoveryEndedByExpiredWait

datatype ProcessMessage =
    PM_ProductInsertionRequested | PM_TargetReachTimeExceeded | PM_RunCompleted
  | PM_RunAborted | PM_FaultEntered

definition kMaximumTransitionMessages :: nat where
  "kMaximumTransitionMessages = 3"

record TransitionDecision =
  dec_status :: DecisionStatus
  dec_before :: ProcessRuntimeState
  dec_after :: ProcessRuntimeState
  dec_reason :: TransitionReason
  dec_monotonicMillis :: u64
  dec_messages :: "ProcessMessage list"
  dec_committedControlContextTransition :: "CommittedControlContextTransition option"

definition proposed :: "TransitionDecision \<Rightarrow> bool" where
  "proposed decision \<longleftrightarrow> dec_status decision = DS_Proposed"

record PriorBootPhaseElapsed =
  prior_lowerBoundSeconds :: u32
  prior_upperBoundSeconds :: "u32 option"

definition noPriorBootPhaseElapsed :: PriorBootPhaseElapsed where
  "noPriorBootPhaseElapsed = \<lparr>prior_lowerBoundSeconds = 0, prior_upperBoundSeconds = None\<rparr>"

section \<open>Predicates on states and times\<close>

definition elapsedWithPrior :: "u64 \<Rightarrow> u64 \<Rightarrow> u32 \<Rightarrow> u32 \<Rightarrow> bool" where
  "elapsedWithPrior now startedAt durationMinutes priorSeconds \<longleftrightarrow>
     ucast durationMinutes * 60 \<le> (now - startedAt) div 1000 + ucast priorSeconds"

definition kMillisecondsPerMinute :: u64 where
  "kMillisecondsPerMinute = 60000"

definition validProcessState :: "ProcessState \<Rightarrow> bool" where
  "validProcessState state = (case state of PS_other _ \<Rightarrow> False | _ \<Rightarrow> True)"

definition validProcessKind :: "ProcessKind \<Rightarrow> bool" where
  "validProcessKind kind = (case kind of PK_other _ \<Rightarrow> False | _ \<Rightarrow> True)"

definition validCompletionModeForStateMachine :: "CompletionMode \<Rightarrow> bool" where
  "validCompletionModeForStateMachine mode = (case mode of CM_other _ \<Rightarrow> False | _ \<Rightarrow> True)"

definition inRange :: "u32 \<Rightarrow> u32 \<Rightarrow> u32 \<Rightarrow> bool" where
  "inRange value minimum maximum \<longleftrightarrow> minimum \<le> value \<and> value \<le> maximum"

definition minutesToMillis :: "u32 \<Rightarrow> u64" where
  "minutesToMillis minutes = ucast minutes * kMillisecondsPerMinute"

definition elapsed :: "u64 \<Rightarrow> u64 \<Rightarrow> u32 \<Rightarrow> bool" where
  "elapsed now startedAt durationMinutes \<longleftrightarrow> minutesToMillis durationMinutes \<le> now - startedAt"

definition stateHasTargetReachTimer :: "ProcessState \<Rightarrow> bool" where
  "stateHasTargetReachTimer state \<longleftrightarrow>
     state = PS_ReachingTarget \<or> state = PS_QualifyingTarget"

definition stateCanAbort :: "ProcessState \<Rightarrow> bool" where
  "stateCanAbort state =
     (case state of
        PS_Preheating \<Rightarrow> True | PS_WaitingForProduct \<Rightarrow> True | PS_ReachingTarget \<Rightarrow> True
      | PS_QualifyingTarget \<Rightarrow> True | PS_Fermenting \<Rightarrow> True | PS_Cooling \<Rightarrow> True
      | PS_CoolHolding \<Rightarrow> True | PS_ManualHolding \<Rightarrow> True
      | _ \<Rightarrow> False)"

definition stateCanEnterFault :: "ProcessState \<Rightarrow> bool" where
  "stateCanEnterFault state \<longleftrightarrow> state \<noteq> PS_SafeBoot \<and> state \<noteq> PS_Fault"

definition validRecoveryTarget :: "ProcessState \<Rightarrow> bool" where
  "validRecoveryTarget state =
     (case state of
        PS_Preheating \<Rightarrow> True | PS_WaitingForProduct \<Rightarrow> True | PS_ReachingTarget \<Rightarrow> True
      | PS_QualifyingTarget \<Rightarrow> True | PS_Fermenting \<Rightarrow> True | PS_Cooling \<Rightarrow> True
      | PS_CoolHolding \<Rightarrow> True | PS_ManualHolding \<Rightarrow> True
      | _ \<Rightarrow> False)"

definition stateUsesRunSnapshot :: "ProcessState \<Rightarrow> bool" where
  "stateUsesRunSnapshot state =
     (case state of
        PS_Preheating \<Rightarrow> True | PS_WaitingForProduct \<Rightarrow> True | PS_ReachingTarget \<Rightarrow> True
      | PS_QualifyingTarget \<Rightarrow> True | PS_Fermenting \<Rightarrow> True | PS_Cooling \<Rightarrow> True
      | PS_CoolHolding \<Rightarrow> True | PS_ManualHolding \<Rightarrow> True
      | _ \<Rightarrow> False)"

definition stateMatchesRunSnapshot :: "ProcessState \<Rightarrow> ProcessRunSnapshot \<Rightarrow> bool" where
  "stateMatchesRunSnapshot state snapshot =
     (case state of
        PS_Preheating \<Rightarrow> snap_preheatEnabled snapshot
      | PS_WaitingForProduct \<Rightarrow>
          snap_preheatEnabled snapshot \<and> snap_maximumProductWaitMinutes snapshot \<noteq> None
      | PS_ReachingTarget \<Rightarrow> True
      | PS_QualifyingTarget \<Rightarrow> True
      | PS_Fermenting \<Rightarrow>
          snap_kind snapshot = PK_Timed \<and> snap_fermentationDurationMinutes snapshot \<noteq> None
      | PS_Cooling \<Rightarrow>
          snap_kind snapshot = PK_Timed \<and>
          snap_completionMode snapshot \<noteq> CM_FinishWithoutCooling
      | PS_CoolHolding \<Rightarrow>
          snap_kind snapshot = PK_Timed \<and>
          (snap_completionMode snapshot = CM_CoolAndHoldForDuration \<or>
           snap_completionMode snapshot = CM_CoolAndHoldUntilManualStop)
      | PS_ManualHolding \<Rightarrow> snap_kind snapshot = PK_ManualHolding
      | PS_other _ \<Rightarrow> False
      | _ \<Rightarrow> True)"

definition validateProcessRunSnapshot :: "ProcessRunSnapshot \<Rightarrow> bool" where
  "validateProcessRunSnapshot snapshot =
     (if \<not> validProcessKind (snap_kind snapshot) \<or>
         \<not> validCompletionModeForStateMachine (snap_completionMode snapshot) \<or>
         \<not> inRange (snap_qualificationDurationMinutes snapshot)
             kMinimumQualificationDurationMinutes kMaximumQualificationDurationMinutes \<or>
         \<not> inRange (snap_maximumTargetReachMinutes snapshot)
             kMinimumTargetReachMinutes kMaximumTargetReachMinutes
      then False
      else if snap_preheatEnabled snapshot \<noteq> (snap_maximumProductWaitMinutes snapshot \<noteq> None)
      then False
      else if (case snap_maximumProductWaitMinutes snapshot of
                 None \<Rightarrow> False
               | Some m \<Rightarrow> \<not> inRange m kMinimumProductWaitMinutes kMaximumProductWaitMinutes)
      then False
      else if (if snap_kind snapshot = PK_Timed
               then (case snap_fermentationDurationMinutes snapshot of
                       None \<Rightarrow> True
                     | Some m \<Rightarrow> m > kMaximumFermentationDurationMinutes)
               else snap_fermentationDurationMinutes snapshot \<noteq> None \<or>
                    snap_completionMode snapshot \<noteq> CM_FinishWithoutCooling)
      then False
      else if (snap_completionMode snapshot = CM_CoolAndHoldForDuration)
                \<noteq> (snap_holdDurationMinutes snapshot \<noteq> None)
      then False
      else (case snap_holdDurationMinutes snapshot of
              None \<Rightarrow> True
            | Some m \<Rightarrow> inRange m kMinimumHoldDurationMinutes kMaximumHoldDurationMinutes))"

definition equalProcessRunSnapshot ::
    "ProcessRunSnapshot \<Rightarrow> ProcessRunSnapshot \<Rightarrow> bool" where
  "equalProcessRunSnapshot left right \<longleftrightarrow>
     snap_kind left = snap_kind right \<and>
     snap_preheatEnabled left = snap_preheatEnabled right \<and>
     snap_completionMode left = snap_completionMode right \<and>
     snap_qualificationDurationMinutes left = snap_qualificationDurationMinutes right \<and>
     snap_maximumTargetReachMinutes left = snap_maximumTargetReachMinutes right \<and>
     snap_maximumProductWaitMinutes left = snap_maximumProductWaitMinutes right \<and>
     snap_fermentationDurationMinutes left = snap_fermentationDurationMinutes right \<and>
     snap_holdDurationMinutes left = snap_holdDurationMinutes right"

definition equalProcessRuntimeState ::
    "ProcessRuntimeState \<Rightarrow> ProcessRuntimeState \<Rightarrow> bool" where
  "equalProcessRuntimeState left right \<longleftrightarrow>
     rt_state left = rt_state right \<and>
     rt_stateEnteredAtMillis left = rt_stateEnteredAtMillis right \<and>
     rt_targetReachStartedAtMillis left = rt_targetReachStartedAtMillis right \<and>
     rt_qualificationValidSinceMillis left = rt_qualificationValidSinceMillis right \<and>
     rt_targetReachWarningIssued left = rt_targetReachWarningIssued right \<and>
     rt_transitionSequence left = rt_transitionSequence right"

definition runtimeTimeIsValid :: "ProcessRuntimeState \<Rightarrow> u64 \<Rightarrow> bool" where
  "runtimeTimeIsValid state monotonicMillis =
     (if rt_stateEnteredAtMillis state > monotonicMillis then False
      else if stateHasTargetReachTimer (rt_state state) \<and>
              rt_targetReachStartedAtMillis state > monotonicMillis then False
      else (case rt_qualificationValidSinceMillis state of
              None \<Rightarrow> True
            | Some t \<Rightarrow> t \<le> monotonicMillis))"

definition runtimeShapeIsValid :: "ProcessRuntimeState \<Rightarrow> bool" where
  "runtimeShapeIsValid state =
     (if \<not> validProcessState (rt_state state) then False
      else if \<not> (rt_state state = PS_Preheating \<or> rt_state state = PS_QualifyingTarget) \<and>
              rt_qualificationValidSinceMillis state \<noteq> None then False
      else if \<not> stateHasTargetReachTimer (rt_state state)
      then rt_targetReachStartedAtMillis state = 0 \<and> \<not> rt_targetReachWarningIssued state
      else True)"

definition validateProcessRuntimeForCheckpoint ::
    "ProcessRuntimeState \<Rightarrow> ProcessRunSnapshot option \<Rightarrow> u64 \<Rightarrow> bool" where
  "validateProcessRuntimeForCheckpoint state runSnapshot checkpointMonotonicMillis =
     (if \<not> runtimeShapeIsValid state \<or>
         \<not> runtimeTimeIsValid state checkpointMonotonicMillis then False
      else if stateUsesRunSnapshot (rt_state state)
      then (case runSnapshot of
              None \<Rightarrow> False
            | Some snapshot \<Rightarrow> validateProcessRunSnapshot snapshot \<and>
                               stateMatchesRunSnapshot (rt_state state) snapshot)
      else (case runSnapshot of
              None \<Rightarrow> True
            | Some snapshot \<Rightarrow> validateProcessRunSnapshot snapshot))"

section \<open>Topology of a proposed transition\<close>

definition validBootTopology :: "TransitionDecision \<Rightarrow> bool" where
  "validBootTopology decision =
     (let from = rt_state (dec_before decision); to = rt_state (dec_after decision)
      in case dec_reason decision of
           TR_BootCompleted \<Rightarrow> from = PS_Boot \<and> to = PS_Standby
         | TR_SafeBootRequired \<Rightarrow> from = PS_Boot \<and> to = PS_SafeBoot
         | TR_CompletedRunRestored \<Rightarrow> from = PS_Boot \<and> to = PS_Completed
         | TR_RecoveryRequired \<Rightarrow> from = PS_Boot \<and> to = PS_RecoveryEvaluation
         | _ \<Rightarrow> False)"

definition validTargetChangedTopology :: "ProcessState \<Rightarrow> ProcessState \<Rightarrow> bool" where
  "validTargetChangedTopology from to =
     (case from of
        PS_Preheating \<Rightarrow> to = PS_Preheating
      | PS_ReachingTarget \<Rightarrow> to = PS_ReachingTarget
      | PS_QualifyingTarget \<Rightarrow> to = PS_ReachingTarget
      | _ \<Rightarrow> False)"

definition validPhaseTopology :: "TransitionDecision \<Rightarrow> bool" where
  "validPhaseTopology decision =
     (let from = rt_state (dec_before decision); to = rt_state (dec_after decision)
      in case dec_reason decision of
           TR_RunStarted \<Rightarrow>
             from = PS_Standby \<and> (to = PS_Preheating \<or> to = PS_ReachingTarget)
         | TR_QualificationTrackingStarted \<Rightarrow>
             (from = PS_Preheating \<and> to = PS_Preheating) \<or>
             (from = PS_ReachingTarget \<and> to = PS_QualifyingTarget)
         | TR_QualificationReset \<Rightarrow>
             (from = PS_Preheating \<and> to = PS_Preheating) \<or>
             (from = PS_QualifyingTarget \<and> to = PS_ReachingTarget)
         | TR_PreheatQualified \<Rightarrow> from = PS_Preheating \<and> to = PS_WaitingForProduct
         | TR_ProductInserted \<Rightarrow> from = PS_WaitingForProduct \<and> to = PS_ReachingTarget
         | TR_TargetChangedReevaluation \<Rightarrow> validTargetChangedTopology from to
         | TR_ProductWaitExpired \<Rightarrow> from = PS_WaitingForProduct \<and> to = PS_Standby
         | TR_TargetReachTimeExceeded \<Rightarrow>
             (from = PS_ReachingTarget \<and> to = PS_ReachingTarget) \<or>
             (from = PS_QualifyingTarget \<and> to = PS_QualifyingTarget)
         | TR_TargetQualified \<Rightarrow>
             from = PS_QualifyingTarget \<and> (to = PS_Fermenting \<or> to = PS_ManualHolding)
         | TR_FermentationCompleted \<Rightarrow>
             from = PS_Fermenting \<and> (to = PS_Cooling \<or> to = PS_Completed)
         | TR_CoolingTargetReached \<Rightarrow>
             from = PS_Cooling \<and> (to = PS_CoolHolding \<or> to = PS_Completed)
         | TR_HoldDurationCompleted \<Rightarrow> from = PS_CoolHolding \<and> to = PS_Completed
         | TR_HoldFinishedByUser \<Rightarrow>
             (from = PS_CoolHolding \<or> from = PS_ManualHolding) \<and> to = PS_Completed
         | _ \<Rightarrow> False)"

definition validControlTopology :: "TransitionDecision \<Rightarrow> bool" where
  "validControlTopology decision =
     (let from = rt_state (dec_before decision); to = rt_state (dec_after decision)
      in case dec_reason decision of
           TR_RunAborted \<Rightarrow> stateCanAbort from \<and> to = PS_Standby
         | TR_CompletionAcknowledged \<Rightarrow> from = PS_Completed \<and> to = PS_Standby
         | TR_CriticalFault \<Rightarrow> stateCanEnterFault from \<and> to = PS_Fault
         | TR_ServiceModeEntered \<Rightarrow> from = PS_Standby \<and> to = PS_ServiceMode
         | TR_ServiceModeExited \<Rightarrow> from = PS_ServiceMode \<and> to = PS_Standby
         | TR_RecoveryResumed \<Rightarrow> from = PS_RecoveryEvaluation \<and> validRecoveryTarget to
         | TR_RecoveryRejected \<Rightarrow>
             to = PS_Standby \<and> (from = PS_RecoveryEvaluation \<or> stateUsesRunSnapshot from)
         | TR_RecoveryReentryRequired \<Rightarrow>
             stateUsesRunSnapshot from \<and> to = PS_RecoveryEvaluation
         | TR_RecoveryEndedByExpiredWait \<Rightarrow>
             from = PS_RecoveryEvaluation \<and> to = PS_Standby
         | _ \<Rightarrow> False)"

definition validProposedTopology :: "TransitionDecision \<Rightarrow> bool" where
  "validProposedTopology decision \<longleftrightarrow>
     validBootTopology decision \<or> validPhaseTopology decision \<or> validControlTopology decision"

definition transitionMatchesRunSnapshot ::
    "TransitionDecision \<Rightarrow> ProcessRunSnapshot option \<Rightarrow> bool" where
  "transitionMatchesRunSnapshot decision runSnapshot =
     (let before = rt_state (dec_before decision); after = rt_state (dec_after decision);
          needsRunSnapshot = stateUsesRunSnapshot before \<or> stateUsesRunSnapshot after
      in if dec_reason decision = TR_CriticalFault then True
         else case runSnapshot of
           None \<Rightarrow> \<not> needsRunSnapshot
         | Some snapshot \<Rightarrow>
             if \<not> validateProcessRunSnapshot snapshot then False
             else if \<not> needsRunSnapshot then True
             else if (stateUsesRunSnapshot before \<and>
                        \<not> stateMatchesRunSnapshot before snapshot) \<or>
                     (stateUsesRunSnapshot after \<and>
                        \<not> stateMatchesRunSnapshot after snapshot) then False
             else case dec_reason decision of
                TR_RunStarted \<Rightarrow>
                  after = (if snap_preheatEnabled snapshot
                           then PS_Preheating else PS_ReachingTarget)
              | TR_TargetQualified \<Rightarrow>
                  after = (if snap_kind snapshot = PK_ManualHolding
                           then PS_ManualHolding else PS_Fermenting)
              | TR_FermentationCompleted \<Rightarrow>
                  after = (if snap_completionMode snapshot = CM_FinishWithoutCooling
                           then PS_Completed else PS_Cooling)
              | TR_CoolingTargetReached \<Rightarrow>
                  after = (if snap_completionMode snapshot = CM_CoolThenFinish
                           then PS_Completed else PS_CoolHolding)
              | TR_HoldDurationCompleted \<Rightarrow>
                  snap_completionMode snapshot = CM_CoolAndHoldForDuration
              | _ \<Rightarrow> True)"

section \<open>Constructing decisions\<close>

definition result ::
    "DecisionStatus \<Rightarrow> ProcessRuntimeState \<Rightarrow> u64 \<Rightarrow> TransitionDecision" where
  "result status current monotonicMillis =
     \<lparr>dec_status = status, dec_before = current, dec_after = current, dec_reason = TR_None,
      dec_monotonicMillis = monotonicMillis, dec_messages = [],
      dec_committedControlContextTransition = None\<rparr>"

definition addMessage ::
    "TransitionDecision \<Rightarrow> ProcessMessage \<Rightarrow> bool \<times> TransitionDecision" where
  "addMessage decision message =
     (if length (dec_messages decision) \<ge> kMaximumTransitionMessages then (False, decision)
      else (True, decision\<lparr>dec_messages := dec_messages decision @ [message]\<rparr>))"

definition propose ::
    "ProcessRuntimeState \<Rightarrow> ProcessState \<Rightarrow> TransitionReason \<Rightarrow> u64 \<Rightarrow> TransitionDecision"
  where
  "propose current nextState reason monotonicMillis =
     (if rt_transitionSequence current = u32_max
      then result DS_InvalidInput current monotonicMillis
      else
        let after1 = current\<lparr>rt_state := nextState,
                             rt_stateEnteredAtMillis := monotonicMillis,
                             rt_qualificationValidSinceMillis := None\<rparr>;
            after2 = (if \<not> stateHasTargetReachTimer nextState
                      then after1\<lparr>rt_targetReachStartedAtMillis := 0,
                                  rt_targetReachWarningIssued := False\<rparr>
                      else after1)
        in (result DS_Proposed current monotonicMillis)
             \<lparr>dec_reason := reason,
              dec_after := after2\<lparr>rt_transitionSequence := rt_transitionSequence current + 1\<rparr>\<rparr>)"

definition proposePhaseDataUpdate ::
    "ProcessRuntimeState \<Rightarrow> TransitionReason \<Rightarrow> u64 \<Rightarrow> TransitionDecision" where
  "proposePhaseDataUpdate current reason monotonicMillis =
     (result DS_Proposed current monotonicMillis)
       \<lparr>dec_reason := reason,
        dec_after := current\<lparr>rt_transitionSequence := rt_transitionSequence current + 1\<rparr>\<rparr>"

definition initializeTargetReach :: "TransitionDecision \<Rightarrow> u64 \<Rightarrow> TransitionDecision" where
  "initializeTargetReach decision monotonicMillis =
     decision\<lparr>dec_after := (dec_after decision)
                \<lparr>rt_targetReachStartedAtMillis := monotonicMillis,
                 rt_targetReachWarningIssued := False\<rparr>\<rparr>"

definition targetReachWarningDue ::
    "ProcessRuntimeState \<Rightarrow> ProcessRunSnapshot \<Rightarrow> u64 \<Rightarrow> bool" where
  "targetReachWarningDue current snapshot monotonicMillis \<longleftrightarrow>
     stateHasTargetReachTimer (rt_state current) \<and>
     \<not> rt_targetReachWarningIssued current \<and>
     elapsed monotonicMillis (rt_targetReachStartedAtMillis current)
       (snap_maximumTargetReachMinutes snapshot)"

definition includeTargetReachWarning :: "TransitionDecision \<Rightarrow> TransitionDecision" where
  "includeTargetReachWarning decision =
     (let decision' = (if stateHasTargetReachTimer (rt_state (dec_after decision))
                       then decision\<lparr>dec_after := (dec_after decision)
                                       \<lparr>rt_targetReachWarningIssued := True\<rparr>\<rparr>
                       else decision)
      in snd (addMessage decision' PM_TargetReachTimeExceeded))"

definition rejected :: "ProcessRuntimeState \<Rightarrow> u64 \<Rightarrow> TransitionDecision" where
  "rejected current monotonicMillis = result DS_Rejected current monotonicMillis"

definition completeTimedRun ::
    "ProcessRuntimeState \<Rightarrow> ProcessRunSnapshot \<Rightarrow> u64 \<Rightarrow> TransitionDecision" where
  "completeTimedRun current snapshot monotonicMillis =
     (if snap_completionMode snapshot = CM_FinishWithoutCooling
      then snd (addMessage (propose current PS_Completed TR_FermentationCompleted monotonicMillis)
                  PM_RunCompleted)
      else (propose current PS_Cooling TR_FermentationCompleted monotonicMillis)
             \<lparr>dec_committedControlContextTransition := Some CCT_CoolingTargetContextChange\<rparr>)"

definition completeHoldDuration ::
    "ProcessRuntimeState \<Rightarrow> u64 \<Rightarrow> TransitionDecision" where
  "completeHoldDuration current monotonicMillis =
     snd (addMessage (propose current PS_Completed TR_HoldDurationCompleted monotonicMillis)
            PM_RunCompleted)"

section \<open>Automatic decisions\<close>

definition decideQualification ::
    "ProcessRuntimeState \<Rightarrow> ProcessRunSnapshot \<Rightarrow> ProcessSignals \<Rightarrow> u64 \<Rightarrow> bool
       \<Rightarrow> TransitionDecision" where
  "decideQualification current snapshot signals monotonicMillis preheating =
     (if qualificationIsInterrupted signals
      then
        (if rt_qualificationValidSinceMillis current = None
         then result DS_NoTransition current monotonicMillis
         else if preheating
         then (let decision =
                     proposePhaseDataUpdate current TR_QualificationReset monotonicMillis
               in decision\<lparr>dec_after := (dec_after decision)
                               \<lparr>rt_qualificationValidSinceMillis := None\<rparr>\<rparr>)
         else (let decision =
                     propose current PS_ReachingTarget TR_QualificationReset monotonicMillis
               in decision\<lparr>dec_after := (dec_after decision)
                    \<lparr>rt_targetReachStartedAtMillis := rt_targetReachStartedAtMillis current,
                     rt_targetReachWarningIssued := rt_targetReachWarningIssued current\<rparr>\<rparr>))
      else if sig_qualificationProgress signals = QP_Complete \<and> preheating
      then snd (addMessage
                  (propose current PS_WaitingForProduct TR_PreheatQualified monotonicMillis)
                  PM_ProductInsertionRequested)
      else if sig_qualificationProgress signals = QP_Complete
      then propose current
             (if snap_kind snapshot = PK_ManualHolding then PS_ManualHolding else PS_Fermenting)
             TR_TargetQualified monotonicMillis
      else if rt_qualificationValidSinceMillis current = None
      then (let decision =
                  proposePhaseDataUpdate current TR_QualificationTrackingStarted monotonicMillis
            in decision\<lparr>dec_after := (dec_after decision)
                            \<lparr>rt_qualificationValidSinceMillis := Some monotonicMillis\<rparr>\<rparr>)
      else if \<not> qualificationIsComplete signals
      then result DS_NoTransition current monotonicMillis
      else result DS_NoTransition current monotonicMillis)"

definition decideWaitingForProduct ::
    "ProcessRuntimeState \<Rightarrow> ProcessRunSnapshot \<Rightarrow> u64 \<Rightarrow> PriorBootPhaseElapsed
       \<Rightarrow> TransitionDecision" where
  "decideWaitingForProduct current snapshot monotonicMillis priorElapsed =
     (if (case snap_maximumProductWaitMinutes snapshot of
            None \<Rightarrow> True
          | Some m \<Rightarrow> \<not> elapsedWithPrior monotonicMillis (rt_stateEnteredAtMillis current) m
                        (prior_lowerBoundSeconds priorElapsed))
      then result DS_NoTransition current monotonicMillis
      else snd (addMessage (propose current PS_Standby TR_ProductWaitExpired monotonicMillis)
                  PM_RunAborted))"

definition decideReachingTarget ::
    "ProcessRuntimeState \<Rightarrow> ProcessRunSnapshot \<Rightarrow> ProcessSignals \<Rightarrow> u64 \<Rightarrow> TransitionDecision"
  where
  "decideReachingTarget current snapshot signals monotonicMillis =
     (if qualificationHasPositiveEvidence signals
      then (let d1 = propose current PS_QualifyingTarget TR_QualificationTrackingStarted
                       monotonicMillis;
                d2 = d1\<lparr>dec_after := (dec_after d1)
                       \<lparr>rt_targetReachStartedAtMillis := rt_targetReachStartedAtMillis current,
                        rt_targetReachWarningIssued := rt_targetReachWarningIssued current,
                        rt_qualificationValidSinceMillis := Some monotonicMillis\<rparr>\<rparr>
            in if targetReachWarningDue current snapshot monotonicMillis
               then includeTargetReachWarning d2 else d2)
      else if targetReachWarningDue current snapshot monotonicMillis
      then includeTargetReachWarning
             (proposePhaseDataUpdate current TR_TargetReachTimeExceeded monotonicMillis)
      else result DS_NoTransition current monotonicMillis)"

definition decideQualifyingTarget ::
    "ProcessRuntimeState \<Rightarrow> ProcessRunSnapshot \<Rightarrow> ProcessSignals \<Rightarrow> u64 \<Rightarrow> TransitionDecision"
  where
  "decideQualifyingTarget current snapshot signals monotonicMillis =
     (let decision = decideQualification current snapshot signals monotonicMillis False
      in if targetReachWarningDue current snapshot monotonicMillis
         then includeTargetReachWarning
                (if \<not> proposed decision
                 then proposePhaseDataUpdate current TR_TargetReachTimeExceeded monotonicMillis
                 else decision)
         else decision)"

definition decideFermenting ::
    "ProcessRuntimeState \<Rightarrow> ProcessRunSnapshot \<Rightarrow> u64 \<Rightarrow> PriorBootPhaseElapsed
       \<Rightarrow> TransitionDecision" where
  "decideFermenting current snapshot monotonicMillis priorElapsed =
     (if (case snap_fermentationDurationMinutes snapshot of
            None \<Rightarrow> True
          | Some m \<Rightarrow> \<not> elapsedWithPrior monotonicMillis (rt_stateEnteredAtMillis current) m
                        (prior_lowerBoundSeconds priorElapsed))
      then result DS_NoTransition current monotonicMillis
      else completeTimedRun current snapshot monotonicMillis)"

definition decideCooling ::
    "ProcessRuntimeState \<Rightarrow> ProcessRunSnapshot \<Rightarrow> ProcessSignals \<Rightarrow> u64 \<Rightarrow> TransitionDecision"
  where
  "decideCooling current snapshot signals monotonicMillis =
     (if \<not> sig_coolingTargetConditionValid signals
      then result DS_NoTransition current monotonicMillis
      else if snap_completionMode snapshot = CM_CoolThenFinish
      then snd (addMessage (propose current PS_Completed TR_CoolingTargetReached monotonicMillis)
                  PM_RunCompleted)
      else propose current PS_CoolHolding TR_CoolingTargetReached monotonicMillis)"

definition decideCoolHolding ::
    "ProcessRuntimeState \<Rightarrow> ProcessRunSnapshot \<Rightarrow> u64 \<Rightarrow> PriorBootPhaseElapsed
       \<Rightarrow> TransitionDecision" where
  "decideCoolHolding current snapshot monotonicMillis priorElapsed =
     (if snap_completionMode snapshot \<noteq> CM_CoolAndHoldForDuration \<or>
         (case snap_holdDurationMinutes snapshot of
            None \<Rightarrow> True
          | Some m \<Rightarrow> \<not> elapsedWithPrior monotonicMillis (rt_stateEnteredAtMillis current) m
                        (prior_lowerBoundSeconds priorElapsed))
      then result DS_NoTransition current monotonicMillis
      else completeHoldDuration current monotonicMillis)"

text \<open>
  A state that uses the run snapshot has one when its handler is reached: the first test returns
  otherwise, so that \<open>the snapshot\<close> below is the code's dereference of a checked pointer.
\<close>

definition decideAutomatic ::
    "ProcessRuntimeState \<Rightarrow> ProcessRunSnapshot option \<Rightarrow> ProcessSignals \<Rightarrow> u64
       \<Rightarrow> PriorBootPhaseElapsed \<Rightarrow> TransitionDecision" where
  "decideAutomatic current snapshot signals monotonicMillis priorElapsed =
     (if snapshot = None \<and> stateUsesRunSnapshot (rt_state current)
      then result DS_InvalidInput current monotonicMillis
      else case rt_state current of
        PS_Preheating \<Rightarrow>
          decideQualification current (the snapshot) signals monotonicMillis True
      | PS_WaitingForProduct \<Rightarrow>
          decideWaitingForProduct current (the snapshot) monotonicMillis priorElapsed
      | PS_ReachingTarget \<Rightarrow>
          decideReachingTarget current (the snapshot) signals monotonicMillis
      | PS_QualifyingTarget \<Rightarrow>
          decideQualifyingTarget current (the snapshot) signals monotonicMillis
      | PS_Fermenting \<Rightarrow>
          decideFermenting current (the snapshot) monotonicMillis priorElapsed
      | PS_Cooling \<Rightarrow>
          decideCooling current (the snapshot) signals monotonicMillis
      | PS_CoolHolding \<Rightarrow>
          decideCoolHolding current (the snapshot) monotonicMillis priorElapsed
      | PS_other _ \<Rightarrow> result DS_InvalidInput current monotonicMillis
      | _ \<Rightarrow> result DS_NoTransition current monotonicMillis)"

section \<open>Decisions on explicit events\<close>

definition decideBootEvent ::
    "ProcessRuntimeState \<Rightarrow> ProcessEvent \<Rightarrow> u64 \<Rightarrow> TransitionDecision" where
  "decideBootEvent current event monotonicMillis =
     (case event of
        PE_BootReady \<Rightarrow> propose current PS_Standby TR_BootCompleted monotonicMillis
      | PE_BootSafe \<Rightarrow> propose current PS_SafeBoot TR_SafeBootRequired monotonicMillis
      | PE_BootRestoreCompleted \<Rightarrow>
          propose current PS_Completed TR_CompletedRunRestored monotonicMillis
      | PE_BootRecoverRun \<Rightarrow>
          propose current PS_RecoveryEvaluation TR_RecoveryRequired monotonicMillis
      | _ \<Rightarrow> rejected current monotonicMillis)"

definition decideStandbyEvent ::
    "ProcessRuntimeState \<Rightarrow> ProcessRunSnapshot option \<Rightarrow> ProcessEvent \<Rightarrow> u64
       \<Rightarrow> TransitionDecision" where
  "decideStandbyEvent current snapshot event monotonicMillis =
     (if event = PE_EnterServiceMode
      then propose current PS_ServiceMode TR_ServiceModeEntered monotonicMillis
      else if event \<noteq> PE_StartRun \<or> snapshot = None
      then rejected current monotonicMillis
      else
        let nextState = (if snap_preheatEnabled (the snapshot)
                         then PS_Preheating else PS_ReachingTarget);
            decision = propose current nextState TR_RunStarted monotonicMillis
        in if nextState = PS_ReachingTarget
           then initializeTargetReach decision monotonicMillis else decision)"

definition decideHoldEvent ::
    "ProcessRuntimeState \<Rightarrow> ProcessEvent \<Rightarrow> u64 \<Rightarrow> TransitionDecision" where
  "decideHoldEvent current event monotonicMillis =
     (if event \<noteq> PE_FinishHoldConfirmed then rejected current monotonicMillis
      else snd (addMessage (propose current PS_Completed TR_HoldFinishedByUser monotonicMillis)
                  PM_RunCompleted))"

definition decideRecoveryEvent ::
    "ProcessRuntimeState \<Rightarrow> ProcessRunSnapshot option \<Rightarrow> TransitionRequest \<Rightarrow> u64
       \<Rightarrow> PriorBootPhaseElapsed \<Rightarrow> TransitionDecision" where
  "decideRecoveryEvent current snapshot request monotonicMillis priorElapsed =
     (if req_event request = PE_RecoveryReject
      then propose current PS_Standby TR_RecoveryRejected monotonicMillis
      else if req_event request \<noteq> PE_RecoveryResume \<or> req_recoveredState request = None \<or>
              snapshot = None
      then rejected current monotonicMillis
      else
        let recovered = the (req_recoveredState request); snap = the snapshot
        in if \<not> validRecoveryTarget (rt_state recovered) \<or>
              \<not> runtimeShapeIsValid recovered \<or>
              \<not> runtimeTimeIsValid recovered monotonicMillis \<or>
              \<not> stateMatchesRunSnapshot (rt_state recovered) snap \<or>
              (rt_state recovered = PS_WaitingForProduct \<and>
               (case snap_maximumProductWaitMinutes snap of
                  None \<Rightarrow> False
                | Some m \<Rightarrow> elapsedWithPrior monotonicMillis (rt_stateEnteredAtMillis recovered)
                              m (prior_lowerBoundSeconds priorElapsed)))
           then rejected current monotonicMillis
           else
             let after = (if rt_state recovered = PS_Preheating
                          then recovered\<lparr>rt_qualificationValidSinceMillis := None\<rparr>
                          else if rt_state recovered = PS_QualifyingTarget
                          then recovered\<lparr>rt_state := PS_ReachingTarget,
                                         rt_stateEnteredAtMillis := monotonicMillis,
                                         rt_qualificationValidSinceMillis := None\<rparr>
                          else recovered)
             in (result DS_Proposed current monotonicMillis)
                  \<lparr>dec_reason := TR_RecoveryResumed,
                   dec_after := after\<lparr>rt_transitionSequence :=
                                        rt_transitionSequence current + 1\<rparr>\<rparr>)"

definition decideExplicitEvent ::
    "ProcessRuntimeState \<Rightarrow> ProcessRunSnapshot option \<Rightarrow> TransitionRequest \<Rightarrow> u64
       \<Rightarrow> PriorBootPhaseElapsed \<Rightarrow> TransitionDecision" where
  "decideExplicitEvent current snapshot request monotonicMillis priorElapsed =
     (if req_event request = PE_Abort
      then
        (if \<not> stateCanAbort (rt_state current) then rejected current monotonicMillis
         else snd (addMessage (propose current PS_Standby TR_RunAborted monotonicMillis)
                     PM_RunAborted))
      else if req_event request = PE_TargetChanged
      then
        (if rt_state current = PS_Preheating
         then (let decision = propose current PS_Preheating TR_TargetChangedReevaluation
                                monotonicMillis
               in decision\<lparr>dec_after := (dec_after decision)
                               \<lparr>rt_qualificationValidSinceMillis := None\<rparr>,
                           dec_committedControlContextTransition :=
                             Some CCT_TargetContextChange\<rparr>)
         else if rt_state current = PS_ReachingTarget \<or> rt_state current = PS_QualifyingTarget
         then (initializeTargetReach
                 (propose current PS_ReachingTarget TR_TargetChangedReevaluation
                    monotonicMillis) monotonicMillis)
                \<lparr>dec_committedControlContextTransition := Some CCT_TargetContextChange\<rparr>
         else rejected current monotonicMillis)
      else case rt_state current of
        PS_Boot \<Rightarrow> decideBootEvent current (req_event request) monotonicMillis
      | PS_Standby \<Rightarrow> decideStandbyEvent current snapshot (req_event request) monotonicMillis
      | PS_WaitingForProduct \<Rightarrow>
          (if req_event request = PE_ProductInsertedConfirmed
           then initializeTargetReach
                  (propose current PS_ReachingTarget TR_ProductInserted monotonicMillis)
                  monotonicMillis
           else rejected current monotonicMillis)
      | PS_CoolHolding \<Rightarrow> decideHoldEvent current (req_event request) monotonicMillis
      | PS_ManualHolding \<Rightarrow> decideHoldEvent current (req_event request) monotonicMillis
      | PS_Completed \<Rightarrow>
          (if req_event request = PE_AcknowledgeCompletion
           then propose current PS_Standby TR_CompletionAcknowledged monotonicMillis
           else rejected current monotonicMillis)
      | PS_RecoveryEvaluation \<Rightarrow>
          decideRecoveryEvent current snapshot request monotonicMillis priorElapsed
      | PS_ServiceMode \<Rightarrow>
          (if req_event request = PE_ExitServiceMode
           then propose current PS_Standby TR_ServiceModeExited monotonicMillis
           else rejected current monotonicMillis)
      | _ \<Rightarrow> rejected current monotonicMillis)"

section \<open>The decision and its commit\<close>

definition decideProcessTransition ::
    "ProcessRuntimeState \<Rightarrow> ProcessRunSnapshot option \<Rightarrow> ProcessSignals \<Rightarrow> TransitionRequest
       \<Rightarrow> u64 \<Rightarrow> PriorBootPhaseElapsed \<Rightarrow> TransitionDecision" where
  "decideProcessTransition current runSnapshot signals request monotonicMillis priorElapsed =
     (if \<not> runtimeShapeIsValid current
      then result DS_InvalidInput current monotonicMillis
      else if \<not> runtimeTimeIsValid current monotonicMillis
      then result DS_TimeWentBackwards current monotonicMillis
      else if rt_transitionSequence current = u32_max
      then result DS_InvalidInput current monotonicMillis
      else if sig_criticalFault signals \<and> stateCanEnterFault (rt_state current)
      then snd (addMessage (propose current PS_Fault TR_CriticalFault monotonicMillis)
                  PM_FaultEntered)
      else if (case runSnapshot of
                 None \<Rightarrow> False | Some snapshot \<Rightarrow> \<not> validateProcessRunSnapshot snapshot)
      then result DS_InvalidInput current monotonicMillis
      else if stateUsesRunSnapshot (rt_state current) \<and> runSnapshot = None
      then result DS_InvalidInput current monotonicMillis
      else if stateUsesRunSnapshot (rt_state current) \<and>
              \<not> stateMatchesRunSnapshot (rt_state current) (the runSnapshot)
      then result DS_InvalidInput current monotonicMillis
      else if rt_state current = PS_WaitingForProduct \<and>
              (case snap_maximumProductWaitMinutes (the runSnapshot) of
                 None \<Rightarrow> False
               | Some m \<Rightarrow> elapsedWithPrior monotonicMillis (rt_stateEnteredAtMillis current) m
                             (prior_lowerBoundSeconds priorElapsed))
      then decideAutomatic current runSnapshot signals monotonicMillis priorElapsed
      else if req_event request \<noteq> PE_None
      then decideExplicitEvent current runSnapshot request monotonicMillis priorElapsed
      else decideAutomatic current runSnapshot signals monotonicMillis priorElapsed)"

text \<open>
  The commit: \<open>None\<close> is the code's \<open>false\<close> (the state keeps its value), \<open>Some s\<close> its \<open>true\<close>
  with the new state \<open>s\<close>.
\<close>

definition applyProcessTransition ::
    "ProcessRuntimeState \<Rightarrow> TransitionDecision \<Rightarrow> ProcessRunSnapshot option
       \<Rightarrow> ProcessRuntimeState option" where
  "applyProcessTransition current decision runSnapshot =
     (if \<not> proposed decision \<or>
         \<not> equalProcessRuntimeState current (dec_before decision) \<or>
         rt_transitionSequence (dec_before decision) = u32_max \<or>
         rt_transitionSequence (dec_after decision) \<noteq>
           rt_transitionSequence (dec_before decision) + 1 \<or>
         \<not> validProposedTopology decision \<or>
         \<not> transitionMatchesRunSnapshot decision runSnapshot \<or>
         \<not> runtimeShapeIsValid (dec_after decision) \<or>
         \<not> runtimeTimeIsValid (dec_after decision) (dec_monotonicMillis decision)
      then None
      else Some (dec_after decision))"

definition establishBootCompletedStandby ::
    "ProcessRuntimeState \<Rightarrow> u64 \<Rightarrow> ProcessRuntimeState option" where
  "establishBootCompletedStandby current monotonicMillis =
     (let decision = propose current PS_Standby TR_BootCompleted monotonicMillis
      in if proposed decision then applyProcessTransition current decision None else None)"

end
