(* ===== verification/ProcessProofs.thy ===== *)
theory ProcessProofs
  imports ProcessStateMachine
begin

text \<open>
  Lemmas of the process state machine: what each constructor of a decision leaves in its fields,
  that every decision a handler proposes passes every check of the commit
  (\<open>committable\<close>, handler by handler), and the invariant of the runtime state along a run.
\<close>

section \<open>Fields of constructed decisions\<close>

lemma result_sel [simp]:
  "dec_status (result st s now) = st"
  "dec_before (result st s now) = s"
  "dec_after (result st s now) = s"
  "dec_reason (result st s now) = TR_None"
  "dec_monotonicMillis (result st s now) = now"
  "dec_messages (result st s now) = []"
  "dec_committedControlContextTransition (result st s now) = None"
  by (simp_all add: result_def)

lemma addMessage_sel [simp]:
  "dec_status (snd (addMessage d m)) = dec_status d"
  "dec_before (snd (addMessage d m)) = dec_before d"
  "dec_after (snd (addMessage d m)) = dec_after d"
  "dec_reason (snd (addMessage d m)) = dec_reason d"
  "dec_monotonicMillis (snd (addMessage d m)) = dec_monotonicMillis d"
  "dec_committedControlContextTransition (snd (addMessage d m)) =
     dec_committedControlContextTransition d"
  by (simp_all add: addMessage_def)

lemma proposed_result [simp]: "proposed (result st s now) \<longleftrightarrow> st = DS_Proposed"
  by (simp add: proposed_def)

lemma proposed_addMessage [simp]: "proposed (snd (addMessage d m)) = proposed d"
  by (simp add: proposed_def)

lemma proposed_update [simp]:
  "proposed (d\<lparr>dec_after := x\<rparr>) = proposed d"
  "proposed (d\<lparr>dec_committedControlContextTransition := c\<rparr>) = proposed d"
  "proposed (d\<lparr>dec_reason := r\<rparr>) = proposed d"
  "proposed (d\<lparr>dec_messages := ms\<rparr>) = proposed d"
  by (simp_all add: proposed_def)

lemma not_proposed_rejected [simp]: "\<not> proposed (rejected s now)"
  by (simp add: rejected_def)

lemma propose_sel [simp]:
  assumes "rt_transitionSequence s \<noteq> u32_max"
  shows
    "proposed (propose s n r now)"
    "dec_before (propose s n r now) = s"
    "dec_reason (propose s n r now) = r"
    "dec_monotonicMillis (propose s n r now) = now"
    "dec_messages (propose s n r now) = []"
    "rt_state (dec_after (propose s n r now)) = n"
    "rt_stateEnteredAtMillis (dec_after (propose s n r now)) = now"
    "rt_qualificationValidSinceMillis (dec_after (propose s n r now)) = None"
    "rt_transitionSequence (dec_after (propose s n r now)) = rt_transitionSequence s + 1"
    "rt_targetReachStartedAtMillis (dec_after (propose s n r now)) =
       (if stateHasTargetReachTimer n then rt_targetReachStartedAtMillis s else 0)"
    "rt_targetReachWarningIssued (dec_after (propose s n r now)) =
       (if stateHasTargetReachTimer n then rt_targetReachWarningIssued s else False)"
  using assms by (simp_all add: propose_def proposed_def Let_def)

lemma propose_status [simp]:
  "rt_transitionSequence s \<noteq> u32_max \<Longrightarrow> dec_status (propose s n r now) = DS_Proposed"
  by (simp add: propose_def Let_def)

lemma proposePhaseDataUpdate_sel [simp]:
  "proposed (proposePhaseDataUpdate s r now)"
  "dec_status (proposePhaseDataUpdate s r now) = DS_Proposed"
  "dec_before (proposePhaseDataUpdate s r now) = s"
  "dec_reason (proposePhaseDataUpdate s r now) = r"
  "dec_monotonicMillis (proposePhaseDataUpdate s r now) = now"
  "dec_messages (proposePhaseDataUpdate s r now) = []"
  "dec_after (proposePhaseDataUpdate s r now) =
     s\<lparr>rt_transitionSequence := rt_transitionSequence s + 1\<rparr>"
  by (simp_all add: proposePhaseDataUpdate_def proposed_def)

lemma initializeTargetReach_sel [simp]:
  "dec_status (initializeTargetReach d now) = dec_status d"
  "dec_before (initializeTargetReach d now) = dec_before d"
  "dec_reason (initializeTargetReach d now) = dec_reason d"
  "dec_monotonicMillis (initializeTargetReach d now) = dec_monotonicMillis d"
  "proposed (initializeTargetReach d now) = proposed d"
  "dec_after (initializeTargetReach d now) =
     (dec_after d)\<lparr>rt_targetReachStartedAtMillis := now, rt_targetReachWarningIssued := False\<rparr>"
  by (simp_all add: initializeTargetReach_def proposed_def)

lemma includeTargetReachWarning_sel [simp]:
  "dec_status (includeTargetReachWarning d) = dec_status d"
  "dec_before (includeTargetReachWarning d) = dec_before d"
  "dec_reason (includeTargetReachWarning d) = dec_reason d"
  "dec_monotonicMillis (includeTargetReachWarning d) = dec_monotonicMillis d"
  "proposed (includeTargetReachWarning d) = proposed d"
  "dec_after (includeTargetReachWarning d) =
     (if stateHasTargetReachTimer (rt_state (dec_after d))
      then (dec_after d)\<lparr>rt_targetReachWarningIssued := True\<rparr> else dec_after d)"
  by (simp_all add: includeTargetReachWarning_def proposed_def Let_def)

lemma equalProcessRuntimeState_refl [simp]: "equalProcessRuntimeState s s"
  by (simp add: equalProcessRuntimeState_def)

lemma equalProcessRuntimeState_iff:
  "equalProcessRuntimeState s t \<longleftrightarrow> s = t" for s t :: ProcessRuntimeState
  by (cases s; cases t) (auto simp: equalProcessRuntimeState_def)

lemma equalProcessRunSnapshot_iff:
  "equalProcessRunSnapshot s t \<longleftrightarrow> s = t" for s t :: ProcessRunSnapshot
  by (cases s; cases t) (auto simp: equalProcessRunSnapshot_def)

section \<open>Shape and time of a state\<close>

lemmas state_class_defs =
  validProcessState_def stateHasTargetReachTimer_def stateUsesRunSnapshot_def
  stateCanAbort_def stateCanEnterFault_def validRecoveryTarget_def

text \<open>The phase predicates on each phase.\<close>

lemma state_class_simps [simp]:
  "\<not> stateUsesRunSnapshot PS_Boot"
  "\<not> stateUsesRunSnapshot PS_SafeBoot"
  "\<not> stateUsesRunSnapshot PS_Standby"
  "stateUsesRunSnapshot PS_Preheating"
  "stateUsesRunSnapshot PS_WaitingForProduct"
  "stateUsesRunSnapshot PS_ReachingTarget"
  "stateUsesRunSnapshot PS_QualifyingTarget"
  "stateUsesRunSnapshot PS_Fermenting"
  "stateUsesRunSnapshot PS_Cooling"
  "stateUsesRunSnapshot PS_CoolHolding"
  "stateUsesRunSnapshot PS_ManualHolding"
  "\<not> stateUsesRunSnapshot PS_Completed"
  "\<not> stateUsesRunSnapshot PS_RecoveryEvaluation"
  "\<not> stateUsesRunSnapshot PS_Fault"
  "\<not> stateUsesRunSnapshot PS_ServiceMode"
  "\<not> stateHasTargetReachTimer PS_Boot"
  "\<not> stateHasTargetReachTimer PS_SafeBoot"
  "\<not> stateHasTargetReachTimer PS_Standby"
  "\<not> stateHasTargetReachTimer PS_Preheating"
  "\<not> stateHasTargetReachTimer PS_WaitingForProduct"
  "stateHasTargetReachTimer PS_ReachingTarget"
  "stateHasTargetReachTimer PS_QualifyingTarget"
  "\<not> stateHasTargetReachTimer PS_Fermenting"
  "\<not> stateHasTargetReachTimer PS_Cooling"
  "\<not> stateHasTargetReachTimer PS_CoolHolding"
  "\<not> stateHasTargetReachTimer PS_ManualHolding"
  "\<not> stateHasTargetReachTimer PS_Completed"
  "\<not> stateHasTargetReachTimer PS_RecoveryEvaluation"
  "\<not> stateHasTargetReachTimer PS_Fault"
  "\<not> stateHasTargetReachTimer PS_ServiceMode"
  "validProcessState PS_Boot"
  "validProcessState PS_SafeBoot"
  "validProcessState PS_Standby"
  "validProcessState PS_Preheating"
  "validProcessState PS_WaitingForProduct"
  "validProcessState PS_ReachingTarget"
  "validProcessState PS_QualifyingTarget"
  "validProcessState PS_Fermenting"
  "validProcessState PS_Cooling"
  "validProcessState PS_CoolHolding"
  "validProcessState PS_ManualHolding"
  "validProcessState PS_Completed"
  "validProcessState PS_RecoveryEvaluation"
  "validProcessState PS_Fault"
  "validProcessState PS_ServiceMode"
  "\<not> stateCanAbort PS_Boot"
  "\<not> stateCanAbort PS_SafeBoot"
  "\<not> stateCanAbort PS_Standby"
  "stateCanAbort PS_Preheating"
  "stateCanAbort PS_WaitingForProduct"
  "stateCanAbort PS_ReachingTarget"
  "stateCanAbort PS_QualifyingTarget"
  "stateCanAbort PS_Fermenting"
  "stateCanAbort PS_Cooling"
  "stateCanAbort PS_CoolHolding"
  "stateCanAbort PS_ManualHolding"
  "\<not> stateCanAbort PS_Completed"
  "\<not> stateCanAbort PS_RecoveryEvaluation"
  "\<not> stateCanAbort PS_Fault"
  "\<not> stateCanAbort PS_ServiceMode"
  "\<not> validRecoveryTarget PS_Boot"
  "\<not> validRecoveryTarget PS_SafeBoot"
  "\<not> validRecoveryTarget PS_Standby"
  "validRecoveryTarget PS_Preheating"
  "validRecoveryTarget PS_WaitingForProduct"
  "validRecoveryTarget PS_ReachingTarget"
  "validRecoveryTarget PS_QualifyingTarget"
  "validRecoveryTarget PS_Fermenting"
  "validRecoveryTarget PS_Cooling"
  "validRecoveryTarget PS_CoolHolding"
  "validRecoveryTarget PS_ManualHolding"
  "\<not> validRecoveryTarget PS_Completed"
  "\<not> validRecoveryTarget PS_RecoveryEvaluation"
  "\<not> validRecoveryTarget PS_Fault"
  "\<not> validRecoveryTarget PS_ServiceMode"
  "stateCanEnterFault PS_Boot"
  "\<not> stateCanEnterFault PS_SafeBoot"
  "stateCanEnterFault PS_Standby"
  "stateCanEnterFault PS_Preheating"
  "stateCanEnterFault PS_WaitingForProduct"
  "stateCanEnterFault PS_ReachingTarget"
  "stateCanEnterFault PS_QualifyingTarget"
  "stateCanEnterFault PS_Fermenting"
  "stateCanEnterFault PS_Cooling"
  "stateCanEnterFault PS_CoolHolding"
  "stateCanEnterFault PS_ManualHolding"
  "stateCanEnterFault PS_Completed"
  "stateCanEnterFault PS_RecoveryEvaluation"
  "\<not> stateCanEnterFault PS_Fault"
  "stateCanEnterFault PS_ServiceMode"
  "\<not> stateUsesRunSnapshot (PS_other b)"
  "\<not> stateHasTargetReachTimer (PS_other b)"
  "\<not> validProcessState (PS_other b)"
  by (simp_all add: state_class_defs)

lemma state_match_simps [simp]:
  "stateMatchesRunSnapshot PS_Preheating p = snap_preheatEnabled p"
  "stateMatchesRunSnapshot PS_WaitingForProduct p =
     (snap_preheatEnabled p \<and> snap_maximumProductWaitMinutes p \<noteq> None)"
  "stateMatchesRunSnapshot PS_ReachingTarget p"
  "stateMatchesRunSnapshot PS_QualifyingTarget p"
  "stateMatchesRunSnapshot PS_Fermenting p =
     (snap_kind p = PK_Timed \<and> snap_fermentationDurationMinutes p \<noteq> None)"
  "stateMatchesRunSnapshot PS_Cooling p =
     (snap_kind p = PK_Timed \<and> snap_completionMode p \<noteq> CM_FinishWithoutCooling)"
  "stateMatchesRunSnapshot PS_CoolHolding p =
     (snap_kind p = PK_Timed \<and>
      (snap_completionMode p = CM_CoolAndHoldForDuration \<or>
       snap_completionMode p = CM_CoolAndHoldUntilManualStop))"
  "stateMatchesRunSnapshot PS_ManualHolding p = (snap_kind p = PK_ManualHolding)"
  by (simp_all add: stateMatchesRunSnapshot_def)

text \<open>Shape and time as conjunctions of implications.\<close>

lemma runtimeShapeIsValid_iff:
  "runtimeShapeIsValid s \<longleftrightarrow>
     validProcessState (rt_state s) \<and>
     (rt_qualificationValidSinceMillis s \<noteq> None \<longrightarrow>
        rt_state s = PS_Preheating \<or> rt_state s = PS_QualifyingTarget) \<and>
     (\<not> stateHasTargetReachTimer (rt_state s) \<longrightarrow>
        rt_targetReachStartedAtMillis s = 0 \<and> \<not> rt_targetReachWarningIssued s)"
  by (auto simp: runtimeShapeIsValid_def)

lemma runtimeTimeIsValid_iff:
  "runtimeTimeIsValid s now \<longleftrightarrow>
     rt_stateEnteredAtMillis s \<le> now \<and>
     (stateHasTargetReachTimer (rt_state s) \<longrightarrow> rt_targetReachStartedAtMillis s \<le> now) \<and>
     (\<forall>t. rt_qualificationValidSinceMillis s = Some t \<longrightarrow> t \<le> now)"
  by (auto simp: runtimeTimeIsValid_def split: option.splits)

lemmas runtime_iffs = runtimeShapeIsValid_iff runtimeTimeIsValid_iff

lemma runtimeShape_valid_state:
  "runtimeShapeIsValid s \<Longrightarrow> validProcessState (rt_state s)"
  by (simp add: runtimeShapeIsValid_iff)

text \<open>Time validity is monotone in the clock.\<close>

lemma runtimeTimeIsValid_mono:
  "runtimeTimeIsValid s t \<Longrightarrow> t \<le> t' \<Longrightarrow> runtimeTimeIsValid s t'"
  by (auto simp: runtimeTimeIsValid_iff intro: order_trans)

section \<open>What the commit checks\<close>

definition committable ::
    "ProcessRuntimeState \<Rightarrow> ProcessRunSnapshot option \<Rightarrow> u64 \<Rightarrow> TransitionDecision \<Rightarrow> bool"
  where
  "committable s snap now d \<longleftrightarrow>
     dec_before d = s \<and> dec_monotonicMillis d = now \<and>
     rt_transitionSequence (dec_after d) = rt_transitionSequence s + 1 \<and>
     validProposedTopology d \<and> transitionMatchesRunSnapshot d snap \<and>
     runtimeShapeIsValid (dec_after d) \<and> runtimeTimeIsValid (dec_after d) now"

lemma apply_iff_committable:
  assumes "rt_transitionSequence s \<noteq> u32_max" and "proposed d" and "dec_before d = s"
    and "dec_monotonicMillis d = now"
  shows "applyProcessTransition s d snap = Some (dec_after d) \<longleftrightarrow> committable s snap now d"
  using assms by (auto simp: applyProcessTransition_def committable_def)

text \<open>The state of a run in which the decision function reaches its handlers.\<close>

definition ready :: "ProcessRuntimeState \<Rightarrow> ProcessRunSnapshot option \<Rightarrow> u64 \<Rightarrow> bool" where
  "ready s snap now \<longleftrightarrow>
     runtimeShapeIsValid s \<and> runtimeTimeIsValid s now \<and> rt_transitionSequence s \<noteq> u32_max \<and>
     (rt_state s = PS_QualifyingTarget \<longrightarrow> rt_qualificationValidSinceMillis s \<noteq> None) \<and>
     (\<forall>p. snap = Some p \<longrightarrow> validateProcessRunSnapshot p) \<and>
     (stateUsesRunSnapshot (rt_state s) \<longrightarrow>
        (\<exists>p. snap = Some p \<and> stateMatchesRunSnapshot (rt_state s) p))"

lemmas commit_defs =
  committable_def validProposedTopology_def validBootTopology_def validPhaseTopology_def
  validControlTopology_def validTargetChangedTopology_def transitionMatchesRunSnapshot_def
  Let_def

text \<open>A valid snapshot: its kind and completion mode are enumerators, and they fit together.\<close>

lemma valid_snapshotD:
  assumes "validateProcessRunSnapshot p"
  shows "snap_kind p \<noteq> PK_ManualHolding \<Longrightarrow> snap_kind p = PK_Timed"
    and "snap_kind p = PK_Timed \<Longrightarrow> snap_fermentationDurationMinutes p \<noteq> None"
    and "snap_completionMode p \<noteq> CM_other b"
    and "snap_preheatEnabled p \<Longrightarrow> snap_maximumProductWaitMinutes p \<noteq> None"
    and "snap_kind p = PK_ManualHolding \<Longrightarrow> snap_completionMode p = CM_FinishWithoutCooling"
  using assms
  by (auto simp: validateProcessRunSnapshot_def validProcessKind_def
      validCompletionModeForStateMachine_def
      split: if_splits ProcessKind.splits CompletionMode.splits option.splits)

lemma valid_snapshot_mode:
  assumes "validateProcessRunSnapshot p"
  shows "snap_completionMode p = CM_FinishWithoutCooling \<or>
         snap_completionMode p = CM_CoolThenFinish \<or>
         snap_completionMode p = CM_CoolAndHoldForDuration \<or>
         snap_completionMode p = CM_CoolAndHoldUntilManualStop"
  using valid_snapshotD(3) [OF assms] by (cases "snap_completionMode p") auto

section \<open>Every handler proposes committable decisions\<close>

text \<open>Topology and snapshot checks only read the two phases and the reason.\<close>

lemma topology_cong:
  assumes "dec_reason d = dec_reason e"
    and "rt_state (dec_before d) = rt_state (dec_before e)"
    and "rt_state (dec_after d) = rt_state (dec_after e)"
  shows "validProposedTopology d = validProposedTopology e"
    and "transitionMatchesRunSnapshot d snap = transitionMatchesRunSnapshot e snap"
  by (simp_all only: validProposedTopology_def validBootTopology_def validPhaseTopology_def
      validControlTopology_def transitionMatchesRunSnapshot_def assms)

lemma commit_includeTargetReachWarning:
  assumes c: "committable s snap now d"
  shows "committable s snap now (includeTargetReachWarning d)"
proof -
  have "rt_state (dec_after (includeTargetReachWarning d)) = rt_state (dec_after d)"
    by simp
  note cong = topology_cong [OF _ _ this]
  have "runtimeShapeIsValid (dec_after (includeTargetReachWarning d))"
    "runtimeTimeIsValid (dec_after (includeTargetReachWarning d)) now"
    using c by (simp_all add: committable_def runtime_iffs)
  with c show ?thesis
    using cong(1) cong(2) [of snap] by (simp add: committable_def)
qed

lemma commit_committed_context [simp]:
  "committable s snap now (d\<lparr>dec_committedControlContextTransition := c\<rparr>) =
     committable s snap now d"
  using topology_cong [of "d\<lparr>dec_committedControlContextTransition := c\<rparr>" d]
  by (simp add: committable_def)

lemma commit_addMessage [simp]:
  "committable s snap now (snd (addMessage d m)) = committable s snap now d"
  using topology_cong [of "snd (addMessage d m)" d] by (simp add: committable_def)

lemma commit_phase_data_warning:
  assumes "ready s snap now" and "stateHasTargetReachTimer (rt_state s)"
  shows "committable s snap now (proposePhaseDataUpdate s TR_TargetReachTimeExceeded now)"
proof -
  from assms(2) have "rt_state s = PS_ReachingTarget \<or> rt_state s = PS_QualifyingTarget"
    by (simp add: stateHasTargetReachTimer_def)
  then show ?thesis
    using assms(1) by (auto simp: ready_def commit_defs runtime_iffs)
qed

lemma commit_decideQualification_pre:
  assumes "ready s snap now" and "rt_state s = PS_Preheating" and "snap = Some p"
    and "proposed (decideQualification s p sig now True)"
  shows "committable s snap now (decideQualification s p sig now True)"
  using assms
  by (auto simp: decideQualification_def ready_def commit_defs runtime_iffs
      dest: valid_snapshotD split: if_splits option.splits)

lemma commit_decideQualification:
  assumes "ready s snap now" and "rt_state s = PS_QualifyingTarget" and "snap = Some p"
    and "proposed (decideQualification s p sig now False)"
  shows "committable s snap now (decideQualification s p sig now False)"
proof (cases "snap_kind p = PK_ManualHolding")
  case True
  with assms show ?thesis 
  by (auto simp: decideQualification_def ready_def commit_defs runtime_iffs 
      split: if_splits option.splits)
next
  case False
  from assms have "validateProcessRunSnapshot p" by (simp add: ready_def)
  note v = valid_snapshotD [OF this]
  have "snap_kind p = PK_Timed" "\<exists>m. snap_fermentationDurationMinutes p = Some m" using v False by auto
  with assms show ?thesis 
  by (auto simp: decideQualification_def ready_def commit_defs runtime_iffs 
      split: if_splits option.splits)
qed

lemma commit_decideQualifyingTarget:
  assumes "ready s snap now" and "rt_state s = PS_QualifyingTarget" and "snap = Some p"
    and "proposed (decideQualifyingTarget s p sig now)"
  shows "committable s snap now (decideQualifyingTarget s p sig now)"
  using assms commit_decideQualification [OF assms(1-3)] commit_phase_data_warning [OF assms(1)]
  by (auto simp: decideQualifyingTarget_def Let_def stateHasTargetReachTimer_def
      intro!: commit_includeTargetReachWarning)

lemma commit_decideReachingTarget:
  assumes "ready s snap now" and "rt_state s = PS_ReachingTarget" and "snap = Some p"
    and "proposed (decideReachingTarget s p sig now)"
  shows "committable s snap now (decideReachingTarget s p sig now)"
  using assms
  by (auto simp: decideReachingTarget_def ready_def commit_defs runtime_iffs 
       split: if_splits option.splits)

lemma commit_decideWaitingForProduct:
  assumes "ready s snap now" and "rt_state s = PS_WaitingForProduct" and "snap = Some p"
    and "proposed (decideWaitingForProduct s p now prior)"
  shows "committable s snap now (decideWaitingForProduct s p now prior)"
  using assms
  by (auto simp: decideWaitingForProduct_def ready_def commit_defs runtime_iffs 
      split: if_splits option.splits)

lemma commit_decideFermenting:
  assumes "ready s snap now" and "rt_state s = PS_Fermenting" and "snap = Some p"
    and "proposed (decideFermenting s p now prior)"
  shows "committable s snap now (decideFermenting s p now prior)"
  using assms
  by (auto simp: decideFermenting_def completeTimedRun_def ready_def commit_defs runtime_iffs 
      split: if_splits option.splits)

lemma commit_decideCooling:
  assumes "ready s snap now" and "rt_state s = PS_Cooling" and "snap = Some p"
    and "proposed (decideCooling s p sig now)"
  shows "committable s snap now (decideCooling s p sig now)"
proof -
  from assms have "validateProcessRunSnapshot p" by (simp add: ready_def)
  from valid_snapshot_mode [OF this] assms show ?thesis
  by (auto simp: decideCooling_def ready_def commit_defs runtime_iffs 
      split: if_splits)
qed

lemma commit_decideCoolHolding:
  assumes "ready s snap now" and "rt_state s = PS_CoolHolding" and "snap = Some p"
    and "proposed (decideCoolHolding s p now prior)"
  shows "committable s snap now (decideCoolHolding s p now prior)"
  using assms
  by (auto simp: decideCoolHolding_def completeHoldDuration_def ready_def commit_defs runtime_iffs 
      split: if_splits option.splits)


text \<open>Explicit events.\<close>

lemma commit_decideBootEvent:
  assumes "ready s snap now" and "rt_state s = PS_Boot" and "proposed (decideBootEvent s e now)"
  shows "committable s snap now (decideBootEvent s e now)"
  using assms
  by (cases e) (auto simp: decideBootEvent_def ready_def commit_defs runtime_iffs split: option.splits)

lemma commit_decideStandbyEvent:
  assumes "ready s snap now" and "rt_state s = PS_Standby"
    and "proposed (decideStandbyEvent s snap e now)"
  shows "committable s snap now (decideStandbyEvent s snap e now)"
  using assms
  by (auto simp: decideStandbyEvent_def ready_def commit_defs runtime_iffs
      split: option.splits if_splits)

lemma commit_decideHoldEvent:
  assumes "ready s snap now" and "rt_state s = PS_CoolHolding \<or> rt_state s = PS_ManualHolding"
    and "proposed (decideHoldEvent s e now)"
  shows "committable s snap now (decideHoldEvent s e now)"
  using assms
  by (auto simp: decideHoldEvent_def ready_def commit_defs runtime_iffs split: option.splits if_splits)

lemma transitionMatches_plain:
  assumes "snap = Some p" and "validateProcessRunSnapshot p"
    and "stateUsesRunSnapshot (rt_state (dec_before d)) \<Longrightarrow>
           stateMatchesRunSnapshot (rt_state (dec_before d)) p"
    and "stateUsesRunSnapshot (rt_state (dec_after d)) \<Longrightarrow>
           stateMatchesRunSnapshot (rt_state (dec_after d)) p"
    and "dec_reason d \<notin> {TR_RunStarted, TR_TargetQualified, TR_FermentationCompleted,
           TR_CoolingTargetReached, TR_HoldDurationCompleted}"
  shows "transitionMatchesRunSnapshot d snap"
  using assms by (cases "dec_reason d") (auto simp: transitionMatchesRunSnapshot_def Let_def)

lemma commit_resumed:
  assumes r: "ready s (Some p) now" and s: "rt_state s = PS_RecoveryEvaluation"
    and "validRecoveryTarget (rt_state a)" and "runtimeShapeIsValid a"
    and "runtimeTimeIsValid a now" and m: "stateMatchesRunSnapshot (rt_state a) p"
    and seq: "rt_transitionSequence a = rt_transitionSequence s + 1"
  shows "committable s (Some p) now ((result DS_Proposed s now)
           \<lparr>dec_reason := TR_RecoveryResumed, dec_after := a\<rparr>)"
proof -
  have "validateProcessRunSnapshot p" using r by (simp add: ready_def)
  with assms show ?thesis
    by (auto simp: committable_def validProposedTopology_def validControlTopology_def
        intro: transitionMatches_plain)
qed

lemma commit_decideRecoveryEvent:
  assumes r: "ready s snap now" and s: "rt_state s = PS_RecoveryEvaluation"
    and p: "proposed (decideRecoveryEvent s snap req now prior)"
  shows "committable s snap now (decideRecoveryEvent s snap req now prior)"
proof (cases "req_event req = PE_RecoveryReject")
  case True
  with r s show ?thesis
    by (auto simp: decideRecoveryEvent_def ready_def commit_defs runtime_iffs
        split: option.splits)
next
  case False
  with p obtain a q where a: "req_recoveredState req = Some a" and q: "snap = Some q"
    by (auto simp: decideRecoveryEvent_def split: if_splits)
  note ev = decideRecoveryEvent_def a q Let_def
  have ok: "validRecoveryTarget (rt_state a)" "runtimeShapeIsValid a"
    "runtimeTimeIsValid a now" "stateMatchesRunSnapshot (rt_state a) q"
    using p False by (auto simp: ev split: if_splits)
  have body: "decideRecoveryEvent s snap req now prior = (result DS_Proposed s now)
      \<lparr>dec_reason := TR_RecoveryResumed,
       dec_after := (if rt_state a = PS_Preheating
                     then a\<lparr>rt_qualificationValidSinceMillis := None\<rparr>
                     else if rt_state a = PS_QualifyingTarget
                     then a\<lparr>rt_state := PS_ReachingTarget, rt_stateEnteredAtMillis := now,
                            rt_qualificationValidSinceMillis := None\<rparr>
                     else a)\<lparr>rt_transitionSequence := rt_transitionSequence s + 1\<rparr>\<rparr>"
    using p False by (auto simp: ev split: if_splits)
  show ?thesis
    unfolding body unfolding q
    by (rule commit_resumed) (use ok r s q in \<open>auto simp: runtime_iffs\<close>)
qed

lemma commit_to_standby:
  assumes r: "ready s snap now"
    and "(r = TR_RunAborted \<and> stateCanAbort (rt_state s)) \<or>
         (r = TR_CompletionAcknowledged \<and> rt_state s = PS_Completed) \<or>
         (r = TR_ServiceModeExited \<and> rt_state s = PS_ServiceMode)"
  shows "committable s snap now (propose s PS_Standby r now)"
proof -
  from r have seq: "rt_transitionSequence s \<noteq> u32_max" by (simp add: ready_def)
  have m: "transitionMatchesRunSnapshot (propose s PS_Standby r now) snap"
  proof (cases snap)
    case None
    with r have "\<not> stateUsesRunSnapshot (rt_state s)" by (auto simp: ready_def)
    with None seq assms(2) show ?thesis
      by (auto simp: transitionMatchesRunSnapshot_def)
  next
    case (Some q)
    then show ?thesis
      by (rule transitionMatches_plain) (use r seq assms(2) Some in \<open>auto simp: ready_def\<close>)
  qed
  have "validControlTopology (propose s PS_Standby r now)"
    using assms(2) seq by (auto simp: validControlTopology_def)
  with m seq show ?thesis
    by (simp add: committable_def validProposedTopology_def runtime_iffs)
qed

lemma commit_target_changed_preheating:
  assumes "ready s snap now" and "rt_state s = PS_Preheating"
  shows "committable s snap now
    ((propose s PS_Preheating TR_TargetChangedReevaluation now)
       \<lparr>dec_after := (dec_after (propose s PS_Preheating TR_TargetChangedReevaluation now))
           \<lparr>rt_qualificationValidSinceMillis := None\<rparr>\<rparr>)"
proof -
  from assms obtain q where q: "snap = Some q" "validateProcessRunSnapshot q"
    "snap_preheatEnabled q" by (auto simp: ready_def)
  have seq: "rt_transitionSequence s \<noteq> u32_max" using assms by (simp add: ready_def)
  from q seq assms(2) show ?thesis
    by (simp add: commit_defs runtime_iffs)
qed

lemma commit_target_reach_restart:
  assumes "ready s snap now"
    and "rt_state s = PS_WaitingForProduct \<and> r = TR_ProductInserted \<or>
         (rt_state s = PS_ReachingTarget \<or> rt_state s = PS_QualifyingTarget) \<and>
           r = TR_TargetChangedReevaluation"
  shows "committable s snap now (initializeTargetReach (propose s PS_ReachingTarget r now) now)"
  using assms(2)
proof (elim disjE conjE)
  assume "rt_state s = PS_WaitingForProduct" "r = TR_ProductInserted"
  with assms(1) show ?thesis by (auto simp: ready_def commit_defs runtime_iffs)
next
  assume "r = TR_TargetChangedReevaluation" "rt_state s = PS_ReachingTarget"
  with assms(1) show ?thesis by (auto simp: ready_def commit_defs runtime_iffs)
next
  assume "r = TR_TargetChangedReevaluation" "rt_state s = PS_QualifyingTarget"
  with assms(1) show ?thesis by (auto simp: ready_def commit_defs runtime_iffs)
qed

lemma commit_decideExplicitEvent:
  assumes r: "ready s snap now"
    and p: "proposed (decideExplicitEvent s snap req now prior)"
  shows "committable s snap now (decideExplicitEvent s snap req now prior)"
proof -
  have seq: "rt_transitionSequence s \<noteq> u32_max" using r by (simp add: ready_def)
  consider (abort) "req_event req = PE_Abort" | (target) "req_event req = PE_TargetChanged"
    | (other) "req_event req \<noteq> PE_Abort" "req_event req \<noteq> PE_TargetChanged" by blast
  then show ?thesis
  proof cases
    case abort
    with p have "stateCanAbort (rt_state s)"
      by (auto simp: decideExplicitEvent_def split: if_splits)
    with abort r show ?thesis by (simp add: decideExplicitEvent_def commit_to_standby)
  next
    case target
    with r p show ?thesis
      by (auto simp: decideExplicitEvent_def Let_def commit_target_reach_restart
          commit_target_changed_preheating split: if_splits)
  next
    case other
    note ev = decideExplicitEvent_def other
    show ?thesis
    proof (cases "rt_state s")
      case PS_Boot
      with r p show ?thesis by (simp add: ev commit_decideBootEvent)
    next
      case PS_Standby
      with r p show ?thesis by (simp add: ev commit_decideStandbyEvent)
    next
      case PS_WaitingForProduct
      with r p show ?thesis
        by (auto simp: ev commit_target_reach_restart split: if_splits)
    next
      case PS_CoolHolding
      with r p show ?thesis by (simp add: ev commit_decideHoldEvent)
    next
      case PS_ManualHolding
      with r p show ?thesis by (simp add: ev commit_decideHoldEvent)
    next
      case PS_Completed
      with r p seq show ?thesis
        by (auto simp: ev commit_to_standby split: if_splits)
    next
      case PS_RecoveryEvaluation
      with r p show ?thesis by (simp add: ev commit_decideRecoveryEvent)
    next
      case PS_ServiceMode
      with r p seq show ?thesis
        by (auto simp: ev commit_to_standby split: if_splits)
    qed (use p in \<open>simp_all add: ev\<close>)
  qed
qed

lemma commit_decideAutomatic:
  assumes r: "ready s snap now"
    and p: "proposed (decideAutomatic s snap sig now prior)"
  shows "committable s snap now (decideAutomatic s snap sig now prior)"
proof -
  have "\<not> (snap = None \<and> stateUsesRunSnapshot (rt_state s))"
    using p by (auto simp: decideAutomatic_def)
  then have sn: "stateUsesRunSnapshot (rt_state s) \<Longrightarrow> \<exists>q. snap = Some q" by auto
  note au = decideAutomatic_def
  show ?thesis
  proof (cases "rt_state s")
    case PS_Preheating
    with sn r p show ?thesis by (auto simp: au commit_decideQualification_pre)
  next
    case PS_WaitingForProduct
    with sn r p show ?thesis by (auto simp: au commit_decideWaitingForProduct)
  next
    case PS_ReachingTarget
    with sn r p show ?thesis by (auto simp: au commit_decideReachingTarget)
  next
    case PS_QualifyingTarget
    with sn r p show ?thesis by (auto simp: au commit_decideQualifyingTarget)
  next
    case PS_Fermenting
    with sn r p show ?thesis by (auto simp: au commit_decideFermenting)
  next
    case PS_Cooling
    with sn r p show ?thesis by (auto simp: au commit_decideCooling)
  next
    case PS_CoolHolding
    with sn r p show ?thesis by (auto simp: au commit_decideCoolHolding)
  qed (use p sn in \<open>auto simp: au\<close>)
qed

section \<open>The decision as a whole\<close>

lemma decide_ready:
  assumes "proposed (decideProcessTransition s snap sig req now prior)"
    and "\<not> (sig_criticalFault sig \<and> stateCanEnterFault (rt_state s))"
    and "rt_state s = PS_QualifyingTarget \<Longrightarrow> rt_qualificationValidSinceMillis s \<noteq> None"
  shows "ready s snap now"
  using assms
  by (auto simp: decideProcessTransition_def ready_def split: if_splits option.splits)

lemma decide_member:
  assumes "result DS_InvalidInput s now \<in> S" and "result DS_TimeWentBackwards s now \<in> S"
    and "sig_criticalFault sig \<and> stateCanEnterFault (rt_state s) \<Longrightarrow>
           snd (addMessage (propose s PS_Fault TR_CriticalFault now) PM_FaultEntered) \<in> S"
    and "decideAutomatic s snap sig now prior \<in> S"
    and "decideExplicitEvent s snap req now prior \<in> S"
  shows "decideProcessTransition s snap sig req now prior \<in> S"
  using assms by (simp add: decideProcessTransition_def)

lemma decide_cases:
  assumes "proposed (decideProcessTransition s snap sig req now prior)"
    and "\<not> (sig_criticalFault sig \<and> stateCanEnterFault (rt_state s))"
  shows "decideProcessTransition s snap sig req now prior =
           decideAutomatic s snap sig now prior \<or>
         decideProcessTransition s snap sig req now prior =
           decideExplicitEvent s snap req now prior"
proof -
  have "decideProcessTransition s snap sig req now prior \<in>
          {d. \<not> proposed d} \<union>
          {decideAutomatic s snap sig now prior, decideExplicitEvent s snap req now prior}"
    by (rule decide_member) (use assms(2) in auto)
  with assms(1) show ?thesis by auto
qed

lemma decide_fault:
  assumes "sig_criticalFault sig" and "stateCanEnterFault (rt_state s)"
    and "runtimeShapeIsValid s" and "runtimeTimeIsValid s now"
    and "rt_transitionSequence s \<noteq> u32_max"
  shows "decideProcessTransition s snap sig req now prior =
           snd (addMessage (propose s PS_Fault TR_CriticalFault now) PM_FaultEntered)"
  using assms by (simp add: decideProcessTransition_def)

lemma proposed_decide_basic:
  assumes "proposed (decideProcessTransition s snap sig req now prior)"
  shows "runtimeShapeIsValid s" "runtimeTimeIsValid s now" "rt_transitionSequence s \<noteq> u32_max"
  using assms by (auto simp: decideProcessTransition_def split: if_splits)

lemma commit_fault:
  assumes "stateCanEnterFault (rt_state s)" and "rt_transitionSequence s \<noteq> u32_max"
  shows "committable s snap now (propose s PS_Fault TR_CriticalFault now)"
  using assms by (simp add: commit_defs runtime_iffs)

lemma commit_decideProcessTransition:
  assumes tr: "rt_state s = PS_QualifyingTarget \<Longrightarrow> rt_qualificationValidSinceMillis s \<noteq> None"
    and p: "proposed (decideProcessTransition s snap sig req now prior)"
  shows "committable s snap now (decideProcessTransition s snap sig req now prior)"
proof (cases "sig_criticalFault sig \<and> stateCanEnterFault (rt_state s)")
  case True
  with proposed_decide_basic [OF p] show ?thesis
    by (simp add: decide_fault commit_fault)
next
  case False
  from decide_ready [OF p False tr] have r: "ready s snap now" by simp
  from decide_cases [OF p False] show ?thesis
    using p commit_decideAutomatic [OF r] commit_decideExplicitEvent [OF r] by auto
qed

lemma apply_decide:
  assumes tr: "rt_state s = PS_QualifyingTarget \<Longrightarrow> rt_qualificationValidSinceMillis s \<noteq> None"
    and p: "proposed (decideProcessTransition s snap sig req now prior)"
  shows "applyProcessTransition s (decideProcessTransition s snap sig req now prior) snap =
           Some (dec_after (decideProcessTransition s snap sig req now prior))"
  using commit_decideProcessTransition [OF assms] proposed_decide_basic(3) [OF p] p
  by (subst apply_iff_committable) (auto simp: committable_def)

section \<open>Invariant of a run\<close>

definition tracked :: "ProcessRuntimeState \<Rightarrow> bool" where
  "tracked s \<longleftrightarrow>
     (rt_state s = PS_QualifyingTarget \<longrightarrow> rt_qualificationValidSinceMillis s \<noteq> None)"

definition process_inv :: "ProcessRuntimeState \<Rightarrow> u64 \<Rightarrow> bool" where
  "process_inv s now \<longleftrightarrow> runtimeShapeIsValid s \<and> runtimeTimeIsValid s now \<and> tracked s"

lemma tracked_automatic:
  assumes r: "ready s snap now" and p: "proposed (decideAutomatic s snap sig now prior)"
  shows "tracked (dec_after (decideAutomatic s snap sig now prior))"
proof -
  have seq: "rt_transitionSequence s \<noteq> u32_max" using r by (simp add: ready_def)
  have tr: "rt_state s = PS_QualifyingTarget \<Longrightarrow> rt_qualificationValidSinceMillis s \<noteq> None"
    using r by (simp add: ready_def)
  show ?thesis
    using p seq tr
    by (cases "rt_state s")
      (auto simp: decideAutomatic_def decideQualification_def decideWaitingForProduct_def
        decideReachingTarget_def decideQualifyingTarget_def decideFermenting_def
        completeTimedRun_def decideCooling_def decideCoolHolding_def completeHoldDuration_def
        tracked_def Let_def split: if_splits option.splits)
qed

lemma tracked_explicit:
  assumes r: "ready s snap now" and p: "proposed (decideExplicitEvent s snap req now prior)"
  shows "tracked (dec_after (decideExplicitEvent s snap req now prior))"
proof -
  have seq: "rt_transitionSequence s \<noteq> u32_max" using r by (simp add: ready_def)
  show ?thesis
    using p seq
    by (cases "rt_state s"; cases "req_event req")
      (auto simp: decideExplicitEvent_def decideBootEvent_def decideStandbyEvent_def
        decideHoldEvent_def decideRecoveryEvent_def tracked_def Let_def
        split: if_splits option.splits)
qed

lemma tracked_decide:
  assumes tr: "tracked s" and p: "proposed (decideProcessTransition s snap sig req now prior)"
  shows "tracked (dec_after (decideProcessTransition s snap sig req now prior))"
proof (cases "sig_criticalFault sig \<and> stateCanEnterFault (rt_state s)")
  case True
  with proposed_decide_basic [OF p] show ?thesis by (simp add: decide_fault tracked_def)
next
  case False
  from decide_ready [OF p False] tr have r: "ready s snap now" by (simp add: tracked_def)
  from decide_cases [OF p False] show ?thesis
    using p tracked_automatic [OF r] tracked_explicit [OF r] by auto
qed

text \<open>One step of a run: a decision and its commit, as the application performs them.\<close>

record ProcessInput =
  pin_snapshot :: "ProcessRunSnapshot option"
  pin_signals :: ProcessSignals
  pin_request :: TransitionRequest
  pin_now :: u64
  pin_prior :: PriorBootPhaseElapsed

definition process_decision ::
    "ProcessInput \<Rightarrow> ProcessRuntimeState \<Rightarrow> TransitionDecision" where
  "process_decision i s =
     decideProcessTransition s (pin_snapshot i) (pin_signals i) (pin_request i) (pin_now i)
       (pin_prior i)"

definition process_step :: "ProcessInput \<Rightarrow> ProcessRuntimeState \<Rightarrow> ProcessRuntimeState" where
  "process_step i s =
     (case applyProcessTransition s (process_decision i s) (pin_snapshot i) of
        None \<Rightarrow> s | Some s' \<Rightarrow> s')"

lemma process_inv_later: "process_inv s t \<Longrightarrow> t \<le> t' \<Longrightarrow> process_inv s t'"
  by (auto simp: process_inv_def intro: runtimeTimeIsValid_mono)

lemma process_step_cases:
  assumes "tracked s"
  shows "process_step i s =
    (if proposed (process_decision i s) then dec_after (process_decision i s) else s)"
proof (cases "proposed (process_decision i s)")
  case True
  with assms show ?thesis
    using apply_decide [of s "pin_snapshot i" "pin_signals i" "pin_request i" "pin_now i"
        "pin_prior i"]
    by (simp add: process_step_def process_decision_def tracked_def)
next
  case False
  then show ?thesis by (simp add: process_step_def applyProcessTransition_def)
qed

lemma process_step_inv:
  assumes "process_inv s t" and "t \<le> pin_now i"
  shows "process_inv (process_step i s) (pin_now i)"
proof (cases "proposed (process_decision i s)")
  case True
  from assms have tr: "tracked s" by (simp add: process_inv_def)
  have "committable s (pin_snapshot i) (pin_now i) (process_decision i s)"
    using commit_decideProcessTransition True tr
    by (simp add: process_decision_def tracked_def)
  moreover have "tracked (dec_after (process_decision i s))"
    using tracked_decide tr True by (simp add: process_decision_def)
  ultimately show ?thesis
    using True tr by (simp add: process_step_cases committable_def process_inv_def)
next
  case False
  with assms show ?thesis
    by (simp add: process_step_cases process_inv_def) (auto intro: runtimeTimeIsValid_mono)
qed

interpretation process_run:
  clocked_machine process_step pin_now "\<lambda>t s. process_inv s t"
  by unfold_locales (auto intro: process_inv_later process_step_inv)

lemma process_inv_initial: "process_inv initialProcessRuntimeState 0"
  by (simp add: process_inv_def initialProcessRuntimeState_def runtime_iffs tracked_def)

section \<open>The phase graph\<close>

text \<open>
  The abstract specification of the phases: which phase can follow which. It is stated without
  reasons, requests or times; the commit refines it.
\<close>

inductive phase_edge :: "ProcessState \<Rightarrow> ProcessState \<Rightarrow> bool" where
  boot: "q \<in> {PS_Standby, PS_SafeBoot, PS_Completed, PS_RecoveryEvaluation} \<Longrightarrow>
     phase_edge PS_Boot q"
| start: "q \<in> {PS_Preheating, PS_ReachingTarget} \<Longrightarrow> phase_edge PS_Standby q"
| preheat: "q \<in> {PS_Preheating, PS_WaitingForProduct} \<Longrightarrow> phase_edge PS_Preheating q"
| insert: "q \<in> {PS_ReachingTarget, PS_Standby} \<Longrightarrow> phase_edge PS_WaitingForProduct q"
| reach: "q \<in> {PS_ReachingTarget, PS_QualifyingTarget} \<Longrightarrow> phase_edge PS_ReachingTarget q"
| qualify: "q \<in> {PS_ReachingTarget, PS_QualifyingTarget, PS_Fermenting, PS_ManualHolding} \<Longrightarrow>
     phase_edge PS_QualifyingTarget q"
| ferment: "q \<in> {PS_Cooling, PS_Completed} \<Longrightarrow> phase_edge PS_Fermenting q"
| cool: "q \<in> {PS_CoolHolding, PS_Completed} \<Longrightarrow> phase_edge PS_Cooling q"
| hold: "p \<in> {PS_CoolHolding, PS_ManualHolding} \<Longrightarrow> phase_edge p PS_Completed"
| abort: "stateUsesRunSnapshot p \<Longrightarrow> q \<in> {PS_Standby, PS_RecoveryEvaluation} \<Longrightarrow>
     phase_edge p q"
| acknowledge: "phase_edge PS_Completed PS_Standby"
| service: "phase_edge PS_Standby PS_ServiceMode"
| serviced: "phase_edge PS_ServiceMode PS_Standby"
| fault: "p \<noteq> PS_Fault \<Longrightarrow> p \<noteq> PS_SafeBoot \<Longrightarrow> phase_edge p PS_Fault"
| resume: "stateUsesRunSnapshot q \<Longrightarrow> phase_edge PS_RecoveryEvaluation q"
| give_up: "phase_edge PS_RecoveryEvaluation PS_Standby"

inductive_cases phase_edge_to_fermenting: "phase_edge p PS_Fermenting"
inductive_cases phase_edge_from_fault: "phase_edge PS_Fault q"
inductive_cases phase_edge_from_safe_boot: "phase_edge PS_SafeBoot q"

lemma topology_phase_edge:
  assumes "validProposedTopology d"
  shows "phase_edge (rt_state (dec_before d)) (rt_state (dec_after d))"
proof -
  have a: "stateCanAbort p \<Longrightarrow> stateUsesRunSnapshot p"
    and v: "validRecoveryTarget p \<Longrightarrow> stateUsesRunSnapshot p" for p
    by (cases p; simp add: validRecoveryTarget_def stateCanAbort_def)+
  show ?thesis
    using assms
    by (cases "dec_reason d")
      (auto simp: validProposedTopology_def validBootTopology_def validPhaseTopology_def
        validControlTopology_def validTargetChangedTopology_def stateCanEnterFault_def Let_def
        intro: phase_edge.intros a v split: ProcessState.splits)
qed

end
