(* ===== verification/ProcessProperties.thy ===== *)
theory ProcessProperties
  imports ProcessProofs
begin

text \<open>
  The properties of the process state machine, over the lemmas of \<open>ProcessProofs\<close>, and the
  concrete runs that witness their hypotheses.
\<close>

section \<open>Concrete inputs\<close>

definition yoghurtRun :: ProcessRunSnapshot where
  "yoghurtRun =
     \<lparr>snap_kind = PK_Timed, snap_preheatEnabled = False,
      snap_completionMode = CM_CoolThenFinish, snap_qualificationDurationMinutes = 5,
      snap_maximumTargetReachMinutes = 60, snap_maximumProductWaitMinutes = None,
      snap_fermentationDurationMinutes = Some 480, snap_holdDurationMinutes = None\<rparr>"

definition preheatedRun :: ProcessRunSnapshot where
  "preheatedRun = yoghurtRun\<lparr>snap_preheatEnabled := True,
                             snap_maximumProductWaitMinutes := Some 30\<rparr>"

definition runtimeIn :: "ProcessState \<Rightarrow> u64 \<Rightarrow> ProcessRuntimeState" where
  "runtimeIn p t = initialProcessRuntimeState\<lparr>rt_state := p, rt_stateEnteredAtMillis := t\<rparr>"

definition quietSignals :: ProcessSignals where
  "quietSignals = \<lparr>sig_qualificationProgress = QP_Unavailable,
                   sig_coolingTargetConditionValid = False, sig_criticalFault = False\<rparr>"

definition requestOf :: "ProcessEvent \<Rightarrow> TransitionRequest" where
  "requestOf e = \<lparr>req_event = e, req_recoveredState = None\<rparr>"

lemmas example_defs =
  yoghurtRun_def preheatedRun_def runtimeIn_def quietSignals_def requestOf_def
  initialProcessRuntimeState_def noPriorBootPhaseElapsed_def

lemma valid_yoghurtRun: "validateProcessRunSnapshot yoghurtRun"
  by (simp add: validateProcessRunSnapshot_def example_defs validProcessKind_def
      validCompletionModeForStateMachine_def inRange_def program_limit_defs)

lemma valid_preheatedRun: "validateProcessRunSnapshot preheatedRun"
  by (simp add: validateProcessRunSnapshot_def example_defs validProcessKind_def
      validCompletionModeForStateMachine_def inRange_def program_limit_defs)

section \<open>Decision and commit agree\<close>

text \<open>C13: whatever the decision function proposes, the independent check of the commit accepts,
  with any snapshot, signals, request and prior-boot time: a proposed transition is never lost.
  The state has to know since when its target is being qualified when it is in
  \<open>QualifyingTarget\<close>, which every state of a run does.\<close>

theorem process_decide_commit:
  assumes "tracked s"
    and "proposed (decideProcessTransition s snap signals request now prior)"
  shows "applyProcessTransition s
           (decideProcessTransition s snap signals request now prior) snap =
         Some (dec_after (decideProcessTransition s snap signals request now prior))"
  using assms by (intro apply_decide) (auto simp: tracked_def)

theorem process_decide_commit_witness:
  "applyProcessTransition (runtimeIn PS_Standby 0)
     (decideProcessTransition (runtimeIn PS_Standby 0) (Some yoghurtRun) quietSignals
        (requestOf PE_StartRun) 5000 noPriorBootPhaseElapsed) (Some yoghurtRun) =
   Some (dec_after (decideProcessTransition (runtimeIn PS_Standby 0) (Some yoghurtRun)
           quietSignals (requestOf PE_StartRun) 5000 noPriorBootPhaseElapsed))"
proof (rule process_decide_commit)
  show "tracked (runtimeIn PS_Standby 0)"
    by (simp add: tracked_def example_defs)
  show "proposed (decideProcessTransition (runtimeIn PS_Standby 0) (Some yoghurtRun)
      quietSignals (requestOf PE_StartRun) 5000 noPriorBootPhaseElapsed)"
    using valid_yoghurtRun
    by (simp add: decideProcessTransition_def decideExplicitEvent_def decideStandbyEvent_def
        runtime_iffs Let_def example_defs)
qed

section \<open>Invariant of a run\<close>

text \<open>C14: from boot, along any sequence of decisions and commits with non-decreasing clock
  readings, the runtime state keeps its shape (a target-reach timer only in the two target
  phases, a qualification time stamp only while qualifying), no time stamp lies in the future,
  and \<open>QualifyingTarget\<close> always carries its qualification time stamp.\<close>

theorem process_run_invariant:
  assumes "ordered_from pin_now 0 inputs"
  shows "runtimeShapeIsValid (fold process_step inputs initialProcessRuntimeState) \<and>
         runtimeTimeIsValid (fold process_step inputs initialProcessRuntimeState)
           (last_time pin_now 0 inputs) \<and>
         tracked (fold process_step inputs initialProcessRuntimeState)"
  using process_run.inv_run [OF process_inv_initial assms] by (simp add: process_inv_def)

definition bootAndStart :: "ProcessInput list" where
  "bootAndStart =
     [\<lparr>pin_snapshot = None, pin_signals = quietSignals, pin_request = requestOf PE_BootReady,
       pin_now = 100, pin_prior = noPriorBootPhaseElapsed\<rparr>,
      \<lparr>pin_snapshot = Some yoghurtRun, pin_signals = quietSignals,
       pin_request = requestOf PE_StartRun, pin_now = 5000,
       pin_prior = noPriorBootPhaseElapsed\<rparr>]"

theorem process_run_invariant_witness:
  "runtimeShapeIsValid (fold process_step bootAndStart initialProcessRuntimeState) \<and>
   runtimeTimeIsValid (fold process_step bootAndStart initialProcessRuntimeState)
     (last_time pin_now 0 bootAndStart) \<and>
   tracked (fold process_step bootAndStart initialProcessRuntimeState)"
  by (rule process_run_invariant) (simp add: bootAndStart_def)

section \<open>Committed transitions\<close>

text \<open>C15: every committed transition, also one of a decision that was not made by the decision
  function, is an edge of the phase graph, increases the transition sequence by exactly one
  without wrapping, and leaves a state of valid shape. In particular \<open>Fault\<close> and \<open>SafeBoot\<close> are
  never left, and \<open>Fermenting\<close> is entered from \<open>QualifyingTarget\<close> or by recovery only.\<close>

theorem process_commit_refines_phase_graph:
  assumes "applyProcessTransition s d snap = Some s'"
  shows "phase_edge (rt_state s) (rt_state s') \<and>
         unat (rt_transitionSequence s') = Suc (unat (rt_transitionSequence s)) \<and>
         runtimeShapeIsValid s' \<and>
         rt_state s \<notin> {PS_Fault, PS_SafeBoot} \<and>
         (rt_state s' = PS_Fermenting \<longrightarrow>
            rt_state s \<in> {PS_QualifyingTarget, PS_RecoveryEvaluation})"
proof -
  from assms have d: "s = dec_before d" "s' = dec_after d"
    and seq: "rt_transitionSequence s \<noteq> u32_max"
      "rt_transitionSequence s' = rt_transitionSequence s + 1"
    and top: "validProposedTopology d" and shape: "runtimeShapeIsValid s'"
    by (auto simp: applyProcessTransition_def equalProcessRuntimeState_iff split: if_splits)
  from topology_phase_edge [OF top] d have e: "phase_edge (rt_state s) (rt_state s')"
    by simp
  then have "rt_state s \<noteq> PS_Fault" "rt_state s \<noteq> PS_SafeBoot"
    by (auto elim: phase_edge_from_fault phase_edge_from_safe_boot)
  with e seq shape show ?thesis
    by (auto simp: unat_Suc_word elim: phase_edge_to_fermenting)
qed

theorem process_commit_refines_phase_graph_witness:
  "phase_edge PS_Boot PS_Standby \<and>
   establishBootCompletedStandby initialProcessRuntimeState 100 =
     Some (runtimeIn PS_Standby 100\<lparr>rt_transitionSequence := 1\<rparr>)"
proof -
  have c: "applyProcessTransition initialProcessRuntimeState
      (propose initialProcessRuntimeState PS_Standby TR_BootCompleted 100) None =
      Some (runtimeIn PS_Standby 100\<lparr>rt_transitionSequence := 1\<rparr>)"
    by (simp add: applyProcessTransition_def equalProcessRuntimeState_iff commit_defs
        runtime_iffs example_defs propose_def)
  have "proposed (propose initialProcessRuntimeState PS_Standby TR_BootCompleted 100)"
    by (simp add: initialProcessRuntimeState_def)
  with c process_commit_refines_phase_graph [OF c] show ?thesis
    by (simp add: establishBootCompletedStandby_def Let_def example_defs)
qed

section \<open>Faults\<close>

text \<open>C16: a critical fault is never lost: from every phase but \<open>SafeBoot\<close> and \<open>Fault\<close>, whatever
  is requested at the same time and even when the run snapshot is missing or invalid, the tick
  decides for \<open>Fault\<close>, the commit accepts it, and the entry is reported.\<close>

theorem process_critical_fault:
  assumes "runtimeShapeIsValid s" and "runtimeTimeIsValid s now"
    and "rt_transitionSequence s \<noteq> u32_max"
    and "sig_criticalFault signals" and "rt_state s \<notin> {PS_SafeBoot, PS_Fault}"
  shows "let d = decideProcessTransition s snap signals request now prior in
         \<exists>s'. applyProcessTransition s d snap = Some s' \<and> rt_state s' = PS_Fault \<and>
              dec_messages d = [PM_FaultEntered]"
proof -
  have f: "stateCanEnterFault (rt_state s)"
    using assms(5) by (simp add: stateCanEnterFault_def)
  let ?d = "snd (addMessage (propose s PS_Fault TR_CriticalFault now) PM_FaultEntered)"
  have "applyProcessTransition s ?d snap = Some (dec_after ?d)"
    using assms(3) f by (subst apply_iff_committable) (auto simp: commit_fault)
  moreover have "dec_messages ?d = [PM_FaultEntered]"
    using assms(3) by (simp add: addMessage_def kMaximumTransitionMessages_def)
  ultimately show ?thesis
    using assms f by (simp add: decide_fault Let_def)
qed

theorem process_critical_fault_witness:
  "let d = decideProcessTransition (runtimeIn PS_Fermenting 10) None
             (quietSignals\<lparr>sig_criticalFault := True\<rparr>) (requestOf PE_Abort) 20
             noPriorBootPhaseElapsed in
   \<exists>s'. applyProcessTransition (runtimeIn PS_Fermenting 10) d None = Some s' \<and>
        rt_state s' = PS_Fault \<and> dec_messages d = [PM_FaultEntered]"
  by (rule process_critical_fault) (simp_all add: runtime_iffs example_defs)

text \<open>\<open>Fault\<close> and \<open>SafeBoot\<close> are absorbing: no sequence of inputs moves the machine out of
  them or changes any field of its state; only a restart does.\<close>

theorem process_fault_absorbing:
  assumes "rt_state s \<in> {PS_Fault, PS_SafeBoot}"
  shows "fold process_step inputs s = s"
proof -
  have step: "process_step i s = s" for i
  proof (cases "applyProcessTransition s (process_decision i s) (pin_snapshot i)")
    case (Some s')
    from topology_phase_edge [of "process_decision i s"] Some assms show ?thesis
      by (auto simp: applyProcessTransition_def equalProcessRuntimeState_iff
          elim: phase_edge_from_fault phase_edge_from_safe_boot split: if_splits)
  qed (simp add: process_step_def)
  show ?thesis by (induction inputs) (simp_all add: step)
qed

theorem process_fault_absorbing_witness:
  "fold process_step bootAndStart (runtimeIn PS_Fault 7) = runtimeIn PS_Fault 7"
  by (rule process_fault_absorbing) (simp add: example_defs)

section \<open>End of the fermentation\<close>

text \<open>What the widened arithmetic of \<open>elapsedWithPrior\<close> computes: no step of it wraps.\<close>

lemma elapsedWithPrior_iff:
  assumes "start \<le> now"
  shows "elapsedWithPrior now start minutes seconds \<longleftrightarrow>
           unat minutes * 60 \<le> (unat now - unat start) div 1000 + unat seconds"
proof -
  have m: "unat (ucast minutes * 60 :: u64) = unat minutes * 60"
    using unat_u32_lt [of minutes]
    by (subst unat_mult_no_wrap) (simp_all add: unat_ucast_u32_u64)
  have e: "unat ((now - start) div 1000) = (unat now - unat start) div 1000"
    using assms by (simp add: unat_div unat_elapsed)
  have "unat ((now - start) div 1000) + unat (ucast seconds :: u64) < 18446744073709551616"
    using unat_u32_lt [of seconds] unat_u64_lt [of "now"] div_le_dividend [of "unat now" 1000]
    by (simp add: e unat_ucast_u32_u64)
  then have "unat ((now - start) div 1000 + ucast seconds) =
      (unat now - unat start) div 1000 + unat seconds"
    by (simp add: unat_add_no_wrap e unat_ucast_u32_u64)
  with m show ?thesis
    by (simp add: elapsedWithPrior_def word_le_nat_alt)
qed

text \<open>C17: an undisturbed fermentation ends exactly when the whole seconds elapsed in this boot
  plus the lower bound known from earlier boots reach the programmed minutes, neither earlier nor
  later, with no wrap-around for any clock value; it then goes to \<open>Cooling\<close>, or to \<open>Completed\<close> when
  the program has no cooling.\<close>

theorem process_fermentation_end:
  assumes "rt_state s = PS_Fermenting" and "runtimeShapeIsValid s" and "runtimeTimeIsValid s now"
    and "rt_transitionSequence s \<noteq> u32_max" and "validateProcessRunSnapshot p"
    and "snap_kind p = PK_Timed" and "snap_fermentationDurationMinutes p = Some m"
    and "\<not> sig_criticalFault signals" and "req_event request = PE_None"
  shows "let d = decideProcessTransition s (Some p) signals request now prior in
         (proposed d \<longleftrightarrow>
            unat m * 60 \<le> (unat now - unat (rt_stateEnteredAtMillis s)) div 1000 +
                          unat (prior_lowerBoundSeconds prior)) \<and>
         (proposed d \<longrightarrow>
            rt_state (dec_after d) =
              (if snap_completionMode p = CM_FinishWithoutCooling
               then PS_Completed else PS_Cooling))"
proof -
  have le: "rt_stateEnteredAtMillis s \<le> now"
    using assms(3) by (simp add: runtimeTimeIsValid_iff)
  have d: "decideProcessTransition s (Some p) signals request now prior =
      decideFermenting s p now prior"
    using assms by (simp add: decideProcessTransition_def decideAutomatic_def)
  show ?thesis
    using assms(4,7)
    by (auto simp: d decideFermenting_def completeTimedRun_def elapsedWithPrior_iff [OF le])
qed

theorem process_fermentation_end_witness:
  "proposed (decideProcessTransition (runtimeIn PS_Fermenting 1000) (Some yoghurtRun)
     quietSignals (requestOf PE_None) 28801000 noPriorBootPhaseElapsed) \<and>
   \<not> proposed (decideProcessTransition (runtimeIn PS_Fermenting 1000) (Some yoghurtRun)
     quietSignals (requestOf PE_None) 28800999 noPriorBootPhaseElapsed)"
proof -
  note end_at = process_fermentation_end
    [where p = yoghurtRun and s = "runtimeIn PS_Fermenting 1000" and signals = quietSignals
      and request = "requestOf PE_None" and prior = noPriorBootPhaseElapsed and m = 480]
  have h: "snap_kind yoghurtRun = PK_Timed"
    "snap_fermentationDurationMinutes yoghurtRun = Some 480"
    "rt_state (runtimeIn PS_Fermenting 1000) = PS_Fermenting"
    "rt_transitionSequence (runtimeIn PS_Fermenting 1000) \<noteq> u32_max"
    "\<not> sig_criticalFault quietSignals" "req_event (requestOf PE_None) = PE_None"
    "runtimeShapeIsValid (runtimeIn PS_Fermenting 1000)"
    by (simp_all add: example_defs runtime_iffs)
  have "runtimeTimeIsValid (runtimeIn PS_Fermenting 1000) 28801000"
    "runtimeTimeIsValid (runtimeIn PS_Fermenting 1000) 28800999"
    by (simp_all add: example_defs runtime_iffs)
  with h end_at [where now = 28801000] end_at [where now = 28800999] valid_yoghurtRun
  show ?thesis by (simp add: Let_def example_defs)
qed

section \<open>Precedence of the product wait\<close>

text \<open>An expired product wait wins over every request that arrives in the same tick, the
  confirmation of the insertion included: the run ends in \<open>Standby\<close> with the message that it was
  aborted.\<close>

theorem process_wait_expiry_wins:
  assumes "rt_state s = PS_WaitingForProduct" and "runtimeShapeIsValid s"
    and "runtimeTimeIsValid s now" and "rt_transitionSequence s \<noteq> u32_max"
    and "validateProcessRunSnapshot p" and "snap_preheatEnabled p"
    and "snap_maximumProductWaitMinutes p = Some m"
    and "unat m * 60 \<le> (unat now - unat (rt_stateEnteredAtMillis s)) div 1000 +
           unat (prior_lowerBoundSeconds prior)"
    and "\<not> sig_criticalFault signals"
  shows "let d = decideProcessTransition s (Some p) signals request now prior in
         proposed d \<and> dec_reason d = TR_ProductWaitExpired \<and>
         rt_state (dec_after d) = PS_Standby \<and> dec_messages d = [PM_RunAborted]"
proof -
  have le: "rt_stateEnteredAtMillis s \<le> now"
    using assms(3) by (simp add: runtimeTimeIsValid_iff)
  have el: "elapsedWithPrior now (rt_stateEnteredAtMillis s) m (prior_lowerBoundSeconds prior)"
    using assms(8) by (simp add: elapsedWithPrior_iff [OF le])
  have "decideProcessTransition s (Some p) signals request now prior =
      decideWaitingForProduct s p now prior"
    using assms el by (simp add: decideProcessTransition_def decideAutomatic_def)
  with assms el show ?thesis
    by (simp add: decideWaitingForProduct_def Let_def addMessage_def
        kMaximumTransitionMessages_def)
qed

theorem process_wait_expiry_wins_witness:
  "let d = decideProcessTransition (runtimeIn PS_WaitingForProduct 0) (Some preheatedRun)
             quietSignals (requestOf PE_ProductInsertedConfirmed) 1800000
             noPriorBootPhaseElapsed in
   proposed d \<and> dec_reason d = TR_ProductWaitExpired \<and>
   rt_state (dec_after d) = PS_Standby \<and> dec_messages d = [PM_RunAborted]"
  by (rule process_wait_expiry_wins [OF _ _ _ _ valid_preheatedRun, where m = 30])
    (simp_all add: example_defs runtime_iffs)

end
