(* ===== verification/Binary64.thy ===== *)
theory Binary64
  imports Prelude Complex_Main "HOL-Library.Log_Nat"
begin

text \<open>
  The C++ type \<open>double\<close> of the firmware: IEEE 754 binary64 with the default rounding mode, to
  nearest and ties to even. A finite value is the rational number it denotes, so that \<open>+0.0\<close> and
  \<open>-0.0\<close>, which every comparison and every sum of the modelled code treats alike, are one value;
  the sign of a zero is only visible to a division by zero, which the modelled code never makes.
  Every operation computes the exact rational result and rounds it once.
\<close>

datatype f64 = F64_NaN | F64_Inf bool | F64 rat
  \<comment> \<open>\<open>F64_Inf True\<close> is negative infinity.\<close>

section \<open>Rounding\<close>

text \<open>The power of two with an integer exponent.\<close>

definition pow2 :: "int \<Rightarrow> rat" where
  "pow2 e = 2 powi e"

text \<open>Binary exponent of a positive rational: the greatest \<open>e\<close> with \<open>pow2 e \<le> q\<close>.\<close>

definition ilog2 :: "rat \<Rightarrow> int" where
  "ilog2 q =
     (let (n, d) = quotient_of q;
          e = bitlen n - bitlen d
      in if pow2 e \<le> q then e else e - 1)"

definition roundHalfEven :: "rat \<Rightarrow> int" where
  "roundHalfEven x =
     (let f = \<lfloor>x\<rfloor>; r = x - of_int f
      in if r < 1 / 2 then f else if 1 / 2 < r then f + 1
         else if even f then f else f + 1)"

text \<open>
  A normal number has 53 significant bits and an exponent of the last bit of at least \<open>-1074\<close>,
  which is that of the subnormal numbers; a magnitude that rounds to \<open>2 ^ 1024\<close> or more overflows
  to infinity.
\<close>

definition ulpExponent :: "rat \<Rightarrow> int" where
  "ulpExponent q = max (ilog2 \<bar>q\<bar> - 52) (- 1074)"

definition roundRat :: "rat \<Rightarrow> rat" where
  "roundRat q =
     (if q = 0 then 0
      else of_int (roundHalfEven (q / pow2 (ulpExponent q))) * pow2 (ulpExponent q))"

definition round64 :: "rat \<Rightarrow> f64" where
  "round64 q = (let v = roundRat q in if \<bar>v\<bar> < 2 ^ 1024 then F64 v else F64_Inf (q < 0))"

section \<open>Operations\<close>

definition isfinite :: "f64 \<Rightarrow> bool" where
  "isfinite x = (case x of F64 _ \<Rightarrow> True | _ \<Rightarrow> False)"

fun fneg :: "f64 \<Rightarrow> f64" where
  "fneg F64_NaN = F64_NaN"
| "fneg (F64_Inf s) = F64_Inf (\<not> s)"
| "fneg (F64 q) = F64 (- q)"

fun fadd :: "f64 \<Rightarrow> f64 \<Rightarrow> f64" where
  "fadd (F64 a) (F64 b) = round64 (a + b)"
| "fadd (F64_Inf s) (F64 _) = F64_Inf s"
| "fadd (F64 _) (F64_Inf s) = F64_Inf s"
| "fadd (F64_Inf s) (F64_Inf t) = (if s = t then F64_Inf s else F64_NaN)"
| "fadd _ _ = F64_NaN"

definition fsub :: "f64 \<Rightarrow> f64 \<Rightarrow> f64" where
  "fsub x y = fadd x (fneg y)"

fun fmul :: "f64 \<Rightarrow> f64 \<Rightarrow> f64" where
  "fmul (F64 a) (F64 b) = round64 (a * b)"
| "fmul (F64_Inf s) (F64 b) = (if b = 0 then F64_NaN else F64_Inf (s \<noteq> (b < 0)))"
| "fmul (F64 a) (F64_Inf s) = (if a = 0 then F64_NaN else F64_Inf (s \<noteq> (a < 0)))"
| "fmul (F64_Inf s) (F64_Inf t) = F64_Inf (s \<noteq> t)"
| "fmul _ _ = F64_NaN"

text \<open>The C++ comparisons: every ordered comparison with a NaN is false.\<close>

fun flt :: "f64 \<Rightarrow> f64 \<Rightarrow> bool" where
  "flt (F64 a) (F64 b) = (a < b)"
| "flt (F64_Inf s) (F64 _) = s"
| "flt (F64 _) (F64_Inf s) = (\<not> s)"
| "flt (F64_Inf s) (F64_Inf t) = (s \<and> \<not> t)"
| "flt _ _ = False"

fun feq :: "f64 \<Rightarrow> f64 \<Rightarrow> bool" where
  "feq (F64 a) (F64 b) = (a = b)"
| "feq (F64_Inf s) (F64_Inf t) = (s = t)"
| "feq _ _ = False"

definition fle :: "f64 \<Rightarrow> f64 \<Rightarrow> bool" where
  "fle x y \<longleftrightarrow> flt x y \<or> feq x y"

text \<open>\<open>std::min\<close> and \<open>std::clamp\<close> as the standard library defines them.\<close>

definition fmin :: "f64 \<Rightarrow> f64 \<Rightarrow> f64" where
  "fmin a b = (if flt b a then b else a)"

definition fclamp :: "f64 \<Rightarrow> f64 \<Rightarrow> f64 \<Rightarrow> f64" where
  "fclamp v lo hi = (if flt v lo then lo else if flt hi v then hi else v)"

definition ffloor :: "f64 \<Rightarrow> f64" where
  "ffloor x = (case x of F64 a \<Rightarrow> round64 (of_int \<lfloor>a\<rfloor>) | y \<Rightarrow> y)"

text \<open>
  Conversions: \<open>static_cast<double>\<close> of a 64-bit integer rounds; \<open>static_cast<std::uint64_t>\<close> of
  a double truncates, and is undefined (\<open>None\<close>) unless the truncated value fits.
\<close>

definition f64_of_u64 :: "u64 \<Rightarrow> f64" where
  "f64_of_u64 w = round64 (of_nat (unat w))"

definition u64_of_f64 :: "f64 \<Rightarrow> u64 option" where
  "u64_of_f64 x =
     (case x of
        F64 a \<Rightarrow> (if - 1 < a \<and> a < 2 ^ 64
                  then Some (of_int (if 0 \<le> a then \<lfloor>a\<rfloor> else \<lceil>a\<rceil>)) else None)
      | _ \<Rightarrow> None)"

section \<open>Order\<close>

lemma flt_F64 [simp]: "flt (F64 a) (F64 b) \<longleftrightarrow> a < b"
  by simp

lemma fle_F64 [simp]: "fle (F64 a) (F64 b) \<longleftrightarrow> a \<le> b"
  by (auto simp: fle_def)

lemma isfinite_iff: "isfinite x \<longleftrightarrow> (\<exists>a. x = F64 a)"
  by (cases x) (auto simp: isfinite_def)

lemma isfinite_F64 [simp]: "isfinite (F64 a)"
  by (simp add: isfinite_def)

lemma fclamp_finite: "isfinite x \<Longrightarrow> a \<le> b \<Longrightarrow>
    \<exists>c. fclamp x (F64 a) (F64 b) = F64 c \<and> a \<le> c \<and> c \<le> b"
  by (cases x) (auto simp: fclamp_def isfinite_def)

section \<open>Rounding is exact on small integers and keeps the order\<close>

lemma pow2_pos [simp]: "0 < pow2 e"
  by (simp add: pow2_def)

lemma pow2_nonzero [simp]: "pow2 e \<noteq> 0"
  using pow2_pos [of e] by linarith

lemma pow2_add: "pow2 (a + b) = pow2 a * pow2 b"
  by (simp add: pow2_def power_int_add)

lemma pow2_of_nat: "pow2 (int n) = of_int (2 ^ n)"
  by (simp add: pow2_def)

lemma pow2_less_imp: "pow2 a < pow2 b \<Longrightarrow> a < b"
  unfolding pow2_def
  using power_int_increasing [of b a "2 :: rat"] by (meson linorder_not_le one_le_numeral)

lemma bitlen_pow2_bounds:
  assumes "0 < n"
  shows "pow2 (bitlen n - 1) \<le> of_int n" and "of_int n < pow2 (bitlen n)"
proof -
  from assms have b: "2 ^ nat (bitlen n - 1) \<le> n \<and> n < 2 ^ nat (bitlen n)"
    by (rule bitlen_bounds)
  have pos: "0 \<le> bitlen n - 1"
    using assms bitlen_nonneg [of n] bitlen_eq_zero_iff [of n] by linarith
  then have "pow2 (bitlen n - 1) = of_int (2 ^ nat (bitlen n - 1))"
    "pow2 (bitlen n) = of_int (2 ^ nat (bitlen n))"
    using pow2_of_nat [of "nat (bitlen n - 1)"] pow2_of_nat [of "nat (bitlen n)"] by simp_all
  with b show "pow2 (bitlen n - 1) \<le> of_int n" "of_int n < pow2 (bitlen n)"
    by (metis of_int_le_iff, metis of_int_less_iff)
qed

lemma ilog2_bounds:
  assumes "0 < q"
  shows "pow2 (ilog2 q) \<le> q \<and> q < pow2 (ilog2 q + 1)"
proof -
  obtain n d where nd: "quotient_of q = (n, d)" by fastforce
  then have d: "0 < d" and q: "q = of_int n / of_int d"
    by (rule quotient_of_denom_pos, rule quotient_of_div)
  with assms have n: "0 < n"
    by (simp add: zero_less_divide_iff)
  let ?e = "bitlen n - bitlen d"
  note bn = bitlen_pow2_bounds [OF n] and bd = bitlen_pow2_bounds [OF d]
  have rd: "0 < (of_int d :: rat)" using d by simp
  have "q < pow2 (?e + 1)"
  proof -
    have "(of_int n :: rat) < pow2 (?e + 1) * pow2 (bitlen d - 1)"
      using bn by (simp flip: pow2_add)
    also have "\<dots> \<le> pow2 (?e + 1) * of_int d"
      by (intro mult_left_mono) (use bd in \<open>auto simp: less_imp_le\<close>)
    finally show ?thesis using rd by (simp add: q divide_less_eq)
  qed
  moreover have "pow2 (?e - 1) \<le> q"
  proof -
    have "pow2 (?e - 1) * of_int d \<le> pow2 (?e - 1) * pow2 (bitlen d)"
      by (intro mult_left_mono) (use bd in \<open>auto simp: less_imp_le\<close>)
    also have "\<dots> = pow2 (bitlen n - 1)" by (simp flip: pow2_add)
    also have "\<dots> \<le> of_int n" by (rule bn)
    finally show ?thesis using rd by (simp add: q le_divide_eq)
  qed
  ultimately show ?thesis
    by (simp add: ilog2_def nd Let_def)
qed

lemma roundHalfEven_of_int [simp]: "roundHalfEven (of_int n) = n"
  by (simp add: roundHalfEven_def)

lemma roundHalfEven_le:
  assumes "x \<le> of_int n"
  shows "roundHalfEven x \<le> n"
proof (cases "\<lfloor>x\<rfloor> < n")
  case True
  then show ?thesis by (simp add: roundHalfEven_def Let_def)
next
  case False
  then have "of_int n \<le> x" by (simp add: not_less le_floor_iff)
  with assms have "x = of_int n" by simp
  then show ?thesis by simp
qed

lemma roundHalfEven_ge:
  assumes "of_int n \<le> x"
  shows "n \<le> roundHalfEven x"
proof -
  from assms have "n \<le> \<lfloor>x\<rfloor>" by (simp add: le_floor_iff)
  then show ?thesis by (simp add: roundHalfEven_def Let_def)
qed

text \<open>Below \<open>2 ^ 53\<close> the last bit of the significand is worth at most one.\<close>

lemma ulpExponent_nonpos:
  assumes "0 < q" and "q < 2 ^ 53"
  shows "ulpExponent q \<le> 0"
proof -
  have "pow2 (ilog2 q) < pow2 53"
    using ilog2_bounds [OF assms(1)] assms(2) by (simp add: pow2_def)
  then have "ilog2 q < 53" by (rule pow2_less_imp)
  with assms show ?thesis by (simp add: ulpExponent_def)
qed

lemma of_int_div_pow2: "e \<le> 0 \<Longrightarrow> of_int n / pow2 e = of_int (n * 2 ^ nat (- e))"
proof -
  assume "e \<le> 0"
  then obtain k where "e = - int k" by (metis nonpos_int_cases)
  then show ?thesis by (simp add: pow2_def power_int_minus field_simps)
qed

lemma roundRat_le:
  assumes "0 < q" and "q < 2 ^ 53" and "q \<le> of_int n"
  shows "roundRat q \<le> of_int n"
proof -
  let ?e = "ulpExponent q"
  have e: "?e \<le> 0" using assms by (intro ulpExponent_nonpos)
  have "q / pow2 ?e \<le> of_int n / pow2 ?e"
    using assms(3) by (intro divide_right_mono) (auto simp: less_imp_le)
  then have "roundHalfEven (q / pow2 ?e) \<le> n * 2 ^ nat (- ?e)"
    by (intro roundHalfEven_le) (simp add: of_int_div_pow2 [OF e])
  then have "of_int (roundHalfEven (q / pow2 ?e)) \<le> of_int n / pow2 ?e"
    by (simp only: of_int_div_pow2 [OF e] of_int_le_iff)
  then show ?thesis
    using assms(1) by (simp add: roundRat_def le_divide_eq)
qed

lemma roundRat_ge:
  assumes "0 < q" and "q < 2 ^ 53" and "of_int n \<le> q"
  shows "of_int n \<le> roundRat q"
proof -
  let ?e = "ulpExponent q"
  have e: "?e \<le> 0" using assms by (intro ulpExponent_nonpos)
  have "of_int n / pow2 ?e \<le> q / pow2 ?e"
    using assms(3) by (intro divide_right_mono) (auto simp: less_imp_le)
  then have "n * 2 ^ nat (- ?e) \<le> roundHalfEven (q / pow2 ?e)"
    by (intro roundHalfEven_ge) (simp add: of_int_div_pow2 [OF e])
  then have "of_int n / pow2 ?e \<le> of_int (roundHalfEven (q / pow2 ?e))"
    by (simp only: of_int_div_pow2 [OF e] of_int_le_iff)
  then show ?thesis
    using assms(1) by (simp add: roundRat_def divide_le_eq)
qed

lemma ilog2_pow2_53: "ilog2 (2 ^ 53) = 53"
proof -
  have p: "pow2 53 = 2 ^ 53" "pow2 54 = 2 ^ 54" by (simp_all add: pow2_def)
  have "pow2 (ilog2 (2 ^ 53)) < pow2 54" "pow2 53 < pow2 (ilog2 (2 ^ 53) + 1)"
    using ilog2_bounds [of "2 ^ 53"] unfolding p by simp_all
  then have "ilog2 (2 ^ 53) < 54" "53 < ilog2 (2 ^ 53) + 1"
    by (auto dest: pow2_less_imp)
  then show ?thesis by simp
qed

lemma roundRat_pow2_53: "roundRat (2 ^ 53) = 2 ^ 53"
proof -
  have "roundHalfEven (4503599627370496 :: rat) = 4503599627370496"
    using roundHalfEven_of_int [of 4503599627370496] by simp
  then show ?thesis
    using ilog2_pow2_53 by (simp add: roundRat_def ulpExponent_def pow2_def)
qed

text \<open>
  The two facts the components use: the rounding of a value between integers stays between them,
  and it is exact on an integer, up to \<open>2 ^ 53\<close>.
\<close>

lemma roundRat_between:
  assumes "of_int m \<le> q" and "q \<le> of_int n" and "0 \<le> m" and "n \<le> 2 ^ 53"
  shows "of_int m \<le> roundRat q" and "roundRat q \<le> of_int n"
proof -
  have q0: "0 \<le> q" using assms(1,3) by (meson of_int_0_le_iff order_trans)
  have qn: "q \<le> 2 ^ 53"
    using assms(2,4) by (metis of_int_le_iff of_int_numeral of_int_power order_trans)
  have "of_int m \<le> roundRat q \<and> roundRat q \<le> of_int n"
  proof (cases "q = 0 \<or> q = 2 ^ 53")
    case True
    then show ?thesis using assms(1,2) roundRat_pow2_53 by (auto simp: roundRat_def)
  next
    case False
    with q0 qn show ?thesis using assms(1,2) by (auto intro!: roundRat_le roundRat_ge)
  qed
  then show "of_int m \<le> roundRat q" "roundRat q \<le> of_int n" by simp_all
qed

lemma roundRat_of_int: "0 \<le> n \<Longrightarrow> n \<le> 2 ^ 53 \<Longrightarrow> roundRat (of_int n) = of_int n"
  by (rule antisym) (auto intro: roundRat_between)

lemma round64_between:
  assumes "of_int m \<le> q" and "q \<le> of_int n" and "0 \<le> m" and "n \<le> 2 ^ 53"
  shows "\<exists>v. round64 q = F64 v \<and> of_int m \<le> v \<and> v \<le> of_int n"
proof -
  note b = roundRat_between [OF assms]
  have "(0 :: rat) \<le> roundRat q"
    using b(1) assms(3) by (meson of_int_0_le_iff order_trans)
  moreover have "roundRat q \<le> 2 ^ 53"
    using b(2) assms(4) by (metis of_int_le_iff of_int_numeral of_int_power order_trans)
  moreover have "(2 :: rat) ^ 53 < 2 ^ 1024"
    by (rule power_strict_increasing) simp_all
  ultimately show ?thesis using b by (simp add: round64_def)
qed

lemma round64_of_int: "0 \<le> n \<Longrightarrow> n \<le> 2 ^ 53 \<Longrightarrow> round64 (of_int n) = F64 (of_int n)"
  using round64_between [of n "of_int n" n] by auto

lemma round64_of_nat: "n \<le> 2 ^ 53 \<Longrightarrow> round64 (of_nat n) = F64 (of_nat n)"
  using round64_of_int [of "int n"] by simp

lemma f64_of_u64_exact: "unat w \<le> 2 ^ 53 \<Longrightarrow> f64_of_u64 w = F64 (of_nat (unat w))"
  using round64_of_nat [of "unat w"] by (simp add: f64_of_u64_def)

section \<open>Rounding is monotone\<close>

lemma pow2_strict_mono: "a < b \<Longrightarrow> pow2 a < pow2 b"
  by (simp add: pow2_def power_int_strict_increasing)

lemma pow2_mono: "a \<le> b \<Longrightarrow> pow2 a \<le> pow2 b"
  by (simp add: pow2_def power_int_increasing)

lemma ilog2_eqI:
  assumes "pow2 k \<le> q" and "q < pow2 (k + 1)"
  shows "ilog2 q = k"
proof -
  have q: "0 < q" using assms(1) pow2_pos [of k] by linarith
  note b = ilog2_bounds [OF q]
  have "pow2 (ilog2 q) < pow2 (k + 1)" "pow2 k < pow2 (ilog2 q + 1)" using assms b by linarith+
  then show ?thesis by (auto dest!: pow2_less_imp)
qed

lemma ilog2_mono:
  assumes "0 < q" and "q \<le> r"
  shows "ilog2 q \<le> ilog2 r"
proof -
  have "pow2 (ilog2 q) < pow2 (ilog2 r + 1)"
    using ilog2_bounds [of q] ilog2_bounds [of r] assms by linarith
  then show ?thesis by (auto dest!: pow2_less_imp)
qed

text \<open>A power of two bounds the rounding of what it bounds.\<close>

lemma roundRat_scaled:
  "0 < q \<Longrightarrow> roundRat q = of_int (roundHalfEven (q / pow2 (ulpExponent q))) * pow2 (ulpExponent q)"
  by (simp add: roundRat_def)

lemma pow2_div: "e \<le> k \<Longrightarrow> pow2 k / pow2 e = of_int (2 ^ nat (k - e))"
  using pow2_add [of "k - e" e] pow2_of_nat [of "nat (k - e)"] by simp

lemma roundRat_le_pow2:
  assumes "0 < q" and "q \<le> pow2 k" and "ulpExponent q \<le> k"
  shows "roundRat q \<le> pow2 k"
proof -
  let ?e = "ulpExponent q"
  have "q / pow2 ?e \<le> pow2 k / pow2 ?e"
    using assms(2) by (intro divide_right_mono) (auto simp: less_imp_le)
  then have "roundHalfEven (q / pow2 ?e) \<le> 2 ^ nat (k - ?e)"
    by (intro roundHalfEven_le) (simp add: pow2_div [OF assms(3)])
  then have "of_int (roundHalfEven (q / pow2 ?e)) \<le> pow2 k / pow2 ?e"
    by (simp only: pow2_div [OF assms(3)] of_int_le_iff)
  then show ?thesis using assms(1) by (simp add: roundRat_scaled le_divide_eq)
qed

lemma roundRat_ge_pow2:
  assumes "0 < q" and "pow2 k \<le> q" and "ulpExponent q \<le> k"
  shows "pow2 k \<le> roundRat q"
proof -
  let ?e = "ulpExponent q"
  have "pow2 k / pow2 ?e \<le> q / pow2 ?e"
    using assms(2) by (intro divide_right_mono) (auto simp: less_imp_le)
  then have "2 ^ nat (k - ?e) \<le> roundHalfEven (q / pow2 ?e)"
    by (intro roundHalfEven_ge) (simp add: pow2_div [OF assms(3)])
  then have "pow2 k / pow2 ?e \<le> of_int (roundHalfEven (q / pow2 ?e))"
    by (simp only: pow2_div [OF assms(3)] of_int_le_iff)
  then show ?thesis using assms(1) by (simp add: roundRat_scaled divide_le_eq)
qed

lemma roundHalfEven_mono:
  assumes "x \<le> y"
  shows "roundHalfEven x \<le> roundHalfEven y"
proof (cases "\<lfloor>x\<rfloor> = \<lfloor>y\<rfloor>")
  case True
  with assms show ?thesis by (auto simp: roundHalfEven_def Let_def)
next
  case False
  then have "\<lfloor>x\<rfloor> + 1 \<le> \<lfloor>y\<rfloor>" using floor_mono [OF assms] by linarith
  moreover have "roundHalfEven x \<le> \<lfloor>x\<rfloor> + 1"
    by (rule roundHalfEven_le) linarith
  moreover have "\<lfloor>y\<rfloor> \<le> roundHalfEven y"
    by (rule roundHalfEven_ge) linarith
  ultimately show ?thesis by linarith
qed

lemma roundRat_mono:
  assumes "0 < q" and "q \<le> r"
  shows "roundRat q \<le> roundRat r"
proof -
  have r: "0 < r" using assms by linarith
  have l: "ilog2 q \<le> ilog2 r" by (rule ilog2_mono [OF assms])
  show ?thesis
  proof (cases "ulpExponent q = ulpExponent r")
    case True
    have "q / pow2 (ulpExponent r) \<le> r / pow2 (ulpExponent r)"
      using assms(2) by (intro divide_right_mono) (auto simp: less_imp_le)
    then have "roundHalfEven (q / pow2 (ulpExponent r)) \<le> roundHalfEven (r / pow2 (ulpExponent r))"
      by (rule roundHalfEven_mono)
    with assms(1) r True show ?thesis
      by (simp add: roundRat_scaled mult_right_mono less_imp_le)
  next
    case False
    let ?k = "ilog2 r"
    have u: "ulpExponent r = ?k - 52" "ilog2 q < ?k" "ulpExponent q \<le> ?k"
      using False l assms r by (auto simp: ulpExponent_def)
    have "q \<le> pow2 ?k"
      using ilog2_bounds [OF assms(1)] pow2_mono [of "ilog2 q + 1" ?k] u(2) by linarith
    then have "roundRat q \<le> pow2 ?k"
      using roundRat_le_pow2 [OF assms(1)] u(3) by blast
    also have "pow2 ?k \<le> roundRat r"
      using roundRat_ge_pow2 [OF r] ilog2_bounds [OF r] u(1) by simp
    finally show ?thesis .
  qed
qed

lemma roundRat_nonneg: "0 \<le> q \<Longrightarrow> 0 \<le> roundRat q"
  using roundHalfEven_ge [of 0 "q / pow2 (ulpExponent q)"]
  by (auto simp: roundRat_def less_imp_le intro!: mult_nonneg_nonneg)

end
