(* ===== verification/SensorTypes.thy ===== *)
theory SensorTypes
  imports Binary64
begin

text \<open>
  What a sensor role reports to the application (\<open>sensor_identity.hpp\<close>, \<open>sensor_quality.hpp\<close> and
  \<open>sensor_quality_snapshot.hpp\<close> of the device platform): the identity of the sensor, the quality
  of its last samples and the values and ages of the samples.
\<close>

section \<open>Identity\<close>

datatype SensorIdentity = SensorIdentity (identity_value: u64)

datatype SensorIdentityStatus = SIS_Success | SIS_ZeroIsNotAValidIdentity

record SensorIdentityCreateResult =
  sic_status :: SensorIdentityStatus
  sic_identity :: "SensorIdentity option"

definition createSensorIdentity :: "u64 \<Rightarrow> SensorIdentityCreateResult" where
  "createSensorIdentity v =
     (if v = 0 then \<lparr>sic_status = SIS_ZeroIsNotAValidIdentity, sic_identity = None\<rparr>
      else \<lparr>sic_status = SIS_Success, sic_identity = Some (SensorIdentity v)\<rparr>)"

section \<open>Quality\<close>

datatype SensorQuality = SQ_Valid | SQ_Stale | SQ_Failed

datatype SensorFaultReason =
    SFR_None
  | SFR_BusFault
  | SFR_CrcFault
  | SFR_MissingSample
  | SFR_KnownInvalidMeasurement
  | SFR_NonFinite
  | SFR_OutOfRange
  | SFR_RateOfChangeExceeded
  | SFR_IdentityMismatch

record SensorQualitySnapshot =
  sq_identity :: "SensorIdentity option"
  sq_quality :: SensorQuality
  sq_rawCelsius :: "f64 option"
  sq_correctedCelsius :: "f64 option"
  sq_filteredCelsius :: "f64 option"
  sq_appliedOffset :: "f64 option"
  sq_lastAcceptedSampleAgeMs :: "u64 option"
  sq_lastValidSampleAgeMs :: "u64 option"
  sq_lastFaultReason :: SensorFaultReason
  sq_consecutiveInvalidCount :: u16
  sq_recoveryProgressCount :: u16
  sq_changeRateCelsiusPerSecond :: "f64 option"

definition initialSensorQualitySnapshot :: SensorQualitySnapshot where
  "initialSensorQualitySnapshot =
     \<lparr>sq_identity = None, sq_quality = SQ_Stale, sq_rawCelsius = None,
      sq_correctedCelsius = None, sq_filteredCelsius = None, sq_appliedOffset = None,
      sq_lastAcceptedSampleAgeMs = None, sq_lastValidSampleAgeMs = None,
      sq_lastFaultReason = SFR_None, sq_consecutiveInvalidCount = 0,
      sq_recoveryProgressCount = 0, sq_changeRateCelsiusPerSecond = None\<rparr>"

end
