(* ===== verification/SensorSelection.thy ===== *)
theory SensorSelection
  imports DomainTypes SensorTypes ProcessStateMachine
begin

text \<open>
  The choice of the control sensor (\<open>sensor_selection_types.hpp\<close>, \<open>sensor_selection.hpp\<close>,
  \<open>sensor_selection.cpp\<close>): which of the product and the air sensor controls the run, whether the
  Peltier element may be driven at all, what a failed sensor does and how the product sensor comes
  back. \<open>applySensorSelectionDecision\<close> is the only operation; it takes the current view and a
  decision and returns a narrow mutation, here a record.
\<close>

section \<open>Types\<close>

datatype SensorSelectionPhase =
    SSP_NoActiveRun
  | SSP_NormalProduct
  | SSP_NormalAir
  | SSP_ProductFailureDetected
  | SSP_UserDecisionRequired
  | SSP_AirFallbackActive
  | SSP_ReturnValidationPending
  | SSP_SafeLocked
  | SSP_RestartRevalidationPending
  | SSP_other u8

datatype SensorPeltierPermission = SPP_Allowed | SPP_Blocked

record ReturnValidationRuntimeState =
  rv_enteredAtMonotonicMillis :: "u64 option"
  rv_lastObservedProfileRevision :: "u32 option"

definition initialReturnValidation :: ReturnValidationRuntimeState where
  "initialReturnValidation =
     \<lparr>rv_enteredAtMonotonicMillis = None, rv_lastObservedProfileRevision = None\<rparr>"

text \<open>The equality operators of the code compare every field: they are equality of the records.\<close>

record SensorSelectionRuntimeState =
  ssr_phase :: SensorSelectionPhase
  ssr_permission :: SensorPeltierPermission
  ssr_fallbackWaitStartedAt :: "u64 option"
  ssr_lastAppliedAt :: "u64 option"
  ssr_returnValidation :: ReturnValidationRuntimeState
  ssr_productReArmPending :: bool

definition initialSensorSelectionRuntime :: SensorSelectionRuntimeState where
  "initialSensorSelectionRuntime =
     \<lparr>ssr_phase = SSP_NoActiveRun, ssr_permission = SPP_Blocked,
      ssr_fallbackWaitStartedAt = None, ssr_lastAppliedAt = None,
      ssr_returnValidation = initialReturnValidation, ssr_productReArmPending = False\<rparr>"

datatype SensorSelectionProvenance =
    SPV_InitialSelection
  | SPV_FallbackActive
  | SPV_ReturnedToProduct
  | SPV_LegacyUnknown

datatype SensorSelectionDecisionCause =
    SDC_None
  | SDC_StartSelection
  | SDC_ProductFailureBlock
  | SDC_FallbackToAir
  | SDC_ManualUserFallback
  | SDC_AutomaticValidatedReturn
  | SDC_ManualUserReturn
  | SDC_RecoveryRevalidation
  | SDC_SafeStateEntry
  | SDC_ReturnValidationAborted

record PersistedSensorSelectionState =
  per_provenance :: SensorSelectionProvenance
  per_lastDecisionCause :: SensorSelectionDecisionCause
  per_lastDecisionRunRevision :: u32

definition initialPersistedSensorSelection :: PersistedSensorSelectionState where
  "initialPersistedSensorSelection =
     \<lparr>per_provenance = SPV_InitialSelection, per_lastDecisionCause = SDC_None,
      per_lastDecisionRunRevision = 0\<rparr>"

datatype SensorSelectionBlockReason =
    SBR_None
  | SBR_ProductSensorUnusable
  | SBR_AirSensorUnusable
  | SBR_CoolingSensorUnusable
  | SBR_SimultaneousFixedSensorFailure
  | SBR_CrossRoleEvidenceIndeterminate
  | SBR_PolicyWait
  | SBR_UserActionRequired
  | SBR_SafeStateRequired
  | SBR_RestartRevalidationRequired
  | SBR_InvalidContext

record SensorSelectionEvent =
  sse_beforeMode :: RunSensorMode
  sse_afterMode :: RunSensorMode
  sse_cause :: SensorSelectionDecisionCause
  sse_runRevision :: u32
  sse_monotonicMillis :: u64
  sse_utcUnixSeconds :: "64 word option"

record SensorSelectionNotice =
  ssn_cause :: SensorSelectionDecisionCause
  ssn_monotonicMillis :: u64
  ssn_runRevision :: u32
  ssn_activeMode :: RunSensorMode
  ssn_blockReason :: SensorSelectionBlockReason

datatype SensorSelectionUserAction =
    SUA_ContinueWithAir
  | SUA_ReturnToProduct
  | SUA_RecheckProduct
  | SUA_other u8

record SensorSelectionStateView =
  ssv_activeRunId :: string
  ssv_runtime :: SensorSelectionRuntimeState
  ssv_activeMode :: "RunSensorMode option"
  ssv_persisted :: "PersistedSensorSelectionState option"
  ssv_runRevision :: u32

datatype SensorSelectionApplyStatus =
    SAS_AppliedPersistentCandidate
  | SAS_AppliedRamOnly
  | SAS_NoChange
  | SAS_StaleDecision
  | SAS_InvalidDecision
  | SAS_TimeWentBackwards
  | SAS_CapacityReached
  | SAS_InvalidContext

record SensorSelectionStateMutation =
  ssm_status :: SensorSelectionApplyStatus
  ssm_runtime :: SensorSelectionRuntimeState
  ssm_activeMode :: "RunSensorMode option"
  ssm_persisted :: "PersistedSensorSelectionState option"
  ssm_resultingRunRevision :: u32
  ssm_event :: "SensorSelectionEvent option"
  ssm_notice :: "SensorSelectionNotice option"

datatype ThermalCompatibility = TC_Unavailable | TC_Compatible | TC_Incompatible | TC_Stale

record ThermalCompatibilityEvidence =
  tce_status :: ThermalCompatibility
  tce_profileRevision :: u32
  tce_evaluatedAt :: u64

record CrossRolePlausibilityContext =
  crp_phase :: ProcessState
  crp_evaluationMonotonicMillis :: u64
  crp_air :: SensorQualitySnapshot
  crp_product :: SensorQualitySnapshot
  crp_cooling :: SensorQualitySnapshot
  crp_direction :: AbstractControlDirection
  crp_controlDemandAgeMs :: "u64 option"
  crp_thermalCompatibility :: ThermalCompatibilityEvidence

record SensorSelectionProgramContext =
  spc_sensorPreference :: SensorPreference
  spc_policy :: ProductSensorFailurePolicy
  spc_returnStrategy :: ReturnStrategy
  spc_fallbackDelaySeconds :: "u32 option"

record SensorSelectionDecision =
  ssd_expected :: SensorSelectionStateView
  ssd_program :: SensorSelectionProgramContext
  ssd_plausibility :: CrossRolePlausibilityContext
  ssd_userAction :: "SensorSelectionUserAction option"

record RestartSensorSelectionRecommendation =
  rsr_runtime :: SensorSelectionRuntimeState
  rsr_activeMode :: RunSensorMode

section \<open>Evidence\<close>

definition usable :: "SensorQualitySnapshot \<Rightarrow> bool" where
  "usable s \<longleftrightarrow> sq_quality s = SQ_Valid"

definition checkedMillisFromSeconds :: "u32 \<Rightarrow> u64 option" where
  "checkedMillisFromSeconds seconds =
     (if u64_max div 1000 < (ucast seconds :: u64) then None else Some (ucast seconds * 1000))"

definition checkedAddMillis :: "u64 \<Rightarrow> u64 \<Rightarrow> u64 option" where
  "checkedAddMillis a b = (if u64_max - b < a then None else Some (a + b))"

definition thermalEvidenceStructurallyValid :: "CrossRolePlausibilityContext \<Rightarrow> bool" where
  "thermalEvidenceStructurallyValid ctx =
     (let evidence = crp_thermalCompatibility ctx in
      if tce_status evidence \<noteq> TC_Unavailable \<and> tce_profileRevision evidence = 0 then False
      else if crp_evaluationMonotonicMillis ctx < tce_evaluatedAt evidence then False
      else True)"

definition knownControlDirection :: "AbstractControlDirection \<Rightarrow> bool" where
  "knownControlDirection d =
     (case d of Dir_Heating \<Rightarrow> True | Dir_Cooling \<Rightarrow> True | Dir_Idle \<Rightarrow> True
      | Dir_Unknown \<Rightarrow> False | Dir_other _ \<Rightarrow> False)"

definition fullyPositiveReturnEvidence ::
  "CrossRolePlausibilityContext \<Rightarrow> bool \<Rightarrow> bool \<Rightarrow> bool \<Rightarrow> bool" where
  "fullyPositiveReturnEvidence ctx productValid airValid coolingValid \<longleftrightarrow>
     productValid \<and> airValid \<and> coolingValid \<and> knownControlDirection (crp_direction ctx) \<and>
     crp_controlDemandAgeMs ctx \<noteq> None \<and> thermalEvidenceStructurallyValid ctx \<and>
     tce_status (crp_thermalCompatibility ctx) = TC_Compatible"

definition definitivelyIncompatible :: "CrossRolePlausibilityContext \<Rightarrow> bool" where
  "definitivelyIncompatible ctx \<longleftrightarrow>
     thermalEvidenceStructurallyValid ctx \<and>
     tce_status (crp_thermalCompatibility ctx) = TC_Incompatible"

definition validRuntimeCombination :: "SensorSelectionRuntimeState \<Rightarrow> bool" where
  "validRuntimeCombination r =
     (if ssr_phase r = SSP_NoActiveRun then
        ssr_permission r = SPP_Blocked \<and> ssr_fallbackWaitStartedAt r = None \<and>
        ssr_lastAppliedAt r = None \<and>
        rv_enteredAtMonotonicMillis (ssr_returnValidation r) = None \<and>
        rv_lastObservedProfileRevision (ssr_returnValidation r) = None \<and>
        \<not> ssr_productReArmPending r
      else let mustBeBlocked =
          ssr_phase r = SSP_SafeLocked \<or> ssr_phase r = SSP_ProductFailureDetected \<or>
          ssr_phase r = SSP_UserDecisionRequired \<or>
          ssr_phase r = SSP_RestartRevalidationPending in
      if mustBeBlocked \<and> ssr_permission r \<noteq> SPP_Blocked then False
      else if rv_enteredAtMonotonicMillis (ssr_returnValidation r) \<noteq> None \<and>
              ssr_phase r \<noteq> SSP_ReturnValidationPending then False
      else if rv_lastObservedProfileRevision (ssr_returnValidation r) \<noteq> None \<and>
              ssr_phase r \<noteq> SSP_ReturnValidationPending \<and>
              ssr_phase r \<noteq> SSP_AirFallbackActive then False
      else if ssr_phase r \<noteq> SSP_ProductFailureDetected \<and>
              ssr_fallbackWaitStartedAt r \<noteq> None then False
      else if ssr_phase r \<noteq> SSP_AirFallbackActive \<and> ssr_productReArmPending r then False
      else True)"

section \<open>Proposals of the phase handlers\<close>

record Proposal =
  prp_runtime :: SensorSelectionRuntimeState
  prp_activeMode :: "RunSensorMode option"
  prp_cause :: SensorSelectionDecisionCause
  prp_blockReason :: SensorSelectionBlockReason
  prp_rejected :: bool
  prp_rejectionStatus :: SensorSelectionApplyStatus

text \<open>A proposal as its default initialisation leaves it, with the runtime and mode of the view.\<close>

definition proposalFrom :: "SensorSelectionStateView \<Rightarrow> Proposal" where
  "proposalFrom current =
     \<lparr>prp_runtime = ssv_runtime current, prp_activeMode = ssv_activeMode current,
      prp_cause = SDC_None, prp_blockReason = SBR_None, prp_rejected = False,
      prp_rejectionStatus = SAS_InvalidDecision\<rparr>"

definition reject :: "SensorSelectionApplyStatus \<Rightarrow> Proposal" where
  "reject status =
     \<lparr>prp_runtime = initialSensorSelectionRuntime, prp_activeMode = None,
      prp_cause = SDC_None, prp_blockReason = SBR_None, prp_rejected = True,
      prp_rejectionStatus = status\<rparr>"

definition fixedSensorBlockReason :: "bool \<Rightarrow> bool \<Rightarrow> SensorSelectionBlockReason" where
  "fixedSensorBlockReason airValid coolingValid =
     (if \<not> airValid \<and> \<not> coolingValid then SBR_SimultaneousFixedSensorFailure
      else if \<not> airValid then SBR_AirSensorUnusable else SBR_CoolingSensorUnusable)"

definition productReturnEligible :: "bool \<Rightarrow> bool \<Rightarrow> bool \<Rightarrow> bool" where
  "productReturnEligible productValid airValid coolingValid \<longleftrightarrow>
     productValid \<and> airValid \<and> coolingValid"

definition thermalEvidenceMalformed :: "CrossRolePlausibilityContext \<Rightarrow> bool" where
  "thermalEvidenceMalformed ctx \<longleftrightarrow> \<not> thermalEvidenceStructurallyValid ctx"

definition isContinueWithAirAction :: "SensorSelectionUserAction option \<Rightarrow> bool" where
  "isContinueWithAirAction action \<longleftrightarrow> action = Some SUA_ContinueWithAir"

section \<open>Phase handlers\<close>

definition evaluateNormalProduct ::
  "SensorSelectionStateView \<Rightarrow> SensorSelectionDecision \<Rightarrow> u64 \<Rightarrow> Proposal" where
  "evaluateNormalProduct current decision now =
     (if ssd_userAction decision \<noteq> None then reject SAS_InvalidDecision
      else let ctx = ssd_plausibility decision;
               airValid = usable (crp_air ctx);
               productValid = usable (crp_product ctx);
               coolingValid = usable (crp_cooling ctx);
               p = proposalFrom current;
               r = prp_runtime p in
      if \<not> airValid \<and> \<not> coolingValid then
        p\<lparr>prp_runtime := r\<lparr>ssr_phase := SSP_SafeLocked, ssr_permission := SPP_Blocked,
                            ssr_fallbackWaitStartedAt := None\<rparr>,
          prp_cause := SDC_SafeStateEntry,
          prp_blockReason := SBR_SimultaneousFixedSensorFailure\<rparr>
      else if \<not> productValid then
        (if spc_policy (ssd_program decision) = PFP_StopToSafeState then
           p\<lparr>prp_runtime := r\<lparr>ssr_phase := SSP_SafeLocked, ssr_permission := SPP_Blocked\<rparr>,
             prp_cause := SDC_SafeStateEntry,
             prp_blockReason := SBR_ProductSensorUnusable\<rparr>
         else let r = r\<lparr>ssr_permission := SPP_Blocked\<rparr>;
                  p = p\<lparr>prp_cause := SDC_ProductFailureBlock,
                        prp_blockReason := SBR_ProductSensorUnusable\<rparr> in
         if spc_policy (ssd_program decision) = PFP_WaitForUser then
           p\<lparr>prp_runtime := r\<lparr>ssr_phase := SSP_UserDecisionRequired,
                               ssr_fallbackWaitStartedAt := None\<rparr>\<rparr>
         else
           p\<lparr>prp_runtime := r\<lparr>ssr_phase := SSP_ProductFailureDetected,
                               ssr_fallbackWaitStartedAt := Some now\<rparr>\<rparr>)
      else if \<not> airValid \<or> \<not> coolingValid then
        (if ssr_permission (ssv_runtime current) = SPP_Allowed then
           p\<lparr>prp_runtime := r\<lparr>ssr_permission := SPP_Blocked\<rparr>,
             prp_cause := SDC_ProductFailureBlock,
             prp_blockReason := fixedSensorBlockReason airValid coolingValid\<rparr>
         else p)
      else if ssr_permission (ssv_runtime current) = SPP_Blocked then
        p\<lparr>prp_runtime := r\<lparr>ssr_permission := SPP_Allowed\<rparr>,
          prp_cause := SDC_RecoveryRevalidation\<rparr>
      else p)"

definition evaluateNormalAir ::
  "SensorSelectionStateView \<Rightarrow> SensorSelectionDecision \<Rightarrow> u64 \<Rightarrow> Proposal" where
  "evaluateNormalAir current decision now =
     (if ssd_userAction decision \<noteq> None then reject SAS_InvalidDecision
      else let ctx = ssd_plausibility decision;
               airValid = usable (crp_air ctx);
               coolingValid = usable (crp_cooling ctx);
               p = proposalFrom current;
               r = prp_runtime p;
               allValid = airValid \<and> coolingValid in
      if \<not> allValid \<and> ssr_permission (ssv_runtime current) = SPP_Allowed then
        p\<lparr>prp_runtime := r\<lparr>ssr_permission := SPP_Blocked\<rparr>,
          prp_cause := SDC_ProductFailureBlock,
          prp_blockReason := fixedSensorBlockReason airValid coolingValid\<rparr>
      else if allValid \<and> ssr_permission (ssv_runtime current) = SPP_Blocked then
        p\<lparr>prp_runtime := r\<lparr>ssr_permission := SPP_Allowed\<rparr>,
          prp_cause := SDC_RecoveryRevalidation\<rparr>
      else p)"

definition continueWithAirFromProductPhase ::
  "SensorSelectionStateView \<Rightarrow> SensorSelectionDecision \<Rightarrow> bool \<Rightarrow> bool \<Rightarrow> Proposal" where
  "continueWithAirFromProductPhase current decision airValid coolingValid =
     (let allowed = spc_sensorPreference (ssd_program decision) \<noteq> SPref_ProductRequired in
      if \<not> allowed \<or> \<not> airValid \<or> \<not> coolingValid then reject SAS_InvalidDecision
      else (proposalFrom current)
             \<lparr>prp_runtime := (ssv_runtime current)
                \<lparr>ssr_phase := SSP_AirFallbackActive, ssr_permission := SPP_Allowed,
                 ssr_fallbackWaitStartedAt := None\<rparr>,
              prp_activeMode := Some RSM_Air,
              prp_cause := SDC_ManualUserFallback\<rparr>)"

text \<open>The waiting period of the fallback: reached after the switch on the user action.\<close>

definition productFailureAutomatic ::
  "SensorSelectionStateView \<Rightarrow> SensorSelectionDecision \<Rightarrow> u64 \<Rightarrow> bool \<Rightarrow> bool \<Rightarrow> bool \<Rightarrow> Proposal"
  where
  "productFailureAutomatic current decision now airValid productValid coolingValid =
     (let p = proposalFrom current; r = prp_runtime p in
      if productValid then
        (if productReturnEligible productValid airValid coolingValid then
           p\<lparr>prp_runtime := r\<lparr>ssr_phase := SSP_NormalProduct, ssr_permission := SPP_Allowed,
                               ssr_fallbackWaitStartedAt := None\<rparr>,
             prp_cause := SDC_RecoveryRevalidation\<rparr>
         else p)
      else if spc_policy (ssd_program decision) \<noteq> PFP_FallbackToAirAfterTimeout then
        reject SAS_InvalidContext
      else case ssr_fallbackWaitStartedAt (ssv_runtime current) of
        None \<Rightarrow> reject SAS_InvalidContext
      | Some startedAt \<Rightarrow>
          (case Option.bind (spc_fallbackDelaySeconds (ssd_program decision))
                            checkedMillisFromSeconds of
             None \<Rightarrow> reject SAS_InvalidContext
           | Some delayMillis \<Rightarrow>
               (case checkedAddMillis startedAt delayMillis of
                  None \<Rightarrow> reject SAS_InvalidContext
                | Some deadline \<Rightarrow>
                    if now < deadline then p
                    else if \<not> airValid \<or> \<not> coolingValid then
                      p\<lparr>prp_runtime := r\<lparr>ssr_phase := SSP_SafeLocked,
                                          ssr_permission := SPP_Blocked,
                                          ssr_fallbackWaitStartedAt := None\<rparr>,
                        prp_cause := SDC_SafeStateEntry,
                        prp_blockReason := fixedSensorBlockReason airValid coolingValid\<rparr>
                    else
                      p\<lparr>prp_runtime := r\<lparr>ssr_phase := SSP_AirFallbackActive,
                                          ssr_permission := SPP_Allowed,
                                          ssr_fallbackWaitStartedAt := None\<rparr>,
                        prp_activeMode := Some RSM_Air,
                        prp_cause := SDC_FallbackToAir\<rparr>)))"

definition evaluateProductFailureDetected ::
  "SensorSelectionStateView \<Rightarrow> SensorSelectionDecision \<Rightarrow> u64 \<Rightarrow> Proposal" where
  "evaluateProductFailureDetected current decision now =
     (let ctx = ssd_plausibility decision;
          airValid = usable (crp_air ctx);
          productValid = usable (crp_product ctx);
          coolingValid = usable (crp_cooling ctx);
          p = proposalFrom current;
          r = prp_runtime p;
          isContinueWithAir = isContinueWithAirAction (ssd_userAction decision);
          automatic = productFailureAutomatic current decision now
                        airValid productValid coolingValid in
      if \<not> isContinueWithAir \<and> \<not> airValid \<and> \<not> coolingValid then
        p\<lparr>prp_runtime := r\<lparr>ssr_phase := SSP_SafeLocked, ssr_permission := SPP_Blocked,
                            ssr_fallbackWaitStartedAt := None\<rparr>,
          prp_cause := SDC_SafeStateEntry,
          prp_blockReason := SBR_SimultaneousFixedSensorFailure\<rparr>
      else case ssd_userAction decision of
        Some SUA_ContinueWithAir \<Rightarrow>
          continueWithAirFromProductPhase current decision airValid coolingValid
      | Some SUA_RecheckProduct \<Rightarrow>
          (if \<not> productValid then p
           else if productReturnEligible productValid airValid coolingValid then
             p\<lparr>prp_runtime := r\<lparr>ssr_phase := SSP_NormalProduct, ssr_permission := SPP_Allowed,
                                 ssr_fallbackWaitStartedAt := None\<rparr>,
               prp_cause := SDC_RecoveryRevalidation\<rparr>
           else p)
      | Some SUA_ReturnToProduct \<Rightarrow> reject SAS_InvalidDecision
      | Some (SUA_other _) \<Rightarrow> automatic
      | None \<Rightarrow> automatic)"

text \<open>
  Here the recheck on request and the automatic evaluation make the same proposal; it is
  written once.
\<close>

definition evaluateUserDecisionRequired ::
  "SensorSelectionStateView \<Rightarrow> SensorSelectionDecision \<Rightarrow> u64 \<Rightarrow> Proposal" where
  "evaluateUserDecisionRequired current decision now =
     (let ctx = ssd_plausibility decision;
          airValid = usable (crp_air ctx);
          productValid = usable (crp_product ctx);
          coolingValid = usable (crp_cooling ctx);
          p = proposalFrom current;
          r = prp_runtime p;
          isContinueWithAir = isContinueWithAirAction (ssd_userAction decision);
          recheck = (if productValid then
             p\<lparr>prp_runtime := r\<lparr>ssr_phase := SSP_NormalProduct, ssr_permission := SPP_Allowed\<rparr>,
               prp_cause := SDC_RecoveryRevalidation\<rparr>
           else p) in
      if \<not> isContinueWithAir \<and> (\<not> airValid \<or> \<not> coolingValid) then
        p\<lparr>prp_runtime := r\<lparr>ssr_phase := SSP_SafeLocked, ssr_permission := SPP_Blocked\<rparr>,
          prp_cause := SDC_SafeStateEntry,
          prp_blockReason := fixedSensorBlockReason airValid coolingValid\<rparr>
      else case ssd_userAction decision of
        Some SUA_ContinueWithAir \<Rightarrow>
          continueWithAirFromProductPhase current decision airValid coolingValid
      | Some SUA_RecheckProduct \<Rightarrow> recheck
      | Some SUA_ReturnToProduct \<Rightarrow> reject SAS_InvalidDecision
      | Some (SUA_other _) \<Rightarrow> recheck
      | None \<Rightarrow> recheck)"

text \<open>The automatic evaluation of the air fallback: what follows the switch on the user action.\<close>

definition airFallbackAutomatic ::
  "SensorSelectionStateView \<Rightarrow> SensorSelectionDecision \<Rightarrow> u64 \<Rightarrow> bool \<Rightarrow> Proposal" where
  "airFallbackAutomatic current decision now productValid =
     (let ctx = ssd_plausibility decision; p = proposalFrom current; r = prp_runtime p;
          revision = tce_profileRevision (crp_thermalCompatibility ctx) in
      if \<not> productValid then p\<lparr>prp_runtime := r\<lparr>ssr_productReArmPending := True\<rparr>\<rparr>
      else if spc_returnStrategy (ssd_program decision) =
              RSt_AutomaticValidatedReturnToProduct then
        (let observed = rv_lastObservedProfileRevision
                          (ssr_returnValidation (ssv_runtime current));
             profileChanged = observed = None \<or> observed \<noteq> Some revision in
         if profileChanged \<or> ssr_productReArmPending (ssv_runtime current) then
           (if thermalEvidenceMalformed ctx then reject SAS_InvalidContext
            else p\<lparr>prp_runtime := r\<lparr>ssr_phase := SSP_ReturnValidationPending,
                     ssr_returnValidation := (ssr_returnValidation r)
                       \<lparr>rv_enteredAtMonotonicMillis := Some now,
                        rv_lastObservedProfileRevision := Some revision\<rparr>,
                     ssr_productReArmPending := False\<rparr>\<rparr>)
         else p)
      else p)"

definition evaluateAirFallbackActive ::
  "SensorSelectionStateView \<Rightarrow> SensorSelectionDecision \<Rightarrow> u64 \<Rightarrow> Proposal" where
  "evaluateAirFallbackActive current decision now =
     (let ctx = ssd_plausibility decision;
          airValid = usable (crp_air ctx);
          productValid = usable (crp_product ctx);
          coolingValid = usable (crp_cooling ctx);
          p = proposalFrom current;
          r = prp_runtime p;
          isContinueWithAir = isContinueWithAirAction (ssd_userAction decision);
          automatic = airFallbackAutomatic current decision now productValid in
      if \<not> isContinueWithAir \<and> (\<not> airValid \<or> \<not> coolingValid) then
        p\<lparr>prp_runtime := r\<lparr>ssr_phase := SSP_SafeLocked, ssr_permission := SPP_Blocked,
                            ssr_returnValidation := initialReturnValidation,
                            ssr_productReArmPending := False\<rparr>,
          prp_cause := SDC_SafeStateEntry,
          prp_blockReason := fixedSensorBlockReason airValid coolingValid\<rparr>
      else case ssd_userAction decision of
        Some SUA_ContinueWithAir \<Rightarrow> reject SAS_InvalidDecision
      | Some SUA_ReturnToProduct \<Rightarrow>
          (if spc_returnStrategy (ssd_program decision) \<noteq> RSt_ManualReturnToProduct \<or>
              \<not> productValid then reject SAS_InvalidDecision
           else p\<lparr>prp_runtime := r\<lparr>ssr_phase := SSP_NormalProduct,
                                    ssr_permission := SPP_Allowed,
                                    ssr_returnValidation := initialReturnValidation,
                                    ssr_productReArmPending := False\<rparr>,
                  prp_activeMode := Some RSM_Product,
                  prp_cause := SDC_ManualUserReturn\<rparr>)
      | Some SUA_RecheckProduct \<Rightarrow>
          (if \<not> productValid then p
           else if spc_returnStrategy (ssd_program decision) \<noteq>
                   RSt_AutomaticValidatedReturnToProduct then p
           else if thermalEvidenceMalformed ctx then reject SAS_InvalidContext
           else if fullyPositiveReturnEvidence ctx productValid airValid coolingValid then
             p\<lparr>prp_runtime := r\<lparr>ssr_phase := SSP_NormalProduct, ssr_permission := SPP_Allowed,
                                 ssr_returnValidation := initialReturnValidation,
                                 ssr_productReArmPending := False\<rparr>,
               prp_activeMode := Some RSM_Product,
               prp_cause := SDC_AutomaticValidatedReturn\<rparr>
           else if definitivelyIncompatible ctx then p
           else
             p\<lparr>prp_runtime := r\<lparr>ssr_phase := SSP_ReturnValidationPending,
                 ssr_returnValidation := (ssr_returnValidation r)
                   \<lparr>rv_enteredAtMonotonicMillis := Some now,
                    rv_lastObservedProfileRevision :=
                      Some (tce_profileRevision (crp_thermalCompatibility ctx))\<rparr>\<rparr>\<rparr>)
      | Some (SUA_other _) \<Rightarrow> automatic
      | None \<Rightarrow> automatic)"

definition evaluateReturnValidationPending ::
  "SensorSelectionStateView \<Rightarrow> SensorSelectionDecision \<Rightarrow> u64 \<Rightarrow> Proposal" where
  "evaluateReturnValidationPending current decision now =
     (if ssd_userAction decision \<noteq> None then reject SAS_InvalidDecision
      else let ctx = ssd_plausibility decision;
               airValid = usable (crp_air ctx);
               productValid = usable (crp_product ctx);
               coolingValid = usable (crp_cooling ctx);
               p = proposalFrom current;
               r = prp_runtime p in
      if \<not> airValid \<or> \<not> coolingValid then
        p\<lparr>prp_runtime := r\<lparr>ssr_phase := SSP_SafeLocked, ssr_permission := SPP_Blocked,
                            ssr_returnValidation := initialReturnValidation,
                            ssr_productReArmPending := False\<rparr>,
          prp_cause := SDC_SafeStateEntry,
          prp_blockReason := fixedSensorBlockReason airValid coolingValid\<rparr>
      else if \<not> productValid \<or> definitivelyIncompatible ctx then
        (let r' = r\<lparr>ssr_phase := SSP_AirFallbackActive,
                    ssr_returnValidation := (ssr_returnValidation r)
                      \<lparr>rv_enteredAtMonotonicMillis := None\<rparr>\<rparr> in
         p\<lparr>prp_runtime := (if \<not> productValid then r'\<lparr>ssr_productReArmPending := True\<rparr> else r'),
           prp_cause := SDC_ReturnValidationAborted\<rparr>)
      else if thermalEvidenceMalformed ctx then reject SAS_InvalidContext
      else if fullyPositiveReturnEvidence ctx productValid airValid coolingValid then
        p\<lparr>prp_runtime := r\<lparr>ssr_phase := SSP_NormalProduct, ssr_permission := SPP_Allowed,
                            ssr_returnValidation := initialReturnValidation,
                            ssr_productReArmPending := False\<rparr>,
          prp_activeMode := Some RSM_Product,
          prp_cause := SDC_AutomaticValidatedReturn\<rparr>
      else p)"

definition evaluatePhase ::
  "SensorSelectionStateView \<Rightarrow> SensorSelectionDecision \<Rightarrow> u64 \<Rightarrow> Proposal" where
  "evaluatePhase current decision now =
     (case ssr_phase (ssv_runtime current) of
        SSP_NormalProduct \<Rightarrow> evaluateNormalProduct current decision now
      | SSP_NormalAir \<Rightarrow> evaluateNormalAir current decision now
      | SSP_ProductFailureDetected \<Rightarrow> evaluateProductFailureDetected current decision now
      | SSP_UserDecisionRequired \<Rightarrow> evaluateUserDecisionRequired current decision now
      | SSP_AirFallbackActive \<Rightarrow> evaluateAirFallbackActive current decision now
      | SSP_ReturnValidationPending \<Rightarrow> evaluateReturnValidationPending current decision now
      | SSP_SafeLocked \<Rightarrow>
          (if ssd_userAction decision \<noteq> None then reject SAS_InvalidDecision
           else proposalFrom current)
      | SSP_NoActiveRun \<Rightarrow> reject SAS_InvalidContext
      | SSP_RestartRevalidationPending \<Rightarrow> reject SAS_InvalidContext
      | SSP_other _ \<Rightarrow> reject SAS_InvalidContext)"

section \<open>The decision\<close>

definition rejectedMutation ::
  "SensorSelectionStateView \<Rightarrow> SensorSelectionApplyStatus \<Rightarrow> SensorSelectionStateMutation" where
  "rejectedMutation current status =
     \<lparr>ssm_status = status, ssm_runtime = ssv_runtime current,
      ssm_activeMode = ssv_activeMode current, ssm_persisted = ssv_persisted current,
      ssm_resultingRunRevision = ssv_runRevision current, ssm_event = None, ssm_notice = None\<rparr>"

definition persistedAfter ::
  "PersistedSensorSelectionState \<Rightarrow> SensorSelectionDecisionCause \<Rightarrow> u32 \<Rightarrow>
     PersistedSensorSelectionState" where
  "persistedAfter persisted cause revision =
     (let provenance =
        (case cause of
           SDC_FallbackToAir \<Rightarrow> SPV_FallbackActive
         | SDC_ManualUserFallback \<Rightarrow> SPV_FallbackActive
         | SDC_AutomaticValidatedReturn \<Rightarrow> SPV_ReturnedToProduct
         | SDC_ManualUserReturn \<Rightarrow> SPV_ReturnedToProduct
         | _ \<Rightarrow> per_provenance persisted) in
      persisted\<lparr>per_provenance := provenance, per_lastDecisionCause := cause,
                per_lastDecisionRunRevision := revision\<rparr>)"

definition persistentMutation ::
  "SensorSelectionStateView \<Rightarrow> Proposal \<Rightarrow> u64 \<Rightarrow> SensorSelectionStateMutation \<Rightarrow>
     SensorSelectionStateMutation" where
  "persistentMutation current proposal now mutation =
     (if ssv_runRevision current = u32_max then rejectedMutation current SAS_CapacityReached
      else let revision = ssv_runRevision current + 1;
               persisted = persistedAfter
                 (case ssv_persisted current of
                    None \<Rightarrow> initialPersistedSensorSelection | Some p \<Rightarrow> p)
                 (prp_cause proposal) revision;
               m = mutation\<lparr>ssm_resultingRunRevision := revision,
                            ssm_status := SAS_AppliedPersistentCandidate,
                            ssm_persisted := Some persisted\<rparr> in
      if prp_activeMode proposal \<noteq> ssv_activeMode current then
        (case (ssv_activeMode current, prp_activeMode proposal) of
           (Some beforeMode, Some afterMode) \<Rightarrow>
             m\<lparr>ssm_event := Some
                 \<lparr>sse_beforeMode = beforeMode, sse_afterMode = afterMode,
                  sse_cause = prp_cause proposal, sse_runRevision = revision,
                  sse_monotonicMillis = now, sse_utcUnixSeconds = None\<rparr>\<rparr>
         | _ \<Rightarrow> rejectedMutation current SAS_InvalidDecision)
      else
        m\<lparr>ssm_notice := Some
            \<lparr>ssn_cause = prp_cause proposal, ssn_monotonicMillis = now,
             ssn_runRevision = revision,
             ssn_activeMode =
               (case ssv_activeMode current of None \<Rightarrow> RSM_Product | Some mode \<Rightarrow> mode),
             ssn_blockReason = prp_blockReason proposal\<rparr>\<rparr>)"

text \<open>
  \<open>applySensorSelectionDecision\<close> in its two halves: what becomes of the proposal of the phase
  handler, and the checks that come before it.
\<close>

definition mutationOfProposal ::
  "SensorSelectionStateView \<Rightarrow> Proposal \<Rightarrow> u64 \<Rightarrow> SensorSelectionStateMutation" where
  "mutationOfProposal current proposal now =
     (if prp_rejected proposal then rejectedMutation current (prp_rejectionStatus proposal)
      else let changed = prp_runtime proposal \<noteq> ssv_runtime current \<or>
                         prp_activeMode proposal \<noteq> ssv_activeMode current;
               mutation =
                 \<lparr>ssm_status = SAS_InvalidDecision, ssm_runtime = prp_runtime proposal,
                  ssm_activeMode = prp_activeMode proposal,
                  ssm_persisted = ssv_persisted current,
                  ssm_resultingRunRevision = ssv_runRevision current,
                  ssm_event = None, ssm_notice = None\<rparr> in
      if \<not> changed then mutation\<lparr>ssm_status := SAS_NoChange\<rparr>
      else let mutation = mutation\<lparr>ssm_runtime := (prp_runtime proposal)
                            \<lparr>ssr_lastAppliedAt := Some now\<rparr>\<rparr> in
      if prp_cause proposal = SDC_None then mutation\<lparr>ssm_status := SAS_AppliedRamOnly\<rparr>
      else persistentMutation current proposal now mutation)"

definition staleDecision :: "SensorSelectionStateView \<Rightarrow> SensorSelectionDecision \<Rightarrow> bool" where
  "staleDecision current decision \<longleftrightarrow>
     ssv_activeRunId current \<noteq> ssv_activeRunId (ssd_expected decision) \<or>
     ssv_runtime current \<noteq> ssv_runtime (ssd_expected decision) \<or>
     ssv_activeMode current \<noteq> ssv_activeMode (ssd_expected decision) \<or>
     ssv_persisted current \<noteq> ssv_persisted (ssd_expected decision) \<or>
     ssv_runRevision current \<noteq> ssv_runRevision (ssd_expected decision)"

definition timeWentBackwards :: "SensorSelectionStateView \<Rightarrow> u64 \<Rightarrow> bool" where
  "timeWentBackwards current now =
     (case ssr_lastAppliedAt (ssv_runtime current) of
        None \<Rightarrow> False | Some applied \<Rightarrow> now < applied)"

definition applySensorSelectionDecision ::
  "SensorSelectionStateView \<Rightarrow> SensorSelectionDecision \<Rightarrow> u64 \<Rightarrow> SensorSelectionStateMutation" where
  "applySensorSelectionDecision current decision now =
     (if staleDecision current decision then rejectedMutation current SAS_StaleDecision
      else if \<not> validRuntimeCombination (ssv_runtime current) then
        rejectedMutation current SAS_InvalidDecision
      else if timeWentBackwards current now then
        rejectedMutation current SAS_TimeWentBackwards
      else mutationOfProposal current (evaluatePhase current decision now) now)"

section \<open>Recommendation after a restart\<close>

definition computeRestartSensorSelection ::
  "PersistedSensorSelectionState \<Rightarrow> RunSensorMode \<Rightarrow> SensorSelectionProgramContext \<Rightarrow>
     CrossRolePlausibilityContext \<Rightarrow> RestartSensorSelectionRecommendation" where
  "computeRestartSensorSelection persisted lastActiveMode program plausibility =
     (let r = initialSensorSelectionRuntime
                \<lparr>ssr_phase := SSP_RestartRevalidationPending, ssr_permission := SPP_Blocked\<rparr>;
          recommendation = \<lparr>rsr_runtime = r, rsr_activeMode = lastActiveMode\<rparr> in
      if (per_provenance persisted = SPV_FallbackActive \<and> lastActiveMode \<noteq> RSM_Air) \<or>
         (per_provenance persisted = SPV_ReturnedToProduct \<and> lastActiveMode \<noteq> RSM_Product)
      then recommendation
      else let airValid = usable (crp_air plausibility);
               productValid = usable (crp_product plausibility);
               coolingValid = usable (crp_cooling plausibility);
               modeAllowedByProgram =
                 (case spc_sensorPreference program of
                    SPref_ProductIfAvailableElseAir \<Rightarrow> True
                  | SPref_AirProductOptional \<Rightarrow> True
                  | SPref_ProductRequired \<Rightarrow> lastActiveMode = RSM_Product
                  | SPref_AirOnly \<Rightarrow> lastActiveMode = RSM_Air
                  | SPref_other _ \<Rightarrow> False) in
      if \<not> modeAllowedByProgram then recommendation
      else let fixedSensorsValid = airValid \<and> coolingValid;
               selectedSensorsValid =
                 fixedSensorsValid \<and> (lastActiveMode = RSM_Air \<or> productValid) in
      if \<not> selectedSensorsValid then recommendation
      else let r = r\<lparr>ssr_permission := SPP_Allowed,
                     ssr_lastAppliedAt := Some (crp_evaluationMonotonicMillis plausibility)\<rparr> in
      recommendation\<lparr>rsr_runtime :=
        (if lastActiveMode = RSM_Air then
           r\<lparr>ssr_phase := (if per_provenance persisted = SPV_FallbackActive
                          then SSP_AirFallbackActive else SSP_NormalAir)\<rparr>
         else r\<lparr>ssr_phase := SSP_NormalProduct\<rparr>)\<rparr>)"

end
