(* ===== verification/SensorProofs.thy ===== *)
theory SensorProofs
  imports SensorSelection
begin

text \<open>
  Lemmas on the sensor selection: a readable form of the validity of a runtime state, what each
  phase handler may propose (\<open>sound_proposal\<close>), the four outcomes of a decision (\<open>outcome\<close>), and
  the invariant of a run of decisions, with which the component interprets \<open>clocked_machine\<close>.
\<close>

section \<open>Well-formed runtime states\<close>

lemma valid_runtime_iff:
  "validRuntimeCombination r \<longleftrightarrow>
     (ssr_phase r = SSP_NoActiveRun \<longrightarrow>
        ssr_permission r = SPP_Blocked \<and> ssr_lastAppliedAt r = None) \<and>
     (ssr_phase r \<in> {SSP_SafeLocked, SSP_ProductFailureDetected, SSP_UserDecisionRequired,
                     SSP_RestartRevalidationPending} \<longrightarrow> ssr_permission r = SPP_Blocked) \<and>
     (rv_enteredAtMonotonicMillis (ssr_returnValidation r) \<noteq> None \<longrightarrow>
        ssr_phase r = SSP_ReturnValidationPending) \<and>
     (rv_lastObservedProfileRevision (ssr_returnValidation r) \<noteq> None \<longrightarrow>
        ssr_phase r \<in> {SSP_ReturnValidationPending, SSP_AirFallbackActive}) \<and>
     (ssr_fallbackWaitStartedAt r \<noteq> None \<longrightarrow> ssr_phase r = SSP_ProductFailureDetected) \<and>
     (ssr_productReArmPending r \<longrightarrow> ssr_phase r = SSP_AirFallbackActive)"
  by (cases "ssr_phase r") (auto simp: validRuntimeCombination_def Let_def)

lemma permission_not_Allowed [simp]: "p \<noteq> SPP_Allowed \<longleftrightarrow> p = SPP_Blocked"
  by (cases p) auto

lemma initialReturnValidation_sel [simp]:
  "rv_enteredAtMonotonicMillis initialReturnValidation = None"
  "rv_lastObservedProfileRevision initialReturnValidation = None"
  by (simp_all add: initialReturnValidation_def)

lemma proposalFrom_sel [simp]:
  "prp_runtime (proposalFrom v) = ssv_runtime v"
  "prp_activeMode (proposalFrom v) = ssv_activeMode v"
  "prp_cause (proposalFrom v) = SDC_None"
  "\<not> prp_rejected (proposalFrom v)"
  by (simp_all add: proposalFrom_def)

lemma reject_sel [simp]: "prp_rejected (reject s)" "prp_rejectionStatus (reject s) = s"
  by (simp_all add: reject_def)

lemma rejected_if [simp]:
  "prp_rejected (if b then p else q) \<longleftrightarrow> (if b then prp_rejected p else prp_rejected q)"
  by simp

section \<open>What a handler may propose\<close>

definition fixedUsable :: "SensorSelectionDecision \<Rightarrow> bool" where
  "fixedUsable d \<longleftrightarrow> usable (crp_air (ssd_plausibility d)) \<and> usable (crp_cooling (ssd_plausibility d))"

definition productUsable :: "SensorSelectionDecision \<Rightarrow> bool" where
  "productUsable d \<longleftrightarrow> usable (crp_product (ssd_plausibility d))"

definition allowedOnEvidence ::
  "SensorSelectionDecision \<Rightarrow> SensorSelectionRuntimeState \<Rightarrow> bool" where
  "allowedOnEvidence d r \<longleftrightarrow>
     (ssr_permission r = SPP_Allowed \<longrightarrow>
        fixedUsable d \<and> (ssr_phase r = SSP_NormalProduct \<longrightarrow> productUsable d))"

definition modeChangeExplained :: "SensorSelectionStateView \<Rightarrow> Proposal \<Rightarrow> bool" where
  "modeChangeExplained v p \<longleftrightarrow>
     (if prp_cause p \<in> {SDC_FallbackToAir, SDC_ManualUserFallback}
      then prp_activeMode p = Some RSM_Air
      else if prp_cause p \<in> {SDC_AutomaticValidatedReturn, SDC_ManualUserReturn}
      then prp_activeMode p = Some RSM_Product
      else prp_activeMode p = ssv_activeMode v)"

lemmas proposal_defs = allowedOnEvidence_def fixedUsable_def productUsable_def
  modeChangeExplained_def productReturnEligible_def isContinueWithAirAction_def

definition stranding :: "SensorSelectionStateView \<Rightarrow> SensorSelectionDecision \<Rightarrow> bool" where
  "stranding v d \<longleftrightarrow>
     ssr_phase (ssv_runtime v) = SSP_AirFallbackActive \<and>
     ssr_productReArmPending (ssv_runtime v) \<and> ssd_userAction d = Some SUA_RecheckProduct"

text \<open>
  A runtime state that is valid, but for the re-arm marker that a manual recheck leaves set in a
  pending return validation.
\<close>

definition validButMarker :: "SensorSelectionRuntimeState \<Rightarrow> bool" where
  "validButMarker r \<longleftrightarrow>
     validRuntimeCombination
       (if ssr_phase r = SSP_ReturnValidationPending then r\<lparr>ssr_productReArmPending := False\<rparr> else r)"

definition sound_proposal ::
  "SensorSelectionStateView \<Rightarrow> SensorSelectionDecision \<Rightarrow> Proposal \<Rightarrow> bool" where
  "sound_proposal v d p \<longleftrightarrow>
     (if prp_rejected p then prp_rejectionStatus p \<in> {SAS_InvalidDecision, SAS_InvalidContext}
      else
     allowedOnEvidence d (prp_runtime p) \<and> modeChangeExplained v p \<and>
     ssr_lastAppliedAt (prp_runtime p) = ssr_lastAppliedAt (ssv_runtime v) \<and>
     ssr_phase (prp_runtime p) \<noteq> SSP_NoActiveRun \<and>
     (if stranding v d then validButMarker (prp_runtime p)
      else validRuntimeCombination (prp_runtime p)))"

lemma sound_rejected [simp]:
  "s = SAS_InvalidDecision \<or> s = SAS_InvalidContext \<Longrightarrow> sound_proposal v d (reject s)"
  by (simp add: sound_proposal_def)


lemma valid_validButMarker: "validRuntimeCombination r \<Longrightarrow> validButMarker r"
  by (auto simp: validButMarker_def valid_runtime_iff)

lemmas sound_defs = sound_proposal_def proposal_defs valid_runtime_iff stranding_def
  validButMarker_def

lemma sound_normalProduct:
  assumes "validRuntimeCombination (ssv_runtime v)" "ssr_phase (ssv_runtime v) = SSP_NormalProduct"
  shows "sound_proposal v d (evaluateNormalProduct v d now)"
  using assms by (simp add: evaluateNormalProduct_def Let_def sound_defs)

lemma sound_normalAir:
  assumes "validRuntimeCombination (ssv_runtime v)" "ssr_phase (ssv_runtime v) = SSP_NormalAir"
  shows "sound_proposal v d (evaluateNormalAir v d now)"
  using assms by (simp add: evaluateNormalAir_def Let_def sound_defs)

lemma sound_continueWithAir:
  assumes "validRuntimeCombination (ssv_runtime v)"
    and "ssr_phase (ssv_runtime v) = SSP_ProductFailureDetected \<or>
         ssr_phase (ssv_runtime v) = SSP_UserDecisionRequired"
  shows "sound_proposal v d (continueWithAirFromProductPhase v d
           (usable (crp_air (ssd_plausibility d))) (usable (crp_cooling (ssd_plausibility d))))"
  using assms(2)
proof
  assume "ssr_phase (ssv_runtime v) = SSP_ProductFailureDetected"
  with assms(1) show ?thesis
    by (simp add: continueWithAirFromProductPhase_def Let_def sound_defs)
next
  assume "ssr_phase (ssv_runtime v) = SSP_UserDecisionRequired"
  with assms(1) show ?thesis
    by (simp add: continueWithAirFromProductPhase_def Let_def sound_defs)
qed

lemma sound_productFailureAutomatic:
  assumes "validRuntimeCombination (ssv_runtime v)"
    and "ssr_phase (ssv_runtime v) = SSP_ProductFailureDetected"
  shows "sound_proposal v d (productFailureAutomatic v d now
           (usable (crp_air (ssd_plausibility d))) (usable (crp_product (ssd_plausibility d)))
           (usable (crp_cooling (ssd_plausibility d))))"
  using assms
  by (simp add: productFailureAutomatic_def Let_def sound_defs split: option.split)


lemma sound_productFailure:
  assumes "validRuntimeCombination (ssv_runtime v)"
    and "ssr_phase (ssv_runtime v) = SSP_ProductFailureDetected"
  shows "sound_proposal v d (evaluateProductFailureDetected v d now)"
proof -
  note parts = sound_productFailureAutomatic [OF assms, of d "now"]
    sound_continueWithAir [OF assms(1) disjI1, OF assms(2), of d]
  have rest: "sound_proposal v d (proposalFrom v)"
    "productReturnEligible (usable (crp_product (ssd_plausibility d)))
       (usable (crp_air (ssd_plausibility d))) (usable (crp_cooling (ssd_plausibility d))) \<Longrightarrow>
     sound_proposal v d ((proposalFrom v)\<lparr>prp_runtime := (ssv_runtime v)
        \<lparr>ssr_phase := SSP_NormalProduct, ssr_permission := SPP_Allowed,
         ssr_fallbackWaitStartedAt := None\<rparr>, prp_cause := SDC_RecoveryRevalidation\<rparr>)"
    "sound_proposal v d ((proposalFrom v)\<lparr>prp_runtime := (ssv_runtime v)
        \<lparr>ssr_phase := SSP_SafeLocked, ssr_permission := SPP_Blocked,
         ssr_fallbackWaitStartedAt := None\<rparr>, prp_cause := SDC_SafeStateEntry,
         prp_blockReason := SBR_SimultaneousFixedSensorFailure\<rparr>)"
    using assms by (simp_all add: sound_defs)
  show ?thesis
    unfolding evaluateProductFailureDetected_def Let_def
    using parts rest by (auto split: option.split SensorSelectionUserAction.split)
qed

lemma sound_userDecision:
  assumes "validRuntimeCombination (ssv_runtime v)"
    and "ssr_phase (ssv_runtime v) = SSP_UserDecisionRequired"
  shows "sound_proposal v d (evaluateUserDecisionRequired v d now)"
proof -
  note parts = sound_continueWithAir [OF assms(1) disjI2, OF assms(2), of d]
  show ?thesis
  proof (cases "isContinueWithAirAction (ssd_userAction d)")
    case True
    with parts show ?thesis
      by (simp add: evaluateUserDecisionRequired_def Let_def isContinueWithAirAction_def)
  next
    case False
    with assms show ?thesis
      by (simp add: evaluateUserDecisionRequired_def Let_def sound_defs
          split: option.split SensorSelectionUserAction.split)
  qed
qed

lemma sound_airFallbackAutomatic:
  assumes "validRuntimeCombination (ssv_runtime v)"
    and "ssr_phase (ssv_runtime v) = SSP_AirFallbackActive" and "fixedUsable d"
  shows "sound_proposal v d (airFallbackAutomatic v d now p)"
  using assms by (simp add: airFallbackAutomatic_def Let_def sound_defs)

lemma sound_airFallback:
  assumes "validRuntimeCombination (ssv_runtime v)"
    and "ssr_phase (ssv_runtime v) = SSP_AirFallbackActive"
  shows "sound_proposal v d (evaluateAirFallbackActive v d now)"
proof (cases "fixedUsable d")
  case False
  with assms show ?thesis
    by (cases "isContinueWithAirAction (ssd_userAction d)")
      (simp_all add: evaluateAirFallbackActive_def Let_def sound_defs)
next
  case True
  note parts = sound_airFallbackAutomatic [OF assms True, of "now"]
  from True have a: "usable (crp_air (ssd_plausibility d))"
    "usable (crp_cooling (ssd_plausibility d))"
    by (simp_all add: fixedUsable_def)
  note unfolds = evaluateAirFallbackActive_def Let_def isContinueWithAirAction_def
  show ?thesis
  proof (cases "ssd_userAction d")
    case None
    with parts a show ?thesis by (simp add: unfolds)
  next
    case (Some act)
    show ?thesis
    proof (cases act)
      case SUA_ContinueWithAir
      with Some show ?thesis by (simp add: unfolds)
    next
      case SUA_ReturnToProduct
      with Some a assms show ?thesis by (simp add: unfolds) (simp add: sound_defs)
    next
      case SUA_RecheckProduct
      with Some a assms show ?thesis by (simp add: unfolds) (simp add: sound_defs)
    next
      case SUA_other
      with parts a Some show ?thesis by (simp add: unfolds)
    qed
  qed
qed

lemma sound_returnValidation:
  assumes "validRuntimeCombination (ssv_runtime v)"
    and "ssr_phase (ssv_runtime v) = SSP_ReturnValidationPending"
  shows "sound_proposal v d (evaluateReturnValidationPending v d now)"
  using assms by (simp add: evaluateReturnValidationPending_def Let_def sound_defs)

lemma sound_unchanged:
  assumes "validRuntimeCombination (ssv_runtime v)" "ssr_phase (ssv_runtime v) = SSP_SafeLocked"
  shows "sound_proposal v d (proposalFrom v)"
  using assms by (simp add: sound_defs)

lemma sound_phase:
  assumes "validRuntimeCombination (ssv_runtime v)"
  shows "sound_proposal v d (evaluatePhase v d now)"
proof (cases "ssr_phase (ssv_runtime v)")
  case SSP_SafeLocked
  with sound_unchanged [OF assms] show ?thesis
    by (simp add: evaluatePhase_def)
qed (simp_all add: evaluatePhase_def sound_normalProduct [OF assms] sound_normalAir [OF assms]
    sound_productFailure [OF assms] sound_userDecision [OF assms]
    sound_airFallback [OF assms] sound_returnValidation [OF assms])

section \<open>The four outcomes of a decision\<close>

definition kept :: "SensorSelectionApplyStatus \<Rightarrow> bool" where
  "kept st \<longleftrightarrow> st \<in> {SAS_AppliedPersistentCandidate, SAS_AppliedRamOnly, SAS_NoChange}"

lemma rejectedMutation_sel [simp]:
  "ssm_status (rejectedMutation v st) = st"
  "ssm_runtime (rejectedMutation v st) = ssv_runtime v"
  "ssm_activeMode (rejectedMutation v st) = ssv_activeMode v"
  "ssm_persisted (rejectedMutation v st) = ssv_persisted v"
  "ssm_resultingRunRevision (rejectedMutation v st) = ssv_runRevision v"
  "ssm_event (rejectedMutation v st) = None"
  "ssm_notice (rejectedMutation v st) = None"
  by (simp_all add: rejectedMutation_def)

text \<open>What a persistent mutation carries, with the proposal it comes from.\<close>

definition persistent_from ::
  "SensorSelectionStateView \<Rightarrow> Proposal \<Rightarrow> u64 \<Rightarrow> SensorSelectionStateMutation \<Rightarrow> bool" where
  "persistent_from v p t m \<longleftrightarrow>
     prp_cause p \<noteq> SDC_None \<and> ssv_runRevision v \<noteq> u32_max \<and>
     ssm_status m = SAS_AppliedPersistentCandidate \<and>
     ssm_runtime m = (prp_runtime p)\<lparr>ssr_lastAppliedAt := Some t\<rparr> \<and>
     ssm_activeMode m = prp_activeMode p \<and>
     ssm_persisted m = Some (persistedAfter
       (case ssv_persisted v of None \<Rightarrow> initialPersistedSensorSelection | Some q \<Rightarrow> q)
       (prp_cause p) (ssv_runRevision v + 1)) \<and>
     ssm_resultingRunRevision m = ssv_runRevision v + 1 \<and>
     (ssm_event m \<noteq> None \<longleftrightarrow> prp_activeMode p \<noteq> ssv_activeMode v) \<and>
     (ssm_notice m \<noteq> None \<longleftrightarrow> prp_activeMode p = ssv_activeMode v)"

lemma persistentMutation_cases:
  assumes "prp_cause p \<noteq> SDC_None"
    and "m0 = (rejectedMutation v st)\<lparr>ssm_runtime := (prp_runtime p)\<lparr>ssr_lastAppliedAt := Some t\<rparr>,
                ssm_activeMode := prp_activeMode p\<rparr>"
  shows "persistent_from v p t (persistentMutation v p t m0) \<or>
         (\<exists>st. persistentMutation v p t m0 = rejectedMutation v st \<and> \<not> kept st)"
proof (cases "ssv_runRevision v = u32_max \<or>
    (prp_activeMode p \<noteq> ssv_activeMode v \<and> (ssv_activeMode v = None \<or> prp_activeMode p = None))")
  case True
  then have "persistentMutation v p t m0 = rejectedMutation v SAS_CapacityReached \<or>
      persistentMutation v p t m0 = rejectedMutation v SAS_InvalidDecision"
    by (auto simp: persistentMutation_def Let_def split: option.split)
  then show ?thesis by (auto simp: kept_def)
next
  case False
  with assms have "persistent_from v p t (persistentMutation v p t m0)"
    by (auto simp: persistentMutation_def Let_def persistent_from_def)
  then show ?thesis ..
qed

text \<open>The outcome of a decision on a state, with the proposal that explains it.\<close>

inductive outcome ::
  "SensorSelectionStateView \<Rightarrow> SensorSelectionDecision \<Rightarrow> u64 \<Rightarrow> SensorSelectionStateMutation \<Rightarrow> bool"
  for v d t where
  rejected: "\<not> kept st \<Longrightarrow> outcome v d t (rejectedMutation v st)"
| unchanged: "validRuntimeCombination (ssv_runtime v) \<Longrightarrow> p = evaluatePhase v d t \<Longrightarrow>
    sound_proposal v d p \<Longrightarrow> \<not> prp_rejected p \<Longrightarrow> prp_runtime p = ssv_runtime v \<Longrightarrow>
    prp_activeMode p = ssv_activeMode v \<Longrightarrow> outcome v d t (rejectedMutation v SAS_NoChange)"
| ram: "validRuntimeCombination (ssv_runtime v) \<Longrightarrow> p = evaluatePhase v d t \<Longrightarrow>
    sound_proposal v d p \<Longrightarrow> \<not> prp_rejected p \<Longrightarrow> prp_cause p = SDC_None \<Longrightarrow>
    outcome v d t ((rejectedMutation v SAS_AppliedRamOnly)
      \<lparr>ssm_runtime := (prp_runtime p)\<lparr>ssr_lastAppliedAt := Some t\<rparr>,
       ssm_activeMode := prp_activeMode p\<rparr>)"
| persistent: "validRuntimeCombination (ssv_runtime v) \<Longrightarrow> p = evaluatePhase v d t \<Longrightarrow>
    sound_proposal v d p \<Longrightarrow> \<not> prp_rejected p \<Longrightarrow> persistent_from v p t m \<Longrightarrow> outcome v d t m"

lemma outcome_proposal:
  assumes v: "validRuntimeCombination (ssv_runtime v)"
  shows "outcome v d t (mutationOfProposal v (evaluatePhase v d t) t)"
proof -
  let ?p = "evaluatePhase v d t"
  note s = sound_phase [OF v, of d t]
  show ?thesis
  proof (cases "prp_rejected ?p")
    case True
    with s have "\<not> kept (prp_rejectionStatus ?p)"
      by (auto simp: sound_proposal_def kept_def)
    then show ?thesis
      using True by (simp add: mutationOfProposal_def outcome.rejected)
  next
    case r: False
    show ?thesis
    proof (cases "prp_runtime ?p = ssv_runtime v \<and> prp_activeMode ?p = ssv_activeMode v")
      case True
      then have "mutationOfProposal v ?p t = rejectedMutation v SAS_NoChange"
        using r by (simp add: mutationOfProposal_def rejectedMutation_def)
      with outcome.unchanged [OF v refl s r] True show ?thesis by simp
    next
      case changed: False
      show ?thesis
      proof (cases "prp_cause ?p = SDC_None")
        case True
        then have "mutationOfProposal v ?p t = (rejectedMutation v SAS_AppliedRamOnly)
            \<lparr>ssm_runtime := (prp_runtime ?p)\<lparr>ssr_lastAppliedAt := Some t\<rparr>,
             ssm_activeMode := prp_activeMode ?p\<rparr>"
          using r changed by (auto simp: mutationOfProposal_def rejectedMutation_def Let_def)
        with outcome.ram [OF v refl s r True] show ?thesis by simp
      next
        case False
        let ?m = "(rejectedMutation v SAS_InvalidDecision)
          \<lparr>ssm_runtime := (prp_runtime ?p)\<lparr>ssr_lastAppliedAt := Some t\<rparr>,
           ssm_activeMode := prp_activeMode ?p\<rparr>"
        have "mutationOfProposal v ?p t = persistentMutation v ?p t ?m"
          using r changed False by (auto simp: mutationOfProposal_def rejectedMutation_def Let_def)
        with persistentMutation_cases
          [OF False refl, where v = v and st = SAS_InvalidDecision and t = t]
        show ?thesis
          by (auto intro: outcome.rejected outcome.persistent [OF v refl s r])
      qed
    qed
  qed
qed

lemma outcome_apply: "outcome v d t (applySensorSelectionDecision v d t)"
  by (simp add: applySensorSelectionDecision_def outcome_proposal outcome.rejected kept_def)


section \<open>Runs of decisions\<close>

text \<open>A decision cycle: a fresh decision on the current view, and the view after its mutation.\<close>

record SensorInput =
  sin_program :: SensorSelectionProgramContext
  sin_plausibility :: CrossRolePlausibilityContext
  sin_userAction :: "SensorSelectionUserAction option"
  sin_now :: u64

definition sensor_decision ::
  "SensorInput \<Rightarrow> SensorSelectionStateView \<Rightarrow> SensorSelectionDecision" where
  "sensor_decision i v =
     \<lparr>ssd_expected = v, ssd_program = sin_program i, ssd_plausibility = sin_plausibility i,
      ssd_userAction = sin_userAction i\<rparr>"

definition afterMutation ::
  "SensorSelectionStateView \<Rightarrow> SensorSelectionStateMutation \<Rightarrow> SensorSelectionStateView" where
  "afterMutation v m =
     v\<lparr>ssv_runtime := ssm_runtime m, ssv_activeMode := ssm_activeMode m,
       ssv_persisted := ssm_persisted m, ssv_runRevision := ssm_resultingRunRevision m\<rparr>"

definition sensor_step :: "SensorInput \<Rightarrow> SensorSelectionStateView \<Rightarrow> SensorSelectionStateView" where
  "sensor_step i v = afterMutation v (applySensorSelectionDecision v (sensor_decision i v) (sin_now i))"

text \<open>
  The invariant of a run: the runtime state is valid up to that marker; no time stamp lies in the future; and the
  persisted provenance agrees with the active mode.
\<close>

definition provenanceMatches ::
  "PersistedSensorSelectionState option \<Rightarrow> RunSensorMode option \<Rightarrow> bool" where
  "provenanceMatches per mode \<longleftrightarrow>
     (\<forall>q. per = Some q \<longrightarrow>
        (per_provenance q = SPV_FallbackActive \<longrightarrow> mode = Some RSM_Air) \<and>
        (per_provenance q = SPV_ReturnedToProduct \<longrightarrow> mode = Some RSM_Product))"

definition sensor_inv :: "u64 \<Rightarrow> SensorSelectionStateView \<Rightarrow> bool" where
  "sensor_inv t v \<longleftrightarrow>
     validButMarker (ssv_runtime v) \<and>
     (\<forall>a. ssr_lastAppliedAt (ssv_runtime v) = Some a \<longrightarrow> a \<le> t) \<and>
     provenanceMatches (ssv_persisted v) (ssv_activeMode v)"

lemma valid_lastApplied [simp]:
  "ssr_phase r \<noteq> SSP_NoActiveRun \<Longrightarrow>
     validRuntimeCombination (r\<lparr>ssr_lastAppliedAt := x\<rparr>) \<longleftrightarrow> validRuntimeCombination r"
  by (simp add: validRuntimeCombination_def)

lemma validButMarker_lastApplied [simp]:
  "ssr_phase r \<noteq> SSP_NoActiveRun \<Longrightarrow>
     validButMarker (r\<lparr>ssr_lastAppliedAt := x\<rparr>) \<longleftrightarrow> validButMarker r"
  by (simp add: validButMarker_def validRuntimeCombination_def)

lemma sound_provenance:
  assumes "modeChangeExplained v p" and "provenanceMatches (ssv_persisted v) (ssv_activeMode v)"
  shows "prp_cause p = SDC_None \<Longrightarrow> provenanceMatches (ssv_persisted v) (prp_activeMode p)"
    and "provenanceMatches (Some (persistedAfter
      (case ssv_persisted v of None \<Rightarrow> initialPersistedSensorSelection | Some q \<Rightarrow> q)
      (prp_cause p) r)) (prp_activeMode p)"
proof -
  show "prp_cause p = SDC_None \<Longrightarrow> provenanceMatches (ssv_persisted v) (prp_activeMode p)"
    using assms by (simp add: modeChangeExplained_def)
  show "provenanceMatches (Some (persistedAfter
      (case ssv_persisted v of None \<Rightarrow> initialPersistedSensorSelection | Some q \<Rightarrow> q)
      (prp_cause p) r)) (prp_activeMode p)"
    using assms
    by (cases "ssv_persisted v"; cases "prp_cause p")
      (simp_all add: modeChangeExplained_def provenanceMatches_def persistedAfter_def
        initialPersistedSensorSelection_def)
qed

lemma sensor_inv_after:
  "sensor_inv t (afterMutation v m) \<longleftrightarrow>
     validButMarker (ssm_runtime m) \<and>
     (\<forall>a. ssr_lastAppliedAt (ssm_runtime m) = Some a \<longrightarrow> a \<le> t) \<and>
     provenanceMatches (ssm_persisted m) (ssm_activeMode m)"
  by (simp add: sensor_inv_def afterMutation_def)

lemma sound_proposalD:
  assumes "sound_proposal v d p" and "\<not> prp_rejected p"
  shows "allowedOnEvidence d (prp_runtime p)" "modeChangeExplained v p"
    "ssr_phase (prp_runtime p) \<noteq> SSP_NoActiveRun" "validButMarker (prp_runtime p)"
    "\<not> stranding v d \<Longrightarrow> validRuntimeCombination (prp_runtime p)"
  using assms valid_validButMarker
  by (cases "stranding v d"; simp add: sound_proposal_def)+

lemma sensor_inv_step:
  assumes inv: "sensor_inv t v" and le: "t \<le> sin_now i"
  shows "sensor_inv (sin_now i) (sensor_step i v)"
proof -
  let ?d = "sensor_decision i v" and ?t = "sin_now i"
  have keep: "sensor_inv ?t (afterMutation v (rejectedMutation v st))" for st
    using inv le by (auto simp: sensor_inv_after) (auto simp: sensor_inv_def)
  have pm: "provenanceMatches (ssv_persisted v) (ssv_activeMode v)"
    using inv by (simp add: sensor_inv_def)
  from outcome_apply [of v ?d ?t] show ?thesis
  proof cases
    case (ram p)
    note p = sound_proposalD [OF ram(4,5)]
    from p(3,4) sound_provenance(1) [OF p(2) pm ram(6)] show ?thesis
      by (simp add: sensor_step_def ram(1) sensor_inv_after)
  next
    case (persistent p)
    note p = sound_proposalD [OF persistent(3,4)]
    from p(3,4) sound_provenance(2) [OF p(2) pm] persistent(5) show ?thesis
      by (simp add: sensor_step_def persistent_from_def sensor_inv_after)
  qed (simp_all add: sensor_step_def keep)
qed

interpretation sensor_run: clocked_machine sensor_step sin_now sensor_inv
proof
  fix t t' v
  assume "sensor_inv t v" "t \<le> t'"
  then show "sensor_inv t' v" by (auto simp: sensor_inv_def)
qed (rule sensor_inv_step)

end
