(* ===== verification/SensorProperties.thy ===== *)
theory SensorProperties
  imports SensorProofs
begin

text \<open>
  The properties of the sensor selection, over the lemmas of \<open>SensorProofs\<close>, and the concrete
  decisions that witness their hypotheses.
\<close>

section \<open>Concrete inputs\<close>

definition snapshotOf :: "SensorQuality \<Rightarrow> SensorQualitySnapshot" where
  "snapshotOf q = initialSensorQualitySnapshot\<lparr>sq_quality := q\<rparr>"

definition evidenceOf ::
  "SensorQuality \<Rightarrow> SensorQuality \<Rightarrow> SensorQuality \<Rightarrow> ThermalCompatibility \<Rightarrow>
     CrossRolePlausibilityContext" where
  "evidenceOf air product cooling compatibility =
     \<lparr>crp_phase = PS_Fermenting, crp_evaluationMonotonicMillis = 900,
      crp_air = snapshotOf air, crp_product = snapshotOf product, crp_cooling = snapshotOf cooling,
      crp_direction = Dir_Heating, crp_controlDemandAgeMs = Some 10,
      crp_thermalCompatibility =
        \<lparr>tce_status = compatibility, tce_profileRevision = 3, tce_evaluatedAt = 800\<rparr>\<rparr>"

definition fallbackProgram :: "ReturnStrategy \<Rightarrow> SensorSelectionProgramContext" where
  "fallbackProgram strategy =
     \<lparr>spc_sensorPreference = SPref_ProductIfAvailableElseAir,
      spc_policy = PFP_FallbackToAirAfterTimeout, spc_returnStrategy = strategy,
      spc_fallbackDelaySeconds = Some 60\<rparr>"

definition viewIn ::
  "SensorSelectionPhase \<Rightarrow> SensorPeltierPermission \<Rightarrow> RunSensorMode \<Rightarrow> SensorSelectionStateView" where
  "viewIn phase permission mode =
     \<lparr>ssv_activeRunId = ''r1'',
      ssv_runtime = initialSensorSelectionRuntime\<lparr>ssr_phase := phase,
                      ssr_permission := permission, ssr_lastAppliedAt := Some 100\<rparr>,
      ssv_activeMode = Some mode, ssv_persisted = Some initialPersistedSensorSelection,
      ssv_runRevision = 5\<rparr>"

definition waitingView :: SensorSelectionStateView where
  "waitingView = (let v = viewIn SSP_ProductFailureDetected SPP_Blocked RSM_Product in
     v\<lparr>ssv_runtime := (ssv_runtime v)\<lparr>ssr_fallbackWaitStartedAt := Some 100\<rparr>\<rparr>)"

definition markedView :: SensorSelectionStateView where
  "markedView = (let v = viewIn SSP_AirFallbackActive SPP_Allowed RSM_Air in
     v\<lparr>ssv_runtime := (ssv_runtime v)\<lparr>ssr_productReArmPending := True\<rparr>\<rparr>)"

definition sensorInput ::
  "ReturnStrategy \<Rightarrow> CrossRolePlausibilityContext \<Rightarrow> SensorSelectionUserAction option \<Rightarrow> u64 \<Rightarrow>
     SensorInput" where
  "sensorInput strategy evidence action t =
     \<lparr>sin_program = fallbackProgram strategy, sin_plausibility = evidence,
      sin_userAction = action, sin_now = t\<rparr>"

lemmas sensor_example_defs = snapshotOf_def evidenceOf_def fallbackProgram_def viewIn_def
  waitingView_def markedView_def sensorInput_def initialSensorQualitySnapshot_def
  initialSensorSelectionRuntime_def initialPersistedSensorSelection_def
  initialReturnValidation_def

lemma blocked_phase:
  assumes "validButMarker r"
    and "ssr_phase r \<in> {SSP_SafeLocked, SSP_ProductFailureDetected, SSP_UserDecisionRequired,
           SSP_RestartRevalidationPending, SSP_NoActiveRun}"
  shows "ssr_permission r = SPP_Blocked"
  using assms
  by (cases "ssr_phase r") (simp_all add: validButMarker_def validRuntimeCombination_def split: if_splits)

section \<open>Permission\<close>

text \<open>C18: the Peltier element is only ever allowed on evidence: whenever a decision is kept, be it
  stored, applied in memory or without effect, and the resulting permission is \<open>Allowed\<close>, then the
  air and the cooling sensor are usable in this very decision, and in \<open>NormalProduct\<close> the product
  sensor is too.\<close>

theorem sensor_allowed_on_evidence:
  assumes "ssm_status (applySensorSelectionDecision v d t) \<in>
             {SAS_AppliedPersistentCandidate, SAS_AppliedRamOnly, SAS_NoChange}"
    and "ssr_permission (ssm_runtime (applySensorSelectionDecision v d t)) = SPP_Allowed"
  shows "usable (crp_air (ssd_plausibility d)) \<and> usable (crp_cooling (ssd_plausibility d)) \<and>
         (ssr_phase (ssm_runtime (applySensorSelectionDecision v d t)) = SSP_NormalProduct \<longrightarrow>
            usable (crp_product (ssd_plausibility d)))"
  using outcome_apply [of v d t] assms
  by cases (auto simp: kept_def persistent_from_def allowedOnEvidence_def fixedUsable_def
      productUsable_def dest: sound_proposalD(1))

theorem sensor_allowed_on_evidence_witness:
  "let i = sensorInput RSt_ManualReturnToProduct (evidenceOf SQ_Valid SQ_Valid SQ_Valid TC_Stale)
             None 1000;
       v = viewIn SSP_NormalProduct SPP_Blocked RSM_Product;
       d = sensor_decision i v in
   ssr_permission (ssm_runtime (applySensorSelectionDecision v d 1000)) = SPP_Allowed \<and>
   usable (crp_air (ssd_plausibility d)) \<and> usable (crp_cooling (ssd_plausibility d))"
proof -
  define i where "i = sensorInput RSt_ManualReturnToProduct
    (evidenceOf SQ_Valid SQ_Valid SQ_Valid TC_Stale) None 1000"
  define v where "v = viewIn SSP_NormalProduct SPP_Blocked RSM_Product"
  have "ssm_status (applySensorSelectionDecision v (sensor_decision i v) 1000) =
          SAS_AppliedPersistentCandidate"
    and a: "ssr_permission (ssm_runtime
      (applySensorSelectionDecision v (sensor_decision i v) 1000)) = SPP_Allowed"
    unfolding i_def v_def
    by (simp_all add: applySensorSelectionDecision_def staleDecision_def sensor_decision_def
        validRuntimeCombination_def timeWentBackwards_def evaluatePhase_def
        evaluateNormalProduct_def mutationOfProposal_def persistentMutation_def Let_def
        usable_def sensor_example_defs)
  then show ?thesis
    using sensor_allowed_on_evidence [of v "sensor_decision i v" 1000]
    by (simp add: Let_def i_def v_def)
qed

text \<open>In \<open>SafeLocked\<close> nothing that a decision can carry restores the permission or moves the
  selection: a whole run of decisions leaves the runtime state, the mode, the persisted state and
  the revision as they are. Only a new start leaves the phase.\<close>

theorem sensor_safe_locked_absorbing:
  assumes "ssr_phase (ssv_runtime v) = SSP_SafeLocked"
  shows "fold sensor_step inputs v = v"
proof -
  have "sensor_step i v = v" for i
    using assms
    by (simp add: sensor_step_def afterMutation_def applySensorSelectionDecision_def
        mutationOfProposal_def evaluatePhase_def)
  then show ?thesis by (induction inputs) simp_all
qed

theorem sensor_safe_locked_absorbing_witness:
  "fold sensor_step
     [sensorInput RSt_ManualReturnToProduct (evidenceOf SQ_Valid SQ_Valid SQ_Valid TC_Compatible)
        (Some SUA_ReturnToProduct) 1000,
      sensorInput RSt_ManualReturnToProduct (evidenceOf SQ_Valid SQ_Valid SQ_Valid TC_Compatible)
        None 2000]
     (viewIn SSP_SafeLocked SPP_Blocked RSM_Product) =
   viewIn SSP_SafeLocked SPP_Blocked RSM_Product"
  by (rule sensor_safe_locked_absorbing) (simp add: sensor_example_defs)

section \<open>Invariant of a run\<close>

text \<open>Along every run of decisions with a non-decreasing clock the runtime state stays a valid
  combination of phase, permission, timers and evidence (up to the re-arm marker in a pending
  return validation), no time stamp lies in the future, the persisted provenance names the active
  mode, and in every phase that has to be blocked the permission is \<open>Blocked\<close>.\<close>

theorem sensor_run_invariant:
  assumes "sensor_inv t v" and "ordered_from sin_now t inputs"
    and "w = fold sensor_step inputs v"
  shows "sensor_inv (last_time sin_now t inputs) w \<and>
         provenanceMatches (ssv_persisted w) (ssv_activeMode w) \<and>
         (ssr_phase (ssv_runtime w) \<in> {SSP_SafeLocked, SSP_ProductFailureDetected,
            SSP_UserDecisionRequired, SSP_RestartRevalidationPending, SSP_NoActiveRun} \<longrightarrow>
            ssr_permission (ssv_runtime w) = SPP_Blocked)"
proof -
  have w: "sensor_inv (last_time sin_now t inputs) w"
    using sensor_run.inv_run [OF assms(1,2)] assms(3) by simp
  then have "validButMarker (ssv_runtime w)" by (simp add: sensor_inv_def)
  from blocked_phase [OF this] w show ?thesis by (auto simp: sensor_inv_def)
qed

theorem sensor_run_invariant_witness:
  "let v = viewIn SSP_NormalProduct SPP_Allowed RSM_Product;
       inputs = [sensorInput RSt_ManualReturnToProduct
                   (evidenceOf SQ_Valid SQ_Failed SQ_Valid TC_Stale) None 1000,
                 sensorInput RSt_ManualReturnToProduct
                   (evidenceOf SQ_Valid SQ_Failed SQ_Valid TC_Stale) None 61000] in
   sensor_inv 61000 (fold sensor_step inputs v)"
proof -
  let ?i = "sensorInput RSt_ManualReturnToProduct
              (evidenceOf SQ_Valid SQ_Failed SQ_Valid TC_Stale) None"
  let ?v = "viewIn SSP_NormalProduct SPP_Allowed RSM_Product"
  have "sensor_inv 100 ?v"
    by (simp add: sensor_inv_def validButMarker_def validRuntimeCombination_def
        provenanceMatches_def sensor_example_defs)
  moreover have "ordered_from sin_now 100 [?i 1000, ?i 61000]"
    by (simp add: sensorInput_def)
  ultimately have "sensor_inv (last_time sin_now 100 [?i 1000, ?i 61000])
      (fold sensor_step [?i 1000, ?i 61000] ?v)"
    by (rule sensor_run_invariant [OF _ _ refl, THEN conjunct1])
  moreover have "last_time sin_now 100 [?i 1000, ?i 61000] = 61000"
    by (simp add: sensorInput_def)
  ultimately show ?thesis unfolding Let_def by (simp only:)
qed

section \<open>Revisions\<close>

text \<open>The run revision counts exactly the persistent decisions: a decision raises it by one,
  never wrapping, if and only if it is a candidate to be stored, the stored state then names that
  revision, and the decision reports either a change of mode or a notice, not both. Every other
  decision keeps revision and stored state and reports nothing.\<close>

theorem sensor_revision_counts:
  shows "let m = applySensorSelectionDecision v d t in
         if ssm_status m = SAS_AppliedPersistentCandidate
         then unat (ssm_resultingRunRevision m) = Suc (unat (ssv_runRevision v)) \<and>
              (\<exists>q. ssm_persisted m = Some q \<and>
                   per_lastDecisionRunRevision q = ssm_resultingRunRevision m) \<and>
              (ssm_event m \<noteq> None) = (ssm_activeMode m \<noteq> ssv_activeMode v) \<and>
              (ssm_notice m \<noteq> None) = (ssm_activeMode m = ssv_activeMode v)
         else ssm_resultingRunRevision m = ssv_runRevision v \<and>
              ssm_persisted m = ssv_persisted v \<and> ssm_event m = None \<and> ssm_notice m = None"
  using outcome_apply [of v d t]
  by cases (auto simp: Let_def kept_def persistent_from_def unat_Suc_word persistedAfter_def)

section \<open>Fallback to the air sensor\<close>

lemma checkedMillis_unat:
  "\<exists>ms. checkedMillisFromSeconds n = Some ms \<and> unat ms = unat n * 1000"
proof -
  have m: "unat (ucast n * 1000 :: u64) = unat n * 1000"
    using unat_u32_lt [of n] by (subst unat_mult_no_wrap) (simp_all add: unat_ucast_u32_u64)
  have "unat (u64_max div 1000) = 18446744073709551"
    by (simp add: unat_div unat_u64_max)
  then have "\<not> u64_max div 1000 < (ucast n :: u64)"
    using unat_u32_lt [of n] by (simp add: word_less_nat_alt unat_ucast_u32_u64)
  then show ?thesis by (simp add: checkedMillisFromSeconds_def m)
qed

lemma checkedAdd_unat:
  "checkedAddMillis a b =
     (if unat a + unat b < 18446744073709551616 then Some (a + b) else None)"
proof -
  have "unat (u64_max - b) = 18446744073709551615 - unat b"
    using unat_u64_lt [of b] by (subst unat_sub_le) (simp_all add: unat_u64_max word_le_nat_alt)
  then show ?thesis
    using unat_u64_lt [of b] by (auto simp: checkedAddMillis_def word_less_nat_alt)
qed

text \<open>After a product failure under the fallback policy, with the air and the cooling sensor
  usable, control moves to the air sensor exactly when the waiting period has passed, neither
  earlier nor later; the element is then allowed again and the stored provenance says fallback.
  Before that nothing changes, and a deadline beyond the clock is refused, not wrapped.\<close>

theorem sensor_fallback_deadline:
  assumes "validRuntimeCombination (ssv_runtime v)" and "\<not> staleDecision v d"
    and "\<not> timeWentBackwards v t" and "ssv_runRevision v \<noteq> u32_max"
    and "ssr_phase (ssv_runtime v) = SSP_ProductFailureDetected"
    and "ssr_fallbackWaitStartedAt (ssv_runtime v) = Some s" and "ssv_activeMode v \<noteq> None"
    and "ssd_userAction d = None" and "spc_policy (ssd_program d) = PFP_FallbackToAirAfterTimeout"
    and "spc_fallbackDelaySeconds (ssd_program d) = Some n"
    and "usable (crp_air (ssd_plausibility d))" and "usable (crp_cooling (ssd_plausibility d))"
    and "\<not> usable (crp_product (ssd_plausibility d))"
  shows "let m = applySensorSelectionDecision v d t; deadline = unat s + unat n * 1000 in
         if 2 ^ 64 \<le> deadline then m = rejectedMutation v SAS_InvalidContext
         else if unat t < deadline then m = rejectedMutation v SAS_NoChange
         else ssr_phase (ssm_runtime m) = SSP_AirFallbackActive \<and>
              ssr_permission (ssm_runtime m) = SPP_Allowed \<and>
              ssm_activeMode m = Some RSM_Air \<and>
              (\<exists>q. ssm_persisted m = Some q \<and> per_provenance q = SPV_FallbackActive)"
proof -
  obtain ms where ms: "checkedMillisFromSeconds n = Some ms" "unat ms = unat n * 1000"
    using checkedMillis_unat by blast
  let ?p = "productFailureAutomatic v d t True False True"
  have p: "evaluatePhase v d t = ?p"
    using assms(5,8,11-13)
    by (simp add: evaluatePhase_def evaluateProductFailureDetected_def isContinueWithAirAction_def
        Let_def)
  have m: "applySensorSelectionDecision v d t = mutationOfProposal v ?p t"
    using assms(1-3) by (simp add: applySensorSelectionDecision_def p)
  consider (far) "2 ^ 64 \<le> unat s + unat n * 1000"
    | (early) "unat s + unat n * 1000 < 2 ^ 64" "unat t < unat s + unat n * 1000"
    | (due) "unat s + unat n * 1000 < 2 ^ 64" "\<not> unat t < unat s + unat n * 1000"
    by linarith
  then show ?thesis
  proof cases
    case far
    then have "?p = reject SAS_InvalidContext"
      using assms(6,9,10) ms by (simp add: productFailureAutomatic_def checkedAdd_unat)
    with far show ?thesis by (simp add: m mutationOfProposal_def)
  next
    case early
    then have "?p = proposalFrom v"
      using assms(6,9,10) ms
      by (simp add: productFailureAutomatic_def checkedAdd_unat Let_def word_less_nat_alt
          unat_add_no_wrap)
    with early show ?thesis by (simp add: m mutationOfProposal_def rejectedMutation_def Let_def)
  next
    case due
    then have "?p = (proposalFrom v)\<lparr>prp_runtime := (ssv_runtime v)
        \<lparr>ssr_phase := SSP_AirFallbackActive, ssr_permission := SPP_Allowed,
         ssr_fallbackWaitStartedAt := None\<rparr>, prp_activeMode := Some RSM_Air,
        prp_cause := SDC_FallbackToAir\<rparr>"
      using assms(6,9,10) ms
      by (simp add: productFailureAutomatic_def checkedAdd_unat Let_def word_less_nat_alt
          unat_add_no_wrap)
    moreover have "(ssv_runtime v)\<lparr>ssr_phase := SSP_AirFallbackActive,
        ssr_permission := SPP_Allowed, ssr_fallbackWaitStartedAt := None\<rparr> \<noteq> ssv_runtime v"
      using assms(5) by (auto dest: arg_cong [where f = ssr_phase])
    ultimately show ?thesis
      using due assms(4,7)
      by (auto simp: m mutationOfProposal_def persistentMutation_def persistedAfter_def Let_def)
  qed
qed

theorem sensor_fallback_deadline_witness:
  "ssr_phase (ssm_runtime (applySensorSelectionDecision waitingView
     (sensor_decision (sensorInput RSt_ManualReturnToProduct
        (evidenceOf SQ_Valid SQ_Failed SQ_Valid TC_Stale) None 60100) waitingView) 60100)) =
   SSP_AirFallbackActive"
proof -
  let ?d = "sensor_decision (sensorInput RSt_ManualReturnToProduct
        (evidenceOf SQ_Valid SQ_Failed SQ_Valid TC_Stale) None 60100) waitingView"
  have "let m = applySensorSelectionDecision waitingView ?d 60100;
            deadline = unat (100 :: u64) + unat (60 :: u32) * 1000 in
         if 2 ^ 64 \<le> deadline then m = rejectedMutation waitingView SAS_InvalidContext
         else if unat (60100 :: u64) < deadline then m = rejectedMutation waitingView SAS_NoChange
         else ssr_phase (ssm_runtime m) = SSP_AirFallbackActive \<and>
              ssr_permission (ssm_runtime m) = SPP_Allowed \<and>
              ssm_activeMode m = Some RSM_Air \<and>
              (\<exists>q. ssm_persisted m = Some q \<and> per_provenance q = SPV_FallbackActive)"
    by (rule sensor_fallback_deadline)
      (simp_all add: validRuntimeCombination_def staleDecision_def timeWentBackwards_def
        sensor_decision_def usable_def sensor_example_defs Let_def)
  then show ?thesis by (simp add: Let_def)
qed

section \<open>Return to the product sensor\<close>

lemma fullyPositive_iff:
  "fullyPositiveReturnEvidence ctx p a c \<longleftrightarrow>
     p \<and> a \<and> c \<and> crp_direction ctx \<in> {Dir_Heating, Dir_Cooling, Dir_Idle} \<and>
     crp_controlDemandAgeMs ctx \<noteq> None \<and>
     tce_status (crp_thermalCompatibility ctx) = TC_Compatible \<and>
     tce_profileRevision (crp_thermalCompatibility ctx) \<noteq> 0 \<and>
     tce_evaluatedAt (crp_thermalCompatibility ctx) \<le> crp_evaluationMonotonicMillis ctx"
  by (cases "crp_direction ctx")
    (auto simp: fullyPositiveReturnEvidence_def knownControlDirection_def
      thermalEvidenceStructurallyValid_def Let_def not_less)

lemma return_proposal:
  assumes "ssr_phase (ssv_runtime v) = SSP_AirFallbackActive \<or>
           ssr_phase (ssv_runtime v) = SSP_ReturnValidationPending"
    and "\<not> prp_rejected (evaluatePhase v d t)"
    and "ssr_phase (prp_runtime (evaluatePhase v d t)) = SSP_NormalProduct"
  shows "prp_activeMode (evaluatePhase v d t) = Some RSM_Product \<and>
     (ssd_userAction d = Some SUA_ReturnToProduct \<and>
        spc_returnStrategy (ssd_program d) = RSt_ManualReturnToProduct \<and>
        usable (crp_product (ssd_plausibility d)) \<and>
        usable (crp_air (ssd_plausibility d)) \<and> usable (crp_cooling (ssd_plausibility d)) \<or>
      fullyPositiveReturnEvidence (ssd_plausibility d) (usable (crp_product (ssd_plausibility d)))
        (usable (crp_air (ssd_plausibility d))) (usable (crp_cooling (ssd_plausibility d))))"
  using assms(1)
proof
  assume a: "ssr_phase (ssv_runtime v) = SSP_AirFallbackActive"
  show ?thesis
    using assms(2,3) a
    by (auto simp: evaluatePhase_def evaluateAirFallbackActive_def airFallbackAutomatic_def Let_def
        isContinueWithAirAction_def split: option.splits SensorSelectionUserAction.splits if_splits)
next
  assume a: "ssr_phase (ssv_runtime v) = SSP_ReturnValidationPending"
  show ?thesis
    using assms(2,3) a
    by (auto simp: evaluatePhase_def evaluateReturnValidationPending_def Let_def split: if_splits)
qed

text \<open>The product sensor takes control back only on full evidence: out of the air fallback or
  a pending validation, a run reaches \<open>NormalProduct\<close> only in a decision in which all three sensors
  are usable and either the user asked for it under the manual strategy, or the thermal evidence is
  compatible, from a real profile revision, not from the future, with a known direction and a
  demand age. The active mode is then the product.\<close>

theorem sensor_return_needs_evidence:
  assumes "ssr_phase (ssv_runtime v) \<in> {SSP_AirFallbackActive, SSP_ReturnValidationPending}"
    and "ssr_phase (ssm_runtime (applySensorSelectionDecision v d t)) = SSP_NormalProduct"
  shows "let ctx = ssd_plausibility d; evidence = crp_thermalCompatibility ctx in
         usable (crp_product ctx) \<and> usable (crp_air ctx) \<and> usable (crp_cooling ctx) \<and>
         ssm_activeMode (applySensorSelectionDecision v d t) = Some RSM_Product \<and>
         (ssd_userAction d = Some SUA_ReturnToProduct \<and>
            spc_returnStrategy (ssd_program d) = RSt_ManualReturnToProduct \<or>
          tce_status evidence = TC_Compatible \<and> tce_profileRevision evidence \<noteq> 0 \<and>
            tce_evaluatedAt evidence \<le> crp_evaluationMonotonicMillis ctx \<and>
            crp_direction ctx \<in> {Dir_Heating, Dir_Cooling, Dir_Idle} \<and>
            crp_controlDemandAgeMs ctx \<noteq> None)"
  using outcome_apply [of v d t]
proof cases
  case (ram p)
  with assms have p: "ssr_phase (prp_runtime (evaluatePhase v d t)) = SSP_NormalProduct"
    "\<not> prp_rejected (evaluatePhase v d t)" by simp_all
  from return_proposal [OF _ p(2,1)] assms(1) ram(1,3) show ?thesis
    by (auto simp: Let_def fullyPositive_iff)
next
  case (persistent p)
  with assms have p: "ssr_phase (prp_runtime (evaluatePhase v d t)) = SSP_NormalProduct"
    "\<not> prp_rejected (evaluatePhase v d t)" by (simp_all add: persistent_from_def)
  from return_proposal [OF _ p(2,1)] assms(1) persistent(2,5) show ?thesis
    by (auto simp: Let_def fullyPositive_iff persistent_from_def)
qed (use assms in auto)

definition returnDecision :: SensorSelectionDecision where
  "returnDecision = sensor_decision (sensorInput RSt_AutomaticValidatedReturnToProduct
     (evidenceOf SQ_Valid SQ_Valid SQ_Valid TC_Compatible) None 1000)
     (viewIn SSP_ReturnValidationPending SPP_Allowed RSM_Air)"

theorem sensor_return_needs_evidence_witness:
  "ssm_activeMode (applySensorSelectionDecision
     (viewIn SSP_ReturnValidationPending SPP_Allowed RSM_Air) returnDecision 1000) =
   Some RSM_Product"
proof -
  let ?v = "viewIn SSP_ReturnValidationPending SPP_Allowed RSM_Air"
  have "ssr_phase (ssm_runtime (applySensorSelectionDecision ?v returnDecision 1000)) =
      SSP_NormalProduct"
    by (simp add: returnDecision_def applySensorSelectionDecision_def staleDecision_def
        sensor_decision_def validRuntimeCombination_def timeWentBackwards_def evaluatePhase_def
        evaluateReturnValidationPending_def definitivelyIncompatible_def
        thermalEvidenceMalformed_def thermalEvidenceStructurallyValid_def fullyPositive_iff
        mutationOfProposal_def persistentMutation_def Let_def usable_def sensor_example_defs)
  then show ?thesis
    using sensor_return_needs_evidence [of ?v returnDecision 1000]
    by (simp add: Let_def viewIn_def)
qed

section \<open>Restart\<close>

text \<open>After a restart the recommendation allows the Peltier element exactly when the persisted
  provenance agrees with the last mode, the program allows that mode, and the sensors of the mode
  are usable now; otherwise it stays blocked until it is revalidated. Either way the recommended
  state satisfies the invariant of a run and keeps the last mode.\<close>

theorem sensor_restart_recommendation:
  shows "let rec = computeRestartSensorSelection per mode program ctx;
             r = rsr_runtime rec in
         (ssr_permission r = SPP_Allowed \<longleftrightarrow>
            provenanceMatches (Some per) (Some mode) \<and>
            (case spc_sensorPreference program of
               SPref_ProductRequired \<Rightarrow> mode = RSM_Product | SPref_AirOnly \<Rightarrow> mode = RSM_Air
             | SPref_other _ \<Rightarrow> False | _ \<Rightarrow> True) \<and>
            usable (crp_air ctx) \<and> usable (crp_cooling ctx) \<and>
            (mode \<noteq> RSM_Air \<longrightarrow> usable (crp_product ctx))) \<and>
         rsr_activeMode rec = mode \<and> validRuntimeCombination r \<and>
         ssr_phase r =
           (if ssr_permission r = SPP_Blocked then SSP_RestartRevalidationPending
            else if mode \<noteq> RSM_Air then SSP_NormalProduct
            else if per_provenance per = SPV_FallbackActive then SSP_AirFallbackActive
            else SSP_NormalAir)"
  by (cases mode; cases "spc_sensorPreference program"; cases "per_provenance per")
    (simp_all add: computeRestartSensorSelection_def provenanceMatches_def Let_def
      validRuntimeCombination_def initialSensorSelectionRuntime_def)

theorem sensor_restart_recommendation_witness:
  "ssr_phase (rsr_runtime (computeRestartSensorSelection
     (initialPersistedSensorSelection\<lparr>per_provenance := SPV_FallbackActive\<rparr>) RSM_Air
     (fallbackProgram RSt_ManualReturnToProduct)
     (evidenceOf SQ_Valid SQ_Failed SQ_Valid TC_Stale))) = SSP_AirFallbackActive"
proof -
  let ?per = "initialPersistedSensorSelection\<lparr>per_provenance := SPV_FallbackActive\<rparr>"
  let ?ctx = "evidenceOf SQ_Valid SQ_Failed SQ_Valid TC_Stale"
  have "usable (crp_air ?ctx)" "usable (crp_cooling ?ctx)"
    "spc_sensorPreference (fallbackProgram RSt_ManualReturnToProduct) =
       SPref_ProductIfAvailableElseAir"
    by (simp_all add: usable_def sensor_example_defs)
  with sensor_restart_recommendation [of ?per RSM_Air "fallbackProgram RSt_ManualReturnToProduct"
      ?ctx]
  show ?thesis by (simp add: Let_def provenanceMatches_def)
qed

section \<open>A recheck that strands the return validation\<close>

text \<open>C19: a defect of the code: when the product sensor failed during the air fallback and came back,
  a manual recheck with incomplete evidence enters the return validation without clearing the
  re-arm marker. The resulting state is not a valid combination, so that from then on no decision
  does anything: the permission stays \<open>Allowed\<close> also when the air and the cooling sensor fail.\<close>

theorem sensor_recheck_strands_selection:
  assumes "validRuntimeCombination (ssv_runtime v)" and "\<not> staleDecision v d"
    and "\<not> timeWentBackwards v t"
    and "ssr_phase (ssv_runtime v) = SSP_AirFallbackActive"
    and "ssr_permission (ssv_runtime v) = SPP_Allowed"
    and "ssr_productReArmPending (ssv_runtime v)"
    and "ssd_userAction d = Some SUA_RecheckProduct"
    and "spc_returnStrategy (ssd_program d) = RSt_AutomaticValidatedReturnToProduct"
    and "usable (crp_air (ssd_plausibility d))" and "usable (crp_cooling (ssd_plausibility d))"
    and "usable (crp_product (ssd_plausibility d))"
    and "thermalEvidenceStructurallyValid (ssd_plausibility d)"
    and "tce_status (crp_thermalCompatibility (ssd_plausibility d)) \<in> {TC_Unavailable, TC_Stale}"
    and "w = afterMutation v (applySensorSelectionDecision v d t)"
  shows "ssr_phase (ssv_runtime w) = SSP_ReturnValidationPending \<and>
         \<not> validRuntimeCombination (ssv_runtime w) \<and>
         (\<forall>inputs. fold sensor_step inputs w = w) \<and>
         ssr_permission (ssv_runtime w) = SPP_Allowed"
proof -
  let ?rev = "tce_profileRevision (crp_thermalCompatibility (ssd_plausibility d))"
  let ?r = "(ssv_runtime v)\<lparr>ssr_phase := SSP_ReturnValidationPending,
     ssr_returnValidation := (ssr_returnValidation (ssv_runtime v))
       \<lparr>rv_enteredAtMonotonicMillis := Some t, rv_lastObservedProfileRevision := Some ?rev\<rparr>\<rparr>"
  have p: "evaluatePhase v d t = (proposalFrom v)\<lparr>prp_runtime := ?r\<rparr>"
    using assms(4,7-13)
    by (auto simp: evaluatePhase_def evaluateAirFallbackActive_def isContinueWithAirAction_def
        Let_def thermalEvidenceMalformed_def fullyPositive_iff definitivelyIncompatible_def)
  have "?r \<noteq> ssv_runtime v"
    using assms(4) by (auto dest: arg_cong [where f = ssr_phase])
  then have m: "ssm_runtime (applySensorSelectionDecision v d t) = ?r\<lparr>ssr_lastAppliedAt := Some t\<rparr>"
    using assms(1-3) by (simp add: applySensorSelectionDecision_def mutationOfProposal_def p Let_def)
  then have r: "ssv_runtime w = ?r\<lparr>ssr_lastAppliedAt := Some t\<rparr>"
    by (simp add: assms(14) afterMutation_def)
  then have nv: "\<not> validRuntimeCombination (ssv_runtime w)"
    using assms(6) by (simp add: validRuntimeCombination_def)
  then have "sensor_step i w = w" for i
    by (simp add: sensor_step_def afterMutation_def applySensorSelectionDecision_def)
  then have "fold sensor_step inputs w = w" for inputs by (induction inputs) simp_all
  with nv r assms(5) show ?thesis by simp
qed

theorem sensor_recheck_strands_selection_witness:
  "let i = sensorInput RSt_AutomaticValidatedReturnToProduct
             (evidenceOf SQ_Valid SQ_Valid SQ_Valid TC_Stale) (Some SUA_RecheckProduct) 1000;
       w = sensor_step i markedView;
       failed = sensorInput RSt_AutomaticValidatedReturnToProduct
                  (evidenceOf SQ_Failed SQ_Failed SQ_Failed TC_Stale) None 2000 in
   ssr_permission (ssv_runtime (sensor_step failed w)) = SPP_Allowed"
proof -
  let ?i = "sensorInput RSt_AutomaticValidatedReturnToProduct
             (evidenceOf SQ_Valid SQ_Valid SQ_Valid TC_Stale) (Some SUA_RecheckProduct) 1000"
  let ?f = "sensorInput RSt_AutomaticValidatedReturnToProduct
                  (evidenceOf SQ_Failed SQ_Failed SQ_Failed TC_Stale) None 2000"
  let ?w = "afterMutation markedView
     (applySensorSelectionDecision markedView (sensor_decision ?i markedView) 1000)"
  have "ssr_phase (ssv_runtime ?w) = SSP_ReturnValidationPending \<and>
         \<not> validRuntimeCombination (ssv_runtime ?w) \<and>
         (\<forall>inputs. fold sensor_step inputs ?w = ?w) \<and>
         ssr_permission (ssv_runtime ?w) = SPP_Allowed"
    by (rule sensor_recheck_strands_selection [OF _ _ _ _ _ _ _ _ _ _ _ _ _ refl])
      (simp_all add: validRuntimeCombination_def staleDecision_def timeWentBackwards_def
        sensor_decision_def usable_def thermalEvidenceStructurallyValid_def sensor_example_defs
        Let_def)
  moreover have "sensor_step ?i markedView = ?w"
    by (simp add: sensor_step_def sensorInput_def)
  moreover have "fold sensor_step [?f] ?w = sensor_step ?f ?w" by simp
  ultimately show ?thesis unfolding Let_def by metis
qed

end
