(* ===== verification/StorageCodec.thy ===== *)
theory StorageCodec
  imports Prelude
begin

text \<open>
  Bytes on the wire: the bounded writer and reader of \<open>byte_buffer.hpp\<close>, the big-endian integers
  of \<open>big_endian_codec.hpp\<close>, the addition of sizes of \<open>checked_size.hpp\<close>, the CRC-32 of
  \<open>crc32.cpp\<close>, and the counters of \<open>storage_types.hpp\<close>.

  A \<open>std::string\<close> of raw bytes is a list of \<open>u8\<close>. Sizes and positions are natural numbers: every
  addition of sizes in this code is guarded (\<open>checkedAddSize\<close>) or bounded by the size of a string
  that exists. A signed integer is an \<open>int\<close>; it goes over the wire as the word of its two's
  complement. The callers pass arrays and strings, never a null pointer with a positive length, so
  the null branch of \<open>writeBytes\<close>, \<open>readBytes\<close> and \<open>update\<close> has no counterpart.
\<close>

type_synonym bytes = "u8 list"

unbundle bit_operations_syntax

section \<open>Writer and reader\<close>

record ByteWriter =
  bw_capacity :: nat
  bw_buffer :: bytes

definition newWriter :: "nat \<Rightarrow> ByteWriter" where
  "newWriter capacity = \<lparr>bw_capacity = capacity, bw_buffer = []\<rparr>"

definition writeBytes :: "bytes \<Rightarrow> ByteWriter \<Rightarrow> bool \<times> ByteWriter" where
  "writeBytes data w =
     (if length data = 0 then (True, w)
      else if bw_capacity w - length (bw_buffer w) < length data then (False, w)
      else (True, w\<lparr>bw_buffer := bw_buffer w @ data\<rparr>))"

definition writeByte :: "u8 \<Rightarrow> ByteWriter \<Rightarrow> bool \<times> ByteWriter" where
  "writeByte v w = writeBytes [v] w"

text \<open>\<open>ok = ok && write(...)\<close>: the next write happens only while all before it succeeded.\<close>

definition andThen ::
  "bool \<times> ByteWriter \<Rightarrow> (ByteWriter \<Rightarrow> bool \<times> ByteWriter) \<Rightarrow> bool \<times> ByteWriter" where
  "andThen a f = (if fst a then f (snd a) else a)"

record ByteReader =
  rd_bytes :: bytes
  rd_position :: nat

definition newReader :: "bytes \<Rightarrow> ByteReader" where
  "newReader bs = \<lparr>rd_bytes = bs, rd_position = 0\<rparr>"

definition remaining :: "ByteReader \<Rightarrow> nat" where
  "remaining r = length (rd_bytes r) - rd_position r"

text \<open>A read gives the value, or nothing, and the reader after it.\<close>

type_synonym 'a read = "ByteReader \<Rightarrow> 'a option \<times> ByteReader"

definition readBytes :: "nat \<Rightarrow> bytes read" where
  "readBytes n r =
     (if n = 0 then (Some [], r)
      else if length (rd_bytes r) - rd_position r < n then (None, r)
      else (Some (take n (drop (rd_position r) (rd_bytes r))),
            r\<lparr>rd_position := rd_position r + n\<rparr>))"

definition readByte :: "u8 read" where
  "readByte r =
     (case readBytes 1 r of
        (Some bs, r) \<Rightarrow> (Some (bs ! 0), r)
      | (None, r) \<Rightarrow> (None, r))"

section \<open>Big-endian integers\<close>

definition writeUint8 :: "u8 \<Rightarrow> ByteWriter \<Rightarrow> bool \<times> ByteWriter" where
  "writeUint8 v w = writeByte v w"

definition writeUint16 :: "u16 \<Rightarrow> ByteWriter \<Rightarrow> bool \<times> ByteWriter" where
  "writeUint16 v w = writeBytes [ucast (drop_bit 8 v), ucast v] w"

definition writeUint32 :: "u32 \<Rightarrow> ByteWriter \<Rightarrow> bool \<times> ByteWriter" where
  "writeUint32 v w =
     writeBytes [ucast (drop_bit 24 v), ucast (drop_bit 16 v), ucast (drop_bit 8 v), ucast v] w"

definition writeUint64 :: "u64 \<Rightarrow> ByteWriter \<Rightarrow> bool \<times> ByteWriter" where
  "writeUint64 v w =
     writeBytes
       [ucast (drop_bit 56 v), ucast (drop_bit 48 v), ucast (drop_bit 40 v), ucast (drop_bit 32 v),
        ucast (drop_bit 24 v), ucast (drop_bit 16 v), ucast (drop_bit 8 v), ucast v] w"

definition writeInt64 :: "int \<Rightarrow> ByteWriter \<Rightarrow> bool \<times> ByteWriter" where
  "writeInt64 v w = writeUint64 (word_of_int v) w"

definition writeBool :: "bool \<Rightarrow> ByteWriter \<Rightarrow> bool \<times> ByteWriter" where
  "writeBool v w = writeByte (if v then 1 else 0) w"

definition writeOptionalTag :: "bool \<Rightarrow> ByteWriter \<Rightarrow> bool \<times> ByteWriter" where
  "writeOptionalTag present w = writeByte (if present then 1 else 0) w"

text \<open>The value that a read makes of what it got.\<close>

definition mapRead :: "('a \<Rightarrow> 'b) \<Rightarrow> 'a read \<Rightarrow> 'b read" where
  "mapRead f m r = (case m r of (Some a, r) \<Rightarrow> (Some (f a), r) | (None, r) \<Rightarrow> (None, r))"

definition readUint8 :: "u8 read" where
  "readUint8 r = readByte r"

definition readUint16 :: "u16 read" where
  "readUint16 = mapRead (\<lambda>b. push_bit 8 (ucast (b ! 0)) OR ucast (b ! 1)) (readBytes 2)"

definition readUint32 :: "u32 read" where
  "readUint32 =
     mapRead (\<lambda>b. push_bit 24 (ucast (b ! 0)) OR push_bit 16 (ucast (b ! 1)) OR
                 push_bit 8 (ucast (b ! 2)) OR ucast (b ! 3)) (readBytes 4)"

definition readUint64 :: "u64 read" where
  "readUint64 =
     mapRead (\<lambda>b. push_bit 56 (ucast (b ! 0)) OR push_bit 48 (ucast (b ! 1)) OR
                 push_bit 40 (ucast (b ! 2)) OR push_bit 32 (ucast (b ! 3)) OR
                 push_bit 24 (ucast (b ! 4)) OR push_bit 16 (ucast (b ! 5)) OR
                 push_bit 8 (ucast (b ! 6)) OR ucast (b ! 7)) (readBytes 8)"

text \<open>
  \<open>toTwosComplementSigned\<close> at 64 bits: the raw value up to the largest signed one is itself, a
  larger one counts from the smallest signed value.
\<close>

definition toTwosComplementSigned :: "u64 \<Rightarrow> int" where
  "toTwosComplementSigned raw =
     (let signedMax = 0x7FFFFFFFFFFFFFFF in
      if raw \<le> signedMax then uint raw
      else uint (raw - signedMax - 1) + (- (2 ^ 63)))"

definition readInt64 :: "int read" where
  "readInt64 = mapRead toTwosComplementSigned readUint64"

definition readBool :: "bool read" where
  "readBool r =
     (case readUint8 r of
        (None, r) \<Rightarrow> (None, r)
      | (Some raw, r) \<Rightarrow> if raw \<noteq> 0 \<and> raw \<noteq> 1 then (None, r) else (Some (raw = 1), r))"

definition readOptionalTag :: "bool read" where
  "readOptionalTag r = readBool r"

section \<open>Sizes and counters\<close>

definition checkedAddSize :: "nat \<Rightarrow> nat \<Rightarrow> nat \<Rightarrow> nat option" where
  "checkedAddSize a b maxAllowed =
     (if maxAllowed < a \<or> maxAllowed < b then None
      else if maxAllowed - b < a then None
      else Some (a + b))"

datatype CheckedIncrementStatus = CIS_Success | CIS_InvalidCurrentValue | CIS_Overflow

definition checkedIncrement :: "u64 \<Rightarrow> CheckedIncrementStatus \<times> u64 option" where
  "checkedIncrement raw =
     (if raw = 0 then (CIS_InvalidCurrentValue, None)
      else if raw = u64_max then (CIS_Overflow, None)
      else (CIS_Success, Some (raw + 1)))"

section \<open>CRC-32\<close>

definition crcBit :: "u32 \<Rightarrow> u32" where
  "crcBit crc = (if crc AND 1 \<noteq> 0 then 0xEDB88320 XOR drop_bit 1 crc else drop_bit 1 crc)"

definition crcTable :: "u32 list" where
  "crcTable = map (\<lambda>index. (crcBit ^^ 8) (of_nat index)) [0..<256]"

definition crcByte :: "u8 \<Rightarrow> u32 \<Rightarrow> u32" where
  "crcByte b crc =
     (let tableIndex = ucast ((crc XOR ucast b) AND 0xFF) :: u8 in
      crcTable ! unat tableIndex XOR drop_bit 8 crc)"

definition crcInitial :: u32 where
  "crcInitial = 0xFFFFFFFF"

definition crcUpdate :: "bytes \<Rightarrow> u32 \<Rightarrow> u32" where
  "crcUpdate data crc = fold crcByte data crc"

definition crcFinalize :: "u32 \<Rightarrow> u32" where
  "crcFinalize crc = crc XOR 0xFFFFFFFF"

definition computeCrc32IsoHdlc :: "bytes \<Rightarrow> u32" where
  "computeCrc32IsoHdlc data = crcFinalize (crcUpdate data crcInitial)"

end
