(* ===== verification/StorageCodecProofs.thy ===== *)
theory StorageCodecProofs
  imports StorageCodec
begin

text \<open>
  Lemmas on the wire format: what a read gives from the bytes that are left (\<open>rest\<close>), and
  conversely what these bytes were when a read succeeds; big-endian integers and their two
  directions; writes that fit; the CRC as a linear map, bit by bit, and its injectivity.
\<close>

section \<open>Reading and writing\<close>

text \<open>What is left to read, and the reader some bytes later.\<close>

definition rest :: "ByteReader \<Rightarrow> bytes" where
  "rest r = drop (rd_position r) (rd_bytes r)"

definition advance :: "nat \<Rightarrow> ByteReader \<Rightarrow> ByteReader" where
  "advance n r = r\<lparr>rd_position := rd_position r + n\<rparr>"

lemma rest_advance [simp]: "rest (advance n r) = drop n (rest r)"
  by (simp add: rest_def advance_def add.commute)

lemma advance_advance [simp]: "advance m (advance n r) = advance (n + m) r"
  by (simp add: advance_def add.assoc)

lemma advance_sel [simp]:
  "rd_bytes (advance n r) = rd_bytes r" "rd_position (advance n r) = rd_position r + n"
  by (simp_all add: advance_def)

lemma remaining_rest: "remaining r = length (rest r)"
  by (simp add: remaining_def rest_def)

lemma readBytes_append:
  "rest r = xs @ ys \<Longrightarrow> length xs = n \<Longrightarrow> readBytes n r = (Some xs, advance n r)"
proof -
  assume a: "rest r = xs @ ys" "length xs = n"
  have "length (rest r) = n + length ys" by (simp add: a)
  then have "n \<le> length (rd_bytes r) - rd_position r" by (simp add: rest_def)
  then show ?thesis using a by (auto simp: readBytes_def rest_def advance_def)
qed

lemma readBytes_SomeD:
  assumes "readBytes n r = (Some xs, r')"
  shows "rest r = xs @ rest r' \<and> length xs = n \<and> r' = advance n r"
proof (cases "n = 0")
  case True
  with assms show ?thesis by (simp add: readBytes_def rest_def advance_def)
next
  case False
  with assms have "\<not> length (rd_bytes r) - rd_position r < n"
    and x: "xs = take n (drop (rd_position r) (rd_bytes r))" "r' = advance n r"
    by (auto simp: readBytes_def advance_def split: if_splits)
  then have "length xs = n" by simp
  moreover have "rest r = xs @ rest r'"
    unfolding x(2) rest_advance unfolding x(1) rest_def by (simp only: append_take_drop_id)
  ultimately show ?thesis using x(2) by simp
qed

lemma mapRead_Some_iff:
  "mapRead f m r = (Some a, r') \<longleftrightarrow> (\<exists>b. m r = (Some b, r') \<and> a = f b)"
  by (auto simp: mapRead_def split: option.splits prod.splits)

section \<open>The big-endian encoding\<close>

definition be16 :: "u16 \<Rightarrow> bytes" where
  "be16 v = [ucast (drop_bit 8 v), ucast v]"

definition be32 :: "u32 \<Rightarrow> bytes" where
  "be32 v = [ucast (drop_bit 24 v), ucast (drop_bit 16 v), ucast (drop_bit 8 v), ucast v]"

definition be64 :: "u64 \<Rightarrow> bytes" where
  "be64 v =
     [ucast (drop_bit 56 v), ucast (drop_bit 48 v), ucast (drop_bit 40 v), ucast (drop_bit 32 v),
      ucast (drop_bit 24 v), ucast (drop_bit 16 v), ucast (drop_bit 8 v), ucast v]"

lemma be_length [simp]: "length (be16 a) = 2" "length (be32 b) = 4" "length (be64 c) = 8"
  by (simp_all add: be16_def be32_def be64_def)

lemma write_be:
  "writeUint16 a w = writeBytes (be16 a) w" "writeUint32 b w = writeBytes (be32 b) w"
  "writeUint64 c w = writeBytes (be64 c) w"
  by (simp_all add: writeUint16_def writeUint32_def writeUint64_def be16_def be32_def be64_def)

definition of16 :: "bytes \<Rightarrow> u16" where
  "of16 b = push_bit 8 (ucast (b ! 0)) OR ucast (b ! 1)"

definition of32 :: "bytes \<Rightarrow> u32" where
  "of32 b = push_bit 24 (ucast (b ! 0)) OR push_bit 16 (ucast (b ! 1)) OR
     push_bit 8 (ucast (b ! 2)) OR ucast (b ! 3)"

definition of64 :: "bytes \<Rightarrow> u64" where
  "of64 b = push_bit 56 (ucast (b ! 0)) OR push_bit 48 (ucast (b ! 1)) OR
     push_bit 40 (ucast (b ! 2)) OR push_bit 32 (ucast (b ! 3)) OR
     push_bit 24 (ucast (b ! 4)) OR push_bit 16 (ucast (b ! 5)) OR
     push_bit 8 (ucast (b ! 6)) OR ucast (b ! 7)"

lemma bit_byte:
  fixes v :: "'a::len word"
  shows "bit (push_bit k (ucast (ucast (drop_bit k v) :: u8)) :: 'a word) n \<longleftrightarrow>
      k \<le> n \<and> n < k + 8 \<and> bit v n"
    and "bit (ucast (ucast v :: u8) :: 'a word) n \<longleftrightarrow> n < 8 \<and> bit v n"
  by (auto simp: bit_simps dest: bit_imp_le_length)

lemma bit_u8 [simp]: "8 \<le> m \<Longrightarrow> \<not> bit (b :: u8) m"
  using bit_imp_le_length [of b m] by auto

lemma of_be [simp]: "of16 (be16 a) = a" "of32 (be32 b) = b" "of64 (be64 c) = c"
proof -
  show "of16 (be16 a) = a"
    by (rule bit_word_eqI, simp add: of16_def be16_def bit_or_iff bit_byte)
      (auto simp: not_less)
  show "of32 (be32 b) = b"
  proof (rule bit_word_eqI)
    fix n
    assume "n < LENGTH(32)"
    then show "bit (of32 (be32 b)) n = bit b n"
      by (simp add: of32_def be32_def bit_or_iff bit_byte) linarith
  qed
  show "of64 (be64 c) = c"
  proof (rule bit_word_eqI)
    fix n
    assume "n < LENGTH(64)"
    then show "bit (of64 (be64 c)) n = bit c n"
      by (simp add: of64_def be64_def bit_or_iff bit_byte) linarith
  qed
qed

lemma be_of:
  "length x = 2 \<Longrightarrow> be16 (of16 x) = x" "length y = 4 \<Longrightarrow> be32 (of32 y) = y"
  "length z = 8 \<Longrightarrow> be64 (of64 z) = z"
proof -
  assume "length x = 2"
  then obtain a b where x: "x = [a, b]" by (auto simp: length_Suc_conv numeral_eq_Suc)
  show "be16 (of16 x) = x"
    by (auto simp: x be16_def of16_def bit_simps intro!: bit_word_eqI dest: bit_imp_le_length)
next
  assume "length y = 4"
  then obtain a b c d where y: "y = [a, b, c, d]" by (auto simp: length_Suc_conv numeral_eq_Suc)
  show "be32 (of32 y) = y"
    by (auto simp: y be32_def of32_def bit_simps intro!: bit_word_eqI dest: bit_imp_le_length)
next
  assume "length z = 8"
  then obtain a b c d e f g h where z: "z = [a, b, c, d, e, f, g, h]"
    by (auto simp: length_Suc_conv numeral_eq_Suc)
  show "be64 (of64 z) = z"
    by (auto simp: z be64_def of64_def bit_simps intro!: bit_word_eqI dest: bit_imp_le_length)
qed

lemma be_inject [simp]: "be16 a = be16 a' \<longleftrightarrow> a = a'" "be32 b = be32 b' \<longleftrightarrow> b = b'"
  "be64 c = be64 c' \<longleftrightarrow> c = c'"
  by (metis of_be(1), metis of_be(2), metis of_be(3))


section \<open>Reads\<close>

lemma readBytes_be:
  "rest r = xs @ ys \<Longrightarrow> mapRead f (readBytes (length xs)) r = (Some (f xs), advance (length xs) r)"
  by (simp add: mapRead_def readBytes_append)

lemma readUint_eq:
  "readUint16 = mapRead of16 (readBytes 2)" "readUint32 = mapRead of32 (readBytes 4)"
  "readUint64 = mapRead of64 (readBytes 8)"
  by (simp_all only: readUint16_def readUint32_def readUint64_def of16_def [abs_def]
      of32_def [abs_def] of64_def [abs_def])

lemma read_be:
  "rest r = be16 a @ ys \<Longrightarrow> readUint16 r = (Some a, advance 2 r)"
  "rest r = be32 b @ ys \<Longrightarrow> readUint32 r = (Some b, advance 4 r)"
  "rest r = be64 c @ ys \<Longrightarrow> readUint64 r = (Some c, advance 8 r)"
  "rest r = x # ys \<Longrightarrow> readUint8 r = (Some x, advance 1 r)"
  using readBytes_be [of r "be16 a" ys of16] readBytes_be [of r "be32 b" ys of32]
    readBytes_be [of r "be64 c" ys of64] readBytes_append [of r "[x]" ys 1]
  by (simp_all add: readUint_eq readUint8_def readByte_def)

lemma read_beD:
  "readUint16 r = (Some a, r') \<Longrightarrow> rest r = be16 a @ rest r' \<and> r' = advance 2 r"
  "readUint32 r = (Some b, r') \<Longrightarrow> rest r = be32 b @ rest r' \<and> r' = advance 4 r"
  "readUint64 r = (Some c, r') \<Longrightarrow> rest r = be64 c @ rest r' \<and> r' = advance 8 r"
  by (auto simp: readUint_eq mapRead_Some_iff be_of dest!: readBytes_SomeD)

lemma readUint8D: "readUint8 r = (Some x, r') \<Longrightarrow> rest r = x # rest r' \<and> r' = advance 1 r"
  by (auto simp: readUint8_def readByte_def length_Suc_conv
      split: option.splits prod.splits dest!: readBytes_SomeD)

lemma toTwosComplementSigned_sint: "toTwosComplementSigned raw = sint raw"
proof -
  have l: "0 \<le> uint raw" "uint raw < 2 ^ 64" using uint_lt2p [of raw] by simp_all
  have "sint raw = (uint raw + 2 ^ 63) mod 2 ^ 64 - 2 ^ 63"
    by (simp add: sint_uint signed_take_bit_eq_take_bit_shift take_bit_eq_mod)
  moreover have "(uint raw + 2 ^ 63) mod 2 ^ 64 = uint raw + 2 ^ 63 - 2 ^ 64"
    if "2 ^ 63 \<le> uint raw"
  proof -
    have "(uint raw + 2 ^ 63 - 2 ^ 64) mod 2 ^ 64 = uint raw + 2 ^ 63 - 2 ^ 64"
      by (rule mod_pos_pos_trivial) (use that l in simp_all)
    then show ?thesis by (simp only: minus_mod_self2)
  qed
  ultimately have s: "sint raw = (if uint raw < 2 ^ 63 then uint raw else uint raw - 2 ^ 64)"
    using l by auto
  show ?thesis
  proof (cases "raw \<le> 0x7FFFFFFFFFFFFFFF")
    case True
    then have "uint raw < 2 ^ 63" by (simp add: word_le_def)
    with True s show ?thesis by (simp add: toTwosComplementSigned_def)
  next
    case False
    then have h: "2 ^ 63 \<le> uint raw" by (simp add: word_le_def)
    have "raw - 0x7FFFFFFFFFFFFFFF - 1 = raw - 0x8000000000000000" by simp
    moreover have "uint (raw - 0x8000000000000000) = uint raw - 0x8000000000000000"
      using h uint_sub_lem [of "0x8000000000000000" raw] by simp
    ultimately show ?thesis using False h s
      by (simp add: toTwosComplementSigned_def)
  qed
qed


lemma word_of_int_sint: "word_of_int (toTwosComplementSigned raw) = raw"
  by (simp add: toTwosComplementSigned_sint)

lemma signed_roundtrip:
  assumes "- (2 ^ 63) \<le> v" and "v < 2 ^ 63"
  shows "toTwosComplementSigned (word_of_int v) = v"
  using assms signed_take_bit_int_eq_self [of 63 v]
  by (simp add: toTwosComplementSigned_sint sint_sbintrunc')

lemma toTwosComplementSigned_range:
  "- (2 ^ 63) \<le> toTwosComplementSigned raw" "toTwosComplementSigned raw < 2 ^ 63"
  using sint_greater_eq [of raw] sint_less [of raw]
  by (simp_all add: toTwosComplementSigned_sint)

lemma readInt64_be:
  "rest r = be64 (word_of_int v) @ ys \<Longrightarrow> - (2 ^ 63) \<le> v \<Longrightarrow> v < 2 ^ 63 \<Longrightarrow>
     readInt64 r = (Some v, advance 8 r)"
  using read_be(3) [of r "word_of_int v" ys] signed_roundtrip [of v]
  by (simp add: readInt64_def mapRead_def)

lemma readInt64D:
  "readInt64 r = (Some v, r') \<Longrightarrow>
     rest r = be64 (word_of_int v) @ rest r' \<and> r' = advance 8 r \<and> - (2 ^ 63) \<le> v \<and> v < 2 ^ 63"
  using toTwosComplementSigned_range read_beD(3)
  by (auto simp: readInt64_def mapRead_Some_iff word_of_int_sint)

lemma readOptionalTag_be:
  "rest r = (if b then 1 else 0) # ys \<Longrightarrow> readOptionalTag r = (Some b, advance 1 r)"
  using read_be(4) [of r "if b then 1 else 0" ys]
  by (simp add: readOptionalTag_def readBool_def)

lemma readOptionalTagD:
  "readOptionalTag r = (Some b, r') \<Longrightarrow>
     rest r = (if b then 1 else 0) # rest r' \<and> r' = advance 1 r"
  using readUint8D
  by (auto simp: readOptionalTag_def readBool_def split: option.splits prod.splits if_splits)

section \<open>Writes\<close>

lemma writeBytes_fits:
  "length (bw_buffer w) + length d \<le> bw_capacity w \<Longrightarrow>
     writeBytes d w = (True, w\<lparr>bw_buffer := bw_buffer w @ d\<rparr>)"
  by (auto simp: writeBytes_def)

lemma writeBytes_full:
  "length (bw_buffer w) \<le> bw_capacity w \<Longrightarrow> bw_capacity w < length (bw_buffer w) + length d \<Longrightarrow>
     writeBytes d w = (False, w)"
  by (auto simp: writeBytes_def)

lemma andThen_ok [simp]: "andThen (True, w) f = f w" "andThen (False, w) f = (False, w)"
  by (simp_all add: andThen_def)

lemma checkedAddSize_iff: "checkedAddSize a b m = Some s \<longleftrightarrow> s = a + b \<and> a + b \<le> m"
  by (auto simp: checkedAddSize_def)

section \<open>The CRC\<close>

lemma crcBit_linear: "crcBit (a XOR b) = crcBit a XOR crcBit b"
proof -
  have e: "crcBit x = drop_bit 1 x XOR (if odd x then 0xEDB88320 else 0)" for x
    by (auto simp: crcBit_def and_one_eq odd_iff_mod_2_eq_one xor.commute)
  show ?thesis
    by (rule bit_word_eqI) (simp add: e bit_simps even_xor_iff; blast)
qed

lemma crcBits_linear: "(crcBit ^^ n) (a XOR b) = (crcBit ^^ n) a XOR (crcBit ^^ n) b"
  by (induction n) (simp_all add: crcBit_linear)

lemma crcBit_zero [simp]: "crcBit 0 = 0"
  by (simp add: crcBit_def)

lemma crcBits_zero [simp]: "(crcBit ^^ n) 0 = 0"
  by (induction n) simp_all

lemma crcBits_shift: "(\<forall>i<k. \<not> bit x i) \<Longrightarrow> (crcBit ^^ k) x = drop_bit k x"
proof (induction k)
  case (Suc k)
  then have "(crcBit ^^ Suc k) x = crcBit (drop_bit k x)" by simp
  moreover have "\<not> bit (drop_bit k x) 0"
    using Suc.prems by (simp add: bit_drop_bit_eq)
  then have "drop_bit k x AND 1 = 0" by (simp add: and_one_eq bit_0 odd_iff_mod_2_eq_one)
  ultimately have "(crcBit ^^ Suc k) x = drop_bit 1 (drop_bit k x)"
    by (simp only: crcBit_def if_False simp_thms)
  then show ?case by simp
qed simp

lemma crcBit_eq_0: "crcBit x = 0 \<Longrightarrow> x = 0"
proof -
  assume z: "crcBit x = 0"
  have e: "\<not> bit x 0"
  proof
    assume "bit x 0"
    then have "crcBit x = 0xEDB88320 XOR drop_bit 1 x"
      by (simp add: crcBit_def and_one_eq odd_iff_mod_2_eq_one bit_0)
    moreover have "bit (0xEDB88320 XOR drop_bit 1 x :: u32) 31"
      using bit_imp_le_length [of x 32] by (auto simp: bit_simps)
    ultimately show False using z by simp
  qed
  then have "x AND 1 = 0" by (simp add: and_one_eq bit_0 even_iff_mod_2_eq_zero)
  with z have "drop_bit 1 x = 0" by (simp only: crcBit_def if_False simp_thms)
  show "x = 0"
  proof (rule bit_word_eqI)
    fix n
    assume "n < LENGTH(32)"
    show "bit x n = bit 0 n"
      using e bit_drop_bit_eq [of 1 x] \<open>drop_bit 1 x = 0\<close> by (cases n) (simp_all add: fun_eq_iff)
  qed
qed

lemma crcBits_eq_0: "(crcBit ^^ n) x = 0 \<Longrightarrow> x = 0"
  by (induction n) (auto dest: crcBit_eq_0)

lemma xor_cancel [simp]:
  fixes a b c :: "'a::len word"
  shows "a XOR c = b XOR c \<longleftrightarrow> a = b" and "c XOR a = c XOR b \<longleftrightarrow> a = b"
proof -
  have "a = b" if e: "a XOR c = b XOR c"
  proof (rule bit_word_eqI)
    fix n
    show "bit a n = bit b n"
      using arg_cong [OF e, of "\<lambda>w. bit w n"] by (auto simp: bit_xor_iff)
  qed
  then show "a XOR c = b XOR c \<longleftrightarrow> a = b" "c XOR a = c XOR b \<longleftrightarrow> a = b"
    by (auto simp: xor.commute)
qed

lemma xor_eq_0:
  fixes a b :: "'a::len word"
  shows "a XOR b = 0 \<Longrightarrow> a = b"
  using xor_cancel(1) [of a b b] by simp

lemma crcBits_inject: "(crcBit ^^ n) a = (crcBit ^^ n) b \<longleftrightarrow> a = b"
proof
  assume "(crcBit ^^ n) a = (crcBit ^^ n) b"
  then have "(crcBit ^^ n) (a XOR b) = 0" by (simp add: crcBits_linear)
  then show "a = b" by (rule xor_eq_0 [OF crcBits_eq_0])
qed simp

text \<open>One byte by the table is eight bits by the polynomial.\<close>

lemma crcByte_bits: "crcByte b crc = (crcBit ^^ 8) (crc XOR ucast b)"
proof -
  let ?y = "crc XOR ucast b"
  have ff: "(0xFF :: u32) = mask 8" by (simp add: mask_eq_exp_minus_1)
  define lo where "lo = ?y AND 0xFF"
  define hi where "hi = ?y AND NOT 0xFF"
  have bits: "bit lo n \<longleftrightarrow> bit ?y n \<and> n < 8" "bit hi n \<longleftrightarrow> bit ?y n \<and> \<not> n < 8" for n
    by (auto simp: lo_def hi_def ff bit_and_iff bit_mask_iff bit_not_iff dest: bit_imp_le_length)
  have t: "crcTable ! unat (ucast lo :: u8) = (crcBit ^^ 8) lo"
  proof -
    have "unat (ucast lo :: u8) < 256"
      using unsigned_less [of "ucast lo :: u8", where 'a = nat] by simp
    moreover have "(ucast (ucast lo :: u8) :: u32) = lo"
      by (rule bit_word_eqI) (auto simp: bits bit_ucast_iff)
    ultimately show ?thesis by (simp add: crcTable_def)
  qed
  have "?y = lo XOR hi"
    by (rule bit_word_eqI) (simp add: bits bit_xor_iff [of lo hi], blast)
  then have "(crcBit ^^ 8) ?y = (crcBit ^^ 8) lo XOR (crcBit ^^ 8) hi"
    by (simp only: crcBits_linear)
  moreover have "drop_bit 8 hi = drop_bit 8 crc"
    by (rule bit_word_eqI) (simp add: bit_drop_bit_eq bits bit_xor_iff bit_ucast_iff)
  then have "(crcBit ^^ 8) hi = drop_bit 8 crc"
    using crcBits_shift [of 8 hi] by (simp only: bits) simp
  ultimately show ?thesis unfolding crcByte_def Let_def by (simp only: t lo_def [symmetric])
qed

text \<open>The reference: the message shifted in bit by bit, lowest bit of a byte first.\<close>

definition crcReference :: "bytes \<Rightarrow> u32" where
  "crcReference data =
     fold (\<lambda>b crc. (crcBit ^^ 8) (crc XOR ucast b)) data 0xFFFFFFFF XOR 0xFFFFFFFF"

lemma crcByte_inject_state: "crcByte b x = crcByte b y \<longleftrightarrow> x = y"
  by (simp add: crcByte_bits crcBits_inject)

lemma crcByte_inject_byte: "crcByte a x = crcByte b x \<longleftrightarrow> a = b"
proof -
  have "a = b" if e: "(ucast a :: u32) = ucast b"
  proof (rule bit_word_eqI)
    fix n
    assume "n < LENGTH(8)"
    then show "bit a n = bit b n"
      using arg_cong [OF e, of "\<lambda>w. bit w n"] by (simp add: bit_ucast_iff)
  qed
  then show ?thesis by (auto simp: crcByte_bits crcBits_inject)
qed

lemma crcUpdate_append: "crcUpdate (a @ b) crc = crcUpdate b (crcUpdate a crc)"
  by (simp add: crcUpdate_def)

lemma crcUpdate_inject: "crcUpdate d x = crcUpdate d y \<longleftrightarrow> x = y"
  by (induction d arbitrary: x y) (simp_all add: crcUpdate_def crcByte_inject_state)

text \<open>A change of one byte changes the CRC.\<close>

lemma crc_one_byte:
  assumes "i < length d" and "b \<noteq> d ! i"
  shows "crcUpdate (d[i := b]) crc \<noteq> crcUpdate d crc"
proof -
  have "d[i := b] = take i d @ b # drop (Suc i) d" "d = take i d @ d ! i # drop (Suc i) d"
    using assms(1) by (simp_all add: upd_conv_take_nth_drop id_take_nth_drop)
  then have "crcUpdate (d[i := b]) crc = crcUpdate (drop (Suc i) d) (crcByte b (crcUpdate (take i d) crc))"
    "crcUpdate d crc = crcUpdate (drop (Suc i) d) (crcByte (d ! i) (crcUpdate (take i d) crc))"
    by (metis crcUpdate_append crcUpdate_def fold_simps(2))+
  then show ?thesis using assms(2) by (simp add: crcUpdate_inject crcByte_inject_byte)
qed

lemma crcFinalize_inject: "crcFinalize a = crcFinalize b \<longleftrightarrow> a = b"
  by (simp add: crcFinalize_def)

end
