(* ===== verification/StorageEnvelope.thy ===== *)
theory StorageEnvelope
  imports StorageCodec
begin

text \<open>
  The storage frame of \<open>storage_envelope.cpp\<close>: a header with magic, version, record type, schema
  version, epoch, version value, payload length and an optional time stamp, the CRC of header and
  payload, and the payload. \<open>encodeEnvelope\<close> writes it into a bounded buffer, \<open>decodeEnvelope\<close>
  and \<open>decodeEnvelopeMetadata\<close> read it with a status for each defect.
\<close>

section \<open>Types\<close>

record StorageEnvelope =
  env_recordTypeId :: u16
  env_schemaVersion :: u32
  env_storageEpoch :: u64
  env_versionValue :: u64
  env_utcUnixSeconds :: "int option"
  env_payload :: bytes

datatype EnvelopeEncodeStatus = EES_Success | EES_InvalidField | EES_CapacityExceeded

datatype EnvelopeDecodeStatus =
    EDS_Success
  | EDS_InvalidMagic
  | EDS_UnknownEnvelopeVersion
  | EDS_InvalidRecordType
  | EDS_InvalidSchemaVersion
  | EDS_InvalidStorageEpoch
  | EDS_InvalidVersionValue
  | EDS_InvalidUtcTag
  | EDS_LengthMismatch
  | EDS_CrcMismatch

record EnvelopeDecodeResult =
  edr_status :: EnvelopeDecodeStatus
  edr_envelope :: "StorageEnvelope option"

record EnvelopeMetadata =
  emd_recordTypeId :: u16
  emd_schemaVersion :: u32
  emd_storageEpoch :: u64
  emd_versionValue :: u64
  emd_utcUnixSeconds :: "int option"
  emd_payloadLength :: u32

record EnvelopeMetadataResult =
  emr_status :: EnvelopeDecodeStatus
  emr_metadata :: "EnvelopeMetadata option"

record EnvelopeSizeCheckResult =
  esc_status :: EnvelopeEncodeStatus
  esc_totalSize :: nat

definition kStorageEnvelopeVersion1 :: u16 where
  "kStorageEnvelopeVersion1 = 1"

text \<open>The letters \<open>DPRF\<close>.\<close>

definition kMagic :: bytes where
  "kMagic = [0x44, 0x50, 0x52, 0x46]"

definition kHeaderBeforeCrcWithoutUtc :: nat where
  "kHeaderBeforeCrcWithoutUtc = 33"

definition kUtcValueSize :: nat where
  "kUtcValueSize = 8"

definition kCrcSize :: nat where
  "kCrcSize = 4"

section \<open>Decoding\<close>

record CoreFieldsResult =
  cfr_status :: EnvelopeDecodeStatus
  cfr_recordTypeRaw :: u16
  cfr_schemaVersion :: u32
  cfr_storageEpochRaw :: u64
  cfr_versionValue :: u64
  cfr_payloadLength :: u32

definition initialCoreFields :: CoreFieldsResult where
  "initialCoreFields =
     \<lparr>cfr_status = EDS_LengthMismatch, cfr_recordTypeRaw = 0, cfr_schemaVersion = 0,
      cfr_storageEpochRaw = 0, cfr_versionValue = 0, cfr_payloadLength = 0\<rparr>"

definition readCoreFields :: "ByteReader \<Rightarrow> CoreFieldsResult \<times> ByteReader" where
  "readCoreFields r =
     (let result = initialCoreFields in
      case readUint16 r of (None, r) \<Rightarrow> (result, r) | (Some recordTypeRaw, r) \<Rightarrow>
      let result = result\<lparr>cfr_recordTypeRaw := recordTypeRaw\<rparr> in
      if recordTypeRaw = 0 then (result\<lparr>cfr_status := EDS_InvalidRecordType\<rparr>, r)
      else case readUint32 r of (None, r) \<Rightarrow> (result, r) | (Some schemaVersion, r) \<Rightarrow>
      let result = result\<lparr>cfr_schemaVersion := schemaVersion\<rparr> in
      if schemaVersion = 0 then (result\<lparr>cfr_status := EDS_InvalidSchemaVersion\<rparr>, r)
      else case readUint64 r of (None, r) \<Rightarrow> (result, r) | (Some storageEpochRaw, r) \<Rightarrow>
      let result = result\<lparr>cfr_storageEpochRaw := storageEpochRaw\<rparr> in
      if storageEpochRaw = 0 then (result\<lparr>cfr_status := EDS_InvalidStorageEpoch\<rparr>, r)
      else case readUint64 r of (None, r) \<Rightarrow> (result, r) | (Some versionValue, r) \<Rightarrow>
      let result = result\<lparr>cfr_versionValue := versionValue\<rparr> in
      if versionValue = 0 then (result\<lparr>cfr_status := EDS_InvalidVersionValue\<rparr>, r)
      else case readUint32 r of (None, r) \<Rightarrow> (result, r) | (Some payloadLength, r) \<Rightarrow>
        (result\<lparr>cfr_payloadLength := payloadLength, cfr_status := EDS_Success\<rparr>, r))"

record UtcFieldResult =
  ufr_status :: EnvelopeDecodeStatus
  ufr_utcUnixSeconds :: "int option"

definition readUtcField :: "ByteReader \<Rightarrow> UtcFieldResult \<times> ByteReader" where
  "readUtcField r =
     (case readOptionalTag r of
        (None, r) \<Rightarrow> (\<lparr>ufr_status = EDS_InvalidUtcTag, ufr_utcUnixSeconds = None\<rparr>, r)
      | (Some hasUtc, r) \<Rightarrow>
          if hasUtc then
            (case readInt64 r of
               (None, r) \<Rightarrow> (\<lparr>ufr_status = EDS_LengthMismatch, ufr_utcUnixSeconds = None\<rparr>, r)
             | (Some v, r) \<Rightarrow> (\<lparr>ufr_status = EDS_Success, ufr_utcUnixSeconds = Some v\<rparr>, r))
          else (\<lparr>ufr_status = EDS_Success, ufr_utcUnixSeconds = None\<rparr>, r))"

record ValidatedEnvelope =
  ven_status :: EnvelopeDecodeStatus
  ven_core :: CoreFieldsResult
  ven_utcUnixSeconds :: "int option"
  ven_payloadOffset :: nat

definition initialValidated :: ValidatedEnvelope where
  "initialValidated =
     \<lparr>ven_status = EDS_LengthMismatch, ven_core = initialCoreFields, ven_utcUnixSeconds = None,
      ven_payloadOffset = 0\<rparr>"

definition validateEnvelope :: "bytes \<Rightarrow> ValidatedEnvelope" where
  "validateEnvelope bytes =
     (let out = initialValidated in
      if length bytes < kHeaderBeforeCrcWithoutUtc + kCrcSize then out
      else case readBytes 4 (newReader bytes) of (None, r) \<Rightarrow> out | (Some magic, r) \<Rightarrow>
      if magic \<noteq> kMagic then out\<lparr>ven_status := EDS_InvalidMagic\<rparr>
      else case readUint16 r of (None, r) \<Rightarrow> out | (Some envelopeVersion, r) \<Rightarrow>
      if envelopeVersion \<noteq> kStorageEnvelopeVersion1 then
        out\<lparr>ven_status := EDS_UnknownEnvelopeVersion\<rparr>
      else let (core, r) = readCoreFields r;
               out = out\<lparr>ven_core := core\<rparr> in
      if cfr_status core \<noteq> EDS_Success then out\<lparr>ven_status := cfr_status core\<rparr>
      else let (utc, r) = readUtcField r in
      if ufr_status utc \<noteq> EDS_Success then out\<lparr>ven_status := ufr_status utc\<rparr>
      else let out = out\<lparr>ven_utcUnixSeconds := ufr_utcUnixSeconds utc\<rparr>;
               headerBeforeCrcLen = rd_position r in
      if remaining r < kCrcSize then out\<lparr>ven_status := EDS_LengthMismatch\<rparr>
      else if remaining r - kCrcSize \<noteq> unat (cfr_payloadLength core) then
        out\<lparr>ven_status := EDS_LengthMismatch\<rparr>
      else case readUint32 r of
        (None, r) \<Rightarrow> out\<lparr>ven_status := EDS_LengthMismatch\<rparr>
      | (Some storedCrc, r) \<Rightarrow>
      let payloadOffset = headerBeforeCrcLen + kCrcSize;
          crc = crcUpdate (take headerBeforeCrcLen bytes) crcInitial;
          crc = crcUpdate (take (unat (cfr_payloadLength core)) (drop payloadOffset bytes)) crc in
      if crcFinalize crc \<noteq> storedCrc then out\<lparr>ven_status := EDS_CrcMismatch\<rparr>
      else out\<lparr>ven_status := EDS_Success, ven_payloadOffset := payloadOffset\<rparr>)"

definition decodeEnvelope :: "bytes \<Rightarrow> EnvelopeDecodeResult" where
  "decodeEnvelope bytes =
     (let validated = validateEnvelope bytes in
      if ven_status validated \<noteq> EDS_Success then
        \<lparr>edr_status = ven_status validated, edr_envelope = None\<rparr>
      else let core = ven_core validated in
        \<lparr>edr_status = EDS_Success,
         edr_envelope = Some
           \<lparr>env_recordTypeId = cfr_recordTypeRaw core, env_schemaVersion = cfr_schemaVersion core,
            env_storageEpoch = cfr_storageEpochRaw core, env_versionValue = cfr_versionValue core,
            env_utcUnixSeconds = ven_utcUnixSeconds validated,
            env_payload = take (unat (cfr_payloadLength core))
                            (drop (ven_payloadOffset validated) bytes)\<rparr>\<rparr>)"

definition decodeEnvelopeMetadata :: "bytes \<Rightarrow> EnvelopeMetadataResult" where
  "decodeEnvelopeMetadata bytes =
     (let validated = validateEnvelope bytes in
      if ven_status validated \<noteq> EDS_Success then
        \<lparr>emr_status = ven_status validated, emr_metadata = None\<rparr>
      else let core = ven_core validated in
        \<lparr>emr_status = EDS_Success,
         emr_metadata = Some
           \<lparr>emd_recordTypeId = cfr_recordTypeRaw core, emd_schemaVersion = cfr_schemaVersion core,
            emd_storageEpoch = cfr_storageEpochRaw core, emd_versionValue = cfr_versionValue core,
            emd_utcUnixSeconds = ven_utcUnixSeconds validated,
            emd_payloadLength = cfr_payloadLength core\<rparr>\<rparr>)"

section \<open>Encoding\<close>

definition checkEnvelopeEncodedSize :: "nat \<Rightarrow> bool \<Rightarrow> nat \<Rightarrow> EnvelopeSizeCheckResult" where
  "checkEnvelopeEncodedSize payloadSize hasUtc maxTotalBytes =
     (let exceeded = \<lparr>esc_status = EES_CapacityExceeded, esc_totalSize = 0\<rparr> in
      if unat u32_max < payloadSize then exceeded
      else case (if hasUtc then
                   checkedAddSize kHeaderBeforeCrcWithoutUtc kUtcValueSize maxTotalBytes
                 else Some kHeaderBeforeCrcWithoutUtc) of
        None \<Rightarrow> exceeded
      | Some headerBeforeCrc \<Rightarrow>
      (case checkedAddSize headerBeforeCrc kCrcSize maxTotalBytes of
         None \<Rightarrow> exceeded
       | Some headerWithCrc \<Rightarrow>
      (case checkedAddSize headerWithCrc payloadSize maxTotalBytes of
         None \<Rightarrow> exceeded
       | Some totalSize \<Rightarrow> \<lparr>esc_status = EES_Success, esc_totalSize = totalSize\<rparr>)))"

definition encodeHeader :: "StorageEnvelope \<Rightarrow> bool \<times> ByteWriter" where
  "encodeHeader e =
     (let capacity = kHeaderBeforeCrcWithoutUtc +
                     (if env_utcUnixSeconds e \<noteq> None then kUtcValueSize else 0);
          ok = writeBytes kMagic (newWriter capacity);
          ok = andThen ok (writeUint16 kStorageEnvelopeVersion1);
          ok = andThen ok (writeUint16 (env_recordTypeId e));
          ok = andThen ok (writeUint32 (env_schemaVersion e));
          ok = andThen ok (writeUint64 (env_storageEpoch e));
          ok = andThen ok (writeUint64 (env_versionValue e));
          ok = andThen ok (writeUint32 (of_nat (length (env_payload e))));
          ok = andThen ok (writeOptionalTag (env_utcUnixSeconds e \<noteq> None)) in
      case env_utcUnixSeconds e of
        None \<Rightarrow> ok
      | Some utc \<Rightarrow> andThen ok (writeInt64 utc))"

text \<open>The bytes are what \<open>outBytes\<close> is swapped with; without success it stays as it was.\<close>

definition encodeEnvelope ::
  "StorageEnvelope \<Rightarrow> nat \<Rightarrow> EnvelopeEncodeStatus \<times> bytes option" where
  "encodeEnvelope e maxTotalBytes =
     (if env_recordTypeId e = 0 \<or> env_schemaVersion e = 0 \<or> env_storageEpoch e = 0 \<or>
         env_versionValue e = 0 then (EES_InvalidField, None)
      else let sizeCheck = checkEnvelopeEncodedSize (length (env_payload e))
                 (env_utcUnixSeconds e \<noteq> None) maxTotalBytes in
      if esc_status sizeCheck \<noteq> EES_Success then (esc_status sizeCheck, None)
      else let (ok, header) = encodeHeader e in
      if \<not> ok then (EES_CapacityExceeded, None)
      else let crc = crcUpdate (bw_buffer header) crcInitial;
               crc = crcFinalize (crcUpdate (env_payload e) crc);
               ok = writeBytes (bw_buffer header) (newWriter (esc_totalSize sizeCheck));
               ok = andThen ok (writeUint32 crc);
               ok = andThen ok (writeBytes (env_payload e)) in
      if \<not> fst ok then (EES_CapacityExceeded, None)
      else (EES_Success, Some (bw_buffer (snd ok))))"

end
