(* ===== verification/EnvelopeProofs.thy ===== *)
theory EnvelopeProofs
  imports StorageCodecProofs StorageEnvelope
begin

text \<open>
  The frame as one list of bytes (\<open>envBytes\<close>): the encoder writes exactly it (\<open>encodeEnvelope_eq\<close>),
  the validation accepts it (\<open>validate_envBytes\<close>) and nothing else (\<open>validateD\<close>).
\<close>

section \<open>The frame as bytes\<close>

definition envHeader :: "StorageEnvelope \<Rightarrow> bytes" where
  "envHeader e =
     kMagic @ be16 kStorageEnvelopeVersion1 @ be16 (env_recordTypeId e) @
     be32 (env_schemaVersion e) @ be64 (env_storageEpoch e) @ be64 (env_versionValue e) @
     be32 (of_nat (length (env_payload e))) @
     (case env_utcUnixSeconds e of None \<Rightarrow> [0] | Some v \<Rightarrow> 1 # be64 (word_of_int v))"

definition envCrc :: "StorageEnvelope \<Rightarrow> u32" where
  "envCrc e = crcFinalize (crcUpdate (envHeader e @ env_payload e) crcInitial)"

definition envBytes :: "StorageEnvelope \<Rightarrow> bytes" where
  "envBytes e = envHeader e @ be32 (envCrc e) @ env_payload e"

definition fields_ok :: "StorageEnvelope \<Rightarrow> bool" where
  "fields_ok e \<longleftrightarrow>
     env_recordTypeId e \<noteq> 0 \<and> env_schemaVersion e \<noteq> 0 \<and> env_storageEpoch e \<noteq> 0 \<and>
     env_versionValue e \<noteq> 0"

definition valid_env :: "StorageEnvelope \<Rightarrow> bool" where
  "valid_env e \<longleftrightarrow>
     fields_ok e \<and> length (env_payload e) < 2 ^ 32 \<and>
     (\<forall>v. env_utcUnixSeconds e = Some v \<longrightarrow> - (2 ^ 63) \<le> v \<and> v < 2 ^ 63)"

lemma magic_length [simp]: "length kMagic = 4"
  by (simp add: kMagic_def)

lemma envHeader_length:
  "length (envHeader e) = (case env_utcUnixSeconds e of None \<Rightarrow> 33 | Some _ \<Rightarrow> 41)"
  by (simp add: envHeader_def split: option.split)

lemma envBytes_length:
  "length (envBytes e) =
     (case env_utcUnixSeconds e of None \<Rightarrow> 37 | Some _ \<Rightarrow> 45) + length (env_payload e)"
  by (simp add: envBytes_def envHeader_length split: option.split)

lemmas frame_sizes = kHeaderBeforeCrcWithoutUtc_def kUtcValueSize_def kCrcSize_def

section \<open>Encoding\<close>

lemma checkSize_eq:
  "checkEnvelopeEncodedSize n utc m =
     (if n < 2 ^ 32 \<and> (if utc then 45 else 37) + n \<le> m
      then \<lparr>esc_status = EES_Success, esc_totalSize = (if utc then 45 else 37) + n\<rparr>
      else \<lparr>esc_status = EES_CapacityExceeded, esc_totalSize = 0\<rparr>)"
  by (auto simp: checkEnvelopeEncodedSize_def Let_def frame_sizes unat_u32_max checkedAddSize_def)

lemma encodeHeader_eq:
  "fst (encodeHeader e)" "bw_buffer (snd (encodeHeader e)) = envHeader e"
proof -
  have "encodeHeader e =
      (True, \<lparr>bw_capacity = length (envHeader e), bw_buffer = envHeader e\<rparr>)"
  proof (cases "env_utcUnixSeconds e")
    case None
    then show ?thesis
      by (simp add: encodeHeader_def Let_def frame_sizes newWriter_def write_be writeBytes_fits
          writeOptionalTag_def writeByte_def envHeader_length)
        (simp add: envHeader_def)
  next
    case (Some v)
    then show ?thesis
      by (simp add: encodeHeader_def Let_def frame_sizes newWriter_def write_be writeBytes_fits
          writeOptionalTag_def writeByte_def writeInt64_def envHeader_length)
        (simp add: envHeader_def)
  qed
  then show "fst (encodeHeader e)" "bw_buffer (snd (encodeHeader e)) = envHeader e" by simp_all
qed

lemma encodeEnvelope_eq:
  "encodeEnvelope e m =
     (if \<not> fields_ok e then (EES_InvalidField, None)
      else if length (env_payload e) < 2 ^ 32 \<and> length (envBytes e) \<le> m
      then (EES_Success, Some (envBytes e)) else (EES_CapacityExceeded, None))"
proof (cases "fields_ok e \<and> length (env_payload e) < 2 ^ 32 \<and> length (envBytes e) \<le> m")
  case True
  have "\<not> (env_recordTypeId e = 0 \<or> env_schemaVersion e = 0 \<or> env_storageEpoch e = 0 \<or>
      env_versionValue e = 0)" using True by (simp add: fields_ok_def)
  moreover have "checkEnvelopeEncodedSize (length (env_payload e)) (env_utcUnixSeconds e \<noteq> None) m =
      \<lparr>esc_status = EES_Success, esc_totalSize = length (envBytes e)\<rparr>"
    using True by (cases "env_utcUnixSeconds e") (simp_all add: checkSize_eq envBytes_length)
  moreover obtain h where "encodeHeader e = (True, h)" "bw_buffer h = envHeader e"
    using encodeHeader_eq [of e] by (metis (full_types) prod.collapse)
  moreover have "length (envBytes e) = length (envHeader e) + 4 + length (env_payload e)"
    by (simp add: envBytes_def)
  ultimately show ?thesis using True
    by (simp add: encodeEnvelope_def newWriter_def write_be writeBytes_fits crcUpdate_append
        envCrc_def) (simp add: envBytes_def envCrc_def crcUpdate_append)
next
  case False
  then show ?thesis
    by (cases "env_utcUnixSeconds e")
      (auto simp: encodeEnvelope_def Let_def fields_ok_def checkSize_eq envBytes_length)
qed

section \<open>Decoding\<close>

lemma readCoreFields_be:
  assumes "rest r = be16 a @ be32 b @ be64 c @ be64 d @ be32 n @ ys"
    and "a \<noteq> 0" and "b \<noteq> 0" and "c \<noteq> 0" and "d \<noteq> 0"
  shows "readCoreFields r =
    (\<lparr>cfr_status = EDS_Success, cfr_recordTypeRaw = a, cfr_schemaVersion = b,
      cfr_storageEpochRaw = c, cfr_versionValue = d, cfr_payloadLength = n\<rparr>, advance 26 r)"
proof -
  have r: "readUint16 r = (Some a, advance 2 r)"
    "readUint32 (advance 2 r) = (Some b, advance 6 r)"
    "readUint64 (advance 6 r) = (Some c, advance 14 r)"
    "readUint64 (advance 14 r) = (Some d, advance 22 r)"
    "readUint32 (advance 22 r) = (Some n, advance 26 r)"
    using assms(1) read_be(1) [of r a] read_be(2) [of "advance 2 r" b]
      read_be(3) [of "advance 6 r" c] read_be(3) [of "advance 14 r" d]
      read_be(2) [of "advance 22 r" n] by simp_all
  show ?thesis by (simp add: readCoreFields_def Let_def r assms(2-) initialCoreFields_def)
qed

lemma readCoreFieldsD:
  assumes "readCoreFields r = (f, r')" and "cfr_status f = EDS_Success"
  shows "rest r = be16 (cfr_recordTypeRaw f) @ be32 (cfr_schemaVersion f) @
      be64 (cfr_storageEpochRaw f) @ be64 (cfr_versionValue f) @ be32 (cfr_payloadLength f) @ rest r'"
    and "r' = advance 26 r" and "cfr_recordTypeRaw f \<noteq> 0" and "cfr_schemaVersion f \<noteq> 0"
    and "cfr_storageEpochRaw f \<noteq> 0" and "cfr_versionValue f \<noteq> 0"
proof -
  note core = readCoreFields_def Let_def initialCoreFields_def
  obtain o1 r1 where 1: "readUint16 r = (o1, r1)" by fastforce
  obtain a where a: "o1 = Some a" "a \<noteq> 0"
    using assms 1 by (cases o1) (auto simp: core split: if_splits)
  obtain o2 r2 where 2: "readUint32 r1 = (o2, r2)" by fastforce
  obtain b where b: "o2 = Some b" "b \<noteq> 0"
    using assms 1 2 a by (cases o2) (auto simp: core split: if_splits)
  obtain o3 r3 where 3: "readUint64 r2 = (o3, r3)" by fastforce
  obtain c where c: "o3 = Some c" "c \<noteq> 0"
    using assms 1 2 3 a b by (cases o3) (auto simp: core split: if_splits)
  obtain o4 r4 where 4: "readUint64 r3 = (o4, r4)" by fastforce
  obtain d where d: "o4 = Some d" "d \<noteq> 0"
    using assms 1 2 3 4 a b c by (cases o4) (auto simp: core split: if_splits)
  obtain o5 r5 where 5: "readUint32 r4 = (o5, r5)" by fastforce
  obtain n where n: "o5 = Some n"
    using assms 1 2 3 4 5 a b c d by (cases o5) (auto simp: core)
  have e: "f = \<lparr>cfr_status = EDS_Success, cfr_recordTypeRaw = a, cfr_schemaVersion = b,
      cfr_storageEpochRaw = c, cfr_versionValue = d, cfr_payloadLength = n\<rparr>" "r' = r5"
    using assms(1) by (simp_all add: core 1 2 3 4 5 a b c d n)
  note d1 = read_beD(1) [OF 1 [unfolded a(1)]] and d2 = read_beD(2) [OF 2 [unfolded b(1)]]
    and d3 = read_beD(3) [OF 3 [unfolded c(1)]] and d4 = read_beD(3) [OF 4 [unfolded d(1)]]
    and d5 = read_beD(2) [OF 5 [unfolded n]]
  show "rest r = be16 (cfr_recordTypeRaw f) @ be32 (cfr_schemaVersion f) @
      be64 (cfr_storageEpochRaw f) @ be64 (cfr_versionValue f) @ be32 (cfr_payloadLength f) @ rest r'"
    by (simp add: e conjunct1 [OF d1] conjunct1 [OF d2] conjunct1 [OF d3] conjunct1 [OF d4]
        conjunct1 [OF d5])
  show "r' = advance 26 r"
    by (simp add: e conjunct2 [OF d1] conjunct2 [OF d2] conjunct2 [OF d3] conjunct2 [OF d4]
        conjunct2 [OF d5])
  show "cfr_recordTypeRaw f \<noteq> 0" "cfr_schemaVersion f \<noteq> 0" "cfr_storageEpochRaw f \<noteq> 0"
    "cfr_versionValue f \<noteq> 0" by (simp_all add: e a b c d)
qed

definition utcBytes :: "int option \<Rightarrow> bytes" where
  "utcBytes utc = (case utc of None \<Rightarrow> [0] | Some v \<Rightarrow> 1 # be64 (word_of_int v))"

definition utc_ok :: "int option \<Rightarrow> bool" where
  "utc_ok utc \<longleftrightarrow> (\<forall>v. utc = Some v \<longrightarrow> - (2 ^ 63) \<le> v \<and> v < 2 ^ 63)"

lemma readUtcField_be:
  assumes "rest r = utcBytes utc @ ys" and "utc_ok utc"
  shows "readUtcField r = (\<lparr>ufr_status = EDS_Success, ufr_utcUnixSeconds = utc\<rparr>,
    advance (length (utcBytes utc)) r)"
proof (cases utc)
  case None
  then show ?thesis using assms readOptionalTag_be [of r False ys]
    by (simp add: readUtcField_def utcBytes_def)
next
  case (Some v)
  then show ?thesis
    using assms readOptionalTag_be [of r True "be64 (word_of_int v) @ ys"]
      readInt64_be [of "advance 1 r" v ys]
    by (simp add: readUtcField_def utcBytes_def utc_ok_def)
qed

lemma readUtcFieldD:
  assumes "readUtcField r = (u, r')" and "ufr_status u = EDS_Success"
  shows "rest r = utcBytes (ufr_utcUnixSeconds u) @ rest r'"
    and "r' = advance (length (utcBytes (ufr_utcUnixSeconds u))) r"
    and "utc_ok (ufr_utcUnixSeconds u)"
proof -
  obtain o1 r1 where 1: "readOptionalTag r = (o1, r1)" by fastforce
  obtain b where b: "o1 = Some b"
    using assms 1 by (cases o1) (auto simp: readUtcField_def)
  note t = readOptionalTagD [OF 1 [unfolded b]]
  have "rest r = utcBytes (ufr_utcUnixSeconds u) @ rest r' \<and>
      r' = advance (length (utcBytes (ufr_utcUnixSeconds u))) r \<and> utc_ok (ufr_utcUnixSeconds u)"
  proof (cases b)
    case False
    then have "u = \<lparr>ufr_status = EDS_Success, ufr_utcUnixSeconds = None\<rparr>" "r' = r1"
      using assms(1) by (simp_all add: readUtcField_def 1 b)
    then have u: "utcBytes (ufr_utcUnixSeconds u) = [0]" "utc_ok (ufr_utcUnixSeconds u)" "r' = r1"
      by (simp_all add: utcBytes_def utc_ok_def)
    have "rest r = [0] @ rest r1" using conjunct1 [OF t] by (simp only: False if_False append.simps)
    moreover have "r1 = advance (length [0 :: u8]) r" using conjunct2 [OF t] by simp
    ultimately show ?thesis using u(2) unfolding u(1,3) by blast
  next
    case True
    obtain o2 r2 where 2: "readInt64 r1 = (o2, r2)" by fastforce
    obtain v where v: "o2 = Some v"
      using assms 1 2 b True by (cases o2) (auto simp: readUtcField_def)
    have u: "u = \<lparr>ufr_status = EDS_Success, ufr_utcUnixSeconds = Some v\<rparr>" "r' = r2"
      using assms(1) True by (simp_all add: readUtcField_def 1 2 b v)
    note w = readInt64D [OF 2 [unfolded v]]
    have "rest r = 1 # be64 (word_of_int v) @ rest r2"
      by (simp add: conjunct1 [OF t] True conjunct1 [OF w])
    moreover have "r2 = advance 9 r" using conjunct1 [OF conjunct2 [OF w]] conjunct2 [OF t] by simp
    moreover have "utc_ok (ufr_utcUnixSeconds u)"
      using conjunct2 [OF conjunct2 [OF w]] by (simp add: u utc_ok_def)
    moreover have "utcBytes (ufr_utcUnixSeconds u) = 1 # be64 (word_of_int v)"
      by (simp add: u utcBytes_def)
    ultimately show ?thesis unfolding u(2) by simp
  qed
  then show "rest r = utcBytes (ufr_utcUnixSeconds u) @ rest r'"
    "r' = advance (length (utcBytes (ufr_utcUnixSeconds u))) r" "utc_ok (ufr_utcUnixSeconds u)"
    by blast+
qed

text \<open>The result of a validation that succeeds.\<close>

definition decodedEnvelope :: "StorageEnvelope \<Rightarrow> ValidatedEnvelope" where
  "decodedEnvelope e =
     \<lparr>ven_status = EDS_Success,
      ven_core =
        \<lparr>cfr_status = EDS_Success, cfr_recordTypeRaw = env_recordTypeId e,
         cfr_schemaVersion = env_schemaVersion e, cfr_storageEpochRaw = env_storageEpoch e,
         cfr_versionValue = env_versionValue e,
         cfr_payloadLength = of_nat (length (env_payload e))\<rparr>,
      ven_utcUnixSeconds = env_utcUnixSeconds e, ven_payloadOffset = length (envHeader e) + 4\<rparr>"

lemma envHeader_utc:
  "envHeader e =
     kMagic @ be16 kStorageEnvelopeVersion1 @ be16 (env_recordTypeId e) @
     be32 (env_schemaVersion e) @ be64 (env_storageEpoch e) @ be64 (env_versionValue e) @
     be32 (of_nat (length (env_payload e))) @ utcBytes (env_utcUnixSeconds e)"
  by (simp add: envHeader_def utcBytes_def)

lemma payload_length: "n < 2 ^ 32 \<Longrightarrow> unat (of_nat n :: u32) = n"
  by (simp add: unat_of_nat)

lemma validate_envBytes:
  assumes v: "valid_env e"
  shows "validateEnvelope (envBytes e) = decodedEnvelope e"
proof -
  obtain R where R: "newReader (envBytes e) = R" by simp
  let ?r = R
  let ?u = "length (utcBytes (env_utcUnixSeconds e))"
  have r: "rest ?r = envBytes e" "rd_position ?r = 0"
    using R by (auto simp: rest_def newReader_def)
  have h: "length (envHeader e) = 32 + ?u" by (simp add: envHeader_utc)
  have l: "length (env_payload e) < 2 ^ 32" "utc_ok (env_utcUnixSeconds e)"
    using v by (simp_all add: valid_env_def utc_ok_def)
  have pl: "unat (of_nat (length (env_payload e)) :: u32) = length (env_payload e)"
    by (rule payload_length [OF l(1)])
  have 1: "readBytes 4 ?r = (Some kMagic, advance 4 ?r)"
    by (rule readBytes_append) (simp_all add: r envBytes_def envHeader_utc)
  have 2: "readUint16 (advance 4 ?r) = (Some kStorageEnvelopeVersion1, advance 6 ?r)"
    using read_be(1) [of "advance 4 ?r" kStorageEnvelopeVersion1]
    by (simp add: r envBytes_def envHeader_utc)
  have 3: "readCoreFields (advance 6 ?r) = (ven_core (decodedEnvelope e), advance 32 ?r)"
    using readCoreFields_be [of "advance 6 ?r" "env_recordTypeId e" "env_schemaVersion e"
        "env_storageEpoch e" "env_versionValue e" "of_nat (length (env_payload e))"] v
    by (simp add: r envBytes_def envHeader_utc decodedEnvelope_def valid_env_def fields_ok_def)
  have 4: "readUtcField (advance 32 ?r) =
      (\<lparr>ufr_status = EDS_Success, ufr_utcUnixSeconds = env_utcUnixSeconds e\<rparr>,
       advance (length (envHeader e)) ?r)"
    using readUtcField_be [of "advance 32 ?r" "env_utcUnixSeconds e", OF _ l(2)]
    by (simp add: r envBytes_def h) (simp add: envHeader_utc)
  have 5: "readUint32 (advance (length (envHeader e)) ?r) =
      (Some (envCrc e), advance (length (envHeader e) + 4) ?r)"
    using read_be(2) [of "advance (length (envHeader e)) ?r" "envCrc e"]
    by (simp add: r envBytes_def)
  have 6: "\<not> length (envBytes e) < 37" by (simp add: envBytes_length split: option.split)
  show ?thesis
    unfolding validateEnvelope_def Let_def
    by (simp add: R 1 2 3 4 5 6 frame_sizes remaining_rest r l pl)
      (simp add: decodedEnvelope_def initialValidated_def pl envBytes_def
        envCrc_def crcUpdate_append)
qed

text \<open>And only the bytes of a valid envelope validate.\<close>

lemma validateD:
  assumes v: "ven_status (validateEnvelope bs) = EDS_Success"
  obtains e where "valid_env e" and "bs = envBytes e"
proof -
  note val = validateEnvelope_def Let_def initialValidated_def
  obtain R where R: "newReader bs = R" by simp
  have r: "rest R = bs" "rd_position R = 0" using R by (auto simp: rest_def newReader_def)
  have len: "\<not> length bs < kHeaderBeforeCrcWithoutUtc + kCrcSize"
    using v by (auto simp: val split: if_splits)
  obtain o1 r1 where 1: "readBytes 4 R = (o1, r1)" by fastforce
  have m: "o1 = Some kMagic" using v len
    by (cases o1) (auto simp: val R 1 split: if_splits)
  obtain o2 r2 where 2: "readUint16 r1 = (o2, r2)" by fastforce
  have ver: "o2 = Some kStorageEnvelopeVersion1" using v len
    by (cases o2) (auto simp: val R 1 m 2 split: if_splits)
  obtain core r3 where 3: "readCoreFields r2 = (core, r3)" by fastforce
  have c: "cfr_status core = EDS_Success" using v len
    by (auto simp: val R 1 m 2 ver 3 split: if_splits)
  obtain u r4 where 4: "readUtcField r3 = (u, r4)" by fastforce
  have us: "ufr_status u = EDS_Success" using v len
    by (auto simp: val R 1 m 2 ver 3 c 4 split: if_splits)
  have rem: "\<not> remaining r4 < kCrcSize"
    "remaining r4 - kCrcSize = unat (cfr_payloadLength core)" using v len
    by (auto simp: val R 1 m 2 ver 3 c 4 us split: if_splits)
  obtain o5 r5 where 5: "readUint32 r4 = (o5, r5)" by fastforce
  obtain crc where o5: "o5 = Some crc" using v len
    by (cases o5) (auto simp: val R 1 m 2 ver 3 c 4 us rem 5)
  have k: "crcFinalize (crcUpdate (take (unat (cfr_payloadLength core))
      (drop (rd_position r4 + kCrcSize) bs)) (crcUpdate (take (rd_position r4) bs) crcInitial)) = crc"
    using v len by (auto simp: val R 1 m 2 ver 3 c 4 us rem 5 o5 split: if_splits)
  note d1 = readBytes_SomeD [OF 1 [unfolded m]] and d2 = read_beD(1) [OF 2 [unfolded ver]]
    and d3 = readCoreFieldsD [OF 3 c] and d4 = readUtcFieldD [OF 4 us]
    and d5 = read_beD(2) [OF 5 [unfolded o5]]
  define payload where "payload = rest r5"
  define e where "e = \<lparr>env_recordTypeId = cfr_recordTypeRaw core,
      env_schemaVersion = cfr_schemaVersion core, env_storageEpoch = cfr_storageEpochRaw core,
      env_versionValue = cfr_versionValue core, env_utcUnixSeconds = ufr_utcUnixSeconds u,
      env_payload = payload\<rparr>"
  have r4: "rest r4 = be32 crc @ payload" using d5 unfolding payload_def by blast
  have lp: "length payload = unat (cfr_payloadLength core)"
    using rem by (simp add: remaining_rest r4 kCrcSize_def)
  then have lw: "of_nat (length payload) = cfr_payloadLength core" by simp
  have pos: "rd_position r4 = length (envHeader e)"
  proof -
    have "rd_position r1 = 4" using conjunct2 [OF conjunct2 [OF d1]] r(2) by simp
    moreover have "rd_position r2 = rd_position r1 + 2" using conjunct2 [OF d2] by simp
    moreover have "rd_position r3 = rd_position r2 + 26" using d3(2) by simp
    moreover have "rd_position r4 = rd_position r3 + length (utcBytes (ufr_utcUnixSeconds u))"
      using d4(2) by simp
    ultimately show ?thesis by (simp add: envHeader_utc e_def)
  qed
  have "rest R = envHeader e @ be32 crc @ payload"
    by (simp add: envHeader_utc e_def lw conjunct1 [OF d1] conjunct1 [OF d2] d3(1) d4(1) r4)
  then have b: "bs = envHeader e @ be32 crc @ payload" by (simp add: r(1))
  have "crc = envCrc e"
    using k by (simp add: b pos kCrcSize_def lp [symmetric] envCrc_def crcUpdate_append)
      (simp add: e_def)
  then have "bs = envBytes e" by (simp add: b envBytes_def) (simp add: e_def)
  moreover have "valid_env e"
    using d3(3-6) d4(3) lp unat_u32_lt [of "cfr_payloadLength core"]
    by (simp add: valid_env_def fields_ok_def e_def utc_ok_def)
  ultimately show thesis using that by blast
qed

end
