(* ===== verification/SlotCandidates.thy ===== *)
theory SlotCandidates
  imports StorageEnvelope "HOL-Library.Multiset"
begin

text \<open>
  The store of keyed records (\<open>state_store.hpp\<close>, \<open>state_store_key.hpp\<close>) with its contract as the
  locale \<open>state_store\<close>, the simulated store of the test support
  (\<open>simulated_persistent_state_store.cpp\<close>), which keeps it, and the scan of the slots of a record
  group (\<open>storage_slot_candidates.cpp\<close>).

  The calls \<open>store.read\<close> and \<open>store.write\<close> are parameters on a world \<open>'w\<close>. A read returns the world
  too: the simulated store consumes a one-time read error in it.
\<close>

section \<open>Keys and the port\<close>

datatype StateStoreKeyStatus = SKS_Success | SKS_Empty | SKS_TooLong | SKS_InvalidCharacter

record StateStoreKeyCreateResult =
  skr_status :: StateStoreKeyStatus
  skr_key :: "bytes option"

definition isAllowedKeyByte :: "u8 \<Rightarrow> bool" where
  "isAllowedKeyByte v \<longleftrightarrow>
     (0x41 \<le> v \<and> v \<le> 0x5A) \<or> (0x61 \<le> v \<and> v \<le> 0x7A) \<or> (0x30 \<le> v \<and> v \<le> 0x39) \<or>
     v = 0x5F \<or> v = 0x2E \<or> v = 0x2D"

definition createStateStoreKey :: "bytes \<Rightarrow> StateStoreKeyCreateResult" where
  "createStateStoreKey bs =
     (if bs = [] then \<lparr>skr_status = SKS_Empty, skr_key = None\<rparr>
      else if 15 < length bs then \<lparr>skr_status = SKS_TooLong, skr_key = None\<rparr>
      else if list_ex (\<lambda>b. \<not> isAllowedKeyByte b) bs then
        \<lparr>skr_status = SKS_InvalidCharacter, skr_key = None\<rparr>
      else \<lparr>skr_status = SKS_Success, skr_key = Some bs\<rparr>)"

datatype StateStoreReadStatus = SRS_Success | SRS_NotFound | SRS_ReadError | SRS_CapacityError

datatype StateStoreWriteStatus =
  SWS_Success | SWS_WriteError | SWS_CapacityError | SWS_CommitOutcomeUnknown

record StateStoreReadResult =
  srr_status :: StateStoreReadStatus
  srr_value :: bytes

text \<open>
  \<open>stored k w\<close> is the value that is kept under \<open>k\<close>. A successful write has stored the value; a
  refused one has changed nothing; of an unknown commit nothing is promised. A successful read
  gives the stored value, within the limit of the caller. A call concerns its own key only.
\<close>

locale state_store =
  fixes read :: "'k \<Rightarrow> nat \<Rightarrow> 'w \<Rightarrow> StateStoreReadResult \<times> 'w"
    and "write" :: "'k \<Rightarrow> bytes \<Rightarrow> 'w \<Rightarrow> StateStoreWriteStatus \<times> 'w"
    and stored :: "'k \<Rightarrow> 'w \<Rightarrow> bytes option"
  assumes write_success: "write k v w = (SWS_Success, w') \<Longrightarrow> stored k w' = Some v"
    and write_refused:
      "write k v w = (s, w') \<Longrightarrow> s = SWS_WriteError \<or> s = SWS_CapacityError \<Longrightarrow>
         stored x w' = stored x w"
    and write_frame: "write k v w = (s, w') \<Longrightarrow> x \<noteq> k \<Longrightarrow> stored x w' = stored x w"
    and read_success:
      "read k n w = (r, w') \<Longrightarrow> srr_status r = SRS_Success \<Longrightarrow>
         stored k w = Some (srr_value r) \<and> length (srr_value r) \<le> n"
    and read_keeps: "read k n w = (r, w') \<Longrightarrow> stored x w' = stored x w"

section \<open>The simulated store\<close>

datatype WriteFault =
    WF_None
  | WF_FailBeforeBegin
  | WF_PowerCutBeforeCommit
  | WF_PowerCutAfterCommitBeforeReturn
  | WF_CapacityExceeded

record 'k SimulatedPersistentStateStore =
  sim_committed :: "'k \<Rightarrow> bytes option"
  sim_pendingWrite :: "('k \<times> bytes) option"
  sim_nextWriteFault :: WriteFault
  sim_readShouldFail :: "'k \<Rightarrow> bool option"
  sim_forceNotFound :: "'k \<Rightarrow> bool option"
  sim_armFailNextReadAfterWrite :: bool
  sim_failReadAfterWrite :: bool

definition newSimulatedStore :: "'k SimulatedPersistentStateStore" where
  "newSimulatedStore =
     \<lparr>sim_committed = (\<lambda>k. None), sim_pendingWrite = None, sim_nextWriteFault = WF_None,
      sim_readShouldFail = (\<lambda>k. None), sim_forceNotFound = (\<lambda>k. None),
      sim_armFailNextReadAfterWrite = False, sim_failReadAfterWrite = False\<rparr>"

definition simWrite ::
  "'k \<Rightarrow> bytes \<Rightarrow> 'k SimulatedPersistentStateStore \<Rightarrow>
     StateStoreWriteStatus \<times> 'k SimulatedPersistentStateStore" where
  "simWrite key value s =
     (let fault = sim_nextWriteFault s;
          s = s\<lparr>sim_nextWriteFault := WF_None\<rparr> in
      if fault = WF_FailBeforeBegin then (SWS_WriteError, s)
      else if fault = WF_CapacityExceeded then (SWS_CapacityError, s)
      else let s = s\<lparr>sim_pendingWrite := Some (key, value)\<rparr> in
      if fault = WF_PowerCutBeforeCommit then (SWS_WriteError, s)
      else let s = s\<lparr>sim_committed := (sim_committed s)(key := Some value),
                     sim_pendingWrite := None\<rparr>;
               s = (if sim_armFailNextReadAfterWrite s then
                      s\<lparr>sim_armFailNextReadAfterWrite := False, sim_failReadAfterWrite := True\<rparr>
                    else s) in
      if fault = WF_PowerCutAfterCommitBeforeReturn then (SWS_CommitOutcomeUnknown, s)
      else (SWS_Success, s))"

definition simRead ::
  "'k \<Rightarrow> nat \<Rightarrow> 'k SimulatedPersistentStateStore \<Rightarrow>
     StateStoreReadResult \<times> 'k SimulatedPersistentStateStore" where
  "simRead key maxBytes s =
     (if sim_failReadAfterWrite s then
        (\<lparr>srr_status = SRS_ReadError, srr_value = []\<rparr>, s\<lparr>sim_failReadAfterWrite := False\<rparr>)
      else if sim_forceNotFound s key = Some True then
        (\<lparr>srr_status = SRS_NotFound, srr_value = []\<rparr>, s)
      else if sim_readShouldFail s key = Some True then
        (\<lparr>srr_status = SRS_ReadError, srr_value = []\<rparr>, s)
      else case sim_committed s key of
        None \<Rightarrow> (\<lparr>srr_status = SRS_NotFound, srr_value = []\<rparr>, s)
      | Some value \<Rightarrow>
          if maxBytes < length value then
            (\<lparr>srr_status = SRS_CapacityError, srr_value = []\<rparr>, s)
          else (\<lparr>srr_status = SRS_Success, srr_value = value\<rparr>, s))"

definition simErase ::
  "'k \<Rightarrow> 'k SimulatedPersistentStateStore \<Rightarrow> 'k SimulatedPersistentStateStore" where
  "simErase key s = s\<lparr>sim_committed := (sim_committed s)(key := None)\<rparr>"

definition simRestart :: "'k SimulatedPersistentStateStore \<Rightarrow> 'k SimulatedPersistentStateStore" where
  "simRestart s =
     s\<lparr>sim_pendingWrite := None, sim_nextWriteFault := WF_None,
       sim_readShouldFail := (\<lambda>k. None), sim_forceNotFound := (\<lambda>k. None),
       sim_armFailNextReadAfterWrite := False, sim_failReadAfterWrite := False\<rparr>"

text \<open>The simulated store keeps the contract, with any faults injected.\<close>

interpretation sim: state_store simRead simWrite "\<lambda>k s. sim_committed s k"
  by unfold_locales
    (auto simp: simWrite_def simRead_def Let_def split: if_splits option.splits)

section \<open>Slots\<close>

record SlotCandidate =
  sc_slot :: u32
  sc_versionValue :: u64
  sc_utcUnixSeconds :: "int option"

datatype SlotIssueKind =
    SIK_NotFound
  | SIK_ReadError
  | SIK_CapacityError
  | SIK_InvalidMagic
  | SIK_UnknownEnvelopeVersion
  | SIK_InvalidRecordType
  | SIK_InvalidSchemaVersion
  | SIK_InvalidStorageEpoch
  | SIK_InvalidVersionValue
  | SIK_InvalidUtcTag
  | SIK_LengthMismatch
  | SIK_CrcMismatch
  | SIK_RecordIdentityMismatch
  | SIK_UnexpectedStatus

record SlotIssue =
  si_slot :: u32
  si_kind :: SlotIssueKind

datatype SlotScanStatus = SSS_Success | SSS_SlotLimitExceeded

record SlotScanResult =
  scr_status :: SlotScanStatus
  scr_candidates :: "SlotCandidate list"
  scr_issues :: "SlotIssue list"

definition kMaximumTechnicalSlotsPerScan :: nat where
  "kMaximumTechnicalSlotsPerScan = 8"

definition readIssueKind :: "StateStoreReadStatus \<Rightarrow> SlotIssueKind" where
  "readIssueKind s =
     (case s of SRS_NotFound \<Rightarrow> SIK_NotFound | SRS_ReadError \<Rightarrow> SIK_ReadError
      | SRS_CapacityError \<Rightarrow> SIK_CapacityError | SRS_Success \<Rightarrow> SIK_UnexpectedStatus)"

definition decodeIssueKind :: "EnvelopeDecodeStatus \<Rightarrow> SlotIssueKind" where
  "decodeIssueKind s =
     (case s of
        EDS_InvalidMagic \<Rightarrow> SIK_InvalidMagic
      | EDS_UnknownEnvelopeVersion \<Rightarrow> SIK_UnknownEnvelopeVersion
      | EDS_InvalidRecordType \<Rightarrow> SIK_InvalidRecordType
      | EDS_InvalidSchemaVersion \<Rightarrow> SIK_InvalidSchemaVersion
      | EDS_InvalidStorageEpoch \<Rightarrow> SIK_InvalidStorageEpoch
      | EDS_InvalidVersionValue \<Rightarrow> SIK_InvalidVersionValue
      | EDS_InvalidUtcTag \<Rightarrow> SIK_InvalidUtcTag
      | EDS_LengthMismatch \<Rightarrow> SIK_LengthMismatch
      | EDS_CrcMismatch \<Rightarrow> SIK_CrcMismatch
      | EDS_Success \<Rightarrow> SIK_UnexpectedStatus)"

text \<open>One slot: its candidate, or the issue that it is skipped for.\<close>

definition scanSlot ::
  "u16 \<Rightarrow> u32 \<Rightarrow> u64 \<Rightarrow> u32 \<Rightarrow> StateStoreReadResult \<Rightarrow> SlotIssue + SlotCandidate" where
  "scanSlot recordType schemaVersion storageEpoch slot readResult =
     (if srr_status readResult \<noteq> SRS_Success then
        Inl \<lparr>si_slot = slot, si_kind = readIssueKind (srr_status readResult)\<rparr>
      else let decoded = decodeEnvelopeMetadata (srr_value readResult) in
      case emr_metadata decoded of
        None \<Rightarrow> Inl \<lparr>si_slot = slot, si_kind = decodeIssueKind (emr_status decoded)\<rparr>
      | Some meta \<Rightarrow>
          if emr_status decoded \<noteq> EDS_Success then
            Inl \<lparr>si_slot = slot, si_kind = decodeIssueKind (emr_status decoded)\<rparr>
          else if emd_recordTypeId meta \<noteq> recordType \<or> emd_schemaVersion meta \<noteq> schemaVersion \<or>
             emd_storageEpoch meta \<noteq> storageEpoch then
            Inl \<lparr>si_slot = slot, si_kind = SIK_RecordIdentityMismatch\<rparr>
          else Inr \<lparr>sc_slot = slot, sc_versionValue = emd_versionValue meta,
                    sc_utcUnixSeconds = emd_utcUnixSeconds meta\<rparr>)"

fun scanLoop ::
  "('k \<Rightarrow> nat \<Rightarrow> 'w \<Rightarrow> StateStoreReadResult \<times> 'w) \<Rightarrow> u16 \<Rightarrow> u32 \<Rightarrow> u64 \<Rightarrow> nat \<Rightarrow> nat \<Rightarrow> 'k list \<Rightarrow> 'w \<Rightarrow>
     SlotCandidate list \<times> SlotIssue list \<times> 'w" where
  "scanLoop read rt sv ep maxBytes index [] w = ([], [], w)"
| "scanLoop read rt sv ep maxBytes index (key # keys) w =
     (let (readResult, w) = read key maxBytes w;
          (candidates, issues, w) = scanLoop read rt sv ep maxBytes (index + 1) keys w in
      case scanSlot rt sv ep (of_nat index) readResult of
        Inl issue \<Rightarrow> (candidates, issue # issues, w)
      | Inr candidate \<Rightarrow> (candidate # candidates, issues, w))"

text \<open>The order of \<open>std::sort\<close>: newest version first, then the lower slot.\<close>

definition candidateBefore :: "SlotCandidate \<Rightarrow> SlotCandidate \<Rightarrow> bool" where
  "candidateBefore left right =
     (if sc_versionValue left \<noteq> sc_versionValue right
      then sc_versionValue right < sc_versionValue left
      else sc_slot left < sc_slot right)"

fun insertCandidate :: "SlotCandidate \<Rightarrow> SlotCandidate list \<Rightarrow> SlotCandidate list" where
  "insertCandidate c [] = [c]"
| "insertCandidate c (d # ds) = (if candidateBefore d c then d # insertCandidate c ds else c # d # ds)"

definition sortCandidates :: "SlotCandidate list \<Rightarrow> SlotCandidate list" where
  "sortCandidates cs = foldr insertCandidate cs []"

definition scanTechnicalSlotCandidates ::
  "('k \<Rightarrow> nat \<Rightarrow> 'w \<Rightarrow> StateStoreReadResult \<times> 'w) \<Rightarrow> 'k list \<Rightarrow> u16 \<Rightarrow> u32 \<Rightarrow> u64 \<Rightarrow> nat \<Rightarrow> 'w \<Rightarrow>
     SlotScanResult \<times> 'w" where
  "scanTechnicalSlotCandidates read slotKeys recordType schemaVersion storageEpoch maxBytes w =
     (if kMaximumTechnicalSlotsPerScan < length slotKeys then
        (\<lparr>scr_status = SSS_SlotLimitExceeded, scr_candidates = [], scr_issues = []\<rparr>, w)
      else let (candidates, issues, w) =
                 scanLoop read recordType schemaVersion storageEpoch maxBytes 0 slotKeys w in
        (\<lparr>scr_status = SSS_Success, scr_candidates = sortCandidates candidates,
          scr_issues = issues\<rparr>, w))"

datatype SlotPayloadLoadStatus =
    SPL_Success
  | SPL_NotFound
  | SPL_ReadError
  | SPL_CapacityError
  | SPL_InvalidEnvelope
  | SPL_RecordIdentityMismatch
  | SPL_VersionValueMismatch

record SlotPayloadResult =
  spr_status :: SlotPayloadLoadStatus
  spr_payload :: bytes
  spr_utcUnixSeconds :: "int option"

definition noPayload :: "SlotPayloadLoadStatus \<Rightarrow> SlotPayloadResult" where
  "noPayload s = \<lparr>spr_status = s, spr_payload = [], spr_utcUnixSeconds = None\<rparr>"

definition loadSlotPayload ::
  "('k \<Rightarrow> nat \<Rightarrow> 'w \<Rightarrow> StateStoreReadResult \<times> 'w) \<Rightarrow> 'k \<Rightarrow> u16 \<Rightarrow> u32 \<Rightarrow> u64 \<Rightarrow> u64 \<Rightarrow> nat \<Rightarrow> 'w \<Rightarrow>
     SlotPayloadResult \<times> 'w" where
  "loadSlotPayload read slotKey recordType schemaVersion storageEpoch versionValue maxBytes w =
     (let (readResult, w) = read slotKey maxBytes w in
      (case srr_status readResult of
         SRS_NotFound \<Rightarrow> noPayload SPL_NotFound
       | SRS_ReadError \<Rightarrow> noPayload SPL_ReadError
       | SRS_CapacityError \<Rightarrow> noPayload SPL_CapacityError
       | SRS_Success \<Rightarrow>
           let decoded = decodeEnvelope (srr_value readResult) in
           case edr_envelope decoded of
             None \<Rightarrow> noPayload SPL_InvalidEnvelope
           | Some envelope \<Rightarrow>
               if edr_status decoded \<noteq> EDS_Success then noPayload SPL_InvalidEnvelope
               else if env_recordTypeId envelope \<noteq> recordType \<or>
                  env_schemaVersion envelope \<noteq> schemaVersion \<or>
                  env_storageEpoch envelope \<noteq> storageEpoch then
                 noPayload SPL_RecordIdentityMismatch
               else if env_versionValue envelope \<noteq> versionValue then
                 noPayload SPL_VersionValueMismatch
               else \<lparr>spr_status = SPL_Success, spr_payload = env_payload envelope,
                     spr_utcUnixSeconds = env_utcUnixSeconds envelope\<rparr>, w))"

datatype NextSlotStatus = NSS_Success | NSS_InvalidSlotCount | NSS_InvalidLastSlot

record NextSlotResult =
  nsr_status :: NextSlotStatus
  nsr_slot :: "u32 option"

definition nextSlotRoundRobin :: "u32 \<Rightarrow> nat \<Rightarrow> NextSlotResult" where
  "nextSlotRoundRobin lastWrittenSlot slotCount =
     (if slotCount = 0 \<or> unat u32_max < slotCount then
        \<lparr>nsr_status = NSS_InvalidSlotCount, nsr_slot = None\<rparr>
      else let slotCount32 = of_nat slotCount :: u32 in
      if slotCount32 \<le> lastWrittenSlot then
        \<lparr>nsr_status = NSS_InvalidLastSlot, nsr_slot = None\<rparr>
      else \<lparr>nsr_status = NSS_Success,
            nsr_slot = Some (if lastWrittenSlot + 1 = slotCount32 then 0 else lastWrittenSlot + 1)\<rparr>)"

end
