(* ===== verification/StorageProperties.thy ===== *)
theory StorageProperties
  imports EnvelopeProofs SlotCandidates
begin

text \<open>
  The properties of the stored records: the CRC against its bitwise reference, the round trip and
  the canonicity of the frame, the detection of a corrupted byte, and what a scan of the slots and
  a load of a payload give on any store that keeps its contract. Witnesses run on the simulated
  store.
\<close>

section \<open>The CRC\<close>

lemma crcBit_numeral:
  "crcBit (numeral k) =
     (if numeral k AND 1 \<noteq> (0 :: u32) then 0xEDB88320 XOR drop_bit 1 (numeral k)
      else drop_bit 1 (numeral k))"
  by (simp only: crcBit_def)

lemma crcBits_8:
  "(crcBit ^^ 8) x = crcBit (crcBit (crcBit (crcBit (crcBit (crcBit (crcBit (crcBit x)))))))"
  by (simp add: numeral_eq_Suc)

lemma crcReference_eq: "computeCrc32IsoHdlc d = crcReference d"
  by (simp add: computeCrc32IsoHdlc_def crcReference_def crcFinalize_def crcUpdate_def crcInitial_def
      crcByte_bits [abs_def])

text \<open>C26: the table-driven CRC of \<open>crc32.cpp\<close> is the reflected bitwise CRC-32 with the polynomial
  \<open>0xEDB88320\<close>, for every sequence of bytes; it is the same however the bytes are split into
  updates; and it gives the check value that the header names for the digits 1 to 9.\<close>

theorem crc_table_is_bitwise:
  "computeCrc32IsoHdlc d = crcReference d \<and>
   computeCrc32IsoHdlc (a @ b) = crcFinalize (crcUpdate b (crcUpdate a crcInitial)) \<and>
   computeCrc32IsoHdlc [0x31, 0x32, 0x33, 0x34, 0x35, 0x36, 0x37, 0x38, 0x39] = 0xCBF43926"
proof -
  have "crcReference [0x31, 0x32, 0x33, 0x34, 0x35, 0x36, 0x37, 0x38, 0x39] = 0xCBF43926"
    by (simp add: crcReference_def crcBits_8 crcBit_numeral del: funpow.simps)
  then show ?thesis
    by (simp add: crcReference_eq)
      (simp add: crcReference_eq [symmetric] computeCrc32IsoHdlc_def crcUpdate_append)
qed

section \<open>The frame\<close>

lemma encode_success:
  "encodeEnvelope e m = (EES_Success, Some bs) \<longleftrightarrow>
     fields_ok e \<and> length (env_payload e) < 2 ^ 32 \<and> length (envBytes e) \<le> m \<and> bs = envBytes e"
  by (auto simp: encodeEnvelope_eq)

lemma decode_envBytes:
  assumes "valid_env e"
  shows "decodeEnvelope (envBytes e) = \<lparr>edr_status = EDS_Success, edr_envelope = Some e\<rparr>"
    and "decodeEnvelopeMetadata (envBytes e) = \<lparr>emr_status = EDS_Success, emr_metadata = Some
      \<lparr>emd_recordTypeId = env_recordTypeId e, emd_schemaVersion = env_schemaVersion e,
       emd_storageEpoch = env_storageEpoch e, emd_versionValue = env_versionValue e,
       emd_utcUnixSeconds = env_utcUnixSeconds e,
       emd_payloadLength = of_nat (length (env_payload e))\<rparr>\<rparr>"
proof -
  have "unat (of_nat (length (env_payload e)) :: u32) = length (env_payload e)"
    using assms by (intro payload_length) (simp add: valid_env_def)
  then show "decodeEnvelope (envBytes e) = \<lparr>edr_status = EDS_Success, edr_envelope = Some e\<rparr>"
    by (simp add: decodeEnvelope_def validate_envBytes [OF assms])
      (simp add: decodedEnvelope_def envBytes_def)
qed (simp add: decodeEnvelopeMetadata_def validate_envBytes [OF assms] decodedEnvelope_def)

lemma decode_SomeD:
  assumes "edr_envelope (decodeEnvelope bs) = Some e"
  shows "valid_env e \<and> bs = envBytes e"
proof -
  have "ven_status (validateEnvelope bs) = EDS_Success"
    using assms by (auto simp: decodeEnvelope_def Let_def split: if_splits)
  then obtain f where "valid_env f" "bs = envBytes f" by (rule validateD)
  with assms decode_envBytes(1) [of f] show ?thesis by simp
qed

lemma decode_status:
  "edr_status (decodeEnvelope bs) = EDS_Success \<longleftrightarrow> edr_envelope (decodeEnvelope bs) \<noteq> None"
  by (simp add: decodeEnvelope_def Let_def)

lemma metadata_SomeD:
  assumes "emr_metadata (decodeEnvelopeMetadata bs) = Some d"
  obtains e where "valid_env e" "bs = envBytes e" "emd_recordTypeId d = env_recordTypeId e"
    "emd_schemaVersion d = env_schemaVersion e" "emd_storageEpoch d = env_storageEpoch e"
    "emd_versionValue d = env_versionValue e" "emd_utcUnixSeconds d = env_utcUnixSeconds e"
proof -
  have "ven_status (validateEnvelope bs) = EDS_Success"
    using assms by (auto simp: decodeEnvelopeMetadata_def Let_def split: if_splits)
  then obtain f where "valid_env f" "bs = envBytes f" by (rule validateD)
  with assms decode_envBytes(2) [of f] that show thesis by auto
qed

text \<open>C24: an envelope that the encoder accepts, with a time stamp in the range of its 64-bit field,
  is decoded from the bytes that the encoder wrote, field by field, and so are its metadata. The
  encoder accepts it exactly when no identifying field is 0, the payload fits into its 32-bit
  length and the record into the given capacity.\<close>

theorem envelope_roundtrip:
  assumes "encodeEnvelope e m = (EES_Success, Some bs)"
    and "\<And>v. env_utcUnixSeconds e = Some v \<Longrightarrow> - (2 ^ 63) \<le> v \<and> v < 2 ^ 63"
  shows "decodeEnvelope bs = \<lparr>edr_status = EDS_Success, edr_envelope = Some e\<rparr> \<and>
    emr_metadata (decodeEnvelopeMetadata bs) = Some
      \<lparr>emd_recordTypeId = env_recordTypeId e, emd_schemaVersion = env_schemaVersion e,
       emd_storageEpoch = env_storageEpoch e, emd_versionValue = env_versionValue e,
       emd_utcUnixSeconds = env_utcUnixSeconds e,
       emd_payloadLength = of_nat (length (env_payload e))\<rparr> \<and>
    (fst (encodeEnvelope f n) = EES_Success \<longleftrightarrow>
       env_recordTypeId f \<noteq> 0 \<and> env_schemaVersion f \<noteq> 0 \<and> env_storageEpoch f \<noteq> 0 \<and>
       env_versionValue f \<noteq> 0 \<and> length (env_payload f) < 2 ^ 32 \<and>
       (if env_utcUnixSeconds f = None then 37 else 45) + length (env_payload f) \<le> n)"
proof -
  have "valid_env e" "bs = envBytes e"
    using assms by (auto simp: encode_success valid_env_def)
  then show ?thesis
    by (auto simp: decode_envBytes encodeEnvelope_eq fields_ok_def envBytes_length
        split: option.splits if_splits)
qed

definition ex_envelope :: StorageEnvelope where
  "ex_envelope =
     \<lparr>env_recordTypeId = 3, env_schemaVersion = 1, env_storageEpoch = 7, env_versionValue = 12,
      env_utcUnixSeconds = Some (- 5), env_payload = [0xAA, 0xBB]\<rparr>"

lemma ex_encode: "encodeEnvelope ex_envelope 64 = (EES_Success, Some (envBytes ex_envelope))"
  by (simp add: encode_success envBytes_length fields_ok_def) (simp add: ex_envelope_def)

theorem envelope_roundtrip_witness:
  "edr_envelope (decodeEnvelope (envBytes ex_envelope)) = Some ex_envelope"
  using envelope_roundtrip [OF ex_encode] by (simp add: ex_envelope_def)

text \<open>The frame is canonical: whatever bytes decode to an envelope are exactly the bytes that
  the encoder writes for it, so that no two records decode to the same envelope.\<close>

theorem envelope_canonical:
  assumes "edr_status (decodeEnvelope bs) = EDS_Success"
  shows "\<exists>e. edr_envelope (decodeEnvelope bs) = Some e \<and>
    encodeEnvelope e (length bs) = (EES_Success, Some bs)"
  using assms decode_SomeD [of bs] by (auto simp: decode_status encode_success valid_env_def)

theorem envelope_canonical_witness:
  "\<exists>e. encodeEnvelope e (length (envBytes ex_envelope)) = (EES_Success, Some (envBytes ex_envelope))"
proof -
  have "valid_env ex_envelope" by (simp add: valid_env_def fields_ok_def ex_envelope_def)
  with envelope_canonical [of "envBytes ex_envelope"] show ?thesis by (auto simp: decode_envBytes)
qed

section \<open>Corruption\<close>

text \<open>The frame of another envelope that differs from a frame in one byte.\<close>

lemma utc_flag: "bs = envBytes e \<Longrightarrow> bs ! 32 = (if env_utcUnixSeconds e = None then 0 else 1)"
  by (auto simp: envBytes_def envHeader_def nth_append split: option.split)

lemma length_field:
  "bs = envBytes e \<Longrightarrow> take 4 (drop 28 bs) = be32 (of_nat (length (env_payload e)))"
  by (simp add: envBytes_def envHeader_def)

lemma one_byte_same_layout:
  assumes l: "length (envHeader f) = length (envHeader e)"
      "length (env_payload f) = length (env_payload e)"
    and i: "i < length (envBytes e)" "b \<noteq> envBytes e ! i"
    and f: "(envBytes e)[i := b] = envBytes f"
  shows False
proof -
  let ?h = "length (envHeader e)"
  have crc: "crcUpdate (envHeader f @ env_payload f) crcInitial =
      crcUpdate (envHeader e @ env_payload e) crcInitial" if "envCrc f = envCrc e"
    using that by (simp add: envCrc_def crcFinalize_inject)
  consider (h) "i < ?h" | (c) "?h \<le> i" "i < ?h + 4" | (p) "?h + 4 \<le> i" by linarith
  then show False
  proof cases
    case h
    then have "(envHeader e)[i := b] @ be32 (envCrc e) @ env_payload e = envBytes f"
      using f by (simp add: envBytes_def list_update_append)
    then have e: "envHeader f = (envHeader e)[i := b]" "envCrc f = envCrc e"
      "env_payload f = env_payload e"
      using l by (simp_all add: envBytes_def append_eq_append_conv)
    have "envHeader f @ env_payload f = (envHeader e @ env_payload e)[i := b]"
      using h by (simp add: e list_update_append)
    moreover have "b \<noteq> (envHeader e @ env_payload e) ! i"
      using h i by (simp add: envBytes_def nth_append)
    ultimately show False
      using crc_one_byte [of i "envHeader e @ env_payload e" b crcInitial] crc [OF e(2)] h by simp
  next
    case c
    define j where "j = i - ?h"
    have j: "j < 4" "i = ?h + j" using c by (simp_all add: j_def)
    then have "envHeader e @ (be32 (envCrc e))[j := b] @ env_payload e = envBytes f"
      using f by (simp add: envBytes_def list_update_append)
    then have e: "envHeader e = envHeader f" "(be32 (envCrc e))[j := b] = be32 (envCrc f)"
      "env_payload e = env_payload f"
      using l by (simp_all add: envBytes_def append_eq_append_conv)
    from e(1,3) have "envCrc f = envCrc e" by (simp add: envCrc_def)
    with e(2) have "(be32 (envCrc e))[j := b] ! j = be32 (envCrc e) ! j" by simp
    then have "b = be32 (envCrc e) ! j" using j(1) by simp
    then show False using j i by (simp add: envBytes_def nth_append)
  next
    case p
    define j where "j = i - ?h - 4"
    have j: "i = ?h + 4 + j" using p by (simp add: j_def)
    then have "envHeader e @ be32 (envCrc e) @ (env_payload e)[j := b] = envBytes f"
      using f by (simp add: envBytes_def list_update_append)
    then have e: "envHeader f = envHeader e" "envCrc f = envCrc e"
      "env_payload f = (env_payload e)[j := b]"
      using l by (simp_all add: envBytes_def append_eq_append_conv)
    have "envHeader f @ env_payload f = (envHeader e @ env_payload e)[?h + j := b]"
      by (simp add: e list_update_append)
    moreover have "b \<noteq> (envHeader e @ env_payload e) ! (?h + j)"
      "?h + j < length (envHeader e @ env_payload e)"
      using j i by (simp_all add: envBytes_def nth_append)
    ultimately show False
      using crc_one_byte [of "?h + j" "envHeader e @ env_payload e" b crcInitial] crc [OF e(2)]
      by simp
  qed
qed

lemma one_byte_not_frame:
  assumes v: "valid_env e" "valid_env f" and i: "i < length (envBytes e)" "b \<noteq> envBytes e ! i"
    and f: "(envBytes e)[i := b] = envBytes f"
  shows False
proof (cases "env_utcUnixSeconds f = None \<longleftrightarrow> env_utcUnixSeconds e = None")
  have t: "length (envBytes f) = length (envBytes e)" using arg_cong [OF f, of length] by simp
  case True
  with t have "length (envHeader f) = length (envHeader e)"
    "length (env_payload f) = length (env_payload e)"
    by (auto simp: envBytes_length envHeader_length split: option.splits)
  then show False by (rule one_byte_same_layout [OF _ _ i f])
next
  have t: "length (envBytes f) = length (envBytes e)" using arg_cong [OF f, of length] by simp
  case False
  have u: "length (env_payload f) \<noteq> length (env_payload e)"
    using False t by (auto simp: envBytes_length split: option.splits)
  have "envBytes f ! 32 \<noteq> envBytes e ! 32" using False by (simp add: utc_flag)
  then have "i = 32" using f by (metis nth_list_update_neq)
  then have "take 4 (drop 28 (envBytes f)) = take 4 (drop 28 (envBytes e))"
    by (simp add: f [symmetric] drop_update_swap take_update_swap list_update_beyond)
  then have "(of_nat (length (env_payload f)) :: u32) = of_nat (length (env_payload e))"
    by (simp add: length_field)
  then have "length (env_payload f) = length (env_payload e)"
    using v by (metis payload_length valid_env_def)
  with u show False by simp
qed

text \<open>C25: no single corrupted byte of a stored record goes unnoticed: changing any one byte of the
  bytes that the encoder wrote, wherever it is (magic, field, length, time stamp tag, CRC or
  payload), makes both decoders refuse the record.\<close>

theorem envelope_corruption_detected:
  assumes "encodeEnvelope e m = (EES_Success, Some bs)"
    and "\<And>v. env_utcUnixSeconds e = Some v \<Longrightarrow> - (2 ^ 63) \<le> v \<and> v < 2 ^ 63"
    and "i < length bs" and "b \<noteq> bs ! i"
  shows "edr_status (decodeEnvelope (bs[i := b])) \<noteq> EDS_Success \<and>
    edr_envelope (decodeEnvelope (bs[i := b])) = None \<and>
    emr_metadata (decodeEnvelopeMetadata (bs[i := b])) = None"
proof -
  have e: "valid_env e" "bs = envBytes e"
    using assms(1,2) by (auto simp: encode_success valid_env_def)
  have n: "\<not> (valid_env f \<and> bs[i := b] = envBytes f)" for f
    using one_byte_not_frame [OF e(1)] assms(3,4) by (auto simp: e(2))
  then show ?thesis
    by (metis decode_SomeD decode_status metadata_SomeD not_None_eq)
qed

theorem envelope_corruption_detected_witness:
  "edr_status (decodeEnvelope ((envBytes ex_envelope)[45 := 0xAB])) \<noteq> EDS_Success"
proof -
  have "envBytes ex_envelope ! 45 = 0xAA"
    by (simp add: envBytes_def nth_append envHeader_length) (simp add: ex_envelope_def)
  then show ?thesis
    using envelope_corruption_detected [OF ex_encode, of 45 "0xAB"]
    by (simp add: envBytes_length) (simp add: ex_envelope_def)
qed

section \<open>The store and its slots\<close>

text \<open>Any call on the store.\<close>

datatype 'k StoreCall = StoreRead 'k nat | StoreWrite 'k bytes

fun store_call ::
  "('k \<Rightarrow> nat \<Rightarrow> 'w \<Rightarrow> StateStoreReadResult \<times> 'w) \<Rightarrow>
     ('k \<Rightarrow> bytes \<Rightarrow> 'w \<Rightarrow> StateStoreWriteStatus \<times> 'w) \<Rightarrow> 'k StoreCall \<Rightarrow> 'w \<Rightarrow> 'w" where
  "store_call read wr (StoreRead k n) w = snd (read k n w)"
| "store_call read wr (StoreWrite k v) w = snd (wr k v w)"

fun writes_to :: "'k StoreCall \<Rightarrow> 'k \<Rightarrow> bool" where
  "writes_to (StoreRead x n) k = False"
| "writes_to (StoreWrite x v) k = (x = k)"

text \<open>What a candidate says of the slot that it stands for.\<close>

definition candidate_of :: "u16 \<Rightarrow> u32 \<Rightarrow> u64 \<Rightarrow> bytes option \<Rightarrow> SlotCandidate \<Rightarrow> bool" where
  "candidate_of rt sv ep v c \<longleftrightarrow>
     (\<exists>e. v = Some (envBytes e) \<and> valid_env e \<and> env_recordTypeId e = rt \<and>
        env_schemaVersion e = sv \<and> env_storageEpoch e = ep \<and>
        env_versionValue e = sc_versionValue c \<and> env_utcUnixSeconds e = sc_utcUnixSeconds c)"

context state_store
begin

lemma other_calls:
  "list_all (\<lambda>c. \<not> writes_to c k) cs \<Longrightarrow> stored k (fold (store_call read write) cs w) = stored k w"
proof (induction cs arbitrary: w)
  case (Cons c cs)
  have "stored k (store_call read write c w) = stored k w"
  proof (cases c)
    case (StoreRead x n)
    then show ?thesis using read_keeps [of x n w] by (cases "read x n w") auto
  next
    case (StoreWrite x v)
    then show ?thesis using write_frame [of x v w] Cons.prems by (cases "write x v w") auto
  qed
  with Cons show ?case by simp
qed simp

lemma load_stored:
  assumes "stored k w = Some (envBytes e)" and "valid_env e"
    and "loadSlotPayload read k (env_recordTypeId e) (env_schemaVersion e) (env_storageEpoch e)
      (env_versionValue e) n w = (r, w')"
  shows "r \<in> {\<lparr>spr_status = SPL_Success, spr_payload = env_payload e,
      spr_utcUnixSeconds = env_utcUnixSeconds e\<rparr>,
    noPayload SPL_NotFound, noPayload SPL_ReadError, noPayload SPL_CapacityError}"
proof -
  obtain q v where q: "read k n w = (q, v)" by fastforce
  have "srr_value q = envBytes e" if "srr_status q = SRS_Success"
    using read_success [OF q that] assms(1) by simp
  then show ?thesis using assms(3) decode_envBytes(1) [OF assms(2)]
    by (cases "srr_status q") (auto simp: loadSlotPayload_def q Let_def)
qed

lemma load_success:
  assumes "loadSlotPayload read k rt sv ep vv n w = (r, w')" and "spr_status r = SPL_Success"
  shows "\<exists>e. stored k w = Some (envBytes e) \<and> valid_env e \<and> env_recordTypeId e = rt \<and>
    env_schemaVersion e = sv \<and> env_storageEpoch e = ep \<and> env_versionValue e = vv \<and>
    spr_payload r = env_payload e \<and> spr_utcUnixSeconds r = env_utcUnixSeconds e"
proof -
  obtain q v where q: "read k n w = (q, v)" by fastforce
  note l = assms(1) [unfolded loadSlotPayload_def q Let_def prod.case]
  have s: "srr_status q = SRS_Success"
    using l assms(2) by (cases "srr_status q") (auto simp: noPayload_def)
  obtain e where e: "edr_envelope (decodeEnvelope (srr_value q)) = Some e"
    using l assms(2) s by (cases "edr_envelope (decodeEnvelope (srr_value q))")
      (auto simp: noPayload_def)
  from read_success [OF q s] decode_SomeD [OF e] l assms(2) s e show ?thesis
    by (auto simp: noPayload_def split: if_splits)
qed

lemma scanSlot_candidate:
  assumes "read k n w = (q, w')" and "scanSlot rt sv ep slot q = Inr c"
  shows "sc_slot c = slot \<and> candidate_of rt sv ep (stored k w) c"
proof -
  have s: "srr_status q = SRS_Success"
    using assms(2) by (auto simp: scanSlot_def split: if_splits)
  obtain d where d: "emr_metadata (decodeEnvelopeMetadata (srr_value q)) = Some d"
    using assms(2) s by (auto simp: scanSlot_def Let_def split: option.splits)
  from d obtain e where "valid_env e" "srr_value q = envBytes e"
    "emd_recordTypeId d = env_recordTypeId e" "emd_schemaVersion d = env_schemaVersion e"
    "emd_storageEpoch d = env_storageEpoch e" "emd_versionValue d = env_versionValue e"
    "emd_utcUnixSeconds d = env_utcUnixSeconds e" by (rule metadata_SomeD)
  moreover have "stored k w = Some (srr_value q)" using read_success [OF assms(1) s] by simp
  ultimately show ?thesis using assms(2) s d
    by (auto simp: scanSlot_def Let_def candidate_of_def split: if_splits)
qed

lemma scanSlot_issue: "scanSlot rt sv ep slot q = Inl i \<Longrightarrow> si_slot i = slot"
  by (auto simp: scanSlot_def Let_def split: if_splits option.splits)

lemma scanLoop_slots:
  assumes "scanLoop read rt sv ep n index keys w = (cs, is, w')"
  shows "mset (map sc_slot cs) + mset (map si_slot is) =
      mset (map of_nat [index..<index + length keys]) \<and>
    (\<forall>x. stored x w' = stored x w)"
  using assms
proof (induction keys arbitrary: index w cs "is" w')
  case (Cons k keys)
  obtain q w1 where q: "read k n w = (q, w1)" by fastforce
  obtain ds js w2 where l: "scanLoop read rt sv ep n (index + 1) keys w1 = (ds, js, w2)"
    by (metis prod_cases3)
  note ih = Cons.IH [OF l]
  have u: "[index..<index + length (k # keys)] = index # [index + 1..<index + 1 + length keys]"
    by (subst upt_rec) simp
  have st: "stored x w2 = stored x w" for x using conjunct2 [OF ih] read_keeps [OF q] by metis
  obtain M where m: "mset (map of_nat [index + 1..<index + 1 + length keys]) = (M :: u32 multiset)" by blast
  have M: "mset (map of_nat [index..<index + length (k # keys)]) =
      add_mset (of_nat index :: u32) M"
    unfolding u by (simp only: list.map mset.simps m)
  note ih = conjunct1 [OF ih, unfolded m]
  show ?case
  proof (cases "scanSlot rt sv ep (of_nat index) q")
    case (Inl i)
    then have "cs = ds" "is = i # js" "w' = w2" using Cons.prems q l by auto
    then show ?thesis unfolding M using scanSlot_issue [OF Inl] ih st by simp
  next
    case (Inr c)
    then have "cs = c # ds" "is = js" "w' = w2" using Cons.prems q l by auto
    then show ?thesis unfolding M using scanSlot_candidate [OF q Inr] ih st by simp
  qed
qed auto

lemma scanLoop_candidates:
  assumes "scanLoop read rt sv ep n index keys w = (cs, is, w')" and "c \<in> set cs"
  shows "\<exists>j<length keys. sc_slot c = of_nat (index + j) \<and>
    candidate_of rt sv ep (stored (keys ! j) w) c"
  using assms
proof (induction keys arbitrary: index w cs "is" w')
  case (Cons k keys)
  obtain q w1 where q: "read k n w = (q, w1)" by fastforce
  obtain ds js w2 where l: "scanLoop read rt sv ep n (index + 1) keys w1 = (ds, js, w2)"
    by (metis prod_cases3)
  consider (ds) "c \<in> set ds" | (c) "scanSlot rt sv ep (of_nat index) q = Inr c"
    using Cons.prems q l by (auto split: sum.splits)
  then show ?case
  proof cases
    case ds
    then obtain j where j: "j < length keys" "sc_slot c = of_nat (index + 1 + j)"
      "candidate_of rt sv ep (stored (keys ! j) w1) c" using Cons.IH [OF l] by blast
    then show ?thesis using read_keeps [OF q] by (intro exI [of _ "Suc j"]) simp
  next
    case c
    from scanSlot_candidate [OF q c] show ?thesis by (intro exI [of _ 0]) simp
  qed
qed auto

end

section \<open>The order of the candidates\<close>

lemma insertCandidate_mset [simp]: "mset (insertCandidate c cs) = add_mset c (mset cs)"
  by (induction cs) auto

lemma insertCandidate_sorted:
  assumes "sorted_wrt (\<lambda>a b. \<not> candidateBefore b a) cs"
  shows "sorted_wrt (\<lambda>a b. \<not> candidateBefore b a) (insertCandidate c cs)"
  using assms
proof (induction cs)
  case (Cons d cs)
  have tr: "\<not> candidateBefore z x" if "\<not> candidateBefore y x" "\<not> candidateBefore z y" for x y z
    using that by (auto simp: candidateBefore_def split: if_splits)
  have s: "set (insertCandidate c cs) = insert c (set cs)"
    using insertCandidate_mset [of c cs] by (metis set_mset_add_mset_insert set_mset_mset)
  have as: "\<not> candidateBefore c d" if "candidateBefore d c"
    using that by (auto simp: candidateBefore_def split: if_splits)
  show ?case using Cons s as tr by auto
qed simp

lemma sortCandidates_mset [simp]: "mset (sortCandidates cs) = mset cs"
  by (induction cs) (simp_all add: sortCandidates_def)

lemma sortCandidates_sorted: "sorted_wrt (\<lambda>a b. \<not> candidateBefore b a) (sortCandidates cs)"
  by (induction cs) (simp_all add: sortCandidates_def insertCandidate_sorted)

section \<open>Write, scan and load\<close>

text \<open>C27: on any store that keeps its contract, after a successful write of an encoded envelope
  and any further calls that do not write to its key, a load with the identity and the version of
  the envelope gives exactly its payload and time stamp, or a read status of the store; it never
  takes the record for damaged, of another identity or of another version.\<close>

theorem slot_write_then_load:
  assumes "state_store read wr stored"
    and "encodeEnvelope e m = (EES_Success, Some bs)"
    and "\<And>v. env_utcUnixSeconds e = Some v \<Longrightarrow> - (2 ^ 63) \<le> v \<and> v < 2 ^ 63"
    and "wr k bs w = (SWS_Success, w')"
    and "list_all (\<lambda>c. \<not> writes_to c k) calls"
    and "loadSlotPayload read k (env_recordTypeId e) (env_schemaVersion e) (env_storageEpoch e)
      (env_versionValue e) n (fold (store_call read wr) calls w') = (r, w'')"
  shows "r \<in> {\<lparr>spr_status = SPL_Success, spr_payload = env_payload e,
      spr_utcUnixSeconds = env_utcUnixSeconds e\<rparr>,
    noPayload SPL_NotFound, noPayload SPL_ReadError, noPayload SPL_CapacityError}"
proof -
  have e: "valid_env e" "bs = envBytes e"
    using assms(2,3) by (auto simp: encode_success valid_env_def)
  have "stored k (fold (store_call read wr) calls w') = Some (envBytes e)"
    using state_store.other_calls [OF assms(1,5)] state_store.write_success [OF assms(1,4)] e(2)
    by simp
  from state_store.load_stored [OF assms(1) this e(1) assms(6)] show ?thesis .
qed

theorem slot_write_then_load_witness:
  "spr_status (fst (loadSlotPayload simRead (1 :: nat) 3 1 7 12 64
      (fold (store_call simRead simWrite) [StoreWrite 2 [0], StoreRead 1 10]
        (snd (simWrite 1 (envBytes ex_envelope) newSimulatedStore))))) \<noteq> SPL_InvalidEnvelope"
proof -
  have "simWrite (1 :: nat) (envBytes ex_envelope) newSimulatedStore =
      (SWS_Success, snd (simWrite 1 (envBytes ex_envelope) newSimulatedStore))"
    by (simp add: simWrite_def Let_def newSimulatedStore_def)
  from slot_write_then_load [OF sim.state_store_axioms ex_encode _ this _ surjective_pairing,
      of "[StoreWrite 2 [0], StoreRead 1 10]" 64]
  show ?thesis by (auto simp: ex_envelope_def noPayload_def)
qed

text \<open>A scan of at most eight slots on any store that keeps its contract accounts for every
  slot exactly once, as a candidate or as an issue; every candidate stands for stored bytes that
  decode to an envelope of the expected record type, schema version and epoch, with the version
  and the time stamp of the candidate; and the candidates come newest version first, equal
  versions by rising slot.\<close>

theorem slot_scan_accounts_for_slots:
  assumes "state_store read wr stored" and "length keys \<le> 8"
    and "scanTechnicalSlotCandidates read keys rt sv ep n w = (r, w')"
  shows "scr_status r = SSS_Success \<and>
    mset (map sc_slot (scr_candidates r)) + mset (map si_slot (scr_issues r)) =
      mset (map of_nat [0..<length keys]) \<and>
    sorted_wrt (\<lambda>a b. sc_versionValue b < sc_versionValue a \<or>
      sc_versionValue b = sc_versionValue a \<and> sc_slot a \<le> sc_slot b) (scr_candidates r) \<and>
    (\<forall>c\<in>set (scr_candidates r). \<exists>j e bs. j < length keys \<and> sc_slot c = of_nat j \<and>
      stored (keys ! j) w = Some bs \<and> edr_envelope (decodeEnvelope bs) = Some e \<and>
      env_recordTypeId e = rt \<and> env_schemaVersion e = sv \<and> env_storageEpoch e = ep \<and>
      env_versionValue e = sc_versionValue c \<and> env_utcUnixSeconds e = sc_utcUnixSeconds c)"
proof -
  obtain cs js v where l: "scanLoop read rt sv ep n 0 keys w = (cs, js, v)" by (metis prod_cases3)
  have r: "r = \<lparr>scr_status = SSS_Success, scr_candidates = sortCandidates cs, scr_issues = js\<rparr>"
    using assms(2,3)
    by (simp add: scanTechnicalSlotCandidates_def kMaximumTechnicalSlotsPerScan_def l)
  have m: "mset (map sc_slot (sortCandidates cs)) = mset (map sc_slot cs)"
    by (simp only: mset_map sortCandidates_mset)
  have cand: "\<exists>j e bs. j < length keys \<and> sc_slot c = of_nat j \<and>
      stored (keys ! j) w = Some bs \<and> edr_envelope (decodeEnvelope bs) = Some e \<and>
      env_recordTypeId e = rt \<and> env_schemaVersion e = sv \<and> env_storageEpoch e = ep \<and>
      env_versionValue e = sc_versionValue c \<and> env_utcUnixSeconds e = sc_utcUnixSeconds c"
    if "c \<in> set (sortCandidates cs)" for c
  proof -
    have "c \<in> set cs" using that sortCandidates_mset [of cs] by (metis set_mset_mset)
    from state_store.scanLoop_candidates [OF assms(1) l this] show ?thesis
      by (fastforce simp: candidate_of_def decode_envBytes(1))
  qed
  have "sorted_wrt (\<lambda>a b. sc_versionValue b < sc_versionValue a \<or>
      sc_versionValue b = sc_versionValue a \<and> sc_slot a \<le> sc_slot b) (sortCandidates cs)"
    using sortCandidates_sorted [of cs]
    by (rule sorted_wrt_mono_rel [rotated]) (auto simp: candidateBefore_def split: if_splits)
  with cand state_store.scanLoop_slots [OF assms(1) l] m show ?thesis by (simp add: r)
qed

theorem slot_scan_accounts_for_slots_witness:
  "mset (map sc_slot (scr_candidates (fst (scanTechnicalSlotCandidates simRead [1, 2 :: nat] 3 1 7 64
      (snd (simWrite 1 (envBytes ex_envelope) newSimulatedStore)))))) +
   mset (map si_slot (scr_issues (fst (scanTechnicalSlotCandidates simRead [1, 2 :: nat] 3 1 7 64
      (snd (simWrite 1 (envBytes ex_envelope) newSimulatedStore)))))) = {#0, 1#}"
  using slot_scan_accounts_for_slots [OF sim.state_store_axioms _ surjective_pairing, of "[1, 2 :: nat]" 3
      1 7 64 "snd (simWrite 1 (envBytes ex_envelope) newSimulatedStore)"]
  by (simp add: upt_rec)

end
