(* ===== verification/ControlTypes.thy ===== *)
theory ControlTypes
  imports DomainTypes Binary64
begin

text \<open>
  What the temperature control hands to the actuator planner and gets back from it
  (\<open>temperature_control_types.hpp\<close>): the result of an evaluation with its control request, and the
  feedback on the previous request.
\<close>

record ControlRequestIdentity =
  id_sequence :: u64
  id_createdAtMonotonicMillis :: u64

record ControlRequest =
  creq_identity :: ControlRequestIdentity
  creq_context :: ControlRequestContext
  creq_direction :: AbstractControlDirection
  creq_timeQuote :: f64

datatype TemperatureControlStatus =
    TCS_Demand
  | TCS_Off
  | TCS_Unavailable
  | TCS_InvalidInput
  | TCS_other u8

datatype TemperatureControlReason =
    TCR_None
  | TCR_NeutralBand
  | TCR_Saturated
  | TCR_AirLimitReduced
  | TCR_AirLimitBlocked
  | TCR_NoCommissioning
  | TCR_SensorUnavailable
  | TCR_InvalidConfiguration
  | TCR_InvalidSample
  | TCR_TimeInvalid
  | TCR_RequestIdentityExhausted
  | TCR_other u8

datatype AirLimitState =
    ALS_NotApplied
  | ALS_Unrestricted
  | ALS_Reduced
  | ALS_Blocked
  | ALS_Unavailable
  | ALS_other u8

datatype Disposition = FD_NoIntegratorConstraint | FD_DeferredOrLimited | FD_Rejected

record PreviousControlRequestFeedback =
  pcf_controlRequestSequence :: u64
  pcf_disposition :: Disposition

record TemperatureControlResult =
  tcr_status :: TemperatureControlStatus
  tcr_reason :: TemperatureControlReason
  tcr_airLimitState :: AirLimitState
  tcr_direction :: AbstractControlDirection
  tcr_timeQuote :: f64
  tcr_rawProportionalQuote :: f64
  tcr_integralContributionQuote :: f64
  tcr_unboundedQuote :: f64
  tcr_maximumLimitedQuote :: f64
  tcr_controlRequest :: "ControlRequest option"

end
