(* ===== verification/Binary64Ops.thy ===== *)
theory Binary64Ops
  imports Binary64
begin

text \<open>
  Further operations of \<open>double\<close>: magnitude, maximum and division, and the facts about the sign and
  size of rounded results on which the controller's bounds rest. A division by zero takes the zero as
  positive; the modelled code divides by 1000 and by differences of distinct limits only.
\<close>

fun ffabs :: "f64 \<Rightarrow> f64" where
  "ffabs F64_NaN = F64_NaN"
| "ffabs (F64_Inf _) = F64_Inf False"
| "ffabs (F64 q) = F64 \<bar>q\<bar>"

definition fmax :: "f64 \<Rightarrow> f64 \<Rightarrow> f64" where
  "fmax a b = (if flt a b then b else a)"

fun fdiv :: "f64 \<Rightarrow> f64 \<Rightarrow> f64" where
  "fdiv (F64 a) (F64 b) =
     (if b = 0 then (if a = 0 then F64_NaN else F64_Inf (a < 0)) else round64 (a / b))"
| "fdiv (F64_Inf s) (F64 b) = F64_Inf (s \<noteq> (b < 0))"
| "fdiv (F64 _) (F64_Inf _) = F64 0"
| "fdiv _ _ = F64_NaN"

section \<open>Signs and bounds\<close>

lemma round64_finite: "round64 q = F64 v \<Longrightarrow> v = roundRat q"
  by (auto simp: round64_def Let_def split: if_splits)

lemma round64_not_NaN [simp]: "round64 q \<noteq> F64_NaN"
  by (simp add: round64_def Let_def)

lemma round64_nonneg: "round64 q = F64 v \<Longrightarrow> 0 \<le> q \<Longrightarrow> 0 \<le> v"
  using round64_finite roundRat_nonneg by blast

lemma fadd_nonneg: "fadd (F64 a) (F64 b) = F64 v \<Longrightarrow> 0 \<le> a \<Longrightarrow> 0 \<le> b \<Longrightarrow> 0 \<le> v"
  by (auto dest: round64_nonneg)

lemma fmul_nonneg: "fmul (F64 a) (F64 b) = F64 v \<Longrightarrow> 0 \<le> a \<Longrightarrow> 0 \<le> b \<Longrightarrow> 0 \<le> v"
  by (auto dest: round64_nonneg)

lemma fmin_F64 [simp]: "fmin (F64 a) (F64 b) = F64 (min a b)"
  by (simp add: fmin_def min_def)

lemma fmax_F64 [simp]: "fmax (F64 a) (F64 b) = F64 (max a b)"
  by (simp add: fmax_def max_def)

lemma fmax_zero: "\<exists>v. fmax (F64 0) x = v \<and> (isfinite v \<longrightarrow> (\<exists>q. v = F64 q \<and> 0 \<le> q))"
  by (cases x) (auto simp: fmax_def isfinite_def)

lemma roundRat_neg: "q \<le> 0 \<Longrightarrow> roundRat q \<le> 0"
  using roundHalfEven_le [of "q / pow2 (ulpExponent q)" 0]
  by (auto simp: roundRat_def less_imp_le divide_nonpos_pos intro!: mult_nonpos_nonneg)

section \<open>Doubles are fixed by rounding\<close>

definition is_double :: "f64 \<Rightarrow> bool" where
  "is_double x = (case x of F64 q \<Rightarrow> roundRat q = q | _ \<Rightarrow> True)"

lemma is_double_F64 [simp]: "is_double (F64 q) \<longleftrightarrow> roundRat q = q"
  by (simp add: is_double_def)

lemma roundRat_0 [simp]: "roundRat 0 = 0"
  by (simp add: roundRat_def)

lemma is_double_zero [simp]: "is_double (F64 0)"
  by simp

lemma is_double_fmin: "is_double x \<Longrightarrow> is_double y \<Longrightarrow> is_double (fmin x y)"
  by (simp add: fmin_def)

lemma roundRat_multiple:
  assumes "0 < v" and "v = of_int k * pow2 (ulpExponent v)"
  shows "roundRat v = v"
proof -
  have "v / pow2 (ulpExponent v) = of_int k"
    using assms(2) by (metis nonzero_mult_div_cancel_right pow2_nonzero)
  then show ?thesis using assms by (simp add: roundRat_scaled)
qed

lemma roundRat_idem:
  assumes "0 \<le> q"
  shows "roundRat (roundRat q) = roundRat q"
proof (cases "q = 0")
  case False
  with assms have q: "0 < q" by simp
  let ?e = "ulpExponent q"
  define n where "n = roundHalfEven (q / pow2 ?e)"
  have v: "roundRat q = of_int n * pow2 ?e" by (simp add: n_def roundRat_scaled [OF q])
  have "q < pow2 (53 + ?e)"
  proof -
    have "pow2 (ilog2 q + 1) \<le> pow2 (53 + ?e)" by (rule pow2_mono) (use q in \<open>simp add: ulpExponent_def\<close>)
    then show ?thesis using ilog2_bounds [OF q] by linarith
  qed
  then have "q / pow2 ?e \<le> of_int (2 ^ 53)"
    by (simp add: divide_le_eq pow2_add pow2_of_nat [of 53, simplified])
  then have n53: "n \<le> 2 ^ 53" unfolding n_def by (rule roundHalfEven_le)
  have n0: "0 \<le> n" unfolding n_def using assms by (intro roundHalfEven_ge) (simp add: less_imp_le)
  show ?thesis
  proof (cases "n = 0")
    case False
    with n0 have pos: "0 < roundRat q" by (simp add: v)
    have w: "roundRat q = of_int k * pow2 (ulpExponent (roundRat q)) \<Longrightarrow>
        roundRat (roundRat q) = roundRat q" for k
      using roundRat_multiple [OF pos] by blast
    show ?thesis
    proof (cases "n = 2 ^ 53")
      case True
      have p: "roundRat q = pow2 (53 + ?e)"
        unfolding v True pow2_add using pow2_of_nat [of 53] by simp
      have "ilog2 (roundRat q) = 53 + ?e"
        by (rule ilog2_eqI) (simp_all add: p pow2_strict_mono)
      then have "ulpExponent (roundRat q) = ?e + 1"
        using pos by (simp add: ulpExponent_def)
      moreover have "pow2 (53 + ?e) = of_int (2 ^ 52) * pow2 (?e + 1)"
        using pow2_add [of 52 "?e + 1"] pow2_of_nat [of 52] by (simp add: algebra_simps)
      ultimately show ?thesis using w p by metis
    next
      case False
      with n53 have "n < 2 ^ 53" by simp
      then have "(of_int n :: rat) < of_int (2 ^ 53)" by (simp only: of_int_less_iff)
      then have "roundRat q < pow2 (53 + ?e)"
        unfolding v pow2_add using pow2_of_nat [of 53] by simp
      then have "ilog2 (roundRat q) < 53 + ?e"
        using ilog2_bounds [OF pos] pow2_less_imp by (meson order_le_less_trans)
      then have u: "ulpExponent (roundRat q) \<le> ?e" (is "?u \<le> _")
        using pos by (simp add: ulpExponent_def)
      have "pow2 ?e = of_int (2 ^ nat (?e - ?u)) * pow2 ?u"
        using pow2_div [OF u] by (simp add: divide_eq_eq)
      then have "roundRat q = of_int (n * 2 ^ nat (?e - ?u)) * pow2 ?u"
        unfolding v [symmetric] by (simp add: v algebra_simps)
      then show ?thesis by (rule w)
    qed
  qed (simp add: v)
qed simp

text \<open>An integer of at most 53 bits over a power of two is a double, so an exact result stays.\<close>

lemma roundRat_dyadic:
  assumes "0 \<le> n" and "n < 2 ^ 53" and "k \<le> 1000"
  shows "roundRat (of_int n / 2 ^ k) = of_int n / 2 ^ k"
proof (cases "n = 0")
  case False
  define v :: rat where "v = of_int n / 2 ^ k"
  have e: "v = of_int n * pow2 (- int k)"
    by (simp add: v_def pow2_def power_int_minus divide_inverse)
  have v: "0 < v" using False assms(1) by (simp add: v_def)
  have "(of_int n :: rat) < of_int (2 ^ 53)" using assms(2) by (simp only: of_int_less_iff)
  then have "v < pow2 (53 + - int k)"
    unfolding e pow2_add using pow2_of_nat [of 53] by simp
  then have "ilog2 v < 53 + - int k"
    using ilog2_bounds [OF v] pow2_less_imp by (meson order_le_less_trans)
  then have u: "ulpExponent v \<le> - int k" using v assms(3) by (simp add: ulpExponent_def)
  have "v = of_int (n * 2 ^ nat (- int k - ulpExponent v)) * pow2 (ulpExponent v)"
    using pow2_div [OF u] by (simp add: e divide_eq_eq algebra_simps)
  from roundRat_multiple [OF v this] show ?thesis unfolding v_def .
qed simp

lemma round64_dyadic:
  assumes "0 \<le> n" and "n < 2 ^ 53" and "k \<le> 1000"
  shows "round64 (of_int n / 2 ^ k) = F64 (of_int n / 2 ^ k)"
proof -
  have "(of_int n :: rat) < of_int (2 ^ 53)" using assms(2) by (simp only: of_int_less_iff)
  have "(of_int n :: rat) / 2 ^ k \<le> of_int n / 1"
    using assms(1) by (intro divide_left_mono) simp_all
  also have "\<dots> < 2 ^ 53" using \<open>(of_int n :: rat) < of_int (2 ^ 53)\<close> by simp
  also have "(2 :: rat) ^ 53 < 2 ^ 1024" by (rule power_strict_increasing) simp_all
  finally show ?thesis
    using assms(1) by (simp add: round64_def Let_def roundRat_dyadic [OF assms])
qed

end
