(* ===== verification/TemperatureControl.thy ===== *)
theory TemperatureControl
  imports ControlTypes SensorTypes Binary64Ops
begin

text \<open>
  The temperature controller (\<open>temperature_control.cpp\<close>): a PI control with a neutral band, separate
  profiles for heating and cooling and for the air and the product sensor, an integrator that only
  grows on confirmation by the planner, and the limitation by the air temperature.

  \<open>evaluateControl\<close> is the method \<open>evaluate\<close>, in stages: a stage answers \<open>Inl\<close> of the early return
  (its result and the controller then) or \<open>Inr\<close> of what the next stage uses.
\<close>

section \<open>Parameters, input and state\<close>

record PiDirectionParameters =
  pid_proportionalGainQuotePerCelsius :: f64
  pid_integralGainQuotePerCelsiusSecond :: f64
  pid_neutralBandWidthCelsius :: f64
  pid_maximumQuote :: f64

record TemperatureControlParameters =
  tcp_airHeating :: PiDirectionParameters
  tcp_airCooling :: PiDirectionParameters
  tcp_productHeating :: PiDirectionParameters
  tcp_productCooling :: PiDirectionParameters
  tcp_maximumIntegrationStepMillis :: u64
  tcp_airLimitLowerBlockCelsius :: f64
  tcp_airLimitLowerReduceStartCelsius :: f64
  tcp_airLimitUpperReduceStartCelsius :: f64
  tcp_airLimitUpperBlockCelsius :: f64

datatype IntegratorTransitionAction = ITA_Reset | ITA_BoundedCarry | ITA_other u8

record IntegratorTransitionPolicy =
  itp_directionChange :: IntegratorTransitionAction
  itp_sensorRoleChange :: IntegratorTransitionAction
  itp_targetContextChange :: IntegratorTransitionAction
  itp_transitionMaximumCarryQuote :: f64

record TemperatureControlInput =
  tci_sampleTimestampMonotonicMillis :: u64
  tci_targetCelsius :: f64
  tci_controlSensorRole :: ControlSensorRole
  tci_air :: SensorQualitySnapshot
  tci_product :: SensorQualitySnapshot
  tci_previousControlRequestFeedback :: "PreviousControlRequestFeedback option"
  tci_processTransitionSequence :: u32
  tci_runRevision :: u32

datatype TemperatureControlParametersValidation = TPV_Unconfigured | TPV_Valid | TPV_Invalid

record TemperatureControlRuntimeState =
  tct_integralContributionQuote :: f64
  tct_lastSampleTimestampMonotonicMillis :: "u64 option"
  tct_suppressIntegrationAfterGap :: bool
  tct_lastActiveDirection :: "AbstractControlDirection option"
  tct_pendingContextTransition :: "CommittedControlContextTransition option"
  tct_pendingTransitionAction :: "IntegratorTransitionAction option"
  tct_feedbackWindow :: "ControlRequest option"

definition initialControlState :: TemperatureControlRuntimeState where
  "initialControlState =
     \<lparr>tct_integralContributionQuote = F64 0, tct_lastSampleTimestampMonotonicMillis = None,
      tct_suppressIntegrationAfterGap = False, tct_lastActiveDirection = None,
      tct_pendingContextTransition = None, tct_pendingTransitionAction = None,
      tct_feedbackWindow = None\<rparr>"

record TemperatureController =
  tc_parameters :: TemperatureControlParameters
  tc_policy :: IntegratorTransitionPolicy
  tc_state :: TemperatureControlRuntimeState
  tc_nextRequestSequence :: u64
  tc_requestIdentityExhausted :: bool

definition newTemperatureController ::
  "TemperatureControlParameters \<Rightarrow> IntegratorTransitionPolicy \<Rightarrow> u64 \<Rightarrow> TemperatureController" where
  "newTemperatureController p policy initialRequestSequence =
     \<lparr>tc_parameters = p, tc_policy = policy, tc_state = initialControlState,
      tc_nextRequestSequence =
        (if initialRequestSequence = 0 then 1 else initialRequestSequence),
      tc_requestIdentityExhausted = False\<rparr>"

section \<open>Validation\<close>

definition validDirectionParameters :: "PiDirectionParameters \<Rightarrow> bool" where
  "validDirectionParameters p \<longleftrightarrow>
     isfinite (pid_proportionalGainQuotePerCelsius p) \<and>
     flt (F64 0) (pid_proportionalGainQuotePerCelsius p) \<and>
     isfinite (pid_integralGainQuotePerCelsiusSecond p) \<and>
     flt (F64 0) (pid_integralGainQuotePerCelsiusSecond p) \<and>
     isfinite (pid_neutralBandWidthCelsius p) \<and> flt (F64 0) (pid_neutralBandWidthCelsius p) \<and>
     isfinite (pid_maximumQuote p) \<and> flt (F64 0) (pid_maximumQuote p) \<and>
     fle (pid_maximumQuote p) (F64 1)"

definition validAirLimits :: "TemperatureControlParameters \<Rightarrow> bool" where
  "validAirLimits p \<longleftrightarrow>
     isfinite (tcp_airLimitLowerBlockCelsius p) \<and>
     isfinite (tcp_airLimitLowerReduceStartCelsius p) \<and>
     isfinite (tcp_airLimitUpperReduceStartCelsius p) \<and>
     isfinite (tcp_airLimitUpperBlockCelsius p) \<and>
     flt (tcp_airLimitLowerBlockCelsius p) (tcp_airLimitLowerReduceStartCelsius p) \<and>
     flt (tcp_airLimitUpperReduceStartCelsius p) (tcp_airLimitUpperBlockCelsius p)"

definition hasConfiguredValues :: "TemperatureControlParameters \<Rightarrow> bool" where
  "hasConfiguredValues p \<longleftrightarrow>
     tcp_maximumIntegrationStepMillis p > 0 \<and>
     validDirectionParameters (tcp_airHeating p) \<and>
     validDirectionParameters (tcp_airCooling p) \<and>
     validDirectionParameters (tcp_productHeating p) \<and>
     validDirectionParameters (tcp_productCooling p) \<and> validAirLimits p"

definition zeroDirectionParameters :: "PiDirectionParameters \<Rightarrow> bool" where
  "zeroDirectionParameters p \<longleftrightarrow>
     feq (pid_proportionalGainQuotePerCelsius p) (F64 0) \<and>
     feq (pid_integralGainQuotePerCelsiusSecond p) (F64 0) \<and>
     feq (pid_neutralBandWidthCelsius p) (F64 0) \<and> feq (pid_maximumQuote p) (F64 0)"

definition isDefaultParameters :: "TemperatureControlParameters \<Rightarrow> bool" where
  "isDefaultParameters p \<longleftrightarrow>
     tcp_maximumIntegrationStepMillis p = 0 \<and>
     zeroDirectionParameters (tcp_airHeating p) \<and> zeroDirectionParameters (tcp_airCooling p) \<and>
     zeroDirectionParameters (tcp_productHeating p) \<and>
     zeroDirectionParameters (tcp_productCooling p) \<and>
     feq (tcp_airLimitLowerBlockCelsius p) (F64 0) \<and>
     feq (tcp_airLimitLowerReduceStartCelsius p) (F64 0) \<and>
     feq (tcp_airLimitUpperReduceStartCelsius p) (F64 0) \<and>
     feq (tcp_airLimitUpperBlockCelsius p) (F64 0)"

definition classifyTemperatureControlParameters ::
  "TemperatureControlParameters \<Rightarrow> TemperatureControlParametersValidation" where
  "classifyTemperatureControlParameters p =
     (if isDefaultParameters p then TPV_Unconfigured
      else if hasConfiguredValues p then TPV_Valid else TPV_Invalid)"

definition validateTemperatureControlParameters :: "TemperatureControlParameters \<Rightarrow> bool" where
  "validateTemperatureControlParameters p \<longleftrightarrow>
     classifyTemperatureControlParameters p = TPV_Valid"

definition validAction :: "IntegratorTransitionAction \<Rightarrow> bool" where
  "validAction a = (case a of ITA_Reset \<Rightarrow> True | ITA_BoundedCarry \<Rightarrow> True | ITA_other _ \<Rightarrow> False)"

definition validRole :: "ControlSensorRole \<Rightarrow> bool" where
  "validRole r = (case r of CSR_Air \<Rightarrow> True | CSR_Product \<Rightarrow> True | CSR_other _ \<Rightarrow> False)"

text \<open>The feedback comes from the planner, whose dispositions are the three enumerators.\<close>

definition validDisposition :: "Disposition \<Rightarrow> bool" where
  "validDisposition d =
     (case d of FD_NoIntegratorConstraint \<Rightarrow> True | FD_DeferredOrLimited \<Rightarrow> True | FD_Rejected \<Rightarrow> True)"

definition validateIntegratorTransitionPolicy :: "IntegratorTransitionPolicy \<Rightarrow> bool" where
  "validateIntegratorTransitionPolicy p \<longleftrightarrow>
     validAction (itp_directionChange p) \<and> validAction (itp_sensorRoleChange p) \<and>
     validAction (itp_targetContextChange p) \<and>
     isfinite (itp_transitionMaximumCarryQuote p) \<and>
     fle (F64 0) (itp_transitionMaximumCarryQuote p) \<and>
     fle (itp_transitionMaximumCarryQuote p) (F64 1)"

section \<open>Control values\<close>

datatype ControlSensorValueStatus = CSV_Valid | CSV_Unavailable | CSV_Invalid

text \<open>The status, and the out parameter, which keeps its value unless the status is valid.\<close>

definition readControlSensorValue ::
  "SensorQualitySnapshot \<Rightarrow> f64 \<Rightarrow> ControlSensorValueStatus \<times> f64" where
  "readControlSensorValue s out =
     (if sq_quality s \<noteq> SQ_Valid then (CSV_Unavailable, out)
      else case sq_filteredCelsius s of
        None \<Rightarrow> (CSV_Invalid, out)
      | Some v \<Rightarrow> if isfinite v then (CSV_Valid, v) else (CSV_Invalid, out))"

section \<open>Results\<close>

definition diagnosticAirLimitState :: "ControlSensorRole \<Rightarrow> AirLimitState" where
  "diagnosticAirLimitState r = (if r = CSR_Air then ALS_NotApplied else ALS_Unavailable)"

definition emptyControlResult :: TemperatureControlResult where
  "emptyControlResult =
     \<lparr>tcr_status = TCS_InvalidInput, tcr_reason = TCR_InvalidSample,
      tcr_airLimitState = ALS_Unavailable, tcr_direction = Dir_Idle, tcr_timeQuote = F64 0,
      tcr_rawProportionalQuote = F64 0, tcr_integralContributionQuote = F64 0,
      tcr_unboundedQuote = F64 0, tcr_maximumLimitedQuote = F64 0, tcr_controlRequest = None\<rparr>"

definition invalidResult ::
  "TemperatureControlStatus \<Rightarrow> TemperatureControlReason \<Rightarrow> AirLimitState \<Rightarrow>
     TemperatureControlResult" where
  "invalidResult status reason air =
     emptyControlResult\<lparr>tcr_status := status, tcr_reason := reason, tcr_airLimitState := air,
       tcr_direction := Dir_Idle\<rparr>"

definition onControlState ::
  "(TemperatureControlRuntimeState \<Rightarrow> TemperatureControlRuntimeState) \<Rightarrow>
     TemperatureController \<Rightarrow> TemperatureController" where
  "onControlState f c = c\<lparr>tc_state := f (tc_state c)\<rparr>"

definition clearFailClosed :: "TemperatureController \<Rightarrow> TemperatureController" where
  "clearFailClosed = onControlState (\<lambda>s.
     s\<lparr>tct_integralContributionQuote := F64 0, tct_lastActiveDirection := None,
       tct_pendingContextTransition := None, tct_pendingTransitionAction := None,
       tct_feedbackWindow := None\<rparr>)"

definition failClosed ::
  "TemperatureControlStatus \<Rightarrow> TemperatureControlReason \<Rightarrow> AirLimitState \<Rightarrow>
     TemperatureController \<Rightarrow> TemperatureControlResult \<times> TemperatureController" where
  "failClosed status reason air c = (invalidResult status reason air, clearFailClosed c)"

section \<open>Transitions and reset\<close>

definition markCommittedControlContextTransitionPending ::
  "CommittedControlContextTransition \<Rightarrow> TemperatureController \<Rightarrow> bool \<times> TemperatureController" where
  "markCommittedControlContextTransitionPending transition c =
     (if \<not> validateIntegratorTransitionPolicy (tc_policy c) then (False, c)
      else
        (let action = itp_targetContextChange (tc_policy c);
             action = (if transition = CCT_SensorRoleChange \<or> transition = CCT_ProductInserted
                       then itp_sensorRoleChange (tc_policy c) else action);
             action = (if transition = CCT_CoolingTargetContextChange
                       then itp_targetContextChange (tc_policy c) else action) in
         (True, onControlState (\<lambda>s.
            s\<lparr>tct_pendingContextTransition := Some transition,
              tct_pendingTransitionAction :=
                (if tct_pendingTransitionAction s = None \<or> action = ITA_Reset
                 then Some action else tct_pendingTransitionAction s)\<rparr>) c)))"

definition resetRuntime :: "TemperatureController \<Rightarrow> TemperatureController" where
  "resetRuntime c = c\<lparr>tc_state := initialControlState\<rparr>"

section \<open>Stages of an evaluation\<close>

text \<open>Parameters, policy and samples: the air value and the value that is controlled.\<close>

definition controlValues ::
  "TemperatureController \<Rightarrow> TemperatureControlInput \<Rightarrow>
     TemperatureControlResult \<times> TemperatureController + f64 \<times> f64" where
  "controlValues c i =
     (let validation = classifyTemperatureControlParameters (tc_parameters c);
          diagnostic = diagnosticAirLimitState (tci_controlSensorRole i);
          (airStatus, air) = readControlSensorValue (tci_air i) (F64 0);
          (productStatus, product) = readControlSensorValue (tci_product i) (F64 0);
          measured = (if tci_controlSensorRole i = CSR_Product then product else air) in
      if validation = TPV_Unconfigured then
        Inl (failClosed TCS_Unavailable TCR_NoCommissioning diagnostic c)
      else if validation \<noteq> TPV_Valid then
        Inl (failClosed TCS_InvalidInput TCR_InvalidConfiguration diagnostic c)
      else if \<not> validateIntegratorTransitionPolicy (tc_policy c) \<or>
              \<not> validRole (tci_controlSensorRole i) \<or> \<not> isfinite (tci_targetCelsius i) then
        Inl (failClosed TCS_InvalidInput TCR_InvalidConfiguration diagnostic c)
      else if airStatus = CSV_Unavailable then
        Inl (failClosed TCS_Unavailable TCR_SensorUnavailable diagnostic c)
      else if airStatus = CSV_Invalid then
        Inl (failClosed TCS_InvalidInput TCR_InvalidSample diagnostic c)
      else if tci_controlSensorRole i = CSR_Product \<and>
              (productStatus = CSV_Unavailable \<or> airStatus = CSV_Unavailable) then
        Inl (failClosed TCS_Unavailable TCR_SensorUnavailable ALS_Unavailable c)
      else if tci_controlSensorRole i = CSR_Product \<and> productStatus = CSV_Invalid then
        Inl (failClosed TCS_InvalidInput TCR_InvalidSample ALS_Unavailable c)
      else if \<not> isfinite measured then
        Inl (failClosed TCS_InvalidInput TCR_InvalidSample diagnostic c)
      else Inr (air, measured))"

text \<open>The time since the last sample, whether this is the first one, and whether it follows a gap.\<close>

definition sampleTime ::
  "TemperatureController \<Rightarrow> TemperatureControlInput \<Rightarrow>
     TemperatureControlResult \<times> TemperatureController +
     TemperatureController \<times> u64 \<times> bool \<times> bool" where
  "sampleTime c i =
     (let now = tci_sampleTimestampMonotonicMillis i;
          diagnostic = diagnosticAirLimitState (tci_controlSensorRole i);
          anchor = tct_suppressIntegrationAfterGap (tc_state c);
          accepted = onControlState (\<lambda>s. s\<lparr>tct_lastSampleTimestampMonotonicMillis := Some now,
            tct_suppressIntegrationAfterGap := False\<rparr>) c in
      case tct_lastSampleTimestampMonotonicMillis (tc_state c) of
        None \<Rightarrow> Inr (accepted, 0, True, anchor)
      | Some previous \<Rightarrow>
          if now < previous then Inl (failClosed TCS_InvalidInput TCR_TimeInvalid diagnostic c)
          else if now - previous > tcp_maximumIntegrationStepMillis (tc_parameters c) then
            Inl (failClosed TCS_InvalidInput TCR_TimeInvalid diagnostic
              (onControlState (\<lambda>s. s\<lparr>tct_lastSampleTimestampMonotonicMillis := Some now,
                 tct_suppressIntegrationAfterGap := True\<rparr>) c))
          else Inr (accepted, now - previous, False, anchor))"

text \<open>The feedback on the request whose window is open: whether the integrator may grow.\<close>

definition closeFeedbackWindow :: "TemperatureController \<Rightarrow> TemperatureController" where
  "closeFeedbackWindow = onControlState (\<lambda>s. s\<lparr>tct_feedbackWindow := None\<rparr>)"

definition consumeFeedback ::
  "TemperatureController \<Rightarrow> TemperatureControlInput \<Rightarrow>
     TemperatureControlResult \<times> TemperatureController + TemperatureController \<times> bool" where
  "consumeFeedback c i =
     (let rejected = failClosed TCS_InvalidInput TCR_InvalidSample
            (diagnosticAirLimitState (tci_controlSensorRole i)) c in
      case tct_feedbackWindow (tc_state c) of
        Some request \<Rightarrow>
          (case tci_previousControlRequestFeedback i of
             None \<Rightarrow> Inr (closeFeedbackWindow c, False)
           | Some feedback \<Rightarrow>
               if pcf_controlRequestSequence feedback \<noteq> id_sequence (creq_identity request) \<or>
                  pcf_controlRequestSequence feedback = 0 then Inl rejected
               else if \<not> validDisposition (pcf_disposition feedback) then Inl rejected
               else Inr (closeFeedbackWindow c,
                 pcf_disposition feedback = FD_NoIntegratorConstraint))
      | None \<Rightarrow>
          (if tci_previousControlRequestFeedback i \<noteq> None then Inl rejected
           else Inr (c, False)))"

text \<open>The profile of the side of the neutral band on which the error lies.\<close>

definition heatingProfile ::
  "TemperatureControlParameters \<Rightarrow> ControlSensorRole \<Rightarrow> PiDirectionParameters" where
  "heatingProfile p role = (if role = CSR_Air then tcp_airHeating p else tcp_productHeating p)"

definition coolingProfile ::
  "TemperatureControlParameters \<Rightarrow> ControlSensorRole \<Rightarrow> PiDirectionParameters" where
  "coolingProfile p role = (if role = CSR_Air then tcp_airCooling p else tcp_productCooling p)"

definition selectProfile ::
  "TemperatureControlParameters \<Rightarrow> ControlSensorRole \<Rightarrow> f64 \<Rightarrow>
     (PiDirectionParameters \<times> AbstractControlDirection) option" where
  "selectProfile p role rawError =
     (if flt (pid_neutralBandWidthCelsius (heatingProfile p role)) rawError
      then Some (heatingProfile p role, Dir_Heating)
      else if flt rawError (fneg (pid_neutralBandWidthCelsius (coolingProfile p role)))
      then Some (coolingProfile p role, Dir_Cooling) else None)"

text \<open>Identities of requests: the next one is used, and the last of the 64-bit numbers ends them.\<close>

definition newRequest ::
  "TemperatureController \<Rightarrow> TemperatureControlInput \<Rightarrow> AbstractControlDirection \<Rightarrow> f64 \<Rightarrow>
     ControlRequest" where
  "newRequest c i direction quote =
     \<lparr>creq_identity = \<lparr>id_sequence = tc_nextRequestSequence c,
        id_createdAtMonotonicMillis = tci_sampleTimestampMonotonicMillis i\<rparr>,
      creq_context = \<lparr>ctx_processTransitionSequence = tci_processTransitionSequence i,
        ctx_runRevision = tci_runRevision i,
        ctx_controlSensorRole = tci_controlSensorRole i\<rparr>,
      creq_direction = direction, creq_timeQuote = quote\<rparr>"

definition useRequestSequence :: "TemperatureController \<Rightarrow> TemperatureController" where
  "useRequestSequence c =
     (if tc_nextRequestSequence c = u64_max then c\<lparr>tc_requestIdentityExhausted := True\<rparr>
      else c\<lparr>tc_nextRequestSequence := tc_nextRequestSequence c + 1\<rparr>)"

definition neutralResult ::
  "TemperatureController \<Rightarrow> TemperatureControlInput \<Rightarrow>
     TemperatureControlResult \<times> TemperatureController" where
  "neutralResult c i =
     (let air = (if tci_controlSensorRole i = CSR_Air then ALS_NotApplied else ALS_Unrestricted) in
      if tc_requestIdentityExhausted c then
        failClosed TCS_InvalidInput TCR_RequestIdentityExhausted air c
      else
        (emptyControlResult\<lparr>tcr_status := TCS_Off, tcr_reason := TCR_NeutralBand,
           tcr_airLimitState := air, tcr_direction := Dir_Idle, tcr_timeQuote := F64 0,
           tcr_controlRequest := Some (newRequest c i Dir_Idle (F64 0))\<rparr>,
         useRequestSequence (closeFeedbackWindow c)))"

section \<open>The active direction\<close>

text \<open>The limitation by the air temperature, decided before the integrator and applied after it.\<close>

definition airLimitOf ::
  "TemperatureControlParameters \<Rightarrow> ControlSensorRole \<Rightarrow> AbstractControlDirection \<Rightarrow> f64 \<Rightarrow>
     AirLimitState" where
  "airLimitOf p role direction air =
     (if role = CSR_Air then ALS_NotApplied
      else if role = CSR_Product \<and> direction = Dir_Heating then
        (if fle (tcp_airLimitUpperBlockCelsius p) air then ALS_Blocked
         else if flt (tcp_airLimitUpperReduceStartCelsius p) air then ALS_Reduced
         else ALS_Unrestricted)
      else if role = CSR_Product then
        (if fle air (tcp_airLimitLowerBlockCelsius p) then ALS_Blocked
         else if flt air (tcp_airLimitLowerReduceStartCelsius p) then ALS_Reduced
         else ALS_Unrestricted)
      else ALS_Unrestricted)"

definition reductionFactor ::
  "TemperatureControlParameters \<Rightarrow> AbstractControlDirection \<Rightarrow> f64 \<Rightarrow> f64" where
  "reductionFactor p direction air =
     (if direction = Dir_Heating then
        fdiv (fsub (tcp_airLimitUpperBlockCelsius p) air)
          (fsub (tcp_airLimitUpperBlockCelsius p) (tcp_airLimitUpperReduceStartCelsius p))
      else
        fdiv (fsub air (tcp_airLimitLowerBlockCelsius p))
          (fsub (tcp_airLimitLowerReduceStartCelsius p) (tcp_airLimitLowerBlockCelsius p)))"

definition limitQuote ::
  "TemperatureControlParameters \<Rightarrow> ControlSensorRole \<Rightarrow> AbstractControlDirection \<Rightarrow> f64 \<Rightarrow>
     f64 \<Rightarrow> f64" where
  "limitQuote p role direction air quote =
     (case airLimitOf p role direction air of
        ALS_Blocked \<Rightarrow> F64 0
      | ALS_Reduced \<Rightarrow> fmul quote (reductionFactor p direction air)
      | _ \<Rightarrow> quote)"

text \<open>The integrator after a change of direction or a committed change of context.\<close>

definition directionChanged :: "TemperatureController \<Rightarrow> AbstractControlDirection \<Rightarrow> bool" where
  "directionChanged c direction \<longleftrightarrow>
     (case tct_lastActiveDirection (tc_state c) of None \<Rightarrow> False | Some d \<Rightarrow> d \<noteq> direction)"

definition applyTransition ::
  "PiDirectionParameters \<Rightarrow> AbstractControlDirection \<Rightarrow> TemperatureController \<Rightarrow>
     TemperatureController" where
  "applyTransition profile direction c =
     (let pending = tct_pendingTransitionAction (tc_state c);
          changed = directionChanged c direction;
          policy = tc_policy c in
      if pending \<noteq> None \<or> changed then
        (let action = (case pending of None \<Rightarrow> itp_directionChange policy | Some a \<Rightarrow> a);
             action = (if pending \<noteq> None \<and> changed \<and> itp_directionChange policy = ITA_Reset
                       then ITA_Reset else action) in
         onControlState (\<lambda>s. s\<lparr>
           tct_integralContributionQuote :=
             (if action = ITA_Reset then F64 0
              else fmin (fmin (tct_integralContributionQuote s)
                     (itp_transitionMaximumCarryQuote policy)) (pid_maximumQuote profile)),
           tct_pendingContextTransition := None, tct_pendingTransitionAction := None\<rparr>) c)
      else c)"

text \<open>The integrator after the sample; no value where an intermediate one is not finite.\<close>

definition integralHeadroom :: "PiDirectionParameters \<Rightarrow> f64 \<Rightarrow> f64" where
  "integralHeadroom profile rawP = fmax (F64 0) (fsub (pid_maximumQuote profile) rawP)"

definition chargedIntegral ::
  "PiDirectionParameters \<Rightarrow> f64 \<Rightarrow> f64 \<Rightarrow> u64 \<Rightarrow> bool \<Rightarrow> f64 \<Rightarrow> f64 option" where
  "chargedIntegral profile rawP activeError deltaMillis mayCharge integral =
     (let headroom = integralHeadroom profile rawP;
          ownPiSaturated = fle (pid_maximumQuote profile) rawP \<or> fle headroom integral;
          charge = \<not> ownPiSaturated \<and> flt rawP (pid_maximumQuote profile) \<and>
            flt (F64 0) headroom \<and> mayCharge \<and> deltaMillis > 0;
          dtSeconds = fdiv (f64_of_u64 deltaMillis) (F64 1000);
          deltaI = fmul (fmul (pid_integralGainQuotePerCelsiusSecond profile) activeError) dtSeconds;
          candidate = fadd integral (if charge then deltaI else F64 0) in
      if \<not> isfinite headroom then None
      else if charge \<and> (\<not> isfinite dtSeconds \<or> \<not> isfinite deltaI \<or> flt deltaI (F64 0)) then None
      else if fle (pid_maximumQuote profile) rawP then Some (F64 0)
      else if \<not> isfinite candidate then None
      else Some (fmin (fmax candidate (F64 0)) headroom))"

text \<open>The quotes of the result, its status and its request.\<close>

definition quotedResult ::
  "TemperatureController \<Rightarrow> TemperatureControlInput \<Rightarrow> PiDirectionParameters \<Rightarrow>
     AbstractControlDirection \<Rightarrow> f64 \<Rightarrow> f64 \<Rightarrow> TemperatureControlResult \<times> TemperatureController" where
  "quotedResult c i profile direction air rawP =
     (let p = tc_parameters c;
          role = tci_controlSensorRole i;
          airLimit = airLimitOf p role direction air;
          invalid = failClosed TCS_InvalidInput TCR_InvalidSample airLimit c;
          integral = tct_integralContributionQuote (tc_state c);
          unbounded = fadd rawP integral;
          maximumLimited = fmin unbounded (pid_maximumQuote profile);
          limited = limitQuote p role direction air maximumLimited;
          quote = fmin limited (pid_maximumQuote profile);
          off = airLimit = ALS_Blocked \<or> feq quote (F64 0);
          reason =
            (if off then TCR_AirLimitBlocked
             else if airLimit = ALS_Reduced then TCR_AirLimitReduced
             else if fle (pid_maximumQuote profile) rawP \<or>
                     fle (pid_maximumQuote profile) maximumLimited then TCR_Saturated
             else TCR_None);
          request = newRequest c i (if off then Dir_Idle else direction) quote in
      if \<not> isfinite unbounded then invalid
      else if \<not> isfinite limited \<or> flt limited (F64 0) then invalid
      else if tc_requestIdentityExhausted c then
        failClosed TCS_InvalidInput TCR_RequestIdentityExhausted airLimit c
      else
        (\<lparr>tcr_status = (if off then TCS_Off else TCS_Demand), tcr_reason = reason,
          tcr_airLimitState = airLimit, tcr_direction = (if off then Dir_Idle else direction),
          tcr_timeQuote = quote, tcr_rawProportionalQuote = rawP,
          tcr_integralContributionQuote = integral, tcr_unboundedQuote = unbounded,
          tcr_maximumLimitedQuote = maximumLimited, tcr_controlRequest = Some request\<rparr>,
         onControlState (\<lambda>s. s\<lparr>tct_lastActiveDirection := Some direction\<rparr>)
           (useRequestSequence (onControlState (\<lambda>s.
              s\<lparr>tct_feedbackWindow := (if off then None else Some request)\<rparr>) c))))"

definition activeResult ::
  "TemperatureController \<Rightarrow> TemperatureControlInput \<Rightarrow> PiDirectionParameters \<Rightarrow>
     AbstractControlDirection \<Rightarrow> f64 \<Rightarrow> f64 \<Rightarrow> u64 \<Rightarrow> bool \<Rightarrow> bool \<Rightarrow> bool \<Rightarrow>
     TemperatureControlResult \<times> TemperatureController" where
  "activeResult c i profile direction rawError air deltaMillis firstSample anchor allowPositive =
     (let role = tci_controlSensorRole i;
          unrestricted = (if role = CSR_Air then ALS_NotApplied else ALS_Unrestricted);
          activeError = fsub (ffabs rawError) (pid_neutralBandWidthCelsius profile);
          rawP = fmul (pid_proportionalGainQuotePerCelsius profile) activeError;
          airLimit = airLimitOf (tc_parameters c) role direction air;
          transitionSample = directionChanged c direction \<or>
            tct_pendingTransitionAction (tc_state c) \<noteq> None \<or> firstSample \<or> anchor;
          mayCharge = allowPositive \<and> \<not> (airLimit = ALS_Reduced \<or> airLimit = ALS_Blocked) \<and>
            \<not> transitionSample \<and> \<not> firstSample;
          c1 = applyTransition profile direction c in
      if \<not> isfinite activeError \<or> fle activeError (F64 0) then
        failClosed TCS_InvalidInput TCR_InvalidSample unrestricted c
      else if \<not> isfinite rawP \<or> flt rawP (F64 0) then
        failClosed TCS_InvalidInput TCR_InvalidSample unrestricted c
      else case chargedIntegral profile rawP activeError deltaMillis mayCharge
                  (tct_integralContributionQuote (tc_state c1)) of
        None \<Rightarrow> failClosed TCS_InvalidInput TCR_InvalidSample airLimit c1
      | Some integral \<Rightarrow>
          quotedResult (onControlState (\<lambda>s. s\<lparr>tct_integralContributionQuote := integral\<rparr>) c1)
            i profile direction air rawP)"

section \<open>An evaluation\<close>

definition evaluateControl ::
  "TemperatureControlInput \<Rightarrow> TemperatureController \<Rightarrow>
     TemperatureControlResult \<times> TemperatureController" where
  "evaluateControl i c =
     (case controlValues c i of
        Inl x \<Rightarrow> x
      | Inr (air, measured) \<Rightarrow>
          (case sampleTime c i of
             Inl x \<Rightarrow> x
           | Inr (c1, deltaMillis, firstSample, anchor) \<Rightarrow>
               (case consumeFeedback c1 i of
                  Inl x \<Rightarrow> x
                | Inr (c2, allowPositive) \<Rightarrow>
                    (let rawError = fsub (tci_targetCelsius i) measured in
                     if \<not> isfinite rawError then
                       failClosed TCS_InvalidInput TCR_InvalidSample
                         (diagnosticAirLimitState (tci_controlSensorRole i)) c2
                     else case selectProfile (tc_parameters c2) (tci_controlSensorRole i) rawError of
                       None \<Rightarrow> neutralResult c2 i
                     | Some (profile, direction) \<Rightarrow>
                         activeResult c2 i profile direction rawError air deltaMillis firstSample
                           anchor allowPositive))))"

end
