(* ===== verification/ProgramLimits.thy ===== *)
theory ProgramLimits
  imports DomainTypes Binary64
begin

text \<open>
  The limits of a program that are doubles, and the ones on counts and short durations
  (\<open>program_limits.hpp\<close>). The other limits are in \<open>DomainTypes\<close>.
\<close>

definition kMinimumFermentationStageCount :: nat where "kMinimumFermentationStageCount = 1"

definition kMaximumFermentationStageCount :: nat where "kMaximumFermentationStageCount = 1"

definition kMinimumFermentationTemperatureCelsius :: f64 where
  "kMinimumFermentationTemperatureCelsius = F64 4"

definition kMaximumFermentationTemperatureCelsius :: f64 where
  "kMaximumFermentationTemperatureCelsius = F64 45"

definition kMinimumFermentationDurationMinutes :: u32 where
  "kMinimumFermentationDurationMinutes = 1"

text \<open>The double that \<open>0.1\<close> denotes.\<close>

definition kMinimumQualificationBandCelsius :: f64 where
  "kMinimumQualificationBandCelsius = F64 (3602879701896397 / 36028797018963968)"

definition kMaximumQualificationBandCelsius :: f64 where
  "kMaximumQualificationBandCelsius = F64 2"

definition kMinimumFallbackDelaySeconds :: u32 where "kMinimumFallbackDelaySeconds = 0"

definition kMaximumFallbackDelaySeconds :: u32 where "kMaximumFallbackDelaySeconds = 3600"

definition kMinimumCoolingTargetCelsius :: f64 where "kMinimumCoolingTargetCelsius = F64 4"

definition kMaximumCoolingTargetCelsius :: f64 where "kMaximumCoolingTargetCelsius = F64 25"

end
