(* ===== verification/TargetQualification.thy ===== *)
theory TargetQualification
  imports TemperatureControl ProcessStateMachine ProgramLimits
begin

text \<open>
  The evaluator of the target qualification (\<open>target_qualification.cpp\<close>): it credits the time that
  the controlled value stays in the band around the target, tolerates an excursion of less than the
  grace time, and reports the progress that the process state machine consumes. An evaluation
  yields a candidate state; a separate call applies it, once, when the context still matches.
\<close>

section \<open>Types\<close>

datatype QualificationPhase = QPh_Preheating | QPh_Target | QPh_other u8

record TargetQualificationInput =
  tqi_phase :: QualificationPhase
  tqi_sampleTimestampMonotonicMillis :: u64
  tqi_runRevision :: u32
  tqi_processTransitionSequence :: u32
  tqi_targetCelsius :: f64
  tqi_bandCelsius :: f64
  tqi_qualificationDurationMillis :: u64
  tqi_effectiveGraceMillis :: "u64 option"
  tqi_maximumAcceptedSampleGapMillis :: "u64 option"
  tqi_controlSensorRole :: ControlSensorRole
  tqi_air :: SensorQualitySnapshot
  tqi_product :: SensorQualitySnapshot

record TargetQualificationContext =
  tqc_targetCelsius :: f64
  tqc_bandCelsius :: f64
  tqc_controlSensorRole :: ControlSensorRole

record TargetQualificationCommitContext =
  tqm_qualification :: TargetQualificationContext
  tqm_runRevision :: u32
  tqm_processTransitionSequence :: u32

text \<open>The \<open>operator==\<close> of both: values are compared as doubles.\<close>

definition contextEq :: "TargetQualificationContext \<Rightarrow> TargetQualificationContext \<Rightarrow> bool" where
  "contextEq l r \<longleftrightarrow>
     feq (tqc_targetCelsius l) (tqc_targetCelsius r) \<and>
     feq (tqc_bandCelsius l) (tqc_bandCelsius r) \<and>
     tqc_controlSensorRole l = tqc_controlSensorRole r"

definition commitContextEq ::
  "TargetQualificationCommitContext \<Rightarrow> TargetQualificationCommitContext \<Rightarrow> bool" where
  "commitContextEq l r \<longleftrightarrow>
     contextEq (tqm_qualification l) (tqm_qualification r) \<and>
     tqm_runRevision l = tqm_runRevision r \<and>
     tqm_processTransitionSequence l = tqm_processTransitionSequence r"

text \<open>The \<open>operator==\<close> of \<open>std::optional\<close>.\<close>

definition optionalEq :: "('a \<Rightarrow> 'a \<Rightarrow> bool) \<Rightarrow> 'a option \<Rightarrow> 'a option \<Rightarrow> bool" where
  "optionalEq eq l r =
     (case (l, r) of (None, None) \<Rightarrow> True | (Some x, Some y) \<Rightarrow> eq x y | _ \<Rightarrow> False)"

record TargetQualificationRuntimeState =
  tqs_phase :: QualificationPhase
  tqs_context :: "TargetQualificationContext option"
  tqs_commitContext :: "TargetQualificationCommitContext option"
  tqs_episodeActive :: bool
  tqs_creditedInBandMillis :: u64
  tqs_lastUsableTimestampMillis :: "u64 option"
  tqs_graceStartedAtMillis :: "u64 option"

definition initialQualification :: TargetQualificationRuntimeState where
  "initialQualification =
     \<lparr>tqs_phase = QPh_Target, tqs_context = None, tqs_commitContext = None,
      tqs_episodeActive = False, tqs_creditedInBandMillis = 0,
      tqs_lastUsableTimestampMillis = None, tqs_graceStartedAtMillis = None\<rparr>"

datatype TargetQualificationDecisionLifecycle = TQL_Pending | TQL_Applied | TQL_Discarded

record TargetQualificationResult =
  tqr_progress :: QualificationProgress
  tqr_creditedInBandMillis :: u64
  tqr_expectedEvaluatorState :: TargetQualificationRuntimeState
  tqr_candidateEvaluatorState :: TargetQualificationRuntimeState
  tqr_lifecycle :: TargetQualificationDecisionLifecycle
  tqr_candidateApplicable :: bool

section \<open>Helpers\<close>

definition clearEpisode :: "TargetQualificationRuntimeState \<Rightarrow> TargetQualificationRuntimeState" where
  "clearEpisode s = s\<lparr>tqs_episodeActive := False, tqs_creditedInBandMillis := 0,
     tqs_lastUsableTimestampMillis := None, tqs_graceStartedAtMillis := None\<rparr>"

definition validQualificationRole :: "ControlSensorRole \<Rightarrow> bool" where
  "validQualificationRole r \<longleftrightarrow> r = CSR_Air \<or> r = CSR_Product"

definition validQualificationPhase :: "QualificationPhase \<Rightarrow> bool" where
  "validQualificationPhase p \<longleftrightarrow> p = QPh_Preheating \<or> p = QPh_Target"

definition sameState ::
  "TargetQualificationRuntimeState \<Rightarrow> TargetQualificationRuntimeState \<Rightarrow> bool" where
  "sameState l r \<longleftrightarrow>
     tqs_phase l = tqs_phase r \<and> optionalEq contextEq (tqs_context l) (tqs_context r) \<and>
     optionalEq commitContextEq (tqs_commitContext l) (tqs_commitContext r) \<and>
     tqs_episodeActive l = tqs_episodeActive r \<and>
     tqs_creditedInBandMillis l = tqs_creditedInBandMillis r \<and>
     tqs_lastUsableTimestampMillis l = tqs_lastUsableTimestampMillis r \<and>
     tqs_graceStartedAtMillis l = tqs_graceStartedAtMillis r"

definition qualificationResult ::
  "QualificationProgress \<Rightarrow> TargetQualificationRuntimeState \<Rightarrow> TargetQualificationRuntimeState \<Rightarrow>
     bool \<Rightarrow> TargetQualificationResult" where
  "qualificationResult progress expected candidate applicable =
     \<lparr>tqr_progress = progress, tqr_creditedInBandMillis = tqs_creditedInBandMillis candidate,
      tqr_expectedEvaluatorState = expected, tqr_candidateEvaluatorState = candidate,
      tqr_lifecycle = TQL_Pending, tqr_candidateApplicable = applicable\<rparr>"

definition checkedAdd :: "u64 \<Rightarrow> u64 \<Rightarrow> u64 option" where
  "checkedAdd left right = (if left > u64_max - right then None else Some (left + right))"

section \<open>Reset and application\<close>

definition resetQualification ::
  "TargetQualificationRuntimeState \<Rightarrow> TargetQualificationRuntimeState" where
  "resetQualification s = initialQualification\<lparr>tqs_phase := tqs_phase s\<rparr>"

text \<open>Whether the decision was applied, the decision after it, and the state.\<close>

definition applyRamOnly ::
  "TargetQualificationResult \<Rightarrow> TargetQualificationCommitContext \<Rightarrow>
     TargetQualificationRuntimeState \<Rightarrow>
     bool \<times> TargetQualificationResult \<times> TargetQualificationRuntimeState" where
  "applyRamOnly decision currentContext s =
     (if tqr_lifecycle decision \<noteq> TQL_Pending \<or> \<not> tqr_candidateApplicable decision then
        (False, decision, s)
      else
        (let discarded = decision\<lparr>tqr_lifecycle := TQL_Discarded\<rparr>;
             candidate = tqr_candidateEvaluatorState decision in
         if \<not> sameState s (tqr_expectedEvaluatorState decision) \<or>
            (case tqs_commitContext candidate of
               None \<Rightarrow> True | Some m \<Rightarrow> \<not> commitContextEq m currentContext) then
           (False, discarded, s)
         else (True, decision\<lparr>tqr_lifecycle := TQL_Applied\<rparr>, candidate)))"

definition applyAfterPersistedProcessApply ::
  "TargetQualificationResult \<Rightarrow> TargetQualificationCommitContext \<Rightarrow>
     TargetQualificationCommitContext \<Rightarrow> TargetQualificationRuntimeState \<Rightarrow>
     bool \<times> TargetQualificationResult \<times> TargetQualificationRuntimeState" where
  "applyAfterPersistedProcessApply decision expectedBeforeContext committedContext s =
     (if tqr_lifecycle decision \<noteq> TQL_Pending \<or> \<not> tqr_candidateApplicable decision then
        (False, decision, s)
      else
        (let discarded = decision\<lparr>tqr_lifecycle := TQL_Discarded\<rparr>;
             candidate = tqr_candidateEvaluatorState decision in
         if \<not> sameState s (tqr_expectedEvaluatorState decision) \<or>
            (case tqs_commitContext candidate of
               None \<Rightarrow> True | Some m \<Rightarrow> \<not> commitContextEq m expectedBeforeContext) \<or>
            \<not> contextEq (tqm_qualification committedContext)
               (tqm_qualification expectedBeforeContext) then
           (False, discarded, s)
         else (True, decision\<lparr>tqr_lifecycle := TQL_Applied\<rparr>,
           candidate\<lparr>tqs_commitContext := Some committedContext\<rparr>)))"

definition discardQualification :: "TargetQualificationResult \<Rightarrow> TargetQualificationResult" where
  "discardQualification decision =
     (if tqr_lifecycle decision = TQL_Pending then decision\<lparr>tqr_lifecycle := TQL_Discarded\<rparr>
      else decision)"

section \<open>An evaluation\<close>

text \<open>Inside the grace time of an excursion.\<close>

definition evaluateGrace ::
  "TargetQualificationInput \<Rightarrow> u64 \<Rightarrow> u64 \<Rightarrow> f64 \<Rightarrow> TargetQualificationRuntimeState \<Rightarrow>
     TargetQualificationRuntimeState \<Rightarrow> TargetQualificationResult" where
  "evaluateGrace i graceStartedAt effectiveGrace measured expected candidate =
     (let now = tqi_sampleTimestampMonotonicMillis i;
          inBand = fle (ffabs (fsub measured (tqi_targetCelsius i))) (tqi_bandCelsius i) in
      if now < graceStartedAt then
        qualificationResult QP_Invalid expected (clearEpisode candidate) True
      else if now - graceStartedAt \<ge> effectiveGrace then
        (let candidate = clearEpisode candidate in
         if \<not> inBand then qualificationResult QP_OutsideBand expected candidate True
         else qualificationResult QP_InBand expected
           (candidate\<lparr>tqs_episodeActive := True, tqs_lastUsableTimestampMillis := Some now\<rparr>) True)
      else if inBand then
        qualificationResult QP_InBand expected
          (candidate\<lparr>tqs_graceStartedAtMillis := None, tqs_lastUsableTimestampMillis := Some now\<rparr>) True
      else
        qualificationResult QP_Grace expected
          (candidate\<lparr>tqs_lastUsableTimestampMillis := Some now\<rparr>) True)"

text \<open>Without a running excursion: start, credit or leave.\<close>

definition evaluateBand ::
  "TargetQualificationInput \<Rightarrow> u64 \<Rightarrow> f64 \<Rightarrow> TargetQualificationRuntimeState \<Rightarrow>
     TargetQualificationRuntimeState \<Rightarrow> TargetQualificationResult" where
  "evaluateBand i effectiveGrace measured expected candidate =
     (let now = tqi_sampleTimestampMonotonicMillis i;
          deviation = ffabs (fsub measured (tqi_targetCelsius i));
          duration = tqi_qualificationDurationMillis i in
      if \<not> isfinite deviation then
        qualificationResult QP_Invalid expected (clearEpisode candidate) True
      else if \<not> fle deviation (tqi_bandCelsius i) then
        (if \<not> tqs_episodeActive candidate \<or> effectiveGrace = 0 then
           qualificationResult QP_OutsideBand expected (clearEpisode candidate) True
         else qualificationResult QP_Grace expected
           (candidate\<lparr>tqs_graceStartedAtMillis := Some now,
              tqs_lastUsableTimestampMillis := Some now\<rparr>) True)
      else if \<not> tqs_episodeActive candidate then
        qualificationResult QP_InBand expected
          (candidate\<lparr>tqs_episodeActive := True, tqs_creditedInBandMillis := 0,
             tqs_lastUsableTimestampMillis := Some now\<rparr>) True
      else
        (let previous = (case tqs_lastUsableTimestampMillis candidate of None \<Rightarrow> now | Some t \<Rightarrow> t) in
         case checkedAdd (tqs_creditedInBandMillis candidate) (now - previous) of
           None \<Rightarrow> qualificationResult QP_Invalid expected (clearEpisode candidate) True
         | Some credited \<Rightarrow>
             (let candidate = candidate
                \<lparr>tqs_creditedInBandMillis := (if credited \<ge> duration then duration else credited),
                 tqs_lastUsableTimestampMillis := Some now\<rparr> in
              qualificationResult
                (if tqs_creditedInBandMillis candidate \<ge> duration then QP_Complete else QP_InBand)
                expected candidate True)))"

text \<open>The candidate for the phase and the context of the input.\<close>

definition inPhase ::
  "TargetQualificationInput \<Rightarrow> TargetQualificationRuntimeState \<Rightarrow> TargetQualificationRuntimeState"
  where
  "inPhase i s = (if tqi_phase i \<noteq> tqs_phase s then (clearEpisode s)\<lparr>tqs_phase := tqi_phase i\<rparr> else s)"

definition inContext ::
  "TargetQualificationInput \<Rightarrow> TargetQualificationRuntimeState \<Rightarrow> TargetQualificationRuntimeState"
  where
  "inContext i s =
     (let context = \<lparr>tqc_targetCelsius = tqi_targetCelsius i, tqc_bandCelsius = tqi_bandCelsius i,
            tqc_controlSensorRole = tqi_controlSensorRole i\<rparr>;
          s = (if (case tqs_context s of None \<Rightarrow> True | Some c \<Rightarrow> \<not> contextEq c context)
               then (clearEpisode s)\<lparr>tqs_context := Some context\<rparr> else s) in
      s\<lparr>tqs_commitContext := Some \<lparr>tqm_qualification = context, tqm_runRevision = tqi_runRevision i,
          tqm_processTransitionSequence = tqi_processTransitionSequence i\<rparr>\<rparr>)"

definition evaluateQualification ::
  "TargetQualificationInput \<Rightarrow> TargetQualificationRuntimeState \<Rightarrow> TargetQualificationResult" where
  "evaluateQualification i expected =
     (if \<not> validQualificationPhase (tqi_phase i) then
        qualificationResult QP_Invalid expected (clearEpisode expected) False
      else
        (let candidate = inPhase i expected;
             invalid = qualificationResult QP_Invalid expected (clearEpisode candidate) True in
         if \<not> isfinite (tqi_targetCelsius i) \<or> \<not> isfinite (tqi_bandCelsius i) \<or>
            flt (tqi_bandCelsius i) kMinimumQualificationBandCelsius \<or>
            flt kMaximumQualificationBandCelsius (tqi_bandCelsius i) \<or>
            tqi_qualificationDurationMillis i = 0 \<or>
            \<not> validQualificationRole (tqi_controlSensorRole i) then invalid
         else case (tqi_effectiveGraceMillis i, tqi_maximumAcceptedSampleGapMillis i) of
           (Some effectiveGrace, Some maximumGap) \<Rightarrow>
             if maximumGap = 0 then invalid
             else
               (let candidate = inContext i candidate;
                    invalid = qualificationResult QP_Invalid expected (clearEpisode candidate) True;
                    selected = (if tqi_phase i = QPh_Preheating \<or> tqi_controlSensorRole i = CSR_Air
                                then tqi_air i else tqi_product i);
                    now = tqi_sampleTimestampMonotonicMillis i in
                case readControlSensorValue selected (F64 0) of (sampleStatus, measured) \<Rightarrow>
                if sampleStatus = CSV_Unavailable then
                  qualificationResult QP_Unavailable expected (clearEpisode candidate) True
                else if sampleStatus = CSV_Invalid \<or> \<not> isfinite measured then invalid
                else if (case tqs_lastUsableTimestampMillis candidate of None \<Rightarrow> False
                         | Some previous \<Rightarrow> now < previous \<or> now - previous > maximumGap) then invalid
                else case tqs_graceStartedAtMillis candidate of
                  Some graceStartedAt \<Rightarrow>
                    evaluateGrace i graceStartedAt effectiveGrace measured expected candidate
                | None \<Rightarrow> evaluateBand i effectiveGrace measured expected candidate)
         | _ \<Rightarrow> qualificationResult QP_Unavailable expected (clearEpisode candidate) True))"

end
