(* ===== verification/QualificationProofs.thy ===== *)
theory QualificationProofs
  imports TargetQualification
begin

text \<open>
  Invariants of the target qualification. A sample is in band when the selected sensor is usable and
  its value lies in the band; an active episode always has such a sample behind it, of the same phase
  and context, at least as long ago as the time that is credited.
\<close>

section \<open>Samples\<close>

definition selectedSnapshot :: "TargetQualificationInput \<Rightarrow> SensorQualitySnapshot" where
  "selectedSnapshot i =
     (if tqi_phase i = QPh_Preheating \<or> tqi_controlSensorRole i = CSR_Air then tqi_air i
      else tqi_product i)"

definition in_band :: "TargetQualificationInput \<Rightarrow> bool" where
  "in_band i \<longleftrightarrow>
     (\<exists>v. sq_quality (selectedSnapshot i) = SQ_Valid \<and>
        sq_filteredCelsius (selectedSnapshot i) = Some v \<and> isfinite v \<and>
        fle (ffabs (fsub v (tqi_targetCelsius i))) (tqi_bandCelsius i))"

definition contextOf :: "TargetQualificationInput \<Rightarrow> TargetQualificationContext" where
  "contextOf i = \<lparr>tqc_targetCelsius = tqi_targetCelsius i, tqc_bandCelsius = tqi_bandCelsius i,
     tqc_controlSensorRole = tqi_controlSensorRole i\<rparr>"

definition finite_context :: "TargetQualificationContext \<Rightarrow> bool" where
  "finite_context c \<longleftrightarrow> isfinite (tqc_targetCelsius c) \<and> isfinite (tqc_bandCelsius c)"

lemma finite_contextEq: "finite_context c \<Longrightarrow> contextEq c d \<longleftrightarrow> c = d"
  by (cases c; cases d)
    (auto simp: finite_context_def contextEq_def isfinite_iff elim: feq.elims)

section \<open>The invariant\<close>

definition qualification_inv ::
  "TargetQualificationInput list \<Rightarrow> TargetQualificationRuntimeState \<Rightarrow> bool" where
  "qualification_inv is s \<longleftrightarrow>
     (case tqs_context s of None \<Rightarrow> True | Some c \<Rightarrow> finite_context c) \<and>
     (if tqs_episodeActive s
      then \<exists>t. tqs_lastUsableTimestampMillis s = Some t \<and>
        (\<exists>j \<in> set is. in_band j \<and> tqi_phase j = tqs_phase s \<and> tqs_context s = Some (contextOf j) \<and>
           unat (tqi_sampleTimestampMonotonicMillis j) + unat (tqs_creditedInBandMillis s) \<le> unat t)
      else tqs_creditedInBandMillis s = 0 \<and> tqs_lastUsableTimestampMillis s = None \<and>
        tqs_graceStartedAtMillis s = None)"

lemma cleared_inv [simp]:
  "qualification_inv is (clearEpisode s) \<longleftrightarrow>
     (case tqs_context s of None \<Rightarrow> True | Some c \<Rightarrow> finite_context c)"
  by (simp add: qualification_inv_def clearEpisode_def)

lemma inv_context:
  "qualification_inv is s \<Longrightarrow> (case tqs_context s of None \<Rightarrow> True | Some c \<Rightarrow> finite_context c)"
  by (simp add: qualification_inv_def)

lemma inv_more: "qualification_inv is s \<Longrightarrow> set is \<subseteq> set js \<Longrightarrow> qualification_inv js s"
  unfolding qualification_inv_def by (auto split: if_splits)

lemma inv_commit [simp]:
  "qualification_inv is (s\<lparr>tqs_commitContext := m\<rparr>) = qualification_inv is s"
  by (simp add: qualification_inv_def)

lemma inPhase_inv: "qualification_inv is s \<Longrightarrow> qualification_inv is (inPhase i s)"
  by (auto simp: inPhase_def qualification_inv_def clearEpisode_def)

lemma inPhase_phase [simp]: "tqs_phase (inPhase i s) = tqi_phase i"
  by (simp add: inPhase_def)

lemma clear_phase [simp]: "tqs_phase (clearEpisode s) = tqs_phase s"
  "tqs_context (clearEpisode s) = tqs_context s"
  by (simp_all add: clearEpisode_def)

lemma inContext_inv:
  assumes "qualification_inv is s" and "isfinite (tqi_targetCelsius i)" "isfinite (tqi_bandCelsius i)"
  shows "qualification_inv is (inContext i s)" and "tqs_context (inContext i s) = Some (contextOf i)"
    and "tqs_phase (inContext i s) = tqs_phase s"
proof -
  have f: "finite_context (contextOf i)" using assms(2,3) by (simp add: finite_context_def contextOf_def)
  have e: "inContext i s =
      (if tqs_context s = Some (contextOf i) then s
       else (clearEpisode s)\<lparr>tqs_context := Some (contextOf i)\<rparr>)
      \<lparr>tqs_commitContext := Some \<lparr>tqm_qualification = contextOf i, tqm_runRevision = tqi_runRevision i,
         tqm_processTransitionSequence = tqi_processTransitionSequence i\<rparr>\<rparr>"
    using inv_context [OF assms(1)] finite_contextEq
    by (auto simp: inContext_def Let_def contextOf_def [symmetric] split: option.splits)
  show "qualification_inv is (inContext i s)"
    using assms(1) f unfolding e by (auto simp: qualification_inv_def clearEpisode_def)
  show "tqs_context (inContext i s) = Some (contextOf i)" "tqs_phase (inContext i s) = tqs_phase s"
    unfolding e by simp_all
qed

section \<open>An evaluation\<close>

lemma qualificationResult_sel [simp]:
  "tqr_progress (qualificationResult p e c a) = p"
  "tqr_candidateEvaluatorState (qualificationResult p e c a) = c"
  "tqr_expectedEvaluatorState (qualificationResult p e c a) = e"
  "tqr_lifecycle (qualificationResult p e c a) = TQL_Pending"
  "tqr_candidateApplicable (qualificationResult p e c a) = a"
  "tqr_creditedInBandMillis (qualificationResult p e c a) = tqs_creditedInBandMillis c"
  by (simp_all add: qualificationResult_def)

text \<open>A sample that reaches the comparison with the band.\<close>

definition accepted_sample ::
  "TargetQualificationInput \<Rightarrow> TargetQualificationRuntimeState \<Rightarrow> u64 \<Rightarrow> u64 \<Rightarrow> f64 \<Rightarrow> bool" where
  "accepted_sample i s grace gap v \<longleftrightarrow>
     validQualificationPhase (tqi_phase i) \<and> isfinite (tqi_targetCelsius i) \<and>
     isfinite (tqi_bandCelsius i) \<and> tqi_qualificationDurationMillis i \<noteq> 0 \<and>
     tqi_effectiveGraceMillis i = Some grace \<and> tqi_maximumAcceptedSampleGapMillis i = Some gap \<and>
     sq_quality (selectedSnapshot i) = SQ_Valid \<and>
     sq_filteredCelsius (selectedSnapshot i) = Some v \<and> isfinite v \<and>
     (\<forall>t. tqs_lastUsableTimestampMillis (inContext i (inPhase i s)) = Some t \<longrightarrow>
        t \<le> tqi_sampleTimestampMonotonicMillis i \<and> tqi_sampleTimestampMonotonicMillis i - t \<le> gap)"

lemma evaluateQualification_cases:
  obtains (cleared) p c a where
      "evaluateQualification i s = qualificationResult p s (clearEpisode c) a"
      "p \<in> {QP_Invalid, QP_Unavailable}"
      "tqs_context c = tqs_context s \<or> tqs_context c = tqs_context (inContext i (inPhase i s)) \<and>
         isfinite (tqi_targetCelsius i) \<and> isfinite (tqi_bandCelsius i)"
  | (grace) g gap v start where "accepted_sample i s g gap v"
      "tqs_graceStartedAtMillis (inContext i (inPhase i s)) = Some start"
      "evaluateQualification i s = evaluateGrace i start g v s (inContext i (inPhase i s))"
  | (band) g gap v where "accepted_sample i s g gap v"
      "tqs_graceStartedAtMillis (inContext i (inPhase i s)) = None"
      "evaluateQualification i s = evaluateBand i g v s (inContext i (inPhase i s))"
proof -
  let ?c1 = "inPhase i s" and ?c2 = "inContext i (inPhase i s)"
  have ph: "tqs_context ?c1 = tqs_context s" by (simp add: inPhase_def)
  let ?p1 = "validQualificationPhase (tqi_phase i)"
  let ?p2 = "\<not> isfinite (tqi_targetCelsius i) \<or> \<not> isfinite (tqi_bandCelsius i) \<or>
            flt (tqi_bandCelsius i) kMinimumQualificationBandCelsius \<or>
            flt kMaximumQualificationBandCelsius (tqi_bandCelsius i) \<or>
            tqi_qualificationDurationMillis i = 0 \<or>
            \<not> validQualificationRole (tqi_controlSensorRole i)"
  note e = evaluateQualification_def [of i s]
  show thesis
  proof (cases "\<not> ?p1 \<or> ?p2")
    case True
    show thesis
    proof (cases ?p1)
      case False
      then have "evaluateQualification i s = qualificationResult QP_Invalid s (clearEpisode s) False"
        by (simp add: e)
      then show thesis by (rule cleared) simp_all
    next
      case p1: True
      with True have p2: ?p2 by blast
      from p1 have "\<not> \<not> ?p1" by blast
      then have "evaluateQualification i s = qualificationResult QP_Invalid s (clearEpisode ?c1) True"
        unfolding e Let_def if_P [OF p2] by (rule if_not_P)
      then show thesis by (rule cleared) (simp_all add: ph)
    qed
  next
    case valid: False
    then have fin: "isfinite (tqi_targetCelsius i)" "isfinite (tqi_bandCelsius i)" by blast+
    show thesis
    proof (cases "tqi_effectiveGraceMillis i = None \<or> tqi_maximumAcceptedSampleGapMillis i = None")
      case True
      then have "evaluateQualification i s = qualificationResult QP_Unavailable s (clearEpisode ?c1) True"
        using valid by (auto simp: e Let_def split: option.splits)
      then show thesis using cleared [of QP_Unavailable ?c1 True] ph by simp
    next
      case False
      then obtain g gap where g: "tqi_effectiveGraceMillis i = Some g"
        "tqi_maximumAcceptedSampleGapMillis i = Some gap" by auto
      obtain st v where r: "readControlSensorValue (selectedSnapshot i) (F64 0) = (st, v)" by fastforce
      let ?inv = "qualificationResult QP_Invalid s (clearEpisode ?c2) True"
      let ?now = "tqi_sampleTimestampMonotonicMillis i"
      have e2: "evaluateQualification i s =
          (if gap = 0 then qualificationResult QP_Invalid s (clearEpisode ?c1) True
           else if st = CSV_Unavailable then
             qualificationResult QP_Unavailable s (clearEpisode ?c2) True
           else if st = CSV_Invalid \<or> \<not> isfinite v then ?inv
           else if (case tqs_lastUsableTimestampMillis ?c2 of None \<Rightarrow> False
                    | Some previous \<Rightarrow> ?now < previous \<or> ?now - previous > gap) then ?inv
           else case tqs_graceStartedAtMillis ?c2 of
             Some start \<Rightarrow> evaluateGrace i start g v s ?c2
           | None \<Rightarrow> evaluateBand i g v s ?c2)"
        using valid g r by (simp add: e Let_def selectedSnapshot_def)
      show thesis
      proof (cases "gap = 0 \<or> st \<noteq> CSV_Valid \<or> \<not> isfinite v \<or>
          (case tqs_lastUsableTimestampMillis ?c2 of None \<Rightarrow> False
           | Some previous \<Rightarrow> ?now < previous \<or> ?now - previous > gap)")
        case True
        then have "evaluateQualification i s = qualificationResult QP_Invalid s (clearEpisode ?c1) True \<or>
            evaluateQualification i s = qualificationResult QP_Unavailable s (clearEpisode ?c2) True \<or>
            evaluateQualification i s = ?inv"
          unfolding e2 by (cases st) auto
        then show thesis using cleared [of QP_Invalid ?c1 True] cleared [of QP_Unavailable ?c2 True]
            cleared [of QP_Invalid ?c2 True] ph fin by auto
      next
        case False
        then have st: "st = CSV_Valid" by simp
        then have a: "accepted_sample i s g gap v"
          using valid False g r by (auto simp: accepted_sample_def readControlSensorValue_def
              split: if_splits option.splits)
        show thesis
        proof (cases "tqs_graceStartedAtMillis ?c2")
          case None
          then show thesis using band [OF a] False st by (simp add: e2)
        next
          case (Some start)
          then show thesis using grace [OF a] False st by (simp add: e2)
        qed
      qed
    qed
  qed
qed

text \<open>The candidate before the band is looked at, and what an evaluation makes of it.\<close>

definition ready_candidate ::
  "TargetQualificationInput list \<Rightarrow> TargetQualificationInput \<Rightarrow> TargetQualificationRuntimeState \<Rightarrow> bool"
  where
  "ready_candidate is i c \<longleftrightarrow>
     qualification_inv is c \<and> tqs_context c = Some (contextOf i) \<and> finite_context (contextOf i) \<and>
     tqs_phase c = tqi_phase i \<and>
     (\<forall>t. tqs_lastUsableTimestampMillis c = Some t \<longrightarrow> t \<le> tqi_sampleTimestampMonotonicMillis i)"

definition complete_since ::
  "TargetQualificationInput list \<Rightarrow> TargetQualificationInput \<Rightarrow> bool" where
  "complete_since is i \<longleftrightarrow>
     in_band i \<and>
     (\<exists>j \<in> set is. in_band j \<and> tqi_phase j = tqi_phase i \<and> contextOf j = contextOf i \<and>
        unat (tqi_sampleTimestampMonotonicMillis j) + unat (tqi_qualificationDurationMillis i)
          \<le> unat (tqi_sampleTimestampMonotonicMillis i))"

definition good_result ::
  "TargetQualificationInput list \<Rightarrow> TargetQualificationInput \<Rightarrow> TargetQualificationResult \<Rightarrow> bool"
  where
  "good_result is i r \<longleftrightarrow>
     qualification_inv (i # is) (tqr_candidateEvaluatorState r) \<and>
     (tqr_progress r = QP_Complete \<longrightarrow> complete_since is i)"

lemma good_cleared:
  assumes "ready_candidate is i c" and "p \<noteq> QP_Complete"
  shows "good_result is i (qualificationResult p e (clearEpisode c) a)"
  using assms by (auto simp: good_result_def ready_candidate_def dest: inv_context)

lemma ready_active:
  assumes "ready_candidate is i c" and "tqs_episodeActive c"
  obtains t j where "tqs_lastUsableTimestampMillis c = Some t"
    "t \<le> tqi_sampleTimestampMonotonicMillis i" "j \<in> set is" "in_band j"
    "tqi_phase j = tqi_phase i" "contextOf j = contextOf i"
    "unat (tqi_sampleTimestampMonotonicMillis j) + unat (tqs_creditedInBandMillis c) \<le> unat t"
  using assms unfolding ready_candidate_def qualification_inv_def by (auto simp: Let_def)

lemma ready_resting:
  assumes "ready_candidate is i c" and "tqs_episodeActive c"
  shows "qualification_inv (i # is) (c\<lparr>tqs_graceStartedAtMillis := g,
      tqs_lastUsableTimestampMillis := Some (tqi_sampleTimestampMonotonicMillis i)\<rparr>)"
proof -
  obtain t j where j: "t \<le> tqi_sampleTimestampMonotonicMillis i" "j \<in> set is" "in_band j"
    "tqi_phase j = tqi_phase i" "contextOf j = contextOf i"
    "unat (tqi_sampleTimestampMonotonicMillis j) + unat (tqs_creditedInBandMillis c) \<le> unat t"
    using ready_active [OF assms] by blast
  have "unat t \<le> unat (tqi_sampleTimestampMonotonicMillis i)" using j(1) by (simp add: word_le_nat_alt)
  with j show ?thesis using assms
    unfolding ready_candidate_def qualification_inv_def by (auto intro!: bexI [of _ j])
qed

lemma ready_started:
  assumes "ready_candidate is i c" and "in_band i"
  shows "qualification_inv (i # is) (c\<lparr>tqs_episodeActive := True, tqs_creditedInBandMillis := 0,
      tqs_lastUsableTimestampMillis := Some (tqi_sampleTimestampMonotonicMillis i)\<rparr>)"
  using assms unfolding ready_candidate_def qualification_inv_def by (auto split: if_splits)

lemma grace_good:
  assumes "ready_candidate is i c" and "tqs_episodeActive c"
    and "fle (ffabs (fsub v (tqi_targetCelsius i))) (tqi_bandCelsius i) \<Longrightarrow> in_band i"
  shows "good_result is i (evaluateGrace i start g v e c)"
proof -
  have n: "clearEpisode c\<lparr>tqs_episodeActive := True, tqs_lastUsableTimestampMillis :=
      Some (tqi_sampleTimestampMonotonicMillis i)\<rparr> =
    (clearEpisode c)\<lparr>tqs_episodeActive := True, tqs_creditedInBandMillis := 0,
      tqs_lastUsableTimestampMillis := Some (tqi_sampleTimestampMonotonicMillis i)\<rparr>"
    by (simp add: clearEpisode_def)
  have "ready_candidate is i (clearEpisode c)"
    using assms(1) by (auto simp: ready_candidate_def clearEpisode_def [of c] dest: inv_context
        intro: cleared_inv [unfolded clearEpisode_def, THEN iffD2])
  note s = ready_started [OF this assms(3)]
  have g: "c\<lparr>tqs_lastUsableTimestampMillis := x\<rparr> =
      c\<lparr>tqs_graceStartedAtMillis := tqs_graceStartedAtMillis c, tqs_lastUsableTimestampMillis := x\<rparr>"
    for x by simp
  show ?thesis
    using good_cleared [OF assms(1)] s ready_resting [OF assms(1,2)]
      ready_resting [OF assms(1,2), of "tqs_graceStartedAtMillis c", folded g]
    by (auto simp: evaluateGrace_def Let_def good_result_def n [symmetric])
qed

lemma credit_step:
  fixes a t now d credited :: u64
  assumes "unat a + unat c \<le> unat t" and "t \<le> now" and "checkedAdd c (now - t) = Some credited"
  shows "unat a + unat credited \<le> unat now"
proof -
  have u: "unat (now - t) = unat now - unat t" "unat t \<le> unat now"
    using assms(2) by (simp_all add: unat_sub word_le_nat_alt)
  have c: "credited = c + (now - t)"
    using assms(3) by (auto simp: checkedAdd_def split: if_splits)
  have "unat credited = unat c + unat (now - t)"
    unfolding c by (rule unat_add_no_wrap) (use u assms(1) unat_u64_lt [of now] in simp)
  then show ?thesis using u assms(1) by simp
qed

lemma band_good:
  assumes "ready_candidate is i c"
    and "isfinite (ffabs (fsub v (tqi_targetCelsius i))) \<Longrightarrow>
      fle (ffabs (fsub v (tqi_targetCelsius i))) (tqi_bandCelsius i) \<Longrightarrow> in_band i"
  shows "good_result is i (evaluateBand i g v e c)"
proof -
  let ?dev = "ffabs (fsub v (tqi_targetCelsius i))"
  let ?now = "tqi_sampleTimestampMonotonicMillis i"
  note cl = good_cleared [OF assms(1)]
  show ?thesis
  proof (cases "isfinite ?dev \<and> fle ?dev (tqi_bandCelsius i)")
    case False
    then show ?thesis using cl ready_resting [OF assms(1)]
      by (auto simp: evaluateBand_def Let_def good_result_def)
  next
    case True
    with assms(2) have b: "in_band i" by blast
    show ?thesis
    proof (cases "tqs_episodeActive c")
      case False
      then show ?thesis using True ready_started [OF assms(1) b]
        by (simp add: evaluateBand_def Let_def good_result_def)
    next
      case active: True
      obtain t j where j: "tqs_lastUsableTimestampMillis c = Some t" "t \<le> ?now" "j \<in> set is"
        "in_band j" "tqi_phase j = tqi_phase i" "contextOf j = contextOf i"
        "unat (tqi_sampleTimestampMonotonicMillis j) + unat (tqs_creditedInBandMillis c) \<le> unat t"
        using ready_active [OF assms(1) active] .
      show ?thesis
      proof (cases "checkedAdd (tqs_creditedInBandMillis c) (?now - t)")
        case None
        then show ?thesis using True active j(1) cl by (simp add: evaluateBand_def Let_def)
      next
        case (Some credited)
        let ?d = "tqi_qualificationDurationMillis i"
        let ?x = "if ?d \<le> credited then ?d else credited"
        have n: "unat (tqi_sampleTimestampMonotonicMillis j) + unat credited \<le> unat ?now"
          using credit_step [OF j(7,2) Some] .
        moreover have "unat ?x \<le> unat credited" by (simp add: word_le_nat_alt)
        ultimately have x: "unat (tqi_sampleTimestampMonotonicMillis j) + unat ?x \<le> unat ?now"
          by linarith
        have e: "evaluateBand i g v e c = qualificationResult
            (if ?d \<le> ?x then QP_Complete else QP_InBand) e
            (c\<lparr>tqs_creditedInBandMillis := ?x, tqs_lastUsableTimestampMillis := Some ?now\<rparr>) True"
          using True active j(1) Some by (simp add: evaluateBand_def Let_def)
        have "qualification_inv (i # is)
            (c\<lparr>tqs_creditedInBandMillis := ?x, tqs_lastUsableTimestampMillis := Some ?now\<rparr>)"
          using assms(1) active x j unfolding ready_candidate_def qualification_inv_def
          by (auto intro!: bexI [of _ j] simp del: if_split)
        moreover have "complete_since is i" if "?d \<le> ?x"
        proof -
          have "unat ?d \<le> unat ?x" using that by (simp add: word_le_nat_alt)
          with x have "unat (tqi_sampleTimestampMonotonicMillis j) + unat ?d \<le> unat ?now" by linarith
          with b j show ?thesis unfolding complete_since_def by blast
        qed
        ultimately show ?thesis unfolding e good_result_def qualificationResult_sel by (simp del: if_split)
      qed
    qed
  qed
qed

end
