(* ===== verification/QualificationProperties.thy ===== *)
theory QualificationProperties
  imports QualificationProofs
begin

text \<open>
  The properties of the target qualification, over any sequence of evaluations, applications and
  resets: it never completes early, it does complete on an undisturbed stay in the band, and a
  decision is applied at most once and only to the state and context it was made for.
\<close>

section \<open>Calls\<close>

text \<open>An evaluation whose decision is then applied, in RAM or after a persisted process apply; an
  evaluation whose decision is discarded; a reset.\<close>

datatype QualificationCall =
    QC_Ram TargetQualificationInput TargetQualificationCommitContext
  | QC_Persisted TargetQualificationInput TargetQualificationCommitContext
      TargetQualificationCommitContext
  | QC_Discarded TargetQualificationInput
  | QC_Reset

fun qualification_call ::
  "QualificationCall \<Rightarrow> TargetQualificationRuntimeState \<Rightarrow> TargetQualificationRuntimeState" where
  "qualification_call (QC_Ram i m) s = snd (snd (applyRamOnly (evaluateQualification i s) m s))"
| "qualification_call (QC_Persisted i m m') s =
     snd (snd (applyAfterPersistedProcessApply (evaluateQualification i s) m m' s))"
| "qualification_call (QC_Discarded i) s = s"
| "qualification_call QC_Reset s = resetQualification s"

fun call_input :: "QualificationCall \<Rightarrow> TargetQualificationInput list" where
  "call_input (QC_Ram i m) = [i]"
| "call_input (QC_Persisted i m m') = [i]"
| "call_input (QC_Discarded i) = []"
| "call_input QC_Reset = []"

definition qualifiedAfter :: "QualificationCall list \<Rightarrow> TargetQualificationRuntimeState" where
  "qualifiedAfter calls = fold qualification_call calls initialQualification"

section \<open>Every evaluation is good\<close>

lemma accepted_in_band:
  assumes "accepted_sample i s g gap v"
    and "fle (ffabs (fsub v (tqi_targetCelsius i))) (tqi_bandCelsius i)"
  shows "in_band i"
  using assms by (auto simp: accepted_sample_def in_band_def)

lemma accepted_ready:
  assumes "accepted_sample i s g gap v" and "qualification_inv is s"
  shows "ready_candidate is i (inContext i (inPhase i s))"
proof -
  have f: "isfinite (tqi_targetCelsius i)" "isfinite (tqi_bandCelsius i)"
    using assms(1) by (simp_all add: accepted_sample_def)
  note c = inContext_inv [OF inPhase_inv [OF assms(2)] f]
  show ?thesis using assms(1) c f
    by (simp add: ready_candidate_def accepted_sample_def finite_context_def contextOf_def)
qed

lemma evaluation_good:
  assumes "qualification_inv is s"
  shows "good_result is i (evaluateQualification i s)"
proof (cases rule: evaluateQualification_cases [of i s])
  case (cleared p c a)
  have "case tqs_context c of None \<Rightarrow> True | Some x \<Rightarrow> finite_context x"
    using cleared(3) inv_context [OF assms] inContext_inv(2) [OF inPhase_inv [OF assms], of i i]
    by (auto simp: finite_context_def contextOf_def)
  then show ?thesis using cleared(1,2) by (auto simp: good_result_def)
next
  case (grace g gap v start)
  have r: "ready_candidate is i (inContext i (inPhase i s))"
    using accepted_ready [OF grace(1) assms] .
  then have "tqs_episodeActive (inContext i (inPhase i s))"
    using grace(2) by (auto simp: ready_candidate_def qualification_inv_def split: if_splits)
  from grace_good [OF r this accepted_in_band [OF grace(1)]] show ?thesis unfolding grace(3) .
next
  case (band g gap v)
  from band_good [OF accepted_ready [OF band(1) assms] accepted_in_band [OF band(1)]]
  show ?thesis unfolding band(3) .
qed

lemma initial_inv: "qualification_inv is initialQualification"
  by (simp add: qualification_inv_def initialQualification_def)

lemma applied_state:
  "snd (snd (applyRamOnly d m s)) \<in> {s, tqr_candidateEvaluatorState d}"
  "\<exists>n. snd (snd (applyAfterPersistedProcessApply d m m' s)) \<in>
    {s, (tqr_candidateEvaluatorState d)\<lparr>tqs_commitContext := n\<rparr>}"
  by (auto simp: applyRamOnly_def applyAfterPersistedProcessApply_def Let_def)

lemma call_inv:
  assumes "qualification_inv is s"
  shows "qualification_inv (call_input k @ is) (qualification_call k s)"
proof -
  have g: "qualification_inv (i # is) (tqr_candidateEvaluatorState (evaluateQualification i s))" for i
    using evaluation_good [OF assms, of i] by (simp add: good_result_def)
  have m: "qualification_inv (i # is) s" for i using assms by (rule inv_more) auto
  show ?thesis
  proof (cases k)
    case (QC_Ram i n)
    then show ?thesis using applied_state(1) [of "evaluateQualification i s" n s] g [of i] m [of i]
      by auto
  next
    case (QC_Persisted i n n')
    then show ?thesis using applied_state(2) [of "evaluateQualification i s" n n' s] g [of i] m [of i]
      by auto
  next
    case QC_Reset
    then show ?thesis by (simp add: resetQualification_def qualification_inv_def initialQualification_def)
  qed (use assms in simp)
qed

lemma after_inv_of:
  "qualification_inv is s \<Longrightarrow>
    qualification_inv (concat (map call_input (rev calls)) @ is) (fold qualification_call calls s)"
proof (induction calls arbitrary: "is" s)
  case (Cons k calls)
  from Cons.IH [OF call_inv [OF Cons.prems, of k]] show ?case by simp
qed simp

lemma qualified_inv:
  "qualification_inv (concat (map call_input (rev calls))) (qualifiedAfter calls)"
  using after_inv_of [OF initial_inv, of calls "[]"] by (simp add: qualifiedAfter_def)

text \<open>C37: a qualification that completes was earned: the completing sample is in the band, and so
  was an earlier one of the same phase, target, band and sensor, at least the required duration
  before it. Whatever was evaluated, applied, discarded or reset in between.\<close>

theorem qualification_not_early:
  assumes "tqr_progress (evaluateQualification i (qualifiedAfter calls)) = QP_Complete"
  shows "in_band i \<and> (\<exists>j \<in> set (concat (map call_input calls)).
    in_band j \<and> tqi_phase j = tqi_phase i \<and> contextOf j = contextOf i \<and>
    unat (tqi_sampleTimestampMonotonicMillis j) + unat (tqi_qualificationDurationMillis i)
      \<le> unat (tqi_sampleTimestampMonotonicMillis i))"
proof -
  have "complete_since (concat (map call_input (rev calls))) i"
    using evaluation_good [OF qualified_inv, of calls i] assms by (simp add: good_result_def)
  then show ?thesis unfolding complete_since_def by auto
qed

section \<open>Single use\<close>

text \<open>A decision is applied at most once. A successful application needs an unused and applicable
  decision, the very state it was made for and the context it names, and yields its candidate; a
  failed one leaves the state; and after either, the decision is never applied again.\<close>

theorem qualification_decision_single_use:
  "case applyRamOnly d m s of (done, d', s') \<Rightarrow>
    (if done
     then tqr_lifecycle d = TQL_Pending \<and> tqr_candidateApplicable d \<and>
       sameState s (tqr_expectedEvaluatorState d) \<and> s' = tqr_candidateEvaluatorState d
     else s' = s) \<and>
    applyRamOnly d' n t = (False, d', t) \<and>
    applyAfterPersistedProcessApply d' n n' t = (False, d', t)"
  by (auto simp: applyRamOnly_def applyAfterPersistedProcessApply_def Let_def)

section \<open>An undisturbed stay in the band\<close>

definition qualification_ready :: "TargetQualificationInput \<Rightarrow> u64 \<Rightarrow> bool" where
  "qualification_ready i gap \<longleftrightarrow>
     validQualificationPhase (tqi_phase i) \<and> isfinite (tqi_targetCelsius i) \<and>
     isfinite (tqi_bandCelsius i) \<and>
     \<not> flt (tqi_bandCelsius i) kMinimumQualificationBandCelsius \<and>
     \<not> flt kMaximumQualificationBandCelsius (tqi_bandCelsius i) \<and>
     tqi_qualificationDurationMillis i \<noteq> 0 \<and>
     validQualificationRole (tqi_controlSensorRole i) \<and> tqi_effectiveGraceMillis i \<noteq> None \<and>
     tqi_maximumAcceptedSampleGapMillis i = Some gap \<and> gap \<noteq> 0"

text \<open>A sample that asks the same as \<open>i\<close> and is in the band.\<close>

definition same_request :: "TargetQualificationInput \<Rightarrow> TargetQualificationInput \<Rightarrow> bool" where
  "same_request i j \<longleftrightarrow>
     tqi_phase j = tqi_phase i \<and> contextOf j = contextOf i \<and>
     tqi_runRevision j = tqi_runRevision i \<and>
     tqi_processTransitionSequence j = tqi_processTransitionSequence i \<and>
     tqi_qualificationDurationMillis j = tqi_qualificationDurationMillis i \<and>
     tqi_effectiveGraceMillis j = tqi_effectiveGraceMillis i \<and>
     tqi_maximumAcceptedSampleGapMillis j = tqi_maximumAcceptedSampleGapMillis i"

fun steady ::
  "TargetQualificationInput \<Rightarrow> u64 \<Rightarrow> u64 \<Rightarrow> TargetQualificationInput list \<Rightarrow> bool" where
  "steady i gap t [] = True"
| "steady i gap t (j # js) =
     (same_request i j \<and> in_band j \<and> t \<le> tqi_sampleTimestampMonotonicMillis j \<and>
      tqi_sampleTimestampMonotonicMillis j - t \<le> gap \<and>
      steady i gap (tqi_sampleTimestampMonotonicMillis j) js)"

definition commitOf :: "TargetQualificationInput \<Rightarrow> TargetQualificationCommitContext" where
  "commitOf i = \<lparr>tqm_qualification = contextOf i, tqm_runRevision = tqi_runRevision i,
     tqm_processTransitionSequence = tqi_processTransitionSequence i\<rparr>"

text \<open>The state at time \<open>t\<close> of a stay that began with the sample \<open>i\<close>.\<close>

definition staying :: "TargetQualificationInput \<Rightarrow> u64 \<Rightarrow> TargetQualificationRuntimeState" where
  "staying i t =
     \<lparr>tqs_phase = tqi_phase i, tqs_context = Some (contextOf i), tqs_commitContext = Some (commitOf i),
      tqs_episodeActive = True,
      tqs_creditedInBandMillis =
        min (tqi_qualificationDurationMillis i) (t - tqi_sampleTimestampMonotonicMillis i),
      tqs_lastUsableTimestampMillis = Some t, tqs_graceStartedAtMillis = None\<rparr>"

lemma in_bandD:
  assumes "in_band j"
  obtains v where "readControlSensorValue (selectedSnapshot j) (F64 0) = (CSV_Valid, v)"
    "isfinite v" "fle (ffabs (fsub v (tqi_targetCelsius j))) (tqi_bandCelsius j)"
  using assms by (auto simp: in_band_def readControlSensorValue_def)

lemma in_band_finite:
  assumes "fle (ffabs x) b" and "isfinite b"
  shows "isfinite (ffabs x)"
  using assms by (cases x; cases b) (auto simp: fle_def isfinite_def)

lemma ready_same: "same_request i j \<Longrightarrow> qualification_ready j gap = qualification_ready i gap"
  by (simp add: same_request_def qualification_ready_def contextOf_def)

text \<open>A usable sample reaches the band.\<close>

lemma ready_evaluates:
  assumes "qualification_ready j gap" and "in_band j"
    and "tqs_graceStartedAtMillis (inContext j (inPhase j s)) = None"
    and "case tqs_lastUsableTimestampMillis (inContext j (inPhase j s)) of None \<Rightarrow> True
      | Some t \<Rightarrow> t \<le> tqi_sampleTimestampMonotonicMillis j \<and>
          tqi_sampleTimestampMonotonicMillis j - t \<le> gap"
  obtains g v where "isfinite (ffabs (fsub v (tqi_targetCelsius j)))"
    "fle (ffabs (fsub v (tqi_targetCelsius j))) (tqi_bandCelsius j)"
    "evaluateQualification j s = evaluateBand j g v s (inContext j (inPhase j s))"
proof -
  obtain v where v: "readControlSensorValue (selectedSnapshot j) (F64 0) = (CSV_Valid, v)"
    "isfinite v" "fle (ffabs (fsub v (tqi_targetCelsius j))) (tqi_bandCelsius j)"
    using in_bandD [OF assms(2)] .
  obtain g where g: "tqi_effectiveGraceMillis j = Some g"
    using assms(1) by (auto simp: qualification_ready_def)
  have f: "isfinite (ffabs (fsub v (tqi_targetCelsius j)))"
    using in_band_finite [OF v(3)] assms(1) by (simp add: qualification_ready_def)
  have "\<not> (case tqs_lastUsableTimestampMillis (inContext j (inPhase j s)) of None \<Rightarrow> False
      | Some previous \<Rightarrow> tqi_sampleTimestampMonotonicMillis j < previous \<or>
          tqi_sampleTimestampMonotonicMillis j - previous > gap)"
    using assms(4) by (auto split: option.splits)
  then have "evaluateQualification j s = evaluateBand j g v s (inContext j (inPhase j s))"
    using assms(1,3) g v(1,2)
    by (simp add: evaluateQualification_def Let_def qualification_ready_def
        selectedSnapshot_def [symmetric])
  with f v(3) that show thesis by blast
qed

lemma contextEq_refl: "finite_context c \<Longrightarrow> contextEq c c"
  by (simp add: finite_contextEq)

lemma ready_finite: "qualification_ready i gap \<Longrightarrow> finite_context (contextOf i)"
  by (simp add: qualification_ready_def finite_context_def contextOf_def)

lemma commit_fold: "\<lparr>tqm_qualification = \<lparr>tqc_targetCelsius = tqi_targetCelsius j,
      tqc_bandCelsius = tqi_bandCelsius j, tqc_controlSensorRole = tqi_controlSensorRole j\<rparr>,
    tqm_runRevision = tqi_runRevision j,
    tqm_processTransitionSequence = tqi_processTransitionSequence j\<rparr> = commitOf j"
  by (simp add: commitOf_def contextOf_def)

lemma initial_candidate:
  "inContext i (inPhase i initialQualification) =
    initialQualification\<lparr>tqs_phase := tqi_phase i, tqs_context := Some (contextOf i),
      tqs_commitContext := Some (commitOf i)\<rparr>"
  by (auto simp: inContext_def inPhase_def initialQualification_def clearEpisode_def contextOf_def
      commitOf_def Let_def)

lemma staying_candidate:
  assumes "same_request i j" and "finite_context (contextOf i)"
  shows "inContext j (inPhase j (staying i t)) = staying i t"
proof -
  have c: "commitOf j = commitOf i" "contextOf j = contextOf i" "tqi_phase j = tqi_phase i"
    using assms(1) by (simp_all add: same_request_def commitOf_def)
  have "inPhase j (staying i t) = staying i t" using c by (simp add: inPhase_def staying_def)
  moreover have "\<lparr>tqm_qualification = contextOf i, tqm_runRevision = tqi_runRevision j,
      tqm_processTransitionSequence = tqi_processTransitionSequence j\<rparr> = commitOf i"
    using c(1,2) by (simp add: commitOf_def)
  ultimately show ?thesis using c contextEq_refl [OF assms(2)]
    by (simp add: inContext_def Let_def staying_def contextOf_def [symmetric])
qed

lemma ram_applies:
  assumes "evaluateQualification j s = qualificationResult p s c True" and "sameState s s"
    and "tqs_commitContext c = Some m" and "commitContextEq m m"
  shows "qualification_call (QC_Ram j m) s = c"
  using assms by (simp add: applyRamOnly_def Let_def)

lemma commitEq_refl: "finite_context (contextOf i) \<Longrightarrow> commitContextEq (commitOf i) (commitOf i)"
  by (simp add: commitContextEq_def commitOf_def contextEq_refl)

lemma staying_same: "finite_context (contextOf i) \<Longrightarrow> sameState (staying i t) (staying i t)"
  by (simp add: sameState_def staying_def optionalEq_def contextEq_refl commitEq_refl)

lemma stay_begins:
  assumes "qualification_ready i gap" and "in_band i"
  shows "qualification_call (QC_Ram i (commitOf i)) initialQualification =
    staying i (tqi_sampleTimestampMonotonicMillis i)"
proof -
  obtain g v where e: "isfinite (ffabs (fsub v (tqi_targetCelsius i)))"
    "fle (ffabs (fsub v (tqi_targetCelsius i))) (tqi_bandCelsius i)"
    "evaluateQualification i initialQualification = evaluateBand i g v initialQualification
      (inContext i (inPhase i initialQualification))"
  proof (rule ready_evaluates [OF assms, of initialQualification])
    show "tqs_graceStartedAtMillis (inContext i (inPhase i initialQualification)) = None"
      unfolding initial_candidate by (simp add: initialQualification_def)
    show "case tqs_lastUsableTimestampMillis (inContext i (inPhase i initialQualification)) of
        None \<Rightarrow> True | Some t \<Rightarrow> t \<le> tqi_sampleTimestampMonotonicMillis i \<and>
          tqi_sampleTimestampMonotonicMillis i - t \<le> gap"
      unfolding initial_candidate by (simp add: initialQualification_def)
  qed
  have "evaluateQualification i initialQualification = qualificationResult QP_InBand
      initialQualification (staying i (tqi_sampleTimestampMonotonicMillis i)) True"
    unfolding e(3) initial_candidate using e(1,2)
    by (simp add: evaluateBand_def Let_def initialQualification_def staying_def)
  then show ?thesis
    by (rule ram_applies)
      (simp_all add: sameState_def initialQualification_def optionalEq_def staying_def
        commitEq_refl [OF ready_finite [OF assms(1)]])
qed

lemma credit_min:
  fixes d a t now :: u64
  assumes "a \<le> t" and "t \<le> now"
  shows "\<exists>x. checkedAdd (min d (t - a)) (now - t) = Some x \<and>
    (if d \<le> x then d else x) = min d (now - a)"
proof -
  have u: "unat (t - a) = unat t - unat a" "unat (now - t) = unat now - unat t"
    "unat (now - a) = unat now - unat a" "unat a \<le> unat t" "unat t \<le> unat now"
    using assms by (simp_all add: unat_sub word_le_nat_alt)
  have m: "unat (min d (t - a)) = min (unat d) (unat t - unat a)"
    using u(1) by (simp add: min_def word_le_nat_alt)
  have s: "unat (min d (t - a) + (now - t)) = min (unat d) (unat t - unat a) + (unat now - unat t)"
    using m u unat_u64_lt [of now] by (subst unat_add_no_wrap) auto
  have "min d (t - a) \<le> u64_max - (now - t)"
  proof -
    have "unat (u64_max - (now - t)) = unat u64_max - unat (now - t)"
      by (rule unat_sub) simp
    then have "unat (u64_max - (now - t)) = 18446744073709551615 - (unat now - unat t)"
      by (simp add: u(2) unat_u64_max)
    moreover have "min (unat d) (unat t - unat a) \<le> unat t" by simp
    ultimately show ?thesis using u unat_u64_lt [of now] unfolding word_le_nat_alt m by linarith
  qed
  then have "checkedAdd (min d (t - a)) (now - t) = Some (min d (t - a) + (now - t))"
    unfolding checkedAdd_def by (rule if_not_P [OF iffD2 [OF not_less]])
  moreover have "(if d \<le> min d (t - a) + (now - t) then d else min d (t - a) + (now - t)) =
      min d (now - a)"
    using s u by (auto simp: min_def word_le_nat_alt word_unat_eq_iff split: if_splits)
  ultimately show ?thesis by blast
qed

lemma stay_goes_on:
  assumes "qualification_ready i gap" and "same_request i j" and "in_band j"
    and "tqi_sampleTimestampMonotonicMillis i \<le> t" and "t \<le> tqi_sampleTimestampMonotonicMillis j"
    and "tqi_sampleTimestampMonotonicMillis j - t \<le> gap"
  shows "evaluateQualification j (staying i t) = qualificationResult
    (if tqi_qualificationDurationMillis i \<le>
        tqi_sampleTimestampMonotonicMillis j - tqi_sampleTimestampMonotonicMillis i
     then QP_Complete else QP_InBand)
    (staying i t) (staying i (tqi_sampleTimestampMonotonicMillis j)) True"
    and "qualification_call (QC_Ram j (commitOf j)) (staying i t) =
      staying i (tqi_sampleTimestampMonotonicMillis j)"
proof -
  let ?now = "tqi_sampleTimestampMonotonicMillis j"
  let ?d = "tqi_qualificationDurationMillis i"
  note f = ready_finite [OF assms(1)]
  note c = staying_candidate [OF assms(2) f, of t]
  obtain g v where e: "isfinite (ffabs (fsub v (tqi_targetCelsius j)))"
    "fle (ffabs (fsub v (tqi_targetCelsius j))) (tqi_bandCelsius j)"
    "evaluateQualification j (staying i t) = evaluateBand j g v (staying i t) (staying i t)"
  proof (rule ready_evaluates [of j gap "staying i t"])
    show "qualification_ready j gap" using assms(1,2) ready_same by simp
  qed (use assms c in \<open>simp_all add: staying_def\<close>)
  obtain x where x: "checkedAdd (min ?d (t - tqi_sampleTimestampMonotonicMillis i)) (?now - t) = Some x"
    "(if ?d \<le> x then ?d else x) = min ?d (?now - tqi_sampleTimestampMonotonicMillis i)"
    using credit_min [OF assms(4,5)] by blast
  have d: "tqi_qualificationDurationMillis j = ?d" using assms(2) by (simp add: same_request_def)
  show ev: "evaluateQualification j (staying i t) = qualificationResult
    (if ?d \<le> ?now - tqi_sampleTimestampMonotonicMillis i then QP_Complete else QP_InBand)
    (staying i t) (staying i ?now) True"
    unfolding e(3) using e(1,2) x
    by (simp add: evaluateBand_def Let_def staying_def d min_le_iff_disj del: if_split)
  have "commitOf j = commitOf i" using assms(2) by (simp add: same_request_def commitOf_def)
  then show "qualification_call (QC_Ram j (commitOf j)) (staying i t) = staying i ?now"
    using ram_applies [OF ev staying_same [OF f]] commitEq_refl [OF f]
    by (simp add: staying_def)
qed

lemma steady_stay:
  assumes "qualification_ready i gap" and "steady i gap t js"
    and "tqi_sampleTimestampMonotonicMillis i \<le> t"
  shows "\<exists>t'. fold qualification_call (map (\<lambda>j. QC_Ram j (commitOf j)) js) (staying i t) =
      staying i t' \<and> tqi_sampleTimestampMonotonicMillis i \<le> t' \<and>
      (\<forall>j. steady i gap t (js @ [j]) \<longrightarrow> steady i gap t' [j])"
  using assms(2,3)
proof (induction js arbitrary: t)
  case (Cons j js)
  let ?t = "tqi_sampleTimestampMonotonicMillis j"
  have s: "same_request i j" "in_band j" "t \<le> ?t" "?t - t \<le> gap" "steady i gap ?t js"
    using Cons.prems(1) by simp_all
  have le: "tqi_sampleTimestampMonotonicMillis i \<le> ?t" using s(3) Cons.prems(2) by (rule order_trans [rotated])
  obtain t' where t': "fold qualification_call (map (\<lambda>j. QC_Ram j (commitOf j)) js) (staying i ?t) =
      staying i t'" "tqi_sampleTimestampMonotonicMillis i \<le> t'"
      "\<And>k. steady i gap ?t (js @ [k]) \<Longrightarrow> steady i gap t' [k]"
    using Cons.IH [OF s(5) le] by blast
  have "fold qualification_call (map (\<lambda>j. QC_Ram j (commitOf j)) (j # js)) (staying i t) =
      staying i t'"
    using t'(1) stay_goes_on(2) [OF assms(1) s(1,2) Cons.prems(2) s(3,4)]
    by (simp del: qualification_call.simps)
  moreover have "steady i gap t' [k]" if "steady i gap t ((j # js) @ [k])" for k
    using that by (intro t'(3)) simp
  ultimately show ?case using t'(2) by blast
qed auto

text \<open>An undisturbed stay completes. When samples of the same request stay in the band, in order
  and without a gap larger than allowed, and each decision is applied, the qualification is
  complete at a sample exactly when the time since the first one has reached the required duration.\<close>

theorem qualification_completes_on_stay:
  assumes "qualification_ready i gap" and "in_band i"
    and "steady i gap (tqi_sampleTimestampMonotonicMillis i) (js @ [j])"
  shows "tqr_progress (evaluateQualification j
      (qualifiedAfter (map (\<lambda>j. QC_Ram j (commitOf j)) (i # js)))) =
    (if tqi_qualificationDurationMillis i \<le>
        tqi_sampleTimestampMonotonicMillis j - tqi_sampleTimestampMonotonicMillis i
     then QP_Complete else QP_InBand)"
proof -
  have "steady i gap t (js @ ks) \<Longrightarrow> steady i gap t js" for t ks by (induction js arbitrary: t) auto
  from steady_stay [OF assms(1) this [OF assms(3)]] assms(3) obtain t' where
    t: "fold qualification_call (map (\<lambda>j. QC_Ram j (commitOf j)) js)
          (staying i (tqi_sampleTimestampMonotonicMillis i)) = staying i t'"
      "tqi_sampleTimestampMonotonicMillis i \<le> t'" "steady i gap t' [j]" by blast
  have "qualifiedAfter (map (\<lambda>j. QC_Ram j (commitOf j)) (i # js)) = staying i t'"
    using t(1) by (simp add: qualifiedAfter_def stay_begins [OF assms(1,2)] del: qualification_call.simps)
  with stay_goes_on(1) [OF assms(1) _ _ t(2), of j] t(3) show ?thesis by simp
qed

section \<open>An example\<close>

text \<open>Three samples at 30 degrees, one second apart; two seconds are required.\<close>

definition exq_sample :: "u64 \<Rightarrow> TargetQualificationInput" where
  "exq_sample t = \<lparr>tqi_phase = QPh_Target, tqi_sampleTimestampMonotonicMillis = t,
     tqi_runRevision = 3, tqi_processTransitionSequence = 4, tqi_targetCelsius = F64 30,
     tqi_bandCelsius = F64 1, tqi_qualificationDurationMillis = 2000,
     tqi_effectiveGraceMillis = Some 500, tqi_maximumAcceptedSampleGapMillis = Some 1500,
     tqi_controlSensorRole = CSR_Air,
     tqi_air = initialSensorQualitySnapshot
       \<lparr>sq_quality := SQ_Valid, sq_filteredCelsius := Some (F64 30)\<rparr>,
     tqi_product = initialSensorQualitySnapshot\<rparr>"

lemma exq_ready: "qualification_ready (exq_sample t) 1500"
  by (simp add: qualification_ready_def exq_sample_def validQualificationPhase_def
      validQualificationRole_def kMinimumQualificationBandCelsius_def
      kMaximumQualificationBandCelsius_def)

lemma exq_in_band: "in_band (exq_sample t)"
  by (simp add: in_band_def exq_sample_def selectedSnapshot_def fsub_def round64_def)

lemma exq_same: "same_request (exq_sample t) (exq_sample u)"
  by (simp add: same_request_def exq_sample_def contextOf_def)

theorem qualification_completes_on_stay_witness:
  "tqr_progress (evaluateQualification (exq_sample 3000)
     (qualifiedAfter (map (\<lambda>j. QC_Ram j (commitOf j)) [exq_sample 1000, exq_sample 2000]))) =
   QP_Complete"
proof -
  have "steady (exq_sample 1000) 1500 (tqi_sampleTimestampMonotonicMillis (exq_sample 1000))
      ([exq_sample 2000] @ [exq_sample 3000])"
    by (simp add: exq_same exq_in_band) (simp add: exq_sample_def)
  from qualification_completes_on_stay [OF exq_ready exq_in_band this]
  show ?thesis by (simp add: exq_sample_def)
qed

lemma exq_complete:
  "tqr_progress (evaluateQualification (exq_sample 3000)
     (qualifiedAfter [QC_Ram (exq_sample 1000) (commitOf (exq_sample 1000)),
        QC_Ram (exq_sample 2000) (commitOf (exq_sample 2000))])) = QP_Complete"
proof -
  let ?s = "tqi_sampleTimestampMonotonicMillis"
  have t: "?s (exq_sample u) = u" for u by (simp add: exq_sample_def)
  have "qualifiedAfter [QC_Ram (exq_sample 1000) (commitOf (exq_sample 1000)),
        QC_Ram (exq_sample 2000) (commitOf (exq_sample 2000))] = staying (exq_sample 1000) 2000"
    using stay_begins [OF exq_ready exq_in_band, of 1000]
      stay_goes_on(2) [OF exq_ready exq_same exq_in_band, of 1000 1000 2000]
    by (simp add: qualifiedAfter_def t del: qualification_call.simps)
  then show ?thesis using stay_goes_on(1) [OF exq_ready exq_same exq_in_band, of 1000 2000 3000]
    by (simp add: t) (simp add: exq_sample_def)
qed

theorem qualification_not_early_witness:
  "\<exists>j \<in> {exq_sample 1000, exq_sample 2000}. in_band j \<and>
     unat (tqi_sampleTimestampMonotonicMillis j) + 2000 \<le> 3000"
  using qualification_not_early [OF exq_complete] by (auto simp: exq_sample_def)

end
