(* ===== verification/SensorFilters.thy ===== *)
theory SensorFilters
  imports SensorTypes Binary64Ops
begin

text \<open>
  The building blocks of a sensor's quality pipeline in the device platform: the raw reading of a
  temperature source, the calibration offset and the validated configuration, all three valid by
  construction, and the two filters (\<open>temperature_source.hpp\<close>, \<open>sensor_offset.hpp\<close>,
  \<open>sensor_calibration.hpp\<close>, \<open>sensor_quality_config.hpp\<close>, \<open>sensor_median_filter.cpp\<close>,
  \<open>sensor_lowpass_filter.cpp\<close>). The exponential function of the mathematics library, whose last
  bit no standard fixes, is a parameter of the low-pass filter.
\<close>

section \<open>Limits of the firmware\<close>

definition kMaxMedianWindowSize :: nat where "kMaxMedianWindowSize = 15"

definition kAbsoluteMinCelsius :: f64 where "kAbsoluteMinCelsius = F64 (- 40)"

definition kAbsoluteMaxCelsius :: f64 where "kAbsoluteMaxCelsius = F64 150"

definition kMaxAbsoluteOffsetCelsius :: f64 where "kMaxAbsoluteOffsetCelsius = F64 10"

definition kMaxStaleAgeCeilingMs :: u64 where "kMaxStaleAgeCeilingMs = 86400000"

definition kMaxConsecutiveInvalidCeiling :: u16 where "kMaxConsecutiveInvalidCeiling = 1000"

definition kMaxRecoveryStabilityDurationCeilingMs :: u64 where
  "kMaxRecoveryStabilityDurationCeilingMs = 3600000"

definition kMaxConsecutiveValidSamplesCeiling :: u16 where
  "kMaxConsecutiveValidSamplesCeiling = 1000"

section \<open>A reading\<close>

datatype TemperatureSampleStatus =
    TSS_Ok
  | TSS_BusFault
  | TSS_CrcFault
  | TSS_MissingSample
  | TSS_KnownInvalidMeasurement

datatype TemperatureReadingStatus = TRS_Success | TRS_InconsistentValuePresence

record TemperatureReading =
  tr_identity :: "SensorIdentity option"
  tr_monotonicTimestampMs :: u64
  tr_status :: TemperatureSampleStatus
  tr_celsius :: "f64 option"

record TemperatureReadingCreateResult =
  trc_status :: TemperatureReadingStatus
  trc_reading :: "TemperatureReading option"

definition createTemperatureReading ::
  "SensorIdentity option \<Rightarrow> u64 \<Rightarrow> TemperatureSampleStatus \<Rightarrow> f64 option \<Rightarrow>
     TemperatureReadingCreateResult" where
  "createTemperatureReading identity monotonicTimestampMs status celsius =
     (let celsiusPresent = (celsius \<noteq> None); statusIsOk = (status = TSS_Ok) in
      if statusIsOk \<noteq> celsiusPresent then
        \<lparr>trc_status = TRS_InconsistentValuePresence, trc_reading = None\<rparr>
      else
        \<lparr>trc_status = TRS_Success,
         trc_reading = Some \<lparr>tr_identity = identity,
           tr_monotonicTimestampMs = monotonicTimestampMs, tr_status = status,
           tr_celsius = celsius\<rparr>\<rparr>)"

section \<open>Calibration\<close>

datatype SensorOffsetStatus = SOS_Success | SOS_NonFinite | SOS_OutOfFirmwareRange

datatype SensorOffset = SensorOffset (offset_celsius: f64)

record SensorOffsetCreateResult =
  soc_status :: SensorOffsetStatus
  soc_offset :: "SensorOffset option"

definition createSensorOffset :: "f64 \<Rightarrow> SensorOffsetCreateResult" where
  "createSensorOffset celsius =
     (if \<not> isfinite celsius then \<lparr>soc_status = SOS_NonFinite, soc_offset = None\<rparr>
      else if flt kMaxAbsoluteOffsetCelsius (ffabs celsius) then
        \<lparr>soc_status = SOS_OutOfFirmwareRange, soc_offset = None\<rparr>
      else \<lparr>soc_status = SOS_Success, soc_offset = Some (SensorOffset celsius)\<rparr>)"

record SensorCalibration =
  cal_identity :: SensorIdentity
  cal_offset :: SensorOffset

section \<open>Configuration\<close>

datatype SensorQualityConfigStatus =
    SCS_Success
  | SCS_InvalidMedianWindowSize
  | SCS_NonFiniteParameter
  | SCS_InvalidLowPassTimeConstant
  | SCS_InvalidPlausibleRange
  | SCS_InvalidRateOfChangeLimit
  | SCS_InvalidStaleAgeThreshold
  | SCS_InvalidConsecutiveInvalidLimit
  | SCS_InvalidRecoveryThresholds

record SensorQualityConfig =
  sqc_medianWindowSize :: nat
  sqc_lowPassTauSeconds :: f64
  sqc_minPlausibleCelsius :: f64
  sqc_maxPlausibleCelsius :: f64
  sqc_maxRateOfChangeCelsiusPerSecond :: f64
  sqc_maxStaleAgeMs :: u64
  sqc_maxConsecutiveInvalid :: u16
  sqc_minConsecutiveValidSamples :: u16
  sqc_minRecoveryStabilityDurationMs :: u64

record SensorQualityConfigCreateResult =
  scc_status :: SensorQualityConfigStatus
  scc_config :: "SensorQualityConfig option"

text \<open>The arguments of \<open>create\<close>, as the record they would become.\<close>

definition createSensorQualityConfig :: "SensorQualityConfig \<Rightarrow> SensorQualityConfigCreateResult" where
  "createSensorQualityConfig c =
     (let refuse = (\<lambda>st. \<lparr>scc_status = st, scc_config = None\<rparr>) in
      if \<not> isfinite (sqc_lowPassTauSeconds c) \<or> \<not> isfinite (sqc_minPlausibleCelsius c) \<or>
         \<not> isfinite (sqc_maxPlausibleCelsius c) \<or>
         \<not> isfinite (sqc_maxRateOfChangeCelsiusPerSecond c) then
        refuse SCS_NonFiniteParameter
      else if sqc_medianWindowSize c = 0 \<or> sqc_medianWindowSize c mod 2 = 0 \<or>
         sqc_medianWindowSize c > kMaxMedianWindowSize then
        refuse SCS_InvalidMedianWindowSize
      else if fle (sqc_lowPassTauSeconds c) (F64 0) then refuse SCS_InvalidLowPassTimeConstant
      else if fle (sqc_maxPlausibleCelsius c) (sqc_minPlausibleCelsius c) \<or>
         flt (sqc_minPlausibleCelsius c) kAbsoluteMinCelsius \<or>
         flt kAbsoluteMaxCelsius (sqc_maxPlausibleCelsius c) then
        refuse SCS_InvalidPlausibleRange
      else if fle (sqc_maxRateOfChangeCelsiusPerSecond c) (F64 0) then
        refuse SCS_InvalidRateOfChangeLimit
      else if sqc_maxStaleAgeMs c = 0 \<or> sqc_maxStaleAgeMs c > kMaxStaleAgeCeilingMs then
        refuse SCS_InvalidStaleAgeThreshold
      else if sqc_maxConsecutiveInvalid c = 0 \<or>
         sqc_maxConsecutiveInvalid c > kMaxConsecutiveInvalidCeiling then
        refuse SCS_InvalidConsecutiveInvalidLimit
      else if sqc_minConsecutiveValidSamples c < 2 \<or>
         sqc_minConsecutiveValidSamples c > kMaxConsecutiveValidSamplesCeiling \<or>
         sqc_minRecoveryStabilityDurationMs c = 0 \<or>
         sqc_minRecoveryStabilityDurationMs c > kMaxRecoveryStabilityDurationCeilingMs then
        refuse SCS_InvalidRecoveryThresholds
      else \<lparr>scc_status = SCS_Success, scc_config = Some c\<rparr>)"

section \<open>Median filter\<close>

record MedianFilter =
  mf_values :: "f64 list"
  mf_capacity :: nat
  mf_size :: nat
  mf_nextIndex :: nat

definition newMedianFilter :: "nat \<Rightarrow> MedianFilter" where
  "newMedianFilter capacity =
     \<lparr>mf_values = replicate kMaxMedianWindowSize (F64 0),
      mf_capacity = (if capacity \<noteq> 0 \<and> capacity \<le> kMaxMedianWindowSize \<and> capacity mod 2 \<noteq> 0
                     then capacity else 0),
      mf_size = 0, mf_nextIndex = 0\<rparr>"

definition medianAdd :: "f64 \<Rightarrow> MedianFilter \<Rightarrow> bool \<times> MedianFilter" where
  "medianAdd v f =
     (if mf_capacity f = 0 \<or> \<not> isfinite v then (False, f)
      else (True, f\<lparr>mf_values := (mf_values f)[mf_nextIndex f := v],
        mf_nextIndex := (mf_nextIndex f + 1) mod mf_capacity f,
        mf_size := (if mf_size f < mf_capacity f then mf_size f + 1 else mf_size f)\<rparr>))"

text \<open>
  \<open>std::sort\<close> of the values in the window. They are finite, and on finite doubles the operator
  \<open><\<close> is the order of the numbers they denote.
\<close>

fun celsiusValue :: "f64 \<Rightarrow> rat" where
  "celsiusValue (F64 q) = q"
| "celsiusValue _ = 0"

definition filterMedian :: "MedianFilter \<Rightarrow> f64 option" where
  "filterMedian f =
     (if mf_size f = 0 then None
      else (let sorted = sort_key celsiusValue (take (mf_size f) (mf_values f)) in
        Some (sorted ! (mf_size f div 2))))"

definition medianReset :: "MedianFilter \<Rightarrow> MedianFilter" where
  "medianReset f = f\<lparr>mf_size := 0, mf_nextIndex := 0\<rparr>"

section \<open>Low-pass filter\<close>

record LowPassFilter =
  lp_tauSeconds :: f64
  lp_filteredValue :: "f64 option"
  lp_lastTimestampMs :: "u64 option"

definition newLowPassFilter :: "f64 \<Rightarrow> LowPassFilter" where
  "newLowPassFilter tau = \<lparr>lp_tauSeconds = tau, lp_filteredValue = None, lp_lastTimestampMs = None\<rparr>"

definition lowPassUpdate ::
  "(f64 \<Rightarrow> f64) \<Rightarrow> f64 \<Rightarrow> u64 \<Rightarrow> LowPassFilter \<Rightarrow> f64 option \<times> LowPassFilter" where
  "lowPassUpdate expd input timestampMs f =
     (if \<not> isfinite input \<or> \<not> isfinite (lp_tauSeconds f) \<or> fle (lp_tauSeconds f) (F64 0) then
        (None, f)
      else case lp_filteredValue f of
        None \<Rightarrow>
          (Some input, f\<lparr>lp_filteredValue := Some input, lp_lastTimestampMs := Some timestampMs\<rparr>)
      | Some filtered \<Rightarrow>
          (case lp_lastTimestampMs f of
             None \<Rightarrow> (None, f)
           | Some lastTimestamp \<Rightarrow>
               if timestampMs < lastTimestamp then (None, f)
               else
                 (let dtSeconds = fdiv (f64_of_u64 (timestampMs - lastTimestamp)) (F64 1000);
                      alpha = fsub (F64 1) (expd (fdiv (fneg dtSeconds) (lp_tauSeconds f)));
                      filtered = fadd filtered (fmul (fsub input filtered) alpha) in
                  (Some filtered,
                   f\<lparr>lp_filteredValue := Some filtered, lp_lastTimestampMs := Some timestampMs\<rparr>))))"

definition lowPassShiftState :: "f64 \<Rightarrow> LowPassFilter \<Rightarrow> LowPassFilter" where
  "lowPassShiftState delta f =
     (case lp_filteredValue f of
        None \<Rightarrow> f
      | Some filtered \<Rightarrow>
          if isfinite delta then f\<lparr>lp_filteredValue := Some (fadd filtered delta)\<rparr> else f)"

definition lowPassReset :: "LowPassFilter \<Rightarrow> LowPassFilter" where
  "lowPassReset f = f\<lparr>lp_filteredValue := None, lp_lastTimestampMs := None\<rparr>"

end
