(* ===== verification/SensorPipeline.thy ===== *)
theory SensorPipeline
  imports SensorFilters
begin

text \<open>
  The quality pipeline of one sensor (\<open>sensor_quality_pipeline.cpp\<close>): it decides what to do with a
  delivered sample (its disposition), judges the plausibility of an accepted one, counts invalid and
  valid samples, filters the plausible values, and derives from all that, for a given time, the
  snapshot with the quality Valid, Stale or Failed that the sensor selection and the controller read.
\<close>

section \<open>State\<close>

datatype SampleDisposition =
    SDP_Accepted
  | SDP_DuplicateIgnored
  | SDP_RejectedTimestampConflict
  | SDP_RejectedRetrograde
  | SDP_RejectedFuture

record SensorQualityPipeline =
  qp_config :: SensorQualityConfig
  qp_medianFilter :: MedianFilter
  qp_lowPassFilter :: LowPassFilter
  qp_calibration :: "SensorCalibration option"
  qp_correctedCelsius :: "f64 option"
  qp_appliedOffset :: "f64 option"
  qp_lastFilterEffectiveOffsetCelsius :: "f64 option"
  qp_lastAccepted :: "TemperatureReading option"
  qp_lastKnownIdentity :: "SensorIdentity option"
  qp_rawCelsius :: "f64 option"
  qp_lastAcceptedTimestampMs :: "u64 option"
  qp_lastValidRawCelsius :: "f64 option"
  qp_lastValidTimestampMs :: "u64 option"
  qp_rateReferenceCelsius :: "f64 option"
  qp_rateReferenceTimestampMs :: "u64 option"
  qp_consecutiveInvalidCount :: u16
  qp_recoveryProgressCount :: u16
  qp_recoveryStreakStartTimestampMs :: "u64 option"
  qp_recoveryStreakLastTimestampMs :: "u64 option"
  qp_failedLatched :: bool
  qp_lastFaultReason :: SensorFaultReason
  qp_changeRateCelsiusPerSecond :: "f64 option"

definition newPipeline :: "SensorQualityConfig \<Rightarrow> SensorQualityPipeline" where
  "newPipeline config =
     \<lparr>qp_config = config, qp_medianFilter = newMedianFilter (sqc_medianWindowSize config),
      qp_lowPassFilter = newLowPassFilter (sqc_lowPassTauSeconds config),
      qp_calibration = None, qp_correctedCelsius = None, qp_appliedOffset = None,
      qp_lastFilterEffectiveOffsetCelsius = None, qp_lastAccepted = None,
      qp_lastKnownIdentity = None, qp_rawCelsius = None, qp_lastAcceptedTimestampMs = None,
      qp_lastValidRawCelsius = None, qp_lastValidTimestampMs = None,
      qp_rateReferenceCelsius = None, qp_rateReferenceTimestampMs = None,
      qp_consecutiveInvalidCount = 0, qp_recoveryProgressCount = 0,
      qp_recoveryStreakStartTimestampMs = None, qp_recoveryStreakLastTimestampMs = None,
      qp_failedLatched = False, qp_lastFaultReason = SFR_None,
      qp_changeRateCelsiusPerSecond = None\<rparr>"

definition setCalibration ::
  "SensorCalibration option \<Rightarrow> SensorQualityPipeline \<Rightarrow> SensorQualityPipeline" where
  "setCalibration calibration p = p\<lparr>qp_calibration := calibration\<rparr>"

section \<open>Helpers\<close>

definition saturatingIncrement :: "u16 \<Rightarrow> u16" where
  "saturatingIncrement v = (if v = - 1 then v else v + 1)"

definition saturatingAgeMs :: "u64 \<Rightarrow> u64 \<Rightarrow> u64" where
  "saturatingAgeMs referenceTimeMs pastTimestampMs =
     (if referenceTimeMs < pastTimestampMs then 0 else referenceTimeMs - pastTimestampMs)"

definition celsiusValuesEqual :: "f64 option \<Rightarrow> f64 option \<Rightarrow> bool" where
  "celsiusValuesEqual a b =
     (case (a, b) of
        (None, None) \<Rightarrow> True
      | (Some x, Some y) \<Rightarrow> x = F64_NaN \<and> y = F64_NaN \<or> feq x y
      | _ \<Rightarrow> False)"

definition sampleValuesEqual :: "TemperatureReading \<Rightarrow> TemperatureReading \<Rightarrow> bool" where
  "sampleValuesEqual a b \<longleftrightarrow>
     tr_identity a = tr_identity b \<and> tr_status a = tr_status b \<and>
     celsiusValuesEqual (tr_celsius a) (tr_celsius b)"

fun faultReasonForStatus :: "TemperatureSampleStatus \<Rightarrow> SensorFaultReason" where
  "faultReasonForStatus TSS_BusFault = SFR_BusFault"
| "faultReasonForStatus TSS_CrcFault = SFR_CrcFault"
| "faultReasonForStatus TSS_MissingSample = SFR_MissingSample"
| "faultReasonForStatus TSS_KnownInvalidMeasurement = SFR_KnownInvalidMeasurement"
| "faultReasonForStatus TSS_Ok = SFR_None"

definition resetFilterState :: "SensorQualityPipeline \<Rightarrow> SensorQualityPipeline" where
  "resetFilterState p = p
     \<lparr>qp_medianFilter := medianReset (qp_medianFilter p),
      qp_lowPassFilter := lowPassReset (qp_lowPassFilter p),
      qp_correctedCelsius := None, qp_appliedOffset := None,
      qp_lastFilterEffectiveOffsetCelsius := None\<rparr>"

definition effectiveOffsetFor :: "TemperatureReading \<Rightarrow> SensorQualityPipeline \<Rightarrow> f64 option" where
  "effectiveOffsetFor sample p =
     (case (qp_calibration p, tr_identity sample) of
        (Some calibration, Some identity) \<Rightarrow>
          if cal_identity calibration = identity
          then Some (offset_celsius (cal_offset calibration)) else None
      | _ \<Rightarrow> None)"

definition determineDisposition ::
  "TemperatureReading \<Rightarrow> u64 \<Rightarrow> SensorQualityPipeline \<Rightarrow> SampleDisposition" where
  "determineDisposition sample nowMonotonicMs p =
     (case qp_lastAccepted p of
        None \<Rightarrow>
          if tr_monotonicTimestampMs sample > nowMonotonicMs then SDP_RejectedFuture
          else SDP_Accepted
      | Some lastAccepted \<Rightarrow>
          (let lastTimestampMs = tr_monotonicTimestampMs lastAccepted in
           if tr_monotonicTimestampMs sample = lastTimestampMs then
             (if sampleValuesEqual sample lastAccepted then SDP_DuplicateIgnored
              else SDP_RejectedTimestampConflict)
           else if tr_monotonicTimestampMs sample < lastTimestampMs then SDP_RejectedRetrograde
           else if tr_monotonicTimestampMs sample > nowMonotonicMs then SDP_RejectedFuture
           else SDP_Accepted))"

section \<open>Quality\<close>

definition ageFailed :: "u64 \<Rightarrow> SensorQualityPipeline \<Rightarrow> bool" where
  "ageFailed referenceTimeMs p =
     (case qp_lastValidTimestampMs p of
        None \<Rightarrow> False
      | Some t \<Rightarrow> saturatingAgeMs referenceTimeMs t > sqc_maxStaleAgeMs (qp_config p))"

definition countFailed :: "SensorQualityPipeline \<Rightarrow> bool" where
  "countFailed p \<longleftrightarrow> qp_consecutiveInvalidCount p > sqc_maxConsecutiveInvalid (qp_config p)"

definition isRecoveryComplete :: "SensorQualityPipeline \<Rightarrow> bool" where
  "isRecoveryComplete p =
     (if qp_recoveryProgressCount p < sqc_minConsecutiveValidSamples (qp_config p) then False
      else case (qp_recoveryStreakStartTimestampMs p, qp_recoveryStreakLastTimestampMs p) of
        (Some first, Some final) \<Rightarrow>
          if final < first then False
          else final - first \<ge> sqc_minRecoveryStabilityDurationMs (qp_config p)
      | _ \<Rightarrow> False)"

record DerivedQuality =
  dq_quality :: SensorQuality
  dq_lastAcceptedSampleAgeMs :: "u64 option"
  dq_lastValidSampleAgeMs :: "u64 option"

definition deriveQuality :: "u64 \<Rightarrow> SensorQualityPipeline \<Rightarrow> DerivedQuality" where
  "deriveQuality referenceTimeMs p =
     \<lparr>dq_quality =
        (if ageFailed referenceTimeMs p \<or> countFailed p then SQ_Failed
         else if isRecoveryComplete p then SQ_Valid
         else if qp_failedLatched p then SQ_Failed
         else SQ_Stale),
      dq_lastAcceptedSampleAgeMs =
        map_option (saturatingAgeMs referenceTimeMs) (qp_lastAcceptedTimestampMs p),
      dq_lastValidSampleAgeMs =
        map_option (saturatingAgeMs referenceTimeMs) (qp_lastValidTimestampMs p)\<rparr>"

section \<open>Taking in a sample\<close>

definition recordValidSample :: "f64 \<Rightarrow> u64 \<Rightarrow> SensorQualityPipeline \<Rightarrow> SensorQualityPipeline" where
  "recordValidSample celsius monotonicTimestampMs p =
     (let p = p\<lparr>qp_lastValidRawCelsius := Some celsius,
            qp_lastValidTimestampMs := Some monotonicTimestampMs,
            qp_consecutiveInvalidCount := 0, qp_lastFaultReason := SFR_None\<rparr>;
          p = (if qp_recoveryProgressCount p = 0
               then p\<lparr>qp_recoveryStreakStartTimestampMs := Some monotonicTimestampMs\<rparr> else p) in
      p\<lparr>qp_recoveryStreakLastTimestampMs := Some monotonicTimestampMs,
        qp_recoveryProgressCount := saturatingIncrement (qp_recoveryProgressCount p),
        qp_rateReferenceCelsius := Some celsius,
        qp_rateReferenceTimestampMs := Some monotonicTimestampMs\<rparr>)"

definition recordInvalidSample ::
  "SensorFaultReason \<Rightarrow> SensorQualityPipeline \<Rightarrow> SensorQualityPipeline" where
  "recordInvalidSample reason p =
     (let p = p\<lparr>qp_consecutiveInvalidCount := saturatingIncrement (qp_consecutiveInvalidCount p)\<rparr>;
          failed = countFailed p;
          p = (if failed \<or> qp_failedLatched p \<or> reason = SFR_IdentityMismatch
               then resetFilterState p else p);
          p = (if failed then p\<lparr>qp_failedLatched := True\<rparr> else p) in
      p\<lparr>qp_recoveryProgressCount := 0, qp_recoveryStreakStartTimestampMs := None,
        qp_recoveryStreakLastTimestampMs := None, qp_rateReferenceCelsius := None,
        qp_rateReferenceTimestampMs := None, qp_lastFaultReason := reason\<rparr>)"

text \<open>The state before the sample counts, when the sensor has failed by age or by count.\<close>

definition enterFailed :: "SensorQualityPipeline \<Rightarrow> SensorQualityPipeline" where
  "enterFailed p =
     (resetFilterState (p\<lparr>qp_recoveryProgressCount := 0, qp_recoveryStreakStartTimestampMs := None,
        qp_failedLatched := True\<rparr>))
     \<lparr>qp_rateReferenceCelsius := None, qp_rateReferenceTimestampMs := None\<rparr>"

definition identityMismatch :: "TemperatureReading \<Rightarrow> SensorQualityPipeline \<Rightarrow> bool" where
  "identityMismatch sample p =
     (case qp_lastAccepted p of
        None \<Rightarrow> False
      | Some lastAccepted \<Rightarrow>
          tr_identity lastAccepted \<noteq> None \<and> tr_identity sample \<noteq> None \<and>
          the (tr_identity lastAccepted) \<noteq> the (tr_identity sample))"

definition noteAccepted :: "TemperatureReading \<Rightarrow> SensorQualityPipeline \<Rightarrow> SensorQualityPipeline" where
  "noteAccepted sample p =
     (let p = p\<lparr>qp_lastAcceptedTimestampMs := Some (tr_monotonicTimestampMs sample)\<rparr>;
          p = (if tr_status sample = TSS_Ok then p\<lparr>qp_rawCelsius := tr_celsius sample\<rparr> else p);
          p = (if tr_identity sample \<noteq> None then p\<lparr>qp_lastKnownIdentity := tr_identity sample\<rparr>
               else p) in
      p\<lparr>qp_lastAccepted := Some sample\<rparr>)"

text \<open>The rate of change against the directly preceding valid sample, when there is one.\<close>

definition changeRate :: "f64 \<Rightarrow> u64 \<Rightarrow> SensorQualityPipeline \<Rightarrow> f64 option" where
  "changeRate celsius timestampMs p =
     (case (qp_rateReferenceCelsius p, qp_rateReferenceTimestampMs p) of
        (Some referenceCelsius, Some referenceTimestamp) \<Rightarrow>
          (let dtSeconds = fdiv (f64_of_u64 (timestampMs - referenceTimestamp)) (F64 1000) in
           Some (fdiv (ffabs (fsub celsius referenceCelsius)) dtSeconds))
      | _ \<Rightarrow> None)"

text \<open>The three filter stages of a plausible sample.\<close>

definition filterSample ::
  "(f64 \<Rightarrow> f64) \<Rightarrow> TemperatureReading \<Rightarrow> f64 \<Rightarrow> SensorQualityPipeline \<Rightarrow> SensorQualityPipeline" where
  "filterSample expd sample celsius p =
     (let p = p\<lparr>qp_medianFilter := snd (medianAdd celsius (qp_medianFilter p))\<rparr> in
      case filterMedian (qp_medianFilter p) of
        None \<Rightarrow> p
      | Some median \<Rightarrow>
          (let matchingOffset = effectiveOffsetFor sample p;
               effectiveOffset = (case matchingOffset of None \<Rightarrow> F64 0 | Some x \<Rightarrow> x);
               p = (case qp_lastFilterEffectiveOffsetCelsius p of
                      None \<Rightarrow> p
                    | Some lastOffset \<Rightarrow>
                        if \<not> feq effectiveOffset lastOffset then
                          p\<lparr>qp_lowPassFilter :=
                            lowPassShiftState (fsub effectiveOffset lastOffset) (qp_lowPassFilter p)\<rparr>
                        else p);
               corrected = fadd median effectiveOffset in
           p\<lparr>qp_correctedCelsius := Some corrected, qp_appliedOffset := matchingOffset,
             qp_lowPassFilter := snd (lowPassUpdate expd corrected (tr_monotonicTimestampMs sample)
               (qp_lowPassFilter p)),
             qp_lastFilterEffectiveOffsetCelsius := Some effectiveOffset\<rparr>))"

text \<open>
  The judgement of an accepted sample. A reading with status \<open>Ok\<close> has a value by construction;
  the code reads it without a check.
\<close>

definition acceptValid ::
  "(f64 \<Rightarrow> f64) \<Rightarrow> TemperatureReading \<Rightarrow> f64 \<Rightarrow> SensorQualityPipeline \<Rightarrow> SensorQualityPipeline" where
  "acceptValid expd sample celsius p =
     (let p = recordValidSample celsius (tr_monotonicTimestampMs sample) p;
          p = (if isRecoveryComplete p then p\<lparr>qp_failedLatched := False\<rparr> else p) in
      filterSample expd sample celsius p)"

definition judgeSample ::
  "(f64 \<Rightarrow> f64) \<Rightarrow> bool \<Rightarrow> TemperatureReading \<Rightarrow> SensorQualityPipeline \<Rightarrow> SensorQualityPipeline" where
  "judgeSample expd mismatch sample p =
     (if mismatch then recordInvalidSample SFR_IdentityMismatch p
      else if tr_status sample \<noteq> TSS_Ok then
        recordInvalidSample (faultReasonForStatus (tr_status sample)) p
      else
        (let celsius = the (tr_celsius sample) in
         if \<not> isfinite celsius then recordInvalidSample SFR_NonFinite p
         else if flt celsius kAbsoluteMinCelsius \<or> flt kAbsoluteMaxCelsius celsius then
           recordInvalidSample SFR_OutOfRange p
         else if flt celsius (sqc_minPlausibleCelsius (qp_config p)) \<or>
              flt (sqc_maxPlausibleCelsius (qp_config p)) celsius then
           recordInvalidSample SFR_OutOfRange p
         else
           (let rate = changeRate celsius (tr_monotonicTimestampMs sample) p;
                p = p\<lparr>qp_changeRateCelsiusPerSecond := rate\<rparr> in
            if (case rate of None \<Rightarrow> False
                | Some r \<Rightarrow> flt (sqc_maxRateOfChangeCelsiusPerSecond (qp_config p)) r) then
              recordInvalidSample SFR_RateOfChangeExceeded p
            else acceptValid expd sample celsius p)))"

definition ingest ::
  "(f64 \<Rightarrow> f64) \<Rightarrow> TemperatureReading \<Rightarrow> u64 \<Rightarrow> SensorQualityPipeline \<Rightarrow>
     SampleDisposition \<times> SensorQualityPipeline" where
  "ingest expd sample nowMonotonicMs p =
     (let disposition = determineDisposition sample nowMonotonicMs p in
      if disposition \<noteq> SDP_Accepted then (disposition, p)
      else
        (let p = (if ageFailed nowMonotonicMs p \<or> countFailed p then enterFailed p else p) in
         (SDP_Accepted, judgeSample expd (identityMismatch sample p) sample (noteAccepted sample p))))"

section \<open>The snapshot\<close>

definition snapshot :: "u64 \<Rightarrow> SensorQualityPipeline \<Rightarrow> SensorQualitySnapshot" where
  "snapshot nowMonotonicMs p =
     (let derived = deriveQuality nowMonotonicMs p;
          failed = (dq_quality derived = SQ_Failed) in
      \<lparr>sq_identity = qp_lastKnownIdentity p, sq_quality = dq_quality derived,
       sq_rawCelsius = qp_rawCelsius p,
       sq_correctedCelsius = (if failed then None else qp_correctedCelsius p),
       sq_filteredCelsius = (if failed then None else lp_filteredValue (qp_lowPassFilter p)),
       sq_appliedOffset = (if failed then None else qp_appliedOffset p),
       sq_lastAcceptedSampleAgeMs = dq_lastAcceptedSampleAgeMs derived,
       sq_lastValidSampleAgeMs = dq_lastValidSampleAgeMs derived,
       sq_lastFaultReason = qp_lastFaultReason p,
       sq_consecutiveInvalidCount = qp_consecutiveInvalidCount p,
       sq_recoveryProgressCount = qp_recoveryProgressCount p,
       sq_changeRateCelsiusPerSecond = qp_changeRateCelsiusPerSecond p\<rparr>)"

end
