(* ===== verification/Binary64Bounds.thy ===== *)
theory Binary64Bounds
  imports Binary64Ops
begin

text \<open>
  Symmetry and error of the rounding, and what follows for a running value \<open>v\<close> that is moved towards
  an input or shifted by a small amount again and again: its magnitude never exceeds \<open>2 ^ 60\<close>, however
  often it is rounded.
\<close>

section \<open>Symmetry and error\<close>

lemma roundHalfEven_minus: "roundHalfEven (- x) = - roundHalfEven x"
proof (cases "x = of_int \<lfloor>x\<rfloor>")
  case True
  then have "roundHalfEven (- x) = roundHalfEven (of_int (- \<lfloor>x\<rfloor>))"
    "roundHalfEven x = roundHalfEven (of_int \<lfloor>x\<rfloor>)" by simp_all
  then show ?thesis unfolding roundHalfEven_of_int by simp
next
  case False
  then have f: "\<lfloor>- x\<rfloor> = - \<lfloor>x\<rfloor> - 1" by linarith
  have "of_int \<lfloor>x\<rfloor> < x" using False of_int_floor_le [of x] by linarith
  then show ?thesis unfolding roundHalfEven_def Let_def f by auto
qed

lemma roundRat_minus [simp]: "roundRat (- q) = - roundRat q"
  by (simp add: roundRat_def ulpExponent_def roundHalfEven_minus)

lemma roundHalfEven_error: "\<bar>of_int (roundHalfEven x) - x\<bar> \<le> 1 / 2"
proof -
  have "of_int \<lfloor>x\<rfloor> \<le> x" "x < of_int \<lfloor>x\<rfloor> + 1" by linarith+
  then show ?thesis unfolding roundHalfEven_def Let_def by (simp split: if_split)
qed

lemma roundRat_error: "\<bar>roundRat q - q\<bar> \<le> pow2 (ulpExponent q) / 2"
proof (cases "q = 0")
  case False
  let ?p = "pow2 (ulpExponent q)"
  have "roundRat q - q = (of_int (roundHalfEven (q / ?p)) - q / ?p) * ?p"
    using False by (simp add: roundRat_def algebra_simps)
  then have "\<bar>roundRat q - q\<bar> = \<bar>of_int (roundHalfEven (q / ?p)) - q / ?p\<bar> * ?p"
    by (simp add: abs_mult less_imp_le)
  also have "\<dots> \<le> 1 / 2 * ?p" using roundHalfEven_error by (intro mult_right_mono) (auto simp: less_imp_le)
  finally show ?thesis by simp
qed (simp add: less_imp_le)

lemma ulpExponent_le:
  assumes "\<bar>q\<bar> < pow2 (k + 53)" and "- 1074 \<le> k" and "q \<noteq> 0"
  shows "ulpExponent q \<le> k"
proof -
  from assms(3) have "pow2 (ilog2 \<bar>q\<bar>) < pow2 (k + 53)" using ilog2_bounds [of "\<bar>q\<bar>"] assms(1) by simp
  then have "ilog2 \<bar>q\<bar> < k + 53" by (rule pow2_less_imp)
  then show ?thesis using assms(2) by (simp add: ulpExponent_def)
qed

lemma roundRat_abs_le_pow2:
  assumes "\<bar>q\<bar> \<le> pow2 k" and "- 1000 \<le> k"
  shows "\<bar>roundRat q\<bar> \<le> pow2 k"
proof -
  have p: "roundRat r \<le> pow2 k" if "0 < r" "r \<le> pow2 k" for r
  proof (rule roundRat_le_pow2 [OF that])
    have "r < pow2 (k + 53)" using that(2) pow2_strict_mono [of k "k + 53"] by simp
    then show "ulpExponent r \<le> k" using that(1) assms(2) by (intro ulpExponent_le) simp_all
  qed
  show ?thesis
  proof (cases q "0 :: rat" rule: linorder_cases)
    case less
    then show ?thesis using assms(1) p [of "- q"] roundRat_nonneg [of "- q"] by simp
  next
    case greater
    then show ?thesis using p assms(1) roundRat_nonneg [of q] by simp
  qed (simp add: less_imp_le)
qed

lemma round64_bounded:
  assumes "\<bar>q\<bar> \<le> pow2 k" and "- 1000 \<le> k" and "k < 1024"
  shows "round64 q = F64 (roundRat q) \<and> \<bar>roundRat q\<bar> \<le> pow2 k"
proof -
  have "pow2 k < pow2 1024" using assms(3) by (rule pow2_strict_mono)
  then have "pow2 k < 2 ^ 1024" by (simp add: pow2_def)
  then show ?thesis using roundRat_abs_le_pow2 [OF assms(1,2)] by (simp add: round64_def Let_def)
qed

section \<open>A running value\<close>

text \<open>A small addend is absorbed at the bound.\<close>

lemma roundRat_absorbed:
  assumes "\<bar>v\<bar> \<le> pow2 60" and "\<bar>d\<bar> \<le> 64"
  shows "\<bar>roundRat (v + d)\<bar> \<le> pow2 60"
proof -
  have p: "roundRat q \<le> pow2 60" if "pow2 60 < q" "q \<le> pow2 60 + 64" for q
  proof -
    have q0: "0 < q" using that(1) pow2_pos [of 60] by linarith
    have b: "q < pow2 (60 + 1)" using that(2) by (simp add: pow2_def)
    have "ilog2 q = 60" by (rule ilog2_eqI [OF _ b]) (use that in simp)
    then have u: "ulpExponent q = 8" using q0 by (simp add: ulpExponent_def)
    have "roundHalfEven (q / pow2 8) = 4503599627370496"
    proof -
      have l: "4503599627370496 < q / 256" "q / 256 \<le> 4503599627370496 + 1 / 4"
        using that by (simp_all add: pow2_def)
      then have "\<lfloor>q / 256\<rfloor> = 4503599627370496" by linarith
      then show ?thesis using l by (simp add: roundHalfEven_def Let_def pow2_def)
    qed
    then show ?thesis using q0 u by (simp add: roundRat_scaled pow2_def)
  qed
  have n: "0 \<le> roundRat q" if "pow2 60 < q" for q
    using that pow2_pos [of 60] by (intro roundRat_nonneg) linarith
  consider "\<bar>v + d\<bar> \<le> pow2 60" | "pow2 60 < v + d" | "pow2 60 < - (v + d)" by linarith
  then show ?thesis
  proof cases
    case 1
    then show ?thesis by (intro roundRat_abs_le_pow2) simp_all
  next
    case 2
    then show ?thesis using p [of "v + d"] n [of "v + d"] assms by linarith
  next
    case 3
    have "roundRat (- (v + d)) \<le> pow2 60" by (rule p [OF 3]) (use assms in linarith)
    then show ?thesis using n [OF 3] unfolding roundRat_minus by linarith
  qed
qed

lemma roundRat_toward:
  assumes "0 \<le> a" and "a \<le> 1"
  shows "\<bar>roundRat (roundRat q * a)\<bar> \<le> \<bar>roundRat q\<bar> \<and> 0 \<le> roundRat (roundRat q * a) * q"
proof -
  have pos: "roundRat (roundRat r * a) \<le> roundRat r \<and> 0 \<le> roundRat (roundRat r * a)" if "0 \<le> r" for r
  proof -
    have r: "0 \<le> roundRat r" using that by (rule roundRat_nonneg)
    then have l: "roundRat r * a \<le> roundRat r" using assms by (simp add: mult_left_le)
    have "roundRat (roundRat r * a) \<le> roundRat r"
    proof (cases "roundRat r * a = 0")
      case True
      then have "roundRat (roundRat r * a) = 0" by (simp only: roundRat_0)
      then show ?thesis using r by simp
    next
      case False
      then have "0 < roundRat r * a" using r assms(1) by (simp add: less_le)
      from roundRat_mono [OF this l] show ?thesis unfolding roundRat_idem [OF that] .
    qed
    then show ?thesis using r assms(1) by (auto intro: roundRat_nonneg)
  qed
  show ?thesis
  proof (cases "0 \<le> q")
    case True
    with pos [OF True] show ?thesis by simp
  next
    case False
    then have "0 \<le> - q" by simp
    from pos [OF this] False show ?thesis by (simp add: mult_nonpos_nonpos)
  qed
qed

text \<open>The exponential filter: \<open>v + (x - v) * a\<close>, rounded at each operation.\<close>

lemma filter_step_bounded:
  assumes v: "\<bar>v\<bar> \<le> pow2 60" and x: "\<bar>x\<bar> \<le> pow2 10" and a: "0 \<le> a" "a \<le> 1"
  shows "\<exists>w. fadd (F64 v) (fmul (fsub (F64 x) (F64 v)) (F64 a)) = F64 w \<and> \<bar>w\<bar> \<le> pow2 60"
proof -
  define d where "d = roundRat (x - v)"
  define t where "t = roundRat (d * a)"
  have n: "pow2 60 + pow2 10 \<le> pow2 61" "pow2 61 = 2 * pow2 60" "pow2 10 = 1024" "pow2 8 = 256"
    "1024 + 128 \<le> pow2 60" by (simp_all add: pow2_def)
  have xv: "\<bar>x - v\<bar> \<le> pow2 61" "\<bar>x - v\<bar> < pow2 (8 + 53)"
    using v x n pow2_strict_mono [of 60 61] by (auto simp: pow2_def)
  have d1: "round64 (x - v) = F64 d" "\<bar>d\<bar> \<le> pow2 61"
    using round64_bounded [OF xv(1)] by (simp_all add: d_def)
  have t2: "\<bar>t\<bar> \<le> \<bar>d\<bar>" "0 \<le> t * (x - v)"
    using roundRat_toward [OF a, of "x - v"] by (simp_all add: t_def d_def)
  have "\<bar>d * a\<bar> \<le> pow2 61"
    using d1(2) a by (simp add: abs_mult) (metis abs_ge_zero dual_order.trans mult_left_le)
  then have t1: "round64 (d * a) = F64 t" using round64_bounded [of "d * a" 61] by (simp add: t_def)
  have e: "\<bar>d - (x - v)\<bar> \<le> 128"
  proof (cases "x - v = 0")
    case False
    have "pow2 (ulpExponent (x - v)) \<le> pow2 8"
      by (intro pow2_mono ulpExponent_le xv(2) False) simp
    then show ?thesis using roundRat_error [of "x - v"] n(4) by (simp add: d_def)
  qed (simp add: d_def)
  have "\<bar>v + t\<bar> \<le> pow2 60"
  proof (cases "x - v" "0 :: rat" rule: linorder_cases)
    case less
    then have "t \<le> 0" using t2(2) by (simp add: zero_le_mult_iff)
    then show ?thesis using t2(1) e v x n less by linarith
  next
    case equal
    then have "d = 0" by (simp add: d_def)
    then show ?thesis using v by (simp add: t_def)
  next
    case greater
    then have "0 \<le> t" using t2(2) by (simp add: zero_le_mult_iff)
    then show ?thesis using t2(1) e v x n greater by linarith
  qed
  from round64_bounded [OF this] show ?thesis using d1(1) t1 by (simp add: fsub_def)
qed

lemma fadd_absorbed:
  assumes "\<bar>v\<bar> \<le> pow2 60" and "\<bar>d\<bar> \<le> 64"
  shows "\<exists>w. fadd (F64 v) (F64 d) = F64 w \<and> \<bar>w\<bar> \<le> pow2 60"
proof -
  have "pow2 60 < 2 ^ 1024"
  proof -
    have "pow2 60 < pow2 1024" by (rule pow2_strict_mono) simp
    then show ?thesis by (simp add: pow2_def)
  qed
  then show ?thesis using roundRat_absorbed [OF assms] by (simp add: round64_def Let_def)
qed

end
