(* ===== verification/PipelineProofs.thy ===== *)
theory PipelineProofs
  imports SensorPipeline Binary64Bounds "HOL-Library.Multiset"
begin

text \<open>
  Lemmas on the quality pipeline: the ring buffer of the median filter holds the last values, the
  bounds of the filtered value, and the invariant that ties the counters of the pipeline to the
  samples it has accepted.
\<close>

section \<open>The median filter is a sliding window\<close>

text \<open>The last \<open>n\<close> elements of a list.\<close>

definition lastn :: "nat \<Rightarrow> 'a list \<Rightarrow> 'a list" where
  "lastn n xs = drop (length xs - n) xs"

lemma length_lastn [simp]: "length (lastn n xs) = min n (length xs)"
  by (simp add: lastn_def)

lemma set_lastn: "set (lastn n xs) \<subseteq> set xs"
  by (simp add: lastn_def set_drop_subset)

lemma lastn_all: "length xs \<le> n \<Longrightarrow> lastn n xs = xs"
  by (simp add: lastn_def)

lemma lastn_snoc: "0 < n \<Longrightarrow> n \<le> length xs \<Longrightarrow> lastn n (xs @ [x]) = tl (lastn n xs) @ [x]"
  by (simp add: lastn_def Suc_diff_le drop_Suc tl_drop)

text \<open>
  After the values \<open>xs\<close> the filter has them in order, as long as they fit; from then on the ring,
  read from the next index, holds the last ones.
\<close>

definition window_inv :: "nat \<Rightarrow> f64 list \<Rightarrow> MedianFilter \<Rightarrow> bool" where
  "window_inv n xs f \<longleftrightarrow>
     mf_capacity f = n \<and> length (mf_values f) = kMaxMedianWindowSize \<and>
     mf_size f = min n (length xs) \<and> mf_nextIndex f < n \<and>
     (if length xs < n then mf_nextIndex f = length xs \<and> take (length xs) (mf_values f) = xs
      else drop (mf_nextIndex f) (take n (mf_values f)) @ take (mf_nextIndex f) (mf_values f) =
        lastn n xs)"

lemma window_new:
  "n \<noteq> 0 \<Longrightarrow> n \<le> kMaxMedianWindowSize \<Longrightarrow> n mod 2 \<noteq> 0 \<Longrightarrow> window_inv n [] (newMedianFilter n)"
  by (simp add: window_inv_def newMedianFilter_def)

lemma window_reset: "window_inv n xs f \<Longrightarrow> window_inv n [] (medianReset f)"
  by (auto simp: window_inv_def medianReset_def)

lemma window_add:
  assumes w: "window_inv n xs f" and n: "n \<le> kMaxMedianWindowSize" and v: "isfinite v"
  shows "window_inv n (xs @ [v]) (snd (medianAdd v f))"
proof -
  let ?i = "mf_nextIndex f"
  have i: "?i < n" "mf_capacity f = n" "length (mf_values f) = kMaxMedianWindowSize"
    "mf_size f = min n (length xs)"
    using w by (auto simp: window_inv_def)
  then have n0: "0 < n" by simp
  have a: "snd (medianAdd v f) = f\<lparr>mf_values := (mf_values f)[?i := v],
      mf_nextIndex := (?i + 1) mod n,
      mf_size := (if mf_size f < n then mf_size f + 1 else mf_size f)\<rparr>"
    using i n0 v by (simp add: medianAdd_def)
  show ?thesis
  proof (cases "length xs < n")
    case True
    then have x: "?i = length xs" "take (length xs) (mf_values f) = xs"
      using w by (auto simp: window_inv_def)
    have t: "take (Suc (length xs)) ((mf_values f)[length xs := v]) = xs @ [v]"
      using x(2) True i(3) n by (simp add: take_Suc_conv_app_nth)
    show ?thesis
    proof (cases "Suc (length xs) < n")
      case True
      then show ?thesis using i x t by (simp add: a window_inv_def)
    next
      case False
      then have e: "Suc (length xs) = n" using \<open>length xs < n\<close> by simp
      then have "take n ((mf_values f)[length xs := v]) = xs @ [v]" using t by simp
      moreover have "lastn n (xs @ [v]) = xs @ [v]" using e by (intro lastn_all) simp
      ultimately show ?thesis using i x e by (simp add: a window_inv_def)
    qed
  next
    case False
    then have x: "drop ?i (take n (mf_values f)) @ take ?i (mf_values f) = lastn n xs"
      using w by (auto simp: window_inv_def)
    have l: "lastn n (xs @ [v]) = tl (lastn n xs) @ [v]" using False n0 by (simp add: lastn_snoc)
    have d: "drop (Suc ?i) (take n (mf_values f)) @ take ?i (mf_values f) = tl (lastn n xs)"
    proof -
      have "drop ?i (take n (mf_values f)) \<noteq> []" using i n by simp
      then show ?thesis using x by (metis append_assoc drop_Suc tl_append2 tl_drop)
    qed
    have u: "take n ((mf_values f)[?i := v]) = (take n (mf_values f))[?i := v]"
      by (simp add: take_update_swap)
    show ?thesis
    proof (cases "Suc ?i < n")
      case True
      then have "take (Suc ?i) ((mf_values f)[?i := v]) = take ?i (mf_values f) @ [v]"
        using i n by (simp add: take_Suc_conv_app_nth)
      moreover have "drop (Suc ?i) ((take n (mf_values f))[?i := v]) =
          drop (Suc ?i) (take n (mf_values f))" by simp
      ultimately show ?thesis using True False i d by (simp add: a window_inv_def l u flip: d)
    next
      case nl: False
      then have e: "Suc ?i = n" using i(1) by simp
      have "take n ((mf_values f)[?i := v]) = take ?i (mf_values f) @ [v]"
        unfolding e [symmetric] using i n by (simp add: take_Suc_conv_app_nth)
      moreover have "take ?i (mf_values f) = tl (lastn n xs)" using d e by simp
      ultimately show ?thesis using e False i by (simp add: a window_inv_def l)
    qed
  qed
qed

lemma window_content:
  assumes "window_inv n xs f"
  shows "mset (take (mf_size f) (mf_values f)) = mset (lastn n xs)"
proof (cases "length xs < n")
  case True
  then show ?thesis using assms by (simp add: window_inv_def lastn_all)
next
  case False
  let ?i = "mf_nextIndex f"
  have e: "drop ?i (take n (mf_values f)) @ take ?i (mf_values f) = lastn n xs" "?i < n"
    "mf_size f = n"
    using assms False by (auto simp: window_inv_def)
  have "take n (mf_values f) = take ?i (mf_values f) @ drop ?i (take n (mf_values f))"
    using e(2) by (metis append_take_drop_id min.absorb2 min.commute less_imp_le take_take)
  then have "mset (take n (mf_values f)) =
      mset (drop ?i (take n (mf_values f))) + mset (take ?i (mf_values f))"
    by (metis mset_append union_commute)
  then show ?thesis using e(1,3) by (metis mset_append)
qed

lemma sort_key_mset_eq:
  assumes "mset xs = mset ys" and "inj_on f (set xs)"
  shows "sort_key f xs = sort_key f ys"
  using assms by (intro sort_key_inj_key_eq) auto

lemma inj_celsiusValue: "(\<And>v. v \<in> A \<Longrightarrow> isfinite v) \<Longrightarrow> inj_on celsiusValue A"
  by (rule inj_onI) (metis celsiusValue.simps(1) isfinite_iff)

lemma window_median:
  assumes "window_inv n xs f" and "\<And>v. v \<in> set xs \<Longrightarrow> isfinite v"
  shows "filterMedian f =
    (if xs = [] then None
     else Some (sort_key celsiusValue (lastn n xs) ! (min n (length xs) div 2)))"
proof -
  have s: "mf_size f = min n (length xs)" "0 < n" using assms(1) by (auto simp: window_inv_def)
  have c: "mset (lastn n xs) = mset (take (mf_size f) (mf_values f))"
    by (rule window_content [OF assms(1), symmetric])
  have "inj_on celsiusValue (set (lastn n xs))"
    by (rule inj_celsiusValue) (rule assms(2), rule subsetD [OF set_lastn])
  from sort_key_mset_eq [OF c this]
  have k: "sort_key celsiusValue (take (mf_size f) (mf_values f)) =
      sort_key celsiusValue (lastn n xs)" by (rule sym)
  have z: "mf_size f = 0 \<longleftrightarrow> xs = []" using s by (auto simp: min_def)
  show ?thesis unfolding filterMedian_def Let_def k s(1) [symmetric] z ..
qed

lemma median_in_window:
  assumes "window_inv n xs f" and "\<And>v. v \<in> set xs \<Longrightarrow> isfinite v" and "xs \<noteq> []"
  shows "\<exists>m \<in> set xs. filterMedian f = Some m"
proof -
  have "0 < n" using assms(1) by (auto simp: window_inv_def)
  then have "sort_key celsiusValue (lastn n xs) ! (min n (length xs) div 2) \<in>
      set (sort_key celsiusValue (lastn n xs))"
    using assms(3) by (intro nth_mem) (auto simp: min_def)
  then have "sort_key celsiusValue (lastn n xs) ! (min n (length xs) div 2) \<in> set xs"
    using set_lastn [of n xs] by auto
  then show ?thesis using window_median [OF assms(1,2)] assms(3) by auto
qed

section \<open>Calls and accepted samples\<close>

datatype PipelineCall = PC_Ingest TemperatureReading u64 | PC_Calibrate "SensorCalibration option"

fun pipelineStep :: "(f64 \<Rightarrow> f64) \<Rightarrow> PipelineCall \<Rightarrow> SensorQualityPipeline \<Rightarrow> SensorQualityPipeline"
  where
  "pipelineStep expd (PC_Ingest s now) p = snd (ingest expd s now p)"
| "pipelineStep expd (PC_Calibrate c) p = setCalibration c p"

fun acceptedBy :: "PipelineCall \<Rightarrow> SensorQualityPipeline \<Rightarrow> TemperatureReading list" where
  "acceptedBy (PC_Ingest s now) p = (if determineDisposition s now p = SDP_Accepted then [s] else [])"
| "acceptedBy (PC_Calibrate c) p = []"

text \<open>The samples that a pipeline accepts, the newest first.\<close>

fun acceptedSamples ::
  "(f64 \<Rightarrow> f64) \<Rightarrow> PipelineCall list \<Rightarrow> SensorQualityPipeline \<Rightarrow> TemperatureReading list" where
  "acceptedSamples expd [] p = []"
| "acceptedSamples expd (c # cs) p =
     acceptedSamples expd cs (pipelineStep expd c p) @ acceptedBy c p"

definition pipelineAfter ::
  "(f64 \<Rightarrow> f64) \<Rightarrow> SensorQualityConfig \<Rightarrow> PipelineCall list \<Rightarrow> SensorQualityPipeline" where
  "pipelineAfter expd config calls = fold (pipelineStep expd) calls (newPipeline config)"

lemma history_induct:
  assumes "I (newPipeline config) []"
    and "\<And>p h c. I p h \<Longrightarrow> c \<in> set calls \<Longrightarrow> I (pipelineStep expd c p) (acceptedBy c p @ h)"
  shows "I (pipelineAfter expd config calls) (acceptedSamples expd calls (newPipeline config))"
proof -
  have "I p h \<Longrightarrow> (\<And>p h c. I p h \<Longrightarrow> c \<in> set cs \<Longrightarrow> I (pipelineStep expd c p) (acceptedBy c p @ h)) \<Longrightarrow>
      I (fold (pipelineStep expd) cs p) (acceptedSamples expd cs p @ h)" for cs p h
  proof (induction cs arbitrary: p h)
    case (Cons c cs)
    have "I (pipelineStep expd c p) (acceptedBy c p @ h)" using Cons.prems by simp
    from Cons.IH [OF this] Cons.prems(2) show ?case by simp
  qed simp
  from this [OF assms(1)] assms(2) show ?thesis by (simp add: pipelineAfter_def)
qed

section \<open>Streaks of plausible samples\<close>

text \<open>A sample within all limits, and a sample that may directly follow another.\<close>

definition plausible :: "SensorQualityConfig \<Rightarrow> TemperatureReading \<Rightarrow> bool" where
  "plausible c s \<longleftrightarrow> tr_status s = TSS_Ok \<and>
     (let v = the (tr_celsius s) in
      isfinite v \<and> \<not> flt v kAbsoluteMinCelsius \<and> \<not> flt kAbsoluteMaxCelsius v \<and>
      \<not> flt v (sqc_minPlausibleCelsius c) \<and> \<not> flt (sqc_maxPlausibleCelsius c) v)"

definition sameSensor :: "TemperatureReading \<Rightarrow> TemperatureReading \<Rightarrow> bool" where
  "sameSensor a b \<longleftrightarrow>
     tr_identity a = None \<or> tr_identity b = None \<or> tr_identity a = tr_identity b"

definition follows :: "SensorQualityConfig \<Rightarrow> TemperatureReading \<Rightarrow> TemperatureReading \<Rightarrow> bool" where
  "follows c a b \<longleftrightarrow>
     tr_monotonicTimestampMs a < tr_monotonicTimestampMs b \<and> sameSensor a b \<and>
     \<not> flt (sqc_maxRateOfChangeCelsiusPerSecond c)
       (fdiv (ffabs (fsub (the (tr_celsius b)) (the (tr_celsius a))))
         (fdiv (f64_of_u64 (tr_monotonicTimestampMs b - tr_monotonicTimestampMs a)) (F64 1000)))"

fun streak :: "SensorQualityConfig \<Rightarrow> TemperatureReading list \<Rightarrow> bool" where
  "streak c [] \<longleftrightarrow> True"
| "streak c [s] \<longleftrightarrow> plausible c s"
| "streak c (b # a # ss) \<longleftrightarrow> plausible c b \<and> follows c a b \<and> streak c (a # ss)"

text \<open>The counters of the pipeline stand for the streak of the newest \<open>k\<close> accepted samples.\<close>

definition streak_of :: "SensorQualityPipeline \<Rightarrow> TemperatureReading list \<Rightarrow> nat \<Rightarrow> bool" where
  "streak_of p h k \<longleftrightarrow>
     qp_lastAccepted p = (case h of [] \<Rightarrow> None | s # _ \<Rightarrow> Some s) \<and>
     k \<le> length h \<and> streak (qp_config p) (take k h) \<and>
     unat (qp_recoveryProgressCount p) = min k 65535 \<and>
     (if k = 0 then qp_recoveryStreakStartTimestampMs p = None \<and> qp_rateReferenceCelsius p = None \<and>
        qp_rateReferenceTimestampMs p = None
      else
        qp_recoveryStreakStartTimestampMs p = Some (tr_monotonicTimestampMs (h ! (k - 1))) \<and>
        qp_recoveryStreakLastTimestampMs p = Some (tr_monotonicTimestampMs (hd h)) \<and>
        qp_lastValidTimestampMs p = Some (tr_monotonicTimestampMs (hd h)) \<and>
        qp_rateReferenceCelsius p = Some (the (tr_celsius (hd h))) \<and>
        qp_rateReferenceTimestampMs p = Some (tr_monotonicTimestampMs (hd h)) \<and>
        qp_consecutiveInvalidCount p = 0)"

lemma streak_new: "streak_of (newPipeline config) [] 0"
  by (simp add: streak_of_def newPipeline_def)

lemma streak_calibrate: "streak_of p h k \<Longrightarrow> streak_of (setCalibration c p) h k"
  by (simp add: streak_of_def setCalibration_def)

lemma resetFilterState_simps [simp]:
  "qp_config (resetFilterState p) = qp_config p"
  "qp_calibration (resetFilterState p) = qp_calibration p"
  "qp_lastAccepted (resetFilterState p) = qp_lastAccepted p"
  "qp_lastKnownIdentity (resetFilterState p) = qp_lastKnownIdentity p"
  "qp_lastValidTimestampMs (resetFilterState p) = qp_lastValidTimestampMs p"
  "qp_rateReferenceCelsius (resetFilterState p) = qp_rateReferenceCelsius p"
  "qp_rateReferenceTimestampMs (resetFilterState p) = qp_rateReferenceTimestampMs p"
  "qp_consecutiveInvalidCount (resetFilterState p) = qp_consecutiveInvalidCount p"
  "qp_recoveryProgressCount (resetFilterState p) = qp_recoveryProgressCount p"
  "qp_recoveryStreakStartTimestampMs (resetFilterState p) = qp_recoveryStreakStartTimestampMs p"
  "qp_recoveryStreakLastTimestampMs (resetFilterState p) = qp_recoveryStreakLastTimestampMs p"
  "qp_failedLatched (resetFilterState p) = qp_failedLatched p"
  by (simp_all add: resetFilterState_def)

lemma enterFailed_simps [simp]:
  "qp_config (enterFailed p) = qp_config p"
  "qp_calibration (enterFailed p) = qp_calibration p"
  "qp_lastAccepted (enterFailed p) = qp_lastAccepted p"
  "qp_rateReferenceCelsius (enterFailed p) = None"
  "qp_rateReferenceTimestampMs (enterFailed p) = None"
  "qp_recoveryProgressCount (enterFailed p) = 0"
  "qp_recoveryStreakStartTimestampMs (enterFailed p) = None"
  "qp_consecutiveInvalidCount (enterFailed p) = qp_consecutiveInvalidCount p"
  "qp_failedLatched (enterFailed p)"
  by (simp_all add: enterFailed_def)

lemma noteAccepted_simps [simp]:
  "qp_config (noteAccepted s p) = qp_config p"
  "qp_calibration (noteAccepted s p) = qp_calibration p"
  "qp_lastAccepted (noteAccepted s p) = Some s"
  "qp_medianFilter (noteAccepted s p) = qp_medianFilter p"
  "qp_lowPassFilter (noteAccepted s p) = qp_lowPassFilter p"
  "qp_lastFilterEffectiveOffsetCelsius (noteAccepted s p) = qp_lastFilterEffectiveOffsetCelsius p"
  "qp_lastValidTimestampMs (noteAccepted s p) = qp_lastValidTimestampMs p"
  "qp_rateReferenceCelsius (noteAccepted s p) = qp_rateReferenceCelsius p"
  "qp_rateReferenceTimestampMs (noteAccepted s p) = qp_rateReferenceTimestampMs p"
  "qp_consecutiveInvalidCount (noteAccepted s p) = qp_consecutiveInvalidCount p"
  "qp_recoveryProgressCount (noteAccepted s p) = qp_recoveryProgressCount p"
  "qp_recoveryStreakStartTimestampMs (noteAccepted s p) = qp_recoveryStreakStartTimestampMs p"
  "qp_recoveryStreakLastTimestampMs (noteAccepted s p) = qp_recoveryStreakLastTimestampMs p"
  "qp_failedLatched (noteAccepted s p) = qp_failedLatched p"
  by (simp_all add: noteAccepted_def Let_def)

lemma recordInvalid_simps [simp]:
  "qp_config (recordInvalidSample r p) = qp_config p"
  "qp_calibration (recordInvalidSample r p) = qp_calibration p"
  "qp_lastAccepted (recordInvalidSample r p) = qp_lastAccepted p"
  "qp_rateReferenceCelsius (recordInvalidSample r p) = None"
  "qp_rateReferenceTimestampMs (recordInvalidSample r p) = None"
  "qp_recoveryProgressCount (recordInvalidSample r p) = 0"
  "qp_recoveryStreakStartTimestampMs (recordInvalidSample r p) = None"
  by (simp_all add: recordInvalidSample_def Let_def)

lemma recordValid_simps [simp]:
  "qp_config (recordValidSample v t p) = qp_config p"
  "qp_calibration (recordValidSample v t p) = qp_calibration p"
  "qp_lastAccepted (recordValidSample v t p) = qp_lastAccepted p"
  "qp_medianFilter (recordValidSample v t p) = qp_medianFilter p"
  "qp_lowPassFilter (recordValidSample v t p) = qp_lowPassFilter p"
  "qp_lastFilterEffectiveOffsetCelsius (recordValidSample v t p) =
     qp_lastFilterEffectiveOffsetCelsius p"
  "qp_lastValidTimestampMs (recordValidSample v t p) = Some t"
  "qp_rateReferenceCelsius (recordValidSample v t p) = Some v"
  "qp_rateReferenceTimestampMs (recordValidSample v t p) = Some t"
  "qp_consecutiveInvalidCount (recordValidSample v t p) = 0"
  "qp_recoveryProgressCount (recordValidSample v t p) =
     saturatingIncrement (qp_recoveryProgressCount p)"
  "qp_recoveryStreakLastTimestampMs (recordValidSample v t p) = Some t"
  "qp_recoveryStreakStartTimestampMs (recordValidSample v t p) =
     (if qp_recoveryProgressCount p = 0 then Some t else qp_recoveryStreakStartTimestampMs p)"
  "qp_failedLatched (recordValidSample v t p) = qp_failedLatched p"
  by (simp_all add: recordValidSample_def Let_def)

lemma filterSample_simps [simp]:
  "qp_config (filterSample expd s v p) = qp_config p"
  "qp_calibration (filterSample expd s v p) = qp_calibration p"
  "qp_lastAccepted (filterSample expd s v p) = qp_lastAccepted p"
  "qp_lastValidTimestampMs (filterSample expd s v p) = qp_lastValidTimestampMs p"
  "qp_rateReferenceCelsius (filterSample expd s v p) = qp_rateReferenceCelsius p"
  "qp_rateReferenceTimestampMs (filterSample expd s v p) = qp_rateReferenceTimestampMs p"
  "qp_consecutiveInvalidCount (filterSample expd s v p) = qp_consecutiveInvalidCount p"
  "qp_recoveryProgressCount (filterSample expd s v p) = qp_recoveryProgressCount p"
  "qp_recoveryStreakStartTimestampMs (filterSample expd s v p) = qp_recoveryStreakStartTimestampMs p"
  "qp_recoveryStreakLastTimestampMs (filterSample expd s v p) = qp_recoveryStreakLastTimestampMs p"
  "qp_failedLatched (filterSample expd s v p) = qp_failedLatched p"
  by (simp_all add: filterSample_def Let_def split: option.split)

lemma saturatingIncrement_min:
  "unat (c :: u16) = min k 65535 \<Longrightarrow> unat (saturatingIncrement c) = min (Suc k) 65535"
proof -
  assume c: "unat c = min k 65535"
  have m: "unat (- 1 :: u16) = 65535" by (simp add: unsigned_minus_1_eq_mask mask_eq_exp_minus_1)
  show ?thesis
  proof (cases "c = - 1")
    case True
    then have "65535 \<le> k" using c m by auto
    then show ?thesis using True m by (simp add: saturatingIncrement_def)
  next
    case False
    then have "unat c \<noteq> 65535" using m by (metis word_unat_eq_iff)
    then show ?thesis using False c by (simp add: saturatingIncrement_def unat_Suc_word)
  qed
qed

text \<open>A judged sample is either recorded as invalid or passes all limits.\<close>

lemma judge_cases:
  obtains r x where "judgeSample expd m s q =
      recordInvalidSample r (q\<lparr>qp_changeRateCelsiusPerSecond := x\<rparr>)"
  | v x where "\<not> m" "plausible (qp_config q) s" "v = the (tr_celsius s)"
    "x = changeRate v (tr_monotonicTimestampMs s) q"
    "case x of None \<Rightarrow> True | Some r \<Rightarrow> \<not> flt (sqc_maxRateOfChangeCelsiusPerSecond (qp_config q)) r"
    "judgeSample expd m s q = acceptValid expd s v (q\<lparr>qp_changeRateCelsiusPerSecond := x\<rparr>)"
proof -
  let ?v = "the (tr_celsius s)"
  let ?x = "changeRate ?v (tr_monotonicTimestampMs s) q"
  have same: "q = q\<lparr>qp_changeRateCelsiusPerSecond := qp_changeRateCelsiusPerSecond q\<rparr>" by simp
  show thesis
  proof (cases "\<not> m \<and> plausible (qp_config q) s")
    case True
    then have j: "judgeSample expd m s q = (let q' = q\<lparr>qp_changeRateCelsiusPerSecond := ?x\<rparr> in
        if (case ?x of None \<Rightarrow> False
            | Some r \<Rightarrow> flt (sqc_maxRateOfChangeCelsiusPerSecond (qp_config q')) r)
        then recordInvalidSample SFR_RateOfChangeExceeded q'
        else acceptValid expd s ?v q')"
      by (simp add: judgeSample_def plausible_def Let_def)
    show thesis
    proof (cases "case ?x of None \<Rightarrow> True
        | Some r \<Rightarrow> \<not> flt (sqc_maxRateOfChangeCelsiusPerSecond (qp_config q)) r")
      case ok: True
      then have "judgeSample expd m s q =
          acceptValid expd s ?v (q\<lparr>qp_changeRateCelsiusPerSecond := ?x\<rparr>)"
        unfolding j Let_def by (auto split: option.splits)
      then show thesis using that(2) True ok by blast
    next
      case bad: False
      then have "judgeSample expd m s q = recordInvalidSample SFR_RateOfChangeExceeded
          (q\<lparr>qp_changeRateCelsiusPerSecond := ?x\<rparr>)"
        unfolding j Let_def by (auto split: option.splits)
      then show thesis by (rule that(1))
    qed
  next
    case False
    then have "\<exists>r. judgeSample expd m s q = recordInvalidSample r q"
      by (auto simp: judgeSample_def plausible_def Let_def)
    then show thesis using that(1) same by metis
  qed
qed

lemma judge_valid:
  assumes "plausible (qp_config q) s" and "v = the (tr_celsius s)"
    and "x = changeRate v (tr_monotonicTimestampMs s) q"
    and "case x of None \<Rightarrow> True | Some r \<Rightarrow> \<not> flt (sqc_maxRateOfChangeCelsiusPerSecond (qp_config q)) r"
  shows "judgeSample expd False s q = acceptValid expd s v (q\<lparr>qp_changeRateCelsiusPerSecond := x\<rparr>)"
  using assms by (auto simp: judgeSample_def plausible_def Let_def split: option.splits)

lemma acceptValid_simps [simp]:
  "qp_config (acceptValid expd s v p) = qp_config p"
  "qp_calibration (acceptValid expd s v p) = qp_calibration p"
  "qp_lastAccepted (acceptValid expd s v p) = qp_lastAccepted p"
  "qp_lastValidTimestampMs (acceptValid expd s v p) = Some (tr_monotonicTimestampMs s)"
  "qp_rateReferenceCelsius (acceptValid expd s v p) = Some v"
  "qp_rateReferenceTimestampMs (acceptValid expd s v p) = Some (tr_monotonicTimestampMs s)"
  "qp_consecutiveInvalidCount (acceptValid expd s v p) = 0"
  "qp_recoveryProgressCount (acceptValid expd s v p) =
     saturatingIncrement (qp_recoveryProgressCount p)"
  "qp_recoveryStreakLastTimestampMs (acceptValid expd s v p) = Some (tr_monotonicTimestampMs s)"
  "qp_recoveryStreakStartTimestampMs (acceptValid expd s v p) =
     (if qp_recoveryProgressCount p = 0 then Some (tr_monotonicTimestampMs s)
      else qp_recoveryStreakStartTimestampMs p)"
  by (simp_all add: acceptValid_def Let_def)

lemma streak_invalid:
  "qp_lastAccepted q = Some s \<Longrightarrow> streak_of (recordInvalidSample r q) (s # h) 0"
  by (simp add: streak_of_def)

lemma streak_failed: "streak_of p h k \<Longrightarrow> streak_of (enterFailed p) h 0"
  by (simp add: streak_of_def)

lemma streak_valid:
  assumes "streak_of p h k" and "plausible (qp_config p) s"
    and "0 < k \<Longrightarrow> follows (qp_config p) (hd h) s"
  shows "streak_of (acceptValid expd s (the (tr_celsius s))
    ((noteAccepted s p)\<lparr>qp_changeRateCelsiusPerSecond := x\<rparr>)) (s # h) (Suc k)"
proof -
  have c: "unat (qp_recoveryProgressCount p) = min k 65535" and k: "k \<le> length h"
    and st: "streak (qp_config p) (take k h)"
    using assms(1) by (simp_all add: streak_of_def)
  have z: "qp_recoveryProgressCount p = 0 \<longleftrightarrow> k = 0" using c by (auto simp: unat_eq_zero)
  have "streak (qp_config p) (s # take k h)"
    using assms(2,3) k st by (cases h; cases k) auto
  moreover have "unat (saturatingIncrement (qp_recoveryProgressCount p)) = min (Suc k) 65535"
    using c by (rule saturatingIncrement_min)
  moreover have "qp_recoveryStreakStartTimestampMs p = Some (tr_monotonicTimestampMs (h ! (k - 1)))"
    if "k \<noteq> 0" using assms(1) that by (simp add: streak_of_def)
  ultimately show ?thesis using k by (auto simp: streak_of_def z nth_Cons')
qed

text \<open>What the disposition and the limits mean for a sample that continues a streak.\<close>

lemma accepted_later:
  assumes "determineDisposition s now p = SDP_Accepted" and "qp_lastAccepted p = Some a"
  shows "tr_monotonicTimestampMs a < tr_monotonicTimestampMs s"
  using assms by (auto simp: determineDisposition_def Let_def not_less_iff_gr_or_eq split: if_splits)

lemma streak_follows:
  assumes "streak_of p h k" and "0 < k" and "determineDisposition s now p = SDP_Accepted"
    and "\<not> identityMismatch s p" and "x = changeRate (the (tr_celsius s)) (tr_monotonicTimestampMs s) p"
    and "case x of None \<Rightarrow> True | Some r \<Rightarrow> \<not> flt (sqc_maxRateOfChangeCelsiusPerSecond (qp_config p)) r"
  shows "follows (qp_config p) (hd h) s"
proof -
  obtain a h' where h: "h = a # h'" using assms(1,2) by (cases h) (auto simp: streak_of_def)
  have l: "qp_lastAccepted p = Some a" using assms(1) h by (simp add: streak_of_def)
  have "x = Some (fdiv (ffabs (fsub (the (tr_celsius s)) (the (tr_celsius a))))
      (fdiv (f64_of_u64 (tr_monotonicTimestampMs s - tr_monotonicTimestampMs a)) (F64 1000)))"
    using assms(1,2,5) h by (simp add: streak_of_def changeRate_def Let_def)
  moreover have "sameSensor a s"
    using assms(4) l by (cases "tr_identity a"; cases "tr_identity s")
      (simp_all add: identityMismatch_def sameSensor_def)
  ultimately show ?thesis using accepted_later [OF assms(3) l] assms(6) h by (simp add: follows_def)
qed

lemma disposition_failed [simp]:
  "determineDisposition s now (enterFailed p) = determineDisposition s now p"
  by (simp add: determineDisposition_def)

lemma changeRate_simps [simp]:
  "changeRate v t (noteAccepted s p) = changeRate v t p"
  "changeRate v t (p\<lparr>qp_changeRateCelsiusPerSecond := x\<rparr>) = changeRate v t p"
  by (simp_all add: changeRate_def)

lemma streak_judge:
  assumes "streak_of p h k" and "determineDisposition s now p = SDP_Accepted"
  shows "\<exists>k'. streak_of (judgeSample expd (identityMismatch s p) s (noteAccepted s p)) (s # h) k'"
proof (rule judge_cases [of expd "identityMismatch s p" s "noteAccepted s p"])
  fix r x
  assume "judgeSample expd (identityMismatch s p) s (noteAccepted s p) =
    recordInvalidSample r ((noteAccepted s p)\<lparr>qp_changeRateCelsiusPerSecond := x\<rparr>)"
  then show ?thesis
    using streak_invalid [of "(noteAccepted s p)\<lparr>qp_changeRateCelsiusPerSecond := x\<rparr>" s r h] by auto
next
  fix v x
  assume m: "\<not> identityMismatch s p" and pl: "plausible (qp_config (noteAccepted s p)) s"
    and v: "v = the (tr_celsius s)"
    and x: "x = changeRate v (tr_monotonicTimestampMs s) (noteAccepted s p)"
    "case x of None \<Rightarrow> True
      | Some r \<Rightarrow> \<not> flt (sqc_maxRateOfChangeCelsiusPerSecond (qp_config (noteAccepted s p))) r"
    and j: "judgeSample expd (identityMismatch s p) s (noteAccepted s p) =
      acceptValid expd s v ((noteAccepted s p)\<lparr>qp_changeRateCelsiusPerSecond := x\<rparr>)"
  have "0 < k \<Longrightarrow> follows (qp_config p) (hd h) s"
    using streak_follows [OF assms(1) _ assms(2) m x(1) [unfolded changeRate_simps v]
      x(2) [unfolded noteAccepted_simps]] .
  with streak_valid [OF assms(1)] pl v j show ?thesis by auto
qed

lemma streak_ingest:
  assumes "streak_of p h k" and "determineDisposition s now p = SDP_Accepted"
  shows "\<exists>k'. streak_of (snd (ingest expd s now p)) (s # h) k'"
proof (cases "ageFailed now p \<or> countFailed p")
  case True
  then have "snd (ingest expd s now p) =
      judgeSample expd (identityMismatch s (enterFailed p)) s (noteAccepted s (enterFailed p))"
    using assms(2) by (simp add: ingest_def Let_def)
  with streak_judge [OF streak_failed [OF assms(1)]] assms(2) show ?thesis by simp
next
  case False
  then have "snd (ingest expd s now p) =
      judgeSample expd (identityMismatch s p) s (noteAccepted s p)"
    using assms(2) by (simp add: ingest_def Let_def)
  with streak_judge [OF assms] show ?thesis by simp
qed

lemma ingest_rejected: "determineDisposition s now p \<noteq> SDP_Accepted \<Longrightarrow>
    ingest expd s now p = (determineDisposition s now p, p)"
  by (simp add: ingest_def)

lemma config_ingest [simp]: "qp_config (snd (ingest expd s now p)) = qp_config p"
proof -
  have "qp_config (judgeSample expd m s q) = qp_config q" for m q
    by (rule judge_cases [of expd m s q]) simp_all
  then show ?thesis by (simp add: ingest_def Let_def)
qed

definition pipeline_inv ::
  "SensorQualityConfig \<Rightarrow> SensorQualityPipeline \<Rightarrow> TemperatureReading list \<Rightarrow> bool" where
  "pipeline_inv config p h \<longleftrightarrow> qp_config p = config \<and> (\<exists>k. streak_of p h k)"

lemma pipeline_inv_step:
  assumes "pipeline_inv config p h"
  shows "pipeline_inv config (pipelineStep expd c p) (acceptedBy c p @ h)"
proof (cases c)
  case (PC_Ingest s now)
  with assms streak_ingest [of p h _ s now expd] show ?thesis
    by (auto simp: pipeline_inv_def ingest_rejected)
next
  case (PC_Calibrate cal)
  with assms show ?thesis
    by (auto simp: pipeline_inv_def intro: streak_calibrate) (simp add: setCalibration_def)
qed

lemma pipeline_inv_after:
  "pipeline_inv config (pipelineAfter expd config calls)
     (acceptedSamples expd calls (newPipeline config))"
proof (rule history_induct)
  show "pipeline_inv config (newPipeline config) []"
    using streak_new by (auto simp: pipeline_inv_def newPipeline_def)
qed (rule pipeline_inv_step)

lemma pipeline_streak:
  obtains k where "streak_of (pipelineAfter expd config calls)
      (acceptedSamples expd calls (newPipeline config)) k"
    and "qp_config (pipelineAfter expd config calls) = config"
  using pipeline_inv_after [of config expd calls] that unfolding pipeline_inv_def by blast

section \<open>The filtered value\<close>

text \<open>What is assumed of \<open>std::exp\<close>: for an argument of at most zero its value is in the unit interval.\<close>

definition exp_contract :: "(f64 \<Rightarrow> f64) \<Rightarrow> bool" where
  "exp_contract expd \<longleftrightarrow> (\<forall>x. fle x (F64 0) \<longrightarrow> (\<exists>q. expd x = F64 q \<and> 0 \<le> q \<and> q \<le> 1))"

definition bounded_by :: "rat \<Rightarrow> f64 option \<Rightarrow> bool" where
  "bounded_by b x \<longleftrightarrow> (case x of None \<Rightarrow> True | Some v \<Rightarrow> (case v of F64 q \<Rightarrow> \<bar>q\<bar> \<le> b | _ \<Rightarrow> False))"

lemma bounded_by_simps [simp]: "bounded_by b None" "bounded_by b (Some (F64 q)) \<longleftrightarrow> \<bar>q\<bar> \<le> b"
  by (simp_all add: bounded_by_def)

lemma bounded_by_SomeD: "bounded_by b (Some v) \<Longrightarrow> \<exists>q. v = F64 q \<and> \<bar>q\<bar> \<le> b"
  by (simp add: bounded_by_def split: f64.splits)

lemma f64_of_u64_finite: "\<exists>q. f64_of_u64 w = F64 q \<and> 0 \<le> q"
proof -
  have "(of_nat (unat w) :: rat) \<le> of_nat 18446744073709551616"
    using unat_u64_lt [of w] by (simp only: of_nat_le_iff)
  then have "\<bar>of_nat (unat w) :: rat\<bar> \<le> pow2 64"
    unfolding abs_of_nat by (simp add: pow2_def del: of_nat_unat)
  from round64_bounded [OF this] roundRat_nonneg [of "of_nat (unat w)"] show ?thesis
    unfolding f64_of_u64_def by (simp del: of_nat_unat)
qed

lemma quotient_nonpos:
  assumes "0 \<le> a" and "0 < t"
  shows "fle (fdiv (fneg (fdiv (F64 a) (F64 1000))) (F64 t)) (F64 0)"
proof -
  have f: "fle (round64 q) (F64 0)" if "q \<le> 0" for q
    using that roundRat_neg [of q] by (cases "q = 0") (auto simp: round64_def Let_def fle_def)
  show ?thesis
  proof (cases "round64 (a / 1000)")
    case (F64 q)
    then have "0 \<le> q" using assms(1) by (auto intro: round64_nonneg)
    then have "- q / t \<le> 0" using assms(2) by simp
    from f [OF this] show ?thesis using F64 assms(2) by simp
  next
    case (F64_Inf b)
    then have "\<not> b" using assms(1) by (auto simp: round64_def Let_def split: if_splits)
    then show ?thesis using F64_Inf assms(2) by (simp add: fle_def)
  qed simp
qed

lemma lowPass_bounded:
  assumes "exp_contract expd" and "lp_tauSeconds f = F64 t" and "0 < t"
    and "bounded_by (pow2 60) (lp_filteredValue f)" and "\<bar>x\<bar> \<le> pow2 10"
  shows "lp_tauSeconds (snd (lowPassUpdate expd (F64 x) ts f)) = F64 t \<and>
    bounded_by (pow2 60) (lp_filteredValue (snd (lowPassUpdate expd (F64 x) ts f))) \<and>
    lp_filteredValue (snd (lowPassUpdate expd (F64 x) ts f)) \<noteq> None"
proof (cases "lp_filteredValue f")
  case None
  have "pow2 10 \<le> pow2 60" by (rule pow2_mono) simp
  with None assms show ?thesis by (simp add: lowPassUpdate_def)
next
  case (Some v)
  then obtain q where q: "v = F64 q" "\<bar>q\<bar> \<le> pow2 60" using assms(4) bounded_by_SomeD by metis
  show ?thesis
  proof (cases "lp_lastTimestampMs f")
    case None
    with Some q assms(2-4) show ?thesis by (simp add: lowPassUpdate_def)
  next
    case l: (Some t0)
    show ?thesis
    proof (cases "ts < t0")
      case True
      with Some l q assms(2-4) show ?thesis by (simp add: lowPassUpdate_def)
    next
      case False
      obtain n where n: "f64_of_u64 (ts - t0) = F64 n" "0 \<le> n" using f64_of_u64_finite by blast
      define y where "y = fdiv (fneg (fdiv (F64 n) (F64 1000))) (F64 t)"
      have "fle y (F64 0)" unfolding y_def by (rule quotient_nonpos [OF n(2) assms(3)])
      then obtain e where e: "expd y = F64 e" "0 \<le> e" "e \<le> 1"
        using assms(1) by (auto simp: exp_contract_def)
      have "\<bar>1 - e\<bar> \<le> pow2 0" using e by (simp add: pow2_def)
      from round64_bounded [OF this]
      have a: "fsub (F64 1) (expd y) = F64 (roundRat (1 - e))" "\<bar>roundRat (1 - e)\<bar> \<le> 1"
        using e(1) by (simp_all add: fsub_def pow2_def)
      have "0 \<le> roundRat (1 - e)" using e(3) by (intro roundRat_nonneg) simp
      moreover have "roundRat (1 - e) \<le> 1" using a(2) by linarith
      ultimately obtain w where
        w: "fadd (F64 q) (fmul (fsub (F64 x) (F64 q)) (fsub (F64 1) (expd y))) = F64 w"
          "\<bar>w\<bar> \<le> pow2 60" unfolding a(1) using filter_step_bounded [OF q(2) assms(5)] by blast
      have "snd (lowPassUpdate expd (F64 x) ts f) =
          f\<lparr>lp_filteredValue := Some (F64 w), lp_lastTimestampMs := Some ts\<rparr>"
        using Some l q(1) False assms(2,3) w(1) n(1)
        by (simp add: lowPassUpdate_def Let_def y_def del: fdiv.simps fadd.simps fmul.simps)
      then show ?thesis using w(2) assms(2) by simp
    qed
  qed
qed

definition window_ok :: "MedianFilter \<Rightarrow> bool" where
  "window_ok f \<longleftrightarrow> (\<exists>n xs. n \<le> kMaxMedianWindowSize \<and> window_inv n xs f \<and>
     (\<forall>v \<in> set xs. bounded_by 200 (Some v)))"

definition calibration_ok :: "SensorCalibration option \<Rightarrow> bool" where
  "calibration_ok c \<longleftrightarrow>
     (case c of None \<Rightarrow> True | Some c \<Rightarrow> bounded_by 10 (Some (offset_celsius (cal_offset c))))"

definition filter_inv :: "SensorQualityPipeline \<Rightarrow> bool" where
  "filter_inv p \<longleftrightarrow>
     window_ok (qp_medianFilter p) \<and>
     (\<exists>t. lp_tauSeconds (qp_lowPassFilter p) = F64 t \<and> 0 < t) \<and>
     bounded_by (pow2 60) (lp_filteredValue (qp_lowPassFilter p)) \<and>
     bounded_by 10 (qp_lastFilterEffectiveOffsetCelsius p) \<and> calibration_ok (qp_calibration p) \<and>
     (qp_recoveryProgressCount p = 0 \<or> lp_filteredValue (qp_lowPassFilter p) \<noteq> None)"

lemma window_ok_reset: "window_ok f \<Longrightarrow> window_ok (medianReset f)"
  unfolding window_ok_def by (metis empty_iff empty_set window_reset)

lemma window_ok_add:
  assumes "window_ok f" and "bounded_by 200 (Some v)"
  shows "window_ok (snd (medianAdd v f)) \<and>
    (\<exists>m. filterMedian (snd (medianAdd v f)) = Some m \<and> bounded_by 200 (Some m))"
proof -
  obtain n xs where w: "n \<le> kMaxMedianWindowSize" "window_inv n xs f"
    "\<forall>v \<in> set xs. bounded_by 200 (Some v)" using assms(1) by (auto simp: window_ok_def)
  have fin: "isfinite u" if "bounded_by 200 (Some u)" for u using bounded_by_SomeD [OF that] by auto
  have a: "window_inv n (xs @ [v]) (snd (medianAdd v f))"
    by (rule window_add [OF w(2,1) fin [OF assms(2)]])
  have all: "\<forall>u \<in> set (xs @ [v]). bounded_by 200 (Some u)" using w(3) assms(2) by simp
  then obtain m where "m \<in> set (xs @ [v])" "filterMedian (snd (medianAdd v f)) = Some m"
    using median_in_window [OF a] fin by blast
  moreover have "window_ok (snd (medianAdd v f))" using all a w(1) unfolding window_ok_def by blast
  ultimately show ?thesis using all by blast
qed

lemma filter_inv_reset: "filter_inv p \<Longrightarrow> qp_recoveryProgressCount p = 0 \<Longrightarrow>
    filter_inv (resetFilterState p)"
  by (auto simp: filter_inv_def resetFilterState_def lowPassReset_def intro: window_ok_reset)

lemma filter_inv_sample:
  assumes i: "filter_inv (p\<lparr>qp_recoveryProgressCount := 0\<rparr>)" and "exp_contract expd"
    and v: "bounded_by 200 (Some v)"
  shows "filter_inv (filterSample expd s v p)"
proof -
  have w: "window_ok (qp_medianFilter p)" "calibration_ok (qp_calibration p)"
    "bounded_by 10 (qp_lastFilterEffectiveOffsetCelsius p)"
    "bounded_by (pow2 60) (lp_filteredValue (qp_lowPassFilter p))"
    using i by (simp_all add: filter_inv_def)
  obtain t where t: "lp_tauSeconds (qp_lowPassFilter p) = F64 t" "0 < t"
    using i by (auto simp: filter_inv_def)
  obtain m where m: "window_ok (snd (medianAdd v (qp_medianFilter p)))"
    "filterMedian (snd (medianAdd v (qp_medianFilter p))) = Some (F64 m)" "\<bar>m\<bar> \<le> 200"
    using window_ok_add [OF w(1) v] bounded_by_SomeD by blast
  define matching where "matching = effectiveOffsetFor s p"
  have "bounded_by 10 matching"
    using w(2) by (auto simp: matching_def effectiveOffsetFor_def calibration_ok_def
      split: option.splits)
  then obtain e where e: "(case matching of None \<Rightarrow> F64 0 | Some x \<Rightarrow> x) = F64 e" "\<bar>e\<bar> \<le> 10"
    using bounded_by_SomeD by (cases matching) fastforce+
  define lp where "lp = (case qp_lastFilterEffectiveOffsetCelsius p of None \<Rightarrow> qp_lowPassFilter p
    | Some l \<Rightarrow> if \<not> feq (F64 e) l then lowPassShiftState (fsub (F64 e) l) (qp_lowPassFilter p)
        else qp_lowPassFilter p)"
  have lp: "lp_tauSeconds lp = F64 t" "bounded_by (pow2 60) (lp_filteredValue lp)"
  proof -
    have shift: "lp_tauSeconds (lowPassShiftState (fsub (F64 e) (F64 l)) (qp_lowPassFilter p)) = F64 t \<and>
      bounded_by (pow2 60) (lp_filteredValue (lowPassShiftState (fsub (F64 e) (F64 l)) (qp_lowPassFilter p)))"
      if "\<bar>l\<bar> \<le> 10" for l
    proof -
      have "\<bar>e - l\<bar> \<le> pow2 5" using e(2) that by (simp add: pow2_def)
      from round64_bounded [OF this]
      have d: "fsub (F64 e) (F64 l) = F64 (roundRat (e - l))" "\<bar>roundRat (e - l)\<bar> \<le> 64"
        by (simp_all add: fsub_def pow2_def)
      show ?thesis
      proof (cases "lp_filteredValue (qp_lowPassFilter p)")
        case (Some u)
        then obtain q where "u = F64 q" "\<bar>q\<bar> \<le> pow2 60" using w(4) bounded_by_SomeD by metis
        with fadd_absorbed [OF _ d(2), of q] Some t(1) show ?thesis
          unfolding d(1) lowPassShiftState_def by auto
      qed (simp add: lowPassShiftState_def t)
    qed
    show "lp_tauSeconds lp = F64 t" "bounded_by (pow2 60) (lp_filteredValue lp)"
      using w(3,4) t(1) shift bounded_by_SomeD
      by (auto simp: lp_def split: option.splits dest!: bounded_by_SomeD)
  qed
  have "\<bar>m + e\<bar> \<le> pow2 8" using m(3) e(2) by (simp add: pow2_def)
  from round64_bounded [OF this]
  have c: "fadd (F64 m) (F64 e) = F64 (roundRat (m + e))" "\<bar>roundRat (m + e)\<bar> \<le> pow2 10"
    by (simp_all add: pow2_def)
  have f: "filterSample expd s v p = p\<lparr>qp_medianFilter := snd (medianAdd v (qp_medianFilter p)),
      qp_correctedCelsius := Some (F64 (roundRat (m + e))), qp_appliedOffset := matching,
      qp_lowPassFilter := snd (lowPassUpdate expd (F64 (roundRat (m + e)))
        (tr_monotonicTimestampMs s) lp),
      qp_lastFilterEffectiveOffsetCelsius := Some (F64 e)\<rparr>"
  proof -
    have "effectiveOffsetFor s (p\<lparr>qp_medianFilter := f\<rparr>) = matching" for f
      by (simp add: matching_def effectiveOffsetFor_def)
    then show ?thesis
      unfolding filterSample_def Let_def using m(2) e(1) c(1)
      by (auto simp: lp_def split: option.splits simp del: fadd.simps)
  qed
  show ?thesis
    using lowPass_bounded [OF assms(2) lp(1) t(2) lp(2) c(2), of "tr_monotonicTimestampMs s"]
      m(1) w(2) t(2) e(2)
    unfolding f filter_inv_def by auto
qed

lemma filter_inv_new:
  assumes "scc_config (createSensorQualityConfig c) = Some config"
  shows "filter_inv (newPipeline config)"
proof -
  have c: "isfinite (sqc_lowPassTauSeconds config)" "\<not> fle (sqc_lowPassTauSeconds config) (F64 0)"
    "sqc_medianWindowSize config \<noteq> 0" "sqc_medianWindowSize config mod 2 \<noteq> 0"
    "sqc_medianWindowSize config \<le> kMaxMedianWindowSize"
    using assms by (auto simp: createSensorQualityConfig_def Let_def split: if_splits)
  have "window_ok (newMedianFilter (sqc_medianWindowSize config))"
    unfolding window_ok_def using window_new [OF c(3,5,4)] c(5) by (metis empty_iff empty_set)
  with c(1,2) show ?thesis
    by (auto simp: filter_inv_def newPipeline_def newLowPassFilter_def calibration_ok_def isfinite_iff)
qed

lemma filter_inv_calibrate: "filter_inv p \<Longrightarrow> calibration_ok c \<Longrightarrow> filter_inv (setCalibration c p)"
  by (simp add: filter_inv_def setCalibration_def)

lemma filter_inv_cong:
  assumes "filter_inv p" and "qp_medianFilter q = qp_medianFilter p"
    and "qp_lowPassFilter q = qp_lowPassFilter p"
    and "qp_lastFilterEffectiveOffsetCelsius q = qp_lastFilterEffectiveOffsetCelsius p"
    and "qp_calibration q = qp_calibration p"
    and "qp_recoveryProgressCount q = 0 \<or> qp_recoveryProgressCount q = qp_recoveryProgressCount p"
  shows "filter_inv q"
  using assms by (auto simp: filter_inv_def)

lemma filter_inv_failed: "filter_inv p \<Longrightarrow> filter_inv (enterFailed p)"
proof -
  assume "filter_inv p"
  then have "filter_inv (resetFilterState (p\<lparr>qp_recoveryProgressCount := 0,
      qp_recoveryStreakStartTimestampMs := None, qp_failedLatched := True\<rparr>))"
    by (intro filter_inv_reset) (rule filter_inv_cong, assumption, simp_all)
  then show ?thesis unfolding enterFailed_def by (rule filter_inv_cong) simp_all
qed

lemma filter_inv_invalid: "filter_inv p \<Longrightarrow> filter_inv (recordInvalidSample r p)"
proof -
  assume i: "filter_inv p"
  define q where "q = p\<lparr>qp_consecutiveInvalidCount := saturatingIncrement (qp_consecutiveInvalidCount p),
    qp_recoveryProgressCount := 0\<rparr>"
  have q: "filter_inv q" using i by (rule filter_inv_cong) (simp_all add: q_def)
  then have q': "filter_inv (resetFilterState q)" by (rule filter_inv_reset) (simp add: q_def)
  show ?thesis
  proof (cases "countFailed q \<or> qp_failedLatched p \<or> r = SFR_IdentityMismatch")
    case True
    with q' show ?thesis
      by (rule_tac filter_inv_cong [OF q'])
        (auto simp: recordInvalidSample_def Let_def q_def countFailed_def resetFilterState_def)
  next
    case False
    with q show ?thesis
      by (rule_tac filter_inv_cong [OF q])
        (auto simp: recordInvalidSample_def Let_def q_def countFailed_def)
  qed
qed

lemma plausible_bounded: "plausible c s \<Longrightarrow> bounded_by 200 (Some (the (tr_celsius s)))"
  by (auto simp: plausible_def Let_def isfinite_iff kAbsoluteMinCelsius_def kAbsoluteMaxCelsius_def)

lemma filter_inv_valid:
  assumes "filter_inv p" and "exp_contract expd" and "plausible c s"
  shows "filter_inv (acceptValid expd s (the (tr_celsius s))
    (p\<lparr>qp_changeRateCelsiusPerSecond := x\<rparr>))"
proof -
  have "filter_inv (q\<lparr>qp_recoveryProgressCount := 0\<rparr>)"
    if "qp_medianFilter q = qp_medianFilter p" "qp_lowPassFilter q = qp_lowPassFilter p"
      "qp_lastFilterEffectiveOffsetCelsius q = qp_lastFilterEffectiveOffsetCelsius p"
      "qp_calibration q = qp_calibration p" for q
    using assms(1) by (rule filter_inv_cong) (simp_all add: that)
  then show ?thesis unfolding acceptValid_def Let_def
    by (intro filter_inv_sample [OF _ assms(2) plausible_bounded [OF assms(3)]]) simp
qed

lemma filter_inv_ingest:
  assumes "filter_inv p" and "exp_contract expd"
  shows "filter_inv (snd (ingest expd s now p))"
proof -
  have n: "filter_inv (noteAccepted s q)" if "filter_inv q" for q
    using that by (rule filter_inv_cong) simp_all
  have j: "filter_inv (judgeSample expd m s q)" if q: "filter_inv q" for m q
  proof (rule judge_cases [of expd m s q])
    fix r x
    assume "judgeSample expd m s q = recordInvalidSample r (q\<lparr>qp_changeRateCelsiusPerSecond := x\<rparr>)"
    moreover have "filter_inv (q\<lparr>qp_changeRateCelsiusPerSecond := x\<rparr>)"
      using q by (rule filter_inv_cong) simp_all
    ultimately show ?thesis by (simp add: filter_inv_invalid)
  next
    fix v x
    assume "plausible (qp_config q) s" "v = the (tr_celsius s)"
      "judgeSample expd m s q = acceptValid expd s v (q\<lparr>qp_changeRateCelsiusPerSecond := x\<rparr>)"
    then show ?thesis using filter_inv_valid [OF q assms(2)] by simp
  qed
  show ?thesis using assms(1) j n filter_inv_failed by (simp add: ingest_def Let_def)
qed

text \<open>The calibrations that can exist: an offset comes from its checked construction.\<close>

definition validCall :: "PipelineCall \<Rightarrow> bool" where
  "validCall c \<longleftrightarrow> (case c of PC_Calibrate (Some cal) \<Rightarrow>
       soc_offset (createSensorOffset (offset_celsius (cal_offset cal))) = Some (cal_offset cal)
     | _ \<Rightarrow> True)"

lemma validCall_calibration: "validCall (PC_Calibrate c) \<Longrightarrow> calibration_ok c"
  by (auto simp: validCall_def calibration_ok_def createSensorOffset_def isfinite_iff
      kMaxAbsoluteOffsetCelsius_def split: option.splits if_splits)

lemma filter_inv_after:
  assumes "scc_config (createSensorQualityConfig c) = Some config" and "exp_contract expd"
    and "list_all validCall calls"
  shows "filter_inv (pipelineAfter expd config calls)"
proof (rule history_induct [where I = "\<lambda>p h. filter_inv p"])
  show "filter_inv (newPipeline config)" by (rule filter_inv_new [OF assms(1)])
next
  fix p h c
  assume i: "filter_inv p" and c: "c \<in> set calls"
  then have "validCall c" using assms(3) by (simp add: list_all_iff)
  with i show "filter_inv (pipelineStep expd c p)"
    by (cases c) (auto intro: filter_inv_ingest [OF _ assms(2)] filter_inv_calibrate
        validCall_calibration)
qed

end
