(* ===== verification/PipelineProperties.thy ===== *)
theory PipelineProperties
  imports PipelineProofs TemperatureControl
begin

text \<open>
  The properties of the quality pipeline of a sensor: what a valid snapshot stands for, that a failed
  sensor recovers, that the median filter is the median of the last values, and that the controller
  can read every valid snapshot.
\<close>

section \<open>The median filter against its reference\<close>

definition medianAddAll :: "f64 list \<Rightarrow> MedianFilter \<Rightarrow> MedianFilter" where
  "medianAddAll xs f = fold (\<lambda>v f. snd (medianAdd v f)) xs f"

lemma medianAdd_rejects: "\<not> isfinite v \<Longrightarrow> snd (medianAdd v f) = f"
  by (simp add: medianAdd_def)

lemma window_addAll:
  assumes "n \<noteq> 0" and "n \<le> kMaxMedianWindowSize" and "n mod 2 \<noteq> 0"
  shows "window_inv n (filter isfinite xs) (medianAddAll xs (newMedianFilter n))"
proof (induction xs rule: rev_induct)
  case Nil
  then show ?case using window_new [OF assms] by (simp add: medianAddAll_def)
next
  case (snoc v xs)
  then show ?case using window_add [OF _ assms(2)]
    by (cases "isfinite v") (simp_all add: medianAddAll_def medianAdd_rejects)
qed

text \<open>Whatever values were added, the median filter gives the middle one of the last finite
  values, at most as many as its capacity, in sorted order; and nothing exactly when none was added
  or its capacity is not valid. The ring buffer is not visible.\<close>

theorem median_of_last_values:
  "filterMedian (medianAddAll xs (newMedianFilter n)) =
   (if n \<noteq> 0 \<and> n \<le> kMaxMedianWindowSize \<and> n mod 2 \<noteq> 0 then
      (let ys = lastn n (filter isfinite xs) in
       if ys = [] then None else Some (sort_key celsiusValue ys ! (length ys div 2)))
    else None)"
proof (cases "n \<noteq> 0 \<and> n \<le> kMaxMedianWindowSize \<and> n mod 2 \<noteq> 0")
  case True
  have w: "window_inv n (filter isfinite xs) (medianAddAll xs (newMedianFilter n))"
    using True by (intro window_addAll) simp_all
  have e: "lastn n (filter isfinite xs) = [] \<longleftrightarrow> filter isfinite xs = []"
    using True by (auto simp: min_def simp flip: length_0_conv)
  have "filterMedian (medianAddAll xs (newMedianFilter n)) = (if filter isfinite xs = [] then None
      else Some (sort_key celsiusValue (lastn n (filter isfinite xs)) !
        (min n (length (filter isfinite xs)) div 2)))"
    by (rule window_median [OF w]) simp
  then show ?thesis using True unfolding Let_def length_lastn e by (simp only: if_True simp_thms)
next
  case False
  then have "mf_capacity (newMedianFilter n) = 0" "mf_size (newMedianFilter n) = 0"
    by (simp_all add: newMedianFilter_def)
  then have "medianAddAll xs (newMedianFilter n) = newMedianFilter n"
    by (induction xs rule: rev_induct) (simp_all add: medianAddAll_def medianAdd_def)
  then show ?thesis
    using False \<open>mf_size (newMedianFilter n) = 0\<close> by (simp only: if_False) (simp add: filterMedian_def)
qed

section \<open>A valid snapshot is earned\<close>

lemma streak_complete:
  assumes "streak_of p h k" and "isRecoveryComplete p"
  shows "0 < k \<and> unat (sqc_minConsecutiveValidSamples (qp_config p)) \<le> k \<and>
    sqc_minRecoveryStabilityDurationMs (qp_config p) \<le>
      tr_monotonicTimestampMs (hd h) - tr_monotonicTimestampMs (h ! (k - 1))"
proof -
  have c: "unat (sqc_minConsecutiveValidSamples (qp_config p)) \<le> unat (qp_recoveryProgressCount p)"
    using assms(2) by (auto simp: isRecoveryComplete_def word_le_nat_alt not_less split: if_splits)
  have k: "k \<noteq> 0"
    using assms by (auto simp: isRecoveryComplete_def streak_of_def split: if_splits)
  show ?thesis using assms c k
    by (auto simp: isRecoveryComplete_def streak_of_def split: if_splits)
qed

text \<open>C34: a snapshot says Valid only on evidence: the newest accepted samples form a streak of at
  least the configured number, each of them within all limits and allowed to follow the one before
  it (later, not another sensor, no faster change than allowed), their time stamps span the stability
  duration, and the newest is not older than the maximum age. No other call can fake it.\<close>

theorem pipeline_valid_earned:
  assumes "sq_quality (snapshot now (pipelineAfter expd config calls)) = SQ_Valid"
  shows "\<exists>ss older. acceptedSamples expd calls (newPipeline config) = ss @ older \<and> ss \<noteq> [] \<and>
    streak config ss \<and> unat (sqc_minConsecutiveValidSamples config) \<le> length ss \<and>
    sqc_minRecoveryStabilityDurationMs config \<le>
      tr_monotonicTimestampMs (hd ss) - tr_monotonicTimestampMs (last ss) \<and>
    saturatingAgeMs now (tr_monotonicTimestampMs (hd ss)) \<le> sqc_maxStaleAgeMs config"
proof -
  let ?p = "pipelineAfter expd config calls"
  let ?h = "acceptedSamples expd calls (newPipeline config)"
  obtain k where k: "streak_of ?p ?h k" and c: "qp_config ?p = config"
    by (rule pipeline_streak)
  have v: "isRecoveryComplete ?p" "\<not> ageFailed now ?p"
    using assms by (auto simp: snapshot_def deriveQuality_def Let_def split: if_splits)
  note d = streak_complete [OF k v(1)]
  have l: "k \<le> length ?h" "streak config (take k ?h)"
    "qp_lastValidTimestampMs ?p = Some (tr_monotonicTimestampMs (hd ?h))"
    using k d c by (simp_all add: streak_of_def)
  have len: "length (take k ?h) = k" using l(1) by simp
  then have ne: "take k ?h \<noteq> []" using d by auto
  then have "last (take k ?h) = ?h ! (k - 1)" using len d by (simp add: last_conv_nth del: length_take)
  then have e: "hd (take k ?h) = hd ?h" "last (take k ?h) = ?h ! (k - 1)" "take k ?h \<noteq> []"
    "length (take k ?h) = k" using len ne d by simp_all
  have "saturatingAgeMs now (tr_monotonicTimestampMs (hd ?h)) \<le> sqc_maxStaleAgeMs config"
    using v(2) l(3) c by (simp add: ageFailed_def not_less)
  then show ?thesis using d l e c append_take_drop_id [of k ?h]
    by (intro exI [of _ "take k ?h"] exI [of _ "drop k ?h"]) simp
qed

section \<open>A sensor recovers\<close>

text \<open>Samples that each continue the streak and are delivered before the one before is too old.\<close>

fun steady_feed ::
  "SensorQualityConfig \<Rightarrow> TemperatureReading \<Rightarrow> (TemperatureReading \<times> u64) list \<Rightarrow> bool" where
  "steady_feed c a [] \<longleftrightarrow> True"
| "steady_feed c a ((b, now) # fs) \<longleftrightarrow>
     plausible c b \<and> follows c a b \<and> tr_monotonicTimestampMs b \<le> now \<and>
     saturatingAgeMs now (tr_monotonicTimestampMs a) \<le> sqc_maxStaleAgeMs c \<and> steady_feed c b fs"

lemma follows_rate:
  assumes "streak_of p (a # h) k" and "0 < k" and "follows (qp_config p) a b"
  shows "case changeRate (the (tr_celsius b)) (tr_monotonicTimestampMs b) p of None \<Rightarrow> True
    | Some r \<Rightarrow> \<not> flt (sqc_maxRateOfChangeCelsiusPerSecond (qp_config p)) r"
  using assms by (simp add: streak_of_def changeRate_def Let_def follows_def)

lemma feed_step:
  assumes k: "streak_of p (a # h) k" "0 < k" and b: "plausible (qp_config p) b"
    "follows (qp_config p) a b" "tr_monotonicTimestampMs b \<le> now"
    "saturatingAgeMs now (tr_monotonicTimestampMs a) \<le> sqc_maxStaleAgeMs (qp_config p)"
  shows "streak_of (snd (ingest expd b now p)) (b # a # h) (Suc k)"
proof -
  have l: "qp_lastAccepted p = Some a" "qp_lastValidTimestampMs p = Some (tr_monotonicTimestampMs a)"
    "qp_consecutiveInvalidCount p = 0" using k by (simp_all add: streak_of_def)
  have ab: "tr_monotonicTimestampMs a < tr_monotonicTimestampMs b" "sameSensor a b"
    using b(2) by (simp_all add: follows_def)
  have d: "determineDisposition b now p = SDP_Accepted"
  proof -
    have "tr_monotonicTimestampMs b \<noteq> tr_monotonicTimestampMs a"
      "\<not> tr_monotonicTimestampMs b < tr_monotonicTimestampMs a"
      "\<not> now < tr_monotonicTimestampMs b" using ab(1) b(3) by auto
    then show ?thesis using l(1) by (simp add: determineDisposition_def Let_def)
  qed
  have m: "identityMismatch b p = False"
    using l(1) ab(2) by (auto simp: identityMismatch_def sameSensor_def)
  have "\<not> ageFailed now p" "\<not> countFailed p"
    using l b(4) by (simp_all add: ageFailed_def countFailed_def not_less)
  then have "snd (ingest expd b now p) = judgeSample expd False b (noteAccepted b p)"
    using d m by (simp add: ingest_def)
  also have "\<dots> = acceptValid expd b (the (tr_celsius b)) ((noteAccepted b p)
      \<lparr>qp_changeRateCelsiusPerSecond :=
        changeRate (the (tr_celsius b)) (tr_monotonicTimestampMs b) (noteAccepted b p)\<rparr>)"
    by (rule judge_valid [OF _ refl refl])
      (use b(1) follows_rate [OF k b(2)] in \<open>simp_all only: noteAccepted_simps changeRate_simps\<close>)
  finally show ?thesis using streak_valid [OF k(1) b(1)] b(2) by simp
qed

definition feedCalls :: "(TemperatureReading \<times> u64) list \<Rightarrow> PipelineCall list" where
  "feedCalls = map (\<lambda>(b, now). PC_Ingest b now)"

lemma feed_streak:
  assumes "streak_of p (a # h) k" and "0 < k" and "steady_feed (qp_config p) a fs"
  shows "\<exists>q. fold (pipelineStep expd) (feedCalls fs) p = q \<and> qp_config q = qp_config p \<and>
    streak_of q (rev (map fst fs) @ a # h) (k + length fs)"
  using assms
proof (induction fs arbitrary: p a h k)
  case (Cons f fs)
  obtain b now where f: "f = (b, now)" by fastforce
  have s: "streak_of (snd (ingest expd b now p)) (b # a # h) (Suc k)"
    using Cons.prems f by (intro feed_step) simp_all
  have "steady_feed (qp_config (snd (ingest expd b now p))) b fs" using Cons.prems(3) f by simp
  from Cons.IH [OF s _ this] f show ?case by (simp add: feedCalls_def)
qed (simp add: feedCalls_def)

lemma streak_times:
  assumes "streak c (b # ss)"
  shows "tr_monotonicTimestampMs (last (b # ss)) \<le> tr_monotonicTimestampMs b"
  using assms
proof (induction ss arbitrary: b)
  case (Cons a ss)
  then have "tr_monotonicTimestampMs a < tr_monotonicTimestampMs b" by (simp add: follows_def)
  with Cons.IH [of a] Cons.prems show ?case by simp
qed simp

text \<open>C35: a sensor that has failed, or whose streak was just broken, recovers. From a plausible
  first sample on, as soon as the configured number of steady samples spans the stability duration,
  the snapshot says Valid while the last of them is not too old, whatever had happened before.\<close>

theorem pipeline_recovers:
  assumes "ageFailed now (pipelineAfter expd config calls) \<or>
      countFailed (pipelineAfter expd config calls) \<or>
      qp_recoveryProgressCount (pipelineAfter expd config calls) = 0"
    and "determineDisposition s now (pipelineAfter expd config calls) = SDP_Accepted"
    and "\<not> identityMismatch s (pipelineAfter expd config calls)"
    and "plausible config s" and "steady_feed config s fs"
    and "unat (sqc_minConsecutiveValidSamples config) \<le> Suc (length fs)"
    and "sqc_minRecoveryStabilityDurationMs config \<le>
      tr_monotonicTimestampMs (last (s # map fst fs)) - tr_monotonicTimestampMs s"
    and "saturatingAgeMs t (tr_monotonicTimestampMs (last (s # map fst fs))) \<le>
      sqc_maxStaleAgeMs config"
  shows "sq_quality (snapshot t (pipelineAfter expd config
    (calls @ PC_Ingest s now # feedCalls fs))) = SQ_Valid"
proof -
  let ?p = "pipelineAfter expd config calls"
  let ?h = "acceptedSamples expd calls (newPipeline config)"
  obtain k where k: "streak_of ?p ?h k" and c: "qp_config ?p = config"
    by (rule pipeline_streak)
  define p where "p = (if ageFailed now ?p \<or> countFailed ?p then enterFailed ?p else ?p)"
  have p: "streak_of p ?h 0" "qp_config p = config" "identityMismatch s p = False"
  proof -
    have "k = 0" if "qp_recoveryProgressCount ?p = 0" using k that by (auto simp: streak_of_def)
    then show "streak_of p ?h 0" using assms(1) k streak_failed [OF k] by (auto simp: p_def)
    show "qp_config p = config" by (simp add: p_def c)
    show "identityMismatch s p = False" using assms(3) by (simp add: p_def identityMismatch_def)
  qed
  define q where "q = snd (ingest expd s now ?p)"
  have "q = judgeSample expd False s (noteAccepted s p)"
    using assms(2) p(3) by (simp add: q_def ingest_def Let_def p_def)
  also have "\<dots> = acceptValid expd s (the (tr_celsius s)) ((noteAccepted s p)
      \<lparr>qp_changeRateCelsiusPerSecond :=
        changeRate (the (tr_celsius s)) (tr_monotonicTimestampMs s) (noteAccepted s p)\<rparr>)"
    using assms(4) p by (intro judge_valid) (simp_all add: changeRate_def streak_of_def)
  finally have q: "streak_of q (s # ?h) (Suc 0)"
    using streak_valid [OF p(1)] assms(4) p(2) by simp
  have qc: "qp_config q = config" by (simp add: q_def c)
  define r where "r = fold (pipelineStep expd) (feedCalls fs) q"
  have r: "qp_config r = config" "streak_of r (rev (map fst fs) @ s # ?h) (Suc (length fs))"
    using feed_streak [OF q, of fs expd] assms(5) qc by (simp_all add: r_def)
  have run: "pipelineAfter expd config (calls @ PC_Ingest s now # feedCalls fs) = r"
    by (simp add: pipelineAfter_def r_def q_def)
  let ?g = "rev (map fst fs) @ s # ?h"
  have hd: "hd ?g = last (s # map fst fs)" by (cases fs rule: rev_cases) simp_all
  have nth: "?g ! (Suc (length fs) - 1) = s" by (simp add: nth_append)
  have "take (Suc (length fs)) ?g = rev (map fst fs) @ [s]" by simp
  then have st: "streak config (rev (map fst fs) @ [s])" using r by (simp add: streak_of_def)
  then have le: "tr_monotonicTimestampMs s \<le> tr_monotonicTimestampMs (hd ?g)"
    by (cases "rev (map fst fs)") (use streak_times in fastforce)+
  have cnt: "\<not> qp_recoveryProgressCount r < sqc_minConsecutiveValidSamples config"
  proof -
    have "unat (sqc_minConsecutiveValidSamples config) \<le> 65535"
      using unsigned_less [of "sqc_minConsecutiveValidSamples config", where 'a = nat] by simp
    then have "unat (sqc_minConsecutiveValidSamples config) \<le> unat (qp_recoveryProgressCount r)"
      using r(2) assms(6) by (simp add: streak_of_def)
    then show ?thesis by (simp add: word_less_nat_alt not_less)
  qed
  have "isRecoveryComplete r"
    using r cnt le assms(7) unfolding isRecoveryComplete_def
    by (simp add: streak_of_def nth [simplified] hd del: last.simps)
  moreover have "\<not> ageFailed t r" "\<not> countFailed r"
    using r assms(8) by (simp_all add: streak_of_def ageFailed_def countFailed_def hd not_less del: last.simps)
  ultimately show ?thesis unfolding run by (simp add: snapshot_def deriveQuality_def Let_def)
qed

section \<open>The controller can read it\<close>

text \<open>C36: with a configuration and calibrations that passed their construction, and an exponential
  function that stays in the unit interval, a valid snapshot always carries a finite filtered value,
  so the controller reads a value exactly when the sensor is Valid and never finds a broken sample.\<close>

theorem pipeline_valid_readable:
  assumes "scc_config (createSensorQualityConfig c) = Some config" and "exp_contract expd"
    and "list_all validCall calls"
  shows "fst (readControlSensorValue (snapshot now (pipelineAfter expd config calls)) out) =
    (if sq_quality (snapshot now (pipelineAfter expd config calls)) = SQ_Valid
     then CSV_Valid else CSV_Unavailable)"
proof -
  let ?p = "pipelineAfter expd config calls"
  have i: "filter_inv ?p" by (rule filter_inv_after [OF assms])
  obtain k where k: "streak_of ?p (acceptedSamples expd calls (newPipeline config)) k"
    by (rule pipeline_streak)
  show ?thesis
  proof (cases "sq_quality (snapshot now ?p) = SQ_Valid")
    case True
    then have v: "isRecoveryComplete ?p" "dq_quality (deriveQuality now ?p) = SQ_Valid"
      by (auto simp: snapshot_def deriveQuality_def Let_def split: if_splits)
    then have "0 < k" using streak_complete [OF k] by blast
    then have "qp_recoveryProgressCount ?p \<noteq> 0" using k by (auto simp: streak_of_def unat_eq_zero)
    then obtain x where "lp_filteredValue (qp_lowPassFilter ?p) = Some x" "isfinite x"
      using i by (auto simp: filter_inv_def dest!: bounded_by_SomeD)
    then show ?thesis using True v(2) by (simp add: readControlSensorValue_def snapshot_def Let_def)
  qed (simp add: readControlSensorValue_def)
qed

section \<open>An example\<close>

text \<open>Two samples of 20 degrees, one second apart, after a sensor that failed on the bus.\<close>

definition exs_config :: SensorQualityConfig where
  "exs_config = \<lparr>sqc_medianWindowSize = 3, sqc_lowPassTauSeconds = F64 5,
     sqc_minPlausibleCelsius = F64 0, sqc_maxPlausibleCelsius = F64 60,
     sqc_maxRateOfChangeCelsiusPerSecond = F64 2, sqc_maxStaleAgeMs = 5000,
     sqc_maxConsecutiveInvalid = 1, sqc_minConsecutiveValidSamples = 2,
     sqc_minRecoveryStabilityDurationMs = 1000\<rparr>"

definition exs_sample :: "u64 \<Rightarrow> TemperatureReading" where
  "exs_sample t = \<lparr>tr_identity = Some (SensorIdentity 7), tr_monotonicTimestampMs = t,
     tr_status = TSS_Ok, tr_celsius = Some (F64 20)\<rparr>"

definition exs_broken :: "u64 \<Rightarrow> TemperatureReading" where
  "exs_broken t = \<lparr>tr_identity = None, tr_monotonicTimestampMs = t,
     tr_status = TSS_BusFault, tr_celsius = None\<rparr>"

definition exs_exp :: "f64 \<Rightarrow> f64" where
  "exs_exp x = (if fle x (F64 0) then F64 (1 / 2) else F64 2)"

lemma exs_created: "scc_config (createSensorQualityConfig exs_config) = Some exs_config"
  by (simp add: createSensorQualityConfig_def exs_config_def kMaxMedianWindowSize_def
      kAbsoluteMinCelsius_def kAbsoluteMaxCelsius_def kMaxStaleAgeCeilingMs_def
      kMaxConsecutiveInvalidCeiling_def kMaxConsecutiveValidSamplesCeiling_def
      kMaxRecoveryStabilityDurationCeilingMs_def)

lemma exs_contract: "exp_contract exs_exp"
  unfolding exp_contract_def by (intro allI impI exI [of _ "1 / 2"]) (simp add: exs_exp_def)

lemma exs_plausible: "plausible exs_config (exs_sample t)"
  by (simp add: plausible_def exs_sample_def exs_config_def kAbsoluteMinCelsius_def
      kAbsoluteMaxCelsius_def)

lemma exs_rate: "fdiv (f64_of_u64 1000) (F64 1000) = F64 1"
  using round64_of_nat [of 1000] round64_of_nat [of 1] by (simp add: f64_of_u64_def)

lemma exs_follows: "follows exs_config (exs_sample 1000) (exs_sample 2000)"
  using exs_rate by (simp add: follows_def exs_sample_def exs_config_def sameSensor_def fsub_def
      round64_def del: fdiv.simps) (simp add: round64_def)

definition exs_calls :: "PipelineCall list" where
  "exs_calls = [PC_Ingest (exs_sample 1000) 1000, PC_Ingest (exs_sample 2000) 2000]"

lemma exs_valid: "sq_quality (snapshot 2500 (pipelineAfter exs_exp exs_config exs_calls)) = SQ_Valid"
proof -
  let ?q = "snd (ingest exs_exp (exs_sample 1000) 1000 (newPipeline exs_config))"
  have d: "determineDisposition (exs_sample 1000) 1000 (newPipeline exs_config) = SDP_Accepted"
    by (simp add: determineDisposition_def newPipeline_def exs_sample_def)
  have p: "streak_of (newPipeline exs_config) [] 0" "qp_config (newPipeline exs_config) = exs_config"
    using streak_new by (simp_all add: newPipeline_def)
  have "?q = judgeSample exs_exp False (exs_sample 1000)
      (noteAccepted (exs_sample 1000) (newPipeline exs_config))"
    using d by (simp add: ingest_def ageFailed_def countFailed_def newPipeline_def identityMismatch_def)
  also have "\<dots> = acceptValid exs_exp (exs_sample 1000) (the (tr_celsius (exs_sample 1000)))
      ((noteAccepted (exs_sample 1000) (newPipeline exs_config))\<lparr>qp_changeRateCelsiusPerSecond := None\<rparr>)"
    using p exs_plausible by (intro judge_valid) (simp_all add: changeRate_def newPipeline_def)
  finally have q: "streak_of ?q [exs_sample 1000] (Suc 0)"
    using streak_valid [OF p(1)] p(2) exs_plausible by simp
  have "streak_of (snd (ingest exs_exp (exs_sample 2000) 2000 ?q))
      [exs_sample 2000, exs_sample 1000] (Suc (Suc 0))"
    by (rule feed_step [OF q])
      (simp_all add: p exs_plausible exs_follows, simp_all add: exs_sample_def exs_config_def saturatingAgeMs_def)
  then have s: "streak_of (pipelineAfter exs_exp exs_config exs_calls)
      [exs_sample 2000, exs_sample 1000] (Suc (Suc 0))"
    "qp_config (pipelineAfter exs_exp exs_config exs_calls) = exs_config"
    by (simp_all add: pipelineAfter_def exs_calls_def p)
  define r where "r = pipelineAfter exs_exp exs_config exs_calls"
  have "unat (qp_recoveryProgressCount r) = 2" using s by (simp add: r_def streak_of_def)
  then have "qp_recoveryProgressCount r = 2" by (simp add: word_unat_eq_iff)
  then show ?thesis using s unfolding r_def [symmetric]
    by (simp add: snapshot_def deriveQuality_def Let_def isRecoveryComplete_def streak_of_def
        ageFailed_def countFailed_def exs_sample_def exs_config_def saturatingAgeMs_def)
qed

theorem pipeline_valid_earned_witness:
  "\<exists>ss older. acceptedSamples exs_exp exs_calls (newPipeline exs_config) = ss @ older \<and> ss \<noteq> [] \<and>
    streak exs_config ss \<and> unat (sqc_minConsecutiveValidSamples exs_config) \<le> length ss \<and>
    sqc_minRecoveryStabilityDurationMs exs_config \<le>
      tr_monotonicTimestampMs (hd ss) - tr_monotonicTimestampMs (last ss) \<and>
    saturatingAgeMs 2500 (tr_monotonicTimestampMs (hd ss)) \<le> sqc_maxStaleAgeMs exs_config"
  by (rule pipeline_valid_earned [OF exs_valid])

definition exs_failing :: "PipelineCall list" where
  "exs_failing = [PC_Ingest (exs_broken 100) 100, PC_Ingest (exs_broken 200) 200]"

lemma exs_failed:
  "qp_recoveryProgressCount (pipelineAfter expd exs_config exs_failing) = 0"
  "qp_lastAccepted (pipelineAfter expd exs_config exs_failing) = Some (exs_broken 200)"
  by (simp_all add: pipelineAfter_def exs_failing_def ingest_def determineDisposition_def Let_def
      newPipeline_def exs_broken_def judgeSample_def identityMismatch_def noteAccepted_def
      recordInvalidSample_def ageFailed_def countFailed_def exs_config_def saturatingIncrement_def)

theorem pipeline_recovers_witness:
  "sq_quality (snapshot 2500 (pipelineAfter exs_exp exs_config
    (exs_failing @ PC_Ingest (exs_sample 1000) 1000 # feedCalls [(exs_sample 2000, 2000)]))) = SQ_Valid"
proof (rule pipeline_recovers [where config = exs_config])
  show "ageFailed 1000 (pipelineAfter exs_exp exs_config exs_failing) \<or>
      countFailed (pipelineAfter exs_exp exs_config exs_failing) \<or>
      qp_recoveryProgressCount (pipelineAfter exs_exp exs_config exs_failing) = 0"
    using exs_failed by blast
  show "determineDisposition (exs_sample 1000) 1000 (pipelineAfter exs_exp exs_config exs_failing) =
      SDP_Accepted"
    by (simp add: determineDisposition_def exs_failed exs_sample_def exs_broken_def)
  show "\<not> identityMismatch (exs_sample 1000) (pipelineAfter exs_exp exs_config exs_failing)"
    by (simp add: identityMismatch_def exs_failed exs_sample_def exs_broken_def)
  show "steady_feed exs_config (exs_sample 1000) [(exs_sample 2000, 2000)]"
    by (simp add: exs_follows exs_plausible)
      (simp add: exs_sample_def exs_config_def saturatingAgeMs_def)
qed (simp_all add: exs_plausible, simp_all add: exs_sample_def exs_config_def saturatingAgeMs_def)

theorem pipeline_valid_readable_witness:
  "fst (readControlSensorValue (snapshot 2500 (pipelineAfter exs_exp exs_config exs_calls)) (F64 0)) =
   CSV_Valid"
  using pipeline_valid_readable [OF exs_created exs_contract, of exs_calls 2500 "F64 0"] exs_valid
  by (simp add: exs_calls_def validCall_def)

end
