(* ===== verification/ActuatorPlanner.thy ===== *)
theory ActuatorPlanner
  imports ControlTypes
begin

text \<open>
  The actuator planner (\<open>actuator_plan_types.hpp\<close>, \<open>actuator_planner.hpp\<close>,
  \<open>actuator_planner.cpp\<close>): it turns the control request of the temperature control into a physical
  direction of the Peltier element and the two fans, tick by tick. It keeps minimum on and off
  times, the dead time between opposite directions, the pulse accumulator of small demands, the
  confirmation of a change of direction, the watchdog over the requests, the fan run-on, and the
  feedback on the request that it serves.

  The private methods work on the parameters and the state of the object; here each is a function
  that takes the parameters \<open>p\<close> and the state \<open>s\<close> and returns the new state, with the result where
  the method has one.
\<close>

section \<open>Types\<close>

datatype ActuatorSafetyGateStatus = ASG_Unresolved | ASG_Allowed | ASG_ImmediateStop | ASG_other u8

record ActuatorSafetyGateInput =
  asg_status :: ActuatorSafetyGateStatus

record ActuatorWatchdogFaultEvidence =
  wfe_detectedAtMonotonicMillis :: u64
  wfe_lastObservedSequenceHighWatermarkBeforeFault :: u64

datatype ActuatorDemandClass =
    ADC_NoValidRequest
  | ADC_NeutralOff
  | ADC_AirLimitBlockedOff
  | ADC_AirLimitReducedDemand
  | ADC_NormalDemand

definition classifyActuatorDemand :: "TemperatureControlResult \<Rightarrow> ActuatorDemandClass" where
  "classifyActuatorDemand r =
     (case tcr_status r of
        TCS_Unavailable \<Rightarrow> ADC_NoValidRequest
      | TCS_InvalidInput \<Rightarrow> ADC_NoValidRequest
      | TCS_Off \<Rightarrow>
          (if tcr_reason r = TCR_AirLimitBlocked then ADC_AirLimitBlockedOff else ADC_NeutralOff)
      | TCS_Demand \<Rightarrow>
          (if tcr_reason r = TCR_AirLimitReduced then ADC_AirLimitReducedDemand
           else ADC_NormalDemand)
      | TCS_other _ \<Rightarrow> ADC_NoValidRequest)"

datatype ActuatorPlanStatus = APS_Active | APS_Idle | APS_Unconfigured | APS_InvalidInput

datatype ActuatorPlanReason =
    APR_MalformedInput
  | APR_NoCommissioning
  | APR_InvalidConfiguration
  | APR_TimeInvalid
  | APR_SafetyGateUnresolved
  | APR_ExternalSafetyOverride
  | APR_RequestWatchdogFaultLatched
  | APR_StaleRequestWatchdog
  | APR_NoValidRequest
  | APR_StaleRequestContext
  | APR_MinimumOnTimeHeld
  | APR_MinimumOffTimeHeld
  | APR_PolarityDeadTimeHeld
  | APR_DirectionChangeApplied
  | APR_NeutralIdle
  | APR_AirLimitBlocked
  | APR_AccumulatingBelowThreshold
  | APR_MinimumPulseTriggered
  | APR_CounterDirectionConfirming
  | APR_WindowPulseMissed
  | APR_ScheduledWithinWindow

record PulseAccumulator =
  acc_direction :: AbstractControlDirection
  acc_accumulatedMillis :: f64

definition emptyAccumulator :: PulseAccumulator where
  "emptyAccumulator = \<lparr>acc_direction = Dir_Idle, acc_accumulatedMillis = F64 0\<rparr>"

datatype ActuatorAdmissionOutcome =
    AAO_NoCandidate
  | AAO_Accepted
  | AAO_MalformedCandidate
  | AAO_MalformedSafetyGate
  | AAO_DuplicateOrOldSequence
  | AAO_StaleOnArrivalWatchdog
  | AAO_StaleOnArrivalContext

record ActuatorPlannerParameters =
  par_switchingWindowMillis :: u64
  par_minimumOnMillis :: u64
  par_minimumOffMillis :: u64
  par_polarityDeadTimeMillis :: u64
  par_pulseAccumulatorCapMillis :: u64
  par_counterDirectionQuoteThreshold :: f64
  par_counterDirectionDurationMillis :: u64
  par_requestWatchdogMillis :: u64
  par_outerFanPostRunMillis :: u64
  par_innerFanPostRunMillis :: u64

definition unconfiguredParameters :: ActuatorPlannerParameters where
  "unconfiguredParameters =
     \<lparr>par_switchingWindowMillis = 0, par_minimumOnMillis = 0, par_minimumOffMillis = 0,
      par_polarityDeadTimeMillis = 0, par_pulseAccumulatorCapMillis = 0,
      par_counterDirectionQuoteThreshold = F64 0, par_counterDirectionDurationMillis = 0,
      par_requestWatchdogMillis = 0, par_outerFanPostRunMillis = 0,
      par_innerFanPostRunMillis = 0\<rparr>"

datatype ActuatorPlannerParametersValidation = APV_Unconfigured | APV_Valid | APV_Invalid

definition classifyActuatorPlannerParameters ::
  "ActuatorPlannerParameters \<Rightarrow> ActuatorPlannerParametersValidation" where
  "classifyActuatorPlannerParameters p =
     (let allZero =
        par_switchingWindowMillis p = 0 \<and> par_minimumOnMillis p = 0 \<and>
        par_minimumOffMillis p = 0 \<and> par_polarityDeadTimeMillis p = 0 \<and>
        par_pulseAccumulatorCapMillis p = 0 \<and>
        feq (par_counterDirectionQuoteThreshold p) (F64 0) \<and>
        par_counterDirectionDurationMillis p = 0 \<and> par_requestWatchdogMillis p = 0 \<and>
        par_outerFanPostRunMillis p = 0 \<and> par_innerFanPostRunMillis p = 0 in
      if allZero then APV_Unconfigured
      else if 0 < par_switchingWindowMillis p \<and> 0 < par_minimumOnMillis p \<and>
        par_minimumOnMillis p \<le> par_switchingWindowMillis p \<and>
        0 < par_minimumOffMillis p \<and> 0 < par_polarityDeadTimeMillis p \<and>
        par_minimumOnMillis p \<le> par_pulseAccumulatorCapMillis p \<and>
        isfinite (par_counterDirectionQuoteThreshold p) \<and>
        flt (F64 0) (par_counterDirectionQuoteThreshold p) \<and>
        fle (par_counterDirectionQuoteThreshold p) (F64 1) \<and>
        0 < par_counterDirectionDurationMillis p \<and> 0 < par_requestWatchdogMillis p \<and>
        0 < par_outerFanPostRunMillis p \<and> par_switchingWindowMillis p \<le> 9007199254740992
      then APV_Valid else APV_Invalid)"

record AcceptedControlCommand =
  cmd_sequence :: u64
  cmd_direction :: AbstractControlDirection
  cmd_timeQuote :: f64
  cmd_demandClass :: ActuatorDemandClass
  cmd_contextAtAcceptance :: ControlRequestContext

record ActiveSwitchingWindow =
  win_startMonotonicMillis :: u64
  win_direction :: AbstractControlDirection
  win_sourceRequestSequence :: u64
  win_scheduledOnMillis :: u64
  win_pulseStartAttempted :: bool
  win_minimumPulseFromAccumulator :: bool
  win_pulseStartedSuccessfully :: bool

record PendingControlRequestFeedback =
  pcr_sequence :: u64
  pcr_disposition :: Disposition

record PendingControlRequestFeedbackUpdate =
  pfu_changed :: bool
  pfu_feedback :: "PreviousControlRequestFeedback option"

record ActuatorPlannerRuntimeState =
  pl_acceptedCommand :: "AcceptedControlCommand option"
  pl_activeWindow :: "ActiveSwitchingWindow option"
  pl_accumulator :: PulseAccumulator
  pl_lastAppliedDirection :: AbstractControlDirection
  pl_onPhaseStartedAt :: "u64 option"
  pl_deactivationDirection :: "AbstractControlDirection option"
  pl_deactivationAt :: "u64 option"
  pl_counterCandidate :: "AbstractControlDirection option"
  pl_counterObservedSince :: u64
  pl_counterConfirmed :: bool
  pl_sequenceHighWatermark :: "u64 option"
  pl_lastNewRequestAt :: "u64 option"
  pl_watchdogEpisodeStartedAt :: "u64 option"
  pl_latchedWatchdogFault :: "ActuatorWatchdogFaultEvidence option"
  pl_feedbackSubject :: "u64 option"
  pl_pendingFeedback :: "PendingControlRequestFeedback option"
  pl_pendingFeedbackUpdateAvailable :: bool
  pl_outerFanActive :: bool
  pl_outerFanDeactivationRequestedAt :: "u64 option"
  pl_outerFanTeardownDeadline :: "u64 option"
  pl_innerFanActive :: bool
  pl_innerFanDeactivationRequestedAt :: "u64 option"
  pl_innerFanTeardownDeadline :: "u64 option"

definition initialPlannerState :: ActuatorPlannerRuntimeState where
  "initialPlannerState =
     \<lparr>pl_acceptedCommand = None, pl_activeWindow = None, pl_accumulator = emptyAccumulator,
      pl_lastAppliedDirection = Dir_Idle, pl_onPhaseStartedAt = None,
      pl_deactivationDirection = None, pl_deactivationAt = None, pl_counterCandidate = None,
      pl_counterObservedSince = 0, pl_counterConfirmed = False,
      pl_sequenceHighWatermark = None, pl_lastNewRequestAt = None,
      pl_watchdogEpisodeStartedAt = None, pl_latchedWatchdogFault = None,
      pl_feedbackSubject = None, pl_pendingFeedback = None,
      pl_pendingFeedbackUpdateAvailable = False, pl_outerFanActive = False,
      pl_outerFanDeactivationRequestedAt = None, pl_outerFanTeardownDeadline = None,
      pl_innerFanActive = False, pl_innerFanDeactivationRequestedAt = None,
      pl_innerFanTeardownDeadline = None\<rparr>"

record ActuatorPlanTickInput =
  pti_nowMonotonicMillis :: u64
  pti_newEvaluation :: "TemperatureControlResult option"
  pti_currentCanonicalContext :: ControlRequestContext
  pti_temperatureControlledPhase :: bool
  pti_safetyGate :: ActuatorSafetyGateInput

record ActuatorPlanTickResult =
  ptr_status :: ActuatorPlanStatus
  ptr_reason :: ActuatorPlanReason
  ptr_appliedDirection :: AbstractControlDirection
  ptr_outerFanEnabled :: bool
  ptr_innerFanEnabled :: bool
  ptr_counterDirectionConfirming :: bool
  ptr_admissionOutcome :: ActuatorAdmissionOutcome
  ptr_acceptedCommandSequence :: "u64 option"
  ptr_watchdogFaultActive :: bool

section \<open>Time, values and structural checks\<close>

definition deadlineReached :: "u64 \<Rightarrow> u64 \<Rightarrow> u64 \<Rightarrow> bool" where
  "deadlineReached now since durationMillis =
     (if now < since then False else durationMillis \<le> now - since)"

definition saturatingDeadline :: "u64 \<Rightarrow> u64 \<Rightarrow> u64" where
  "saturatingDeadline start duration =
     (if u64_max - start < duration then u64_max else start + duration)"

definition retainLaterDeadline :: "u64 option \<Rightarrow> u64 \<Rightarrow> u64 option" where
  "retainLaterDeadline deadline candidate =
     (case deadline of
        None \<Rightarrow> Some candidate
      | Some d \<Rightarrow> if d < candidate then Some candidate else Some d)"

definition roundHalfUp :: "f64 \<Rightarrow> f64" where
  "roundHalfUp v = ffloor (fadd v (F64 (1 / 2)))"

definition isKnownDirection :: "AbstractControlDirection \<Rightarrow> bool" where
  "isKnownDirection d =
     (case d of Dir_Heating \<Rightarrow> True | Dir_Cooling \<Rightarrow> True | Dir_Idle \<Rightarrow> True
      | Dir_Unknown \<Rightarrow> False | Dir_other _ \<Rightarrow> False)"

definition isKnownStatus :: "TemperatureControlStatus \<Rightarrow> bool" where
  "isKnownStatus st = (case st of TCS_other _ \<Rightarrow> False | _ \<Rightarrow> True)"

definition isKnownSafetyGateStatus :: "ActuatorSafetyGateStatus \<Rightarrow> bool" where
  "isKnownSafetyGateStatus st = (case st of ASG_other _ \<Rightarrow> False | _ \<Rightarrow> True)"

definition isKnownSensorRole :: "ControlSensorRole \<Rightarrow> bool" where
  "isKnownSensorRole r = (case r of CSR_other _ \<Rightarrow> False | _ \<Rightarrow> True)"

definition isKnownReason :: "TemperatureControlReason \<Rightarrow> bool" where
  "isKnownReason r = (case r of TCR_other _ \<Rightarrow> False | _ \<Rightarrow> True)"

definition isKnownAirLimitState :: "AirLimitState \<Rightarrow> bool" where
  "isKnownAirLimitState a = (case a of ALS_other _ \<Rightarrow> False | _ \<Rightarrow> True)"

definition isStructurallyValidContext :: "ControlRequestContext \<Rightarrow> bool" where
  "isStructurallyValidContext c = isKnownSensorRole (ctx_controlSensorRole c)"

definition isFiniteUnitQuote :: "f64 \<Rightarrow> bool" where
  "isFiniteUnitQuote q \<longleftrightarrow> isfinite q \<and> fle (F64 0) q \<and> fle q (F64 1)"

definition contextsMatch :: "ControlRequestContext \<Rightarrow> ControlRequestContext \<Rightarrow> bool" where
  "contextsMatch l r \<longleftrightarrow>
     ctx_processTransitionSequence l = ctx_processTransitionSequence r \<and>
     ctx_runRevision l = ctx_runRevision r \<and>
     ctx_controlSensorRole l = ctx_controlSensorRole r"

definition feedbackSeverity :: "Disposition \<Rightarrow> int" where
  "feedbackSeverity d =
     (case d of FD_NoIntegratorConstraint \<Rightarrow> 0 | FD_DeferredOrLimited \<Rightarrow> 1 | FD_Rejected \<Rightarrow> 2)"

definition isDownstreamLimitedReason :: "ActuatorPlanReason \<Rightarrow> bool" where
  "isDownstreamLimitedReason r \<longleftrightarrow>
     r \<in> {APR_MinimumOnTimeHeld, APR_MinimumOffTimeHeld, APR_PolarityDeadTimeHeld,
          APR_AccumulatingBelowThreshold, APR_CounterDirectionConfirming,
          APR_DirectionChangeApplied, APR_WindowPulseMissed}"

text \<open>
  The check of a new evaluation, in three parts: what the status requires of request, reason,
  direction and quote; what the air limit may be without a request; what it may be with one.
\<close>

definition evaluationMatchesStatus :: "TemperatureControlResult \<Rightarrow> bool" where
  "evaluationMatchesStatus e =
     (let requestPresent = tcr_controlRequest e \<noteq> None;
          reason = tcr_reason e;
          idle = tcr_direction e = Dir_Idle \<and> feq (tcr_timeQuote e) (F64 0) in
      case tcr_status e of
        TCS_Demand \<Rightarrow>
          requestPresent \<and>
          (reason = TCR_None \<or> reason = TCR_Saturated \<or> reason = TCR_AirLimitReduced) \<and>
          (tcr_direction e = Dir_Heating \<or> tcr_direction e = Dir_Cooling) \<and>
          flt (F64 0) (tcr_timeQuote e)
      | TCS_Off \<Rightarrow>
          requestPresent \<and>
          (reason = TCR_NeutralBand \<or> reason = TCR_AirLimitBlocked) \<and> idle
      | TCS_Unavailable \<Rightarrow>
          \<not> requestPresent \<and>
          (reason = TCR_NoCommissioning \<or> reason = TCR_SensorUnavailable) \<and> idle
      | TCS_InvalidInput \<Rightarrow>
          \<not> requestPresent \<and>
          (reason = TCR_InvalidConfiguration \<or> reason = TCR_InvalidSample \<or>
           reason = TCR_TimeInvalid \<or> reason = TCR_RequestIdentityExhausted) \<and> idle
      | TCS_other _ \<Rightarrow> True)"

definition airLimitMatchesRole :: "TemperatureControlResult \<Rightarrow> ControlSensorRole \<Rightarrow> bool" where
  "airLimitMatchesRole e role =
     (case role of
        CSR_Air \<Rightarrow>
          tcr_reason e \<noteq> TCR_AirLimitReduced \<and> tcr_reason e \<noteq> TCR_AirLimitBlocked \<and>
          tcr_airLimitState e = ALS_NotApplied
      | CSR_Product \<Rightarrow>
          (if tcr_status e = TCS_Demand then
             (if tcr_reason e = TCR_AirLimitReduced then tcr_airLimitState e = ALS_Reduced
              else tcr_airLimitState e = ALS_Unrestricted)
           else
             (if tcr_reason e = TCR_AirLimitBlocked then tcr_airLimitState e = ALS_Blocked
              else tcr_airLimitState e = ALS_Unrestricted))
      | CSR_other _ \<Rightarrow> True)"

definition isStructurallyValidEvaluation :: "TemperatureControlResult \<Rightarrow> bool" where
  "isStructurallyValidEvaluation e =
     (if \<not> isKnownStatus (tcr_status e) \<or> \<not> isKnownDirection (tcr_direction e) \<or>
         \<not> isKnownReason (tcr_reason e) \<or> \<not> isKnownAirLimitState (tcr_airLimitState e) \<or>
         \<not> isFiniteUnitQuote (tcr_timeQuote e) then False
      else if \<not> evaluationMatchesStatus e then False
      else case tcr_controlRequest e of
        None \<Rightarrow> tcr_airLimitState e \<noteq> ALS_Reduced \<and> tcr_airLimitState e \<noteq> ALS_Blocked
      | Some request \<Rightarrow>
          if \<not> isKnownDirection (creq_direction request) \<or>
             \<not> isFiniteUnitQuote (creq_timeQuote request) then False
          else if creq_direction request \<noteq> tcr_direction e \<or>
                  \<not> feq (creq_timeQuote request) (tcr_timeQuote e) then False
          else if id_sequence (creq_identity request) = 0 then False
          else if \<not> isStructurallyValidContext (creq_context request) then False
          else airLimitMatchesRole e (ctx_controlSensorRole (creq_context request)))"

section \<open>State updates\<close>

definition plannedDirection :: "ActuatorPlannerRuntimeState \<Rightarrow> AbstractControlDirection" where
  "plannedDirection s =
     (case pl_activeWindow s of None \<Rightarrow> Dir_Idle | Some w \<Rightarrow> win_direction w)"

definition physicalDirection :: "ActuatorPlannerRuntimeState \<Rightarrow> AbstractControlDirection" where
  "physicalDirection s = pl_lastAppliedDirection s"

definition setPhysicalDirection ::
  "ActuatorPlannerParameters \<Rightarrow> AbstractControlDirection \<Rightarrow> u64 \<Rightarrow> ActuatorPlannerRuntimeState \<Rightarrow>
     ActuatorPlannerRuntimeState" where
  "setPhysicalDirection p nextDir now s =
     (if pl_lastAppliedDirection s = nextDir then s
      else let s = (if pl_lastAppliedDirection s \<noteq> Dir_Idle then
              s\<lparr>pl_deactivationDirection := Some (pl_lastAppliedDirection s),
                pl_deactivationAt := Some now, pl_onPhaseStartedAt := None,
                pl_outerFanActive := True, pl_outerFanDeactivationRequestedAt := Some now,
                pl_outerFanTeardownDeadline :=
                  retainLaterDeadline (pl_outerFanTeardownDeadline s)
                    (saturatingDeadline now (par_outerFanPostRunMillis p))\<rparr>
            else s);
          s = (if nextDir \<noteq> Dir_Idle then
              s\<lparr>pl_onPhaseStartedAt := Some now, pl_outerFanActive := True,
                pl_outerFanDeactivationRequestedAt := None\<rparr>
            else s) in
      s\<lparr>pl_lastAppliedDirection := nextDir\<rparr>)"

definition resetCounterDirection ::
  "ActuatorPlannerRuntimeState \<Rightarrow> ActuatorPlannerRuntimeState" where
  "resetCounterDirection s =
     s\<lparr>pl_counterCandidate := None, pl_counterObservedSince := 0, pl_counterConfirmed := False\<rparr>"

definition clearPlanningState ::
  "ActuatorPlannerRuntimeState \<Rightarrow> ActuatorPlannerRuntimeState" where
  "clearPlanningState s =
     resetCounterDirection (s\<lparr>pl_acceptedCommand := None, pl_activeWindow := None,
                              pl_accumulator := emptyAccumulator\<rparr>)"

definition mergeFeedback ::
  "u64 \<Rightarrow> Disposition \<Rightarrow> ActuatorPlannerRuntimeState \<Rightarrow> ActuatorPlannerRuntimeState" where
  "mergeFeedback sequence disposition s =
     (if sequence = 0 then s
      else case pl_pendingFeedback s of
        None \<Rightarrow>
          s\<lparr>pl_pendingFeedback :=
              Some \<lparr>pcr_sequence = sequence, pcr_disposition = disposition\<rparr>,
            pl_pendingFeedbackUpdateAvailable := True\<rparr>
      | Some f \<Rightarrow>
          if pcr_sequence f \<noteq> sequence then
            s\<lparr>pl_pendingFeedback :=
                Some \<lparr>pcr_sequence = sequence, pcr_disposition = disposition\<rparr>,
              pl_pendingFeedbackUpdateAvailable := True\<rparr>
          else if feedbackSeverity (pcr_disposition f) < feedbackSeverity disposition then
            s\<lparr>pl_pendingFeedback := Some (f\<lparr>pcr_disposition := disposition\<rparr>),
              pl_pendingFeedbackUpdateAvailable := True\<rparr>
          else s)"

definition mergeFeedbackForDemand ::
  "AcceptedControlCommand \<Rightarrow> ActuatorPlanReason \<Rightarrow> ActuatorPlannerRuntimeState \<Rightarrow>
     ActuatorPlannerRuntimeState" where
  "mergeFeedbackForDemand command reason s =
     (if pl_feedbackSubject s \<noteq> Some (cmd_sequence command) then s
      else mergeFeedback (cmd_sequence command)
             (if isDownstreamLimitedReason reason then FD_DeferredOrLimited
              else FD_NoIntegratorConstraint) s)"

definition updateFanState ::
  "ActuatorPlannerParameters \<Rightarrow> u64 \<Rightarrow> bool \<Rightarrow> ActuatorPlannerRuntimeState \<Rightarrow>
     ActuatorPlannerRuntimeState" where
  "updateFanState p now temperatureControlledPhase s =
     (let s = (if pl_lastAppliedDirection s \<noteq> Dir_Idle then
                 s\<lparr>pl_outerFanActive := True, pl_outerFanDeactivationRequestedAt := None\<rparr>
               else if pl_outerFanActive s \<and> pl_outerFanDeactivationRequestedAt s \<noteq> None \<and>
                       (case pl_outerFanTeardownDeadline s of
                          None \<Rightarrow> False | Some d \<Rightarrow> deadlineReached now 0 d) then
                 s\<lparr>pl_outerFanActive := False, pl_outerFanTeardownDeadline := None\<rparr>
               else s) in
      if temperatureControlledPhase then
        s\<lparr>pl_innerFanActive := True, pl_innerFanDeactivationRequestedAt := None\<rparr>
      else let s = (if pl_innerFanActive s \<and> pl_innerFanDeactivationRequestedAt s = None then
             s\<lparr>pl_innerFanDeactivationRequestedAt := Some now,
               pl_innerFanTeardownDeadline :=
                 retainLaterDeadline (pl_innerFanTeardownDeadline s)
                   (saturatingDeadline now (par_innerFanPostRunMillis p))\<rparr>
           else s) in
      if pl_innerFanActive s \<and>
         (case pl_innerFanTeardownDeadline s of
            None \<Rightarrow> False | Some d \<Rightarrow> deadlineReached now 0 d) then
        s\<lparr>pl_innerFanActive := False, pl_innerFanTeardownDeadline := None\<rparr>
      else s)"

definition copyFanStateToResult ::
  "ActuatorPlannerRuntimeState \<Rightarrow> ActuatorPlanTickResult \<Rightarrow> ActuatorPlanTickResult" where
  "copyFanStateToResult s r =
     r\<lparr>ptr_outerFanEnabled := pl_outerFanActive s, ptr_innerFanEnabled := pl_innerFanActive s\<rparr>"

definition buildResult ::
  "ActuatorPlanStatus \<Rightarrow> ActuatorPlanReason \<Rightarrow> ActuatorAdmissionOutcome \<Rightarrow>
     ActuatorPlannerRuntimeState \<Rightarrow> ActuatorPlanTickResult" where
  "buildResult status reason outcome s =
     copyFanStateToResult s
       \<lparr>ptr_status = status, ptr_reason = reason,
        ptr_appliedDirection = pl_lastAppliedDirection s,
        ptr_outerFanEnabled = False, ptr_innerFanEnabled = False,
        ptr_counterDirectionConfirming =
          (pl_counterCandidate s \<noteq> None \<and> \<not> pl_counterConfirmed s),
        ptr_admissionOutcome = outcome,
        ptr_acceptedCommandSequence =
          (case pl_acceptedCommand s of
             None \<Rightarrow> None
           | Some c \<Rightarrow> if cmd_demandClass c \<noteq> ADC_NoValidRequest then Some (cmd_sequence c)
                       else None),
        ptr_watchdogFaultActive = (pl_latchedWatchdogFault s \<noteq> None)\<rparr>"

section \<open>Windows and pulses\<close>

definition armingAllowed ::
  "ActuatorPlannerParameters \<Rightarrow> AbstractControlDirection \<Rightarrow> u64 \<Rightarrow> ActuatorPlannerRuntimeState \<Rightarrow>
     bool" where
  "armingAllowed p direction atMillis s =
     (case pl_deactivationAt s of
        None \<Rightarrow> True
      | Some deactivatedAt \<Rightarrow>
          let sameDirection = pl_deactivationDirection s = Some direction in
          if sameDirection then deadlineReached atMillis deactivatedAt (par_minimumOffMillis p)
          else deadlineReached atMillis deactivatedAt (par_minimumOffMillis p) \<and>
               deadlineReached atMillis deactivatedAt (par_polarityDeadTimeMillis p))"

definition minimumOffOk ::
  "ActuatorPlannerParameters \<Rightarrow> u64 \<Rightarrow> ActuatorPlannerRuntimeState \<Rightarrow> bool" where
  "minimumOffOk p atMillis s =
     (case pl_deactivationAt s of
        None \<Rightarrow> True
      | Some deactivatedAt \<Rightarrow> deadlineReached atMillis deactivatedAt (par_minimumOffMillis p))"

definition creditAccumulator ::
  "ActuatorPlannerParameters \<Rightarrow> AbstractControlDirection \<Rightarrow> f64 \<Rightarrow> ActuatorPlannerRuntimeState \<Rightarrow>
     ActuatorPlannerRuntimeState" where
  "creditAccumulator p direction quoteMillis s =
     (let a = (if acc_direction (pl_accumulator s) \<noteq> direction
               then \<lparr>acc_direction = direction, acc_accumulatedMillis = F64 0\<rparr>
               else pl_accumulator s) in
      s\<lparr>pl_accumulator := a\<lparr>acc_accumulatedMillis :=
          fmin (fadd (acc_accumulatedMillis a) quoteMillis)
               (f64_of_u64 (par_pulseAccumulatorCapMillis p))\<rparr>\<rparr>)"

definition requestedOnMillisExact :: "ActuatorPlannerParameters \<Rightarrow> f64 \<Rightarrow> f64" where
  "requestedOnMillisExact p timeQuote =
     fmul (fclamp timeQuote (F64 0) (F64 1)) (f64_of_u64 (par_switchingWindowMillis p))"

text \<open>
  The cast of the rounded on-time to an integer is undefined for a value out of range; the model
  takes 0 there. With valid parameters and a quote between 0 and 1 it is always in range
  (\<open>requestedOnMillis_cast\<close>).
\<close>

definition startFreshWindow ::
  "ActuatorPlannerParameters \<Rightarrow> AcceptedControlCommand \<Rightarrow> u64 \<Rightarrow> ActuatorPlannerRuntimeState \<Rightarrow>
     ActuatorPlannerRuntimeState" where
  "startFreshWindow p source startMonotonicMillis s =
     (let window = \<lparr>win_startMonotonicMillis = startMonotonicMillis,
                    win_direction = cmd_direction source,
                    win_sourceRequestSequence = cmd_sequence source,
                    win_scheduledOnMillis = 0, win_pulseStartAttempted = False,
                    win_minimumPulseFromAccumulator = False,
                    win_pulseStartedSuccessfully = False\<rparr>;
          exact = requestedOnMillisExact p (cmd_timeQuote source);
          minimumOn = f64_of_u64 (par_minimumOnMillis p) in
      if fle minimumOn exact then
        s\<lparr>pl_activeWindow := Some (window
            \<lparr>win_scheduledOnMillis :=
               (case u64_of_f64 (roundHalfUp exact) of
                  None \<Rightarrow> 0 | Some n \<Rightarrow> min n (par_switchingWindowMillis p))\<rparr>)\<rparr>
      else if flt (F64 0) exact then
        (let s = creditAccumulator p (cmd_direction source) exact s;
             a = pl_accumulator s in
         if fle minimumOn (acc_accumulatedMillis a) then
           s\<lparr>pl_accumulator :=
               a\<lparr>acc_accumulatedMillis := fsub (acc_accumulatedMillis a) minimumOn\<rparr>,
             pl_activeWindow := Some (window
               \<lparr>win_scheduledOnMillis := par_minimumOnMillis p,
                win_minimumPulseFromAccumulator := True\<rparr>)\<rparr>
         else s\<lparr>pl_activeWindow := Some window\<rparr>)
      else s\<lparr>pl_activeWindow := Some window\<rparr>)"

record WindowPhysicalTick =
  wpt_active :: bool
  wpt_reason :: ActuatorPlanReason

text \<open>
  The physical wish of the active window in this tick. It is only called with an active window;
  without one the model changes nothing.
\<close>

definition applyWindowPhysicalTick ::
  "ActuatorPlannerParameters \<Rightarrow> u64 \<Rightarrow> ActuatorPlannerRuntimeState \<Rightarrow>
     WindowPhysicalTick \<times> ActuatorPlannerRuntimeState" where
  "applyWindowPhysicalTick p now s =
     (case pl_activeWindow s of
        None \<Rightarrow> (\<lparr>wpt_active = False, wpt_reason = APR_NeutralIdle\<rparr>, s)
      | Some window \<Rightarrow>
          let elapsedInWindow = now - win_startMonotonicMillis window in
          if win_scheduledOnMillis window = 0 then
            (\<lparr>wpt_active = False, wpt_reason = APR_AccumulatingBelowThreshold\<rparr>, s)
          else let naturallyActive = elapsedInWindow < win_scheduledOnMillis window in
          if \<not> win_pulseStartAttempted window then
            (let window = window\<lparr>win_pulseStartAttempted := True\<rparr>;
                 s = s\<lparr>pl_activeWindow := Some window\<rparr> in
             if \<not> naturallyActive then
               (\<lparr>wpt_active = False, wpt_reason = APR_WindowPulseMissed\<rparr>, s)
             else if \<not> armingAllowed p (win_direction window)
                        (win_startMonotonicMillis window) s then
               (\<lparr>wpt_active = False,
                 wpt_reason = (if minimumOffOk p (win_startMonotonicMillis window) s
                               then APR_PolarityDeadTimeHeld else APR_MinimumOffTimeHeld)\<rparr>, s)
             else let remainingNaturalOnMillis =
                        win_scheduledOnMillis window - elapsedInWindow in
             if remainingNaturalOnMillis < par_minimumOnMillis p then
               (\<lparr>wpt_active = False, wpt_reason = APR_WindowPulseMissed\<rparr>, s)
             else
               (\<lparr>wpt_active = True,
                 wpt_reason = (if win_minimumPulseFromAccumulator window
                               then APR_MinimumPulseTriggered else APR_ScheduledWithinWindow)\<rparr>,
                s\<lparr>pl_activeWindow := Some (window\<lparr>win_pulseStartedSuccessfully := True\<rparr>)\<rparr>))
          else if win_pulseStartedSuccessfully window then
            (\<lparr>wpt_active = naturallyActive, wpt_reason = APR_ScheduledWithinWindow\<rparr>, s)
          else (\<lparr>wpt_active = False, wpt_reason = APR_WindowPulseMissed\<rparr>, s))"

section \<open>A heating or cooling demand\<close>

text \<open>
  \<open>evaluateHeatingCoolingDemand\<close> in the steps that the method has: the direction of reference, the
  progress of the window, the confirmation of a change of direction, a window of the other
  direction, the creation of a window, and the tick of a window of the demanded direction. A step
  that returns early gives \<open>Inl\<close> the result and the state.
\<close>

definition referenceDirection :: "ActuatorPlannerRuntimeState \<Rightarrow> AbstractControlDirection" where
  "referenceDirection s =
     (if pl_activeWindow s \<noteq> None then plannedDirection s
      else if physicalDirection s \<noteq> Dir_Idle then physicalDirection s
      else case pl_deactivationDirection s of None \<Rightarrow> Dir_Idle | Some d \<Rightarrow> d)"

definition advanceWindow ::
  "ActuatorPlannerParameters \<Rightarrow> AcceptedControlCommand \<Rightarrow> u64 \<Rightarrow> ActuatorPlannerRuntimeState \<Rightarrow>
     ActuatorPlannerRuntimeState" where
  "advanceWindow p command now s =
     (case pl_activeWindow s of
        None \<Rightarrow> s
      | Some window \<Rightarrow>
          let elapsed = now - win_startMonotonicMillis window in
          if par_switchingWindowMillis p \<le> elapsed then
            (let windowsElapsed = elapsed div par_switchingWindowMillis p;
                 rebasedStart = win_startMonotonicMillis window +
                                windowsElapsed * par_switchingWindowMillis p;
                 oldDirection = win_direction window in
             if oldDirection = cmd_direction command then
               startFreshWindow p command rebasedStart s
             else let s = s\<lparr>pl_activeWindow := None, pl_accumulator := emptyAccumulator\<rparr> in
             if physicalDirection s = oldDirection then setPhysicalDirection p Dir_Idle now s
             else s)
          else s)"

definition updateCounterDirection ::
  "ActuatorPlannerParameters \<Rightarrow> AcceptedControlCommand \<Rightarrow> AbstractControlDirection \<Rightarrow> u64 \<Rightarrow>
     ActuatorPlannerRuntimeState \<Rightarrow> ActuatorPlannerRuntimeState" where
  "updateCounterDirection p command reference now s =
     (let desired = cmd_direction command;
          eligible =
            (cmd_demandClass command = ADC_NormalDemand \<or>
             cmd_demandClass command = ADC_AirLimitReducedDemand) \<and>
            fle (par_counterDirectionQuoteThreshold p) (cmd_timeQuote command);
          isCandidate =
            eligible \<and>
            ((reference \<noteq> Dir_Idle \<and> reference \<noteq> desired) \<or>
             pl_counterCandidate s = Some desired) in
      if isCandidate then
        (let s = (if pl_counterCandidate s \<noteq> Some desired then
                    s\<lparr>pl_counterCandidate := Some desired, pl_counterObservedSince := now,
                      pl_counterConfirmed := False\<rparr>
                  else s) in
         s\<lparr>pl_counterConfirmed :=
             deadlineReached now (pl_counterObservedSince s)
               (par_counterDirectionDurationMillis p)\<rparr>)
      else resetCounterDirection s)"

definition onPhaseMinimumReached ::
  "ActuatorPlannerParameters \<Rightarrow> u64 \<Rightarrow> ActuatorPlannerRuntimeState \<Rightarrow> bool" where
  "onPhaseMinimumReached p now s =
     (case pl_onPhaseStartedAt s of
        None \<Rightarrow> True | Some t \<Rightarrow> deadlineReached now t (par_minimumOnMillis p))"

definition answerDemand ::
  "AcceptedControlCommand \<Rightarrow> ActuatorPlanStatus \<Rightarrow> ActuatorPlanReason \<Rightarrow>
     ActuatorAdmissionOutcome \<Rightarrow> ActuatorPlannerRuntimeState \<Rightarrow>
     ActuatorPlanTickResult \<times> ActuatorPlannerRuntimeState" where
  "answerDemand command status reason outcome s =
     (let s = mergeFeedbackForDemand command reason s in
      (buildResult status reason outcome s, s))"

definition opposingWindow ::
  "ActuatorPlannerParameters \<Rightarrow> AcceptedControlCommand \<Rightarrow> ActuatorAdmissionOutcome \<Rightarrow> u64 \<Rightarrow>
     ActuatorPlannerRuntimeState \<Rightarrow>
     (ActuatorPlanTickResult \<times> ActuatorPlannerRuntimeState) + ActuatorPlannerRuntimeState" where
  "opposingWindow p command outcome now s =
     (case pl_activeWindow s of
        None \<Rightarrow> Inr s
      | Some window \<Rightarrow>
          if win_direction window = cmd_direction command then Inr s
          else let oldDirection = win_direction window;
                   physicallyActiveBefore = physicalDirection s = oldDirection;
                   minimumOnSatisfied =
                     \<not> physicallyActiveBefore \<or> onPhaseMinimumReached p now s in
          if pl_counterConfirmed s then
            (if physicallyActiveBefore then
               (if \<not> minimumOnSatisfied then
                  (let (physical, s) = applyWindowPhysicalTick p now s;
                       s = (if wpt_active physical
                            then setPhysicalDirection p oldDirection now s else s) in
                   Inl (answerDemand command APS_Active APR_MinimumOnTimeHeld outcome s))
                else
                  (let s = setPhysicalDirection p Dir_Idle now s;
                       s = s\<lparr>pl_activeWindow := None, pl_accumulator := emptyAccumulator\<rparr> in
                   Inl (answerDemand command APS_Idle APR_DirectionChangeApplied outcome s)))
             else Inr (s\<lparr>pl_activeWindow := None, pl_accumulator := emptyAccumulator\<rparr>))
          else
            (let (physical, s) = applyWindowPhysicalTick p now s;
                 s = (if wpt_active physical then setPhysicalDirection p oldDirection now s
                      else if physicalDirection s = oldDirection
                      then setPhysicalDirection p Dir_Idle now s
                      else s);
                 physicallyActiveAfter = physicalDirection s = oldDirection;
                 withinMinimumOn =
                   physicallyActiveAfter \<and> pl_counterConfirmed s \<and>
                   \<not> onPhaseMinimumReached p now s in
             Inl (answerDemand command
                    (if physicallyActiveAfter then APS_Active else APS_Idle)
                    (if withinMinimumOn then APR_MinimumOnTimeHeld
                     else APR_CounterDirectionConfirming) outcome s)))"

definition createWindow ::
  "ActuatorPlannerParameters \<Rightarrow> AcceptedControlCommand \<Rightarrow> AbstractControlDirection \<Rightarrow>
     ActuatorAdmissionOutcome \<Rightarrow> u64 \<Rightarrow> ActuatorPlannerRuntimeState \<Rightarrow>
     (ActuatorPlanTickResult \<times> ActuatorPlannerRuntimeState) + ActuatorPlannerRuntimeState" where
  "createWindow p command reference outcome now s =
     (let desired = cmd_direction command in
      if pl_activeWindow s \<noteq> None then Inr s
      else if pl_counterCandidate s = Some desired then
        (if \<not> pl_counterConfirmed s then
           Inl (answerDemand command APS_Idle APR_CounterDirectionConfirming outcome s)
         else if \<not> armingAllowed p desired now s then
           Inl (answerDemand command APS_Idle
                  (if minimumOffOk p now s then APR_PolarityDeadTimeHeld
                   else APR_MinimumOffTimeHeld) outcome s)
         else Inr (resetCounterDirection (startFreshWindow p command now s)))
      else if reference \<noteq> Dir_Idle \<and> reference \<noteq> desired then
        Inl (answerDemand command APS_Idle APR_CounterDirectionConfirming outcome s)
      else Inr (startFreshWindow p command now s))"

definition windowTick ::
  "ActuatorPlannerParameters \<Rightarrow> AcceptedControlCommand \<Rightarrow> ActuatorAdmissionOutcome \<Rightarrow> u64 \<Rightarrow>
     ActuatorPlannerRuntimeState \<Rightarrow> ActuatorPlanTickResult \<times> ActuatorPlannerRuntimeState" where
  "windowTick p command outcome now s =
     (let sameDirectionMidWindowMismatch =
            (case pl_activeWindow s of
               None \<Rightarrow> False | Some w \<Rightarrow> win_sourceRequestSequence w \<noteq> cmd_sequence command);
          ownQuoteBelowMinimum =
            flt (requestedOnMillisExact p (cmd_timeQuote command))
                (f64_of_u64 (par_minimumOnMillis p));
          (physical, s) = applyWindowPhysicalTick p now s;
          s = (if wpt_active physical then setPhysicalDirection p (plannedDirection s) now s
               else if physicalDirection s = plannedDirection s
               then setPhysicalDirection p Dir_Idle now s
               else s);
          reason = (if sameDirectionMidWindowMismatch \<and> ownQuoteBelowMinimum
                    then APR_AccumulatingBelowThreshold else wpt_reason physical);
          s = mergeFeedbackForDemand command reason s in
      (buildResult (if physicalDirection s = Dir_Idle then APS_Idle else APS_Active)
         reason outcome s, s))"

definition evaluateHeatingCoolingDemand ::
  "ActuatorPlannerParameters \<Rightarrow> AcceptedControlCommand \<Rightarrow> ActuatorAdmissionOutcome \<Rightarrow> u64 \<Rightarrow>
     ActuatorPlannerRuntimeState \<Rightarrow> ActuatorPlanTickResult \<times> ActuatorPlannerRuntimeState" where
  "evaluateHeatingCoolingDemand p command outcome now s =
     (let reference = referenceDirection s;
          s = updateCounterDirection p command reference now (advanceWindow p command now s) in
      case opposingWindow p command outcome now s of
        Inl r \<Rightarrow> r
      | Inr s \<Rightarrow>
          (case createWindow p command reference outcome now s of
             Inl r \<Rightarrow> r
           | Inr s \<Rightarrow> windowTick p command outcome now s))"

section \<open>A tick\<close>

definition rejectToIdle ::
  "ActuatorPlannerParameters \<Rightarrow> ActuatorAdmissionOutcome \<Rightarrow> u64 \<Rightarrow> ActuatorPlanStatus \<Rightarrow>
     ActuatorPlanReason \<Rightarrow> ActuatorPlannerRuntimeState \<Rightarrow>
     ActuatorPlanTickResult \<times> ActuatorPlannerRuntimeState" where
  "rejectToIdle p outcome now status reason s =
     (let s = (if physicalDirection s \<noteq> Dir_Idle then setPhysicalDirection p Dir_Idle now s else s);
          s = clearPlanningState s;
          s = (case pl_feedbackSubject s of
                 None \<Rightarrow> s | Some subject \<Rightarrow> mergeFeedback subject FD_Rejected s) in
      (buildResult status reason outcome s, s))"

definition retrograde :: "u64 \<Rightarrow> u64 option \<Rightarrow> bool" where
  "retrograde now ref = (case ref of None \<Rightarrow> False | Some t \<Rightarrow> now < t)"

definition hasRetrogradeTimeReference :: "u64 \<Rightarrow> ActuatorPlannerRuntimeState \<Rightarrow> bool" where
  "hasRetrogradeTimeReference now s \<longleftrightarrow>
     retrograde now (pl_onPhaseStartedAt s) \<or>
     retrograde now (pl_deactivationAt s) \<or>
     (case pl_activeWindow s of None \<Rightarrow> False | Some w \<Rightarrow> now < win_startMonotonicMillis w) \<or>
     (pl_counterCandidate s \<noteq> None \<and> now < pl_counterObservedSince s) \<or>
     retrograde now (pl_lastNewRequestAt s) \<or>
     retrograde now (pl_watchdogEpisodeStartedAt s) \<or>
     retrograde now (pl_outerFanDeactivationRequestedAt s) \<or>
     retrograde now (pl_innerFanDeactivationRequestedAt s)"

definition runningWatchdogTripped ::
  "ActuatorPlannerParameters \<Rightarrow> ActuatorPlanTickInput \<Rightarrow> ActuatorPlannerRuntimeState \<Rightarrow> bool" where
  "runningWatchdogTripped p i s =
     (if \<not> pti_temperatureControlledPhase i then False
      else case pl_watchdogEpisodeStartedAt s of
        None \<Rightarrow> False
      | Some episode \<Rightarrow>
          let reference = (case pl_lastNewRequestAt s of None \<Rightarrow> episode | Some t \<Rightarrow> t) in
          deadlineReached (pti_nowMonotonicMillis i) reference (par_requestWatchdogMillis p))"

definition openFeedbackEpisode ::
  "u64 option \<Rightarrow> ActuatorPlannerRuntimeState \<Rightarrow> ActuatorPlannerRuntimeState" where
  "openFeedbackEpisode subject s =
     s\<lparr>pl_feedbackSubject := subject, pl_pendingFeedback := None,
       pl_pendingFeedbackUpdateAvailable := True\<rparr>"

record PhaseAOutcome =
  pao_admissionOutcome :: ActuatorAdmissionOutcome
  pao_candidate :: "AcceptedControlCommand option"

text \<open>The two rejections on arrival record a rejected feedback of an active demand alike.\<close>

definition rejectOnArrival ::
  "u64 \<Rightarrow> bool \<Rightarrow> ActuatorPlannerRuntimeState \<Rightarrow> ActuatorPlannerRuntimeState" where
  "rejectOnArrival sequence isActiveDemand s =
     (if isActiveDemand then
        s\<lparr>pl_feedbackSubject := Some sequence,
          pl_pendingFeedback := Some \<lparr>pcr_sequence = sequence, pcr_disposition = FD_Rejected\<rparr>,
          pl_pendingFeedbackUpdateAvailable := True\<rparr>
      else s)"

text \<open>
  A valid evaluation that demands something carries a request; \<open>admitRequest\<close> is what phase A does
  with it.
\<close>

definition admitRequest ::
  "ActuatorPlannerParameters \<Rightarrow> ActuatorPlanTickInput \<Rightarrow> ActuatorDemandClass \<Rightarrow> ControlRequest \<Rightarrow>
     ActuatorPlannerRuntimeState \<Rightarrow> PhaseAOutcome \<times> ActuatorPlannerRuntimeState" where
  "admitRequest p i demandClass request s =
     (let safetyGateMalformed =
            \<not> isKnownSafetyGateStatus (asg_status (pti_safetyGate i));
          now = pti_nowMonotonicMillis i;
          sequence = id_sequence (creq_identity request);
          isActiveDemand =
            demandClass = ADC_NormalDemand \<or> demandClass = ADC_AirLimitReducedDemand in
      if (case pl_sequenceHighWatermark s of None \<Rightarrow> False | Some h \<Rightarrow> sequence \<le> h) then
        (\<lparr>pao_admissionOutcome = AAO_DuplicateOrOldSequence, pao_candidate = None\<rparr>, s)
      else let s = (openFeedbackEpisode None s)\<lparr>pl_sequenceHighWatermark := Some sequence\<rparr> in
      if deadlineReached now (id_createdAtMonotonicMillis (creq_identity request))
           (par_requestWatchdogMillis p) then
        (\<lparr>pao_admissionOutcome = AAO_StaleOnArrivalWatchdog, pao_candidate = None\<rparr>,
         rejectOnArrival sequence isActiveDemand s)
      else if \<not> contextsMatch (creq_context request) (pti_currentCanonicalContext i) then
        (\<lparr>pao_admissionOutcome = AAO_StaleOnArrivalContext, pao_candidate = None\<rparr>,
         rejectOnArrival sequence isActiveDemand s)
      else let s = s\<lparr>pl_lastNewRequestAt := Some now\<rparr>;
               s = (if isActiveDemand then s\<lparr>pl_feedbackSubject := Some sequence\<rparr> else s);
               isOff = demandClass = ADC_NeutralOff \<or> demandClass = ADC_AirLimitBlockedOff in
      (\<lparr>pao_admissionOutcome =
          (if safetyGateMalformed then AAO_MalformedSafetyGate else AAO_Accepted),
        pao_candidate = Some
          \<lparr>cmd_sequence = sequence,
           cmd_direction = (if isOff then Dir_Idle else creq_direction request),
           cmd_timeQuote = (if isOff then F64 0 else creq_timeQuote request),
           cmd_demandClass = demandClass,
           cmd_contextAtAcceptance = creq_context request\<rparr>\<rparr>, s))"

definition runPhaseA ::
  "ActuatorPlannerParameters \<Rightarrow> ActuatorPlanTickInput \<Rightarrow> ActuatorPlannerRuntimeState \<Rightarrow>
     PhaseAOutcome \<times> ActuatorPlannerRuntimeState" where
  "runPhaseA p i s =
     (case pti_newEvaluation i of
        None \<Rightarrow> (\<lparr>pao_admissionOutcome = AAO_NoCandidate, pao_candidate = None\<rparr>, s)
      | Some evaluation \<Rightarrow>
          if \<not> isStructurallyValidEvaluation evaluation \<or>
             \<not> isStructurallyValidContext (pti_currentCanonicalContext i) then
            (\<lparr>pao_admissionOutcome = AAO_MalformedCandidate, pao_candidate = None\<rparr>,
             openFeedbackEpisode None s)
          else let demandClass = classifyActuatorDemand evaluation in
          case (if demandClass = ADC_NoValidRequest then None else tcr_controlRequest evaluation) of
            None \<Rightarrow>
              (\<lparr>pao_admissionOutcome =
                  (if \<not> isKnownSafetyGateStatus (asg_status (pti_safetyGate i))
                   then AAO_MalformedSafetyGate else AAO_Accepted),
                pao_candidate = Some
                  \<lparr>cmd_sequence = 0, cmd_direction = Dir_Idle, cmd_timeQuote = F64 0,
                   cmd_demandClass = ADC_NoValidRequest,
                   cmd_contextAtAcceptance = pti_currentCanonicalContext i\<rparr>\<rparr>,
               (openFeedbackEpisode None s)
                 \<lparr>pl_lastNewRequestAt := Some (pti_nowMonotonicMillis i)\<rparr>)
          | Some request \<Rightarrow> admitRequest p i demandClass request s)"

text \<open>The acceptance of a fresh candidate, with what its demand class does to the accumulator.\<close>

definition takeCandidate ::
  "AcceptedControlCommand \<Rightarrow> ActuatorPlannerRuntimeState \<Rightarrow> ActuatorPlannerRuntimeState" where
  "takeCandidate candidate s =
     (let previousDemandClass =
            (case pl_acceptedCommand s of
               None \<Rightarrow> ADC_NoValidRequest | Some c \<Rightarrow> cmd_demandClass c);
          newDemandClass = cmd_demandClass candidate;
          s = s\<lparr>pl_acceptedCommand := Some candidate\<rparr>;
          s = (if newDemandClass = ADC_NeutralOff \<or> newDemandClass = ADC_AirLimitBlockedOff
               then resetCounterDirection s else s) in
      if newDemandClass = ADC_AirLimitBlockedOff then s\<lparr>pl_accumulator := emptyAccumulator\<rparr>
      else if newDemandClass = ADC_AirLimitReducedDemand \<and>
              previousDemandClass = ADC_NormalDemand then
        s\<lparr>pl_accumulator := emptyAccumulator\<rparr>
      else s)"

definition teardown ::
  "ActuatorPlannerParameters \<Rightarrow> ActuatorAdmissionOutcome \<Rightarrow> u64 \<Rightarrow> ActuatorPlannerRuntimeState \<Rightarrow>
     ActuatorPlanTickResult \<times> ActuatorPlannerRuntimeState" where
  "teardown p outcome now s =
     (let airLimitBlocked =
            (case pl_acceptedCommand s of
               None \<Rightarrow> False | Some c \<Rightarrow> cmd_demandClass c = ADC_AirLimitBlockedOff);
          physicallyActive = physicalDirection s \<noteq> Dir_Idle in
      if physicallyActive \<and> \<not> onPhaseMinimumReached p now s then
        (buildResult APS_Active APR_MinimumOnTimeHeld outcome s, s)
      else let s = (if physicallyActive then setPhysicalDirection p Dir_Idle now s else s);
               s = clearPlanningState s in
      (buildResult APS_Idle (if airLimitBlocked then APR_AirLimitBlocked else APR_NeutralIdle)
         outcome s, s))"

definition runPhaseB ::
  "ActuatorPlannerParameters \<Rightarrow> ActuatorPlanTickInput \<Rightarrow> PhaseAOutcome \<Rightarrow>
     ActuatorPlannerRuntimeState \<Rightarrow> ActuatorPlanTickResult \<times> ActuatorPlannerRuntimeState" where
  "runPhaseB p i admission s =
     (let now = pti_nowMonotonicMillis i;
          outcome = pao_admissionOutcome admission;
          gate = asg_status (pti_safetyGate i) in
      if outcome = AAO_MalformedCandidate \<or> \<not> isKnownSafetyGateStatus gate \<or>
         \<not> isStructurallyValidContext (pti_currentCanonicalContext i) then
        rejectToIdle p outcome now APS_InvalidInput APR_MalformedInput s
      else if classifyActuatorPlannerParameters p = APV_Unconfigured then
        rejectToIdle p outcome now APS_Unconfigured APR_NoCommissioning s
      else if classifyActuatorPlannerParameters p = APV_Invalid then
        rejectToIdle p outcome now APS_InvalidInput APR_InvalidConfiguration s
      else if gate = ASG_Unresolved then
        rejectToIdle p outcome now APS_Idle APR_SafetyGateUnresolved s
      else if gate = ASG_ImmediateStop then
        rejectToIdle p outcome now APS_Idle APR_ExternalSafetyOverride s
      else if pl_latchedWatchdogFault s \<noteq> None then
        rejectToIdle p outcome now APS_Idle APR_RequestWatchdogFaultLatched s
      else if runningWatchdogTripped p i s then
        rejectToIdle p outcome now APS_Idle APR_StaleRequestWatchdog
          (s\<lparr>pl_latchedWatchdogFault := Some
              \<lparr>wfe_detectedAtMonotonicMillis = now,
               wfe_lastObservedSequenceHighWatermarkBeforeFault =
                 (case pl_sequenceHighWatermark s of None \<Rightarrow> 0 | Some h \<Rightarrow> h)\<rparr>\<rparr>)
      else if (case pao_candidate admission of
                 None \<Rightarrow> False | Some c \<Rightarrow> cmd_demandClass c = ADC_NoValidRequest) then
        rejectToIdle p outcome now APS_Idle APR_NoValidRequest s
      else if pao_candidate admission = None \<and>
              (case pl_acceptedCommand s of
                 None \<Rightarrow> False
               | Some c \<Rightarrow> \<not> contextsMatch (cmd_contextAtAcceptance c)
                              (pti_currentCanonicalContext i)) then
        rejectToIdle p outcome now APS_Idle APR_StaleRequestContext s
      else if hasRetrogradeTimeReference now s then
        rejectToIdle p outcome now APS_InvalidInput APR_TimeInvalid s
      else let s = (case pao_candidate admission of
                      None \<Rightarrow> s | Some candidate \<Rightarrow> takeCandidate candidate s) in
      case pl_acceptedCommand s of
        None \<Rightarrow> teardown p outcome now s
      | Some command \<Rightarrow>
          if cmd_direction command = Dir_Idle then teardown p outcome now s
          else evaluateHeatingCoolingDemand p command outcome now s)"

definition plannerTick ::
  "ActuatorPlannerParameters \<Rightarrow> ActuatorPlanTickInput \<Rightarrow> ActuatorPlannerRuntimeState \<Rightarrow>
     ActuatorPlanTickResult \<times> ActuatorPlannerRuntimeState" where
  "plannerTick p i s =
     (let s = (if pti_temperatureControlledPhase i \<and> pl_watchdogEpisodeStartedAt s = None
               then s\<lparr>pl_watchdogEpisodeStartedAt := Some (pti_nowMonotonicMillis i)\<rparr> else s);
          (admission, s) = runPhaseA p i s;
          (r, s) = runPhaseB p i admission s;
          s = updateFanState p (pti_nowMonotonicMillis i) (pti_temperatureControlledPhase i) s in
      (copyFanStateToResult s r, s))"

section \<open>The other operations\<close>

datatype ActuatorFeedbackEpisodeAtStop = FES_ExistingEpisodeOpen | FES_ClosedByOutstandingEvaluation

definition forceStop ::
  "ActuatorPlannerParameters \<Rightarrow> u64 \<Rightarrow> ActuatorFeedbackEpisodeAtStop \<Rightarrow>
     ActuatorPlannerRuntimeState \<Rightarrow> ActuatorPlanTickResult \<times> ActuatorPlannerRuntimeState" where
  "forceStop p now feedbackEpisodeAtStop s =
     (let trustedSequence =
            (if feedbackEpisodeAtStop = FES_ExistingEpisodeOpen then pl_feedbackSubject s else None);
          s = (if physicalDirection s \<noteq> Dir_Idle then setPhysicalDirection p Dir_Idle now s else s);
          s = (clearPlanningState s)
                \<lparr>pl_watchdogEpisodeStartedAt := None, pl_lastNewRequestAt := None\<rparr>;
          s = (case trustedSequence of
                 Some subject \<Rightarrow> mergeFeedback subject FD_Rejected s
               | None \<Rightarrow> s\<lparr>pl_pendingFeedback := None, pl_pendingFeedbackUpdateAvailable := True\<rparr>);
          s = s\<lparr>pl_feedbackSubject := None\<rparr>;
          s = (if pl_innerFanActive s \<and> pl_innerFanDeactivationRequestedAt s = None then
                 s\<lparr>pl_innerFanDeactivationRequestedAt := Some now,
                   pl_innerFanTeardownDeadline :=
                     retainLaterDeadline (pl_innerFanTeardownDeadline s)
                       (saturatingDeadline now (par_innerFanPostRunMillis p))\<rparr>
               else s);
          s = updateFanState p now False s in
      (buildResult APS_Idle APR_NeutralIdle AAO_NoCandidate s, s))"

definition closeFeedbackEpisodeForOutstandingEvaluation ::
  "ActuatorPlannerRuntimeState \<Rightarrow> ActuatorPlannerRuntimeState" where
  "closeFeedbackEpisodeForOutstandingEvaluation s =
     (let s = s\<lparr>pl_feedbackSubject := None\<rparr> in
      if pl_pendingFeedback s \<noteq> None then
        s\<lparr>pl_pendingFeedback := None, pl_pendingFeedbackUpdateAvailable := True\<rparr>
      else s)"

definition takeFeedbackUpdate ::
  "ActuatorPlannerRuntimeState \<Rightarrow>
     PendingControlRequestFeedbackUpdate \<times> ActuatorPlannerRuntimeState" where
  "takeFeedbackUpdate s =
     (if \<not> pl_pendingFeedbackUpdateAvailable s then
        (\<lparr>pfu_changed = False, pfu_feedback = None\<rparr>, s)
      else
        (\<lparr>pfu_changed = True,
          pfu_feedback =
            (case pl_pendingFeedback s of
               None \<Rightarrow> None
             | Some f \<Rightarrow> Some \<lparr>pcf_controlRequestSequence = pcr_sequence f,
                              pcf_disposition = pcr_disposition f\<rparr>)\<rparr>,
         s\<lparr>pl_pendingFeedbackUpdateAvailable := False\<rparr>))"

definition applyExternalWatchdogFaultReset ::
  "u64 \<Rightarrow> ActuatorPlannerRuntimeState \<Rightarrow> ActuatorPlannerRuntimeState" where
  "applyExternalWatchdogFaultReset now s = s\<lparr>pl_latchedWatchdogFault := None\<rparr>"

text \<open>The object: the parameters bound to a run, the state, and the two flags of the binding.\<close>

record ActuatorPlannerObject =
  apo_parameters :: ActuatorPlannerParameters
  apo_state :: ActuatorPlannerRuntimeState
  apo_testConfigured :: bool
  apo_runBound :: bool

definition unconfiguredPlanner :: ActuatorPlannerObject where
  "unconfiguredPlanner =
     \<lparr>apo_parameters = unconfiguredParameters, apo_state = initialPlannerState,
      apo_testConfigured = False, apo_runBound = False\<rparr>"

definition configuredPlanner :: "ActuatorPlannerParameters \<Rightarrow> ActuatorPlannerObject" where
  "configuredPlanner p =
     \<lparr>apo_parameters = p, apo_state = initialPlannerState,
      apo_testConfigured = True, apo_runBound = False\<rparr>"

definition beginRun ::
  "ActuatorPlannerParameters \<Rightarrow> ActuatorPlannerObject \<Rightarrow> bool \<times> ActuatorPlannerObject" where
  "beginRun p a =
     (if apo_runBound a then (False, a)
      else if classifyActuatorPlannerParameters p \<noteq> APV_Valid then (False, a)
      else (True, a\<lparr>apo_parameters := p, apo_runBound := True\<rparr>))"

definition endRun :: "ActuatorPlannerObject \<Rightarrow> ActuatorPlannerObject" where
  "endRun a =
     (let a = a\<lparr>apo_runBound := False\<rparr> in
      if \<not> apo_testConfigured a then a\<lparr>apo_parameters := unconfiguredParameters\<rparr> else a)"

end
