(* ===== verification/PlannerWindow.thy ===== *)
theory PlannerWindow
  imports ActuatorPlanner
begin

text \<open>
  Lemmas on the windows and pulses of the actuator planner: the on-time of a window lies between
  the minimum on-time and the window and its integer cast is defined; what a tick may do to the
  physical part of the state (\<open>phys_edge\<close>); the invariant that ties the output to the active window
  (\<open>mid_inv\<close> within a tick, \<open>tick_inv\<close> between ticks); and the tick of a window (\<open>window_tick\<close>).
\<close>

section \<open>Valid parameters\<close>

abbreviation valid_params :: "ActuatorPlannerParameters \<Rightarrow> bool" where
  "valid_params p \<equiv> classifyActuatorPlannerParameters p = APV_Valid"

lemma valid_paramsD:
  assumes "valid_params p"
  shows "0 < par_switchingWindowMillis p" "0 < par_minimumOnMillis p"
    "par_minimumOnMillis p \<le> par_switchingWindowMillis p" "0 < par_minimumOffMillis p"
    "0 < par_polarityDeadTimeMillis p" "unat (par_switchingWindowMillis p) \<le> 2 ^ 53"
    "unat (par_minimumOnMillis p) \<le> 2 ^ 53" "0 < par_requestWatchdogMillis p"
    "0 < par_outerFanPostRunMillis p"
  using assms
  by (auto simp: classifyActuatorPlannerParameters_def Let_def word_le_nat_alt split: if_splits)

section \<open>On-time of a window\<close>

lemma requestedOnMillis_between:
  assumes "valid_params p" and "isFiniteUnitQuote q"
  shows "\<exists>x. requestedOnMillisExact p q = F64 x \<and> 0 \<le> x \<and>
             x \<le> of_nat (unat (par_switchingWindowMillis p))"
proof -
  define W where "W = unat (par_switchingWindowMillis p)"
  let ?w = "of_nat W :: rat"
  obtain a where a: "q = F64 a" "0 \<le> a" "a \<le> 1"
    using assms(2) by (cases q) (auto simp: isFiniteUnitQuote_def isfinite_def)
  then have c: "fclamp q (F64 0) (F64 1) = F64 a" by (auto simp: fclamp_def)
  have w: "f64_of_u64 (par_switchingWindowMillis p) = F64 ?w"
    unfolding W_def by (rule f64_of_u64_exact) (rule valid_paramsD [OF assms(1)])
  have "W \<le> 2 ^ 53" unfolding W_def by (rule valid_paramsD [OF assms(1)])
  moreover have "0 \<le> a * ?w" "a * ?w \<le> ?w"
    using a by (auto simp: mult_left_le_one_le)
  ultimately have "\<exists>v. round64 (a * ?w) = F64 v \<and> of_int 0 \<le> v \<and> v \<le> of_int (int W)"
    by (intro round64_between) auto
  then show ?thesis unfolding W_def [symmetric] by (simp add: requestedOnMillisExact_def c w)
qed

text \<open>
  The rounded on-time is a 64-bit integer, between the minimum on-time and the whole window.
\<close>

lemma round64_upto:
  assumes "of_nat m \<le> q" and "q \<le> pow2 54" and "0 < m" and "m \<le> 2 ^ 53"
  shows "\<exists>v. round64 q = F64 v \<and> of_nat m \<le> v \<and> v \<le> pow2 54"
proof -
  have q: "0 < q" using assms(1,3) by (metis less_le_trans of_nat_0_less_iff)
  have "ilog2 q \<le> ilog2 (pow2 54)"
    using q assms(2) by (rule ilog2_mono)
  also have "ilog2 (pow2 54) = 54" by (rule ilog2_eqI) (simp_all add: pow2_strict_mono)
  finally have u: "roundRat q \<le> pow2 54"
    using q assms(2) by (intro roundRat_le_pow2) (simp_all add: ulpExponent_def)
  have "int m \<le> 2 ^ 53" using assms(4) by simp
  then have "of_nat m = roundRat (of_nat m)"
    using roundRat_of_int [of "int m"] by simp
  also have "\<dots> \<le> roundRat q"
    using assms(1,3) by (intro roundRat_mono) auto
  finally have l: "of_nat m \<le> roundRat q" .
  have "pow2 54 < 2 ^ 1024" unfolding pow2_def
    using power_strict_increasing [of 54 1024 "2 :: rat"] by simp
  moreover have "0 \<le> roundRat q" using q by (simp add: roundRat_nonneg)
  ultimately show ?thesis using u l by (simp add: round64_def)
qed

lemma roundHalfUp_cast:
  assumes "of_nat m \<le> x" and "x \<le> of_nat n" and "n \<le> 2 ^ 53" and "0 < m"
  shows "\<exists>k. u64_of_f64 (roundHalfUp (F64 x)) = Some k \<and> m \<le> unat k"
proof -
  have "(of_nat m :: rat) \<le> of_nat n" using assms(1,2) by (rule order_trans)
  with assms(3) have m: "m \<le> 2 ^ 53" by simp
  have "x \<le> 2 ^ 53"
    using assms(2,3) by (metis of_nat_le_iff of_nat_numeral of_nat_power order_trans)
  then have "x + 1 / 2 \<le> pow2 54" by (simp add: pow2_def)
  with assms(1) obtain y where y: "round64 (x + 1 / 2) = F64 y" "of_nat m \<le> y" "y \<le> pow2 54"
    using round64_upto [of m "x + 1 / 2"] m assms(4) by auto
  have "of_int \<lfloor>y\<rfloor> \<le> pow2 54" using y(3) of_int_floor_le [of y] by linarith
  moreover have "of_nat m \<le> (of_int \<lfloor>y\<rfloor> :: rat)"
    using y(2) by (metis le_floor_iff of_int_le_iff of_int_of_nat_eq)
  ultimately obtain z where z: "round64 (of_int \<lfloor>y\<rfloor>) = F64 z" "of_nat m \<le> z" "z \<le> pow2 54"
    using round64_upto [of m] m assms(4) by blast
  have f: "int m \<le> \<lfloor>z\<rfloor>" "\<lfloor>z\<rfloor> < 2 ^ 64"
  proof -
    show "int m \<le> \<lfloor>z\<rfloor>" using z(2) by (simp add: le_floor_iff)
    have "z < 2 ^ 64" using z(3) by (simp add: pow2_def)
    then show "\<lfloor>z\<rfloor> < 2 ^ 64" by (simp add: floor_less_iff)
  qed
  have "0 \<le> z" using z(2) by (meson of_nat_0_le_iff order_trans)
  then have "u64_of_f64 (roundHalfUp (F64 x)) = Some (word_of_int \<lfloor>z\<rfloor>)"
    using z(3) by (simp add: roundHalfUp_def ffloor_def y(1) z(1) u64_of_f64_def pow2_def)
  moreover have "take_bit 64 \<lfloor>z\<rfloor> = \<lfloor>z\<rfloor>"
    using f by (intro take_bit_int_eq_self) linarith+
  then have "unat (word_of_int \<lfloor>z\<rfloor> :: u64) = nat \<lfloor>z\<rfloor>"
    by (simp add: unsigned_of_int)
  ultimately show ?thesis using f(1) by simp
qed

lemma requestedOnMillis_cast:
  assumes "valid_params p" and "isFiniteUnitQuote q"
    and "fle (f64_of_u64 (par_minimumOnMillis p)) (requestedOnMillisExact p q)"
  shows "\<exists>k. u64_of_f64 (roundHalfUp (requestedOnMillisExact p q)) = Some k \<and>
             par_minimumOnMillis p \<le> min k (par_switchingWindowMillis p)"
proof -
  obtain x where x: "requestedOnMillisExact p q = F64 x"
    "x \<le> of_nat (unat (par_switchingWindowMillis p))"
    using requestedOnMillis_between [OF assms(1,2)] by blast
  note v = valid_paramsD [OF assms(1)]
  have "of_nat (unat (par_minimumOnMillis p)) \<le> x"
    using assms(3) f64_of_u64_exact [OF v(7)] by (simp add: x(1))
  then obtain k where "u64_of_f64 (roundHalfUp (F64 x)) = Some k"
    "unat (par_minimumOnMillis p) \<le> unat k"
    using roundHalfUp_cast [OF _ x(2) v(6)] v(2) unfolding word_less_nat_alt unat_0 by blast
  with v(3) show ?thesis by (auto simp: x(1) word_le_nat_alt min_def)
qed

definition window_sized :: "ActuatorPlannerParameters \<Rightarrow> ActiveSwitchingWindow \<Rightarrow> bool" where
  "window_sized p w \<longleftrightarrow>
     win_scheduledOnMillis w \<le> par_switchingWindowMillis p \<and>
     (win_scheduledOnMillis w = 0 \<or> par_minimumOnMillis p \<le> win_scheduledOnMillis w)"

definition fresh_window ::
  "ActuatorPlannerParameters \<Rightarrow> AcceptedControlCommand \<Rightarrow> u64 \<Rightarrow> ActiveSwitchingWindow \<Rightarrow> bool" where
  "fresh_window p c t w \<longleftrightarrow>
     win_startMonotonicMillis w = t \<and> win_direction w = cmd_direction c \<and>
     win_sourceRequestSequence w = cmd_sequence c \<and> \<not> win_pulseStartAttempted w \<and>
     \<not> win_pulseStartedSuccessfully w \<and> window_sized p w"

lemma startFreshWindow_shape:
  "startFreshWindow p c t s =
     s\<lparr>pl_activeWindow := pl_activeWindow (startFreshWindow p c t s),
       pl_accumulator := pl_accumulator (startFreshWindow p c t s)\<rparr>"
  "pl_activeWindow (startFreshWindow p c t s) \<noteq> None"
  by (simp_all add: startFreshWindow_def Let_def creditAccumulator_def)

lemma startFreshWindow_fresh:
  assumes "valid_params p" and "isFiniteUnitQuote (cmd_timeQuote c)"
    and "pl_activeWindow (startFreshWindow p c t s) = Some w"
  shows "fresh_window p c t w"
proof -
  note v = valid_paramsD [OF assms(1)]
  have zero: "\<not> 0 < par_minimumOnMillis p \<Longrightarrow> False" using v(2) by simp
  show ?thesis
  proof (cases "fle (f64_of_u64 (par_minimumOnMillis p))
      (requestedOnMillisExact p (cmd_timeQuote c))")
    case True
    with requestedOnMillis_cast [OF assms(1,2)] assms(3) show ?thesis
      by (auto simp: startFreshWindow_def Let_def fresh_window_def window_sized_def)
  next
    case False
    with assms(3) v(3) show ?thesis
      by (auto simp: startFreshWindow_def Let_def fresh_window_def window_sized_def
          split: if_splits)
  qed
qed

lemma startFreshWindow_cases:
  assumes "valid_params p" and "isFiniteUnitQuote (cmd_timeQuote c)"
  obtains w a where "startFreshWindow p c t s = s\<lparr>pl_activeWindow := Some w, pl_accumulator := a\<rparr>"
    "fresh_window p c t w"
proof -
  obtain w where w: "pl_activeWindow (startFreshWindow p c t s) = Some w"
    using startFreshWindow_shape(2) [of p c t s] by blast
  show thesis
    using that [OF startFreshWindow_shape(1) [of p c t s, unfolded w]
        startFreshWindow_fresh [OF assms w]] .
qed

section \<open>The physical part of the state\<close>

text \<open>
  The physical direction with its time stamps and the outer fan: what only a change of direction
  and the fan update touch.
\<close>

definition phys where
  "phys s = (pl_lastAppliedDirection s, pl_onPhaseStartedAt s, pl_deactivationDirection s,
     pl_deactivationAt s, pl_outerFanActive s, pl_outerFanDeactivationRequestedAt s,
     pl_outerFanTeardownDeadline s)"

lemma phys_eq_iff:
  "phys s = phys s' \<longleftrightarrow>
     pl_lastAppliedDirection s = pl_lastAppliedDirection s' \<and>
     pl_onPhaseStartedAt s = pl_onPhaseStartedAt s' \<and>
     pl_deactivationDirection s = pl_deactivationDirection s' \<and>
     pl_deactivationAt s = pl_deactivationAt s' \<and> pl_outerFanActive s = pl_outerFanActive s' \<and>
     pl_outerFanDeactivationRequestedAt s = pl_outerFanDeactivationRequestedAt s' \<and>
     pl_outerFanTeardownDeadline s = pl_outerFanTeardownDeadline s'"
  by (simp add: phys_def)

lemma set_last [simp]: "pl_lastAppliedDirection (setPhysicalDirection p d t s) = d"
  by (simp add: setPhysicalDirection_def Let_def)

lemma set_same: "pl_lastAppliedDirection s = d \<Longrightarrow> setPhysicalDirection p d t s = s"
  by (simp add: setPhysicalDirection_def)

lemma set_planning [simp]:
  "pl_acceptedCommand (setPhysicalDirection p d t s) = pl_acceptedCommand s"
  "pl_activeWindow (setPhysicalDirection p d t s) = pl_activeWindow s"
  "pl_accumulator (setPhysicalDirection p d t s) = pl_accumulator s"
  "pl_counterCandidate (setPhysicalDirection p d t s) = pl_counterCandidate s"
  "pl_counterObservedSince (setPhysicalDirection p d t s) = pl_counterObservedSince s"
  "pl_counterConfirmed (setPhysicalDirection p d t s) = pl_counterConfirmed s"
  "pl_sequenceHighWatermark (setPhysicalDirection p d t s) = pl_sequenceHighWatermark s"
  "pl_lastNewRequestAt (setPhysicalDirection p d t s) = pl_lastNewRequestAt s"
  "pl_watchdogEpisodeStartedAt (setPhysicalDirection p d t s) = pl_watchdogEpisodeStartedAt s"
  "pl_latchedWatchdogFault (setPhysicalDirection p d t s) = pl_latchedWatchdogFault s"
  "pl_feedbackSubject (setPhysicalDirection p d t s) = pl_feedbackSubject s"
  "pl_pendingFeedback (setPhysicalDirection p d t s) = pl_pendingFeedback s"
  "pl_innerFanActive (setPhysicalDirection p d t s) = pl_innerFanActive s"
  "pl_innerFanDeactivationRequestedAt (setPhysicalDirection p d t s) =
     pl_innerFanDeactivationRequestedAt s"
  "pl_innerFanTeardownDeadline (setPhysicalDirection p d t s) = pl_innerFanTeardownDeadline s"
  by (simp_all add: setPhysicalDirection_def Let_def)

lemma set_off:
  assumes "pl_lastAppliedDirection s \<noteq> Dir_Idle"
  shows "pl_onPhaseStartedAt (setPhysicalDirection p Dir_Idle t s) = None"
    "pl_deactivationDirection (setPhysicalDirection p Dir_Idle t s) =
       Some (pl_lastAppliedDirection s)"
    "pl_deactivationAt (setPhysicalDirection p Dir_Idle t s) = Some t"
    "pl_outerFanActive (setPhysicalDirection p Dir_Idle t s)"
    "pl_outerFanDeactivationRequestedAt (setPhysicalDirection p Dir_Idle t s) = Some t"
    "pl_outerFanTeardownDeadline (setPhysicalDirection p Dir_Idle t s) =
       retainLaterDeadline (pl_outerFanTeardownDeadline s)
         (saturatingDeadline t (par_outerFanPostRunMillis p))"
  using assms by (simp_all add: setPhysicalDirection_def Let_def)

lemma set_on:
  assumes "pl_lastAppliedDirection s = Dir_Idle" and "d \<noteq> Dir_Idle"
  shows "pl_onPhaseStartedAt (setPhysicalDirection p d t s) = Some t"
    "pl_deactivationDirection (setPhysicalDirection p d t s) = pl_deactivationDirection s"
    "pl_deactivationAt (setPhysicalDirection p d t s) = pl_deactivationAt s"
    "pl_outerFanActive (setPhysicalDirection p d t s)"
    "pl_outerFanDeactivationRequestedAt (setPhysicalDirection p d t s) = None"
    "pl_outerFanTeardownDeadline (setPhysicalDirection p d t s) = pl_outerFanTeardownDeadline s"
  using assms by (simp_all add: setPhysicalDirection_def Let_def)

lemma phys_set_cong:
  "phys s = phys s' \<Longrightarrow> phys (setPhysicalDirection p d t s) = phys (setPhysicalDirection p d t s')"
  by (simp add: phys_eq_iff setPhysicalDirection_def Let_def)

lemma arming_cong:
  "phys s = phys s' \<Longrightarrow> armingAllowed p d t s = armingAllowed p d t s'"
  by (cases "pl_deactivationAt s'") (simp_all add: phys_eq_iff armingAllowed_def Let_def)

lemma minimum_cong:
  "phys s = phys s' \<Longrightarrow> onPhaseMinimumReached p t s = onPhaseMinimumReached p t s'"
  by (simp add: phys_eq_iff onPhaseMinimumReached_def)

text \<open>
  What one tick may do to the physical part: nothing; switch off, in a regular tick not before the
  minimum on-time; or switch on from idle, when the direction was armed at a moment that is past.
\<close>

inductive phys_edge ::
  "ActuatorPlannerParameters \<Rightarrow> u64 \<Rightarrow> bool \<Rightarrow> ActuatorPlannerRuntimeState \<Rightarrow>
     ActuatorPlannerRuntimeState \<Rightarrow> bool"
  for p t regular s s' where
  stay: "phys s' = phys s \<Longrightarrow> phys_edge p t regular s s'"
| off: "pl_lastAppliedDirection s \<noteq> Dir_Idle \<Longrightarrow>
    phys s' = phys (setPhysicalDirection p Dir_Idle t s) \<Longrightarrow>
    (regular \<Longrightarrow> onPhaseMinimumReached p t s) \<Longrightarrow> phys_edge p t regular s s'"
| on: "pl_lastAppliedDirection s = Dir_Idle \<Longrightarrow> d = Dir_Heating \<or> d = Dir_Cooling \<Longrightarrow>
    start \<le> t \<Longrightarrow> armingAllowed p d start s \<Longrightarrow>
    phys s' = phys (setPhysicalDirection p d t s) \<Longrightarrow> phys_edge p t regular s s'"

lemma phys_edge_weaken: "phys_edge p t True s s' \<Longrightarrow> phys_edge p t regular s s'"
  by (elim phys_edge.cases) (auto intro: phys_edge.intros)

text \<open>Just switched off, no direction is armed at any moment up to now.\<close>

lemma not_armed_after_off:
  assumes "valid_params p" and "pl_deactivationAt s = Some t" and "u \<le> t"
  shows "\<not> armingAllowed p d u s"
  using assms valid_paramsD(4) [OF assms(1)]
  by (auto simp: armingAllowed_def deadlineReached_def Let_def)

lemma phys_edge_trans:
  assumes v: "valid_params p" and 1: "phys_edge p t r s1 s2" and 2: "phys_edge p t r s2 s3"
    and n: "pl_lastAppliedDirection s1 = Dir_Idle \<Longrightarrow> phys s2 = phys s1"
  shows "phys_edge p t r s1 s3"
  using 1
proof cases
  case stay
  note c = phys_set_cong [OF stay] arming_cong [OF stay] minimum_cong [OF stay]
  from stay have l: "pl_lastAppliedDirection s2 = pl_lastAppliedDirection s1"
    by (simp add: phys_eq_iff)
  from 2 show ?thesis
  proof cases
    case stay with \<open>phys s2 = phys s1\<close> show ?thesis by (intro phys_edge.stay) simp
  next
    case off with c l show ?thesis by (intro phys_edge.off) auto
  next
    case (on d u) with c l show ?thesis by (intro phys_edge.on [of _ d u]) auto
  qed
next
  case off
  then have s2: "pl_lastAppliedDirection s2 = Dir_Idle" "pl_deactivationAt s2 = Some t"
    using set_off [OF off(1), of p t] by (simp_all add: phys_eq_iff)
  from 2 show ?thesis
  proof cases
    case stay with off show ?thesis by (intro phys_edge.off) auto
  next
    case 2: off with s2 show ?thesis by simp
  next
    case (on d u)
    with not_armed_after_off [OF v s2(2), of u d] show ?thesis by simp
  qed
next
  case (on d u)
  then have "phys s2 = phys s1" "pl_lastAppliedDirection s2 = d" "d \<noteq> Dir_Idle"
    using n by (auto simp: phys_eq_iff)
  with on(1) show ?thesis by (simp add: phys_eq_iff)
qed

section \<open>The invariant of window and output\<close>

definition known_output :: "ActuatorPlannerRuntimeState \<Rightarrow> bool" where
  "known_output s \<longleftrightarrow>
     pl_lastAppliedDirection s \<in> {Dir_Idle, Dir_Heating, Dir_Cooling} \<and>
     (pl_onPhaseStartedAt s = None \<longleftrightarrow> pl_lastAppliedDirection s = Dir_Idle)"

definition window_inv ::
  "ActuatorPlannerParameters \<Rightarrow> ActuatorPlannerRuntimeState \<Rightarrow> ActiveSwitchingWindow \<Rightarrow> bool" where
  "window_inv p s w \<longleftrightarrow>
     window_sized p w \<and> win_direction w \<in> {Dir_Heating, Dir_Cooling} \<and>
     (win_pulseStartedSuccessfully w \<longrightarrow>
        win_pulseStartAttempted w \<and> win_scheduledOnMillis w \<noteq> 0) \<and>
     (win_pulseStartedSuccessfully w \<and> pl_lastAppliedDirection s = Dir_Idle \<longrightarrow>
        (\<exists>a. pl_deactivationAt s = Some a \<and>
             unat (win_startMonotonicMillis w) + unat (win_scheduledOnMillis w) \<le> unat a))"

text \<open>
  An output that is on belongs to the active window, and its minimum on-time ends within the
  pulse of the window, or before the window when the pulse of the window is still to be tried.
\<close>

definition on_inv :: "ActuatorPlannerParameters \<Rightarrow> ActuatorPlannerRuntimeState \<Rightarrow> bool" where
  "on_inv p s \<longleftrightarrow>
     (pl_lastAppliedDirection s \<noteq> Dir_Idle \<longrightarrow>
        (\<exists>w t. pl_activeWindow s = Some w \<and> pl_onPhaseStartedAt s = Some t \<and>
           win_direction w = pl_lastAppliedDirection s \<and>
           (win_pulseStartedSuccessfully w \<and>
              unat t + unat (par_minimumOnMillis p) \<le>
                unat (win_startMonotonicMillis w) + unat (win_scheduledOnMillis w) \<or>
            \<not> win_pulseStartAttempted w \<and>
              unat t + unat (par_minimumOnMillis p) \<le> unat (win_startMonotonicMillis w))))"

definition mid_inv :: "ActuatorPlannerParameters \<Rightarrow> ActuatorPlannerRuntimeState \<Rightarrow> bool" where
  "mid_inv p s \<longleftrightarrow>
     known_output s \<and> (\<forall>w. pl_activeWindow s = Some w \<longrightarrow> window_inv p s w) \<and> on_inv p s"

text \<open>Between ticks the pulse of a window has been tried, unless the window has none.\<close>

definition settled :: "ActuatorPlannerRuntimeState \<Rightarrow> bool" where
  "settled s \<longleftrightarrow>
     (\<forall>w. pl_activeWindow s = Some w \<longrightarrow>
        (win_pulseStartAttempted w \<or> win_scheduledOnMillis w = 0) \<and>
        (pl_lastAppliedDirection s \<noteq> Dir_Idle \<longrightarrow> win_pulseStartedSuccessfully w))"

definition tick_inv :: "ActuatorPlannerParameters \<Rightarrow> ActuatorPlannerRuntimeState \<Rightarrow> bool" where
  "tick_inv p s \<longleftrightarrow> mid_inv p s \<and> settled s"

text \<open>These predicates read the physical part and the active window only.\<close>

lemma mid_inv_cong:
  assumes "phys s = phys s'" and "pl_activeWindow s = pl_activeWindow s'"
  shows "mid_inv p s = mid_inv p s'" "settled s = settled s'" "tick_inv p s = tick_inv p s'"
  using assms
  by (simp_all add: phys_eq_iff tick_inv_def mid_inv_def settled_def known_output_def window_inv_def
      on_inv_def)

lemma retro_window:
  "\<not> hasRetrogradeTimeReference t s \<Longrightarrow> pl_activeWindow s = Some w \<Longrightarrow>
     win_startMonotonicMillis w \<le> t"
  by (auto simp: hasRetrogradeTimeReference_def)

lemma retro_phys:
  assumes "\<not> hasRetrogradeTimeReference t s"
  shows "pl_onPhaseStartedAt s = Some a \<Longrightarrow> a \<le> t" "pl_deactivationAt s = Some a \<Longrightarrow> a \<le> t"
  using assms by (auto simp: hasRetrogradeTimeReference_def retrograde_def)

text \<open>Switching off under the invariant, after the minimum on-time.\<close>

lemma minimum_reached_iff:
  "pl_onPhaseStartedAt s = Some u \<Longrightarrow> u \<le> t \<Longrightarrow>
     onPhaseMinimumReached p t s \<longleftrightarrow> unat u + unat (par_minimumOnMillis p) \<le> unat t"
  by (simp add: onPhaseMinimumReached_def deadlineReached_def elapsed_ge_iff leD)

text \<open>
  The tick of a window: its wish, followed by the change of the output. The new window has the
  same plan, the invariant holds again, and the pulse has been tried.
\<close>

definition windowStep ::
  "ActuatorPlannerParameters \<Rightarrow> u64 \<Rightarrow> ActiveSwitchingWindow \<Rightarrow> ActuatorPlannerRuntimeState \<Rightarrow>
     ActuatorPlannerRuntimeState" where
  "windowStep p t w s =
     (let (physical, s) = applyWindowPhysicalTick p t s in
      if wpt_active physical then setPhysicalDirection p (win_direction w) t s
      else if physicalDirection s = win_direction w then setPhysicalDirection p Dir_Idle t s
      else s)"

text \<open>The three kinds of windows: without a pulse, with a pulse still to try, with a tried one.\<close>

lemma apply_zero:
  assumes "pl_activeWindow s = Some w" and "win_scheduledOnMillis w = 0"
  shows "\<exists>r. applyWindowPhysicalTick p t s = (\<lparr>wpt_active = False, wpt_reason = r\<rparr>, s)"
  using assms by (simp add: applyWindowPhysicalTick_def Let_def)

definition fires ::
  "ActuatorPlannerParameters \<Rightarrow> u64 \<Rightarrow> ActiveSwitchingWindow \<Rightarrow> ActuatorPlannerRuntimeState \<Rightarrow> bool"
  where
  "fires p t w s \<longleftrightarrow>
     t - win_startMonotonicMillis w < win_scheduledOnMillis w \<and>
     armingAllowed p (win_direction w) (win_startMonotonicMillis w) s \<and>
     par_minimumOnMillis p \<le>
       win_scheduledOnMillis w - (t - win_startMonotonicMillis w)"

lemma apply_try:
  assumes "pl_activeWindow s = Some w" and "win_scheduledOnMillis w \<noteq> 0"
    and "\<not> win_pulseStartAttempted w" and "\<not> win_pulseStartedSuccessfully w"
  shows "\<exists>r. applyWindowPhysicalTick p t s =
    (\<lparr>wpt_active = fires p t w s, wpt_reason = r\<rparr>,
     s\<lparr>pl_activeWindow := Some (w\<lparr>win_pulseStartAttempted := True,
                                   win_pulseStartedSuccessfully := fires p t w s\<rparr>)\<rparr>)"
proof -
  have w: "w\<lparr>win_pulseStartAttempted := True, win_pulseStartedSuccessfully := False\<rparr> =
      w\<lparr>win_pulseStartAttempted := True\<rparr>"
    using assms(4) by (cases w) simp
  have a: "armingAllowed p d u (s\<lparr>pl_activeWindow := x\<rparr>) = armingAllowed p d u s" for d u x
    by (rule arming_cong) (simp add: phys_eq_iff)
  show ?thesis
    using assms(1-3)
    by (cases "t - win_startMonotonicMillis w < win_scheduledOnMillis w";
        cases "armingAllowed p (win_direction w) (win_startMonotonicMillis w) s";
        cases "win_scheduledOnMillis w - (t - win_startMonotonicMillis w) < par_minimumOnMillis p")
      (simp_all del: not_less add: applyWindowPhysicalTick_def Let_def fires_def a w
        not_le [symmetric])
qed

lemma apply_tried:
  assumes "pl_activeWindow s = Some w" and "win_scheduledOnMillis w \<noteq> 0"
    and "win_pulseStartAttempted w"
  shows "\<exists>r. applyWindowPhysicalTick p t s =
    (\<lparr>wpt_active = (win_pulseStartedSuccessfully w \<and>
        t - win_startMonotonicMillis w < win_scheduledOnMillis w), wpt_reason = r\<rparr>, s)"
  using assms by (simp add: applyWindowPhysicalTick_def Let_def)

text \<open>The window after its tick.\<close>

definition triedWindow ::
  "ActuatorPlannerParameters \<Rightarrow> u64 \<Rightarrow> ActuatorPlannerRuntimeState \<Rightarrow> ActiveSwitchingWindow \<Rightarrow>
     ActiveSwitchingWindow" where
  "triedWindow p t s w =
     (if win_scheduledOnMillis w = 0 \<or> win_pulseStartAttempted w then w
      else w\<lparr>win_pulseStartAttempted := True, win_pulseStartedSuccessfully := fires p t w s\<rparr>)"

definition wishesOn ::
  "ActuatorPlannerParameters \<Rightarrow> u64 \<Rightarrow> ActuatorPlannerRuntimeState \<Rightarrow> ActiveSwitchingWindow \<Rightarrow> bool"
  where
  "wishesOn p t s w \<longleftrightarrow>
     win_scheduledOnMillis w \<noteq> 0 \<and>
     win_pulseStartedSuccessfully (triedWindow p t s w) \<and>
     t - win_startMonotonicMillis w < win_scheduledOnMillis w"

lemma apply_window:
  assumes "pl_activeWindow s = Some w" and "window_inv p s w"
  shows "\<exists>r. applyWindowPhysicalTick p t s =
    (\<lparr>wpt_active = wishesOn p t s w, wpt_reason = r\<rparr>,
     s\<lparr>pl_activeWindow := Some (triedWindow p t s w)\<rparr>)"
proof -
  have s: "s\<lparr>pl_activeWindow := Some w\<rparr> = s" using assms(1) by (cases s) simp
  consider "win_scheduledOnMillis w = 0"
    | "win_scheduledOnMillis w \<noteq> 0" "win_pulseStartAttempted w"
    | "win_scheduledOnMillis w \<noteq> 0" "\<not> win_pulseStartAttempted w"
      "\<not> win_pulseStartedSuccessfully w"
    using assms(2) by (auto simp: window_inv_def)
  then show ?thesis
  proof cases
    case 1
    with apply_zero [OF assms(1)] s show ?thesis by (simp add: wishesOn_def triedWindow_def)
  next
    case 2
    with apply_tried [OF assms(1)] s show ?thesis by (simp add: wishesOn_def triedWindow_def)
  next
    case 3
    then have "wishesOn p t s w = fires p t w s"
      by (auto simp: wishesOn_def triedWindow_def fires_def)
    with apply_try [OF assms(1) 3] 3 show ?thesis by (simp add: triedWindow_def)
  qed
qed

lemma windowStep_eq:
  assumes "pl_activeWindow s = Some w" and "window_inv p s w"
  shows "windowStep p t w s =
    (let s' = s\<lparr>pl_activeWindow := Some (triedWindow p t s w)\<rparr> in
     if wishesOn p t s w then setPhysicalDirection p (win_direction w) t s'
     else if pl_lastAppliedDirection s = win_direction w then setPhysicalDirection p Dir_Idle t s'
     else s')"
proof -
  obtain r where "applyWindowPhysicalTick p t s = (\<lparr>wpt_active = wishesOn p t s w, wpt_reason = r\<rparr>,
      s\<lparr>pl_activeWindow := Some (triedWindow p t s w)\<rparr>)"
    using apply_window [OF assms] by blast
  then show ?thesis by (simp add: windowStep_def physicalDirection_def Let_def)
qed

lemma triedWindow_plan [simp]:
  "win_startMonotonicMillis (triedWindow p t s w) = win_startMonotonicMillis w"
  "win_direction (triedWindow p t s w) = win_direction w"
  "win_scheduledOnMillis (triedWindow p t s w) = win_scheduledOnMillis w"
  "win_sourceRequestSequence (triedWindow p t s w) = win_sourceRequestSequence w"
  by (simp_all add: triedWindow_def)

lemma window_over:
  fixes t a d :: u64
  assumes "a \<le> t" and "\<not> t - a < d"
  shows "unat a + unat d \<le> unat t"
  using assms elapsed_ge_iff [OF assms(1), of d] by (simp add: not_less)

lemma window_running:
  fixes t a d :: u64
  assumes "a \<le> t" and "t - a < d"
  shows "unat t < unat a + unat d"
  using assms elapsed_ge_iff [OF assms(1), of d] by (simp add: not_le [symmetric])

lemma fires_minimum:
  assumes "win_startMonotonicMillis w \<le> t" and "fires p t w s"
  shows "unat t + unat (par_minimumOnMillis p) \<le>
    unat (win_startMonotonicMillis w) + unat (win_scheduledOnMillis w)"
proof -
  let ?e = "t - win_startMonotonicMillis w"
  have "unat (win_scheduledOnMillis w - ?e) = unat (win_scheduledOnMillis w) - unat ?e"
    using assms(2) by (intro unat_sub_le) (auto simp: fires_def)
  moreover have "unat ?e = unat t - unat (win_startMonotonicMillis w)"
    by (rule unat_elapsed [OF assms(1)])
  moreover have "unat (par_minimumOnMillis p) \<le> unat (win_scheduledOnMillis w - ?e)"
    using assms(2) by (simp add: fires_def word_le_nat_alt)
  ultimately show ?thesis
    using assms window_running [OF assms(1), of "win_scheduledOnMillis w"]
    by (auto simp: fires_def word_le_nat_alt)
qed

lemma switch_off_inv:
  assumes "window_inv p s w" and "pl_lastAppliedDirection s \<noteq> Dir_Idle"
    and "win_pulseStartedSuccessfully w \<Longrightarrow>
           unat (win_startMonotonicMillis w) + unat (win_scheduledOnMillis w) \<le> unat t"
    and "win_pulseStartAttempted w \<or> win_scheduledOnMillis w = 0"
  shows "tick_inv p (setPhysicalDirection p Dir_Idle t (s\<lparr>pl_activeWindow := Some w\<rparr>))"
  using assms set_off [of "s\<lparr>pl_activeWindow := Some w\<rparr>" p t]
  by (simp add: tick_inv_def mid_inv_def settled_def known_output_def on_inv_def window_inv_def)

lemma tried_inv:
  assumes "window_inv p s w"
  shows "window_inv p s' (triedWindow p t s w) \<longleftrightarrow>
     (win_pulseStartedSuccessfully (triedWindow p t s w) \<and>
      pl_lastAppliedDirection s' = Dir_Idle \<longrightarrow>
        (\<exists>a. pl_deactivationAt s' = Some a \<and>
             unat (win_startMonotonicMillis w) + unat (win_scheduledOnMillis w) \<le> unat a))"
  using assms by (auto simp: window_inv_def window_sized_def triedWindow_def)

lemma tried_attempted:
  "win_pulseStartAttempted (triedWindow p t s w) \<or> win_scheduledOnMillis w = 0"
  by (simp add: triedWindow_def)

lemma window_tick_idle:
  assumes w: "window_inv p s w" and a: "pl_activeWindow s = Some w"
    and r: "\<not> hasRetrogradeTimeReference t s" and i: "pl_lastAppliedDirection s = Dir_Idle"
    and k: "known_output s"
  shows "tick_inv p (windowStep p t w s) \<and> phys_edge p t True s (windowStep p t w s) \<and>
         pl_activeWindow (windowStep p t w s) = Some (triedWindow p t s w)"
proof -
  let ?w = "triedWindow p t s w" and ?s = "s\<lparr>pl_activeWindow := Some (triedWindow p t s w)\<rparr>"
  have st: "win_startMonotonicMillis w \<le> t" by (rule retro_window [OF r a])
  have p: "phys ?s = phys s" by (simp add: phys_eq_iff)
  note e = windowStep_eq [OF a w, of t]
  from w i have nd: "pl_lastAppliedDirection s \<noteq> win_direction w"
    by (auto simp: window_inv_def)
  have earlier: "\<exists>a. pl_deactivationAt s = Some a \<and>
      unat (win_startMonotonicMillis w) + unat (win_scheduledOnMillis w) \<le> unat a"
    if "win_pulseStartedSuccessfully w"
    using that w i by (simp add: window_inv_def)
  show ?thesis
  proof (cases "wishesOn p t s w")
    case False
    then have s': "windowStep p t w s = ?s" using nd by (simp add: e)
    have "window_inv p ?s ?w"
    proof (cases "win_pulseStartedSuccessfully w")
      case True
      with earlier show ?thesis by (simp add: tried_inv [OF w])
    next
      case f: False
      with False have "\<not> win_pulseStartedSuccessfully ?w"
        by (auto simp: wishesOn_def triedWindow_def fires_def)
      then show ?thesis by (simp add: tried_inv [OF w])
    qed
    then have "tick_inv p ?s"
      using k i tried_attempted [of p t s w]
      by (simp add: tick_inv_def mid_inv_def settled_def known_output_def on_inv_def)
    with p show ?thesis by (simp add: s' phys_edge.stay)
  next
    case True
    have "\<not> win_pulseStartAttempted w"
    proof
      assume att: "win_pulseStartAttempted w"
      with True have "win_pulseStartedSuccessfully w" by (simp add: wishesOn_def triedWindow_def)
      with earlier obtain a where "pl_deactivationAt s = Some a"
        "unat (win_startMonotonicMillis w) + unat (win_scheduledOnMillis w) \<le> unat a" by blast
      moreover have "a \<le> t" using retro_phys(2) [OF r] calculation(1) by blast
      ultimately show False
        using True window_running [OF st, of "win_scheduledOnMillis w"]
        by (simp add: wishesOn_def word_le_nat_alt)
    qed
    with True have f: "fires p t w s" by (auto simp: wishesOn_def triedWindow_def)
    let ?d = "win_direction w"
    have d: "?d = Dir_Heating \<or> ?d = Dir_Cooling" "?d \<noteq> Dir_Idle"
      using w by (auto simp: window_inv_def)
    have s': "windowStep p t w s = setPhysicalDirection p ?d t ?s" using True by (simp add: e)
    have i': "pl_lastAppliedDirection ?s = Dir_Idle" using i by simp
    note on = set_on [OF i' d(2), of p t]
    have "tick_inv p (setPhysicalDirection p ?d t ?s)"
      using d on True fires_minimum [OF st f] tried_attempted [of p t s w]
      by (auto simp: tick_inv_def mid_inv_def settled_def known_output_def on_inv_def
          tried_inv [OF w] wishesOn_def)
    moreover have "phys_edge p t True s (setPhysicalDirection p ?d t ?s)"
      using i d(1) st f phys_set_cong [OF p]
      by (intro phys_edge.on [of _ ?d "win_startMonotonicMillis w"]) (simp_all add: fires_def)
    ultimately show ?thesis by (simp add: s')
  qed
qed

lemma window_tick_on:
  assumes w: "window_inv p s w" and a: "pl_activeWindow s = Some w"
    and r: "\<not> hasRetrogradeTimeReference t s" and i: "pl_lastAppliedDirection s \<noteq> Dir_Idle"
    and k: "known_output s" and o: "on_inv p s"
  shows "tick_inv p (windowStep p t w s) \<and> phys_edge p t True s (windowStep p t w s) \<and>
         pl_activeWindow (windowStep p t w s) = Some (triedWindow p t s w)"
proof -
  let ?w = "triedWindow p t s w" and ?s = "s\<lparr>pl_activeWindow := Some (triedWindow p t s w)\<rparr>"
  have st: "win_startMonotonicMillis w \<le> t" by (rule retro_window [OF r a])
  have p: "phys ?s = phys s" by (simp add: phys_eq_iff)
  note e = windowStep_eq [OF a w, of t]
  from o i a obtain u where u: "pl_onPhaseStartedAt s = Some u"
    "win_direction w = pl_lastAppliedDirection s"
    "win_pulseStartedSuccessfully w \<and> unat u + unat (par_minimumOnMillis p) \<le>
        unat (win_startMonotonicMillis w) + unat (win_scheduledOnMillis w) \<or>
     \<not> win_pulseStartAttempted w \<and>
        unat u + unat (par_minimumOnMillis p) \<le> unat (win_startMonotonicMillis w)"
    by (auto simp: on_inv_def)
  have ut: "u \<le> t" using retro_phys(1) [OF r] u(1) by blast
  show ?thesis
  proof (cases "wishesOn p t s w")
    case True
    then have s': "windowStep p t w s = ?s" using u(2) by (simp add: e set_same)
    have "win_pulseStartedSuccessfully ?w" using True by (simp add: wishesOn_def)
    then have "tick_inv p ?s"
      using k i u tried_attempted [of p t s w]
      by (auto simp: tick_inv_def mid_inv_def settled_def known_output_def on_inv_def
          tried_inv [OF w])
    with p show ?thesis by (simp add: s' phys_edge.stay)
  next
    case False
    then have s': "windowStep p t w s = setPhysicalDirection p Dir_Idle t ?s"
      using u(2) by (simp add: e)
    have over: "unat (win_startMonotonicMillis w) + unat (win_scheduledOnMillis w) \<le> unat t"
      if "win_pulseStartedSuccessfully ?w"
    proof (cases "win_scheduledOnMillis w = 0")
      case True
      then show ?thesis using st by (simp add: word_le_nat_alt)
    next
      case z: False
      with that False show ?thesis using window_over [OF st] by (simp add: wishesOn_def)
    qed
    have "win_pulseStartedSuccessfully w \<Longrightarrow> win_pulseStartedSuccessfully ?w"
      using w by (simp add: window_inv_def triedWindow_def)
    then have m: "onPhaseMinimumReached p t s"
      using u(3) over st by (auto simp: minimum_reached_iff [OF u(1) ut] word_le_nat_alt)
    have wi: "window_inv p s ?w" using i by (simp add: tried_inv [OF w])
    have "tick_inv p (setPhysicalDirection p Dir_Idle t ?s)"
      by (rule switch_off_inv [OF wi i]) (use over tried_attempted [of p t s w] in simp_all)
    moreover have "phys_edge p t True s (setPhysicalDirection p Dir_Idle t ?s)"
      using i m phys_set_cong [OF p] by (intro phys_edge.off) simp_all
    ultimately show ?thesis by (simp add: s')
  qed
qed

lemma window_tick:
  assumes "mid_inv p s" and "\<not> hasRetrogradeTimeReference t s" and "pl_activeWindow s = Some w"
  shows "tick_inv p (windowStep p t w s)" "phys_edge p t True s (windowStep p t w s)"
    "pl_activeWindow (windowStep p t w s) = Some (triedWindow p t s w)"
  using assms window_tick_idle [OF _ assms(3,2)] window_tick_on [OF _ assms(3,2)]
  by (cases "pl_lastAppliedDirection s = Dir_Idle"; simp add: mid_inv_def)+

end
