(* ===== verification/PlannerStages.thy ===== *)
theory PlannerStages
  imports PlannerWindow
begin

text \<open>
  The steps of an evaluation of the actuator planner, one lemma each: the progress of the window,
  a window of the other direction, the creation of a window and its tick, rejection, teardown and
  admission. \<open>stage\<close> is what the regular steps keep, \<open>outcome_ok\<close> what an evaluation leaves, and
  \<open>runPhaseB_cases\<close> splits phase B into an immediate rejection and a regular evaluation.
\<close>

section \<open>Operations that leave output and window alone\<close>

lemma mergeFeedback_shape:
  "mergeFeedback q d s =
     s\<lparr>pl_pendingFeedback := pl_pendingFeedback (mergeFeedback q d s),
       pl_pendingFeedbackUpdateAvailable :=
         pl_pendingFeedbackUpdateAvailable (mergeFeedback q d s)\<rparr>"
  by (cases "pl_pendingFeedback s") (simp_all add: mergeFeedback_def)

definition fb_only :: "ActuatorPlannerRuntimeState \<Rightarrow> ActuatorPlannerRuntimeState \<Rightarrow> bool" where
  "fb_only s s' \<longleftrightarrow> (\<exists>f u. s' = s\<lparr>pl_pendingFeedback := f, pl_pendingFeedbackUpdateAvailable := u\<rparr>)"

lemma fb_only_refl: "fb_only s s"
  unfolding fb_only_def
  by (intro exI [of _ "pl_pendingFeedback s"] exI [of _ "pl_pendingFeedbackUpdateAvailable s"]) simp

lemma fb_only_merge: "fb_only s (mergeFeedback q d s)" "fb_only s (mergeFeedbackForDemand c r s)"
proof -
  show m: "fb_only s (mergeFeedback q d s)" for q d
    unfolding fb_only_def using mergeFeedback_shape by blast
  then show "fb_only s (mergeFeedbackForDemand c r s)"
    by (simp add: mergeFeedbackForDemand_def fb_only_refl)
qed

lemma fb_only_sel:
  assumes "fb_only s s'"
  shows "phys s' = phys s" "pl_activeWindow s' = pl_activeWindow s"
    "pl_acceptedCommand s' = pl_acceptedCommand s"
    "hasRetrogradeTimeReference t s' = hasRetrogradeTimeReference t s"
    "pl_lastAppliedDirection s' = pl_lastAppliedDirection s"
    "pl_feedbackSubject s' = pl_feedbackSubject s"
    "pl_latchedWatchdogFault s' = pl_latchedWatchdogFault s"
    "pl_sequenceHighWatermark s' = pl_sequenceHighWatermark s"
    "pl_innerFanActive s' = pl_innerFanActive s"
  using assms
  by (auto simp: fb_only_def phys_def hasRetrogradeTimeReference_def)

text \<open>
  What the class of regular evaluations keeps: the invariant of output and window, no time stamp
  in the future, the accepted command, and a regular step of the output.
\<close>

definition stage ::
  "ActuatorPlannerParameters \<Rightarrow> u64 \<Rightarrow> ActuatorPlannerRuntimeState \<Rightarrow> ActuatorPlannerRuntimeState \<Rightarrow>
     bool" where
  "stage p t s0 s \<longleftrightarrow>
     mid_inv p s \<and> \<not> hasRetrogradeTimeReference t s \<and> phys_edge p t True s0 s \<and>
     pl_acceptedCommand s = pl_acceptedCommand s0"

definition stage_done ::
  "ActuatorPlannerParameters \<Rightarrow> u64 \<Rightarrow> ActuatorPlannerRuntimeState \<Rightarrow> ActuatorPlannerRuntimeState \<Rightarrow>
     bool" where
  "stage_done p t s0 s \<longleftrightarrow> stage p t s0 s \<and> settled s"

lemma stage_fb:
  assumes "fb_only s s'"
  shows "stage p t s0 s' = stage p t s0 s" "stage_done p t s0 s' = stage_done p t s0 s"
proof -
  note f = fb_only_sel [OF assms]
  have "phys_edge p t True s0 s' = phys_edge p t True s0 s"
    by (simp add: phys_edge.simps f(1))
  then show "stage p t s0 s' = stage p t s0 s" "stage_done p t s0 s' = stage_done p t s0 s"
    using mid_inv_cong [OF f(1,2)] by (simp_all add: stage_def stage_done_def f)
qed

lemma stage_refl: "mid_inv p s \<Longrightarrow> \<not> hasRetrogradeTimeReference t s \<Longrightarrow> stage p t s s"
  by (simp add: stage_def phys_edge.stay)

lemma stage_trans:
  assumes "valid_params p" and "stage p t s1 s2" and "stage p t s2 s3"
    and "pl_lastAppliedDirection s1 = Dir_Idle \<Longrightarrow> phys s2 = phys s1"
  shows "stage p t s1 s3"
  using assms phys_edge_trans [OF assms(1), of t True s1 s2 s3] by (simp add: stage_def)

lemma answerDemand_fb: "fb_only s (snd (answerDemand c st r outcome s))"
  by (simp add: answerDemand_def Let_def fb_only_merge)

lemma retro_set:
  "\<not> hasRetrogradeTimeReference t s \<Longrightarrow>
   \<not> hasRetrogradeTimeReference t (setPhysicalDirection p d t s)"
  by (auto simp: hasRetrogradeTimeReference_def setPhysicalDirection_def Let_def retrograde_def)

lemma retro_window_update:
  assumes "\<not> hasRetrogradeTimeReference t s"
    and "\<And>w'. w = Some w' \<Longrightarrow> win_startMonotonicMillis w' \<le> t"
  shows "\<not> hasRetrogradeTimeReference t (s\<lparr>pl_activeWindow := w\<rparr>)"
    "\<not> hasRetrogradeTimeReference t (s\<lparr>pl_activeWindow := w, pl_accumulator := a\<rparr>)"
  using assms by (cases w; auto simp: hasRetrogradeTimeReference_def)+

lemma retro_counter:
  assumes "\<not> hasRetrogradeTimeReference t s"
  shows "\<not> hasRetrogradeTimeReference t (resetCounterDirection s)"
    "\<not> hasRetrogradeTimeReference t (updateCounterDirection p c ref t s)"
  using assms
  by (auto simp: hasRetrogradeTimeReference_def resetCounterDirection_def
      updateCounterDirection_def Let_def)

lemma counter_keeps:
  "phys (updateCounterDirection p c ref t s) = phys s"
  "pl_activeWindow (updateCounterDirection p c ref t s) = pl_activeWindow s"
  "pl_acceptedCommand (updateCounterDirection p c ref t s) = pl_acceptedCommand s"
  "phys (resetCounterDirection s) = phys s"
  "pl_activeWindow (resetCounterDirection s) = pl_activeWindow s"
  "pl_acceptedCommand (resetCounterDirection s) = pl_acceptedCommand s"
  by (simp_all add: updateCounterDirection_def resetCounterDirection_def Let_def phys_def)

section \<open>Progress of the window\<close>

lemma rebased_start:
  fixes t a W :: u64
  assumes "a \<le> t" and "0 < W" and "W \<le> t - a"
  shows "unat (a + (t - a) div W * W) = unat a + (unat t - unat a) div unat W * unat W"
    and "unat a + unat W \<le> unat (a + (t - a) div W * W)"
    and "a + (t - a) div W * W \<le> t"
proof -
  have e: "unat (t - a) = unat t - unat a" using assms(1) by (rule unat_elapsed)
  have le: "unat a \<le> unat t" using assms(1) by (simp add: word_le_nat_alt)
  let ?k = "(unat t - unat a) div unat W"
  have kw: "?k * unat W \<le> unat t - unat a" by simp
  have m: "unat ((t - a) div W * W) = ?k * unat W"
  proof -
    have "?k * unat W < 18446744073709551616" using kw unat_u64_lt [of t] by linarith
    then show ?thesis by (subst unat_mult_no_wrap) (simp_all only: unat_div e)
  qed
  have s: "unat (a + (t - a) div W * W) = unat a + ?k * unat W"
  proof -
    have "unat a + ?k * unat W < 18446744073709551616"
      using kw le unat_u64_lt [of t] by linarith
    then show ?thesis by (subst unat_add_no_wrap) (simp_all only: m)
  qed
  then show "unat (a + (t - a) div W * W) = unat a + ?k * unat W" .
  have "0 < unat W" using assms(2) by (simp add: word_less_nat_alt)
  moreover have "unat W \<le> unat t - unat a" using assms(3) e by (simp add: word_le_nat_alt)
  ultimately have "1 \<le> ?k" by (simp add: Suc_le_eq div_greater_zero_iff)
  then have "unat W \<le> ?k * unat W" by simp
  with s show "unat a + unat W \<le> unat (a + (t - a) div W * W)" by simp
  show "a + (t - a) div W * W \<le> t"
    unfolding word_le_nat_alt s using kw le by linarith
qed

definition command_ok :: "AcceptedControlCommand \<Rightarrow> bool" where
  "command_ok c \<longleftrightarrow>
     cmd_direction c \<in> {Dir_Idle, Dir_Heating, Dir_Cooling} \<and> isFiniteUnitQuote (cmd_timeQuote c)"

lemma fresh_window_inv:
  "fresh_window p c u w \<Longrightarrow> command_ok c \<Longrightarrow> cmd_direction c \<noteq> Dir_Idle \<Longrightarrow> window_inv p s w"
  by (auto simp: fresh_window_def window_inv_def command_ok_def)

text \<open>An output that is on, between ticks: its minimum on-time ends within the pulse.\<close>

lemma on_within_pulse:
  assumes "tick_inv p s" and "pl_lastAppliedDirection s \<noteq> Dir_Idle"
  obtains w u where "pl_activeWindow s = Some w" "pl_onPhaseStartedAt s = Some u"
    "win_direction w = pl_lastAppliedDirection s" "win_pulseStartedSuccessfully w"
    "window_inv p s w"
    "unat u + unat (par_minimumOnMillis p) \<le>
       unat (win_startMonotonicMillis w) + unat (win_scheduledOnMillis w)"
    "unat u + unat (par_minimumOnMillis p) \<le>
       unat (win_startMonotonicMillis w) + unat (par_switchingWindowMillis p)"
proof -
  from assms have o: "on_inv p s" and st: "settled s"
    and wi: "\<And>w. pl_activeWindow s = Some w \<Longrightarrow> window_inv p s w"
    by (auto simp: tick_inv_def mid_inv_def)
  from o assms(2) obtain w u where w: "pl_activeWindow s = Some w" "pl_onPhaseStartedAt s = Some u"
    "win_direction w = pl_lastAppliedDirection s"
    "win_pulseStartedSuccessfully w \<and> unat u + unat (par_minimumOnMillis p) \<le>
        unat (win_startMonotonicMillis w) + unat (win_scheduledOnMillis w) \<or>
     \<not> win_pulseStartAttempted w"
    unfolding on_inv_def by blast
  have f: "win_pulseStartedSuccessfully w" using st w(1) assms(2) by (simp add: settled_def)
  have "win_pulseStartAttempted w" "win_scheduledOnMillis w \<le> par_switchingWindowMillis p"
    using wi [OF w(1)] f by (simp_all add: window_inv_def window_sized_def)
  with that [OF w(1-3) f wi [OF w(1)]] w(4) show thesis by (simp add: word_le_nat_alt)
qed

lemma mid_invD: "mid_inv p s \<Longrightarrow> pl_activeWindow s = None \<Longrightarrow> pl_lastAppliedDirection s = Dir_Idle"
  by (auto simp: mid_inv_def on_inv_def)

lemma mid_inv_fresh:
  assumes "mid_inv p s" and "window_inv p s w" and "\<not> win_pulseStartedSuccessfully w"
    and "pl_lastAppliedDirection s \<noteq> Dir_Idle \<Longrightarrow>
      win_direction w = pl_lastAppliedDirection s \<and> \<not> win_pulseStartAttempted w \<and>
      (\<exists>u. pl_onPhaseStartedAt s = Some u \<and>
           unat u + unat (par_minimumOnMillis p) \<le> unat (win_startMonotonicMillis w))"
  shows "mid_inv p (s\<lparr>pl_activeWindow := Some w, pl_accumulator := a\<rparr>)"
  using assms by (auto simp: mid_inv_def known_output_def window_inv_def on_inv_def)

lemma mid_inv_closed:
  assumes "mid_inv p s" and "pl_lastAppliedDirection s = Dir_Idle"
  shows "mid_inv p (s\<lparr>pl_activeWindow := None, pl_accumulator := a\<rparr>)"
  using assms by (simp add: mid_inv_def known_output_def on_inv_def)

lemma mid_inv_switched_off:
  assumes "pl_lastAppliedDirection s \<noteq> Dir_Idle" and "pl_activeWindow s = None"
  shows "mid_inv p (setPhysicalDirection p Dir_Idle t s)"
  using assms set_off [OF assms(1), of p t]
  by (simp add: mid_inv_def known_output_def on_inv_def)

lemma settled_none: "pl_activeWindow s = None \<Longrightarrow> settled s"
  by (simp add: settled_def)

lemma stage_advance:
  assumes v: "valid_params p" and i: "tick_inv p s" and r: "\<not> hasRetrogradeTimeReference t s"
    and c: "command_ok c" "cmd_direction c \<noteq> Dir_Idle"
  defines "s' \<equiv> advanceWindow p c t s"
  shows "stage p t s s' \<and> (pl_lastAppliedDirection s = Dir_Idle \<longrightarrow> phys s' = phys s) \<and>
         (settled s' \<or> (\<exists>w. pl_activeWindow s' = Some w \<and> win_direction w = cmd_direction c))"
proof -
  have m: "mid_inv p s" and st: "settled s" using i by (simp_all add: tick_inv_def)
  let ?W = "par_switchingWindowMillis p"
  show ?thesis
  proof (cases "\<exists>w. pl_activeWindow s = Some w \<and> ?W \<le> t - win_startMonotonicMillis w")
    case False
    then have "s' = s"
      by (auto simp: s'_def advanceWindow_def Let_def split: option.split)
    with stage_refl [OF m r] st show ?thesis by simp
  next
    case True
    then obtain w where w: "pl_activeWindow s = Some w" "?W \<le> t - win_startMonotonicMillis w" by blast
    have le: "win_startMonotonicMillis w \<le> t" by (rule retro_window [OF r w(1)])
    let ?start = "win_startMonotonicMillis w + (t - win_startMonotonicMillis w) div ?W * ?W"
    note rb = rebased_start [OF le valid_paramsD(1) [OF v] w(2)]
    have on: "\<exists>u. pl_onPhaseStartedAt s = Some u \<and> unat u + unat (par_minimumOnMillis p) \<le> unat ?start \<and>
        win_direction w = pl_lastAppliedDirection s"
      if d: "pl_lastAppliedDirection s \<noteq> Dir_Idle"
    proof -
      obtain w' u where "pl_activeWindow s = Some w'" "pl_onPhaseStartedAt s = Some u"
        "win_direction w' = pl_lastAppliedDirection s"
        "unat u + unat (par_minimumOnMillis p) \<le> unat (win_startMonotonicMillis w') + unat ?W"
        by (rule on_within_pulse [OF i d])
      with w(1) order_trans [OF _ rb(2)] show ?thesis by auto
    qed
    show ?thesis
    proof (cases "win_direction w = cmd_direction c")
      case True
      have q: "isFiniteUnitQuote (cmd_timeQuote c)" using c(1) by (simp add: command_ok_def)
      obtain w' a where f: "startFreshWindow p c ?start s =
          s\<lparr>pl_activeWindow := Some w', pl_accumulator := a\<rparr>" "fresh_window p c ?start w'"
        by (rule startFreshWindow_cases [OF v q])
      have s': "s' = s\<lparr>pl_activeWindow := Some w', pl_accumulator := a\<rparr>"
        using w True f(1) by (simp add: s'_def advanceWindow_def Let_def)
      have "mid_inv p s'"
        unfolding s' using f(2) on True
        by (intro mid_inv_fresh [OF m fresh_window_inv [OF f(2) c]]) (auto simp: fresh_window_def)
      moreover have "\<not> hasRetrogradeTimeReference t s'"
        unfolding s' using f(2) rb(3) by (intro retro_window_update [OF r]) (simp add: fresh_window_def)
      moreover have "phys s' = phys s" by (simp add: s' phys_def)
      ultimately show ?thesis
        using f(2) by (simp add: stage_def phys_edge.stay s' fresh_window_def)
    next
      case False
      let ?s = "s\<lparr>pl_activeWindow := None, pl_accumulator := emptyAccumulator\<rparr>"
      have r': "\<not> hasRetrogradeTimeReference t ?s" by (rule retro_window_update [OF r]) simp
      have ps: "phys ?s = phys s" by (simp add: phys_def)
      show ?thesis
      proof (cases "pl_lastAppliedDirection s = Dir_Idle")
        case True
        moreover have "win_direction w \<noteq> Dir_Idle"
          using m w(1) by (auto simp: mid_inv_def window_inv_def)
        ultimately have "s' = ?s"
          using w False by (simp add: s'_def advanceWindow_def Let_def physicalDirection_def)
        with True m r' ps show ?thesis
          by (simp add: stage_def mid_inv_closed phys_edge.stay settled_none)
      next
        case on': False
        with on have "win_direction w = pl_lastAppliedDirection s" by blast
        then have s': "s' = setPhysicalDirection p Dir_Idle t ?s"
          using w False by (simp add: s'_def advanceWindow_def Let_def physicalDirection_def)
        from on [OF on'] obtain u where u: "pl_onPhaseStartedAt s = Some u"
          "unat u + unat (par_minimumOnMillis p) \<le> unat ?start" by blast
        have "u \<le> t" using retro_phys(1) [OF r u(1)] .
        moreover have "unat ?start \<le> unat t" using rb(3) by (simp only: word_le_nat_alt)
        ultimately have "onPhaseMinimumReached p t s"
          using u(2) by (simp only: minimum_reached_iff [OF u(1)])
        then have "phys_edge p t True s s'"
          unfolding s' using on' phys_set_cong [OF ps] by (intro phys_edge.off) simp_all
        then show ?thesis
          using on' retro_set [OF r', of p Dir_Idle]
          by (simp add: stage_def s' mid_inv_switched_off settled_none)
      qed
    qed
  qed
qed

section \<open>A window of the other direction, and the creation of a window\<close>

lemma stage_step:
  assumes "mid_inv p s" and "\<not> hasRetrogradeTimeReference t s" and "pl_activeWindow s = Some w"
  shows "stage_done p t s (windowStep p t w s)"
proof -
  note wt = window_tick [OF assms]
  have wi: "window_inv p s w" using assms(1,3) by (simp add: mid_inv_def)
  have "\<not> hasRetrogradeTimeReference t (s\<lparr>pl_activeWindow := Some (triedWindow p t s w)\<rparr>)"
    using retro_window [OF assms(2,3)] by (intro retro_window_update [OF assms(2)]) auto
  then have "\<not> hasRetrogradeTimeReference t (windowStep p t w s)"
    unfolding windowStep_eq [OF assms(3) wi] Let_def by (simp add: retro_set)
  moreover have "pl_acceptedCommand (windowStep p t w s) = pl_acceptedCommand s"
    unfolding windowStep_eq [OF assms(3) wi] Let_def by simp
  ultimately show ?thesis
    using wt(1,2) by (simp add: stage_done_def stage_def tick_inv_def)
qed

lemma stage_opposing:
  assumes v: "valid_params p" and m: "mid_inv p s" and r: "\<not> hasRetrogradeTimeReference t s"
    and st: "settled s \<or> (\<exists>w. pl_activeWindow s = Some w \<and> win_direction w = cmd_direction c)"
  shows "case opposingWindow p c outcome t s of
           Inl (res, s') \<Rightarrow> stage_done p t s s'
         | Inr s' \<Rightarrow> stage p t s s' \<and> phys s' = phys s \<and>
             (\<forall>w. pl_activeWindow s' = Some w \<longrightarrow> win_direction w = cmd_direction c)"
proof (cases "\<exists>w. pl_activeWindow s = Some w \<and> win_direction w \<noteq> cmd_direction c")
  case False
  then have "opposingWindow p c outcome t s = Inr s"
    by (auto simp: opposingWindow_def split: option.split)
  with False stage_refl [OF m r] show ?thesis by auto
next
  case True
  then obtain w where w: "pl_activeWindow s = Some w" "win_direction w \<noteq> cmd_direction c" by blast
  with st have se: "settled s" by auto
  have wi: "window_inv p s w" using m w(1) by (simp add: mid_inv_def)
  have i: "tick_inv p s" using m se by (simp add: tick_inv_def)
  let ?closed = "s\<lparr>pl_activeWindow := None, pl_accumulator := emptyAccumulator\<rparr>"
  obtain reason where app: "applyWindowPhysicalTick p t s =
      (\<lparr>wpt_active = wishesOn p t s w, wpt_reason = reason\<rparr>,
       s\<lparr>pl_activeWindow := Some (triedWindow p t s w)\<rparr>)"
    using apply_window [OF w(1) wi] by blast
  consider (held) "pl_counterConfirmed s" "pl_lastAppliedDirection s = win_direction w"
      "\<not> onPhaseMinimumReached p t s"
    | (changed) "pl_counterConfirmed s" "pl_lastAppliedDirection s = win_direction w"
      "onPhaseMinimumReached p t s"
    | (closed) "pl_counterConfirmed s" "pl_lastAppliedDirection s \<noteq> win_direction w"
    | (waiting) "\<not> pl_counterConfirmed s"
    by blast
  then show ?thesis
  proof cases
    case held
    have d: "win_direction w \<noteq> Dir_Idle" using wi by (auto simp: window_inv_def)
    then have "win_pulseStartedSuccessfully w"
      using se w(1) held(2) by (simp add: settled_def)
    then have "triedWindow p t s w = w" using wi by (simp add: window_inv_def triedWindow_def)
    then have same: "s\<lparr>pl_activeWindow := Some (triedWindow p t s w)\<rparr> = s" using w(1) by simp
    then have "opposingWindow p c outcome t s =
        Inl (answerDemand c APS_Active APR_MinimumOnTimeHeld outcome s)"
      using w held by (simp add: opposingWindow_def physicalDirection_def app Let_def set_same)
    moreover have "stage_done p t s (snd (answerDemand c APS_Active APR_MinimumOnTimeHeld outcome s))"
      using stage_fb(2) [OF answerDemand_fb] stage_refl [OF m r] se by (simp add: stage_done_def)
    ultimately show ?thesis by (simp add: case_prod_beta)
  next
    case changed
    let ?s = "(setPhysicalDirection p Dir_Idle t s)
      \<lparr>pl_activeWindow := None, pl_accumulator := emptyAccumulator\<rparr>"
    have d: "pl_lastAppliedDirection s \<noteq> Dir_Idle" using wi changed(2) by (auto simp: window_inv_def)
    have "phys ?s = phys (setPhysicalDirection p Dir_Idle t s)" by (simp add: phys_def)
    then have "phys_edge p t True s ?s" using d changed(3) by (intro phys_edge.off) simp_all
    moreover have "mid_inv p ?s"
      using set_off [OF d, of p t] by (simp add: mid_inv_def known_output_def on_inv_def)
    moreover have "\<not> hasRetrogradeTimeReference t ?s"
      by (rule retro_window_update [OF retro_set [OF r]]) simp
    ultimately have "stage_done p t s ?s" by (simp add: stage_done_def stage_def settled_none)
    moreover have "opposingWindow p c outcome t s =
        Inl (answerDemand c APS_Idle APR_DirectionChangeApplied outcome ?s)"
      using w changed by (simp add: opposingWindow_def physicalDirection_def Let_def)
    ultimately show ?thesis
      using stage_fb(2) [OF answerDemand_fb] by (simp add: case_prod_beta)
  next
    case closed
    have idle: "pl_lastAppliedDirection s = Dir_Idle"
      using m w(1) closed(2) by (auto simp: mid_inv_def on_inv_def)
    have p: "phys ?closed = phys s" by (simp add: phys_def)
    have "opposingWindow p c outcome t s = Inr ?closed"
      using w closed by (simp add: opposingWindow_def physicalDirection_def Let_def)
    moreover have "\<not> hasRetrogradeTimeReference t ?closed"
      by (rule retro_window_update [OF r]) simp
    ultimately show ?thesis
      using p mid_inv_closed [OF m idle] by (simp add: stage_def phys_edge.stay)
  next
    case waiting
    have "\<exists>res reason st. opposingWindow p c outcome t s =
        Inl (answerDemand c st reason outcome (windowStep p t w s))"
      using w waiting
      by (simp add: opposingWindow_def windowStep_def physicalDirection_def app Let_def) blast
    then show ?thesis
      using stage_fb(2) [OF answerDemand_fb] stage_step [OF m r w(1)]
      by (auto simp: case_prod_beta)
  qed
qed

lemma stage_create:
  assumes v: "valid_params p" and m: "mid_inv p s" and r: "\<not> hasRetrogradeTimeReference t s"
    and d: "\<And>w. pl_activeWindow s = Some w \<Longrightarrow> win_direction w = cmd_direction c"
    and c: "command_ok c" "cmd_direction c \<noteq> Dir_Idle"
  shows "case createWindow p c ref outcome t s of
           Inl (res, s') \<Rightarrow> stage_done p t s s'
         | Inr s' \<Rightarrow> stage p t s s' \<and> phys s' = phys s \<and> pl_activeWindow s' \<noteq> None"
proof (cases "pl_activeWindow s")
  case (Some w)
  with stage_refl [OF m r] show ?thesis by (simp add: createWindow_def Let_def)
next
  case None
  have idle: "pl_lastAppliedDirection s = Dir_Idle" using mid_invD [OF m None] .
  have q: "isFiniteUnitQuote (cmd_timeQuote c)" using c(1) by (simp add: command_ok_def)
  obtain w a where f: "startFreshWindow p c t s = s\<lparr>pl_activeWindow := Some w, pl_accumulator := a\<rparr>"
    "fresh_window p c t w"
    by (rule startFreshWindow_cases [OF v q])
  let ?s = "s\<lparr>pl_activeWindow := Some w, pl_accumulator := a\<rparr>"
  have "mid_inv p ?s"
    using f(2) idle by (intro mid_inv_fresh [OF m fresh_window_inv [OF f(2) c]])
      (auto simp: fresh_window_def)
  moreover have r': "\<not> hasRetrogradeTimeReference t ?s"
    using f(2) by (intro retro_window_update [OF r]) (simp add: fresh_window_def)
  moreover have p: "phys ?s = phys s" by (simp add: phys_def)
  ultimately have s1: "stage p t s ?s" by (simp add: stage_def phys_edge.stay)
  have "mid_inv p (resetCounterDirection ?s) = mid_inv p ?s"
    by (rule mid_inv_cong) (simp_all add: counter_keeps)
  then have s2: "stage p t s (resetCounterDirection ?s)"
    using s1 retro_counter(1) [OF r'] p by (simp add: stage_def counter_keeps phys_edge.stay)
  have answer: "stage_done p t s (snd (answerDemand c st reason outcome s))" for st reason
    using stage_fb(2) [OF answerDemand_fb] stage_refl [OF m r] settled_none [OF None]
    by (simp add: stage_done_def)
  show ?thesis
    using s1 s2 p None answer
    by (auto simp: createWindow_def Let_def f(1) case_prod_beta counter_keeps)
qed

lemma stage_windowTick:
  assumes m: "mid_inv p s" and r: "\<not> hasRetrogradeTimeReference t s" and w: "pl_activeWindow s = Some w"
  shows "stage_done p t s (snd (windowTick p c outcome t s))"
proof -
  have wi: "window_inv p s w" using m w by (simp add: mid_inv_def)
  obtain reason where app: "applyWindowPhysicalTick p t s =
      (\<lparr>wpt_active = wishesOn p t s w, wpt_reason = reason\<rparr>,
       s\<lparr>pl_activeWindow := Some (triedWindow p t s w)\<rparr>)"
    using apply_window [OF w wi] by blast
  have "\<exists>reason. snd (windowTick p c outcome t s) =
      mergeFeedbackForDemand c reason (windowStep p t w s)"
    by (simp add: windowTick_def windowStep_def physicalDirection_def plannedDirection_def app Let_def)
      blast
  then show ?thesis
    using stage_fb(2) [OF fb_only_merge(2)] stage_step [OF m r w] by auto
qed

section \<open>A heating or cooling demand\<close>

lemma stage_done_trans:
  assumes "valid_params p" and "stage p t s1 s2" and "stage_done p t s2 s3"
    and "pl_lastAppliedDirection s1 = Dir_Idle \<Longrightarrow> phys s2 = phys s1"
  shows "stage_done p t s1 s3"
  using assms stage_trans [OF assms(1,2) _ assms(4)] by (simp add: stage_done_def)

lemma stage_evaluate:
  assumes v: "valid_params p" and i: "tick_inv p s" and r: "\<not> hasRetrogradeTimeReference t s"
    and c: "command_ok c" "cmd_direction c \<noteq> Dir_Idle"
  shows "stage_done p t s (snd (evaluateHeatingCoolingDemand p c outcome t s))"
proof -
  let ?ref = "referenceDirection s"
  define s1 where "s1 = advanceWindow p c t s"
  define s2 where "s2 = updateCounterDirection p c ?ref t s1"
  note a = stage_advance [OF v i r c, folded s1_def]
  then have m1: "mid_inv p s1" and r1: "\<not> hasRetrogradeTimeReference t s1"
    by (simp_all add: stage_def)
  have cong: "phys s2 = phys s1" "pl_activeWindow s2 = pl_activeWindow s1"
    by (simp_all add: s2_def counter_keeps)
  have m2: "mid_inv p s2" and st2: "settled s2 = settled s1" and
    r2: "\<not> hasRetrogradeTimeReference t s2"
    using m1 mid_inv_cong [OF cong] retro_counter(2) [OF r1] by (simp_all add: s2_def)
  have "stage p t s1 s2"
    using m2 r2 cong by (simp add: stage_def phys_edge.stay s2_def counter_keeps)
  with a cong(1) have S: "stage p t s s2" and P: "pl_lastAppliedDirection s = Dir_Idle \<Longrightarrow> phys s2 = phys s"
    using stage_trans [OF v, of t s s1 s2] by auto
  have d2: "settled s2 \<or> (\<exists>w. pl_activeWindow s2 = Some w \<and> win_direction w = cmd_direction c)"
    using a st2 cong(2) by simp
  note o = stage_opposing [OF v m2 r2 d2, of outcome]
  have e: "evaluateHeatingCoolingDemand p c outcome t s =
      (case opposingWindow p c outcome t s2 of
         Inl r \<Rightarrow> r
       | Inr s \<Rightarrow> (case createWindow p c ?ref outcome t s of
           Inl r \<Rightarrow> r | Inr s \<Rightarrow> windowTick p c outcome t s))"
    by (simp add: evaluateHeatingCoolingDemand_def s2_def s1_def Let_def)
  show ?thesis
  proof (cases "opposingWindow p c outcome t s2")
    case (Inl rs)
    with o have "stage_done p t s2 (snd rs)" by (simp add: case_prod_beta)
    with Inl stage_done_trans [OF v S _ P] show ?thesis by (simp add: e)
  next
    case (Inr s3)
    with o have S3: "stage p t s2 s3" "phys s3 = phys s2"
      "\<And>w. pl_activeWindow s3 = Some w \<Longrightarrow> win_direction w = cmd_direction c" by auto
    have m3: "mid_inv p s3" "\<not> hasRetrogradeTimeReference t s3" using S3(1) by (simp_all add: stage_def)
    have S': "stage p t s s3" using stage_trans [OF v S S3(1) P] .
    note cr = stage_create [OF v m3 S3(3) c, of ?ref outcome]
    show ?thesis
    proof (cases "createWindow p c ?ref outcome t s3")
      case (Inl rs)
      with cr have "stage_done p t s3 (snd rs)" by (simp add: case_prod_beta)
      with Inr Inl stage_done_trans [OF v S' _] P S3(2) show ?thesis by (simp add: e)
    next
      case i4: (Inr s4)
      with cr have S4: "stage p t s3 s4" "phys s4 = phys s3" "pl_activeWindow s4 \<noteq> None" by auto
      then obtain w where w: "pl_activeWindow s4 = Some w" by blast
      have "stage p t s s4" using stage_trans [OF v S' S4(1)] P S3(2) by simp
      moreover have "stage_done p t s4 (snd (windowTick p c outcome t s4))"
        using S4(1) by (intro stage_windowTick [OF _ _ w]) (simp_all add: stage_def)
      ultimately have "stage_done p t s (snd (windowTick p c outcome t s4))"
        using stage_done_trans [OF v] P S3(2) S4(2) by simp
      with Inr i4 show ?thesis by (simp add: e)
    qed
  qed
qed

section \<open>Rejection and teardown\<close>

text \<open>What an evaluation leaves: the invariant, and a step of the output.\<close>

definition outcome_ok ::
  "ActuatorPlannerParameters \<Rightarrow> u64 \<Rightarrow> bool \<Rightarrow> ActuatorPlannerRuntimeState \<Rightarrow>
     ActuatorPlannerRuntimeState \<Rightarrow> bool" where
  "outcome_ok p t regular s0 s \<longleftrightarrow>
     tick_inv p s \<and> \<not> hasRetrogradeTimeReference t s \<and> phys_edge p t regular s0 s \<and>
     (pl_acceptedCommand s = None \<or> pl_acceptedCommand s = pl_acceptedCommand s0)"

lemma outcome_stage: "stage_done p t s0 s \<Longrightarrow> outcome_ok p t regular s0 s"
  by (simp add: stage_done_def stage_def outcome_ok_def tick_inv_def phys_edge_weaken)

lemma clear_sel:
  "phys (clearPlanningState s) = phys s" "pl_activeWindow (clearPlanningState s) = None"
  "pl_acceptedCommand (clearPlanningState s) = None"
  "pl_lastAppliedDirection (clearPlanningState s) = pl_lastAppliedDirection s"
  "pl_onPhaseStartedAt (clearPlanningState s) = pl_onPhaseStartedAt s"
  "pl_feedbackSubject (clearPlanningState s) = pl_feedbackSubject s"
  "pl_latchedWatchdogFault (clearPlanningState s) = pl_latchedWatchdogFault s"
  "pl_sequenceHighWatermark (clearPlanningState s) = pl_sequenceHighWatermark s"
  by (simp_all add: clearPlanningState_def resetCounterDirection_def phys_def)

lemma retro_clear:
  "\<not> hasRetrogradeTimeReference t s \<Longrightarrow> \<not> hasRetrogradeTimeReference t (clearPlanningState s)"
  by (auto simp: hasRetrogradeTimeReference_def clearPlanningState_def resetCounterDirection_def)

lemma outcome_fb: "fb_only s s' \<Longrightarrow> outcome_ok p t regular s0 s' = outcome_ok p t regular s0 s"
proof -
  assume "fb_only s s'"
  note f = fb_only_sel [OF this]
  have "phys_edge p t regular s0 s' = phys_edge p t regular s0 s"
    by (simp add: phys_edge.simps f(1))
  with mid_inv_cong(3) [OF f(1,2)] show ?thesis by (simp add: outcome_ok_def f)
qed

lemma switched_off_cleared:
  assumes k: "known_output s" and r: "\<not> hasRetrogradeTimeReference t s"
    and reg: "regular \<Longrightarrow> pl_lastAppliedDirection s \<noteq> Dir_Idle \<Longrightarrow> onPhaseMinimumReached p t s"
  shows "outcome_ok p t regular s (clearPlanningState (setPhysicalDirection p Dir_Idle t s))"
proof (cases "pl_lastAppliedDirection s = Dir_Idle")
  case True
  then have e: "setPhysicalDirection p Dir_Idle t s = s" by (rule set_same)
  have "mid_inv p (clearPlanningState s) \<and> settled (clearPlanningState s)"
    using k True clear_sel(1) [of s]
    by (simp add: mid_inv_def settled_def known_output_def on_inv_def clear_sel phys_eq_iff)
  then show ?thesis
    using retro_clear [OF r] by (simp add: e outcome_ok_def tick_inv_def phys_edge.stay clear_sel)
next
  case False
  let ?s = "setPhysicalDirection p Dir_Idle t s"
  have "mid_inv p (clearPlanningState ?s) \<and> settled (clearPlanningState ?s)"
    using set_off(1) [OF False, of p t] clear_sel(1) [of ?s]
    by (simp add: mid_inv_def settled_def known_output_def on_inv_def clear_sel phys_eq_iff)
  moreover have "phys_edge p t regular s (clearPlanningState ?s)"
    using False reg by (intro phys_edge.off) (simp_all add: clear_sel)
  ultimately show ?thesis
    using retro_clear [OF retro_set [OF r]] by (simp add: outcome_ok_def tick_inv_def clear_sel)
qed

lemma if_idle_set:
  "(if physicalDirection s \<noteq> Dir_Idle then setPhysicalDirection p Dir_Idle t s else s) =
   setPhysicalDirection p Dir_Idle t s"
  by (simp add: physicalDirection_def set_same)

text \<open>\<open>rejectToIdle\<close> switches off at once and drops the plan; it may only sharpen the feedback.\<close>

lemma reject_shape:
  "fb_only (clearPlanningState (setPhysicalDirection p Dir_Idle t s))
     (snd (rejectToIdle p outcome t status reason s))"
  unfolding rejectToIdle_def if_idle_set Let_def
  by (cases "pl_feedbackSubject (clearPlanningState (setPhysicalDirection p Dir_Idle t s))")
    (simp_all add: fb_only_refl fb_only_merge)

lemma reject_outcome:
  assumes "known_output s" and "\<not> hasRetrogradeTimeReference t s"
  shows "outcome_ok p t False s (snd (rejectToIdle p outcome t status reason s))"
  by (simp add: outcome_fb [OF reject_shape] switched_off_cleared [OF assms])

lemma teardown_outcome:
  assumes i: "tick_inv p s" and r: "\<not> hasRetrogradeTimeReference t s"
  shows "outcome_ok p t True s (snd (teardown p outcome t s))"
proof -
  have k: "known_output s" using i by (simp add: tick_inv_def mid_inv_def)
  show ?thesis
  proof (cases "physicalDirection s \<noteq> Dir_Idle \<and> \<not> onPhaseMinimumReached p t s")
    case True
    then have "snd (teardown p outcome t s) = s" by (simp add: teardown_def Let_def)
    with i r show ?thesis by (simp add: outcome_ok_def phys_edge.stay)
  next
    case False
    then have "snd (teardown p outcome t s) =
        clearPlanningState (setPhysicalDirection p Dir_Idle t s)"
      unfolding teardown_def if_idle_set Let_def by auto
    with False switched_off_cleared [OF k r, of True p] show ?thesis
      by (auto simp: physicalDirection_def)
  qed
qed

section \<open>Admission\<close>

text \<open>Phase A touches the bookkeeping of requests and feedback only.\<close>

definition admission_only ::
  "u64 \<Rightarrow> ActuatorPlannerRuntimeState \<Rightarrow> ActuatorPlannerRuntimeState \<Rightarrow> bool" where
  "admission_only t s s' \<longleftrightarrow>
     (\<exists>f u b h. s' = s\<lparr>pl_pendingFeedback := f, pl_pendingFeedbackUpdateAvailable := u,
        pl_feedbackSubject := b, pl_sequenceHighWatermark := h\<rparr>) \<or>
     (\<exists>f u b h. s' = s\<lparr>pl_pendingFeedback := f, pl_pendingFeedbackUpdateAvailable := u,
        pl_feedbackSubject := b, pl_sequenceHighWatermark := h, pl_lastNewRequestAt := Some t\<rparr>)"

lemma admission_sel:
  assumes "admission_only t s s'"
  shows "phys s' = phys s" "pl_activeWindow s' = pl_activeWindow s"
    "pl_acceptedCommand s' = pl_acceptedCommand s"
    "pl_latchedWatchdogFault s' = pl_latchedWatchdogFault s"
    "pl_watchdogEpisodeStartedAt s' = pl_watchdogEpisodeStartedAt s"
    "pl_innerFanActive s' = pl_innerFanActive s"
    "\<not> hasRetrogradeTimeReference t s \<Longrightarrow> \<not> hasRetrogradeTimeReference t s'"
    "pl_lastNewRequestAt s' \<in> {pl_lastNewRequestAt s, Some t}"
  using assms
  by (auto simp: admission_only_def phys_def hasRetrogradeTimeReference_def retrograde_def)

lemma admission_shape:
  assumes "s' = s\<lparr>pl_pendingFeedback := pl_pendingFeedback s',
      pl_pendingFeedbackUpdateAvailable := pl_pendingFeedbackUpdateAvailable s',
      pl_feedbackSubject := pl_feedbackSubject s',
      pl_sequenceHighWatermark := pl_sequenceHighWatermark s',
      pl_lastNewRequestAt := pl_lastNewRequestAt s'\<rparr>"
    and "pl_lastNewRequestAt s' = pl_lastNewRequestAt s \<or> pl_lastNewRequestAt s' = Some t"
  shows "admission_only t s s'"
  using assms(2)
proof
  assume l: "pl_lastNewRequestAt s' = pl_lastNewRequestAt s"
  have "s' = s\<lparr>pl_pendingFeedback := pl_pendingFeedback s',
      pl_pendingFeedbackUpdateAvailable := pl_pendingFeedbackUpdateAvailable s',
      pl_feedbackSubject := pl_feedbackSubject s',
      pl_sequenceHighWatermark := pl_sequenceHighWatermark s'\<rparr>"
    by (subst assms(1)) (simp add: l)
  then show ?thesis unfolding admission_only_def by blast
next
  assume l: "pl_lastNewRequestAt s' = Some t"
  have "s' = s\<lparr>pl_pendingFeedback := pl_pendingFeedback s',
      pl_pendingFeedbackUpdateAvailable := pl_pendingFeedbackUpdateAvailable s',
      pl_feedbackSubject := pl_feedbackSubject s',
      pl_sequenceHighWatermark := pl_sequenceHighWatermark s', pl_lastNewRequestAt := Some t\<rparr>"
    by (subst assms(1)) (simp add: l)
  then show ?thesis unfolding admission_only_def by blast
qed

lemma admitRequest_only: "admission_only (pti_nowMonotonicMillis i) s (snd (admitRequest p i dc q s))"
  by (rule admission_shape)
    (simp_all add: admitRequest_def Let_def openFeedbackEpisode_def rejectOnArrival_def)

lemma runPhaseA_only: "admission_only (pti_nowMonotonicMillis i) s (snd (runPhaseA p i s))"
proof (cases "pti_newEvaluation i")
  case None
  then show ?thesis by (intro admission_shape) (simp_all add: runPhaseA_def)
next
  case (Some e)
  let ?dc = "classifyActuatorDemand e"
  show ?thesis
  proof (cases "isStructurallyValidEvaluation e \<and>
      isStructurallyValidContext (pti_currentCanonicalContext i) \<and>
      ?dc \<noteq> ADC_NoValidRequest \<and> tcr_controlRequest e \<noteq> None")
    case True
    with Some admitRequest_only show ?thesis by (auto simp: runPhaseA_def Let_def)
  next
    case False
    with Some show ?thesis
      by (intro admission_shape) (auto simp: runPhaseA_def Let_def openFeedbackEpisode_def)
  qed
qed

text \<open>A candidate carries a known direction and a quote between 0 and 1.\<close>

lemma zero_quote [simp]: "isFiniteUnitQuote (F64 0)"
  by (simp add: isFiniteUnitQuote_def)

lemma admitRequest_candidate:
  assumes "isKnownDirection (creq_direction q)" and "isFiniteUnitQuote (creq_timeQuote q)"
    and "pao_candidate (fst (admitRequest p i dc q s)) = Some c"
  shows "command_ok c"
  using assms
  by (auto simp: admitRequest_def Let_def command_ok_def isKnownDirection_def
      split: if_splits AbstractControlDirection.splits)

lemma runPhaseA_candidate:
  assumes "pao_candidate (fst (runPhaseA p i s)) = Some c"
  shows "command_ok c"
proof (cases "pti_newEvaluation i")
  case None
  with assms show ?thesis by (simp add: runPhaseA_def)
next
  case (Some e)
  show ?thesis
  proof (cases "isStructurallyValidEvaluation e \<and> classifyActuatorDemand e \<noteq> ADC_NoValidRequest \<and>
      tcr_controlRequest e \<noteq> None")
    case True
    then obtain q where q: "tcr_controlRequest e = Some q" by blast
    with True have "isKnownDirection (creq_direction q)" "isFiniteUnitQuote (creq_timeQuote q)"
      by (simp_all add: isStructurallyValidEvaluation_def split: if_splits)
    from admitRequest_candidate [OF this] Some True q assms show ?thesis
      by (auto simp: runPhaseA_def Let_def split: if_splits)
  next
    case False
    with Some assms show ?thesis
      by (auto simp: runPhaseA_def Let_def command_ok_def split: if_splits option.splits)
  qed
qed

lemma takeCandidate_sel:
  "phys (takeCandidate c s) = phys s" "pl_activeWindow (takeCandidate c s) = pl_activeWindow s"
  "pl_acceptedCommand (takeCandidate c s) = Some c"
  "pl_latchedWatchdogFault (takeCandidate c s) = pl_latchedWatchdogFault s"
  "pl_sequenceHighWatermark (takeCandidate c s) = pl_sequenceHighWatermark s"
  "\<not> hasRetrogradeTimeReference t s \<Longrightarrow> \<not> hasRetrogradeTimeReference t (takeCandidate c s)"
  by (auto simp: takeCandidate_def Let_def resetCounterDirection_def phys_def
      hasRetrogradeTimeReference_def)

section \<open>A whole evaluation\<close>

definition immediate_reasons :: "ActuatorPlanReason set" where
  "immediate_reasons =
     {APR_MalformedInput, APR_NoCommissioning, APR_InvalidConfiguration,
      APR_SafetyGateUnresolved, APR_ExternalSafetyOverride, APR_RequestWatchdogFaultLatched,
      APR_StaleRequestWatchdog, APR_NoValidRequest, APR_StaleRequestContext, APR_TimeInvalid}"

lemma buildResult_sel [simp]:
  "ptr_status (buildResult st r outcome s) = st" "ptr_reason (buildResult st r outcome s) = r"
  "ptr_appliedDirection (buildResult st r outcome s) = pl_lastAppliedDirection s"
  "ptr_admissionOutcome (buildResult st r outcome s) = outcome"
  "ptr_outerFanEnabled (buildResult st r outcome s) = pl_outerFanActive s"
  "ptr_innerFanEnabled (buildResult st r outcome s) = pl_innerFanActive s"
  "ptr_watchdogFaultActive (buildResult st r outcome s) = (pl_latchedWatchdogFault s \<noteq> None)"
  by (simp_all add: buildResult_def copyFanStateToResult_def)

lemma reject_result [simp]:
  "ptr_reason (fst (rejectToIdle p outcome t status reason s)) = reason"
  "ptr_status (fst (rejectToIdle p outcome t status reason s)) = status"
  by (simp_all add: rejectToIdle_def Let_def)

lemma reject_idle:
  "pl_lastAppliedDirection (snd (rejectToIdle p outcome t status reason s)) = Dir_Idle"
  "pl_activeWindow (snd (rejectToIdle p outcome t status reason s)) = None"
  "pl_acceptedCommand (snd (rejectToIdle p outcome t status reason s)) = None"
  "pl_latchedWatchdogFault (snd (rejectToIdle p outcome t status reason s)) =
     pl_latchedWatchdogFault s"
  using fb_only_sel [OF reject_shape [where p = p and t = t and s = s and outcome = outcome
        and status = status and reason = reason]]
  by (simp_all add: clear_sel)

definition commands_ok :: "ActuatorPlannerRuntimeState \<Rightarrow> bool" where
  "commands_ok s \<longleftrightarrow> (\<forall>c. pl_acceptedCommand s = Some c \<longrightarrow> command_ok c)"

text \<open>The regular part of phase B: teardown or a demand, on the state with the fresh candidate.\<close>

definition regularEvaluation ::
  "ActuatorPlannerParameters \<Rightarrow> ActuatorAdmissionOutcome \<Rightarrow> u64 \<Rightarrow> ActuatorPlannerRuntimeState \<Rightarrow>
     ActuatorPlanTickResult \<times> ActuatorPlannerRuntimeState" where
  "regularEvaluation p outcome t s =
     (case pl_acceptedCommand s of
        None \<Rightarrow> teardown p outcome t s
      | Some c \<Rightarrow> if cmd_direction c = Dir_Idle then teardown p outcome t s
                  else evaluateHeatingCoolingDemand p c outcome t s)"

lemma regular_outcome:
  assumes v: "valid_params p" and i: "tick_inv p s" and r: "\<not> hasRetrogradeTimeReference t s"
    and c: "commands_ok s"
  shows "outcome_ok p t regular s (snd (regularEvaluation p outcome t s))"
proof (cases "pl_acceptedCommand s")
  case None
  with teardown_outcome [OF i r, of outcome] show ?thesis
    by (auto simp: regularEvaluation_def outcome_ok_def intro: phys_edge_weaken)
next
  case (Some d)
  with c have d: "command_ok d" by (simp add: commands_ok_def)
  show ?thesis
  proof (cases "cmd_direction d = Dir_Idle")
    case True
    with Some teardown_outcome [OF i r, of outcome] show ?thesis
      by (auto simp: regularEvaluation_def outcome_ok_def intro: phys_edge_weaken)
  next
    case False
    with Some outcome_stage [OF stage_evaluate [OF v i r d False]] show ?thesis
      by (simp add: regularEvaluation_def)
  qed
qed

lemma commands_ok_outcome:
  "outcome_ok p t regular s0 s \<Longrightarrow> commands_ok s0 \<Longrightarrow> commands_ok s"
  by (auto simp: outcome_ok_def commands_ok_def)

text \<open>
  Phase B in two kinds of outcomes: a rejection with an immediate reason, of a state that differs
  at most in the latch of the watchdog; or the regular evaluation.
\<close>

lemma runPhaseB_cases:
  assumes "valid_params p"
  obtains (reject) outcome status reason s' where "reason \<in> immediate_reasons"
      "runPhaseB p i a s = rejectToIdle p outcome (pti_nowMonotonicMillis i) status reason s'"
      "phys s' = phys s" "known_output s' = known_output s"
      "hasRetrogradeTimeReference (pti_nowMonotonicMillis i) s' =
         hasRetrogradeTimeReference (pti_nowMonotonicMillis i) s"
  | (regular) s' where
      "runPhaseB p i a s =
         regularEvaluation p (pao_admissionOutcome a) (pti_nowMonotonicMillis i) s'"
      "s' = (case pao_candidate a of None \<Rightarrow> s | Some c \<Rightarrow> takeCandidate c s)"
      "asg_status (pti_safetyGate i) = ASG_Allowed" "pl_latchedWatchdogFault s = None"
      "\<not> runningWatchdogTripped p i s"
proof -
  let ?now = "pti_nowMonotonicMillis i" and ?g = "asg_status (pti_safetyGate i)"
  let ?fault = "s\<lparr>pl_latchedWatchdogFault := Some
      \<lparr>wfe_detectedAtMonotonicMillis = ?now,
       wfe_lastObservedSequenceHighWatermarkBeforeFault =
         (case pl_sequenceHighWatermark s of None \<Rightarrow> 0 | Some h \<Rightarrow> h)\<rparr>\<rparr>"
  have f: "phys ?fault = phys s" "known_output ?fault = known_output s"
    "hasRetrogradeTimeReference ?now ?fault = hasRetrogradeTimeReference ?now s"
    by (simp_all add: phys_def known_output_def hasRetrogradeTimeReference_def)
  have rej: thesis if "runPhaseB p i a s = rejectToIdle p outcome ?now status reason s"
    "reason \<in> immediate_reasons" for outcome status reason
    by (rule reject [OF that(2,1)]) simp_all
  have not: "classifyActuatorPlannerParameters p \<noteq> APV_Unconfigured"
    "classifyActuatorPlannerParameters p \<noteq> APV_Invalid" using assms by simp_all
  consider (m) "pao_admissionOutcome a = AAO_MalformedCandidate \<or> \<not> isKnownSafetyGateStatus ?g \<or>
      \<not> isStructurallyValidContext (pti_currentCanonicalContext i)"
    | (rest) "pao_admissionOutcome a \<noteq> AAO_MalformedCandidate" "isKnownSafetyGateStatus ?g"
      "isStructurallyValidContext (pti_currentCanonicalContext i)"
    by blast
  then show thesis
  proof cases
    case m
    then have "runPhaseB p i a s = rejectToIdle p (pao_admissionOutcome a) ?now APS_InvalidInput
        APR_MalformedInput s" unfolding runPhaseB_def Let_def by (simp only: if_True)
    from rej [OF this] show thesis by (simp add: immediate_reasons_def)
  next
    case rest
    note pre = rest(1,3) not runPhaseB_def Let_def isKnownSafetyGateStatus_def
    consider (unres) "?g = ASG_Unresolved" | (stop) "?g = ASG_ImmediateStop" | (ok) "?g = ASG_Allowed"
      using rest(2) by (cases ?g) (auto simp: isKnownSafetyGateStatus_def)
    then show thesis
    proof cases
      case unres
      then have "runPhaseB p i a s = rejectToIdle p (pao_admissionOutcome a) ?now APS_Idle
          APR_SafetyGateUnresolved s" by (simp add: pre)
      from rej [OF this] show thesis by (simp add: immediate_reasons_def)
    next
      case stop
      then have "runPhaseB p i a s = rejectToIdle p (pao_admissionOutcome a) ?now APS_Idle
          APR_ExternalSafetyOverride s" by (simp add: pre)
      from rej [OF this] show thesis by (simp add: immediate_reasons_def)
    next
      case ok
      note gate = ok and known = rest(2) [unfolded ok]
      consider (latched) "pl_latchedWatchdogFault s \<noteq> None"
        | (trip) "pl_latchedWatchdogFault s = None" "runningWatchdogTripped p i s"
        | (quiet) "pl_latchedWatchdogFault s = None" "\<not> runningWatchdogTripped p i s" by blast
      then show thesis
      proof cases
        case latched
        then have "runPhaseB p i a s = rejectToIdle p (pao_admissionOutcome a) ?now APS_Idle
            APR_RequestWatchdogFaultLatched s" by (simp add: pre gate)
        from rej [OF this] show thesis by (simp add: immediate_reasons_def)
      next
        case trip
        then have "runPhaseB p i a s = rejectToIdle p (pao_admissionOutcome a) ?now APS_Idle
            APR_StaleRequestWatchdog ?fault" by (simp add: pre gate)
        from reject [OF _ this f] show thesis by (simp add: immediate_reasons_def)
      next
        case quiet
        let ?none = "case pao_candidate a of
          None \<Rightarrow> False | Some c \<Rightarrow> cmd_demandClass c = ADC_NoValidRequest"
        let ?stale = "pao_candidate a = None \<and> (case pl_acceptedCommand s of None \<Rightarrow> False
          | Some c \<Rightarrow> \<not> contextsMatch (cmd_contextAtAcceptance c) (pti_currentCanonicalContext i))"
        consider (none) "?none" | (stale) "\<not> ?none" "?stale"
          | (retro) "\<not> ?none" "\<not> ?stale" "hasRetrogradeTimeReference ?now s"
          | (fine) "\<not> ?none" "\<not> ?stale" "\<not> hasRetrogradeTimeReference ?now s" by blast
        then show thesis
        proof cases
          case none
          then have "runPhaseB p i a s = rejectToIdle p (pao_admissionOutcome a) ?now APS_Idle
              APR_NoValidRequest s" by (simp add: pre gate quiet)
          from rej [OF this] show thesis by (simp add: immediate_reasons_def)
        next
          case stale
          then have "runPhaseB p i a s = rejectToIdle p (pao_admissionOutcome a) ?now APS_Idle
              APR_StaleRequestContext s" by (simp add: pre gate quiet)
          from rej [OF this] show thesis by (simp add: immediate_reasons_def)
        next
          case retro
          then have "runPhaseB p i a s = rejectToIdle p (pao_admissionOutcome a) ?now
              APS_InvalidInput APR_TimeInvalid s" unfolding runPhaseB_def Let_def
            by (simp only: gate known quiet rest not if_False if_True simp_thms option.distinct
                ActuatorSafetyGateStatus.distinct)
          from rej [OF this] show thesis by (simp add: immediate_reasons_def)
        next
          case fine
          then have "runPhaseB p i a s = regularEvaluation p (pao_admissionOutcome a) ?now
              (case pao_candidate a of None \<Rightarrow> s | Some c \<Rightarrow> takeCandidate c s)"
            unfolding runPhaseB_def Let_def regularEvaluation_def
            by (simp only: gate known quiet rest not if_False if_True simp_thms option.distinct
                ActuatorSafetyGateStatus.distinct)
          with regular gate quiet show thesis by simp
        qed
      qed
    qed
  qed
qed

end
