(* ===== verification/PlannerProofs.thy ===== *)
theory PlannerProofs
  imports PlannerStages
begin

text \<open>
  Proofs about whole operations of the actuator planner: the run-on of the outer fan
  (\<open>fan_inv\<close>), the invariant of the planner (\<open>planner_inv\<close>) and its preservation by a tick, a stop
  by force and the bookkeeping operations, and the planner as a machine on a clock.
\<close>

section \<open>The outer fan\<close>

text \<open>
  The fan runs while the output is on, and after every switch-off until the saturated end of the
  run-on; while it runs on, its end is known.
\<close>

definition fan_inv ::
  "ActuatorPlannerParameters \<Rightarrow> u64 \<Rightarrow> ActuatorPlannerRuntimeState \<Rightarrow> bool" where
  "fan_inv p t s \<longleftrightarrow>
     (pl_lastAppliedDirection s \<noteq> Dir_Idle \<longrightarrow>
        pl_outerFanActive s \<and> pl_outerFanDeactivationRequestedAt s = None) \<and>
     (pl_lastAppliedDirection s = Dir_Idle \<and> pl_outerFanActive s \<longrightarrow>
        pl_outerFanDeactivationRequestedAt s \<noteq> None \<and>
        (\<exists>d. pl_outerFanTeardownDeadline s = Some d)) \<and>
     (\<forall>a. pl_lastAppliedDirection s = Dir_Idle \<and> pl_deactivationAt s = Some a \<longrightarrow>
        (if pl_outerFanActive s
         then \<exists>d. pl_outerFanTeardownDeadline s = Some d \<and>
                  saturatingDeadline a (par_outerFanPostRunMillis p) \<le> d
         else saturatingDeadline a (par_outerFanPostRunMillis p) \<le> t))"

lemma fan_inv_cong: "phys s = phys s' \<Longrightarrow> fan_inv p t s = fan_inv p t s'"
  by (simp add: phys_eq_iff fan_inv_def)

lemma fan_inv_later: "fan_inv p t s \<Longrightarrow> t \<le> t' \<Longrightarrow> fan_inv p t' s"
  unfolding fan_inv_def by (auto split: if_splits intro: order_trans)

lemma retainLater_ge: "\<exists>d. retainLaterDeadline x c = Some d \<and> c \<le> d"
  by (cases x) (auto simp: retainLaterDeadline_def)

lemma fan_inv_set:
  assumes "fan_inv p t s"
  shows "fan_inv p t (setPhysicalDirection p Dir_Idle t s)"
    and "d \<noteq> Dir_Idle \<Longrightarrow> pl_lastAppliedDirection s = Dir_Idle \<Longrightarrow>
      fan_inv p t (setPhysicalDirection p d t s)"
proof -
  show "fan_inv p t (setPhysicalDirection p Dir_Idle t s)"
  proof (cases "pl_lastAppliedDirection s = Dir_Idle")
    case True
    with assms show ?thesis by (simp add: set_same)
  next
    case False
    then show ?thesis
      using retainLater_ge by (simp add: fan_inv_def set_off) blast
  qed
  show "d \<noteq> Dir_Idle \<Longrightarrow> pl_lastAppliedDirection s = Dir_Idle \<Longrightarrow>
      fan_inv p t (setPhysicalDirection p d t s)"
    by (simp add: fan_inv_def set_on)
qed

lemma fan_inv_edge:
  assumes "phys_edge p t regular s s'" and "fan_inv p t s"
  shows "fan_inv p t s'"
  using assms(1)
proof cases
  case stay
  with assms(2) fan_inv_cong show ?thesis by blast
next
  case off
  with fan_inv_set(1) [OF assms(2)] fan_inv_cong show ?thesis by blast
next
  case (on d u)
  with fan_inv_set(2) [OF assms(2), of d] fan_inv_cong show ?thesis by blast
qed

lemma updateFan_sel [simp]:
  "pl_lastAppliedDirection (updateFanState p t ph s) = pl_lastAppliedDirection s"
  "pl_onPhaseStartedAt (updateFanState p t ph s) = pl_onPhaseStartedAt s"
  "pl_deactivationAt (updateFanState p t ph s) = pl_deactivationAt s"
  "pl_deactivationDirection (updateFanState p t ph s) = pl_deactivationDirection s"
  "pl_activeWindow (updateFanState p t ph s) = pl_activeWindow s"
  "pl_acceptedCommand (updateFanState p t ph s) = pl_acceptedCommand s"
  "pl_latchedWatchdogFault (updateFanState p t ph s) = pl_latchedWatchdogFault s"
  "pl_sequenceHighWatermark (updateFanState p t ph s) = pl_sequenceHighWatermark s"
  "pl_feedbackSubject (updateFanState p t ph s) = pl_feedbackSubject s"
  "pl_pendingFeedback (updateFanState p t ph s) = pl_pendingFeedback s"
  by (simp_all add: updateFanState_def Let_def)

lemma updateFan_tick_inv: "tick_inv p (updateFanState q t ph s) = tick_inv p s"
  by (simp add: tick_inv_def mid_inv_def settled_def known_output_def window_inv_def on_inv_def)

lemma updateFan_retro:
  assumes "\<not> hasRetrogradeTimeReference t s"
  shows "\<not> hasRetrogradeTimeReference t (updateFanState p t ph s)"
  using assms by (auto simp: hasRetrogradeTimeReference_def updateFanState_def Let_def retrograde_def)

lemma updateFan_inv:
  assumes "fan_inv p t s"
  shows "fan_inv p t (updateFanState p t ph s)"
proof -
  have "pl_outerFanActive (updateFanState p t ph s) =
      (pl_lastAppliedDirection s \<noteq> Dir_Idle \<or>
       pl_outerFanActive s \<and> \<not> (pl_outerFanDeactivationRequestedAt s \<noteq> None \<and>
         (\<exists>d. pl_outerFanTeardownDeadline s = Some d \<and> d \<le> t)))"
    by (auto simp: updateFanState_def Let_def deadlineReached_def split: option.split)
  moreover have "pl_outerFanDeactivationRequestedAt (updateFanState p t ph s) =
      (if pl_lastAppliedDirection s \<noteq> Dir_Idle then None
       else pl_outerFanDeactivationRequestedAt s)"
    by (simp add: updateFanState_def Let_def)
  moreover have "pl_outerFanTeardownDeadline (updateFanState p t ph s) =
      (if pl_lastAppliedDirection s = Dir_Idle \<and> pl_outerFanActive s \<and>
          pl_outerFanDeactivationRequestedAt s \<noteq> None \<and>
          (\<exists>d. pl_outerFanTeardownDeadline s = Some d \<and> d \<le> t)
       then None else pl_outerFanTeardownDeadline s)"
    by (auto simp: updateFanState_def Let_def deadlineReached_def split: option.split)
  ultimately show ?thesis
    using assms unfolding fan_inv_def by (auto split: if_splits intro: order_trans)
qed


section \<open>Preservation by the operations\<close>

definition planner_inv ::
  "ActuatorPlannerParameters \<Rightarrow> u64 \<Rightarrow> ActuatorPlannerRuntimeState \<Rightarrow> bool" where
  "planner_inv p t s \<longleftrightarrow>
     tick_inv p s \<and> \<not> hasRetrogradeTimeReference t s \<and> commands_ok s \<and> fan_inv p t s"

lemma retrograde_later: "retrograde t' ref \<Longrightarrow> t \<le> t' \<Longrightarrow> retrograde t ref"
  by (cases ref) (auto simp: retrograde_def)

lemma retro_later:
  assumes "\<not> hasRetrogradeTimeReference t s" and t: "t \<le> t'"
  shows "\<not> hasRetrogradeTimeReference t' s"
proof
  have l: "u < v \<Longrightarrow> t \<le> u \<Longrightarrow> t < v" for u v :: u64 by simp
  assume "hasRetrogradeTimeReference t' s"
  then have "hasRetrogradeTimeReference t s"
    unfolding hasRetrogradeTimeReference_def case_option_False_iff
    by (elim disjE exE conjE) (simp_all add: retrograde_later [OF _ t] l [OF _ t])
  with assms(1) show False by blast
qed

lemma planner_inv_later: "planner_inv p t s \<Longrightarrow> t \<le> t' \<Longrightarrow> planner_inv p t' s"
  using retro_later fan_inv_later by (auto simp: planner_inv_def)

lemma planner_inv_cong:
  assumes "phys s' = phys s" and "pl_activeWindow s' = pl_activeWindow s"
    and "pl_acceptedCommand s' = pl_acceptedCommand s"
    and "\<not> hasRetrogradeTimeReference t s \<Longrightarrow> \<not> hasRetrogradeTimeReference t s'"
    and "planner_inv p t s"
  shows "planner_inv p t s'"
  using assms mid_inv_cong(3) [OF assms(1,2), of p] fan_inv_cong [OF assms(1), of p t]
  by (simp add: planner_inv_def commands_ok_def)

text \<open>The pieces of a tick: the start of a watchdog episode, phase A, phase B, the fans.\<close>

definition episodeStarted ::
  "ActuatorPlanTickInput \<Rightarrow> ActuatorPlannerRuntimeState \<Rightarrow> ActuatorPlannerRuntimeState" where
  "episodeStarted i s =
     (if pti_temperatureControlledPhase i \<and> pl_watchdogEpisodeStartedAt s = None
      then s\<lparr>pl_watchdogEpisodeStartedAt := Some (pti_nowMonotonicMillis i)\<rparr> else s)"

definition admitted ::
  "ActuatorPlannerParameters \<Rightarrow> ActuatorPlanTickInput \<Rightarrow> ActuatorPlannerRuntimeState \<Rightarrow>
     PhaseAOutcome \<times> ActuatorPlannerRuntimeState" where
  "admitted p i s = runPhaseA p i (episodeStarted i s)"

definition evaluated ::
  "ActuatorPlannerParameters \<Rightarrow> ActuatorPlanTickInput \<Rightarrow> ActuatorPlannerRuntimeState \<Rightarrow>
     ActuatorPlanTickResult \<times> ActuatorPlannerRuntimeState" where
  "evaluated p i s = runPhaseB p i (fst (admitted p i s)) (snd (admitted p i s))"

lemma plannerTick_eq:
  "snd (plannerTick p i s) =
     updateFanState p (pti_nowMonotonicMillis i) (pti_temperatureControlledPhase i)
       (snd (evaluated p i s))"
  "fst (plannerTick p i s) = copyFanStateToResult (snd (plannerTick p i s)) (fst (evaluated p i s))"
  by (simp_all add: plannerTick_def evaluated_def admitted_def episodeStarted_def Let_def
      case_prod_beta)

lemma copyFan_sel [simp]:
  "ptr_reason (copyFanStateToResult s r) = ptr_reason r"
  "ptr_status (copyFanStateToResult s r) = ptr_status r"
  "ptr_appliedDirection (copyFanStateToResult s r) = ptr_appliedDirection r"
  "ptr_admissionOutcome (copyFanStateToResult s r) = ptr_admissionOutcome r"
  "ptr_outerFanEnabled (copyFanStateToResult s r) = pl_outerFanActive s"
  "ptr_innerFanEnabled (copyFanStateToResult s r) = pl_innerFanActive s"
  "ptr_watchdogFaultActive (copyFanStateToResult s r) = ptr_watchdogFaultActive r"
  by (simp_all add: copyFanStateToResult_def)

lemma episode_sel:
  "phys (episodeStarted i s) = phys s"
  "pl_activeWindow (episodeStarted i s) = pl_activeWindow s"
  "pl_acceptedCommand (episodeStarted i s) = pl_acceptedCommand s"
  "pl_latchedWatchdogFault (episodeStarted i s) = pl_latchedWatchdogFault s"
  "pl_lastNewRequestAt (episodeStarted i s) = pl_lastNewRequestAt s"
  "pl_sequenceHighWatermark (episodeStarted i s) = pl_sequenceHighWatermark s"
  "\<not> hasRetrogradeTimeReference (pti_nowMonotonicMillis i) s \<Longrightarrow>
     \<not> hasRetrogradeTimeReference (pti_nowMonotonicMillis i) (episodeStarted i s)"
  by (auto simp: episodeStarted_def phys_def hasRetrogradeTimeReference_def retrograde_def)

lemma admitted_only:
  "phys (snd (admitted p i s)) = phys s"
  "pl_activeWindow (snd (admitted p i s)) = pl_activeWindow s"
  "pl_acceptedCommand (snd (admitted p i s)) = pl_acceptedCommand s"
  "pl_latchedWatchdogFault (snd (admitted p i s)) = pl_latchedWatchdogFault s"
  "\<not> hasRetrogradeTimeReference (pti_nowMonotonicMillis i) s \<Longrightarrow>
     \<not> hasRetrogradeTimeReference (pti_nowMonotonicMillis i) (snd (admitted p i s))"
  using admission_sel [OF runPhaseA_only [where p = p and i = i and s = "episodeStarted i s"]] episode_sel [of i s]
  by (simp_all add: admitted_def)

lemma known_output_cong: "phys s = phys s' \<Longrightarrow> known_output s = known_output s'"
  by (simp add: phys_eq_iff known_output_def)

lemma phys_edge_cong: "phys s = phys s0 \<Longrightarrow> phys_edge p t g s s' = phys_edge p t g s0 s'"
proof -
  assume h: "phys s = phys s0"
  then have "pl_lastAppliedDirection s = pl_lastAppliedDirection s0" by (simp add: phys_eq_iff)
  then show ?thesis
    by (simp only: phys_edge.simps h phys_set_cong [OF h] arming_cong [OF h] minimum_cong [OF h])
qed

lemma runPhaseB_ok:
  assumes v: "valid_params p" and i: "tick_inv p s"
    and r: "\<not> hasRetrogradeTimeReference (pti_nowMonotonicMillis i) s" and c: "commands_ok s"
    and a: "\<And>d. pao_candidate a = Some d \<Longrightarrow> command_ok d"
  defines "b \<equiv> runPhaseB p i a s"
  shows "tick_inv p (snd b)"
    and "\<not> hasRetrogradeTimeReference (pti_nowMonotonicMillis i) (snd b)"
    and "commands_ok (snd b)"
    and "phys_edge p (pti_nowMonotonicMillis i) (ptr_reason (fst b) \<notin> immediate_reasons) s (snd b)"
proof -
  let ?t = "pti_nowMonotonicMillis i"
  have "\<exists>s0. phys s0 = phys s \<and>
      outcome_ok p ?t (ptr_reason (fst b) \<notin> immediate_reasons) s0 (snd b) \<and>
      (commands_ok s0 \<or> pl_acceptedCommand (snd b) = None)"
    using v
  proof (cases rule: runPhaseB_cases [where p = p and i = i and a = a and s = s])
    case (reject outcome status reason s')
    have "known_output s" using i by (simp add: tick_inv_def mid_inv_def)
    with reject(3,4) r reject(5) have "outcome_ok p ?t False s' (snd b)"
      unfolding b_def reject(2) by (intro reject_outcome) simp_all
    with reject(1,3) show ?thesis
      unfolding b_def reject(2) by (intro exI [of _ s']) (simp add: reject_idle)
  next
    case (regular s')
    have q: "phys s' = phys s" "pl_activeWindow s' = pl_activeWindow s" "commands_ok s'"
      "\<not> hasRetrogradeTimeReference ?t s'"
      using c r a takeCandidate_sel [where s = s]
      by (cases "pao_candidate a"; simp add: regular(2) commands_ok_def)+
    from mid_inv_cong(3) [OF q(1,2)] i have "tick_inv p s'" by blast
    from regular_outcome [OF v this q(4,3)] q(1,3) show ?thesis
      unfolding b_def regular(1) by (intro exI [of _ s'] conjI disjI1)
  qed
  then obtain s0 where p: "phys s0 = phys s" and
    o: "outcome_ok p ?t (ptr_reason (fst b) \<notin> immediate_reasons) s0 (snd b)" and
    co: "commands_ok s0 \<or> pl_acceptedCommand (snd b) = None" by blast
  from o show "tick_inv p (snd b)" "\<not> hasRetrogradeTimeReference ?t (snd b)"
    by (simp_all add: outcome_ok_def)
  from co show "commands_ok (snd b)"
    by (elim disjE) (rule commands_ok_outcome [OF o], assumption, simp add: commands_ok_def)
  from o show "phys_edge p ?t (ptr_reason (fst b) \<notin> immediate_reasons) s (snd b)"
    by (simp add: outcome_ok_def phys_edge_cong [OF p])
qed

lemma evaluated_ok:
  assumes v: "valid_params p" and i: "planner_inv p t s" and t: "t \<le> pti_nowMonotonicMillis i"
  shows "tick_inv p (snd (evaluated p i s))"
    and "\<not> hasRetrogradeTimeReference (pti_nowMonotonicMillis i) (snd (evaluated p i s))"
    and "commands_ok (snd (evaluated p i s))"
    and "phys_edge p (pti_nowMonotonicMillis i)
           (ptr_reason (fst (evaluated p i s)) \<notin> immediate_reasons) s (snd (evaluated p i s))"
    and "fan_inv p (pti_nowMonotonicMillis i) (snd (evaluated p i s))"
proof -
  let ?n = "pti_nowMonotonicMillis i"
  let ?a = "snd (admitted p i s)"
  from planner_inv_later [OF i t] have j: "tick_inv p s" "\<not> hasRetrogradeTimeReference ?n s"
    "commands_ok s" "fan_inv p ?n s" by (simp_all add: planner_inv_def)
  note ad = admitted_only [where p = p and i = i and s = s]
  have 1: "tick_inv p ?a" using mid_inv_cong(3) [OF ad(1,2)] j(1) by blast
  have 2: "commands_ok ?a" using j(3) ad(3) by (simp add: commands_ok_def)
  have 3: "command_ok d" if "pao_candidate (fst (admitted p i s)) = Some d" for d
    using runPhaseA_candidate that unfolding admitted_def by blast
  note b = runPhaseB_ok [OF v 1 ad(5) [OF j(2)] 2 3]
  show "tick_inv p (snd (evaluated p i s))" unfolding evaluated_def by (rule b(1))
  show "\<not> hasRetrogradeTimeReference ?n (snd (evaluated p i s))" unfolding evaluated_def by (rule b(2))
  show "commands_ok (snd (evaluated p i s))" unfolding evaluated_def by (rule b(3))
  show e: "phys_edge p ?n (ptr_reason (fst (evaluated p i s)) \<notin> immediate_reasons) s
      (snd (evaluated p i s))"
    unfolding evaluated_def phys_edge_cong [OF ad(1), symmetric] by (rule b(4))
  show "fan_inv p ?n (snd (evaluated p i s))" by (rule fan_inv_edge [OF e j(4)])
qed

lemma tick_keeps:
  assumes "valid_params p" and "planner_inv p t s" and "t \<le> pti_nowMonotonicMillis i"
  shows "planner_inv p (pti_nowMonotonicMillis i) (snd (plannerTick p i s))"
  using evaluated_ok [OF assms]
  by (simp add: planner_inv_def plannerTick_eq(1) updateFan_tick_inv updateFan_retro updateFan_inv
      commands_ok_def)


text \<open>The stop by force, before the fans.\<close>

definition stopped ::
  "ActuatorPlannerParameters \<Rightarrow> u64 \<Rightarrow> ActuatorFeedbackEpisodeAtStop \<Rightarrow>
     ActuatorPlannerRuntimeState \<Rightarrow> ActuatorPlannerRuntimeState" where
  "stopped p t e s =
     (let trustedSequence = (if e = FES_ExistingEpisodeOpen then pl_feedbackSubject s else None);
          s = (clearPlanningState (setPhysicalDirection p Dir_Idle t s))
                \<lparr>pl_watchdogEpisodeStartedAt := None, pl_lastNewRequestAt := None\<rparr>;
          s = (case trustedSequence of
                 Some subject \<Rightarrow> mergeFeedback subject FD_Rejected s
               | None \<Rightarrow> s\<lparr>pl_pendingFeedback := None, pl_pendingFeedbackUpdateAvailable := True\<rparr>);
          s = s\<lparr>pl_feedbackSubject := None\<rparr> in
      if pl_innerFanActive s \<and> pl_innerFanDeactivationRequestedAt s = None then
        s\<lparr>pl_innerFanDeactivationRequestedAt := Some t,
          pl_innerFanTeardownDeadline :=
            retainLaterDeadline (pl_innerFanTeardownDeadline s)
              (saturatingDeadline t (par_innerFanPostRunMillis p))\<rparr>
      else s)"

lemma forceStop_eq:
  "snd (forceStop p t e s) = updateFanState p t False (stopped p t e s)"
  "fst (forceStop p t e s) =
     buildResult APS_Idle APR_NeutralIdle AAO_NoCandidate (snd (forceStop p t e s))"
  by (simp_all only: forceStop_def if_idle_set stopped_def Let_def fst_conv snd_conv)

lemma stopped_sel:
  "phys (stopped p t e s) = phys (setPhysicalDirection p Dir_Idle t s)"
  "pl_activeWindow (stopped p t e s) = None" "pl_acceptedCommand (stopped p t e s) = None"
  "pl_feedbackSubject (stopped p t e s) = None"
  "pl_latchedWatchdogFault (stopped p t e s) = pl_latchedWatchdogFault s"
  "pl_sequenceHighWatermark (stopped p t e s) = pl_sequenceHighWatermark s"
  using fb_only_sel [OF fb_only_merge(1)] clear_sel
  by (auto simp: stopped_def Let_def mergeFeedback_def phys_eq_iff split: option.splits)

lemma retro_fields:
  assumes "\<not> hasRetrogradeTimeReference t s" and "\<not> retrograde t a" and "\<not> retrograde t b"
    and "\<not> retrograde t c"
  shows "\<not> hasRetrogradeTimeReference t
    (s\<lparr>pl_lastNewRequestAt := a, pl_watchdogEpisodeStartedAt := b,
      pl_innerFanDeactivationRequestedAt := c\<rparr>)"
  using assms by (simp add: hasRetrogradeTimeReference_def)

lemma stopped_retro:
  assumes "\<not> hasRetrogradeTimeReference t s"
  shows "\<not> hasRetrogradeTimeReference t (stopped p t e s)"
proof -
  define s1 where "s1 = clearPlanningState (setPhysicalDirection p Dir_Idle t s)"
  have r1: "\<not> hasRetrogradeTimeReference t s1"
    unfolding s1_def by (intro retro_clear retro_set assms)
  have "\<not> retrograde t (pl_innerFanDeactivationRequestedAt s1)"
    using r1 by (simp add: hasRetrogradeTimeReference_def)
  moreover have "pl_onPhaseStartedAt (stopped p t e s) = pl_onPhaseStartedAt s1"
    "pl_deactivationAt (stopped p t e s) = pl_deactivationAt s1"
    "pl_activeWindow (stopped p t e s) = pl_activeWindow s1"
    "pl_counterCandidate (stopped p t e s) = pl_counterCandidate s1"
    "pl_counterObservedSince (stopped p t e s) = pl_counterObservedSince s1"
    "pl_outerFanDeactivationRequestedAt (stopped p t e s) = pl_outerFanDeactivationRequestedAt s1"
    "pl_lastNewRequestAt (stopped p t e s) = None"
    "pl_watchdogEpisodeStartedAt (stopped p t e s) = None"
    "pl_innerFanDeactivationRequestedAt (stopped p t e s) \<in>
       {pl_innerFanDeactivationRequestedAt s1, Some t}"
    by (auto simp: stopped_def s1_def [symmetric] Let_def mergeFeedback_def split: option.split)
  ultimately show ?thesis
    using r1 by (auto simp: hasRetrogradeTimeReference_def retrograde_def)
qed

text \<open>\<open>forceStop\<close> switches off at once and drops the plan, whatever the state was.\<close>

lemma forceStop_idle:
  "pl_lastAppliedDirection (snd (forceStop p t e s)) = Dir_Idle"
  "pl_activeWindow (snd (forceStop p t e s)) = None"
  "pl_acceptedCommand (snd (forceStop p t e s)) = None"
  "pl_feedbackSubject (snd (forceStop p t e s)) = None"
  using stopped_sel(1) [where p = p and t = t and e = e and s = s]
  by (simp_all add: forceStop_eq(1) stopped_sel(2-) phys_eq_iff)

lemma forceStop_edge:
  "phys_edge p t False s (stopped p t e s)"
  using stopped_sel(1) [of p t e s]
  by (cases "pl_lastAppliedDirection s = Dir_Idle")
    (auto simp: set_same intro: phys_edge.stay phys_edge.off)

lemma forceStop_keeps:
  assumes "planner_inv p u s" and "u \<le> t"
  shows "planner_inv p t (snd (forceStop p t e s))"
proof -
  let ?s = "stopped p t e s"
  from planner_inv_later [OF assms] have i: "known_output s" "\<not> hasRetrogradeTimeReference t s"
    "fan_inv p t s" by (simp_all add: planner_inv_def tick_inv_def mid_inv_def)
  have "outcome_ok p t False s (clearPlanningState (setPhysicalDirection p Dir_Idle t s))"
    by (rule switched_off_cleared [OF i(1,2)]) simp
  then have "tick_inv p (clearPlanningState (setPhysicalDirection p Dir_Idle t s))"
    by (simp add: outcome_ok_def)
  then have "tick_inv p ?s"
    using mid_inv_cong(3) [of ?s "clearPlanningState (setPhysicalDirection p Dir_Idle t s)" p]
    by (simp add: stopped_sel clear_sel)
  moreover have "fan_inv p t ?s" by (rule fan_inv_edge [OF forceStop_edge i(3)])
  ultimately show ?thesis
    using stopped_retro [OF i(2)]
    by (simp add: planner_inv_def forceStop_eq(1) updateFan_tick_inv updateFan_retro
        updateFan_inv commands_ok_def stopped_sel)
qed

lemma bookkeeping_keeps:
  assumes "planner_inv p t s"
  shows "planner_inv p t (closeFeedbackEpisodeForOutstandingEvaluation s)"
    and "planner_inv p t (snd (takeFeedbackUpdate s))"
    and "planner_inv p t (applyExternalWatchdogFaultReset u s)"
  by (rule planner_inv_cong [OF _ _ _ _ assms];
      simp add: closeFeedbackEpisodeForOutstandingEvaluation_def takeFeedbackUpdate_def
        applyExternalWatchdogFaultReset_def Let_def phys_def hasRetrogradeTimeReference_def)+

section \<open>The planner as a machine on a clock\<close>

text \<open>One call of the public interface, with the time at which it is made.\<close>

datatype PlannerInput =
    PIn_Tick ActuatorPlanTickInput
  | PIn_ForceStop u64 ActuatorFeedbackEpisodeAtStop
  | PIn_CloseFeedbackEpisode u64
  | PIn_TakeFeedbackUpdate u64
  | PIn_ResetWatchdogFault u64

fun pin_now :: "PlannerInput \<Rightarrow> u64" where
  "pin_now (PIn_Tick i) = pti_nowMonotonicMillis i"
| "pin_now (PIn_ForceStop t e) = t"
| "pin_now (PIn_CloseFeedbackEpisode t) = t"
| "pin_now (PIn_TakeFeedbackUpdate t) = t"
| "pin_now (PIn_ResetWatchdogFault t) = t"

fun planner_step ::
  "ActuatorPlannerParameters \<Rightarrow> PlannerInput \<Rightarrow> ActuatorPlannerRuntimeState \<Rightarrow>
     ActuatorPlannerRuntimeState" where
  "planner_step p (PIn_Tick i) s = snd (plannerTick p i s)"
| "planner_step p (PIn_ForceStop t e) s = snd (forceStop p t e s)"
| "planner_step p (PIn_CloseFeedbackEpisode t) s = closeFeedbackEpisodeForOutstandingEvaluation s"
| "planner_step p (PIn_TakeFeedbackUpdate t) s = snd (takeFeedbackUpdate s)"
| "planner_step p (PIn_ResetWatchdogFault t) s = applyExternalWatchdogFaultReset t s"

lemma planner_step_keeps:
  assumes "valid_params p" and "planner_inv p t s" and "t \<le> pin_now i"
  shows "planner_inv p (pin_now i) (planner_step p i s)"
  using assms by (cases i)
    (auto intro: tick_keeps forceStop_keeps bookkeeping_keeps planner_inv_later)

text \<open>
  The parameters are fixed for a run, and \<open>beginRun\<close> binds valid ones only; the invariant of the
  machine says so.
\<close>

interpretation planner_run: clocked_machine "planner_step p" pin_now
    "\<lambda>t s. valid_params p \<and> planner_inv p t s" for p
  by unfold_locales (auto intro: planner_inv_later planner_step_keeps)

lemma planner_inv_initial: "planner_inv p t initialPlannerState"
  by (simp add: planner_inv_def initialPlannerState_def tick_inv_def mid_inv_def known_output_def
      on_inv_def settled_def hasRetrogradeTimeReference_def retrograde_def commands_ok_def
      fan_inv_def)

end
