(* ===== verification/PlannerBookkeeping.thy ===== *)
theory PlannerBookkeeping
  imports PlannerProofs
begin

text \<open>
  The bookkeeping of the actuator planner: the high-watermark of the sequence numbers
  (\<open>step_watermark\<close>), the latch of the watchdog (\<open>step_latched\<close>), and the feedback on the current
  request (\<open>feedback_inv\<close>, \<open>sharper\<close>).
\<close>

section \<open>The bookkeeping of requests and faults\<close>

text \<open>
  What the evaluation of a demand, a teardown and a rejection leave alone: the sequence
  high-watermark, the latch of the watchdog and its references.
\<close>

definition book where
  "book s = (pl_sequenceHighWatermark s, pl_latchedWatchdogFault s, pl_feedbackSubject s,
     pl_lastNewRequestAt s, pl_watchdogEpisodeStartedAt s)"

lemma book_eq_iff:
  "book s = book s' \<longleftrightarrow>
     pl_sequenceHighWatermark s = pl_sequenceHighWatermark s' \<and>
     pl_latchedWatchdogFault s = pl_latchedWatchdogFault s' \<and>
     pl_feedbackSubject s = pl_feedbackSubject s' \<and>
     pl_lastNewRequestAt s = pl_lastNewRequestAt s' \<and>
     pl_watchdogEpisodeStartedAt s = pl_watchdogEpisodeStartedAt s'"
  by (simp add: book_def)

named_theorems book_simps

lemma book_set [book_simps]: "book (setPhysicalDirection p d t s) = book s"
  by (simp add: book_def)

lemma book_fb: "fb_only s s' \<Longrightarrow> book s' = book s"
  by (auto simp: fb_only_def book_def)

lemma book_merge [book_simps]: "book (mergeFeedbackForDemand c r s) = book s"
  by (rule book_fb) (rule fb_only_merge)

lemma book_window [book_simps]:
  "book (s\<lparr>pl_activeWindow := w\<rparr>) = book s" "book (s\<lparr>pl_accumulator := a\<rparr>) = book s"
  "book (resetCounterDirection s) = book s" "book (clearPlanningState s) = book s"
  "book (s\<lparr>pl_acceptedCommand := c\<rparr>) = book s"
  by (simp_all add: book_def resetCounterDirection_def clearPlanningState_def)

lemma book_fresh [book_simps]: "book (startFreshWindow p c t s) = book s"
  by (subst startFreshWindow_shape) (simp add: book_def)

lemma book_answer [book_simps]: "book (snd (answerDemand c st r outcome s)) = book s"
  by (rule book_fb) (rule answerDemand_fb)

lemma book_apply [book_simps]: "book (snd (applyWindowPhysicalTick p t s)) = book s"
  by (cases "pl_activeWindow s")
    (simp_all add: applyWindowPhysicalTick_def Let_def book_simps)

lemma book_advance [book_simps]: "book (advanceWindow p c t s) = book s"
  by (cases "pl_activeWindow s") (simp_all add: advanceWindow_def Let_def book_simps)

lemma book_counter [book_simps]: "book (updateCounterDirection p c ref t s) = book s"
  by (simp add: updateCounterDirection_def Let_def resetCounterDirection_def book_def)

lemma book_opposing:
  "case opposingWindow p c outcome t s of Inl r \<Rightarrow> book (snd r) = book s | Inr s' \<Rightarrow> book s' = book s"
  by (cases "pl_activeWindow s")
    (simp_all add: opposingWindow_def Let_def case_prod_beta book_simps split del: if_split
      split: if_split)

lemma book_create:
  "case createWindow p c ref outcome t s of Inl r \<Rightarrow> book (snd r) = book s | Inr s' \<Rightarrow> book s' = book s"
  by (simp add: createWindow_def Let_def book_simps)

lemma book_windowTick [book_simps]: "book (snd (windowTick p c outcome t s)) = book s"
  by (simp add: windowTick_def Let_def case_prod_beta book_simps)

lemma book_evaluate [book_simps]:
  "book (snd (evaluateHeatingCoolingDemand p c outcome t s)) = book s"
proof -
  let ?s = "updateCounterDirection p c (referenceDirection s) t (advanceWindow p c t s)"
  have b: "book ?s = book s" by (simp add: book_simps)
  show ?thesis
  proof (cases "opposingWindow p c outcome t ?s")
    case (Inl r)
    with book_opposing [where p = p and c = c and outcome = outcome and t = t and s = ?s]
    show ?thesis by (simp add: evaluateHeatingCoolingDemand_def Let_def b)
  next
    case (Inr s')
    note op = book_opposing [where p = p and c = c and outcome = outcome and t = t and s = ?s,
        unfolded Inr b sum.case]
    note cr = book_create [where p = p and c = c and outcome = outcome and t = t and s = s'
        and ref = "referenceDirection s"]
    show ?thesis
      using cr op Inr by (cases "createWindow p c (referenceDirection s) outcome t s'")
        (simp_all add: evaluateHeatingCoolingDemand_def Let_def book_simps)
  qed
qed

lemma book_reject [book_simps]: "book (snd (rejectToIdle p outcome t status reason s)) = book s"
  using book_fb [OF reject_shape] by (simp add: book_simps)

lemma book_teardown [book_simps]: "book (snd (teardown p outcome t s)) = book s"
  by (simp add: teardown_def Let_def book_simps)

lemma book_regular [book_simps]: "book (snd (regularEvaluation p outcome t s)) = book s"
  by (simp add: regularEvaluation_def book_simps split: option.split)

lemma book_take [book_simps]: "book (takeCandidate c s) = book s"
  by (simp add: takeCandidate_def Let_def resetCounterDirection_def book_def)

lemma book_fan [book_simps]: "book (updateFanState p t ph s) = book s"
  by (simp add: updateFanState_def Let_def book_def)

lemma book_phaseB:
  "pl_sequenceHighWatermark (snd (runPhaseB p i a s)) = pl_sequenceHighWatermark s"
  "pl_feedbackSubject (snd (runPhaseB p i a s)) = pl_feedbackSubject s"
  "pl_latchedWatchdogFault s \<noteq> None \<Longrightarrow>
     pl_latchedWatchdogFault (snd (runPhaseB p i a s)) = pl_latchedWatchdogFault s"
proof -
  note sel = book_reject [unfolded book_eq_iff] book_teardown [unfolded book_eq_iff]
    book_evaluate [unfolded book_eq_iff] book_take [unfolded book_eq_iff]
  show "pl_sequenceHighWatermark (snd (runPhaseB p i a s)) = pl_sequenceHighWatermark s"
    "pl_feedbackSubject (snd (runPhaseB p i a s)) = pl_feedbackSubject s"
    by (simp_all add: runPhaseB_def Let_def sel split: option.split)
  show "pl_latchedWatchdogFault s \<noteq> None \<Longrightarrow>
     pl_latchedWatchdogFault (snd (runPhaseB p i a s)) = pl_latchedWatchdogFault s"
    by (simp add: runPhaseB_def Let_def sel)
qed

text \<open>The latch of the watchdog: only the reset opens it.\<close>

lemma tick_latched:
  assumes "pl_latchedWatchdogFault s \<noteq> None"
  shows "pl_latchedWatchdogFault (snd (plannerTick p i s)) = pl_latchedWatchdogFault s"
  using assms admitted_only(4) [where p = p and i = i and s = s]
    book_phaseB(3) [where s = "snd (admitted p i s)"]
  by (simp add: plannerTick_eq(1) evaluated_def)

lemma step_latched:
  assumes "pl_latchedWatchdogFault s \<noteq> None" and "\<forall>t. i \<noteq> PIn_ResetWatchdogFault t"
  shows "pl_latchedWatchdogFault (planner_step p i s) = pl_latchedWatchdogFault s"
  using assms
  by (cases i) (simp_all add: tick_latched forceStop_eq(1) stopped_sel takeFeedbackUpdate_def
      closeFeedbackEpisodeForOutstandingEvaluation_def Let_def)

text \<open>The high-watermark of the sequence numbers.\<close>

definition watermark_le :: "u64 option \<Rightarrow> u64 option \<Rightarrow> bool" where
  "watermark_le a b \<longleftrightarrow> (\<forall>h. a = Some h \<longrightarrow> (\<exists>h'. b = Some h' \<and> h \<le> h'))"

lemma watermark_le_refl [simp]: "watermark_le a a"
  by (simp add: watermark_le_def)

lemma watermark_le_trans: "watermark_le a b \<Longrightarrow> watermark_le b c \<Longrightarrow> watermark_le a c"
  by (auto simp: watermark_le_def; order)

lemma admitRequest_watermark:
  "watermark_le (pl_sequenceHighWatermark s) (pl_sequenceHighWatermark (snd (admitRequest p i dc q s)))"
proof -
  have l: "\<not> x \<le> a \<Longrightarrow> a \<le> x" for x a :: u64 by simp
  show ?thesis
    by (cases "pl_sequenceHighWatermark s")
      (simp_all add: l admitRequest_def Let_def openFeedbackEpisode_def rejectOnArrival_def
        watermark_le_def)
qed

lemma runPhaseA_watermark:
  "watermark_le (pl_sequenceHighWatermark s) (pl_sequenceHighWatermark (snd (runPhaseA p i s)))"
  by (cases "pti_newEvaluation i")
    (simp_all add: runPhaseA_def Let_def openFeedbackEpisode_def admitRequest_watermark
      split: option.split)

lemma step_watermark:
  "watermark_le (pl_sequenceHighWatermark s) (pl_sequenceHighWatermark (planner_step p i s))"
proof (cases i)
  case (PIn_Tick j)
  have "watermark_le (pl_sequenceHighWatermark (episodeStarted j s))
      (pl_sequenceHighWatermark (snd (admitted p j s)))"
    unfolding admitted_def by (rule runPhaseA_watermark)
  with PIn_Tick show ?thesis
    by (simp add: plannerTick_eq(1) evaluated_def book_phaseB episode_sel)
qed (simp_all add: forceStop_eq(1) stopped_sel takeFeedbackUpdate_def
      closeFeedbackEpisodeForOutstandingEvaluation_def applyExternalWatchdogFaultReset_def Let_def)

section \<open>The feedback on the current request\<close>

text \<open>A pending feedback is about the subject of the episode, as long as the episode is open.\<close>

definition feedback_inv :: "ActuatorPlannerRuntimeState \<Rightarrow> bool" where
  "feedback_inv s \<longleftrightarrow>
     (\<forall>f. pl_pendingFeedback s = Some f \<longrightarrow>
        pl_feedbackSubject s = None \<or> pl_feedbackSubject s = Some (pcr_sequence f))"

text \<open>Within an episode the pending feedback stays, and only becomes more severe.\<close>

definition sharper :: "ActuatorPlannerRuntimeState \<Rightarrow> ActuatorPlannerRuntimeState \<Rightarrow> bool" where
  "sharper s s' \<longleftrightarrow>
     pl_feedbackSubject s' = pl_feedbackSubject s \<and>
     (feedback_inv s \<longrightarrow> feedback_inv s' \<and>
       (\<forall>f. pl_pendingFeedback s = Some f \<longrightarrow>
          (\<exists>f'. pl_pendingFeedback s' = Some f' \<and> pcr_sequence f' = pcr_sequence f \<and>
             feedbackSeverity (pcr_disposition f) \<le> feedbackSeverity (pcr_disposition f'))))"

definition fbk where
  "fbk s = (pl_feedbackSubject s, pl_pendingFeedback s)"

lemma sharper_cong: "fbk s' = fbk s \<Longrightarrow> sharper s s'"
  by (simp add: fbk_def sharper_def feedback_inv_def)

lemma sharper_trans: "sharper a b \<Longrightarrow> sharper b c \<Longrightarrow> sharper a c"
  unfolding sharper_def by (metis order_trans)

lemma sharper_mergeFeedback:
  assumes "pl_feedbackSubject s = Some q"
  shows "sharper s (mergeFeedback q d s)"
  using assms by (cases "pl_pendingFeedback s")
    (auto simp: mergeFeedback_def sharper_def feedback_inv_def)

lemma sharper_merge: "sharper s (mergeFeedbackForDemand c r s)"
  using sharper_mergeFeedback by (simp add: mergeFeedbackForDemand_def sharper_cong)

lemma sharper_after:
  "fbk s = fbk s0 \<Longrightarrow> sharper s0 (mergeFeedbackForDemand c r s)"
  using sharper_trans [OF sharper_cong sharper_merge] .

lemma sharper_answer: "fbk s = fbk s0 \<Longrightarrow> sharper s0 (snd (answerDemand c st r outcome s))"
  by (simp add: answerDemand_def Let_def sharper_after)

named_theorems fbk_simps

lemma fbk_basic [fbk_simps]:
  "fbk (setPhysicalDirection p d t s) = fbk s"
  "fbk (s\<lparr>pl_activeWindow := w\<rparr>) = fbk s" "fbk (s\<lparr>pl_accumulator := a\<rparr>) = fbk s"
  "fbk (resetCounterDirection s) = fbk s" "fbk (clearPlanningState s) = fbk s"
  "fbk (takeCandidate c s) = fbk s" "fbk (updateFanState p t ph s) = fbk s"
  "fbk (updateCounterDirection p c ref t s) = fbk s"
  "fbk (s\<lparr>pl_latchedWatchdogFault := l\<rparr>) = fbk s"
  by (simp_all add: fbk_def resetCounterDirection_def clearPlanningState_def takeCandidate_def
      updateFanState_def updateCounterDirection_def setPhysicalDirection_def Let_def)

lemma fbk_fresh [fbk_simps]: "fbk (startFreshWindow p c t s) = fbk s"
  by (subst startFreshWindow_shape) (simp add: fbk_def)

lemma fbk_apply [fbk_simps]: "fbk (snd (applyWindowPhysicalTick p t s)) = fbk s"
  by (cases "pl_activeWindow s")
    (simp_all add: applyWindowPhysicalTick_def Let_def fbk_simps)

lemma fbk_advance [fbk_simps]: "fbk (advanceWindow p c t s) = fbk s"
  by (cases "pl_activeWindow s") (simp_all add: advanceWindow_def Let_def fbk_simps)

lemma sharper_opposing:
  "case opposingWindow p c outcome t s of Inl r \<Rightarrow> sharper s (snd r) | Inr s' \<Rightarrow> fbk s' = fbk s"
  by (cases "pl_activeWindow s")
    (simp_all add: opposingWindow_def Let_def case_prod_beta sharper_answer fbk_simps)

lemma sharper_create:
  "case createWindow p c ref outcome t s of Inl r \<Rightarrow> sharper s (snd r) | Inr s' \<Rightarrow> fbk s' = fbk s"
  by (simp add: createWindow_def Let_def sharper_answer fbk_simps)

lemma sharper_windowTick: "sharper s (snd (windowTick p c outcome t s))"
  by (simp add: windowTick_def Let_def case_prod_beta sharper_after fbk_simps)

lemma sharper_evaluate: "sharper s (snd (evaluateHeatingCoolingDemand p c outcome t s))"
proof -
  let ?s = "updateCounterDirection p c (referenceDirection s) t (advanceWindow p c t s)"
  have b: "sharper s ?s" by (simp add: sharper_cong fbk_simps)
  show ?thesis
  proof (cases "opposingWindow p c outcome t ?s")
    case (Inl r)
    with sharper_opposing [where p = p and c = c and outcome = outcome and t = t and s = ?s]
      sharper_trans [OF b]
    show ?thesis by (simp add: evaluateHeatingCoolingDemand_def Let_def)
  next
    case (Inr s')
    note op = sharper_opposing [where p = p and c = c and outcome = outcome and t = t and s = ?s,
        unfolded Inr sum.case]
    note b' = sharper_trans [OF b sharper_cong [OF op]]
    note cr = sharper_create [where p = p and c = c and outcome = outcome and t = t and s = s'
        and ref = "referenceDirection s"]
    show ?thesis
    proof (cases "createWindow p c (referenceDirection s) outcome t s'")
      case (Inl r)
      with cr sharper_trans [OF b'] \<open>opposingWindow p c outcome t ?s = Inr s'\<close> show ?thesis
        by (simp add: evaluateHeatingCoolingDemand_def Let_def)
    next
      case (Inr s'')
      with cr have "sharper s s''" by (intro sharper_trans [OF b'] sharper_cong) simp
      from sharper_trans [OF this sharper_windowTick] Inr \<open>opposingWindow p c outcome t ?s = Inr s'\<close>
      show ?thesis by (simp add: evaluateHeatingCoolingDemand_def Let_def)
    qed
  qed
qed

lemma sharper_reject: "sharper s (snd (rejectToIdle p outcome t status reason s))"
proof -
  let ?s = "clearPlanningState (setPhysicalDirection p Dir_Idle t s)"
  have s: "sharper s ?s" by (simp add: sharper_cong fbk_simps)
  show ?thesis
    unfolding rejectToIdle_def if_idle_set Let_def
    using sharper_trans [OF s sharper_mergeFeedback [of ?s _ FD_Rejected]] s
    by (cases "pl_feedbackSubject ?s") simp_all
qed

lemma sharper_teardown: "sharper s (snd (teardown p outcome t s))"
  by (simp add: teardown_def Let_def sharper_cong fbk_simps)

lemma sharper_phaseB: "sharper s (snd (runPhaseB p i a s))"
proof -
  note t = sharper_trans [OF sharper_cong]
  show ?thesis
    by (simp add: runPhaseB_def Let_def sharper_reject sharper_teardown sharper_evaluate
        t [OF fbk_basic(6) sharper_teardown] t [OF fbk_basic(6) sharper_evaluate]
        t [OF fbk_basic(9) sharper_reject] split: option.split)
qed

lemma sharper_evaluated:
  assumes "pti_newEvaluation i = None"
  shows "sharper s (snd (plannerTick p i s))"
proof -
  have "fbk (snd (admitted p i s)) = fbk s"
    using assms by (simp add: admitted_def runPhaseA_def episodeStarted_def fbk_def)
  from sharper_trans [OF sharper_cong [OF this] sharper_phaseB]
    sharper_trans [OF _ sharper_cong [OF fbk_basic(7)]]
  show ?thesis by (simp add: plannerTick_eq(1) evaluated_def)
qed

text \<open>The invariant of the feedback holds after every call.\<close>

lemma feedback_inv_admitted: "feedback_inv s \<Longrightarrow> feedback_inv (snd (admitted p i s))"
  by (auto simp: admitted_def runPhaseA_def admitRequest_def openFeedbackEpisode_def
      rejectOnArrival_def episodeStarted_def feedback_inv_def Let_def
      split: option.splits if_splits)

lemma feedback_inv_fan: "feedback_inv (updateFanState p t ph s) = feedback_inv s"
  using fbk_basic(7) [where p = p and t = t and ph = ph and s = s]
  by (simp add: feedback_inv_def fbk_def)

lemma feedback_inv_tick: "feedback_inv s \<Longrightarrow> feedback_inv (snd (plannerTick p i s))"
  using sharper_phaseB feedback_inv_admitted [where p = p and i = i and s = s]
  by (auto simp: plannerTick_eq(1) evaluated_def sharper_def feedback_inv_fan)

lemma feedback_inv_bookkeeping:
  "feedback_inv (stopped p t e s)"
  "feedback_inv s \<Longrightarrow> feedback_inv (closeFeedbackEpisodeForOutstandingEvaluation s)"
  "feedback_inv s \<Longrightarrow> feedback_inv (snd (takeFeedbackUpdate s))"
  "feedback_inv s \<Longrightarrow> feedback_inv (applyExternalWatchdogFaultReset t s)"
  by (simp_all add: feedback_inv_def stopped_sel closeFeedbackEpisodeForOutstandingEvaluation_def
      takeFeedbackUpdate_def applyExternalWatchdogFaultReset_def Let_def)

lemma feedback_inv_step: "feedback_inv s \<Longrightarrow> feedback_inv (planner_step p i s)"
  by (cases i)
    (simp_all add: feedback_inv_tick feedback_inv_bookkeeping forceStop_eq(1) feedback_inv_fan)

interpretation planner_feedback: clocked_machine "planner_step p" pin_now "\<lambda>t. feedback_inv" for p
  by unfold_locales (simp_all add: feedback_inv_step)

end
