(* ===== verification/PlannerProperties.thy ===== *)
theory PlannerProperties
  imports PlannerBookkeeping
begin

text \<open>
  The properties of the actuator planner, over the lemmas of \<open>PlannerProofs\<close> and
  \<open>PlannerBookkeeping\<close>, and a concrete run that witnesses their hypotheses: one demand at 10 ms,
  with half of a window of one second, and the end of its pulse at 510 ms.
\<close>

section \<open>Concrete inputs\<close>

definition ex_params :: ActuatorPlannerParameters where
  "ex_params =
     \<lparr>par_switchingWindowMillis = 1000, par_minimumOnMillis = 100, par_minimumOffMillis = 200,
      par_polarityDeadTimeMillis = 300, par_pulseAccumulatorCapMillis = 1000,
      par_counterDirectionQuoteThreshold = F64 (1 / 2), par_counterDirectionDurationMillis = 400,
      par_requestWatchdogMillis = 5000, par_outerFanPostRunMillis = 600,
      par_innerFanPostRunMillis = 700\<rparr>"

definition ex_context :: ControlRequestContext where
  "ex_context =
     \<lparr>ctx_processTransitionSequence = 1, ctx_runRevision = 1, ctx_controlSensorRole = CSR_Air\<rparr>"

definition ex_demand ::
  "u64 \<Rightarrow> u64 \<Rightarrow> AbstractControlDirection \<Rightarrow> rat \<Rightarrow> TemperatureControlResult" where
  "ex_demand n t d q =
     \<lparr>tcr_status = TCS_Demand, tcr_reason = TCR_None, tcr_airLimitState = ALS_NotApplied,
      tcr_direction = d, tcr_timeQuote = F64 q, tcr_rawProportionalQuote = F64 q,
      tcr_integralContributionQuote = F64 0, tcr_unboundedQuote = F64 q,
      tcr_maximumLimitedQuote = F64 q,
      tcr_controlRequest = Some
        \<lparr>creq_identity = \<lparr>id_sequence = n, id_createdAtMonotonicMillis = t\<rparr>,
         creq_context = ex_context, creq_direction = d, creq_timeQuote = F64 q\<rparr>\<rparr>"

definition ex_tick :: "u64 \<Rightarrow> TemperatureControlResult option \<Rightarrow> ActuatorPlanTickInput" where
  "ex_tick t e =
     \<lparr>pti_nowMonotonicMillis = t, pti_newEvaluation = e, pti_currentCanonicalContext = ex_context,
      pti_temperatureControlledPhase = True, pti_safetyGate = \<lparr>asg_status = ASG_Allowed\<rparr>\<rparr>"


lemmas ex_defs = ex_params_def ex_context_def ex_demand_def ex_tick_def

lemma ex_integers [simp]:
  "round64 500 = F64 500" "round64 1000 = F64 1000" "round64 100 = F64 100"
  using round64_of_nat [of 500] round64_of_nat [of 1000] round64_of_nat [of 100] by simp_all

lemma ex_half [simp]: "round64 (1001 / 2) = F64 (1001 / 2)"
proof -
  have "ilog2 (1001 / 2) = 8" by (rule ilog2_eqI) (simp_all add: pow2_def)
  then have e: "ulpExponent (1001 / 2) = - 44" by (simp add: ulpExponent_def)
  have p: "(1001 / 2) / pow2 (- 44) = of_int (1001 * 2 ^ 43)" "pow2 (- 44) = 1 / 2 ^ 44"
    by (simp_all add: pow2_def power_int_minus)
  have "roundRat (1001 / 2) = 1001 / 2"
    by (simp add: roundRat_def e p roundHalfEven_def)
  moreover have "(1001 / 2 :: rat) < 2 ^ 10" by simp
  then have "(1001 / 2 :: rat) < 2 ^ 1024"
    using power_strict_increasing [of 10 1024 "2 :: rat"] by linarith
  ultimately show ?thesis by (simp add: round64_def)
qed

lemma ex_floor [simp]: "\<lfloor>1001 / 2 :: rat\<rfloor> = 500"
  by (simp add: floor_eq_iff)

lemma ex_cast [simp]: "f64_of_u64 1000 = F64 1000" "f64_of_u64 100 = F64 100"
  by (simp_all add: f64_of_u64_def)

lemma ex_valid: "valid_params ex_params"
  by (simp add: ex_params_def classifyActuatorPlannerParameters_def Let_def)

lemma ex_eval:
  "isStructurallyValidEvaluation (ex_demand 1 10 Dir_Heating (1 / 2))"
  "classifyActuatorDemand (ex_demand 1 10 Dir_Heating (1 / 2)) = ADC_NormalDemand"
  by (simp_all add: isStructurallyValidEvaluation_def ex_defs isKnownStatus_def
      isKnownDirection_def isKnownReason_def isKnownAirLimitState_def isFiniteUnitQuote_def
      evaluationMatchesStatus_def Let_def isStructurallyValidContext_def isKnownSensorRole_def
      airLimitMatchesRole_def classifyActuatorDemand_def)

lemma ex_window:
  "startFreshWindow ex_params
     \<lparr>cmd_sequence = n, cmd_direction = d, cmd_timeQuote = F64 (1 / 2), cmd_demandClass = k,
      cmd_contextAtAcceptance = c\<rparr> t s =
   s\<lparr>pl_activeWindow := Some
       \<lparr>win_startMonotonicMillis = t, win_direction = d, win_sourceRequestSequence = n,
        win_scheduledOnMillis = 500, win_pulseStartAttempted = False,
        win_minimumPulseFromAccumulator = False, win_pulseStartedSuccessfully = False\<rparr>\<rparr>"
  by (simp add: startFreshWindow_def Let_def ex_params_def requestedOnMillisExact_def fclamp_def
      roundHalfUp_def ffloor_def u64_of_f64_def)

definition ex_command :: "AbstractControlDirection \<Rightarrow> AcceptedControlCommand" where
  "ex_command d =
     \<lparr>cmd_sequence = 1, cmd_direction = d, cmd_timeQuote = F64 (1 / 2),
      cmd_demandClass = ADC_NormalDemand, cmd_contextAtAcceptance = ex_context\<rparr>"

lemma ex_gate: "isKnownSafetyGateStatus ASG_Allowed" "isStructurallyValidContext ex_context"
  "contextsMatch ex_context ex_context"
  by (simp_all add: isKnownSafetyGateStatus_def isStructurallyValidContext_def
      isKnownSensorRole_def ex_context_def contextsMatch_def)

definition ex_admitted :: ActuatorPlannerRuntimeState where
  "ex_admitted = initialPlannerState\<lparr>
     pl_sequenceHighWatermark := Some 1, pl_lastNewRequestAt := Some 10,
     pl_watchdogEpisodeStartedAt := Some 10, pl_feedbackSubject := Some 1,
     pl_pendingFeedbackUpdateAvailable := True\<rparr>"

lemma ex_phaseA:
  "admitted ex_params (ex_tick 10 (Some (ex_demand 1 10 Dir_Heating (1 / 2))))
     initialPlannerState =
    (\<lparr>pao_admissionOutcome = AAO_Accepted, pao_candidate = Some (ex_command Dir_Heating)\<rparr>,
     ex_admitted)"
  by (simp add: admitted_def episodeStarted_def runPhaseA_def ex_eval ex_tick_def ex_gate
      admitRequest_def Let_def)
   (simp add: admitRequest_def Let_def ex_demand_def openFeedbackEpisode_def deadlineReached_def
      ex_gate
      ex_params_def ex_admitted_def ex_command_def initialPlannerState_def)

lemma ex_phaseB:
  "runPhaseB ex_params (ex_tick 10 e)
     \<lparr>pao_admissionOutcome = AAO_Accepted, pao_candidate = Some (ex_command Dir_Heating)\<rparr>
     ex_admitted =
    evaluateHeatingCoolingDemand ex_params (ex_command Dir_Heating) AAO_Accepted 10
      (ex_admitted\<lparr>pl_acceptedCommand := Some (ex_command Dir_Heating)\<rparr>)"
proof -
  have "\<not> runningWatchdogTripped ex_params (ex_tick 10 e) ex_admitted"
    "\<not> hasRetrogradeTimeReference 10 ex_admitted"
    by (simp_all add: runningWatchdogTripped_def ex_admitted_def deadlineReached_def ex_params_def
        ex_tick_def hasRetrogradeTimeReference_def initialPlannerState_def retrograde_def)
  moreover have "pl_latchedWatchdogFault ex_admitted = None" "pl_acceptedCommand ex_admitted = None"
    by (simp_all add: ex_admitted_def initialPlannerState_def)
  ultimately show ?thesis
    by (simp add: runPhaseB_def Let_def ex_valid ex_gate ex_tick_def takeCandidate_def ex_command_def)
qed

definition ex_heated :: ActuatorPlannerRuntimeState where
  "ex_heated = ex_admitted\<lparr>pl_acceptedCommand := Some (ex_command Dir_Heating),
     pl_activeWindow := Some
       \<lparr>win_startMonotonicMillis = 10, win_direction = Dir_Heating,
        win_sourceRequestSequence = 1, win_scheduledOnMillis = 500,
        win_pulseStartAttempted = True, win_minimumPulseFromAccumulator = False,
        win_pulseStartedSuccessfully = True\<rparr>,
     pl_pendingFeedback := Some \<lparr>pcr_sequence = 1, pcr_disposition = FD_NoIntegratorConstraint\<rparr>,
     pl_pendingFeedbackUpdateAvailable := True,
     pl_onPhaseStartedAt := Some 10, pl_outerFanActive := True,
     pl_outerFanDeactivationRequestedAt := None, pl_lastAppliedDirection := Dir_Heating\<rparr>"

lemma ex_evaluate:
  "evaluateHeatingCoolingDemand ex_params (ex_command Dir_Heating) AAO_Accepted 10
      (ex_admitted\<lparr>pl_acceptedCommand := Some (ex_command Dir_Heating)\<rparr>) =
   (buildResult APS_Active APR_ScheduledWithinWindow AAO_Accepted ex_heated, ex_heated)"
  by (simp add: evaluateHeatingCoolingDemand_def Let_def referenceDirection_def
      plannedDirection_def physicalDirection_def advanceWindow_def updateCounterDirection_def
      opposingWindow_def createWindow_def ex_window ex_admitted_def initialPlannerState_def
      ex_command_def resetCounterDirection_def)
    (simp add: windowTick_def applyWindowPhysicalTick_def Let_def armingAllowed_def
      setPhysicalDirection_def plannedDirection_def physicalDirection_def
      mergeFeedbackForDemand_def mergeFeedback_def ex_heated_def ex_params_def
      isDownstreamLimitedReason_def ex_admitted_def initialPlannerState_def ex_command_def
      resetCounterDirection_def)

definition ex_start :: ActuatorPlanTickInput where
  "ex_start = ex_tick 10 (Some (ex_demand 1 10 Dir_Heating (1 / 2)))"

text \<open>After the first tick the output heats; after the second one its window is over.\<close>

definition ex_on :: ActuatorPlannerRuntimeState where
  "ex_on = ex_heated\<lparr>pl_innerFanActive := True, pl_innerFanDeactivationRequestedAt := None\<rparr>"

lemma ex_first:
  "plannerTick ex_params ex_start initialPlannerState =
     (copyFanStateToResult ex_on
        (buildResult APS_Active APR_ScheduledWithinWindow AAO_Accepted ex_heated), ex_on)"
proof -
  have e: "evaluated ex_params ex_start initialPlannerState =
      (buildResult APS_Active APR_ScheduledWithinWindow AAO_Accepted ex_heated, ex_heated)"
    by (simp add: evaluated_def ex_start_def ex_phaseA ex_phaseB ex_evaluate)
  have "snd (plannerTick ex_params ex_start initialPlannerState) = ex_on"
    unfolding plannerTick_eq(1) e
    by (simp add: ex_start_def ex_tick_def updateFanState_def ex_heated_def ex_on_def)
  then show ?thesis using plannerTick_eq(2) [of ex_params ex_start initialPlannerState]
    by (simp add: e prod_eq_iff)
qed

definition ex_off :: ActuatorPlannerRuntimeState where
  "ex_off = setPhysicalDirection ex_params Dir_Idle 510 ex_on"

lemma ex_regular:
  "evaluateHeatingCoolingDemand ex_params (ex_command Dir_Heating) AAO_NoCandidate 510 ex_on =
     (buildResult APS_Idle APR_ScheduledWithinWindow AAO_NoCandidate ex_off, ex_off)"
  by (simp add: evaluateHeatingCoolingDemand_def Let_def referenceDirection_def
      plannedDirection_def physicalDirection_def advanceWindow_def updateCounterDirection_def
      opposingWindow_def createWindow_def ex_heated_def ex_on_def ex_admitted_def
      initialPlannerState_def ex_command_def resetCounterDirection_def ex_params_def)
    (simp add: windowTick_def applyWindowPhysicalTick_def Let_def ex_off_def ex_on_def
      setPhysicalDirection_def plannedDirection_def physicalDirection_def
      mergeFeedbackForDemand_def mergeFeedback_def ex_heated_def ex_params_def
      isDownstreamLimitedReason_def ex_admitted_def initialPlannerState_def ex_command_def
      feedbackSeverity_def)

lemma ex_start_sel [simp]:
  "pti_nowMonotonicMillis ex_start = 10" "pti_currentCanonicalContext ex_start = ex_context"
  "asg_status (pti_safetyGate ex_start) = ASG_Allowed"
  by (simp_all add: ex_start_def ex_tick_def)

lemma ex_tick_sel [simp]:
  "pti_nowMonotonicMillis (ex_tick t e) = t" "pti_newEvaluation (ex_tick t e) = e"
  "pti_currentCanonicalContext (ex_tick t e) = ex_context"
  by (simp_all add: ex_tick_def)

lemma ex_request:
  "tcr_controlRequest (ex_demand n t d q) = Some
     \<lparr>creq_identity = \<lparr>id_sequence = n, id_createdAtMonotonicMillis = t\<rparr>,
      creq_context = ex_context, creq_direction = d, creq_timeQuote = F64 q\<rparr>"
  by (simp add: ex_demand_def)

lemma ex_initial [simp]: "pl_lastAppliedDirection initialPlannerState = Dir_Idle"
  by (simp add: initialPlannerState_def)

lemma ex_watchdog [simp]: "par_requestWatchdogMillis ex_params = 5000"
  by (simp add: ex_params_def)

definition ex_end :: ActuatorPlanTickInput where
  "ex_end = ex_tick 510 None"

lemma ex_end_sel [simp]:
  "pti_nowMonotonicMillis ex_end = 510" "pti_newEvaluation ex_end = None"
  "pti_currentCanonicalContext ex_end = ex_context" "pti_temperatureControlledPhase ex_end"
  "asg_status (pti_safetyGate ex_end) = ASG_Allowed"
  by (simp_all add: ex_end_def ex_tick_def)

definition ex_fault :: ActuatorWatchdogFaultEvidence where
  "ex_fault =
     \<lparr>wfe_detectedAtMonotonicMillis = 500,
      wfe_lastObservedSequenceHighWatermarkBeforeFault = 1\<rparr>"

lemma ex_on_sel:
  "pl_lastAppliedDirection ex_on = Dir_Heating" "pl_latchedWatchdogFault ex_on = None"
  "pl_watchdogEpisodeStartedAt ex_on = Some 10" "pl_lastNewRequestAt ex_on = Some 10"
  "pl_acceptedCommand ex_on = Some (ex_command Dir_Heating)"
  "pl_sequenceHighWatermark ex_on = Some 1" "pl_pendingFeedbackUpdateAvailable ex_on"
  "pl_pendingFeedback ex_on =
     Some \<lparr>pcr_sequence = 1, pcr_disposition = FD_NoIntegratorConstraint\<rparr>"
  "\<not> hasRetrogradeTimeReference 510 ex_on"
  by (simp_all add: ex_on_def ex_heated_def ex_admitted_def initialPlannerState_def
      hasRetrogradeTimeReference_def retrograde_def)

lemma ex_second:
  "evaluated ex_params ex_end ex_on =
     (buildResult APS_Idle APR_ScheduledWithinWindow AAO_NoCandidate ex_off, ex_off)"
proof -
  have a: "admitted ex_params ex_end ex_on =
      (\<lparr>pao_admissionOutcome = AAO_NoCandidate, pao_candidate = None\<rparr>, ex_on)"
    by (simp add: admitted_def episodeStarted_def runPhaseA_def ex_on_sel)
  have "\<not> runningWatchdogTripped ex_params ex_end ex_on"
    by (simp add: runningWatchdogTripped_def ex_on_sel deadlineReached_def ex_params_def)
  moreover have "contextsMatch (cmd_contextAtAcceptance (ex_command Dir_Heating)) ex_context"
    "cmd_direction (ex_command Dir_Heating) = Dir_Heating"
    by (simp_all add: ex_command_def ex_gate)
  ultimately show ?thesis
    by (simp add: evaluated_def a runPhaseB_def Let_def ex_valid ex_gate ex_on_sel ex_regular)
qed

section \<open>Safety gate\<close>

lemma reject_applied [simp]:
  "ptr_appliedDirection (fst (rejectToIdle p outcome t status reason s)) = Dir_Idle"
  using reject_idle(1) [where p = p and outcome = outcome and t = t and status = status
      and reason = reason and s = s]
  by (simp add: rejectToIdle_def Let_def)

abbreviation plannerAfter ::
  "ActuatorPlannerParameters \<Rightarrow> PlannerInput list \<Rightarrow> ActuatorPlannerRuntimeState" where
  "plannerAfter p is \<equiv> fold (planner_step p) is initialPlannerState"

lemma reachable_inv:
  assumes "valid_params p" and "ordered_from pin_now t is"
  shows "planner_inv p (last_time pin_now t is) (plannerAfter p is)"
  using planner_run.inv_run [of p t initialPlannerState "is"] assms planner_inv_initial by blast

lemma closed_rejects:
  assumes "asg_status (pti_safetyGate i) \<noteq> ASG_Allowed \<or> pl_latchedWatchdogFault s \<noteq> None \<or>
      \<not> valid_params p \<or> \<not> isStructurallyValidContext (pti_currentCanonicalContext i)"
  obtains outcome status reason where
    "runPhaseB p i a s = rejectToIdle p outcome (pti_nowMonotonicMillis i) status reason s"
    "status \<noteq> APS_Active"
proof -
  have k: "asg_status (pti_safetyGate i) = ASG_Allowed \<or>
      \<not> isKnownSafetyGateStatus (asg_status (pti_safetyGate i)) \<or>
      asg_status (pti_safetyGate i) = ASG_Unresolved \<or>
      asg_status (pti_safetyGate i) = ASG_ImmediateStop"
    by (cases "asg_status (pti_safetyGate i)") (simp_all add: isKnownSafetyGateStatus_def)
  have v: "valid_params p \<or> classifyActuatorPlannerParameters p = APV_Unconfigured \<or>
      classifyActuatorPlannerParameters p = APV_Invalid"
    by (cases "classifyActuatorPlannerParameters p") simp_all
  let ?m = "pao_admissionOutcome a = AAO_MalformedCandidate \<or>
      \<not> isKnownSafetyGateStatus (asg_status (pti_safetyGate i)) \<or>
      \<not> isStructurallyValidContext (pti_currentCanonicalContext i)"
  consider (m) ?m | (u) "\<not> ?m" "classifyActuatorPlannerParameters p = APV_Unconfigured"
    | (i) "\<not> ?m" "classifyActuatorPlannerParameters p = APV_Invalid"
    | (r) "\<not> ?m" "valid_params p" "asg_status (pti_safetyGate i) = ASG_Unresolved"
    | (s) "\<not> ?m" "valid_params p" "asg_status (pti_safetyGate i) = ASG_ImmediateStop"
    | (l) "\<not> ?m" "valid_params p" "asg_status (pti_safetyGate i) = ASG_Allowed"
        "pl_latchedWatchdogFault s \<noteq> None"
    using assms k v by blast
  then show thesis
  proof cases
    case m
    show thesis by (rule that) (use m in \<open>simp add: runPhaseB_def Let_def\<close>, simp)
  qed (rule that, (simp add: runPhaseB_def Let_def)[1], simp)+
qed

lemma gate_closed:
  assumes "asg_status (pti_safetyGate i) \<noteq> ASG_Allowed \<or> pl_latchedWatchdogFault s \<noteq> None \<or>
      classifyActuatorPlannerParameters p \<noteq> APV_Valid \<or>
      \<not> isStructurallyValidContext (pti_currentCanonicalContext i)"
  shows "ptr_appliedDirection (fst (plannerTick p i s)) = Dir_Idle \<and>
         ptr_status (fst (plannerTick p i s)) \<noteq> APS_Active \<and>
         pl_lastAppliedDirection (snd (plannerTick p i s)) = Dir_Idle \<and>
         pl_activeWindow (snd (plannerTick p i s)) = None \<and>
         pl_acceptedCommand (snd (plannerTick p i s)) = None"
proof -
  from assms have a: "asg_status (pti_safetyGate i) \<noteq> ASG_Allowed \<or>
      pl_latchedWatchdogFault (snd (admitted p i s)) \<noteq> None \<or>
      \<not> valid_params p \<or> \<not> isStructurallyValidContext (pti_currentCanonicalContext i)"
    by (simp add: admitted_only)
  obtain outcome status reason where e: "evaluated p i s = rejectToIdle p outcome
      (pti_nowMonotonicMillis i) status reason (snd (admitted p i s))" "status \<noteq> APS_Active"
    unfolding evaluated_def by (rule closed_rejects [OF a])
  show ?thesis
    using e(2) by (simp add: plannerTick_eq e(1) reject_idle reject_applied updateFan_sel)
qed

text \<open>C20: the output is off after every tick whose safety gate is not \<open>Allowed\<close> (unresolved, an
  immediate stop, or a byte that names no status), after every tick under a latched watchdog
  fault, with parameters that are not valid, or with a context of unknown role: the tick applies
  \<open>Idle\<close>, keeps no window and no command, and is not \<open>Active\<close>. Nothing is asked of the state.\<close>

theorem planner_gate_closed:
  assumes "asg_status (pti_safetyGate i) \<noteq> ASG_Allowed \<or> pl_latchedWatchdogFault s \<noteq> None \<or>
      classifyActuatorPlannerParameters p \<noteq> APV_Valid \<or>
      \<not> isStructurallyValidContext (pti_currentCanonicalContext i)"
  shows "ptr_appliedDirection (fst (plannerTick p i s)) = Dir_Idle \<and>
         ptr_status (fst (plannerTick p i s)) \<noteq> APS_Active \<and>
         pl_lastAppliedDirection (snd (plannerTick p i s)) = Dir_Idle \<and>
         pl_activeWindow (snd (plannerTick p i s)) = None \<and>
         pl_acceptedCommand (snd (plannerTick p i s)) = None"
  using assms by (rule gate_closed)

theorem planner_gate_closed_witness:
  "ptr_appliedDirection (fst (plannerTick ex_params
     (ex_end\<lparr>pti_safetyGate := \<lparr>asg_status = ASG_Unresolved\<rparr>\<rparr>) ex_on)) = Dir_Idle \<and>
   pl_lastAppliedDirection ex_on = Dir_Heating"
  using planner_gate_closed [of "ex_end\<lparr>pti_safetyGate := \<lparr>asg_status = ASG_Unresolved\<rparr>\<rparr>" ex_on
      ex_params]
  by (simp add: ex_on_sel)

section \<open>The output\<close>

text \<open>In every state that a sequence of calls with a clock that does not run back reaches from
  the initial state, the output is idle, heating or cooling; and an output that is on has an
  active window of its direction whose pulse was started, with an on-time between the minimum
  on-time and the switching window, and the outer fan is on.\<close>

theorem planner_output_in_window:
  assumes "classifyActuatorPlannerParameters p = APV_Valid" and "ordered_from pin_now t is"
  shows "pl_lastAppliedDirection (plannerAfter p is) \<in> {Dir_Idle, Dir_Heating, Dir_Cooling} \<and>
    (pl_lastAppliedDirection (plannerAfter p is) \<noteq> Dir_Idle \<longrightarrow>
       pl_outerFanActive (plannerAfter p is) \<and>
       (\<exists>w. pl_activeWindow (plannerAfter p is) = Some w \<and>
          win_direction w = pl_lastAppliedDirection (plannerAfter p is) \<and>
          win_pulseStartedSuccessfully w \<and>
          par_minimumOnMillis p \<le> win_scheduledOnMillis w \<and>
          win_scheduledOnMillis w \<le> par_switchingWindowMillis p))"
proof -
  let ?s = "plannerAfter p is"
  have i: "tick_inv p ?s" "known_output ?s" "fan_inv p (last_time pin_now t is) ?s"
    using reachable_inv [OF assms] by (simp_all add: planner_inv_def tick_inv_def mid_inv_def)
  show ?thesis
  proof (cases "pl_lastAppliedDirection ?s = Dir_Idle")
    case True
    then show ?thesis by simp
  next
    case False
    obtain w u where w: "pl_activeWindow ?s = Some w"
      "win_direction w = pl_lastAppliedDirection ?s" "win_pulseStartedSuccessfully w"
      "window_inv p ?s w"
      by (rule on_within_pulse [OF i(1) False])
    with False i(2,3) show ?thesis
      by (auto simp: known_output_def fan_inv_def window_inv_def window_sized_def)
  qed
qed

theorem planner_output_in_window_witness:
  "pl_lastAppliedDirection (plannerAfter ex_params [PIn_Tick ex_start]) = Dir_Heating \<and>
   pl_outerFanActive (plannerAfter ex_params [PIn_Tick ex_start])"
proof -
  have "plannerAfter ex_params [PIn_Tick ex_start] = ex_on" by (simp add: ex_first)
  then show ?thesis
    using planner_output_in_window [OF ex_valid, of 0 "[PIn_Tick ex_start]"] by (simp add: ex_on_sel)
qed

text \<open>
  The step of the output in a tick: of the part before the fans, which leave the output alone.
\<close>

lemma tick_edge:
  assumes "classifyActuatorPlannerParameters p = APV_Valid" and "ordered_from pin_now t is"
    and "last_time pin_now t is \<le> pti_nowMonotonicMillis i"
  shows "phys_edge p (pti_nowMonotonicMillis i)
     (ptr_reason (fst (plannerTick p i (plannerAfter p is))) \<notin> immediate_reasons)
     (plannerAfter p is) (snd (evaluated p i (plannerAfter p is)))"
  using evaluated_ok(4) [OF assms(1) reachable_inv [OF assms(1,2)] assms(3)]
  by (simp add: plannerTick_eq(2))

lemma tick_last:
  "pl_lastAppliedDirection (snd (plannerTick p i s)) =
     pl_lastAppliedDirection (snd (evaluated p i s))"
  "pl_deactivationAt (snd (plannerTick p i s)) = pl_deactivationAt (snd (evaluated p i s))"
  "pl_deactivationDirection (snd (plannerTick p i s)) =
     pl_deactivationDirection (snd (evaluated p i s))"
  by (simp_all add: plannerTick_eq(1))

lemma deadline_after:
  assumes "deadlineReached u a d" and "u \<le> t"
  shows "unat a + unat d \<le> unat t"
proof -
  have "a \<le> u" "d \<le> u - a"
    using assms(1) by (auto simp: deadlineReached_def split: if_splits)
  then have "unat a + unat d \<le> unat u" by (simp add: elapsed_ge_iff)
  with assms(2) show ?thesis by (simp add: word_le_nat_alt)
qed

lemma armed_after:
  assumes "armingAllowed p d u s" and "u \<le> t" and "pl_deactivationAt s = Some a"
  shows "unat a + unat (par_minimumOffMillis p) \<le> unat t"
    and "pl_deactivationDirection s \<noteq> Some d \<Longrightarrow>
      unat a + unat (par_polarityDeadTimeMillis p) \<le> unat t"
  using assms deadline_after [OF _ assms(2)]
  by (simp_all add: armingAllowed_def Let_def split: if_splits)

text \<open>C21: the output is switched on only from idle, in a tick whose gate is \<open>Allowed\<close> and that is
  not a rejection, without a latched fault; the minimum off-time has passed since the last
  switch-off, and, when the last direction was the other one, the polarity dead time too. The
  times are compared without wrap-around.\<close>

theorem planner_switch_on:
  assumes "classifyActuatorPlannerParameters p = APV_Valid" and "ordered_from pin_now t is"
    and "last_time pin_now t is \<le> pti_nowMonotonicMillis i"
    and "pl_lastAppliedDirection (snd (plannerTick p i (plannerAfter p is))) \<noteq>
         pl_lastAppliedDirection (plannerAfter p is)"
    and "pl_lastAppliedDirection (snd (plannerTick p i (plannerAfter p is))) \<noteq> Dir_Idle"
  shows "pl_lastAppliedDirection (plannerAfter p is) = Dir_Idle \<and>
    asg_status (pti_safetyGate i) = ASG_Allowed \<and>
    pl_latchedWatchdogFault (plannerAfter p is) = None \<and>
    (\<forall>a. pl_deactivationAt (plannerAfter p is) = Some a \<longrightarrow>
       unat a + unat (par_minimumOffMillis p) \<le> unat (pti_nowMonotonicMillis i) \<and>
       (pl_deactivationDirection (plannerAfter p is) \<noteq>
          Some (pl_lastAppliedDirection (snd (plannerTick p i (plannerAfter p is)))) \<longrightarrow>
        unat a + unat (par_polarityDeadTimeMillis p) \<le> unat (pti_nowMonotonicMillis i)))"
proof -
  let ?s = "plannerAfter p is" and ?t = "pti_nowMonotonicMillis i"
  have g: "asg_status (pti_safetyGate i) = ASG_Allowed" "pl_latchedWatchdogFault ?s = None"
    using gate_closed [of i ?s p] assms(5) by blast+
  from tick_edge [OF assms(1-3)] show ?thesis
  proof cases
    case stay
    with assms(4) show ?thesis by (simp add: tick_last phys_eq_iff)
  next
    case off
    with assms(5) show ?thesis by (simp add: tick_last phys_eq_iff)
  next
    case (on d u)
    then have "pl_lastAppliedDirection (snd (plannerTick p i ?s)) = d"
      by (simp add: tick_last phys_eq_iff)
    with on g armed_after [OF on(4,3)] show ?thesis by auto
  qed
qed

text \<open>C22: an output that is on never changes straight to the other direction: it goes to idle, with
  the moment and the direction recorded; and unless the tick rejects for one of the immediate
  reasons (a malformed input, parameters, the safety gate, the watchdog, no valid request, a
  stale context, a clock that ran back), the minimum on-time has passed since it was switched
  on.\<close>

theorem planner_switch_off:
  assumes "classifyActuatorPlannerParameters p = APV_Valid" and "ordered_from pin_now t is"
    and "last_time pin_now t is \<le> pti_nowMonotonicMillis i"
    and "pl_lastAppliedDirection (plannerAfter p is) \<noteq> Dir_Idle"
    and "pl_lastAppliedDirection (snd (plannerTick p i (plannerAfter p is))) \<noteq>
         pl_lastAppliedDirection (plannerAfter p is)"
  shows "pl_lastAppliedDirection (snd (plannerTick p i (plannerAfter p is))) = Dir_Idle \<and>
    pl_deactivationAt (snd (plannerTick p i (plannerAfter p is))) =
      Some (pti_nowMonotonicMillis i) \<and>
    pl_deactivationDirection (snd (plannerTick p i (plannerAfter p is))) =
      Some (pl_lastAppliedDirection (plannerAfter p is)) \<and>
    (ptr_reason (fst (plannerTick p i (plannerAfter p is))) \<in> immediate_reasons \<or>
     (\<exists>u. pl_onPhaseStartedAt (plannerAfter p is) = Some u \<and>
          unat u + unat (par_minimumOnMillis p) \<le> unat (pti_nowMonotonicMillis i)))"
proof -
  let ?s = "plannerAfter p is" and ?t = "pti_nowMonotonicMillis i"
  note inv = planner_inv_later [OF reachable_inv [OF assms(1,2)] assms(3)]
  then obtain u where u: "pl_onPhaseStartedAt ?s = Some u" "u \<le> ?t"
    using assms(4) retro_phys(1) [of ?t ?s]
    by (auto simp: planner_inv_def tick_inv_def mid_inv_def known_output_def)
  from tick_edge [OF assms(1-3)] show ?thesis
  proof cases
    case stay
    with assms(5) show ?thesis by (simp add: tick_last phys_eq_iff)
  next
    case off
    with u set_off [OF off(1), of p ?t] show ?thesis
      by (auto simp: tick_last phys_eq_iff minimum_reached_iff)
  next
    case on
    with assms(4) show ?thesis by simp
  qed
qed

theorem planner_switch_on_witness:
  "pl_lastAppliedDirection (snd (plannerTick ex_params ex_start (plannerAfter ex_params []))) =
     Dir_Heating \<and>
   asg_status (pti_safetyGate ex_start) = ASG_Allowed"
  using planner_switch_on [OF ex_valid, of 0 "[]" ex_start]
  by (simp add: ex_first ex_on_sel)

theorem planner_switch_off_witness:
  "pl_lastAppliedDirection (snd (plannerTick ex_params ex_end
     (plannerAfter ex_params [PIn_Tick ex_start]))) = Dir_Idle \<and>
   pl_deactivationAt (snd (plannerTick ex_params ex_end
     (plannerAfter ex_params [PIn_Tick ex_start]))) = Some 510"
proof -
  have s: "plannerAfter ex_params [PIn_Tick ex_start] = ex_on" by (simp add: ex_first)
  have "pl_lastAppliedDirection (snd (plannerTick ex_params ex_end ex_on)) = Dir_Idle"
    by (simp add: tick_last ex_second ex_off_def)
  then show ?thesis
    using planner_switch_off [OF ex_valid, of 0 "[PIn_Tick ex_start]" ex_end]
    by (simp add: s ex_on_sel del: fold.simps fold_simps)
qed

section \<open>The outer fan\<close>

text \<open>In every reachable state the outer fan runs while the output is on, and after a
  switch-off it keeps running until the run-on is over, counted from the last switch-off: when
  the output is idle and the fan is off, the saturated end of the run-on is not after the last
  call.\<close>

theorem planner_outer_fan:
  assumes "classifyActuatorPlannerParameters p = APV_Valid" and "ordered_from pin_now t is"
  shows "(pl_lastAppliedDirection (plannerAfter p is) \<noteq> Dir_Idle \<longrightarrow>
            pl_outerFanActive (plannerAfter p is)) \<and>
    (\<forall>a. pl_lastAppliedDirection (plannerAfter p is) = Dir_Idle \<and>
         pl_deactivationAt (plannerAfter p is) = Some a \<and>
         \<not> pl_outerFanActive (plannerAfter p is) \<longrightarrow>
       saturatingDeadline a (par_outerFanPostRunMillis p) \<le> last_time pin_now t is)"
proof -
  have "fan_inv p (last_time pin_now t is) (plannerAfter p is)"
    using reachable_inv [OF assms] by (simp add: planner_inv_def)
  then show ?thesis by (auto simp: fan_inv_def)
qed

theorem planner_outer_fan_witness:
  "pl_outerFanActive (plannerAfter ex_params [PIn_Tick ex_start])"
  using planner_outer_fan [OF ex_valid, of 0 "[PIn_Tick ex_start]"] by (simp add: ex_first ex_on_sel)

section \<open>The watchdog\<close>

lemma tripped_evaluated:
  assumes "classifyActuatorPlannerParameters p = APV_Valid"
    and "asg_status (pti_safetyGate i) = ASG_Allowed"
    and "isStructurallyValidContext (pti_currentCanonicalContext i)"
    and "pti_temperatureControlledPhase i" and "pti_newEvaluation i = None"
    and "pl_latchedWatchdogFault s = None" and "pl_watchdogEpisodeStartedAt s = Some b"
    and "r = (case pl_lastNewRequestAt s of None \<Rightarrow> b | Some u \<Rightarrow> u)"
    and "r \<le> pti_nowMonotonicMillis i"
    and "par_requestWatchdogMillis p \<le> pti_nowMonotonicMillis i - r"
  shows "evaluated p i s = rejectToIdle p AAO_NoCandidate (pti_nowMonotonicMillis i) APS_Idle
    APR_StaleRequestWatchdog
    (s\<lparr>pl_latchedWatchdogFault := Some
       \<lparr>wfe_detectedAtMonotonicMillis = pti_nowMonotonicMillis i,
        wfe_lastObservedSequenceHighWatermarkBeforeFault =
          (case pl_sequenceHighWatermark s of None \<Rightarrow> 0 | Some h \<Rightarrow> h)\<rparr>\<rparr>)"
proof -
  have a: "admitted p i s = (\<lparr>pao_admissionOutcome = AAO_NoCandidate, pao_candidate = None\<rparr>, s)"
    using assms(5,7) by (simp add: admitted_def episodeStarted_def runPhaseA_def)
  have "runningWatchdogTripped p i s"
    using assms(4,7,9,10) unfolding runningWatchdogTripped_def deadlineReached_def assms(8)
    by (simp add: leD)
  with assms(1-3,6) show ?thesis
    by (simp add: evaluated_def a runPhaseB_def Let_def isKnownSafetyGateStatus_def)
qed

text \<open>When no request was admitted for the watchdog time in a temperature-controlled phase, an
  otherwise allowed tick without a new evaluation switches off at once, whatever the minimum
  on-time says, and latches the fault with its moment and the high-watermark of the sequence
  numbers.\<close>

theorem planner_watchdog_trips:
  assumes "classifyActuatorPlannerParameters p = APV_Valid"
    and "asg_status (pti_safetyGate i) = ASG_Allowed"
    and "isStructurallyValidContext (pti_currentCanonicalContext i)"
    and "pti_temperatureControlledPhase i" and "pti_newEvaluation i = None"
    and "pl_latchedWatchdogFault s = None" and "pl_watchdogEpisodeStartedAt s = Some b"
    and "r = (case pl_lastNewRequestAt s of None \<Rightarrow> b | Some u \<Rightarrow> u)"
    and "r \<le> pti_nowMonotonicMillis i"
    and "par_requestWatchdogMillis p \<le> pti_nowMonotonicMillis i - r"
  shows "ptr_reason (fst (plannerTick p i s)) = APR_StaleRequestWatchdog \<and>
    pl_lastAppliedDirection (snd (plannerTick p i s)) = Dir_Idle \<and>
    pl_latchedWatchdogFault (snd (plannerTick p i s)) = Some
      \<lparr>wfe_detectedAtMonotonicMillis = pti_nowMonotonicMillis i,
       wfe_lastObservedSequenceHighWatermarkBeforeFault =
         (case pl_sequenceHighWatermark s of None \<Rightarrow> 0 | Some h \<Rightarrow> h)\<rparr>"
  by (simp add: plannerTick_eq tripped_evaluated [OF assms] reject_idle)

theorem planner_watchdog_trips_witness:
  "pl_lastAppliedDirection (snd (plannerTick ex_params (ex_tick 5010 None) ex_on)) = Dir_Idle"
  using planner_watchdog_trips [of ex_params "ex_tick 5010 None" ex_on 10 10]
  by (simp add: ex_valid ex_tick_def ex_gate ex_on_sel)

text \<open>A latched fault stays, with its evidence, through every sequence of calls that does not
  contain the external reset, and the output is idle after every tick under it.\<close>

theorem planner_watchdog_latched:
  assumes "pl_latchedWatchdogFault s \<noteq> None" and "\<forall>i \<in> set is. \<forall>t. i \<noteq> PIn_ResetWatchdogFault t"
  shows "pl_latchedWatchdogFault (fold (planner_step p) is s) = pl_latchedWatchdogFault s \<and>
    pl_lastAppliedDirection (snd (plannerTick p i (fold (planner_step p) is s))) = Dir_Idle"
proof -
  have l: "pl_latchedWatchdogFault (fold (planner_step p) is s) = pl_latchedWatchdogFault s"
    using assms by (induction "is" arbitrary: s) (simp_all add: step_latched)
  with assms(1) gate_closed [of i "fold (planner_step p) is s" p] show ?thesis by simp
qed

theorem planner_watchdog_latched_witness:
  "pl_latchedWatchdogFault (fold (planner_step ex_params)
      [PIn_Tick ex_end, PIn_ForceStop 600 FES_ExistingEpisodeOpen]
      (ex_on\<lparr>pl_latchedWatchdogFault := Some ex_fault\<rparr>)) \<noteq> None"
  using planner_watchdog_latched [of "ex_on\<lparr>pl_latchedWatchdogFault := Some ex_fault\<rparr>"
      "[PIn_Tick ex_end, PIn_ForceStop 600 FES_ExistingEpisodeOpen]" ex_params ex_end]
  by simp

section \<open>Requests\<close>

lemma admitRequest_replay:
  "pl_sequenceHighWatermark s = Some h \<Longrightarrow> id_sequence (creq_identity q) \<le> h \<Longrightarrow>
     admitRequest p i dc q s =
       (\<lparr>pao_admissionOutcome = AAO_DuplicateOrOldSequence, pao_candidate = None\<rparr>, s)"
  by (simp add: admitRequest_def Let_def)

lemma evaluated_keeps_command:
  assumes "classifyActuatorPlannerParameters p = APV_Valid" and "planner_inv p t s"
    and "t \<le> pti_nowMonotonicMillis i" and "pao_candidate (fst (admitted p i s)) = None"
  shows "pl_acceptedCommand (snd (evaluated p i s)) \<in> {None, pl_acceptedCommand s}"
proof -
  let ?a = "snd (admitted p i s)"
  note ad = admitted_only [where p = p and i = i and s = s]
  from planner_inv_later [OF assms(2,3)] have j: "tick_inv p s"
    "\<not> hasRetrogradeTimeReference (pti_nowMonotonicMillis i) s" "commands_ok s"
    by (simp_all add: planner_inv_def)
  have 1: "tick_inv p ?a" using mid_inv_cong(3) [OF ad(1,2)] j(1) by blast
  have 2: "commands_ok ?a" using j(3) ad(3) by (simp add: commands_ok_def)
  show ?thesis
    unfolding evaluated_def using assms(1)
  proof (cases rule: runPhaseB_cases [where p = p and i = i and a = "fst (admitted p i s)"
        and s = ?a])
    case (reject outcome status reason s')
    then show "pl_acceptedCommand (snd (runPhaseB p i (fst (admitted p i s)) ?a)) \<in>
        {None, pl_acceptedCommand s}"
      by (simp add: reject_idle)
  next
    case (regular s')
    then have "s' = ?a" using assms(4) by simp
    with regular(1) regular_outcome [OF assms(1) 1 ad(5) [OF j(2)] 2] ad(3)
    show "pl_acceptedCommand (snd (runPhaseB p i (fst (admitted p i s)) ?a)) \<in>
        {None, pl_acceptedCommand s}"
      by (auto simp: outcome_ok_def)
  qed
qed

text \<open>A request is served at most once: in a reachable state, a well-formed evaluation whose
  request has a sequence number not above the high-watermark is answered
  \<open>DuplicateOrOldSequence\<close>; it does not become the accepted command and the high-watermark
  stays.\<close>

theorem planner_replay_rejected:
  assumes "classifyActuatorPlannerParameters p = APV_Valid" and "ordered_from pin_now t is"
    and "last_time pin_now t is \<le> pti_nowMonotonicMillis i"
    and "pti_newEvaluation i = Some e" and "isStructurallyValidEvaluation e"
    and "isStructurallyValidContext (pti_currentCanonicalContext i)"
    and "classifyActuatorDemand e \<noteq> ADC_NoValidRequest" and "tcr_controlRequest e = Some q"
    and "pl_sequenceHighWatermark (plannerAfter p is) = Some h"
    and "id_sequence (creq_identity q) \<le> h"
  shows "pao_admissionOutcome (fst (runPhaseA p i (plannerAfter p is))) =
      AAO_DuplicateOrOldSequence \<and>
    pl_acceptedCommand (snd (plannerTick p i (plannerAfter p is))) \<in>
      {None, pl_acceptedCommand (plannerAfter p is)} \<and>
    pl_sequenceHighWatermark (snd (plannerTick p i (plannerAfter p is))) = Some h"
proof -
  let ?s = "plannerAfter p is"
  have a: "runPhaseA p i s = (\<lparr>pao_admissionOutcome = AAO_DuplicateOrOldSequence,
      pao_candidate = None\<rparr>, s)" if "pl_sequenceHighWatermark s = Some h" for s
    using assms(4-8,10) that by (simp add: runPhaseA_def Let_def admitRequest_replay)
  note ad = a [of "episodeStarted i ?s", folded admitted_def] and e = episode_sel [of i ?s]
  have "pl_acceptedCommand (snd (evaluated p i ?s)) \<in> {None, pl_acceptedCommand ?s}"
    using ad assms(9) e
    by (intro evaluated_keeps_command [OF assms(1) reachable_inv [OF assms(1,2)] assms(3)]) simp
  moreover have "pl_sequenceHighWatermark (snd (evaluated p i ?s)) = Some h"
    using ad assms(9) e by (simp add: evaluated_def book_phaseB)
  ultimately show ?thesis
    using a [OF assms(9)] by (simp add: plannerTick_eq(1) book_fan [unfolded book_eq_iff])
qed

theorem planner_replay_rejected_witness:
  "pao_admissionOutcome (fst (runPhaseA ex_params
     (ex_tick 20 (Some (ex_demand 1 10 Dir_Heating (1 / 2))))
     (plannerAfter ex_params [PIn_Tick ex_start]))) = AAO_DuplicateOrOldSequence"
proof -
  have s: "plannerAfter ex_params [PIn_Tick ex_start] = ex_on" by (simp add: ex_first)
  show ?thesis
    using planner_replay_rejected [OF ex_valid, of 0 "[PIn_Tick ex_start]"
        "ex_tick 20 (Some (ex_demand 1 10 Dir_Heating (1 / 2)))"]
    by (simp add: s ex_on_sel ex_eval ex_gate ex_tick_sel ex_request del: fold.simps fold_simps)
qed

text \<open>Over every sequence of calls the high-watermark of the sequence numbers never falls and
  is never forgotten, a stop by force and a reset of the watchdog included.\<close>

theorem planner_watermark_monotone:
  assumes "pl_sequenceHighWatermark s = Some h"
  shows "\<exists>h'. pl_sequenceHighWatermark (fold (planner_step p) is s) = Some h' \<and> h \<le> h'"
proof -
  have "watermark_le (pl_sequenceHighWatermark s)
      (pl_sequenceHighWatermark (fold (planner_step p) is s))"
  proof (induction "is" arbitrary: s)
    case (Cons i "is")
    from watermark_le_trans [OF step_watermark [of s p i] Cons] show ?case by simp
  qed simp
  with assms show ?thesis by (simp add: watermark_le_def)
qed

theorem planner_watermark_monotone_witness:
  "\<exists>h. pl_sequenceHighWatermark (fold (planner_step ex_params)
      [PIn_ForceStop 20 FES_ExistingEpisodeOpen, PIn_Tick ex_end] ex_on) = Some h \<and> 1 \<le> h"
  using planner_watermark_monotone [of ex_on 1] ex_on_sel(6) by blast

section \<open>Feedback\<close>

text \<open>A tick without a new evaluation keeps the pending feedback on the same request and only
  makes it more severe, in every state that calls reach from the initial one: what the
  temperature control learns about a request is the worst that happened to it.\<close>

theorem planner_feedback_sharpens:
  assumes "ordered_from pin_now t is" and "pti_newEvaluation i = None"
    and "pl_pendingFeedback (plannerAfter p is) = Some f"
  shows "\<exists>f'. pl_pendingFeedback (snd (plannerTick p i (plannerAfter p is))) = Some f' \<and>
    pcr_sequence f' = pcr_sequence f \<and>
    feedbackSeverity (pcr_disposition f) \<le> feedbackSeverity (pcr_disposition f')"
proof -
  have "feedback_inv initialPlannerState" by (simp add: feedback_inv_def initialPlannerState_def)
  then have "feedback_inv (plannerAfter p is)"
    using planner_feedback.inv_run [OF _ assms(1)] by blast
  with sharper_evaluated [OF assms(2), of "plannerAfter p is" p] assms(3) show ?thesis
    by (simp add: sharper_def)
qed

theorem planner_feedback_sharpens_witness:
  "\<exists>f'. pl_pendingFeedback (snd (plannerTick ex_params ex_end
     (plannerAfter ex_params [PIn_Tick ex_start]))) = Some f' \<and> pcr_sequence f' = 1"
proof -
  have s: "plannerAfter ex_params [PIn_Tick ex_start] = ex_on" by (simp add: ex_first)
  show ?thesis
    using planner_feedback_sharpens [of 0 "[PIn_Tick ex_start]" ex_end ex_params]
    by (auto simp: s ex_on_sel simp del: fold.simps fold_simps)
qed

section \<open>The on-time and the start of a demand\<close>

text \<open>With valid parameters and a quote in the unit interval, the window that a demand opens
  starts at the given moment with an on-time of 0 or between the minimum on-time and the
  switching window; in particular the cast of the rounded on-time to an integer is always in
  range, in binary64 arithmetic with rounding to nearest.\<close>

theorem planner_window_sized:
  assumes "classifyActuatorPlannerParameters p = APV_Valid"
    and "isFiniteUnitQuote (cmd_timeQuote c)"
  shows "(\<exists>w. pl_activeWindow (startFreshWindow p c u s) = Some w \<and>
            win_startMonotonicMillis w = u \<and> win_direction w = cmd_direction c \<and>
            win_scheduledOnMillis w \<le> par_switchingWindowMillis p \<and>
            (win_scheduledOnMillis w = 0 \<or> par_minimumOnMillis p \<le> win_scheduledOnMillis w)) \<and>
    (fle (f64_of_u64 (par_minimumOnMillis p)) (requestedOnMillisExact p (cmd_timeQuote c)) \<longrightarrow>
       u64_of_f64 (roundHalfUp (requestedOnMillisExact p (cmd_timeQuote c))) \<noteq> None)"
proof -
  obtain w where w: "pl_activeWindow (startFreshWindow p c u s) = Some w"
    using startFreshWindow_shape(2) [of p c u s] by blast
  have "fresh_window p c u w" by (rule startFreshWindow_fresh [OF assms w])
  with w requestedOnMillis_cast [OF assms] show ?thesis
    by (auto simp: fresh_window_def window_sized_def)
qed

theorem planner_window_sized_witness:
  "\<exists>w. pl_activeWindow (startFreshWindow ex_params (ex_command Dir_Heating) 10 ex_admitted) =
     Some w \<and> win_scheduledOnMillis w \<le> 1000"
proof -
  have "isFiniteUnitQuote (cmd_timeQuote (ex_command Dir_Heating))"
    by (simp add: ex_command_def isFiniteUnitQuote_def)
  from planner_window_sized [OF ex_valid this, of 10 ex_admitted] show ?thesis
    by (auto simp: ex_params_def)
qed

lemma fresh_start:
  assumes v: "classifyActuatorPlannerParameters p = APV_Valid"
    and c: "isFiniteUnitQuote (cmd_timeQuote c)" "cmd_direction c \<in> {Dir_Heating, Dir_Cooling}"
    and q: "fle (f64_of_u64 (par_minimumOnMillis p)) (requestedOnMillisExact p (cmd_timeQuote c))"
    and s: "pl_activeWindow s = None" "pl_lastAppliedDirection s = Dir_Idle"
    and a: "armingAllowed p (cmd_direction c) t s"
    and d: "pl_deactivationDirection s \<in> {None, Some (cmd_direction c)}"
    and cc: "pl_counterCandidate s = None"
  shows "ptr_reason (fst (evaluateHeatingCoolingDemand p c outcome t s)) = APR_ScheduledWithinWindow"
    and "pl_lastAppliedDirection (snd (evaluateHeatingCoolingDemand p c outcome t s)) =
      cmd_direction c"
proof -
  let ?c = "resetCounterDirection s" and ?d = "cmd_direction c"
  obtain k n where k: "u64_of_f64 (roundHalfUp (requestedOnMillisExact p (cmd_timeQuote c))) = Some k"
    and n: "n = min k (par_switchingWindowMillis p)" "par_minimumOnMillis p \<le> n"
    using requestedOnMillis_cast [OF v c(1) q] by blast
  have ref: "referenceDirection s = Dir_Idle \<or> referenceDirection s = ?d"
    using s d by (auto simp: referenceDirection_def physicalDirection_def)
  have adv: "advanceWindow p c t s = s" using s by (simp add: advanceWindow_def)
  have cnt: "updateCounterDirection p c (referenceDirection s) t s = ?c"
    using ref cc by (auto simp: updateCounterDirection_def Let_def)
  have c0: "pl_activeWindow ?c = None" "pl_counterCandidate ?c = None"
    "pl_lastAppliedDirection ?c = Dir_Idle"
    using s by (simp_all add: resetCounterDirection_def)
  let ?w = "\<lparr>win_startMonotonicMillis = t, win_direction = ?d,
      win_sourceRequestSequence = cmd_sequence c,
      win_scheduledOnMillis = n,
      win_pulseStartAttempted = False, win_minimumPulseFromAccumulator = False,
      win_pulseStartedSuccessfully = False\<rparr>"
  let ?s = "?c\<lparr>pl_activeWindow := Some ?w\<rparr>"
  have w: "startFreshWindow p c t ?c = ?s"
    using q k n(1) by (simp add: startFreshWindow_def Let_def)
  have "0 < n"
    using n(2) valid_paramsD(2) [OF v] by (rule order_less_le_trans [rotated])
  then have nz: "n \<noteq> 0" "0 < n" by auto
  have arm: "armingAllowed p ?d t (?s\<lparr>pl_activeWindow := x\<rparr>)" for x
    using a arming_cong [of s "?s\<lparr>pl_activeWindow := x\<rparr>"]
    by (simp add: phys_def resetCounterDirection_def)
  have ap: "applyWindowPhysicalTick p t ?s =
      (\<lparr>wpt_active = True, wpt_reason = APR_ScheduledWithinWindow\<rparr>,
       ?s\<lparr>pl_activeWindow := Some (?w\<lparr>win_pulseStartAttempted := True,
                                      win_pulseStartedSuccessfully := True\<rparr>)\<rparr>)"
    using nz n(2) arm by (simp add: applyWindowPhysicalTick_def Let_def not_less)
  have e: "evaluateHeatingCoolingDemand p c outcome t s = windowTick p c outcome t ?s"
    using ref c0 by (auto simp: evaluateHeatingCoolingDemand_def Let_def adv cnt w
        opposingWindow_def createWindow_def)
  have "pl_lastAppliedDirection (mergeFeedbackForDemand c r s') = pl_lastAppliedDirection s'" for r s'
    by (rule fb_only_sel(5) [OF fb_only_merge(2)])
  with ap show "ptr_reason (fst (evaluateHeatingCoolingDemand p c outcome t s)) =
      APR_ScheduledWithinWindow"
    "pl_lastAppliedDirection (snd (evaluateHeatingCoolingDemand p c outcome t s)) = ?d"
    by (simp_all add: e windowTick_def plannedDirection_def Let_def)
qed

lemma admitted_counter: "pl_counterCandidate (snd (admitted p i s)) = pl_counterCandidate s"
proof -
  have "pl_counterCandidate (episodeStarted i s) = pl_counterCandidate s"
    by (simp add: episodeStarted_def)
  with runPhaseA_only [where p = p and i = i and s = "episodeStarted i s"] show ?thesis
    by (auto simp: admitted_def admission_only_def)
qed

lemma normal_demand:
  assumes "isStructurallyValidEvaluation e" and "classifyActuatorDemand e = ADC_NormalDemand"
    and "tcr_controlRequest e = Some q"
  shows "creq_direction q \<in> {Dir_Heating, Dir_Cooling}" "isFiniteUnitQuote (creq_timeQuote q)"
proof -
  have "tcr_status e = TCS_Demand"
    using assms(2) by (cases "tcr_status e") (simp_all add: classifyActuatorDemand_def split: if_splits)
  with assms(1,3) show "creq_direction q \<in> {Dir_Heating, Dir_Cooling}"
    "isFiniteUnitQuote (creq_timeQuote q)"
    by (auto simp: isStructurallyValidEvaluation_def evaluationMatchesStatus_def Let_def
        split: if_splits)
qed

text \<open>A demand is served at once: from an idle output without a window, when the direction is
  armed, was not the other one and no change of direction is being confirmed, an allowed tick
  with a fresh normal demand whose on-time reaches the minimum admits the request and switches
  the output to its direction in this very tick, with the fan on.\<close>

theorem planner_starts_demand:
  assumes "classifyActuatorPlannerParameters p = APV_Valid"
    and "asg_status (pti_safetyGate i) = ASG_Allowed"
    and "isStructurallyValidContext (pti_currentCanonicalContext i)"
    and "pl_latchedWatchdogFault s = None" and "pl_activeWindow s = None"
    and "pl_lastAppliedDirection s = Dir_Idle" and "pl_counterCandidate s = None"
    and "\<not> hasRetrogradeTimeReference (pti_nowMonotonicMillis i) s"
    and "pti_newEvaluation i = Some e" and "isStructurallyValidEvaluation e"
    and "classifyActuatorDemand e = ADC_NormalDemand" and "tcr_controlRequest e = Some q"
    and "\<forall>h. pl_sequenceHighWatermark s = Some h \<longrightarrow> h < id_sequence (creq_identity q)"
    and "\<not> deadlineReached (pti_nowMonotonicMillis i)
           (id_createdAtMonotonicMillis (creq_identity q)) (par_requestWatchdogMillis p)"
    and "contextsMatch (creq_context q) (pti_currentCanonicalContext i)"
    and "armingAllowed p (creq_direction q) (pti_nowMonotonicMillis i) s"
    and "pl_deactivationDirection s \<in> {None, Some (creq_direction q)}"
    and "fle (f64_of_u64 (par_minimumOnMillis p)) (requestedOnMillisExact p (creq_timeQuote q))"
  shows "ptr_reason (fst (plannerTick p i s)) = APR_ScheduledWithinWindow \<and>
    pao_admissionOutcome (fst (runPhaseA p i s)) = AAO_Accepted \<and>
    pl_lastAppliedDirection (snd (plannerTick p i s)) = creq_direction q \<and>
    creq_direction q \<noteq> Dir_Idle \<and> ptr_outerFanEnabled (fst (plannerTick p i s))"
proof -
  let ?t = "pti_nowMonotonicMillis i"
  let ?c = "\<lparr>cmd_sequence = id_sequence (creq_identity q), cmd_direction = creq_direction q,
      cmd_timeQuote = creq_timeQuote q, cmd_demandClass = ADC_NormalDemand,
      cmd_contextAtAcceptance = creq_context q\<rparr>"
  note d = normal_demand [OF assms(10-12)]
  let ?s = "snd (admitted p i s)"
  have A: "runPhaseA p i u = (\<lparr>pao_admissionOutcome = AAO_Accepted, pao_candidate = Some ?c\<rparr>,
      snd (runPhaseA p i u)) \<and> pl_lastNewRequestAt (snd (runPhaseA p i u)) = Some ?t"
    if "pl_sequenceHighWatermark u = pl_sequenceHighWatermark s" for u
    using that assms(2,3,9-15)
    by (cases "pl_sequenceHighWatermark s")
      (simp_all add: runPhaseA_def admitRequest_def openFeedbackEpisode_def Let_def leD
        isKnownSafetyGateStatus_def)
  have ad: "fst (admitted p i s) = \<lparr>pao_admissionOutcome = AAO_Accepted, pao_candidate = Some ?c\<rparr>"
    "pl_lastNewRequestAt ?s = Some ?t"
    using A [of "episodeStarted i s"] episode_sel(6) [of i s] unfolding admitted_def
    by (metis fst_conv, metis)
  note keep = admitted_only [where p = p and i = i and s = s]
  have wd: "\<not> runningWatchdogTripped p i ?s"
    using ad(2) valid_paramsD(8) [OF assms(1)]
    by (auto simp: runningWatchdogTripped_def deadlineReached_def split: option.split)
  let ?u = "takeCandidate ?c ?s"
  have B: "evaluated p i s = evaluateHeatingCoolingDemand p ?c AAO_Accepted ?t ?u"
    using wd keep(4,5) assms(1-4,8) d(1)
    by (auto simp: evaluated_def ad(1) runPhaseB_def Let_def isKnownSafetyGateStatus_def
        takeCandidate_sel)
  have u: "phys ?u = phys s" "pl_activeWindow ?u = None" "pl_counterCandidate ?u = None"
    using keep(1,2) assms(5,7) admitted_counter [where p = p and i = i and s = s]
    by (simp_all add: takeCandidate_sel) (simp add: takeCandidate_def Let_def)
  have e: "ptr_reason (fst (evaluated p i s)) = APR_ScheduledWithinWindow"
    "pl_lastAppliedDirection (snd (evaluated p i s)) = creq_direction q"
    using fresh_start [of p ?c ?u ?t AAO_Accepted] assms(1,6,16-18) d u arming_cong [OF u(1)]
    by (simp_all add: B phys_eq_iff)
  have "pl_outerFanActive (snd (plannerTick p i s))"
    using e(2) d(1) by (auto simp: plannerTick_eq(1) updateFanState_def Let_def)
  moreover have "pao_admissionOutcome (fst (runPhaseA p i s)) = AAO_Accepted"
    using A [of s] by (metis fst_conv PhaseAOutcome.select_convs(1))
  ultimately show ?thesis using e d(1) by (auto simp: plannerTick_eq)
qed

theorem planner_starts_demand_witness:
  "pl_lastAppliedDirection (snd (plannerTick ex_params ex_start initialPlannerState)) = Dir_Heating"
proof -
  have s: "pl_latchedWatchdogFault initialPlannerState = None"
    "pl_activeWindow initialPlannerState = None" "pl_counterCandidate initialPlannerState = None"
    "pl_sequenceHighWatermark initialPlannerState = None"
    "pl_deactivationDirection initialPlannerState = None"
    "\<not> hasRetrogradeTimeReference 10 initialPlannerState"
    "armingAllowed ex_params d 10 initialPlannerState" for d
    by (simp_all add: initialPlannerState_def hasRetrogradeTimeReference_def retrograde_def
        armingAllowed_def)
  have q: "fle (f64_of_u64 (par_minimumOnMillis ex_params))
      (requestedOnMillisExact ex_params (F64 (1 / 2)))"
    by (simp add: ex_params_def requestedOnMillisExact_def fclamp_def)
  have "pti_newEvaluation ex_start = Some (ex_demand 1 10 Dir_Heating (1 / 2))"
    by (simp add: ex_start_def)
  from planner_starts_demand [OF ex_valid _ _ s(1,2) ex_initial s(3) _ this ex_eval ex_request]
  show ?thesis using s q by (simp add: ex_gate deadlineReached_def)
qed

section \<open>The stop by force\<close>

text \<open>A stop by force switches off whatever the state is: the result and the state are idle,
  the window, the command and the subject of the feedback are gone and the watchdog episode is
  over, while the latched fault and the high-watermark of the sequence numbers stay; an output
  that was on leaves the outer fan running or its run-on already over.\<close>

theorem planner_force_stop:
  "ptr_status (fst (forceStop p t e s)) = APS_Idle \<and>
   ptr_appliedDirection (fst (forceStop p t e s)) = Dir_Idle \<and>
   pl_lastAppliedDirection (snd (forceStop p t e s)) = Dir_Idle \<and>
   pl_activeWindow (snd (forceStop p t e s)) = None \<and>
   pl_acceptedCommand (snd (forceStop p t e s)) = None \<and>
   pl_feedbackSubject (snd (forceStop p t e s)) = None \<and>
   pl_watchdogEpisodeStartedAt (snd (forceStop p t e s)) = None \<and>
   pl_latchedWatchdogFault (snd (forceStop p t e s)) = pl_latchedWatchdogFault s \<and>
   pl_sequenceHighWatermark (snd (forceStop p t e s)) = pl_sequenceHighWatermark s \<and>
   (pl_lastAppliedDirection s \<noteq> Dir_Idle \<and> \<not> pl_outerFanActive (snd (forceStop p t e s)) \<longrightarrow>
      saturatingDeadline t (par_outerFanPostRunMillis p) \<le> t)"
proof -
  have f: "pl_outerFanActive (stopped p t e s) \<and>
      (\<exists>d. pl_outerFanTeardownDeadline (stopped p t e s) = Some d \<and>
         saturatingDeadline t (par_outerFanPostRunMillis p) \<le> d)"
    if "pl_lastAppliedDirection s \<noteq> Dir_Idle"
    using stopped_sel(1) [where p = p and t = t and e = e and s = s] set_off [OF that, of p t]
      retainLater_ge by (simp add: phys_eq_iff)
  have "pl_watchdogEpisodeStartedAt (stopped p t e s) = None"
    by (simp add: stopped_def Let_def mergeFeedback_def split: option.split)
  moreover have "saturatingDeadline t (par_outerFanPostRunMillis p) \<le> t"
    if "pl_lastAppliedDirection s \<noteq> Dir_Idle" "\<not> pl_outerFanActive (snd (forceStop p t e s))"
    using f [OF that(1)] that(2) stopped_sel(1) [where p = p and t = t and e = e and s = s]
    by (auto simp: forceStop_eq(1) updateFanState_def Let_def phys_eq_iff deadlineReached_def
        split: if_splits)
  ultimately show ?thesis
    by (simp add: forceStop_idle forceStop_eq(2))
      (simp add: forceStop_eq(1) stopped_sel book_fan [unfolded book_eq_iff])
qed

theorem planner_force_stop_witness:
  "pl_lastAppliedDirection ex_on = Dir_Heating \<and>
   pl_lastAppliedDirection (snd (forceStop ex_params 20 FES_ExistingEpisodeOpen ex_on)) = Dir_Idle"
  using planner_force_stop [of ex_params 20 FES_ExistingEpisodeOpen ex_on] by (simp add: ex_on_sel)

end
