(* ===== verification/ActuatorOutputs.thy ===== *)
theory ActuatorOutputs
  imports ActuatorPlanner
begin

text \<open>
  From the result of the planner to the pins: the driver that applies a result to the sinks
  (\<open>actuator_plan_sink_driver.cpp\<close>), the bridge with a shared enable
  (\<open>shared_enable_bridge_sink.cpp\<close>), and the adapters of the ESP-IDF for one output and for the
  bridge (\<open>esp_idf_binary_output_sink.cpp\<close>, \<open>esp_idf_shared_enable_bridge.cpp\<close>).

  A sink is an object behind a reference: the model names it by an identity of type \<open>'o\<close>, and the
  state of all sinks is one world \<open>'w\<close>. A virtual call \<open>sink.setEnabled(b)\<close> is a parameter
  \<open>setEnabled\<close> of the operations that make it, applied to the identity, the argument and the world;
  it returns what the call returns and the new world. The contract that the header of
  \<open>IBinaryOutputSink\<close> states is the locale \<open>binary_outputs\<close>.
\<close>

section \<open>The contract of binary outputs\<close>

text \<open>
  \<open>true\<close> is returned only when the command was carried out; switching off never switches on; a
  call concerns its own output only.
\<close>

locale binary_outputs =
  fixes setEnabled :: "'o \<Rightarrow> bool \<Rightarrow> 'w \<Rightarrow> bool \<times> 'w"
    and isOn :: "'o \<Rightarrow> 'w \<Rightarrow> bool"
  assumes accepted: "setEnabled x b w = (True, w') \<Longrightarrow> isOn x w' = b"
    and off_keeps_off: "setEnabled x False w = (r, w') \<Longrightarrow> isOn x w' \<Longrightarrow> isOn x w"
    and frame: "setEnabled x b w = (r, w') \<Longrightarrow> y \<noteq> x \<Longrightarrow> isOn y w' = isOn y w"

section \<open>The bridge with a shared enable\<close>

datatype BridgeState = BS_NotStarted | BS_Ready | BS_Faulted

record 'o SharedEnableBridgeSink =
  br_forwardLeg :: 'o
  br_reverseLeg :: 'o
  br_enable :: 'o
  br_state :: BridgeState
  br_forwardOn :: bool
  br_reverseOn :: bool

definition newBridge :: "'o \<Rightarrow> 'o \<Rightarrow> 'o \<Rightarrow> 'o SharedEnableBridgeSink" where
  "newBridge forwardLeg reverseLeg enable =
     \<lparr>br_forwardLeg = forwardLeg, br_reverseLeg = reverseLeg, br_enable = enable,
      br_state = BS_NotStarted, br_forwardOn = False, br_reverseOn = False\<rparr>"

definition allOff ::
  "('o \<Rightarrow> bool \<Rightarrow> 'w \<Rightarrow> bool \<times> 'w) \<Rightarrow> 'o SharedEnableBridgeSink \<Rightarrow> 'w \<Rightarrow> bool \<times> 'w" where
  "allOff setEnabled b w =
     (let (enableOff, w) = setEnabled (br_enable b) False w;
          (forwardOff, w) = setEnabled (br_forwardLeg b) False w;
          (reverseOff, w) = setEnabled (br_reverseLeg b) False w in
      (enableOff \<and> forwardOff \<and> reverseOff, w))"

definition shutdown ::
  "('o \<Rightarrow> bool \<Rightarrow> 'w \<Rightarrow> bool \<times> 'w) \<Rightarrow> 'o SharedEnableBridgeSink \<Rightarrow> 'w \<Rightarrow>
     'o SharedEnableBridgeSink \<times> 'w" where
  "shutdown setEnabled b w =
     (let (_, w) = allOff setEnabled b w in
      (b\<lparr>br_forwardOn := False, br_reverseOn := False, br_state := BS_Faulted\<rparr>, w))"

definition beginBridge ::
  "('o \<Rightarrow> bool \<Rightarrow> 'w \<Rightarrow> bool \<times> 'w) \<Rightarrow> 'o SharedEnableBridgeSink \<Rightarrow> 'w \<Rightarrow>
     bool \<times> 'o SharedEnableBridgeSink \<times> 'w" where
  "beginBridge setEnabled b w =
     (if br_state b \<noteq> BS_NotStarted then (br_state b = BS_Ready, b, w)
      else let (off, w) = allOff setEnabled b w in
      if \<not> off then (False, shutdown setEnabled b w)
      else (True, b\<lparr>br_state := BS_Ready\<rparr>, w))"

text \<open>The leg that \<open>setLeg\<close> gets by reference, with its flag and the flag of the other leg.\<close>

datatype BridgeLeg = ForwardLeg | ReverseLeg

definition legOutput :: "BridgeLeg \<Rightarrow> 'o SharedEnableBridgeSink \<Rightarrow> 'o" where
  "legOutput l b = (case l of ForwardLeg \<Rightarrow> br_forwardLeg b | ReverseLeg \<Rightarrow> br_reverseLeg b)"

definition legOn :: "BridgeLeg \<Rightarrow> 'o SharedEnableBridgeSink \<Rightarrow> bool" where
  "legOn l b = (case l of ForwardLeg \<Rightarrow> br_forwardOn b | ReverseLeg \<Rightarrow> br_reverseOn b)"

definition otherLegOn :: "BridgeLeg \<Rightarrow> 'o SharedEnableBridgeSink \<Rightarrow> bool" where
  "otherLegOn l b = (case l of ForwardLeg \<Rightarrow> br_reverseOn b | ReverseLeg \<Rightarrow> br_forwardOn b)"

definition markLeg :: "BridgeLeg \<Rightarrow> bool \<Rightarrow> 'o SharedEnableBridgeSink \<Rightarrow> 'o SharedEnableBridgeSink"
  where
  "markLeg l v b =
     (case l of ForwardLeg \<Rightarrow> b\<lparr>br_forwardOn := v\<rparr> | ReverseLeg \<Rightarrow> b\<lparr>br_reverseOn := v\<rparr>)"

definition setLeg ::
  "('o \<Rightarrow> bool \<Rightarrow> 'w \<Rightarrow> bool \<times> 'w) \<Rightarrow> BridgeLeg \<Rightarrow> bool \<Rightarrow> 'o SharedEnableBridgeSink \<Rightarrow> 'w \<Rightarrow>
     'o SharedEnableBridgeSink \<times> 'w" where
  "setLeg setEnabled l enabled b w =
     (case br_state b of
        BS_NotStarted \<Rightarrow> (b, w)
      | BS_Faulted \<Rightarrow> if \<not> enabled then shutdown setEnabled b w else (b, w)
      | BS_Ready \<Rightarrow>
          if enabled then
            (if otherLegOn l b then shutdown setEnabled b w
             else if legOn l b then (b, w)
             else let (legAccepted, w) = setEnabled (legOutput l b) True w in
             if \<not> legAccepted then shutdown setEnabled b w
             else let b = markLeg l True b;
                      (enableAccepted, w) = setEnabled (br_enable b) True w in
             if \<not> enableAccepted then shutdown setEnabled b w
             else (b, w))
          else if \<not> legOn l b then (b, w)
          else let (enableOff, w) = setEnabled (br_enable b) False w;
                   (legOff, w) = setEnabled (legOutput l b) False w;
                   b = markLeg l False b in
          if \<not> enableOff \<or> \<not> legOff then shutdown setEnabled b w
          else (b, w))"

definition setForward ::
  "('o \<Rightarrow> bool \<Rightarrow> 'w \<Rightarrow> bool \<times> 'w) \<Rightarrow> bool \<Rightarrow> 'o SharedEnableBridgeSink \<Rightarrow> 'w \<Rightarrow>
     'o SharedEnableBridgeSink \<times> 'w" where
  "setForward setEnabled enabled b w = setLeg setEnabled ForwardLeg enabled b w"

definition setReverse ::
  "('o \<Rightarrow> bool \<Rightarrow> 'w \<Rightarrow> bool \<times> 'w) \<Rightarrow> bool \<Rightarrow> 'o SharedEnableBridgeSink \<Rightarrow> 'w \<Rightarrow>
     'o SharedEnableBridgeSink \<times> 'w" where
  "setReverse setEnabled enabled b w = setLeg setEnabled ReverseLeg enabled b w"

section \<open>The driver of a planner result\<close>

text \<open>
  The driver reaches the Peltier element through \<open>IBidirectionalActuatorSink\<close>: two virtual calls
  \<open>forward\<close> and \<open>reverse\<close> on a world \<open>'x\<close> that holds the bridge and the outputs.
\<close>

definition driverKnownDirection :: "AbstractControlDirection \<Rightarrow> bool" where
  "driverKnownDirection d =
     (case d of Dir_Heating \<Rightarrow> True | Dir_Cooling \<Rightarrow> True | Dir_Idle \<Rightarrow> True | Dir_Unknown \<Rightarrow> True
      | Dir_other _ \<Rightarrow> False)"

definition peltierOff :: "(bool \<Rightarrow> 'x \<Rightarrow> 'x) \<Rightarrow> (bool \<Rightarrow> 'x \<Rightarrow> 'x) \<Rightarrow> 'x \<Rightarrow> 'x" where
  "peltierOff forward reverse x = reverse False (forward False x)"

definition applyPlanResult ::
  "(bool \<Rightarrow> 'x \<Rightarrow> 'x) \<Rightarrow> (bool \<Rightarrow> 'x \<Rightarrow> 'x) \<Rightarrow> (bool \<Rightarrow> 'x \<Rightarrow> bool \<times> 'x) \<Rightarrow> (bool \<Rightarrow> 'x \<Rightarrow> bool \<times> 'x) \<Rightarrow>
     ActuatorPlanTickResult \<Rightarrow> 'x \<Rightarrow> 'x" where
  "applyPlanResult forward reverse outerFan innerFan result x =
     (if \<not> driverKnownDirection (ptr_appliedDirection result) then
        snd (innerFan False (snd (outerFan False (peltierOff forward reverse x))))
      else case ptr_appliedDirection result of
        Dir_Heating \<Rightarrow>
          (let x = reverse False x;
               (fanAccepted, x) = outerFan True x in
           if \<not> fanAccepted then
             snd (innerFan (ptr_innerFanEnabled result) (peltierOff forward reverse x))
           else snd (innerFan (ptr_innerFanEnabled result) (forward True x)))
      | Dir_Cooling \<Rightarrow>
          (let x = forward False x;
               (fanAccepted, x) = outerFan True x in
           if \<not> fanAccepted then
             snd (innerFan (ptr_innerFanEnabled result) (peltierOff forward reverse x))
           else snd (innerFan (ptr_innerFanEnabled result) (reverse True x)))
      | Dir_Idle \<Rightarrow>
          snd (innerFan (ptr_innerFanEnabled result)
            (snd (outerFan (ptr_outerFanEnabled result) (peltierOff forward reverse x))))
      | _ \<Rightarrow> snd (innerFan False (snd (outerFan False (peltierOff forward reverse x)))))"

text \<open>The driver on the bridge: the world is the bridge with the outputs.\<close>

definition onOutputs ::
  "('o \<Rightarrow> bool \<Rightarrow> 'w \<Rightarrow> bool \<times> 'w) \<Rightarrow> 'o \<Rightarrow> bool \<Rightarrow> 'o SharedEnableBridgeSink \<times> 'w \<Rightarrow>
     bool \<times> 'o SharedEnableBridgeSink \<times> 'w" where
  "onOutputs setEnabled x v c = (let (r, w) = setEnabled x v (snd c) in (r, fst c, w))"

definition driveBridge ::
  "('o \<Rightarrow> bool \<Rightarrow> 'w \<Rightarrow> bool \<times> 'w) \<Rightarrow> 'o \<Rightarrow> 'o \<Rightarrow> ActuatorPlanTickResult \<Rightarrow>
     'o SharedEnableBridgeSink \<times> 'w \<Rightarrow> 'o SharedEnableBridgeSink \<times> 'w" where
  "driveBridge setEnabled outerFan innerFan result =
     applyPlanResult (\<lambda>v c. setForward setEnabled v (fst c) (snd c))
       (\<lambda>v c. setReverse setEnabled v (fst c) (snd c))
       (onOutputs setEnabled outerFan) (onOutputs setEnabled innerFan) result"

section \<open>The adapter of one output\<close>

text \<open>
  The GPIO driver of the ESP-IDF is a parameter: \<open>gpio_set_level\<close> and \<open>gpio_config\<close> on a hardware
  state \<open>'h\<close>, each returning whether it answered \<open>ESP_OK\<close>. Pin and polarity of an output are fixed
  by its constructor; the world holds the state of each adapter and the hardware.
\<close>

datatype OutputPolarity = OP_Unconfirmed | OP_ActiveHigh | OP_ActiveLow | OP_other u8

datatype BinaryOutputBeginResult = BOB_PolarityUnconfirmed | BOB_Ready | BOB_Failed

datatype EspOutputState = ES_NotStarted | ES_Unconfirmed | ES_Ready | ES_Faulted

record gpio_config_t =
  gc_pinBitMask :: u64
  gc_outputMode :: bool
  gc_pullUp :: bool
  gc_pullDown :: bool
  gc_interrupt :: bool

record 'h GpioDriver =
  gpio_set_level :: "int \<Rightarrow> u32 \<Rightarrow> 'h \<Rightarrow> bool \<times> 'h"
  gpio_config :: "gpio_config_t \<Rightarrow> 'h \<Rightarrow> bool \<times> 'h"

record ('o, 'h) EspWorld =
  ew_state :: "'o \<Rightarrow> EspOutputState"
  ew_hardware :: 'h

definition gpioNumberInMaskRange :: "int \<Rightarrow> bool" where
  "gpioNumberInMaskRange n \<longleftrightarrow> 0 \<le> n \<and> n \<le> 63"

definition inactiveLevel :: "OutputPolarity \<Rightarrow> u32" where
  "inactiveLevel polarity = (if polarity = OP_ActiveHigh then 0 else 1)"

definition levelFor :: "OutputPolarity \<Rightarrow> bool \<Rightarrow> u32" where
  "levelFor polarity enabled =
     (if enabled then 1 - inactiveLevel polarity else inactiveLevel polarity)"

definition knownPolarity :: "OutputPolarity \<Rightarrow> bool" where
  "knownPolarity polarity \<longleftrightarrow> polarity = OP_ActiveHigh \<or> polarity = OP_ActiveLow"

definition espState :: "'o \<Rightarrow> EspOutputState \<Rightarrow> ('o, 'h) EspWorld \<Rightarrow> ('o, 'h) EspWorld" where
  "espState x st w = w\<lparr>ew_state := (ew_state w)(x := st)\<rparr>"

definition espBegin ::
  "'h GpioDriver \<Rightarrow> ('o \<Rightarrow> int) \<Rightarrow> ('o \<Rightarrow> OutputPolarity) \<Rightarrow> 'o \<Rightarrow> ('o, 'h) EspWorld \<Rightarrow>
     BinaryOutputBeginResult \<times> ('o, 'h) EspWorld" where
  "espBegin gpio pinOf polarityOf x w =
     (if ew_state w x \<noteq> ES_NotStarted then
        (if ew_state w x = ES_Ready then BOB_Ready
         else if ew_state w x = ES_Unconfirmed then BOB_PolarityUnconfirmed
         else BOB_Failed, w)
      else if polarityOf x = OP_Unconfirmed then
        (BOB_PolarityUnconfirmed, espState x ES_Unconfirmed w)
      else if \<not> knownPolarity (polarityOf x) then (BOB_Failed, espState x ES_Faulted w)
      else if \<not> gpioNumberInMaskRange (pinOf x) then (BOB_Failed, espState x ES_Faulted w)
      else let (set, h) = gpio_set_level gpio (pinOf x) (inactiveLevel (polarityOf x))
                            (ew_hardware w);
               w = w\<lparr>ew_hardware := h\<rparr> in
      if \<not> set then (BOB_Failed, espState x ES_Faulted w)
      else let (configured, h) = gpio_config gpio
                 \<lparr>gc_pinBitMask = push_bit (nat (pinOf x)) 1, gc_outputMode = True,
                  gc_pullUp = False, gc_pullDown = False, gc_interrupt = False\<rparr>
                 (ew_hardware w);
               w = w\<lparr>ew_hardware := h\<rparr> in
      if \<not> configured then (BOB_Failed, espState x ES_Faulted w)
      else (BOB_Ready, espState x ES_Ready w))"

definition driveInactiveBestEffort ::
  "'h GpioDriver \<Rightarrow> ('o \<Rightarrow> int) \<Rightarrow> ('o \<Rightarrow> OutputPolarity) \<Rightarrow> 'o \<Rightarrow> ('o, 'h) EspWorld \<Rightarrow>
     ('o, 'h) EspWorld" where
  "driveInactiveBestEffort gpio pinOf polarityOf x w =
     (if knownPolarity (polarityOf x) \<and> gpioNumberInMaskRange (pinOf x) then
        w\<lparr>ew_hardware :=
            snd (gpio_set_level gpio (pinOf x) (inactiveLevel (polarityOf x)) (ew_hardware w))\<rparr>
      else w)"

definition espSetEnabled ::
  "'h GpioDriver \<Rightarrow> ('o \<Rightarrow> int) \<Rightarrow> ('o \<Rightarrow> OutputPolarity) \<Rightarrow> 'o \<Rightarrow> bool \<Rightarrow> ('o, 'h) EspWorld \<Rightarrow>
     bool \<times> ('o, 'h) EspWorld" where
  "espSetEnabled gpio pinOf polarityOf x enabled w =
     (if ew_state w x = ES_Ready then
        (let (set, h) = gpio_set_level gpio (pinOf x) (levelFor (polarityOf x) enabled)
                          (ew_hardware w);
             w = w\<lparr>ew_hardware := h\<rparr> in
         if \<not> set then
           (False, driveInactiveBestEffort gpio pinOf polarityOf x (espState x ES_Faulted w))
         else (True, w))
      else if ew_state w x = ES_Faulted \<and> \<not> enabled then
        (False, driveInactiveBestEffort gpio pinOf polarityOf x w)
      else (False, w))"

section \<open>The adapter of the bridge\<close>

definition espBridgeBegin ::
  "'h GpioDriver \<Rightarrow> ('o \<Rightarrow> int) \<Rightarrow> ('o \<Rightarrow> OutputPolarity) \<Rightarrow> 'o SharedEnableBridgeSink \<Rightarrow>
     ('o, 'h) EspWorld \<Rightarrow> bool \<times> 'o SharedEnableBridgeSink \<times> ('o, 'h) EspWorld" where
  "espBridgeBegin gpio pinOf polarityOf b w =
     (let start = espBegin gpio pinOf polarityOf;
          setEnabled = espSetEnabled gpio pinOf polarityOf;
          (enableResult, w) = start (br_enable b) w;
          (forwardResult, w) = start (br_forwardLeg b) w;
          (reverseResult, w) = start (br_reverseLeg b) w in
      if enableResult = BOB_Ready \<and> forwardResult = BOB_Ready \<and> reverseResult = BOB_Ready then
        beginBridge setEnabled b w
      else let w = snd (setEnabled (br_enable b) False w);
               w = snd (setEnabled (br_forwardLeg b) False w);
               w = snd (setEnabled (br_reverseLeg b) False w) in
      (False, b, w))"

definition espBridgeForward ::
  "'h GpioDriver \<Rightarrow> ('o \<Rightarrow> int) \<Rightarrow> ('o \<Rightarrow> OutputPolarity) \<Rightarrow> bool \<Rightarrow> 'o SharedEnableBridgeSink \<Rightarrow>
     ('o, 'h) EspWorld \<Rightarrow> 'o SharedEnableBridgeSink \<times> ('o, 'h) EspWorld" where
  "espBridgeForward gpio pinOf polarityOf enabled b w =
     setForward (espSetEnabled gpio pinOf polarityOf) enabled b w"

definition espBridgeReverse ::
  "'h GpioDriver \<Rightarrow> ('o \<Rightarrow> int) \<Rightarrow> ('o \<Rightarrow> OutputPolarity) \<Rightarrow> bool \<Rightarrow> 'o SharedEnableBridgeSink \<Rightarrow>
     ('o, 'h) EspWorld \<Rightarrow> 'o SharedEnableBridgeSink \<times> ('o, 'h) EspWorld" where
  "espBridgeReverse gpio pinOf polarityOf enabled b w =
     setReverse (espSetEnabled gpio pinOf polarityOf) enabled b w"

section \<open>The mock of one output\<close>

text \<open>The mock of the test support, with a journal of at most 256 entries.\<close>

record MockBinaryOutputSink =
  mock_enabled :: bool
  mock_accepting :: bool
  mock_rejectedCommandCount :: nat
  mock_journal :: "bool list"

definition newMock :: MockBinaryOutputSink where
  "newMock =
     \<lparr>mock_enabled = False, mock_accepting = True, mock_rejectedCommandCount = 0,
      mock_journal = []\<rparr>"

definition mockSetEnabled :: "bool \<Rightarrow> MockBinaryOutputSink \<Rightarrow> bool \<times> MockBinaryOutputSink" where
  "mockSetEnabled enabled m =
     (if \<not> mock_accepting m then
        (False, m\<lparr>mock_rejectedCommandCount := mock_rejectedCommandCount m + 1\<rparr>)
      else let journal = (if 256 \<le> length (mock_journal m) then tl (mock_journal m)
                          else mock_journal m) in
      (True, m\<lparr>mock_enabled := enabled, mock_journal := journal @ [enabled]\<rparr>))"

definition mockWorldSetEnabled ::
  "'o \<Rightarrow> bool \<Rightarrow> ('o \<Rightarrow> MockBinaryOutputSink) \<Rightarrow> bool \<times> ('o \<Rightarrow> MockBinaryOutputSink)" where
  "mockWorldSetEnabled x enabled w =
     (let (r, m) = mockSetEnabled enabled (w x) in (r, w(x := m)))"

end
