(* ===== verification/OutputsProofs.thy ===== *)
theory OutputsProofs
  imports ActuatorOutputs
begin

text \<open>
  Lemmas on the outputs, in the locale of their contract: a bridge call keeps \<open>bridge_inv\<close>
  (\<open>setLeg_done\<close>), the driver leaves a ready bridge on only in the direction of the result and
  under a running outer fan (\<open>driveBridge_done\<close>), and the outputs are the ones asked for when every
  command is accepted (\<open>driveBridge_accepted\<close>). The mock and the adapter of the ESP-IDF keep the
  contract.
\<close>

section \<open>The bridge\<close>

definition outputs_distinct :: "'o SharedEnableBridgeSink \<Rightarrow> bool" where
  "outputs_distinct b \<longleftrightarrow>
     br_forwardLeg b \<noteq> br_reverseLeg b \<and> br_forwardLeg b \<noteq> br_enable b \<and>
     br_reverseLeg b \<noteq> br_enable b"

text \<open>
  A ready bridge knows its outputs, and the enable is on exactly when one leg is. A faulted one
  knows nothing; but both legs are never on.
\<close>

definition bridge_inv ::
  "('o \<Rightarrow> 'w \<Rightarrow> bool) \<Rightarrow> 'o SharedEnableBridgeSink \<Rightarrow> 'w \<Rightarrow> bool" where
  "bridge_inv isOn b w \<longleftrightarrow>
     outputs_distinct b \<and> br_state b \<noteq> BS_NotStarted \<and>
     \<not> (isOn (br_forwardLeg b) w \<and> isOn (br_reverseLeg b) w) \<and>
     (br_state b = BS_Ready \<longrightarrow>
        isOn (br_forwardLeg b) w = br_forwardOn b \<and> isOn (br_reverseLeg b) w = br_reverseOn b \<and>
        isOn (br_enable b) w = (br_forwardOn b \<or> br_reverseOn b))"

definition same_outputs :: "'o SharedEnableBridgeSink \<Rightarrow> 'o SharedEnableBridgeSink \<Rightarrow> bool" where
  "same_outputs b b' \<longleftrightarrow>
     br_forwardLeg b' = br_forwardLeg b \<and> br_reverseLeg b' = br_reverseLeg b \<and>
     br_enable b' = br_enable b"

lemma markLeg_sel [simp]:
  "br_state (markLeg l v b) = br_state b" "br_enable (markLeg l v b) = br_enable b"
  "br_forwardLeg (markLeg l v b) = br_forwardLeg b"
  "br_reverseLeg (markLeg l v b) = br_reverseLeg b"
  by (cases l; simp add: markLeg_def)+

definition otherOutput :: "BridgeLeg \<Rightarrow> 'o SharedEnableBridgeSink \<Rightarrow> 'o" where
  "otherOutput l b = (case l of ForwardLeg \<Rightarrow> br_reverseLeg b | ReverseLeg \<Rightarrow> br_forwardLeg b)"

lemma bridge_inv_leg:
  "bridge_inv isOn b w \<longleftrightarrow>
     legOutput l b \<noteq> otherOutput l b \<and> legOutput l b \<noteq> br_enable b \<and>
     otherOutput l b \<noteq> br_enable b \<and> br_state b \<noteq> BS_NotStarted \<and>
     \<not> (isOn (legOutput l b) w \<and> isOn (otherOutput l b) w) \<and>
     (br_state b = BS_Ready \<longrightarrow>
        isOn (legOutput l b) w = legOn l b \<and> isOn (otherOutput l b) w = otherLegOn l b \<and>
        isOn (br_enable b) w = (legOn l b \<or> otherLegOn l b))"
  by (cases l) (auto simp: bridge_inv_def outputs_distinct_def legOutput_def otherOutput_def
      legOn_def otherLegOn_def)

lemma same_outputs_refl [simp]: "same_outputs b b" "same_outputs b (markLeg l v b)"
  by (simp_all add: same_outputs_def)

lemma same_outputs_trans: "same_outputs a b \<Longrightarrow> same_outputs b c \<Longrightarrow> same_outputs a c"
  by (simp add: same_outputs_def)

lemma same_outputs_leg:
  "same_outputs b b' \<Longrightarrow> legOutput l b' = legOutput l b \<and> otherOutput l b' = otherOutput l b"
  by (cases l) (simp_all add: same_outputs_def legOutput_def otherOutput_def)

lemma markLeg_on [simp]:
  "legOn l (markLeg l v b) = v" "otherLegOn l (markLeg l v b) = otherLegOn l b"
  "legOutput l' (markLeg l v b) = legOutput l' b"
  "otherOutput l' (markLeg l v b) = otherOutput l' b"
  by (simp_all add: legOn_def otherLegOn_def markLeg_def legOutput_def otherOutput_def
      split: BridgeLeg.split)

text \<open>
  What a call on a leg does to a started bridge: it keeps the invariant and all other outputs; and
  a bridge that is ready afterwards has the leg as commanded.
\<close>

definition leg_done ::
  "('o \<Rightarrow> 'w \<Rightarrow> bool) \<Rightarrow> BridgeLeg \<Rightarrow> bool \<Rightarrow> 'o SharedEnableBridgeSink \<Rightarrow> 'w \<Rightarrow> 'o SharedEnableBridgeSink \<Rightarrow> 'w \<Rightarrow>
     bool" where
  "leg_done isOn l v b w b' w' \<longleftrightarrow>
     bridge_inv isOn b' w' \<and> same_outputs b b' \<and>
     (\<forall>y. y \<notin> {br_enable b, br_forwardLeg b, br_reverseLeg b} \<longrightarrow> isOn y w' = isOn y w) \<and>
     (\<not> v \<longrightarrow> (\<forall>y. isOn y w' \<longrightarrow> isOn y w)) \<and>
     (br_state b' = BS_Ready \<longrightarrow>
        br_state b = BS_Ready \<and> isOn (legOutput l b) w' = v \<and>
        isOn (otherOutput l b) w' = isOn (otherOutput l b) w)"

context binary_outputs
begin

lemma call:
  assumes "setEnabled x b w = (r, w')"
  shows "r \<Longrightarrow> isOn x w' = b" "\<not> b \<Longrightarrow> isOn x w' \<Longrightarrow> isOn x w"
    "y \<noteq> x \<Longrightarrow> isOn y w' = isOn y w"
proof -
  show "r \<Longrightarrow> isOn x w' = b" using assms accepted by simp
  show "\<not> b \<Longrightarrow> isOn x w' \<Longrightarrow> isOn x w" using assms off_keeps_off [of x w r w'] by simp
  show "y \<noteq> x \<Longrightarrow> isOn y w' = isOn y w" by (rule frame [OF assms])
qed

lemma off_only:
  assumes "setEnabled x False w = (r, w')" and "isOn y w'"
  shows "isOn y w"
  using call(2,3) [OF assms(1)] assms(2) by (cases "y = x") auto

lemma allOff_keeps:
  assumes "allOff setEnabled b w = (r, w')"
  shows "isOn y w' \<Longrightarrow> isOn y w"
    and "y \<notin> {br_enable b, br_forwardLeg b, br_reverseLeg b} \<Longrightarrow> isOn y w' = isOn y w"
    and "r \<Longrightarrow> y \<in> {br_enable b, br_forwardLeg b, br_reverseLeg b} \<Longrightarrow> \<not> isOn y w'"
proof -
  obtain r1 w1 where 1: "setEnabled (br_enable b) False w = (r1, w1)" by fastforce
  obtain r2 w2 where 2: "setEnabled (br_forwardLeg b) False w1 = (r2, w2)" by fastforce
  obtain r3 w3 where 3: "setEnabled (br_reverseLeg b) False w2 = (r3, w3)" by fastforce
  have e: "w' = w3" "r = (r1 \<and> r2 \<and> r3)" using assms by (simp_all add: allOff_def 1 2 3)
  show "isOn y w' \<Longrightarrow> isOn y w" using off_only [OF 1] off_only [OF 2] off_only [OF 3]
    by (simp add: e)
  show "y \<notin> {br_enable b, br_forwardLeg b, br_reverseLeg b} \<Longrightarrow> isOn y w' = isOn y w"
    using call(3) [OF 1] call(3) [OF 2] call(3) [OF 3] by (simp add: e)
  show "r \<Longrightarrow> y \<in> {br_enable b, br_forwardLeg b, br_reverseLeg b} \<Longrightarrow> \<not> isOn y w'"
    using call(1) [OF 1] call(1) [OF 2] call(1) [OF 3] off_only [OF 2] off_only [OF 3]
    by (auto simp: e)
qed

lemma shutdown_bridge:
  assumes "shutdown setEnabled b w = (b', w')"
  shows "isOn y w' \<Longrightarrow> isOn y w" "br_state b' = BS_Faulted" "same_outputs b b'"
    "y \<notin> {br_enable b, br_forwardLeg b, br_reverseLeg b} \<Longrightarrow> isOn y w' = isOn y w"
  using assms allOff_keeps(1,2) [of b w "fst (allOff setEnabled b w)" w']
  by (auto simp: shutdown_def same_outputs_def case_prod_beta)

lemma shutdown_inv:
  assumes "shutdown setEnabled b w = (b', w')" and "outputs_distinct b"
    and "\<not> (isOn (br_forwardLeg b) w \<and> isOn (br_reverseLeg b) w)"
  shows "bridge_inv isOn b' w'"
  using shutdown_bridge [OF assms(1)] assms(2,3)
  by (auto simp: bridge_inv_def same_outputs_def outputs_distinct_def)

text \<open>A successful start makes the bridge ready and everything off.\<close>

lemma begin_inv:
  assumes "beginBridge setEnabled b w = (True, b', w')" and "br_state b = BS_NotStarted"
    and "outputs_distinct b" and "\<not> br_forwardOn b" and "\<not> br_reverseOn b"
  shows "bridge_inv isOn b' w' \<and> br_state b' = BS_Ready \<and> same_outputs b b'"
proof -
  obtain r w1 where a: "allOff setEnabled b w = (r, w1)" by fastforce
  with assms(1,2) have r: "r" "b' = b\<lparr>br_state := BS_Ready\<rparr>" "w' = w1"
    by (auto simp: beginBridge_def split: if_splits)
  with allOff_keeps(3) [OF a] assms(3-5) show ?thesis
    by (simp add: bridge_inv_def same_outputs_def outputs_distinct_def)
qed

lemma leg_done_shutdown:
  assumes "shutdown setEnabled c w1 = (b', w')" and "same_outputs b c"
    and "bridge_inv isOn b w" and "\<not> (isOn (legOutput l b) w1 \<and> isOn (otherOutput l b) w1)"
    and "\<forall>y. y \<notin> {br_enable b, br_forwardLeg b, br_reverseLeg b} \<longrightarrow> isOn y w1 = isOn y w"
    and "\<not> v \<longrightarrow> (\<forall>y. isOn y w1 \<longrightarrow> isOn y w)"
  shows "leg_done isOn l v b w b' w'"
proof -
  have c: "outputs_distinct c" using assms(2,3)
    by (simp add: bridge_inv_def outputs_distinct_def same_outputs_def)
  have "\<not> (isOn (br_forwardLeg c) w1 \<and> isOn (br_reverseLeg c) w1)"
    using assms(2,4) by (cases l) (auto simp: same_outputs_def legOutput_def otherOutput_def)
  from shutdown_inv [OF assms(1) c this] shutdown_bridge [OF assms(1)] assms(2,5,6)
  show ?thesis
    unfolding leg_done_def using same_outputs_trans [OF assms(2)] by (auto simp: same_outputs_def)
qed

lemma setLeg_enable:
  assumes i: "bridge_inv isOn b w" and r: "br_state b = BS_Ready"
    and s: "setLeg setEnabled l True b w = (b', w')"
  shows "leg_done isOn l True b w b' w'"
proof -
  note j = i [unfolded bridge_inv_leg [of isOn b w l]]
  obtain r1 w1 where 1: "setEnabled (legOutput l b) True w = (r1, w1)" by fastforce
  obtain r2 w2 where 2: "setEnabled (br_enable b) True w1 = (r2, w2)" by fastforce
  have ex: "\<not> (isOn (legOutput l b) w1 \<and> isOn (otherOutput l b) w1)" if "\<not> otherLegOn l b"
    using that j r call(3) [OF 1, of "otherOutput l b"] by auto
  have out1: "y \<notin> {br_enable b, br_forwardLeg b, br_reverseLeg b} \<Longrightarrow> isOn y w1 = isOn y w" for y
    using call(3) [OF 1, of y] by (cases l) (auto simp: legOutput_def)
  have out2: "y \<notin> {br_enable b, br_forwardLeg b, br_reverseLeg b} \<Longrightarrow> isOn y w2 = isOn y w" for y
    using out1 [of y] call(3) [OF 2, of y] by auto
  consider (both) "otherLegOn l b" | (on) "\<not> otherLegOn l b" "legOn l b"
    | (no) "\<not> otherLegOn l b" "\<not> legOn l b" "\<not> r1"
    | (leg) "\<not> otherLegOn l b" "\<not> legOn l b" "r1" "\<not> r2"
    | (ok) "\<not> otherLegOn l b" "\<not> legOn l b" "r1" "r2" by blast
  then show ?thesis
  proof cases
    case both
    with s r have "shutdown setEnabled b w = (b', w')" by (simp add: setLeg_def)
    from leg_done_shutdown [OF this _ i] j show ?thesis by auto
  next
    case on
    with s r have "b' = b" "w' = w" by (simp_all add: setLeg_def)
    with i j on r show ?thesis by (auto simp: leg_done_def)
  next
    case no
    with s r 1 have "shutdown setEnabled b w1 = (b', w')" by (simp add: setLeg_def)
    from leg_done_shutdown [OF this _ i] ex no out1 show ?thesis by auto
  next
    case leg
    with s r 1 2 have "shutdown setEnabled (markLeg l True b) w2 = (b', w')"
      by (simp add: setLeg_def)
    from leg_done_shutdown [OF this _ i] ex leg out2 call(3) [OF 2] j show ?thesis by auto
  next
    case ok
    with s r 1 2 have e: "b' = markLeg l True b" "w' = w2" by (simp_all add: setLeg_def)
    have o: "isOn (br_enable b) w2" "isOn (legOutput l b) w2"
      "isOn (otherOutput l b) w2 = isOn (otherOutput l b) w"
      using ok call [OF 1] call [OF 2] j by auto
    with ok j r have "bridge_inv isOn b' w'"
      by (simp add: e bridge_inv_leg [of isOn "markLeg l True b" w2 l])
    with o out2 r show ?thesis by (simp add: leg_done_def e)
  qed
qed

lemma setLeg_disable:
  assumes i: "bridge_inv isOn b w" and r: "br_state b = BS_Ready"
    and s: "setLeg setEnabled l False b w = (b', w')"
  shows "leg_done isOn l False b w b' w'"
proof -
  note j = i [unfolded bridge_inv_leg [of isOn b w l]]
  obtain r1 w1 where 1: "setEnabled (br_enable b) False w = (r1, w1)" by fastforce
  obtain r2 w2 where 2: "setEnabled (legOutput l b) False w1 = (r2, w2)" by fastforce
  have k: "isOn y w2 \<Longrightarrow> isOn y w" for y
    using off_only [OF 1] off_only [OF 2] by blast
  have out2: "y \<notin> {br_enable b, br_forwardLeg b, br_reverseLeg b} \<Longrightarrow> isOn y w2 = isOn y w" for y
    using call(3) [OF 1, of y] call(3) [OF 2, of y] by (cases l) (auto simp: legOutput_def)
  consider (off) "\<not> legOn l b" | (no) "legOn l b" "\<not> r1 \<or> \<not> r2" | (ok) "legOn l b" "r1" "r2"
    by blast
  then show ?thesis
  proof cases
    case off
    with s r have "b' = b" "w' = w" by (simp_all add: setLeg_def)
    with i j off r show ?thesis by (auto simp: leg_done_def)
  next
    case no
    with s r 1 2 have "shutdown setEnabled (markLeg l False b) w2 = (b', w')"
      by (auto simp: setLeg_def)
    from leg_done_shutdown [OF this _ i] out2 k j show ?thesis by auto
  next
    case ok
    with s r 1 2 have e: "b' = markLeg l False b" "w' = w2" by (simp_all add: setLeg_def)
    have o: "\<not> isOn (br_enable b) w2" "\<not> isOn (legOutput l b) w2"
      "isOn (otherOutput l b) w2 = isOn (otherOutput l b) w"
      using ok call [OF 1] call [OF 2] j by auto
    with ok j r have "bridge_inv isOn b' w'"
      by (auto simp: e bridge_inv_leg [of isOn "markLeg l False b" w2 l])
    with o out2 r k show ?thesis by (simp add: leg_done_def e)
  qed
qed

lemma setLeg_done:
  assumes i: "bridge_inv isOn b w" and s: "setLeg setEnabled l v b w = (b', w')"
  shows "leg_done isOn l v b w b' w'"
proof (cases "br_state b")
  case BS_NotStarted
  with i show ?thesis by (simp add: bridge_inv_def)
next
  case BS_Ready
  with setLeg_enable setLeg_disable i s show ?thesis by (cases v) simp_all
next
  case BS_Faulted
  note j = i [unfolded bridge_inv_leg [of isOn b w l]]
  show ?thesis
  proof (cases v)
    case True
    with s BS_Faulted have "b' = b" "w' = w" by (simp_all add: setLeg_def)
    with i BS_Faulted True show ?thesis by (simp add: leg_done_def)
  next
    case False
    with s BS_Faulted have "shutdown setEnabled b w = (b', w')" by (simp add: setLeg_def)
    from leg_done_shutdown [OF this _ i] j show ?thesis by auto
  qed
qed

end

section \<open>The driver on the bridge\<close>

definition fan_of_bridge :: "'o SharedEnableBridgeSink \<Rightarrow> 'o \<Rightarrow> bool" where
  "fan_of_bridge b x \<longleftrightarrow> x \<notin> {br_enable b, br_forwardLeg b, br_reverseLeg b}"

definition all_off :: "('o \<Rightarrow> 'w \<Rightarrow> bool) \<Rightarrow> 'o SharedEnableBridgeSink \<Rightarrow> 'w \<Rightarrow> bool" where
  "all_off isOn b w \<longleftrightarrow>
     \<not> isOn (br_forwardLeg b) w \<and> \<not> isOn (br_reverseLeg b) w \<and> \<not> isOn (br_enable b) w"

lemma fan_same: "same_outputs b b' \<Longrightarrow> fan_of_bridge b' x = fan_of_bridge b x"
  by (simp add: fan_of_bridge_def same_outputs_def)

lemma all_off_same: "same_outputs b b' \<Longrightarrow> all_off isOn b' w = all_off isOn b w"
  by (simp add: all_off_def same_outputs_def)

text \<open>What the driver leaves: a ready bridge is on only in the direction of the result, with the
  outer fan on.\<close>

definition driven ::
  "('o \<Rightarrow> 'w \<Rightarrow> bool) \<Rightarrow> 'o \<Rightarrow> AbstractControlDirection \<Rightarrow> 'o SharedEnableBridgeSink \<Rightarrow>
     'o SharedEnableBridgeSink \<Rightarrow> 'w \<Rightarrow> bool" where
  "driven isOn fan d b b' w' \<longleftrightarrow>
     bridge_inv isOn b' w' \<and> same_outputs b b' \<and>
     (br_state b' = BS_Ready \<longrightarrow>
        (isOn (br_forwardLeg b) w' \<longrightarrow> d = Dir_Heating) \<and>
        (isOn (br_reverseLeg b) w' \<longrightarrow> d = Dir_Cooling) \<and>
        (isOn (br_enable b) w' \<longrightarrow> isOn fan w'))"

context binary_outputs
begin

lemma fan_call:
  assumes "setEnabled x v w = (r, w')" and "fan_of_bridge b x"
  shows "bridge_inv isOn b w' = bridge_inv isOn b w" "all_off isOn b w' = all_off isOn b w"
    "isOn (br_forwardLeg b) w' = isOn (br_forwardLeg b) w"
    "isOn (br_reverseLeg b) w' = isOn (br_reverseLeg b) w"
    "isOn (br_enable b) w' = isOn (br_enable b) w"
proof -
  show f: "isOn (br_forwardLeg b) w' = isOn (br_forwardLeg b) w"
    "isOn (br_reverseLeg b) w' = isOn (br_reverseLeg b) w"
    "isOn (br_enable b) w' = isOn (br_enable b) w"
    using call(3) [OF assms(1)] assms(2) by (auto simp: fan_of_bridge_def)
  then show "bridge_inv isOn b w' = bridge_inv isOn b w" "all_off isOn b w' = all_off isOn b w"
    by (simp_all add: bridge_inv_def all_off_def)
qed

lemma peltierOff_done:
  assumes i: "bridge_inv isOn b w"
    and s: "peltierOff (\<lambda>v c. setForward setEnabled v (fst c) (snd c))
              (\<lambda>v c. setReverse setEnabled v (fst c) (snd c)) (b, w) = (b', w')"
  shows "bridge_inv isOn b' w'" "same_outputs b b'"
    "br_state b' = BS_Ready \<Longrightarrow> br_state b = BS_Ready \<and> all_off isOn b w'"
    "fan_of_bridge b x \<Longrightarrow> isOn x w' = isOn x w"
proof -
  obtain b1 w1 where 1: "setLeg setEnabled ForwardLeg False b w = (b1, w1)" by fastforce
  have 2: "setLeg setEnabled ReverseLeg False b1 w1 = (b', w')"
    using s 1 by (simp add: peltierOff_def setForward_def setReverse_def)
  note d1 = setLeg_done [OF i 1, unfolded leg_done_def]
  then have i1: "bridge_inv isOn b1 w1" by blast
  note d2 = setLeg_done [OF i1 2, unfolded leg_done_def]
  have s1: "same_outputs b b1" "same_outputs b1 b'" using d1 d2 by blast+
  show inv: "bridge_inv isOn b' w'" using d2 by blast
  show s: "same_outputs b b'" using same_outputs_trans [OF s1] .
  show "br_state b' = BS_Ready \<Longrightarrow> br_state b = BS_Ready \<and> all_off isOn b w'"
    using d1 d2 inv s1 s unfolding bridge_inv_def
    by (auto simp: all_off_def same_outputs_def legOutput_def)
  show "fan_of_bridge b x \<Longrightarrow> isOn x w' = isOn x w"
    using d1 d2 s1 by (auto simp: fan_of_bridge_def same_outputs_def)
qed

text \<open>A quiet bridge: with everything off as far as it is ready. Fan calls keep it quiet.\<close>

definition quiet :: "'o SharedEnableBridgeSink \<Rightarrow> 'o SharedEnableBridgeSink \<times> 'w \<Rightarrow> bool" where
  "quiet b0 c \<longleftrightarrow>
     bridge_inv isOn (fst c) (snd c) \<and> same_outputs b0 (fst c) \<and>
     (br_state (fst c) = BS_Ready \<longrightarrow> all_off isOn b0 (snd c))"

lemma quiet_off:
  assumes "bridge_inv isOn (fst c) (snd c)" and "same_outputs b0 (fst c)"
  shows "quiet b0 (peltierOff (\<lambda>v c. setForward setEnabled v (fst c) (snd c))
           (\<lambda>v c. setReverse setEnabled v (fst c) (snd c)) c)"
proof -
  obtain b' w' where p: "peltierOff (\<lambda>v c. setForward setEnabled v (fst c) (snd c))
      (\<lambda>v c. setReverse setEnabled v (fst c) (snd c)) (fst c, snd c) = (b', w')" by fastforce
  note d = peltierOff_done [OF assms(1) p]
  show ?thesis
    using d(1,3) same_outputs_trans [OF assms(2) d(2)] all_off_same [OF assms(2), of isOn w'] p
    by (auto simp: quiet_def)
qed

lemma quiet_fan:
  assumes "quiet b0 c" and "fan_of_bridge b0 x"
  shows "quiet b0 (snd (onOutputs setEnabled x v c))"
proof -
  obtain r w' where e: "setEnabled x v (snd c) = (r, w')" by fastforce
  have "fan_of_bridge (fst c) x" using assms fan_same [of b0 "fst c" x] by (simp add: quiet_def)
  with assms fan_call [OF e] show ?thesis
    by (simp add: quiet_def onOutputs_def e)
qed

lemma quiet_driven: "quiet b0 (b', w') \<Longrightarrow> driven isOn fan d b0 b' w'"
  by (auto simp: quiet_def driven_def all_off_def)

text \<open>The branch of a direction: the other leg off, the fan on, then the leg.\<close>

lemma leg_after_fan:
  assumes i: "bridge_inv isOn b w" and f: "fan_of_bridge b outer" "fan_of_bridge b inner"
    and n: "outer \<noteq> inner"
    and d: "d = (case l of ForwardLeg \<Rightarrow> Dir_Heating | ReverseLeg \<Rightarrow> Dir_Cooling)"
    and m: "m = (case l of ForwardLeg \<Rightarrow> ReverseLeg | ReverseLeg \<Rightarrow> ForwardLeg)"
    and 1: "setLeg setEnabled m False b w = (b1, w1)"
    and 2: "setEnabled outer True w1 = (True, w2)"
    and 3: "setLeg setEnabled l True b1 w2 = (b3, w3)"
    and 4: "setEnabled inner u w3 = (r4, w4)"
  shows "driven isOn outer d b b3 w4"
proof -
  note d1 = setLeg_done [OF i 1, unfolded leg_done_def]
  then have i1: "bridge_inv isOn b1 w1" and s1: "same_outputs b b1" by blast+
  have f1: "fan_of_bridge b1 outer" "fan_of_bridge b1 inner" using f fan_same [OF s1] by simp_all
  have i2: "bridge_inv isOn b1 w2" using i1 fan_call(1) [OF 2 f1(1)] by blast
  note d3 = setLeg_done [OF i2 3, unfolded leg_done_def]
  then have i3: "bridge_inv isOn b3 w3" and s3: "same_outputs b1 b3" by blast+
  have s: "same_outputs b b3" using same_outputs_trans [OF s1 s3] .
  have f3: "fan_of_bridge b3 inner" using f1(2) fan_same [OF s3] by simp
  have fan: "isOn outer w4"
    using call(1) [OF 2] d3 f1(1) call(3) [OF 4, of outer] n by (auto simp: fan_of_bridge_def)
  have i4: "bridge_inv isOn b3 w4" using i3 fan_call(1) [OF 4 f3] by blast
  moreover have "\<not> isOn (legOutput m b) w4" if "br_state b3 = BS_Ready"
  proof -
    from that d1 d3 have "\<not> isOn (legOutput m b) w1" by blast
    moreover have "legOutput m b = otherOutput l b1"
      using m s1 by (cases l) (simp_all add: legOutput_def otherOutput_def same_outputs_def)
    moreover have "isOn (otherOutput l b1) w2 = isOn (otherOutput l b1) w1"
      using fan_call(3,4) [OF 2 f1(1)] by (cases l) (simp_all add: otherOutput_def)
    moreover have "isOn (otherOutput l b1) w4 = isOn (otherOutput l b1) w3"
      using fan_call(3,4) [OF 4 f3] s3 by (cases l) (simp_all add: otherOutput_def same_outputs_def)
    ultimately show ?thesis using d3 that by simp
  qed
  ultimately show ?thesis
    using s fan d m by (cases l) (auto simp: driven_def legOutput_def)
qed

lemmas drive_defs = driveBridge_def applyPlanResult_def driverKnownDirection_def
  onOutputs_def Let_def case_prod_beta setForward_def setReverse_def

lemma driveBridge_leg:
  assumes i: "bridge_inv isOn b w" and f: "fan_of_bridge b outer" "fan_of_bridge b inner"
    and n: "outer \<noteq> inner" and s: "driveBridge setEnabled outer inner r (b, w) = (b', w')"
    and l: "l = ForwardLeg \<and> m = ReverseLeg \<and> ptr_appliedDirection r = Dir_Heating \<or>
      l = ReverseLeg \<and> m = ForwardLeg \<and> ptr_appliedDirection r = Dir_Cooling"
  shows "driven isOn outer (ptr_appliedDirection r) b b' w'"
proof -
  let ?d = "ptr_appliedDirection r"
  obtain b1 w1 where 1: "setLeg setEnabled m False b w = (b1, w1)" by fastforce
  obtain v w2 where 2: "setEnabled outer True w1 = (v, w2)" by fastforce
  show ?thesis
  proof (cases v)
    case True
    with 2 have t2: "setEnabled outer True w1 = (True, w2)" by simp
    obtain b3 w3 where 3: "setLeg setEnabled l True b1 w2 = (b3, w3)" by fastforce
    obtain r4 w4 where 4: "setEnabled inner (ptr_innerFanEnabled r) w3 = (r4, w4)" by fastforce
    have "b' = b3" "w' = w4" using s l 1 2 3 4 True by (auto simp: drive_defs)
    moreover have "?d = (case l of ForwardLeg \<Rightarrow> Dir_Heating | ReverseLeg \<Rightarrow> Dir_Cooling)"
      "m = (case l of ForwardLeg \<Rightarrow> ReverseLeg | ReverseLeg \<Rightarrow> ForwardLeg)" using l by auto
    ultimately show ?thesis using leg_after_fan [OF i f n _ _ 1 t2 3 4] by simp
  next
    case False
    note d1 = setLeg_done [OF i 1, unfolded leg_done_def]
    then have "fan_of_bridge b1 outer" using f(1) fan_same [of b b1 outer] by blast
    with d1 fan_call(1) [OF 2] have j: "bridge_inv isOn b1 w2" "same_outputs b b1" by blast+
    have "driveBridge setEnabled outer inner r (b, w) = snd (onOutputs setEnabled inner
        (ptr_innerFanEnabled r) (peltierOff (\<lambda>v c. setForward setEnabled v (fst c) (snd c))
          (\<lambda>v c. setReverse setEnabled v (fst c) (snd c)) (b1, w2)))"
      using l 1 2 False by (auto simp: drive_defs)
    also have "quiet b \<dots>" using j f by (intro quiet_fan quiet_off) simp_all
    finally show ?thesis using s by (simp add: quiet_driven)
  qed
qed

lemma driveBridge_done:
  assumes i: "bridge_inv isOn b w" and f: "fan_of_bridge b outer" "fan_of_bridge b inner"
    and n: "outer \<noteq> inner" and s: "driveBridge setEnabled outer inner r (b, w) = (b', w')"
  shows "driven isOn outer (ptr_appliedDirection r) b b' w'"
proof -
  let ?d = "ptr_appliedDirection r"
  have q: "quiet b (driveBridge setEnabled outer inner r (b, w))"
    if "?d \<noteq> Dir_Heating" "?d \<noteq> Dir_Cooling"
    using that i f
    by (cases ?d) (simp_all add: driveBridge_def applyPlanResult_def driverKnownDirection_def
        quiet_fan quiet_off)
  note leg = driveBridge_leg [OF i f n s]
  show ?thesis
    using q leg [of ForwardLeg ReverseLeg] leg [of ReverseLeg ForwardLeg] s
    by (cases ?d) (simp_all add: quiet_driven)
qed

end

section \<open>When every command is accepted\<close>

context binary_outputs
begin

lemma setLeg_accepted:
  assumes a: "\<And>x v w. fst (setEnabled x v w)" and r: "br_state b = BS_Ready"
    and o: "v \<Longrightarrow> \<not> otherLegOn l b"
  shows "br_state (fst (setLeg setEnabled l v b w)) = BS_Ready"
  using a r o by (auto simp: setLeg_def Let_def case_prod_beta)

lemma peltierOff_accepted:
  assumes "\<And>x v w. fst (setEnabled x v w)" and "br_state (fst c) = BS_Ready"
  shows "br_state (fst (peltierOff (\<lambda>v c. setForward setEnabled v (fst c) (snd c))
    (\<lambda>v c. setReverse setEnabled v (fst c) (snd c)) c)) = BS_Ready"
  using assms by (simp add: peltierOff_def setForward_def setReverse_def setLeg_accepted)

lemma leg_after_accepted:
  assumes a: "\<And>x v w. fst (setEnabled x v w)" and i: "bridge_inv isOn b w"
    and r: "br_state b = BS_Ready" and f: "fan_of_bridge b outer"
    and m: "m = (case l of ForwardLeg \<Rightarrow> ReverseLeg | ReverseLeg \<Rightarrow> ForwardLeg)"
    and 1: "setLeg setEnabled m False b w = (b1, w1)" and 2: "setEnabled outer True w1 = (q, w2)"
    and 3: "setLeg setEnabled l True b1 w2 = (b3, w3)"
  shows "br_state b3 = BS_Ready \<and> isOn (legOutput l b) w3 \<and> bridge_inv isOn b3 w3 \<and>
    same_outputs b b3"
proof -
  note d1 = setLeg_done [OF i 1, unfolded leg_done_def]
  have r1: "br_state b1 = BS_Ready" using setLeg_accepted [OF a r, of False m w] 1 by simp
  with d1 have i1: "bridge_inv isOn b1 w1" "same_outputs b b1" "\<not> isOn (legOutput m b) w1"
    by blast+
  have "fan_of_bridge b1 outer" using f fan_same [OF i1(2)] by simp
  note c = fan_call [OF 2 this]
  have i2: "bridge_inv isOn b1 w2" using i1(1) c(1) by blast
  have "\<not> isOn (otherOutput l b1) w2"
    using i1(2,3) c(3,4) m by (cases l) (simp_all add: otherOutput_def legOutput_def same_outputs_def)
  then have "\<not> otherLegOn l b1" using i2 r1 by (simp add: bridge_inv_leg [of isOn b1 w2 l])
  then have "br_state b3 = BS_Ready" using setLeg_accepted [OF a r1, of True l w2] 3 by simp
  moreover note d3 = setLeg_done [OF i2 3, unfolded leg_done_def]
  moreover have "legOutput l b1 = legOutput l b" using same_outputs_leg [OF i1(2)] by blast
  ultimately show ?thesis using same_outputs_trans [OF i1(2)] by auto
qed

text \<open>The outputs that a result asks for; an output outside bridge and fans is not asked for.\<close>

definition as_asked ::
  "'o \<Rightarrow> 'o \<Rightarrow> ActuatorPlanTickResult \<Rightarrow> 'o SharedEnableBridgeSink \<Rightarrow> 'w \<Rightarrow> bool" where
  "as_asked outer inner r b w \<longleftrightarrow>
     isOn (br_forwardLeg b) w = (ptr_appliedDirection r = Dir_Heating) \<and>
     isOn (br_reverseLeg b) w = (ptr_appliedDirection r = Dir_Cooling) \<and>
     isOn (br_enable b) w = (ptr_appliedDirection r \<in> {Dir_Heating, Dir_Cooling}) \<and>
     isOn outer w = (ptr_appliedDirection r \<in> {Dir_Heating, Dir_Cooling} \<or>
       ptr_appliedDirection r = Dir_Idle \<and> ptr_outerFanEnabled r) \<and>
     isOn inner w = (ptr_appliedDirection r \<in> {Dir_Heating, Dir_Cooling, Dir_Idle} \<and>
       ptr_innerFanEnabled r)"

lemma fans_as_asked:
  assumes a: "\<And>x v w. fst (setEnabled x v w)" and n: "outer \<noteq> inner"
    and f: "fan_of_bridge b outer" "fan_of_bridge b inner"
  shows "isOn inner (snd (snd (onOutputs setEnabled inner u (snd (onOutputs setEnabled outer v c))))) = u"
    "isOn outer (snd (snd (onOutputs setEnabled inner u (snd (onOutputs setEnabled outer v c))))) = v"
    "fst (snd (onOutputs setEnabled inner u (snd (onOutputs setEnabled outer v c)))) = fst c"
proof -
  obtain w1 where 1: "setEnabled outer v (snd c) = (True, w1)" using a by (metis prod.collapse)
  obtain w2 where 2: "setEnabled inner u w1 = (True, w2)" using a by (metis prod.collapse)
  show "isOn inner (snd (snd (onOutputs setEnabled inner u (snd (onOutputs setEnabled outer v c))))) = u"
    "isOn outer (snd (snd (onOutputs setEnabled inner u (snd (onOutputs setEnabled outer v c))))) = v"
    "fst (snd (onOutputs setEnabled inner u (snd (onOutputs setEnabled outer v c)))) = fst c"
    using call(1) [OF 1] call(1) [OF 2] call(3) [OF 2 n] by (simp_all add: onOutputs_def 1 2)
qed

lemma driveBridge_leg_accepted:
  assumes a: "\<And>x v w. fst (setEnabled x v w)" and i: "bridge_inv isOn b w"
    and r: "br_state b = BS_Ready" and f: "fan_of_bridge b outer" "fan_of_bridge b inner"
    and n: "outer \<noteq> inner" and s: "driveBridge setEnabled outer inner q (b, w) = (b', w')"
    and l: "l = ForwardLeg \<and> m = ReverseLeg \<and> ptr_appliedDirection q = Dir_Heating \<or>
      l = ReverseLeg \<and> m = ForwardLeg \<and> ptr_appliedDirection q = Dir_Cooling"
  shows "br_state b' = BS_Ready \<and> as_asked outer inner q b w'"
proof -
  obtain b1 w1 where 1: "setLeg setEnabled m False b w = (b1, w1)" by fastforce
  obtain w2 where 2: "setEnabled outer True w1 = (True, w2)" using a by (metis prod.collapse)
  obtain b3 w3 where 3: "setLeg setEnabled l True b1 w2 = (b3, w3)" by fastforce
  obtain w4 where 4: "setEnabled inner (ptr_innerFanEnabled q) w3 = (True, w4)"
    using a by (metis prod.collapse)
  have e: "b' = b3" "w' = w4" using s l 1 2 3 4 by (auto simp: drive_defs)
  have "m = (case l of ForwardLeg \<Rightarrow> ReverseLeg | ReverseLeg \<Rightarrow> ForwardLeg)" using l by auto
  note d = leg_after_accepted [OF a i r f(1) this 1 2 3]
  have D: "driven isOn outer (ptr_appliedDirection q) b b' w'" by (rule driveBridge_leg [OF i f n s l])
  have "isOn (legOutput l b) w4" using d call(3) [OF 4, of "legOutput l b"] f(2)
    by (cases l) (auto simp: legOutput_def fan_of_bridge_def)
  moreover have "isOn inner w4 = ptr_innerFanEnabled q" by (rule call(1) [OF 4]) simp
  moreover have "isOn (br_enable b) w4 = (isOn (br_forwardLeg b) w4 \<or> isOn (br_reverseLeg b) w4)"
    using D d by (auto simp: driven_def bridge_inv_def e same_outputs_def)
  ultimately show ?thesis
    using D d l by (auto simp: as_asked_def driven_def e legOutput_def)
qed

lemma driveBridge_accepted:
  assumes a: "\<And>x v w. fst (setEnabled x v w)" and i: "bridge_inv isOn b w"
    and r: "br_state b = BS_Ready" and f: "fan_of_bridge b outer" "fan_of_bridge b inner"
    and n: "outer \<noteq> inner" and s: "driveBridge setEnabled outer inner q (b, w) = (b', w')"
  shows "br_state b' = BS_Ready \<and> as_asked outer inner q b w'"
proof -
  let ?d = "ptr_appliedDirection q"
  let ?off = "peltierOff (\<lambda>v c. setForward setEnabled v (fst c) (snd c))
      (\<lambda>v c. setReverse setEnabled v (fst c) (snd c)) (b, w)"
  have o: "br_state b' = BS_Ready \<and> as_asked outer inner q b w'"
    if "?d \<notin> {Dir_Heating, Dir_Cooling}"
      and e: "driveBridge setEnabled outer inner q (b, w) =
        snd (onOutputs setEnabled inner u (snd (onOutputs setEnabled outer v ?off)))"
      and "u = (?d = Dir_Idle \<and> ptr_innerFanEnabled q)"
        "v = (?d = Dir_Idle \<and> ptr_outerFanEnabled q)" for u v
  proof -
    have q: "quiet b (b', w')" unfolding s [symmetric] e
      using i f by (intro quiet_fan quiet_off) simp_all
    have k: "br_state b' = BS_Ready" "isOn inner w' = u" "isOn outer w' = v"
      using fans_as_asked [OF a n f, of u v ?off] peltierOff_accepted [OF a, of "(b, w)"] r s e
      by simp_all
    with q that(1,3,4) show ?thesis by (auto simp: as_asked_def quiet_def all_off_def)
  qed
  note leg = driveBridge_leg_accepted [OF a i r f n s]
  show ?thesis
  proof (cases ?d)
    case Dir_Heating
    with leg [of ForwardLeg ReverseLeg] show ?thesis by simp
  next
    case Dir_Cooling
    with leg [of ReverseLeg ForwardLeg] show ?thesis by simp
  qed (rule o [OF _ _ refl refl];
       simp add: driveBridge_def applyPlanResult_def driverKnownDirection_def)+
qed

end

section \<open>The adapters keep the contract\<close>

text \<open>The mock.\<close>

interpretation mock: binary_outputs mockWorldSetEnabled "\<lambda>x w. mock_enabled (w x)"
  by unfold_locales
    (auto simp: mockWorldSetEnabled_def mockSetEnabled_def Let_def case_prod_beta split: if_splits)

text \<open>
  What the code relies on of the GPIO driver: a write that is answered with \<open>ESP_OK\<close> sets the level
  of its pin, a failed one leaves the old or the new level there, other pins are not concerned,
  and the configuration of a pin does not change levels.
\<close>

definition gpio_ok :: "'h GpioDriver \<Rightarrow> (int \<Rightarrow> 'h \<Rightarrow> u32) \<Rightarrow> bool" where
  "gpio_ok gpio level \<longleftrightarrow>
     (\<forall>pin v h r h'. gpio_set_level gpio pin v h = (r, h') \<longrightarrow>
        (r \<longrightarrow> level pin h' = v) \<and> level pin h' \<in> {level pin h, v} \<and>
        (\<forall>other. other \<noteq> pin \<longrightarrow> level other h' = level other h)) \<and>
     (\<forall>c h r h' pin. gpio_config gpio c h = (r, h') \<longrightarrow> level pin h' = level pin h)"

definition espOn ::
  "(int \<Rightarrow> 'h \<Rightarrow> u32) \<Rightarrow> ('o \<Rightarrow> int) \<Rightarrow> ('o \<Rightarrow> OutputPolarity) \<Rightarrow> 'o \<Rightarrow> ('o, 'h) EspWorld \<Rightarrow> bool"
  where
  "espOn level pinOf polarityOf x w \<longleftrightarrow>
     level (pinOf x) (ew_hardware w) = levelFor (polarityOf x) True"

lemma levels_differ: "levelFor polarity True \<noteq> inactiveLevel polarity"
  by (simp add: levelFor_def inactiveLevel_def)

lemma gpio_set:
  assumes "gpio_ok gpio level"
  shows "fst (gpio_set_level gpio pin v h) \<Longrightarrow> level pin (snd (gpio_set_level gpio pin v h)) = v"
    and "level pin (snd (gpio_set_level gpio pin v h)) \<in> {level pin h, v}"
    and "other \<noteq> pin \<Longrightarrow> level other (snd (gpio_set_level gpio pin v h)) = level other h"
  using assms unfolding gpio_ok_def by (metis prod.collapse)+

lemma drive_level:
  assumes "gpio_ok gpio level"
  shows "level (pinOf x) (ew_hardware (driveInactiveBestEffort gpio pinOf polarityOf x w)) \<in>
      {level (pinOf x) (ew_hardware w), inactiveLevel (polarityOf x)}"
    and "pin \<noteq> pinOf x \<Longrightarrow>
      level pin (ew_hardware (driveInactiveBestEffort gpio pinOf polarityOf x w)) =
      level pin (ew_hardware w)"
  using gpio_set(2,3) [OF assms] by (simp_all add: driveInactiveBestEffort_def)

lemma esp_accepted:
  assumes "gpio_ok gpio level" and "espSetEnabled gpio pinOf polarityOf x b w = (True, w')"
  shows "level (pinOf x) (ew_hardware w') = levelFor (polarityOf x) b"
  using assms(2) gpio_set(1) [OF assms(1), of "pinOf x" "levelFor (polarityOf x) b" "ew_hardware w"]
  by (auto simp: espSetEnabled_def Let_def case_prod_beta split: if_splits)

lemma esp_off:
  assumes "gpio_ok gpio level" and "espSetEnabled gpio pinOf polarityOf x False w = (r, w')"
  shows "level (pinOf x) (ew_hardware w') \<in>
    {level (pinOf x) (ew_hardware w), inactiveLevel (polarityOf x)}"
proof -
  let ?h = "snd (gpio_set_level gpio (pinOf x) (inactiveLevel (polarityOf x)) (ew_hardware w))"
  let ?v = "espState x ES_Faulted (w\<lparr>ew_hardware := ?h\<rparr>)"
  have 1: "level (pinOf x) ?h \<in> {level (pinOf x) (ew_hardware w), inactiveLevel (polarityOf x)}"
    by (rule gpio_set(2) [OF assms(1)])
  have 2: "level (pinOf x) (ew_hardware (driveInactiveBestEffort gpio pinOf polarityOf x ?v)) \<in>
      {level (pinOf x) ?h, inactiveLevel (polarityOf x)}"
    using drive_level(1) [OF assms(1), of pinOf x polarityOf ?v] by (simp add: espState_def)
  have 3: "level (pinOf x) (ew_hardware (driveInactiveBestEffort gpio pinOf polarityOf x w)) \<in>
      {level (pinOf x) (ew_hardware w), inactiveLevel (polarityOf x)}"
    by (rule drive_level(1) [OF assms(1)])
  consider "ew_hardware w' = ?h"
    | "w' = driveInactiveBestEffort gpio pinOf polarityOf x ?v"
    | "w' = driveInactiveBestEffort gpio pinOf polarityOf x w" | "w' = w"
    using assms(2)
    by (auto simp: espSetEnabled_def levelFor_def Let_def case_prod_beta split: if_splits)
  then show ?thesis using 1 2 3 by cases auto
qed

lemma esp_frame:
  assumes "gpio_ok gpio level" and "espSetEnabled gpio pinOf polarityOf x b w = (r, w')"
    and "pin \<noteq> pinOf x"
  shows "level pin (ew_hardware w') = level pin (ew_hardware w)"
  using assms(2,3)
  by (auto simp: gpio_set(3) [OF assms(1)] drive_level(2) [OF assms(1)] espSetEnabled_def espState_def Let_def case_prod_beta split: if_splits)

lemma esp_outputs:
  assumes g: "gpio_ok gpio level" and p: "inj pinOf"
  shows "binary_outputs (espSetEnabled gpio pinOf polarityOf) (espOn level pinOf polarityOf)"
proof
  fix x b and w w' :: "('b, 'a) EspWorld"
  show "espSetEnabled gpio pinOf polarityOf x b w = (True, w') \<Longrightarrow>
      espOn level pinOf polarityOf x w' = b"
    using esp_accepted [OF g, of pinOf polarityOf x b w w'] levels_differ [of "polarityOf x"]
    by (cases b) (auto simp: espOn_def levelFor_def)
next
  fix x r and w w' :: "('b, 'a) EspWorld"
  show "espSetEnabled gpio pinOf polarityOf x False w = (r, w') \<Longrightarrow>
      espOn level pinOf polarityOf x w' \<Longrightarrow> espOn level pinOf polarityOf x w"
    using esp_off [OF g, of pinOf polarityOf x w r w'] levels_differ [of "polarityOf x"]
    by (auto simp: espOn_def)
next
  fix x b r y and w w' :: "('b, 'a) EspWorld"
  show "espSetEnabled gpio pinOf polarityOf x b w = (r, w') \<Longrightarrow> y \<noteq> x \<Longrightarrow>
      espOn level pinOf polarityOf y w' = espOn level pinOf polarityOf y w"
    using esp_frame [OF g, of pinOf polarityOf x b w r w' "pinOf y"] p
    by (auto simp: espOn_def inj_eq)
qed

text \<open>A successful start of the bridge adapter.\<close>

lemma espBridgeBegin_inv:
  assumes g: "gpio_ok gpio level" and p: "inj pinOf"
    and s: "espBridgeBegin gpio pinOf polarityOf b w = (True, b', w')"
    and n: "br_state b = BS_NotStarted" "\<not> br_forwardOn b" "\<not> br_reverseOn b"
    and d: "outputs_distinct b"
  shows "bridge_inv (espOn level pinOf polarityOf) b' w' \<and> br_state b' = BS_Ready \<and>
    same_outputs b b'"
proof -
  obtain w1 where "beginBridge (espSetEnabled gpio pinOf polarityOf) b w1 = (True, b', w')"
    using s by (auto simp: espBridgeBegin_def Let_def case_prod_beta split: if_splits)
  from binary_outputs.begin_inv [OF esp_outputs [OF g p] this n(1) d n(2,3)]
  show ?thesis .
qed

end
