(* ===== verification/OutputsProperties.thy ===== *)
theory OutputsProperties
  imports OutputsProofs
begin

text \<open>
  The properties of the outputs: the bridge and the driver on the pins of the ESP-IDF, under any
  sequence of calls and any answers of the GPIO driver, and the driver on outputs that accept every
  command. Witnesses run on five pins.
\<close>

section \<open>Calls on the bridge\<close>

datatype BridgeCall = BC_Forward bool | BC_Reverse bool

fun bridge_call ::
  "('o \<Rightarrow> bool \<Rightarrow> 'w \<Rightarrow> bool \<times> 'w) \<Rightarrow> BridgeCall \<Rightarrow> 'o SharedEnableBridgeSink \<times> 'w \<Rightarrow>
     'o SharedEnableBridgeSink \<times> 'w" where
  "bridge_call setEnabled (BC_Forward v) (b, w) = setForward setEnabled v b w"
| "bridge_call setEnabled (BC_Reverse v) (b, w) = setReverse setEnabled v b w"

context binary_outputs
begin

lemma call_step:
  assumes "bridge_inv isOn (fst c) (snd c)"
  shows "bridge_inv isOn (fst (bridge_call setEnabled k c)) (snd (bridge_call setEnabled k c)) \<and>
    same_outputs (fst c) (fst (bridge_call setEnabled k c))"
proof -
  obtain l v where k: "bridge_call setEnabled k c = setLeg setEnabled l v (fst c) (snd c)"
    by (cases k; cases c) (auto simp: setForward_def setReverse_def)
  obtain b' w' where e: "setLeg setEnabled l v (fst c) (snd c) = (b', w')" by fastforce
  from setLeg_done [OF assms e] show ?thesis by (simp add: k e leg_done_def)
qed

lemma calls_inv:
  assumes "bridge_inv isOn (fst c) (snd c)"
  shows "bridge_inv isOn (fst (fold (bridge_call setEnabled) ks c))
      (snd (fold (bridge_call setEnabled) ks c)) \<and>
    same_outputs (fst c) (fst (fold (bridge_call setEnabled) ks c))"
  using assms
proof (induction ks arbitrary: c)
  case (Cons k ks)
  then show ?case using call_step [OF Cons.prems, of k] same_outputs_trans by fastforce
qed simp

text \<open>A faulted bridge stays faulted and switches nothing on.\<close>

lemma faulted_step:
  assumes "br_state (fst c) = BS_Faulted"
  shows "br_state (fst (bridge_call setEnabled k c)) = BS_Faulted \<and>
    (\<forall>x. isOn x (snd (bridge_call setEnabled k c)) \<longrightarrow> isOn x (snd c))"
proof -
  obtain l v where k: "bridge_call setEnabled k c = setLeg setEnabled l v (fst c) (snd c)"
    by (cases k; cases c) (auto simp: setForward_def setReverse_def)
  obtain b' w' where e: "shutdown setEnabled (fst c) (snd c) = (b', w')" by fastforce
  from shutdown_bridge [OF e] assms show ?thesis by (simp add: k setLeg_def e)
qed

lemma faulted_calls:
  assumes "br_state (fst c) = BS_Faulted"
  shows "br_state (fst (fold (bridge_call setEnabled) ks c)) = BS_Faulted \<and>
    (\<forall>x. isOn x (snd (fold (bridge_call setEnabled) ks c)) \<longrightarrow> isOn x (snd c))"
  using assms
proof (induction ks arbitrary: c)
  case (Cons k ks)
  from faulted_step [OF Cons.prems, of k] Cons.IH [of "bridge_call setEnabled k c"]
  show ?case by simp
qed simp

lemma drives_inv:
  assumes "bridge_inv isOn (fst c) (snd c)" and "fan_of_bridge (fst c) outer"
    and "fan_of_bridge (fst c) inner" and "outer \<noteq> inner"
  shows "bridge_inv isOn (fst (fold (driveBridge setEnabled outer inner) rs c))
      (snd (fold (driveBridge setEnabled outer inner) rs c)) \<and>
    same_outputs (fst c) (fst (fold (driveBridge setEnabled outer inner) rs c))"
  using assms
proof (induction rs arbitrary: c)
  case (Cons r rs)
  obtain b w where c: "c = (b, w)" by fastforce
  obtain b' w' where e: "driveBridge setEnabled outer inner r (b, w) = (b', w')" by fastforce
  have d: "bridge_inv isOn b' w'" "same_outputs b b'"
    using driveBridge_done [OF _ _ _ Cons.prems(4) e] Cons.prems(1-3) by (simp_all add: driven_def c)
  with Cons.IH [of "(b', w')"] Cons.prems(2-4) fan_same [OF d(2)] same_outputs_trans [OF d(2)]
  show ?case by (simp add: c e)
qed simp

end

section \<open>Concrete outputs\<close>

text \<open>
  Five outputs on the pins 1 to 5, on a GPIO driver whose pin 9 answers with an error.
\<close>

datatype Output = Out_Forward | Out_Reverse | Out_Enable | Out_OuterFan | Out_InnerFan

fun ex_pin :: "Output \<Rightarrow> int" where
  "ex_pin Out_Forward = 1"
| "ex_pin Out_Reverse = 2"
| "ex_pin Out_Enable = 3"
| "ex_pin Out_OuterFan = 4"
| "ex_pin Out_InnerFan = 5"

definition ex_gpio :: "(int \<Rightarrow> u32) GpioDriver" where
  "ex_gpio =
     \<lparr>gpio_set_level = (\<lambda>pin v h. if pin = 9 then (False, h) else (True, h(pin := v))),
      gpio_config = (\<lambda>c h. (True, h))\<rparr>"

definition ex_bridge :: "Output SharedEnableBridgeSink" where
  "ex_bridge = newBridge Out_Forward Out_Reverse Out_Enable"

lemma ex_gpio_ok: "gpio_ok ex_gpio (\<lambda>pin h. h pin)"
  by (auto simp: gpio_ok_def ex_gpio_def split: if_splits)

lemma ex_pin_inj: "inj ex_pin"
proof
  fix x y :: Output
  assume "ex_pin x = ex_pin y"
  then show "x = y" by (cases x; cases y) simp_all
qed

definition ex_world :: "(Output, int \<Rightarrow> u32) EspWorld" where
  "ex_world = \<lparr>ew_state = \<lambda>x. ES_NotStarted, ew_hardware = \<lambda>pin. 0\<rparr>"

abbreviation ex_set :: "Output \<Rightarrow> bool \<Rightarrow> (Output, int \<Rightarrow> u32) EspWorld \<Rightarrow>
    bool \<times> (Output, int \<Rightarrow> u32) EspWorld" where
  "ex_set \<equiv> espSetEnabled ex_gpio ex_pin (\<lambda>x. OP_ActiveHigh)"

abbreviation ex_level :: "Output \<Rightarrow> (Output, int \<Rightarrow> u32) EspWorld \<Rightarrow> bool" where
  "ex_level \<equiv> espOn (\<lambda>pin h. h pin) ex_pin (\<lambda>x. OP_ActiveHigh)"

lemma ex_begin:
  obtains b' w' where "espBridgeBegin ex_gpio ex_pin (\<lambda>x. OP_ActiveHigh)
      (newBridge Out_Forward Out_Reverse Out_Enable) ex_world = (True, b', w')"
proof -
  have "fst (espBridgeBegin ex_gpio ex_pin (\<lambda>x. OP_ActiveHigh)
      (newBridge Out_Forward Out_Reverse Out_Enable) ex_world)"
    by (simp add: espBridgeBegin_def espBegin_def ex_gpio_def espState_def knownPolarity_def
        gpioNumberInMaskRange_def beginBridge_def allOff_def espSetEnabled_def newBridge_def
        Let_def ex_world_def)
  with that show thesis by (metis prod.collapse)
qed

definition ex_result :: "AbstractControlDirection \<Rightarrow> bool \<Rightarrow> bool \<Rightarrow> ActuatorPlanTickResult" where
  "ex_result d outer inner =
     \<lparr>ptr_status = APS_Active, ptr_reason = APR_MalformedInput, ptr_appliedDirection = d,
      ptr_outerFanEnabled = outer, ptr_innerFanEnabled = inner,
      ptr_counterDirectionConfirming = False, ptr_admissionOutcome = AAO_NoCandidate,
      ptr_acceptedCommandSequence = None, ptr_watchdogFaultActive = False\<rparr>"

abbreviation ex_started :: "Output SharedEnableBridgeSink \<times> (Output, int \<Rightarrow> u32) EspWorld" where
  "ex_started \<equiv> snd (espBridgeBegin ex_gpio ex_pin (\<lambda>x. OP_ActiveHigh)
     (newBridge Out_Forward Out_Reverse Out_Enable) ex_world)"

lemma ex_started_ok:
  "espBridgeBegin ex_gpio ex_pin (\<lambda>x. OP_ActiveHigh)
     (newBridge Out_Forward Out_Reverse Out_Enable) ex_world =
   (True, fst ex_started, snd ex_started)"
  using ex_begin by (metis prod.collapse prod.sel)

section \<open>The bridge\<close>

text \<open>C23: on the pins of the ESP-IDF, after a successful start of the bridge and any sequence of
  calls on its two directions, whatever the GPIO driver answers: both legs are never at their
  active level together; and while the bridge is ready, the shared enable is active exactly when
  one leg is.\<close>

theorem bridge_never_both_legs:
  assumes "gpio_ok gpio level" and "inj pinOf"
    and "f \<noteq> r" and "f \<noteq> e" and "r \<noteq> e"
    and "espBridgeBegin gpio pinOf polarityOf (newBridge f r e) w = (True, b', w')"
    and "fold (bridge_call (espSetEnabled gpio pinOf polarityOf)) calls (b', w') = (b'', w'')"
  shows "\<not> (espOn level pinOf polarityOf f w'' \<and> espOn level pinOf polarityOf r w'') \<and>
    (br_state b'' = BS_Ready \<longrightarrow>
       espOn level pinOf polarityOf e w'' =
         (espOn level pinOf polarityOf f w'' \<or> espOn level pinOf polarityOf r w''))"
proof -
  have i: "bridge_inv (espOn level pinOf polarityOf) b' w'" "same_outputs (newBridge f r e) b'"
    using espBridgeBegin_inv [OF assms(1,2,6)] assms(3-5)
    by (simp_all add: newBridge_def outputs_distinct_def)
  from binary_outputs.calls_inv [OF esp_outputs [OF assms(1,2)], where c = "(b', w')" and ks = calls
      and polarityOf1 = polarityOf] i assms(7)
  have "bridge_inv (espOn level pinOf polarityOf) b'' w''" "same_outputs b' b''"
    by (metis fst_conv snd_conv)+
  with i(2) show ?thesis by (auto simp: bridge_inv_def same_outputs_def newBridge_def)
qed

theorem bridge_never_both_legs_witness:
  "\<not> (ex_level Out_Forward (snd (fold (bridge_call ex_set) [BC_Forward True, BC_Reverse True]
         ex_started)) \<and>
     ex_level Out_Reverse (snd (fold (bridge_call ex_set) [BC_Forward True, BC_Reverse True]
         ex_started)))"
  using bridge_never_both_legs [OF ex_gpio_ok ex_pin_inj _ _ _ ex_started_ok surjective_pairing,
      where calls = "[BC_Forward True, BC_Reverse True]"]
  by (simp del: fold_simps)

text \<open>A bridge that has latched its fault stays faulted under any sequence of calls on its two
  directions, and no call switches any output on, whatever the GPIO driver answers.\<close>

theorem bridge_fault_latched:
  assumes "gpio_ok gpio level" and "inj pinOf" and "br_state b = BS_Faulted"
  shows "br_state (fst (fold (bridge_call (espSetEnabled gpio pinOf polarityOf)) calls (b, w))) =
      BS_Faulted \<and>
    (\<forall>x. espOn level pinOf polarityOf x
          (snd (fold (bridge_call (espSetEnabled gpio pinOf polarityOf)) calls (b, w))) \<longrightarrow>
        espOn level pinOf polarityOf x w)"
  using binary_outputs.faulted_calls
    [OF esp_outputs [OF assms(1,2), where polarityOf = polarityOf], where c = "(b, w)"] assms(3)
  by simp

theorem bridge_fault_latched_witness:
  "br_state (fst (fold (bridge_call ex_set) [BC_Forward True, BC_Forward False]
     (ex_bridge\<lparr>br_state := BS_Faulted\<rparr>, ex_world))) = BS_Faulted"
  using bridge_fault_latched [OF ex_gpio_ok ex_pin_inj,
      where b = "ex_bridge\<lparr>br_state := BS_Faulted\<rparr>" and w = ex_world
        and calls = "[BC_Forward True, BC_Forward False]" and polarityOf = "\<lambda>x. OP_ActiveHigh"]
  by simp

text \<open>An output whose polarity is not confirmed is never driven: its start answers
  \<open>BOB_PolarityUnconfirmed\<close>, and neither the start nor any later sequence of commands to it changes
  the hardware; each of these commands is refused.\<close>

theorem unconfirmed_output_untouched:
  assumes "polarityOf x = OP_Unconfirmed" and "ew_state w x = ES_NotStarted"
    and "fold (\<lambda>v w. snd (espSetEnabled gpio pinOf polarityOf x v w)) vs
      (snd (espBegin gpio pinOf polarityOf x w)) = w'"
  shows "fst (espBegin gpio pinOf polarityOf x w) = BOB_PolarityUnconfirmed \<and>
    ew_hardware w' = ew_hardware w \<and> \<not> fst (espSetEnabled gpio pinOf polarityOf x v w')"
proof -
  let ?w = "espState x ES_Unconfirmed w"
  have 1: "espBegin gpio pinOf polarityOf x w = (BOB_PolarityUnconfirmed, ?w)"
    using assms(1,2) by (simp add: espBegin_def)
  have s: "espSetEnabled gpio pinOf polarityOf x v ?w = (False, ?w)" for v
    by (simp add: espSetEnabled_def espState_def)
  have "fold (\<lambda>v w. snd (espSetEnabled gpio pinOf polarityOf x v w)) vs ?w = ?w"
    by (induction vs) (simp_all add: s)
  then have "w' = ?w" using assms(3) by (simp add: 1)
  moreover have "ew_hardware ?w = ew_hardware w" by (simp add: espState_def)
  ultimately show ?thesis by (simp add: 1 s)
qed

theorem unconfirmed_output_untouched_witness:
  "\<not> fst (espSetEnabled ex_gpio ex_pin (\<lambda>x. OP_Unconfirmed) Out_InnerFan True
      (fold (\<lambda>v w. snd (espSetEnabled ex_gpio ex_pin (\<lambda>x. OP_Unconfirmed) Out_InnerFan v w))
        [True, False] (snd (espBegin ex_gpio ex_pin (\<lambda>x. OP_Unconfirmed) Out_InnerFan ex_world))))"
  using unconfirmed_output_untouched [OF _ _ refl, where polarityOf = "\<lambda>x. OP_Unconfirmed"
      and x = Out_InnerFan and w = ex_world and vs = "[True, False]" and gpio = ex_gpio
      and pinOf = ex_pin and v = True]
  by (simp add: ex_world_def)

section \<open>The driver\<close>

lemma esp_started:
  assumes "gpio_ok gpio level" and "inj pinOf" and "distinct [f, r, e, outer, inner]"
    and "espBridgeBegin gpio pinOf polarityOf (newBridge f r e) w = (True, b', w')"
  shows "bridge_inv (espOn level pinOf polarityOf) b' w'" "br_state b' = BS_Ready"
    "same_outputs (newBridge f r e) b'" "fan_of_bridge b' outer" "fan_of_bridge b' inner"
proof -
  show 1: "bridge_inv (espOn level pinOf polarityOf) b' w'" "br_state b' = BS_Ready"
    "same_outputs (newBridge f r e) b'"
    using espBridgeBegin_inv [OF assms(1,2,4)] assms(3)
    by (simp_all add: newBridge_def outputs_distinct_def)
  show "fan_of_bridge b' outer" "fan_of_bridge b' inner"
    using assms(3) 1(3) by (auto simp: same_outputs_def fan_of_bridge_def newBridge_def)
qed

text \<open>On the pins of the ESP-IDF, after a successful start of the bridge and any sequence of
  planner results applied by the driver, the last one \<open>q\<close>, whatever the GPIO driver answers: while
  the bridge is ready, a leg is active only in the direction of \<open>q\<close>, and the shared enable is
  active only while the outer fan is.\<close>

theorem driver_peltier_needs_fan:
  assumes "gpio_ok gpio level" and "inj pinOf" and "distinct [f, r, e, outer, inner]"
    and "espBridgeBegin gpio pinOf polarityOf (newBridge f r e) w = (True, b', w')"
    and "fold (driveBridge (espSetEnabled gpio pinOf polarityOf) outer inner) (rs @ [q]) (b', w') =
      (b'', w'')"
    and "br_state b'' = BS_Ready"
  shows "(espOn level pinOf polarityOf f w'' \<longrightarrow> ptr_appliedDirection q = Dir_Heating) \<and>
    (espOn level pinOf polarityOf r w'' \<longrightarrow> ptr_appliedDirection q = Dir_Cooling) \<and>
    (espOn level pinOf polarityOf e w'' \<longrightarrow> espOn level pinOf polarityOf outer w'')"
proof -
  note s = esp_started [OF assms(1-4)]
  note out = esp_outputs [OF assms(1,2), where polarityOf = polarityOf]
  obtain b1 w1 where 1: "fold (driveBridge (espSetEnabled gpio pinOf polarityOf) outer inner) rs
      (b', w') = (b1, w1)" by fastforce
  have n: "outer \<noteq> inner" using assms(3) by simp
  have i: "bridge_inv (espOn level pinOf polarityOf) b1 w1" "same_outputs b' b1"
    using binary_outputs.drives_inv [OF out _ _ _ n, where c = "(b', w')" and rs = rs] s 1
    by simp_all
  have "driveBridge (espSetEnabled gpio pinOf polarityOf) outer inner q (b1, w1) = (b'', w'')"
    using assms(5) by (simp add: 1)
  then have "driven (espOn level pinOf polarityOf) outer (ptr_appliedDirection q) b1 b'' w''"
    using binary_outputs.driveBridge_done [OF out i(1) _ _ n] s(4,5) fan_same [OF i(2)] by blast
  moreover have "br_forwardLeg b1 = f" "br_reverseLeg b1 = r" "br_enable b1 = e"
    using s(3) i(2) by (simp_all add: same_outputs_def newBridge_def)
  ultimately show ?thesis using assms(6) by (simp add: driven_def)
qed

text \<open>The fans started before the bridge.\<close>

definition ex_driver :: "Output SharedEnableBridgeSink \<times> (Output, int \<Rightarrow> u32) EspWorld" where
  "ex_driver = snd (espBridgeBegin ex_gpio ex_pin (\<lambda>x. OP_ActiveHigh)
     (newBridge Out_Forward Out_Reverse Out_Enable)
     (snd (espBegin ex_gpio ex_pin (\<lambda>x. OP_ActiveHigh) Out_InnerFan
       (snd (espBegin ex_gpio ex_pin (\<lambda>x. OP_ActiveHigh) Out_OuterFan ex_world)))))"

definition ex_driven :: "Output SharedEnableBridgeSink \<times> (Output, int \<Rightarrow> u32) EspWorld" where
  "ex_driven = fold (driveBridge ex_set Out_OuterFan Out_InnerFan)
     ([] @ [ex_result Dir_Heating True True]) (fst ex_driver, snd ex_driver)"

lemma ex_driver_ok:
  "espBridgeBegin ex_gpio ex_pin (\<lambda>x. OP_ActiveHigh)
     (newBridge Out_Forward Out_Reverse Out_Enable)
     (snd (espBegin ex_gpio ex_pin (\<lambda>x. OP_ActiveHigh) Out_InnerFan
       (snd (espBegin ex_gpio ex_pin (\<lambda>x. OP_ActiveHigh) Out_OuterFan ex_world)))) =
   (True, fst ex_driver, snd ex_driver)"
proof -
  have "fst (espBridgeBegin ex_gpio ex_pin (\<lambda>x. OP_ActiveHigh)
     (newBridge Out_Forward Out_Reverse Out_Enable)
     (snd (espBegin ex_gpio ex_pin (\<lambda>x. OP_ActiveHigh) Out_InnerFan
       (snd (espBegin ex_gpio ex_pin (\<lambda>x. OP_ActiveHigh) Out_OuterFan ex_world)))))"
    by code_simp
  then show ?thesis by (metis ex_driver_def prod.collapse)
qed

lemma ex_heating: "br_state (fst ex_driven) = BS_Ready" "ex_level Out_Enable (snd ex_driven)"
  by code_simp+

theorem driver_peltier_needs_fan_witness:
  "ex_level Out_Enable (snd ex_driven) \<and> ex_level Out_OuterFan (snd ex_driven)"
proof -
  have "fold (driveBridge ex_set Out_OuterFan Out_InnerFan)
      ([] @ [ex_result Dir_Heating True True]) (fst ex_driver, snd ex_driver) =
      (fst ex_driven, snd ex_driven)" by (simp add: ex_driven_def)
  from driver_peltier_needs_fan [OF ex_gpio_ok ex_pin_inj _ ex_driver_ok this ex_heating(1)]
    ex_heating(2)
  show ?thesis by simp
qed

text \<open>On a ready bridge, with outputs that accept every command, the driver gives each output
  the value that the planner result asks for: the leg of the direction, the enable with a leg, the
  outer fan whenever a leg is on or the result enables it at idle, the inner fan as the result says;
  and everything is off for an unknown direction.\<close>

theorem driver_applies_result:
  assumes "binary_outputs setEnabled isOn" and "\<And>x v w. fst (setEnabled x v w)"
    and "bridge_inv isOn b w" and "br_state b = BS_Ready"
    and "distinct [br_forwardLeg b, br_reverseLeg b, br_enable b, outer, inner]"
    and "driveBridge setEnabled outer inner q (b, w) = (b', w')"
    and "d = ptr_appliedDirection q"
  shows "br_state b' = BS_Ready \<and>
    isOn (br_forwardLeg b) w' = (d = Dir_Heating) \<and>
    isOn (br_reverseLeg b) w' = (d = Dir_Cooling) \<and>
    isOn (br_enable b) w' = (d = Dir_Heating \<or> d = Dir_Cooling) \<and>
    isOn outer w' =
      (d = Dir_Heating \<or> d = Dir_Cooling \<or> d = Dir_Idle \<and> ptr_outerFanEnabled q) \<and>
    isOn inner w' = (d \<in> {Dir_Heating, Dir_Cooling, Dir_Idle} \<and> ptr_innerFanEnabled q)"
proof -
  have "fan_of_bridge b outer" "fan_of_bridge b inner" "outer \<noteq> inner"
    using assms(5) by (auto simp: fan_of_bridge_def)
  from binary_outputs.driveBridge_accepted [OF assms(1,2,3,4) this assms(6)]
  show ?thesis by (simp add: binary_outputs.as_asked_def [OF assms(1)] assms(7))
qed

lemma ideal_outputs: "binary_outputs (\<lambda>x v w. (True, w(x := v))) (\<lambda>x w. w x)"
  by unfold_locales auto

theorem driver_applies_result_witness:
  "let (b', w') = driveBridge (\<lambda>x v w. (True, w(x := v))) Out_OuterFan Out_InnerFan
      (ex_result Dir_Cooling False True) (ex_bridge\<lparr>br_state := BS_Ready\<rparr>, \<lambda>x. False)
   in br_state b' = BS_Ready \<and> w' Out_Reverse \<and> \<not> w' Out_Forward \<and> w' Out_OuterFan \<and> w' Out_InnerFan"
  using driver_applies_result [OF ideal_outputs _ _ _ _ surjective_pairing refl,
      of "ex_bridge\<lparr>br_state := BS_Ready\<rparr>" "\<lambda>x. False" Out_OuterFan Out_InnerFan
        "ex_result Dir_Cooling False True"]
  by (simp add: bridge_inv_def outputs_distinct_def ex_bridge_def newBridge_def ex_result_def
      case_prod_beta)

end
