(* ===== verification/ActuationInterlock.thy ===== *)
theory ActuationInterlock
  imports ActuatorPlanner SensorSelection
begin

text \<open>
  The interlock that gives the planner its safety gate (\<open>actuation_interlock.cpp\<close>): from one
  snapshot of the evidence of boot, configuration, run persistence, sensors and planner it computes
  the faults as a bit mask, the primary fault by priority, and the permission; and it guards the
  reset of the watchdog fault.

  The pointer to the planner is an identity of type \<open>'p\<close>; \<open>stateOf\<close> gives the state of the
  planner behind it. The pointers to the two sensor snapshots are options.
\<close>

section \<open>Evidence\<close>

datatype FaultCode =
    FC_None
  | FC_ConfigurationRuntimeFailure
  | FC_ConfigurationUnavailable
  | FC_ConfigurationIntegrityFailure
  | FC_ConfigurationCommitIndeterminate
  | FC_RunPersistenceUntrusted
  | FC_SafetySensorUnavailable
  | FC_ActuatorRequestWatchdog
  | FC_SystemProducerUnknown

datatype SafetyActivationKind = SAK_None | SAK_FreshStart | SAK_Resume

datatype ConfigurationRecoveryStatus =
    CRS_RuntimeReady
  | CRS_FactoryInitializationCompleted
  | CRS_FactoryResetCompleted
  | CRS_ConfigurationMutationBusy
  | CRS_ConfigurationModelBudgetBusy
  | CRS_StateTransitionRejected
  | CRS_ConfigurationUnavailable
  | CRS_ConfigurationIntegrityFailure
  | CRS_UnsupportedNewerConfigurationSchema
  | CRS_PersistenceReadFailure
  | CRS_PersistenceCapacityFailure
  | CRS_PersistenceWriteFailure
  | CRS_CounterOverflow
  | CRS_RuntimePreparationFailure
  | CRS_BootstrapCommitIndeterminate
  | CRS_ConfigurationRecordOutcomeIndeterminate
  | CRS_ConfigurationCommitIndeterminate
  | CRS_RunPersistenceHandoffUnavailable
  | CRS_other u8

datatype ConfigurationSafetyProducer =
  CSP_ConfigurationUnavailable | CSP_ConfigurationIntegrityFailure | CSP_other u8

datatype ConfigurationServiceMode =
    CSM_NoRuntime
  | CSM_RecoveryPreparing
  | CSM_Operational
  | CSM_CommitInProgress
  | CSM_CommitIndeterminate
  | CSM_ResetPreparing
  | CSM_ResetEligibleNoRuntime
  | CSM_EpochResetting
  | CSM_BootstrapFinalizationPending
  | CSM_RuntimeFailure
  | CSM_other u8

datatype ConfigurationCommitStatus =
    CCS_Activated
  | CCS_NoChange
  | CCS_PreviewNotFound
  | CCS_PreviewSuperseded
  | CCS_ConfigurationMutationBusy
  | CCS_ConfigurationConflictFailure
  | CCS_ConfigurationValidationFailure
  | CCS_PersistenceFailure
  | CCS_CapacityFailure
  | CCS_ConfigurationCommitIndeterminate
  | CCS_ConfigurationRuntimeFailure
  | CCS_ReadyForConfirmation
  | CCS_other u8

datatype RunPersistenceLoadStatus =
    RLS_NoPersistedRun
  | RLS_Current
  | RLS_NoActiveRun
  | RLS_FallbackRecovered
  | RLS_PreparedInterrupted
  | RLS_NotReconstructible
  | RLS_NotReconstructibleOrphanedState
  | RLS_ReadFailed
  | RLS_CapacityExceeded
  | RLS_UnsupportedSchema
  | RLS_ForeignEpoch
  | RLS_AlreadyInitialized
  | RLS_other u8

datatype RunPersistenceCoordinatorState =
    RCS_Uninitialized
  | RCS_ReadyEmpty
  | RCS_LoadedActiveRun
  | RCS_Ready
  | RCS_Busy
  | RCS_BlockedIndeterminate
  | RCS_FallbackRecoveryPending
  | RCS_PersistenceCommittedApplyFailed
  | RCS_other u8

datatype RunPersistenceResultStatus =
    RRS_Applied
  | RRS_CheckpointWritten
  | RRS_AlreadyProcessed
  | RRS_AlreadyPersisted
  | RRS_NotEligible
  | RRS_NotAllowedInState
  | RRS_NotInitialized
  | RRS_RecoveryPending
  | RRS_Busy
  | RRS_InvalidDecision
  | RRS_StaleDecision
  | RRS_TimeMismatch
  | RRS_TimeWentBackwards
  | RRS_CounterOverflow
  | RRS_WriteFailed
  | RRS_CapacityExceeded
  | RRS_PersistenceIndeterminate
  | RRS_PersistenceCommittedApplyFailed
  | RRS_Blocked
  | RRS_NotDue
  | RRS_NoActiveRun

datatype RunLoadDisposition =
    RLD_Standby
  | RLD_ResumeOffer
  | RLD_RecoveryEvaluation
  | RLD_FallbackSelectionRequired
  | RLD_NoActiveRun
  | RLD_Completed
  | RLD_TerminalFault
  | RLD_SafeBoot

record 'p ActuationEvidence =
  aev_bootValidationComplete :: bool
  aev_configurationValidated :: bool
  aev_persistenceValidated :: bool
  aev_sensorEvidenceValidated :: bool
  aev_explicitActivationRequested :: bool
  aev_plannerEvidenceValidated :: bool
  aev_activationKind :: SafetyActivationKind
  aev_configurationRecoveryStatus :: "ConfigurationRecoveryStatus option"
  aev_configurationProducer :: "ConfigurationSafetyProducer option"
  aev_configurationServiceMode :: "ConfigurationServiceMode option"
  aev_configurationCommitStatus :: "ConfigurationCommitStatus option"
  aev_persistenceLoadStatus :: "RunPersistenceLoadStatus option"
  aev_persistenceCoordinatorState :: RunPersistenceCoordinatorState
  aev_loadDisposition :: RunLoadDisposition
  aev_activationPersistenceResult :: "RunPersistenceResultStatus option"
  aev_processActivationApplied :: bool
  aev_peltierSensor :: "SensorQualitySnapshot option"
  aev_sensorSelectionRuntime :: "SensorSelectionRuntimeState option"
  aev_actuatorPlanner :: "'p option"

definition initialEvidence :: "'p ActuationEvidence" where
  "initialEvidence =
     \<lparr>aev_bootValidationComplete = False, aev_configurationValidated = False,
      aev_persistenceValidated = False, aev_sensorEvidenceValidated = False,
      aev_explicitActivationRequested = False, aev_plannerEvidenceValidated = False,
      aev_activationKind = SAK_None, aev_configurationRecoveryStatus = None,
      aev_configurationProducer = None, aev_configurationServiceMode = None,
      aev_configurationCommitStatus = None, aev_persistenceLoadStatus = None,
      aev_persistenceCoordinatorState = RCS_Uninitialized, aev_loadDisposition = RLD_SafeBoot,
      aev_activationPersistenceResult = None, aev_processActivationApplied = False,
      aev_peltierSensor = None, aev_sensorSelectionRuntime = None, aev_actuatorPlanner = None\<rparr>"

record ActuationEvaluation =
  ave_permission :: ActuatorSafetyGateStatus
  ave_faultCode :: FaultCode

section \<open>Known values\<close>

definition isKnownRecoveryStatus :: "ConfigurationRecoveryStatus \<Rightarrow> bool" where
  "isKnownRecoveryStatus s = (case s of CRS_other _ \<Rightarrow> False | _ \<Rightarrow> True)"

definition isKnownProducer :: "ConfigurationSafetyProducer \<Rightarrow> bool" where
  "isKnownProducer s = (case s of CSP_other _ \<Rightarrow> False | _ \<Rightarrow> True)"

definition isKnownServiceMode :: "ConfigurationServiceMode \<Rightarrow> bool" where
  "isKnownServiceMode s = (case s of CSM_other _ \<Rightarrow> False | _ \<Rightarrow> True)"

definition isKnownCommitStatus :: "ConfigurationCommitStatus \<Rightarrow> bool" where
  "isKnownCommitStatus s = (case s of CCS_other _ \<Rightarrow> False | _ \<Rightarrow> True)"

definition isKnownLoadStatus :: "RunPersistenceLoadStatus \<Rightarrow> bool" where
  "isKnownLoadStatus s = (case s of RLS_other _ \<Rightarrow> False | _ \<Rightarrow> True)"

definition isKnownCoordinatorState :: "RunPersistenceCoordinatorState \<Rightarrow> bool" where
  "isKnownCoordinatorState s = (case s of RCS_other _ \<Rightarrow> False | _ \<Rightarrow> True)"

section \<open>Pieces of evidence\<close>

definition isPersistenceSafeBoot :: "RunPersistenceLoadStatus \<Rightarrow> bool" where
  "isPersistenceSafeBoot s =
     (case s of RLS_NoPersistedRun \<Rightarrow> False | RLS_Current \<Rightarrow> False | RLS_NoActiveRun \<Rightarrow> False
      | RLS_FallbackRecovered \<Rightarrow> False | _ \<Rightarrow> True)"

definition isTrustedCoordinatorState :: "RunPersistenceCoordinatorState \<Rightarrow> bool" where
  "isTrustedCoordinatorState s \<longleftrightarrow>
     s = RCS_ReadyEmpty \<or> s = RCS_LoadedActiveRun \<or> s = RCS_Ready"

definition hasFreshConfigurationEvidence :: "'p ActuationEvidence \<Rightarrow> bool" where
  "hasFreshConfigurationEvidence e =
     (if \<not> aev_configurationValidated e then False
      else if (case aev_configurationRecoveryStatus e of
                 None \<Rightarrow> False
               | Some s \<Rightarrow> s = CRS_RuntimeReady \<or> s = CRS_FactoryInitializationCompleted \<or>
                           s = CRS_FactoryResetCompleted) then True
      else if aev_configurationServiceMode e = Some CSM_Operational then True
      else if aev_configurationCommitStatus e = Some CCS_Activated \<or>
              aev_configurationCommitStatus e = Some CCS_NoChange then True
      else False)"

definition hasFreshSensorEvidence :: "'p ActuationEvidence \<Rightarrow> bool" where
  "hasFreshSensorEvidence e \<longleftrightarrow>
     aev_sensorEvidenceValidated e \<and>
     (case aev_peltierSensor e of None \<Rightarrow> False | Some q \<Rightarrow> sq_quality q = SQ_Valid) \<and>
     (case aev_sensorSelectionRuntime e of
        None \<Rightarrow> False | Some r \<Rightarrow> ssr_permission r = SPP_Allowed)"

section \<open>Faults\<close>

definition faultBit :: "FaultCode \<Rightarrow> u16" where
  "faultBit c =
     (case c of
        FC_ConfigurationRuntimeFailure \<Rightarrow> push_bit 0 1
      | FC_ConfigurationUnavailable \<Rightarrow> push_bit 1 1
      | FC_ConfigurationIntegrityFailure \<Rightarrow> push_bit 2 1
      | FC_ConfigurationCommitIndeterminate \<Rightarrow> push_bit 3 1
      | FC_RunPersistenceUntrusted \<Rightarrow> push_bit 4 1
      | FC_SafetySensorUnavailable \<Rightarrow> push_bit 5 1
      | FC_ActuatorRequestWatchdog \<Rightarrow> push_bit 6 1
      | FC_SystemProducerUnknown \<Rightarrow> push_bit 7 1
      | FC_None \<Rightarrow> 0)"

definition hasFault :: "u16 \<Rightarrow> FaultCode \<Rightarrow> bool" where
  "hasFault m c = (let b = faultBit c in b \<noteq> 0 \<and> and m b \<noteq> 0)"

definition kFaultPriority :: "FaultCode list" where
  "kFaultPriority =
     [FC_ConfigurationUnavailable, FC_ConfigurationIntegrityFailure,
      FC_ConfigurationCommitIndeterminate, FC_SystemProducerUnknown, FC_RunPersistenceUntrusted,
      FC_ConfigurationRuntimeFailure, FC_SafetySensorUnavailable, FC_ActuatorRequestWatchdog]"

definition primaryFault :: "u16 \<Rightarrow> FaultCode" where
  "primaryFault m = (case find (hasFault m) kFaultPriority of None \<Rightarrow> FC_None | Some c \<Rightarrow> c)"

definition observe :: "FaultCode \<Rightarrow> u16 \<Rightarrow> u16" where
  "observe c m = or m (faultBit c)"

definition observeIf :: "bool \<Rightarrow> FaultCode \<Rightarrow> u16 \<Rightarrow> u16" where
  "observeIf b c m = (if b then observe c m else m)"

text \<open>A producer that is provided with a value outside its enumeration.\<close>

definition unknownGiven :: "('a \<Rightarrow> bool) \<Rightarrow> 'a option \<Rightarrow> bool" where
  "unknownGiven isKnown x = (case x of None \<Rightarrow> False | Some v \<Rightarrow> \<not> isKnown v)"

text \<open>The faults of the configuration, of the run persistence, and of sensors and watchdog.\<close>

definition observeKnownness :: "'p ActuationEvidence \<Rightarrow> u16 \<Rightarrow> u16" where
  "observeKnownness e m =
     (let m = observeIf (unknownGiven isKnownServiceMode (aev_configurationServiceMode e))
                FC_SystemProducerUnknown m;
          m = observeIf (unknownGiven isKnownCommitStatus (aev_configurationCommitStatus e))
                FC_SystemProducerUnknown m;
          m = observeIf (unknownGiven isKnownRecoveryStatus (aev_configurationRecoveryStatus e))
                FC_SystemProducerUnknown m;
          m = observeIf (unknownGiven isKnownProducer (aev_configurationProducer e))
                FC_SystemProducerUnknown m;
          m = observeIf (unknownGiven isKnownLoadStatus (aev_persistenceLoadStatus e))
                FC_SystemProducerUnknown m in
      observeIf (\<not> isKnownCoordinatorState (aev_persistenceCoordinatorState e))
        FC_SystemProducerUnknown m)"

definition observeConfiguration :: "'p ActuationEvidence \<Rightarrow> u16 \<Rightarrow> u16" where
  "observeConfiguration e m =
     (let m = (case aev_configurationProducer e of
                 Some CSP_ConfigurationUnavailable \<Rightarrow> observe FC_ConfigurationUnavailable m
               | Some CSP_ConfigurationIntegrityFailure \<Rightarrow>
                   observe FC_ConfigurationIntegrityFailure m
               | _ \<Rightarrow> m);
          m = (case aev_configurationServiceMode e of
                 Some CSM_CommitIndeterminate \<Rightarrow> observe FC_ConfigurationCommitIndeterminate m
               | Some CSM_BootstrapFinalizationPending \<Rightarrow>
                   observe FC_ConfigurationCommitIndeterminate m
               | Some CSM_RuntimeFailure \<Rightarrow> observe FC_ConfigurationRuntimeFailure m
               | _ \<Rightarrow> m);
          m = (case aev_configurationCommitStatus e of
                 Some CCS_ConfigurationCommitIndeterminate \<Rightarrow>
                   observe FC_ConfigurationCommitIndeterminate m
               | Some CCS_ConfigurationRuntimeFailure \<Rightarrow>
                   observe FC_ConfigurationRuntimeFailure m
               | _ \<Rightarrow> m) in
      observeIf (\<not> aev_configurationValidated e) FC_SystemProducerUnknown m)"

definition observePersistence :: "'p ActuationEvidence \<Rightarrow> u16 \<Rightarrow> u16" where
  "observePersistence e m =
     (let hasKnownLoadStatus =
            (case aev_persistenceLoadStatus e of None \<Rightarrow> False | Some s \<Rightarrow> isKnownLoadStatus s) \<and>
            aev_persistenceCoordinatorState e \<noteq> RCS_FallbackRecoveryPending;
          m = observeIf
                (\<not> hasKnownLoadStatus \<or>
                 isPersistenceSafeBoot
                   (case aev_persistenceLoadStatus e of None \<Rightarrow> RLS_ReadFailed | Some s \<Rightarrow> s) \<or>
                 aev_loadDisposition e = RLD_SafeBoot)
                FC_RunPersistenceUntrusted m;
          m = observeIf (aev_persistenceLoadStatus e = Some RLS_FallbackRecovered)
                FC_RunPersistenceUntrusted m;
          m = (case aev_persistenceCoordinatorState e of
                 RCS_BlockedIndeterminate \<Rightarrow> observe FC_RunPersistenceUntrusted m
               | RCS_PersistenceCommittedApplyFailed \<Rightarrow> observe FC_RunPersistenceUntrusted m
               | RCS_Busy \<Rightarrow> observe FC_RunPersistenceUntrusted m
               | RCS_Uninitialized \<Rightarrow> observe FC_RunPersistenceUntrusted m
               | RCS_FallbackRecoveryPending \<Rightarrow> observe FC_RunPersistenceUntrusted m
               | _ \<Rightarrow> m) in
      observeIf (\<not> aev_persistenceValidated e) FC_RunPersistenceUntrusted m)"

definition observeSensorsAndWatchdog ::
  "('p \<Rightarrow> ActuatorPlannerRuntimeState) \<Rightarrow> 'p ActuationEvidence \<Rightarrow> u16 \<Rightarrow> u16" where
  "observeSensorsAndWatchdog stateOf e m =
     (let gateNeedsSensorEvidence =
            aev_explicitActivationRequested e \<or> aev_activationKind e \<noteq> SAK_None;
          sensorPointerIsInvalid =
            (case aev_peltierSensor e of None \<Rightarrow> False | Some q \<Rightarrow> sq_quality q \<noteq> SQ_Valid);
          m = observeIf (sensorPointerIsInvalid \<or>
                         gateNeedsSensorEvidence \<and> \<not> hasFreshSensorEvidence e)
                FC_SafetySensorUnavailable m in
      observeIf (case aev_actuatorPlanner e of
                   None \<Rightarrow> False | Some p \<Rightarrow> pl_latchedWatchdogFault (stateOf p) \<noteq> None)
        FC_ActuatorRequestWatchdog m)"

definition observedFaults ::
  "('p \<Rightarrow> ActuatorPlannerRuntimeState) \<Rightarrow> 'p ActuationEvidence \<Rightarrow> u16" where
  "observedFaults stateOf e =
     observeSensorsAndWatchdog stateOf e
       (observePersistence e (observeConfiguration e (observeKnownness e 0)))"

section \<open>Evaluation and reset\<close>

definition activationEvidenceComplete ::
  "'p ActuationEvidence \<Rightarrow> SafetyActivationKind \<Rightarrow> RunLoadDisposition \<Rightarrow> bool" where
  "activationEvidenceComplete e expectedKind loadDisposition \<longleftrightarrow>
     aev_activationKind e = expectedKind \<and> aev_bootValidationComplete e \<and>
     aev_explicitActivationRequested e \<and> aev_plannerEvidenceValidated e \<and>
     hasFreshConfigurationEvidence e \<and> hasFreshSensorEvidence e \<and> aev_persistenceValidated e \<and>
     (case aev_persistenceLoadStatus e of
        None \<Rightarrow> False | Some s \<Rightarrow> isKnownLoadStatus s \<and> \<not> isPersistenceSafeBoot s) \<and>
     isTrustedCoordinatorState (aev_persistenceCoordinatorState e) \<and>
     loadDisposition \<noteq> RLD_SafeBoot \<and>
     aev_activationPersistenceResult e = Some RRS_Applied \<and> aev_processActivationApplied e"

definition evaluateInterlock ::
  "('p \<Rightarrow> ActuatorPlannerRuntimeState) \<Rightarrow> 'p ActuationEvidence \<Rightarrow> ActuationEvaluation" where
  "evaluateInterlock stateOf e =
     (let primary = primaryFault (observedFaults stateOf e) in
      if primary \<noteq> FC_None then \<lparr>ave_permission = ASG_Unresolved, ave_faultCode = primary\<rparr>
      else \<lparr>ave_permission =
              (case aev_loadDisposition e of
                 RLD_Standby \<Rightarrow>
                   if activationEvidenceComplete e SAK_FreshStart (aev_loadDisposition e)
                   then ASG_Allowed else ASG_Unresolved
               | RLD_ResumeOffer \<Rightarrow>
                   if activationEvidenceComplete e SAK_Resume (aev_loadDisposition e)
                   then ASG_Allowed else ASG_Unresolved
               | _ \<Rightarrow> ASG_Unresolved),
            ave_faultCode = FC_None\<rparr>)"

text \<open>The planner by its identity, and whether it was reset.\<close>

definition resetRequestWatchdog ::
  "'p \<Rightarrow> u64 \<Rightarrow> 'p ActuationEvidence \<Rightarrow> ('p \<Rightarrow> ActuatorPlannerRuntimeState) \<Rightarrow>
     bool \<times> ('p \<Rightarrow> ActuatorPlannerRuntimeState)" where
  "resetRequestWatchdog planner now e stateOf =
     (if aev_actuatorPlanner e \<noteq> Some planner then (False, stateOf)
      else if pl_latchedWatchdogFault (stateOf planner) = None then (False, stateOf)
      else if \<not> aev_explicitActivationRequested e then (False, stateOf)
      else if \<not> aev_bootValidationComplete e then (False, stateOf)
      else if \<not> aev_plannerEvidenceValidated e then (False, stateOf)
      else if \<not> hasFreshConfigurationEvidence e then (False, stateOf)
      else if \<not> hasFreshSensorEvidence e then (False, stateOf)
      else if \<not> aev_persistenceValidated e then (False, stateOf)
      else if (case aev_persistenceLoadStatus e of
                 None \<Rightarrow> True | Some s \<Rightarrow> \<not> isKnownLoadStatus s \<or> isPersistenceSafeBoot s) then
        (False, stateOf)
      else if \<not> isTrustedCoordinatorState (aev_persistenceCoordinatorState e) then (False, stateOf)
      else if aev_loadDisposition e = RLD_SafeBoot then (False, stateOf)
      else if ave_faultCode (evaluateInterlock stateOf e) \<noteq> FC_ActuatorRequestWatchdog then
        (False, stateOf)
      else (True, stateOf(planner := applyExternalWatchdogFaultReset now (stateOf planner))))"

end
