(* ===== verification/InterlockProperties.thy ===== *)
theory InterlockProperties
  imports ActuationInterlock
begin

text \<open>
  The properties of the interlock. The bit mask of the observed faults holds a fault exactly when
  its cause is in the evidence (\<open>observed_iff\<close>); permission, primary fault and reset follow from it.
\<close>

section \<open>The mask\<close>

lemma faultBit_and: "and (faultBit c) (faultBit d) = (if c = d then faultBit d else 0)"
  by (cases c; cases d) (simp_all add: faultBit_def)

lemma faultBit_0: "faultBit c = 0 \<longleftrightarrow> c = FC_None"
  by (cases c) (simp_all add: faultBit_def)

lemma hasFault_observe:
  "hasFault (observe c m) d \<longleftrightarrow> c = d \<and> d \<noteq> FC_None \<or> hasFault m d"
proof -
  have "and (observe c m) (faultBit d) = or (and m (faultBit d)) (and (faultBit c) (faultBit d))"
    unfolding observe_def by (rule bit.conj_disj_distrib2)
  then show ?thesis
    by (auto simp: hasFault_def faultBit_0 faultBit_and or_eq_0_iff)
qed

lemma hasFault_observeIf [simp]:
  "hasFault (observeIf b c m) d \<longleftrightarrow> b \<and> c = d \<and> d \<noteq> FC_None \<or> hasFault m d"
  by (simp add: observeIf_def hasFault_observe)

lemma hasFault_0 [simp]: "\<not> hasFault 0 d"
  by (simp add: hasFault_def)

section \<open>The causes\<close>

fun fault_cause ::
  "('p \<Rightarrow> ActuatorPlannerRuntimeState) \<Rightarrow> 'p ActuationEvidence \<Rightarrow> FaultCode \<Rightarrow> bool" where
  "fault_cause stateOf e FC_None = False"
| "fault_cause stateOf e FC_ConfigurationUnavailable =
     (aev_configurationProducer e = Some CSP_ConfigurationUnavailable)"
| "fault_cause stateOf e FC_ConfigurationIntegrityFailure =
     (aev_configurationProducer e = Some CSP_ConfigurationIntegrityFailure)"
| "fault_cause stateOf e FC_ConfigurationCommitIndeterminate =
     (aev_configurationServiceMode e = Some CSM_CommitIndeterminate \<or>
      aev_configurationServiceMode e = Some CSM_BootstrapFinalizationPending \<or>
      aev_configurationCommitStatus e = Some CCS_ConfigurationCommitIndeterminate)"
| "fault_cause stateOf e FC_ConfigurationRuntimeFailure =
     (aev_configurationServiceMode e = Some CSM_RuntimeFailure \<or>
      aev_configurationCommitStatus e = Some CCS_ConfigurationRuntimeFailure)"
| "fault_cause stateOf e FC_SystemProducerUnknown =
     ((\<exists>b. aev_configurationServiceMode e = Some (CSM_other b)) \<or>
      (\<exists>b. aev_configurationCommitStatus e = Some (CCS_other b)) \<or>
      (\<exists>b. aev_configurationRecoveryStatus e = Some (CRS_other b)) \<or>
      (\<exists>b. aev_configurationProducer e = Some (CSP_other b)) \<or>
      (\<exists>b. aev_persistenceLoadStatus e = Some (RLS_other b)) \<or>
      (\<exists>b. aev_persistenceCoordinatorState e = RCS_other b) \<or>
      \<not> aev_configurationValidated e)"
| "fault_cause stateOf e FC_RunPersistenceUntrusted =
     (aev_persistenceLoadStatus e \<notin>
        {Some RLS_NoPersistedRun, Some RLS_Current, Some RLS_NoActiveRun} \<or>
      aev_loadDisposition e = RLD_SafeBoot \<or> \<not> aev_persistenceValidated e \<or>
      aev_persistenceCoordinatorState e \<in>
        {RCS_BlockedIndeterminate, RCS_PersistenceCommittedApplyFailed, RCS_Busy,
         RCS_Uninitialized, RCS_FallbackRecoveryPending})"
| "fault_cause stateOf e FC_SafetySensorUnavailable =
     ((\<exists>q. aev_peltierSensor e = Some q \<and> sq_quality q \<noteq> SQ_Valid) \<or>
      (aev_explicitActivationRequested e \<or> aev_activationKind e \<noteq> SAK_None) \<and>
        \<not> hasFreshSensorEvidence e)"
| "fault_cause stateOf e FC_ActuatorRequestWatchdog =
     (\<exists>p. aev_actuatorPlanner e = Some p \<and> pl_latchedWatchdogFault (stateOf p) \<noteq> None)"

lemma known_iff:
  "isKnownServiceMode a \<longleftrightarrow> (\<forall>x. a \<noteq> CSM_other x)" "isKnownCommitStatus b \<longleftrightarrow> (\<forall>x. b \<noteq> CCS_other x)"
  "isKnownRecoveryStatus c \<longleftrightarrow> (\<forall>x. c \<noteq> CRS_other x)" "isKnownProducer d \<longleftrightarrow> (\<forall>x. d \<noteq> CSP_other x)"
  "isKnownLoadStatus f \<longleftrightarrow> (\<forall>x. f \<noteq> RLS_other x)"
  "isKnownCoordinatorState g \<longleftrightarrow> (\<forall>x. g \<noteq> RCS_other x)"
  by (simp_all add: isKnownServiceMode_def isKnownCommitStatus_def isKnownRecoveryStatus_def
      isKnownProducer_def isKnownLoadStatus_def isKnownCoordinatorState_def
      split: ConfigurationServiceMode.split ConfigurationCommitStatus.split
        ConfigurationRecoveryStatus.split ConfigurationSafetyProducer.split
        RunPersistenceLoadStatus.split RunPersistenceCoordinatorState.split)

lemma observed_iff: "hasFault (observedFaults stateOf e) c \<longleftrightarrow> fault_cause stateOf e c"
proof -
  have k: "hasFault (observeKnownness e m) d \<longleftrightarrow>
      hasFault m d \<or> d = FC_SystemProducerUnknown \<and>
        ((\<exists>b. aev_configurationServiceMode e = Some (CSM_other b)) \<or>
         (\<exists>b. aev_configurationCommitStatus e = Some (CCS_other b)) \<or>
         (\<exists>b. aev_configurationRecoveryStatus e = Some (CRS_other b)) \<or>
         (\<exists>b. aev_configurationProducer e = Some (CSP_other b)) \<or>
         (\<exists>b. aev_persistenceLoadStatus e = Some (RLS_other b)) \<or>
         (\<exists>b. aev_persistenceCoordinatorState e = RCS_other b))" for m d
    by (auto simp: observeKnownness_def Let_def unknownGiven_def known_iff split: option.splits)
  have f: "hasFault (observeConfiguration e m) d \<longleftrightarrow>
      hasFault m d \<or> d = FC_SystemProducerUnknown \<and> \<not> aev_configurationValidated e \<or>
        d \<noteq> FC_SystemProducerUnknown \<and> d \<notin> {FC_RunPersistenceUntrusted,
          FC_SafetySensorUnavailable, FC_ActuatorRequestWatchdog} \<and> fault_cause stateOf e d" for m d
    by (cases d) (auto simp: observeConfiguration_def Let_def hasFault_observe
        split: option.splits ConfigurationSafetyProducer.splits ConfigurationServiceMode.splits
          ConfigurationCommitStatus.splits)
  have p: "hasFault (observePersistence e m) d \<longleftrightarrow>
      hasFault m d \<or> d = FC_RunPersistenceUntrusted \<and> fault_cause stateOf e d" for m d
    by (auto simp: observePersistence_def Let_def hasFault_observe known_iff isPersistenceSafeBoot_def
        split: option.splits RunPersistenceLoadStatus.splits RunPersistenceCoordinatorState.splits)
  have s: "hasFault (observeSensorsAndWatchdog stateOf e m) d \<longleftrightarrow>
      hasFault m d \<or> d \<in> {FC_SafetySensorUnavailable, FC_ActuatorRequestWatchdog} \<and>
        fault_cause stateOf e d" for m d
    by (auto simp: observeSensorsAndWatchdog_def Let_def split: option.splits)
  show ?thesis by (cases c) (auto simp: observedFaults_def k f p s)
qed

lemma primary_cases:
  "primaryFault m = FC_None \<longleftrightarrow> (\<forall>c. \<not> hasFault m c)"
  "primaryFault m = c \<Longrightarrow> c \<noteq> FC_None \<Longrightarrow> hasFault m c \<and>
     (\<forall>d \<in> set (takeWhile (\<lambda>x. x \<noteq> c) kFaultPriority). \<not> hasFault m d)"
proof -
  have n: "\<not> hasFault m FC_None" by (simp add: hasFault_def faultBit_def)
  have mem: "x \<in> set kFaultPriority \<longleftrightarrow> x \<noteq> FC_None" for x
    by (cases x) (simp_all add: kFaultPriority_def)
  show "primaryFault m = FC_None \<longleftrightarrow> (\<forall>c. \<not> hasFault m c)"
  proof (cases "find (hasFault m) kFaultPriority")
    case None
    then have "\<not> hasFault m c" for c using n mem by (cases "c = FC_None") (auto simp: find_None_iff)
    then show ?thesis using None by (simp add: primaryFault_def)
  next
    case (Some x)
    then have "hasFault m x" by (auto simp: find_Some_iff)
    moreover from this n have "x \<noteq> FC_None" by auto
    ultimately show ?thesis using Some by (auto simp: primaryFault_def)
  qed
  have t: "find P xs = Some c \<Longrightarrow> P c \<and> (\<forall>d \<in> set (takeWhile (\<lambda>x. x \<noteq> c) xs). \<not> P d)"
    for P :: "FaultCode \<Rightarrow> bool" and xs
    by (induction xs) (auto split: if_splits)
  assume "primaryFault m = c" "c \<noteq> FC_None"
  then have "find (hasFault m) kFaultPriority = Some c"
    by (auto simp: primaryFault_def split: option.splits)
  then show "hasFault m c \<and>
     (\<forall>d \<in> set (takeWhile (\<lambda>x. x \<noteq> c) kFaultPriority). \<not> hasFault m d)" by (rule t)
qed

lemma allowed_iff:
  "ave_permission (evaluateInterlock stateOf e) = ASG_Allowed \<longleftrightarrow>
     (\<forall>c. \<not> fault_cause stateOf e c) \<and>
     (aev_loadDisposition e = RLD_Standby \<and>
        activationEvidenceComplete e SAK_FreshStart RLD_Standby \<or>
      aev_loadDisposition e = RLD_ResumeOffer \<and>
        activationEvidenceComplete e SAK_Resume RLD_ResumeOffer)"
  using primary_cases(1) [of "observedFaults stateOf e"]
  by (auto simp: evaluateInterlock_def Let_def observed_iff split: RunLoadDisposition.splits)

lemma configuration_evidence:
  "hasFreshConfigurationEvidence e \<longleftrightarrow> aev_configurationValidated e \<and>
     (aev_configurationRecoveryStatus e \<in> {Some CRS_RuntimeReady,
        Some CRS_FactoryInitializationCompleted, Some CRS_FactoryResetCompleted} \<or>
      aev_configurationServiceMode e = Some CSM_Operational \<or>
      aev_configurationCommitStatus e \<in> {Some CCS_Activated, Some CCS_NoChange})"
  by (auto simp: hasFreshConfigurationEvidence_def split: option.splits)

lemma sensor_evidence:
  "hasFreshSensorEvidence e \<longleftrightarrow> aev_sensorEvidenceValidated e \<and>
     (\<exists>q r. aev_peltierSensor e = Some q \<and> sq_quality q = SQ_Valid \<and>
        aev_sensorSelectionRuntime e = Some r \<and> ssr_permission r = SPP_Allowed)"
  by (auto simp: hasFreshSensorEvidence_def split: option.splits)

lemma no_cause_iff:
  "(\<forall>c. \<not> fault_cause stateOf e c) \<longleftrightarrow>
     aev_configurationProducer e = None \<and>
     aev_configurationServiceMode e \<notin> {Some CSM_CommitIndeterminate,
       Some CSM_BootstrapFinalizationPending, Some CSM_RuntimeFailure} \<and>
     aev_configurationCommitStatus e \<notin> {Some CCS_ConfigurationCommitIndeterminate,
       Some CCS_ConfigurationRuntimeFailure} \<and>
     (\<forall>b. aev_configurationServiceMode e \<noteq> Some (CSM_other b)) \<and>
     (\<forall>b. aev_configurationCommitStatus e \<noteq> Some (CCS_other b)) \<and>
     (\<forall>b. aev_configurationRecoveryStatus e \<noteq> Some (CRS_other b)) \<and>
     aev_persistenceLoadStatus e \<in> {Some RLS_NoPersistedRun, Some RLS_Current,
       Some RLS_NoActiveRun} \<and>
     aev_persistenceCoordinatorState e \<in> {RCS_ReadyEmpty, RCS_LoadedActiveRun, RCS_Ready} \<and>
     aev_configurationValidated e \<and> aev_persistenceValidated e \<and>
     aev_loadDisposition e \<noteq> RLD_SafeBoot \<and>
     \<not> fault_cause stateOf e FC_SafetySensorUnavailable \<and>
     \<not> fault_cause stateOf e FC_ActuatorRequestWatchdog"
proof -
  have all: "(\<forall>c. P c) \<longleftrightarrow> P FC_None \<and> P FC_ConfigurationRuntimeFailure \<and>
      P FC_ConfigurationUnavailable \<and> P FC_ConfigurationIntegrityFailure \<and>
      P FC_ConfigurationCommitIndeterminate \<and> P FC_RunPersistenceUntrusted \<and>
      P FC_SafetySensorUnavailable \<and> P FC_ActuatorRequestWatchdog \<and> P FC_SystemProducerUnknown"
    for P using FaultCode.exhaust by metis
  have producer: "aev_configurationProducer e = None \<longleftrightarrow>
      aev_configurationProducer e \<noteq> Some CSP_ConfigurationUnavailable \<and>
      aev_configurationProducer e \<noteq> Some CSP_ConfigurationIntegrityFailure \<and>
      (\<forall>b. aev_configurationProducer e \<noteq> Some (CSP_other b))"
    by (metis ConfigurationSafetyProducer.exhaust not_None_eq)
  have state: "aev_persistenceCoordinatorState e \<in> {RCS_ReadyEmpty, RCS_LoadedActiveRun, RCS_Ready}
      \<longleftrightarrow> aev_persistenceCoordinatorState e \<notin>
        {RCS_BlockedIndeterminate, RCS_PersistenceCommittedApplyFailed, RCS_Busy,
         RCS_Uninitialized, RCS_FallbackRecoveryPending} \<and>
      (\<forall>b. aev_persistenceCoordinatorState e \<noteq> RCS_other b)"
    by (cases "aev_persistenceCoordinatorState e") simp_all
  have status: "aev_persistenceLoadStatus e \<in> {Some RLS_NoPersistedRun, Some RLS_Current,
      Some RLS_NoActiveRun} \<Longrightarrow> aev_persistenceLoadStatus e \<noteq> Some (RLS_other b)" for b
    by auto
  show ?thesis
    unfolding all producer state fault_cause.simps(1-7) not_ex de_Morgan_disj not_not not_False_eq_True
    unfolding insert_iff empty_iff
    using status [unfolded insert_iff empty_iff] by blast
qed

section \<open>The evidence\<close>

lemma allowed_evidence:
  "ave_permission (evaluateInterlock stateOf e) = ASG_Allowed \<longleftrightarrow>
     (aev_loadDisposition e = RLD_Standby \<and> aev_activationKind e = SAK_FreshStart \<or>
      aev_loadDisposition e = RLD_ResumeOffer \<and> aev_activationKind e = SAK_Resume) \<and>
     aev_explicitActivationRequested e \<and> aev_processActivationApplied e \<and>
     aev_activationPersistenceResult e = Some RRS_Applied \<and>
     aev_bootValidationComplete e \<and> aev_configurationValidated e \<and> aev_persistenceValidated e \<and>
     aev_sensorEvidenceValidated e \<and> aev_plannerEvidenceValidated e \<and>
     (aev_configurationRecoveryStatus e \<in> {Some CRS_RuntimeReady,
        Some CRS_FactoryInitializationCompleted, Some CRS_FactoryResetCompleted} \<or>
      aev_configurationServiceMode e = Some CSM_Operational \<or>
      aev_configurationCommitStatus e \<in> {Some CCS_Activated, Some CCS_NoChange}) \<and>
     (\<forall>b. aev_configurationRecoveryStatus e \<noteq> Some (CRS_other b)) \<and>
     aev_configurationProducer e = None \<and>
     aev_configurationServiceMode e \<notin> {Some CSM_CommitIndeterminate,
       Some CSM_BootstrapFinalizationPending, Some CSM_RuntimeFailure} \<and>
     (\<forall>b. aev_configurationServiceMode e \<noteq> Some (CSM_other b)) \<and>
     aev_configurationCommitStatus e \<notin> {Some CCS_ConfigurationCommitIndeterminate,
       Some CCS_ConfigurationRuntimeFailure} \<and>
     (\<forall>b. aev_configurationCommitStatus e \<noteq> Some (CCS_other b)) \<and>
     aev_persistenceLoadStatus e \<in> {Some RLS_NoPersistedRun, Some RLS_Current,
       Some RLS_NoActiveRun} \<and>
     aev_persistenceCoordinatorState e \<in> {RCS_ReadyEmpty, RCS_LoadedActiveRun, RCS_Ready} \<and>
     (\<exists>q r. aev_peltierSensor e = Some q \<and> sq_quality q = SQ_Valid \<and>
        aev_sensorSelectionRuntime e = Some r \<and> ssr_permission r = SPP_Allowed) \<and>
     (\<forall>p. aev_actuatorPlanner e = Some p \<longrightarrow> pl_latchedWatchdogFault (stateOf p) = None)"
  (is "?a = ?b")
proof -
  have comp: "activationEvidenceComplete e k d \<longleftrightarrow> aev_activationKind e = k \<and>
      aev_bootValidationComplete e \<and> aev_explicitActivationRequested e \<and>
      aev_plannerEvidenceValidated e \<and> hasFreshConfigurationEvidence e \<and>
      hasFreshSensorEvidence e \<and> aev_persistenceValidated e \<and>
      aev_activationPersistenceResult e = Some RRS_Applied \<and> aev_processActivationApplied e"
    if "\<forall>c. \<not> fault_cause stateOf e c" "d \<noteq> RLD_SafeBoot" for k d
  proof -
    from that(1) have "aev_persistenceLoadStatus e \<in>
        {Some RLS_NoPersistedRun, Some RLS_Current, Some RLS_NoActiveRun}"
      unfolding no_cause_iff by - (elim conjE, assumption)
    then have l: "(case aev_persistenceLoadStatus e of None \<Rightarrow> False
        | Some s \<Rightarrow> isKnownLoadStatus s \<and> \<not> isPersistenceSafeBoot s) = True"
      by (auto simp: known_iff isPersistenceSafeBoot_def)
    from that(1) have
      "aev_persistenceCoordinatorState e \<in> {RCS_ReadyEmpty, RCS_LoadedActiveRun, RCS_Ready}"
      unfolding no_cause_iff by - (elim conjE, assumption)
    then have c: "isTrustedCoordinatorState (aev_persistenceCoordinatorState e)"
      by (simp add: isTrustedCoordinatorState_def)
    show ?thesis
      unfolding activationEvidenceComplete_def l by (simp add: c that(2))
  qed
  have "?a \<longleftrightarrow> (\<forall>c. \<not> fault_cause stateOf e c) \<and>
      (aev_loadDisposition e = RLD_Standby \<and> aev_activationKind e = SAK_FreshStart \<or>
       aev_loadDisposition e = RLD_ResumeOffer \<and> aev_activationKind e = SAK_Resume) \<and>
      aev_bootValidationComplete e \<and> aev_explicitActivationRequested e \<and>
      aev_plannerEvidenceValidated e \<and> hasFreshConfigurationEvidence e \<and>
      hasFreshSensorEvidence e \<and> aev_persistenceValidated e \<and>
      aev_activationPersistenceResult e = Some RRS_Applied \<and> aev_processActivationApplied e"
    (is "_ \<longleftrightarrow> ?n \<and> ?d \<and> ?r")
  proof (cases ?n)
    case True
    have "activationEvidenceComplete e SAK_FreshStart RLD_Standby \<longleftrightarrow>
        aev_activationKind e = SAK_FreshStart \<and> ?r"
      and "activationEvidenceComplete e SAK_Resume RLD_ResumeOffer \<longleftrightarrow>
        aev_activationKind e = SAK_Resume \<and> ?r"
      by (simp_all add: comp [OF True])
    then show ?thesis unfolding allowed_iff by blast
  next
    case False
    then show ?thesis unfolding allowed_iff by blast
  qed
  also have "\<dots> \<longleftrightarrow> ?b"
  proof
    assume a: "?n \<and> ?d \<and> ?r"
    then have s: "hasFreshSensorEvidence e" and c: "hasFreshConfigurationEvidence e"
      by - (elim conjE, assumption)+
    from a have n: ?n by (rule conjunct1)
    from n have "\<not> fault_cause stateOf e FC_ActuatorRequestWatchdog" by blast
    then have w: "\<forall>p. aev_actuatorPlanner e = Some p \<longrightarrow> pl_latchedWatchdogFault (stateOf p) = None"
      by simp
    from a w n [unfolded no_cause_iff] s [unfolded sensor_evidence] c [unfolded configuration_evidence]
    show ?b by - (elim conjE, (intro conjI; assumption))
  next
    assume b: ?b
    then have c: "hasFreshConfigurationEvidence e"
      unfolding configuration_evidence by - (elim conjE, (intro conjI; assumption))
    from b have s: "hasFreshSensorEvidence e"
      unfolding sensor_evidence by - (elim conjE, (intro conjI; assumption))
    from b have "\<exists>q r. aev_peltierSensor e = Some q \<and> sq_quality q = SQ_Valid \<and>
        aev_sensorSelectionRuntime e = Some r \<and> ssr_permission r = SPP_Allowed"
      by - (elim conjE, assumption)
    with s have sf: "\<not> fault_cause stateOf e FC_SafetySensorUnavailable" by auto
    from b have w: "\<not> fault_cause stateOf e FC_ActuatorRequestWatchdog"
      by - (elim conjE, simp)
    from b have d: ?d by - (elim conjE, assumption)
    then have "aev_loadDisposition e \<noteq> RLD_SafeBoot" by auto
    with b sf w have "?n"
      unfolding no_cause_iff by - (elim conjE, (intro conjI; assumption))
    with b c s show "?n \<and> ?d \<and> ?r" by - (elim conjE, (intro conjI; assumption))
  qed
  finally show ?thesis .
qed

lemma first_cause:
  "primaryFault (observedFaults stateOf e) =
     (case find (fault_cause stateOf e) kFaultPriority of None \<Rightarrow> FC_None | Some c \<Rightarrow> c)"
proof -
  have "hasFault (observedFaults stateOf e) = fault_cause stateOf e" by (intro ext observed_iff)
  then show ?thesis by (simp add: primaryFault_def)
qed

lemma primary_is_first:
  "ave_faultCode (evaluateInterlock stateOf e) =
     (case find (fault_cause stateOf e) kFaultPriority of None \<Rightarrow> FC_None | Some c \<Rightarrow> c)"
  by (simp add: evaluateInterlock_def Let_def first_cause)

lemma other_causes:
  "c \<noteq> FC_ActuatorRequestWatchdog \<Longrightarrow> fault_cause f e c = fault_cause g e c"
  by (cases c) simp_all

lemma only_watchdog:
  assumes "ave_faultCode (evaluateInterlock f e) = FC_ActuatorRequestWatchdog"
  shows "fault_cause f e c = (c = FC_ActuatorRequestWatchdog)"
  using assms unfolding primary_is_first
  by (cases c) (simp_all add: kFaultPriority_def del: fault_cause.simps(2-9) split: if_splits)

lemma watchdog_is_last:
  assumes "ave_faultCode (evaluateInterlock f e) = FC_ActuatorRequestWatchdog"
    and "\<not> fault_cause g e FC_ActuatorRequestWatchdog"
  shows "ave_faultCode (evaluateInterlock g e) = FC_None"
proof -
  have "\<not> fault_cause g e c" for c
    using other_causes [of c f e g] assms(2) only_watchdog [OF assms(1), of c]
    by (cases "c = FC_ActuatorRequestWatchdog") auto
  then show ?thesis unfolding primary_is_first by (simp add: find_None_iff [THEN iffD2])
qed

section \<open>An example\<close>

definition ex_evidence :: "nat ActuationEvidence" where
  "ex_evidence = initialEvidence
     \<lparr>aev_bootValidationComplete := True, aev_configurationValidated := True,
      aev_persistenceValidated := True, aev_sensorEvidenceValidated := True,
      aev_explicitActivationRequested := True, aev_plannerEvidenceValidated := True,
      aev_activationKind := SAK_FreshStart,
      aev_configurationServiceMode := Some CSM_Operational,
      aev_persistenceLoadStatus := Some RLS_NoPersistedRun,
      aev_persistenceCoordinatorState := RCS_Ready, aev_loadDisposition := RLD_Standby,
      aev_activationPersistenceResult := Some RRS_Applied, aev_processActivationApplied := True,
      aev_peltierSensor := Some
        (initialSensorQualitySnapshot\<lparr>sq_quality := SQ_Valid\<rparr>), aev_sensorSelectionRuntime := Some
        (initialSensorSelectionRuntime\<lparr>ssr_permission := SPP_Allowed\<rparr>),
      aev_actuatorPlanner := Some 0\<rparr>"

definition ex_latched :: "nat \<Rightarrow> ActuatorPlannerRuntimeState" where
  "ex_latched = (\<lambda>_. initialPlannerState\<lparr>pl_latchedWatchdogFault :=
     Some \<lparr>wfe_detectedAtMonotonicMillis = 5,
           wfe_lastObservedSequenceHighWatermarkBeforeFault = 2\<rparr>\<rparr>)"

lemma ex_fault: "ave_faultCode (evaluateInterlock ex_latched ex_evidence) = FC_ActuatorRequestWatchdog"
  by (simp add: primary_is_first kFaultPriority_def ex_evidence_def initialEvidence_def
      ex_latched_def hasFreshSensorEvidence_def)

definition ex_unlatched :: "nat \<Rightarrow> ActuatorPlannerRuntimeState" where
  "ex_unlatched = (\<lambda>_. initialPlannerState)"

lemma ex_allowed: "ave_permission (evaluateInterlock ex_unlatched ex_evidence) = ASG_Allowed"
  unfolding allowed_evidence
  by (simp add: ex_evidence_def initialEvidence_def ex_unlatched_def initialPlannerState_def)

section \<open>Permission and fault\<close>

text \<open>C28: the interlock allows the actuators exactly on complete positive evidence: a fresh start
  from standby or the resume of an offered run, explicitly requested, applied by process and
  persistence; boot, configuration, persistence, sensors and planner validated; a configuration
  that some producer reports ready and none reports missing, damaged, indeterminate or failed; a
  run record that is current or absent behind a trusted coordinator; a valid Peltier sensor and a
  sensor selection that allows; no latched watchdog fault; and no value outside the enumerations.\<close>

theorem interlock_allowed_iff:
  "ave_permission (evaluateInterlock stateOf e) = ASG_Allowed \<longleftrightarrow>
     (aev_loadDisposition e = RLD_Standby \<and> aev_activationKind e = SAK_FreshStart \<or>
      aev_loadDisposition e = RLD_ResumeOffer \<and> aev_activationKind e = SAK_Resume) \<and>
     aev_explicitActivationRequested e \<and> aev_processActivationApplied e \<and>
     aev_activationPersistenceResult e = Some RRS_Applied \<and>
     aev_bootValidationComplete e \<and> aev_configurationValidated e \<and> aev_persistenceValidated e \<and>
     aev_sensorEvidenceValidated e \<and> aev_plannerEvidenceValidated e \<and>
     (aev_configurationRecoveryStatus e \<in> {Some CRS_RuntimeReady,
        Some CRS_FactoryInitializationCompleted, Some CRS_FactoryResetCompleted} \<or>
      aev_configurationServiceMode e = Some CSM_Operational \<or>
      aev_configurationCommitStatus e \<in> {Some CCS_Activated, Some CCS_NoChange}) \<and>
     (\<forall>b. aev_configurationRecoveryStatus e \<noteq> Some (CRS_other b)) \<and>
     aev_configurationProducer e = None \<and>
     aev_configurationServiceMode e \<notin> {Some CSM_CommitIndeterminate,
       Some CSM_BootstrapFinalizationPending, Some CSM_RuntimeFailure} \<and>
     (\<forall>b. aev_configurationServiceMode e \<noteq> Some (CSM_other b)) \<and>
     aev_configurationCommitStatus e \<notin> {Some CCS_ConfigurationCommitIndeterminate,
       Some CCS_ConfigurationRuntimeFailure} \<and>
     (\<forall>b. aev_configurationCommitStatus e \<noteq> Some (CCS_other b)) \<and>
     aev_persistenceLoadStatus e \<in> {Some RLS_NoPersistedRun, Some RLS_Current,
       Some RLS_NoActiveRun} \<and>
     aev_persistenceCoordinatorState e \<in> {RCS_ReadyEmpty, RCS_LoadedActiveRun, RCS_Ready} \<and>
     (\<exists>q r. aev_peltierSensor e = Some q \<and> sq_quality q = SQ_Valid \<and>
        aev_sensorSelectionRuntime e = Some r \<and> ssr_permission r = SPP_Allowed) \<and>
     (case aev_actuatorPlanner e of None \<Rightarrow> True
      | Some p \<Rightarrow> pl_latchedWatchdogFault (stateOf p) = None)"
  unfolding case_option_True_iff by (rule allowed_evidence)

text \<open>The fault that the interlock reports is the first of the priority list whose cause is in
  the evidence; none is reported exactly when no cause is.\<close>

theorem interlock_primary_fault:
  "ave_faultCode (evaluateInterlock stateOf e) =
     (case find (fault_cause stateOf e) kFaultPriority of None \<Rightarrow> FC_None | Some c \<Rightarrow> c)"
  by (rule primary_is_first)

section \<open>The reset of the watchdog fault\<close>

text \<open>A reset that succeeds was asked for explicitly and named the planner of the evidence, whose
  fault was latched; configuration, sensors and persistence were positively evidenced and the
  watchdog was the only fault left. It clears the latch of that planner and nothing else, and
  afterwards the interlock reports no fault. A refused reset changes nothing.\<close>

theorem interlock_watchdog_reset:
  assumes "resetRequestWatchdog planner now e stateOf = (done, stateOf')"
  shows "if done then
      aev_actuatorPlanner e = Some planner \<and> pl_latchedWatchdogFault (stateOf planner) \<noteq> None \<and>
      aev_explicitActivationRequested e \<and> hasFreshConfigurationEvidence e \<and>
      hasFreshSensorEvidence e \<and> aev_persistenceValidated e \<and>
      (\<forall>c. fault_cause stateOf e c = (c = FC_ActuatorRequestWatchdog)) \<and>
      stateOf' = stateOf(planner := (stateOf planner)\<lparr>pl_latchedWatchdogFault := None\<rparr>) \<and>
      ave_faultCode (evaluateInterlock stateOf' e) = FC_None
    else stateOf' = stateOf"
proof (cases "done")
  case True
  have *: "aev_actuatorPlanner e = Some planner \<and> pl_latchedWatchdogFault (stateOf planner) \<noteq> None \<and>
      aev_explicitActivationRequested e \<and> hasFreshConfigurationEvidence e \<and>
      hasFreshSensorEvidence e \<and> aev_persistenceValidated e \<and>
      ave_faultCode (evaluateInterlock stateOf e) = FC_ActuatorRequestWatchdog \<and>
      stateOf' = stateOf(planner := (stateOf planner)\<lparr>pl_latchedWatchdogFault := None\<rparr>)"
    using assms True
    by (simp add: resetRequestWatchdog_def applyExternalWatchdogFaultReset_def split: if_splits)
  then have a: "aev_actuatorPlanner e = Some planner"
      "ave_faultCode (evaluateInterlock stateOf e) = FC_ActuatorRequestWatchdog"
      "stateOf' = stateOf(planner := (stateOf planner)\<lparr>pl_latchedWatchdogFault := None\<rparr>)"
    by blast+
  then have "\<not> fault_cause stateOf' e FC_ActuatorRequestWatchdog" by auto
  with a(2) have "ave_faultCode (evaluateInterlock stateOf' e) = FC_None"
    by (rule watchdog_is_last)
  moreover have "\<forall>c. fault_cause stateOf e c = (c = FC_ActuatorRequestWatchdog)"
    using only_watchdog [OF a(2)] by blast
  ultimately show ?thesis using True * by (auto simp: a(2))
next
  case False
  then show ?thesis using assms by (simp add: resetRequestWatchdog_def split: if_splits)
qed

theorem interlock_watchdog_reset_witness:
  "fst (resetRequestWatchdog 0 7 ex_evidence ex_latched) \<and>
   ave_faultCode (evaluateInterlock ex_latched ex_evidence) = FC_ActuatorRequestWatchdog \<and>
   ave_faultCode (evaluateInterlock
     (snd (resetRequestWatchdog 0 7 ex_evidence ex_latched)) ex_evidence) = FC_None"
proof -
  have "fst (resetRequestWatchdog 0 7 ex_evidence ex_latched)"
    by (simp add: resetRequestWatchdog_def ex_fault)
      (simp add: ex_evidence_def initialEvidence_def ex_latched_def configuration_evidence
        sensor_evidence known_iff isPersistenceSafeBoot_def isTrustedCoordinatorState_def)
  note d = this
  have "ave_faultCode (evaluateInterlock
      (snd (resetRequestWatchdog 0 7 ex_evidence ex_latched)) ex_evidence) = FC_None"
    using interlock_watchdog_reset [OF surjective_pairing, of 0 7 ex_evidence ex_latched]
    unfolding if_P [OF d] by - (elim conjE, assumption)
  with d ex_fault show ?thesis by blast
qed

end
