(* ===== verification/ControlProofs.thy ===== *)
theory ControlProofs
  imports TemperatureControl
begin

text \<open>
  Invariant of the temperature controller and what one evaluation does. The states that the
  controller reaches have a finite integral between 0 and 1, and an open feedback window only for
  a request that was issued before.
\<close>

section \<open>Selectors\<close>

lemma onControlState_sel [simp]:
  "tc_state (onControlState f c) = f (tc_state c)"
  "tc_parameters (onControlState f c) = tc_parameters c"
  "tc_policy (onControlState f c) = tc_policy c"
  "tc_nextRequestSequence (onControlState f c) = tc_nextRequestSequence c"
  "tc_requestIdentityExhausted (onControlState f c) = tc_requestIdentityExhausted c"
  by (simp_all add: onControlState_def)

lemma useRequestSequence_sel [simp]:
  "tc_state (useRequestSequence c) = tc_state c"
  "tc_parameters (useRequestSequence c) = tc_parameters c"
  "tc_policy (useRequestSequence c) = tc_policy c"
  by (simp_all add: useRequestSequence_def)

lemma invalidResult_sel [simp]:
  "tcr_status (invalidResult st r a) = st" "tcr_reason (invalidResult st r a) = r"
  "tcr_airLimitState (invalidResult st r a) = a" "tcr_direction (invalidResult st r a) = Dir_Idle"
  "tcr_timeQuote (invalidResult st r a) = F64 0"
  "tcr_controlRequest (invalidResult st r a) = None"
  by (simp_all add: invalidResult_def emptyControlResult_def)

lemma newRequest_sel [simp]:
  "id_sequence (creq_identity (newRequest c i d q)) = tc_nextRequestSequence c"
  "ctx_controlSensorRole (creq_context (newRequest c i d q)) = tci_controlSensorRole i"
  "creq_direction (newRequest c i d q) = d" "creq_timeQuote (newRequest c i d q) = q"
  by (simp_all add: newRequest_def)

lemma closeFeedbackWindow_sel [simp]:
  "tc_state (closeFeedbackWindow c) = (tc_state c)\<lparr>tct_feedbackWindow := None\<rparr>"
  "tc_parameters (closeFeedbackWindow c) = tc_parameters c"
  "tc_policy (closeFeedbackWindow c) = tc_policy c"
  "tc_nextRequestSequence (closeFeedbackWindow c) = tc_nextRequestSequence c"
  "tc_requestIdentityExhausted (closeFeedbackWindow c) = tc_requestIdentityExhausted c"
  by (simp_all add: closeFeedbackWindow_def)

section \<open>Values between bounds\<close>

definition between :: "rat \<Rightarrow> f64 \<Rightarrow> rat \<Rightarrow> bool" where
  "between a x b \<longleftrightarrow> (\<exists>q. x = F64 q \<and> a \<le> q \<and> q \<le> b)"

lemma between_F64 [simp]: "between a (F64 q) b \<longleftrightarrow> a \<le> q \<and> q \<le> b"
  by (simp add: between_def)

lemma valid_profile:
  assumes "validDirectionParameters p"
  obtains kp ki band m where
    "pid_proportionalGainQuotePerCelsius p = F64 kp" "0 < kp"
    "pid_integralGainQuotePerCelsiusSecond p = F64 ki" "0 < ki"
    "pid_neutralBandWidthCelsius p = F64 band" "0 < band"
    "pid_maximumQuote p = F64 m" "0 < m" "m \<le> 1"
  using assms by (auto simp: validDirectionParameters_def isfinite_iff)

lemma fmin_between: "between a x b \<Longrightarrow> between a y b' \<Longrightarrow> between a (fmin x y) (min b b')"
  by (auto simp: between_def)

lemma round_unit:
  assumes "0 \<le> q" and "q \<le> 1"
  shows "\<exists>v. round64 q = F64 v \<and> 0 \<le> v \<and> v \<le> 1 \<and> v = roundRat q"
  using round64_between [of 0 q 1] assms round64_finite by fastforce

lemma headroom_between:
  assumes "pid_maximumQuote p = F64 m" "m \<le> 1" and "rawP = F64 r" "0 \<le> r"
  shows "between 0 (integralHeadroom p rawP) 1 \<and> is_double (integralHeadroom p rawP) \<and>
    (0 < m - r \<longrightarrow> integralHeadroom p rawP = F64 (roundRat (m - r)))"
proof (cases "0 \<le> m - r")
  case True
  with assms obtain v where v: "round64 (m - r) = F64 v" "0 \<le> v" "v \<le> 1" "v = roundRat (m - r)"
    using round_unit [of "m - r"] by auto
  then show ?thesis using assms roundRat_idem [OF True]
    by (auto simp: integralHeadroom_def fsub_def fmax_def)
next
  case False
  then have "\<not> flt (F64 0) (round64 (m - r))"
    using roundRat_neg [of "m - r"] by (auto simp: round64_def Let_def)
  then show ?thesis using assms False by (auto simp: integralHeadroom_def fsub_def fmax_def)
qed

section \<open>The integrator\<close>

lemma charged_between:
  assumes "pid_maximumQuote p = F64 m" "m \<le> 1" and "rawP = F64 r" "0 \<le> r"
    and "chargedIntegral p rawP err d may integral = Some x"
  shows "between 0 x 1"
proof -
  obtain h where h: "integralHeadroom p rawP = F64 h" "0 \<le> h" "h \<le> 1"
    using headroom_between [OF assms(1-4)] by (auto simp: between_def)
  show ?thesis using assms(5) h
    by (auto simp: chargedIntegral_def Let_def isfinite_iff split: if_splits)
qed

lemma charged_cases:
  assumes "chargedIntegral p rawP err d may integral = Some x"
  obtains (full) "fle (pid_maximumQuote p) rawP" "x = F64 0"
  | (free) a where "x = fmin (fmax (fadd integral a) (F64 0)) (integralHeadroom p rawP)"
      "isfinite (fadd integral a)" "isfinite a" "\<not> flt a (F64 0)"
      "a = F64 0 \<or> may \<and> 0 < d \<and> flt rawP (pid_maximumQuote p)"
proof -
  define charge where "charge \<longleftrightarrow> \<not> (fle (pid_maximumQuote p) rawP \<or>
      fle (integralHeadroom p rawP) integral) \<and> flt rawP (pid_maximumQuote p) \<and>
    flt (F64 0) (integralHeadroom p rawP) \<and> may \<and> 0 < d"
  define delta where "delta = fmul (fmul (pid_integralGainQuotePerCelsiusSecond p) err)
    (fdiv (f64_of_u64 d) (F64 1000))"
  note a = assms [unfolded chargedIntegral_def Let_def, folded charge_def, folded delta_def]
  show thesis
  proof (cases "fle (pid_maximumQuote p) rawP")
    case True
    with a full show thesis by (simp split: if_split_asm)
  next
    case False
    have c: "charge \<Longrightarrow> may \<and> 0 < d \<and> flt rawP (pid_maximumQuote p)" by (simp add: charge_def)
    show thesis
    proof (cases charge)
      case True
      with a False c free [of delta] show thesis by (simp split: if_split_asm)
    next
      case nocharge: False
      with a False free [of "F64 0"] show thesis by (simp split: if_split_asm)
    qed
  qed
qed

lemma charged_double:
  assumes "pid_maximumQuote p = F64 m" "m \<le> 1" and "rawP = F64 r" "0 \<le> r"
    and "between 0 integral 1" "is_double integral"
    and "chargedIntegral p rawP err d may integral = Some x"
  shows "is_double x \<and> (flt integral x \<longrightarrow> may \<and> 0 < d \<and> r < m)"
proof -
  obtain h where h: "integralHeadroom p rawP = F64 h" "0 \<le> h" "is_double (F64 h)"
    using headroom_between [OF assms(1-4)] by (auto simp: between_def)
  obtain I where I: "integral = F64 I" "0 \<le> I" "I \<le> 1" "is_double (F64 I)"
    using assms(5,6) by (auto simp: between_def)
  from assms(7) show ?thesis
  proof (cases rule: charged_cases)
    case full
    with I show ?thesis by simp
  next
    case (free a)
    then obtain b where b: "a = F64 b" "0 \<le> b" by (auto simp: isfinite_iff)
    with free(2) obtain v where v: "fadd integral a = F64 v" "v = roundRat (I + b)"
      using I(1) round64_finite [of "I + b"] unfolding isfinite_iff by fastforce
    have "is_double (F64 v)"
      unfolding v(2) is_double_F64 by (rule roundRat_idem) (use I(2) b(2) in simp)
    then have d: "is_double x" using h by (auto simp: free(1) v(1) max_def min_def simp del: is_double_F64)
    have "\<not> flt integral x" if "a = F64 0"
      using I v b that by (auto simp: free(1) v(1) h(1) max_def min_def)
    with d free(5) show ?thesis using assms(1,3) by auto
  qed
qed

text \<open>The state that every evaluation starts from and leaves.\<close>

definition control_inv :: "TemperatureController \<Rightarrow> bool" where
  "control_inv c \<longleftrightarrow> between 0 (tct_integralContributionQuote (tc_state c)) 1"

definition valid_controller :: "TemperatureController \<Rightarrow> bool" where
  "valid_controller c \<longleftrightarrow>
     classifyTemperatureControlParameters (tc_parameters c) = TPV_Valid \<and>
     validateIntegratorTransitionPolicy (tc_policy c)"

text \<open>Maxima and carry are doubles, so that rounding never raises an integral that rests.\<close>

definition double_controller :: "TemperatureController \<Rightarrow> bool" where
  "double_controller c \<longleftrightarrow>
     is_double (itp_transitionMaximumCarryQuote (tc_policy c)) \<and>
     is_double (pid_maximumQuote (tcp_airHeating (tc_parameters c))) \<and>
     is_double (pid_maximumQuote (tcp_airCooling (tc_parameters c))) \<and>
     is_double (pid_maximumQuote (tcp_productHeating (tc_parameters c))) \<and>
     is_double (pid_maximumQuote (tcp_productCooling (tc_parameters c)))"

lemma valid_policy:
  "validateIntegratorTransitionPolicy p \<Longrightarrow> between 0 (itp_transitionMaximumCarryQuote p) 1"
  by (auto simp: validateIntegratorTransitionPolicy_def isfinite_iff)

lemma valid_selected:
  assumes "classifyTemperatureControlParameters p = TPV_Valid"
    and "selectProfile p role e = Some (profile, direction)"
  shows "validDirectionParameters profile" "direction \<in> {Dir_Heating, Dir_Cooling}"
proof -
  have "hasConfiguredValues p"
    using assms(1) by (simp add: classifyTemperatureControlParameters_def split: if_splits)
  then show "validDirectionParameters profile" "direction \<in> {Dir_Heating, Dir_Cooling}"
    using assms(2) by (auto simp: selectProfile_def heatingProfile_def coolingProfile_def
        hasConfiguredValues_def split: if_splits)
qed

lemma double_selected:
  "double_controller c \<Longrightarrow> selectProfile (tc_parameters c) role e = Some (profile, direction) \<Longrightarrow>
    is_double (pid_maximumQuote profile)"
  by (auto simp: selectProfile_def heatingProfile_def coolingProfile_def double_controller_def
      split: if_splits)

lemma transition_sel [simp]:
  "tc_parameters (applyTransition profile d c) = tc_parameters c"
  "tc_policy (applyTransition profile d c) = tc_policy c"
  "tc_nextRequestSequence (applyTransition profile d c) = tc_nextRequestSequence c"
  "tc_requestIdentityExhausted (applyTransition profile d c) = tc_requestIdentityExhausted c"
  "tct_feedbackWindow (tc_state (applyTransition profile d c)) = tct_feedbackWindow (tc_state c)"
  "tct_lastSampleTimestampMonotonicMillis (tc_state (applyTransition profile d c)) =
     tct_lastSampleTimestampMonotonicMillis (tc_state c)"
  by (simp_all add: applyTransition_def Let_def)

lemma transition_integral:
  assumes "control_inv c" and "validateIntegratorTransitionPolicy (tc_policy c)"
    and "pid_maximumQuote profile = F64 m" "0 < m" "m \<le> 1"
  shows "between 0 (tct_integralContributionQuote (tc_state (applyTransition profile d c))) 1 \<and>
    \<not> flt (tct_integralContributionQuote (tc_state c))
      (tct_integralContributionQuote (tc_state (applyTransition profile d c)))"
  using assms valid_policy [OF assms(2)]
  by (auto simp: control_inv_def applyTransition_def Let_def between_def)

lemma transition_double:
  "double_controller c \<Longrightarrow> is_double (pid_maximumQuote profile) \<Longrightarrow>
    is_double (tct_integralContributionQuote (tc_state c)) \<Longrightarrow>
    is_double (tct_integralContributionQuote (tc_state (applyTransition profile d c)))"
  by (simp add: applyTransition_def Let_def is_double_fmin double_controller_def)

section \<open>The stages\<close>

text \<open>The controller after an accepted sample and its feedback.\<close>

definition sampled :: "TemperatureControlInput \<Rightarrow> TemperatureController \<Rightarrow> TemperatureController" where
  "sampled i = onControlState (\<lambda>s.
     s\<lparr>tct_lastSampleTimestampMonotonicMillis := Some (tci_sampleTimestampMonotonicMillis i),
       tct_suppressIntegrationAfterGap := False, tct_feedbackWindow := None\<rparr>)"

text \<open>The feedback that lets the integrator grow.\<close>

definition feedback_allows :: "TemperatureController \<Rightarrow> TemperatureControlInput \<Rightarrow> bool" where
  "feedback_allows c i \<longleftrightarrow>
     (\<exists>request f. tct_feedbackWindow (tc_state c) = Some request \<and>
        tci_previousControlRequestFeedback i = Some f \<and>
        pcf_controlRequestSequence f = id_sequence (creq_identity request) \<and>
        pcf_controlRequestSequence f \<noteq> 0 \<and> pcf_disposition f = FD_NoIntegratorConstraint)"

text \<open>A call that answers without a request: the integrator and the windows are cleared.\<close>

definition refused ::
  "TemperatureController \<Rightarrow> TemperatureControlResult \<times> TemperatureController \<Rightarrow> bool" where
  "refused c x \<longleftrightarrow>
     (\<exists>st reason a c1. x = failClosed st reason a c1 \<and>
        (st = TCS_Unavailable \<and> reason \<in> {TCR_NoCommissioning, TCR_SensorUnavailable} \<or>
         st = TCS_InvalidInput \<and> reason \<in> {TCR_InvalidConfiguration, TCR_InvalidSample,
           TCR_TimeInvalid, TCR_RequestIdentityExhausted}) \<and>
        (reason = TCR_RequestIdentityExhausted \<longrightarrow> tc_requestIdentityExhausted c) \<and>
        (\<forall>b. a \<noteq> ALS_other b) \<and>
        tc_parameters c1 = tc_parameters c \<and> tc_policy c1 = tc_policy c \<and>
        tc_nextRequestSequence c1 = tc_nextRequestSequence c \<and>
        tc_requestIdentityExhausted c1 = tc_requestIdentityExhausted c)"

lemma refusedI:
  "st = TCS_Unavailable \<and> reason \<in> {TCR_NoCommissioning, TCR_SensorUnavailable} \<or>
    st = TCS_InvalidInput \<and> reason \<in> {TCR_InvalidConfiguration, TCR_InvalidSample, TCR_TimeInvalid}
    \<Longrightarrow> tc_parameters c1 = tc_parameters c \<Longrightarrow> tc_policy c1 = tc_policy c \<Longrightarrow>
    tc_nextRequestSequence c1 = tc_nextRequestSequence c \<Longrightarrow>
    tc_requestIdentityExhausted c1 = tc_requestIdentityExhausted c \<Longrightarrow> (\<And>b. a \<noteq> ALS_other b) \<Longrightarrow>
    refused c (failClosed st reason a c1)"
  unfolding refused_def by blast

lemma diagnostic_known: "diagnosticAirLimitState r \<noteq> ALS_other b"
  by (simp add: diagnosticAirLimitState_def)

lemma controlValues_refused: "controlValues c i = Inl x \<Longrightarrow> refused c x"
  by (auto simp: controlValues_def Let_def diagnostic_known intro!: refusedI split: if_splits prod.splits)

lemma sampleTime_refused: "sampleTime c i = Inl x \<Longrightarrow> refused c x"
  by (auto simp: sampleTime_def Let_def diagnostic_known intro!: refusedI
      split: if_splits option.splits)

lemma consumeFeedback_refused: "consumeFeedback c i = Inl x \<Longrightarrow> refused c x"
  by (auto simp: consumeFeedback_def Let_def diagnostic_known intro!: refusedI
      split: if_splits option.splits)

lemma sampled_sel [simp]:
  "tc_parameters (sampled i c) = tc_parameters c" "tc_policy (sampled i c) = tc_policy c"
  "tc_nextRequestSequence (sampled i c) = tc_nextRequestSequence c"
  "tc_requestIdentityExhausted (sampled i c) = tc_requestIdentityExhausted c"
  "tc_state (sampled i c) = (tc_state c)
     \<lparr>tct_lastSampleTimestampMonotonicMillis := Some (tci_sampleTimestampMonotonicMillis i),
      tct_suppressIntegrationAfterGap := False, tct_feedbackWindow := None\<rparr>"
  by (simp_all add: sampled_def)

lemma refused_same:
  assumes "refused c1 x" and "tc_parameters c1 = tc_parameters c" and "tc_policy c1 = tc_policy c"
    and "tc_nextRequestSequence c1 = tc_nextRequestSequence c"
    and "tc_requestIdentityExhausted c1 = tc_requestIdentityExhausted c"
  shows "refused c x"
  using assms unfolding refused_def by simp

lemma controlValues_ok:
  assumes "controlValues c i = Inr (air, measured)"
  shows "valid_controller c" and "tci_controlSensorRole i \<in> {CSR_Air, CSR_Product}"
    and "readControlSensorValue (tci_air i) (F64 0) = (CSV_Valid, air)"
    and "if tci_controlSensorRole i = CSR_Product
         then readControlSensorValue (tci_product i) (F64 0) = (CSV_Valid, measured)
         else measured = air"
proof -
  show "valid_controller c" "tci_controlSensorRole i \<in> {CSR_Air, CSR_Product}"
    using assms by (auto simp: controlValues_def Let_def valid_controller_def validRole_def
        split: if_splits prod.splits ControlSensorRole.splits
          TemperatureControlParametersValidation.splits)
  show "readControlSensorValue (tci_air i) (F64 0) = (CSV_Valid, air)"
    using assms ControlSensorValueStatus.exhaust
    by (auto simp: controlValues_def Let_def split: if_splits prod.splits)
  show "if tci_controlSensorRole i = CSR_Product
         then readControlSensorValue (tci_product i) (F64 0) = (CSV_Valid, measured)
         else measured = air"
    using assms ControlSensorValueStatus.exhaust
    by (auto simp: controlValues_def Let_def split: if_splits prod.splits)
qed

definition timely ::
  "TemperatureController \<Rightarrow> TemperatureControlInput \<Rightarrow> u64 \<Rightarrow> bool \<Rightarrow> bool \<Rightarrow> bool" where
  "timely c i d first anchor \<longleftrightarrow>
     first = (tct_lastSampleTimestampMonotonicMillis (tc_state c) = None) \<and>
     anchor = tct_suppressIntegrationAfterGap (tc_state c) \<and>
     (\<forall>t. tct_lastSampleTimestampMonotonicMillis (tc_state c) = Some t \<longrightarrow>
        t \<le> tci_sampleTimestampMonotonicMillis i \<and> d = tci_sampleTimestampMonotonicMillis i - t \<and>
        d \<le> tcp_maximumIntegrationStepMillis (tc_parameters c))"

lemma sampleTime_ok:
  assumes "sampleTime c i = Inr (c1, d, first, anchor)"
  shows "c1 = onControlState (\<lambda>s. s\<lparr>tct_lastSampleTimestampMonotonicMillis :=
      Some (tci_sampleTimestampMonotonicMillis i), tct_suppressIntegrationAfterGap := False\<rparr>) c"
    and "timely c i d first anchor"
  using assms by (auto simp: sampleTime_def Let_def timely_def split: option.splits if_splits)

lemma consumeFeedback_ok:
  assumes "consumeFeedback c1 i = Inr (c2, allow)"
  shows "c2 = closeFeedbackWindow c1" and "allow = feedback_allows c1 i"
proof -
  show "c2 = closeFeedbackWindow c1"
    using assms by (auto simp: consumeFeedback_def Let_def closeFeedbackWindow_def onControlState_def
        split: option.splits if_splits)
  show "allow = feedback_allows c1 i"
    using assms by (auto simp: consumeFeedback_def Let_def feedback_allows_def
        split: option.splits if_splits)
qed

lemma sampled_eq:
  "closeFeedbackWindow (onControlState (\<lambda>s. s\<lparr>tct_lastSampleTimestampMonotonicMillis :=
      Some (tci_sampleTimestampMonotonicMillis i), tct_suppressIntegrationAfterGap := False\<rparr>) c) =
    sampled i c"
  by (simp add: closeFeedbackWindow_def onControlState_def sampled_def)

lemma evaluate_cases [consumes 0, case_names refused neutral active]:
  obtains "refused c (evaluateControl i c)"
  | air measured where "controlValues c i = Inr (air, measured)"
      "isfinite (fsub (tci_targetCelsius i) measured)"
      "selectProfile (tc_parameters c) (tci_controlSensorRole i)
         (fsub (tci_targetCelsius i) measured) = None"
      "evaluateControl i c = neutralResult (sampled i c) i"
  | air measured profile direction d first anchor where
      "controlValues c i = Inr (air, measured)" "timely c i d first anchor"
      "isfinite (fsub (tci_targetCelsius i) measured)"
      "selectProfile (tc_parameters c) (tci_controlSensorRole i)
         (fsub (tci_targetCelsius i) measured) = Some (profile, direction)"
      "evaluateControl i c = activeResult (sampled i c) i profile direction
         (fsub (tci_targetCelsius i) measured) air d first anchor (feedback_allows c i)"
proof (cases "controlValues c i")
  case (Inl x)
  then show thesis using that(1) controlValues_refused by (simp add: evaluateControl_def)
next
  case (Inr am)
  then obtain air measured where cv: "controlValues c i = Inr (air, measured)" by (cases am) auto
  show thesis
  proof (cases "sampleTime c i")
    case (Inl x)
    then show thesis using that(1) sampleTime_refused cv by (simp add: evaluateControl_def)
  next
    case (Inr st)
    then obtain c1 d first anchor where st: "sampleTime c i = Inr (c1, d, first, anchor)"
      by (cases st) auto
    note t = sampleTime_ok [OF st]
    show thesis
    proof (cases "consumeFeedback c1 i")
      case (Inl x)
      then have "refused c1 x" by (rule consumeFeedback_refused)
      then have "refused c x" by (rule refused_same) (simp_all add: t(1))
      with Inl show thesis using that(1) cv st by (simp add: evaluateControl_def)
    next
      case (Inr fb)
      then obtain c2 allow where fb: "consumeFeedback c1 i = Inr (c2, allow)" by (cases fb) auto
      note f = consumeFeedback_ok [OF fb]
      have c2: "c2 = sampled i c" unfolding f(1) t(1) by (rule sampled_eq)
      have a: "allow = feedback_allows c i" unfolding f(2) by (simp add: t(1) feedback_allows_def)
      let ?e = "fsub (tci_targetCelsius i) measured"
      have e: "evaluateControl i c =
          (if \<not> isfinite ?e then
             failClosed TCS_InvalidInput TCR_InvalidSample
               (diagnosticAirLimitState (tci_controlSensorRole i)) (sampled i c)
           else case selectProfile (tc_parameters c) (tci_controlSensorRole i) ?e of
             None \<Rightarrow> neutralResult (sampled i c) i
           | Some (profile, direction) \<Rightarrow>
               activeResult (sampled i c) i profile direction ?e air d first anchor
                 (feedback_allows c i))"
        by (simp add: evaluateControl_def cv st fb c2 a Let_def)
      show thesis
      proof (cases "isfinite ?e")
        case False
        have "refused c (evaluateControl i c)"
          using False by (auto simp: e diagnostic_known intro!: refusedI)
        then show thesis by (rule that(1))
      next
        case True
        then show thesis using that(2) [OF cv] that(3) [OF cv t(2)] e
          by (cases "selectProfile (tc_parameters c) (tci_controlSensorRole i) ?e") auto
      qed
    qed
  qed
qed

section \<open>A request of an active direction\<close>

text \<open>What a request carries; \<open>off\<close> is a quote of zero or an air limit that blocks.\<close>

definition quoted ::
  "TemperatureController \<Rightarrow> TemperatureControlInput \<Rightarrow> PiDirectionParameters \<Rightarrow>
     AbstractControlDirection \<Rightarrow> f64 \<Rightarrow> f64 \<Rightarrow> TemperatureControlResult \<times> TemperatureController \<Rightarrow> bool"
  where
  "quoted c i profile direction air rawP x \<longleftrightarrow>
     (let r = fst x; q = tcr_timeQuote r;
          off = (tcr_airLimitState r = ALS_Blocked \<or> q = F64 0);
          request = newRequest c i (if off then Dir_Idle else direction) q in
      (\<exists>m. pid_maximumQuote profile = F64 m \<and> between 0 q m) \<and>
      \<not> tc_requestIdentityExhausted c \<and>
      tcr_status r = (if off then TCS_Off else TCS_Demand) \<and>
      tcr_airLimitState r = airLimitOf (tc_parameters c) (tci_controlSensorRole i) direction air \<and>
      tcr_reason r = (if off then TCR_AirLimitBlocked
        else if tcr_airLimitState r = ALS_Reduced then TCR_AirLimitReduced
        else if fle (pid_maximumQuote profile) rawP \<or>
                fle (pid_maximumQuote profile) (tcr_maximumLimitedQuote r) then TCR_Saturated
        else TCR_None) \<and>
      tcr_direction r = (if off then Dir_Idle else direction) \<and>
      tcr_rawProportionalQuote r = rawP \<and>
      tcr_integralContributionQuote r = tct_integralContributionQuote (tc_state c) \<and>
      (tcr_airLimitState r = ALS_Blocked \<longrightarrow> q = F64 0) \<and>
      tcr_controlRequest r = Some request \<and>
      snd x = onControlState (\<lambda>s. s\<lparr>tct_lastActiveDirection := Some direction,
        tct_feedbackWindow := (if off then None else Some request)\<rparr>) (useRequestSequence c))"

lemma airLimit_known: "airLimitOf p role d air \<noteq> ALS_other b"
  by (simp add: airLimitOf_def)

lemma use_on: "useRequestSequence (onControlState f c) = onControlState f (useRequestSequence c)"
  by (simp add: useRequestSequence_def onControlState_def)

lemma on_on: "onControlState f (onControlState g c) = onControlState (\<lambda>s. f (g s)) c"
  by (simp add: onControlState_def)

lemma exhausted_refused:
  "tc_requestIdentityExhausted c \<Longrightarrow> (\<And>b. a \<noteq> ALS_other b) \<Longrightarrow>
    refused c (failClosed TCS_InvalidInput TCR_RequestIdentityExhausted a c)"
  unfolding refused_def by blast

lemma quoted_cases:
  assumes "pid_maximumQuote profile = F64 m" and "rawP = F64 r" "0 \<le> r" "0 \<le> m"
    and "between 0 (tct_integralContributionQuote (tc_state c)) 1"
  shows "refused c (quotedResult c i profile direction air rawP) \<or>
    quoted c i profile direction air rawP (quotedResult c i profile direction air rawP)"
proof -
  let ?integral = "tct_integralContributionQuote (tc_state c)"
  let ?limit = "airLimitOf (tc_parameters c) (tci_controlSensorRole i) direction air"
  define unbounded where "unbounded = fadd rawP ?integral"
  define maxim where "maxim = fmin unbounded (pid_maximumQuote profile)"
  define limited where
    "limited = limitQuote (tc_parameters c) (tci_controlSensorRole i) direction air maxim"
  define quote where "quote = fmin limited (pid_maximumQuote profile)"
  note d = unbounded_def [symmetric] maxim_def [symmetric] limited_def [symmetric]
    quote_def [symmetric]
  show ?thesis
  proof (cases "isfinite unbounded \<and> isfinite limited \<and> \<not> flt limited (F64 0) \<and>
      \<not> tc_requestIdentityExhausted c")
    case False
    have "refused c (quotedResult c i profile direction air rawP)"
    proof (cases "\<not> isfinite unbounded \<or> \<not> isfinite limited \<or> flt limited (F64 0)")
      case True
      then show ?thesis unfolding quotedResult_def Let_def d
        by (auto simp: airLimit_known intro!: refusedI)
    next
      case c: False
      with False have "tc_requestIdentityExhausted c" by simp
      with c show ?thesis unfolding quotedResult_def Let_def d
        by (auto simp: airLimit_known intro!: exhausted_refused)
    qed
    then show ?thesis ..
  next
    case True
    then obtain l where l: "limited = F64 l" "0 \<le> l" by (auto simp: isfinite_iff)
    then have q: "quote = F64 (min l m)" by (simp add: quote_def assms(1))
    have b: "?limit = ALS_Blocked \<Longrightarrow> quote = F64 0"
      using assms(4) by (simp add: quote_def limited_def limitQuote_def assms(1))
    have "quoted c i profile direction air rawP (quotedResult c i profile direction air rawP)"
      using True b assms(1,4) l q unfolding quotedResult_def quoted_def Let_def d
      by (simp add: use_on on_on newRequest_def)
    then show ?thesis ..
  qed
qed

text \<open>The controller whose integrator has been updated, from which the request is built.\<close>

definition charged ::
  "PiDirectionParameters \<Rightarrow> AbstractControlDirection \<Rightarrow> f64 \<Rightarrow> TemperatureController \<Rightarrow>
     TemperatureController" where
  "charged profile direction x c =
     onControlState (\<lambda>s. s\<lparr>tct_integralContributionQuote := x\<rparr>) (applyTransition profile direction c)"

lemma charged_sel [simp]:
  "tc_parameters (charged profile d x c) = tc_parameters c"
  "tc_policy (charged profile d x c) = tc_policy c"
  "tc_nextRequestSequence (charged profile d x c) = tc_nextRequestSequence c"
  "tc_requestIdentityExhausted (charged profile d x c) = tc_requestIdentityExhausted c"
  "tct_integralContributionQuote (tc_state (charged profile d x c)) = x"
  "tct_lastSampleTimestampMonotonicMillis (tc_state (charged profile d x c)) =
     tct_lastSampleTimestampMonotonicMillis (tc_state c)"
  by (simp_all add: charged_def)

text \<open>The conditions under which the integrator may grow.\<close>

definition may_charge ::
  "TemperatureController \<Rightarrow> TemperatureControlInput \<Rightarrow> AbstractControlDirection \<Rightarrow> f64 \<Rightarrow> bool \<Rightarrow>
     bool \<Rightarrow> bool \<Rightarrow> bool" where
  "may_charge c i direction air first anchor allow \<longleftrightarrow>
     allow \<and> airLimitOf (tc_parameters c) (tci_controlSensorRole i) direction air \<notin>
       {ALS_Reduced, ALS_Blocked} \<and> \<not> directionChanged c direction \<and>
     tct_pendingTransitionAction (tc_state c) = None \<and> \<not> first \<and> \<not> anchor"

lemma active_cases:
  assumes "valid_controller c" and "control_inv c"
    and "selectProfile (tc_parameters c) (tci_controlSensorRole i) e = Some (profile, direction)"
  obtains (refused) "refused c (activeResult c i profile direction e air d first anchor allow)"
  | (quoted) rawP x where
      "quoted (charged profile direction x c) i profile direction air rawP
         (activeResult c i profile direction e air d first anchor allow)"
      "between 0 x 1"
      "double_controller c \<Longrightarrow> is_double (tct_integralContributionQuote (tc_state c)) \<Longrightarrow>
        is_double x \<and> (flt (tct_integralContributionQuote (tc_state c)) x \<longrightarrow>
          may_charge c i direction air first anchor allow \<and> 0 < d \<and>
          flt rawP (pid_maximumQuote profile))"
proof -
  have vp: "classifyTemperatureControlParameters (tc_parameters c) = TPV_Valid"
    and pol: "validateIntegratorTransitionPolicy (tc_policy c)"
    using assms(1) by (simp_all add: valid_controller_def)
  obtain m where m: "pid_maximumQuote profile = F64 m" "0 < m" "m \<le> 1"
    using valid_selected(1) [OF vp assms(3)] by (elim valid_profile)
  define err where "err = fsub (ffabs e) (pid_neutralBandWidthCelsius profile)"
  define rawP where "rawP = fmul (pid_proportionalGainQuotePerCelsius profile) err"
  define c1 where "c1 = applyTransition profile direction c"
  note t = transition_integral [OF assms(2) pol m, where d = direction, folded c1_def]
  let ?may = "allow \<and> \<not> (airLimitOf (tc_parameters c) (tci_controlSensorRole i) direction air =
        ALS_Reduced \<or> airLimitOf (tc_parameters c) (tci_controlSensorRole i) direction air =
        ALS_Blocked) \<and> \<not> (directionChanged c direction \<or>
        tct_pendingTransitionAction (tc_state c) \<noteq> None \<or> first \<or> anchor) \<and> \<not> first"
  let ?charge = "chargedIntegral profile rawP err d ?may
    (tct_integralContributionQuote (tc_state c1))"
  have a: "activeResult c i profile direction e air d first anchor allow =
      (if \<not> isfinite err \<or> fle err (F64 0) then failClosed TCS_InvalidInput TCR_InvalidSample
         (if tci_controlSensorRole i = CSR_Air then ALS_NotApplied else ALS_Unrestricted) c
       else if \<not> isfinite rawP \<or> flt rawP (F64 0) then failClosed TCS_InvalidInput
         TCR_InvalidSample
         (if tci_controlSensorRole i = CSR_Air then ALS_NotApplied else ALS_Unrestricted) c
       else case ?charge of
           None \<Rightarrow> failClosed TCS_InvalidInput TCR_InvalidSample
             (airLimitOf (tc_parameters c) (tci_controlSensorRole i) direction air) c1
         | Some x \<Rightarrow> quotedResult (charged profile direction x c) i profile direction air rawP)"
    unfolding activeResult_def Let_def err_def rawP_def c1_def charged_def ..
  show thesis
  proof (cases "isfinite err \<and> \<not> fle err (F64 0) \<and> isfinite rawP \<and> \<not> flt rawP (F64 0)")
    case False
    then have "refused c (activeResult c i profile direction e air d first anchor allow)"
      unfolding a by (auto intro!: refusedI)
    then show thesis by (rule refused)
  next
    case True
    then obtain r where r: "rawP = F64 r" "0 \<le> r" by (auto simp: isfinite_iff)
    show thesis
    proof (cases ?charge)
      case None
      have "refused c (activeResult c i profile direction e air d first anchor allow)"
        using True unfolding a None by (auto simp: airLimit_known c1_def intro!: refusedI)
      then show thesis by (rule refused)
    next
      case (Some x)
      have x: "between 0 x 1" using charged_between [OF m(1,3) r Some] .
      have q: "activeResult c i profile direction e air d first anchor allow =
          quotedResult (charged profile direction x c) i profile direction air rawP"
        using True unfolding a Some by auto
      have "refused (charged profile direction x c) (quotedResult (charged profile direction x c)
          i profile direction air rawP) \<or>
        quoted (charged profile direction x c) i profile direction air rawP
          (quotedResult (charged profile direction x c) i profile direction air rawP)"
        using m by (intro quoted_cases [OF m(1) r]) (simp_all add: x)
      then show thesis
      proof
        assume "refused (charged profile direction x c) (quotedResult (charged profile direction x c)
          i profile direction air rawP)"
        then show thesis using refused q refused_same [of "charged profile direction x c"] by simp
      next
        assume "quoted (charged profile direction x c) i profile direction air rawP
          (quotedResult (charged profile direction x c) i profile direction air rawP)"
        moreover have "is_double x \<and> (flt (tct_integralContributionQuote (tc_state c)) x \<longrightarrow>
          may_charge c i direction air first anchor allow \<and> 0 < d \<and>
          flt rawP (pid_maximumQuote profile))"
          if "double_controller c" "is_double (tct_integralContributionQuote (tc_state c))"
        proof -
          have dd: "is_double (tct_integralContributionQuote (tc_state c1))"
            unfolding c1_def using that double_selected [OF that(1) assms(3)]
            by (intro transition_double) simp_all
          from charged_double [OF m(1,3) r _ dd Some] t
          have s: "is_double x \<and> (flt (tct_integralContributionQuote (tc_state c1)) x \<longrightarrow>
              ?may \<and> 0 < d \<and> r < m)" by blast
          have "flt (tct_integralContributionQuote (tc_state c1)) x"
            if "flt (tct_integralContributionQuote (tc_state c)) x"
            using that t x assms(2) by (auto simp: control_inv_def between_def)
          with s show ?thesis unfolding may_charge_def m(1) r(1) by auto
        qed
        ultimately show thesis using quoted x q by metis
      qed
    qed
  qed
qed

end
