(* ===== verification/ControlProperties.thy ===== *)
theory ControlProperties
  imports ControlProofs
begin

text \<open>
  The properties of the temperature controller, over any sequence of calls on a new one.
\<close>

section \<open>Calls\<close>

datatype ControlCall =
    CC_Evaluate TemperatureControlInput
  | CC_Transition CommittedControlContextTransition
  | CC_Reset

fun control_call :: "ControlCall \<Rightarrow> TemperatureController \<Rightarrow> TemperatureController" where
  "control_call (CC_Evaluate i) c = snd (evaluateControl i c)"
| "control_call (CC_Transition t) c = snd (markCommittedControlContextTransitionPending t c)"
| "control_call CC_Reset c = resetRuntime c"

definition controllerAfter ::
  "TemperatureControlParameters \<Rightarrow> IntegratorTransitionPolicy \<Rightarrow> u64 \<Rightarrow> ControlCall list \<Rightarrow>
     TemperatureController" where
  "controllerAfter p policy n calls =
     fold control_call calls (newTemperatureController p policy n)"

text \<open>The sequence number of the request that a call issues.\<close>

definition issuedBy :: "TemperatureControlResult \<Rightarrow> u64 list" where
  "issuedBy r = (case tcr_controlRequest r of None \<Rightarrow> []
     | Some q \<Rightarrow> [id_sequence (creq_identity q)])"

fun issued :: "ControlCall list \<Rightarrow> TemperatureController \<Rightarrow> u64 list" where
  "issued [] c = []"
| "issued (k # ks) c =
     (case k of CC_Evaluate i \<Rightarrow> issuedBy (fst (evaluateControl i c)) | _ \<Rightarrow> []) @
     issued ks (control_call k c)"

section \<open>One evaluation\<close>

lemma cleared_sel [simp]:
  "tc_state (clearFailClosed c) = (tc_state c)\<lparr>tct_integralContributionQuote := F64 0,
     tct_lastActiveDirection := None, tct_pendingContextTransition := None,
     tct_pendingTransitionAction := None, tct_feedbackWindow := None\<rparr>"
  "tc_parameters (clearFailClosed c) = tc_parameters c"
  "tc_policy (clearFailClosed c) = tc_policy c"
  "tc_nextRequestSequence (clearFailClosed c) = tc_nextRequestSequence c"
  "tc_requestIdentityExhausted (clearFailClosed c) = tc_requestIdentityExhausted c"
  by (simp_all add: clearFailClosed_def)

lemma neutral_cases:
  "refused c (neutralResult c i) \<or>
   \<not> tc_requestIdentityExhausted c \<and>
   neutralResult c i =
     (emptyControlResult\<lparr>tcr_status := TCS_Off, tcr_reason := TCR_NeutralBand,
        tcr_airLimitState :=
          (if tci_controlSensorRole i = CSR_Air then ALS_NotApplied else ALS_Unrestricted),
        tcr_direction := Dir_Idle, tcr_timeQuote := F64 0,
        tcr_controlRequest := Some (newRequest c i Dir_Idle (F64 0))\<rparr>,
      useRequestSequence (closeFeedbackWindow c))"
  by (auto simp: neutralResult_def Let_def intro!: exhausted_refused)

text \<open>Every evaluation is refused, neutral or asks for an active direction.\<close>

lemma evaluated_cases [consumes 1, case_names refused neutral active]:
  assumes "control_inv c"
  obtains "refused c (evaluateControl i c)"
  | air measured where "controlValues c i = Inr (air, measured)"
      "selectProfile (tc_parameters c) (tci_controlSensorRole i)
         (fsub (tci_targetCelsius i) measured) = None"
      "\<not> tc_requestIdentityExhausted c"
      "evaluateControl i c =
         (emptyControlResult\<lparr>tcr_status := TCS_Off, tcr_reason := TCR_NeutralBand,
            tcr_airLimitState :=
              (if tci_controlSensorRole i = CSR_Air then ALS_NotApplied else ALS_Unrestricted),
            tcr_direction := Dir_Idle, tcr_timeQuote := F64 0,
            tcr_controlRequest := Some (newRequest c i Dir_Idle (F64 0))\<rparr>,
          useRequestSequence (sampled i c))"
  | air measured profile direction rawP x d first anchor where
      "controlValues c i = Inr (air, measured)" "timely c i d first anchor"
      "selectProfile (tc_parameters c) (tci_controlSensorRole i)
         (fsub (tci_targetCelsius i) measured) = Some (profile, direction)"
      "quoted (charged profile direction x (sampled i c)) i profile direction air rawP
         (evaluateControl i c)"
      "between 0 x 1"
      "double_controller c \<Longrightarrow> is_double (tct_integralContributionQuote (tc_state c)) \<Longrightarrow>
        is_double x \<and> (flt (tct_integralContributionQuote (tc_state c)) x \<longrightarrow>
          may_charge c i direction air first anchor (feedback_allows c i) \<and> 0 < d \<and>
          flt rawP (pid_maximumQuote profile))"
proof (rule evaluate_cases [of c i])
  assume "refused c (evaluateControl i c)"
  then show thesis by (rule that(1))
next
  fix air measured
  assume a: "controlValues c i = Inr (air, measured)"
    "selectProfile (tc_parameters c) (tci_controlSensorRole i)
       (fsub (tci_targetCelsius i) measured) = None"
    "evaluateControl i c = neutralResult (sampled i c) i"
  have n: "newRequest (sampled i c) i Dir_Idle (F64 0) = newRequest c i Dir_Idle (F64 0)"
    "closeFeedbackWindow (sampled i c) = sampled i c"
    by (simp_all add: newRequest_def closeFeedbackWindow_def sampled_def on_on)
  from neutral_cases [of "sampled i c" i] show thesis
  proof
    assume "refused (sampled i c) (neutralResult (sampled i c) i)"
    then have "refused c (evaluateControl i c)"
      unfolding a(3) by (rule refused_same) simp_all
    then show thesis by (rule that(1))
  next
    assume "\<not> tc_requestIdentityExhausted (sampled i c) \<and> neutralResult (sampled i c) i =
     (emptyControlResult\<lparr>tcr_status := TCS_Off, tcr_reason := TCR_NeutralBand,
        tcr_airLimitState :=
          (if tci_controlSensorRole i = CSR_Air then ALS_NotApplied else ALS_Unrestricted),
        tcr_direction := Dir_Idle, tcr_timeQuote := F64 0,
        tcr_controlRequest := Some (newRequest (sampled i c) i Dir_Idle (F64 0))\<rparr>,
      useRequestSequence (closeFeedbackWindow (sampled i c)))"
    then show thesis using that(2) [OF a(1,2)] by (simp add: a(3) n)
  qed
next
  fix air measured profile direction d first anchor
  let ?e = "fsub (tci_targetCelsius i) measured"
  assume a: "controlValues c i = Inr (air, measured)" "timely c i d first anchor"
    "selectProfile (tc_parameters c) (tci_controlSensorRole i) ?e = Some (profile, direction)"
    "evaluateControl i c = activeResult (sampled i c) i profile direction ?e air d first anchor
       (feedback_allows c i)"
  have v: "valid_controller (sampled i c)" "control_inv (sampled i c)"
    using controlValues_ok(1) [OF a(1)] assms by (simp_all add: valid_controller_def control_inv_def)
  have s: "selectProfile (tc_parameters (sampled i c)) (tci_controlSensorRole i) ?e =
      Some (profile, direction)" using a(3) by simp
  show thesis
  proof (rule active_cases [OF v s, where d = d and first = first and anchor = anchor
        and allow = "feedback_allows c i" and air = air])
    assume "refused (sampled i c) (activeResult (sampled i c) i profile direction ?e air d first
      anchor (feedback_allows c i))"
    then have "refused c (evaluateControl i c)"
      unfolding a(4) by (rule refused_same) simp_all
    then show thesis by (rule that(1))
  next
    fix rawP x
    assume q: "quoted (charged profile direction x (sampled i c)) i profile direction air rawP
        (activeResult (sampled i c) i profile direction ?e air d first anchor (feedback_allows c i))"
      "between 0 x 1"
      "double_controller (sampled i c) \<Longrightarrow>
        is_double (tct_integralContributionQuote (tc_state (sampled i c))) \<Longrightarrow>
        is_double x \<and> (flt (tct_integralContributionQuote (tc_state (sampled i c))) x \<longrightarrow>
          may_charge (sampled i c) i direction air first anchor (feedback_allows c i) \<and> 0 < d \<and>
          flt rawP (pid_maximumQuote profile))"
    have m: "may_charge (sampled i c) i direction air first anchor (feedback_allows c i) =
        may_charge c i direction air first anchor (feedback_allows c i)"
      by (simp add: may_charge_def directionChanged_def)
    show thesis
      by (rule that(3) [OF a(1-3), where x = x and rawP = rawP])
        (use q m in \<open>simp_all add: a(4) double_controller_def\<close>)
  qed
qed

lemma use_sel:
  "tc_nextRequestSequence (useRequestSequence (onControlState f c)) =
     tc_nextRequestSequence (useRequestSequence c)"
  "tc_requestIdentityExhausted (useRequestSequence (onControlState f c)) =
     tc_requestIdentityExhausted (useRequestSequence c)"
  by (simp_all add: use_on)

lemma sampled_use:
  "tc_nextRequestSequence (useRequestSequence (sampled i c)) =
     tc_nextRequestSequence (useRequestSequence c)"
  "tc_requestIdentityExhausted (useRequestSequence (sampled i c)) =
     tc_requestIdentityExhausted (useRequestSequence c)"
  by (simp_all add: sampled_def use_sel)

lemma charged_use:
  "tc_nextRequestSequence (useRequestSequence (charged profile d x c)) =
     tc_nextRequestSequence (useRequestSequence c)"
  "tc_requestIdentityExhausted (useRequestSequence (charged profile d x c)) =
     tc_requestIdentityExhausted (useRequestSequence c)"
  by (simp_all add: useRequestSequence_def)

text \<open>What every evaluation keeps, and the identity it uses.\<close>

lemma evaluate_keeps:
  fixes i c
  defines "r \<equiv> fst (evaluateControl i c)" and "c' \<equiv> snd (evaluateControl i c)"
  assumes "control_inv c"
  shows "tc_parameters c' = tc_parameters c \<and> tc_policy c' = tc_policy c \<and> control_inv c' \<and>
    (double_controller c \<longrightarrow> is_double (tct_integralContributionQuote (tc_state c)) \<longrightarrow>
      is_double (tct_integralContributionQuote (tc_state c'))) \<and>
    (issuedBy r = [] \<and> tc_nextRequestSequence c' = tc_nextRequestSequence c \<and>
       tc_requestIdentityExhausted c' = tc_requestIdentityExhausted c \<or>
     issuedBy r = [tc_nextRequestSequence c] \<and> \<not> tc_requestIdentityExhausted c \<and>
       tc_nextRequestSequence c' = tc_nextRequestSequence (useRequestSequence c) \<and>
       tc_requestIdentityExhausted c' = tc_requestIdentityExhausted (useRequestSequence c))"
  using assms(3)
proof (cases rule: evaluated_cases [where i = i])
  case refused
  then obtain st reason a c1 where x: "evaluateControl i c = failClosed st reason a c1"
    "tc_parameters c1 = tc_parameters c" "tc_policy c1 = tc_policy c"
    "tc_nextRequestSequence c1 = tc_nextRequestSequence c"
    "tc_requestIdentityExhausted c1 = tc_requestIdentityExhausted c"
    unfolding refused_def by blast
  then show ?thesis
    by (simp add: r_def c'_def failClosed_def issuedBy_def control_inv_def)
next
  case (neutral air measured)
  then show ?thesis using assms(3)
    by (simp add: r_def c'_def issuedBy_def control_inv_def sampled_use)
next
  case (active air measured profile direction rawP x d first anchor)
  then show ?thesis using assms(3)
    by (simp add: r_def c'_def quoted_def Let_def issuedBy_def control_inv_def sampled_use
        charged_use)
qed

definition controller_ok ::
  "TemperatureControlParameters \<Rightarrow> IntegratorTransitionPolicy \<Rightarrow> TemperatureController \<Rightarrow> bool" where
  "controller_ok p policy c \<longleftrightarrow>
     tc_parameters c = p \<and> tc_policy c = policy \<and> control_inv c \<and> tc_nextRequestSequence c \<noteq> 0 \<and>
     (double_controller c \<longrightarrow> is_double (tct_integralContributionQuote (tc_state c)))"

lemma use_next_value:
  "tc_nextRequestSequence (useRequestSequence c) =
     (if tc_nextRequestSequence c = u64_max then u64_max else tc_nextRequestSequence c + 1)"
  by (simp add: useRequestSequence_def)

lemma use_nonzero:
  "tc_nextRequestSequence c \<noteq> 0 \<Longrightarrow> tc_nextRequestSequence (useRequestSequence c) \<noteq> 0"
  using word_less_Suc [of "tc_nextRequestSequence c"]
  unfolding use_next_value by (metis word_not_simps(1))

lemma mark_sel [simp]:
  fixes t c
  defines "c' \<equiv> snd (markCommittedControlContextTransitionPending t c)"
  shows "tc_parameters c' = tc_parameters c" "tc_policy c' = tc_policy c"
    "tc_nextRequestSequence c' = tc_nextRequestSequence c"
    "tc_requestIdentityExhausted c' = tc_requestIdentityExhausted c"
    "tct_integralContributionQuote (tc_state c') = tct_integralContributionQuote (tc_state c)"
  by (simp_all add: c'_def markCommittedControlContextTransitionPending_def Let_def)

lemma call_ok: "controller_ok p policy c \<Longrightarrow> controller_ok p policy (control_call k c)"
proof (cases k)
  case (CC_Evaluate i)
  assume "controller_ok p policy c"
  then show ?thesis using evaluate_keeps [of c i] use_nonzero [of c] CC_Evaluate
    by (auto simp: controller_ok_def double_controller_def)
qed (auto simp: controller_ok_def control_inv_def double_controller_def resetRuntime_def
    initialControlState_def)

lemma new_ok: "controller_ok p policy (newTemperatureController p policy n)"
  by (simp add: controller_ok_def newTemperatureController_def control_inv_def
      initialControlState_def)

lemma after_ok: "controller_ok p policy (controllerAfter p policy n calls)"
proof -
  have "controller_ok p policy (fold control_call calls c)" if "controller_ok p policy c" for c
    using that by (induction calls arbitrary: c) (auto intro: call_ok)
  then show ?thesis by (simp add: controllerAfter_def new_ok)
qed

lemma after_inv: "control_inv (controllerAfter p policy n calls)"
  using after_ok [of p policy n calls] by (simp add: controller_ok_def)

section \<open>Request identities\<close>

lemma issued_consecutive:
  assumes "control_inv c"
  shows "map unat (issued ks c) =
    [unat (tc_nextRequestSequence c) ..< unat (tc_nextRequestSequence c) + length (issued ks c)] \<and>
    (tc_requestIdentityExhausted c \<longrightarrow> issued ks c = [])"
  using assms
proof (induction ks arbitrary: c)
  case (Cons k ks)
  show ?case
  proof (cases k)
    case (CC_Evaluate i)
    note e = evaluate_keeps [OF Cons.prems, of i]
    then have "control_inv (snd (evaluateControl i c))" by blast
    note ih = Cons.IH [OF this]
    from e consider
      (none) "issuedBy (fst (evaluateControl i c)) = []"
        "tc_nextRequestSequence (snd (evaluateControl i c)) = tc_nextRequestSequence c"
        "tc_requestIdentityExhausted (snd (evaluateControl i c)) = tc_requestIdentityExhausted c"
    | (one) "issuedBy (fst (evaluateControl i c)) = [tc_nextRequestSequence c]"
        "\<not> tc_requestIdentityExhausted c"
        "tc_nextRequestSequence (snd (evaluateControl i c)) =
           tc_nextRequestSequence (useRequestSequence c)"
        "tc_requestIdentityExhausted (snd (evaluateControl i c)) =
           tc_requestIdentityExhausted (useRequestSequence c)"
      by blast
    then show ?thesis
    proof cases
      case none
      then show ?thesis using ih CC_Evaluate by simp
    next
      case one
      show ?thesis
      proof (cases "tc_nextRequestSequence c = u64_max")
        case True
        then show ?thesis using ih one CC_Evaluate by (simp add: useRequestSequence_def)
      next
        case False
        then have "unat (tc_nextRequestSequence c + 1) = Suc (unat (tc_nextRequestSequence c))"
          by (simp add: unat_Suc_word)
        then show ?thesis using ih one CC_Evaluate False
          by (simp add: useRequestSequence_def upt_conv_Cons del: upt_Suc)
      qed
    qed
  next
    case (CC_Transition t)
    have "control_inv (control_call k c)" using Cons.prems CC_Transition
      by (simp add: control_inv_def)
    from Cons.IH [OF this] show ?thesis using CC_Transition by simp
  next
    case CC_Reset
    have "control_inv (control_call k c)" using CC_Reset
      by (simp add: control_inv_def resetRuntime_def initialControlState_def)
    from Cons.IH [OF this] show ?thesis using CC_Reset by (simp add: resetRuntime_def)
  qed
qed simp

text \<open>C30: the sequence numbers of the requests that a controller issues over any calls, resets
  included, count up one by one from the initial number, or from 1 where that is 0: none is left out,
  repeated, 0 or wrapped around, and after the last 64-bit number no request is issued any more.\<close>

theorem control_sequences_increase:
  "map unat (issued calls (newTemperatureController p policy n)) =
     [max (unat n) 1 ..< max (unat n) 1 +
        length (issued calls (newTemperatureController p policy n))]"
proof -
  have "control_inv (newTemperatureController p policy n)"
    using new_ok by (simp add: controller_ok_def)
  note c = issued_consecutive [OF this]
  have "unat (tc_nextRequestSequence (newTemperatureController p policy n)) = max (unat n) 1"
  proof (cases "n = 0")
    case False
    then have "1 \<le> unat n" by (simp add: Suc_le_eq unat_gt_0)
    then show ?thesis using False by (simp add: newTemperatureController_def max_absorb1)
  qed (simp add: newTemperatureController_def)
  with c show ?thesis by simp
qed

section \<open>Quotes and refusals\<close>

lemma quote_bounds:
  assumes "controller_ok p policy c" and x_def: "x = evaluateControl i c"
  shows "between 0 (tcr_timeQuote (fst x)) 1 \<and>
    (tcr_status (fst x) = TCS_Demand) = flt (F64 0) (tcr_timeQuote (fst x)) \<and>
    (tcr_timeQuote (fst x) = F64 0 \<or>
     tcr_direction (fst x) = Dir_Heating \<and>
       fle (tcr_timeQuote (fst x)) (pid_maximumQuote (heatingProfile p (tci_controlSensorRole i))) \<or>
     tcr_direction (fst x) = Dir_Cooling \<and>
       fle (tcr_timeQuote (fst x)) (pid_maximumQuote (coolingProfile p (tci_controlSensorRole i)))) \<and>
    between 0 (tct_integralContributionQuote (tc_state (snd x))) 1"
proof -
  have p: "tc_parameters c = p" and inv: "control_inv c"
    using assms(1) by (simp_all add: controller_ok_def)
  have i: "between 0 (tct_integralContributionQuote (tc_state (snd x))) 1"
    using evaluate_keeps [OF inv, of i] by (simp add: x_def control_inv_def)
  show ?thesis using inv
  proof (cases rule: evaluated_cases [where i = i])
    case refused
    then show ?thesis using i by (auto simp: x_def refused_def failClosed_def)
  next
    case (neutral air measured)
    then show ?thesis using i by (simp add: x_def)
  next
    case (active air measured profile direction rawP y d first anchor)
    have vp: "classifyTemperatureControlParameters (tc_parameters c) = TPV_Valid"
      using controlValues_ok(1) [OF active(1)] by (simp add: valid_controller_def)
    obtain m where m: "pid_maximumQuote profile = F64 m" "0 < m" "m \<le> 1"
      using valid_selected(1) [OF vp active(3)] by (elim valid_profile)
    have s: "direction = Dir_Heating \<and> profile = heatingProfile p (tci_controlSensorRole i) \<or>
        direction = Dir_Cooling \<and> profile = coolingProfile p (tci_controlSensorRole i)"
      using active(3) by (auto simp: selectProfile_def p split: if_splits)
    obtain q where "tcr_timeQuote (fst x) = F64 q" "0 \<le> q" "q \<le> m"
      using active(4) m(1) by (auto simp: quoted_def Let_def x_def between_def)
    then show ?thesis using i active(4) m s
      by (auto simp: quoted_def Let_def x_def [symmetric])
  qed
qed

text \<open>C31: whatever calls preceded it, an evaluation answers with a quote between 0 and 1 that is at
  most the maximum of the profile of its direction, positive exactly when it demands an output;
  and it leaves an integral between 0 and 1.\<close>

theorem control_quote_bounds:
  "case evaluateControl i (controllerAfter p policy n calls) of (r, c') \<Rightarrow>
    between 0 (tcr_timeQuote r) 1 \<and>
    (tcr_status r = TCS_Demand) = flt (F64 0) (tcr_timeQuote r) \<and>
    (tcr_timeQuote r = F64 0 \<or>
     tcr_direction r = Dir_Heating \<and>
       fle (tcr_timeQuote r) (pid_maximumQuote (heatingProfile p (tci_controlSensorRole i))) \<or>
     tcr_direction r = Dir_Cooling \<and>
       fle (tcr_timeQuote r) (pid_maximumQuote (coolingProfile p (tci_controlSensorRole i)))) \<and>
    between 0 (tct_integralContributionQuote (tc_state c')) 1"
  unfolding case_prod_beta by (rule quote_bounds [OF after_ok refl])

text \<open>An evaluation either issues a request of the next identity for the context of its input,
  with status, direction and quote of the result, and opens a feedback window exactly for a demand;
  or it refuses: unavailable or invalid, idle, with a quote of zero, and then integral, feedback
  window, last direction and pending transitions are cleared and no identity is used.\<close>

theorem control_request_or_closed:
  "case evaluateControl i (controllerAfter p policy n calls) of (r, c') \<Rightarrow>
    (case tcr_controlRequest r of
       Some q \<Rightarrow>
         tcr_status r \<in> {TCS_Demand, TCS_Off} \<and>
         id_sequence (creq_identity q) =
           tc_nextRequestSequence (controllerAfter p policy n calls) \<and>
         creq_context q = \<lparr>ctx_processTransitionSequence = tci_processTransitionSequence i,
           ctx_runRevision = tci_runRevision i,
           ctx_controlSensorRole = tci_controlSensorRole i\<rparr> \<and>
         creq_direction q = tcr_direction r \<and> creq_timeQuote q = tcr_timeQuote r \<and>
         tct_feedbackWindow (tc_state c') = (if tcr_status r = TCS_Demand then Some q else None)
     | None \<Rightarrow>
         tcr_status r \<in> {TCS_Unavailable, TCS_InvalidInput} \<and> tcr_direction r = Dir_Idle \<and>
         tcr_timeQuote r = F64 0 \<and>
         tct_integralContributionQuote (tc_state c') = F64 0 \<and>
         tct_feedbackWindow (tc_state c') = None \<and> tct_lastActiveDirection (tc_state c') = None \<and>
         tct_pendingTransitionAction (tc_state c') = None \<and>
         tct_pendingContextTransition (tc_state c') = None \<and>
         tc_nextRequestSequence c' = tc_nextRequestSequence (controllerAfter p policy n calls))"
  using after_inv [of p policy n calls]
proof (cases rule: evaluated_cases [where i = i])
  case refused
  then show ?thesis by (auto simp: refused_def failClosed_def)
next
  case (neutral air measured)
  then show ?thesis by (simp add: newRequest_def)
next
  case (active air measured profile direction rawP x d first anchor)
  then show ?thesis by (auto simp: quoted_def Let_def newRequest_def case_prod_beta)
qed

section \<open>An example\<close>

text \<open>A fresh controller heats from 28 to 30 degrees; its first request is confirmed.\<close>

definition exc_profile :: PiDirectionParameters where
  "exc_profile = \<lparr>pid_proportionalGainQuotePerCelsius = F64 (1/4),
     pid_integralGainQuotePerCelsiusSecond = F64 (1/64),
     pid_neutralBandWidthCelsius = F64 (1/2), pid_maximumQuote = F64 1\<rparr>"
definition exc_control :: TemperatureControlParameters where
  "exc_control = \<lparr>tcp_airHeating = exc_profile, tcp_airCooling = exc_profile,
     tcp_productHeating = exc_profile, tcp_productCooling = exc_profile,
     tcp_maximumIntegrationStepMillis = 5000, tcp_airLimitLowerBlockCelsius = F64 2,
     tcp_airLimitLowerReduceStartCelsius = F64 4, tcp_airLimitUpperReduceStartCelsius = F64 45,
     tcp_airLimitUpperBlockCelsius = F64 50\<rparr>"
definition exc_policy :: IntegratorTransitionPolicy where
  "exc_policy = \<lparr>itp_directionChange = ITA_Reset, itp_sensorRoleChange = ITA_Reset,
     itp_targetContextChange = ITA_BoundedCarry, itp_transitionMaximumCarryQuote = F64 (1/4)\<rparr>"
definition exc_sample :: "u64 \<Rightarrow> PreviousControlRequestFeedback option \<Rightarrow> TemperatureControlInput" where
  "exc_sample t f = \<lparr>tci_sampleTimestampMonotonicMillis = t, tci_targetCelsius = F64 30,
     tci_controlSensorRole = CSR_Air,
     tci_air = initialSensorQualitySnapshot\<lparr>sq_quality := SQ_Valid, sq_filteredCelsius := Some (F64 28)\<rparr>,
     tci_product = initialSensorQualitySnapshot,
     tci_previousControlRequestFeedback = f, tci_processTransitionSequence = 1, tci_runRevision = 1\<rparr>"
definition exc_fresh :: TemperatureController where
  "exc_fresh = newTemperatureController exc_control exc_policy 1"
definition exc_confirmed :: PreviousControlRequestFeedback where
  "exc_confirmed = \<lparr>pcf_controlRequestSequence = 1, pcf_disposition = FD_NoIntegratorConstraint\<rparr>"

lemma exc_classify: "classifyTemperatureControlParameters exc_control = TPV_Valid"
  by (simp add: classifyTemperatureControlParameters_def isDefaultParameters_def
      zeroDirectionParameters_def hasConfiguredValues_def validDirectionParameters_def
      validAirLimits_def exc_control_def exc_profile_def)

lemma exc_policy_valid: "validateIntegratorTransitionPolicy exc_policy"
  by (simp add: validateIntegratorTransitionPolicy_def validAction_def exc_policy_def)

lemma exc_values: "tc_parameters c = exc_control \<Longrightarrow> tc_policy c = exc_policy \<Longrightarrow>
    controlValues c (exc_sample t f) = Inr (F64 28, F64 28)"
  by (simp add: controlValues_def exc_classify exc_policy_valid exc_sample_def readControlSensorValue_def
      validRole_def)

lemma exc_round:
  "round64 0 = F64 0" "round64 2 = F64 2" "round64 (3/2) = F64 (3/2)" "round64 (3/8) = F64 (3/8)"
  "round64 (5/8) = F64 (5/8)" "round64 1000 = F64 1000" "round64 1 = F64 1"
  "round64 (3/128) = F64 (3/128)" "round64 (51/128) = F64 (51/128)"
  using round64_dyadic [of 0 0] round64_dyadic [of 2 0] round64_dyadic [of 3 1] round64_dyadic [of 3 3]
    round64_dyadic [of 5 3] round64_dyadic [of 1000 0] round64_dyadic [of 1 0]
    round64_dyadic [of 3 7] round64_dyadic [of 51 7] by simp_all


definition exc_request :: "u64 \<Rightarrow> u64 \<Rightarrow> f64 \<Rightarrow> ControlRequest" where
  "exc_request n t q = \<lparr>creq_identity = \<lparr>id_sequence = n, id_createdAtMonotonicMillis = t\<rparr>,
     creq_context = \<lparr>ctx_processTransitionSequence = 1, ctx_runRevision = 1,
       ctx_controlSensorRole = CSR_Air\<rparr>,
     creq_direction = Dir_Heating, creq_timeQuote = q\<rparr>"

definition exc_answered :: "u64 \<Rightarrow> u64 \<Rightarrow> f64 \<Rightarrow> f64 \<Rightarrow> TemperatureController" where
  "exc_answered n t integral q = exc_fresh
     \<lparr>tc_state := \<lparr>tct_integralContributionQuote = integral,
        tct_lastSampleTimestampMonotonicMillis = Some t, tct_suppressIntegrationAfterGap = False,
        tct_lastActiveDirection = Some Dir_Heating, tct_pendingContextTransition = None,
        tct_pendingTransitionAction = None, tct_feedbackWindow = Some (exc_request n t q)\<rparr>,
      tc_nextRequestSequence := n + 1\<rparr>"

lemmas exc_eval = evaluateControl_def sampleTime_def onControlState_def consumeFeedback_def
  selectProfile_def heatingProfile_def coolingProfile_def activeResult_def airLimitOf_def
  applyTransition_def directionChanged_def chargedIntegral_def integralHeadroom_def fmax_def
  fmin_def quotedResult_def limitQuote_def newRequest_def useRequestSequence_def fsub_def
  exc_control_def exc_profile_def exc_sample_def exc_fresh_def newTemperatureController_def
  initialControlState_def Let_def exc_round exc_answered_def exc_request_def closeFeedbackWindow_def
  validDisposition_def

lemma exc_first:
  "snd (evaluateControl (exc_sample 1000 None) exc_fresh) = exc_answered 1 1000 (F64 0) (F64 (3 / 8))"
  "tcr_status (fst (evaluateControl (exc_sample 1000 None) exc_fresh)) = TCS_Demand"
  "tcr_direction (fst (evaluateControl (exc_sample 1000 None) exc_fresh)) = Dir_Heating"
proof -
  have v: "controlValues exc_fresh (exc_sample 1000 None) = Inr (F64 28, F64 28)"
    by (rule exc_values) (simp_all add: exc_fresh_def newTemperatureController_def)
  show "snd (evaluateControl (exc_sample 1000 None) exc_fresh) = exc_answered 1 1000 (F64 0) (F64 (3 / 8))"
    "tcr_status (fst (evaluateControl (exc_sample 1000 None) exc_fresh)) = TCS_Demand"
    "tcr_direction (fst (evaluateControl (exc_sample 1000 None) exc_fresh)) = Dir_Heating"
    unfolding evaluateControl_def v by (simp_all add: exc_eval)
qed

lemma exc_second:
  "tct_integralContributionQuote (tc_state (snd (evaluateControl (exc_sample 2000 (Some exc_confirmed))
     (exc_answered 1 1000 (F64 0) (F64 (3 / 8)))))) = F64 (3 / 128)"
proof -
  have v: "controlValues (exc_answered 1 1000 (F64 0) (F64 (3 / 8))) (exc_sample 2000 (Some exc_confirmed)) = Inr (F64 28, F64 28)"
    by (rule exc_values) (simp_all add: exc_answered_def exc_fresh_def newTemperatureController_def)
  have "f64_of_u64 1000 = F64 1000" by (simp add: f64_of_u64_def exc_round)
  then show ?thesis
    unfolding evaluateControl_def v by (simp add: exc_eval exc_confirmed_def)
qed
section \<open>Direction\<close>

lemma demand_side:
  assumes "control_inv c" and "evaluateControl i c = (r, c')" and "tcr_status r = TCS_Demand"
  obtains air measured profile where
    "controlValues c i = Inr (air, measured)"
    "selectProfile (tc_parameters c) (tci_controlSensorRole i)
       (fsub (tci_targetCelsius i) measured) = Some (profile, tcr_direction r)"
    "airLimitOf (tc_parameters c) (tci_controlSensorRole i) (tcr_direction r) air \<noteq> ALS_Blocked"
  using assms(1)
proof (cases rule: evaluated_cases [where i = i])
  case refused
  then show thesis using assms(2,3) by (auto simp: refused_def failClosed_def)
next
  case (neutral air measured)
  then show thesis using assms(2,3) by simp
next
  case (active air measured profile direction rawP x d first anchor)
  from active(4) assms(2,3) have "tcr_direction r = direction"
    "airLimitOf (tc_parameters c) (tci_controlSensorRole i) direction air \<noteq> ALS_Blocked"
    by (auto simp: quoted_def Let_def split: if_splits)
  with active(1,3) that show thesis by simp
qed

lemma control_value:
  assumes "readControlSensorValue s out = (CSV_Valid, v)"
  shows "sq_quality s = SQ_Valid" "sq_filteredCelsius s = Some v" "isfinite v"
  using assms by (auto simp: readControlSensorValue_def split: if_splits option.splits)

lemma fsub_positive: "flt (F64 0) (fsub x y) \<Longrightarrow> isfinite x \<Longrightarrow> isfinite y \<Longrightarrow> flt y x"
  using roundRat_neg
  by (auto simp: isfinite_iff fsub_def round64_def Let_def not_le [symmetric] split: if_splits)

lemma fsub_negative: "flt (fsub x y) (F64 0) \<Longrightarrow> isfinite x \<Longrightarrow> isfinite y \<Longrightarrow> flt x y"
  using roundRat_nonneg
  by (auto simp: isfinite_iff fsub_def round64_def Let_def not_le [symmetric] split: if_splits)

lemma flt_trans: "flt x y \<Longrightarrow> flt y z \<Longrightarrow> flt x z"
  by (cases x; cases y; cases z) auto

text \<open>C32: heating is demanded only while the controlled value is below the target, cooling only while
  it is above; and where the product is controlled, heating only while the air is below its upper
  limit and cooling only while it is above its lower one. Air and controlled sensor are valid.\<close>

theorem control_direction_safe:
  assumes "evaluateControl i (controllerAfter p policy n calls) = (r, c')"
    and "tcr_status r = TCS_Demand"
  shows "\<exists>air measured.
    sq_quality (tci_air i) = SQ_Valid \<and> sq_filteredCelsius (tci_air i) = Some air \<and>
    (if tci_controlSensorRole i = CSR_Product
     then sq_quality (tci_product i) = SQ_Valid \<and>
       sq_filteredCelsius (tci_product i) = Some measured
     else tci_controlSensorRole i = CSR_Air \<and> measured = air) \<and>
    (tcr_direction r = Dir_Heating \<and> flt measured (tci_targetCelsius i) \<and>
       (tci_controlSensorRole i = CSR_Air \<or> flt air (tcp_airLimitUpperBlockCelsius p)) \<or>
     tcr_direction r = Dir_Cooling \<and> flt (tci_targetCelsius i) measured \<and>
       (tci_controlSensorRole i = CSR_Air \<or> flt (tcp_airLimitLowerBlockCelsius p) air))"
proof -
  let ?c = "controllerAfter p policy n calls"
  have p: "tc_parameters ?c = p" using after_ok [of p policy n calls] by (simp add: controller_ok_def)
  obtain air measured profile where d: "controlValues ?c i = Inr (air, measured)"
    "selectProfile p (tci_controlSensorRole i) (fsub (tci_targetCelsius i) measured) =
      Some (profile, tcr_direction r)"
    "airLimitOf p (tci_controlSensorRole i) (tcr_direction r) air \<noteq> ALS_Blocked"
    using demand_side [OF after_inv assms] unfolding p by blast
  note v = controlValues_ok [OF d(1)]
  note a = control_value [OF v(3)]
  have t: "isfinite (tci_targetCelsius i)"
    using d(1) by (auto simp: controlValues_def Let_def split: if_splits prod.splits)
  have m: "isfinite measured"
    using v(4) a(3) control_value(3) by (auto split: if_splits)
  have vp: "validDirectionParameters (heatingProfile p (tci_controlSensorRole i))"
    "validDirectionParameters (coolingProfile p (tci_controlSensorRole i))" "validAirLimits p"
    using v(1) by (auto simp: valid_controller_def p classifyTemperatureControlParameters_def
        hasConfiguredValues_def heatingProfile_def coolingProfile_def split: if_splits)
  obtain u l where ul: "tcp_airLimitUpperBlockCelsius p = F64 u"
    "tcp_airLimitLowerBlockCelsius p = F64 l"
    using vp(3) by (auto simp: validAirLimits_def isfinite_iff)
  obtain h where h: "pid_neutralBandWidthCelsius (heatingProfile p (tci_controlSensorRole i)) = F64 h"
    "0 < h" using vp(1) by (elim valid_profile)
  obtain k where k: "pid_neutralBandWidthCelsius (coolingProfile p (tci_controlSensorRole i)) = F64 k"
    "0 < k" using vp(2) by (elim valid_profile)
  have "tcr_direction r = Dir_Heating \<and> flt measured (tci_targetCelsius i) \<and>
       (tci_controlSensorRole i = CSR_Air \<or> flt air (tcp_airLimitUpperBlockCelsius p)) \<or>
     tcr_direction r = Dir_Cooling \<and> flt (tci_targetCelsius i) measured \<and>
       (tci_controlSensorRole i = CSR_Air \<or> flt (tcp_airLimitLowerBlockCelsius p) air)"
  proof (cases "flt (F64 h) (fsub (tci_targetCelsius i) measured)")
    case True
    then have "flt (F64 0) (fsub (tci_targetCelsius i) measured)"
      using h(2) flt_trans [of "F64 0" "F64 h"] by simp
    then have "flt measured (tci_targetCelsius i)" using t m by (rule fsub_positive)
    moreover have "tcr_direction r = Dir_Heating" using d(2) True by (simp add: selectProfile_def h)
    ultimately show ?thesis using d(3) v(2) a(3) ul
      by (auto simp: airLimitOf_def isfinite_iff split: if_splits)
  next
    case False
    then have c: "flt (fsub (tci_targetCelsius i) measured) (F64 (- k))"
      "tcr_direction r = Dir_Cooling"
      using d(2) by (auto simp: selectProfile_def h k split: if_splits)
    then have "flt (fsub (tci_targetCelsius i) measured) (F64 0)"
      using k(2) flt_trans [of _ "F64 (- k)" "F64 0"] by simp
    then have "flt (tci_targetCelsius i) measured" using t m by (rule fsub_negative)
    then show ?thesis using d(3) v(2) a(3) ul c
      by (auto simp: airLimitOf_def isfinite_iff split: if_splits)
  qed
  then show ?thesis using a(1,2) v(2,4) control_value
    by (intro exI [of _ air] exI [of _ measured]) (auto split: if_splits)
qed

theorem control_direction_safe_witness:
  "tcr_direction (fst (evaluateControl (exc_sample 1000 None) exc_fresh)) = Dir_Heating \<and>
   (\<exists>air measured. sq_quality (tci_air (exc_sample 1000 None)) = SQ_Valid \<and>
      sq_filteredCelsius (tci_air (exc_sample 1000 None)) = Some air \<and> measured = air \<and>
      flt measured (tci_targetCelsius (exc_sample 1000 None)))"
proof -
  have "controllerAfter exc_control exc_policy 1 [] = exc_fresh"
    by (simp add: controllerAfter_def exc_fresh_def)
  with control_direction_safe [OF surjective_pairing, of "exc_sample 1000 None" exc_control exc_policy
      1 "[]"] exc_first(2,3)
  show ?thesis by (auto simp: exc_sample_def)
qed

section \<open>Anti-windup\<close>

text \<open>The request whose feedback is awaited asked for the last active direction.\<close>

definition window_ok :: "TemperatureController \<Rightarrow> bool" where
  "window_ok c \<longleftrightarrow> (case tct_feedbackWindow (tc_state c) of None \<Rightarrow> True
     | Some request \<Rightarrow> tct_lastActiveDirection (tc_state c) = Some (creq_direction request))"

lemma window_failClosed [simp]: "window_ok (snd (failClosed st r a c))"
  by (simp add: window_ok_def failClosed_def clearFailClosed_def)

lemma window_refused: "refused c x \<Longrightarrow> window_ok (snd x)"
  by (auto simp: refused_def)

lemma window_neutral: "window_ok (snd (neutralResult c i))"
  by (auto simp: neutralResult_def Let_def)
    (simp_all add: window_ok_def closeFeedbackWindow_def useRequestSequence_def)

lemma window_quoted: "window_ok (snd (quotedResult c i profile direction air rawP))"
  by (auto simp: quotedResult_def Let_def) (simp_all add: window_ok_def newRequest_def useRequestSequence_def)

lemma window_active: "window_ok (snd (activeResult c i profile direction e air d first anchor allow))"
  by (simp add: activeResult_def Let_def window_quoted split: option.split)

lemma window_evaluate: "window_ok (snd (evaluateControl i c))"
  using controlValues_refused [THEN window_refused, of c i] sampleTime_refused [THEN window_refused, of c i]
    consumeFeedback_refused [THEN window_refused, of _ i]
  by (auto simp: evaluateControl_def Let_def window_neutral window_active
      split: sum.split prod.split option.split)

lemma window_after: "window_ok (controllerAfter p policy n calls)"
proof -
  have "window_ok (fold control_call ks c)" if "window_ok c" for ks c
    using that
  proof (induction ks arbitrary: c)
    case (Cons k ks)
    have "window_ok (control_call k c)"
      using Cons.prems window_evaluate
      by (cases k) (auto simp: window_ok_def markCommittedControlContextTransitionPending_def
          resetRuntime_def initialControlState_def Let_def split: option.splits)
    then show ?case using Cons.IH by simp
  qed simp
  then show ?thesis
    by (simp add: controllerAfter_def window_ok_def newTemperatureController_def initialControlState_def)
qed

text \<open>C33: the integral grows only on the confirmation, by the feedback, of the very request whose
  window is open, and only if that request asked for the direction in which the sample asks again;
  never with a transition pending, on a sample after a gap, over no time or a step above the allowed
  one, or under an air limit. A change of context counts only where the caller has marked the
  transition; request and sample are not compared otherwise. (Maxima and carry are doubles.)\<close>

theorem control_integral_needs_confirmation:
  assumes "double_controller (newTemperatureController p policy n)"
    and "evaluateControl i (controllerAfter p policy n calls) = (r, c')"
    and "s = tc_state (controllerAfter p policy n calls)"
    and "flt (tct_integralContributionQuote s) (tct_integralContributionQuote (tc_state c'))"
  shows "(\<exists>request f. tct_feedbackWindow s = Some request \<and>
      tci_previousControlRequestFeedback i = Some f \<and>
      pcf_controlRequestSequence f = id_sequence (creq_identity request) \<and>
      pcf_disposition f = FD_NoIntegratorConstraint \<and>
      tct_lastActiveDirection (tc_state c') = Some (creq_direction request)) \<and>
    (\<exists>t. tct_lastSampleTimestampMonotonicMillis s = Some t \<and>
      t < tci_sampleTimestampMonotonicMillis i \<and>
      tci_sampleTimestampMonotonicMillis i - t \<le> tcp_maximumIntegrationStepMillis p) \<and>
    \<not> tct_suppressIntegrationAfterGap s \<and> tct_pendingTransitionAction s = None \<and>
    tct_lastActiveDirection s = tct_lastActiveDirection (tc_state c') \<and>
    tcr_airLimitState r \<in> {ALS_NotApplied, ALS_Unrestricted}"
proof -
  let ?c = "controllerAfter p policy n calls"
  note ok = after_ok [of p policy n calls, unfolded controller_ok_def]
  have d: "double_controller ?c" "is_double (tct_integralContributionQuote s)"
    using assms(1,3) ok by (auto simp: double_controller_def newTemperatureController_def)
  have pos: "\<not> flt (tct_integralContributionQuote s) (F64 0)"
    using ok assms(3) by (auto simp: control_inv_def between_def)
  show ?thesis using after_inv [of p policy n calls]
  proof (cases rule: evaluated_cases [where i = i])
    case refused
    then show ?thesis using assms(2,4) pos by (auto simp: refused_def failClosed_def)
  next
    case (neutral air measured)
    then have "tct_integralContributionQuote (tc_state c') = tct_integralContributionQuote s"
      using assms(2,3) by auto
    moreover have "\<not> flt q q" for q by (cases q) auto
    ultimately show ?thesis using assms(4) by simp
  next
    case (active air measured profile direction rawP x d first anchor)
    have x: "tct_integralContributionQuote (tc_state c') = x"
      "tct_lastActiveDirection (tc_state c') = Some direction"
      "tcr_airLimitState r = airLimitOf p (tci_controlSensorRole i) direction air"
      using active(4) assms(2) ok by (simp_all add: quoted_def Let_def)
    then have m: "may_charge ?c i direction air first anchor (feedback_allows ?c i)" "0 < d"
      using active(6) d assms(3,4) by auto
    have e: "feedback_allows ?c i" "\<not> first" "\<not> anchor" "\<not> directionChanged ?c direction"
      "tct_pendingTransitionAction s = None"
      "airLimitOf p (tci_controlSensorRole i) direction air \<notin> {ALS_Reduced, ALS_Blocked}"
      using m(1) ok assms(3) by (auto simp: may_charge_def)
    have l: "tct_lastActiveDirection s \<in> {None, tct_lastActiveDirection (tc_state c')}"
      using e(4) x(2) assms(3) by (auto simp: directionChanged_def split: option.splits)
    have a: "tcr_airLimitState r \<in> {ALS_NotApplied, ALS_Unrestricted}"
      using e(6) unfolding x(3) by (auto simp: airLimitOf_def split: if_splits)
    obtain t where t: "tct_lastSampleTimestampMonotonicMillis s = Some t"
      "t \<le> tci_sampleTimestampMonotonicMillis i" "d = tci_sampleTimestampMonotonicMillis i - t"
      "d \<le> tcp_maximumIntegrationStepMillis p" "\<not> tct_suppressIntegrationAfterGap s"
      using active(2) e(2,3) ok assms(3) by (auto simp: timely_def)
    have "t < tci_sampleTimestampMonotonicMillis i" using t(2,3) m(2) by (auto simp: le_less)
    with t e(1,5) l a window_after [of p policy n calls]
    show ?thesis unfolding feedback_allows_def assms(3) window_ok_def by auto
  qed
qed

theorem control_integral_needs_confirmation_witness:
  "tct_integralContributionQuote (tc_state
     (control_call (CC_Evaluate (exc_sample 2000 (Some exc_confirmed)))
       (controllerAfter exc_control exc_policy 1 [CC_Evaluate (exc_sample 1000 None)]))) =
     F64 (3 / 128) \<and>
   tct_lastSampleTimestampMonotonicMillis (tc_state
     (controllerAfter exc_control exc_policy 1 [CC_Evaluate (exc_sample 1000 None)])) = Some 1000 \<and>
   tct_pendingTransitionAction (tc_state
     (controllerAfter exc_control exc_policy 1 [CC_Evaluate (exc_sample 1000 None)])) = None"
proof -
  let ?c = "controllerAfter exc_control exc_policy 1 [CC_Evaluate (exc_sample 1000 None)]"
  let ?i = "exc_sample 2000 (Some exc_confirmed)"
  have c: "?c = exc_answered 1 1000 (F64 0) (F64 (3 / 8))"
    using exc_first(1) by (simp add: controllerAfter_def exc_fresh_def)
  have d: "double_controller (newTemperatureController exc_control exc_policy 1)"
    using roundRat_dyadic [of 1 0] roundRat_dyadic [of 1 2]
    by (simp add: double_controller_def newTemperatureController_def exc_control_def
        exc_policy_def exc_profile_def)
  have g: "tct_integralContributionQuote (tc_state (snd (evaluateControl ?i ?c))) = F64 (3 / 128)"
    unfolding c by (rule exc_second)
  have "flt (tct_integralContributionQuote (tc_state ?c))
      (tct_integralContributionQuote (tc_state (snd (evaluateControl ?i ?c))))"
    unfolding g by (simp add: c exc_answered_def)
  from control_integral_needs_confirmation [OF d surjective_pairing refl this]
  have "tct_pendingTransitionAction (tc_state ?c) = None" by blast
  then show ?thesis using g by (simp add: c exc_answered_def)
qed

end
