(* ===== verification/ActuationChain.thy ===== *)
theory ActuationChain
  imports PlannerProperties OutputsProperties InterlockProperties ControlProperties
begin

text \<open>
  The components of the actuation path composed: from the temperature control over the planner
  and the interlock's permission to the bridge and the pins.
\<close>

section \<open>From a tick of the planner to the pins\<close>

definition reports :: "ActuatorPlanTickResult \<times> ActuatorPlannerRuntimeState \<Rightarrow> bool" where
  "reports x \<longleftrightarrow> ptr_appliedDirection (fst x) = pl_lastAppliedDirection (snd x)"

lemma reports_build [simp]: "reports (buildResult st r oc s, s)"
  by (simp add: reports_def)

lemma reports_answer [simp]:
  "reports (answerDemand c st r oc s)" "reports (rejectToIdle p oc t st r s)"
  "reports (teardown p oc t s)" "reports (windowTick p c oc t s)"
  by (simp_all add: answerDemand_def rejectToIdle_def teardown_def windowTick_def Let_def
      case_prod_beta)

lemma reports_stages:
  "opposingWindow p c oc t s = Inl x \<Longrightarrow> reports x"
  "createWindow p c d oc t s = Inl x \<Longrightarrow> reports x"
  by (auto simp: opposingWindow_def createWindow_def Let_def case_prod_beta
      split: option.splits if_splits)

lemma reports_evaluate [simp]: "reports (evaluateHeatingCoolingDemand p c oc t s)"
  using reports_stages
  by (auto simp: evaluateHeatingCoolingDemand_def Let_def split: sum.splits)







section \<open>From the evidence to the output\<close>




section \<open>From the temperature control to the planner\<close>

lemma known_defs:
  "isKnownStatus st = (\<forall>b. st \<noteq> TCS_other b)" "isKnownReason q = (\<forall>b. q \<noteq> TCR_other b)"
  "isKnownAirLimitState a = (\<forall>b. a \<noteq> ALS_other b)"
  by (simp_all add: isKnownStatus_def isKnownReason_def isKnownAirLimitState_def
      split: TemperatureControlStatus.splits TemperatureControlReason.splits AirLimitState.splits)

lemma refused_structure:
  assumes "refused c x"
  shows "isStructurallyValidEvaluation (fst x) \<longleftrightarrow>
    tcr_airLimitState (fst x) \<notin> {ALS_Reduced, ALS_Blocked}"
  using assms
  by (auto simp: refused_def failClosed_def isStructurallyValidEvaluation_def known_defs
      evaluationMatchesStatus_def isFiniteUnitQuote_def isKnownDirection_def)

lemma neutral_structure:
  assumes "tc_nextRequestSequence c \<noteq> 0" and "tci_controlSensorRole i \<in> {CSR_Air, CSR_Product}"
  shows "isStructurallyValidEvaluation
    (emptyControlResult\<lparr>tcr_status := TCS_Off, tcr_reason := TCR_NeutralBand,
       tcr_airLimitState :=
         (if tci_controlSensorRole i = CSR_Air then ALS_NotApplied else ALS_Unrestricted),
       tcr_direction := Dir_Idle, tcr_timeQuote := F64 0,
       tcr_controlRequest := Some (newRequest c i Dir_Idle (F64 0))\<rparr>)"
  using assms
  by (auto simp: isStructurallyValidEvaluation_def known_defs evaluationMatchesStatus_def
      isFiniteUnitQuote_def isKnownDirection_def isStructurallyValidContext_def
      isKnownSensorRole_def airLimitMatchesRole_def)

lemma quoted_structure:
  assumes "quoted c i profile direction air rawP x" and "tc_nextRequestSequence c \<noteq> 0"
    and "tci_controlSensorRole i \<in> {CSR_Air, CSR_Product}"
    and "direction \<in> {Dir_Heating, Dir_Cooling}" and "validDirectionParameters profile"
  shows "tcr_controlRequest (fst x) \<noteq> None \<and>
    isStructurallyValidEvaluation (fst x) =
      ((tcr_reason (fst x) = TCR_AirLimitBlocked) = (tcr_airLimitState (fst x) = ALS_Blocked))"
proof -
  obtain m where m: "pid_maximumQuote profile = F64 m" "0 < m" "m \<le> 1"
    using assms(5) by (elim valid_profile)
  obtain q where q: "tcr_timeQuote (fst x) = F64 q" "0 \<le> q" "q \<le> 1"
    using assms(1) m by (auto simp: quoted_def Let_def between_def)
  have unit: "isFiniteUnitQuote (F64 q)" using q by (simp add: isFiniteUnitQuote_def)
  have a: "tcr_airLimitState (fst x) =
      airLimitOf (tc_parameters c) (tci_controlSensorRole i) direction air"
    "\<And>b. tcr_airLimitState (fst x) \<noteq> ALS_other b"
    using assms(1) airLimit_known by (simp_all add: quoted_def Let_def)
  have role: "(tcr_airLimitState (fst x) = ALS_NotApplied) = (tci_controlSensorRole i = CSR_Air)"
    "tcr_airLimitState (fst x) \<noteq> ALS_Unavailable"
    using assms(3) unfolding a(1) by (auto simp: airLimitOf_def)
  show ?thesis
  proof (cases "tcr_airLimitState (fst x) = ALS_Blocked \<or> q = 0")
    case True
    then have "tcr_status (fst x) = TCS_Off" "tcr_reason (fst x) = TCR_AirLimitBlocked"
      "tcr_direction (fst x) = Dir_Idle" "q = 0"
      "tcr_controlRequest (fst x) = Some (newRequest c i Dir_Idle (F64 q))"
      using assms(1) q by (auto simp: quoted_def Let_def)
    with True role a(2) assms(2,3) q unit show ?thesis
      by (cases "tci_controlSensorRole i")
        (auto simp: isStructurallyValidEvaluation_def known_defs evaluationMatchesStatus_def
          isKnownDirection_def isStructurallyValidContext_def isKnownSensorRole_def
          airLimitMatchesRole_def)
  next
    case False
    then have f: "tcr_status (fst x) = TCS_Demand" "tcr_direction (fst x) = direction" "0 < q"
      "tcr_controlRequest (fst x) = Some (newRequest c i direction (F64 q))"
      "tcr_reason (fst x) = (if tcr_airLimitState (fst x) = ALS_Reduced then TCR_AirLimitReduced
        else if fle (pid_maximumQuote profile) rawP \<or>
                fle (pid_maximumQuote profile) (tcr_maximumLimitedQuote (fst x)) then TCR_Saturated
        else TCR_None)"
      using assms(1) q by (auto simp: quoted_def Let_def)
    then have r: "tcr_reason (fst x) \<in> {TCR_None, TCR_Saturated, TCR_AirLimitReduced}"
      "(tcr_reason (fst x) = TCR_AirLimitReduced) = (tcr_airLimitState (fst x) = ALS_Reduced)"
      by auto
    from False role a(2) assms(2-4) q unit f(1-4) r show ?thesis
      by (cases "tcr_airLimitState (fst x)"; cases "tci_controlSensorRole i")
        (auto simp: isStructurallyValidEvaluation_def known_defs evaluationMatchesStatus_def
          isKnownDirection_def isStructurallyValidContext_def isKnownSensorRole_def
          airLimitMatchesRole_def)
  qed
qed

text \<open>What the temperature control answers, after any calls, passes the structural check with
  which the planner admits an evaluation, with two exceptions only: a refusal that still names a
  reducing or blocking air limit (the request identities are used up, or a value is not finite), and
  a quote that rounds to zero without a blocking limit.\<close>

theorem planner_accepts_control:
  "case evaluateControl i (controllerAfter p policy n calls) of (r, c') \<Rightarrow>
    isStructurallyValidEvaluation r =
      (case tcr_controlRequest r of
         None \<Rightarrow> tcr_airLimitState r \<notin> {ALS_Reduced, ALS_Blocked}
       | Some q \<Rightarrow> (tcr_reason r = TCR_AirLimitBlocked) = (tcr_airLimitState r = ALS_Blocked))"
  using after_inv [of p policy n calls]
proof (cases rule: evaluated_cases [where i = i])
  case refused
  moreover have "tcr_controlRequest (fst (evaluateControl i (controllerAfter p policy n calls))) = None"
    using refused by (auto simp: refused_def failClosed_def)
  ultimately show ?thesis using refused_structure [OF refused] by (simp add: case_prod_beta)
next
  case (neutral air measured)
  have "tc_nextRequestSequence (controllerAfter p policy n calls) \<noteq> 0"
    using after_ok [of p policy n calls] by (simp add: controller_ok_def)
  from neutral_structure [OF this controlValues_ok(2) [OF neutral(1)]] show ?thesis
    by (simp add: neutral(4))
next
  case (active air measured profile direction rawP x d first anchor)
  have n: "tc_nextRequestSequence (charged profile direction x
      (sampled i (controllerAfter p policy n calls))) \<noteq> 0"
    using after_ok [of p policy n calls] by (simp add: controller_ok_def)
  have "classifyTemperatureControlParameters (tc_parameters (controllerAfter p policy n calls)) =
      TPV_Valid" using controlValues_ok(1) [OF active(1)] by (simp add: valid_controller_def)
  note v = valid_selected [OF this active(3)]
  from quoted_structure [OF active(4) n controlValues_ok(2) [OF active(1)] v(2,1)] show ?thesis
    by (auto simp: case_prod_beta)
qed

end
