(* ===== verification/ProgramModel.thy ===== *)
theory ProgramModel
  imports ProgramLimits
begin

unbundle bit_operations_syntax

text \<open>
  The program of a fermentation (\<open>program_model.cpp\<close>): the document with its schema version and its
  mask of present fields, the validation that lists every error, the predicates that say which
  optional values the settings use, and the migration of older schemas.
\<close>

section \<open>Schema\<close>

definition kCurrentProgramSchemaVersion :: u32 where "kCurrentProgramSchemaVersion = 6"

definition kMinimumMigratableProgramSchemaVersion :: u32 where
  "kMinimumMigratableProgramSchemaVersion = 4"

datatype ProgramField =
    PFd_Id | PFd_Name | PFd_BuiltIn | PFd_Resettable | PFd_Enabled | PFd_Preheat
  | PFd_SensorPreference | PFd_ProductSensorFailure | PFd_FermentationStages
  | PFd_TargetQualification | PFd_MaximumTargetReach | PFd_Completion
  | PFd_FactoryCatalogEntry | PFd_UserDeletable | PFd_Installed | PFd_MaximumProductWait
  | PFd_ReturnStrategy

text \<open>The value of an enumerator: one bit of the mask.\<close>

fun programFieldBit :: "ProgramField \<Rightarrow> nat" where
  "programFieldBit PFd_Id = 0"
| "programFieldBit PFd_Name = 1"
| "programFieldBit PFd_BuiltIn = 2"
| "programFieldBit PFd_Resettable = 3"
| "programFieldBit PFd_Enabled = 4"
| "programFieldBit PFd_Preheat = 5"
| "programFieldBit PFd_SensorPreference = 6"
| "programFieldBit PFd_ProductSensorFailure = 7"
| "programFieldBit PFd_FermentationStages = 8"
| "programFieldBit PFd_TargetQualification = 9"
| "programFieldBit PFd_MaximumTargetReach = 10"
| "programFieldBit PFd_Completion = 11"
| "programFieldBit PFd_FactoryCatalogEntry = 12"
| "programFieldBit PFd_UserDeletable = 13"
| "programFieldBit PFd_Installed = 14"
| "programFieldBit PFd_MaximumProductWait = 15"
| "programFieldBit PFd_ReturnStrategy = 16"

definition fieldMask :: "ProgramField \<Rightarrow> u64" where
  "fieldMask f = push_bit (programFieldBit f) 1"

definition kSchema3RequiredProgramFields :: u64 where
  "kSchema3RequiredProgramFields =
     fieldMask PFd_Id OR fieldMask PFd_Name OR fieldMask PFd_BuiltIn OR
     fieldMask PFd_Resettable OR fieldMask PFd_Enabled OR fieldMask PFd_Preheat OR
     fieldMask PFd_SensorPreference OR fieldMask PFd_ProductSensorFailure OR
     fieldMask PFd_FermentationStages OR fieldMask PFd_TargetQualification OR
     fieldMask PFd_MaximumTargetReach OR fieldMask PFd_Completion"

definition kSchema4RequiredProgramFields :: u64 where
  "kSchema4RequiredProgramFields =
     kSchema3RequiredProgramFields OR fieldMask PFd_FactoryCatalogEntry OR
     fieldMask PFd_UserDeletable OR fieldMask PFd_Installed"

definition kSchema5RequiredProgramFields :: u64 where
  "kSchema5RequiredProgramFields =
     kSchema4RequiredProgramFields OR fieldMask PFd_MaximumProductWait"

definition kCurrentRequiredProgramFields :: u64 where
  "kCurrentRequiredProgramFields =
     kSchema5RequiredProgramFields OR fieldMask PFd_ReturnStrategy"

definition kCurrentKnownProgramFields :: u64 where
  "kCurrentKnownProgramFields = kCurrentRequiredProgramFields"

text \<open>The loop clears the lowest set bit until none is left.\<close>

lemma clear_lowest_less: "(fmask :: u64) \<noteq> 0 \<Longrightarrow> unat (fmask AND (fmask - 1)) < unat fmask"
proof -
  assume m: "fmask \<noteq> 0"
  have "fmask AND (fmask - 1) \<le> fmask - 1"
    by (rule word_and_le1)
  moreover have "fmask - 1 < fmask" using m by (simp add: word_less_nat_alt unat_minus_one unat_gt_0)
  ultimately show ?thesis by (simp add: word_less_nat_alt word_le_nat_alt)
qed

function countFieldsFrom :: "u64 \<Rightarrow> nat \<Rightarrow> nat" where
  "countFieldsFrom fmask count =
     (if fmask = 0 then count else countFieldsFrom (fmask AND (fmask - 1)) (count + 1))"
  by pat_completeness auto

termination countFieldsFrom
  by (relation "measure (\<lambda>(fmask, count). unat fmask)") (auto intro: clear_lowest_less)

declare countFieldsFrom.simps [simp del]

definition countProgramFields :: "u64 \<Rightarrow> nat" where
  "countProgramFields fmask = countFieldsFrom fmask 0"

section \<open>The document\<close>

record ProductSensorFailure =
  psf_policy :: ProductSensorFailurePolicy
  psf_fallbackDelaySeconds :: "u32 option"
  psf_returnStrategy :: ReturnStrategy

record FermentationStage =
  stg_targetTemperatureCelsius :: "f64 option"
  stg_durationMinutes :: "u32 option"

record TargetQualification =
  tql_bandCelsius :: "f64 option"
  tql_durationMinutes :: "u32 option"

record ProgramCompletion =
  pcp_mode :: CompletionMode
  pcp_coolingTargetCelsius :: "f64 option"
  pcp_holdDurationMinutes :: "u32 option"

record ProgramDefinition =
  pd_id :: string
  pd_name :: string
  pd_notes :: string
  pd_builtIn :: bool
  pd_factoryCatalogEntry :: bool
  pd_resettable :: bool
  pd_userDeletable :: bool
  pd_installed :: bool
  pd_enabled :: bool
  pd_preheat :: bool
  pd_sensorPreference :: SensorPreference
  pd_productSensorFailure :: ProductSensorFailure
  pd_fermentationStages :: "FermentationStage list"
  pd_targetQualification :: TargetQualification
  pd_maximumTargetReachMinutes :: "u32 option"
  pd_maximumProductWaitMinutes :: "u32 option"
  pd_completion :: ProgramCompletion

record ProgramSchemaMetadata =
  psm_version :: u32
  psm_presentFields :: u64

record ProgramDocument =
  doc_schema :: ProgramSchemaMetadata
  doc_program :: ProgramDefinition

section \<open>Errors\<close>

datatype ValidationPurpose = VP_CatalogTemplate | VP_Runnable

datatype ValidationErrorCode =
    VEC_UnsupportedSchemaVersion
  | VEC_MissingRequiredField
  | VEC_UnknownField
  | VEC_EmptyId
  | VEC_EmptyName
  | VEC_UnsupportedStageCount
  | VEC_MissingCommissioningValue
  | VEC_ValueOutOfRange
  | VEC_InvalidEnumValue
  | VEC_UnexpectedValue
  | VEC_IncompatibleCombination

record ValidationError =
  ver_code :: ValidationErrorCode
  ver_field :: string

text \<open>The result is the list of errors; a check gives the errors that it appends.\<close>

definition addError :: "ValidationErrorCode \<Rightarrow> string \<Rightarrow> ValidationError list" where
  "addError code field = [\<lparr>ver_code = code, ver_field = field\<rparr>]"

definition errorIf :: "bool \<Rightarrow> ValidationErrorCode \<Rightarrow> string \<Rightarrow> ValidationError list" where
  "errorIf b code field = (if b then addError code field else [])"

definition kRequiredFields :: "(ProgramField \<times> string) list" where
  "kRequiredFields =
     [(PFd_Id, ''id''), (PFd_Name, ''name''), (PFd_BuiltIn, ''built_in''),
      (PFd_FactoryCatalogEntry, ''factory_catalog_entry''), (PFd_Resettable, ''resettable''),
      (PFd_UserDeletable, ''user_deletable''), (PFd_Installed, ''installed''),
      (PFd_Enabled, ''enabled''), (PFd_Preheat, ''defaults.preheat''),
      (PFd_SensorPreference, ''defaults.sensor_preference''),
      (PFd_ProductSensorFailure, ''defaults.product_sensor_failure''),
      (PFd_FermentationStages, ''defaults.fermentation_stages''),
      (PFd_TargetQualification, ''defaults.target_qualification''),
      (PFd_MaximumTargetReach, ''defaults.max_target_reach_min''),
      (PFd_MaximumProductWait, ''defaults.max_product_wait_min''),
      (PFd_Completion, ''defaults.completion''),
      (PFd_ReturnStrategy, ''defaults.product_sensor_failure.return_strategy'')]"

definition inRangeCelsius :: "f64 \<Rightarrow> f64 \<Rightarrow> f64 \<Rightarrow> bool" where
  "inRangeCelsius v minimum maximum \<longleftrightarrow> isfinite v \<and> fle minimum v \<and> fle v maximum"

definition validateOptionalDouble ::
  "f64 option \<Rightarrow> string \<Rightarrow> f64 \<Rightarrow> f64 \<Rightarrow> ValidationPurpose \<Rightarrow> ValidationError list" where
  "validateOptionalDouble v field minimum maximum purpose =
     (case v of
        None \<Rightarrow> errorIf (purpose = VP_Runnable) VEC_MissingCommissioningValue field
      | Some x \<Rightarrow> errorIf (\<not> inRangeCelsius x minimum maximum) VEC_ValueOutOfRange field)"

definition validateOptionalDuration ::
  "u32 option \<Rightarrow> string \<Rightarrow> u32 \<Rightarrow> u32 \<Rightarrow> ValidationPurpose \<Rightarrow> ValidationError list" where
  "validateOptionalDuration v field minimum maximum purpose =
     (case v of
        None \<Rightarrow> errorIf (purpose = VP_Runnable) VEC_MissingCommissioningValue field
      | Some x \<Rightarrow> errorIf (x < minimum \<or> x > maximum) VEC_ValueOutOfRange field)"

section \<open>Predicates on the settings\<close>

definition hasCooling :: "CompletionMode \<Rightarrow> bool" where
  "hasCooling m \<longleftrightarrow> m \<noteq> CM_FinishWithoutCooling"

definition validSensorPreference :: "SensorPreference \<Rightarrow> bool" where
  "validSensorPreference p = (case p of SPref_other _ \<Rightarrow> False | _ \<Rightarrow> True)"

definition validFailurePolicy :: "ProductSensorFailurePolicy \<Rightarrow> bool" where
  "validFailurePolicy p = (case p of PFP_other _ \<Rightarrow> False | _ \<Rightarrow> True)"

definition validReturnStrategy :: "ReturnStrategy \<Rightarrow> bool" where
  "validReturnStrategy s = (case s of RSt_other _ \<Rightarrow> False | _ \<Rightarrow> True)"

definition validCompletionMode :: "CompletionMode \<Rightarrow> bool" where
  "validCompletionMode m = (case m of CM_other _ \<Rightarrow> False | _ \<Rightarrow> True)"

definition programUsesProductWait :: "ProgramDefinition \<Rightarrow> bool" where
  "programUsesProductWait p \<longleftrightarrow> pd_preheat p"

definition programUsesFallbackDelay :: "ProgramDefinition \<Rightarrow> bool" where
  "programUsesFallbackDelay p \<longleftrightarrow>
     psf_policy (pd_productSensorFailure p) = PFP_FallbackToAirAfterTimeout \<and>
     pd_sensorPreference p \<noteq> SPref_AirOnly"

definition programUsesCoolingTarget :: "ProgramDefinition \<Rightarrow> bool" where
  "programUsesCoolingTarget p \<longleftrightarrow>
     validCompletionMode (pcp_mode (pd_completion p)) \<and> hasCooling (pcp_mode (pd_completion p))"

definition programUsesHoldDuration :: "ProgramDefinition \<Rightarrow> bool" where
  "programUsesHoldDuration p \<longleftrightarrow> pcp_mode (pd_completion p) = CM_CoolAndHoldForDuration"

definition programHasFixedSensorFailure :: "ProgramDefinition \<Rightarrow> bool" where
  "programHasFixedSensorFailure p \<longleftrightarrow> pd_sensorPreference p = SPref_AirOnly"

definition applyAirOnlySensorFailure :: "ProgramDefinition \<Rightarrow> ProgramDefinition" where
  "applyAirOnlySensorFailure p = p\<lparr>pd_productSensorFailure :=
     \<lparr>psf_policy = PFP_FallbackToAirAfterTimeout, psf_fallbackDelaySeconds = None,
      psf_returnStrategy = RSt_RemainOnAirUntilEnd\<rparr>\<rparr>"

definition clearUnexpectedProgramValues :: "ProgramDefinition \<Rightarrow> ProgramDefinition" where
  "clearUnexpectedProgramValues p =
     (let p = (if \<not> programUsesProductWait p then p\<lparr>pd_maximumProductWaitMinutes := None\<rparr> else p);
          p = (if programHasFixedSensorFailure p then applyAirOnlySensorFailure p
               else if \<not> programUsesFallbackDelay p then
                 p\<lparr>pd_productSensorFailure :=
                   (pd_productSensorFailure p)\<lparr>psf_fallbackDelaySeconds := None\<rparr>\<rparr>
               else p);
          p = (if \<not> programUsesCoolingTarget p then
                 p\<lparr>pd_completion := (pd_completion p)\<lparr>pcp_coolingTargetCelsius := None\<rparr>\<rparr>
               else p) in
      if \<not> programUsesHoldDuration p then
        p\<lparr>pd_completion := (pd_completion p)\<lparr>pcp_holdDurationMinutes := None\<rparr>\<rparr>
      else p)"

section \<open>Validation\<close>

definition validateSensorFailureCrossFields :: "ProgramDefinition \<Rightarrow> ValidationError list" where
  "validateSensorFailureCrossFields p =
     (let failure = pd_productSensorFailure p in
      errorIf (pd_sensorPreference p = SPref_ProductRequired \<and>
          psf_policy failure = PFP_FallbackToAirAfterTimeout)
        VEC_IncompatibleCombination ''defaults.product_sensor_failure.policy'' @
      (if pd_sensorPreference p = SPref_AirOnly then
         errorIf (psf_returnStrategy failure \<noteq> RSt_RemainOnAirUntilEnd)
           VEC_IncompatibleCombination ''defaults.product_sensor_failure.return_strategy'' @
         errorIf (psf_policy failure \<noteq> PFP_FallbackToAirAfterTimeout)
           VEC_IncompatibleCombination ''defaults.product_sensor_failure.policy''
       else []) @
      errorIf (pd_sensorPreference p = SPref_AirOnly \<and> psf_fallbackDelaySeconds failure \<noteq> None)
        VEC_UnexpectedValue ''defaults.product_sensor_failure.fallback_delay_s'' @
      errorIf (psf_policy failure \<noteq> PFP_FallbackToAirAfterTimeout \<and>
          psf_fallbackDelaySeconds failure \<noteq> None)
        VEC_UnexpectedValue ''defaults.product_sensor_failure.fallback_delay_s'')"

definition validateFields :: "ProgramSchemaMetadata \<Rightarrow> ValidationError list" where
  "validateFields schema =
     concat (map (\<lambda>(field, name).
       errorIf (psm_presentFields schema AND fieldMask field = 0) VEC_MissingRequiredField name)
       kRequiredFields) @
     errorIf (psm_presentFields schema AND NOT kCurrentKnownProgramFields \<noteq> 0)
       VEC_UnknownField ''program''"

definition validateSettings :: "ProgramDefinition \<Rightarrow> ValidationError list" where
  "validateSettings p =
     errorIf (pd_id p = []) VEC_EmptyId ''id'' @
     errorIf (pd_name p = []) VEC_EmptyName ''name'' @
     errorIf (\<not> validSensorPreference (pd_sensorPreference p)) VEC_InvalidEnumValue
       ''defaults.sensor_preference'' @
     errorIf (\<not> validFailurePolicy (psf_policy (pd_productSensorFailure p))) VEC_InvalidEnumValue
       ''defaults.product_sensor_failure.policy'' @
     errorIf (\<not> validReturnStrategy (psf_returnStrategy (pd_productSensorFailure p)))
       VEC_InvalidEnumValue ''defaults.product_sensor_failure.return_strategy'' @
     validateSensorFailureCrossFields p @
     errorIf (\<not> validCompletionMode (pcp_mode (pd_completion p))) VEC_InvalidEnumValue
       ''defaults.completion.mode''"

definition validateStages :: "ProgramDefinition \<Rightarrow> ValidationPurpose \<Rightarrow> ValidationError list" where
  "validateStages p purpose =
     (let fermentationStageCount = length (pd_fermentationStages p) in
      if fermentationStageCount < kMinimumFermentationStageCount \<or>
         fermentationStageCount > kMaximumFermentationStageCount then
        addError VEC_UnsupportedStageCount ''defaults.fermentation_stages''
      else
        (let stage = hd (pd_fermentationStages p) in
         validateOptionalDouble (stg_targetTemperatureCelsius stage)
           ''defaults.fermentation_temperature_c''
           kMinimumFermentationTemperatureCelsius kMaximumFermentationTemperatureCelsius purpose @
         validateOptionalDuration (stg_durationMinutes stage) ''defaults.fermentation_duration_min''
           kMinimumFermentationDurationMinutes kMaximumFermentationDurationMinutes purpose))"

definition validateQualification ::
  "ProgramDefinition \<Rightarrow> ValidationPurpose \<Rightarrow> ValidationError list" where
  "validateQualification p purpose =
     validateOptionalDouble (tql_bandCelsius (pd_targetQualification p))
       ''defaults.target_qualification_band_c''
       kMinimumQualificationBandCelsius kMaximumQualificationBandCelsius purpose @
     validateOptionalDuration (tql_durationMinutes (pd_targetQualification p))
       ''defaults.target_qualification_duration_min''
       kMinimumQualificationDurationMinutes kMaximumQualificationDurationMinutes purpose @
     validateOptionalDuration (pd_maximumTargetReachMinutes p) ''defaults.max_target_reach_min''
       kMinimumTargetReachMinutes kMaximumTargetReachMinutes purpose"

definition validateUsedValues ::
  "ProgramDefinition \<Rightarrow> ValidationPurpose \<Rightarrow> ValidationError list" where
  "validateUsedValues p purpose =
     (if programUsesProductWait p then
        validateOptionalDuration (pd_maximumProductWaitMinutes p) ''defaults.max_product_wait_min''
          kMinimumProductWaitMinutes kMaximumProductWaitMinutes purpose
      else errorIf (pd_maximumProductWaitMinutes p \<noteq> None) VEC_UnexpectedValue
          ''defaults.max_product_wait_min'') @
     (if programUsesFallbackDelay p then
        validateOptionalDuration (psf_fallbackDelaySeconds (pd_productSensorFailure p))
          ''defaults.product_sensor_failure.fallback_delay_s''
          kMinimumFallbackDelaySeconds kMaximumFallbackDelaySeconds purpose
      else []) @
     (if programUsesCoolingTarget p then
        validateOptionalDouble (pcp_coolingTargetCelsius (pd_completion p))
          ''defaults.completion.cooling_target_c''
          kMinimumCoolingTargetCelsius kMaximumCoolingTargetCelsius purpose
      else errorIf (pcp_coolingTargetCelsius (pd_completion p) \<noteq> None) VEC_UnexpectedValue
          ''defaults.completion.cooling_target_c'') @
     (if programUsesHoldDuration p then
        validateOptionalDuration (pcp_holdDurationMinutes (pd_completion p))
          ''defaults.completion.hold_duration_min''
          kMinimumHoldDurationMinutes kMaximumHoldDurationMinutes purpose
      else errorIf (pcp_holdDurationMinutes (pd_completion p) \<noteq> None) VEC_UnexpectedValue
          ''defaults.completion.hold_duration_min'')"

definition validateProgram :: "ProgramDocument \<Rightarrow> ValidationPurpose \<Rightarrow> ValidationError list" where
  "validateProgram document purpose =
     (if psm_version (doc_schema document) \<noteq> kCurrentProgramSchemaVersion then
        addError VEC_UnsupportedSchemaVersion ''schema_version''
      else
        validateFields (doc_schema document) @
        validateSettings (doc_program document) @
        validateStages (doc_program document) purpose @
        validateQualification (doc_program document) purpose @
        validateUsedValues (doc_program document) purpose)"

definition programIsValid :: "ProgramDocument \<Rightarrow> ValidationPurpose \<Rightarrow> bool" where
  "programIsValid document purpose \<longleftrightarrow> validateProgram document purpose = []"

section \<open>Migration\<close>

datatype MigrationStatus =
    MGS_NotRequired
  | MGS_Migrated
  | MGS_UnsupportedSourceVersion
  | MGS_InvalidSourceDocument

record MigrationResult =
  mgr_status :: MigrationStatus
  mgr_document :: "ProgramDocument option"

text \<open>Whether exactly the required fields are present.\<close>

definition exactlyFields :: "u64 \<Rightarrow> u64 \<Rightarrow> bool" where
  "exactlyFields present required \<longleftrightarrow>
     \<not> (present AND NOT required \<noteq> 0 \<or> present AND required \<noteq> required)"

definition migrateProgramSchema4To5Into :: "ProgramDocument \<Rightarrow> MigrationStatus \<times> ProgramDocument" where
  "migrateProgramSchema4To5Into s =
     (if \<not> exactlyFields (psm_presentFields (doc_schema s)) kSchema4RequiredProgramFields then
        (MGS_InvalidSourceDocument, s)
      else
        (MGS_Migrated,
         s\<lparr>doc_schema := \<lparr>psm_version = 5, psm_presentFields = kSchema5RequiredProgramFields\<rparr>,
           doc_program := (doc_program s)\<lparr>pd_maximumProductWaitMinutes := None\<rparr>\<rparr>))"

definition migrateProgramSchema5To6Into :: "ProgramDocument \<Rightarrow> MigrationStatus \<times> ProgramDocument" where
  "migrateProgramSchema5To6Into s =
     (if \<not> exactlyFields (psm_presentFields (doc_schema s)) kSchema5RequiredProgramFields then
        (MGS_InvalidSourceDocument, s)
      else
        (MGS_Migrated,
         s\<lparr>doc_schema := \<lparr>psm_version = 6, psm_presentFields = kCurrentRequiredProgramFields\<rparr>,
           doc_program :=
             (if programHasFixedSensorFailure (doc_program s)
              then applyAirOnlySensorFailure (doc_program s)
              else (doc_program s)\<lparr>pd_productSensorFailure :=
                (pd_productSensorFailure (doc_program s))
                  \<lparr>psf_returnStrategy := RSt_AutomaticValidatedReturnToProduct\<rparr>\<rparr>)\<rparr>))"

definition migrateStep :: "ProgramDocument \<Rightarrow> MigrationStatus \<times> ProgramDocument" where
  "migrateStep current =
     (if psm_version (doc_schema current) = 4 then migrateProgramSchema4To5Into current
      else migrateProgramSchema5To6Into current)"

lemma migrateStep_version:
  assumes "migrateStep d = (MGS_Migrated, d')" and "psm_version (doc_schema d) < 6"
  shows "6 - unat (psm_version (doc_schema d')) < 6 - unat (psm_version (doc_schema d))"
  using assms by (auto simp: migrateStep_def migrateProgramSchema4To5Into_def
      migrateProgramSchema5To6Into_def word_less_nat_alt split: if_splits)

function migrateLoop :: "ProgramDocument \<Rightarrow> MigrationStatus \<times> ProgramDocument" where
  "migrateLoop current =
     (if psm_version (doc_schema current) < kCurrentProgramSchemaVersion then
        (case migrateStep current of (status, next_document) \<Rightarrow>
           if status \<noteq> MGS_Migrated then (status, next_document) else migrateLoop next_document)
      else (MGS_Migrated, current))"
  by pat_completeness auto

termination migrateLoop
  by (relation "measure (\<lambda>d. 6 - unat (psm_version (doc_schema d)))")
    (auto simp: kCurrentProgramSchemaVersion_def intro!: migrateStep_version sym)

declare migrateLoop.simps [simp del]

definition migrateProgramToCurrentSchemaInto ::
  "ProgramDocument \<Rightarrow> MigrationStatus \<times> ProgramDocument" where
  "migrateProgramToCurrentSchemaInto current =
     (if psm_version (doc_schema current) = kCurrentProgramSchemaVersion then
        (MGS_NotRequired, current)
      else if psm_version (doc_schema current) < kMinimumMigratableProgramSchemaVersion \<or>
         psm_version (doc_schema current) > kCurrentProgramSchemaVersion then
        (MGS_UnsupportedSourceVersion, current)
      else migrateLoop current)"

definition migrateProgramToCurrentSchema :: "ProgramDocument \<Rightarrow> MigrationResult" where
  "migrateProgramToCurrentSchema s =
     (if psm_version (doc_schema s) < kMinimumMigratableProgramSchemaVersion \<or>
         psm_version (doc_schema s) > kCurrentProgramSchemaVersion then
        \<lparr>mgr_status = MGS_UnsupportedSourceVersion, mgr_document = None\<rparr>
      else
        (case migrateProgramToCurrentSchemaInto s of (status, current) \<Rightarrow>
           if status \<noteq> MGS_Migrated \<and> status \<noteq> MGS_NotRequired then
             \<lparr>mgr_status = status, mgr_document = None\<rparr>
           else \<lparr>mgr_status = status, mgr_document = Some current\<rparr>))"

end
