(* ===== verification/RunSnapshot.thy ===== *)
theory RunSnapshot
  imports ProgramModel ProcessStateMachine
begin

text \<open>
  An active program run (\<open>run_snapshot.cpp\<close>): the immutable source it was started from, the values
  that are effective now, and the log of the adjustments that led to them. An adjustment is decided
  against the current values and applied after an independent check; a stored run is restored by
  replaying its log. The process snapshot of a run (\<open>makeProcessRunSnapshot\<close> of
  \<open>process_state_machine.cpp\<close>) is what the process state machine sees of it.
\<close>

section \<open>Types\<close>

definition kMaximumRunRevisions :: nat where "kMaximumRunRevisions = 32"

datatype ProgramSourceKind =
    PSK_FactoryCatalog
  | PSK_UserProgram
  | PSK_ManualTimed
  | PSK_other u8

datatype RunChangeSource = RCS_LocalDisplay | RCS_WebInterface | RCS_Recovery | RCS_other u8

datatype RunChangeReason = RCR_UserAdjustment | RCR_RecoveryCorrection | RCR_other u8

record RunTimestamp =
  rts_monotonicMillis :: u64
  rts_unixTimeSeconds :: "64 word option"

record EffectiveRunValues =
  erv_targetTemperatureCelsius :: f64
  erv_remainingDurationMinutes :: u32

record ManualTimedRunSource =
  mts_stage :: FermentationStage
  mts_preheatEnabled :: bool
  mts_maximumProductWaitMinutes :: "u32 option"
  mts_targetQualification :: TargetQualification
  mts_maximumTargetReachMinutes :: "u32 option"
  mts_completion :: ProgramCompletion

datatype ProgramRunSource = PRS_Program ProgramDocument | PRS_ManualTimed ManualTimedRunSource

record RunProgramSnapshot =
  rps_source :: ProgramRunSource
  rps_sourceKind :: ProgramSourceKind
  rps_sourceProgramRevision :: "u64 option"

datatype RunAdjustmentPhaseContext = RAP_BeforeFermentation | RAP_Fermenting | RAP_other u8

datatype RunAdjustmentEffect =
    RAE_None
  | RAE_RestartTargetQualification
  | RAE_ContinueFermentationWithoutRequalification
  | RAE_other u8

record RunRevision =
  rrv_sequence :: u32
  rrv_monotonicEpoch :: u32
  rrv_stageIndex :: nat
  rrv_completedStageCount :: nat
  rrv_before :: EffectiveRunValues
  rrv_after :: EffectiveRunValues
  rrv_targetTemperatureChanged :: bool
  rrv_remainingDurationChanged :: bool
  rrv_effect :: RunAdjustmentEffect
  rrv_source :: RunChangeSource
  rrv_reason :: RunChangeReason
  rrv_timestamp :: RunTimestamp

definition initialEffectiveRunValues :: EffectiveRunValues where
  "initialEffectiveRunValues =
     \<lparr>erv_targetTemperatureCelsius = F64 0, erv_remainingDurationMinutes = 0\<rparr>"

definition emptyRunRevision :: RunRevision where
  "emptyRunRevision = \<lparr>rrv_sequence = 0, rrv_monotonicEpoch = 0, rrv_stageIndex = 0,
     rrv_completedStageCount = 0, rrv_before = initialEffectiveRunValues,
     rrv_after = initialEffectiveRunValues, rrv_targetTemperatureChanged = False,
     rrv_remainingDurationChanged = False, rrv_effect = RAE_None, rrv_source = RCS_LocalDisplay,
     rrv_reason = RCR_UserAdjustment,
     rrv_timestamp = \<lparr>rts_monotonicMillis = 0, rts_unixTimeSeconds = None\<rparr>\<rparr>"

record RunAdjustmentContext =
  rac_runActive :: bool
  rac_activeStageIndex :: nat
  rac_completedStageCount :: nat
  rac_phaseContext :: RunAdjustmentPhaseContext

record RunAdjustmentRequest =
  rar_targetTemperatureCelsius :: "f64 option"
  rar_remainingDurationMinutes :: "u32 option"
  rar_confirmed :: bool
  rar_source :: RunChangeSource
  rar_reason :: RunChangeReason
  rar_timestamp :: RunTimestamp

datatype RunAdjustmentStatus =
    RAS_Proposed | RAS_Applied | RAS_NotConfirmed | RAS_NoChange | RAS_RunInactive
  | RAS_SafetyRejected | RAS_InvalidStage | RAS_CompletedStage | RAS_InvalidValue
  | RAS_InvalidMetadata | RAS_TimestampWentBackwards | RAS_RevisionCapacityReached

record RunAdjustmentDecision =
  rad_status :: RunAdjustmentStatus
  rad_expectedRevisionCount :: nat
  rad_expectedValues :: EffectiveRunValues
  rad_revision :: "RunRevision option"

record RunAdjustmentResult =
  rrs_status :: RunAdjustmentStatus
  rrs_effect :: RunAdjustmentEffect

text \<open>The array of the revisions has its 32 elements; the count says how many are in use.\<close>

record ActiveRun =
  arn_snapshot :: RunProgramSnapshot
  arn_effectiveValues :: EffectiveRunValues
  arn_revisions :: "RunRevision list"
  arn_revisionCount :: nat
  arn_monotonicEpoch :: u32

definition newActiveRun :: "RunProgramSnapshot \<Rightarrow> EffectiveRunValues \<Rightarrow> ActiveRun" where
  "newActiveRun s initialValues =
     \<lparr>arn_snapshot = s, arn_effectiveValues = initialValues,
      arn_revisions = replicate kMaximumRunRevisions emptyRunRevision, arn_revisionCount = 0,
      arn_monotonicEpoch = 0\<rparr>"

section \<open>The source of a run\<close>

definition programSourceKind :: "ProgramRunSource \<Rightarrow> ProgramSourceKind" where
  "programSourceKind s =
     (case s of
        PRS_ManualTimed _ \<Rightarrow> PSK_ManualTimed
      | PRS_Program d \<Rightarrow>
          if pd_factoryCatalogEntry (doc_program d) then PSK_FactoryCatalog else PSK_UserProgram)"

definition validProgramSourceKind :: "ProgramSourceKind \<Rightarrow> bool" where
  "validProgramSourceKind k = (case k of PSK_other _ \<Rightarrow> False | _ \<Rightarrow> True)"

definition sourceMatchesProgram :: "ProgramDocument \<Rightarrow> ProgramSourceKind \<Rightarrow> bool" where
  "sourceMatchesProgram d kind =
     (if \<not> validProgramSourceKind kind then False
      else if kind = PSK_FactoryCatalog then
        pd_builtIn (doc_program d) \<and> pd_factoryCatalogEntry (doc_program d)
      else \<not> pd_builtIn (doc_program d) \<and> \<not> pd_factoryCatalogEntry (doc_program d))"

definition validCoolingTarget :: "ProgramCompletion \<Rightarrow> bool" where
  "validCoolingTarget c =
     (case pcp_coolingTargetCelsius c of None \<Rightarrow> False
      | Some t \<Rightarrow> isfinite t \<and> fle kMinimumCoolingTargetCelsius t \<and> fle t kMaximumCoolingTargetCelsius)"

definition validCompletion :: "ProgramCompletion \<Rightarrow> bool" where
  "validCompletion c =
     (case pcp_mode c of
        CM_FinishWithoutCooling \<Rightarrow>
          pcp_coolingTargetCelsius c = None \<and> pcp_holdDurationMinutes c = None
      | CM_CoolThenFinish \<Rightarrow> validCoolingTarget c \<and> pcp_holdDurationMinutes c = None
      | CM_CoolAndHoldUntilManualStop \<Rightarrow> validCoolingTarget c \<and> pcp_holdDurationMinutes c = None
      | CM_CoolAndHoldForDuration \<Rightarrow>
          validCoolingTarget c \<and>
          (case pcp_holdDurationMinutes c of None \<Rightarrow> False
           | Some m \<Rightarrow> m \<ge> kMinimumHoldDurationMinutes)
      | CM_other _ \<Rightarrow> False)"

definition validManualTimedRunSourceImpl :: "ManualTimedRunSource \<Rightarrow> bool" where
  "validManualTimedRunSourceImpl s =
     (let validStage =
            (case stg_targetTemperatureCelsius (mts_stage s) of None \<Rightarrow> False
             | Some t \<Rightarrow> isfinite t \<and> fle kMinimumFermentationTemperatureCelsius t \<and>
                 fle t kMaximumFermentationTemperatureCelsius) \<and>
            (case stg_durationMinutes (mts_stage s) of None \<Rightarrow> False
             | Some m \<Rightarrow> m \<ge> kMinimumFermentationDurationMinutes \<and>
                 m \<le> kMaximumFermentationDurationMinutes);
          validQualification =
            (case tql_bandCelsius (mts_targetQualification s) of None \<Rightarrow> False
             | Some b \<Rightarrow> isfinite b \<and> fle kMinimumQualificationBandCelsius b \<and>
                 fle b kMaximumQualificationBandCelsius) \<and>
            (case tql_durationMinutes (mts_targetQualification s) of None \<Rightarrow> False
             | Some m \<Rightarrow> m \<ge> kMinimumQualificationDurationMinutes);
          validReach =
            (case mts_maximumTargetReachMinutes s of None \<Rightarrow> False
             | Some m \<Rightarrow> m \<ge> kMinimumTargetReachMinutes);
          waitMatchesPreheat =
            (mts_preheatEnabled s = (mts_maximumProductWaitMinutes s \<noteq> None));
          validWait =
            (case mts_maximumProductWaitMinutes s of None \<Rightarrow> True
             | Some m \<Rightarrow> m \<ge> kMinimumProductWaitMinutes \<and> m \<le> kMaximumProductWaitMinutes);
          validHold =
            (case pcp_holdDurationMinutes (mts_completion s) of None \<Rightarrow> True
             | Some m \<Rightarrow> m \<ge> kMinimumHoldDurationMinutes) in
      validStage \<and> validQualification \<and> validReach \<and> waitMatchesPreheat \<and> validWait \<and> validHold \<and>
      validCompletion (mts_completion s))"

definition sourceStageCount :: "ProgramRunSource \<Rightarrow> nat" where
  "sourceStageCount s =
     (case s of PRS_Program d \<Rightarrow> length (pd_fermentationStages (doc_program d))
      | PRS_ManualTimed _ \<Rightarrow> 1)"

section \<open>Checks of a revision\<close>

definition validChangeSource :: "RunChangeSource \<Rightarrow> bool" where
  "validChangeSource s = (case s of RCS_other _ \<Rightarrow> False | _ \<Rightarrow> True)"

definition validChangeReason :: "RunChangeReason \<Rightarrow> bool" where
  "validChangeReason r = (case r of RCR_other _ \<Rightarrow> False | _ \<Rightarrow> True)"

definition validAdjustmentEffect :: "RunAdjustmentEffect \<Rightarrow> bool" where
  "validAdjustmentEffect e = (case e of RAE_other _ \<Rightarrow> False | _ \<Rightarrow> True)"

definition validRunAdjustmentPhaseContext :: "RunAdjustmentPhaseContext \<Rightarrow> bool" where
  "validRunAdjustmentPhaseContext p = (case p of RAP_other _ \<Rightarrow> False | _ \<Rightarrow> True)"

definition adjustmentEffectFor :: "bool \<Rightarrow> RunAdjustmentPhaseContext \<Rightarrow> RunAdjustmentEffect" where
  "adjustmentEffectFor targetChanged phase =
     (if \<not> targetChanged then RAE_None
      else if phase = RAP_Fermenting then RAE_ContinueFermentationWithoutRequalification
      else RAE_RestartTargetQualification)"

definition equalValues :: "EffectiveRunValues \<Rightarrow> EffectiveRunValues \<Rightarrow> bool" where
  "equalValues l r \<longleftrightarrow>
     feq (erv_targetTemperatureCelsius l) (erv_targetTemperatureCelsius r) \<and>
     erv_remainingDurationMinutes l = erv_remainingDurationMinutes r"

definition monotonicTimestampWentBackwards ::
  "RunTimestamp \<Rightarrow> u32 \<Rightarrow> RunTimestamp \<Rightarrow> u32 \<Rightarrow> bool" where
  "monotonicTimestampWentBackwards current currentEpoch previous previousEpoch \<longleftrightarrow>
     currentEpoch < previousEpoch \<or>
     currentEpoch = previousEpoch \<and> rts_monotonicMillis current < rts_monotonicMillis previous"

text \<open>The Unix time is a signed 64-bit integer.\<close>

definition unixTimestampWentBackwards :: "RunTimestamp \<Rightarrow> 64 word option \<Rightarrow> bool" where
  "unixTimestampWentBackwards current latest =
     (case (rts_unixTimeSeconds current, latest) of
        (Some c, Some l) \<Rightarrow> sint c < sint l | _ \<Rightarrow> False)"

text \<open>The search runs from the last revision down.\<close>

fun latestUnixTimeSeconds :: "RunRevision list \<Rightarrow> nat \<Rightarrow> 64 word option" where
  "latestUnixTimeSeconds revisions 0 = None"
| "latestUnixTimeSeconds revisions (Suc index) =
     (case rts_unixTimeSeconds (rrv_timestamp (revisions ! index)) of
        Some t \<Rightarrow> Some t | None \<Rightarrow> latestUnixTimeSeconds revisions index)"

definition validMonotonicEpoch :: "RunRevision list \<Rightarrow> nat \<Rightarrow> bool" where
  "validMonotonicEpoch revisions index =
     (let currentEpoch = rrv_monotonicEpoch (revisions ! index) in
      if index = 0 then currentEpoch = 0
      else
        (let previousEpoch = rrv_monotonicEpoch (revisions ! (index - 1)) in
         currentEpoch = previousEpoch \<or>
         currentEpoch > previousEpoch \<and> currentEpoch - previousEpoch = 1))"

definition setStage ::
  "ProgramDocument \<Rightarrow> nat \<Rightarrow> (FermentationStage \<Rightarrow> FermentationStage) \<Rightarrow> ProgramDocument" where
  "setStage d stageIndex f =
     (let stages = pd_fermentationStages (doc_program d) in
      d\<lparr>doc_program := (doc_program d)
        \<lparr>pd_fermentationStages := stages[stageIndex := f (stages ! stageIndex)]\<rparr>\<rparr>)"

definition validTargetTemperature :: "RunProgramSnapshot \<Rightarrow> nat \<Rightarrow> f64 \<Rightarrow> bool" where
  "validTargetTemperature s stageIndex target =
     (if stageIndex \<ge> sourceStageCount (rps_source s) then False
      else case rps_source s of
        PRS_Program d \<Rightarrow>
          programIsValid (setStage d stageIndex (\<lambda>g. g\<lparr>stg_targetTemperatureCelsius := Some target\<rparr>))
            VP_Runnable
      | PRS_ManualTimed m \<Rightarrow>
          validManualTimedRunSourceImpl
            (m\<lparr>mts_stage := (mts_stage m)\<lparr>stg_targetTemperatureCelsius := Some target\<rparr>\<rparr>))"

definition validRemainingDuration :: "RunProgramSnapshot \<Rightarrow> nat \<Rightarrow> u32 \<Rightarrow> bool" where
  "validRemainingDuration s stageIndex remainingDurationMinutes =
     (if stageIndex \<ge> sourceStageCount (rps_source s) then False
      else if remainingDurationMinutes = 0 then True
      else case rps_source s of
        PRS_Program d \<Rightarrow>
          programIsValid (setStage d stageIndex
            (\<lambda>g. g\<lparr>stg_durationMinutes := Some remainingDurationMinutes\<rparr>)) VP_Runnable
      | PRS_ManualTimed m \<Rightarrow>
          validManualTimedRunSourceImpl
            (m\<lparr>mts_stage := (mts_stage m)\<lparr>stg_durationMinutes := Some remainingDurationMinutes\<rparr>\<rparr>))"

definition validAdjustmentEffectForChange :: "RunAdjustmentEffect \<Rightarrow> bool \<Rightarrow> bool" where
  "validAdjustmentEffectForChange e targetTemperatureChanged =
     (if \<not> validAdjustmentEffect e then False
      else if \<not> targetTemperatureChanged then e = RAE_None
      else e = RAE_RestartTargetQualification \<or>
        e = RAE_ContinueFermentationWithoutRequalification)"

definition validRevisionMetadata :: "RunRevision \<Rightarrow> bool" where
  "validRevisionMetadata r \<longleftrightarrow>
     validChangeSource (rrv_source r) \<and> validChangeReason (rrv_reason r) \<and>
     rrv_stageIndex r \<ge> rrv_completedStageCount r \<and>
     (rrv_targetTemperatureChanged r \<or> rrv_remainingDurationChanged r) \<and>
     rrv_targetTemperatureChanged r =
       (\<not> feq (erv_targetTemperatureCelsius (rrv_before r)) (erv_targetTemperatureCelsius (rrv_after r))) \<and>
     rrv_remainingDurationChanged r =
       (erv_remainingDurationMinutes (rrv_before r) \<noteq> erv_remainingDurationMinutes (rrv_after r)) \<and>
     validAdjustmentEffectForChange (rrv_effect r) (rrv_targetTemperatureChanged r)"

section \<open>Start\<close>

definition makeInitialEffectiveRunValues ::
  "ProgramRunSource \<Rightarrow> u64 option \<Rightarrow> EffectiveRunValues option" where
  "makeInitialEffectiveRunValues s sourceProgramRevision =
     (let sourceKind = programSourceKind s;
          accepted = (case s of
            PRS_Program d \<Rightarrow>
              sourceProgramRevision \<noteq> None \<and> the sourceProgramRevision \<noteq> 0 \<and>
              sourceMatchesProgram d sourceKind \<and> programIsValid d VP_Runnable
          | PRS_ManualTimed m \<Rightarrow>
              sourceKind = PSK_ManualTimed \<and> sourceProgramRevision = None \<and>
              validManualTimedRunSourceImpl m) in
      if \<not> accepted then None
      else
        (let initialStage = (case s of PRS_Program d \<Rightarrow> hd (pd_fermentationStages (doc_program d))
                             | PRS_ManualTimed m \<Rightarrow> mts_stage m) in
         case (stg_targetTemperatureCelsius initialStage, stg_durationMinutes initialStage) of
           (Some target, Some duration) \<Rightarrow>
             Some \<lparr>erv_targetTemperatureCelsius = target, erv_remainingDurationMinutes = duration\<rparr>
         | _ \<Rightarrow> None))"

definition startRun :: "ProgramRunSource \<Rightarrow> u64 option \<Rightarrow> ActiveRun option" where
  "startRun s sourceProgramRevision =
     (case makeInitialEffectiveRunValues s sourceProgramRevision of
        None \<Rightarrow> None
      | Some initial \<Rightarrow>
          Some (newActiveRun \<lparr>rps_source = s, rps_sourceKind = programSourceKind s,
            rps_sourceProgramRevision = sourceProgramRevision\<rparr> initial))"

definition startStoredProgram ::
  "ProgramDocument \<Rightarrow> ProgramSourceKind \<Rightarrow> u64 \<Rightarrow> ActiveRun option" where
  "startStoredProgram sourceProgram sourceKind sourceProgramRevision =
     (if sourceKind = PSK_ManualTimed \<or> sourceKind \<noteq> programSourceKind (PRS_Program sourceProgram)
      then None
      else startRun (PRS_Program sourceProgram) (Some sourceProgramRevision))"

section \<open>Restore\<close>

text \<open>One round of the loop: the current values and the latest Unix time so far.\<close>

definition checkRevision ::
  "RunProgramSnapshot \<Rightarrow> RunRevision list \<Rightarrow> nat \<Rightarrow> EffectiveRunValues \<times> 64 word option \<Rightarrow>
     (EffectiveRunValues \<times> 64 word option) option" where
  "checkRevision s revisions index st =
     (case st of (current, latestUnixTimestamp) \<Rightarrow>
      let revision = revisions ! index in
      if unat (rrv_sequence revision) \<noteq> index + 1 \<or> \<not> validMonotonicEpoch revisions index \<or>
         rrv_stageIndex revision \<ge> sourceStageCount (rps_source s) \<or>
         \<not> equalValues (rrv_before revision) current \<or> \<not> validRevisionMetadata revision \<or>
         \<not> validTargetTemperature s (rrv_stageIndex revision)
            (erv_targetTemperatureCelsius (rrv_after revision)) \<or>
         \<not> validRemainingDuration s (rrv_stageIndex revision)
            (erv_remainingDurationMinutes (rrv_after revision)) \<or>
         index > 0 \<and> monotonicTimestampWentBackwards (rrv_timestamp revision)
           (rrv_monotonicEpoch revision) (rrv_timestamp (revisions ! (index - 1)))
           (rrv_monotonicEpoch (revisions ! (index - 1))) \<or>
         unixTimestampWentBackwards (rrv_timestamp revision) latestUnixTimestamp
      then None
      else Some (rrv_after revision,
        if rts_unixTimeSeconds (rrv_timestamp revision) \<noteq> None
        then rts_unixTimeSeconds (rrv_timestamp revision) else latestUnixTimestamp))"

fun checkRevisions ::
  "RunProgramSnapshot \<Rightarrow> RunRevision list \<Rightarrow> nat list \<Rightarrow> EffectiveRunValues \<times> 64 word option \<Rightarrow>
     (EffectiveRunValues \<times> 64 word option) option" where
  "checkRevisions s revisions [] st = Some st"
| "checkRevisions s revisions (index # is) st =
     (case checkRevision s revisions index st of
        None \<Rightarrow> None | Some st \<Rightarrow> checkRevisions s revisions is st)"

definition validateRunProgramSnapshotInto ::
  "RunProgramSnapshot \<Rightarrow> RunRevision list \<Rightarrow> nat \<Rightarrow> EffectiveRunValues option" where
  "validateRunProgramSnapshotInto s revisions revisionCount =
     (if rps_sourceKind s \<noteq> programSourceKind (rps_source s) then None
      else case makeInitialEffectiveRunValues (rps_source s) (rps_sourceProgramRevision s) of
        None \<Rightarrow> None
      | Some initial \<Rightarrow>
          if revisionCount > kMaximumRunRevisions then None
          else map_option fst (checkRevisions s revisions [0..<revisionCount] (initial, None)))"

definition restoreRun :: "RunProgramSnapshot \<Rightarrow> RunRevision list \<Rightarrow> nat \<Rightarrow> ActiveRun option" where
  "restoreRun s revisions revisionCount =
     (case validateRunProgramSnapshotInto s revisions revisionCount of
        None \<Rightarrow> None
      | Some effectiveValues \<Rightarrow>
          Some \<lparr>arn_snapshot = s, arn_effectiveValues = effectiveValues,
            arn_revisions = take revisionCount revisions @
              replicate (kMaximumRunRevisions - revisionCount) emptyRunRevision,
            arn_revisionCount = revisionCount,
            arn_monotonicEpoch =
              (if revisionCount > 0 then rrv_monotonicEpoch (revisions ! (revisionCount - 1)) + 1
               else 0)\<rparr>)"

section \<open>Adjustment\<close>

definition timestampWentBackwards :: "ActiveRun \<Rightarrow> RunTimestamp \<Rightarrow> u32 \<Rightarrow> bool" where
  "timestampWentBackwards run t epoch \<longleftrightarrow> arn_revisionCount run > 0 \<and>
     (monotonicTimestampWentBackwards t epoch
        (rrv_timestamp (arn_revisions run ! (arn_revisionCount run - 1)))
        (rrv_monotonicEpoch (arn_revisions run ! (arn_revisionCount run - 1))) \<or>
      unixTimestampWentBackwards t
        (latestUnixTimeSeconds (arn_revisions run) (arn_revisionCount run)))"

definition rejectedAdjustment :: "ActiveRun \<Rightarrow> RunAdjustmentStatus \<Rightarrow> RunAdjustmentDecision" where
  "rejectedAdjustment run st =
     \<lparr>rad_status = st, rad_expectedRevisionCount = arn_revisionCount run,
      rad_expectedValues = arn_effectiveValues run, rad_revision = None\<rparr>"

definition proposeAdjustment ::
  "RunAdjustmentRequest \<Rightarrow> RunAdjustmentContext \<Rightarrow> EffectiveRunValues \<Rightarrow> ActiveRun \<Rightarrow>
     RunAdjustmentDecision" where
  "proposeAdjustment request context candidate run =
     (let targetChanged = (\<not> feq (erv_targetTemperatureCelsius candidate)
            (erv_targetTemperatureCelsius (arn_effectiveValues run)));
          durationChanged = (erv_remainingDurationMinutes candidate \<noteq>
            erv_remainingDurationMinutes (arn_effectiveValues run)) in
      if \<not> targetChanged \<and> \<not> durationChanged then rejectedAdjustment run RAS_NoChange
      else
        \<lparr>rad_status = RAS_Proposed, rad_expectedRevisionCount = arn_revisionCount run,
         rad_expectedValues = arn_effectiveValues run,
         rad_revision = Some
           \<lparr>rrv_sequence = of_nat (arn_revisionCount run + 1),
            rrv_monotonicEpoch = arn_monotonicEpoch run,
            rrv_stageIndex = rac_activeStageIndex context,
            rrv_completedStageCount = rac_completedStageCount context,
            rrv_before = arn_effectiveValues run, rrv_after = candidate,
            rrv_targetTemperatureChanged = targetChanged,
            rrv_remainingDurationChanged = durationChanged,
            rrv_effect = adjustmentEffectFor targetChanged (rac_phaseContext context),
            rrv_source = rar_source request, rrv_reason = rar_reason request,
            rrv_timestamp = rar_timestamp request\<rparr>\<rparr>)"

definition decideAdjustment ::
  "RunAdjustmentRequest \<Rightarrow> RunAdjustmentContext \<Rightarrow> ActiveRun \<Rightarrow> RunAdjustmentDecision" where
  "decideAdjustment request context run =
     (let s = arn_snapshot run; stage = rac_activeStageIndex context in
      if \<not> rar_confirmed request then rejectedAdjustment run RAS_NotConfirmed
      else if \<not> rac_runActive context then rejectedAdjustment run RAS_RunInactive
      else if stage \<ge> sourceStageCount (rps_source s) then rejectedAdjustment run RAS_InvalidStage
      else if stage < rac_completedStageCount context then rejectedAdjustment run RAS_CompletedStage
      else if \<not> validChangeSource (rar_source request) \<or>
         \<not> validRunAdjustmentPhaseContext (rac_phaseContext context) \<or>
         \<not> validChangeReason (rar_reason request) then rejectedAdjustment run RAS_InvalidMetadata
      else if timestampWentBackwards run (rar_timestamp request) (arn_monotonicEpoch run) then
        rejectedAdjustment run RAS_TimestampWentBackwards
      else if rar_targetTemperatureCelsius request = None \<and>
         rar_remainingDurationMinutes request = None then rejectedAdjustment run RAS_NoChange
      else if arn_revisionCount run \<ge> kMaximumRunRevisions then
        rejectedAdjustment run RAS_RevisionCapacityReached
      else if (case rar_targetTemperatureCelsius request of None \<Rightarrow> False
               | Some t \<Rightarrow> \<not> validTargetTemperature s stage t) then
        rejectedAdjustment run RAS_InvalidValue
      else if (case rar_remainingDurationMinutes request of None \<Rightarrow> False
               | Some m \<Rightarrow> \<not> validRemainingDuration s stage m) then
        rejectedAdjustment run RAS_InvalidValue
      else
        (let candidate = arn_effectiveValues run;
             candidate = (case rar_targetTemperatureCelsius request of None \<Rightarrow> candidate
               | Some t \<Rightarrow> candidate\<lparr>erv_targetTemperatureCelsius := t\<rparr>);
             candidate = (case rar_remainingDurationMinutes request of None \<Rightarrow> candidate
               | Some m \<Rightarrow> candidate\<lparr>erv_remainingDurationMinutes := m\<rparr>) in
         proposeAdjustment request context candidate run))"

definition applyAdjustment ::
  "RunAdjustmentDecision \<Rightarrow> ActiveRun \<Rightarrow> RunAdjustmentResult \<times> ActiveRun" where
  "applyAdjustment decision run =
     (case rad_revision decision of
        None \<Rightarrow> (\<lparr>rrs_status = RAS_NoChange, rrs_effect = RAE_None\<rparr>, run)
      | Some revision \<Rightarrow>
          if rad_status decision \<noteq> RAS_Proposed \<or>
             rad_expectedRevisionCount decision \<noteq> arn_revisionCount run \<or>
             \<not> equalValues (rad_expectedValues decision) (arn_effectiveValues run) \<or>
             arn_revisionCount run \<ge> kMaximumRunRevisions then
            (\<lparr>rrs_status = RAS_NoChange, rrs_effect = RAE_None\<rparr>, run)
          else if unat (rrv_sequence revision) \<noteq> arn_revisionCount run + 1 \<or>
             rrv_monotonicEpoch revision \<noteq> arn_monotonicEpoch run \<or>
             \<not> equalValues (rrv_before revision) (arn_effectiveValues run) \<or>
             \<not> validRevisionMetadata revision \<or>
             \<not> validTargetTemperature (arn_snapshot run) (rrv_stageIndex revision)
                (erv_targetTemperatureCelsius (rrv_after revision)) \<or>
             \<not> validRemainingDuration (arn_snapshot run) (rrv_stageIndex revision)
                (erv_remainingDurationMinutes (rrv_after revision)) \<or>
             timestampWentBackwards run (rrv_timestamp revision) (rrv_monotonicEpoch revision) then
            (\<lparr>rrs_status = RAS_InvalidValue, rrs_effect = RAE_None\<rparr>, run)
          else
            (\<lparr>rrs_status = RAS_Applied, rrs_effect = rrv_effect revision\<rparr>,
             run\<lparr>arn_revisions := (arn_revisions run)[arn_revisionCount run := revision],
               arn_effectiveValues := rrv_after revision,
               arn_revisionCount := arn_revisionCount run + 1\<rparr>))"

section \<open>What the process state machine sees\<close>

definition makeProcessRunSnapshot ::
  "RunProgramSnapshot \<Rightarrow> EffectiveRunValues \<Rightarrow> ProcessRunSnapshot option" where
  "makeProcessRunSnapshot runSnapshot effectiveValues =
     (let made = (\<lambda>preheat mode qualification reach wait hold.
            \<lparr>snap_kind = PK_Timed, snap_preheatEnabled = preheat, snap_completionMode = mode,
             snap_qualificationDurationMinutes = qualification,
             snap_maximumTargetReachMinutes = reach, snap_maximumProductWaitMinutes = wait,
             snap_fermentationDurationMinutes = Some (erv_remainingDurationMinutes effectiveValues),
             snap_holdDurationMinutes = hold\<rparr>);
          snapshot = (case rps_source runSnapshot of
            PRS_Program d \<Rightarrow>
              (let p = doc_program d in
               case (tql_durationMinutes (pd_targetQualification p), pd_maximumTargetReachMinutes p) of
                 (Some qualification, Some reach) \<Rightarrow>
                   Some (made (pd_preheat p) (pcp_mode (pd_completion p)) qualification reach
                     (pd_maximumProductWaitMinutes p) (pcp_holdDurationMinutes (pd_completion p)))
               | _ \<Rightarrow> None)
          | PRS_ManualTimed m \<Rightarrow>
              (case (tql_durationMinutes (mts_targetQualification m), mts_maximumTargetReachMinutes m) of
                 (Some qualification, Some reach) \<Rightarrow>
                   Some (made (mts_preheatEnabled m) (pcp_mode (mts_completion m)) qualification reach
                     (mts_maximumProductWaitMinutes m) (pcp_holdDurationMinutes (mts_completion m)))
               | _ \<Rightarrow> None)) in
      case snapshot of
        None \<Rightarrow> None
      | Some s \<Rightarrow> if validateProcessRunSnapshot s then Some s else None)"

end
