(* ===== verification/RunState.thy ===== *)
theory RunState
  imports RunSnapshot SensorSelection ActuatorPlanner
begin

text \<open>
  The state that the run commands and the recovery of a run work on: the recovery types
  (\<open>run_recovery_types.hpp\<close>), the progress weighting (\<open>run_progress_weighting.cpp\<close>), manual runs,
  messages and \<open>RunCommandState\<close> (\<open>run_commands.hpp\<close>), with the operations that only read or write
  the state.
\<close>

section \<open>Recovery types\<close>

datatype RunCheckpointTrigger =
    RCT_Command | RCT_Transition | RCT_Periodic | RCT_SensorSelection | RCT_other u8

record PendingRecoveryAnchor =
  pra_originalProcessState :: ProcessRuntimeState
  pra_knownPhaseSecondsAtOriginalCheckpoint :: u64
  pra_originalCheckpointUtc :: "64 word option"
  pra_originalCheckpointTrigger :: RunCheckpointTrigger
  pra_originalCheckpointIntervalMinutes :: u32
  pra_accumulatedBeforeEpisode :: PriorBootPhaseElapsed
  pra_knownSecondsSinceOriginalCheckpoint :: u64

record TaggedPriorBootPhaseElapsed =
  tpe_taggedState :: ProcessState
  tpe_elapsed :: PriorBootPhaseElapsed

record NominalRecoveryAdjustmentState =
  nra_cumulativeAppliedSeconds :: u32
  nra_lastAppliedEpisodeRevision :: u32
  nra_lastAppliedEpisodeDelta :: u32

record RoleTemperatureEvidence =
  rte_filteredCelsius :: "f64 option"
  rte_quality :: SensorQuality

record CrossRoleEvidence =
  cre_air :: RoleTemperatureEvidence
  cre_product :: RoleTemperatureEvidence
  cre_cooling :: RoleTemperatureEvidence

record FirstAfterRestartEvidence =
  far_air :: "RoleTemperatureEvidence option"
  far_product :: "RoleTemperatureEvidence option"
  far_cooling :: "RoleTemperatureEvidence option"

record RecoveryTemperatureEvidence =
  rtv_lastKnown :: CrossRoleEvidence

record RecoveryEpisodeEvidence =
  ree_beforeOutage :: CrossRoleEvidence
  ree_firstAfterRestart :: FirstAfterRestartEvidence
  ree_weightedProgressSegmentId :: "u32 option"

datatype RunProgressBasis = RPB_KnownTotal | RPB_PartialUnknownHistory

datatype WeightedProgressConfidence = WPC_ProductPreferred | WPC_AirReduced

datatype WeightedProgressCoverage = WPV_Complete | WPV_PartialUnknown

record WeightedProgressBounds =
  wpb_lowerBoundSeconds :: u64
  wpb_upperBoundSeconds :: "u64 option"

record WeightedProgressProvenance =
  wpp_lastSourceRole :: RunSensorMode
  wpp_confidence :: WeightedProgressConfidence
  wpp_modelRevision :: u32
  wpp_lastAppliedSegmentId :: u32

record WeightedProgressState =
  wps_cumulative :: WeightedProgressBounds
  wps_coverage :: WeightedProgressCoverage
  wps_lastApplied :: "WeightedProgressProvenance option"

record RunProgressState =
  rpg_basis :: RunProgressBasis
  rpg_observedRunSeconds :: u32
  rpg_weightedProgress :: "WeightedProgressState option"

definition initialWeightedProgress :: WeightedProgressState where
  "initialWeightedProgress =
     \<lparr>wps_cumulative = \<lparr>wpb_lowerBoundSeconds = 0, wpb_upperBoundSeconds = None\<rparr>,
      wps_coverage = WPV_PartialUnknown, wps_lastApplied = None\<rparr>"

definition initialRunProgress :: RunProgressState where
  "initialRunProgress = \<lparr>rpg_basis = RPB_KnownTotal, rpg_observedRunSeconds = 0,
     rpg_weightedProgress = None\<rparr>"

text \<open>An open segment that has not been booked makes the progress partially unknown.\<close>

definition supersedeUnbookedWeightedSegment :: "RunProgressState \<Rightarrow> u32 option \<Rightarrow> RunProgressState" where
  "supersedeUnbookedWeightedSegment progress oldSegmentId =
     (case oldSegmentId of
        None \<Rightarrow> progress
      | Some old \<Rightarrow>
          if old = 0 then progress
          else if (case rpg_weightedProgress progress of
                     None \<Rightarrow> False
                   | Some weighted \<Rightarrow>
                       (case wps_lastApplied weighted of
                          None \<Rightarrow> False
                        | Some applied \<Rightarrow> wpp_lastAppliedSegmentId applied = old)) then progress
          else
            (let weighted = (case rpg_weightedProgress progress of
                   None \<Rightarrow> initialWeightedProgress | Some weighted \<Rightarrow> weighted) in
             progress\<lparr>rpg_weightedProgress := Some
               (weighted\<lparr>wps_coverage := WPV_PartialUnknown,
                 wps_cumulative := (wps_cumulative weighted)\<lparr>wpb_upperBoundSeconds := None\<rparr>\<rparr>)\<rparr>))"

section \<open>Manual runs\<close>

datatype CommandSource = CSO_LocalDisplay | CSO_WebInterface | CSO_other u8

record ManualRunPlanRequest =
  mpr_runId :: string
  mpr_targetTemperatureCelsius :: f64
  mpr_sensorMode :: RunSensorMode
  mpr_preheatEnabled :: bool
  mpr_maximumProductWaitMinutes :: "u32 option"
  mpr_qualificationBandCelsius :: f64
  mpr_qualificationDurationMinutes :: u32
  mpr_maximumTargetReachMinutes :: u32

record ManualRunPlan =
  mpl_values :: ManualRunPlanRequest
  mpl_source :: CommandSource
  mpl_createdAtMonotonicMillis :: u64
  mpl_kind :: ProcessKind

definition kMinimumRunIdBytes :: nat where "kMinimumRunIdBytes = 1"

definition kMaximumRunIdBytes :: nat where "kMaximumRunIdBytes = 48"

definition validRunId :: "string \<Rightarrow> bool" where
  "validRunId runId \<longleftrightarrow> kMinimumRunIdBytes \<le> length runId \<and> length runId \<le> kMaximumRunIdBytes"

definition validCommandSource :: "CommandSource \<Rightarrow> bool" where
  "validCommandSource s = (case s of CSO_other _ \<Rightarrow> False | _ \<Rightarrow> True)"

definition validSensorMode :: "RunSensorMode \<Rightarrow> bool" where
  "validSensorMode m = (case m of RSM_other _ \<Rightarrow> False | _ \<Rightarrow> True)"

definition validateManualRunPlan :: "ManualRunPlan \<Rightarrow> bool" where
  "validateManualRunPlan plan =
     (let v = mpl_values plan;
          waitMatchesPreheat = (mpr_preheatEnabled v = (mpr_maximumProductWaitMinutes v \<noteq> None));
          waitValid = (case mpr_maximumProductWaitMinutes v of None \<Rightarrow> True
            | Some m \<Rightarrow> m \<ge> kMinimumProductWaitMinutes \<and> m \<le> kMaximumProductWaitMinutes) in
      validRunId (mpr_runId v) \<and> validCommandSource (mpl_source plan) \<and>
      validSensorMode (mpr_sensorMode v) \<and> mpl_kind plan = PK_ManualHolding \<and>
      isfinite (mpr_targetTemperatureCelsius v) \<and>
      fle kMinimumFermentationTemperatureCelsius (mpr_targetTemperatureCelsius v) \<and>
      fle (mpr_targetTemperatureCelsius v) kMaximumFermentationTemperatureCelsius \<and>
      isfinite (mpr_qualificationBandCelsius v) \<and>
      fle kMinimumQualificationBandCelsius (mpr_qualificationBandCelsius v) \<and>
      fle (mpr_qualificationBandCelsius v) kMaximumQualificationBandCelsius \<and>
      mpr_qualificationDurationMinutes v \<ge> kMinimumQualificationDurationMinutes \<and>
      mpr_qualificationDurationMinutes v \<le> kMaximumQualificationDurationMinutes \<and>
      mpr_maximumTargetReachMinutes v \<ge> kMinimumTargetReachMinutes \<and>
      mpr_maximumTargetReachMinutes v \<le> kMaximumTargetReachMinutes \<and>
      waitMatchesPreheat \<and> waitValid)"

definition makeManualProcessSnapshot :: "ManualRunPlan \<Rightarrow> ProcessRunSnapshot option" where
  "makeManualProcessSnapshot plan =
     (if \<not> validateManualRunPlan plan then None
      else
        (let snapshot = \<lparr>snap_kind = PK_ManualHolding,
               snap_preheatEnabled = mpr_preheatEnabled (mpl_values plan),
               snap_completionMode = CM_FinishWithoutCooling,
               snap_qualificationDurationMinutes = mpr_qualificationDurationMinutes (mpl_values plan),
               snap_maximumTargetReachMinutes = mpr_maximumTargetReachMinutes (mpl_values plan),
               snap_maximumProductWaitMinutes = mpr_maximumProductWaitMinutes (mpl_values plan),
               snap_fermentationDurationMinutes = None, snap_holdDurationMinutes = None\<rparr> in
         if validateProcessRunSnapshot snapshot then Some snapshot else None))"

section \<open>Messages\<close>

datatype MessageCode =
    MCD_ProductInsertionRequested | MCD_TargetReachTimeExceeded | MCD_UserDecisionRequired
  | MCD_RunCompleted | MCD_RunAborted | MCD_RecoveryPending | MCD_SafetyFault

datatype MessageClass =
    MCL_Information | MCL_ProcessWarning | MCL_Recovery | MCL_DecisionRequired | MCL_SafetyFault

datatype MessageTrigger = MTR_Process | MTR_UserCommand | MTR_Recovery | MTR_Safety

datatype AcousticIntent =
    AIN_None | AIN_SinglePattern | AIN_RepeatWarning | AIN_RepeatDecision | AIN_RepeatFault

record RuntimeMessage =
  msg_id :: u32
  msg_code :: MessageCode
  msg_messageClass :: MessageClass
  msg_priority :: u8
  msg_trigger :: MessageTrigger
  msg_monotonicMillis :: u64
  msg_active :: bool
  msg_acknowledged :: bool
  msg_resolved :: bool
  msg_decisionRequired :: bool
  msg_acousticMuted :: bool
  msg_acousticIntent :: AcousticIntent
  msg_runRevision :: "u32 option"
  msg_stateSequence :: "u32 option"
  msg_faultRevision :: "u32 option"
  msg_revision :: u32

text \<open>The value of an enumerator, on which the code orders the classes.\<close>

fun messageClassValue :: "MessageClass \<Rightarrow> u8" where
  "messageClassValue MCL_Information = 0"
| "messageClassValue MCL_ProcessWarning = 1"
| "messageClassValue MCL_Recovery = 2"
| "messageClassValue MCL_DecisionRequired = 3"
| "messageClassValue MCL_SafetyFault = 4"

section \<open>The command state\<close>

definition kMaximumProcessedCommandIds :: nat where "kMaximumProcessedCommandIds = 32"

definition kMaximumRuntimeMessages :: nat where "kMaximumRuntimeMessages = 16"

definition kMaximumCommandEffects :: nat where "kMaximumCommandEffects = 6"

text \<open>The arrays of the messages and of the processed command ids have their fixed length; the counts
  say how many elements are in use.\<close>

record RunCommandState =
  rcs_processState :: ProcessRuntimeState
  rcs_activeProgramRun :: "ActiveRun option"
  rcs_activeManualRun :: "ManualRunPlan option"
  rcs_processRunSnapshot :: "ProcessRunSnapshot option"
  rcs_actuatorPlannerParametersSnapshot :: "ActuatorPlannerParameters option"
  rcs_activeRunId :: string
  rcs_activeRunSensorMode :: "RunSensorMode option"
  rcs_sensorSelection :: "PersistedSensorSelectionState option"
  rcs_sensorSelectionRuntime :: SensorSelectionRuntimeState
  rcs_runRevision :: u32
  rcs_messages :: "RuntimeMessage list"
  rcs_messageCount :: nat
  rcs_messageRevision :: u32
  rcs_faultRevision :: u32
  rcs_criticalSafetyEventPending :: bool
  rcs_commandSequence :: u32
  rcs_lastCommandMonotonicMillis :: u64
  rcs_processedCommandIds :: "u64 list"
  rcs_processedCommandCount :: nat
  rcs_pendingRecoveryAnchor :: "PendingRecoveryAnchor option"
  rcs_recoveryBootAnchorMonotonicMillis :: "u64 option"
  rcs_recoveryTemperatureEvidence :: RecoveryTemperatureEvidence
  rcs_lastRecoveryEpisodeEvidence :: "RecoveryEpisodeEvidence option"
  rcs_priorBootPhaseElapsed :: "TaggedPriorBootPhaseElapsed option"
  rcs_nominalRecoveryAdjustment :: "NominalRecoveryAdjustmentState option"
  rcs_recoveryEpisodeRevision :: u32
  rcs_runProgress :: RunProgressState

definition emptyMessage :: RuntimeMessage where
  "emptyMessage = \<lparr>msg_id = 0, msg_code = MCD_RunCompleted, msg_messageClass = MCL_Information,
     msg_priority = 0, msg_trigger = MTR_Process, msg_monotonicMillis = 0, msg_active = True,
     msg_acknowledged = False, msg_resolved = False, msg_decisionRequired = False,
     msg_acousticMuted = False, msg_acousticIntent = AIN_None, msg_runRevision = None,
     msg_stateSequence = None, msg_faultRevision = None, msg_revision = 0\<rparr>"

definition staleRoleEvidence :: RoleTemperatureEvidence where
  "staleRoleEvidence = \<lparr>rte_filteredCelsius = None, rte_quality = SQ_Stale\<rparr>"

definition initialCommandState :: RunCommandState where
  "initialCommandState =
     \<lparr>rcs_processState = initialProcessRuntimeState, rcs_activeProgramRun = None,
      rcs_activeManualRun = None, rcs_processRunSnapshot = None,
      rcs_actuatorPlannerParametersSnapshot = None, rcs_activeRunId = [],
      rcs_activeRunSensorMode = None, rcs_sensorSelection = None,
      rcs_sensorSelectionRuntime = initialSensorSelectionRuntime, rcs_runRevision = 0,
      rcs_messages = replicate kMaximumRuntimeMessages emptyMessage, rcs_messageCount = 0,
      rcs_messageRevision = 0, rcs_faultRevision = 0, rcs_criticalSafetyEventPending = False,
      rcs_commandSequence = 0, rcs_lastCommandMonotonicMillis = 0,
      rcs_processedCommandIds = replicate kMaximumProcessedCommandIds 0,
      rcs_processedCommandCount = 0, rcs_pendingRecoveryAnchor = None,
      rcs_recoveryBootAnchorMonotonicMillis = None,
      rcs_recoveryTemperatureEvidence = \<lparr>rtv_lastKnown =
        \<lparr>cre_air = staleRoleEvidence, cre_product = staleRoleEvidence, cre_cooling = staleRoleEvidence\<rparr>\<rparr>,
      rcs_lastRecoveryEpisodeEvidence = None, rcs_priorBootPhaseElapsed = None,
      rcs_nominalRecoveryAdjustment = None, rcs_recoveryEpisodeRevision = 0,
      rcs_runProgress = initialRunProgress\<rparr>"

text \<open>The end of a run: everything that belongs to the run goes, the counters stay.\<close>

definition clearActiveRunState :: "RunCommandState \<Rightarrow> RunCommandState" where
  "clearActiveRunState s =
     s\<lparr>rcs_activeProgramRun := None, rcs_activeManualRun := None, rcs_processRunSnapshot := None,
       rcs_actuatorPlannerParametersSnapshot := None, rcs_activeRunId := [],
       rcs_activeRunSensorMode := None, rcs_sensorSelection := None,
       rcs_sensorSelectionRuntime := initialSensorSelectionRuntime,
       rcs_pendingRecoveryAnchor := None, rcs_recoveryBootAnchorMonotonicMillis := None,
       rcs_lastRecoveryEpisodeEvidence := None, rcs_priorBootPhaseElapsed := None,
       rcs_nominalRecoveryAdjustment := None, rcs_runProgress := initialRunProgress\<rparr>"

definition applySensorSelectionMutation ::
  "RunCommandState \<Rightarrow> SensorSelectionStateMutation \<Rightarrow> RunCommandState" where
  "applySensorSelectionMutation s mutation =
     (let s = s\<lparr>rcs_sensorSelectionRuntime := ssm_runtime mutation,
            rcs_activeRunSensorMode := ssm_activeMode mutation,
            rcs_sensorSelection := ssm_persisted mutation,
            rcs_runRevision := ssm_resultingRunRevision mutation\<rparr> in
      case (rcs_activeManualRun s, ssm_activeMode mutation) of
        (Some plan, Some mode) \<Rightarrow>
          s\<lparr>rcs_activeManualRun := Some
            (plan\<lparr>mpl_values := (mpl_values plan)\<lparr>mpr_sensorMode := mode\<rparr>\<rparr>)\<rparr>
      | _ \<Rightarrow> s)"

definition foldObservedRunSeconds :: "RunCommandState \<Rightarrow> u64 \<Rightarrow> RunCommandState option" where
  "foldObservedRunSeconds candidate deltaSeconds =
     (let observed = rpg_observedRunSeconds (rcs_runProgress candidate) in
      if deltaSeconds > ucast (u32_max - observed) then None
      else Some (candidate\<lparr>rcs_runProgress :=
        (rcs_runProgress candidate)\<lparr>rpg_observedRunSeconds := observed + ucast deltaSeconds\<rparr>\<rparr>))"

definition deriveFermentingSecondsDelta :: "RunCommandState \<Rightarrow> u64 \<Rightarrow> u32 option" where
  "deriveFermentingSecondsDelta s atMillis =
     (let entered = rt_stateEnteredAtMillis (rcs_processState s) in
      if rt_state (rcs_processState s) \<noteq> PS_Fermenting \<or> atMillis < entered then None
      else
        (let seconds = (atMillis - entered) div 1000 in
         if seconds > ucast u32_max then None else Some (ucast seconds)))"

definition effectivePriorElapsedForFermenting :: "RunCommandState \<Rightarrow> PriorBootPhaseElapsed option" where
  "effectivePriorElapsedForFermenting current =
     (if rt_state (rcs_processState current) \<noteq> PS_Fermenting then None
      else case rcs_priorBootPhaseElapsed current of
        None \<Rightarrow> Some noPriorBootPhaseElapsed
      | Some prior \<Rightarrow>
          if tpe_taggedState prior \<noteq> PS_Fermenting then None else Some (tpe_elapsed prior))"

text \<open>The first active and unresolved message of the highest class and, within it, priority.\<close>

fun highestFrom :: "RuntimeMessage list \<Rightarrow> RuntimeMessage option \<Rightarrow> RuntimeMessage option" where
  "highestFrom [] highest = highest"
| "highestFrom (candidate # rest) highest =
     (if \<not> msg_active candidate \<or> msg_resolved candidate then highestFrom rest highest
      else if (case highest of
           None \<Rightarrow> True
         | Some h \<Rightarrow>
             messageClassValue (msg_messageClass candidate) > messageClassValue (msg_messageClass h) \<or>
             msg_messageClass candidate = msg_messageClass h \<and> msg_priority candidate > msg_priority h)
      then highestFrom rest (Some candidate) else highestFrom rest highest)"

definition highestPriorityActiveMessage :: "RunCommandState \<Rightarrow> RuntimeMessage option" where
  "highestPriorityActiveMessage s = highestFrom (take (rcs_messageCount s) (rcs_messages s)) None"

end
