(* ===== verification/ControlContext.thy ===== *)
theory ControlContext
  imports RunState
begin

text \<open>
  The effective control context of a run (\<open>control_context.hpp/.cpp\<close>): which sensor role leads in a
  phase, which temperature is the target, and the qualification context, all projected from the
  command state only.
\<close>

datatype ControlTargetKind = CTK_FermentationRun | CTK_CoolingCompletion | CTK_ManualRun

record EffectiveControlTarget =
  ect_targetCelsius :: f64
  ect_targetKind :: ControlTargetKind
  ect_sourceRevision :: u32
  ect_valid :: bool

record EffectiveControlContextInput =
  eci_phase :: ProcessState
  eci_activeRunSensorMode :: "RunSensorMode option"
  eci_effectiveFermentationTargetCelsius :: "f64 option"
  eci_completionCoolingTargetCelsius :: "f64 option"
  eci_manualTargetCelsius :: "f64 option"
  eci_completionMode :: CompletionMode
  eci_processTransitionSequence :: u32
  eci_runRevision :: u32
  eci_manualRun :: bool

record EffectiveControlContext =
  ecc_phase :: ProcessState
  ecc_controlSensorRole :: ControlSensorRole
  ecc_target :: EffectiveControlTarget
  ecc_requestContext :: ControlRequestContext
  ecc_valid :: bool

record EffectiveQualificationContext =
  eqc_controlSensorRole :: ControlSensorRole
  eqc_targetCelsius :: f64
  eqc_bandCelsius :: f64
  eqc_qualificationDurationMillis :: u64
  eqc_valid :: bool

definition initialControlTarget :: EffectiveControlTarget where
  "initialControlTarget = \<lparr>ect_targetCelsius = F64 0, ect_targetKind = CTK_FermentationRun,
     ect_sourceRevision = 0, ect_valid = False\<rparr>"

definition initialControlContext :: EffectiveControlContext where
  "initialControlContext = \<lparr>ecc_phase = PS_Boot, ecc_controlSensorRole = CSR_Air,
     ecc_target = initialControlTarget,
     ecc_requestContext = \<lparr>ctx_processTransitionSequence = 0, ctx_runRevision = 0,
       ctx_controlSensorRole = CSR_Air\<rparr>, ecc_valid = False\<rparr>"

definition initialQualificationContext :: EffectiveQualificationContext where
  "initialQualificationContext = \<lparr>eqc_controlSensorRole = CSR_Air, eqc_targetCelsius = F64 0,
     eqc_bandCelsius = F64 0, eqc_qualificationDurationMillis = 0, eqc_valid = False\<rparr>"

definition qualificationEpisodePhase :: "ProcessState \<Rightarrow> bool" where
  "qualificationEpisodePhase phase \<longleftrightarrow>
     phase = PS_Preheating \<or> phase = PS_ReachingTarget \<or> phase = PS_QualifyingTarget"

definition temperatureControlledPhase :: "ProcessState \<Rightarrow> bool" where
  "temperatureControlledPhase phase =
     (case phase of
        PS_Preheating \<Rightarrow> True | PS_WaitingForProduct \<Rightarrow> True | PS_ReachingTarget \<Rightarrow> True
      | PS_QualifyingTarget \<Rightarrow> True | PS_Fermenting \<Rightarrow> True | PS_Cooling \<Rightarrow> True
      | PS_CoolHolding \<Rightarrow> True | PS_ManualHolding \<Rightarrow> True
      | _ \<Rightarrow> False)"

definition validCoolingMode :: "CompletionMode \<Rightarrow> bool" where
  "validCoolingMode mode \<longleftrightarrow> mode = CM_CoolThenFinish \<or> mode = CM_CoolAndHoldForDuration \<or>
     mode = CM_CoolAndHoldUntilManualStop"

definition resolveEffectiveControlSensorRole ::
  "ProcessState \<Rightarrow> RunSensorMode option \<Rightarrow> ControlSensorRole option" where
  "resolveEffectiveControlSensorRole phase activeRunSensorMode =
     (if (case activeRunSensorMode of Some (RSM_other _) \<Rightarrow> True | _ \<Rightarrow> False) then None
      else if phase = PS_Preheating \<or> phase = PS_WaitingForProduct then Some CSR_Air
      else case activeRunSensorMode of
        None \<Rightarrow> None
      | Some RSM_Product \<Rightarrow> Some CSR_Product
      | Some RSM_Air \<Rightarrow> Some CSR_Air
      | Some (RSM_other _) \<Rightarrow> None)"

definition resolveProductInsertedControlContextTransition ::
  "ControlSensorRole option \<Rightarrow> ControlSensorRole option \<Rightarrow> CommittedControlContextTransition option" where
  "resolveProductInsertedControlContextTransition roleBefore roleAfter =
     (if roleBefore = Some CSR_Air \<and> roleAfter = Some CSR_Product then Some CCT_ProductInserted
      else None)"

definition resolveControlSensorRoleTransition ::
  "ProcessState \<Rightarrow> RunSensorMode option \<Rightarrow> ProcessState \<Rightarrow> RunSensorMode option \<Rightarrow>
     CommittedControlContextTransition option" where
  "resolveControlSensorRoleTransition beforePhase beforeRunSensorMode afterPhase afterRunSensorMode =
     (let roleBefore = resolveEffectiveControlSensorRole beforePhase beforeRunSensorMode;
          roleAfter = resolveEffectiveControlSensorRole afterPhase afterRunSensorMode in
      if roleBefore \<noteq> None \<and> roleAfter \<noteq> None \<and> roleBefore \<noteq> roleAfter
      then Some CCT_SensorRoleChange else None)"

text \<open>The target of a phase: \<open>None\<close> where the code returns without one.\<close>

definition targetOfPhase :: "EffectiveControlContextInput \<Rightarrow> (f64 option \<times> ControlTargetKind) option" where
  "targetOfPhase i =
     (let manualOrFermentation =
            (if eci_manualRun i then
               (if eci_manualTargetCelsius i = None then None
                else Some (eci_manualTargetCelsius i, CTK_ManualRun))
             else Some (eci_effectiveFermentationTargetCelsius i, CTK_FermentationRun));
          completion =
            (if \<not> validCoolingMode (eci_completionMode i) \<or>
                eci_completionCoolingTargetCelsius i = None then None
             else Some (eci_completionCoolingTargetCelsius i, CTK_CoolingCompletion)) in
      case eci_phase i of
        PS_Cooling \<Rightarrow> completion
      | PS_CoolHolding \<Rightarrow> completion
      | PS_ManualHolding \<Rightarrow>
          (if \<not> eci_manualRun i \<or> eci_manualTargetCelsius i = None then None
           else Some (eci_manualTargetCelsius i, CTK_ManualRun))
      | PS_Fermenting \<Rightarrow>
          (if eci_manualRun i then None
           else Some (eci_effectiveFermentationTargetCelsius i, CTK_FermentationRun))
      | PS_Preheating \<Rightarrow> manualOrFermentation
      | PS_WaitingForProduct \<Rightarrow> manualOrFermentation
      | PS_ReachingTarget \<Rightarrow> manualOrFermentation
      | PS_QualifyingTarget \<Rightarrow> manualOrFermentation
      | _ \<Rightarrow> None)"

definition resolveControlContextInput :: "EffectiveControlContextInput \<Rightarrow> EffectiveControlContext" where
  "resolveControlContextInput i =
     (let r = initialControlContext
            \<lparr>ecc_phase := eci_phase i,
             ecc_requestContext := (ecc_requestContext initialControlContext)
               \<lparr>ctx_processTransitionSequence := eci_processTransitionSequence i,
                ctx_runRevision := eci_runRevision i\<rparr>\<rparr> in
      if \<not> temperatureControlledPhase (eci_phase i) then r
      else case resolveEffectiveControlSensorRole (eci_phase i) (eci_activeRunSensorMode i) of
        None \<Rightarrow> r
      | Some role \<Rightarrow>
          (let r = r\<lparr>ecc_controlSensorRole := role,
                 ecc_requestContext := (ecc_requestContext r)\<lparr>ctx_controlSensorRole := role\<rparr>\<rparr> in
           case targetOfPhase i of
             Some (Some target, kind) \<Rightarrow>
               if \<not> isfinite target then r
               else r\<lparr>ecc_target := \<lparr>ect_targetCelsius = target, ect_targetKind = kind,
                        ect_sourceRevision = eci_runRevision i, ect_valid = True\<rparr>,
                      ecc_valid := True\<rparr>
           | _ \<Rightarrow> r))"

definition completionCoolingTarget :: "ActiveRun \<Rightarrow> f64 option" where
  "completionCoolingTarget run =
     (case rps_source (arn_snapshot run) of
        PRS_Program d \<Rightarrow> pcp_coolingTargetCelsius (pd_completion (doc_program d))
      | PRS_ManualTimed m \<Rightarrow> pcp_coolingTargetCelsius (mts_completion m))"

definition makeActiveRunProcessSnapshot :: "ActiveRun \<Rightarrow> ProcessRunSnapshot option" where
  "makeActiveRunProcessSnapshot run =
     makeProcessRunSnapshot (arn_snapshot run) (arn_effectiveValues run)"

definition initialContextInput :: "RunCommandState \<Rightarrow> EffectiveControlContextInput" where
  "initialContextInput current =
     \<lparr>eci_phase = rt_state (rcs_processState current),
      eci_activeRunSensorMode = rcs_activeRunSensorMode current,
      eci_effectiveFermentationTargetCelsius = None, eci_completionCoolingTargetCelsius = None,
      eci_manualTargetCelsius = None, eci_completionMode = CM_FinishWithoutCooling,
      eci_processTransitionSequence = rt_transitionSequence (rcs_processState current),
      eci_runRevision = rcs_runRevision current, eci_manualRun = False\<rparr>"

definition projectTimedContext ::
  "RunCommandState \<Rightarrow> ProcessRunSnapshot \<Rightarrow> EffectiveControlContextInput \<Rightarrow>
     EffectiveControlContextInput option" where
  "projectTimedContext current snapshot i =
     (case (rcs_activeProgramRun current, rcs_activeManualRun current) of
        (Some run, None) \<Rightarrow>
          (case makeActiveRunProcessSnapshot run of
             None \<Rightarrow> None
           | Some expected \<Rightarrow>
               if \<not> equalProcessRunSnapshot expected snapshot then None
               else
                 (let i = i\<lparr>eci_effectiveFermentationTargetCelsius :=
                        Some (erv_targetTemperatureCelsius (arn_effectiveValues run)),
                        eci_completionMode := snap_completionMode snapshot\<rparr> in
                  Some (if eci_phase i = PS_Cooling \<or> eci_phase i = PS_CoolHolding
                        then i\<lparr>eci_completionCoolingTargetCelsius := completionCoolingTarget run\<rparr>
                        else i)))
      | _ \<Rightarrow> None)"

definition projectManualContext ::
  "RunCommandState \<Rightarrow> ProcessRunSnapshot \<Rightarrow> EffectiveControlContextInput \<Rightarrow>
     EffectiveControlContextInput option" where
  "projectManualContext current snapshot i =
     (case (rcs_activeManualRun current, rcs_activeProgramRun current) of
        (Some plan, None) \<Rightarrow>
          (case makeManualProcessSnapshot plan of
             None \<Rightarrow> None
           | Some expected \<Rightarrow>
               if \<not> equalProcessRunSnapshot expected snapshot \<or>
                  mpr_runId (mpl_values plan) \<noteq> rcs_activeRunId current \<or>
                  rcs_activeRunSensorMode current = None \<or>
                  mpr_sensorMode (mpl_values plan) \<noteq> the (rcs_activeRunSensorMode current)
               then None
               else Some (i\<lparr>eci_manualRun := True,
                 eci_manualTargetCelsius := Some (mpr_targetTemperatureCelsius (mpl_values plan)),
                 eci_completionMode := snap_completionMode snapshot\<rparr>))
      | _ \<Rightarrow> None)"

definition projectEffectiveControlContextInput ::
  "RunCommandState \<Rightarrow> EffectiveControlContextInput option" where
  "projectEffectiveControlContextInput current =
     (let i = initialContextInput current in
      if \<not> temperatureControlledPhase (eci_phase i) then Some i
      else case rcs_processRunSnapshot current of
        None \<Rightarrow> None
      | Some snapshot \<Rightarrow>
          if \<not> validateProcessRunSnapshot snapshot \<or>
             \<not> stateMatchesRunSnapshot (eci_phase i) snapshot then None
          else (case snap_kind snapshot of
            PK_Timed \<Rightarrow> projectTimedContext current snapshot i
          | PK_ManualHolding \<Rightarrow> projectManualContext current snapshot i
          | _ \<Rightarrow> None))"

definition resolveEffectiveControlContext :: "RunCommandState \<Rightarrow> EffectiveControlContext" where
  "resolveEffectiveControlContext current =
     (case projectEffectiveControlContextInput current of
        None \<Rightarrow> initialControlContext
      | Some projected \<Rightarrow> resolveControlContextInput projected)"

definition qualificationBandForActiveRun :: "RunCommandState \<Rightarrow> f64 option" where
  "qualificationBandForActiveRun current =
     (case rcs_activeManualRun current of
        Some plan \<Rightarrow> Some (mpr_qualificationBandCelsius (mpl_values plan))
      | None \<Rightarrow>
          (case rcs_activeProgramRun current of
             None \<Rightarrow> None
           | Some run \<Rightarrow>
               (case rps_source (arn_snapshot run) of
                  PRS_Program d \<Rightarrow> tql_bandCelsius (pd_targetQualification (doc_program d))
                | PRS_ManualTimed m \<Rightarrow> tql_bandCelsius (mts_targetQualification m))))"

definition resolveEffectiveQualificationContext ::
  "RunCommandState \<Rightarrow> EffectiveQualificationContext" where
  "resolveEffectiveQualificationContext current =
     (let r = initialQualificationContext;
          control = resolveEffectiveControlContext current in
      if \<not> qualificationEpisodePhase (rt_state (rcs_processState current)) then r
      else case rcs_processRunSnapshot current of
        None \<Rightarrow> r
      | Some snapshot \<Rightarrow>
          if \<not> ecc_valid control then r
          else case qualificationBandForActiveRun current of
            None \<Rightarrow> r
          | Some band \<Rightarrow>
              (let minutes = ucast (snap_qualificationDurationMinutes snapshot) :: u64 in
               if \<not> isfinite band then r
               else if minutes > u64_max div 60000 then r
               else if minutes * 60000 = 0 then r
               else \<lparr>eqc_controlSensorRole = ecc_controlSensorRole control,
                     eqc_targetCelsius = ect_targetCelsius (ecc_target control),
                     eqc_bandCelsius = band, eqc_qualificationDurationMillis = minutes * 60000,
                     eqc_valid = True\<rparr>))"

end
