(* ===== verification/RunCommands.thy ===== *)
theory RunCommands
  imports ControlContext
begin

text \<open>
  The run commands (\<open>run_commands.hpp/.cpp\<close>): a command is decided on a copy of the state, and the
  decision is applied only to the state for which it was made. Every \<open>decide\<close> function starts with
  the checks common to all commands and ends, when it did not propose, with the state as it was. The
  array of the effects with its count is the list of the effects.
\<close>

section \<open>Types\<close>

datatype CommandStatus =
    CST_Proposed | CST_Applied | CST_NoChange | CST_NotConfirmed | CST_NotAllowedInState
  | CST_InvalidInput | CST_StaleState | CST_AlreadyProcessed | CST_SafetyRejected
  | CST_CapacityReached | CST_ContextMissing

datatype CommandKind =
    CK_StartProgram | CK_StartManualHolding | CK_AbortAndTurnOff | CK_AbortAndCool
  | CK_AcknowledgeCompletion | CK_CoolAfterCompletion | CK_AdjustRun
  | CK_ApplyRecoveryTimeCorrection | CK_AcknowledgeMessage | CK_MuteMessage
  | CK_ApplySensorSelectionAction | CK_other u8

datatype CommandEffect =
    CE_RunStarted | CE_RunAborted | CE_SafePeltierStopRequested | CE_FanRunOnRequired
  | CE_ManualRunStarted | CE_RunAdjusted | CE_CompletionAcknowledged | CE_MessageAcknowledged
  | CE_AcousticMuted | CE_SensorSelectionPermissionBlocked | CE_SensorSelectionPermissionRestored

record CommandEnvelope =
  cen_id :: u64
  cen_source :: CommandSource
  cen_monotonicMillis :: u64
  cen_expectedStateSequence :: u32
  cen_expectedRunRevision :: "u32 option"
  cen_expectedMessageRevision :: "u32 option"
  cen_expectedFaultRevision :: "u32 option"
  cen_confirmed :: bool
  cen_expectedRecoveryEpisodeRevision :: "u32 option"

record StartSummary =
  ssu_runId :: string
  ssu_sourceKind :: "ProgramSourceKind option"
  ssu_programName :: "string option"
  ssu_targetTemperatureCelsius :: f64
  ssu_durationMinutes :: "u32 option"
  ssu_sensorMode :: RunSensorMode
  ssu_preheatEnabled :: bool
  ssu_completionMode :: CompletionMode
  ssu_kind :: ProcessKind

record ProgramStartRequest =
  psr_envelope :: CommandEnvelope
  psr_runId :: string
  psr_program :: ProgramRunSource
  psr_sourceProgramRevision :: "u64 option"
  psr_sensorMode :: RunSensorMode
  psr_safetyAllowsStart :: bool
  psr_airSensorValid :: bool
  psr_coolingSensorValid :: bool
  psr_productSensorValid :: bool

record ManualStartRequest =
  msr_envelope :: CommandEnvelope
  msr_plan :: ManualRunPlanRequest
  msr_safetyAllowsStart :: bool
  msr_airSensorValid :: bool
  msr_coolingSensorValid :: bool
  msr_productSensorValid :: bool

datatype StopOption = SO_Back | SO_AbortAndTurnOff | SO_AbortAndCool | SO_other u8

record StopRequest =
  str_envelope :: CommandEnvelope
  str_option :: StopOption
  str_coolingPlan :: "ManualRunPlanRequest option"
  str_safetyAllowsCooling :: bool
  str_airSensorValid :: bool
  str_coolingSensorValid :: bool

record CompletionRequest =
  cpr_envelope :: CommandEnvelope
  cpr_startCooling :: bool
  cpr_coolingPlan :: "ManualRunPlanRequest option"
  cpr_safetyAllowsCooling :: bool
  cpr_airSensorValid :: bool
  cpr_coolingSensorValid :: bool

record RunAdjustmentCommandRequest =
  acr_envelope :: CommandEnvelope
  acr_targetTemperatureCelsius :: "f64 option"
  acr_remainingDurationMinutes :: "u32 option"

record ApplyRecoveryTimeCorrectionRequest =
  rtr_envelope :: CommandEnvelope
  rtr_secondsDelta :: u32

record SensorSelectionCommandRequest =
  scq_envelope :: CommandEnvelope
  scq_action :: SensorSelectionUserAction

record MessageCommandRequest =
  mcr_envelope :: CommandEnvelope
  mcr_messageId :: u32

record RunAdjustmentPreview =
  rap_before :: EffectiveRunValues
  rap_after :: EffectiveRunValues
  rap_phase :: ProcessState
  rap_targetRequalificationRequired :: bool
  rap_timerContinuesWithoutBiologicalCorrection :: bool

record StartSensorSelectionNotice =
  stn_requestedMode :: RunSensorMode
  stn_effectiveMode :: RunSensorMode
  stn_runRevision :: u32

record CommandDecision =
  cd_status :: CommandStatus
  cd_kind :: CommandKind
  cd_envelope :: CommandEnvelope
  cd_startSummary :: "StartSummary option"
  cd_adjustmentPreview :: "RunAdjustmentPreview option"
  cd_effects :: "CommandEffect list"
  cd_sensorSelectionApplyStatus :: "SensorSelectionApplyStatus option"
  cd_sensorSelectionEvent :: "SensorSelectionEvent option"
  cd_sensorSelectionNotice :: "SensorSelectionNotice option"
  cd_startSensorSelectionNotice :: "StartSensorSelectionNotice option"
  cd_committedControlContextTransition :: "CommittedControlContextTransition option"
  cd_before :: RunCommandState
  cd_after :: RunCommandState

definition commandProposed :: "CommandDecision \<Rightarrow> bool" where
  "commandProposed d \<longleftrightarrow> cd_status d = CST_Proposed"

definition withStatus :: "CommandStatus \<Rightarrow> CommandDecision \<Rightarrow> CommandDecision" where
  "withStatus st d = d\<lparr>cd_status := st\<rparr>"

section \<open>The checks common to all commands\<close>

definition targetContextTransition :: "bool \<Rightarrow> CommittedControlContextTransition option" where
  "targetContextTransition targetChanged =
     (if \<not> targetChanged then None else Some CCT_TargetContextChange)"

definition activeProcessState :: "ProcessState \<Rightarrow> bool" where
  "activeProcessState st =
     (case st of
        PS_Preheating \<Rightarrow> True | PS_WaitingForProduct \<Rightarrow> True | PS_ReachingTarget \<Rightarrow> True
      | PS_QualifyingTarget \<Rightarrow> True | PS_Fermenting \<Rightarrow> True | PS_Cooling \<Rightarrow> True
      | PS_CoolHolding \<Rightarrow> True | PS_ManualHolding \<Rightarrow> True
      | _ \<Rightarrow> False)"

definition isRunComfortCommand :: "CommandKind \<Rightarrow> bool" where
  "isRunComfortCommand k =
     (case k of
        CK_AcknowledgeMessage \<Rightarrow> False | CK_MuteMessage \<Rightarrow> False
      | CK_ApplySensorSelectionAction \<Rightarrow> False | _ \<Rightarrow> True)"

definition adjustmentAllowedIn :: "ProcessState \<Rightarrow> bool" where
  "adjustmentAllowedIn st \<longleftrightarrow> st = PS_Preheating \<or> st = PS_ReachingTarget \<or>
     st = PS_QualifyingTarget \<or> st = PS_Fermenting"

definition phaseContextFor :: "ProcessState \<Rightarrow> RunAdjustmentPhaseContext" where
  "phaseContextFor st = (if st = PS_Fermenting then RAP_Fermenting else RAP_BeforeFermentation)"

definition containsProcessedCommand :: "RunCommandState \<Rightarrow> u64 \<Rightarrow> bool" where
  "containsProcessedCommand s i \<longleftrightarrow>
     i \<in> set (take (rcs_processedCommandCount s) (rcs_processedCommandIds s))"

text \<open>The ids move down by one when the array is full.\<close>

definition rememberProcessedCommand :: "RunCommandState \<Rightarrow> u64 \<Rightarrow> RunCommandState" where
  "rememberProcessedCommand s i =
     (let ids = rcs_processedCommandIds s; n = rcs_processedCommandCount s in
      if n < length ids then
        s\<lparr>rcs_processedCommandIds := ids[n := i], rcs_processedCommandCount := n + 1\<rparr>
      else s\<lparr>rcs_processedCommandIds := tl ids @ [i]\<rparr>)"

definition commandResult ::
  "RunCommandState \<Rightarrow> CommandEnvelope \<Rightarrow> CommandKind \<Rightarrow> CommandStatus \<Rightarrow> CommandDecision" where
  "commandResult current envelope k st =
     \<lparr>cd_status = st, cd_kind = k, cd_envelope = envelope, cd_startSummary = None,
      cd_adjustmentPreview = None, cd_effects = [], cd_sensorSelectionApplyStatus = None,
      cd_sensorSelectionEvent = None, cd_sensorSelectionNotice = None,
      cd_startSensorSelectionNotice = None, cd_committedControlContextTransition = None,
      cd_before = current, cd_after = current\<rparr>"

definition beginDecision ::
  "RunCommandState \<Rightarrow> CommandEnvelope \<Rightarrow> CommandKind \<Rightarrow> CommandDecision" where
  "beginDecision current envelope k =
     (let d = commandResult current envelope k CST_Proposed in
      if cen_id envelope = 0 \<or> \<not> validCommandSource (cen_source envelope) then
        withStatus CST_InvalidInput d
      else if containsProcessedCommand current (cen_id envelope) then
        withStatus CST_AlreadyProcessed d
      else if rcs_commandSequence current = u32_max then withStatus CST_CapacityReached d
      else if cen_expectedStateSequence envelope \<noteq> rt_transitionSequence (rcs_processState current) \<or>
         rcs_processedCommandCount current > 0 \<and>
         cen_monotonicMillis envelope < rcs_lastCommandMonotonicMillis current then
        withStatus CST_StaleState d
      else if rcs_criticalSafetyEventPending current \<and> isRunComfortCommand k then
        withStatus CST_SafetyRejected d
      else d)"

definition beginMutation :: "CommandDecision \<Rightarrow> CommandDecision" where
  "beginMutation d =
     d\<lparr>cd_after := (rememberProcessedCommand
         ((cd_after d)\<lparr>rcs_commandSequence := rcs_commandSequence (cd_before d) + 1\<rparr>)
         (cen_id (cd_envelope d)))
       \<lparr>rcs_lastCommandMonotonicMillis := cen_monotonicMillis (cd_envelope d)\<rparr>\<rparr>"

text \<open>A revision that the client expects must be given and current. The checks leave a decision that
  is no longer proposed alone.\<close>

definition requireExpected :: "u32 option \<Rightarrow> u32 \<Rightarrow> CommandDecision \<Rightarrow> CommandDecision" where
  "requireExpected expected actual d =
     (if \<not> commandProposed d then d
      else case expected of
        None \<Rightarrow> withStatus CST_ContextMissing d
      | Some e \<Rightarrow> if e \<noteq> actual then withStatus CST_StaleState d else d)"

definition requireRunRevision :: "CommandDecision \<Rightarrow> CommandDecision" where
  "requireRunRevision d = requireExpected (cen_expectedRunRevision (cd_envelope d))
     (rcs_runRevision (cd_before d)) d"

definition requireRecoveryEpisodeRevision :: "CommandDecision \<Rightarrow> CommandDecision" where
  "requireRecoveryEpisodeRevision d =
     requireExpected (cen_expectedRecoveryEpisodeRevision (cd_envelope d))
       (rcs_recoveryEpisodeRevision (cd_before d)) d"

definition requireMessageRevision :: "CommandDecision \<Rightarrow> CommandDecision" where
  "requireMessageRevision d = requireExpected (cen_expectedMessageRevision (cd_envelope d))
     (rcs_messageRevision (cd_before d)) d"

definition requireRevisionCapacity :: "u32 \<Rightarrow> CommandDecision \<Rightarrow> CommandDecision" where
  "requireRevisionCapacity revision d =
     (if \<not> commandProposed d then d
      else if revision = u32_max then withStatus CST_CapacityReached d else d)"

definition addEffect :: "CommandEffect \<Rightarrow> CommandDecision \<Rightarrow> CommandDecision" where
  "addEffect e d =
     (if length (cd_effects d) \<ge> kMaximumCommandEffects then withStatus CST_CapacityReached d
      else d\<lparr>cd_effects := cd_effects d @ [e]\<rparr>)"

definition noSignals :: ProcessSignals where
  "noSignals = \<lparr>sig_qualificationProgress = QP_Unavailable, sig_coolingTargetConditionValid = False,
     sig_criticalFault = False\<rparr>"

definition applyTransition ::
  "RunCommandState \<Rightarrow> ProcessEvent \<Rightarrow> u64 \<Rightarrow> ProcessRunSnapshot option \<Rightarrow> RunCommandState option" where
  "applyTransition s event monotonicMillis snapshot =
     (let transition = decideProcessTransition (rcs_processState s) snapshot noSignals
            \<lparr>req_event = event, req_recoveredState = None\<rparr> monotonicMillis noPriorBootPhaseElapsed in
      if \<not> proposed transition then None
      else map_option (\<lambda>p. s\<lparr>rcs_processState := p\<rparr>)
        (applyProcessTransition (rcs_processState s) transition snapshot))"

definition restoreRejectedAfter :: "CommandDecision \<Rightarrow> CommandDecision" where
  "restoreRejectedAfter d = (if \<not> commandProposed d then d\<lparr>cd_after := cd_before d\<rparr> else d)"

section \<open>Start matrix\<close>

definition changeSource :: "CommandSource \<Rightarrow> RunChangeSource" where
  "changeSource s = (if s = CSO_WebInterface then RCS_WebInterface else RCS_LocalDisplay)"

definition defaultProgramStartSensorMode :: "SensorPreference \<Rightarrow> RunSensorMode option" where
  "defaultProgramStartSensorMode p =
     (case p of
        SPref_ProductIfAvailableElseAir \<Rightarrow> Some RSM_Product
      | SPref_ProductRequired \<Rightarrow> Some RSM_Product
      | SPref_AirProductOptional \<Rightarrow> Some RSM_Air
      | SPref_AirOnly \<Rightarrow> Some RSM_Air
      | SPref_other _ \<Rightarrow> None)"

definition programStartSensorModeAllowed :: "SensorPreference \<Rightarrow> RunSensorMode \<Rightarrow> bool" where
  "programStartSensorModeAllowed preference requestedMode =
     (if requestedMode \<noteq> RSM_Air \<and> requestedMode \<noteq> RSM_Product then False
      else case preference of
        SPref_ProductIfAvailableElseAir \<Rightarrow> True
      | SPref_AirProductOptional \<Rightarrow> True
      | SPref_ProductRequired \<Rightarrow> requestedMode = RSM_Product
      | SPref_AirOnly \<Rightarrow> requestedMode = RSM_Air
      | SPref_other _ \<Rightarrow> False)"

record ProgramStartSensorResolution =
  pss_valid :: bool
  pss_effectiveMode :: RunSensorMode
  pss_substituted :: bool

definition resolution :: "bool \<Rightarrow> RunSensorMode \<Rightarrow> bool \<Rightarrow> ProgramStartSensorResolution" where
  "resolution v mode substituted =
     \<lparr>pss_valid = v, pss_effectiveMode = mode, pss_substituted = substituted\<rparr>"

definition resolveProgramStartSensorMode ::
  "SensorPreference \<Rightarrow> RunSensorMode \<Rightarrow> bool \<Rightarrow> ProgramStartSensorResolution" where
  "resolveProgramStartSensorMode preference requestedMode productSensorValid =
     (if \<not> programStartSensorModeAllowed preference requestedMode then
        resolution False requestedMode False
      else case preference of
        SPref_ProductIfAvailableElseAir \<Rightarrow>
          (if requestedMode = RSM_Air then resolution True RSM_Air False
           else if productSensorValid then resolution True RSM_Product False
           else resolution True RSM_Air True)
      | SPref_AirProductOptional \<Rightarrow>
          (if requestedMode = RSM_Air then resolution True RSM_Air False
           else resolution productSensorValid RSM_Product False)
      | SPref_ProductRequired \<Rightarrow>
          (if requestedMode = RSM_Air then resolution False RSM_Air False
           else resolution productSensorValid RSM_Product False)
      | SPref_AirOnly \<Rightarrow>
          (if requestedMode = RSM_Product then resolution False RSM_Product False
           else resolution True RSM_Air False)
      | SPref_other _ \<Rightarrow> resolution False RSM_Air False)"

record StartSensorSelectionOutcome =
  sso_runtime :: SensorSelectionRuntimeState
  sso_persisted :: PersistedSensorSelectionState

definition startSensorSelectionOutcome ::
  "RunSensorMode \<Rightarrow> bool \<Rightarrow> bool \<Rightarrow> bool \<Rightarrow> bool \<Rightarrow> u32 \<Rightarrow> StartSensorSelectionOutcome" where
  "startSensorSelectionOutcome effectiveMode substitutedFromProduct productSensorValid
     airSensorValid coolingSensorValid startRunRevision =
     (let fixedPermission =
            (if airSensorValid \<and> coolingSensorValid then SPP_Allowed else SPP_Blocked);
          (phase, permission, provenance) =
            (if effectiveMode = RSM_Air then
               (if substitutedFromProduct
                then (SSP_AirFallbackActive, fixedPermission, SPV_FallbackActive)
                else (SSP_NormalAir, fixedPermission, SPV_InitialSelection))
             else if productSensorValid
             then (SSP_NormalProduct, fixedPermission, SPV_InitialSelection)
             else (SSP_UserDecisionRequired, SPP_Blocked, SPV_InitialSelection)) in
      \<lparr>sso_runtime = initialSensorSelectionRuntime
         \<lparr>ssr_phase := phase, ssr_permission := permission\<rparr>,
       sso_persisted = \<lparr>per_provenance = provenance, per_lastDecisionCause = SDC_StartSelection,
         per_lastDecisionRunRevision = startRunRevision\<rparr>\<rparr>)"

definition withStartOutcome :: "StartSensorSelectionOutcome \<Rightarrow> CommandDecision \<Rightarrow> CommandDecision" where
  "withStartOutcome out d =
     d\<lparr>cd_after := (cd_after d)\<lparr>rcs_sensorSelectionRuntime := sso_runtime out,
        rcs_sensorSelection := Some (sso_persisted out)\<rparr>\<rparr>"

definition incrementRunRevision :: "CommandDecision \<Rightarrow> CommandDecision" where
  "incrementRunRevision d =
     d\<lparr>cd_after := (cd_after d)\<lparr>rcs_runRevision := rcs_runRevision (cd_after d) + 1\<rparr>\<rparr>"

definition validStopOption :: "StopOption \<Rightarrow> bool" where
  "validStopOption s = (case s of SO_other _ \<Rightarrow> False | _ \<Rightarrow> True)"

section \<open>Start of a program\<close>

definition programPreheat :: "ProgramRunSource \<Rightarrow> bool" where
  "programPreheat s =
     (case s of PRS_Program d \<Rightarrow> pd_preheat (doc_program d)
      | PRS_ManualTimed m \<Rightarrow> mts_preheatEnabled m)"

definition programCompletionMode :: "ProgramRunSource \<Rightarrow> CompletionMode" where
  "programCompletionMode s =
     (case s of PRS_Program d \<Rightarrow> pcp_mode (pd_completion (doc_program d))
      | PRS_ManualTimed m \<Rightarrow> pcp_mode (mts_completion m))"

definition programStartSummary ::
  "ProgramStartRequest \<Rightarrow> ActiveRun \<Rightarrow> RunSensorMode \<Rightarrow> StartSummary" where
  "programStartSummary request run mode =
     \<lparr>ssu_runId = psr_runId request,
      ssu_sourceKind = Some (programSourceKind (psr_program request)),
      ssu_programName =
        (case psr_program request of PRS_Program d \<Rightarrow> Some (pd_name (doc_program d))
         | PRS_ManualTimed _ \<Rightarrow> None),
      ssu_targetTemperatureCelsius = erv_targetTemperatureCelsius (arn_effectiveValues run),
      ssu_durationMinutes = Some (erv_remainingDurationMinutes (arn_effectiveValues run)),
      ssu_sensorMode = mode, ssu_preheatEnabled = programPreheat (psr_program request),
      ssu_completionMode = programCompletionMode (psr_program request), ssu_kind = PK_Timed\<rparr>"

definition resolveStartMode :: "ProgramStartRequest \<Rightarrow> ProgramStartSensorResolution" where
  "resolveStartMode request =
     (case psr_program request of
        PRS_Program d \<Rightarrow> resolveProgramStartSensorMode (pd_sensorPreference (doc_program d))
          (psr_sensorMode request) (psr_productSensorValid request)
      | PRS_ManualTimed _ \<Rightarrow> resolution True (psr_sensorMode request) False)"

definition startNotice ::
  "ProgramStartRequest \<Rightarrow> ProgramStartSensorResolution \<Rightarrow> CommandDecision \<Rightarrow> CommandDecision" where
  "startNotice request r d =
     (if pss_substituted r then
        d\<lparr>cd_startSensorSelectionNotice := Some
          \<lparr>stn_requestedMode = psr_sensorMode request, stn_effectiveMode = pss_effectiveMode r,
           stn_runRevision = (if rcs_runRevision (cd_before d) = u32_max then u32_max
             else rcs_runRevision (cd_before d) + 1)\<rparr>\<rparr>
      else d)"

text \<open>The part after the checks: the run, the summary, the transition and the mutation.\<close>

definition startProgramRun ::
  "ProgramStartRequest \<Rightarrow> ProgramStartSensorResolution \<Rightarrow> CommandDecision \<Rightarrow> CommandDecision" where
  "startProgramRun request r d =
     (case startRun (psr_program request) (psr_sourceProgramRevision request) of
        None \<Rightarrow> withStatus CST_InvalidInput d
      | Some run \<Rightarrow>
          (let d = d\<lparr>cd_after := (cd_after d)\<lparr>rcs_activeProgramRun := Some run\<rparr>\<rparr> in
           case makeActiveRunProcessSnapshot run of
             None \<Rightarrow> withStatus CST_InvalidInput d
           | Some snapshot \<Rightarrow>
               (let d = d\<lparr>cd_startSummary :=
                      Some (programStartSummary request run (pss_effectiveMode r))\<rparr>;
                    d = startNotice request r d;
                    d = requireRevisionCapacity (rcs_runRevision (cd_before d)) d in
                if \<not> commandProposed d then d
                else case applyTransition (cd_after d) PE_StartRun
                    (cen_monotonicMillis (psr_envelope request)) (Some snapshot) of
                  None \<Rightarrow> withStatus CST_InvalidInput d
                | Some candidate \<Rightarrow>
                    if \<not> cen_confirmed (psr_envelope request) then
                      withStatus CST_NotConfirmed (d\<lparr>cd_after := candidate\<rparr>)
                    else
                      (let d = d\<lparr>cd_after := candidate
                             \<lparr>rcs_activeRunId := psr_runId request,
                              rcs_activeRunSensorMode := Some (pss_effectiveMode r),
                              rcs_activeManualRun := None,
                              rcs_processRunSnapshot := Some snapshot\<rparr>\<rparr>;
                           d = incrementRunRevision (beginMutation d);
                           out = startSensorSelectionOutcome (pss_effectiveMode r)
                             (pss_substituted r) (psr_productSensorValid request)
                             (psr_airSensorValid request) (psr_coolingSensorValid request)
                             (rcs_runRevision (cd_after d)) in
                       addEffect CE_RunStarted (withStartOutcome out d)))))"

definition decideProgramStart :: "RunCommandState \<Rightarrow> ProgramStartRequest \<Rightarrow> CommandDecision" where
  "decideProgramStart current request =
     restoreRejectedAfter
       (let d = requireRunRevision (beginDecision current (psr_envelope request) CK_StartProgram);
            r = resolveStartMode request in
        if \<not> commandProposed d then d
        else if \<not> psr_safetyAllowsStart request then withStatus CST_SafetyRejected d
        else if rt_state (rcs_processState current) \<noteq> PS_Standby \<or>
           rcs_activeProgramRun current \<noteq> None \<or> rcs_activeManualRun current \<noteq> None then
          withStatus CST_NotAllowedInState d
        else if \<not> validRunId (psr_runId request) \<or> \<not> validSensorMode (psr_sensorMode request) then
          withStatus CST_InvalidInput d
        else if \<not> psr_airSensorValid request \<or> \<not> psr_coolingSensorValid request then
          withStatus CST_SafetyRejected d
        else if \<not> pss_valid r then withStatus CST_InvalidInput d
        else startProgramRun request r d)"

section \<open>Start of a manual run\<close>

definition makeManualPlan :: "ManualRunPlanRequest \<Rightarrow> CommandEnvelope \<Rightarrow> ManualRunPlan option" where
  "makeManualPlan request envelope =
     (let plan = \<lparr>mpl_values = request, mpl_source = cen_source envelope,
            mpl_createdAtMonotonicMillis = cen_monotonicMillis envelope,
            mpl_kind = PK_ManualHolding\<rparr> in
      if validateManualRunPlan plan then Some plan else None)"

definition installManualRun ::
  "RunCommandState \<Rightarrow> CommandEnvelope \<Rightarrow> ManualRunPlan \<Rightarrow> RunCommandState option" where
  "installManualRun s envelope plan =
     (case makeManualProcessSnapshot plan of
        None \<Rightarrow> None
      | Some snapshot \<Rightarrow>
          (case applyTransition s PE_StartRun (cen_monotonicMillis envelope) (Some snapshot) of
             None \<Rightarrow> None
           | Some s \<Rightarrow> Some (s\<lparr>rcs_activeProgramRun := None,
               rcs_activeRunId := mpr_runId (mpl_values plan),
               rcs_activeRunSensorMode := Some (mpr_sensorMode (mpl_values plan)),
               rcs_activeManualRun := Some plan, rcs_processRunSnapshot := Some snapshot\<rparr>)))"

definition manualStartSummary :: "ManualRunPlanRequest \<Rightarrow> StartSummary" where
  "manualStartSummary p =
     \<lparr>ssu_runId = mpr_runId p, ssu_sourceKind = None, ssu_programName = None,
      ssu_targetTemperatureCelsius = mpr_targetTemperatureCelsius p, ssu_durationMinutes = None,
      ssu_sensorMode = mpr_sensorMode p, ssu_preheatEnabled = mpr_preheatEnabled p,
      ssu_completionMode = CM_FinishWithoutCooling, ssu_kind = PK_ManualHolding\<rparr>"

definition startManualRun ::
  "ManualStartRequest \<Rightarrow> ManualRunPlan \<Rightarrow> CommandDecision \<Rightarrow> CommandDecision" where
  "startManualRun request plan d =
     (let d = d\<lparr>cd_startSummary := Some (manualStartSummary (msr_plan request))\<rparr>;
          d = requireRevisionCapacity (rcs_runRevision (cd_before d)) d in
      if \<not> commandProposed d then d
      else case installManualRun (cd_after d) (cd_envelope d) plan of
        None \<Rightarrow> withStatus CST_InvalidInput d
      | Some candidate \<Rightarrow>
          (let d = d\<lparr>cd_after := candidate\<rparr> in
           if \<not> cen_confirmed (msr_envelope request) then withStatus CST_NotConfirmed d
           else
             (let d = incrementRunRevision (beginMutation d);
                  out = startSensorSelectionOutcome (mpr_sensorMode (msr_plan request)) False
                    (msr_productSensorValid request) (msr_airSensorValid request)
                    (msr_coolingSensorValid request) (rcs_runRevision (cd_after d)) in
              addEffect CE_RunStarted (addEffect CE_ManualRunStarted (withStartOutcome out d)))))"

definition decideManualStart :: "RunCommandState \<Rightarrow> ManualStartRequest \<Rightarrow> CommandDecision" where
  "decideManualStart current request =
     restoreRejectedAfter
       (let d = requireRunRevision
              (beginDecision current (msr_envelope request) CK_StartManualHolding) in
        if \<not> commandProposed d then d
        else if \<not> msr_safetyAllowsStart request then withStatus CST_SafetyRejected d
        else if rt_state (rcs_processState current) \<noteq> PS_Standby \<or>
           rcs_activeProgramRun current \<noteq> None \<or> rcs_activeManualRun current \<noteq> None then
          withStatus CST_NotAllowedInState d
        else case makeManualPlan (msr_plan request) (msr_envelope request) of
          None \<Rightarrow> withStatus CST_InvalidInput d
        | Some plan \<Rightarrow>
            if \<not> msr_airSensorValid request \<or> \<not> msr_coolingSensorValid request then
              withStatus CST_SafetyRejected d
            else startManualRun request plan d)"

section \<open>Stop and completion\<close>

text \<open>The plan of the cooling run that may follow: an error status, or the plan if cooling is asked
  for.\<close>

definition coolingPlanFor ::
  "bool \<Rightarrow> bool \<Rightarrow> ManualRunPlanRequest option \<Rightarrow> CommandEnvelope \<Rightarrow>
     CommandStatus + ManualRunPlan option" where
  "coolingPlanFor wanted safetyAllowsCooling coolingPlan envelope =
     (if \<not> wanted then Inr None
      else if \<not> safetyAllowsCooling then Inl CST_SafetyRejected
      else case coolingPlan of
        None \<Rightarrow> Inl CST_ContextMissing
      | Some p \<Rightarrow>
          (case makeManualPlan p envelope of
             None \<Rightarrow> Inl CST_InvalidInput | Some plan \<Rightarrow> Inr (Some plan)))"

definition installCoolingRun ::
  "RunCommandState \<Rightarrow> CommandEnvelope \<Rightarrow> ManualRunPlan option \<Rightarrow> RunCommandState option" where
  "installCoolingRun s envelope coolingPlan =
     (case coolingPlan of None \<Rightarrow> Some s | Some plan \<Rightarrow> installManualRun s envelope plan)"

definition coolingRunOutcome :: "bool \<Rightarrow> bool \<Rightarrow> CommandDecision \<Rightarrow> CommandDecision" where
  "coolingRunOutcome airSensorValid coolingSensorValid d =
     (case rcs_activeManualRun (cd_after d) of
        None \<Rightarrow> d
      | Some plan \<Rightarrow>
          withStartOutcome
            (startSensorSelectionOutcome (mpr_sensorMode (mpl_values plan)) False False
              airSensorValid coolingSensorValid (rcs_runRevision (cd_after d))) d)"

definition endRunCommand ::
  "ProcessEvent \<Rightarrow> ProcessRunSnapshot option \<Rightarrow> CommandEnvelope \<Rightarrow> ManualRunPlan option \<Rightarrow>
     bool \<Rightarrow> bool \<Rightarrow> CommandDecision \<Rightarrow> CommandDecision" where
  "endRunCommand event snapshot envelope coolingPlan airSensorValid coolingSensorValid d =
     (let d = requireRevisionCapacity (rcs_runRevision (cd_before d)) d in
      if \<not> commandProposed d then d
      else case applyTransition (cd_after d) event (cen_monotonicMillis envelope) snapshot of
        None \<Rightarrow> withStatus CST_NotAllowedInState d
      | Some candidate \<Rightarrow>
          (let d = d\<lparr>cd_after := clearActiveRunState candidate\<rparr> in
           case installCoolingRun (cd_after d) (cd_envelope d) coolingPlan of
             None \<Rightarrow> withStatus CST_InvalidInput d
           | Some candidate \<Rightarrow>
               (let d = d\<lparr>cd_after := candidate\<rparr> in
                if \<not> cen_confirmed envelope then withStatus CST_NotConfirmed d
                else coolingRunOutcome airSensorValid coolingSensorValid
                  (incrementRunRevision (beginMutation d)))))"

definition addEffects :: "CommandEffect list \<Rightarrow> CommandDecision \<Rightarrow> CommandDecision" where
  "addEffects es d = fold addEffect es d"

definition decideStop :: "RunCommandState \<Rightarrow> StopRequest \<Rightarrow> CommandDecision" where
  "decideStop current request =
     restoreRejectedAfter
       (let d = beginDecision current (str_envelope request) CK_AbortAndTurnOff in
        if \<not> commandProposed d then d
        else if \<not> validStopOption (str_option request) then withStatus CST_InvalidInput d
        else if str_option request = SO_Back then withStatus CST_NoChange d
        else
          (let d = (if str_option request = SO_AbortAndCool then d\<lparr>cd_kind := CK_AbortAndCool\<rparr> else d);
               d = requireRunRevision d in
           if \<not> commandProposed d then d
           else if \<not> activeProcessState (rt_state (rcs_processState current)) \<or>
              rcs_processRunSnapshot current = None then withStatus CST_NotAllowedInState d
           else case coolingPlanFor (str_option request = SO_AbortAndCool)
               (str_safetyAllowsCooling request) (str_coolingPlan request) (str_envelope request) of
             Inl st \<Rightarrow> withStatus st d
           | Inr coolingPlan \<Rightarrow>
               (let d = endRunCommand PE_Abort (rcs_processRunSnapshot current)
                      (str_envelope request) coolingPlan (str_airSensorValid request)
                      (str_coolingSensorValid request) d in
                if \<not> commandProposed d then d
                else addEffects
                  ([CE_RunAborted, CE_SafePeltierStopRequested, CE_FanRunOnRequired] @
                   (if str_option request = SO_AbortAndCool
                    then [CE_ManualRunStarted, CE_RunStarted] else [])) d)))"

definition decideCompletion :: "RunCommandState \<Rightarrow> CompletionRequest \<Rightarrow> CommandDecision" where
  "decideCompletion current request =
     restoreRejectedAfter
       (let d = requireRunRevision (beginDecision current (cpr_envelope request)
              (if cpr_startCooling request then CK_CoolAfterCompletion
               else CK_AcknowledgeCompletion)) in
        if \<not> commandProposed d then d
        else if rt_state (rcs_processState current) \<noteq> PS_Completed then
          withStatus CST_NotAllowedInState d
        else case coolingPlanFor (cpr_startCooling request) (cpr_safetyAllowsCooling request)
            (cpr_coolingPlan request) (cpr_envelope request) of
          Inl st \<Rightarrow> withStatus st d
        | Inr coolingPlan \<Rightarrow>
            (let d = endRunCommand PE_AcknowledgeCompletion None (cpr_envelope request) coolingPlan
                   (cpr_airSensorValid request) (cpr_coolingSensorValid request) d in
             if \<not> commandProposed d then d
             else addEffects
               (CE_CompletionAcknowledged #
                (if cpr_startCooling request then [CE_ManualRunStarted, CE_RunStarted] else [])) d))"

end
