(* ===== verification/RunCommandActions.thy ===== *)
theory RunCommandActions
  imports RunCommands
begin

text \<open>
  The commands on an active run (\<open>run_commands.cpp\<close>): adjustment, recovery time correction, messages
  and the sensor action; and the application of a decision.
\<close>

section \<open>Adjustment\<close>

definition mapAdjustmentStatus :: "RunAdjustmentStatus \<Rightarrow> CommandStatus" where
  "mapAdjustmentStatus st =
     (case st of
        RAS_Proposed \<Rightarrow> CST_Proposed
      | RAS_NotConfirmed \<Rightarrow> CST_NotConfirmed
      | RAS_NoChange \<Rightarrow> CST_NoChange
      | RAS_RunInactive \<Rightarrow> CST_NotAllowedInState
      | RAS_InvalidStage \<Rightarrow> CST_NotAllowedInState
      | RAS_CompletedStage \<Rightarrow> CST_NotAllowedInState
      | RAS_SafetyRejected \<Rightarrow> CST_SafetyRejected
      | RAS_InvalidValue \<Rightarrow> CST_InvalidInput
      | RAS_InvalidMetadata \<Rightarrow> CST_InvalidInput
      | RAS_TimestampWentBackwards \<Rightarrow> CST_InvalidInput
      | RAS_RevisionCapacityReached \<Rightarrow> CST_CapacityReached
      | RAS_Applied \<Rightarrow> CST_InvalidInput)"

definition adjustmentRequest :: "RunAdjustmentCommandRequest \<Rightarrow> RunAdjustmentRequest" where
  "adjustmentRequest request =
     \<lparr>rar_targetTemperatureCelsius = acr_targetTemperatureCelsius request,
      rar_remainingDurationMinutes = acr_remainingDurationMinutes request, rar_confirmed = True,
      rar_source = changeSource (cen_source (acr_envelope request)),
      rar_reason = RCR_UserAdjustment,
      rar_timestamp = \<lparr>rts_monotonicMillis = cen_monotonicMillis (acr_envelope request),
        rts_unixTimeSeconds = None\<rparr>\<rparr>"

definition adjustmentContext :: "ProcessState \<Rightarrow> RunAdjustmentContext" where
  "adjustmentContext st =
     \<lparr>rac_runActive = True, rac_activeStageIndex = 0, rac_completedStageCount = 0,
      rac_phaseContext = phaseContextFor st\<rparr>"

text \<open>A new duration restarts the timer of a running fermentation and closes what a recovery left
  open.\<close>

definition restartFermentingTimer :: "u64 \<Rightarrow> RunCommandState \<Rightarrow> RunCommandState" where
  "restartFermentingTimer monotonicMillis s =
     (let s = s\<lparr>rcs_processState := (rcs_processState s)\<lparr>rt_stateEnteredAtMillis := monotonicMillis\<rparr>,
            rcs_priorBootPhaseElapsed := Some \<lparr>tpe_taggedState = PS_Fermenting,
              tpe_elapsed = \<lparr>prior_lowerBoundSeconds = 0, prior_upperBoundSeconds = Some 0\<rparr>\<rparr>,
            rcs_nominalRecoveryAdjustment := None, rcs_pendingRecoveryAnchor := None,
            rcs_recoveryBootAnchorMonotonicMillis := None\<rparr> in
      case rcs_lastRecoveryEpisodeEvidence s of
        None \<Rightarrow> s
      | Some evidence \<Rightarrow>
          s\<lparr>rcs_runProgress := supersedeUnbookedWeightedSegment (rcs_runProgress s)
              (ree_weightedProgressSegmentId evidence),
            rcs_lastRecoveryEpisodeEvidence :=
              Some (evidence\<lparr>ree_weightedProgressSegmentId := None\<rparr>)\<rparr>)"

definition foldObservedBefore ::
  "RunCommandState \<Rightarrow> bool \<Rightarrow> u64 \<Rightarrow> RunCommandState \<Rightarrow> RunCommandState option" where
  "foldObservedBefore current restartsTimer monotonicMillis candidate =
     (if \<not> restartsTimer then Some candidate
      else case deriveFermentingSecondsDelta current monotonicMillis of
        None \<Rightarrow> None
      | Some observedDelta \<Rightarrow> foldObservedRunSeconds candidate (ucast observedDelta))"

text \<open>The adjusted run in the candidate, with its process snapshot and the transition of a new
  target.\<close>

definition adjustRunIn ::
  "RunAdjustmentDecision \<Rightarrow> EffectiveRunValues \<Rightarrow> u64 \<Rightarrow> RunCommandState \<Rightarrow>
     (RunCommandState \<times> EffectiveRunValues \<times> RunAdjustmentEffect \<times> bool) option" where
  "adjustRunIn runDecision beforeValues monotonicMillis candidate =
     (case rcs_activeProgramRun candidate of
        None \<Rightarrow> None
      | Some run \<Rightarrow>
          (case applyAdjustment runDecision run of (applied, adjusted) \<Rightarrow>
             if rrs_status applied \<noteq> RAS_Applied then None
             else
               (let afterValues = arn_effectiveValues adjusted;
                    targetChanged = (\<not> feq (erv_targetTemperatureCelsius beforeValues)
                      (erv_targetTemperatureCelsius afterValues));
                    candidate = candidate\<lparr>rcs_activeProgramRun := Some adjusted,
                      rcs_processRunSnapshot := makeActiveRunProcessSnapshot adjusted\<rparr> in
                if rcs_processRunSnapshot candidate = None then None
                else if targetChanged \<and> rt_state (rcs_processState candidate) \<noteq> PS_Fermenting then
                  map_option (\<lambda>c. (c, afterValues, rrs_effect applied, targetChanged))
                    (applyTransition candidate PE_TargetChanged monotonicMillis
                      (rcs_processRunSnapshot candidate))
                else Some (candidate, afterValues, rrs_effect applied, targetChanged))))"

definition adjustActiveRun ::
  "RunCommandState \<Rightarrow> ActiveRun \<Rightarrow> RunAdjustmentCommandRequest \<Rightarrow> RunAdjustmentDecision \<Rightarrow>
     CommandDecision \<Rightarrow> CommandDecision" where
  "adjustActiveRun current run request runDecision d =
     (let now = cen_monotonicMillis (acr_envelope request);
          beforeValues = arn_effectiveValues run;
          durationChanged = (case rad_revision runDecision of None \<Rightarrow> False
            | Some revision \<Rightarrow> rrv_remainingDurationChanged revision);
          restartsTimer = (durationChanged \<and>
            rt_state (rcs_processState current) = PS_Fermenting);
          d = requireRevisionCapacity (rcs_runRevision (cd_before d)) d in
      if \<not> commandProposed d then d
      else case foldObservedBefore current restartsTimer now (cd_after d) of
        None \<Rightarrow> withStatus CST_InvalidInput d
      | Some candidate \<Rightarrow>
          (case adjustRunIn runDecision beforeValues now candidate of
             None \<Rightarrow> withStatus CST_InvalidInput d
           | Some (candidate, afterValues, effect, targetChanged) \<Rightarrow>
               (let d = d\<lparr>cd_committedControlContextTransition := targetContextTransition targetChanged,
                      cd_after := (if restartsTimer then restartFermentingTimer now candidate
                        else candidate)\<rparr> in
                if \<not> cen_confirmed (acr_envelope request) then withStatus CST_NotConfirmed d
                else
                  addEffect CE_RunAdjusted
                    ((incrementRunRevision (beginMutation d))
                      \<lparr>cd_adjustmentPreview := Some
                        \<lparr>rap_before = beforeValues, rap_after = afterValues,
                         rap_phase = rt_state (rcs_processState current),
                         rap_targetRequalificationRequired = (effect = RAE_RestartTargetQualification),
                         rap_timerContinuesWithoutBiologicalCorrection =
                           (effect = RAE_ContinueFermentationWithoutRequalification)\<rparr>\<rparr>))))"

definition decideRunAdjustment ::
  "RunCommandState \<Rightarrow> RunAdjustmentCommandRequest \<Rightarrow> CommandDecision" where
  "decideRunAdjustment current request =
     restoreRejectedAfter
       (let d = requireRunRevision (beginDecision current (acr_envelope request) CK_AdjustRun);
            st = rt_state (rcs_processState current) in
        if \<not> commandProposed d then d
        else if \<not> adjustmentAllowedIn st \<or> rcs_processRunSnapshot current = None then
          withStatus CST_NotAllowedInState d
        else case rcs_activeProgramRun current of
          None \<Rightarrow> withStatus CST_NotAllowedInState d
        | Some run \<Rightarrow>
            (let runDecision = decideAdjustment (adjustmentRequest request) (adjustmentContext st) run in
             if rad_status runDecision \<noteq> RAS_Proposed then
               withStatus (mapAdjustmentStatus (rad_status runDecision)) d
             else adjustActiveRun current run request runDecision d))"

section \<open>Recovery time correction\<close>

definition noNominalAdjustment :: NominalRecoveryAdjustmentState where
  "noNominalAdjustment = \<lparr>nra_cumulativeAppliedSeconds = 0, nra_lastAppliedEpisodeRevision = 0,
     nra_lastAppliedEpisodeDelta = 0\<rparr>"

definition correctRecoveryTime ::
  "ApplyRecoveryTimeCorrectionRequest \<Rightarrow> u32 \<Rightarrow> u32 \<Rightarrow> CommandDecision \<Rightarrow> CommandDecision" where
  "correctRecoveryTime request lowerBoundSeconds upperBoundSeconds d =
     (let current = cd_before d;
          adjustment = (case rcs_nominalRecoveryAdjustment current of
            None \<Rightarrow> noNominalAdjustment | Some a \<Rightarrow> a);
          delta = rtr_secondsDelta request in
      if rcs_nominalRecoveryAdjustment current \<noteq> None \<and>
         nra_lastAppliedEpisodeRevision adjustment = rcs_recoveryEpisodeRevision current then
        withStatus (if nra_lastAppliedEpisodeDelta adjustment = delta then CST_AlreadyProcessed
          else CST_NotAllowedInState) d
      else if delta > u32_max - nra_cumulativeAppliedSeconds adjustment then
        withStatus CST_InvalidInput d
      else
        (let newCumulative = nra_cumulativeAppliedSeconds adjustment + delta;
             lower = ucast lowerBoundSeconds + ucast newCumulative :: u64 in
         if lower > ucast upperBoundSeconds then withStatus CST_InvalidInput d
         else if \<not> cen_confirmed (rtr_envelope request) then withStatus CST_NotConfirmed d
         else
           (let d = beginMutation d in
            d\<lparr>cd_after := (cd_after d)\<lparr>rcs_nominalRecoveryAdjustment := Some
              \<lparr>nra_cumulativeAppliedSeconds = newCumulative,
               nra_lastAppliedEpisodeRevision = rcs_recoveryEpisodeRevision current,
               nra_lastAppliedEpisodeDelta = delta\<rparr>\<rparr>\<rparr>)))"

definition decideApplyRecoveryTimeCorrection ::
  "RunCommandState \<Rightarrow> ApplyRecoveryTimeCorrectionRequest \<Rightarrow> CommandDecision" where
  "decideApplyRecoveryTimeCorrection current request =
     restoreRejectedAfter
       (let d = requireRecoveryEpisodeRevision (requireRunRevision
              (beginDecision current (rtr_envelope request) CK_ApplyRecoveryTimeCorrection)) in
        if \<not> commandProposed d then d
        else if rt_state (rcs_processState current) \<noteq> PS_Fermenting then
          withStatus CST_NotAllowedInState d
        else case rcs_priorBootPhaseElapsed current of
          None \<Rightarrow> withStatus CST_NotAllowedInState d
        | Some prior \<Rightarrow>
            if tpe_taggedState prior \<noteq> PS_Fermenting then withStatus CST_NotAllowedInState d
            else case prior_upperBoundSeconds (tpe_elapsed prior) of
              None \<Rightarrow> withStatus CST_NotAllowedInState d
            | Some upper \<Rightarrow>
                correctRecoveryTime request (prior_lowerBoundSeconds (tpe_elapsed prior)) upper d)"

section \<open>Messages\<close>

text \<open>The index of the first message in use with an id.\<close>

fun findMessageFrom :: "RuntimeMessage list \<Rightarrow> u32 \<Rightarrow> nat \<Rightarrow> nat option" where
  "findMessageFrom [] i index = None"
| "findMessageFrom (m # ms) i index =
     (if msg_id m = i then Some index else findMessageFrom ms i (index + 1))"

definition findMessage :: "RunCommandState \<Rightarrow> u32 \<Rightarrow> nat option" where
  "findMessage s i = findMessageFrom (take (rcs_messageCount s) (rcs_messages s)) i 0"

text \<open>Acknowledge and mute differ in the flag that they set and in the effect.\<close>

definition updateMessage ::
  "(RuntimeMessage \<Rightarrow> bool) \<Rightarrow> (RuntimeMessage \<Rightarrow> RuntimeMessage) \<Rightarrow> CommandEffect \<Rightarrow> u32 \<Rightarrow>
     CommandDecision \<Rightarrow> CommandDecision" where
  "updateMessage flag setFlag effect messageId d =
     (case findMessage (cd_after d) messageId of
        None \<Rightarrow> withStatus CST_ContextMissing d
      | Some index \<Rightarrow>
          (let message = rcs_messages (cd_after d) ! index in
           if flag message then withStatus CST_NoChange d
           else
             (let d = requireRevisionCapacity (rcs_messageRevision (cd_after d))
                    (requireRevisionCapacity (msg_revision message) d) in
              if \<not> commandProposed d then d
              else
                (let d = beginMutation d;
                     message = (setFlag message)\<lparr>msg_revision := msg_revision message + 1\<rparr> in
                 addEffect effect
                   (d\<lparr>cd_after := (cd_after d)
                     \<lparr>rcs_messages := (rcs_messages (cd_after d))[index := message],
                      rcs_messageRevision := rcs_messageRevision (cd_after d) + 1\<rparr>\<rparr>)))))"

definition decideMessageCommand ::
  "CommandKind \<Rightarrow> (RuntimeMessage \<Rightarrow> bool) \<Rightarrow> (RuntimeMessage \<Rightarrow> RuntimeMessage) \<Rightarrow>
     CommandEffect \<Rightarrow> RunCommandState \<Rightarrow> MessageCommandRequest \<Rightarrow> CommandDecision" where
  "decideMessageCommand k flag setFlag effect current request =
     restoreRejectedAfter
       (let d = requireMessageRevision (beginDecision current (mcr_envelope request) k) in
        if \<not> commandProposed d then d
        else updateMessage flag setFlag effect (mcr_messageId request) d)"

definition decideAcknowledgeMessage ::
  "RunCommandState \<Rightarrow> MessageCommandRequest \<Rightarrow> CommandDecision" where
  "decideAcknowledgeMessage = decideMessageCommand CK_AcknowledgeMessage msg_acknowledged
     (\<lambda>m. m\<lparr>msg_acknowledged := True\<rparr>) CE_MessageAcknowledged"

definition decideMuteMessage :: "RunCommandState \<Rightarrow> MessageCommandRequest \<Rightarrow> CommandDecision" where
  "decideMuteMessage = decideMessageCommand CK_MuteMessage msg_acousticMuted
     (\<lambda>m. m\<lparr>msg_acousticMuted := True\<rparr>) CE_AcousticMuted"

section \<open>Sensor action\<close>

definition sensorSelectionViewFrom :: "RunCommandState \<Rightarrow> SensorSelectionStateView" where
  "sensorSelectionViewFrom s =
     \<lparr>ssv_activeRunId = rcs_activeRunId s, ssv_runtime = rcs_sensorSelectionRuntime s,
      ssv_activeMode = rcs_activeRunSensorMode s, ssv_persisted = rcs_sensorSelection s,
      ssv_runRevision = rcs_runRevision s\<rparr>"

definition sensorSelectionProgramContextFor :: "RunCommandState \<Rightarrow> SensorSelectionProgramContext" where
  "sensorSelectionProgramContextFor s =
     (case map_option (rps_source \<circ> arn_snapshot) (rcs_activeProgramRun s) of
        Some (PRS_Program d) \<Rightarrow>
          (let p = doc_program d; failure = pd_productSensorFailure p in
           \<lparr>spc_sensorPreference = pd_sensorPreference p, spc_policy = psf_policy failure,
            spc_returnStrategy = psf_returnStrategy failure,
            spc_fallbackDelaySeconds = psf_fallbackDelaySeconds failure\<rparr>)
      | _ \<Rightarrow>
          \<lparr>spc_sensorPreference = SPref_ProductIfAvailableElseAir, spc_policy = PFP_WaitForUser,
           spc_returnStrategy = RSt_ManualReturnToProduct, spc_fallbackDelaySeconds = None\<rparr>)"

definition mapSensorSelectionRejection :: "SensorSelectionApplyStatus \<Rightarrow> CommandStatus" where
  "mapSensorSelectionRejection st =
     (case st of SAS_StaleDecision \<Rightarrow> CST_StaleState | SAS_CapacityReached \<Rightarrow> CST_CapacityReached
      | _ \<Rightarrow> CST_InvalidInput)"

definition applySensorRoleChangeQualificationReset ::
  "RunCommandState \<Rightarrow> u64 \<Rightarrow> RunCommandState option" where
  "applySensorRoleChangeQualificationReset s monotonicMillis =
     (if rt_state (rcs_processState s) \<noteq> PS_QualifyingTarget then Some s
      else case rcs_processRunSnapshot s of
        None \<Rightarrow> None
      | Some snapshot \<Rightarrow>
          (let reset = decideProcessTransition (rcs_processState s) (Some snapshot) noSignals
                 \<lparr>req_event = PE_None, req_recoveredState = None\<rparr> monotonicMillis
                 noPriorBootPhaseElapsed in
           if \<not> proposed reset \<or> dec_reason reset \<noteq> TR_QualificationReset then None
           else map_option (\<lambda>p. s\<lparr>rcs_processState := p\<rparr>)
             (applyProcessTransition (rcs_processState s) reset (Some snapshot))))"

definition roleTransitionOf :: "RunCommandState \<Rightarrow> RunCommandState \<Rightarrow>
    CommittedControlContextTransition option" where
  "roleTransitionOf b a =
     resolveControlSensorRoleTransition (rt_state (rcs_processState b)) (rcs_activeRunSensorMode b)
       (rt_state (rcs_processState a)) (rcs_activeRunSensorMode a)"

definition announceSelection ::
  "SensorSelectionStateMutation \<Rightarrow> CommandDecision \<Rightarrow> CommandDecision" where
  "announceSelection mutation d =
     (case ssm_event mutation of
        Some event \<Rightarrow> d\<lparr>cd_sensorSelectionEvent := Some event,
          cd_committedControlContextTransition := roleTransitionOf (cd_before d) (cd_after d)\<rparr>
      | None \<Rightarrow>
          (case ssm_notice mutation of
             Some notice \<Rightarrow> d\<lparr>cd_sensorSelectionNotice := Some notice\<rparr>
           | None \<Rightarrow> d))"

definition applySelectionTo ::
  "SensorSelectionCommandRequest \<Rightarrow> SensorSelectionStateMutation \<Rightarrow> CommandDecision \<Rightarrow>
     CommandDecision" where
  "applySelectionTo request mutation d =
     (let candidate = applySensorSelectionMutation (cd_after d) mutation;
          now = cen_monotonicMillis (scq_envelope request);
          reset = (if ssm_event mutation \<noteq> None \<and> roleTransitionOf (cd_before d) candidate \<noteq> None
            then applySensorRoleChangeQualificationReset candidate now else Some candidate) in
      case reset of
        None \<Rightarrow> withStatus CST_InvalidInput d
      | Some candidate \<Rightarrow>
          (let d = d\<lparr>cd_after := candidate\<rparr> in
           if \<not> cen_confirmed (scq_envelope request) then withStatus CST_NotConfirmed d
           else
             (let d = announceSelection mutation (beginMutation d) in
              if ssr_permission (rcs_sensorSelectionRuntime (cd_before d)) \<noteq>
                 ssr_permission (ssm_runtime mutation) then
                addEffect (if ssr_permission (ssm_runtime mutation) = SPP_Blocked
                  then CE_SensorSelectionPermissionBlocked
                  else CE_SensorSelectionPermissionRestored) d
              else d)))"

definition judgeSelection ::
  "SensorSelectionCommandRequest \<Rightarrow> SensorSelectionStateMutation \<Rightarrow> CommandDecision \<Rightarrow>
     CommandDecision" where
  "judgeSelection request mutation d =
     (let d = d\<lparr>cd_sensorSelectionApplyStatus := Some (ssm_status mutation)\<rparr> in
      if rcs_criticalSafetyEventPending (cd_before d) \<and> scq_action request = SUA_RecheckProduct \<and>
         ssm_status mutation \<noteq> SAS_NoChange then withStatus CST_SafetyRejected d
      else case ssm_status mutation of
        SAS_NoChange \<Rightarrow> withStatus CST_NoChange d
      | SAS_AppliedPersistentCandidate \<Rightarrow> applySelectionTo request mutation d
      | SAS_AppliedRamOnly \<Rightarrow> applySelectionTo request mutation d
      | st \<Rightarrow> withStatus (mapSensorSelectionRejection st) d)"

definition decideApplySensorSelectionAction ::
  "RunCommandState \<Rightarrow> SensorSelectionCommandRequest \<Rightarrow> CrossRolePlausibilityContext \<Rightarrow>
     CommandDecision" where
  "decideApplySensorSelectionAction current request plausibility =
     restoreRejectedAfter
       (let d = requireRunRevision
              (beginDecision current (scq_envelope request) CK_ApplySensorSelectionAction);
            view = sensorSelectionViewFrom current;
            mutation = applySensorSelectionDecision view
              \<lparr>ssd_expected = view, ssd_program = sensorSelectionProgramContextFor current,
               ssd_plausibility = plausibility, ssd_userAction = Some (scq_action request)\<rparr>
              (cen_monotonicMillis (scq_envelope request)) in
        if \<not> commandProposed d then d
        else if rcs_activeProgramRun current = None \<and> rcs_activeManualRun current = None then
          withStatus CST_NotAllowedInState d
        else if rcs_activeRunId current = [] \<or> rcs_activeRunSensorMode current = None then
          withStatus CST_ContextMissing d
        else if rcs_criticalSafetyEventPending current \<and>
           (scq_action request = SUA_ContinueWithAir \<or> scq_action request = SUA_ReturnToProduct) then
          (withStatus CST_SafetyRejected d)
            \<lparr>cd_sensorSelectionApplyStatus := Some SAS_InvalidDecision\<rparr>
        else judgeSelection request mutation d)"

section \<open>Application of a decision\<close>

text \<open>What must not have changed since the decision: the fields that the code compares, with a run id
  of at most 48 bytes in the frozen guard of a decision view.\<close>

record CommandApplyGuard =
  cag_processState :: ProcessRuntimeState
  cag_commandSequence :: u32
  cag_runRevision :: u32
  cag_messageRevision :: u32
  cag_faultRevision :: u32
  cag_criticalSafetyEventPending :: bool
  cag_activeRunSensorMode :: "RunSensorMode option"
  cag_sensorSelectionRuntime :: SensorSelectionRuntimeState
  cag_sensorSelection :: "PersistedSensorSelectionState option"
  cag_recoveryEpisodeRevision :: u32
  cag_activeRunId :: "string option"

definition commandApplyGuard :: "RunCommandState \<Rightarrow> CommandApplyGuard" where
  "commandApplyGuard s =
     \<lparr>cag_processState = rcs_processState s, cag_commandSequence = rcs_commandSequence s,
      cag_runRevision = rcs_runRevision s, cag_messageRevision = rcs_messageRevision s,
      cag_faultRevision = rcs_faultRevision s,
      cag_criticalSafetyEventPending = rcs_criticalSafetyEventPending s,
      cag_activeRunSensorMode = rcs_activeRunSensorMode s,
      cag_sensorSelectionRuntime = rcs_sensorSelectionRuntime s,
      cag_sensorSelection = rcs_sensorSelection s,
      cag_recoveryEpisodeRevision = rcs_recoveryEpisodeRevision s,
      cag_activeRunId = (if length (rcs_activeRunId s) \<le> kMaximumRunIdBytes
        then Some (rcs_activeRunId s) else None)\<rparr>"

definition unguardedRunId :: "RunCommandState \<Rightarrow> CommandApplyGuard" where
  "unguardedRunId s = (commandApplyGuard s)\<lparr>cag_activeRunId := Some (rcs_activeRunId s)\<rparr>"

definition validateRunCommandCore ::
  "RunCommandState \<Rightarrow> CommandDecision \<Rightarrow> CommandApplyGuard \<Rightarrow> CommandStatus" where
  "validateRunCommandCore current d before =
     (if containsProcessedCommand current (cen_id (cd_envelope d)) then CST_AlreadyProcessed
      else if rcs_criticalSafetyEventPending current \<and> isRunComfortCommand (cd_kind d) then
        CST_SafetyRejected
      else if \<not> commandProposed d \<or>
         rcs_commandSequence current \<noteq> cag_commandSequence before \<or>
         \<not> equalProcessRuntimeState (rcs_processState current) (cag_processState before) \<or>
         rcs_runRevision current \<noteq> cag_runRevision before \<or>
         rcs_messageRevision current \<noteq> cag_messageRevision before \<or>
         rcs_faultRevision current \<noteq> cag_faultRevision before \<or>
         rcs_criticalSafetyEventPending current \<noteq> cag_criticalSafetyEventPending before \<or>
         Some (rcs_activeRunId current) \<noteq> cag_activeRunId before \<or>
         rcs_activeRunSensorMode current \<noteq> cag_activeRunSensorMode before \<or>
         rcs_sensorSelectionRuntime current \<noteq> cag_sensorSelectionRuntime before \<or>
         rcs_sensorSelection current \<noteq> cag_sensorSelection before \<or>
         rcs_recoveryEpisodeRevision current \<noteq> cag_recoveryEpisodeRevision before \<or>
         rcs_commandSequence (cd_after d) \<noteq> rcs_commandSequence current + 1 then CST_StaleState
      else CST_Applied)"

definition validateRunCommand :: "RunCommandState \<Rightarrow> CommandDecision \<Rightarrow> CommandStatus" where
  "validateRunCommand current d = validateRunCommandCore current d (unguardedRunId (cd_before d))"

definition validateRunCommandView ::
  "RunCommandState \<Rightarrow> CommandDecision \<Rightarrow> CommandApplyGuard \<Rightarrow> CommandStatus" where
  "validateRunCommandView current d guard = validateRunCommandCore current d guard"

definition applyRunCommand ::
  "RunCommandState \<Rightarrow> CommandDecision \<Rightarrow> CommandStatus \<times> RunCommandState" where
  "applyRunCommand current d =
     (let status = validateRunCommand current d in
      (status, if status = CST_Applied then cd_after d else current))"

definition applyRunCommandView ::
  "RunCommandState \<Rightarrow> CommandDecision \<Rightarrow> CommandApplyGuard \<Rightarrow> CommandStatus \<times> RunCommandState" where
  "applyRunCommandView current d guard =
     (let status = validateRunCommandView current d guard in
      (status, if status = CST_Applied then cd_after d else current))"

end
