(* ===== verification/ProgramProperties.thy ===== *)
theory ProgramProperties
  imports ProgramModel
begin

unbundle bit_operations_syntax

text \<open>
  The properties of the program model: the loop that counts the fields of a mask, what a valid
  program is, the repair of settings with unused values, and the migration of older schemas.
\<close>

section \<open>Counting the bits of a mask\<close>

text \<open>On natural numbers, by the parity of the number.\<close>

lemma bits_double: "{i. bit (2 * n :: nat) i} = Suc ` {i. bit n i}"
proof -
  have "bit (2 * n) i \<longleftrightarrow> (\<exists>j. i = Suc j \<and> bit n j)" for i
    by (cases i) (simp_all add: bit_0 bit_Suc)
  then show ?thesis by auto
qed

lemma bits_double_Suc: "{i. bit (Suc (2 * n) :: nat) i} = insert 0 (Suc ` {i. bit n i})"
proof -
  have "bit (Suc (2 * n)) i \<longleftrightarrow> i = 0 \<or> (\<exists>j. i = Suc j \<and> bit n j)" for i
    by (cases i) (simp_all add: bit_0 bit_Suc)
  then show ?thesis by auto
qed

lemma finite_bits: "finite {i. bit (n :: nat) i}"
proof (induction n rule: less_induct)
  case (less n)
  show ?case
  proof (cases "n = 0")
    case False
    obtain m where m: "n = 2 * m \<or> n = Suc (2 * m)" using parity_cases [of n] by (metis evenE oddE Suc_eq_plus1)
    then have "m < n" using False by auto
    from less.IH [OF this] m show ?thesis by (auto simp: bits_double bits_double_Suc)
  qed simp
qed

lemma clear_lowest_even: "0 < m \<Longrightarrow> (2 * m :: nat) AND (2 * m - 1) = 2 * (m AND (m - 1))"
proof -
  assume "0 < m"
  then have "2 * m - 1 = Suc (2 * (m - 1))" by simp
  then show ?thesis by (simp add: and_nat_rec [of "2 * m"])
qed

lemma clear_lowest_odd: "Suc (2 * m) AND (Suc (2 * m) - 1 :: nat) = 2 * m"
  by (simp add: and_nat_rec [of "Suc (2 * m)"])

lemma clear_lowest_card: "(n :: nat) \<noteq> 0 \<Longrightarrow>
    card {i. bit n i} = Suc (card {i. bit (n AND (n - 1)) i})"
proof (induction n rule: less_induct)
  case (less n)
  consider m where "n = 2 * m" "0 < m" "m < n" | m where "n = Suc (2 * m)"
    using less.prems by (cases "even n") (auto elim!: evenE oddE)
  then show ?case
  proof cases
    case 1
    have "card {i. bit n i} = card {i. bit m i}"
      by (simp add: 1 bits_double card_image)
    also have "\<dots> = Suc (card {i. bit (m AND (m - 1)) i})" using less.IH [of m] 1 by simp
    also have "card {i. bit (m AND (m - 1)) i} = card {i. bit (n AND (n - 1)) i}"
      unfolding 1(1) clear_lowest_even [OF 1(2)] bits_double by (simp add: card_image)
    finally show ?thesis .
  next
    case 2
    show ?thesis unfolding 2 clear_lowest_odd bits_double_Suc bits_double
      by (simp add: card_insert_disjoint finite_bits)
  qed
qed

lemma countFieldsFrom_card: "countFieldsFrom w c = c + card {i. bit w i}"
proof (induction w c rule: countFieldsFrom.induct)
  case (1 w c)
  show ?case
  proof (cases "w = 0")
    case True
    then show ?thesis by (simp add: countFieldsFrom.simps)
  next
    case False
    have u: "unat (w AND (w - 1)) = unat w AND (unat w - 1)"
      using False by (simp add: unsigned_and_eq unat_minus_one)
    have b: "{i. bit v i} = {i. bit (unat v) i}" for v :: u64
      by (auto simp: bit_unsigned_iff dest: bit_imp_le_length)
    have "card {i. bit w i} = Suc (card {i. bit (w AND (w - 1)) i})"
      unfolding b u using False by (intro clear_lowest_card) (simp add: unat_eq_zero)
    then show ?thesis using 1 [OF False] False by (simp add: countFieldsFrom.simps [of w c])
  qed
qed

text \<open>The loop that counts the fields of a mask, clearing the lowest set bit in every round,
  ends for every 64-bit mask after exactly as many rounds as bits are set; and the table of required
  fields names every bit of the current schema once, which the code asserts at compile time.\<close>

theorem program_field_count:
  "countProgramFields m = card {i. bit m i} \<and>
   length kRequiredFields = countProgramFields kCurrentKnownProgramFields \<and>
   distinct (map fst kRequiredFields) \<and>
   kCurrentKnownProgramFields = foldr (OR) (map (fieldMask \<circ> fst) kRequiredFields) 0"
proof -
  have k: "kCurrentKnownProgramFields = 131071"
    by (simp add: kCurrentKnownProgramFields_def kCurrentRequiredProgramFields_def
        kSchema5RequiredProgramFields_def kSchema4RequiredProgramFields_def
        kSchema3RequiredProgramFields_def fieldMask_def)
  have "countFieldsFrom 131071 0 = 17"
    by (simp add: countFieldsFrom.simps)
  then have "length kRequiredFields = countProgramFields kCurrentKnownProgramFields"
    by (simp add: countProgramFields_def k kRequiredFields_def)
  moreover have "kCurrentKnownProgramFields = foldr (OR) (map (fieldMask \<circ> fst) kRequiredFields) 0"
    unfolding k by (simp add: kRequiredFields_def fieldMask_def)
  moreover have "distinct (map fst kRequiredFields)" by (simp add: kRequiredFields_def)
  ultimately show ?thesis by (simp add: countProgramFields_def countFieldsFrom_card)
qed

section \<open>What a valid program is\<close>

lemma errorIf_Nil [simp]: "errorIf b c f = [] \<longleftrightarrow> \<not> b"
  by (simp add: errorIf_def addError_def)

lemma addError_not_Nil [simp]: "addError c f \<noteq> []"
  by (simp add: addError_def)

lemma validateOptional_runnable [simp]:
  "validateOptionalDouble v f lo hi VP_Runnable = [] \<longleftrightarrow>
     (case v of None \<Rightarrow> False | Some x \<Rightarrow> inRangeCelsius x lo hi)"
  "validateOptionalDuration w f a b VP_Runnable = [] \<longleftrightarrow>
     (case w of None \<Rightarrow> False | Some x \<Rightarrow> a \<le> x \<and> x \<le> b)"
  by (auto simp: validateOptionalDouble_def validateOptionalDuration_def not_less split: option.split)

definition celsiusIn :: "rat \<Rightarrow> rat \<Rightarrow> f64 option \<Rightarrow> bool" where
  "celsiusIn lo hi v \<longleftrightarrow> (case v of Some (F64 q) \<Rightarrow> lo \<le> q \<and> q \<le> hi | _ \<Rightarrow> False)"

definition countIn :: "nat \<Rightarrow> nat \<Rightarrow> u32 option \<Rightarrow> bool" where
  "countIn lo hi v \<longleftrightarrow> (case v of Some n \<Rightarrow> lo \<le> unat n \<and> unat n \<le> hi | None \<Rightarrow> False)"

lemma celsiusIn_iff: "(case v of None \<Rightarrow> False | Some x \<Rightarrow> inRangeCelsius x (F64 lo) (F64 hi)) \<longleftrightarrow>
    celsiusIn lo hi v"
  by (auto simp: celsiusIn_def inRangeCelsius_def isfinite_def split: option.split f64.split)

lemma countIn_iff: "(case v of None \<Rightarrow> False | Some x \<Rightarrow> a \<le> x \<and> x \<le> b) \<longleftrightarrow>
    countIn (unat a) (unat b) v"
  by (auto simp: countIn_def word_le_nat_alt split: option.split)

text \<open>The abstract specification of a program that can be run.\<close>

definition runnable :: "ProgramDefinition \<Rightarrow> bool" where
  "runnable p \<longleftrightarrow>
     pd_id p \<noteq> [] \<and> pd_name p \<noteq> [] \<and>
     validSensorPreference (pd_sensorPreference p) \<and>
     validFailurePolicy (psf_policy (pd_productSensorFailure p)) \<and>
     validReturnStrategy (psf_returnStrategy (pd_productSensorFailure p)) \<and>
     validCompletionMode (pcp_mode (pd_completion p)) \<and>
     (\<exists>stage. pd_fermentationStages p = [stage] \<and>
        celsiusIn 4 45 (stg_targetTemperatureCelsius stage) \<and>
        countIn 1 20160 (stg_durationMinutes stage)) \<and>
     celsiusIn (3602879701896397 / 36028797018963968) 2 (tql_bandCelsius (pd_targetQualification p)) \<and>
     countIn 1 4294967295 (tql_durationMinutes (pd_targetQualification p)) \<and>
     countIn 1 4294967295 (pd_maximumTargetReachMinutes p) \<and>
     (if pd_preheat p then countIn 1 1440 (pd_maximumProductWaitMinutes p)
      else pd_maximumProductWaitMinutes p = None) \<and>
     (if pd_sensorPreference p = SPref_AirOnly then
        pd_productSensorFailure p = \<lparr>psf_policy = PFP_FallbackToAirAfterTimeout,
          psf_fallbackDelaySeconds = None, psf_returnStrategy = RSt_RemainOnAirUntilEnd\<rparr>
      else if psf_policy (pd_productSensorFailure p) = PFP_FallbackToAirAfterTimeout then
        pd_sensorPreference p \<noteq> SPref_ProductRequired \<and>
        countIn 0 3600 (psf_fallbackDelaySeconds (pd_productSensorFailure p))
      else psf_fallbackDelaySeconds (pd_productSensorFailure p) = None) \<and>
     (if pcp_mode (pd_completion p) = CM_FinishWithoutCooling then
        pcp_coolingTargetCelsius (pd_completion p) = None
      else celsiusIn 4 25 (pcp_coolingTargetCelsius (pd_completion p))) \<and>
     (if pcp_mode (pd_completion p) = CM_CoolAndHoldForDuration then
        countIn 1 4294967295 (pcp_holdDurationMinutes (pd_completion p))
      else pcp_holdDurationMinutes (pd_completion p) = None)"

lemma cross_fields_ok:
  "validateSensorFailureCrossFields p = [] \<and> (if programUsesFallbackDelay p then
     countIn 0 3600 (psf_fallbackDelaySeconds (pd_productSensorFailure p)) else True) \<longleftrightarrow>
   (if pd_sensorPreference p = SPref_AirOnly then
      pd_productSensorFailure p = \<lparr>psf_policy = PFP_FallbackToAirAfterTimeout,
        psf_fallbackDelaySeconds = None, psf_returnStrategy = RSt_RemainOnAirUntilEnd\<rparr>
    else if psf_policy (pd_productSensorFailure p) = PFP_FallbackToAirAfterTimeout then
      pd_sensorPreference p \<noteq> SPref_ProductRequired \<and>
      countIn 0 3600 (psf_fallbackDelaySeconds (pd_productSensorFailure p))
    else psf_fallbackDelaySeconds (pd_productSensorFailure p) = None)"
  by (cases "pd_productSensorFailure p")
    (auto simp: validateSensorFailureCrossFields_def programUsesFallbackDelay_def Let_def)

lemma stages_ok:
  "validateStages p VP_Runnable = [] \<longleftrightarrow> (\<exists>stage. pd_fermentationStages p = [stage] \<and>
     celsiusIn 4 45 (stg_targetTemperatureCelsius stage) \<and>
     countIn 1 20160 (stg_durationMinutes stage))"
proof -
  have l: "length xs < kMinimumFermentationStageCount \<or> length xs > kMaximumFermentationStageCount
      \<longleftrightarrow> \<not> (\<exists>x. xs = [x])" for xs :: "FermentationStage list"
    by (cases xs; cases "tl xs")
      (auto simp: kMinimumFermentationStageCount_def kMaximumFermentationStageCount_def)
  show ?thesis unfolding validateStages_def Let_def l
    by (auto simp: kMinimumFermentationTemperatureCelsius_def
        kMaximumFermentationTemperatureCelsius_def kMinimumFermentationDurationMinutes_def
        kMaximumFermentationDurationMinutes_def celsiusIn_iff countIn_iff)
qed

text \<open>The fields of a document of the current schema: exactly the 17 known ones.\<close>

lemma field_bit: "m AND fieldMask f = 0 \<longleftrightarrow> \<not> bit m (programFieldBit f)"
  by (simp add: fieldMask_def and_exp_eq_0_iff_not_bit)

lemma known_fields: "kCurrentKnownProgramFields = 0x1FFFF" "kCurrentRequiredProgramFields = 0x1FFFF"
  "kSchema5RequiredProgramFields = 0xFFFF" "kSchema4RequiredProgramFields = 0x7FFF"
  by (simp_all add: kCurrentKnownProgramFields_def kCurrentRequiredProgramFields_def
      kSchema5RequiredProgramFields_def kSchema4RequiredProgramFields_def
      kSchema3RequiredProgramFields_def fieldMask_def)

lemma mask17: "mask 17 = (0x1FFFF :: u64)"
  by (simp add: mask_eq_exp_minus_1)

lemma validateFields_ok: "validateFields schema = [] \<longleftrightarrow> psm_presentFields schema = 0x1FFFF"
proof
  assume v: "validateFields schema = []"
  define m where "m = psm_presentFields schema"
  have present: "bit m (programFieldBit f)" if "(f, n) \<in> set kRequiredFields" for f n
    using v that by (force simp: validateFields_def m_def field_bit case_prod_unfold)
  have low: "bit m n" if "n < 17" for n
  proof -
    have "n \<in> set (map (programFieldBit \<circ> fst) kRequiredFields)"
      using that by (simp add: kRequiredFields_def) arith
    then show ?thesis using present by auto
  qed
  have "m AND NOT 0x1FFFF = 0"
    using v by (simp add: validateFields_def m_def known_fields)
  then have high: "\<not> bit m n" if "17 \<le> n" for n
  proof (cases "n < 64")
    case True
    have "\<not> bit (m AND NOT (mask 17)) n" using \<open>m AND NOT 0x1FFFF = 0\<close> by (simp add: mask17)
    then show ?thesis using that True by (simp add: bit_simps)
  qed (auto dest: bit_imp_le_length)
  show "psm_presentFields schema = 0x1FFFF"
    unfolding m_def [symmetric] mask17 [symmetric]
    by (rule bit_word_eqI) (metis low high bit_mask_iff not_less possible_bit_word)
next
  assume "psm_presentFields schema = 0x1FFFF"
  then show "validateFields schema = []"
    by (simp add: validateFields_def kRequiredFields_def known_fields fieldMask_def)
qed

lemma valid_iff:
  "programIsValid d VP_Runnable \<longleftrightarrow>
     psm_version (doc_schema d) = 6 \<and> validateFields (doc_schema d) = [] \<and> runnable (doc_program d)"
proof -
  let ?p = "doc_program d"
  have q: "validateQualification ?p VP_Runnable = [] \<longleftrightarrow>
      celsiusIn (3602879701896397 / 36028797018963968) 2 (tql_bandCelsius (pd_targetQualification ?p)) \<and>
      countIn 1 4294967295 (tql_durationMinutes (pd_targetQualification ?p)) \<and>
      countIn 1 4294967295 (pd_maximumTargetReachMinutes ?p)"
    by (simp add: validateQualification_def celsiusIn_iff countIn_iff program_limit_defs
        kMinimumQualificationBandCelsius_def kMaximumQualificationBandCelsius_def unat_u32_max)
  have u: "validateUsedValues ?p VP_Runnable = [] \<longleftrightarrow>
      (if pd_preheat ?p then countIn 1 1440 (pd_maximumProductWaitMinutes ?p)
       else pd_maximumProductWaitMinutes ?p = None) \<and>
      (if programUsesFallbackDelay ?p then
         countIn 0 3600 (psf_fallbackDelaySeconds (pd_productSensorFailure ?p)) else True) \<and>
      (if programUsesCoolingTarget ?p then celsiusIn 4 25 (pcp_coolingTargetCelsius (pd_completion ?p))
       else pcp_coolingTargetCelsius (pd_completion ?p) = None) \<and>
      (if pcp_mode (pd_completion ?p) = CM_CoolAndHoldForDuration then
         countIn 1 4294967295 (pcp_holdDurationMinutes (pd_completion ?p))
       else pcp_holdDurationMinutes (pd_completion ?p) = None)"
    by (simp add: validateUsedValues_def celsiusIn_iff countIn_iff program_limit_defs
        programUsesProductWait_def programUsesHoldDuration_def kMinimumFallbackDelaySeconds_def
        kMaximumFallbackDelaySeconds_def kMinimumCoolingTargetCelsius_def
        kMaximumCoolingTargetCelsius_def unat_u32_max)
  have s: "validateSettings ?p = [] \<longleftrightarrow> pd_id ?p \<noteq> [] \<and> pd_name ?p \<noteq> [] \<and>
      validSensorPreference (pd_sensorPreference ?p) \<and>
      validFailurePolicy (psf_policy (pd_productSensorFailure ?p)) \<and>
      validReturnStrategy (psf_returnStrategy (pd_productSensorFailure ?p)) \<and>
      validateSensorFailureCrossFields ?p = [] \<and> validCompletionMode (pcp_mode (pd_completion ?p))"
    by (simp add: validateSettings_def)
  have c: "programUsesCoolingTarget ?p \<longleftrightarrow> pcp_mode (pd_completion ?p) \<noteq> CM_FinishWithoutCooling"
    if "validCompletionMode (pcp_mode (pd_completion ?p))"
    using that by (simp add: programUsesCoolingTarget_def hasCooling_def)
  have v: "programIsValid d VP_Runnable \<longleftrightarrow> psm_version (doc_schema d) = 6 \<and>
      validateFields (doc_schema d) = [] \<and> validateSettings ?p = [] \<and>
      validateStages ?p VP_Runnable = [] \<and> validateQualification ?p VP_Runnable = [] \<and>
      validateUsedValues ?p VP_Runnable = []"
    by (simp add: programIsValid_def validateProgram_def kCurrentProgramSchemaVersion_def)
  show ?thesis
  proof (cases "validCompletionMode (pcp_mode (pd_completion ?p))")
    case True
    show ?thesis
      unfolding v runnable_def cross_fields_ok [symmetric] stages_ok [symmetric] q u s c [OF True]
      using True by argo
  next
    case False
    then show ?thesis unfolding v s runnable_def by blast
  qed
qed

text \<open>C38: the validation accepts exactly the documents of the current schema, version 6, in which the
  17 known fields are all present and no other one, and whose program can be run (\<open>runnable\<close>): every
  limit, every optional value present exactly when the settings use it, and the fixed combination of an
  air-only program.\<close>

theorem program_valid_iff:
  "programIsValid d VP_Runnable \<longleftrightarrow>
     psm_version (doc_schema d) = 6 \<and> psm_presentFields (doc_schema d) = 0x1FFFF \<and>
     runnable (doc_program d)"
  by (simp add: valid_iff validateFields_ok)

section \<open>Repairing unused values\<close>

lemmas clear_defs = clearUnexpectedProgramValues_def applyAirOnlySensorFailure_def Let_def
  programUsesProductWait_def programUsesFallbackDelay_def programUsesCoolingTarget_def
  programUsesHoldDuration_def programHasFixedSensorFailure_def

lemma clear_settings [simp]:
  "pd_preheat (clearUnexpectedProgramValues p) = pd_preheat p"
  "pd_sensorPreference (clearUnexpectedProgramValues p) = pd_sensorPreference p"
  "pcp_mode (pd_completion (clearUnexpectedProgramValues p)) = pcp_mode (pd_completion p)"
  by (simp_all add: clear_defs)

lemma clear_wait: "\<not> pd_preheat p \<Longrightarrow>
    pd_maximumProductWaitMinutes (clearUnexpectedProgramValues p) = None"
  by (simp add: clear_defs)

lemma clear_failure: "pd_productSensorFailure (clearUnexpectedProgramValues p) =
    (if pd_sensorPreference p = SPref_AirOnly then
       \<lparr>psf_policy = PFP_FallbackToAirAfterTimeout, psf_fallbackDelaySeconds = None,
        psf_returnStrategy = RSt_RemainOnAirUntilEnd\<rparr>
     else if psf_policy (pd_productSensorFailure p) = PFP_FallbackToAirAfterTimeout then
       pd_productSensorFailure p
     else (pd_productSensorFailure p)\<lparr>psf_fallbackDelaySeconds := None\<rparr>)"
  by (simp add: clear_defs)

lemma clear_cooling: "pcp_coolingTargetCelsius (pd_completion (clearUnexpectedProgramValues p)) =
    (if programUsesCoolingTarget p then pcp_coolingTargetCelsius (pd_completion p) else None)"
  by (cases "pcp_mode (pd_completion p)")
    (simp_all add: clear_defs validCompletionMode_def hasCooling_def)

lemma clear_hold: "pcp_holdDurationMinutes (pd_completion (clearUnexpectedProgramValues p)) =
    (if programUsesHoldDuration p then pcp_holdDurationMinutes (pd_completion p) else None)"
  by (simp add: clear_defs)

definition unexpected :: "ValidationError list \<Rightarrow> bool" where
  "unexpected es \<longleftrightarrow> VEC_UnexpectedValue \<in> ver_code ` set es"

lemma unexpected_simps [simp]:
  "unexpected (es @ fs) \<longleftrightarrow> unexpected es \<or> unexpected fs"
  "\<not> unexpected []"
  "unexpected (errorIf b c f) \<longleftrightarrow> b \<and> c = VEC_UnexpectedValue"
  "unexpected (addError c f) \<longleftrightarrow> c = VEC_UnexpectedValue"
  by (auto simp: unexpected_def errorIf_def addError_def)

lemma unexpected_optional [simp]:
  "\<not> unexpected (validateOptionalDouble v f lo hi purpose)"
  "\<not> unexpected (validateOptionalDuration w f a b purpose)"
  by (simp_all add: validateOptionalDouble_def validateOptionalDuration_def split: option.split)

lemma unexpected_fields [simp]: "\<not> unexpected (validateFields schema)"
proof -
  have "\<not> unexpected (concat (map (\<lambda>(field, name).
      errorIf (psm_presentFields schema AND fieldMask field = 0) VEC_MissingRequiredField name) xs))" for xs
    by (induction xs) (auto split: prod.split)
  then show ?thesis by (simp add: validateFields_def)
qed

text \<open>The repair of a program leaves no unexpected value, whatever it was, and changes nothing
  in a program that can be run: the editor and the validator agree on which values are used.\<close>

theorem program_clear_repairs:
  "\<not> unexpected (validateProgram (d\<lparr>doc_program := clearUnexpectedProgramValues (doc_program d)\<rparr>) purpose) \<and>
   (if programIsValid d VP_Runnable then clearUnexpectedProgramValues (doc_program d) = doc_program d
    else clearUnexpectedProgramValues (clearUnexpectedProgramValues (doc_program d)) =
      clearUnexpectedProgramValues (doc_program d))"
proof -
  let ?p = "doc_program d" and ?q = "clearUnexpectedProgramValues (doc_program d)"
  have cross: "\<not> unexpected (validateSensorFailureCrossFields ?q)"
    by (simp add: validateSensorFailureCrossFields_def Let_def clear_failure)
  have uc: "programUsesCoolingTarget ?q \<longleftrightarrow> programUsesCoolingTarget ?p"
    by (simp add: programUsesCoolingTarget_def)
  have uh: "programUsesHoldDuration ?q \<longleftrightarrow> programUsesHoldDuration ?p"
    by (simp add: programUsesHoldDuration_def)
  have used: "\<not> unexpected (validateUsedValues ?q purpose)"
    by (simp add: validateUsedValues_def uc uh clear_cooling clear_hold programUsesProductWait_def
        clear_wait)
  have stages: "\<not> unexpected (validateStages ?q purpose)" "\<not> unexpected (validateQualification ?q purpose)"
    by (simp_all add: validateStages_def validateQualification_def Let_def)
  have first: "\<not> unexpected (validateProgram (d\<lparr>doc_program := ?q\<rparr>) purpose)"
    using cross used stages by (simp add: validateProgram_def validateSettings_def)
  have same: "clearUnexpectedProgramValues p = p"
    if "\<not> pd_preheat p \<Longrightarrow> pd_maximumProductWaitMinutes p = None"
      and "pd_sensorPreference p = SPref_AirOnly \<Longrightarrow> pd_productSensorFailure p =
        \<lparr>psf_policy = PFP_FallbackToAirAfterTimeout, psf_fallbackDelaySeconds = None,
         psf_returnStrategy = RSt_RemainOnAirUntilEnd\<rparr>"
      and "pd_sensorPreference p \<noteq> SPref_AirOnly \<Longrightarrow>
        psf_policy (pd_productSensorFailure p) \<noteq> PFP_FallbackToAirAfterTimeout \<Longrightarrow>
        psf_fallbackDelaySeconds (pd_productSensorFailure p) = None"
      and "\<not> programUsesCoolingTarget p \<Longrightarrow> pcp_coolingTargetCelsius (pd_completion p) = None"
      and "\<not> programUsesHoldDuration p \<Longrightarrow> pcp_holdDurationMinutes (pd_completion p) = None" for p
  proof (rule ProgramDefinition.equality)
    have c: "pd_completion (clearUnexpectedProgramValues p) = pd_completion p"
      by (rule ProgramCompletion.equality) (use that(4,5) in \<open>simp_all add: clear_cooling clear_hold\<close>)
    show "pd_completion (clearUnexpectedProgramValues p) = pd_completion p" by (rule c)
    have "x\<lparr>psf_fallbackDelaySeconds := None\<rparr> = x" if "psf_fallbackDelaySeconds x = None" for x
      using that by (cases x) simp
    then show "pd_productSensorFailure (clearUnexpectedProgramValues p) = pd_productSensorFailure p"
      using that(2,3) by (simp add: clear_failure)
    show "pd_maximumProductWaitMinutes (clearUnexpectedProgramValues p) =
        pd_maximumProductWaitMinutes p"
      using that(1) by (cases "pd_preheat p") (simp_all add: clear_wait, simp add: clear_defs)
  qed (simp_all add: clear_defs)
  have "clearUnexpectedProgramValues ?q = ?q"
    by (rule same) (simp_all add: clear_wait clear_failure uc uh clear_cooling clear_hold split: if_splits)
  moreover have "?q = ?p" if "programIsValid d VP_Runnable"
  proof -
    have r: "runnable ?p" using that unfolding valid_iff by blast
    show ?thesis
      by (rule same) (use r in \<open>auto simp: runnable_def programUsesCoolingTarget_def hasCooling_def
        programUsesHoldDuration_def split: if_splits\<close>)
  qed
  ultimately show ?thesis using first by simp
qed

section \<open>Migration\<close>

lemma migrateLoop_current: "psm_version (doc_schema d) = 6 \<Longrightarrow> migrateLoop d = (MGS_Migrated, d)"
  by (simp add: migrateLoop.simps kCurrentProgramSchemaVersion_def)

lemma migrateLoop_5: "psm_version (doc_schema d) = 5 \<Longrightarrow>
    migrateLoop d = migrateProgramSchema5To6Into d"
  by (simp add: migrateLoop.simps [of d] migrateStep_def kCurrentProgramSchemaVersion_def)
    (auto simp: migrateProgramSchema5To6Into_def migrateLoop_current split: prod.split)

lemma migrateLoop_4: "psm_version (doc_schema d) = 4 \<Longrightarrow>
    migrateLoop d = (case migrateProgramSchema4To5Into d of (status, e) \<Rightarrow>
      if status \<noteq> MGS_Migrated then (status, e) else migrateProgramSchema5To6Into e)"
  by (simp add: migrateLoop.simps [of d] migrateStep_def kCurrentProgramSchemaVersion_def)
    (auto simp: migrateProgramSchema4To5Into_def migrateLoop_5 split: prod.split)

lemma exactly_self: "exactlyFields m m"
  by (simp add: exactlyFields_def)

lemma exactly_iff: "exactlyFields m r \<longleftrightarrow> m = r"
proof
  assume e: "exactlyFields m r"
  have "m = (m AND NOT r) OR (m AND r)" by (intro bit_word_eqI) (auto simp: bit_simps)
  then show "m = r" using e by (simp add: exactlyFields_def)
qed (simp add: exactly_self)

definition migratable :: "ProgramDocument \<Rightarrow> bool" where
  "migratable s \<longleftrightarrow> psm_version (doc_schema s) = 6 \<or>
     psm_version (doc_schema s) = 5 \<and> psm_presentFields (doc_schema s) = 0xFFFF \<or>
     psm_version (doc_schema s) = 4 \<and> psm_presentFields (doc_schema s) = 0x7FFF"

text \<open>The program of an older schema in the current one. The waiting time is new in schema 5 and the
  return strategy in schema 6; an air-only program gets the one combination that is valid for it.\<close>

definition migratedProgram :: "ProgramDocument \<Rightarrow> ProgramDefinition" where
  "migratedProgram s =
     (let p = doc_program s;
          p = (if psm_version (doc_schema s) = 4 then p\<lparr>pd_maximumProductWaitMinutes := None\<rparr> else p) in
      if psm_version (doc_schema s) = 6 then p
      else if pd_sensorPreference p = SPref_AirOnly then
        p\<lparr>pd_productSensorFailure := \<lparr>psf_policy = PFP_FallbackToAirAfterTimeout,
          psf_fallbackDelaySeconds = None, psf_returnStrategy = RSt_RemainOnAirUntilEnd\<rparr>\<rparr>
      else p\<lparr>pd_productSensorFailure := (pd_productSensorFailure p)
        \<lparr>psf_returnStrategy := RSt_AutomaticValidatedReturnToProduct\<rparr>\<rparr>)"

text \<open>C39: the migration loop ends for every document. It yields a document exactly for the current
  schema, which it leaves alone, and for the schemas 4 and 5 with exactly their 15 and 16 fields; the result has
  version 6 and exactly the 17 fields of it. In a program that is not air-only nothing changes but the
  settings that the old schema lacked: the waiting time is absent after schema 4 and the return
  strategy is the automatic one. An air-only program gets the one combination that is valid for it, in
  place of all its settings of a sensor failure, policy and delay included. Migrating the result again
  changes nothing.\<close>

theorem program_migration:
  "case mgr_document (migrateProgramToCurrentSchema s) of
     None \<Rightarrow> \<not> migratable s \<and> mgr_status (migrateProgramToCurrentSchema s) =
       (if psm_version (doc_schema s) = 4 \<or> psm_version (doc_schema s) = 5
        then MGS_InvalidSourceDocument else MGS_UnsupportedSourceVersion)
   | Some d \<Rightarrow> migratable s \<and> psm_version (doc_schema d) = 6 \<and> doc_program d = migratedProgram s \<and>
       mgr_status (migrateProgramToCurrentSchema s) =
         (if psm_version (doc_schema s) = 6 then MGS_NotRequired else MGS_Migrated) \<and>
       (if psm_version (doc_schema s) = 6 then d = s else psm_presentFields (doc_schema d) = 0x1FFFF) \<and>
       migrateProgramToCurrentSchema d =
         \<lparr>mgr_status = MGS_NotRequired, mgr_document = Some d\<rparr>"
proof -
  have current: "migrateProgramToCurrentSchema d =
      \<lparr>mgr_status = MGS_NotRequired, mgr_document = Some d\<rparr>" if "psm_version (doc_schema d) = 6" for d
    using that by (simp add: migrateProgramToCurrentSchema_def migrateProgramToCurrentSchemaInto_def
        kMinimumMigratableProgramSchemaVersion_def kCurrentProgramSchemaVersion_def)
  consider "psm_version (doc_schema s) = 6" | "psm_version (doc_schema s) = 5"
    | "psm_version (doc_schema s) = 4"
    | "psm_version (doc_schema s) < 4 \<or> psm_version (doc_schema s) > 6"
  proof -
    have "x < 4 \<or> x > 6 \<or> x = 4 \<or> x = 5 \<or> x = 6" for x :: u32
      by (simp add: word_less_nat_alt word_unat_eq_iff) arith
    then show thesis using that by blast
  qed
  then show ?thesis
  proof cases
    case 1
    with current [OF 1] show ?thesis by (simp add: migratable_def migratedProgram_def Let_def)
  next
    case 2
    then have "migrateProgramToCurrentSchemaInto s = migrateProgramSchema5To6Into s"
      by (simp add: migrateProgramToCurrentSchemaInto_def kMinimumMigratableProgramSchemaVersion_def
          kCurrentProgramSchemaVersion_def migrateLoop_5)
    then have "migrateProgramToCurrentSchema s =
        (case migrateProgramSchema5To6Into s of (status, d) \<Rightarrow>
           if status \<noteq> MGS_Migrated \<and> status \<noteq> MGS_NotRequired
           then \<lparr>mgr_status = status, mgr_document = None\<rparr>
           else \<lparr>mgr_status = status, mgr_document = Some d\<rparr>)"
      using 2 by (simp add: migrateProgramToCurrentSchema_def
          kMinimumMigratableProgramSchemaVersion_def kCurrentProgramSchemaVersion_def)
    then show ?thesis using 2 current
      by (simp add: migrateProgramSchema5To6Into_def exactly_iff migratable_def migratedProgram_def
          Let_def programHasFixedSensorFailure_def known_fields applyAirOnlySensorFailure_def)
  next
    case 3
    then have "migrateProgramToCurrentSchemaInto s = (case migrateProgramSchema4To5Into s of
        (status, e) \<Rightarrow> if status \<noteq> MGS_Migrated then (status, e) else migrateProgramSchema5To6Into e)"
      by (simp add: migrateProgramToCurrentSchemaInto_def kMinimumMigratableProgramSchemaVersion_def
          kCurrentProgramSchemaVersion_def migrateLoop_4)
    then have "migrateProgramToCurrentSchema s = (case (case migrateProgramSchema4To5Into s of
        (status, e) \<Rightarrow> if status \<noteq> MGS_Migrated then (status, e) else migrateProgramSchema5To6Into e) of
        (status, d) \<Rightarrow>
           if status \<noteq> MGS_Migrated \<and> status \<noteq> MGS_NotRequired
           then \<lparr>mgr_status = status, mgr_document = None\<rparr>
           else \<lparr>mgr_status = status, mgr_document = Some d\<rparr>)"
      using 3 by (simp add: migrateProgramToCurrentSchema_def
          kMinimumMigratableProgramSchemaVersion_def kCurrentProgramSchemaVersion_def)
    then show ?thesis using 3 current
      by (simp add: migrateProgramSchema4To5Into_def migrateProgramSchema5To6Into_def exactly_iff
          migratable_def migratedProgram_def Let_def programHasFixedSensorFailure_def
          known_fields applyAirOnlySensorFailure_def)
  next
    case 4
    then have "psm_version (doc_schema s) \<noteq> 4" "psm_version (doc_schema s) \<noteq> 5"
      "psm_version (doc_schema s) \<noteq> 6" by (auto simp: word_less_nat_alt)
    with 4 show ?thesis
      by (simp add: migrateProgramToCurrentSchema_def kMinimumMigratableProgramSchemaVersion_def
          kCurrentProgramSchemaVersion_def migratable_def)
  qed
qed

end
