(* ===== verification/RunProofs.thy ===== *)
theory RunProofs
  imports ProgramProperties RunSnapshot
begin

text \<open>
  Lemmas on active runs: what the value checks of a run with an accepted source come to, the loop of
  the restore over one more revision, and the invariant of the runs reachable from a start by
  adjustments and restores.
\<close>

section \<open>The checks of a changed value\<close>

definition sourceAccepted :: "RunProgramSnapshot \<Rightarrow> bool" where
  "sourceAccepted s \<longleftrightarrow> rps_sourceKind s = programSourceKind (rps_source s) \<and>
     makeInitialEffectiveRunValues (rps_source s) (rps_sourceProgramRevision s) \<noteq> None"

lemma valid_cases:
  assumes "sourceAccepted s"
  shows "case rps_source s of PRS_Program d \<Rightarrow> programIsValid d VP_Runnable
     | PRS_ManualTimed m \<Rightarrow> validManualTimedRunSourceImpl m"
  using assms by (auto simp: sourceAccepted_def makeInitialEffectiveRunValues_def
      split: ProgramRunSource.splits if_splits)

lemma runnable_one_stage:
  "programIsValid d VP_Runnable \<Longrightarrow> \<exists>stage. pd_fermentationStages (doc_program d) = [stage] \<and>
     celsiusIn 4 45 (stg_targetTemperatureCelsius stage) \<and>
     countIn 1 20160 (stg_durationMinutes stage)"
  by (auto simp: programIsValid_def validateProgram_def stages_ok split: if_splits)

lemma source_one_stage: "sourceAccepted s \<Longrightarrow> sourceStageCount (rps_source s) = 1"
  using valid_cases [of s]
  by (auto simp: sourceStageCount_def dest!: runnable_one_stage split: ProgramRunSource.splits)

lemma settings_stages [simp]:
  "validateSettings (p\<lparr>pd_fermentationStages := gs\<rparr>) = validateSettings p"
  "validateQualification (p\<lparr>pd_fermentationStages := gs\<rparr>) purpose = validateQualification p purpose"
  "validateUsedValues (p\<lparr>pd_fermentationStages := gs\<rparr>) purpose = validateUsedValues p purpose"
  by (simp_all add: validateSettings_def validateQualification_def validateUsedValues_def
      validateSensorFailureCrossFields_def programUsesProductWait_def programUsesFallbackDelay_def
      programUsesCoolingTarget_def programUsesHoldDuration_def)

lemma setStage_valid:
  assumes d: "programIsValid d VP_Runnable" and g: "pd_fermentationStages (doc_program d) = [g]"
  shows "programIsValid (setStage d 0 f) VP_Runnable \<longleftrightarrow>
    celsiusIn 4 45 (stg_targetTemperatureCelsius (f g)) \<and> countIn 1 20160 (stg_durationMinutes (f g))"
proof -
  have s: "setStage d 0 f =
      d\<lparr>doc_program := (doc_program d)\<lparr>pd_fermentationStages := [f g]\<rparr>\<rparr>"
    by (simp add: setStage_def g Let_def)
  have v: "psm_version (doc_schema d) = kCurrentProgramSchemaVersion"
    using d by (auto simp: programIsValid_def validateProgram_def split: if_splits)
  show ?thesis using d by (simp add: s programIsValid_def validateProgram_def v stages_ok)
qed

lemma fermentation_limits:
  "isfinite t \<and> fle kMinimumFermentationTemperatureCelsius t \<and>
     fle t kMaximumFermentationTemperatureCelsius \<longleftrightarrow> celsiusIn 4 45 (Some t)"
  using celsiusIn_iff [where v = "Some t" and lo = 4 and hi = 45]
  by (simp add: inRangeCelsius_def kMinimumFermentationTemperatureCelsius_def
      kMaximumFermentationTemperatureCelsius_def)

lemma fermentation_minutes:
  "kMinimumFermentationDurationMinutes \<le> m \<and> m \<le> kMaximumFermentationDurationMinutes \<longleftrightarrow>
     countIn 1 20160 (Some m)"
  using countIn_iff [where v = "Some m" and a = kMinimumFermentationDurationMinutes
      and b = kMaximumFermentationDurationMinutes]
  by (simp add: kMinimumFermentationDurationMinutes_def kMaximumFermentationDurationMinutes_def)

lemma manual_target:
  "validManualTimedRunSourceImpl m \<Longrightarrow>
   validManualTimedRunSourceImpl
     (m\<lparr>mts_stage := (mts_stage m)\<lparr>stg_targetTemperatureCelsius := Some t\<rparr>\<rparr>) \<longleftrightarrow>
   celsiusIn 4 45 (Some t)"
  by (simp add: validManualTimedRunSourceImpl_def fermentation_limits)

lemma manual_duration:
  "validManualTimedRunSourceImpl m \<Longrightarrow>
   validManualTimedRunSourceImpl
     (m\<lparr>mts_stage := (mts_stage m)\<lparr>stg_durationMinutes := Some n\<rparr>\<rparr>) \<longleftrightarrow> countIn 1 20160 (Some n)"
  by (simp add: validManualTimedRunSourceImpl_def fermentation_minutes)

text \<open>The whole check of a changed value is a range: the source has one stage, and nothing else of it
  depends on the value.\<close>

lemma target_range_0:
  assumes "sourceAccepted s"
  shows "validTargetTemperature s 0 t \<longleftrightarrow> celsiusIn 4 45 (Some t)"
proof (cases "rps_source s")
  case (PRS_Program d)
  then have d: "programIsValid d VP_Runnable" using valid_cases [OF assms] by simp
  then obtain g where "pd_fermentationStages (doc_program d) = [g]"
    and "countIn 1 20160 (stg_durationMinutes g)" using runnable_one_stage by blast
  then show ?thesis using source_one_stage [OF assms]
    by (simp add: validTargetTemperature_def PRS_Program setStage_valid [OF d])
next
  case (PRS_ManualTimed m)
  then show ?thesis using source_one_stage [OF assms] valid_cases [OF assms]
    by (simp add: validTargetTemperature_def manual_target)
qed

lemma target_range:
  assumes "sourceAccepted s"
  shows "validTargetTemperature s i t \<longleftrightarrow> i = 0 \<and> celsiusIn 4 45 (Some t)"
  using source_one_stage [OF assms] target_range_0 [OF assms]
  by (cases "i = 0") (simp_all add: validTargetTemperature_def)

lemma remaining_range_0:
  assumes "sourceAccepted s"
  shows "validRemainingDuration s 0 m \<longleftrightarrow> unat m \<le> 20160"
proof (cases "m = 0")
  case True
  then show ?thesis using source_one_stage [OF assms] by (simp add: validRemainingDuration_def)
next
  case False
  then have c: "countIn 1 20160 (Some m) \<longleftrightarrow> unat m \<le> 20160"
    by (simp add: countIn_def Suc_le_eq unat_gt_0)
  show ?thesis
  proof (cases "rps_source s")
    case (PRS_Program d)
    then have d: "programIsValid d VP_Runnable" using valid_cases [OF assms] by simp
    then obtain g where "pd_fermentationStages (doc_program d) = [g]"
      and "celsiusIn 4 45 (stg_targetTemperatureCelsius g)" using runnable_one_stage by blast
    then show ?thesis using source_one_stage [OF assms] c False
      by (simp add: validRemainingDuration_def PRS_Program setStage_valid [OF d])
  next
    case (PRS_ManualTimed n)
    then show ?thesis using source_one_stage [OF assms] valid_cases [OF assms] c False
      by (simp add: validRemainingDuration_def manual_duration)
  qed
qed

lemma remaining_range:
  assumes "sourceAccepted s"
  shows "validRemainingDuration s i m \<longleftrightarrow> i = 0 \<and> unat m \<le> 20160"
  using source_one_stage [OF assms] remaining_range_0 [OF assms]
  by (cases "i = 0") (simp_all add: validRemainingDuration_def)

definition valuesInRange :: "EffectiveRunValues \<Rightarrow> bool" where
  "valuesInRange v \<longleftrightarrow> celsiusIn 4 45 (Some (erv_targetTemperatureCelsius v)) \<and>
     unat (erv_remainingDurationMinutes v) \<le> 20160"

lemma equalValues_refl: "valuesInRange v \<Longrightarrow> equalValues v v"
  by (auto simp: valuesInRange_def celsiusIn_def equalValues_def split: f64.splits)

lemma initial_in_range:
  assumes "makeInitialEffectiveRunValues src r = Some v"
  shows "valuesInRange v"
proof (cases src)
  case (PRS_Program d)
  then have "programIsValid d VP_Runnable"
    using assms by (auto simp: makeInitialEffectiveRunValues_def split: if_splits)
  then obtain g where g: "pd_fermentationStages (doc_program d) = [g]"
      "celsiusIn 4 45 (stg_targetTemperatureCelsius g)" "countIn 1 20160 (stg_durationMinutes g)"
    using runnable_one_stage by blast
  then show ?thesis using assms PRS_Program
    by (auto simp: makeInitialEffectiveRunValues_def valuesInRange_def countIn_def
        split: if_splits option.splits)
next
  case (PRS_ManualTimed m)
  then have m: "validManualTimedRunSourceImpl m"
    using assms by (auto simp: makeInitialEffectiveRunValues_def split: if_splits)
  then have "case (stg_targetTemperatureCelsius (mts_stage m), stg_durationMinutes (mts_stage m)) of
      (Some t, Some n) \<Rightarrow> celsiusIn 4 45 (Some t) \<and> countIn 1 20160 (Some n) | _ \<Rightarrow> False"
    by (auto simp: validManualTimedRunSourceImpl_def fermentation_limits fermentation_minutes
        split: option.splits)
  then show ?thesis using assms PRS_ManualTimed
    by (auto simp: makeInitialEffectiveRunValues_def valuesInRange_def countIn_def
        split: if_splits option.splits)
qed

section \<open>The loop of the restore\<close>

lemma checkRevisions_append:
  "checkRevisions s revs (is @ js) st =
    (case checkRevisions s revs is st of None \<Rightarrow> None | Some st \<Rightarrow> checkRevisions s revs js st)"
  by (induction "is" arbitrary: st) (auto split: option.split)

lemma checkRevision_cong:
  "(\<And>j. j \<le> i \<Longrightarrow> revs ! j = revs' ! j) \<Longrightarrow> checkRevision s revs i st = checkRevision s revs' i st"
  by (simp add: checkRevision_def validMonotonicEpoch_def)

lemma checkRevisions_cong:
  "(\<And>i. i < n \<Longrightarrow> revs ! i = revs' ! i) \<Longrightarrow>
    checkRevisions s revs [0..<n] st = checkRevisions s revs' [0..<n] st"
proof (induction n)
  case (Suc n)
  then have "checkRevision s revs n st = checkRevision s revs' n st" for st
    by (intro checkRevision_cong) simp
  then show ?case using Suc by (simp add: checkRevisions_append split: option.split)
qed simp

lemma latestUnix_cong:
  "(\<And>i. i < n \<Longrightarrow> revs ! i = revs' ! i) \<Longrightarrow>
    latestUnixTimeSeconds revs n = latestUnixTimeSeconds revs' n"
  by (induction n) (simp_all split: option.split)

text \<open>After the loop the current values are those after the last revision, and the latest Unix time is
  the one that the search from the end finds.\<close>

lemma checkRevisions_result:
  "checkRevisions s revs [0..<n] (v, None) = Some (v', u) \<Longrightarrow>
    u = latestUnixTimeSeconds revs n \<and> v' = (if n = 0 then v else rrv_after (revs ! (n - 1)))"
proof (induction n arbitrary: v' u)
  case (Suc n)
  then obtain w t where p: "checkRevisions s revs [0..<n] (v, None) = Some (w, t)"
    and l: "checkRevision s revs n (w, t) = Some (v', u)"
    by (auto simp: checkRevisions_append split: option.splits)
  have "t = latestUnixTimeSeconds revs n" using Suc.IH [OF p] by simp
  then show ?case using l
    by (auto simp: checkRevision_def Let_def split: if_splits option.splits)
qed simp

lemma unat_Suc_le: "unat (e + 1 :: 'a::len word) \<le> Suc (unat e)"
  by (metis add.commute le_Suc_eq le_refl unatSuc unat_0 zero_le)

lemma step_by_one: "a - b = 1 \<Longrightarrow> unat a \<le> Suc (unat (b :: 'a::len word))"
  using unat_Suc_le [of b] by (metis add.commute diff_add_cancel)

lemma checkRevisions_epochs:
  "checkRevisions s revs [0..<n] st = Some st' \<Longrightarrow> i < n \<Longrightarrow>
    unat (rrv_monotonicEpoch (revs ! i)) \<le> i"
proof (induction n arbitrary: st' i)
  case (Suc n)
  then obtain st1 where p: "checkRevisions s revs [0..<n] st = Some st1"
    and l: "checkRevision s revs n st1 = Some st'"
    by (auto simp: checkRevisions_append split: option.splits)
  have e: "validMonotonicEpoch revs n"
    using l by (auto simp: checkRevision_def Let_def split: if_splits prod.splits)
  show ?case
  proof (cases "i < n")
    case True
    then show ?thesis using Suc.IH [OF p] by simp
  next
    case False
    then have i: "i = n" using Suc.prems by simp
    note step = Suc.IH
    show ?thesis
    proof (cases n)
      case 0
      then show ?thesis using e i by (simp add: validMonotonicEpoch_def)
    next
      case (Suc m)
      then have "unat (rrv_monotonicEpoch (revs ! m)) \<le> m" using step p by simp
      moreover have "unat (rrv_monotonicEpoch (revs ! n)) \<le> Suc (unat (rrv_monotonicEpoch (revs ! m)))"
        using e Suc by (auto simp: validMonotonicEpoch_def Let_def dest: step_by_one)
      ultimately show ?thesis using i Suc by simp
    qed
  qed
qed simp

section \<open>The reachable runs\<close>

text \<open>A run starts, is adjusted by any decision whatever (the one decided against it or a stale one),
  or is restored from any stored snapshot and revisions.\<close>

inductive reachableRun :: "ActiveRun \<Rightarrow> bool" where
  started: "startRun src origin = Some run \<Longrightarrow> reachableRun run"
| adjusted: "reachableRun run \<Longrightarrow> reachableRun (snd (applyAdjustment decision run))"
| restored: "length revs = kMaximumRunRevisions \<Longrightarrow> restoreRun s revs n = Some run \<Longrightarrow>
    reachableRun run"

definition epochFollows :: "u32 \<Rightarrow> RunRevision list \<Rightarrow> nat \<Rightarrow> bool" where
  "epochFollows e revs n \<longleftrightarrow>
     (if n = 0 then e = 0
      else e = rrv_monotonicEpoch (revs ! (n - 1)) \<or> e = rrv_monotonicEpoch (revs ! (n - 1)) + 1)"

definition replayed :: "RunProgramSnapshot \<Rightarrow> RunRevision list \<Rightarrow> nat \<Rightarrow> EffectiveRunValues \<Rightarrow> bool" where
  "replayed s revs n v \<longleftrightarrow>
     (case makeInitialEffectiveRunValues (rps_source s) (rps_sourceProgramRevision s) of
        None \<Rightarrow> False
      | Some initial \<Rightarrow> checkRevisions s revs [0..<n] (initial, None) =
          Some (v, latestUnixTimeSeconds revs n))"

definition runInvariant :: "ActiveRun \<Rightarrow> bool" where
  "runInvariant run \<longleftrightarrow>
     length (arn_revisions run) = kMaximumRunRevisions \<and>
     arn_revisionCount run \<le> kMaximumRunRevisions \<and>
     drop (arn_revisionCount run) (arn_revisions run) =
       replicate (kMaximumRunRevisions - arn_revisionCount run) emptyRunRevision \<and>
     sourceAccepted (arn_snapshot run) \<and>
     replayed (arn_snapshot run) (arn_revisions run) (arn_revisionCount run) (arn_effectiveValues run) \<and>
     valuesInRange (arn_effectiveValues run) \<and>
     epochFollows (arn_monotonicEpoch run) (arn_revisions run) (arn_revisionCount run)"

lemma validate_iff:
  "validateRunProgramSnapshotInto s revs n = Some v \<longleftrightarrow>
    sourceAccepted s \<and> n \<le> kMaximumRunRevisions \<and> replayed s revs n v"
proof (cases "makeInitialEffectiveRunValues (rps_source s) (rps_sourceProgramRevision s)")
  case None
  then show ?thesis by (simp add: validateRunProgramSnapshotInto_def sourceAccepted_def)
next
  case (Some initial)
  have "map_option fst (checkRevisions s revs [0..<n] (initial, None)) = Some v \<longleftrightarrow>
      checkRevisions s revs [0..<n] (initial, None) = Some (v, latestUnixTimeSeconds revs n)"
    using checkRevisions_result [of s revs n initial] by (auto simp: map_option_case split: option.splits)
  then show ?thesis using Some
    by (auto simp: validateRunProgramSnapshotInto_def sourceAccepted_def replayed_def)
qed

lemma replayed_in_range:
  assumes s: "sourceAccepted s" and r: "replayed s revs n v"
  shows "valuesInRange v"
proof -
  obtain initial where i: "makeInitialEffectiveRunValues (rps_source s) (rps_sourceProgramRevision s) =
      Some initial" and c: "checkRevisions s revs [0..<n] (initial, None) =
      Some (v, latestUnixTimeSeconds revs n)"
    using r by (auto simp: replayed_def split: option.splits)
  show ?thesis
  proof (cases n)
    case 0
    then show ?thesis using c initial_in_range [OF i] by simp
  next
    case (Suc m)
    then obtain st where "checkRevision s revs m st = Some (v, latestUnixTimeSeconds revs n)"
      using c by (auto simp: checkRevisions_append split: option.splits)
    then show ?thesis
      by (auto simp: checkRevision_def Let_def target_range [OF s] remaining_range [OF s]
          valuesInRange_def split: if_splits prod.splits)
  qed
qed

lemma invariant_start: "startRun src origin = Some run \<Longrightarrow> runInvariant run"
  using initial_in_range
  by (auto simp: startRun_def newActiveRun_def runInvariant_def sourceAccepted_def replayed_def
      epochFollows_def split: option.splits)

lemma invariant_restore:
  assumes l: "length revs = kMaximumRunRevisions" and r: "restoreRun s revs n = Some run"
  shows "runInvariant run"
proof -
  obtain v where v: "validateRunProgramSnapshotInto s revs n = Some v"
    using r by (auto simp: restoreRun_def split: option.splits)
  then have n: "n \<le> kMaximumRunRevisions" and s: "sourceAccepted s" and p: "replayed s revs n v"
    by (simp_all add: validate_iff)
  define revs' where "revs' = take n revs @ replicate (kMaximumRunRevisions - n) emptyRunRevision"
  have same: "i < n \<Longrightarrow> revs' ! i = revs ! i" for i
    using n l by (simp add: revs'_def nth_append)
  have "replayed s revs' n v"
    using p checkRevisions_cong [of n revs' revs s] latestUnix_cong [of n revs' revs] same
    by (simp add: replayed_def split: option.splits)
  moreover have "valuesInRange v" using replayed_in_range [OF s p] .
  moreover have "run = \<lparr>arn_snapshot = s, arn_effectiveValues = v, arn_revisions = revs',
      arn_revisionCount = n, arn_monotonicEpoch =
        (if n > 0 then rrv_monotonicEpoch (revs ! (n - 1)) + 1 else 0)\<rparr>"
    using r v by (simp add: restoreRun_def revs'_def)
  moreover have "length revs' = kMaximumRunRevisions"
    "drop n revs' = replicate (kMaximumRunRevisions - n) emptyRunRevision"
    using n l by (simp_all add: revs'_def)
  ultimately show ?thesis using n s same
    by (auto simp: runInvariant_def epochFollows_def)
qed

lemma epoch_bound:
  assumes "runInvariant run"
  shows "unat (arn_monotonicEpoch run) \<le> arn_revisionCount run"
proof (cases "arn_revisionCount run")
  case 0
  then show ?thesis using assms by (simp add: runInvariant_def epochFollows_def)
next
  case (Suc m)
  then have "unat (rrv_monotonicEpoch (arn_revisions run ! m)) \<le> m"
    using assms checkRevisions_epochs [of "arn_snapshot run" "arn_revisions run" "Suc m" _ _ m]
    by (auto simp: runInvariant_def replayed_def split: option.splits)
  then show ?thesis
    using assms Suc unat_Suc_le [of "rrv_monotonicEpoch (arn_revisions run ! m)"]
    by (auto simp: runInvariant_def epochFollows_def)
qed

lemma epoch_valid:
  assumes "runInvariant run" and "revs = (arn_revisions run)[arn_revisionCount run := r]"
    and "arn_revisionCount run < kMaximumRunRevisions"
    and "rrv_monotonicEpoch r = arn_monotonicEpoch run"
  shows "validMonotonicEpoch revs (arn_revisionCount run)"
proof (cases "arn_revisionCount run")
  case 0
  then show ?thesis using assms by (simp add: runInvariant_def epochFollows_def validMonotonicEpoch_def)
next
  case (Suc m)
  let ?e = "rrv_monotonicEpoch (arn_revisions run ! m)"
  have "unat ?e \<le> m"
    using assms(1) Suc checkRevisions_epochs [of "arn_snapshot run" "arn_revisions run" "Suc m" _ _ m]
    by (auto simp: runInvariant_def replayed_def split: option.splits)
  then have "?e < ?e + 1" using assms(3) Suc
    by (simp add: word_less_nat_alt unat_word_ariths kMaximumRunRevisions_def)
  then show ?thesis using assms Suc
    by (auto simp: runInvariant_def epochFollows_def validMonotonicEpoch_def Let_def)
qed

section \<open>The invariant is kept by an adjustment\<close>

definition acceptable :: "ActiveRun \<Rightarrow> RunRevision \<Rightarrow> bool" where
  "acceptable run r \<longleftrightarrow> arn_revisionCount run < kMaximumRunRevisions \<and>
     unat (rrv_sequence r) = arn_revisionCount run + 1 \<and>
     rrv_monotonicEpoch r = arn_monotonicEpoch run \<and>
     equalValues (rrv_before r) (arn_effectiveValues run) \<and> validRevisionMetadata r \<and>
     validTargetTemperature (arn_snapshot run) (rrv_stageIndex r)
       (erv_targetTemperatureCelsius (rrv_after r)) \<and>
     validRemainingDuration (arn_snapshot run) (rrv_stageIndex r)
       (erv_remainingDurationMinutes (rrv_after r)) \<and>
     \<not> timestampWentBackwards run (rrv_timestamp r) (rrv_monotonicEpoch r)"

definition adjustedRun :: "ActiveRun \<Rightarrow> RunRevision \<Rightarrow> ActiveRun" where
  "adjustedRun run r = run\<lparr>arn_revisions := (arn_revisions run)[arn_revisionCount run := r],
     arn_effectiveValues := rrv_after r, arn_revisionCount := arn_revisionCount run + 1\<rparr>"

lemma apply_cases:
  "snd (applyAdjustment decision run) =
    (case rad_revision decision of None \<Rightarrow> run
     | Some r \<Rightarrow>
         if rad_status decision = RAS_Proposed \<and>
            rad_expectedRevisionCount decision = arn_revisionCount run \<and>
            equalValues (rad_expectedValues decision) (arn_effectiveValues run) \<and> acceptable run r
         then adjustedRun run r else run)"
proof (cases "rad_revision decision")
  case (Some r)
  show ?thesis
  proof (cases "acceptable run r")
    case True
    then show ?thesis by (simp add: applyAdjustment_def Some acceptable_def adjustedRun_def)
  next
    case False
    then show ?thesis by (auto simp: applyAdjustment_def Some acceptable_def not_less)
  qed
qed (simp add: applyAdjustment_def)

lemma accepted_stage:
  "sourceAccepted s \<Longrightarrow> validTargetTemperature s i t \<Longrightarrow> i < sourceStageCount (rps_source s)"
  by (auto simp: validTargetTemperature_def split: if_splits)

lemma invariant_adjusted:
  assumes inv: "runInvariant run" and a: "acceptable run r"
  shows "runInvariant (adjustedRun run r)"
proof -
  let ?n = "arn_revisionCount run" and ?s = "arn_snapshot run"
  define revs where "revs = (arn_revisions run)[?n := r]"
  have n: "?n < kMaximumRunRevisions" and s: "sourceAccepted ?s"
    and l: "length (arn_revisions run) = kMaximumRunRevisions"
    using inv a by (simp_all add: runInvariant_def acceptable_def)
  have at: "revs ! ?n = r" using n l by (simp add: revs_def)
  have same: "i < ?n \<Longrightarrow> revs ! i = arn_revisions run ! i" for i by (simp add: revs_def)
  obtain initial where i: "makeInitialEffectiveRunValues (rps_source ?s) (rps_sourceProgramRevision ?s) =
      Some initial" and c: "checkRevisions ?s (arn_revisions run) [0..<?n] (initial, None) =
      Some (arn_effectiveValues run, latestUnixTimeSeconds (arn_revisions run) ?n)"
    using inv by (auto simp: runInvariant_def replayed_def split: option.splits)
  have u: "latestUnixTimeSeconds revs ?n = latestUnixTimeSeconds (arn_revisions run) ?n"
    by (rule latestUnix_cong) (rule same)
  have before_n: "checkRevisions ?s revs [0..<?n] (initial, None) =
      Some (arn_effectiveValues run, latestUnixTimeSeconds revs ?n)"
    using c u checkRevisions_cong [of ?n revs "arn_revisions run", OF same] by simp
  have time: "\<not> (?n > 0 \<and> monotonicTimestampWentBackwards (rrv_timestamp r) (rrv_monotonicEpoch r)
      (rrv_timestamp (revs ! (?n - 1))) (rrv_monotonicEpoch (revs ! (?n - 1))))"
    using a same [of "?n - 1"] by (auto simp: acceptable_def timestampWentBackwards_def)
  have unix: "\<not> unixTimestampWentBackwards (rrv_timestamp r) (latestUnixTimeSeconds revs ?n)"
    using a u by (cases "?n = 0")
      (auto simp: acceptable_def timestampWentBackwards_def unixTimestampWentBackwards_def
        split: option.splits)
  have epoch: "validMonotonicEpoch revs ?n"
    using epoch_valid [OF inv revs_def n] a by (simp add: acceptable_def)
  have stage: "rrv_stageIndex r < sourceStageCount (rps_source ?s)"
    using a accepted_stage [OF s] unfolding acceptable_def by blast
  have "checkRevision ?s revs ?n (arn_effectiveValues run, latestUnixTimeSeconds revs ?n) =
      Some (rrv_after r, latestUnixTimeSeconds revs (Suc ?n))"
    using a time unix epoch stage at
    by (simp add: checkRevision_def Let_def acceptable_def not_le split: option.split)
  then have "replayed ?s revs (Suc ?n) (rrv_after r)"
    using before_n i by (simp add: replayed_def checkRevisions_append)
  moreover from this have "valuesInRange (rrv_after r)" using replayed_in_range [OF s] by blast
  moreover have "drop (Suc ?n) revs = replicate (kMaximumRunRevisions - Suc ?n) emptyRunRevision"
  proof -
    have "drop (Suc ?n) revs = drop (Suc ?n) (arn_revisions run)"
      unfolding revs_def by (rule drop_update_cancel) simp
    also have "\<dots> = tl (drop ?n (arn_revisions run))" by (simp only: drop_Suc tl_drop)
    finally show ?thesis using inv n by (simp add: runInvariant_def flip: replicate_Suc)
  qed
  moreover have "epochFollows (arn_monotonicEpoch run) revs (Suc ?n)"
    using a at by (simp add: epochFollows_def acceptable_def)
  ultimately show ?thesis using n s l
    by (simp add: runInvariant_def adjustedRun_def revs_def)
qed

lemma reachable_invariant: "reachableRun run \<Longrightarrow> runInvariant run"
proof (induction rule: reachableRun.induct)
  case (adjusted run decision)
  then show ?case using invariant_adjusted by (simp add: apply_cases split: option.split)
qed (use invariant_start invariant_restore in blast)+

section \<open>The snapshot for the process state machine\<close>

definition processSnapshotOf :: "RunProgramSnapshot \<Rightarrow> EffectiveRunValues \<Rightarrow> ProcessRunSnapshot" where
  "processSnapshotOf s v =
     (case rps_source s of
        PRS_Program d \<Rightarrow>
          \<lparr>snap_kind = PK_Timed, snap_preheatEnabled = pd_preheat (doc_program d),
           snap_completionMode = pcp_mode (pd_completion (doc_program d)),
           snap_qualificationDurationMinutes =
             the (tql_durationMinutes (pd_targetQualification (doc_program d))),
           snap_maximumTargetReachMinutes = the (pd_maximumTargetReachMinutes (doc_program d)),
           snap_maximumProductWaitMinutes = pd_maximumProductWaitMinutes (doc_program d),
           snap_fermentationDurationMinutes = Some (erv_remainingDurationMinutes v),
           snap_holdDurationMinutes = pcp_holdDurationMinutes (pd_completion (doc_program d))\<rparr>
      | PRS_ManualTimed m \<Rightarrow>
          \<lparr>snap_kind = PK_Timed, snap_preheatEnabled = mts_preheatEnabled m,
           snap_completionMode = pcp_mode (mts_completion m),
           snap_qualificationDurationMinutes = the (tql_durationMinutes (mts_targetQualification m)),
           snap_maximumTargetReachMinutes = the (mts_maximumTargetReachMinutes m),
           snap_maximumProductWaitMinutes = mts_maximumProductWaitMinutes m,
           snap_fermentationDurationMinutes = Some (erv_remainingDurationMinutes v),
           snap_holdDurationMinutes = pcp_holdDurationMinutes (mts_completion m)\<rparr>)"

lemma processSnapshotOf_fields [simp]:
  "snap_kind (processSnapshotOf s v) = PK_Timed"
  "snap_fermentationDurationMinutes (processSnapshotOf s v) = Some (erv_remainingDurationMinutes v)"
  by (simp_all add: processSnapshotOf_def split: ProgramRunSource.split)

lemmas minute_limit_defs = kMinimumQualificationDurationMinutes_def kMaximumQualificationDurationMinutes_def
  kMinimumTargetReachMinutes_def kMaximumTargetReachMinutes_def kMinimumHoldDurationMinutes_def
  kMaximumHoldDurationMinutes_def kMaximumFermentationDurationMinutes_def

lemma unat_le_u32_max: "unat (m :: u32) \<le> unat u32_max"
  using unsigned_less [of m, where ?'a = nat] by (simp add: unat_u32_max)

lemma program_snapshot_parts:
  assumes "programIsValid d VP_Runnable"
  shows "validCompletionMode (pcp_mode (pd_completion (doc_program d)))"
    and "\<exists>q. tql_durationMinutes (pd_targetQualification (doc_program d)) = Some q \<and>
      kMinimumQualificationDurationMinutes \<le> q"
    and "\<exists>r. pd_maximumTargetReachMinutes (doc_program d) = Some r \<and> kMinimumTargetReachMinutes \<le> r"
    and "case pd_maximumProductWaitMinutes (doc_program d) of None \<Rightarrow> \<not> pd_preheat (doc_program d)
      | Some w \<Rightarrow> pd_preheat (doc_program d) \<and> kMinimumProductWaitMinutes \<le> w \<and>
          w \<le> kMaximumProductWaitMinutes"
    and "case pcp_holdDurationMinutes (pd_completion (doc_program d)) of
        None \<Rightarrow> pcp_mode (pd_completion (doc_program d)) \<noteq> CM_CoolAndHoldForDuration
      | Some h \<Rightarrow> pcp_mode (pd_completion (doc_program d)) = CM_CoolAndHoldForDuration \<and>
          kMinimumHoldDurationMinutes \<le> h"
proof -
  let ?p = "doc_program d"
  have v: "validateSettings ?p = []" "validateQualification ?p VP_Runnable = []"
      "validateUsedValues ?p VP_Runnable = []"
    using assms by (simp_all add: programIsValid_def validateProgram_def split: if_splits)
  show "validCompletionMode (pcp_mode (pd_completion ?p))"
    using v(1) by (simp add: validateSettings_def)
  show "\<exists>q. tql_durationMinutes (pd_targetQualification ?p) = Some q \<and>
      kMinimumQualificationDurationMinutes \<le> q"
    and "\<exists>r. pd_maximumTargetReachMinutes ?p = Some r \<and> kMinimumTargetReachMinutes \<le> r"
    using v(2) by (auto simp: validateQualification_def split: option.splits)
  show "case pd_maximumProductWaitMinutes ?p of None \<Rightarrow> \<not> pd_preheat ?p
      | Some w \<Rightarrow> pd_preheat ?p \<and> kMinimumProductWaitMinutes \<le> w \<and> w \<le> kMaximumProductWaitMinutes"
    using v(3) by (simp add: validateUsedValues_def programUsesProductWait_def
        split: option.splits if_splits)
  show "case pcp_holdDurationMinutes (pd_completion ?p) of
        None \<Rightarrow> pcp_mode (pd_completion ?p) \<noteq> CM_CoolAndHoldForDuration
      | Some h \<Rightarrow> pcp_mode (pd_completion ?p) = CM_CoolAndHoldForDuration \<and>
          kMinimumHoldDurationMinutes \<le> h"
    using v(3) by (simp add: validateUsedValues_def programUsesHoldDuration_def
        split: option.splits if_splits)
qed

lemma make_program:
  assumes "rps_source s = PRS_Program d" and "programIsValid d VP_Runnable"
    and "unat (erv_remainingDurationMinutes v) \<le> 20160"
  shows "makeProcessRunSnapshot s v = Some (processSnapshotOf s v) \<and>
    validateProcessRunSnapshot (processSnapshotOf s v)"
proof -
  have "validateProcessRunSnapshot (processSnapshotOf s v)"
    using program_snapshot_parts [OF assms(2)] assms(3)
    by (auto simp: validateProcessRunSnapshot_def processSnapshotOf_def assms(1) validProcessKind_def
        validCompletionModeForStateMachine_def validCompletionMode_def inRange_def unat_le_u32_max
        minute_limit_defs word_le_nat_alt word_less_nat_alt not_less split: option.splits
        CompletionMode.splits)
  then show ?thesis
    using program_snapshot_parts(2,3) [OF assms(2)]
    by (auto simp: makeProcessRunSnapshot_def processSnapshotOf_def assms(1) Let_def)
qed

lemma make_manual:
  assumes "rps_source s = PRS_ManualTimed m" and "validManualTimedRunSourceImpl m"
    and "unat (erv_remainingDurationMinutes v) \<le> 20160"
  shows "makeProcessRunSnapshot s v = Some (processSnapshotOf s v) \<and>
    validateProcessRunSnapshot (processSnapshotOf s v)"
proof -
  have c: "validCompletion (mts_completion m)"
    and q: "\<exists>q. tql_durationMinutes (mts_targetQualification m) = Some q \<and>
        kMinimumQualificationDurationMinutes \<le> q"
    and r: "\<exists>r. mts_maximumTargetReachMinutes m = Some r \<and> kMinimumTargetReachMinutes \<le> r"
    and w: "case mts_maximumProductWaitMinutes m of None \<Rightarrow> \<not> mts_preheatEnabled m
      | Some w \<Rightarrow> mts_preheatEnabled m \<and> kMinimumProductWaitMinutes \<le> w \<and>
          w \<le> kMaximumProductWaitMinutes"
    using assms(2) by (auto simp: validManualTimedRunSourceImpl_def Let_def split: option.splits)
  have "validateProcessRunSnapshot (processSnapshotOf s v)"
    using c q r w assms(3)
    by (auto simp: validateProcessRunSnapshot_def processSnapshotOf_def assms(1) validProcessKind_def
        validCompletionModeForStateMachine_def validCompletion_def inRange_def unat_le_u32_max
        minute_limit_defs word_le_nat_alt word_less_nat_alt not_less split: option.splits
        CompletionMode.splits)
  then show ?thesis using q r
    by (auto simp: makeProcessRunSnapshot_def processSnapshotOf_def assms(1) Let_def)
qed

lemma invariant_makes:
  assumes "runInvariant run"
  shows "makeProcessRunSnapshot (arn_snapshot run) (arn_effectiveValues run) =
      Some (processSnapshotOf (arn_snapshot run) (arn_effectiveValues run)) \<and>
    validateProcessRunSnapshot (processSnapshotOf (arn_snapshot run) (arn_effectiveValues run))"
proof -
  have s: "sourceAccepted (arn_snapshot run)"
    and v: "unat (erv_remainingDurationMinutes (arn_effectiveValues run)) \<le> 20160"
    using assms by (simp_all add: runInvariant_def valuesInRange_def)
  show ?thesis
  proof (cases "rps_source (arn_snapshot run)")
    case (PRS_Program d)
    then show ?thesis using make_program [OF PRS_Program _ v] valid_cases [OF s] by simp
  next
    case (PRS_ManualTimed m)
    then show ?thesis using make_manual [OF PRS_ManualTimed _ v] valid_cases [OF s] by simp
  qed
qed

end
