(* ===== verification/RunCommandProofs.thy ===== *)
theory RunCommandProofs
  imports RunCommandActions ProcessProofs RunProofs
begin

text \<open>
  Facts on the run commands that their properties share: how the steps of a decision change it, what a
  proposed decision of each command is, and that the application accepts it.
\<close>

section \<open>Steps of a decision\<close>

lemma commandProposed_withStatus [simp]:
  "commandProposed (withStatus st d) \<longleftrightarrow> st = CST_Proposed"
  by (simp add: commandProposed_def withStatus_def)

lemma withStatus_sel [simp]:
  "cd_status (withStatus st d) = st" "cd_before (withStatus st d) = cd_before d"
  "cd_after (withStatus st d) = cd_after d" "cd_kind (withStatus st d) = cd_kind d"
  "cd_envelope (withStatus st d) = cd_envelope d" "cd_effects (withStatus st d) = cd_effects d"
  by (simp_all add: withStatus_def)

lemma commandProposed_updates [simp]:
  "commandProposed (d\<lparr>cd_after := a\<rparr>) = commandProposed d"
  "commandProposed (d\<lparr>cd_kind := k\<rparr>) = commandProposed d"
  "commandProposed (d\<lparr>cd_startSummary := v\<rparr>) = commandProposed d"
  "commandProposed (d\<lparr>cd_adjustmentPreview := p\<rparr>) = commandProposed d"
  "commandProposed (d\<lparr>cd_effects := e\<rparr>) = commandProposed d"
  "commandProposed (d\<lparr>cd_sensorSelectionApplyStatus := x\<rparr>) = commandProposed d"
  "commandProposed (d\<lparr>cd_sensorSelectionEvent := ev\<rparr>) = commandProposed d"
  "commandProposed (d\<lparr>cd_sensorSelectionNotice := n\<rparr>) = commandProposed d"
  "commandProposed (d\<lparr>cd_startSensorSelectionNotice := sn\<rparr>) = commandProposed d"
  "commandProposed (d\<lparr>cd_committedControlContextTransition := t\<rparr>) = commandProposed d"
  by (simp_all add: commandProposed_def)

text \<open>What the checks of a revision leave of a decision.\<close>

lemma requireExpected_cases:
  "requireExpected e actual d = d \<or> (\<exists>st. st \<noteq> CST_Proposed \<and> requireExpected e actual d = withStatus st d)"
  by (auto simp: requireExpected_def split: option.split)

lemma commandProposed_requireExpected [simp]:
  "commandProposed (requireExpected e actual d) \<longleftrightarrow> commandProposed d \<and> e = Some actual"
  by (auto simp: requireExpected_def split: option.split)

lemma requireExpected_proposed: "e = Some actual \<Longrightarrow> requireExpected e actual d = d"
  by (simp add: requireExpected_def)

lemma requireExpected_sel [simp]:
  "cd_before (requireExpected e a d) = cd_before d" "cd_after (requireExpected e a d) = cd_after d"
  "cd_kind (requireExpected e a d) = cd_kind d" "cd_envelope (requireExpected e a d) = cd_envelope d"
  "cd_effects (requireExpected e a d) = cd_effects d"
  by (simp_all add: requireExpected_def split: option.split)

lemmas require_defs =
  requireRunRevision_def requireRecoveryEpisodeRevision_def requireMessageRevision_def

lemma commandProposed_requireRevisionCapacity [simp]:
  "commandProposed (requireRevisionCapacity r d) \<longleftrightarrow> commandProposed d \<and> r \<noteq> u32_max"
  by (simp add: requireRevisionCapacity_def)

lemma requireRevisionCapacity_sel [simp]:
  "cd_before (requireRevisionCapacity r d) = cd_before d"
  "cd_after (requireRevisionCapacity r d) = cd_after d"
  "cd_kind (requireRevisionCapacity r d) = cd_kind d"
  "cd_envelope (requireRevisionCapacity r d) = cd_envelope d"
  "cd_effects (requireRevisionCapacity r d) = cd_effects d"
  by (simp_all add: requireRevisionCapacity_def)

lemma commandProposed_addEffect [simp]:
  "commandProposed (addEffect e d) \<longleftrightarrow> commandProposed d \<and> length (cd_effects d) < kMaximumCommandEffects"
  by (auto simp: addEffect_def)

lemma addEffect_sel [simp]:
  "cd_before (addEffect e d) = cd_before d" "cd_after (addEffect e d) = cd_after d"
  "cd_kind (addEffect e d) = cd_kind d" "cd_envelope (addEffect e d) = cd_envelope d"
  "cd_status d = st \<Longrightarrow> cd_status (addEffect e d) = (if length (cd_effects d) < kMaximumCommandEffects
     then st else CST_CapacityReached)"
  by (auto simp: addEffect_def)

lemma addEffect_effects:
  "length (cd_effects d) < kMaximumCommandEffects \<Longrightarrow> cd_effects (addEffect e d) = cd_effects d @ [e]"
  by (simp add: addEffect_def)

lemma addEffects_sel [simp]:
  "cd_before (addEffects es d) = cd_before d" "cd_after (addEffects es d) = cd_after d"
  "cd_kind (addEffects es d) = cd_kind d" "cd_envelope (addEffects es d) = cd_envelope d"
  by (induction es arbitrary: d) (simp_all add: addEffects_def)

lemma addEffects_proposed:
  "commandProposed (addEffects es d) \<Longrightarrow> commandProposed d"
proof (induction es arbitrary: d)
  case Nil
  then show ?case by (simp add: addEffects_def)
next
  case (Cons e es)
  then have "commandProposed (addEffect e d)"
    using Cons.IH [of "addEffect e d"] by (simp add: addEffects_def)
  then show ?case by simp
qed

lemma addEffects_fit:
  "commandProposed d \<Longrightarrow> length (cd_effects d) + length es \<le> kMaximumCommandEffects \<Longrightarrow>
   commandProposed (addEffects es d) \<and> cd_effects (addEffects es d) = cd_effects d @ es"
proof (induction es arbitrary: d)
  case Nil
  then show ?case by (simp add: addEffects_def)
next
  case (Cons e es)
  then have "length (cd_effects d) < kMaximumCommandEffects" by simp
  with Cons.prems Cons.IH [of "addEffect e d"] show ?case
    by (simp add: addEffects_def addEffect_effects)
qed

lemma beginMutation_sel [simp]:
  "cd_before (beginMutation d) = cd_before d" "cd_kind (beginMutation d) = cd_kind d"
  "cd_envelope (beginMutation d) = cd_envelope d" "cd_effects (beginMutation d) = cd_effects d"
  "commandProposed (beginMutation d) = commandProposed d"
  by (simp_all add: beginMutation_def)

lemma incrementRunRevision_sel [simp]:
  "cd_before (incrementRunRevision d) = cd_before d" "cd_kind (incrementRunRevision d) = cd_kind d"
  "cd_envelope (incrementRunRevision d) = cd_envelope d"
  "cd_effects (incrementRunRevision d) = cd_effects d"
  "commandProposed (incrementRunRevision d) = commandProposed d"
  by (simp_all add: incrementRunRevision_def)

lemma withStartOutcome_sel [simp]:
  "cd_before (withStartOutcome out d) = cd_before d" "cd_kind (withStartOutcome out d) = cd_kind d"
  "cd_envelope (withStartOutcome out d) = cd_envelope d"
  "cd_effects (withStartOutcome out d) = cd_effects d"
  "commandProposed (withStartOutcome out d) = commandProposed d"
  by (simp_all add: withStartOutcome_def)

lemma startNotice_sel [simp]:
  "cd_before (startNotice req r d) = cd_before d" "cd_kind (startNotice req r d) = cd_kind d"
  "cd_envelope (startNotice req r d) = cd_envelope d" "cd_effects (startNotice req r d) = cd_effects d"
  "commandProposed (startNotice req r d) = commandProposed d"
  "cd_after (startNotice req r d) = cd_after d"
  by (simp_all add: startNotice_def)

lemma coolingRunOutcome_sel [simp]:
  "cd_before (coolingRunOutcome a c d) = cd_before d" "cd_kind (coolingRunOutcome a c d) = cd_kind d"
  "cd_envelope (coolingRunOutcome a c d) = cd_envelope d"
  "cd_effects (coolingRunOutcome a c d) = cd_effects d"
  "commandProposed (coolingRunOutcome a c d) = commandProposed d"
  by (simp_all add: coolingRunOutcome_def split: option.split)

lemma announceSelection_sel [simp]:
  "cd_before (announceSelection m d) = cd_before d" "cd_kind (announceSelection m d) = cd_kind d"
  "cd_envelope (announceSelection m d) = cd_envelope d"
  "cd_effects (announceSelection m d) = cd_effects d"
  "commandProposed (announceSelection m d) = commandProposed d"
  "cd_after (announceSelection m d) = cd_after d"
  by (simp_all add: announceSelection_def split: option.split)

lemma restoreRejectedAfter_sel [simp]:
  "cd_before (restoreRejectedAfter d) = cd_before d" "cd_kind (restoreRejectedAfter d) = cd_kind d"
  "cd_envelope (restoreRejectedAfter d) = cd_envelope d"
  "cd_effects (restoreRejectedAfter d) = cd_effects d"
  "cd_status (restoreRejectedAfter d) = cd_status d"
  "commandProposed (restoreRejectedAfter d) = commandProposed d"
  "cd_after (restoreRejectedAfter d) = (if commandProposed d then cd_after d else cd_before d)"
  by (simp_all add: restoreRejectedAfter_def commandProposed_def)

section \<open>The start of a decision\<close>

text \<open>What the common checks accept.\<close>

definition acceptedCommand :: "RunCommandState \<Rightarrow> CommandEnvelope \<Rightarrow> CommandKind \<Rightarrow> bool" where
  "acceptedCommand s envelope k \<longleftrightarrow>
     cen_id envelope \<noteq> 0 \<and> validCommandSource (cen_source envelope) \<and>
     \<not> containsProcessedCommand s (cen_id envelope) \<and> rcs_commandSequence s \<noteq> u32_max \<and>
     cen_expectedStateSequence envelope = rt_transitionSequence (rcs_processState s) \<and>
     (rcs_processedCommandCount s > 0 \<longrightarrow>
        rcs_lastCommandMonotonicMillis s \<le> cen_monotonicMillis envelope) \<and>
     \<not> (rcs_criticalSafetyEventPending s \<and> isRunComfortCommand k)"

lemma commandResult_sel [simp]:
  "cd_before (commandResult s e k st) = s" "cd_after (commandResult s e k st) = s"
  "cd_kind (commandResult s e k st) = k" "cd_envelope (commandResult s e k st) = e"
  "cd_effects (commandResult s e k st) = []" "cd_status (commandResult s e k st) = st"
  "commandProposed (commandResult s e k st) \<longleftrightarrow> st = CST_Proposed"
  by (simp_all add: commandResult_def commandProposed_def)

lemma beginDecision_sel [simp]:
  "cd_before (beginDecision s e k) = s" "cd_after (beginDecision s e k) = s"
  "cd_kind (beginDecision s e k) = k" "cd_envelope (beginDecision s e k) = e"
  "cd_effects (beginDecision s e k) = []"
  by (simp_all add: beginDecision_def Let_def)

lemma commandProposed_beginDecision:
  "commandProposed (beginDecision s e k) \<longleftrightarrow> acceptedCommand s e k"
  by (auto simp: beginDecision_def Let_def acceptedCommand_def)

section \<open>The state before is kept\<close>

lemma startProgramRun_before: "cd_before (startProgramRun req r d) = cd_before d"
  by (simp add: startProgramRun_def Let_def split: option.split)

lemma decideProgramStart_before: "cd_before (decideProgramStart s req) = s"
  by (simp add: decideProgramStart_def Let_def startProgramRun_before require_defs)

lemma startManualRun_before: "cd_before (startManualRun req plan d) = cd_before d"
  by (simp add: startManualRun_def Let_def split: option.split)

lemma decideManualStart_before: "cd_before (decideManualStart s req) = s"
  by (simp add: decideManualStart_def Let_def startManualRun_before require_defs split: option.split)

lemma endRunCommand_before: "cd_before (endRunCommand ev snap e plan a c d) = cd_before d"
  by (simp add: endRunCommand_def Let_def split: option.split)

lemma decideStop_before: "cd_before (decideStop s req) = s"
  by (simp add: decideStop_def Let_def endRunCommand_before require_defs split: sum.split)

lemma decideCompletion_before: "cd_before (decideCompletion s req) = s"
  by (simp add: decideCompletion_def Let_def endRunCommand_before require_defs split: sum.split)

lemma adjustActiveRun_before: "cd_before (adjustActiveRun s run req rd d) = cd_before d"
  by (simp add: adjustActiveRun_def Let_def split: option.split prod.split)

lemma decideRunAdjustment_before: "cd_before (decideRunAdjustment s req) = s"
  by (simp add: decideRunAdjustment_def Let_def adjustActiveRun_before require_defs split: option.split)

lemma correctRecoveryTime_before: "cd_before (correctRecoveryTime req l u d) = cd_before d"
  by (simp add: correctRecoveryTime_def Let_def)

lemma decideApplyRecoveryTimeCorrection_before:
  "cd_before (decideApplyRecoveryTimeCorrection s req) = s"
  by (simp add: decideApplyRecoveryTimeCorrection_def Let_def correctRecoveryTime_before require_defs
      split: option.split)

lemma updateMessage_before: "cd_before (updateMessage f g e i d) = cd_before d"
  by (simp add: updateMessage_def Let_def split: option.split)

lemma decideMessageCommand_before: "cd_before (decideMessageCommand k f g e s req) = s"
  by (simp add: decideMessageCommand_def Let_def updateMessage_before require_defs)

lemma applySelectionTo_before: "cd_before (applySelectionTo req m d) = cd_before d"
  by (simp add: applySelectionTo_def Let_def split: option.split)

lemma judgeSelection_before: "cd_before (judgeSelection req m d) = cd_before d"
  by (simp add: judgeSelection_def Let_def applySelectionTo_before split: SensorSelectionApplyStatus.split)

lemma decideApplySensorSelectionAction_before:
  "cd_before (decideApplySensorSelectionAction s req p) = s"
  by (simp add: decideApplySensorSelectionAction_def Let_def judgeSelection_before require_defs)

lemmas decide_before =
  decideProgramStart_before decideManualStart_before decideStop_before decideCompletion_before
  decideRunAdjustment_before decideApplyRecoveryTimeCorrection_before decideMessageCommand_before
  decideApplySensorSelectionAction_before

end
