(* ===== verification/RunCommandOutcomes.thy ===== *)
theory RunCommandOutcomes
  imports RunCommandProofs
begin

text \<open>
  What a proposed decision of each command is: the conditions under which it is proposed, and the
  state that it proposes.
\<close>

section \<open>Bookkeeping\<close>

text \<open>A candidate with the command recorded.\<close>

definition recorded :: "RunCommandState \<Rightarrow> CommandEnvelope \<Rightarrow> RunCommandState \<Rightarrow> RunCommandState" where
  "recorded s envelope candidate =
     (rememberProcessedCommand (candidate\<lparr>rcs_commandSequence := rcs_commandSequence s + 1\<rparr>)
        (cen_id envelope))\<lparr>rcs_lastCommandMonotonicMillis := cen_monotonicMillis envelope\<rparr>"

lemma beginMutation_after:
  "cd_after (beginMutation d) = recorded (cd_before d) (cd_envelope d) (cd_after d)"
  by (simp add: beginMutation_def recorded_def)

text \<open>The part of the state that belongs to the run and the messages, without the bookkeeping of the
  commands.\<close>

definition bookless :: "RunCommandState \<Rightarrow> RunCommandState" where
  "bookless s = s\<lparr>rcs_commandSequence := 0, rcs_lastCommandMonotonicMillis := 0,
     rcs_processedCommandIds := [], rcs_processedCommandCount := 0\<rparr>"

lemma rememberProcessedCommand_sel [simp]:
  "rcs_processState (rememberProcessedCommand s i) = rcs_processState s"
  "rcs_activeProgramRun (rememberProcessedCommand s i) = rcs_activeProgramRun s"
  "rcs_activeManualRun (rememberProcessedCommand s i) = rcs_activeManualRun s"
  "rcs_processRunSnapshot (rememberProcessedCommand s i) = rcs_processRunSnapshot s"
  "rcs_actuatorPlannerParametersSnapshot (rememberProcessedCommand s i) =
     rcs_actuatorPlannerParametersSnapshot s"
  "rcs_activeRunId (rememberProcessedCommand s i) = rcs_activeRunId s"
  "rcs_activeRunSensorMode (rememberProcessedCommand s i) = rcs_activeRunSensorMode s"
  "rcs_sensorSelection (rememberProcessedCommand s i) = rcs_sensorSelection s"
  "rcs_sensorSelectionRuntime (rememberProcessedCommand s i) = rcs_sensorSelectionRuntime s"
  "rcs_runRevision (rememberProcessedCommand s i) = rcs_runRevision s"
  "rcs_messages (rememberProcessedCommand s i) = rcs_messages s"
  "rcs_messageCount (rememberProcessedCommand s i) = rcs_messageCount s"
  "rcs_messageRevision (rememberProcessedCommand s i) = rcs_messageRevision s"
  "rcs_faultRevision (rememberProcessedCommand s i) = rcs_faultRevision s"
  "rcs_criticalSafetyEventPending (rememberProcessedCommand s i) = rcs_criticalSafetyEventPending s"
  "rcs_commandSequence (rememberProcessedCommand s i) = rcs_commandSequence s"
  "rcs_lastCommandMonotonicMillis (rememberProcessedCommand s i) = rcs_lastCommandMonotonicMillis s"
  "rcs_pendingRecoveryAnchor (rememberProcessedCommand s i) = rcs_pendingRecoveryAnchor s"
  "rcs_priorBootPhaseElapsed (rememberProcessedCommand s i) = rcs_priorBootPhaseElapsed s"
  "rcs_nominalRecoveryAdjustment (rememberProcessedCommand s i) = rcs_nominalRecoveryAdjustment s"
  "rcs_recoveryEpisodeRevision (rememberProcessedCommand s i) = rcs_recoveryEpisodeRevision s"
  "rcs_runProgress (rememberProcessedCommand s i) = rcs_runProgress s"
  by (simp_all add: rememberProcessedCommand_def Let_def)

lemma recorded_sel [simp]:
  "rcs_processState (recorded s e c) = rcs_processState c"
  "rcs_activeProgramRun (recorded s e c) = rcs_activeProgramRun c"
  "rcs_activeManualRun (recorded s e c) = rcs_activeManualRun c"
  "rcs_processRunSnapshot (recorded s e c) = rcs_processRunSnapshot c"
  "rcs_actuatorPlannerParametersSnapshot (recorded s e c) = rcs_actuatorPlannerParametersSnapshot c"
  "rcs_activeRunId (recorded s e c) = rcs_activeRunId c"
  "rcs_activeRunSensorMode (recorded s e c) = rcs_activeRunSensorMode c"
  "rcs_sensorSelection (recorded s e c) = rcs_sensorSelection c"
  "rcs_sensorSelectionRuntime (recorded s e c) = rcs_sensorSelectionRuntime c"
  "rcs_runRevision (recorded s e c) = rcs_runRevision c"
  "rcs_messages (recorded s e c) = rcs_messages c"
  "rcs_messageCount (recorded s e c) = rcs_messageCount c"
  "rcs_messageRevision (recorded s e c) = rcs_messageRevision c"
  "rcs_faultRevision (recorded s e c) = rcs_faultRevision c"
  "rcs_criticalSafetyEventPending (recorded s e c) = rcs_criticalSafetyEventPending c"
  "rcs_commandSequence (recorded s e c) = rcs_commandSequence s + 1"
  "rcs_lastCommandMonotonicMillis (recorded s e c) = cen_monotonicMillis e"
  "rcs_pendingRecoveryAnchor (recorded s e c) = rcs_pendingRecoveryAnchor c"
  "rcs_priorBootPhaseElapsed (recorded s e c) = rcs_priorBootPhaseElapsed c"
  "rcs_nominalRecoveryAdjustment (recorded s e c) = rcs_nominalRecoveryAdjustment c"
  "rcs_recoveryEpisodeRevision (recorded s e c) = rcs_recoveryEpisodeRevision c"
  "rcs_runProgress (recorded s e c) = rcs_runProgress c"
  by (simp_all add: recorded_def)

text \<open>The ids of the processed commands that are in use.\<close>

definition processedIds :: "RunCommandState \<Rightarrow> u64 list" where
  "processedIds s = take (rcs_processedCommandCount s) (rcs_processedCommandIds s)"

definition idWindow :: "RunCommandState \<Rightarrow> bool" where
  "idWindow s \<longleftrightarrow> length (rcs_processedCommandIds s) = kMaximumProcessedCommandIds \<and>
     rcs_processedCommandCount s \<le> kMaximumProcessedCommandIds"

text \<open>The ids that are kept are the last ones of all ids.\<close>

definition lastIds :: "u64 list \<Rightarrow> u64 list" where
  "lastIds ids = drop (length ids - kMaximumProcessedCommandIds) ids"

lemma containsProcessedCommand_iff: "containsProcessedCommand s i \<longleftrightarrow> i \<in> set (processedIds s)"
  by (simp add: containsProcessedCommand_def processedIds_def)

lemma take_update_Suc: "n < length xs \<Longrightarrow> take (Suc n) (xs[n := x]) = take n xs @ [x]"
  by (simp add: take_Suc_conv_app_nth)

lemma remember_window:
  assumes "idWindow s"
  shows "idWindow (rememberProcessedCommand s i)"
    and "processedIds (rememberProcessedCommand s i) = lastIds (processedIds s @ [i])"
proof -
  have n: "0 < kMaximumProcessedCommandIds" by (simp add: kMaximumProcessedCommandIds_def)
  show "idWindow (rememberProcessedCommand s i)"
    using assms n by (auto simp: idWindow_def rememberProcessedCommand_def Let_def)
  show "processedIds (rememberProcessedCommand s i) = lastIds (processedIds s @ [i])"
  proof (cases "rcs_processedCommandCount s < kMaximumProcessedCommandIds")
    case True
    with assms show ?thesis
      by (simp add: idWindow_def processedIds_def lastIds_def rememberProcessedCommand_def Let_def
          take_update_Suc)
  next
    case False
    with assms have c: "rcs_processedCommandCount s = length (rcs_processedCommandIds s)"
      "length (rcs_processedCommandIds s) = kMaximumProcessedCommandIds"
      by (auto simp: idWindow_def)
    with n have "length (tl (rcs_processedCommandIds s) @ [i]) = kMaximumProcessedCommandIds"
      by simp
    moreover have "tl (rcs_processedCommandIds s) = drop 1 (rcs_processedCommandIds s)"
      by (simp add: drop_Suc)
    ultimately show ?thesis
      using c n by (simp add: processedIds_def lastIds_def rememberProcessedCommand_def Let_def
          del: append_assoc)
  qed
qed

lemma lastIds_snoc: "i \<in> set (lastIds (ids @ [i]))"
  by (simp add: lastIds_def kMaximumProcessedCommandIds_def)

lemma lastIds_lastIds: "lastIds (lastIds ids @ [i]) = lastIds (ids @ [i])"
proof (cases "length ids < kMaximumProcessedCommandIds")
  case True
  then show ?thesis by (simp add: lastIds_def)
next
  case False
  then have "Suc (length ids - 32) = length ids - 31"
    by (simp add: kMaximumProcessedCommandIds_def)
  with False show ?thesis by (simp add: lastIds_def kMaximumProcessedCommandIds_def)
qed

text \<open>A candidate whose bookkeeping is still that of the state.\<close>

definition sameBooks :: "RunCommandState \<Rightarrow> RunCommandState \<Rightarrow> bool" where
  "sameBooks s c \<longleftrightarrow> rcs_processedCommandIds c = rcs_processedCommandIds s \<and>
     rcs_processedCommandCount c = rcs_processedCommandCount s \<and>
     rcs_faultRevision c = rcs_faultRevision s \<and>
     rcs_criticalSafetyEventPending c = rcs_criticalSafetyEventPending s"

lemma sameBooks_refl [simp]: "sameBooks s s" by (simp add: sameBooks_def)

lemma sameBooks_trans: "sameBooks s c \<Longrightarrow> sameBooks c c' \<Longrightarrow> sameBooks s c'"
  by (simp add: sameBooks_def)

lemma applyTransition_process:
  "applyTransition c ev t snap = Some c' \<Longrightarrow> \<exists>p. c' = c\<lparr>rcs_processState := p\<rparr>"
  by (auto simp: applyTransition_def Let_def split: if_splits)

lemma applyTransition_books: "applyTransition c ev t snap = Some c' \<Longrightarrow> sameBooks c c'"
  by (auto dest!: applyTransition_process simp: sameBooks_def)

lemma installManualRun_books: "installManualRun c e plan = Some c' \<Longrightarrow> sameBooks c c'"
  by (auto simp: installManualRun_def sameBooks_def dest!: applyTransition_books split: option.splits)

lemma installCoolingRun_books: "installCoolingRun c e plan = Some c' \<Longrightarrow> sameBooks c c'"
  by (auto simp: installCoolingRun_def dest: installManualRun_books split: option.splits)

lemma clearActiveRunState_books: "sameBooks c (clearActiveRunState c)"
  by (simp add: sameBooks_def clearActiveRunState_def)

lemma applySensorSelectionMutation_books: "sameBooks c (applySensorSelectionMutation c m)"
  by (simp add: sameBooks_def applySensorSelectionMutation_def Let_def split: option.split)

lemma roleChangeReset_process:
  "applySensorRoleChangeQualificationReset c t = Some c' \<Longrightarrow> \<exists>p. c' = c\<lparr>rcs_processState := p\<rparr>"
  by (fastforce simp: applySensorRoleChangeQualificationReset_def Let_def
      split: if_splits option.splits intro: exI [of _ "rcs_processState c"])

lemma restartFermentingTimer_books: "sameBooks c (restartFermentingTimer t c)"
  by (simp add: sameBooks_def restartFermentingTimer_def Let_def split: option.split)

lemma foldObservedBefore_books: "foldObservedBefore s b t c = Some c' \<Longrightarrow> sameBooks c c'"
  by (auto simp: sameBooks_def foldObservedBefore_def foldObservedRunSeconds_def Let_def
      split: if_splits option.splits)

lemma adjustRunIn_books: "adjustRunIn rd v t c = Some (c', x) \<Longrightarrow> sameBooks c c'"
  by (auto simp: sameBooks_def adjustRunIn_def Let_def dest!: applyTransition_books
      split: if_splits option.splits prod.splits)

section \<open>Recorded decisions\<close>

text \<open>A decision that, if it is proposed, answers an accepted command and records it.\<close>

definition recordedDecision :: "RunCommandState \<Rightarrow> CommandDecision \<Rightarrow> bool" where
  "recordedDecision s d \<longleftrightarrow> cd_before d = s \<and>
     (if commandProposed d then
        acceptedCommand s (cd_envelope d) (cd_kind d) \<and>
        rcs_commandSequence (cd_after d) = rcs_commandSequence s + 1 \<and>
        rcs_lastCommandMonotonicMillis (cd_after d) = cen_monotonicMillis (cd_envelope d) \<and>
        rcs_faultRevision (cd_after d) = rcs_faultRevision s \<and>
        rcs_criticalSafetyEventPending (cd_after d) = rcs_criticalSafetyEventPending s \<and>
        (let r = rememberProcessedCommand s (cen_id (cd_envelope d)) in
           rcs_processedCommandIds (cd_after d) = rcs_processedCommandIds r \<and>
           rcs_processedCommandCount (cd_after d) = rcs_processedCommandCount r)
      else cd_after d = s)"

lemma recorded_ids:
  "sameBooks s c \<Longrightarrow>
   rcs_processedCommandIds (recorded s e c) =
     rcs_processedCommandIds (rememberProcessedCommand s (cen_id e)) \<and>
   rcs_processedCommandCount (recorded s e c) =
     rcs_processedCommandCount (rememberProcessedCommand s (cen_id e))"
  by (auto simp: recorded_def rememberProcessedCommand_def Let_def sameBooks_def)

section \<open>The start commands\<close>

lemma commandProposed_require [simp]:
  "commandProposed (requireRunRevision d) \<longleftrightarrow>
     commandProposed d \<and> cen_expectedRunRevision (cd_envelope d) = Some (rcs_runRevision (cd_before d))"
  "commandProposed (requireRecoveryEpisodeRevision d) \<longleftrightarrow> commandProposed d \<and>
     cen_expectedRecoveryEpisodeRevision (cd_envelope d) = Some (rcs_recoveryEpisodeRevision (cd_before d))"
  "commandProposed (requireMessageRevision d) \<longleftrightarrow> commandProposed d \<and>
     cen_expectedMessageRevision (cd_envelope d) = Some (rcs_messageRevision (cd_before d))"
  by (simp_all add: require_defs)

lemma require_sel [simp]:
  "cd_before (requireRunRevision d) = cd_before d" "cd_after (requireRunRevision d) = cd_after d"
  "cd_kind (requireRunRevision d) = cd_kind d" "cd_envelope (requireRunRevision d) = cd_envelope d"
  "cd_effects (requireRunRevision d) = cd_effects d"
  "cd_before (requireRecoveryEpisodeRevision d) = cd_before d"
  "cd_after (requireRecoveryEpisodeRevision d) = cd_after d"
  "cd_kind (requireRecoveryEpisodeRevision d) = cd_kind d"
  "cd_envelope (requireRecoveryEpisodeRevision d) = cd_envelope d"
  "cd_effects (requireRecoveryEpisodeRevision d) = cd_effects d"
  "cd_before (requireMessageRevision d) = cd_before d" "cd_after (requireMessageRevision d) = cd_after d"
  "cd_kind (requireMessageRevision d) = cd_kind d" "cd_envelope (requireMessageRevision d) = cd_envelope d"
  "cd_effects (requireMessageRevision d) = cd_effects d"
  by (simp_all add: require_defs)

text \<open>The state in which a program run has been started.\<close>

definition programRunStarted ::
  "RunCommandState \<Rightarrow> ProgramStartRequest \<Rightarrow> ProgramStartSensorResolution \<Rightarrow> ActiveRun \<Rightarrow>
     ProcessRunSnapshot \<Rightarrow> ProcessRuntimeState \<Rightarrow> RunCommandState" where
  "programRunStarted s req r run snapshot p =
     (let a = recorded s (psr_envelope req)
            (s\<lparr>rcs_activeProgramRun := Some run, rcs_processState := p,
               rcs_activeRunId := psr_runId req,
               rcs_activeRunSensorMode := Some (pss_effectiveMode r), rcs_activeManualRun := None,
               rcs_processRunSnapshot := Some snapshot\<rparr>);
          a = a\<lparr>rcs_runRevision := rcs_runRevision s + 1\<rparr>;
          out = startSensorSelectionOutcome (pss_effectiveMode r) (pss_substituted r)
            (psr_productSensorValid req) (psr_airSensorValid req) (psr_coolingSensorValid req)
            (rcs_runRevision s + 1) in
      a\<lparr>rcs_sensorSelectionRuntime := sso_runtime out,
        rcs_sensorSelection := Some (sso_persisted out)\<rparr>)"

lemma applyTransition_eq:
  assumes "applyTransition c ev t snap = Some c'"
  shows "c' = c\<lparr>rcs_processState := rcs_processState c'\<rparr>"
proof -
  from applyTransition_process [OF assms] obtain p where "c' = c\<lparr>rcs_processState := p\<rparr>" by blast
  then show ?thesis by simp
qed

lemma startProgramRun_proposed:
  assumes "commandProposed (startProgramRun req r d)" and "cd_after d = cd_before d"
    and "cd_envelope d = psr_envelope req"
  obtains run snapshot c where "startRun (psr_program req) (psr_sourceProgramRevision req) = Some run"
    and "makeActiveRunProcessSnapshot run = Some snapshot"
    and "rcs_runRevision (cd_before d) \<noteq> u32_max" and "cen_confirmed (psr_envelope req)"
    and "applyTransition ((cd_before d)\<lparr>rcs_activeProgramRun := Some run\<rparr>) PE_StartRun
       (cen_monotonicMillis (psr_envelope req)) (Some snapshot) = Some c"
    and "cd_after (startProgramRun req r d) =
       programRunStarted (cd_before d) req r run snapshot (rcs_processState c)"
    and "cd_effects (startProgramRun req r d) = cd_effects d @ [CE_RunStarted]"
    and "cd_kind (startProgramRun req r d) = cd_kind d"
    and "cd_envelope (startProgramRun req r d) = cd_envelope d"
proof -
  note defs = startProgramRun_def Let_def
  from assms(1) obtain run where run: "startRun (psr_program req) (psr_sourceProgramRevision req) = Some run"
    by (auto simp: defs split: option.splits)
  with assms(1) obtain snapshot where snapshot: "makeActiveRunProcessSnapshot run = Some snapshot"
    by (auto simp: defs split: option.splits)
  from assms run snapshot have rev: "rcs_runRevision (cd_before d) \<noteq> u32_max"
    by (auto simp: defs split: if_splits)
  from assms run snapshot obtain c where
    c: "applyTransition ((cd_before d)\<lparr>rcs_activeProgramRun := Some run\<rparr>) PE_StartRun
       (cen_monotonicMillis (psr_envelope req)) (Some snapshot) = Some c"
    by (auto simp: defs split: if_splits option.splits)
  from assms run snapshot c have confirmed: "cen_confirmed (psr_envelope req)"
    by (auto simp: defs split: if_splits)
  from applyTransition_eq [OF c] have ceq: "c = (cd_before d)
      \<lparr>rcs_activeProgramRun := Some run, rcs_processState := rcs_processState c\<rparr>" by simp
  have "cd_after (startProgramRun req r d) =
      programRunStarted (cd_before d) req r run snapshot (rcs_processState c)"
    using assms run snapshot rev c confirmed
    by (subst (asm) ceq) (auto simp: defs programRunStarted_def beginMutation_after withStartOutcome_def
        incrementRunRevision_def split: if_splits)
  moreover have "cd_effects (startProgramRun req r d) = cd_effects d @ [CE_RunStarted] \<and>
      cd_kind (startProgramRun req r d) = cd_kind d \<and>
      cd_envelope (startProgramRun req r d) = cd_envelope d"
    using assms run snapshot rev c confirmed
    by (auto simp: defs addEffect_effects split: if_splits)
  ultimately show ?thesis using that run snapshot rev c confirmed by blast
qed

text \<open>What a start requires of the state and of the sensors.\<close>

definition startAllowed :: "RunCommandState \<Rightarrow> bool \<Rightarrow> bool \<Rightarrow> bool \<Rightarrow> bool" where
  "startAllowed s safetyAllowsStart airSensorValid coolingSensorValid \<longleftrightarrow>
     safetyAllowsStart \<and> rt_state (rcs_processState s) = PS_Standby \<and>
     rcs_activeProgramRun s = None \<and> rcs_activeManualRun s = None \<and>
     airSensorValid \<and> coolingSensorValid"

lemma decideProgramStart_proposed:
  assumes "commandProposed (decideProgramStart s req)"
  obtains run snapshot c where "acceptedCommand s (psr_envelope req) CK_StartProgram"
    and "cen_expectedRunRevision (psr_envelope req) = Some (rcs_runRevision s)"
    and "startAllowed s (psr_safetyAllowsStart req) (psr_airSensorValid req) (psr_coolingSensorValid req)"
    and "validRunId (psr_runId req)" and "validSensorMode (psr_sensorMode req)"
    and "pss_valid (resolveStartMode req)"
    and "startRun (psr_program req) (psr_sourceProgramRevision req) = Some run"
    and "makeActiveRunProcessSnapshot run = Some snapshot"
    and "rcs_runRevision s \<noteq> u32_max" and "cen_confirmed (psr_envelope req)"
    and "applyTransition (s\<lparr>rcs_activeProgramRun := Some run\<rparr>) PE_StartRun
       (cen_monotonicMillis (psr_envelope req)) (Some snapshot) = Some c"
    and "cd_after (decideProgramStart s req) =
       programRunStarted s req (resolveStartMode req) run snapshot (rcs_processState c)"
    and "cd_effects (decideProgramStart s req) = [CE_RunStarted]"
    and "cd_kind (decideProgramStart s req) = CK_StartProgram"
    and "cd_envelope (decideProgramStart s req) = psr_envelope req"
proof -
  define d where "d = requireRunRevision (beginDecision s (psr_envelope req) CK_StartProgram)"
  note defs = decideProgramStart_def Let_def d_def [symmetric]
  have d: "cd_before d = s" "cd_after d = s" "cd_envelope d = psr_envelope req"
    "cd_kind d = CK_StartProgram" "cd_effects d = []"
    by (simp_all add: d_def)
  from assms have c: "commandProposed d" "psr_safetyAllowsStart req"
    "rt_state (rcs_processState s) = PS_Standby" "rcs_activeProgramRun s = None"
    "rcs_activeManualRun s = None" "validRunId (psr_runId req)" "validSensorMode (psr_sensorMode req)"
    "psr_airSensorValid req" "psr_coolingSensorValid req" "pss_valid (resolveStartMode req)"
    by (auto simp: defs split: if_splits)
  then have eq: "decideProgramStart s req = restoreRejectedAfter (startProgramRun req (resolveStartMode req) d)"
    by (simp add: defs)
  with assms have p: "commandProposed (startProgramRun req (resolveStartMode req) d)" by simp
  from c(1) have a: "acceptedCommand s (psr_envelope req) CK_StartProgram"
    "cen_expectedRunRevision (psr_envelope req) = Some (rcs_runRevision s)"
    by (simp_all add: d_def commandProposed_beginDecision)
  have allowed: "startAllowed s (psr_safetyAllowsStart req) (psr_airSensorValid req) (psr_coolingSensorValid req)"
    using c by (simp add: startAllowed_def)
  show ?thesis
    by (rule startProgramRun_proposed [OF p]) (use d a allowed c p eq in \<open>auto intro: that\<close>)
qed

text \<open>The state in which a manual run has been installed, and started.\<close>

definition manualRunInstalled ::
  "RunCommandState \<Rightarrow> ManualRunPlan \<Rightarrow> ProcessRunSnapshot \<Rightarrow> ProcessRuntimeState \<Rightarrow> RunCommandState" where
  "manualRunInstalled c plan snapshot p =
     c\<lparr>rcs_processState := p, rcs_activeProgramRun := None,
       rcs_activeRunId := mpr_runId (mpl_values plan),
       rcs_activeRunSensorMode := Some (mpr_sensorMode (mpl_values plan)),
       rcs_activeManualRun := Some plan, rcs_processRunSnapshot := Some snapshot\<rparr>"

lemma installManualRun_eq:
  assumes "installManualRun c e plan = Some c'"
  obtains snapshot c0 where "makeManualProcessSnapshot plan = Some snapshot"
    and "applyTransition c PE_StartRun (cen_monotonicMillis e) (Some snapshot) = Some c0"
    and "c' = manualRunInstalled c plan snapshot (rcs_processState c0)"
proof -
  from assms obtain snapshot where snap: "makeManualProcessSnapshot plan = Some snapshot"
    by (auto simp: installManualRun_def split: option.splits)
  with assms obtain c0 where
    c0: "applyTransition c PE_StartRun (cen_monotonicMillis e) (Some snapshot) = Some c0"
    by (auto simp: installManualRun_def split: option.splits)
  have "c' = manualRunInstalled c0 plan snapshot (rcs_processState c0)"
    using assms snap c0 by (auto simp: installManualRun_def manualRunInstalled_def)
  also have "\<dots> = manualRunInstalled c plan snapshot (rcs_processState c0)"
    by (subst (1) applyTransition_eq [OF c0]) (simp add: manualRunInstalled_def)
  finally show ?thesis using that snap c0 by blast
qed

text \<open>The run revision and the sensor selection that follow a started manual or cooling run.\<close>

definition runCounted :: "RunCommandState \<Rightarrow> CommandEnvelope \<Rightarrow> RunCommandState \<Rightarrow> RunCommandState" where
  "runCounted s e c = (recorded s e c)\<lparr>rcs_runRevision := rcs_runRevision c + 1\<rparr>"

lemma count_after:
  "cd_after (incrementRunRevision (beginMutation d)) = runCounted (cd_before d) (cd_envelope d) (cd_after d)"
  by (simp add: incrementRunRevision_def beginMutation_after runCounted_def)

definition withOutcome :: "StartSensorSelectionOutcome \<Rightarrow> RunCommandState \<Rightarrow> RunCommandState" where
  "withOutcome out c = c\<lparr>rcs_sensorSelectionRuntime := sso_runtime out,
     rcs_sensorSelection := Some (sso_persisted out)\<rparr>"

lemma withStartOutcome_after: "cd_after (withStartOutcome out d) = withOutcome out (cd_after d)"
  by (simp add: withStartOutcome_def withOutcome_def)

lemma decideManualStart_proposed:
  assumes "commandProposed (decideManualStart s req)"
  obtains plan c where "acceptedCommand s (msr_envelope req) CK_StartManualHolding"
    and "cen_expectedRunRevision (msr_envelope req) = Some (rcs_runRevision s)"
    and "startAllowed s (msr_safetyAllowsStart req) (msr_airSensorValid req) (msr_coolingSensorValid req)"
    and "makeManualPlan (msr_plan req) (msr_envelope req) = Some plan"
    and "rcs_runRevision s \<noteq> u32_max" and "cen_confirmed (msr_envelope req)"
    and "installManualRun s (msr_envelope req) plan = Some c"
    and "cd_after (decideManualStart s req) =
       withOutcome (startSensorSelectionOutcome (mpr_sensorMode (msr_plan req)) False
           (msr_productSensorValid req) (msr_airSensorValid req) (msr_coolingSensorValid req)
           (rcs_runRevision c + 1))
         (runCounted s (msr_envelope req) c)"
    and "cd_effects (decideManualStart s req) = [CE_ManualRunStarted, CE_RunStarted]"
    and "cd_kind (decideManualStart s req) = CK_StartManualHolding"
    and "cd_envelope (decideManualStart s req) = msr_envelope req"
proof -
  define d where "d = requireRunRevision (beginDecision s (msr_envelope req) CK_StartManualHolding)"
  note defs = decideManualStart_def Let_def d_def [symmetric]
  have d: "cd_before d = s" "cd_after d = s" "cd_envelope d = msr_envelope req"
    "cd_kind d = CK_StartManualHolding" "cd_effects d = []"
    by (simp_all add: d_def)
  from assms have c: "commandProposed d" "msr_safetyAllowsStart req"
    "rt_state (rcs_processState s) = PS_Standby" "rcs_activeProgramRun s = None"
    "rcs_activeManualRun s = None"
    by (auto simp: defs split: if_splits)
  with assms obtain plan where plan: "makeManualPlan (msr_plan req) (msr_envelope req) = Some plan"
    by (auto simp: defs split: option.splits)
  with assms c have v: "msr_airSensorValid req" "msr_coolingSensorValid req"
    by (auto simp: defs split: if_splits)
  with c plan have eq: "decideManualStart s req = restoreRejectedAfter (startManualRun req plan d)"
    by (simp add: defs)
  with assms have p: "commandProposed (startManualRun req plan d)" by simp
  with d have rev: "rcs_runRevision s \<noteq> u32_max"
    by (auto simp: startManualRun_def Let_def split: if_splits)
  with p d obtain c' where c': "installManualRun s (msr_envelope req) plan = Some c'"
    by (auto simp: startManualRun_def Let_def split: if_splits option.splits)
  with p d rev have confirmed: "cen_confirmed (msr_envelope req)"
    by (auto simp: startManualRun_def Let_def split: if_splits)
  have after: "cd_after (startManualRun req plan d) =
       withOutcome (startSensorSelectionOutcome (mpr_sensorMode (msr_plan req)) False
           (msr_productSensorValid req) (msr_airSensorValid req) (msr_coolingSensorValid req)
           (rcs_runRevision c' + 1))
         (runCounted s (msr_envelope req) c') \<and>
       cd_effects (startManualRun req plan d) = [CE_ManualRunStarted, CE_RunStarted] \<and>
       cd_kind (startManualRun req plan d) = CK_StartManualHolding \<and>
       cd_envelope (startManualRun req plan d) = msr_envelope req"
    using p d rev c' confirmed c(1)
    by (auto simp: startManualRun_def Let_def count_after withStartOutcome_after addEffect_effects
        runCounted_def kMaximumCommandEffects_def split: if_splits)
  from c(1) have a: "acceptedCommand s (msr_envelope req) CK_StartManualHolding"
    "cen_expectedRunRevision (msr_envelope req) = Some (rcs_runRevision s)"
    by (simp_all add: d_def commandProposed_beginDecision)
  have "startAllowed s (msr_safetyAllowsStart req) (msr_airSensorValid req) (msr_coolingSensorValid req)"
    using c v by (simp add: startAllowed_def)
  with that a plan rev confirmed c' after p eq show ?thesis by simp
qed

section \<open>The commands that end a run\<close>

text \<open>The state after the end of a run: cleared, with the cooling run if one is asked for.\<close>

definition coolingOutcome :: "bool \<Rightarrow> bool \<Rightarrow> ManualRunPlan option \<Rightarrow> RunCommandState \<Rightarrow> RunCommandState" where
  "coolingOutcome airValid coolingValid coolingPlan c =
     (case coolingPlan of
        None \<Rightarrow> c
      | Some plan \<Rightarrow>
          withOutcome (startSensorSelectionOutcome (mpr_sensorMode (mpl_values plan)) False False
            airValid coolingValid (rcs_runRevision c)) c)"

lemma installCoolingRun_manual:
  assumes "installCoolingRun (clearActiveRunState c) e plan = Some c'"
  shows "rcs_activeManualRun c' = plan"
proof (cases plan)
  case None
  with assms show ?thesis by (auto simp: installCoolingRun_def clearActiveRunState_def)
next
  case (Some p)
  with assms have "installManualRun (clearActiveRunState c) e p = Some c'"
    by (simp add: installCoolingRun_def)
  then show ?thesis
    by (rule installManualRun_eq) (simp add: manualRunInstalled_def Some)
qed

lemma endRunCommand_proposed:
  assumes "commandProposed (endRunCommand ev snap e plan a co d)" and "cd_after d = cd_before d"
    and "cd_envelope d = e"
  obtains c0 c where "commandProposed d" and "rcs_runRevision (cd_before d) \<noteq> u32_max"
    and "cen_confirmed e"
    and "applyTransition (cd_before d) ev (cen_monotonicMillis e) snap = Some c0"
    and "installCoolingRun (clearActiveRunState c0) e plan = Some c"
    and "cd_after (endRunCommand ev snap e plan a co d) =
       coolingOutcome a co plan (runCounted (cd_before d) e c)"
    and "cd_effects (endRunCommand ev snap e plan a co d) = cd_effects d"
    and "cd_kind (endRunCommand ev snap e plan a co d) = cd_kind d"
    and "cd_envelope (endRunCommand ev snap e plan a co d) = e"
proof -
  note defs = endRunCommand_def Let_def
  from assms have r: "commandProposed d" "rcs_runRevision (cd_before d) \<noteq> u32_max"
    by (auto simp: defs split: if_splits)
  with assms obtain c0 where
    c0: "applyTransition (cd_before d) ev (cen_monotonicMillis e) snap = Some c0"
    by (auto simp: defs split: option.splits)
  with assms r obtain c where c: "installCoolingRun (clearActiveRunState c0) e plan = Some c"
    by (auto simp: defs split: option.splits)
  with assms r c0 have confirmed: "cen_confirmed e"
    by (auto simp: defs split: if_splits)
  have m: "rcs_activeManualRun (runCounted s e c) = plan" for s
    using installCoolingRun_manual [OF c] by (simp add: runCounted_def)
  have "cd_after (endRunCommand ev snap e plan a co d) =
       coolingOutcome a co plan (runCounted (cd_before d) e c)"
    using assms r c0 c confirmed m [of "cd_before d"]
    by (cases plan) (simp_all add: defs coolingRunOutcome_def coolingOutcome_def count_after
        withStartOutcome_after)
  moreover have "cd_effects (endRunCommand ev snap e plan a co d) = cd_effects d \<and>
      cd_kind (endRunCommand ev snap e plan a co d) = cd_kind d \<and>
      cd_envelope (endRunCommand ev snap e plan a co d) = e"
    using assms r c0 c confirmed by (simp add: defs)
  ultimately show ?thesis using that r c0 c confirmed by blast
qed

lemma coolingPlanFor_Inr:
  assumes "coolingPlanFor wanted safety plan e = Inr p"
  shows "(wanted = (p \<noteq> None)) \<and>
    (wanted \<longrightarrow> safety \<and> (\<exists>q. plan = Some q \<and> makeManualPlan q e = p))"
proof (cases wanted)
  case True
  with assms have safety by (auto simp: coolingPlanFor_def split: if_splits)
  with assms True obtain q where q: "plan = Some q"
    by (auto simp: coolingPlanFor_def split: option.splits)
  with assms True \<open>safety\<close> obtain r where "makeManualPlan q e = Some r" "p = Some r"
    by (auto simp: coolingPlanFor_def split: option.splits)
  with True \<open>safety\<close> q show ?thesis by simp
next
  case False
  with assms show ?thesis by (auto simp: coolingPlanFor_def)
qed

lemma coolingPlanFor_not_proposed: "coolingPlanFor wanted safety plan e \<noteq> Inl CST_Proposed"
  by (simp add: coolingPlanFor_def split: option.split)

lemma decideStop_proposed:
  assumes "commandProposed (decideStop s req)"
  obtains plan c0 c where "acceptedCommand s (str_envelope req)
      (if str_option req = SO_AbortAndCool then CK_AbortAndCool else CK_AbortAndTurnOff)"
    and "cen_expectedRunRevision (str_envelope req) = Some (rcs_runRevision s)"
    and "str_option req = SO_AbortAndTurnOff \<or> str_option req = SO_AbortAndCool"
    and "activeProcessState (rt_state (rcs_processState s))" and "rcs_processRunSnapshot s \<noteq> None"
    and "coolingPlanFor (str_option req = SO_AbortAndCool) (str_safetyAllowsCooling req)
       (str_coolingPlan req) (str_envelope req) = Inr plan"
    and "rcs_runRevision s \<noteq> u32_max" and "cen_confirmed (str_envelope req)"
    and "applyTransition s PE_Abort (cen_monotonicMillis (str_envelope req))
       (rcs_processRunSnapshot s) = Some c0"
    and "installCoolingRun (clearActiveRunState c0) (str_envelope req) plan = Some c"
    and "cd_after (decideStop s req) = coolingOutcome (str_airSensorValid req)
       (str_coolingSensorValid req) plan (runCounted s (str_envelope req) c)"
    and "cd_effects (decideStop s req) =
       [CE_RunAborted, CE_SafePeltierStopRequested, CE_FanRunOnRequired] @
       (if plan \<noteq> None then [CE_ManualRunStarted, CE_RunStarted] else [])"
    and "cd_kind (decideStop s req) =
       (if str_option req = SO_AbortAndCool then CK_AbortAndCool else CK_AbortAndTurnOff)"
    and "cd_envelope (decideStop s req) = str_envelope req"
proof -
  define cool where "cool = (str_option req = SO_AbortAndCool)"
  define k where "k = (if cool then CK_AbortAndCool else CK_AbortAndTurnOff)"
  define b where "b = beginDecision s (str_envelope req) CK_AbortAndTurnOff"
  define d where "d = requireRunRevision (if cool then b\<lparr>cd_kind := CK_AbortAndCool\<rparr> else b)"
  define plans where "plans = coolingPlanFor cool (str_safetyAllowsCooling req)
      (str_coolingPlan req) (str_envelope req)"
  define ending where "ending plan = endRunCommand PE_Abort (rcs_processRunSnapshot s)
      (str_envelope req) plan (str_airSensorValid req) (str_coolingSensorValid req) d" for plan
  define es where "es = [CE_RunAborted, CE_SafePeltierStopRequested, CE_FanRunOnRequired] @
       (if cool then [CE_ManualRunStarted, CE_RunStarted] else [])"
  have defs: "decideStop s req = restoreRejectedAfter
      (if \<not> commandProposed b then b
       else if \<not> validStopOption (str_option req) then withStatus CST_InvalidInput b
       else if str_option req = SO_Back then withStatus CST_NoChange b
       else if \<not> commandProposed d then d
       else if \<not> activeProcessState (rt_state (rcs_processState s)) \<or> rcs_processRunSnapshot s = None
       then withStatus CST_NotAllowedInState d
       else case plans of Inl st \<Rightarrow> withStatus st d
         | Inr plan \<Rightarrow> if \<not> commandProposed (ending plan) then ending plan
             else addEffects es (ending plan))"
    by (simp only: decideStop_def Let_def b_def cool_def d_def plans_def ending_def es_def)
  have d: "cd_before d = s" "cd_after d = s" "cd_envelope d = str_envelope req" "cd_kind d = k"
    "cd_effects d = []"
    by (simp_all add: d_def b_def k_def)
  from assms have c: "commandProposed b" "validStopOption (str_option req)" "str_option req \<noteq> SO_Back"
    "commandProposed d" "activeProcessState (rt_state (rcs_processState s))"
    "rcs_processRunSnapshot s \<noteq> None"
    by (auto simp: defs split: if_splits)
  from assms c coolingPlanFor_not_proposed obtain plan where plan: "plans = Inr plan"
    by (auto simp: defs plans_def [symmetric] split: sum.splits) (metis plans_def)
  define x where "x = ending plan"
  have eq: "decideStop s req = restoreRejectedAfter
      (if \<not> commandProposed x then x else addEffects es x)"
    using c plan by (auto simp: defs x_def)
  with assms have p: "commandProposed x" by (auto dest: addEffects_proposed split: if_splits)
  from p d obtain c0 c' where e: "rcs_runRevision s \<noteq> u32_max" "cen_confirmed (str_envelope req)"
    "applyTransition s PE_Abort (cen_monotonicMillis (str_envelope req))
       (rcs_processRunSnapshot s) = Some c0"
    "installCoolingRun (clearActiveRunState c0) (str_envelope req) plan = Some c'"
    "cd_after x = coolingOutcome (str_airSensorValid req) (str_coolingSensorValid req) plan
       (runCounted s (str_envelope req) c')"
    "cd_effects x = []" "cd_kind x = k" "cd_envelope x = str_envelope req"
    unfolding x_def ending_def by (elim endRunCommand_proposed) auto
  have "length es \<le> kMaximumCommandEffects" by (simp add: es_def kMaximumCommandEffects_def)
  with addEffects_fit [OF p, of es] e have
    f: "commandProposed (addEffects es x)" "cd_effects (addEffects es x) = es" by simp_all
  from coolingPlanFor_Inr [OF plan [unfolded plans_def]] have "cool = (plan \<noteq> None)" by simp
  then have es: "es = [CE_RunAborted, CE_SafePeltierStopRequested, CE_FanRunOnRequired] @
       (if plan \<noteq> None then [CE_ManualRunStarted, CE_RunStarted] else [])"
    by (simp add: es_def)
  have opt: "str_option req = SO_AbortAndTurnOff \<or> str_option req = SO_AbortAndCool"
    using c by (cases "str_option req") (simp_all add: validStopOption_def)
  have acc: "acceptedCommand s (str_envelope req) k"
    using c(1) by (simp add: b_def commandProposed_beginDecision acceptedCommand_def
        isRunComfortCommand_def k_def)
  have rev: "cen_expectedRunRevision (str_envelope req) = Some (rcs_runRevision s)"
    using c(4) by (auto simp: d_def b_def split: if_splits)
  have after: "cd_after (decideStop s req) = cd_after x" "cd_effects (decideStop s req) = es"
    "cd_kind (decideStop s req) = k" "cd_envelope (decideStop s req) = str_envelope req"
    using p f e by (simp_all add: eq)
  show ?thesis
    by (rule that [of plan c0 c'])
      (use acc rev opt c plan e after es in \<open>simp_all add: k_def cool_def plans_def\<close>)
qed

lemma decideCompletion_proposed:
  assumes "commandProposed (decideCompletion s req)"
  obtains plan c0 c where "acceptedCommand s (cpr_envelope req)
      (if cpr_startCooling req then CK_CoolAfterCompletion else CK_AcknowledgeCompletion)"
    and "cen_expectedRunRevision (cpr_envelope req) = Some (rcs_runRevision s)"
    and "rt_state (rcs_processState s) = PS_Completed"
    and "coolingPlanFor (cpr_startCooling req) (cpr_safetyAllowsCooling req)
       (cpr_coolingPlan req) (cpr_envelope req) = Inr plan"
    and "rcs_runRevision s \<noteq> u32_max" and "cen_confirmed (cpr_envelope req)"
    and "applyTransition s PE_AcknowledgeCompletion (cen_monotonicMillis (cpr_envelope req)) None =
       Some c0"
    and "installCoolingRun (clearActiveRunState c0) (cpr_envelope req) plan = Some c"
    and "cd_after (decideCompletion s req) = coolingOutcome (cpr_airSensorValid req)
       (cpr_coolingSensorValid req) plan (runCounted s (cpr_envelope req) c)"
    and "cd_effects (decideCompletion s req) =
       CE_CompletionAcknowledged # (if plan \<noteq> None then [CE_ManualRunStarted, CE_RunStarted] else [])"
    and "cd_kind (decideCompletion s req) =
       (if cpr_startCooling req then CK_CoolAfterCompletion else CK_AcknowledgeCompletion)"
    and "cd_envelope (decideCompletion s req) = cpr_envelope req"
proof -
  define cool where "cool = cpr_startCooling req"
  define k where "k = (if cool then CK_CoolAfterCompletion else CK_AcknowledgeCompletion)"
  define d where "d = requireRunRevision (beginDecision s (cpr_envelope req) k)"
  define plans where "plans = coolingPlanFor cool (cpr_safetyAllowsCooling req)
      (cpr_coolingPlan req) (cpr_envelope req)"
  define ending where "ending plan = endRunCommand PE_AcknowledgeCompletion None
      (cpr_envelope req) plan (cpr_airSensorValid req) (cpr_coolingSensorValid req) d" for plan
  define es where "es = CE_CompletionAcknowledged #
       (if cool then [CE_ManualRunStarted, CE_RunStarted] else [])"
  have defs: "decideCompletion s req = restoreRejectedAfter
      (if \<not> commandProposed d then d
       else if rt_state (rcs_processState s) \<noteq> PS_Completed then withStatus CST_NotAllowedInState d
       else case plans of Inl st \<Rightarrow> withStatus st d
         | Inr plan \<Rightarrow> if \<not> commandProposed (ending plan) then ending plan
             else addEffects es (ending plan))"
    by (simp only: decideCompletion_def Let_def k_def cool_def d_def plans_def ending_def es_def)
  have d: "cd_before d = s" "cd_after d = s" "cd_envelope d = cpr_envelope req" "cd_kind d = k"
    "cd_effects d = []"
    by (simp_all add: d_def)
  from assms have c: "commandProposed d" "rt_state (rcs_processState s) = PS_Completed"
    by (auto simp: defs split: if_splits)
  from assms c coolingPlanFor_not_proposed obtain plan where plan: "plans = Inr plan"
    by (auto simp: defs plans_def [symmetric] split: sum.splits) (metis plans_def)
  define x where "x = ending plan"
  have eq: "decideCompletion s req = restoreRejectedAfter
      (if \<not> commandProposed x then x else addEffects es x)"
    using c plan by (auto simp: defs x_def)
  with assms have p: "commandProposed x" by (auto dest: addEffects_proposed split: if_splits)
  from p d obtain c0 c' where e: "rcs_runRevision s \<noteq> u32_max" "cen_confirmed (cpr_envelope req)"
    "applyTransition s PE_AcknowledgeCompletion (cen_monotonicMillis (cpr_envelope req)) None = Some c0"
    "installCoolingRun (clearActiveRunState c0) (cpr_envelope req) plan = Some c'"
    "cd_after x = coolingOutcome (cpr_airSensorValid req) (cpr_coolingSensorValid req) plan
       (runCounted s (cpr_envelope req) c')"
    "cd_effects x = []" "cd_kind x = k" "cd_envelope x = cpr_envelope req"
    unfolding x_def ending_def by (elim endRunCommand_proposed) auto
  have "length es \<le> kMaximumCommandEffects" by (simp add: es_def kMaximumCommandEffects_def)
  with addEffects_fit [OF p, of es] e have
    f: "commandProposed (addEffects es x)" "cd_effects (addEffects es x) = es" by simp_all
  from coolingPlanFor_Inr [OF plan [unfolded plans_def]] have es: "es = CE_CompletionAcknowledged #
       (if plan \<noteq> None then [CE_ManualRunStarted, CE_RunStarted] else [])"
    by (simp add: es_def)
  have acc: "acceptedCommand s (cpr_envelope req) k"
    "cen_expectedRunRevision (cpr_envelope req) = Some (rcs_runRevision s)"
    using c(1) by (simp_all add: d_def commandProposed_beginDecision)
  have after: "cd_after (decideCompletion s req) = cd_after x" "cd_effects (decideCompletion s req) = es"
    "cd_kind (decideCompletion s req) = k" "cd_envelope (decideCompletion s req) = cpr_envelope req"
    using p f e by (simp_all add: eq)
  show ?thesis
    by (rule that [of plan c0 c'])
      (use acc c plan e after es in \<open>simp_all add: k_def cool_def plans_def\<close>)
qed

section \<open>The commands on a running run\<close>

lemma mapAdjustmentStatus_proposed: "mapAdjustmentStatus st = CST_Proposed \<longleftrightarrow> st = RAS_Proposed"
  by (cases st) (simp_all add: mapAdjustmentStatus_def)

text \<open>Whether an adjustment restarts the timer of a running fermentation.\<close>

definition timerRestarts :: "RunCommandState \<Rightarrow> RunAdjustmentDecision \<Rightarrow> bool" where
  "timerRestarts s rd \<longleftrightarrow> rt_state (rcs_processState s) = PS_Fermenting \<and>
     (case rad_revision rd of None \<Rightarrow> False | Some r \<Rightarrow> rrv_remainingDurationChanged r)"

lemma adjustActiveRun_proposed:
  assumes "commandProposed (adjustActiveRun s run req rd d)" and "cd_after d = s" and "cd_before d = s"
    and "cd_envelope d = acr_envelope req" and "cd_effects d = []"
  obtains c0 c afterValues effect targetChanged where "rcs_runRevision s \<noteq> u32_max"
    and "cen_confirmed (acr_envelope req)"
    and "foldObservedBefore s (timerRestarts s rd) (cen_monotonicMillis (acr_envelope req)) s = Some c0"
    and "adjustRunIn rd (arn_effectiveValues run) (cen_monotonicMillis (acr_envelope req)) c0 =
       Some (c, afterValues, effect, targetChanged)"
    and "cd_after (adjustActiveRun s run req rd d) = runCounted s (acr_envelope req)
       (if timerRestarts s rd then restartFermentingTimer (cen_monotonicMillis (acr_envelope req)) c else c)"
    and "cd_effects (adjustActiveRun s run req rd d) = [CE_RunAdjusted]"
    and "cd_kind (adjustActiveRun s run req rd d) = cd_kind d"
    and "cd_envelope (adjustActiveRun s run req rd d) = acr_envelope req"
    and "cd_committedControlContextTransition (adjustActiveRun s run req rd d) =
       targetContextTransition targetChanged"
proof -
  define now where "now = cen_monotonicMillis (acr_envelope req)"
  define q where "q = requireRevisionCapacity (rcs_runRevision (cd_before d)) d"
  define finish where "finish v c effect targetChanged = (let q = q\<lparr>cd_committedControlContextTransition :=
           targetContextTransition targetChanged,
         cd_after := (if timerRestarts s rd then restartFermentingTimer now c else c)\<rparr> in
       if \<not> cen_confirmed (acr_envelope req) then withStatus CST_NotConfirmed q
       else addEffect CE_RunAdjusted ((incrementRunRevision (beginMutation q))
         \<lparr>cd_adjustmentPreview := Some
           \<lparr>rap_before = arn_effectiveValues run, rap_after = v, rap_phase = rt_state (rcs_processState s),
            rap_targetRequalificationRequired = (effect = RAE_RestartTargetQualification),
            rap_timerContinuesWithoutBiologicalCorrection =
              (effect = RAE_ContinueFermentationWithoutRequalification)\<rparr>\<rparr>))"
    for v c effect targetChanged
  have restarts: "((case rad_revision rd of None \<Rightarrow> False | Some r \<Rightarrow> rrv_remainingDurationChanged r) \<and>
      rt_state (rcs_processState s) = PS_Fermenting) = timerRestarts s rd"
    by (auto simp: timerRestarts_def)
  have defs: "adjustActiveRun s run req rd d =
      (if \<not> commandProposed q then q
       else case foldObservedBefore s (timerRestarts s rd) now (cd_after q) of
         None \<Rightarrow> withStatus CST_InvalidInput q
       | Some c0 \<Rightarrow> (case adjustRunIn rd (arn_effectiveValues run) now c0 of
           None \<Rightarrow> withStatus CST_InvalidInput q
         | Some (c, v, effect, targetChanged) \<Rightarrow> finish v c effect targetChanged))"
    by (simp only: adjustActiveRun_def Let_def restarts now_def q_def finish_def)
  have q: "cd_after q = s" "cd_before q = s" "cd_envelope q = acr_envelope req" "cd_effects q = []"
    "cd_kind q = cd_kind d"
    using assms by (simp_all add: q_def)
  from assms(1) have pq: "commandProposed q" by (auto simp: defs split: if_splits)
  with q assms have rev: "rcs_runRevision s \<noteq> u32_max" by (simp add: q_def)
  from assms(1) pq q obtain c0 where c0: "foldObservedBefore s (timerRestarts s rd) now s = Some c0"
    by (auto simp: defs split: option.splits)
  from assms(1) pq q c0 obtain c v effect targetChanged where
    c: "adjustRunIn rd (arn_effectiveValues run) now c0 = Some (c, v, effect, targetChanged)"
    by (auto simp: defs split: option.splits)
  have eq: "adjustActiveRun s run req rd d = finish v c effect targetChanged"
    using pq q c0 c by (simp add: defs)
  with assms(1) have confirmed: "cen_confirmed (acr_envelope req)"
    by (auto simp: finish_def Let_def split: if_splits)
  have "cd_after (finish v c effect targetChanged) = runCounted s (acr_envelope req)
       (if timerRestarts s rd then restartFermentingTimer now c else c)"
    using q confirmed by (simp add: finish_def Let_def count_after)
  moreover have "cd_effects (finish v c effect targetChanged) = [CE_RunAdjusted] \<and>
      cd_kind (finish v c effect targetChanged) = cd_kind d \<and>
      cd_envelope (finish v c effect targetChanged) = acr_envelope req"
    using q confirmed by (simp add: finish_def Let_def addEffect_effects kMaximumCommandEffects_def)
  moreover have "cd_committedControlContextTransition (finish v c effect targetChanged) =
      targetContextTransition targetChanged"
    using q confirmed by (simp add: finish_def Let_def addEffect_def beginMutation_def
        incrementRunRevision_def withStatus_def)
  ultimately show ?thesis using that rev confirmed c0 c eq unfolding now_def by simp
qed

lemma decideRunAdjustment_proposed:
  assumes "commandProposed (decideRunAdjustment s req)"
  obtains run rd c0 c afterValues effect targetChanged where
      "acceptedCommand s (acr_envelope req) CK_AdjustRun"
    and "cen_expectedRunRevision (acr_envelope req) = Some (rcs_runRevision s)"
    and "adjustmentAllowedIn (rt_state (rcs_processState s))" and "rcs_processRunSnapshot s \<noteq> None"
    and "rcs_activeProgramRun s = Some run"
    and "rd = decideAdjustment (adjustmentRequest req)
       (adjustmentContext (rt_state (rcs_processState s))) run"
    and "rad_status rd = RAS_Proposed" and "rcs_runRevision s \<noteq> u32_max"
    and "cen_confirmed (acr_envelope req)"
    and "foldObservedBefore s (timerRestarts s rd) (cen_monotonicMillis (acr_envelope req)) s = Some c0"
    and "adjustRunIn rd (arn_effectiveValues run) (cen_monotonicMillis (acr_envelope req)) c0 =
       Some (c, afterValues, effect, targetChanged)"
    and "cd_after (decideRunAdjustment s req) = runCounted s (acr_envelope req)
       (if timerRestarts s rd then restartFermentingTimer (cen_monotonicMillis (acr_envelope req)) c else c)"
    and "cd_effects (decideRunAdjustment s req) = [CE_RunAdjusted]"
    and "cd_kind (decideRunAdjustment s req) = CK_AdjustRun"
    and "cd_envelope (decideRunAdjustment s req) = acr_envelope req"
    and "cd_committedControlContextTransition (decideRunAdjustment s req) =
       targetContextTransition targetChanged"
proof -
  define d where "d = requireRunRevision (beginDecision s (acr_envelope req) CK_AdjustRun)"
  note defs = decideRunAdjustment_def Let_def d_def [symmetric]
  have d: "cd_before d = s" "cd_after d = s" "cd_envelope d = acr_envelope req"
    "cd_kind d = CK_AdjustRun" "cd_effects d = []"
    by (simp_all add: d_def)
  from assms have c: "commandProposed d" "adjustmentAllowedIn (rt_state (rcs_processState s))"
    "rcs_processRunSnapshot s \<noteq> None"
    by (auto simp: defs split: if_splits)
  with assms obtain run where run: "rcs_activeProgramRun s = Some run"
    by (auto simp: defs split: option.splits)
  define rd where "rd = decideAdjustment (adjustmentRequest req)
      (adjustmentContext (rt_state (rcs_processState s))) run"
  from assms c run have st: "rad_status rd = RAS_Proposed"
    by (auto simp: defs rd_def [symmetric] mapAdjustmentStatus_proposed split: if_splits)
  have eq: "decideRunAdjustment s req = restoreRejectedAfter (adjustActiveRun s run req rd d)"
    using c run st by (auto simp: defs rd_def [symmetric])
  with assms have p: "commandProposed (adjustActiveRun s run req rd d)" by simp
  have "cd_committedControlContextTransition (restoreRejectedAfter x) =
      cd_committedControlContextTransition x" for x
    by (simp add: restoreRejectedAfter_def)
  note eqs = eq this
  from c(1) have a: "acceptedCommand s (acr_envelope req) CK_AdjustRun"
    "cen_expectedRunRevision (acr_envelope req) = Some (rcs_runRevision s)"
    by (simp_all add: d_def commandProposed_beginDecision)
  show ?thesis
    by (rule adjustActiveRun_proposed [OF p d(2) d(1) d(3) d(5)], rule that [OF a c(2,3) run rd_def st])
      (use p d in \<open>simp_all add: eqs\<close>)
qed

lemma decideApplyRecoveryTimeCorrection_proposed:
  assumes "commandProposed (decideApplyRecoveryTimeCorrection s req)"
  obtains lower upper cumulative where
      "acceptedCommand s (rtr_envelope req) CK_ApplyRecoveryTimeCorrection"
    and "cen_expectedRunRevision (rtr_envelope req) = Some (rcs_runRevision s)"
    and "cen_expectedRecoveryEpisodeRevision (rtr_envelope req) = Some (rcs_recoveryEpisodeRevision s)"
    and "rt_state (rcs_processState s) = PS_Fermenting" and "cen_confirmed (rtr_envelope req)"
    and "effectivePriorElapsedForFermenting s =
       Some \<lparr>prior_lowerBoundSeconds = lower, prior_upperBoundSeconds = Some upper\<rparr>"
    and "cumulative = (case rcs_nominalRecoveryAdjustment s of None \<Rightarrow> 0
       | Some a \<Rightarrow> nra_cumulativeAppliedSeconds a)"
    and "rcs_nominalRecoveryAdjustment s \<noteq> None \<Longrightarrow>
       nra_lastAppliedEpisodeRevision (the (rcs_nominalRecoveryAdjustment s)) \<noteq>
         rcs_recoveryEpisodeRevision s"
    and "unat lower + unat cumulative + unat (rtr_secondsDelta req) \<le> unat upper"
    and "cd_after (decideApplyRecoveryTimeCorrection s req) = (recorded s (rtr_envelope req) s)
       \<lparr>rcs_nominalRecoveryAdjustment := Some
          \<lparr>nra_cumulativeAppliedSeconds = cumulative + rtr_secondsDelta req,
           nra_lastAppliedEpisodeRevision = rcs_recoveryEpisodeRevision s,
           nra_lastAppliedEpisodeDelta = rtr_secondsDelta req\<rparr>\<rparr>"
    and "cd_effects (decideApplyRecoveryTimeCorrection s req) = []"
    and "cd_kind (decideApplyRecoveryTimeCorrection s req) = CK_ApplyRecoveryTimeCorrection"
    and "cd_envelope (decideApplyRecoveryTimeCorrection s req) = rtr_envelope req"
proof -
  define d where "d = requireRecoveryEpisodeRevision (requireRunRevision
      (beginDecision s (rtr_envelope req) CK_ApplyRecoveryTimeCorrection))"
  note defs = decideApplyRecoveryTimeCorrection_def Let_def d_def [symmetric]
  have d: "cd_before d = s" "cd_after d = s" "cd_envelope d = rtr_envelope req"
    "cd_kind d = CK_ApplyRecoveryTimeCorrection" "cd_effects d = []"
    by (simp_all add: d_def)
  from assms have c: "commandProposed d" "rt_state (rcs_processState s) = PS_Fermenting"
    by (auto simp: defs split: if_splits)
  with assms obtain prior where prior: "rcs_priorBootPhaseElapsed s = Some prior"
    by (auto simp: defs split: option.splits)
  with assms c have tag: "tpe_taggedState prior = PS_Fermenting" by (auto simp: defs split: if_splits)
  with assms c prior obtain upper where upper: "prior_upperBoundSeconds (tpe_elapsed prior) = Some upper"
    by (auto simp: defs split: option.splits)
  define lower where "lower = prior_lowerBoundSeconds (tpe_elapsed prior)"
  define x where "x = correctRecoveryTime req lower upper d"
  define a where "a = (case rcs_nominalRecoveryAdjustment s of None \<Rightarrow> noNominalAdjustment | Some a \<Rightarrow> a)"
  have eq: "decideApplyRecoveryTimeCorrection s req = restoreRejectedAfter x"
    using c prior tag upper by (simp add: defs x_def lower_def)
  with assms have p: "commandProposed x" by simp
  define sum where "sum = nra_cumulativeAppliedSeconds a + rtr_secondsDelta req"
  define finished where "finished = (beginMutation d)\<lparr>cd_after := (cd_after (beginMutation d))
      \<lparr>rcs_nominalRecoveryAdjustment := Some \<lparr>nra_cumulativeAppliedSeconds = sum,
        nra_lastAppliedEpisodeRevision = rcs_recoveryEpisodeRevision s,
        nra_lastAppliedEpisodeDelta = rtr_secondsDelta req\<rparr>\<rparr>\<rparr>"
  define again where "again \<longleftrightarrow> rcs_nominalRecoveryAdjustment s \<noteq> None \<and>
      nra_lastAppliedEpisodeRevision a = rcs_recoveryEpisodeRevision s"
  define st where "st = (if nra_lastAppliedEpisodeDelta a = rtr_secondsDelta req then CST_AlreadyProcessed
          else CST_NotAllowedInState)"
  have xdef: "x = (if again then withStatus st d
      else if rtr_secondsDelta req > u32_max - nra_cumulativeAppliedSeconds a then
        withStatus CST_InvalidInput d
      else if ucast lower + ucast sum > (ucast upper :: u64) then withStatus CST_InvalidInput d
      else if \<not> cen_confirmed (rtr_envelope req) then withStatus CST_NotConfirmed d
      else finished)"
    by (simp only: x_def correctRecoveryTime_def Let_def d a_def again_def finished_def sum_def st_def)
  have st: "st \<noteq> CST_Proposed" by (simp add: st_def)
  from p st have again: "\<not> again" by (auto simp: xdef)
  with p have fit: "\<not> rtr_secondsDelta req > u32_max - nra_cumulativeAppliedSeconds a"
    by (auto simp: xdef)
  with p again have bound: "\<not> ucast lower + ucast sum > (ucast upper :: u64)"
    by (auto simp: xdef)
  with p again fit have confirmed: "cen_confirmed (rtr_envelope req)"
    by (auto simp: xdef split: if_splits)
  with again fit bound have x: "x = finished" by (simp add: xdef)
  have n: "nra_lastAppliedEpisodeRevision a \<noteq> rcs_recoveryEpisodeRevision s"
    if "rcs_nominalRecoveryAdjustment s \<noteq> None" using again that by (simp add: again_def)
  have after: "cd_after x = (recorded s (rtr_envelope req) s)\<lparr>rcs_nominalRecoveryAdjustment := Some
       \<lparr>nra_cumulativeAppliedSeconds = nra_cumulativeAppliedSeconds a + rtr_secondsDelta req,
        nra_lastAppliedEpisodeRevision = rcs_recoveryEpisodeRevision s,
        nra_lastAppliedEpisodeDelta = rtr_secondsDelta req\<rparr>\<rparr>"
    and sel: "cd_effects x = []" "cd_kind x = CK_ApplyRecoveryTimeCorrection"
      "cd_envelope x = rtr_envelope req"
    using d by (simp_all add: x finished_def sum_def beginMutation_after)
  from c(1) have acc: "acceptedCommand s (rtr_envelope req) CK_ApplyRecoveryTimeCorrection"
    "cen_expectedRunRevision (rtr_envelope req) = Some (rcs_runRevision s)"
    "cen_expectedRecoveryEpisodeRevision (rtr_envelope req) = Some (rcs_recoveryEpisodeRevision s)"
    by (simp_all add: d_def commandProposed_beginDecision)
  have total: "unat lower + unat (nra_cumulativeAppliedSeconds a) + unat (rtr_secondsDelta req) \<le> unat upper"
  proof -
    have "unat (nra_cumulativeAppliedSeconds a) + unat (rtr_secondsDelta req) < 2 ^ 32"
      using fit unat_u32_lt [of "nra_cumulativeAppliedSeconds a"]
      by (simp add: not_less word_le_nat_alt unat_sub_le unat_u32_max)
    then have "unat (nra_cumulativeAppliedSeconds a + rtr_secondsDelta req) =
        unat (nra_cumulativeAppliedSeconds a) + unat (rtr_secondsDelta req)"
      using unat_add_lem [of "nra_cumulativeAppliedSeconds a" "rtr_secondsDelta req"] by simp
    moreover have "unat (ucast lower + ucast (nra_cumulativeAppliedSeconds a + rtr_secondsDelta req) :: u64) =
        unat lower + unat (nra_cumulativeAppliedSeconds a + rtr_secondsDelta req)"
      using unat_u32_lt [of lower] unat_u32_lt [of "nra_cumulativeAppliedSeconds a + rtr_secondsDelta req"]
      by (subst unat_add_no_wrap) (simp_all add: unat_ucast_u32_u64)
    ultimately show ?thesis
      using bound by (simp add: sum_def not_less word_le_nat_alt unat_ucast_u32_u64)
  qed
  have cum: "nra_cumulativeAppliedSeconds a = (case rcs_nominalRecoveryAdjustment s of None \<Rightarrow> 0
       | Some a \<Rightarrow> nra_cumulativeAppliedSeconds a)"
    by (simp add: a_def noNominalAdjustment_def split: option.split)
  have el: "effectivePriorElapsedForFermenting s =
      Some \<lparr>prior_lowerBoundSeconds = lower, prior_upperBoundSeconds = Some upper\<rparr>"
    using c prior tag upper by (simp add: effectivePriorElapsedForFermenting_def lower_def)
  have n': "nra_lastAppliedEpisodeRevision (the (rcs_nominalRecoveryAdjustment s)) \<noteq>
      rcs_recoveryEpisodeRevision s" if "rcs_nominalRecoveryAdjustment s \<noteq> None"
    using n that by (auto simp: a_def)
  show ?thesis
    by (rule that [OF acc c(2) confirmed el cum n' total])
      (use after sel p in \<open>simp_all add: eq\<close>)
qed

section \<open>Messages and the sensor action\<close>

lemma findMessageFrom_Some:
  "findMessageFrom ms i n = Some k \<Longrightarrow>
   n \<le> k \<and> k < n + length ms \<and> msg_id (ms ! (k - n)) = i \<and> (\<forall>j<k - n. msg_id (ms ! j) \<noteq> i)"
proof (induction ms arbitrary: n)
  case (Cons m ms)
  show ?case
  proof (cases "msg_id m = i")
    case False
    with Cons have ih: "n + 1 \<le> k \<and> k < n + 1 + length ms \<and> msg_id (ms ! (k - (n + 1))) = i \<and>
        (\<forall>j<k - (n + 1). msg_id (ms ! j) \<noteq> i)"
      by (metis findMessageFrom.simps(2))
    then have k: "k - n = Suc (k - (n + 1))" by (auto simp: Suc_diff_Suc)
    have "msg_id ((m # ms) ! j) \<noteq> i" if "j < k - n" for j
      using that ih False k by (cases j) simp_all
    with ih k show ?thesis by simp
  qed (use Cons.prems in auto)
qed simp

lemma findMessage_Some:
  "findMessage s i = Some k \<Longrightarrow> k < rcs_messageCount s \<and> k < length (rcs_messages s) \<and>
     msg_id (rcs_messages s ! k) = i \<and> (\<forall>j<k. msg_id (rcs_messages s ! j) \<noteq> i)"
  by (drule findMessageFrom_Some [of "take (rcs_messageCount s) (rcs_messages s)" i 0 k,
      folded findMessage_def]) auto

lemma decideMessageCommand_proposed:
  assumes "commandProposed (decideMessageCommand k flag setFlag effect s req)"
  obtains index where "acceptedCommand s (mcr_envelope req) k"
    and "cen_expectedMessageRevision (mcr_envelope req) = Some (rcs_messageRevision s)"
    and "findMessage s (mcr_messageId req) = Some index"
    and "\<not> flag (rcs_messages s ! index)" and "rcs_messageRevision s \<noteq> u32_max"
    and "msg_revision (rcs_messages s ! index) \<noteq> u32_max"
    and "cd_after (decideMessageCommand k flag setFlag effect s req) =
       (recorded s (mcr_envelope req) s)
         \<lparr>rcs_messages := (rcs_messages s)[index := (setFlag (rcs_messages s ! index))
            \<lparr>msg_revision := msg_revision (rcs_messages s ! index) + 1\<rparr>],
          rcs_messageRevision := rcs_messageRevision s + 1\<rparr>"
    and "cd_effects (decideMessageCommand k flag setFlag effect s req) = [effect]"
    and "cd_kind (decideMessageCommand k flag setFlag effect s req) = k"
    and "cd_envelope (decideMessageCommand k flag setFlag effect s req) = mcr_envelope req"
proof -
  define d where "d = requireMessageRevision (beginDecision s (mcr_envelope req) k)"
  define x where "x = updateMessage flag setFlag effect (mcr_messageId req) d"
  have d: "cd_before d = s" "cd_after d = s" "cd_envelope d = mcr_envelope req" "cd_kind d = k"
    "cd_effects d = []"
    by (simp_all add: d_def)
  from assms have c: "commandProposed d"
    by (auto simp: decideMessageCommand_def Let_def d_def [symmetric] split: if_splits)
  then have eq: "decideMessageCommand k flag setFlag effect s req = restoreRejectedAfter x"
    by (simp add: decideMessageCommand_def Let_def d_def [symmetric] x_def)
  with assms have p: "commandProposed x" by simp
  with d obtain index where index: "findMessage s (mcr_messageId req) = Some index"
    by (auto simp: x_def updateMessage_def split: option.splits)
  define m where "m = rcs_messages s ! index"
  define q where "q = requireRevisionCapacity (rcs_messageRevision s)
      (requireRevisionCapacity (msg_revision m) d)"
  have xdef: "x = (if flag m then withStatus CST_NoChange d
      else if \<not> commandProposed q then q
      else addEffect effect ((beginMutation q)\<lparr>cd_after := (cd_after (beginMutation q))
         \<lparr>rcs_messages := (rcs_messages (cd_after (beginMutation q)))[index := (setFlag m)
            \<lparr>msg_revision := msg_revision m + 1\<rparr>],
          rcs_messageRevision := rcs_messageRevision (cd_after (beginMutation q)) + 1\<rparr>\<rparr>))"
    by (simp add: x_def updateMessage_def index d m_def q_def Let_def)
  from p have flag: "\<not> flag m" by (auto simp: xdef)
  with p have q: "commandProposed q" by (auto simp: xdef split: if_splits)
  then have cap: "rcs_messageRevision s \<noteq> u32_max" "msg_revision m \<noteq> u32_max" by (simp_all add: q_def)
  have qs: "cd_before q = s" "cd_after q = s" "cd_envelope q = mcr_envelope req" "cd_kind q = k"
    "cd_effects q = []"
    by (simp_all add: q_def d)
  have after: "cd_after x = (recorded s (mcr_envelope req) s)
         \<lparr>rcs_messages := (rcs_messages s)[index := (setFlag m)\<lparr>msg_revision := msg_revision m + 1\<rparr>],
          rcs_messageRevision := rcs_messageRevision s + 1\<rparr> \<and> cd_effects x = [effect] \<and>
      cd_kind x = k \<and> cd_envelope x = mcr_envelope req"
    using flag q qs by (simp add: xdef beginMutation_after addEffect_effects kMaximumCommandEffects_def)
  from c have acc: "acceptedCommand s (mcr_envelope req) k"
    "cen_expectedMessageRevision (mcr_envelope req) = Some (rcs_messageRevision s)"
    by (simp_all add: d_def commandProposed_beginDecision)
  show ?thesis
    by (rule that [OF acc index]) (use flag cap after p in \<open>simp_all add: eq m_def\<close>)
qed

text \<open>The mutation of the sensor selection that a command asks for.\<close>

definition requestedMutation ::
  "RunCommandState \<Rightarrow> SensorSelectionCommandRequest \<Rightarrow> CrossRolePlausibilityContext \<Rightarrow>
     SensorSelectionStateMutation" where
  "requestedMutation s req plausibility =
     applySensorSelectionDecision (sensorSelectionViewFrom s)
       \<lparr>ssd_expected = sensorSelectionViewFrom s, ssd_program = sensorSelectionProgramContextFor s,
        ssd_plausibility = plausibility, ssd_userAction = Some (scq_action req)\<rparr>
       (cen_monotonicMillis (scq_envelope req))"

lemma applySelectionTo_proposed:
  assumes "commandProposed (applySelectionTo req m d)" and "cd_after d = s" and "cd_before d = s"
    and "cd_envelope d = scq_envelope req" and "cd_effects d = []" and "commandProposed d"
  obtains c where "cen_confirmed (scq_envelope req)"
    and "(if ssm_event m \<noteq> None \<and> roleTransitionOf s (applySensorSelectionMutation s m) \<noteq> None
          then applySensorRoleChangeQualificationReset (applySensorSelectionMutation s m)
                 (cen_monotonicMillis (scq_envelope req))
          else Some (applySensorSelectionMutation s m)) = Some c"
    and "cd_after (applySelectionTo req m d) = recorded s (scq_envelope req) c"
    and "cd_kind (applySelectionTo req m d) = cd_kind d"
    and "cd_envelope (applySelectionTo req m d) = scq_envelope req"
proof -
  define c1 where "c1 = applySensorSelectionMutation s m"
  define reset where "reset = (if ssm_event m \<noteq> None \<and> roleTransitionOf s c1 \<noteq> None
      then applySensorRoleChangeQualificationReset c1 (cen_monotonicMillis (scq_envelope req))
      else Some c1)"
  have defs: "applySelectionTo req m d = (case reset of None \<Rightarrow> withStatus CST_InvalidInput d
      | Some c \<Rightarrow>
          (let d = d\<lparr>cd_after := c\<rparr> in
           if \<not> cen_confirmed (scq_envelope req) then withStatus CST_NotConfirmed d
           else
             (let d = announceSelection m (beginMutation d) in
              if ssr_permission (rcs_sensorSelectionRuntime (cd_before d)) \<noteq>
                 ssr_permission (ssm_runtime m) then
                addEffect (if ssr_permission (ssm_runtime m) = SPP_Blocked
                  then CE_SensorSelectionPermissionBlocked
                  else CE_SensorSelectionPermissionRestored) d
              else d)))"
    using assms by (simp add: applySelectionTo_def reset_def c1_def Let_def)
  from assms(1) obtain c where c: "reset = Some c" by (auto simp: defs split: option.splits)
  with assms(1) have confirmed: "cen_confirmed (scq_envelope req)"
    by (auto simp: defs Let_def split: if_splits)
  have "cd_after (applySelectionTo req m d) = recorded s (scq_envelope req) c"
    using c confirmed assms by (simp add: defs Let_def beginMutation_after)
  moreover have "cd_kind (applySelectionTo req m d) = cd_kind d \<and>
      cd_envelope (applySelectionTo req m d) = scq_envelope req"
    using c confirmed assms by (simp add: defs Let_def)
  ultimately show ?thesis using that [of c] confirmed c unfolding reset_def c1_def by blast
qed

lemma decideApplySensorSelectionAction_proposed:
  assumes "commandProposed (decideApplySensorSelectionAction s req plausibility)"
  obtains m c where "m = requestedMutation s req plausibility"
    and "acceptedCommand s (scq_envelope req) CK_ApplySensorSelectionAction"
    and "cen_expectedRunRevision (scq_envelope req) = Some (rcs_runRevision s)"
    and "rcs_activeProgramRun s \<noteq> None \<or> rcs_activeManualRun s \<noteq> None"
    and "rcs_activeRunId s \<noteq> []" and "rcs_activeRunSensorMode s \<noteq> None"
    and "rcs_criticalSafetyEventPending s \<longrightarrow> (\<exists>u. scq_action req = SUA_other u)"
    and "ssm_status m \<in> {SAS_AppliedPersistentCandidate, SAS_AppliedRamOnly}"
    and "cen_confirmed (scq_envelope req)"
    and "(if ssm_event m \<noteq> None \<and> roleTransitionOf s (applySensorSelectionMutation s m) \<noteq> None
          then applySensorRoleChangeQualificationReset (applySensorSelectionMutation s m)
                 (cen_monotonicMillis (scq_envelope req))
          else Some (applySensorSelectionMutation s m)) = Some c"
    and "cd_after (decideApplySensorSelectionAction s req plausibility) = recorded s (scq_envelope req) c"
    and "cd_kind (decideApplySensorSelectionAction s req plausibility) = CK_ApplySensorSelectionAction"
    and "cd_envelope (decideApplySensorSelectionAction s req plausibility) = scq_envelope req"
proof -
  define d where "d = requireRunRevision (beginDecision s (scq_envelope req) CK_ApplySensorSelectionAction)"
  define m where "m = requestedMutation s req plausibility"
  have d: "cd_before d = s" "cd_after d = s" "cd_envelope d = scq_envelope req"
    "cd_kind d = CK_ApplySensorSelectionAction" "cd_effects d = []"
    by (simp_all add: d_def)
  have defs: "decideApplySensorSelectionAction s req plausibility = restoreRejectedAfter
      (if \<not> commandProposed d then d
       else if rcs_activeProgramRun s = None \<and> rcs_activeManualRun s = None then
         withStatus CST_NotAllowedInState d
       else if rcs_activeRunId s = [] \<or> rcs_activeRunSensorMode s = None then withStatus CST_ContextMissing d
       else if rcs_criticalSafetyEventPending s \<and>
         (scq_action req = SUA_ContinueWithAir \<or> scq_action req = SUA_ReturnToProduct) then
         (withStatus CST_SafetyRejected d)\<lparr>cd_sensorSelectionApplyStatus := Some SAS_InvalidDecision\<rparr>
       else judgeSelection req m d)"
    by (simp only: decideApplySensorSelectionAction_def Let_def d_def m_def requestedMutation_def)
  from assms have c: "commandProposed d"
    "rcs_activeProgramRun s \<noteq> None \<or> rcs_activeManualRun s \<noteq> None"
    "rcs_activeRunId s \<noteq> []" "rcs_activeRunSensorMode s \<noteq> None"
    and crit: "\<not> (rcs_criticalSafetyEventPending s \<and>
         (scq_action req = SUA_ContinueWithAir \<or> scq_action req = SUA_ReturnToProduct))"
    by (auto simp: defs split: if_splits)
  then have eq: "decideApplySensorSelectionAction s req plausibility =
      restoreRejectedAfter (judgeSelection req m d)"
    by (auto simp: defs)
  with assms have p: "commandProposed (judgeSelection req m d)" by simp
  define e where "e = d\<lparr>cd_sensorSelectionApplyStatus := Some (ssm_status m)\<rparr>"
  have e: "cd_before e = s" "cd_after e = s" "cd_envelope e = scq_envelope req"
    "cd_kind e = CK_ApplySensorSelectionAction" "cd_effects e = []" "commandProposed e"
    using d c by (simp_all add: e_def)
  have ms: "mapSensorSelectionRejection st \<noteq> CST_Proposed" for st
    by (cases st) (simp_all add: mapSensorSelectionRejection_def)
  from p have crit2: "\<not> (rcs_criticalSafetyEventPending s \<and> scq_action req = SUA_RecheckProduct \<and>
         ssm_status m \<noteq> SAS_NoChange)"
    by (auto simp: judgeSelection_def Let_def d split: if_splits)
  have jdef: "judgeSelection req m d = (case ssm_status m of
        SAS_NoChange \<Rightarrow> withStatus CST_NoChange e
      | SAS_AppliedPersistentCandidate \<Rightarrow> applySelectionTo req m e
      | SAS_AppliedRamOnly \<Rightarrow> applySelectionTo req m e
      | st \<Rightarrow> withStatus (mapSensorSelectionRejection st) e)"
    using crit2 by (auto simp: judgeSelection_def Let_def d e e_def [symmetric])
  have st: "ssm_status m \<in> {SAS_AppliedPersistentCandidate, SAS_AppliedRamOnly}"
    using p ms by (cases "ssm_status m") (auto simp: jdef)
  then have j: "judgeSelection req m d = applySelectionTo req m e" by (auto simp: jdef)
  have crit3: "rcs_criticalSafetyEventPending s \<longrightarrow> (\<exists>u. scq_action req = SUA_other u)"
    using crit crit2 st by (cases "scq_action req") auto
  have a: "acceptedCommand s (scq_envelope req) CK_ApplySensorSelectionAction"
    "cen_expectedRunRevision (scq_envelope req) = Some (rcs_runRevision s)"
    using c(1) by (simp_all add: d_def commandProposed_beginDecision)
  have after: "cd_after (decideApplySensorSelectionAction s req plausibility) = cd_after (applySelectionTo req m e)"
    "cd_kind (decideApplySensorSelectionAction s req plausibility) = cd_kind (applySelectionTo req m e)"
    "cd_envelope (decideApplySensorSelectionAction s req plausibility) =
      cd_envelope (applySelectionTo req m e)"
    using p j by (simp_all add: eq)
  show ?thesis
    by (rule applySelectionTo_proposed [OF p [unfolded j] e(2) e(1) e(3) e(5) e(6)],
        rule that [OF m_def a c(2-4) crit3 st]) (simp_all add: after e)
qed

section \<open>The commands as requests\<close>

text \<open>One request of any command, and the decision on it.\<close>

datatype CommandRequest =
    CR_ProgramStart ProgramStartRequest
  | CR_ManualStart ManualStartRequest
  | CR_Stop StopRequest
  | CR_Completion CompletionRequest
  | CR_Adjustment RunAdjustmentCommandRequest
  | CR_RecoveryTime ApplyRecoveryTimeCorrectionRequest
  | CR_AcknowledgeMessage MessageCommandRequest
  | CR_MuteMessage MessageCommandRequest
  | CR_SensorSelection SensorSelectionCommandRequest CrossRolePlausibilityContext

fun decideCommand :: "RunCommandState \<Rightarrow> CommandRequest \<Rightarrow> CommandDecision" where
  "decideCommand s (CR_ProgramStart r) = decideProgramStart s r"
| "decideCommand s (CR_ManualStart r) = decideManualStart s r"
| "decideCommand s (CR_Stop r) = decideStop s r"
| "decideCommand s (CR_Completion r) = decideCompletion s r"
| "decideCommand s (CR_Adjustment r) = decideRunAdjustment s r"
| "decideCommand s (CR_RecoveryTime r) = decideApplyRecoveryTimeCorrection s r"
| "decideCommand s (CR_AcknowledgeMessage r) = decideAcknowledgeMessage s r"
| "decideCommand s (CR_MuteMessage r) = decideMuteMessage s r"
| "decideCommand s (CR_SensorSelection r p) = decideApplySensorSelectionAction s r p"

fun requestEnvelope :: "CommandRequest \<Rightarrow> CommandEnvelope" where
  "requestEnvelope (CR_ProgramStart r) = psr_envelope r"
| "requestEnvelope (CR_ManualStart r) = msr_envelope r"
| "requestEnvelope (CR_Stop r) = str_envelope r"
| "requestEnvelope (CR_Completion r) = cpr_envelope r"
| "requestEnvelope (CR_Adjustment r) = acr_envelope r"
| "requestEnvelope (CR_RecoveryTime r) = rtr_envelope r"
| "requestEnvelope (CR_AcknowledgeMessage r) = mcr_envelope r"
| "requestEnvelope (CR_MuteMessage r) = mcr_envelope r"
| "requestEnvelope (CR_SensorSelection r p) = scq_envelope r"

lemma decideCommand_before [simp]: "cd_before (decideCommand s q) = s"
  by (cases q) (simp_all add: decide_before decideAcknowledgeMessage_def decideMuteMessage_def)

end
