(* ===== verification/RunCommandInvariants.thy ===== *)
theory RunCommandInvariants
  imports RunCommandOutcomes SensorProofs
begin

text \<open>
  Every command is recorded when it is proposed and changes nothing when it is not; and the invariant
  of the command state along commands, process transitions and sensor decisions.
\<close>

section \<open>Every decision is recorded or leaves the state alone\<close>

lemma decideCommand_restores: "\<exists>d. decideCommand s q = restoreRejectedAfter d"
  by (cases q; simp only: decideCommand.simps decideProgramStart_def decideManualStart_def
      decideStop_def decideCompletion_def decideRunAdjustment_def
      decideApplyRecoveryTimeCorrection_def decideAcknowledgeMessage_def decideMuteMessage_def
      decideMessageCommand_def decideApplySensorSelectionAction_def; blast)

lemma decideCommand_rejected: "\<not> commandProposed (decideCommand s q) \<Longrightarrow> cd_after (decideCommand s q) = s"
  by (metis decideCommand_before decideCommand_restores restoreRejectedAfter_sel(1,6,7))

text \<open>What a proposed decision is, whatever the command.\<close>

definition recordedFrom :: "RunCommandState \<Rightarrow> CommandDecision \<Rightarrow> RunCommandState \<Rightarrow> bool" where
  "recordedFrom s d c \<longleftrightarrow> acceptedCommand s (cd_envelope d) (cd_kind d) \<and> sameBooks s c \<and>
     rcs_commandSequence (cd_after d) = rcs_commandSequence s + 1 \<and>
     rcs_lastCommandMonotonicMillis (cd_after d) = cen_monotonicMillis (cd_envelope d) \<and>
     rcs_processedCommandIds (cd_after d) =
       rcs_processedCommandIds (rememberProcessedCommand s (cen_id (cd_envelope d))) \<and>
     rcs_processedCommandCount (cd_after d) =
       rcs_processedCommandCount (rememberProcessedCommand s (cen_id (cd_envelope d))) \<and>
     rcs_faultRevision (cd_after d) = rcs_faultRevision s \<and>
     rcs_criticalSafetyEventPending (cd_after d) = rcs_criticalSafetyEventPending s"

lemma coolingOutcome_sel [simp]:
  "rcs_commandSequence (coolingOutcome a c p x) = rcs_commandSequence x"
  "rcs_lastCommandMonotonicMillis (coolingOutcome a c p x) = rcs_lastCommandMonotonicMillis x"
  "rcs_processedCommandIds (coolingOutcome a c p x) = rcs_processedCommandIds x"
  "rcs_processedCommandCount (coolingOutcome a c p x) = rcs_processedCommandCount x"
  "rcs_faultRevision (coolingOutcome a c p x) = rcs_faultRevision x"
  "rcs_criticalSafetyEventPending (coolingOutcome a c p x) = rcs_criticalSafetyEventPending x"
  "rcs_processState (coolingOutcome a c p x) = rcs_processState x"
  "rcs_activeProgramRun (coolingOutcome a c p x) = rcs_activeProgramRun x"
  "rcs_activeManualRun (coolingOutcome a c p x) = rcs_activeManualRun x"
  "rcs_processRunSnapshot (coolingOutcome a c p x) = rcs_processRunSnapshot x"
  "rcs_activeRunId (coolingOutcome a c p x) = rcs_activeRunId x"
  "rcs_activeRunSensorMode (coolingOutcome a c p x) = rcs_activeRunSensorMode x"
  "rcs_runRevision (coolingOutcome a c p x) = rcs_runRevision x"
  "rcs_messages (coolingOutcome a c p x) = rcs_messages x"
  "rcs_messageCount (coolingOutcome a c p x) = rcs_messageCount x"
  by (simp_all add: coolingOutcome_def withOutcome_def split: option.split)

lemma recordedFrom_recorded:
  assumes "acceptedCommand s e k" and "sameBooks s c"
    and "cd_envelope d = e" and "cd_kind d = k"
    and "rcs_commandSequence (cd_after d) = rcs_commandSequence (recorded s e c)"
    and "rcs_lastCommandMonotonicMillis (cd_after d) = rcs_lastCommandMonotonicMillis (recorded s e c)"
    and "rcs_processedCommandIds (cd_after d) = rcs_processedCommandIds (recorded s e c)"
    and "rcs_processedCommandCount (cd_after d) = rcs_processedCommandCount (recorded s e c)"
    and "rcs_faultRevision (cd_after d) = rcs_faultRevision c"
    and "rcs_criticalSafetyEventPending (cd_after d) = rcs_criticalSafetyEventPending c"
  shows "\<exists>c. recordedFrom s d c"
  using assms recorded_ids [OF assms(2), of e]
  by (intro exI [of _ c]) (simp add: recordedFrom_def sameBooks_def)

lemma runEnded_books:
  assumes "applyTransition s ev t snap = Some c0"
    and "installCoolingRun (clearActiveRunState c0) e plan = Some c"
  shows "sameBooks s c"
  using applyTransition_books [OF assms(1)] installCoolingRun_books [OF assms(2)]
    clearActiveRunState_books [of c0]
  by (meson sameBooks_trans)

lemma decideCommand_recordedFrom:
  assumes "commandProposed (decideCommand s q)"
  shows "(\<exists>c. recordedFrom s (decideCommand s q) c) \<and>
    cd_envelope (decideCommand s q) = requestEnvelope q"
proof (cases q)
  case (CR_ProgramStart r)
  with assms have "commandProposed (decideProgramStart s r)" by simp
  then show ?thesis
  proof (rule decideProgramStart_proposed)
    fix run snapshot c
    assume a: "acceptedCommand s (psr_envelope r) CK_StartProgram"
      and after: "cd_after (decideProgramStart s r) =
        programRunStarted s r (resolveStartMode r) run snapshot (rcs_processState c)"
      and k: "cd_kind (decideProgramStart s r) = CK_StartProgram"
      and e: "cd_envelope (decideProgramStart s r) = psr_envelope r"
    let ?c = "s\<lparr>rcs_activeProgramRun := Some run, rcs_processState := rcs_processState c,
               rcs_activeRunId := psr_runId r,
               rcs_activeRunSensorMode := Some (pss_effectiveMode (resolveStartMode r)),
               rcs_activeManualRun := None, rcs_processRunSnapshot := Some snapshot\<rparr>"
    have "sameBooks s ?c" by (simp add: sameBooks_def)
    from recordedFrom_recorded [OF a this e k] after e CR_ProgramStart show ?thesis
      by (simp add: programRunStarted_def Let_def)
  qed
next
  case (CR_ManualStart r)
  with assms have "commandProposed (decideManualStart s r)" by simp
  then show ?thesis
  proof (rule decideManualStart_proposed)
    fix plan c
    assume a: "acceptedCommand s (msr_envelope r) CK_StartManualHolding"
      and c: "installManualRun s (msr_envelope r) plan = Some c"
      and after: "cd_after (decideManualStart s r) =
        withOutcome (startSensorSelectionOutcome (mpr_sensorMode (msr_plan r)) False
           (msr_productSensorValid r) (msr_airSensorValid r) (msr_coolingSensorValid r)
           (rcs_runRevision c + 1))
         (runCounted s (msr_envelope r) c)"
      and k: "cd_kind (decideManualStart s r) = CK_StartManualHolding"
      and e: "cd_envelope (decideManualStart s r) = msr_envelope r"
    from recordedFrom_recorded [OF a installManualRun_books [OF c] e k] after e CR_ManualStart
    show ?thesis by (simp add: withOutcome_def runCounted_def)
  qed
next
  case (CR_Stop r)
  with assms have "commandProposed (decideStop s r)" by simp
  then show ?thesis
  proof (rule decideStop_proposed, goal_cases)
    case (1 plan c0 c)
    from recordedFrom_recorded [OF 1(1) runEnded_books [OF 1(9,10)] 1(14,13)] 1(11,14) CR_Stop
    show ?thesis by (simp add: runCounted_def)
  qed
next
  case (CR_Completion r)
  with assms have "commandProposed (decideCompletion s r)" by simp
  then show ?thesis
  proof (rule decideCompletion_proposed, goal_cases)
    case (1 plan c0 c)
    from recordedFrom_recorded [OF 1(1) runEnded_books [OF 1(7,8)] 1(12,11)] 1(9,12) CR_Completion
    show ?thesis by (simp add: runCounted_def)
  qed
next
  case (CR_Adjustment r)
  with assms have "commandProposed (decideRunAdjustment s r)" by simp
  then show ?thesis
  proof (rule decideRunAdjustment_proposed, goal_cases)
    case (1 run rd c0 c afterValues effect targetChanged)
    define x where "x = (if timerRestarts s rd
        then restartFermentingTimer (cen_monotonicMillis (acr_envelope r)) c else c)"
    from foldObservedBefore_books [OF 1(10)] adjustRunIn_books [OF 1(11)] restartFermentingTimer_books
    have "sameBooks s x" by (auto simp: x_def intro: sameBooks_trans)
    from recordedFrom_recorded [OF 1(1) this 1(15,14)] 1(12,15) CR_Adjustment
    show ?thesis by (simp add: runCounted_def x_def)
  qed
next
  case (CR_RecoveryTime r)
  with assms have "commandProposed (decideApplyRecoveryTimeCorrection s r)" by simp
  then show ?thesis
  proof (rule decideApplyRecoveryTimeCorrection_proposed, goal_cases)
    case (1 lower upper cumulative)
    from recordedFrom_recorded [OF 1(1) sameBooks_refl 1(13,12)] 1(10,13) CR_RecoveryTime
    show ?thesis by simp
  qed
next
  case (CR_AcknowledgeMessage r)
  with assms have "commandProposed (decideAcknowledgeMessage s r)" by simp
  then show ?thesis unfolding decideAcknowledgeMessage_def
  proof (rule decideMessageCommand_proposed, goal_cases)
    case (1 index)
    from recordedFrom_recorded [OF 1(1) sameBooks_refl 1(10,9)] 1(7,10) CR_AcknowledgeMessage
    show ?thesis by (simp add: decideAcknowledgeMessage_def)
  qed
next
  case (CR_MuteMessage r)
  with assms have "commandProposed (decideMuteMessage s r)" by simp
  then show ?thesis unfolding decideMuteMessage_def
  proof (rule decideMessageCommand_proposed, goal_cases)
    case (1 index)
    from recordedFrom_recorded [OF 1(1) sameBooks_refl 1(10,9)] 1(7,10) CR_MuteMessage
    show ?thesis by (simp add: decideMuteMessage_def)
  qed
next
  case (CR_SensorSelection r p)
  with assms have "commandProposed (decideApplySensorSelectionAction s r p)" by simp
  then show ?thesis
  proof (rule decideApplySensorSelectionAction_proposed, goal_cases)
    case (1 m c)
    have "sameBooks s c"
    proof (cases "c = applySensorSelectionMutation s m")
      case True
      then show ?thesis by (simp add: applySensorSelectionMutation_books)
    next
      case False
      with 1(10) have "applySensorRoleChangeQualificationReset (applySensorSelectionMutation s m)
          (cen_monotonicMillis (scq_envelope r)) = Some c" by (simp split: if_splits)
      from roleChangeReset_process [OF this] show ?thesis
        using applySensorSelectionMutation_books [of s m] by (auto simp: sameBooks_def)
    qed
    from recordedFrom_recorded [OF 1(2) this 1(13,12)] 1(11,13) CR_SensorSelection
    show ?thesis by simp
  qed
qed

text \<open>So the application accepts every proposed decision on the state that it was made for.\<close>

lemma validate_recorded:
  assumes "recordedFrom s d c" and "commandProposed d"
    and "g = (commandApplyGuard s)\<lparr>cag_activeRunId := Some (rcs_activeRunId s)\<rparr>"
  shows "validateRunCommandCore s d g = CST_Applied"
  using assms
  by (simp add: validateRunCommandCore_def recordedFrom_def acceptedCommand_def commandApplyGuard_def)

lemma decided_applies:
  assumes "commandProposed (decideCommand s q)"
  shows "applyRunCommand s (decideCommand s q) = (CST_Applied, cd_after (decideCommand s q))"
proof -
  from decideCommand_recordedFrom [OF assms] obtain c where "recordedFrom s (decideCommand s q) c"
    by blast
  from validate_recorded [OF this assms refl] show ?thesis
    by (simp add: applyRunCommand_def validateRunCommand_def unguardedRunId_def)
qed

lemma not_proposed_not_applied:
  assumes "\<not> commandProposed d"
  shows "fst (applyRunCommand s d) \<noteq> CST_Applied \<and> snd (applyRunCommand s d) = s"
  using assms by (simp add: applyRunCommand_def validateRunCommand_def validateRunCommandCore_def Let_def)

text \<open>The handling of a command: its decision, and the application of the decision.\<close>

definition handleCommand :: "RunCommandState \<Rightarrow> CommandRequest \<Rightarrow> RunCommandState" where
  "handleCommand s q = snd (applyRunCommand s (decideCommand s q))"

lemma handleCommand_eq: "handleCommand s q = cd_after (decideCommand s q)"
  using decided_applies [of s q] not_proposed_not_applied [of "decideCommand s q" s]
    decideCommand_rejected [of s q]
  by (cases "commandProposed (decideCommand s q)") (simp_all add: handleCommand_def)

end
