(* ===== verification/RunMutations.thy ===== *)
theory RunMutations
  imports RunCommandActions
begin

text \<open>
  The mutations of the command state outside the commands, as the run persistence coordinator makes
  them (\<open>run_persistence_coordinator.cpp\<close>: \<open>persistTransition\<close> and \<open>persistSensorSelection\<close>): a
  process transition that the phase logic decided, and an automatic decision of the sensor selection.
  Each is made twice: on the candidate whose snapshot is stored, and on the state in memory once the
  snapshot is stored.
\<close>

section \<open>Recovery evidence\<close>

definition toRoleTemperatureEvidence :: "SensorQualitySnapshot \<Rightarrow> RoleTemperatureEvidence" where
  "toRoleTemperatureEvidence source =
     \<lparr>rte_filteredCelsius = sq_filteredCelsius source, rte_quality = sq_quality source\<rparr>"

definition recoveryEvidenceWindowOpen :: "RunCommandState \<Rightarrow> bool" where
  "recoveryEvidenceWindowOpen current \<longleftrightarrow>
     rcs_pendingRecoveryAnchor current \<noteq> None \<and>
       rt_state (rcs_processState current) = PS_RecoveryEvaluation \<or>
     (case rcs_priorBootPhaseElapsed current of
        None \<Rightarrow> False
      | Some prior \<Rightarrow> tpe_taggedState prior = rt_state (rcs_processState current))"

definition latchEvidence ::
  "SensorQualitySnapshot \<Rightarrow> RoleTemperatureEvidence option \<Rightarrow> RoleTemperatureEvidence option" where
  "latchEvidence live target =
     (if target \<noteq> None \<or> sq_quality live \<noteq> SQ_Valid \<or> sq_filteredCelsius live = None then target
      else Some (toRoleTemperatureEvidence live))"

definition applyLiveRecoveryEvidence ::
  "CrossRolePlausibilityContext \<Rightarrow> RunCommandState \<Rightarrow> RunCommandState" where
  "applyLiveRecoveryEvidence live current =
     (case rcs_lastRecoveryEpisodeEvidence current of
        None \<Rightarrow> current
      | Some evidence \<Rightarrow>
          if \<not> recoveryEvidenceWindowOpen current then current
          else
            (let first = ree_firstAfterRestart evidence in
             current\<lparr>rcs_lastRecoveryEpisodeEvidence := Some (evidence\<lparr>ree_firstAfterRestart :=
               \<lparr>far_air = latchEvidence (crp_air live) (far_air first),
                far_product = latchEvidence (crp_product live) (far_product first),
                far_cooling = latchEvidence (crp_cooling live) (far_cooling first)\<rparr>\<rparr>)\<rparr>))"

text \<open>The evidence is given as a nullable pointer.\<close>

definition withLiveEvidence ::
  "CrossRolePlausibilityContext option \<Rightarrow> RunCommandState \<Rightarrow> RunCommandState" where
  "withLiveEvidence live current =
     (case live of None \<Rightarrow> current | Some l \<Rightarrow> applyLiveRecoveryEvidence l current)"

section \<open>Process transitions\<close>

definition eligibleTransition :: "TransitionReason \<Rightarrow> bool" where
  "eligibleTransition reason =
     (case reason of
        TR_QualificationTrackingStarted \<Rightarrow> True | TR_QualificationReset \<Rightarrow> True
      | TR_PreheatQualified \<Rightarrow> True | TR_ProductInserted \<Rightarrow> True | TR_ProductWaitExpired \<Rightarrow> True
      | TR_TargetReachTimeExceeded \<Rightarrow> True | TR_TargetQualified \<Rightarrow> True
      | TR_FermentationCompleted \<Rightarrow> True | TR_CoolingTargetReached \<Rightarrow> True
      | TR_HoldDurationCompleted \<Rightarrow> True | TR_HoldFinishedByUser \<Rightarrow> True | TR_CriticalFault \<Rightarrow> True
      | _ \<Rightarrow> False)"

text \<open>The observed fermentation time is added when the fermentation is left.\<close>

definition leavesFermentation :: "RunCommandState \<Rightarrow> TransitionDecision \<Rightarrow> bool" where
  "leavesFermentation current d \<longleftrightarrow> rt_state (rcs_processState current) = PS_Fermenting \<and>
     rt_state (dec_after d) \<noteq> PS_Fermenting"

definition foldObservedAt ::
  "RunCommandState \<Rightarrow> TransitionDecision \<Rightarrow> RunCommandState \<Rightarrow> RunCommandState option" where
  "foldObservedAt current d s =
     (if \<not> leavesFermentation current d then Some s
      else case deriveFermentingSecondsDelta current (dec_monotonicMillis d) of
        None \<Rightarrow> None
      | Some delta \<Rightarrow> foldObservedRunSeconds s (ucast delta))"

definition transitionRun :: "TransitionDecision \<Rightarrow> RunCommandState \<Rightarrow> RunCommandState option" where
  "transitionRun d s =
     (case rcs_processRunSnapshot s of
        None \<Rightarrow> None
      | Some snapshot \<Rightarrow>
          map_option (\<lambda>p. s\<lparr>rcs_processState := p\<rparr>)
            (applyProcessTransition (rcs_processState s) d (Some snapshot)))"

definition endExpiredWait :: "TransitionDecision \<Rightarrow> RunCommandState \<Rightarrow> RunCommandState" where
  "endExpiredWait d s = (if dec_reason d = TR_ProductWaitExpired then clearActiveRunState s else s)"

text \<open>A weighted segment that is still open when the phase changes is given up.\<close>

definition supersedeOpenSegment :: "RunCommandState \<Rightarrow> RunCommandState \<Rightarrow> RunCommandState" where
  "supersedeOpenSegment current s =
     (case rcs_lastRecoveryEpisodeEvidence s of
        None \<Rightarrow> s
      | Some evidence \<Rightarrow>
          if rt_state (rcs_processState s) = rt_state (rcs_processState current) then s
          else s\<lparr>rcs_runProgress := supersedeUnbookedWeightedSegment (rcs_runProgress s)
                   (ree_weightedProgressSegmentId evidence),
                 rcs_lastRecoveryEpisodeEvidence :=
                   Some (evidence\<lparr>ree_weightedProgressSegmentId := None\<rparr>)\<rparr>)"

text \<open>The candidate whose snapshot is stored.\<close>

definition transitionCandidate ::
  "RunCommandState \<Rightarrow> TransitionDecision \<Rightarrow> CrossRolePlausibilityContext option \<Rightarrow>
     RunCommandState option" where
  "transitionCandidate current d live =
     (case foldObservedAt current d current of
        None \<Rightarrow> None
      | Some s \<Rightarrow>
          (case transitionRun d s of
             None \<Rightarrow> None
           | Some s \<Rightarrow> Some (withLiveEvidence live (supersedeOpenSegment current (endExpiredWait d s)))))"

text \<open>The state in memory after the snapshot has been stored. The observed time was derived from the
  state before the transition.\<close>

definition transitionInMemory ::
  "RunCommandState \<Rightarrow> TransitionDecision \<Rightarrow> CrossRolePlausibilityContext option \<Rightarrow>
     RunCommandState option" where
  "transitionInMemory current d live =
     (case transitionRun d current of
        None \<Rightarrow> None
      | Some s \<Rightarrow>
          (case foldObservedAt current d s of
             None \<Rightarrow> None
           | Some s \<Rightarrow> Some (withLiveEvidence live (endExpiredWait d s))))"

section \<open>Automatic decisions of the sensor selection\<close>

definition automaticSensorSelectionCause :: "SensorSelectionDecisionCause \<Rightarrow> bool" where
  "automaticSensorSelectionCause cause =
     (case cause of
        SDC_ProductFailureBlock \<Rightarrow> True | SDC_FallbackToAir \<Rightarrow> True
      | SDC_AutomaticValidatedReturn \<Rightarrow> True | SDC_RecoveryRevalidation \<Rightarrow> True
      | SDC_SafeStateEntry \<Rightarrow> True | SDC_ReturnValidationAborted \<Rightarrow> True
      | _ \<Rightarrow> False)"

definition selectionCandidate ::
  "RunCommandState \<Rightarrow> SensorSelectionStateMutation \<Rightarrow> u64 \<Rightarrow> CrossRolePlausibilityContext option \<Rightarrow>
     RunCommandState option" where
  "selectionCandidate current mutation now live =
     (let s = applySensorSelectionMutation current mutation in
      map_option (withLiveEvidence live)
        (if ssm_event mutation \<noteq> None \<and> roleTransitionOf current s \<noteq> None
         then applySensorRoleChangeQualificationReset s now else Some s))"

definition selectionInMemory ::
  "RunCommandState \<Rightarrow> SensorSelectionStateMutation \<Rightarrow> RunCommandState \<Rightarrow>
     CrossRolePlausibilityContext option \<Rightarrow> RunCommandState" where
  "selectionInMemory current mutation candidate live =
     withLiveEvidence live ((applySensorSelectionMutation current mutation)
       \<lparr>rcs_processState := rcs_processState candidate\<rparr>)"

end
