(* ===== verification/RunCommandReachable.thy ===== *)
theory RunCommandReachable
  imports RunCommandInvariants RunMutations
begin

text \<open>
  The command states that can be reached, from the boot without a run, by commands, process
  transitions, decisions of the sensor selection and safety events; and their invariant.
\<close>

section \<open>The transitions of the commands\<close>

lemma applyTransition_decided:
  assumes "applyTransition c ev t snap = Some c'"
  obtains d where "d = decideProcessTransition (rcs_processState c) snap noSignals
      \<lparr>req_event = ev, req_recoveredState = None\<rparr> t noPriorBootPhaseElapsed"
    and "proposed d" and "applyProcessTransition (rcs_processState c) d snap = Some (dec_after d)"
    and "c' = c\<lparr>rcs_processState := dec_after d\<rparr>"
proof -
  define d where "d = decideProcessTransition (rcs_processState c) snap noSignals
      \<lparr>req_event = ev, req_recoveredState = None\<rparr> t noPriorBootPhaseElapsed"
  from assms have p: "proposed d" by (auto simp: applyTransition_def d_def Let_def split: if_splits)
  with assms obtain q where q: "applyProcessTransition (rcs_processState c) d snap = Some q"
    "c' = c\<lparr>rcs_processState := q\<rparr>"
    by (auto simp: applyTransition_def d_def Let_def)
  then have "q = dec_after d" by (auto simp: applyProcessTransition_def split: if_splits)
  with that [OF d_def p] q show ?thesis by simp
qed

lemma applied_transition:
  assumes "applyProcessTransition s d snap = Some p"
  shows "p = dec_after d" "dec_before d = s" "validProposedTopology d"
    "transitionMatchesRunSnapshot d snap" "runtimeShapeIsValid p"
  using assms by (auto simp: applyProcessTransition_def equalProcessRuntimeState_iff split: if_splits)

lemma transition_matches:
  assumes "transitionMatchesRunSnapshot d (Some snap)" and "dec_reason d \<noteq> TR_CriticalFault"
    and "stateUsesRunSnapshot (rt_state (dec_after d))"
  shows "validateProcessRunSnapshot snap \<and> stateMatchesRunSnapshot (rt_state (dec_after d)) snap"
  using assms by (auto simp: transitionMatchesRunSnapshot_def Let_def split: if_splits)

text \<open>Where the transition of a command leads.\<close>

lemma event_tracked:
  assumes "applyTransition c ev t snap = Some c'" and "tracked (rcs_processState c)"
  shows "tracked (rcs_processState c')"
  using assms by (elim applyTransition_decided) (simp add: tracked_decide)

lemma start_transition:
  assumes "applyTransition c PE_StartRun t (Some snap) = Some c'"
    and "rt_state (rcs_processState c) = PS_Standby"
  shows "validateProcessRunSnapshot snap"
    and "rt_state (rcs_processState c') = (if snap_preheatEnabled snap then PS_Preheating else PS_ReachingTarget)"
proof -
  obtain d where d: "d = decideProcessTransition (rcs_processState c) (Some snap) noSignals
      \<lparr>req_event = PE_StartRun, req_recoveredState = None\<rparr> t noPriorBootPhaseElapsed"
    and p: "proposed d" and c': "c' = c\<lparr>rcs_processState := dec_after d\<rparr>"
    using assms(1) by (rule applyTransition_decided)
  from p d assms(2) show "validateProcessRunSnapshot snap"
    by (auto simp: decideProcessTransition_def noSignals_def split: if_splits)
  from p d assms(2) have "d = decideStandbyEvent (rcs_processState c) (Some snap) PE_StartRun t"
    by (auto simp: decideProcessTransition_def decideExplicitEvent_def noSignals_def split: if_splits)
  then show "rt_state (rcs_processState c') =
      (if snap_preheatEnabled snap then PS_Preheating else PS_ReachingTarget)"
    using p c' proposed_decide_basic(3) [OF p [unfolded d]]
    by (auto simp: decideStandbyEvent_def Let_def)
qed

lemma standby_reached:
  assumes "applyTransition c ev t snap = Some c'"
    and "ev = PE_Abort \<and> stateCanAbort (rt_state (rcs_processState c)) \<or>
         ev = PE_AcknowledgeCompletion \<and> rt_state (rcs_processState c) = PS_Completed"
  shows "rt_state (rcs_processState c') = PS_Standby"
proof -
  obtain d where d: "d = decideProcessTransition (rcs_processState c) snap noSignals
      \<lparr>req_event = ev, req_recoveredState = None\<rparr> t noPriorBootPhaseElapsed"
    and p: "proposed d" and c': "c' = c\<lparr>rcs_processState := dec_after d\<rparr>"
    using assms(1) by (rule applyTransition_decided)
  have "rt_state (dec_after d) = PS_Standby"
  proof (cases "rt_state (rcs_processState c) = PS_WaitingForProduct")
    case True
    then show ?thesis
      using p assms(2) unfolding d
      by (auto simp: decideProcessTransition_def decideExplicitEvent_def noSignals_def
          decideAutomatic_def decideWaitingForProduct_def stateCanAbort_def Let_def
          split: if_splits option.splits)
  next
    case False
    then show ?thesis
      using p assms(2) unfolding d
      by (auto simp: decideProcessTransition_def decideExplicitEvent_def noSignals_def
          split: if_splits option.splits)
  qed
  with c' show ?thesis by simp
qed

lemma target_changed_transition:
  assumes "applyTransition c PE_TargetChanged t snap = Some c'"
    and "rt_state (rcs_processState c) \<in> {PS_Preheating, PS_ReachingTarget, PS_QualifyingTarget}"
  shows "rt_state (rcs_processState c') =
    (if rt_state (rcs_processState c) = PS_Preheating then PS_Preheating else PS_ReachingTarget)"
proof -
  obtain d where d: "d = decideProcessTransition (rcs_processState c) snap noSignals
      \<lparr>req_event = PE_TargetChanged, req_recoveredState = None\<rparr> t noPriorBootPhaseElapsed"
    and p: "proposed d" and c': "c' = c\<lparr>rcs_processState := dec_after d\<rparr>"
    using assms(1) by (rule applyTransition_decided)
  from p assms(2) have "d = decideExplicitEvent (rcs_processState c) snap
      \<lparr>req_event = PE_TargetChanged, req_recoveredState = None\<rparr> t noPriorBootPhaseElapsed"
    unfolding d by (auto simp: decideProcessTransition_def noSignals_def split: if_splits option.splits)
  with p assms(2) have "rt_state (dec_after d) =
      (if rt_state (rcs_processState c) = PS_Preheating then PS_Preheating else PS_ReachingTarget)"
    using proposed_decide_basic(3) [OF p [unfolded d]]
    by (auto simp: decideExplicitEvent_def Let_def split: if_splits)
  with c' show ?thesis by simp
qed

lemma role_change_reset:
  assumes "applySensorRoleChangeQualificationReset c t = Some c'" and "tracked (rcs_processState c)"
  obtains p where "c' = c\<lparr>rcs_processState := p\<rparr>" and "tracked p"
    and "p = rcs_processState c \<or>
         rt_state (rcs_processState c) = PS_QualifyingTarget \<and> rt_state p = PS_ReachingTarget"
proof (cases "rt_state (rcs_processState c) = PS_QualifyingTarget")
  case False
  with assms that show ?thesis by (simp add: applySensorRoleChangeQualificationReset_def)
next
  case True
  with assms(1) obtain snap where snap: "rcs_processRunSnapshot c = Some snap"
    by (auto simp: applySensorRoleChangeQualificationReset_def split: option.splits)
  define d where "d = decideProcessTransition (rcs_processState c) (Some snap) noSignals
      \<lparr>req_event = PE_None, req_recoveredState = None\<rparr> t noPriorBootPhaseElapsed"
  from assms(1) True snap have p: "proposed d" "dec_reason d = TR_QualificationReset"
    by (auto simp: applySensorRoleChangeQualificationReset_def d_def Let_def split: if_splits)
  with assms(1) True snap obtain q where
    q: "applyProcessTransition (rcs_processState c) d (Some snap) = Some q" "c' = c\<lparr>rcs_processState := q\<rparr>"
    by (auto simp: applySensorRoleChangeQualificationReset_def d_def Let_def split: if_splits)
  note a = applied_transition [OF q(1)]
  from a(2,3) p(2) True have "rt_state (dec_after d) = PS_ReachingTarget"
    by (auto simp: validProposedTopology_def validBootTopology_def validPhaseTopology_def
        validControlTopology_def Let_def)
  moreover have "tracked (dec_after d)"
    using tracked_decide [OF assms(2) p(1) [unfolded d_def]] by (simp add: d_def)
  ultimately show ?thesis using that [of q] q a(1) True by simp
qed

section \<open>The invariant\<close>

definition runningConsistent :: "RunCommandState \<Rightarrow> bool" where
  "runningConsistent s \<longleftrightarrow>
     (let st = rt_state (rcs_processState s) in
      st \<noteq> PS_Boot \<and> st \<noteq> PS_Standby \<and> validRunId (rcs_activeRunId s) \<and>
      rcs_activeRunSensorMode s \<in> {Some RSM_Air, Some RSM_Product} \<and> rcs_sensorSelection s \<noteq> None \<and>
      ssr_phase (rcs_sensorSelectionRuntime s) \<noteq> SSP_NoActiveRun \<and>
      (\<exists>snap. rcs_processRunSnapshot s = Some snap \<and> validateProcessRunSnapshot snap \<and>
         (stateUsesRunSnapshot st \<longrightarrow> stateMatchesRunSnapshot st snap)))"

definition idleConsistent :: "RunCommandState \<Rightarrow> bool" where
  "idleConsistent s \<longleftrightarrow>
     (let st = rt_state (rcs_processState s) in
      \<not> stateUsesRunSnapshot st \<and> st \<noteq> PS_Completed \<and> rcs_processRunSnapshot s = None \<and>
      rcs_activeRunId s = [] \<and> rcs_activeRunSensorMode s = None \<and> rcs_sensorSelection s = None \<and>
      ssr_phase (rcs_sensorSelectionRuntime s) = SSP_NoActiveRun)"

definition runConsistent :: "RunCommandState \<Rightarrow> bool" where
  "runConsistent s \<longleftrightarrow>
     (case (rcs_activeProgramRun s, rcs_activeManualRun s) of
        (None, None) \<Rightarrow> idleConsistent s
      | (Some run, None) \<Rightarrow> reachableRun run \<and>
          makeActiveRunProcessSnapshot run = rcs_processRunSnapshot s \<and> runningConsistent s
      | (None, Some plan) \<Rightarrow> makeManualProcessSnapshot plan = rcs_processRunSnapshot s \<and>
          mpr_runId (mpl_values plan) = rcs_activeRunId s \<and>
          Some (mpr_sensorMode (mpl_values plan)) = rcs_activeRunSensorMode s \<and> runningConsistent s
      | (Some _, Some _) \<Rightarrow> False)"

definition commandInv :: "RunCommandState \<Rightarrow> bool" where
  "commandInv s \<longleftrightarrow> idWindow s \<and> tracked (rcs_processState s) \<and> runConsistent s \<and>
     validButMarker (rcs_sensorSelectionRuntime s) \<and>
     provenanceMatches (rcs_sensorSelection s) (rcs_activeRunSensorMode s)"

text \<open>The invariant reads neither the bookkeeping of the commands nor the messages nor the recovery
  data.\<close>

definition sameRun :: "RunCommandState \<Rightarrow> RunCommandState \<Rightarrow> bool" where
  "sameRun s c \<longleftrightarrow> rcs_processState c = rcs_processState s \<and>
     rcs_activeProgramRun c = rcs_activeProgramRun s \<and> rcs_activeManualRun c = rcs_activeManualRun s \<and>
     rcs_processRunSnapshot c = rcs_processRunSnapshot s \<and> rcs_activeRunId c = rcs_activeRunId s \<and>
     rcs_activeRunSensorMode c = rcs_activeRunSensorMode s \<and>
     rcs_sensorSelection c = rcs_sensorSelection s \<and>
     rcs_sensorSelectionRuntime c = rcs_sensorSelectionRuntime s"

lemmas consistent_defs = runConsistent_def runningConsistent_def idleConsistent_def

text \<open>The invariant without the window of the ids.\<close>

definition runInv :: "RunCommandState \<Rightarrow> bool" where
  "runInv s \<longleftrightarrow> tracked (rcs_processState s) \<and> runConsistent s \<and>
     validButMarker (rcs_sensorSelectionRuntime s) \<and>
     provenanceMatches (rcs_sensorSelection s) (rcs_activeRunSensorMode s)"

lemma commandInv_split: "commandInv s \<longleftrightarrow> idWindow s \<and> runInv s"
  by (simp add: commandInv_def runInv_def)

lemma runInv_sameRun: "sameRun s c \<Longrightarrow> runInv s \<Longrightarrow> runInv c"
  by (auto simp: runInv_def sameRun_def consistent_defs split: option.splits)

lemma validButMarker_initial: "validButMarker initialSensorSelectionRuntime"
  by (simp add: validButMarker_def initialSensorSelectionRuntime_def validRuntimeCombination_def
      initialReturnValidation_def)

lemma initialRuntime_phase [simp]: "ssr_phase initialSensorSelectionRuntime = SSP_NoActiveRun"
  by (simp add: initialSensorSelectionRuntime_def)

lemma runInv_cleared:
  assumes "rt_state p \<in> {PS_Standby, PS_Boot}" and "tracked p"
  shows "runInv ((clearActiveRunState s)\<lparr>rcs_processState := p\<rparr>)"
  using assms
  by (auto simp: runInv_def consistent_defs clearActiveRunState_def validButMarker_initial
      provenanceMatches_def Let_def stateUsesRunSnapshot_def)

text \<open>What the start of a run establishes.\<close>

lemma active_snapshot:
  assumes "reachableRun run"
  shows "\<exists>snap. makeActiveRunProcessSnapshot run = Some snap \<and> validateProcessRunSnapshot snap"
  using invariant_makes [OF reachable_invariant [OF assms]]
  by (simp add: makeActiveRunProcessSnapshot_def)

lemma start_outcome:
  assumes "out = startSensorSelectionOutcome mode substituted productValid airValid coolingValid r"
    and "mode \<in> {RSM_Air, RSM_Product}" and "substituted \<Longrightarrow> mode = RSM_Air"
  shows "validButMarker (sso_runtime out)" and "ssr_phase (sso_runtime out) \<noteq> SSP_NoActiveRun"
    and "provenanceMatches (Some (sso_persisted out)) (Some mode)"
proof -
  show "validButMarker (sso_runtime out)"
    unfolding assms(1) startSensorSelectionOutcome_def Let_def
    by (auto simp: validButMarker_def validRuntimeCombination_def initialSensorSelectionRuntime_def
        initialReturnValidation_def Let_def)
  show "ssr_phase (sso_runtime out) \<noteq> SSP_NoActiveRun"
    unfolding assms(1) startSensorSelectionOutcome_def Let_def by simp
  show "provenanceMatches (Some (sso_persisted out)) (Some mode)"
    unfolding assms(1) startSensorSelectionOutcome_def Let_def
    using assms(2,3) by (auto simp: provenanceMatches_def)
qed

lemma resolved_mode:
  assumes "pss_valid (resolveStartMode req)" and "validSensorMode (psr_sensorMode req)"
  shows "pss_effectiveMode (resolveStartMode req) \<in> {RSM_Air, RSM_Product}"
    and "pss_substituted (resolveStartMode req) \<Longrightarrow> pss_effectiveMode (resolveStartMode req) = RSM_Air"
proof -
  have k: "psr_sensorMode req \<in> {RSM_Air, RSM_Product}"
    using assms(2) by (cases "psr_sensorMode req") (simp_all add: validSensorMode_def)
  show "pss_effectiveMode (resolveStartMode req) \<in> {RSM_Air, RSM_Product}"
    using k by (auto simp: resolveStartMode_def resolveProgramStartSensorMode_def resolution_def
        split: ProgramRunSource.splits SensorPreference.splits)
  show "pss_substituted (resolveStartMode req) \<Longrightarrow> pss_effectiveMode (resolveStartMode req) = RSM_Air"
    by (auto simp: resolveStartMode_def resolveProgramStartSensorMode_def resolution_def
        split: ProgramRunSource.splits SensorPreference.splits if_splits)
qed

lemma started_state_matches:
  "stateMatchesRunSnapshot (if snap_preheatEnabled snap then PS_Preheating else PS_ReachingTarget) snap"
  by (simp add: stateMatchesRunSnapshot_def)

lemma runInv_programRunStarted:
  assumes t: "applyTransition (s\<lparr>rcs_activeProgramRun := Some run\<rparr>) PE_StartRun now (Some snapshot) = Some c"
    and st: "rt_state (rcs_processState s) = PS_Standby" and tr: "tracked (rcs_processState s)"
    and run: "startRun (psr_program req) (psr_sourceProgramRevision req) = Some run"
    and snap: "makeActiveRunProcessSnapshot run = Some snapshot"
    and v: "pss_valid (resolveStartMode req)" "validSensorMode (psr_sensorMode req)"
      "validRunId (psr_runId req)"
  shows "runInv (programRunStarted s req (resolveStartMode req) run snapshot (rcs_processState c))"
proof -
  define r where "r = resolveStartMode req"
  define out where "out = startSensorSelectionOutcome (pss_effectiveMode r) (pss_substituted r)
      (psr_productSensorValid req) (psr_airSensorValid req) (psr_coolingSensorValid req)
      (rcs_runRevision s + 1)"
  note m = resolved_mode [OF v(1,2), folded r_def]
  note o = start_outcome [OF out_def m]
  have p: "tracked (rcs_processState c)" using event_tracked [OF t] tr by simp
  note sv = start_transition [OF t, simplified, OF st]
  have "reachableRun run" using run by (rule reachableRun.started)
  then have "runConsistent (programRunStarted s req r run snapshot (rcs_processState c))"
    using snap v(3) m(1) o(2) sv started_state_matches [of snapshot]
    by (auto simp: consistent_defs programRunStarted_def Let_def out_def [symmetric])
  with p o(1,3) show ?thesis
    by (simp add: runInv_def programRunStarted_def Let_def r_def [symmetric] out_def [symmetric])
qed

lemma valid_plan:
  assumes "makeManualProcessSnapshot plan = Some snapshot"
  shows "validRunId (mpr_runId (mpl_values plan))"
    and "mpr_sensorMode (mpl_values plan) \<in> {RSM_Air, RSM_Product}"
    and "validateManualRunPlan plan"
proof -
  from assms show v: "validateManualRunPlan plan"
    by (auto simp: makeManualProcessSnapshot_def split: if_splits)
  then show "validRunId (mpr_runId (mpl_values plan))" by (simp add: validateManualRunPlan_def Let_def)
  from v have "validSensorMode (mpr_sensorMode (mpl_values plan))"
    by (simp add: validateManualRunPlan_def Let_def)
  then show "mpr_sensorMode (mpl_values plan) \<in> {RSM_Air, RSM_Product}"
    by (cases "mpr_sensorMode (mpl_values plan)") (simp_all add: validSensorMode_def)
qed

lemma runInv_manualRunInstalled:
  assumes i: "installManualRun c e plan = Some c'"
    and st: "rt_state (rcs_processState c) = PS_Standby" and tr: "tracked (rcs_processState c)"
    and out: "out = startSensorSelectionOutcome (mpr_sensorMode (mpl_values plan)) False pv av cv r"
  shows "runInv (withOutcome out (runCounted s e c'))"
proof -
  obtain snapshot c0 where snap: "makeManualProcessSnapshot plan = Some snapshot"
    and t: "applyTransition c PE_StartRun (cen_monotonicMillis e) (Some snapshot) = Some c0"
    and c': "c' = manualRunInstalled c plan snapshot (rcs_processState c0)"
    using i by (rule installManualRun_eq)
  note p = valid_plan [OF snap]
  have "False \<Longrightarrow> mpr_sensorMode (mpl_values plan) = RSM_Air" by simp
  note o = start_outcome [OF out p(2) this]
  have q: "tracked (rcs_processState c0)" using event_tracked [OF t tr] .
  note sv = start_transition [OF t st]
  have "runConsistent (withOutcome out (runCounted s e c'))"
    using snap p(1,2) o(2) sv started_state_matches [of snapshot]
    by (auto simp: consistent_defs withOutcome_def runCounted_def c' manualRunInstalled_def Let_def)
  with q o(1,3) show ?thesis
    by (simp add: runInv_def withOutcome_def runCounted_def c' manualRunInstalled_def)
qed

text \<open>The end of a run, with the cooling run that may follow.\<close>

lemma runInv_runEnded:
  assumes t: "applyTransition s ev now snap = Some c0"
    and ev: "ev = PE_Abort \<and> stateCanAbort (rt_state (rcs_processState s)) \<or>
      ev = PE_AcknowledgeCompletion \<and> rt_state (rcs_processState s) = PS_Completed"
    and i: "installCoolingRun (clearActiveRunState c0) e plan = Some c"
    and tr: "tracked (rcs_processState s)"
  shows "runInv (coolingOutcome av cv plan (runCounted s e c))"
proof -
  have st: "rt_state (rcs_processState c0) = PS_Standby" using standby_reached [OF t ev] .
  have p: "tracked (rcs_processState c0)" using event_tracked [OF t tr] .
  have cl: "rcs_processState (clearActiveRunState c0) = rcs_processState c0"
    by (simp add: clearActiveRunState_def)
  show ?thesis
  proof (cases plan)
    case None
    then have "c = clearActiveRunState c0" using i by (simp add: installCoolingRun_def)
    moreover have "runInv ((clearActiveRunState c0)\<lparr>rcs_processState := rcs_processState c0\<rparr>)"
      using st p by (intro runInv_cleared) simp_all
    ultimately have "runInv c" by (simp add: clearActiveRunState_def)
    moreover have "sameRun c (runCounted s e c)" by (simp add: sameRun_def runCounted_def)
    ultimately show ?thesis using None runInv_sameRun by (simp add: coolingOutcome_def)
  next
    case (Some q)
    with i have "installManualRun (clearActiveRunState c0) e q = Some c"
      by (simp add: installCoolingRun_def)
    from runInv_manualRunInstalled [OF this _ _ refl] st p cl Some show ?thesis
      by (simp add: coolingOutcome_def)
  qed
qed

section \<open>Changes of a running run\<close>

lemma adjusted_snapshot: "arn_snapshot (snd (applyAdjustment d run)) = arn_snapshot run"
  by (simp add: apply_cases adjustedRun_def split: option.split)

lemma adjusted_state_matches:
  assumes "reachableRun run" and "makeActiveRunProcessSnapshot run = Some snap"
    and "makeActiveRunProcessSnapshot (snd (applyAdjustment d run)) = Some snap'"
    and "stateMatchesRunSnapshot st snap"
  shows "stateMatchesRunSnapshot st snap'"
proof -
  let ?a = "snd (applyAdjustment d run)"
  have "reachableRun ?a" using assms(1) by (rule reachableRun.adjusted)
  from invariant_makes [OF reachable_invariant [OF this]] invariant_makes [OF reachable_invariant [OF assms(1)]]
  have "snap = processSnapshotOf (arn_snapshot run) (arn_effectiveValues run)"
    "snap' = processSnapshotOf (arn_snapshot run) (arn_effectiveValues ?a)"
    using assms(2,3) by (simp_all add: makeActiveRunProcessSnapshot_def adjusted_snapshot)
  with assms(4) show ?thesis
    by (auto simp: stateMatchesRunSnapshot_def processSnapshotOf_def
        split: ProcessState.splits ProgramRunSource.splits)
qed

text \<open>The run of a state without its phase: what a change of the phase has to keep.\<close>

lemma runInv_program_iff:
  assumes "rcs_activeProgramRun s = Some run"
  shows "runInv s \<longleftrightarrow> tracked (rcs_processState s) \<and> rcs_activeManualRun s = None \<and> reachableRun run \<and>
     makeActiveRunProcessSnapshot run = rcs_processRunSnapshot s \<and> runningConsistent s \<and>
     validButMarker (rcs_sensorSelectionRuntime s) \<and>
     provenanceMatches (rcs_sensorSelection s) (rcs_activeRunSensorMode s)"
  using assms by (auto simp: runInv_def runConsistent_def split: option.split)

lemma foldObservedBefore_sameRun:
  "foldObservedBefore s b t c = Some c' \<Longrightarrow> sameRun c c'"
  by (auto simp: sameRun_def foldObservedBefore_def foldObservedRunSeconds_def Let_def
      split: if_splits option.splits)

lemma runInv_restartFermentingTimer:
  assumes "runInv c" and "rt_state (rcs_processState c) = PS_Fermenting"
  shows "runInv (restartFermentingTimer t c)"
proof -
  define c' where "c' = c\<lparr>rcs_processState := (rcs_processState c)\<lparr>rt_stateEnteredAtMillis := t\<rparr>\<rparr>"
  have "runInv c'"
    using assms by (auto simp: runInv_def consistent_defs c'_def tracked_def Let_def split: option.splits)
  moreover have "sameRun c' (restartFermentingTimer t c)"
    by (simp add: sameRun_def c'_def restartFermentingTimer_def Let_def split: option.split)
  ultimately show ?thesis using runInv_sameRun by blast
qed

lemma runInv_adjustRunIn:
  assumes a: "adjustRunIn rd v t s = Some (c, v', effect, changed)" and i: "runInv s"
    and st: "adjustmentAllowedIn (rt_state (rcs_processState s))"
  shows "runInv c \<and> (rt_state (rcs_processState s) = PS_Fermenting \<longrightarrow>
    rcs_processState c = rcs_processState s)"
proof -
  from a obtain run where run: "rcs_activeProgramRun s = Some run"
    by (auto simp: adjustRunIn_def split: option.splits)
  define adjusted where "adjusted = snd (applyAdjustment rd run)"
  define c1 where "c1 = s\<lparr>rcs_activeProgramRun := Some adjusted,
      rcs_processRunSnapshot := makeActiveRunProcessSnapshot adjusted\<rparr>"
  from a run have c: "c = c1 \<and> (rt_state (rcs_processState s) = PS_Fermenting \<or> \<not> changed) \<or>
      (\<exists>snap. rt_state (rcs_processState s) \<noteq> PS_Fermenting \<and>
         applyTransition c1 PE_TargetChanged t snap = Some c)"
    by (auto simp: adjustRunIn_def adjusted_def c1_def Let_def split: if_splits prod.splits)
  from i run have r: "reachableRun run" "makeActiveRunProcessSnapshot run = rcs_processRunSnapshot s"
    "runningConsistent s" "rcs_activeManualRun s = None"
    by (simp_all add: runInv_program_iff [OF run])
  have ra: "reachableRun adjusted" unfolding adjusted_def using r(1) by (rule reachableRun.adjusted)
  then obtain snap' where snap': "makeActiveRunProcessSnapshot adjusted = Some snap'"
      "validateProcessRunSnapshot snap'"
    using active_snapshot by blast
  have rc1: "runningConsistent c1"
    using r snap' adjusted_state_matches [OF r(1) _ snap'(1) [unfolded adjusted_def]]
    by (auto simp: runningConsistent_def c1_def Let_def)
  then have i1: "runInv c1"
    using i r ra by (subst runInv_program_iff [of _ adjusted])
      (simp_all add: c1_def runInv_program_iff [OF run])
  from c show ?thesis
  proof
    assume "c = c1 \<and> (rt_state (rcs_processState s) = PS_Fermenting \<or> \<not> changed)"
    then show ?thesis using i1 by (simp add: c1_def)
  next
    assume "\<exists>snap. rt_state (rcs_processState s) \<noteq> PS_Fermenting \<and>
         applyTransition c1 PE_TargetChanged t snap = Some c"
    then obtain snap where f: "rt_state (rcs_processState s) \<noteq> PS_Fermenting"
      and t: "applyTransition c1 PE_TargetChanged t snap = Some c" by blast
    have pre: "rt_state (rcs_processState c1) \<in> {PS_Preheating, PS_ReachingTarget, PS_QualifyingTarget}"
      using st f by (auto simp: adjustmentAllowedIn_def c1_def)
    from i1 have "tracked (rcs_processState c1)" by (simp add: runInv_def)
    note tr = event_tracked [OF t this]
    note q = target_changed_transition [OF t pre]
    from applyTransition_eq [OF t] have ceq: "c = c1\<lparr>rcs_processState := rcs_processState c\<rparr>" .
    have "runningConsistent (c1\<lparr>rcs_processState := rcs_processState c\<rparr>)"
      using rc1 q pre by (auto simp: runningConsistent_def Let_def stateMatchesRunSnapshot_def)
    then have "runInv (c1\<lparr>rcs_processState := rcs_processState c\<rparr>)"
      using i1 tr by (subst runInv_program_iff [of _ adjusted]) (simp_all add: c1_def runInv_program_iff)
    with ceq f show ?thesis by simp
  qed
qed

text \<open>A decision of the sensor selection on a run.\<close>

lemma selection_sound:
  assumes m: "m = applySensorSelectionDecision v d t"
    and k: "ssm_status m \<in> {SAS_AppliedPersistentCandidate, SAS_AppliedRamOnly}"
    and mode: "ssv_activeMode v \<in> {Some RSM_Air, Some RSM_Product}"
    and per: "ssv_persisted v \<noteq> None"
    and pm: "provenanceMatches (ssv_persisted v) (ssv_activeMode v)"
  shows "validButMarker (ssm_runtime m)" and "ssr_phase (ssm_runtime m) \<noteq> SSP_NoActiveRun"
    and "ssm_activeMode m \<in> {Some RSM_Air, Some RSM_Product}" and "ssm_persisted m \<noteq> None"
    and "provenanceMatches (ssm_persisted m) (ssm_activeMode m)"
proof -
  have "validButMarker (ssm_runtime m) \<and> ssr_phase (ssm_runtime m) \<noteq> SSP_NoActiveRun \<and>
      ssm_activeMode m \<in> {Some RSM_Air, Some RSM_Product} \<and> ssm_persisted m \<noteq> None \<and>
      provenanceMatches (ssm_persisted m) (ssm_activeMode m)"
    using outcome_apply [of v d t, folded m]
  proof cases
    case (rejected st)
    with k show ?thesis by (auto simp: kept_def)
  next
    case (unchanged p)
    with k show ?thesis by auto
  next
    case (ram p)
    note p = sound_proposalD [OF ram(4,5)]
    have "prp_activeMode p = ssv_activeMode v" using p(2) ram(6) by (simp add: modeChangeExplained_def)
    with p(3,4) sound_provenance(1) [OF p(2) pm ram(6)] mode per ram(1) show ?thesis by simp
  next
    case (persistent p)
    note p = sound_proposalD [OF persistent(3,4)]
    have "prp_activeMode p \<in> {Some RSM_Air, Some RSM_Product}"
      using p(2) mode by (auto simp: modeChangeExplained_def split: if_splits)
    with p(3,4) sound_provenance(2) [OF p(2) pm] persistent(5) show ?thesis
      by (simp add: persistent_from_def)
  qed
  then show "validButMarker (ssm_runtime m)" "ssr_phase (ssm_runtime m) \<noteq> SSP_NoActiveRun"
    "ssm_activeMode m \<in> {Some RSM_Air, Some RSM_Product}" "ssm_persisted m \<noteq> None"
    "provenanceMatches (ssm_persisted m) (ssm_activeMode m)"
    by simp_all
qed

lemma plan_mode_snapshot:
  assumes "makeManualProcessSnapshot plan = Some snap" and "mode \<in> {RSM_Air, RSM_Product}"
  shows "makeManualProcessSnapshot (plan\<lparr>mpl_values := (mpl_values plan)\<lparr>mpr_sensorMode := mode\<rparr>\<rparr>) =
    Some snap"
proof -
  have "validSensorMode mode" using assms(2) by (auto simp: validSensorMode_def)
  with valid_plan(3) [OF assms(1)] assms(1) show ?thesis
    by (auto simp: makeManualProcessSnapshot_def validateManualRunPlan_def Let_def split: if_splits)
qed

lemma runInv_selection:
  assumes m: "m = applySensorSelectionDecision (sensorSelectionViewFrom s) d t"
    and k: "ssm_status m \<in> {SAS_AppliedPersistentCandidate, SAS_AppliedRamOnly}"
    and run: "rcs_activeProgramRun s \<noteq> None \<or> rcs_activeManualRun s \<noteq> None"
    and i: "runInv s"
  shows "runInv (applySensorSelectionMutation s m)"
proof -
  have rc: "runningConsistent s"
    using run i by (auto simp: runInv_def runConsistent_def split: option.splits)
  have v: "ssv_activeMode (sensorSelectionViewFrom s) = rcs_activeRunSensorMode s"
    "ssv_persisted (sensorSelectionViewFrom s) = rcs_sensorSelection s"
    by (simp_all add: sensorSelectionViewFrom_def)
  have sel: "validButMarker (ssm_runtime m)" "ssr_phase (ssm_runtime m) \<noteq> SSP_NoActiveRun"
    "ssm_activeMode m \<in> {Some RSM_Air, Some RSM_Product}" "ssm_persisted m \<noteq> None"
    "provenanceMatches (ssm_persisted m) (ssm_activeMode m)"
    by (rule selection_sound [OF m k];
        use rc i v in \<open>simp add: runningConsistent_def runInv_def Let_def\<close>)+
  from sel(3) obtain mode where mode: "ssm_activeMode m = Some mode" "mode \<in> {RSM_Air, RSM_Product}"
    by auto
  define c where "c = applySensorSelectionMutation s m"
  have c: "rcs_processState c = rcs_processState s" "rcs_activeProgramRun c = rcs_activeProgramRun s"
    "rcs_processRunSnapshot c = rcs_processRunSnapshot s" "rcs_activeRunId c = rcs_activeRunId s"
    "rcs_sensorSelectionRuntime c = ssm_runtime m" "rcs_activeRunSensorMode c = Some mode"
    "rcs_sensorSelection c = ssm_persisted m"
    "rcs_activeManualRun c = map_option (\<lambda>plan. plan\<lparr>mpl_values :=
       (mpl_values plan)\<lparr>mpr_sensorMode := mode\<rparr>\<rparr>) (rcs_activeManualRun s)"
    using mode by (simp_all add: c_def applySensorSelectionMutation_def Let_def split: option.split)
  have rc': "runningConsistent c" using rc c mode sel by (simp add: runningConsistent_def Let_def)
  have "runConsistent c"
  proof (cases "rcs_activeProgramRun s")
    case (Some run)
    with i c rc' show ?thesis by (simp add: runInv_def runConsistent_def split: option.splits)
  next
    case None
    with run obtain plan where plan: "rcs_activeManualRun s = Some plan" by auto
    with i None have snap: "makeManualProcessSnapshot plan = rcs_processRunSnapshot s"
      "mpr_runId (mpl_values plan) = rcs_activeRunId s"
      by (simp_all add: runInv_def runConsistent_def)
    from rc obtain snap where "rcs_processRunSnapshot s = Some snap"
      by (auto simp: runningConsistent_def Let_def)
    with plan_mode_snapshot [OF _ mode(2), of plan] snap None plan c rc' show ?thesis
      by (simp add: runConsistent_def)
  qed
  with i c sel show ?thesis by (simp add: runInv_def c_def [symmetric] mode)
qed

text \<open>A change of the phase of a run.\<close>

lemma runInv_phase:
  assumes i: "runInv s" and run: "rcs_activeProgramRun s \<noteq> None \<or> rcs_activeManualRun s \<noteq> None"
    and tr: "tracked p" and st: "rt_state p \<noteq> PS_Boot" "rt_state p \<noteq> PS_Standby"
    and snap: "rcs_processRunSnapshot s = Some snap"
    and m: "stateUsesRunSnapshot (rt_state p) \<Longrightarrow> stateMatchesRunSnapshot (rt_state p) snap"
  shows "runInv (s\<lparr>rcs_processState := p\<rparr>)"
  using assms
  by (auto simp: runInv_def runConsistent_def runningConsistent_def Let_def split: option.splits)

lemma runInv_roleChangeReset:
  assumes r: "applySensorRoleChangeQualificationReset c t = Some c'" and i: "runInv c"
    and run: "rcs_activeProgramRun c \<noteq> None \<or> rcs_activeManualRun c \<noteq> None"
  shows "runInv c'"
proof -
  from i have "tracked (rcs_processState c)" by (simp add: runInv_def)
  with r obtain p where c': "c' = c\<lparr>rcs_processState := p\<rparr>" and p: "tracked p"
    and q: "p = rcs_processState c \<or>
         rt_state (rcs_processState c) = PS_QualifyingTarget \<and> rt_state p = PS_ReachingTarget"
    by (rule role_change_reset)
  from q show ?thesis
  proof
    assume "p = rcs_processState c"
    with i c' show ?thesis by simp
  next
    assume "rt_state (rcs_processState c) = PS_QualifyingTarget \<and> rt_state p = PS_ReachingTarget"
    moreover obtain snap where "rcs_processRunSnapshot c = Some snap"
      using i run by (auto simp: runInv_def runConsistent_def runningConsistent_def Let_def
          split: option.splits)
    ultimately show ?thesis
      using runInv_phase [OF i run p] c' by (simp add: stateMatchesRunSnapshot_def)
  qed
qed

section \<open>Commands keep the invariant\<close>

lemma sameRun_refl [simp]: "sameRun s s" by (simp add: sameRun_def)

lemma sameRun_recorded: "sameRun c (recorded s e c)" by (simp add: sameRun_def)

lemma sameRun_runCounted: "sameRun c (runCounted s e c)" by (simp add: sameRun_def runCounted_def)

lemma runInv_running: "runInv s \<Longrightarrow> rcs_activeProgramRun s \<noteq> None \<or> rcs_activeManualRun s \<noteq> None \<Longrightarrow>
    runningConsistent s"
  by (auto simp: runInv_def runConsistent_def split: option.splits)

lemma runInv_command:
  assumes i: "runInv s" and p: "commandProposed (decideCommand s q)"
  shows "runInv (cd_after (decideCommand s q))"
proof -
  have tr: "tracked (rcs_processState s)" using i by (simp add: runInv_def)
  show ?thesis
  proof (cases q)
    case (CR_ProgramStart r)
    with p have "commandProposed (decideProgramStart s r)" by simp
    then show ?thesis
    proof (rule decideProgramStart_proposed, goal_cases)
      case (1 run snapshot c)
      with runInv_programRunStarted [OF 1(11) _ tr 1(7,8,6,5,4)] CR_ProgramStart show ?thesis
        by (simp add: startAllowed_def)
    qed
  next
    case (CR_ManualStart r)
    with p have "commandProposed (decideManualStart s r)" by simp
    then show ?thesis
    proof (rule decideManualStart_proposed, goal_cases)
      case (1 plan c)
      have "mpl_values plan = msr_plan r" using 1(4) by (auto simp: makeManualPlan_def Let_def split: if_splits)
      with runInv_manualRunInstalled [OF 1(7) _ tr refl] 1(3,8) CR_ManualStart show ?thesis
        by (simp add: startAllowed_def)
    qed
  next
    case (CR_Stop r)
    with p have "commandProposed (decideStop s r)" by simp
    then show ?thesis
    proof (rule decideStop_proposed, goal_cases)
      case (1 plan c0 c)
      from 1(4) have "PE_Abort = PE_Abort \<and> stateCanAbort (rt_state (rcs_processState s))"
        by (cases "rt_state (rcs_processState s)") (simp_all add: activeProcessState_def)
      with runInv_runEnded [OF 1(9) _ 1(10) tr] 1(11) CR_Stop show ?thesis by simp
    qed
  next
    case (CR_Completion r)
    with p have "commandProposed (decideCompletion s r)" by simp
    then show ?thesis
    proof (rule decideCompletion_proposed, goal_cases)
      case (1 plan c0 c)
      with runInv_runEnded [OF 1(7) _ 1(8) tr] CR_Completion show ?thesis by simp
    qed
  next
    case (CR_Adjustment r)
    with p have "commandProposed (decideRunAdjustment s r)" by simp
    then show ?thesis
    proof (rule decideRunAdjustment_proposed, goal_cases)
      case (1 run rd c0 c afterValues effect changed)
      have s0: "sameRun s c0" using foldObservedBefore_sameRun [OF 1(10)] .
      then have i0: "runInv c0" using i by (rule runInv_sameRun)
      from s0 1(3) have "adjustmentAllowedIn (rt_state (rcs_processState c0))" by (simp add: sameRun_def)
      from runInv_adjustRunIn [OF 1(11) i0 this] s0 have ic: "runInv c"
        and st: "timerRestarts s rd \<Longrightarrow> rt_state (rcs_processState c) = PS_Fermenting"
        by (auto simp: timerRestarts_def sameRun_def)
      define x where "x = (if timerRestarts s rd
          then restartFermentingTimer (cen_monotonicMillis (acr_envelope r)) c else c)"
      have "runInv x" using ic st runInv_restartFermentingTimer by (simp add: x_def)
      then have "runInv (runCounted s (acr_envelope r) x)"
        using sameRun_runCounted runInv_sameRun by blast
      with 1(12) CR_Adjustment show ?thesis by (simp add: x_def)
    qed
  next
    case (CR_RecoveryTime r)
    with p have "commandProposed (decideApplyRecoveryTimeCorrection s r)" by simp
    then show ?thesis
    proof (rule decideApplyRecoveryTimeCorrection_proposed, goal_cases)
      case (1 lower upper cumulative)
      then have "sameRun s (cd_after (decideCommand s q))" using CR_RecoveryTime by (simp add: sameRun_def)
      then show ?thesis using i by (rule runInv_sameRun)
    qed
  next
    case (CR_AcknowledgeMessage r)
    with p have "commandProposed (decideAcknowledgeMessage s r)" by simp
    then show ?thesis unfolding decideAcknowledgeMessage_def
    proof (rule decideMessageCommand_proposed, goal_cases)
      case (1 index)
      then have "sameRun s (cd_after (decideCommand s q))"
        using CR_AcknowledgeMessage by (simp add: sameRun_def decideAcknowledgeMessage_def)
      then show ?thesis using i by (rule runInv_sameRun)
    qed
  next
    case (CR_MuteMessage r)
    with p have "commandProposed (decideMuteMessage s r)" by simp
    then show ?thesis unfolding decideMuteMessage_def
    proof (rule decideMessageCommand_proposed, goal_cases)
      case (1 index)
      then have "sameRun s (cd_after (decideCommand s q))"
        using CR_MuteMessage by (simp add: sameRun_def decideMuteMessage_def)
      then show ?thesis using i by (rule runInv_sameRun)
    qed
  next
    case (CR_SensorSelection r pl)
    with p have "commandProposed (decideApplySensorSelectionAction s r pl)" by simp
    then show ?thesis
    proof (rule decideApplySensorSelectionAction_proposed, goal_cases)
      case (1 m c)
      let ?c = "applySensorSelectionMutation s m"
      have i1: "runInv ?c" using runInv_selection [OF 1(1) [unfolded requestedMutation_def] 1(8,4) i] .
      have run: "rcs_activeProgramRun ?c \<noteq> None \<or> rcs_activeManualRun ?c \<noteq> None"
        using 1(4) by (auto simp: applySensorSelectionMutation_def Let_def split: option.split)
      from 1(10) i1 have "runInv c"
        using runInv_roleChangeReset [OF _ i1 run] by (auto split: if_splits)
      then have "runInv (recorded s (scq_envelope r) c)" using sameRun_recorded runInv_sameRun by blast
      with 1(11) CR_SensorSelection show ?thesis by simp
    qed
  qed
qed

lemma idWindow_command:
  assumes "idWindow s" and "commandProposed (decideCommand s q)"
  shows "idWindow (cd_after (decideCommand s q))"
    and "processedIds (cd_after (decideCommand s q)) =
      lastIds (processedIds s @ [cen_id (requestEnvelope q)])"
proof -
  let ?d = "decideCommand s q"
  from decideCommand_recordedFrom [OF assms(2)] obtain c where c: "recordedFrom s ?d c"
    and e: "cd_envelope ?d = requestEnvelope q" by blast
  note w = remember_window [OF assms(1), of "cen_id (requestEnvelope q)"]
  from w(1) c e show "idWindow (cd_after ?d)" by (simp add: recordedFrom_def idWindow_def)
  from w(2) c e show "processedIds (cd_after ?d) = lastIds (processedIds s @ [cen_id (requestEnvelope q)])"
    by (simp add: recordedFrom_def processedIds_def)
qed

lemma commandInv_handle: "commandInv s \<Longrightarrow> commandInv (handleCommand s q)"
proof (cases "commandProposed (decideCommand s q)")
  case True
  assume "commandInv s"
  with runInv_command [OF _ True] idWindow_command(1) [OF _ True] show ?thesis
    by (simp add: commandInv_split handleCommand_eq)
next
  case False
  assume "commandInv s"
  then show ?thesis by (simp add: handleCommand_eq decideCommand_rejected [OF False])
qed

section \<open>The other mutations keep the invariant\<close>

lemma withLiveEvidence_keeps:
  "sameRun c (withLiveEvidence live c)" "sameBooks c (withLiveEvidence live c)"
  by (simp_all add: withLiveEvidence_def applyLiveRecoveryEvidence_def sameRun_def sameBooks_def Let_def
      split: option.split)

lemma foldObservedAt_keeps:
  "foldObservedAt s d c = Some c' \<Longrightarrow> sameRun c c' \<and> sameBooks c c'"
  by (auto simp: foldObservedAt_def foldObservedRunSeconds_def sameRun_def sameBooks_def Let_def
      split: if_splits option.splits)

lemma transitionRun_eq:
  assumes "transitionRun d s = Some s'"
  obtains snap where "rcs_processRunSnapshot s = Some snap"
    and "applyProcessTransition (rcs_processState s) d (Some snap) = Some (dec_after d)"
    and "s' = s\<lparr>rcs_processState := dec_after d\<rparr>"
proof -
  from assms obtain snap p where "rcs_processRunSnapshot s = Some snap"
    and a: "applyProcessTransition (rcs_processState s) d (Some snap) = Some p"
    and "s' = s\<lparr>rcs_processState := p\<rparr>"
    by (auto simp: transitionRun_def split: option.splits)
  with that applied_transition(1) [OF a] show ?thesis by simp
qed

lemma eligible_target:
  assumes "applyProcessTransition s d (Some snap) = Some (dec_after d)" and "eligibleTransition (dec_reason d)"
  shows "dec_reason d = TR_ProductWaitExpired \<Longrightarrow> rt_state (dec_after d) = PS_Standby"
    and "dec_reason d \<noteq> TR_ProductWaitExpired \<Longrightarrow>
      rt_state (dec_after d) \<noteq> PS_Boot \<and> rt_state (dec_after d) \<noteq> PS_Standby \<and>
      (stateUsesRunSnapshot (rt_state (dec_after d)) \<longrightarrow>
         stateMatchesRunSnapshot (rt_state (dec_after d)) snap)"
proof -
  note a = applied_transition(3,4) [OF assms(1)]
  have m: "stateUsesRunSnapshot (rt_state (dec_after d)) \<Longrightarrow> dec_reason d \<noteq> TR_CriticalFault \<Longrightarrow>
      stateMatchesRunSnapshot (rt_state (dec_after d)) snap"
    using transition_matches [OF a(2)] by blast
  have f: "dec_reason d = TR_CriticalFault \<Longrightarrow> rt_state (dec_after d) = PS_Fault"
    using a(1) by (simp add: validProposedTopology_def validBootTopology_def validPhaseTopology_def
        validControlTopology_def Let_def)
  show "dec_reason d = TR_ProductWaitExpired \<Longrightarrow> rt_state (dec_after d) = PS_Standby"
    using a(1) by (simp add: validProposedTopology_def validBootTopology_def validPhaseTopology_def
        validControlTopology_def Let_def)
  assume r: "dec_reason d \<noteq> TR_ProductWaitExpired"
  have "rt_state (dec_after d) \<noteq> PS_Boot \<and> rt_state (dec_after d) \<noteq> PS_Standby"
    using a(1) assms(2) r
    by (cases "dec_reason d") (auto simp: eligibleTransition_def validProposedTopology_def
        validBootTopology_def validPhaseTopology_def validControlTopology_def Let_def)
  moreover have "stateMatchesRunSnapshot (rt_state (dec_after d)) snap"
    if "stateUsesRunSnapshot (rt_state (dec_after d))"
    using m that f by (cases "dec_reason d = TR_CriticalFault") (auto simp: stateUsesRunSnapshot_def)
  ultimately show "rt_state (dec_after d) \<noteq> PS_Boot \<and> rt_state (dec_after d) \<noteq> PS_Standby \<and>
      (stateUsesRunSnapshot (rt_state (dec_after d)) \<longrightarrow>
         stateMatchesRunSnapshot (rt_state (dec_after d)) snap)"
    by blast
qed

lemma runInv_transition:
  assumes i: "runInv s" and t: "transitionInMemory s d live = Some s'"
    and d: "d = decideProcessTransition (rcs_processState s) (rcs_processRunSnapshot s) signals request now prior"
    and e: "eligibleTransition (dec_reason d)"
  shows "runInv s' \<and> sameBooks s s'"
proof -
  from t obtain s1 where s1: "transitionRun d s = Some s1"
    by (auto simp: transitionInMemory_def split: option.splits)
  with t obtain s2 where s2: "foldObservedAt s d s1 = Some s2"
    and s': "s' = withLiveEvidence live (endExpiredWait d s2)"
    by (auto simp: transitionInMemory_def split: option.splits)
  from s1 obtain snap where snap: "rcs_processRunSnapshot s = Some snap"
    and a: "applyProcessTransition (rcs_processState s) d (Some snap) = Some (dec_after d)"
    and s1eq: "s1 = s\<lparr>rcs_processState := dec_after d\<rparr>"
    by (rule transitionRun_eq)
  have "proposed d" using a by (auto simp: applyProcessTransition_def split: if_splits)
  then have tr: "tracked (dec_after d)" using i tracked_decide unfolding d by (simp add: runInv_def)
  have run: "rcs_activeProgramRun s \<noteq> None \<or> rcs_activeManualRun s \<noteq> None"
    using i snap by (auto simp: runInv_def consistent_defs Let_def split: option.splits)
  have k: "sameRun s1 s2" "sameBooks s1 s2" using foldObservedAt_keeps [OF s2] by simp_all
  have "runInv (endExpiredWait d s2)"
  proof (cases "dec_reason d = TR_ProductWaitExpired")
    case True
    with k have "endExpiredWait d s2 = (clearActiveRunState s2)\<lparr>rcs_processState := dec_after d\<rparr>"
      by (simp add: endExpiredWait_def clearActiveRunState_def sameRun_def s1eq)
    then show ?thesis using runInv_cleared [OF _ tr, of s2] eligible_target(1) [OF a e True] by simp
  next
    case False
    note f = eligible_target(2) [OF a e False]
    have "runInv s1" unfolding s1eq
      by (rule runInv_phase [OF i run tr _ _ snap]) (use f in blast)+
    with k False runInv_sameRun show ?thesis by (simp add: endExpiredWait_def)
  qed
  then have "runInv s'" unfolding s' using withLiveEvidence_keeps(1) runInv_sameRun by blast
  moreover have "sameBooks s1 (endExpiredWait d s2)"
    using k(2) by (simp add: endExpiredWait_def sameBooks_def clearActiveRunState_def)
  then have "sameBooks s s'"
    using withLiveEvidence_keeps(2) [of "endExpiredWait d s2" live] s'
    by (simp add: sameBooks_def s1eq)
  ultimately show ?thesis by blast
qed

lemma runInv_selectionInMemory:
  assumes i: "runInv s" and run: "rcs_activeProgramRun s \<noteq> None \<or> rcs_activeManualRun s \<noteq> None"
    and m: "m = applySensorSelectionDecision (sensorSelectionViewFrom s) d t"
    and k: "ssm_status m \<in> {SAS_AppliedPersistentCandidate, SAS_AppliedRamOnly}"
    and c: "selectionCandidate s m now live = Some c"
  shows "runInv (selectionInMemory s m c live) \<and> sameBooks s (selectionInMemory s m c live)"
proof -
  let ?a = "applySensorSelectionMutation s m"
  have ia: "runInv ?a" using runInv_selection [OF m k run i] .
  have ra: "rcs_activeProgramRun ?a \<noteq> None \<or> rcs_activeManualRun ?a \<noteq> None"
    using run by (auto simp: applySensorSelectionMutation_def Let_def split: option.split)
  from c obtain x where x: "c = withLiveEvidence live x"
    and y: "x = ?a \<or> applySensorRoleChangeQualificationReset ?a now = Some x"
    by (auto simp: selectionCandidate_def Let_def split: if_splits)
  from y ia have ix: "runInv x" using runInv_roleChangeReset [OF _ ia ra] by blast
  from y have xeq: "x = ?a\<lparr>rcs_processState := rcs_processState x\<rparr>"
    by (auto dest!: roleChangeReset_process)
  have "rcs_processState c = rcs_processState x"
    using x withLiveEvidence_keeps(1) [of x live] by (simp add: sameRun_def)
  then have "selectionInMemory s m c live = withLiveEvidence live x"
    using xeq by (simp add: selectionInMemory_def)
  moreover have "runInv (withLiveEvidence live x)"
    using ix withLiveEvidence_keeps(1) runInv_sameRun by blast
  moreover have "sameBooks ?a x" by (subst xeq) (simp add: sameBooks_def)
  then have "sameBooks s (withLiveEvidence live x)"
    using withLiveEvidence_keeps(2) [of x live] applySensorSelectionMutation_books [of s m]
    by (blast intro: sameBooks_trans)
  ultimately show ?thesis by simp
qed

end
