(* ===== verification/ControlContextProofs.thy ===== *)
theory ControlContextProofs
  imports RunCommandReachable
begin

text \<open>
  Targets and qualification values of the runs that a consistent command state holds, and the control
  context that is resolved from it.
\<close>

section \<open>Values of a run\<close>

text \<open>What a qualification band is: at least the double nearest to 0.1, at most 2 degrees.\<close>

abbreviation bandInRange :: "f64 option \<Rightarrow> bool" where
  "bandInRange b \<equiv> celsiusIn (3602879701896397 / 36028797018963968) 2 b"

lemma program_completion:
  assumes "programIsValid d VP_Runnable"
    and "pcp_mode (pd_completion (doc_program d)) \<noteq> CM_FinishWithoutCooling"
  shows "celsiusIn 4 25 (pcp_coolingTargetCelsius (pd_completion (doc_program d)))"
    and "validCoolingMode (pcp_mode (pd_completion (doc_program d)))"
proof -
  have m: "validCompletionMode (pcp_mode (pd_completion (doc_program d)))"
    using program_snapshot_parts(1) [OF assms(1)] .
  with assms(2) show "validCoolingMode (pcp_mode (pd_completion (doc_program d)))"
    by (cases "pcp_mode (pd_completion (doc_program d))")
      (simp_all add: validCompletionMode_def validCoolingMode_def)
  with m have u: "programUsesCoolingTarget (doc_program d)"
    by (auto simp: programUsesCoolingTarget_def validCoolingMode_def hasCooling_def)
  have "validateUsedValues (doc_program d) VP_Runnable = []"
    using assms(1) by (simp add: programIsValid_def validateProgram_def split: if_splits)
  with u show "celsiusIn 4 25 (pcp_coolingTargetCelsius (pd_completion (doc_program d)))"
    by (simp add: validateUsedValues_def celsiusIn_iff kMinimumCoolingTargetCelsius_def
        kMaximumCoolingTargetCelsius_def)
qed

lemma program_band:
  assumes "programIsValid d VP_Runnable"
  shows "bandInRange (tql_bandCelsius (pd_targetQualification (doc_program d)))"
proof -
  have "validateQualification (doc_program d) VP_Runnable = []"
    using assms by (simp add: programIsValid_def validateProgram_def split: if_splits)
  then show ?thesis
    by (simp add: validateQualification_def celsiusIn_iff kMinimumQualificationBandCelsius_def
        kMaximumQualificationBandCelsius_def)
qed

lemma manual_completion:
  assumes "validManualTimedRunSourceImpl m" and "pcp_mode (mts_completion m) \<noteq> CM_FinishWithoutCooling"
  shows "celsiusIn 4 25 (pcp_coolingTargetCelsius (mts_completion m))"
    and "validCoolingMode (pcp_mode (mts_completion m))"
proof -
  have c: "validCompletion (mts_completion m)"
    using assms(1) by (simp add: validManualTimedRunSourceImpl_def Let_def)
  with assms(2) have "validCoolingTarget (mts_completion m)"
    by (auto simp: validCompletion_def split: CompletionMode.splits)
  then show "celsiusIn 4 25 (pcp_coolingTargetCelsius (mts_completion m))"
    using celsiusIn_iff [where v = "pcp_coolingTargetCelsius (mts_completion m)" and lo = 4 and hi = 25]
    by (cases "pcp_coolingTargetCelsius (mts_completion m)")
      (simp_all add: validCoolingTarget_def inRangeCelsius_def kMinimumCoolingTargetCelsius_def
        kMaximumCoolingTargetCelsius_def)
  show "validCoolingMode (pcp_mode (mts_completion m))"
    using c assms(2) by (auto simp: validCompletion_def validCoolingMode_def split: CompletionMode.splits)
qed

lemma manual_band:
  assumes "validManualTimedRunSourceImpl m"
  shows "bandInRange (tql_bandCelsius (mts_targetQualification m))"
  using assms celsiusIn_iff [where v = "tql_bandCelsius (mts_targetQualification m)"
      and lo = "3602879701896397 / 36028797018963968" and hi = 2]
  by (cases "tql_bandCelsius (mts_targetQualification m)")
    (simp_all add: validManualTimedRunSourceImpl_def Let_def inRangeCelsius_def
      kMinimumQualificationBandCelsius_def kMaximumQualificationBandCelsius_def)

lemma run_completion:
  assumes "runInvariant run"
    and "snap_completionMode (processSnapshotOf (arn_snapshot run) v) \<noteq> CM_FinishWithoutCooling"
  shows "celsiusIn 4 25 (completionCoolingTarget run)"
    and "validCoolingMode (snap_completionMode (processSnapshotOf (arn_snapshot run) v))"
proof -
  have s: "sourceAccepted (arn_snapshot run)" using assms(1) by (simp add: runInvariant_def)
  note valid_cases [OF s]
  then show "celsiusIn 4 25 (completionCoolingTarget run)"
    using assms(2) program_completion(1) manual_completion(1)
    by (auto simp: completionCoolingTarget_def processSnapshotOf_def split: ProgramRunSource.splits)
  show "validCoolingMode (snap_completionMode (processSnapshotOf (arn_snapshot run) v))"
    using valid_cases [OF s] assms(2) program_completion(2) manual_completion(2)
    by (auto simp: processSnapshotOf_def split: ProgramRunSource.splits)
qed

lemma plan_ranges:
  assumes "validateManualRunPlan plan"
  shows "celsiusIn 4 45 (Some (mpr_targetTemperatureCelsius (mpl_values plan)))"
    and "bandInRange (Some (mpr_qualificationBandCelsius (mpl_values plan)))"
proof -
  show "celsiusIn 4 45 (Some (mpr_targetTemperatureCelsius (mpl_values plan)))"
    using assms fermentation_limits [of "mpr_targetTemperatureCelsius (mpl_values plan)"]
    by (simp add: validateManualRunPlan_def Let_def)
  show "bandInRange (Some (mpr_qualificationBandCelsius (mpl_values plan)))"
    using assms celsiusIn_iff [where v = "Some (mpr_qualificationBandCelsius (mpl_values plan))"
        and lo = "3602879701896397 / 36028797018963968" and hi = 2]
    by (simp add: validateManualRunPlan_def Let_def inRangeCelsius_def
      kMinimumQualificationBandCelsius_def kMaximumQualificationBandCelsius_def)
qed

lemma celsiusIn_finite: "celsiusIn lo hi (Some t) \<Longrightarrow> isfinite t"
  by (cases t) (simp_all add: celsiusIn_def isfinite_def)

section \<open>The resolved context\<close>

text \<open>The sensor that leads in a phase.\<close>

definition leadingRole :: "ProcessState \<Rightarrow> RunSensorMode option \<Rightarrow> ControlSensorRole" where
  "leadingRole st mode =
     (if st = PS_Preheating \<or> st = PS_WaitingForProduct \<or> mode \<noteq> Some RSM_Product then CSR_Air
      else CSR_Product)"

lemma resolved_role:
  "mode \<in> {Some RSM_Air, Some RSM_Product} \<Longrightarrow>
   resolveEffectiveControlSensorRole st mode = Some (leadingRole st mode)"
  by (auto simp: resolveEffectiveControlSensorRole_def leadingRole_def)

lemma resolve_valid:
  assumes "temperatureControlledPhase (eci_phase i)"
    and "eci_activeRunSensorMode i \<in> {Some RSM_Air, Some RSM_Product}"
    and "targetOfPhase i = Some (Some t, kind)" and "isfinite t"
  shows "ecc_valid (resolveControlContextInput i)"
    and "ecc_controlSensorRole (resolveControlContextInput i) =
      leadingRole (eci_phase i) (eci_activeRunSensorMode i)"
    and "ect_targetCelsius (ecc_target (resolveControlContextInput i)) = t"
    and "ect_targetKind (ecc_target (resolveControlContextInput i)) = kind"
    and "ect_valid (ecc_target (resolveControlContextInput i))"
    and "ect_sourceRevision (ecc_target (resolveControlContextInput i)) = eci_runRevision i"
    and "ecc_phase (resolveControlContextInput i) = eci_phase i"
    and "ctx_controlSensorRole (ecc_requestContext (resolveControlContextInput i)) =
      leadingRole (eci_phase i) (eci_activeRunSensorMode i)"
    and "ctx_processTransitionSequence (ecc_requestContext (resolveControlContextInput i)) =
      eci_processTransitionSequence i"
    and "ctx_runRevision (ecc_requestContext (resolveControlContextInput i)) = eci_runRevision i"
  using assms by (simp_all add: resolveControlContextInput_def Let_def resolved_role)

lemma equalProcessRunSnapshot_refl [simp]: "equalProcessRunSnapshot x x"
  by (simp add: equalProcessRunSnapshot_iff)

lemma controlled_uses: "temperatureControlledPhase st = stateUsesRunSnapshot st"
  by (simp add: temperatureControlledPhase_def stateUsesRunSnapshot_def)

text \<open>The target that the run asks for: the one of the manual plan; in a program the cooling target of
  its source while it cools and holds, and before that the effective target, with the adjustments.\<close>

definition runTarget :: "RunCommandState \<Rightarrow> f64 option" where
  "runTarget s =
     (case (rcs_activeManualRun s, rcs_activeProgramRun s) of
        (Some plan, _) \<Rightarrow> Some (mpr_targetTemperatureCelsius (mpl_values plan))
      | (None, Some run) \<Rightarrow>
          if rt_state (rcs_processState s) = PS_Cooling \<or> rt_state (rcs_processState s) = PS_CoolHolding
          then (case rps_source (arn_snapshot run) of
             PRS_Program d \<Rightarrow> pcp_coolingTargetCelsius (pd_completion (doc_program d))
           | PRS_ManualTimed m \<Rightarrow> pcp_coolingTargetCelsius (mts_completion m))
          else Some (erv_targetTemperatureCelsius (arn_effectiveValues run))
      | (None, None) \<Rightarrow> None)"

text \<open>The context of a consistent state, with its target, the kind of the target, the sensor that leads
  and the revisions that the requests of the controller carry.\<close>

definition contextOk :: "RunCommandState \<Rightarrow> EffectiveControlContext \<Rightarrow> bool" where
  "contextOk s c \<longleftrightarrow>
     (let st = rt_state (rcs_processState s) in
      ecc_valid c \<and> ecc_controlSensorRole c = leadingRole st (rcs_activeRunSensorMode s) \<and>
      ect_valid (ecc_target c) \<and> Some (ect_targetCelsius (ecc_target c)) = runTarget s \<and>
      ect_sourceRevision (ecc_target c) = rcs_runRevision s \<and> ecc_phase c = st \<and>
      ctx_controlSensorRole (ecc_requestContext c) = leadingRole st (rcs_activeRunSensorMode s) \<and>
      ctx_processTransitionSequence (ecc_requestContext c) =
        rt_transitionSequence (rcs_processState s) \<and>
      ctx_runRevision (ecc_requestContext c) = rcs_runRevision s \<and>
      (if st = PS_Cooling \<or> st = PS_CoolHolding then
         ect_targetKind (ecc_target c) = CTK_CoolingCompletion \<and>
         celsiusIn 4 25 (Some (ect_targetCelsius (ecc_target c)))
       else celsiusIn 4 45 (Some (ect_targetCelsius (ecc_target c))) \<and>
         ect_targetKind (ecc_target c) =
           (if rcs_activeManualRun s \<noteq> None then CTK_ManualRun else CTK_FermentationRun)))"

lemma context_program:
  assumes i: "runInv s" and run: "rcs_activeProgramRun s = Some run"
    and st: "temperatureControlledPhase (rt_state (rcs_processState s))"
  shows "contextOk s (resolveEffectiveControlContext s)"
proof -
  let ?st = "rt_state (rcs_processState s)" and ?v = "arn_effectiveValues run"
  have r: "reachableRun run" "makeActiveRunProcessSnapshot run = rcs_processRunSnapshot s"
    "runningConsistent s" "rcs_activeManualRun s = None"
    using i by (simp_all add: runInv_program_iff [OF run])
  have inv: "runInvariant run" using reachable_invariant [OF r(1)] .
  define snap where "snap = processSnapshotOf (arn_snapshot run) ?v"
  have snap: "rcs_processRunSnapshot s = Some snap" "validateProcessRunSnapshot snap"
    "snap_kind snap = PK_Timed"
    using invariant_makes [OF inv] r(2) by (simp_all add: makeActiveRunProcessSnapshot_def snap_def)
  have m: "stateMatchesRunSnapshot ?st snap"
    and mode: "rcs_activeRunSensorMode s \<in> {Some RSM_Air, Some RSM_Product}"
    using r(3) snap(1) st by (auto simp: runningConsistent_def controlled_uses Let_def)
  obtain t where t: "erv_targetTemperatureCelsius ?v = t" "celsiusIn 4 45 (Some t)"
    using inv by (simp add: runInvariant_def valuesInRange_def)
  define j where "j = (initialContextInput s)\<lparr>eci_effectiveFermentationTargetCelsius := Some t,
      eci_completionMode := snap_completionMode snap\<rparr>"
  define i' where "i' = (if ?st = PS_Cooling \<or> ?st = PS_CoolHolding
      then j\<lparr>eci_completionCoolingTargetCelsius := completionCoolingTarget run\<rparr> else j)"
  have proj: "projectEffectiveControlContextInput s = Some i'"
    using st snap m run r t by (simp add: projectEffectiveControlContextInput_def
        projectTimedContext_def initialContextInput_def i'_def j_def Let_def)
  have sel: "eci_phase i' = ?st" "eci_activeRunSensorMode i' = rcs_activeRunSensorMode s"
    "eci_runRevision i' = rcs_runRevision s"
    "eci_processTransitionSequence i' = rt_transitionSequence (rcs_processState s)"
    by (simp_all add: i'_def j_def initialContextInput_def)
  show ?thesis
  proof (cases "?st = PS_Cooling \<or> ?st = PS_CoolHolding")
    case True
    with m have "snap_completionMode snap \<noteq> CM_FinishWithoutCooling"
      by (auto simp: stateMatchesRunSnapshot_def)
    from run_completion [OF inv this [unfolded snap_def]]
    obtain ct where ct: "completionCoolingTarget run = Some ct" "celsiusIn 4 25 (Some ct)"
      "validCoolingMode (snap_completionMode snap)"
      by (cases "completionCoolingTarget run") (simp_all add: snap_def celsiusIn_def)
    have "targetOfPhase i' = Some (Some ct, CTK_CoolingCompletion)"
      using True ct by (auto simp: targetOfPhase_def i'_def j_def initialContextInput_def Let_def)
    from resolve_valid [OF _ _ this celsiusIn_finite [OF ct(2)]] st sel mode ct True proj run r(4)
    show ?thesis by (simp add: contextOk_def resolveEffectiveControlContext_def Let_def runTarget_def
        completionCoolingTarget_def)
  next
    case False
    have "?st \<noteq> PS_ManualHolding" using m snap(3) by (auto simp: stateMatchesRunSnapshot_def)
    with False st have "targetOfPhase i' = Some (Some t, CTK_FermentationRun)"
      by (cases ?st) (simp_all add: targetOfPhase_def i'_def j_def initialContextInput_def
          temperatureControlledPhase_def Let_def)
    from resolve_valid [OF _ _ this celsiusIn_finite [OF t(2)]] st sel mode t False proj run r(4)
    show ?thesis by (simp add: contextOk_def resolveEffectiveControlContext_def Let_def runTarget_def)
  qed
qed

lemma context_manual:
  assumes i: "runInv s" and run: "rcs_activeManualRun s = Some plan"
    and st: "temperatureControlledPhase (rt_state (rcs_processState s))"
  shows "contextOk s (resolveEffectiveControlContext s)"
proof -
  let ?st = "rt_state (rcs_processState s)"
  have n: "rcs_activeProgramRun s = None" "makeManualProcessSnapshot plan = rcs_processRunSnapshot s"
    "mpr_runId (mpl_values plan) = rcs_activeRunId s"
    "rcs_activeRunSensorMode s = Some (mpr_sensorMode (mpl_values plan))" "runningConsistent s"
    using i run by (auto simp: runInv_def runConsistent_def split: option.splits)
  then obtain snap where snap: "rcs_processRunSnapshot s = Some snap" "validateProcessRunSnapshot snap"
    and m: "stateMatchesRunSnapshot ?st snap"
    using st by (auto simp: runningConsistent_def controlled_uses Let_def)
  have mk: "makeManualProcessSnapshot plan = Some snap" using n(2) snap(1) by simp
  then have k: "snap_kind snap = PK_ManualHolding"
    by (auto simp: makeManualProcessSnapshot_def Let_def split: if_splits)
  note v = valid_plan [OF mk]
  note t = plan_ranges(1) [OF v(3)]
  have mode: "rcs_activeRunSensorMode s \<in> {Some RSM_Air, Some RSM_Product}"
    using n(4) v(2) by auto
  define i' where "i' = (initialContextInput s)\<lparr>eci_manualRun := True,
      eci_manualTargetCelsius := Some (mpr_targetTemperatureCelsius (mpl_values plan)),
      eci_completionMode := snap_completionMode snap\<rparr>"
  have proj: "projectEffectiveControlContextInput s = Some i'"
    using st snap m run n k mk by (auto simp: projectEffectiveControlContextInput_def
        projectManualContext_def initialContextInput_def i'_def Let_def split: ProcessKind.split)
  have sel: "eci_phase i' = ?st" "eci_activeRunSensorMode i' = rcs_activeRunSensorMode s"
    "eci_runRevision i' = rcs_runRevision s"
    "eci_processTransitionSequence i' = rt_transitionSequence (rcs_processState s)"
    by (simp_all add: i'_def initialContextInput_def)
  have f: "?st \<noteq> PS_Fermenting \<and> ?st \<noteq> PS_Cooling \<and> ?st \<noteq> PS_CoolHolding"
    using m k by (auto simp: stateMatchesRunSnapshot_def)
  with st have "targetOfPhase i' = Some (Some (mpr_targetTemperatureCelsius (mpl_values plan)), CTK_ManualRun)"
    by (cases ?st) (simp_all add: targetOfPhase_def i'_def initialContextInput_def
        temperatureControlledPhase_def Let_def)
  from resolve_valid [OF _ _ this celsiusIn_finite [OF t]] st sel mode t f proj run
  show ?thesis by (simp add: contextOk_def resolveEffectiveControlContext_def Let_def runTarget_def)
qed

lemma context_idle:
  assumes "\<not> temperatureControlledPhase (rt_state (rcs_processState s))"
  shows "\<not> ecc_valid (resolveEffectiveControlContext s)"
  using assms by (simp add: resolveEffectiveControlContext_def projectEffectiveControlContextInput_def
      initialContextInput_def resolveControlContextInput_def initialControlContext_def Let_def)

lemma context_consistent:
  assumes i: "runInv s"
  shows "if temperatureControlledPhase (rt_state (rcs_processState s))
    then contextOk s (resolveEffectiveControlContext s)
    else \<not> ecc_valid (resolveEffectiveControlContext s)"
proof (cases "temperatureControlledPhase (rt_state (rcs_processState s))")
  case True
  have "rcs_activeProgramRun s \<noteq> None \<or> rcs_activeManualRun s \<noteq> None"
    using i True by (auto simp: runInv_def runConsistent_def idleConsistent_def controlled_uses Let_def
        split: option.splits)
  then show ?thesis using context_program [OF i _ True] context_manual [OF i _ True] True by auto
qed (simp add: context_idle)

text \<open>In a phase of a qualification the qualification context is valid too.\<close>

lemma run_band:
  assumes "runInv s" and "rcs_activeProgramRun s \<noteq> None \<or> rcs_activeManualRun s \<noteq> None"
  shows "bandInRange (qualificationBandForActiveRun s)"
proof (cases "rcs_activeManualRun s")
  case (Some plan)
  with assms obtain snap where "makeManualProcessSnapshot plan = Some snap"
    by (auto simp: runInv_def runConsistent_def runningConsistent_def Let_def split: option.splits)
  from plan_ranges(2) [OF valid_plan(3) [OF this]] Some show ?thesis
    by (simp add: qualificationBandForActiveRun_def)
next
  case None
  with assms obtain run where run: "rcs_activeProgramRun s = Some run" by auto
  with assms have "reachableRun run" by (simp add: runInv_program_iff [OF run])
  then have "sourceAccepted (arn_snapshot run)"
    using reachable_invariant by (simp add: runInvariant_def)
  from valid_cases [OF this] None run program_band manual_band show ?thesis
    by (auto simp: qualificationBandForActiveRun_def split: ProgramRunSource.splits)
qed

lemma positive_duration:
  assumes "validateProcessRunSnapshot snap"
  shows "snap_qualificationDurationMinutes snap \<noteq> 0"
  using assms by (auto simp: validateProcessRunSnapshot_def inRange_def kMinimumQualificationDurationMinutes_def
      split: if_splits)

lemma qualification_consistent:
  assumes i: "runInv s" and st: "qualificationEpisodePhase (rt_state (rcs_processState s))"
  shows "let q = resolveEffectiveQualificationContext s; c = resolveEffectiveControlContext s in
    eqc_valid q \<and> eqc_controlSensorRole q = ecc_controlSensorRole c \<and>
    eqc_targetCelsius q = ect_targetCelsius (ecc_target c) \<and> bandInRange (Some (eqc_bandCelsius q)) \<and>
    unat (eqc_qualificationDurationMillis q) =
      unat (snap_qualificationDurationMinutes (the (rcs_processRunSnapshot s))) * 60000 \<and>
    eqc_qualificationDurationMillis q \<noteq> 0"
proof -
  have tc: "temperatureControlledPhase (rt_state (rcs_processState s))"
    using st by (auto simp: qualificationEpisodePhase_def temperatureControlledPhase_def)
  then have v: "ecc_valid (resolveEffectiveControlContext s)"
    using context_consistent [OF i] by (simp add: contextOk_def Let_def)
  have run: "rcs_activeProgramRun s \<noteq> None \<or> rcs_activeManualRun s \<noteq> None"
    using i tc by (auto simp: runInv_def runConsistent_def idleConsistent_def controlled_uses Let_def
        split: option.splits)
  obtain snap where snap: "rcs_processRunSnapshot s = Some snap" "validateProcessRunSnapshot snap"
    using runInv_running [OF i run] by (auto simp: runningConsistent_def Let_def)
  obtain band where band: "qualificationBandForActiveRun s = Some band" "bandInRange (Some band)"
    using run_band [OF i run] by (cases "qualificationBandForActiveRun s") (simp_all add: celsiusIn_def)
  define d where "d = snap_qualificationDurationMinutes snap"
  have d0: "d \<noteq> 0" using positive_duration [OF snap(2)] by (simp add: d_def)
  define m :: u64 where "m = ucast d"
  have mn: "unat m = unat d" by (simp add: m_def unat_ucast_u32_u64)
  have lt: "unat d < 4294967296" using unat_u32_lt .
  have mul: "unat (m * 60000) = unat d * 60000"
    using lt by (subst unat_mult_no_wrap) (simp_all add: mn)
  have le: "\<not> m > u64_max div 60000"
    using lt by (simp add: word_less_nat_alt mn unat_div unat_u64_max)
  have nz: "m * 60000 \<noteq> 0"
    using mul d0 by (metis mult_eq_0_iff unat_eq_0 zero_neq_numeral)
  show ?thesis
    using st snap(1) v band celsiusIn_finite [OF band(2)] le nz mul
    by (simp add: resolveEffectiveQualificationContext_def Let_def d_def [symmetric] m_def [symmetric])
qed

end
