(* ===== verification/RunProperties.thy ===== *)
theory RunProperties
  imports RunProofs
begin

text \<open>
  What an active run promises: it can be stored and restored at any time, a proposed adjustment is
  applied exactly as it was proposed, and the process state machine always accepts its snapshot.
\<close>

text \<open>Round trip of a run. From its snapshot, its revisions and their count, restoreRun
  rebuilds every run that a start, adjustments and earlier restores can reach: the same source, the
  same effective values and the same revisions, in a new monotonic epoch when there is a revision.\<close>

theorem run_restore_roundtrip:
  assumes "reachableRun run"
  shows "restoreRun (arn_snapshot run) (arn_revisions run) (arn_revisionCount run) =
    Some (run\<lparr>arn_monotonicEpoch :=
      (if arn_revisionCount run > 0
       then rrv_monotonicEpoch (arn_revisions run ! (arn_revisionCount run - 1)) + 1 else 0)\<rparr>)"
proof -
  have inv: "runInvariant run" by (rule reachable_invariant) (rule assms)
  then have "validateRunProgramSnapshotInto (arn_snapshot run) (arn_revisions run)
      (arn_revisionCount run) = Some (arn_effectiveValues run)"
    unfolding validate_iff by (simp add: runInvariant_def)
  moreover have "take (arn_revisionCount run) (arn_revisions run) @
      replicate (kMaximumRunRevisions - arn_revisionCount run) emptyRunRevision = arn_revisions run"
    using inv unfolding runInvariant_def by (metis append_take_drop_id)
  ultimately show ?thesis by (simp add: restoreRun_def)
qed

definition exampleManualSource :: ProgramRunSource where
  "exampleManualSource = PRS_ManualTimed
     \<lparr>mts_stage = \<lparr>stg_targetTemperatureCelsius = Some (F64 30), stg_durationMinutes = Some 600\<rparr>,
      mts_preheatEnabled = False, mts_maximumProductWaitMinutes = None,
      mts_targetQualification = \<lparr>tql_bandCelsius = Some (F64 1), tql_durationMinutes = Some 10\<rparr>,
      mts_maximumTargetReachMinutes = Some 120,
      mts_completion = \<lparr>pcp_mode = CM_FinishWithoutCooling, pcp_coolingTargetCelsius = None,
        pcp_holdDurationMinutes = None\<rparr>\<rparr>"

definition exampleRun :: ActiveRun where
  "exampleRun = the (startRun exampleManualSource None)"

lemmas manual_check_defs = validManualTimedRunSourceImpl_def validCompletion_def Let_def isfinite_def
  kMinimumFermentationTemperatureCelsius_def kMaximumFermentationTemperatureCelsius_def
  kMinimumFermentationDurationMinutes_def kMaximumFermentationDurationMinutes_def
  kMinimumQualificationBandCelsius_def kMaximumQualificationBandCelsius_def
  kMinimumQualificationDurationMinutes_def kMinimumTargetReachMinutes_def

lemma exampleRun_starts: "startRun exampleManualSource None = Some exampleRun"
  by (simp add: exampleRun_def startRun_def exampleManualSource_def makeInitialEffectiveRunValues_def
      programSourceKind_def manual_check_defs)

lemma exampleRun_eq: "exampleRun = newActiveRun \<lparr>rps_source = exampleManualSource,
    rps_sourceKind = PSK_ManualTimed, rps_sourceProgramRevision = None\<rparr>
    \<lparr>erv_targetTemperatureCelsius = F64 30, erv_remainingDurationMinutes = 600\<rparr>"
  by (simp add: exampleRun_def startRun_def exampleManualSource_def makeInitialEffectiveRunValues_def
      programSourceKind_def manual_check_defs)

lemma exampleRun_reachable: "reachableRun exampleRun"
  by (rule reachableRun.started) (rule exampleRun_starts)

lemma exampleRun_fields:
  "arn_effectiveValues exampleRun =
     \<lparr>erv_targetTemperatureCelsius = F64 30, erv_remainingDurationMinutes = 600\<rparr>"
  "arn_revisionCount exampleRun = 0" "arn_monotonicEpoch exampleRun = 0"
  "arn_snapshot exampleRun = \<lparr>rps_source = exampleManualSource, rps_sourceKind = PSK_ManualTimed,
     rps_sourceProgramRevision = None\<rparr>"
  by (simp_all add: exampleRun_eq newActiveRun_def)

definition exampleRequest :: RunAdjustmentRequest where
  "exampleRequest = \<lparr>rar_targetTemperatureCelsius = Some (F64 32), rar_remainingDurationMinutes = None,
     rar_confirmed = True, rar_source = RCS_LocalDisplay, rar_reason = RCR_UserAdjustment,
     rar_timestamp = \<lparr>rts_monotonicMillis = 5000, rts_unixTimeSeconds = None\<rparr>\<rparr>"

definition exampleContext :: RunAdjustmentContext where
  "exampleContext = \<lparr>rac_runActive = True, rac_activeStageIndex = 0, rac_completedStageCount = 0,
     rac_phaseContext = RAP_Fermenting\<rparr>"

text \<open>An adjustment of the target has been proposed and applied before the run is restored.\<close>

lemma run_restore_roundtrip_witness:
  "\<exists>run. arn_revisionCount run = 1 \<and>
     erv_targetTemperatureCelsius (arn_effectiveValues run) = F64 32 \<and>
     restoreRun (arn_snapshot run) (arn_revisions run) (arn_revisionCount run) =
       Some (run\<lparr>arn_monotonicEpoch := 1\<rparr>)"
proof -
  define run where "run =
    snd (applyAdjustment (decideAdjustment exampleRequest exampleContext exampleRun) exampleRun)"
  have "reachableRun run" unfolding run_def by (intro reachableRun.adjusted exampleRun_reachable)
  note restored = run_restore_roundtrip [OF this]
  have ok: "sourceAccepted (arn_snapshot exampleRun)"
    using reachable_invariant [OF exampleRun_reachable] by (simp add: runInvariant_def)
  have "sourceStageCount exampleManualSource = 1"
    by (simp add: sourceStageCount_def exampleManualSource_def)
  moreover have "validTargetTemperature (arn_snapshot exampleRun) 0 (F64 32)"
    by (simp add: target_range [OF ok] celsiusIn_def)
  moreover have "validRemainingDuration (arn_snapshot exampleRun) 0 600"
    by (simp add: remaining_range [OF ok])
  moreover have "length (arn_revisions exampleRun) = 32"
    using reachable_invariant [OF exampleRun_reachable]
    by (simp add: runInvariant_def kMaximumRunRevisions_def)
  ultimately have "arn_revisionCount run = 1"
    "erv_targetTemperatureCelsius (arn_effectiveValues run) = F64 32"
    "rrv_monotonicEpoch (arn_revisions run ! 0) = 0"
    by (simp_all add: run_def decideAdjustment_def exampleRequest_def exampleContext_def Let_def
        exampleRun_fields validChangeSource_def validChangeReason_def validRunAdjustmentPhaseContext_def
        timestampWentBackwards_def kMaximumRunRevisions_def proposeAdjustment_def applyAdjustment_def
        equalValues_def validRevisionMetadata_def validAdjustmentEffectForChange_def
        validAdjustmentEffect_def adjustmentEffectFor_def)
  then show ?thesis using restored by (intro exI [of _ run]) simp
qed

text \<open>Refinement of the abstract run by the process state machine's view. The process snapshot of
  a reachable run exists, passes the check of the process state machine, is a timed process and has
  the effective remaining duration, which is at most 20160 minutes, at a target from 4 to 45
  degrees.\<close>

theorem run_snapshot_for_process:
  assumes "reachableRun run"
  shows "\<exists>s. makeProcessRunSnapshot (arn_snapshot run) (arn_effectiveValues run) = Some s \<and>
    validateProcessRunSnapshot s \<and> snap_kind s = PK_Timed \<and>
    snap_fermentationDurationMinutes s = Some (erv_remainingDurationMinutes (arn_effectiveValues run)) \<and>
    unat (erv_remainingDurationMinutes (arn_effectiveValues run)) \<le> 20160 \<and>
    (\<exists>q. erv_targetTemperatureCelsius (arn_effectiveValues run) = F64 q \<and> 4 \<le> q \<and> q \<le> 45)"
proof -
  have inv: "runInvariant run" by (rule reachable_invariant) (rule assms)
  then have "\<exists>q. erv_targetTemperatureCelsius (arn_effectiveValues run) = F64 q \<and> 4 \<le> q \<and> q \<le> 45"
    and "unat (erv_remainingDurationMinutes (arn_effectiveValues run)) \<le> 20160"
    by (auto simp: runInvariant_def valuesInRange_def celsiusIn_def split: f64.splits)
  then show ?thesis
    using invariant_makes [OF inv]
    by (intro exI [of _ "processSnapshotOf (arn_snapshot run) (arn_effectiveValues run)"]) simp
qed

lemma run_snapshot_for_process_witness:
  "\<exists>s. makeProcessRunSnapshot (arn_snapshot exampleRun) (arn_effectiveValues exampleRun) = Some s \<and>
    snap_fermentationDurationMinutes s = Some 600"
  using run_snapshot_for_process [OF exampleRun_reachable] by (auto simp: exampleRun_fields)

section \<open>Decide and apply\<close>

definition requestedValues :: "RunAdjustmentRequest \<Rightarrow> EffectiveRunValues \<Rightarrow> EffectiveRunValues" where
  "requestedValues request v =
     \<lparr>erv_targetTemperatureCelsius =
        (case rar_targetTemperatureCelsius request of None \<Rightarrow> erv_targetTemperatureCelsius v | Some t \<Rightarrow> t),
      erv_remainingDurationMinutes =
        (case rar_remainingDurationMinutes request of None \<Rightarrow> erv_remainingDurationMinutes v | Some m \<Rightarrow> m)\<rparr>"

lemma candidate_is_requested:
  "(let candidate = v;
        candidate = (case rar_targetTemperatureCelsius request of None \<Rightarrow> candidate
          | Some t \<Rightarrow> candidate\<lparr>erv_targetTemperatureCelsius := t\<rparr>)
    in case rar_remainingDurationMinutes request of None \<Rightarrow> candidate
          | Some m \<Rightarrow> candidate\<lparr>erv_remainingDurationMinutes := m\<rparr>) = requestedValues request v"
  by (simp add: requestedValues_def split: option.split)

lemma decide_proposes:
  assumes "rad_status (decideAdjustment request context run) = RAS_Proposed"
  shows "decideAdjustment request context run =
      proposeAdjustment request context (requestedValues request (arn_effectiveValues run)) run"
    and "rac_activeStageIndex context < sourceStageCount (rps_source (arn_snapshot run))"
    and "rac_completedStageCount context \<le> rac_activeStageIndex context"
    and "validChangeSource (rar_source request)" and "validChangeReason (rar_reason request)"
    and "\<not> timestampWentBackwards run (rar_timestamp request) (arn_monotonicEpoch run)"
    and "arn_revisionCount run < kMaximumRunRevisions"
    and "case rar_targetTemperatureCelsius request of None \<Rightarrow> True | Some t \<Rightarrow>
      validTargetTemperature (arn_snapshot run) (rac_activeStageIndex context) t"
    and "case rar_remainingDurationMinutes request of None \<Rightarrow> True | Some m \<Rightarrow>
      validRemainingDuration (arn_snapshot run) (rac_activeStageIndex context) m"
  using assms
  unfolding decideAdjustment_def Let_def [of "arn_snapshot run"]
    Let_def [of "rac_activeStageIndex context"] candidate_is_requested [unfolded Let_def]
  by (simp_all add: rejectedAdjustment_def candidate_is_requested [unfolded Let_def] Let_def
      split: if_splits option.splits)

lemma requested_valid:
  assumes inv: "runInvariant run"
    and d: "rad_status (decideAdjustment request context run) = RAS_Proposed"
  shows "validTargetTemperature (arn_snapshot run) (rac_activeStageIndex context)
      (erv_targetTemperatureCelsius (requestedValues request (arn_effectiveValues run)))"
    and "validRemainingDuration (arn_snapshot run) (rac_activeStageIndex context)
      (erv_remainingDurationMinutes (requestedValues request (arn_effectiveValues run)))"
proof -
  have s: "sourceAccepted (arn_snapshot run)" and v: "valuesInRange (arn_effectiveValues run)"
    using inv by (simp_all add: runInvariant_def)
  have "rac_activeStageIndex context = 0"
    using decide_proposes(2) [OF d] source_one_stage [OF s] by simp
  then show "validTargetTemperature (arn_snapshot run) (rac_activeStageIndex context)
      (erv_targetTemperatureCelsius (requestedValues request (arn_effectiveValues run)))"
    and "validRemainingDuration (arn_snapshot run) (rac_activeStageIndex context)
      (erv_remainingDurationMinutes (requestedValues request (arn_effectiveValues run)))"
    using decide_proposes(8,9) [OF d] v
    by (auto simp: requestedValues_def target_range [OF s] remaining_range [OF s] valuesInRange_def
        split: option.split)
qed

lemma feq_commute: "feq x y \<longleftrightarrow> feq y x"
  by (cases x; cases y) auto

lemma effect_for_valid: "validAdjustmentEffectForChange (adjustmentEffectFor c p) c"
  by (simp add: validAdjustmentEffectForChange_def adjustmentEffectFor_def validAdjustmentEffect_def)

lemma commuted: "((a = b) = (b = a)) = True"
  by auto

lemma proposal:
  assumes "rad_status (proposeAdjustment request context v run) = RAS_Proposed"
  obtains r where "proposeAdjustment request context v run =
      \<lparr>rad_status = RAS_Proposed, rad_expectedRevisionCount = arn_revisionCount run,
       rad_expectedValues = arn_effectiveValues run, rad_revision = Some r\<rparr>"
    and "rrv_sequence r = of_nat (arn_revisionCount run + 1)"
    and "rrv_monotonicEpoch r = arn_monotonicEpoch run"
    and "rrv_stageIndex r = rac_activeStageIndex context"
    and "rrv_before r = arn_effectiveValues run" and "rrv_after r = v"
    and "rrv_timestamp r = rar_timestamp request"
    and "rrv_effect r = adjustmentEffectFor (\<not> feq (erv_targetTemperatureCelsius v)
      (erv_targetTemperatureCelsius (arn_effectiveValues run))) (rac_phaseContext context)"
    and "rac_completedStageCount context \<le> rac_activeStageIndex context \<Longrightarrow>
      validChangeSource (rar_source request) \<Longrightarrow> validChangeReason (rar_reason request) \<Longrightarrow>
      validRevisionMetadata r"
  using assms
  by (simp add: proposeAdjustment_def Let_def rejectedAdjustment_def split: if_splits)
    (auto simp: validRevisionMetadata_def effect_for_valid feq_commute commuted)

text \<open>C40: refinement of the decision by its application. An adjustment that decideAdjustment
  proposes for a reachable run is applied by applyAdjustment, whose checks are independent of it: the
  run gets exactly the requested values and keeps the others, one revision is appended to the log and
  the source stays. The same decision does nothing a second time.\<close>

theorem run_adjustment_applied:
  assumes "reachableRun run" and "rad_status (decideAdjustment request context run) = RAS_Proposed"
  shows "\<exists>after. applyAdjustment (decideAdjustment request context run) run =
      (\<lparr>rrs_status = RAS_Applied, rrs_effect = adjustmentEffectFor
          (\<not> feq (erv_targetTemperatureCelsius (arn_effectiveValues after))
            (erv_targetTemperatureCelsius (arn_effectiveValues run))) (rac_phaseContext context)\<rparr>, after) \<and>
    arn_effectiveValues after = requestedValues request (arn_effectiveValues run) \<and>
    arn_revisionCount after = arn_revisionCount run + 1 \<and> arn_snapshot after = arn_snapshot run \<and>
    take (arn_revisionCount run) (arn_revisions after) = take (arn_revisionCount run) (arn_revisions run) \<and>
    applyAdjustment (decideAdjustment request context run) after =
      (\<lparr>rrs_status = RAS_NoChange, rrs_effect = RAE_None\<rparr>, after)"
proof -
  have inv: "runInvariant run" by (rule reachable_invariant) (rule assms)
  note d = decide_proposes [OF assms(2)] and ok = requested_valid [OF inv assms(2)]
  let ?v = "requestedValues request (arn_effectiveValues run)"
  obtain r where p: "proposeAdjustment request context ?v run =
      \<lparr>rad_status = RAS_Proposed, rad_expectedRevisionCount = arn_revisionCount run,
       rad_expectedValues = arn_effectiveValues run, rad_revision = Some r\<rparr>"
    and r: "rrv_sequence r = of_nat (arn_revisionCount run + 1)"
      "rrv_monotonicEpoch r = arn_monotonicEpoch run" "rrv_stageIndex r = rac_activeStageIndex context"
      "rrv_before r = arn_effectiveValues run" "rrv_after r = ?v"
      "rrv_timestamp r = rar_timestamp request"
      "rrv_effect r = adjustmentEffectFor (\<not> feq (erv_targetTemperatureCelsius ?v)
        (erv_targetTemperatureCelsius (arn_effectiveValues run))) (rac_phaseContext context)"
    and meta: "validRevisionMetadata r"
    using proposal [of request "context" ?v run, OF assms(2) [unfolded d(1)]] d(3,4,5) by blast
  have e: "equalValues (arn_effectiveValues run) (arn_effectiveValues run)"
    using inv by (simp add: runInvariant_def equalValues_refl)
  have q: "unat (rrv_sequence r) = arn_revisionCount run + 1"
    using d(7) unfolding r(1) by (subst unat_of_nat) (simp add: kMaximumRunRevisions_def)
  have "applyAdjustment (decideAdjustment request context run) run =
      (\<lparr>rrs_status = RAS_Applied, rrs_effect = rrv_effect r\<rparr>, adjustedRun run r)"
    using e q meta ok d(6,7) r
    by (simp add: d(1) p applyAdjustment_def adjustedRun_def)
  moreover have "applyAdjustment (decideAdjustment request context run) (adjustedRun run r) =
      (\<lparr>rrs_status = RAS_NoChange, rrs_effect = RAE_None\<rparr>, adjustedRun run r)"
    by (simp add: d(1) p applyAdjustment_def adjustedRun_def)
  ultimately show ?thesis
    by (intro exI [of _ "adjustedRun run r"]) (simp add: adjustedRun_def r)
qed

lemma run_adjustment_applied_witness:
  "\<exists>after. applyAdjustment (decideAdjustment exampleRequest exampleContext exampleRun) exampleRun =
     (\<lparr>rrs_status = RAS_Applied, rrs_effect = RAE_ContinueFermentationWithoutRequalification\<rparr>, after) \<and>
   arn_effectiveValues after =
     \<lparr>erv_targetTemperatureCelsius = F64 32, erv_remainingDurationMinutes = 600\<rparr>"
proof -
  have ok: "sourceAccepted (arn_snapshot exampleRun)"
    using reachable_invariant [OF exampleRun_reachable] by (simp add: runInvariant_def)
  have "sourceStageCount exampleManualSource = 1"
    by (simp add: sourceStageCount_def exampleManualSource_def)
  moreover have "validTargetTemperature (arn_snapshot exampleRun) 0 (F64 32)"
    by (simp add: target_range [OF ok] celsiusIn_def)
  ultimately have "rad_status (decideAdjustment exampleRequest exampleContext exampleRun) = RAS_Proposed"
    by (simp add: decideAdjustment_def exampleRequest_def exampleContext_def Let_def
        exampleRun_fields validChangeSource_def validChangeReason_def validRunAdjustmentPhaseContext_def
        timestampWentBackwards_def kMaximumRunRevisions_def proposeAdjustment_def)
  from run_adjustment_applied [OF exampleRun_reachable this] show ?thesis
    by (auto simp: requestedValues_def exampleRequest_def exampleContext_def exampleRun_fields
        adjustmentEffectFor_def)
qed

end
