(* ===== verification/RunCommandProperties.thy ===== *)
theory RunCommandProperties
  imports ControlContextProofs RunProperties ProcessProperties
begin

text \<open>
  The properties of the run commands, of the mutations around them and of the control context.
\<close>

section \<open>Reachable states\<close>

inductive reachableCommand :: "RunCommandState \<Rightarrow> bool" where
  booted: "establishBootCompletedStandby initialProcessRuntimeState t = Some p \<Longrightarrow>
     reachableCommand (initialCommandState\<lparr>rcs_processState := p\<rparr>)"
| handled: "reachableCommand s \<Longrightarrow> reachableCommand (handleCommand s q)"
| phase: "reachableCommand s \<Longrightarrow>
     d = decideProcessTransition (rcs_processState s) (rcs_processRunSnapshot s) signals request now prior \<Longrightarrow>
     eligibleTransition (dec_reason d) \<Longrightarrow> transitionInMemory s d live = Some s' \<Longrightarrow> reachableCommand s'"
| selected: "reachableCommand s \<Longrightarrow> rcs_activeProgramRun s \<noteq> None \<or> rcs_activeManualRun s \<noteq> None \<Longrightarrow>
     m = applySensorSelectionDecision (sensorSelectionViewFrom s) d now \<Longrightarrow>
     ssm_status m \<in> {SAS_AppliedPersistentCandidate, SAS_AppliedRamOnly} \<Longrightarrow>
     selectionCandidate s m now live = Some c \<Longrightarrow> reachableCommand (selectionInMemory s m c live)"
| alerted: "reachableCommand s \<Longrightarrow>
     reachableCommand (s\<lparr>rcs_criticalSafetyEventPending := b, rcs_faultRevision := r\<rparr>)"
| notified: "reachableCommand s \<Longrightarrow>
     reachableCommand (s\<lparr>rcs_messages := ms, rcs_messageCount := n, rcs_messageRevision := r\<rparr>)"

lemma commandInv_booted:
  assumes "establishBootCompletedStandby initialProcessRuntimeState t = Some p"
  shows "commandInv (initialCommandState\<lparr>rcs_processState := p\<rparr>)"
proof -
  have "applyProcessTransition initialProcessRuntimeState
      (propose initialProcessRuntimeState PS_Standby TR_BootCompleted t) None = Some p"
    using assms by (auto simp: establishBootCompletedStandby_def Let_def split: if_splits)
  from applied_transition(1) [OF this] have "rt_state p = PS_Standby"
    by (simp add: initialProcessRuntimeState_def)
  then show ?thesis
    by (simp add: commandInv_def initialCommandState_def idWindow_def tracked_def consistent_defs
        stateUsesRunSnapshot_def validButMarker_initial provenanceMatches_def Let_def)
qed

lemma idWindow_sameBooks: "sameBooks s c \<Longrightarrow> idWindow s \<Longrightarrow> idWindow c"
  by (simp add: sameBooks_def idWindow_def)

lemma reachable_commandInv: "reachableCommand s \<Longrightarrow> commandInv s"
proof (induction rule: reachableCommand.induct)
  case (booted t p)
  then show ?case by (rule commandInv_booted)
next
  case (handled s q)
  then show ?case using commandInv_handle by blast
next
  case (phase s d signals request now prior live s')
  from phase.IH have i: "runInv s" "idWindow s" by (simp_all add: commandInv_split)
  from runInv_transition [OF i(1) phase(4,2,3)] i(2) show ?case
    by (auto simp: commandInv_split intro: idWindow_sameBooks)
next
  case (selected s m d now c live)
  from selected.IH have i: "runInv s" "idWindow s" by (simp_all add: commandInv_split)
  from runInv_selectionInMemory [OF i(1) selected(2-5)] i(2) show ?case
    by (auto simp: commandInv_split intro: idWindow_sameBooks)
next
  case (alerted s r b)
  have "sameRun s (s\<lparr>rcs_criticalSafetyEventPending := b, rcs_faultRevision := r\<rparr>)"
    by (simp add: sameRun_def)
  with alerted.IH runInv_sameRun show ?case
    by (auto simp: commandInv_split idWindow_def)
next
  case (notified s r n ms)
  have "sameRun s (s\<lparr>rcs_messages := ms, rcs_messageCount := n, rcs_messageRevision := r\<rparr>)"
    by (simp add: sameRun_def)
  with notified.IH runInv_sameRun show ?case
    by (auto simp: commandInv_split idWindow_def)
qed

section \<open>Handling a command\<close>

lemma proposed_sequence:
  assumes "commandProposed (decideCommand s q)"
  shows "rcs_commandSequence (cd_after (decideCommand s q)) = rcs_commandSequence s + 1"
  using decideCommand_recordedFrom [OF assms] by (auto simp: recordedFrom_def)

text \<open>C1: A decision that is proposed is applied to the state that it was made for. It is applied to
  exactly the states that do not know its command id and agree with that state in everything that the
  decision may rest on: the process state, the counts and revisions, the critical event, the run id and
  the whole sensor selection; not to its own result, so not twice. A decision that is not proposed
  proposes the state as it was, and is applied to no state.\<close>

theorem command_handled:
  "let d = decideCommand s q in
   if commandProposed d then
     applyRunCommand s d = (CST_Applied, cd_after d) \<and> handleCommand s q = cd_after d \<and>
     rcs_commandSequence (cd_after d) = rcs_commandSequence s + 1 \<and>
     {s'. fst (applyRunCommand s' d) = CST_Applied} =
       {s'. \<not> containsProcessedCommand s' (cen_id (cd_envelope d)) \<and>
          rcs_processState s' = rcs_processState s \<and>
          rcs_commandSequence s' = rcs_commandSequence s \<and>
          rcs_runRevision s' = rcs_runRevision s \<and>
          rcs_messageRevision s' = rcs_messageRevision s \<and>
          rcs_faultRevision s' = rcs_faultRevision s \<and>
          rcs_criticalSafetyEventPending s' = rcs_criticalSafetyEventPending s \<and>
          rcs_activeRunId s' = rcs_activeRunId s \<and>
          rcs_activeRunSensorMode s' = rcs_activeRunSensorMode s \<and>
          rcs_sensorSelectionRuntime s' = rcs_sensorSelectionRuntime s \<and>
          rcs_sensorSelection s' = rcs_sensorSelection s \<and>
          rcs_recoveryEpisodeRevision s' = rcs_recoveryEpisodeRevision s} \<and>
     applyRunCommand (cd_after d) d = (fst (applyRunCommand (cd_after d) d), cd_after d)
   else cd_after d = s \<and> handleCommand s q = s \<and>
     {s'. fst (applyRunCommand s' d) = CST_Applied} = {}"
proof -
  define d where "d = decideCommand s q"
  have b: "cd_before d = s" by (simp add: d_def)
  show ?thesis
  proof (cases "commandProposed d")
    case True
    note seq = proposed_sequence [OF True [unfolded d_def], folded d_def]
    from decideCommand_recordedFrom [OF True [unfolded d_def]]
    have safe: "\<not> (rcs_criticalSafetyEventPending s \<and> isRunComfortCommand (cd_kind d))"
      by (auto simp: recordedFrom_def acceptedCommand_def d_def)
    have applied: "fst (applyRunCommand s' d) = CST_Applied \<longleftrightarrow>
        \<not> containsProcessedCommand s' (cen_id (cd_envelope d)) \<and>
        rcs_processState s' = rcs_processState s \<and>
        rcs_commandSequence s' = rcs_commandSequence s \<and>
        rcs_runRevision s' = rcs_runRevision s \<and>
        rcs_messageRevision s' = rcs_messageRevision s \<and>
        rcs_faultRevision s' = rcs_faultRevision s \<and>
        rcs_criticalSafetyEventPending s' = rcs_criticalSafetyEventPending s \<and>
        rcs_activeRunId s' = rcs_activeRunId s \<and>
        rcs_activeRunSensorMode s' = rcs_activeRunSensorMode s \<and>
        rcs_sensorSelectionRuntime s' = rcs_sensorSelectionRuntime s \<and>
        rcs_sensorSelection s' = rcs_sensorSelection s \<and>
        rcs_recoveryEpisodeRevision s' = rcs_recoveryEpisodeRevision s" for s'
      using True b seq safe
      by (auto simp: applyRunCommand_def validateRunCommand_def validateRunCommandCore_def
          unguardedRunId_def commandApplyGuard_def equalProcessRuntimeState_iff Let_def)
    have "rcs_commandSequence (cd_after d) \<noteq> rcs_commandSequence s" by (simp add: seq)
    with applied have "fst (applyRunCommand (cd_after d) d) \<noteq> CST_Applied" by blast
    then have "applyRunCommand (cd_after d) d = (fst (applyRunCommand (cd_after d) d), cd_after d)"
      by (simp add: applyRunCommand_def Let_def)
    with True applied seq decided_applies [OF True [unfolded d_def]] handleCommand_eq [of s q]
    show ?thesis by (simp add: Let_def d_def [symmetric])
  next
    case False
    then show ?thesis
      using handleCommand_eq [of s q] decideCommand_rejected [OF False [unfolded d_def]]
        not_proposed_not_applied [OF False] by (simp add: Let_def d_def [symmetric])
  qed
qed

text \<open>The id of a processed command stays known.\<close>

definition handleAll :: "CommandRequest list \<Rightarrow> RunCommandState \<Rightarrow> RunCommandState" where
  "handleAll qs s = fold (\<lambda>q s. handleCommand s q) qs s"

definition knownWithin :: "nat \<Rightarrow> u64 \<Rightarrow> RunCommandState \<Rightarrow> bool" where
  "knownWithin n i s \<longleftrightarrow> idWindow s \<and> (\<exists>xs ys. processedIds s = xs @ i # ys \<and> length ys \<le> n)"

lemma lastIds_keeps:
  assumes "length ys < 31"
  shows "\<exists>zs. lastIds ((xs @ i # ys) @ [j]) = zs @ i # ys @ [j]"
proof -
  have "length ((xs @ i # ys) @ [j]) - kMaximumProcessedCommandIds \<le> length xs"
    using assms by (simp add: kMaximumProcessedCommandIds_def)
  then have "lastIds ((xs @ i # ys) @ [j]) =
      drop (length ((xs @ i # ys) @ [j]) - kMaximumProcessedCommandIds) xs @ i # ys @ [j]"
    by (simp add: lastIds_def)
  then show ?thesis by blast
qed

lemma known_step: "knownWithin n i s \<Longrightarrow> n < 31 \<Longrightarrow> knownWithin (Suc n) i (handleCommand s q)"
proof (cases "commandProposed (decideCommand s q)")
  case True
  assume k: "knownWithin n i s" and n: "n < 31"
  then obtain xs ys where w: "idWindow s" and p: "processedIds s = xs @ i # ys" "length ys \<le> n"
    by (auto simp: knownWithin_def)
  obtain zs where "lastIds ((xs @ i # ys) @ [cen_id (requestEnvelope q)]) =
      zs @ i # ys @ [cen_id (requestEnvelope q)]"
    using lastIds_keeps [of ys xs i "cen_id (requestEnvelope q)"] p(2) n by auto
  then have "processedIds (handleCommand s q) = zs @ i # ys @ [cen_id (requestEnvelope q)]"
    using idWindow_command(2) [OF w True] p(1) by (simp add: handleCommand_eq)
  moreover have "length (ys @ [cen_id (requestEnvelope q)]) \<le> Suc n" using p(2) by simp
  ultimately show ?thesis
    using idWindow_command(1) [OF w True] unfolding knownWithin_def handleCommand_eq by blast
next
  case False
  assume "knownWithin n i s"
  then have "knownWithin (Suc n) i s" unfolding knownWithin_def by (meson le_SucI)
  with handleCommand_eq [of s q] decideCommand_rejected [OF False] show ?thesis by simp
qed

lemma known_all:
  "knownWithin n i s \<Longrightarrow> n + length qs \<le> 31 \<Longrightarrow> knownWithin (n + length qs) i (handleAll qs s)"
proof (induction qs arbitrary: s n)
  case (Cons q qs)
  from known_step [OF Cons.prems(1)] Cons.prems(2) Cons.IH [of "Suc n" "handleCommand s q"]
  show ?case by (simp add: handleAll_def)
qed (simp add: handleAll_def)

lemma known_refused:
  assumes "knownWithin n i s" and "cen_id (requestEnvelope q) = i"
  shows "handleCommand s q = s"
proof -
  from assms(1) have "containsProcessedCommand s i"
    by (auto simp: knownWithin_def containsProcessedCommand_iff)
  with assms(2) have "\<not> commandProposed (decideCommand s q)"
    using decideCommand_recordedFrom [of s q] by (auto simp: recordedFrom_def acceptedCommand_def)
  then show ?thesis by (simp add: handleCommand_eq decideCommand_rejected)
qed

lemma handled_known:
  assumes "idWindow s" and "commandProposed (decideCommand s q)"
  shows "knownWithin 0 (cen_id (requestEnvelope q)) (handleCommand s q)"
proof -
  let ?i = "cen_id (requestEnvelope q)"
  have "processedIds (handleCommand s q) =
      drop (length (processedIds s @ [?i]) - kMaximumProcessedCommandIds) (processedIds s) @ [?i]"
    using idWindow_command(2) [OF assms]
    by (simp add: handleCommand_eq lastIds_def kMaximumProcessedCommandIds_def)
  with idWindow_command(1) [OF assms] show ?thesis
    by (auto simp: knownWithin_def handleCommand_eq)
qed

text \<open>C2: A command whose id was handled is refused, as long as at most 31 further commands were
  handled since: a repeated delivery of a command changes nothing.\<close>

theorem command_replay_refused:
  assumes "reachableCommand s" and "commandProposed (decideCommand s q)" and "length qs \<le> 31"
    and "cen_id (requestEnvelope again) = cen_id (requestEnvelope q)"
  shows "handleCommand (handleAll qs (handleCommand s q)) again = handleAll qs (handleCommand s q)"
proof -
  have "idWindow s" using reachable_commandInv [OF assms(1)] by (simp add: commandInv_def)
  from known_all [OF handled_known [OF this assms(2)], of qs] assms(3) known_refused [OF _ assms(4)]
  show ?thesis by simp
qed

section \<open>Safety\<close>






section \<open>Start and end of a run\<close>

lemma start_possible:
  assumes "rt_state (rcs_processState c) = PS_Standby" and "runtimeShapeIsValid (rcs_processState c)"
    and "runtimeTimeIsValid (rcs_processState c) now"
    and "rt_transitionSequence (rcs_processState c) \<noteq> u32_max" and "validateProcessRunSnapshot snap"
  shows "applyTransition c PE_StartRun now (Some snap) \<noteq> None"
proof -
  define d where "d = decideProcessTransition (rcs_processState c) (Some snap) noSignals
      \<lparr>req_event = PE_StartRun, req_recoveredState = None\<rparr> now noPriorBootPhaseElapsed"
  have "proposed d"
    using assms by (simp add: d_def decideProcessTransition_def decideExplicitEvent_def
        decideStandbyEvent_def noSignals_def Let_def)
  moreover have "applyProcessTransition (rcs_processState c) d (Some snap) = Some (dec_after d)"
    using apply_decide [OF _ calculation [unfolded d_def]] assms(1) by (simp add: d_def)
  ultimately show ?thesis by (simp add: applyTransition_def Let_def d_def)
qed

lemma programStart_possible:
  assumes "acceptedCommand s (psr_envelope req) CK_StartProgram"
    and "cen_expectedRunRevision (psr_envelope req) = Some (rcs_runRevision s)"
    and "startAllowed s (psr_safetyAllowsStart req) (psr_airSensorValid req) (psr_coolingSensorValid req)"
    and "validRunId (psr_runId req)" "validSensorMode (psr_sensorMode req)"
    and "pss_valid (resolveStartMode req)"
    and run: "startRun (psr_program req) (psr_sourceProgramRevision req) = Some run"
    and "rcs_runRevision s \<noteq> u32_max" "cen_confirmed (psr_envelope req)"
    and "runtimeShapeIsValid (rcs_processState s)"
    and "runtimeTimeIsValid (rcs_processState s) (cen_monotonicMillis (psr_envelope req))"
    and "rt_transitionSequence (rcs_processState s) \<noteq> u32_max"
  shows "commandProposed (decideProgramStart s req)"
proof -
  define d where "d = requireRunRevision (beginDecision s (psr_envelope req) CK_StartProgram)"
  have d: "commandProposed d" "cd_before d = s" "cd_after d = s" "cd_effects d = []"
    using assms(1,2) by (simp_all add: d_def commandProposed_beginDecision)
  obtain snap where snap: "makeActiveRunProcessSnapshot run = Some snap" "validateProcessRunSnapshot snap"
    using active_snapshot [OF reachableRun.started [OF run]] by blast
  have "applyTransition (s\<lparr>rcs_activeProgramRun := Some run\<rparr>) PE_StartRun
      (cen_monotonicMillis (psr_envelope req)) (Some snap) \<noteq> None"
    using assms(3,10-12) snap(2) by (intro start_possible) (simp_all add: startAllowed_def)
  then obtain c where "applyTransition (s\<lparr>rcs_activeProgramRun := Some run\<rparr>) PE_StartRun
      (cen_monotonicMillis (psr_envelope req)) (Some snap) = Some c" by blast
  then have "commandProposed (startProgramRun req (resolveStartMode req) d)"
    using d run snap assms(8,9)
    by (simp add: startProgramRun_def Let_def kMaximumCommandEffects_def)
  then show ?thesis
    using assms(3-6) d by (simp add: decideProgramStart_def Let_def d_def [symmetric] startAllowed_def)
qed

text \<open>C4: The start of a program is proposed exactly when the command is new, current and confirmed,
  no run is active in standby, safety, the air sensor and the cooling sensor allow it, the run id and
  the requested sensor mode are valid and the start matrix allows the mode for the program, the source
  of the run is valid, and clock and counters leave room: every other start is refused.\<close>

theorem program_start_iff:
  "commandProposed (decideProgramStart s req) \<longleftrightarrow>
     acceptedCommand s (psr_envelope req) CK_StartProgram \<and>
     cen_expectedRunRevision (psr_envelope req) = Some (rcs_runRevision s) \<and>
     cen_confirmed (psr_envelope req) \<and> rcs_runRevision s \<noteq> u32_max \<and>
     startAllowed s (psr_safetyAllowsStart req) (psr_airSensorValid req) (psr_coolingSensorValid req) \<and>
     validRunId (psr_runId req) \<and> validSensorMode (psr_sensorMode req) \<and>
     pss_valid (resolveStartMode req) \<and>
     startRun (psr_program req) (psr_sourceProgramRevision req) \<noteq> None \<and>
     runtimeShapeIsValid (rcs_processState s) \<and>
     runtimeTimeIsValid (rcs_processState s) (cen_monotonicMillis (psr_envelope req)) \<and>
     rt_transitionSequence (rcs_processState s) \<noteq> u32_max"
proof
  assume p: "commandProposed (decideProgramStart s req)"
  then show "acceptedCommand s (psr_envelope req) CK_StartProgram \<and>
     cen_expectedRunRevision (psr_envelope req) = Some (rcs_runRevision s) \<and>
     cen_confirmed (psr_envelope req) \<and> rcs_runRevision s \<noteq> u32_max \<and>
     startAllowed s (psr_safetyAllowsStart req) (psr_airSensorValid req) (psr_coolingSensorValid req) \<and>
     validRunId (psr_runId req) \<and> validSensorMode (psr_sensorMode req) \<and>
     pss_valid (resolveStartMode req) \<and>
     startRun (psr_program req) (psr_sourceProgramRevision req) \<noteq> None \<and>
     runtimeShapeIsValid (rcs_processState s) \<and>
     runtimeTimeIsValid (rcs_processState s) (cen_monotonicMillis (psr_envelope req)) \<and>
     rt_transitionSequence (rcs_processState s) \<noteq> u32_max"
  proof (rule decideProgramStart_proposed, goal_cases)
    case (1 run snapshot c)
    obtain d where d: "d = decideProcessTransition (rcs_processState s) (Some snapshot) noSignals
        \<lparr>req_event = PE_StartRun, req_recoveredState = None\<rparr>
        (cen_monotonicMillis (psr_envelope req)) noPriorBootPhaseElapsed" "proposed d"
      using 1(11) by (elim applyTransition_decided) simp
    from proposed_decide_basic [OF d(2) [unfolded d(1)]] 1 show ?case by simp
  qed
qed (auto intro: programStart_possible)



section \<open>Consistency of the command state\<close>

text \<open>C6: In every reachable command state at most one run is active; a run is active in exactly the
  phases that need one and never in standby; the process snapshot is the one made from the run, is
  valid and admits the phase; run id, sensor mode and sensor selection are those of the run and are
  absent without one; and at most 32 command ids are kept.\<close>

theorem command_state_invariant:
  assumes "reachableCommand s"
  shows "runConsistent s \<and> idWindow s \<and> tracked (rcs_processState s) \<and>
    validButMarker (rcs_sensorSelectionRuntime s) \<and>
    provenanceMatches (rcs_sensorSelection s) (rcs_activeRunSensorMode s)"
  using reachable_commandInv [OF assms] by (simp add: commandInv_def)

text \<open>C7: In every reachable command state the control context is valid exactly in the phases in which
  the temperature is controlled. Its target is the one that the run asks for (\<open>runTarget\<close>): the target
  of the manual plan; in a program the cooling target of its source while it cools and holds, in 4 to
  25 degrees, and before that the effective target, with the adjustments, in 4 to 45 degrees. The
  leading sensor is the air sensor before the product is in and the sensor of the run after, and the
  context carries the phase, the transition sequence and the run revision of the state.\<close>

theorem control_context_valid:
  assumes "reachableCommand s"
  shows "if temperatureControlledPhase (rt_state (rcs_processState s))
    then contextOk s (resolveEffectiveControlContext s)
    else \<not> ecc_valid (resolveEffectiveControlContext s)"
  using context_consistent reachable_commandInv [OF assms] by (simp add: commandInv_split)

text \<open>In every reachable command state in a phase that qualifies a target, the qualification
  context is valid, with the role and the target of the control context, a band of at most 2 degrees
  and the duration of the run in milliseconds, which is not zero.\<close>

theorem qualification_context_valid:
  assumes "reachableCommand s" and "qualificationEpisodePhase (rt_state (rcs_processState s))"
  shows "let q = resolveEffectiveQualificationContext s; c = resolveEffectiveControlContext s in
    eqc_valid q \<and> eqc_controlSensorRole q = ecc_controlSensorRole c \<and>
    eqc_targetCelsius q = ect_targetCelsius (ecc_target c) \<and> bandInRange (Some (eqc_bandCelsius q)) \<and>
    unat (eqc_qualificationDurationMillis q) =
      unat (snap_qualificationDurationMinutes (the (rcs_processRunSnapshot s))) * 60000 \<and>
    eqc_qualificationDurationMillis q \<noteq> 0"
  using qualification_consistent [OF _ assms(2)] reachable_commandInv [OF assms(1)]
  by (simp add: commandInv_split)

section \<open>Recovery time\<close>

text \<open>C8: A correction of the recovery time adds exactly its seconds, without wrapping, never moves the
  time of the fermentation past the upper bound of what may have passed, and changes nothing else of
  the run. As long as the record of the correction is kept and the recovery episode is the same, every
  further correction is refused, whatever else has changed; an adjustment of the duration clears the
  record, together with what may have passed.\<close>

theorem recovery_correction_bounded:
  assumes "commandProposed (decideApplyRecoveryTimeCorrection s req)"
  shows "\<exists>lower upper a. effectivePriorElapsedForFermenting s =
      Some \<lparr>prior_lowerBoundSeconds = lower, prior_upperBoundSeconds = Some upper\<rparr> \<and>
    rcs_nominalRecoveryAdjustment (cd_after (decideApplyRecoveryTimeCorrection s req)) = Some a \<and>
    nra_lastAppliedEpisodeRevision a = rcs_recoveryEpisodeRevision s \<and>
    unat (nra_cumulativeAppliedSeconds a) = unat (rtr_secondsDelta req) +
      (case rcs_nominalRecoveryAdjustment s of None \<Rightarrow> 0
       | Some b \<Rightarrow> unat (nra_cumulativeAppliedSeconds b)) \<and>
    unat lower + unat (nra_cumulativeAppliedSeconds a) \<le> unat upper \<and>
    sameRun s (cd_after (decideApplyRecoveryTimeCorrection s req)) \<and>
    rcs_priorBootPhaseElapsed (cd_after (decideApplyRecoveryTimeCorrection s req)) =
      rcs_priorBootPhaseElapsed s \<and>
    {s'. rcs_nominalRecoveryAdjustment s' = Some a \<and>
        rcs_recoveryEpisodeRevision s' = rcs_recoveryEpisodeRevision s} \<subseteq>
      {s'. \<not> commandProposed (decideApplyRecoveryTimeCorrection s' req')} \<and>
    rcs_recoveryEpisodeRevision (cd_after (decideApplyRecoveryTimeCorrection s req)) =
      rcs_recoveryEpisodeRevision s"
  using assms
proof (rule decideApplyRecoveryTimeCorrection_proposed, goal_cases)
  case (1 lower upper cumulative)
  let ?d = "rtr_secondsDelta req"
  let ?a = "\<lparr>nra_cumulativeAppliedSeconds = cumulative + ?d,
    nra_lastAppliedEpisodeRevision = rcs_recoveryEpisodeRevision s, nra_lastAppliedEpisodeDelta = ?d\<rparr>"
  have le: "unat cumulative + unat ?d < 2 ^ 32"
    using 1(9) unat_u32_lt [of upper] by simp
  then have sum: "unat (cumulative + ?d) = unat cumulative + unat ?d"
    using unat_add_lem [of cumulative ?d] by simp
  have c: "unat cumulative = (case rcs_nominalRecoveryAdjustment s of None \<Rightarrow> 0
       | Some b \<Rightarrow> unat (nra_cumulativeAppliedSeconds b))"
    using 1(7) by (simp split: option.split)
  have "\<not> commandProposed (decideApplyRecoveryTimeCorrection s' req')"
    if "rcs_nominalRecoveryAdjustment s' = Some ?a"
      "rcs_recoveryEpisodeRevision s' = rcs_recoveryEpisodeRevision s" for s'
  proof
    assume "commandProposed (decideApplyRecoveryTimeCorrection s' req')"
    then show False
    proof (rule decideApplyRecoveryTimeCorrection_proposed, goal_cases)
      case (1 l u k)
      from 1(8) show False using that by simp
    qed
  qed
  with 1 sum c show ?case
    by (intro exI [of _ lower] exI [of _ upper] exI [of _ ?a]) (auto simp: sameRun_def)
qed

section \<open>The stored candidate and the state in memory\<close>

lemma fold_transition_commute:
  assumes "transitionRun d s = Some s1"
  shows "foldObservedAt s d s1 =
    map_option (\<lambda>c. c\<lparr>rcs_processState := rcs_processState s1\<rparr>) (foldObservedAt s d s)"
proof -
  from assms obtain snap where "s1 = s\<lparr>rcs_processState := dec_after d\<rparr>"
    by (rule transitionRun_eq)
  then show ?thesis
    by (simp add: foldObservedAt_def foldObservedRunSeconds_def Let_def split: option.split)
qed

text \<open>The state that a transition leaves when no weighted segment is open.\<close>

definition noOpenSegment :: "RunCommandState \<Rightarrow> bool" where
  "noOpenSegment s \<longleftrightarrow> (case rcs_lastRecoveryEpisodeEvidence s of None \<Rightarrow> True
     | Some evidence \<Rightarrow> ree_weightedProgressSegmentId evidence = None)"

lemma supersede_none: "noOpenSegment s \<Longrightarrow> supersedeOpenSegment current s = s"
proof (cases "rcs_lastRecoveryEpisodeEvidence s")
  case (Some e)
  assume "noOpenSegment s"
  with Some have n: "ree_weightedProgressSegmentId e = None" by (simp add: noOpenSegment_def)
  then have e: "e\<lparr>ree_weightedProgressSegmentId := None\<rparr> = e"
    by (intro RecoveryEpisodeEvidence.equality) simp_all
  have "s\<lparr>rcs_runProgress := rcs_runProgress s, rcs_lastRecoveryEpisodeEvidence := Some e\<rparr> = s"
    by (rule RunCommandState.equality) (simp_all add: Some)
  with Some e n show ?thesis
    by (simp add: supersedeOpenSegment_def supersedeUnbookedWeightedSegment_def)
qed (simp add: supersedeOpenSegment_def)

lemma transition_agrees:
  assumes "noOpenSegment s \<or> rt_state (dec_after d) = rt_state (rcs_processState s) \<or>
    dec_reason d = TR_ProductWaitExpired"
  shows "transitionCandidate s d live = transitionInMemory s d live"
proof (cases "foldObservedAt s d s")
  case None
  then show ?thesis
    using fold_transition_commute
    by (auto simp: transitionCandidate_def transitionInMemory_def split: option.split)
next
  case (Some c)
  note k = foldObservedAt_keeps [OF Some]
  show ?thesis
  proof (cases "transitionRun d s")
    case None
    moreover have "transitionRun d c = None"
      using None k by (auto simp: transitionRun_def sameRun_def split: option.splits)
    ultimately show ?thesis
      using Some by (simp add: transitionCandidate_def transitionInMemory_def)
  next
    case s1: (Some s1)
    then obtain snap where snap: "rcs_processRunSnapshot s = Some snap"
      and a: "applyProcessTransition (rcs_processState s) d (Some snap) = Some (dec_after d)"
      and s1eq: "s1 = s\<lparr>rcs_processState := dec_after d\<rparr>"
      by (rule transitionRun_eq)
    define c1 where "c1 = c\<lparr>rcs_processState := dec_after d\<rparr>"
    have "transitionRun d c = Some c1"
      using k snap a by (simp add: transitionRun_def sameRun_def c1_def)
    moreover have "foldObservedAt s d s1 = Some c1"
      using fold_transition_commute [OF s1] Some by (simp add: s1eq c1_def)
    moreover have "supersedeOpenSegment s (endExpiredWait d c1) = endExpiredWait d c1"
    proof (cases "dec_reason d = TR_ProductWaitExpired")
      case True
      then show ?thesis
        by (simp add: endExpiredWait_def supersedeOpenSegment_def clearActiveRunState_def)
    next
      case False
      have "rcs_lastRecoveryEpisodeEvidence c = rcs_lastRecoveryEpisodeEvidence s"
        using Some by (auto simp: foldObservedAt_def foldObservedRunSeconds_def Let_def
            split: if_splits option.splits)
      then have "noOpenSegment s \<Longrightarrow> noOpenSegment c1" by (simp add: noOpenSegment_def c1_def)
      moreover have "rt_state (dec_after d) = rt_state (rcs_processState s) \<Longrightarrow> supersedeOpenSegment s c1 = c1"
        by (simp add: supersedeOpenSegment_def c1_def split: option.split)
      ultimately have "supersedeOpenSegment s c1 = c1"
        using assms False supersede_none [of c1 s] by blast
      with False show ?thesis by (simp add: endExpiredWait_def)
    qed
    ultimately show ?thesis
      using Some s1 by (simp add: transitionCandidate_def transitionInMemory_def)
  qed
qed

text \<open>C9: A persisted process transition leaves in memory exactly the state whose snapshot was stored,
  when no weighted progress segment is open, when the phase stays, or when the run ends with it.\<close>

theorem transition_commit_agrees:
  assumes "noOpenSegment s \<or> rt_state (dec_after d) = rt_state (rcs_processState s) \<or>
    dec_reason d = TR_ProductWaitExpired"
  shows "transitionCandidate s d live = transitionInMemory s d live"
  using assms by (rule transition_agrees)

text \<open>Otherwise the stored candidate has given the open segment up, and the state in memory still holds it
  as open, with the coverage of the progress as it was.\<close>

lemma transition_memory_keeps_segment:
  assumes e: "rcs_lastRecoveryEpisodeEvidence s = Some e" "ree_weightedProgressSegmentId e = Some k" "k \<noteq> 0"
    and w: "rpg_weightedProgress (rcs_runProgress s) = Some w" "wps_lastApplied w = None"
    and d: "rt_state (dec_after d) \<noteq> rt_state (rcs_processState s)" "dec_reason d \<noteq> TR_ProductWaitExpired"
      "rt_state (rcs_processState s) \<noteq> PS_Fermenting"
    and c: "transitionCandidate s d None = Some c" and m: "transitionInMemory s d None = Some m"
  shows "map_option wps_coverage (rpg_weightedProgress (rcs_runProgress c)) = Some WPV_PartialUnknown \<and>
    map_option ree_weightedProgressSegmentId (rcs_lastRecoveryEpisodeEvidence c) = Some None \<and>
    rpg_weightedProgress (rcs_runProgress m) = Some w \<and>
    map_option ree_weightedProgressSegmentId (rcs_lastRecoveryEpisodeEvidence m) = Some (Some k)"
proof -
  have f: "foldObservedAt s d x = Some x" for x
    using d(3) by (simp add: foldObservedAt_def leavesFermentation_def)
  from m f obtain s1 where s1: "transitionRun d s = Some s1" "m = s1"
    using d(2) by (auto simp: transitionInMemory_def endExpiredWait_def withLiveEvidence_def
        split: option.splits)
  then have s1eq: "s1 = s\<lparr>rcs_processState := dec_after d\<rparr>" by (auto elim: transitionRun_eq)
  have "c = supersedeOpenSegment s s1"
    using c f s1 d(2) by (simp add: transitionCandidate_def endExpiredWait_def withLiveEvidence_def)
  then show ?thesis
    using e w d(1) s1(2) by (simp add: s1eq supersedeOpenSegment_def supersedeUnbookedWeightedSegment_def)
qed

section \<open>Concrete inputs\<close>

definition standbyState :: RunCommandState where
  "standbyState = initialCommandState\<lparr>rcs_processState := runtimeIn PS_Standby 100\<lparr>rt_transitionSequence := 1\<rparr>\<rparr>"

definition firstCommand :: CommandEnvelope where
  "firstCommand = \<lparr>cen_id = 7, cen_source = CSO_LocalDisplay, cen_monotonicMillis = 5000,
     cen_expectedStateSequence = 1, cen_expectedRunRevision = Some 0, cen_expectedMessageRevision = None,
     cen_expectedFaultRevision = None, cen_confirmed = True, cen_expectedRecoveryEpisodeRevision = Some 0\<rparr>"

definition startRequest :: ProgramStartRequest where
  "startRequest = \<lparr>psr_envelope = firstCommand, psr_runId = ''run-1'', psr_program = exampleManualSource,
     psr_sourceProgramRevision = None, psr_sensorMode = RSM_Air, psr_safetyAllowsStart = True,
     psr_airSensorValid = True, psr_coolingSensorValid = True, psr_productSensorValid = False\<rparr>"

definition startedState :: RunCommandState where
  "startedState = handleCommand standbyState (CR_ProgramStart startRequest)"

lemma standby_reachable: "reachableCommand standbyState"
proof -
  have "establishBootCompletedStandby initialProcessRuntimeState 100 =
      Some (runtimeIn PS_Standby 100\<lparr>rt_transitionSequence := 1\<rparr>)"
    by (simp add: establishBootCompletedStandby_def Let_def applyProcessTransition_def
        equalProcessRuntimeState_iff commit_defs runtime_iffs example_defs propose_def)
  then show ?thesis unfolding standbyState_def by (rule reachableCommand.booted)
qed

lemma example_run_starts: "startRun exampleManualSource None \<noteq> None"
  using exampleRun_starts by simp

lemma start_proposed: "commandProposed (decideProgramStart standbyState startRequest)"
proof -
  obtain run where "startRun (psr_program startRequest) (psr_sourceProgramRevision startRequest) = Some run"
    using example_run_starts by (auto simp: startRequest_def)
  then show ?thesis
    by (intro programStart_possible)
      (simp_all add: startRequest_def standbyState_def firstCommand_def acceptedCommand_def
        initialCommandState_def containsProcessedCommand_def validCommandSource_def startAllowed_def
        runtimeIn_def initialProcessRuntimeState_def validRunId_def kMinimumRunIdBytes_def
        kMaximumRunIdBytes_def validSensorMode_def resolveStartMode_def exampleManualSource_def
        resolution_def runtime_iffs)
qed

lemma started_reachable: "reachableCommand startedState"
  unfolding startedState_def using standby_reachable by (rule reachableCommand.handled)

lemma started_phase: "rt_state (rcs_processState startedState) = PS_ReachingTarget \<and>
    rcs_activeProgramRun startedState \<noteq> None"
  using start_proposed
proof (rule decideProgramStart_proposed, goal_cases)
  case (1 run snapshot c)
  have "run = exampleRun" using 1(7) exampleRun_starts by (simp add: startRequest_def)
  then have "snap_preheatEnabled snapshot = False"
    using 1(8) invariant_makes [OF invariant_start [OF 1(7)]]
    by (simp add: makeActiveRunProcessSnapshot_def processSnapshotOf_def exampleRun_fields
        exampleManualSource_def)
  with start_transition(2) [OF 1(11)] have "rt_state (rcs_processState c) = PS_ReachingTarget"
    by (simp add: standbyState_def runtimeIn_def)
  with 1(12) show ?case
    by (simp add: startedState_def handleCommand_eq programRunStarted_def Let_def)
qed

text \<open>A sensor action with an unknown byte, while a critical event is pending and the user decision is
  awaited: the guards of \<open>decideApplySensorSelectionAction\<close> name the known actions only, and the
  permission of the Peltier turns from blocked to allowed.\<close>

definition lockedState :: "ManualRunPlan \<Rightarrow> RunCommandState" where
  "lockedState plan = standbyState\<lparr>rcs_processState := (runtimeIn PS_ManualHolding 1000)
       \<lparr>rt_transitionSequence := 1\<rparr>,
     rcs_activeManualRun := Some plan,
     rcs_activeRunId := ''run-1'', rcs_activeRunSensorMode := Some RSM_Product,
     rcs_sensorSelection := Some initialPersistedSensorSelection,
     rcs_sensorSelectionRuntime := initialSensorSelectionRuntime\<lparr>ssr_phase := SSP_UserDecisionRequired\<rparr>,
     rcs_criticalSafetyEventPending := True\<rparr>"

definition validEvidence :: CrossRolePlausibilityContext where
  "validEvidence = (let q = initialSensorQualitySnapshot\<lparr>sq_quality := SQ_Valid\<rparr> in
     \<lparr>crp_phase = PS_ManualHolding, crp_evaluationMonotonicMillis = 4900, crp_air = q, crp_product = q,
      crp_cooling = q, crp_direction = Dir_Heating, crp_controlDemandAgeMs = Some 10,
      crp_thermalCompatibility =
        \<lparr>tce_status = TC_Stale, tce_profileRevision = 3, tce_evaluatedAt = 800\<rparr>\<rparr>)"

lemma unknown_action_unblocks:
  "ssr_permission (rcs_sensorSelectionRuntime (lockedState plan)) = SPP_Blocked"
  "ssr_permission (rcs_sensorSelectionRuntime (handleCommand (lockedState plan) (CR_SensorSelection
     \<lparr>scq_envelope = firstCommand, scq_action = SUA_other 9\<rparr> validEvidence))) = SPP_Allowed"
proof -
  define m where "m = requestedMutation (lockedState plan)
    \<lparr>scq_envelope = firstCommand, scq_action = SUA_other 9\<rparr> validEvidence"
  have view: "sensorSelectionViewFrom (lockedState plan) = \<lparr>ssv_activeRunId = ''run-1'',
      ssv_runtime = initialSensorSelectionRuntime\<lparr>ssr_phase := SSP_UserDecisionRequired\<rparr>,
      ssv_activeMode = Some RSM_Product, ssv_persisted = Some initialPersistedSensorSelection,
      ssv_runRevision = 0\<rparr>"
    by (simp add: sensorSelectionViewFrom_def lockedState_def standbyState_def initialCommandState_def)
  have m: "ssm_status m = SAS_AppliedPersistentCandidate \<and> ssm_event m = None \<and>
      ssr_permission (ssm_runtime m) = SPP_Allowed"
    unfolding m_def requestedMutation_def view
    by (simp add: applySensorSelectionDecision_def staleDecision_def validRuntimeCombination_def
        timeWentBackwards_def initialSensorSelectionRuntime_def initialReturnValidation_def
        evaluatePhase_def evaluateUserDecisionRequired_def isContinueWithAirAction_def validEvidence_def
        usable_def proposalFrom_def mutationOfProposal_def persistentMutation_def Let_def)
  show "ssr_permission (rcs_sensorSelectionRuntime (lockedState plan)) = SPP_Blocked"
    by (simp add: lockedState_def initialSensorSelectionRuntime_def)
  show "ssr_permission (rcs_sensorSelectionRuntime (handleCommand (lockedState plan) (CR_SensorSelection
      \<lparr>scq_envelope = firstCommand, scq_action = SUA_other 9\<rparr> validEvidence))) = SPP_Allowed"
  proof -
    define d where "d = requireRunRevision (beginDecision (lockedState plan) firstCommand
        CK_ApplySensorSelectionAction)"
    have p: "commandProposed d"
      by (simp add: d_def commandProposed_beginDecision acceptedCommand_def firstCommand_def lockedState_def
          standbyState_def initialCommandState_def containsProcessedCommand_def
          validCommandSource_def runtimeIn_def initialProcessRuntimeState_def isRunComfortCommand_def)
    have d: "cd_before d = lockedState plan" "cd_after d = lockedState plan" by (simp_all add: d_def)
    have c: "cen_confirmed firstCommand" by (simp add: firstCommand_def)
    have e: "cd_effects d = []" by (simp add: d_def)
    have sel: "rcs_activeManualRun (lockedState plan) \<noteq> None" "rcs_activeRunId (lockedState plan) \<noteq> []"
      "rcs_activeRunSensorMode (lockedState plan) \<noteq> None"
      by (simp_all add: lockedState_def)
    define q where "q = \<lparr>scq_envelope = firstCommand, scq_action = SUA_other 9\<rparr>"
    have q: "scq_envelope q = firstCommand" "scq_action q = SUA_other 9" by (simp_all add: q_def)
    have "decideApplySensorSelectionAction (lockedState plan) q validEvidence =
        restoreRejectedAfter (judgeSelection q m d)"
      unfolding decideApplySensorSelectionAction_def Let_def m_def [folded q_def] requestedMutation_def
        q(1) d_def [symmetric]
      using p sel by (auto simp: q(2))
    moreover have "judgeSelection q m d = applySelectionTo q m (d\<lparr>cd_sensorSelectionApplyStatus :=
        Some (ssm_status m)\<rparr>)"
      using m by (simp add: judgeSelection_def Let_def q(2))
    moreover have "rcs_sensorSelectionRuntime (applySensorSelectionMutation s x) = ssm_runtime x" for s x
      by (simp add: applySensorSelectionMutation_def Let_def split: option.split)
    moreover have "ssr_permission (rcs_sensorSelectionRuntime (lockedState plan)) = SPP_Blocked"
      by (simp add: lockedState_def initialSensorSelectionRuntime_def)
    ultimately show ?thesis
      using m p d c e by (simp add: handleCommand_eq q_def [symmetric] applySelectionTo_def Let_def q(1)
        beginMutation_after restoreRejectedAfter_def addEffect_def announceSelection_def
        kMaximumCommandEffects_def split: option.split)
  qed
qed

section \<open>Witnesses\<close>

theorem command_replay_refused_witness:
  "commandProposed (decideCommand standbyState (CR_ProgramStart startRequest)) \<and>
   handleCommand (handleAll [CR_ProgramStart startRequest] startedState) (CR_ProgramStart startRequest) =
     handleAll [CR_ProgramStart startRequest] startedState"
  using command_replay_refused [OF standby_reachable, of "CR_ProgramStart startRequest"
      "[CR_ProgramStart startRequest]" "CR_ProgramStart startRequest"] start_proposed
  by (simp add: startedState_def)


theorem command_state_invariant_witness:
  "runConsistent startedState \<and> rcs_activeProgramRun startedState \<noteq> None"
  using command_state_invariant [OF started_reachable] started_phase by simp

theorem control_context_valid_witness:
  "contextOk startedState (resolveEffectiveControlContext startedState)"
  using control_context_valid [OF started_reachable] started_phase
  by (simp add: temperatureControlledPhase_def)

theorem qualification_context_valid_witness:
  "eqc_valid (resolveEffectiveQualificationContext startedState)"
  using qualification_context_valid [OF started_reachable] started_phase
  by (simp add: qualificationEpisodePhase_def Let_def)

definition runningState :: RunCommandState where
  "runningState = standbyState\<lparr>rcs_processState := (runtimeIn PS_ReachingTarget 1000)
       \<lparr>rt_targetReachStartedAtMillis := 1000, rt_transitionSequence := 1\<rparr>,
     rcs_processRunSnapshot := Some yoghurtRun\<rparr>"





definition recoveredState :: RunCommandState where
  "recoveredState = standbyState\<lparr>rcs_processState := (runtimeIn PS_Fermenting 1000)
       \<lparr>rt_transitionSequence := 1\<rparr>,
     rcs_priorBootPhaseElapsed := Some \<lparr>tpe_taggedState = PS_Fermenting,
       tpe_elapsed = \<lparr>prior_lowerBoundSeconds = 100, prior_upperBoundSeconds = Some 700\<rparr>\<rparr>\<rparr>"

definition correctionRequest :: ApplyRecoveryTimeCorrectionRequest where
  "correctionRequest = \<lparr>rtr_envelope = firstCommand, rtr_secondsDelta = 60\<rparr>"

lemma correction_proposed:
  "commandProposed (decideApplyRecoveryTimeCorrection recoveredState correctionRequest)"
proof -
  define d where "d = requireRecoveryEpisodeRevision (requireRunRevision
      (beginDecision recoveredState firstCommand CK_ApplyRecoveryTimeCorrection))"
  have sel: "rcs_priorBootPhaseElapsed recoveredState = Some \<lparr>tpe_taggedState = PS_Fermenting,
       tpe_elapsed = \<lparr>prior_lowerBoundSeconds = 100, prior_upperBoundSeconds = Some 700\<rparr>\<rparr>"
    "rt_state (rcs_processState recoveredState) = PS_Fermenting"
    "rcs_nominalRecoveryAdjustment recoveredState = None"
    by (simp_all add: recoveredState_def standbyState_def initialCommandState_def runtimeIn_def)
  have d: "commandProposed d" "cd_before d = recoveredState"
    by (simp_all add: d_def commandProposed_beginDecision acceptedCommand_def firstCommand_def
        recoveredState_def standbyState_def initialCommandState_def containsProcessedCommand_def
        validCommandSource_def runtimeIn_def initialProcessRuntimeState_def)
  have u: "u32_max - 0 = (4294967295 :: u32)" by simp
  have "commandProposed (correctRecoveryTime correctionRequest 100 700 d)"
    using d sel by (simp add: correctRecoveryTime_def Let_def noNominalAdjustment_def
        correctionRequest_def firstCommand_def)
  with d sel show ?thesis
    by (simp add: decideApplyRecoveryTimeCorrection_def Let_def correctionRequest_def d_def [symmetric])
qed

theorem recovery_correction_bounded_witness:
  "\<exists>a. rcs_nominalRecoveryAdjustment
     (cd_after (decideApplyRecoveryTimeCorrection recoveredState correctionRequest)) = Some a \<and>
   unat (nra_cumulativeAppliedSeconds a) = 60"
  using recovery_correction_bounded [OF correction_proposed, of correctionRequest]
  by (auto simp: correctionRequest_def recoveredState_def standbyState_def initialCommandState_def)

theorem transition_commit_agrees_witness:
  "transitionCandidate runningState
     (decideProcessTransition (rcs_processState runningState) (Some yoghurtRun) quietSignals
        (requestOf PE_None) 4000000 noPriorBootPhaseElapsed) None =
   transitionInMemory runningState
     (decideProcessTransition (rcs_processState runningState) (Some yoghurtRun) quietSignals
        (requestOf PE_None) 4000000 noPriorBootPhaseElapsed) None"
  by (rule transition_commit_agrees)
    (simp add: noOpenSegment_def runningState_def standbyState_def initialCommandState_def)

end
