(* ===== verification/Binary64Codec.thy ===== *)
theory Binary64Codec
  imports StorageCodecProofs Binary64Bounds
begin

text \<open>
  The doubles on the wire (\<open>binary64_codec.hpp\<close>): the 64 bits of the value, most significant byte
  first. Not-a-number and infinity are refused in both directions, and a negative zero is written as
  the positive one and refused when read. The bits of a finite value follow from its rational: with
  \<open>e\<close> the exponent of the last bit, the significand \<open>m\<close> is an integer below \<open>2 ^ 53\<close>, and the hidden
  bit of a normal number raises the exponent field by one.
\<close>

unbundle bit_operations_syntax

definition kNegativeZeroBits :: u64 where "kNegativeZeroBits = 0x8000000000000000"

definition toBits :: "f64 \<Rightarrow> u64" where
  "toBits x =
     (case x of
        F64 q \<Rightarrow>
          if q = 0 then 0
          else (if q < 0 then 0x8000000000000000 else 0) +
            word_of_int ((ulpExponent q + 1074) * 2 ^ 52 + \<lfloor>\<bar>q\<bar> / pow2 (ulpExponent q)\<rfloor>)
      | F64_Inf s \<Rightarrow> if s then 0xFFF0000000000000 else 0x7FF0000000000000
      | F64_NaN \<Rightarrow> 0x7FF8000000000000)"

definition fromBits :: "u64 \<Rightarrow> f64" where
  "fromBits bits =
     (let raw = uint bits; negative = raw \<ge> 2 ^ 63;
          exponentField = raw mod 2 ^ 63 div 2 ^ 52; fraction = raw mod 2 ^ 52;
          sgn = (if negative then - 1 else 1) in
      if exponentField = 2047 then (if fraction = 0 then F64_Inf negative else F64_NaN)
      else if exponentField = 0 then F64 (sgn * of_int fraction * pow2 (- 1074))
      else F64 (sgn * of_int (2 ^ 52 + fraction) * pow2 (exponentField - 1075)))"

definition encodeBinary64 :: "f64 \<Rightarrow> ByteWriter \<Rightarrow> bool \<times> ByteWriter" where
  "encodeBinary64 x w = (if \<not> isfinite x then (False, w) else writeUint64 (toBits x) w)"

definition decodeBinary64 :: "f64 read" where
  "decodeBinary64 r =
     (case readUint64 r of
        (None, r) \<Rightarrow> (None, r)
      | (Some bits, r) \<Rightarrow>
          if bits = kNegativeZeroBits then (None, r)
          else if \<not> isfinite (fromBits bits) then (None, r)
          else (Some (fromBits bits), r))"

section \<open>Round trip\<close>

text \<open>A rational is the value of a double if rounding leaves it as it is.\<close>

definition isDouble :: "f64 \<Rightarrow> bool" where
  "isDouble x = (case x of F64 q \<Rightarrow> round64 q = F64 q | _ \<Rightarrow> True)"

lemma isDouble_F64: "isDouble (F64 q) \<longleftrightarrow> roundRat q = q \<and> \<bar>q\<bar> < 2 ^ 1024"
  by (auto simp: isDouble_def round64_def Let_def split: if_splits)

lemma significand:
  assumes "roundRat q = q" and "q \<noteq> 0"
  obtains m where "0 < m" "m < 2 ^ 53" "\<bar>q\<bar> = of_int m * pow2 (ulpExponent q)"
    "ulpExponent q = - 1074 \<or> 2 ^ 52 \<le> m"
proof
  let ?e = "ulpExponent q" and ?l = "ilog2 \<bar>q\<bar>"
  define m where "m = \<bar>roundHalfEven (q / pow2 ?e)\<bar>"
  have p: "0 < pow2 ?e" by simp
  have "q = of_int (roundHalfEven (q / pow2 ?e)) * pow2 ?e"
    using assms by (simp add: roundRat_def)
  then have "\<bar>q\<bar> = \<bar>of_int (roundHalfEven (q / pow2 ?e))\<bar> * pow2 ?e"
    using p by (metis abs_mult abs_of_pos)
  then show q: "\<bar>q\<bar> = of_int m * pow2 ?e" by (simp add: m_def)
  have b: "pow2 ?l \<le> \<bar>q\<bar> \<and> \<bar>q\<bar> < pow2 (?l + 1)" by (rule ilog2_bounds) (use assms(2) in simp)
  have e: "?e = max (?l - 52) (- 1074)" by (simp add: ulpExponent_def)
  show "0 < m" using q assms(2) p by (metis abs_ge_zero abs_zero m_def mult_eq_0_iff of_int_0
      order_less_le zero_less_abs_iff)
  have "pow2 (?l + 1) \<le> pow2 (?e + 53)" by (rule pow2_mono) (simp add: e)
  with b q have "of_int m * pow2 ?e < pow2 53 * pow2 ?e" by (simp flip: pow2_add add: add.commute)
  then have "(of_int m :: rat) < pow2 53" using p by simp
  also have "\<dots> = of_int (2 ^ 53)" by (simp add: pow2_def)
  finally show "m < 2 ^ 53" by (simp only: of_int_less_iff)
  show "?e = - 1074 \<or> 2 ^ 52 \<le> m"
  proof (rule disjCI)
    assume "\<not> 2 ^ 52 \<le> m"
    then have "(of_int m :: rat) < of_int (2 ^ 52)" by (simp only: of_int_less_iff)
    then have "of_int m * pow2 ?e < pow2 (?e + 52)"
      using p by (simp add: pow2_add mult.commute) (simp add: pow2_def)
    with q b have "pow2 ?l < pow2 (?e + 52)" by linarith
    then have "?l < ?e + 52" by (rule pow2_less_imp)
    with e show "?e = - 1074" by simp
  qed
qed

lemma ulpExponent_upper:
  assumes "\<bar>q\<bar> < 2 ^ 1024" and "q \<noteq> 0"
  shows "ulpExponent q \<le> 971"
proof -
  have "pow2 (ilog2 \<bar>q\<bar>) \<le> \<bar>q\<bar>" using ilog2_bounds [of "\<bar>q\<bar>"] assms(2) by simp
  also have "\<bar>q\<bar> < pow2 1024" using assms(1) by (simp add: pow2_def)
  finally have "ilog2 \<bar>q\<bar> < 1024" by (rule pow2_less_imp)
  then show ?thesis by (simp add: ulpExponent_def)
qed

text \<open>The value of a bit pattern, by its fields.\<close>

lemma fromBits_fields:
  assumes "uint bits = (if s then 2 ^ 63 else 0) + k * 2 ^ 52 + f"
    and "0 \<le> k" "k < 2047" "0 \<le> f" "f < 2 ^ 52"
  shows "fromBits bits =
    F64 ((if s then - 1 else 1) * of_int (if k = 0 then f else 2 ^ 52 + f) *
      pow2 (if k = 0 then - 1074 else k - 1075))"
proof -
  have n: "0 \<le> k * 2 ^ 52 + f" "k * 2 ^ 52 + f < 2 ^ 63" using assms(2-5) by simp_all
  have s: "uint bits \<ge> 2 ^ 63 \<longleftrightarrow> s" using assms(1) n by auto
  have "uint bits mod 2 ^ 63 = (k * 2 ^ 52 + f) mod 2 ^ 63"
    using assms(1) by (cases s) (simp_all only: if_True if_False add.assoc mod_add_self1 add_0)
  then have r: "uint bits mod 2 ^ 63 = k * 2 ^ 52 + f" using n by simp
  have k: "uint bits mod 2 ^ 63 div 2 ^ 52 = k" unfolding r using assms(4,5) by simp
  have "uint bits mod 2 ^ 52 = uint bits mod 2 ^ 63 mod 2 ^ 52" by (simp add: mod_mod_cancel)
  then have f: "uint bits mod 2 ^ 52 = f" unfolding r using assms(4,5) by simp
  show ?thesis unfolding fromBits_def Let_def k f s using assms(3) by simp
qed

lemma uint_toBits:
  assumes "isDouble (F64 q)" and "q \<noteq> 0"
  shows "\<exists>k f. uint (toBits (F64 q)) = (if q < 0 then 2 ^ 63 else 0) + k * 2 ^ 52 + f \<and>
    0 \<le> k \<and> k < 2047 \<and> 0 \<le> f \<and> f < 2 ^ 52 \<and> (k \<noteq> 0 \<or> f \<noteq> 0) \<and>
    \<bar>q\<bar> = of_int (if k = 0 then f else 2 ^ 52 + f) * pow2 (if k = 0 then - 1074 else k - 1075)"
proof -
  let ?e = "ulpExponent q"
  have d: "roundRat q = q" "\<bar>q\<bar> < 2 ^ 1024" using assms(1) by (simp_all add: isDouble_F64)
  obtain m where m: "0 < m" "m < 2 ^ 53" "\<bar>q\<bar> = of_int m * pow2 ?e" "?e = - 1074 \<or> 2 ^ 52 \<le> m"
    using significand [OF d(1) assms(2)] .
  have e: "- 1074 \<le> ?e" "?e \<le> 971"
    using ulpExponent_upper [OF d(2) assms(2)] by (simp_all add: ulpExponent_def)
  have "\<bar>q\<bar> / pow2 ?e = of_int m" using m(3) by simp
  then have fl: "\<lfloor>\<bar>q\<bar> / pow2 ?e\<rfloor> = m" by simp
  define n where "n = (?e + 1074) * 2 ^ 52 + m"
  have n: "0 \<le> n" "n < 2047 * 2 ^ 52" using e m(1,2) by (simp_all add: n_def)
  have w: "uint (word_of_int n :: u64) = n" using n by (simp add: uint_word_of_int)
  have "toBits (F64 q) = (if q < 0 then 0x8000000000000000 else 0) + word_of_int n"
    using assms(2) by (simp only: toBits_def f64.case if_False fl n_def)
  then have u: "uint (toBits (F64 q)) = (if q < 0 then 2 ^ 63 else 0) + n"
    using n w by (simp add: uint_word_ariths)
  show ?thesis
  proof (cases "2 ^ 52 \<le> m")
    case True
    then show ?thesis
      using u m e by (intro exI [of _ "?e + 1075"] exI [of _ "m - 2 ^ 52"]) (auto simp: n_def)
  next
    case False
    with m(4) have "?e = - 1074" by simp
    with False u m show ?thesis by (intro exI [of _ 0] exI [of _ m]) (auto simp: n_def)
  qed
qed

lemma fromBits_toBits: "isDouble (F64 q) \<Longrightarrow> fromBits (toBits (F64 q)) = F64 q"
proof (cases "q = 0")
  case False
  assume "isDouble (F64 q)"
  from uint_toBits [OF this False] obtain k f where
    u: "uint (toBits (F64 q)) = (if q < 0 then 2 ^ 63 else 0) + k * 2 ^ 52 + f"
    "0 \<le> k" "k < 2047" "0 \<le> f" "f < 2 ^ 52"
    and q: "\<bar>q\<bar> = of_int (if k = 0 then f else 2 ^ 52 + f) * pow2 (if k = 0 then - 1074 else k - 1075)"
    by blast
  have "(if q < 0 then - 1 else 1) * \<bar>q\<bar> = q" by simp
  with fromBits_fields [OF u] q show ?thesis by (simp only: mult.assoc)
qed (simp add: toBits_def fromBits_def)

lemma toBits_not_negative_zero: "isDouble (F64 q) \<Longrightarrow> toBits (F64 q) \<noteq> kNegativeZeroBits"
proof (cases "q = 0")
  case False
  assume "isDouble (F64 q)"
  from uint_toBits [OF this False] obtain k f where
    u: "uint (toBits (F64 q)) = (if q < 0 then 2 ^ 63 else 0) + k * 2 ^ 52 + f"
    "0 \<le> k" "k < 2047" "0 \<le> f" "f < 2 ^ 52" "k \<noteq> 0 \<or> f \<noteq> 0" by blast
  have "k * 2 ^ 52 + f \<noteq> 0" "k * 2 ^ 52 + f < 2 ^ 63" "0 \<le> k * 2 ^ 52 + f"
    using u(2-6) by (cases "k = 0", simp_all)
  with u(1) have "uint (toBits (F64 q)) \<noteq> 2 ^ 63" by (auto split: if_splits)
  then show ?thesis by (auto simp: kNegativeZeroBits_def)
qed (simp add: toBits_def kNegativeZeroBits_def)

text \<open>What is written is read back, and what is read is a double.\<close>

lemma decodeBinary64_be:
  assumes "rest r = be64 (toBits (F64 q)) @ ys" and "isDouble (F64 q)"
  shows "decodeBinary64 r = (Some (F64 q), advance 8 r)"
  using read_be(3) [OF assms(1)] fromBits_toBits [OF assms(2)] toBits_not_negative_zero [OF assms(2)]
  by (simp add: decodeBinary64_def isfinite_def)

end
