(* ===== verification/WireCodec.thy ===== *)
theory WireCodec
  imports Binary64Codec
begin

text \<open>
  What the payload codecs of \<open>run_persistence_codec.cpp\<close> and \<open>configuration_document_codec.cpp\<close> share:
  strings with a 16-bit length, optional values behind a tag, and enumerations by their number on
  the wire. A chain \<open>a && b && c\<close> of writes is a list of writers, each of which runs only while all
  before it succeeded; a chain of reads passes each value on to the next read.
\<close>

type_synonym writer = "ByteWriter \<Rightarrow> bool \<times> ByteWriter"

section \<open>Chains\<close>

fun writeAll :: "writer list \<Rightarrow> writer" where
  "writeAll [] w = (True, w)"
| "writeAll (f # fs) w = andThen (f w) (writeAll fs)"

definition writeFail :: writer where
  "writeFail w = (False, w)"

definition readReturn :: "'a \<Rightarrow> 'a read" where
  "readReturn a r = (Some a, r)"

definition readFail :: "'a read" where
  "readFail r = (None, r)"

definition readThen :: "'a read \<Rightarrow> ('a \<Rightarrow> 'b read) \<Rightarrow> 'b read" where
  "readThen m f r = (case m r of (None, r) \<Rightarrow> (None, r) | (Some a, r) \<Rightarrow> f a r)"

definition readCheck :: "('a \<Rightarrow> bool) \<Rightarrow> 'a read \<Rightarrow> 'a read" where
  "readCheck P m = readThen m (\<lambda>a. if P a then readReturn a else readFail)"

text \<open>A loop that reads the elements of an array.\<close>

fun readTimes :: "nat \<Rightarrow> 'a read \<Rightarrow> 'a list read" where
  "readTimes 0 m = readReturn []"
| "readTimes (Suc n) m = readThen m (\<lambda>a. readThen (readTimes n m) (\<lambda>as. readReturn (a # as)))"

text \<open>\<open>if (!read(...)) return st;\<close>: a failed read ends the decoder with a status.\<close>

definition orFail ::
  "'e \<Rightarrow> 'a read \<Rightarrow> ('a \<Rightarrow> ByteReader \<Rightarrow> 'e + 'b) \<Rightarrow> ByteReader \<Rightarrow> 'e + 'b" where
  "orFail st m f r = (case m r of (None, _) \<Rightarrow> Inl st | (Some a, r) \<Rightarrow> f a r)"

type_synonym ('e, 'a) parser = "ByteReader \<Rightarrow> 'e + 'a \<times> ByteReader"

definition parseReturn :: "'a \<Rightarrow> ('e, 'a) parser" where
  "parseReturn a r = Inr (a, r)"

definition parseFail :: "'e \<Rightarrow> ('e, 'a) parser" where
  "parseFail st r = Inl st"

definition parseThen :: "('e, 'a) parser \<Rightarrow> ('a \<Rightarrow> ('e, 'b) parser) \<Rightarrow> ('e, 'b) parser" where
  "parseThen p f r = (case p r of Inl st \<Rightarrow> Inl st | Inr (a, r) \<Rightarrow> f a r)"

section \<open>Strings, optional values and enumerations\<close>

text \<open>The bytes of a \<open>std::string\<close> of text.\<close>

definition stringBytes :: "string \<Rightarrow> bytes" where
  "stringBytes s = map of_char s"

definition bytesString :: "bytes \<Rightarrow> string" where
  "bytesString bs = map (\<lambda>b. char_of (unat b)) bs"

definition writeString :: "bytes \<Rightarrow> writer" where
  "writeString v w =
     (if length v > 65535 then (False, w)
      else writeAll [writeUint16 (of_nat (length v)), writeBytes v] w)"

definition readString :: "nat \<Rightarrow> bytes read" where
  "readString maximum =
     readThen readUint16 (\<lambda>n r. if unat n > maximum \<or> unat n > remaining r then (None, r)
       else readBytes (unat n) r)"

definition writeOptional :: "('a \<Rightarrow> writer) \<Rightarrow> 'a option \<Rightarrow> writer" where
  "writeOptional f v =
     writeAll (writeOptionalTag (v \<noteq> None) # (case v of None \<Rightarrow> [] | Some x \<Rightarrow> [f x]))"

definition readOptional :: "'a read \<Rightarrow> 'a option read" where
  "readOptional m =
     readThen readOptionalTag
       (\<lambda>present. if present then readThen m (\<lambda>x. readReturn (Some x)) else readReturn None)"

definition writeOptionalUint32 :: "u32 option \<Rightarrow> writer" where
  "writeOptionalUint32 = writeOptional writeUint32"

definition readOptionalUint32 :: "u32 option read" where
  "readOptionalUint32 = readOptional readUint32"

definition writeOptionalUint64 :: "u64 option \<Rightarrow> writer" where
  "writeOptionalUint64 = writeOptional writeUint64"

definition readOptionalUint64 :: "u64 option read" where
  "readOptionalUint64 = readOptional readUint64"

text \<open>A signed 64-bit value is kept as the word of its two's complement.\<close>

definition writeOptionalInt64 :: "64 word option \<Rightarrow> writer" where
  "writeOptionalInt64 = writeOptional (\<lambda>v. writeInt64 (sint v))"

definition readOptionalInt64 :: "64 word option read" where
  "readOptionalInt64 = readOptional (readThen readInt64 (\<lambda>v. readReturn (word_of_int v)))"

definition writeOptionalDouble :: "f64 option \<Rightarrow> writer" where
  "writeOptionalDouble = writeOptional encodeBinary64"

definition readOptionalDouble :: "f64 option read" where
  "readOptionalDouble = readOptional decodeBinary64"

text \<open>A \<open>switch\<close> over the enumerators, or over the numbers on the wire: what it does not name fails.\<close>

definition writeEnum :: "('a \<times> u8) list \<Rightarrow> 'a \<Rightarrow> writer" where
  "writeEnum cases v = (case map_of cases v of None \<Rightarrow> writeFail | Some b \<Rightarrow> writeUint8 b)"

definition readEnum :: "(u8 \<times> 'a) list \<Rightarrow> 'a read" where
  "readEnum cases =
     readThen readUint8 (\<lambda>b. case map_of cases b of None \<Rightarrow> readFail | Some v \<Rightarrow> readReturn v)"

section \<open>What is written is read names\<close>

text \<open>\<open>codes f m a\<close>: if the writer \<open>f\<close> succeeds, it appends bytes that the reader \<open>m\<close> reads as \<open>a\<close>,
  whatever follows them.\<close>

definition readsAs :: "bytes \<Rightarrow> 'a read \<Rightarrow> 'a \<Rightarrow> bool" where
  "readsAs bs m a \<longleftrightarrow> (\<forall>r ys. rest r = bs @ ys \<longrightarrow> m r = (Some a, advance (length bs) r))"

lemma writeAll_append: "writeAll (xs @ ys) w = andThen (writeAll xs w) (writeAll ys)"
  by (induction xs arbitrary: w) (simp_all add: andThen_def)

text \<open>What a successful write does to its writer: the bytes are appended, within the capacity.\<close>

definition appends :: "writer \<Rightarrow> ByteWriter \<Rightarrow> bytes \<Rightarrow> bool" where
  "appends f w bs \<longleftrightarrow> snd (f w) = w\<lparr>bw_buffer := bw_buffer w @ bs\<rparr> \<and>
     (length (bw_buffer w) \<le> bw_capacity w \<longrightarrow> length (bw_buffer w) + length bs \<le> bw_capacity w)"

lemma appends_nil: "appends (writeAll []) w []"
  by (simp add: appends_def)

lemma appends_append:
  assumes "fst (writeAll fs w)" and "appends (writeAll fs) w bs"
    and "appends (writeAll gs) (snd (writeAll fs w)) cs"
  shows "appends (writeAll (fs @ gs)) w (bs @ cs)"
  using assms by (auto simp: appends_def writeAll_append andThen_def)

lemma appends_cons:
  assumes "fst (f w)" and "appends f w bs" and "appends (writeAll fs) (snd (f w)) cs"
  shows "appends (writeAll (f # fs)) w (bs @ cs)"
  using assms by (auto simp: appends_def andThen_def)

definition codes :: "writer \<Rightarrow> 'a read \<Rightarrow> 'a \<Rightarrow> bool" where
  "codes f m a \<longleftrightarrow> (\<forall>w. fst (f w) \<longrightarrow> (\<exists>bs. appends f w bs \<and> readsAs bs m a))"

named_theorems codes_intros \<open>a writer and the reader of what it writes\<close>

lemma codesI:
  assumes "\<And>w. fst (f w) \<Longrightarrow> appends f w bs" and "readsAs bs m a"
  shows "codes f m a"
  using assms unfolding codes_def by blast

lemma writeBytes_appends: "fst (writeBytes bs w) \<Longrightarrow> appends (writeBytes bs) w bs"
  by (auto simp: writeBytes_def appends_def split: if_splits)

lemma appends_cong: "(\<And>w. f w = g w) \<Longrightarrow> appends f w bs = appends g w bs"
  by (simp add: appends_def)

lemma readsAs_return [intro]: "readsAs [] (readReturn a) a"
  by (simp add: readsAs_def readReturn_def advance_def)

lemma readsAs_then:
  assumes "readsAs bs m a" and "readsAs cs (g a) v"
  shows "readsAs (bs @ cs) (readThen m g) v"
  unfolding readsAs_def
proof (intro allI impI)
  fix r ys assume r: "rest r = (bs @ cs) @ ys"
  then have "m r = (Some a, advance (length bs) r)" using assms(1) by (simp add: readsAs_def)
  moreover have "rest (advance (length bs) r) = cs @ ys" using r by simp
  ultimately show "readThen m g r = (Some v, advance (length (bs @ cs)) r)"
    using assms(2) by (simp add: readThen_def readsAs_def)
qed

lemma codes_ret [codes_intros]: "v = u \<Longrightarrow> codes (writeAll []) (readReturn u) v"
  by (rule codesI [where bs = "[]"]) (auto simp: appends_nil)

lemma codes_seq [codes_intros]:
  assumes "codes f m a" and "codes (writeAll fs) (g a) v"
  shows "codes (writeAll (f # fs)) (readThen m g) v"
  unfolding codes_def
proof (intro allI impI)
  fix w assume ok: "fst (writeAll (f # fs) w)"
  then have f: "fst (f w)" and fs: "fst (writeAll fs (snd (f w)))"
    by (auto simp: andThen_def split: if_splits)
  from f assms(1) obtain bs where bs: "appends f w bs" "readsAs bs m a" unfolding codes_def by blast
  from fs assms(2) obtain cs where cs: "appends (writeAll fs) (snd (f w)) cs" "readsAs cs (g a) v"
    unfolding codes_def by blast
  from appends_cons [OF f bs(1) cs(1)] readsAs_then [where g = g, OF bs(2) cs(2)]
  show "\<exists>bs. appends (writeAll (f # fs)) w bs \<and> readsAs bs (readThen m g) v" by blast
qed

text \<open>Nested chains are one chain.\<close>

lemma codes_cong: "codes f m a \<Longrightarrow> (\<And>r. m r = m' r) \<Longrightarrow> codes f m' a"
  unfolding codes_def readsAs_def by simp

lemma readThen_assoc: "readThen (readThen m f) g = readThen m (\<lambda>a. readThen (f a) g)"
  by (rule ext) (simp add: readThen_def split: prod.split option.split)

lemma readThen_return [simp]: "readThen (readReturn a) f = f a"
  by (rule ext) (simp add: readThen_def readReturn_def)

lemma readsAs_check: "readsAs bs m a \<Longrightarrow> P a \<Longrightarrow> readsAs bs (readCheck P m) a"
  by (simp add: readsAs_def readCheck_def readThen_def readReturn_def)

lemma codes_weaken:
  "codes f m a \<Longrightarrow> (\<And>bs. readsAs bs m a \<Longrightarrow> readsAs bs m' a') \<Longrightarrow> codes f m' a'"
  unfolding codes_def by meson

lemma codes_check [codes_intros]: "codes f m a \<Longrightarrow> P a \<Longrightarrow> codes f (readCheck P m) a"
  by (erule codes_weaken) (rule readsAs_check)

lemma codes_fail [codes_intros]: "codes writeFail m a"
  by (simp add: codes_def writeFail_def)

section \<open>The basic codecs\<close>

lemma codes_bytes:
  assumes "\<And>w. f w = writeBytes bs w"
    and "\<And>r ys. rest r = bs @ ys \<Longrightarrow> m r = (Some a, advance (length bs) r)"
  shows "codes f m a"
proof (rule codesI [where bs = bs])
  show "fst (f w) \<Longrightarrow> appends f w bs" for w
    using writeBytes_appends [of bs w] appends_cong [of f "writeBytes bs" w bs] assms(1) by simp
  show "readsAs bs m a" using assms(2) by (simp add: readsAs_def)
qed

lemma codes_uint8 [codes_intros]: "codes (writeUint8 v) readUint8 v"
  by (rule codes_bytes [where bs = "[v]"]) (simp_all add: writeUint8_def writeByte_def read_be)

lemma codes_uint16 [codes_intros]: "codes (writeUint16 v) readUint16 v"
  by (rule codes_bytes [where bs = "be16 v"]) (simp_all add: write_be read_be)

lemma codes_uint32 [codes_intros]: "codes (writeUint32 v) readUint32 v"
  by (rule codes_bytes [where bs = "be32 v"]) (simp_all add: write_be read_be)

lemma codes_uint64 [codes_intros]: "codes (writeUint64 v) readUint64 v"
  by (rule codes_bytes [where bs = "be64 v"]) (simp_all add: write_be read_be)

lemma codes_bool [codes_intros]: "codes (writeBool v) readBool v"
  by (rule codes_bytes [where bs = "[if v then 1 else 0]"])
    (simp_all add: writeBool_def writeByte_def readBool_def read_be)

lemma codes_tag [codes_intros]: "codes (writeOptionalTag v) readOptionalTag v"
  by (rule codes_bytes [where bs = "[if v then 1 else 0]"])
    (simp_all add: writeOptionalTag_def writeByte_def readOptionalTag_def readBool_def read_be)

lemma codes_double [codes_intros]: "isDouble x \<Longrightarrow> codes (encodeBinary64 x) decodeBinary64 x"
proof (cases x)
  case (F64 q)
  assume "isDouble x"
  then show ?thesis using F64
    by (intro codes_bytes [where bs = "be64 (toBits x)"])
      (auto simp: encodeBinary64_def isfinite_def write_be decodeBinary64_be)
qed (simp_all add: codes_def encodeBinary64_def isfinite_def)

lemma codes_int64 [codes_intros]:
  "codes (writeInt64 (sint v)) (readThen readInt64 (\<lambda>v. readReturn (word_of_int v))) (v :: 64 word)"
proof (rule codes_bytes [where bs = "be64 v"])
  show "writeInt64 (sint v) w = writeBytes (be64 v) w" for w
    by (simp add: writeInt64_def write_be)
  show "readThen readInt64 (\<lambda>v. readReturn (word_of_int v)) r = (Some v, advance (length (be64 v)) r)"
    if "rest r = be64 v @ ys" for r ys
    using read_be(3) [OF that]
    by (simp add: readInt64_def mapRead_def readThen_def readReturn_def word_of_int_sint)
qed

lemma codes_writeBytes [codes_intros]: "length v = n \<Longrightarrow> codes (writeBytes v) (readBytes n) v"
  by (rule codes_bytes [where bs = v]) (auto simp: readBytes_append)

lemma codes_string [codes_intros]:
  assumes "length v \<le> maximum"
  shows "codes (writeString v) (readString maximum) v"
proof (cases "length v \<le> 65535")
  case True
  let ?n = "of_nat (length v) :: u16"
  have n: "unat ?n = length v" using True by (simp add: unat_of_nat)
  show ?thesis
  proof (rule codesI [where bs = "be16 ?n @ v"])
    fix w assume ok: "fst (writeString v w)"
    have "writeString v w = writeAll [writeBytes (be16 ?n), writeBytes v] w" for w
      using True by (simp add: writeString_def write_be andThen_def)
    moreover from this ok have "appends (writeAll [writeBytes (be16 ?n), writeBytes v]) w
        (be16 ?n @ v @ [])"
      by (intro appends_cons appends_nil writeBytes_appends)
        (auto simp: andThen_def split: if_splits)
    ultimately show "appends (writeString v) w (be16 ?n @ v)" by (simp add: appends_def)
  next
    have "readString maximum r = (Some v, advance (2 + length v) r)" if "rest r = be16 ?n @ v @ ys" for r ys
    proof -
      have "readUint16 r = (Some ?n, advance 2 r)" using that by (intro read_be)
      moreover have t: "rest (advance 2 r) = v @ ys" using that by simp
      moreover from t have "readBytes (length v) (advance 2 r) = (Some v, advance (length v) (advance 2 r))"
        by (rule readBytes_append) simp
      ultimately show ?thesis
        using assms n by (simp add: readString_def readThen_def remaining_rest)
    qed
    then show "readsAs (be16 ?n @ v) (readString maximum) v" by (simp add: readsAs_def)
  qed
next
  case False
  then show ?thesis by (simp add: codes_def writeString_def)
qed

lemma codes_optional [codes_intros]:
  assumes "\<And>x. v = Some x \<Longrightarrow> codes (f x) m x"
  shows "codes (writeOptional f v) (readOptional m) v"
proof (cases v)
  case None
  then show ?thesis unfolding writeOptional_def readOptional_def
    by (auto intro!: codes_intros)
next
  case (Some x)
  then show ?thesis unfolding writeOptional_def readOptional_def
    using assms by (auto intro!: codes_intros)
qed

lemma codes_enum [codes_intros]:
  assumes "\<And>b. map_of tbl v = Some b \<Longrightarrow> map_of names b = Some v"
  shows "codes (writeEnum tbl v) (readEnum names) v"
proof (cases "map_of tbl v")
  case (Some b)
  with assms have "codes (writeUint8 b) (readEnum names) v"
    by (intro codes_bytes [where bs = "[b]"])
      (simp_all add: writeUint8_def writeByte_def readEnum_def readThen_def readReturn_def read_be)
  with Some show ?thesis by (simp add: writeEnum_def)
qed (simp add: writeEnum_def codes_fail)

lemma codes_wire_id: "map_of tbl v = Some b \<Longrightarrow> map_of names b = Some v \<Longrightarrow>
    codes (writeUint8 b) (readEnum names) v"
  using codes_enum [of tbl v names] by (simp add: writeEnum_def)

lemma codes_optional_uint32 [codes_intros]: "codes (writeOptionalUint32 v) readOptionalUint32 v"
  unfolding writeOptionalUint32_def readOptionalUint32_def by (intro codes_intros)

lemma codes_optional_uint64 [codes_intros]: "codes (writeOptionalUint64 v) readOptionalUint64 v"
  unfolding writeOptionalUint64_def readOptionalUint64_def by (intro codes_intros)

lemma codes_optional_int64 [codes_intros]: "codes (writeOptionalInt64 v) readOptionalInt64 v"
  unfolding writeOptionalInt64_def readOptionalInt64_def by (intro codes_intros)

lemma codes_optional_double [codes_intros]:
  "pred_option isDouble v \<Longrightarrow> codes (writeOptionalDouble v) readOptionalDouble v"
  unfolding writeOptionalDouble_def readOptionalDouble_def by (intro codes_intros) auto

lemma codes_map: "codes f m a \<Longrightarrow> codes f (readThen m (\<lambda>x. readReturn (h x))) (h a)"
  by (erule codes_weaken) (simp add: readsAs_def readThen_def readReturn_def)

lemma codes_times [codes_intros]:
  assumes "n = length vs" and "\<And>v. v \<in> set vs \<Longrightarrow> codes (f v) m v"
  shows "codes (writeAll (map f vs)) (readTimes n m) vs"
  unfolding assms(1) using assms(2)
  by (induction vs) (auto intro!: codes_seq codes_ret codes_map)

lemma stringBytes_inverse [simp]: "bytesString (stringBytes s) = s"
proof -
  have "char_of (unat (of_char c :: u8)) = c" for c :: char
  proof -
    have "(of_char c :: nat) < 256" by (simp add: nat_of_char_less_256)
    then have "unat (of_nat (of_char c) :: u8) = of_char c" by (simp add: unat_of_nat del: of_nat_of_char)
    then have "unat (of_char c :: u8) = of_char c" by (simp only: of_nat_of_char)
    then show ?thesis by simp
  qed
  then show ?thesis by (simp add: bytesString_def stringBytes_def comp_def map_idI)
qed

lemma length_stringBytes [simp]: "length (stringBytes s) = length s"
  by (simp add: stringBytes_def)

section \<open>Decoders with a status\<close>

text \<open>A nested chain of writes is one chain, and so is a chain of reads inside a decoder.\<close>

lemma writeAll_nest [simp]: "writeAll (writeAll xs # ys) = writeAll (xs @ ys)"
  by (rule ext) (simp add: writeAll_append)

lemma orFail_then: "orFail st (readThen m f) g = orFail st m (\<lambda>a. orFail st (f a) g)"
  by (rule ext) (simp add: orFail_def readThen_def split: prod.split option.split)

lemma orFail_return: "orFail st (readReturn a) g = g a"
  by (rule ext) (simp add: orFail_def readReturn_def)

lemma parseThen_simps:
  "parseThen (orFail st m f) g = orFail st m (\<lambda>a. parseThen (f a) g)"
  "parseThen (parseReturn a) h = h a"
  "parseThen (parseThen p k) h' = parseThen p (\<lambda>a. parseThen (k a) h')"
  "parseThen (parseFail st) h'' = parseFail st"
  by (rule ext, simp add: parseThen_def orFail_def parseReturn_def parseFail_def
      split: prod.split option.split sum.split)+

lemmas parser_simps = parseThen_simps orFail_then orFail_return prod.case

definition decodes :: "writer \<Rightarrow> ('e, 'a) parser \<Rightarrow> 'a \<Rightarrow> bool" where
  "decodes f p v \<longleftrightarrow> (\<forall>w. fst (f w) \<longrightarrow>
     (\<exists>bs. appends f w bs \<and>
       (\<forall>r ys. rest r = bs @ ys \<longrightarrow> p r = Inr (v, advance (length bs) r))))"

lemma decodes_seq:
  assumes "codes f m a" and "decodes (writeAll fs) (g a) v"
  shows "decodes (writeAll (f # fs)) (orFail st m g) v"
  unfolding decodes_def
proof (intro allI impI)
  fix w assume ok: "fst (writeAll (f # fs) w)"
  then have f: "fst (f w)" and fs: "fst (writeAll fs (snd (f w)))"
    by (auto simp: andThen_def split: if_splits)
  from f assms(1) obtain bs where bs: "appends f w bs" "readsAs bs m a" unfolding codes_def by blast
  from fs assms(2) obtain cs where cs: "appends (writeAll fs) (snd (f w)) cs"
    "\<And>r ys. rest r = cs @ ys \<Longrightarrow> g a r = Inr (v, advance (length cs) r)"
    unfolding decodes_def by blast
  have "orFail st m g r = Inr (v, advance (length (bs @ cs)) r)"
    if r: "rest r = (bs @ cs) @ ys" for r ys
  proof -
    have "m r = (Some a, advance (length bs) r)" using bs(2) r by (simp add: readsAs_def)
    moreover have "rest (advance (length bs) r) = cs @ ys" using r by simp
    ultimately show ?thesis using cs(2) by (simp add: orFail_def)
  qed
  with appends_cons [OF f bs(1) cs(1)] show "\<exists>bs. appends (writeAll (f # fs)) w bs \<and>
      (\<forall>r ys. rest r = bs @ ys \<longrightarrow> orFail st m g r = Inr (v, advance (length bs) r))" by blast
qed

lemma decodes_then:
  assumes "decodes (writeAll fs) p v" and "decodes (writeAll gs) (q v) u"
  shows "decodes (writeAll (fs @ gs)) (parseThen p q) u"
  unfolding decodes_def
proof (intro allI impI)
  fix w assume ok: "fst (writeAll (fs @ gs) w)"
  then have f: "fst (writeAll fs w)" and g: "fst (writeAll gs (snd (writeAll fs w)))"
    by (auto simp: writeAll_append andThen_def split: if_splits)
  from f assms(1) obtain bs where bs: "appends (writeAll fs) w bs"
    "\<And>r ys. rest r = bs @ ys \<Longrightarrow> p r = Inr (v, advance (length bs) r)"
    unfolding decodes_def by blast
  from g assms(2) obtain cs where cs: "appends (writeAll gs) (snd (writeAll fs w)) cs"
    "\<And>r ys. rest r = cs @ ys \<Longrightarrow> q v r = Inr (u, advance (length cs) r)"
    unfolding decodes_def by blast
  have "parseThen p q r = Inr (u, advance (length (bs @ cs)) r)"
    if r: "rest r = (bs @ cs) @ ys" for r ys
  proof -
    have "p r = Inr (v, advance (length bs) r)" using bs(2) r by simp
    moreover have "rest (advance (length bs) r) = cs @ ys" using r by simp
    ultimately show ?thesis using cs(2) by (simp add: parseThen_def)
  qed
  with appends_append [OF f bs(1) cs(1)] show "\<exists>bs. appends (writeAll (fs @ gs)) w bs \<and>
      (\<forall>r ys. rest r = bs @ ys \<longrightarrow> parseThen p q r = Inr (u, advance (length bs) r))" by blast
qed

lemma decodes_result: "decodes f p v \<Longrightarrow> v = u \<Longrightarrow> decodes f p u"
  by simp

lemma decodes_nest:
  "decodes (writeAll (xs @ ys)) p v \<Longrightarrow> decodes (writeAll (writeAll xs # ys)) p v"
  by simp

lemma decodes_ret: "v = u \<Longrightarrow> decodes (writeAll []) (parseReturn u) v"
  unfolding decodes_def parseReturn_def
  by (intro allI impI exI [of _ "[]"] conjI appends_nil) (simp add: advance_def)

text \<open>A whole payload.\<close>

lemma decodes_payload:
  assumes "decodes f p v" and "f (newWriter n) = (True, w)"
  shows "\<exists>r. p (newReader (bw_buffer w)) = Inr (v, r) \<and> remaining r = 0"
    and "length (bw_buffer w) \<le> n"
proof -
  from assms obtain bs where bs: "appends f (newWriter n) bs"
    "\<And>r ys. rest r = bs @ ys \<Longrightarrow> p r = Inr (v, advance (length bs) r)"
    unfolding decodes_def by (metis fst_conv)
  then have b: "bw_buffer w = bs" "length bs \<le> n"
    using assms(2) by (simp_all add: appends_def newWriter_def)
  have "p (newReader bs) = Inr (v, advance (length bs) (newReader bs))"
    by (rule bs(2) [where ys = "[]"]) (simp add: rest_def newReader_def)
  moreover have "remaining (advance (length bs) (newReader bs)) = 0"
    by (simp add: remaining_def newReader_def)
  ultimately show "\<exists>r. p (newReader (bw_buffer w)) = Inr (v, r) \<and> remaining r = 0"
    and "length (bw_buffer w) \<le> n" using b by blast+
qed

end
