(* ===== verification/ProgramDocumentCodec.thy ===== *)
theory ProgramDocumentCodec
  imports WireCodec ProgramModel
begin

text \<open>
  The wire format of a program document (\<open>configuration_document_codec.cpp\<close>, which the run persistence
  uses through \<open>program_document_codec.cpp\<close>): the size of the payload is computed with checked
  additions before the writer of that capacity is filled; a document of an older schema is read in
  the format of its schema and migrated.
\<close>

section \<open>Numbers on the wire\<close>

datatype ConfigurationCodecStatus =
    CCS_Success | CCS_InvalidDocument | CCS_UnsupportedSchema | CCS_CapacityExceeded
  | CCS_Truncated | CCS_TrailingBytes | CCS_InvalidWireValue | CCS_MigrationFailed

definition kMaximumProgramIdBytes :: nat where "kMaximumProgramIdBytes = 48"

definition kMaximumVisibleNameBytes :: nat where "kMaximumVisibleNameBytes = 96"

definition kMaximumNotesBytes :: nat where "kMaximumNotesBytes = 1024"

definition kMaximumProgramCatalogPayloadBytes :: nat where
  "kMaximumProgramCatalogPayloadBytes = 32768"

definition kProductWaitFieldIntroducedInSchema :: u32 where "kProductWaitFieldIntroducedInSchema = 5"

definition kReturnStrategyFieldIntroducedInSchema :: u32 where
  "kReturnStrategyFieldIntroducedInSchema = 6"

definition sensorPreferenceToWireId :: "(SensorPreference \<times> u8) list" where
  "sensorPreferenceToWireId =
     [(SPref_ProductIfAvailableElseAir, 1), (SPref_AirProductOptional, 2), (SPref_ProductRequired, 3),
      (SPref_AirOnly, 4)]"

definition sensorPreferenceFromWireId :: "(u8 \<times> SensorPreference) list" where
  "sensorPreferenceFromWireId =
     [(1, SPref_ProductIfAvailableElseAir), (2, SPref_AirProductOptional), (3, SPref_ProductRequired),
      (4, SPref_AirOnly)]"

definition productSensorFailurePolicyToWireId :: "(ProductSensorFailurePolicy \<times> u8) list" where
  "productSensorFailurePolicyToWireId =
     [(PFP_FallbackToAirAfterTimeout, 1), (PFP_WaitForUser, 2), (PFP_StopToSafeState, 3)]"

definition productSensorFailurePolicyFromWireId :: "(u8 \<times> ProductSensorFailurePolicy) list" where
  "productSensorFailurePolicyFromWireId =
     [(1, PFP_FallbackToAirAfterTimeout), (2, PFP_WaitForUser), (3, PFP_StopToSafeState)]"

definition returnStrategyToWireId :: "(ReturnStrategy \<times> u8) list" where
  "returnStrategyToWireId =
     [(RSt_RemainOnAirUntilEnd, 1), (RSt_ManualReturnToProduct, 2),
      (RSt_AutomaticValidatedReturnToProduct, 3)]"

definition returnStrategyFromWireId :: "(u8 \<times> ReturnStrategy) list" where
  "returnStrategyFromWireId =
     [(1, RSt_RemainOnAirUntilEnd), (2, RSt_ManualReturnToProduct),
      (3, RSt_AutomaticValidatedReturnToProduct)]"

definition completionModeToWireId :: "(CompletionMode \<times> u8) list" where
  "completionModeToWireId =
     [(CM_FinishWithoutCooling, 1), (CM_CoolThenFinish, 2), (CM_CoolAndHoldForDuration, 3),
      (CM_CoolAndHoldUntilManualStop, 4)]"

definition completionModeFromWireId :: "(u8 \<times> CompletionMode) list" where
  "completionModeFromWireId =
     [(1, CM_FinishWithoutCooling), (2, CM_CoolThenFinish), (3, CM_CoolAndHoldForDuration),
      (4, CM_CoolAndHoldUntilManualStop)]"

section \<open>Writer\<close>

definition writeProgramIdentityAndFlags ::
  "ProgramDocument \<Rightarrow> u8 \<Rightarrow> u8 \<Rightarrow> u8 \<Rightarrow> writer" where
  "writeProgramIdentityAndFlags document sensor failure returnStrategy =
     (let p = doc_program document; version = psm_version (doc_schema document) in
      writeAll
        ([writeUint32 version, writeUint64 (psm_presentFields (doc_schema document)),
          writeString (stringBytes (pd_id p)), writeString (stringBytes (pd_name p)),
          writeString (stringBytes (pd_notes p)), writeBool (pd_builtIn p),
          writeBool (pd_factoryCatalogEntry p), writeBool (pd_resettable p),
          writeBool (pd_userDeletable p), writeBool (pd_installed p), writeBool (pd_enabled p),
          writeBool (pd_preheat p), writeUint8 sensor, writeUint8 failure,
          writeOptionalUint32 (psf_fallbackDelaySeconds (pd_productSensorFailure p))] @
         (if version \<ge> kReturnStrategyFieldIntroducedInSchema then [writeUint8 returnStrategy]
          else [])))"

definition writeStage :: "FermentationStage \<Rightarrow> writer" where
  "writeStage stage =
     writeAll [writeOptionalDouble (stg_targetTemperatureCelsius stage),
       writeOptionalUint32 (stg_durationMinutes stage)]"

definition writeProgramStagesAndLimits :: "ProgramDocument \<Rightarrow> writer" where
  "writeProgramStagesAndLimits document =
     (let p = doc_program document in
      writeAll
        (writeUint8 (of_nat (length (pd_fermentationStages p))) #
         map writeStage (pd_fermentationStages p) @
         [writeOptionalDouble (tql_bandCelsius (pd_targetQualification p)),
          writeOptionalUint32 (tql_durationMinutes (pd_targetQualification p)),
          writeOptionalUint32 (pd_maximumTargetReachMinutes p)] @
         (if psm_version (doc_schema document) \<ge> kProductWaitFieldIntroducedInSchema
          then [writeOptionalUint32 (pd_maximumProductWaitMinutes p)] else [])))"

definition writeProgram :: "ProgramDocument \<Rightarrow> writer" where
  "writeProgram document w =
     (let p = doc_program document in
      case (map_of sensorPreferenceToWireId (pd_sensorPreference p),
            map_of productSensorFailurePolicyToWireId (psf_policy (pd_productSensorFailure p)),
            map_of completionModeToWireId (pcp_mode (pd_completion p)),
            map_of returnStrategyToWireId (psf_returnStrategy (pd_productSensorFailure p))) of
        (Some sensor, Some failure, Some completion, Some returnStrategy) \<Rightarrow>
          if length (pd_fermentationStages p) > 255 then (False, w)
          else writeAll
            [writeProgramIdentityAndFlags document sensor failure returnStrategy,
             writeProgramStagesAndLimits document, writeUint8 completion,
             writeOptionalDouble (pcp_coolingTargetCelsius (pd_completion p)),
             writeOptionalUint32 (pcp_holdDurationMinutes (pd_completion p))] w
      | _ \<Rightarrow> (False, w))"

section \<open>Size of the payload\<close>

type_synonym sizing = "nat \<Rightarrow> ConfigurationCodecStatus + nat"

definition addSize :: "nat \<Rightarrow> sizing" where
  "addSize n sofar =
     (case checkedAddSize sofar n kMaximumProgramCatalogPayloadBytes of
        None \<Rightarrow> Inl CCS_CapacityExceeded | Some s \<Rightarrow> Inr s)"

fun addSizes :: "sizing list \<Rightarrow> sizing" where
  "addSizes [] sofar = Inr sofar"
| "addSizes (f # fs) sofar = (case f sofar of Inl st \<Rightarrow> Inl st | Inr s \<Rightarrow> addSizes fs s)"

definition addStringPayloadSize :: "bytes \<Rightarrow> sizing" where
  "addStringPayloadSize v sofar =
     (if length v > 65535 then Inl CCS_InvalidDocument
      else addSizes [addSize 2, addSize (length v)] sofar)"

definition addOptionalPayloadSize :: "bool \<Rightarrow> nat \<Rightarrow> sizing" where
  "addOptionalPayloadSize present valueBytes =
     addSizes (addSize 1 # (if present then [addSize valueBytes] else []))"

definition addProgramIdentityAndFlagsPayloadSize :: "ProgramDocument \<Rightarrow> sizing" where
  "addProgramIdentityAndFlagsPayloadSize document =
     (let p = doc_program document in
      addSizes
        ([addSize 4, addSize 8, addStringPayloadSize (stringBytes (pd_id p)),
          addStringPayloadSize (stringBytes (pd_name p)),
          addStringPayloadSize (stringBytes (pd_notes p)), addSize 7, addSize 2,
          addOptionalPayloadSize
            (psf_fallbackDelaySeconds (pd_productSensorFailure p) \<noteq> None) 4] @
         (if psm_version (doc_schema document) \<ge> kReturnStrategyFieldIntroducedInSchema
          then [addSize 1] else [])))"

definition addStagePayloadSize :: "FermentationStage \<Rightarrow> sizing" where
  "addStagePayloadSize stage =
     addSizes [addOptionalPayloadSize (stg_targetTemperatureCelsius stage \<noteq> None) 8,
       addOptionalPayloadSize (stg_durationMinutes stage \<noteq> None) 4]"

definition addProgramStagesAndLimitsPayloadSize :: "ProgramDocument \<Rightarrow> sizing" where
  "addProgramStagesAndLimitsPayloadSize document sofar =
     (let p = doc_program document in
      if length (pd_fermentationStages p) > 255 then Inl CCS_InvalidDocument
      else addSizes
        (addSize 1 # map addStagePayloadSize (pd_fermentationStages p) @
         [addOptionalPayloadSize (tql_bandCelsius (pd_targetQualification p) \<noteq> None) 8,
          addOptionalPayloadSize (tql_durationMinutes (pd_targetQualification p) \<noteq> None) 4,
          addOptionalPayloadSize (pd_maximumTargetReachMinutes p \<noteq> None) 4] @
         (if psm_version (doc_schema document) \<ge> kProductWaitFieldIntroducedInSchema
          then [addOptionalPayloadSize (pd_maximumProductWaitMinutes p \<noteq> None) 4] else [])) sofar)"

definition addProgramPayloadSize :: "ProgramDocument \<Rightarrow> sizing" where
  "addProgramPayloadSize document sofar =
     (let p = doc_program document in
      if map_of sensorPreferenceToWireId (pd_sensorPreference p) = None \<or>
         map_of productSensorFailurePolicyToWireId (psf_policy (pd_productSensorFailure p)) = None \<or>
         map_of completionModeToWireId (pcp_mode (pd_completion p)) = None \<or>
         map_of returnStrategyToWireId (psf_returnStrategy (pd_productSensorFailure p)) = None
      then Inl CCS_InvalidDocument
      else addSizes
        [addProgramIdentityAndFlagsPayloadSize document, addProgramStagesAndLimitsPayloadSize document,
         addSize 1, addOptionalPayloadSize (pcp_coolingTargetCelsius (pd_completion p) \<noteq> None) 8,
         addOptionalPayloadSize (pcp_holdDurationMinutes (pd_completion p) \<noteq> None) 4] sofar)"

text \<open>Every failure of the sizing is reported as an exceeded capacity.\<close>

definition encodeSingleProgramDocumentPayload ::
  "ProgramDocument \<Rightarrow> ConfigurationCodecStatus + bytes" where
  "encodeSingleProgramDocumentPayload document =
     (if \<not> programIsValid document VP_Runnable then Inl CCS_InvalidDocument
      else case addProgramPayloadSize document 0 of
        Inl _ \<Rightarrow> Inl CCS_CapacityExceeded
      | Inr sofar \<Rightarrow>
          (case writeProgram document (newWriter sofar) of (ok, w) \<Rightarrow>
             if \<not> ok \<or> length (bw_buffer w) \<noteq> sofar then Inl CCS_CapacityExceeded
             else Inr (bw_buffer w)))"

section \<open>Reader\<close>

definition initialProgramDefinition :: ProgramDefinition where
  "initialProgramDefinition =
     \<lparr>pd_id = [], pd_name = [], pd_notes = [], pd_builtIn = False, pd_factoryCatalogEntry = False,
      pd_resettable = False, pd_userDeletable = True, pd_installed = True, pd_enabled = True,
      pd_preheat = False, pd_sensorPreference = SPref_AirProductOptional,
      pd_productSensorFailure = \<lparr>psf_policy = PFP_FallbackToAirAfterTimeout, psf_fallbackDelaySeconds = None,
        psf_returnStrategy = RSt_ManualReturnToProduct\<rparr>,
      pd_fermentationStages = [],
      pd_targetQualification = \<lparr>tql_bandCelsius = None, tql_durationMinutes = None\<rparr>,
      pd_maximumTargetReachMinutes = None, pd_maximumProductWaitMinutes = None,
      pd_completion = \<lparr>pcp_mode = CM_FinishWithoutCooling, pcp_coolingTargetCelsius = None,
        pcp_holdDurationMinutes = None\<rparr>\<rparr>"

definition readProgramSchema :: "ProgramSchemaMetadata read" where
  "readProgramSchema =
     readThen readUint32 (\<lambda>version. readThen readUint64 (\<lambda>fields.
       readReturn \<lparr>psm_version = version, psm_presentFields = fields\<rparr>))"

text \<open>The fields of a schema must be present, and no others.\<close>

definition programSchemaStatus :: "ProgramSchemaMetadata \<Rightarrow> ConfigurationCodecStatus" where
  "programSchemaStatus schema =
     (let judge = (\<lambda>knownFields requiredFields.
            if psm_presentFields schema AND NOT knownFields \<noteq> 0 \<or>
               psm_presentFields schema AND requiredFields \<noteq> requiredFields
            then CCS_InvalidWireValue else CCS_Success) in
      if psm_version schema = kMinimumMigratableProgramSchemaVersion then
        judge kSchema4RequiredProgramFields kSchema4RequiredProgramFields
      else if psm_version schema = kProductWaitFieldIntroducedInSchema then
        judge kSchema5RequiredProgramFields kSchema5RequiredProgramFields
      else if psm_version schema = kCurrentProgramSchemaVersion then
        judge kCurrentKnownProgramFields kCurrentRequiredProgramFields
      else CCS_UnsupportedSchema)"

definition readProgramTexts :: "ProgramDefinition \<Rightarrow> ProgramDefinition read" where
  "readProgramTexts p =
     readThen (readString kMaximumProgramIdBytes) (\<lambda>i.
     readThen (readString kMaximumVisibleNameBytes) (\<lambda>nm.
     readThen (readString kMaximumNotesBytes) (\<lambda>notes.
       readReturn (p\<lparr>pd_id := bytesString i, pd_name := bytesString nm,
         pd_notes := bytesString notes\<rparr>))))"

definition readProgramFlags :: "u32 \<Rightarrow> ProgramDefinition \<Rightarrow> ProgramDefinition read" where
  "readProgramFlags schemaVersion p =
     readThen readBool (\<lambda>builtIn. readThen readBool (\<lambda>factoryCatalogEntry.
     readThen readBool (\<lambda>resettable. readThen readBool (\<lambda>userDeletable.
     readThen readBool (\<lambda>installed. readThen readBool (\<lambda>enabled. readThen readBool (\<lambda>preheat.
     readThen (readEnum sensorPreferenceFromWireId) (\<lambda>sensor.
     readThen (readEnum productSensorFailurePolicyFromWireId) (\<lambda>policy.
     readThen readOptionalUint32 (\<lambda>delay.
     readThen (if schemaVersion \<ge> kReturnStrategyFieldIntroducedInSchema
       then readEnum returnStrategyFromWireId
       else readReturn (psf_returnStrategy (pd_productSensorFailure p))) (\<lambda>returnStrategy.
       readReturn (p\<lparr>pd_builtIn := builtIn, pd_factoryCatalogEntry := factoryCatalogEntry,
         pd_resettable := resettable, pd_userDeletable := userDeletable, pd_installed := installed,
         pd_enabled := enabled, pd_preheat := preheat, pd_sensorPreference := sensor,
         pd_productSensorFailure := \<lparr>psf_policy = policy, psf_fallbackDelaySeconds = delay,
           psf_returnStrategy = returnStrategy\<rparr>\<rparr>))))))))))))"

definition readStage :: "FermentationStage read" where
  "readStage =
     readThen readOptionalDouble (\<lambda>target. readThen readOptionalUint32 (\<lambda>duration.
       readReturn \<lparr>stg_targetTemperatureCelsius = target, stg_durationMinutes = duration\<rparr>))"

text \<open>Only one stage is allowed, so the loop over the stages runs once.\<close>

definition readProgramLimitsAndCompletion :: "u32 \<Rightarrow> ProgramDefinition \<Rightarrow> ProgramDefinition read" where
  "readProgramLimitsAndCompletion schemaVersion p =
     readThen readOptionalDouble (\<lambda>band. readThen readOptionalUint32 (\<lambda>duration.
     readThen readOptionalUint32 (\<lambda>reach.
     readThen (if schemaVersion \<ge> kProductWaitFieldIntroducedInSchema then readOptionalUint32
       else readReturn (pd_maximumProductWaitMinutes p)) (\<lambda>wait.
     readThen (readEnum completionModeFromWireId) (\<lambda>mode.
     readThen readOptionalDouble (\<lambda>cooling. readThen readOptionalUint32 (\<lambda>hold.
       readReturn (p\<lparr>pd_targetQualification := \<lparr>tql_bandCelsius = band,
           tql_durationMinutes = duration\<rparr>,
         pd_maximumTargetReachMinutes := reach, pd_maximumProductWaitMinutes := wait,
         pd_completion := \<lparr>pcp_mode = mode, pcp_coolingTargetCelsius = cooling,
           pcp_holdDurationMinutes = hold\<rparr>\<rparr>))))))))"

definition readProgram :: "(ConfigurationCodecStatus, ProgramDocument) parser" where
  "readProgram =
     orFail CCS_Truncated readProgramSchema (\<lambda>schema.
       if programSchemaStatus schema \<noteq> CCS_Success then parseFail (programSchemaStatus schema)
       else
         orFail CCS_Truncated (readProgramTexts initialProgramDefinition) (\<lambda>p.
         orFail CCS_InvalidWireValue (readProgramFlags (psm_version schema) p) (\<lambda>p.
         orFail CCS_InvalidWireValue (readCheck (\<lambda>n. n = 1) readUint8) (\<lambda>stageCount.
         orFail CCS_Truncated readStage (\<lambda>stage.
         orFail CCS_Truncated (readProgramLimitsAndCompletion (psm_version schema)
             (p\<lparr>pd_fermentationStages := pd_fermentationStages p @ [stage]\<rparr>)) (\<lambda>p.
           (let candidate = \<lparr>doc_schema = schema, doc_program = p\<rparr> in
            if psm_version schema < kCurrentProgramSchemaVersion then
              (case migrateProgramToCurrentSchemaInto candidate of (st, migrated) \<Rightarrow>
                 if st \<noteq> MGS_Migrated then parseFail CCS_MigrationFailed else parseReturn migrated)
            else parseReturn candidate)))))))"

definition decodeSingleProgramDocumentPayload :: "bytes \<Rightarrow> ConfigurationCodecStatus + ProgramDocument" where
  "decodeSingleProgramDocumentPayload payload =
     (if length payload > kMaximumProgramCatalogPayloadBytes then Inl CCS_CapacityExceeded
      else case readProgram (newReader payload) of
        Inl st \<Rightarrow> Inl st
      | Inr (candidate, r) \<Rightarrow>
          if remaining r \<noteq> 0 then Inl CCS_TrailingBytes else Inr candidate)"

section \<open>Round trip\<close>

text \<open>Texts that the reader accepts, and optional values that are doubles, as every \<open>double\<close> of the
  program is.\<close>

definition readableTexts :: "ProgramDefinition \<Rightarrow> bool" where
  "readableTexts p \<longleftrightarrow> length (pd_id p) \<le> kMaximumProgramIdBytes \<and>
     length (pd_name p) \<le> kMaximumVisibleNameBytes \<and> length (pd_notes p) \<le> kMaximumNotesBytes"

definition doublesOfProgram :: "ProgramDefinition \<Rightarrow> bool" where
  "doublesOfProgram p \<longleftrightarrow>
     (\<forall>stage\<in>set (pd_fermentationStages p). pred_option isDouble (stg_targetTemperatureCelsius stage)) \<and>
     pred_option isDouble (tql_bandCelsius (pd_targetQualification p)) \<and>
     pred_option isDouble (pcp_coolingTargetCelsius (pd_completion p))"

lemma wire_tables:
  "map_of sensorPreferenceToWireId a = Some i \<Longrightarrow> map_of sensorPreferenceFromWireId i = Some a"
  "map_of productSensorFailurePolicyToWireId b = Some i \<Longrightarrow>
     map_of productSensorFailurePolicyFromWireId i = Some b"
  "map_of returnStrategyToWireId c = Some i \<Longrightarrow> map_of returnStrategyFromWireId i = Some c"
  "map_of completionModeToWireId d = Some i \<Longrightarrow> map_of completionModeFromWireId i = Some d"
  by (auto simp: sensorPreferenceToWireId_def sensorPreferenceFromWireId_def
      productSensorFailurePolicyToWireId_def productSensorFailurePolicyFromWireId_def
      returnStrategyToWireId_def returnStrategyFromWireId_def completionModeToWireId_def
      completionModeFromWireId_def split: if_splits)

lemma codes_stage [codes_intros]:
  "pred_option isDouble (stg_targetTemperatureCelsius s) \<Longrightarrow> codes (writeStage s) readStage s"
  unfolding writeStage_def readStage_def by (rule codes_intros | simp)+

lemmas program_equalities =
  ProgramDocument.equality ProgramSchemaMetadata.equality ProgramDefinition.equality
  ProductSensorFailure.equality TargetQualification.equality
  ProgramCompletion.equality

lemma decodes_program:
  assumes "programSchemaStatus (doc_schema d) = CCS_Success"
    and v: "psm_version (doc_schema d) = kCurrentProgramSchemaVersion"
    and stages: "pd_fermentationStages (doc_program d) = [stage]"
    and t: "readableTexts (doc_program d)" and dbl: "doublesOfProgram (doc_program d)"
  shows "decodes (writeProgram d) readProgram d"
proof (cases "map_of sensorPreferenceToWireId (pd_sensorPreference (doc_program d)) = None \<or>
    map_of productSensorFailurePolicyToWireId (psf_policy (pd_productSensorFailure (doc_program d))) = None \<or>
    map_of completionModeToWireId (pcp_mode (pd_completion (doc_program d))) = None \<or>
    map_of returnStrategyToWireId (psf_returnStrategy (pd_productSensorFailure (doc_program d))) = None")
  case True
  then have "\<not> fst (writeProgram d w)" for w
    by (auto simp: writeProgram_def Let_def split: option.split)
  then show ?thesis by (simp add: decodes_def)
next
  case False
  then obtain sensor failure completion ret where w:
    "map_of sensorPreferenceToWireId (pd_sensorPreference (doc_program d)) = Some sensor"
    "map_of productSensorFailurePolicyToWireId (psf_policy (pd_productSensorFailure (doc_program d))) = Some failure"
    "map_of completionModeToWireId (pcp_mode (pd_completion (doc_program d))) = Some completion"
    "map_of returnStrategyToWireId (psf_returnStrategy (pd_productSensorFailure (doc_program d))) = Some ret"
    by auto
  have wr: "writeProgram d = writeAll
      [writeProgramIdentityAndFlags d sensor failure ret, writeProgramStagesAndLimits d,
       writeUint8 completion, writeOptionalDouble (pcp_coolingTargetCelsius (pd_completion (doc_program d))),
       writeOptionalUint32 (pcp_holdDurationMinutes (pd_completion (doc_program d)))]"
    by (rule ext) (simp add: writeProgram_def Let_def w stages)
  have versions: "kReturnStrategyFieldIntroducedInSchema \<le> kCurrentProgramSchemaVersion"
    "kProductWaitFieldIntroducedInSchema \<le> kCurrentProgramSchemaVersion"
    by (simp_all add: kReturnStrategyFieldIntroducedInSchema_def
        kProductWaitFieldIntroducedInSchema_def kCurrentProgramSchemaVersion_def)
  have ids: "codes (writeUint8 sensor) (readEnum sensorPreferenceFromWireId)
      (pd_sensorPreference (doc_program d))"
    "codes (writeUint8 failure) (readEnum productSensorFailurePolicyFromWireId)
      (psf_policy (pd_productSensorFailure (doc_program d)))"
    "codes (writeUint8 completion) (readEnum completionModeFromWireId)
      (pcp_mode (pd_completion (doc_program d)))"
    "codes (writeUint8 ret) (readEnum returnStrategyFromWireId)
      (psf_returnStrategy (pd_productSensorFailure (doc_program d)))"
    by (rule codes_wire_id [OF w(1) wire_tables(1) [OF w(1)]]
        codes_wire_id [OF w(2) wire_tables(2) [OF w(2)]]
        codes_wire_id [OF w(3) wire_tables(4) [OF w(3)]]
        codes_wire_id [OF w(4) wire_tables(3) [OF w(4)]])+
  have st: "programSchemaStatus \<lparr>psm_version = kCurrentProgramSchemaVersion,
      psm_presentFields = psm_presentFields (doc_schema d)\<rparr> = CCS_Success"
  proof -
    have "doc_schema d = \<lparr>psm_version = kCurrentProgramSchemaVersion,
        psm_presentFields = psm_presentFields (doc_schema d)\<rparr>" using v by simp
    with assms(1) show ?thesis by simp
  qed
  have texts: "length (pd_id (doc_program d)) \<le> kMaximumProgramIdBytes"
    "length (pd_name (doc_program d)) \<le> kMaximumVisibleNameBytes"
    "length (pd_notes (doc_program d)) \<le> kMaximumNotesBytes"
    using t by (simp_all add: readableTexts_def)
  have doubles: "pred_option isDouble (stg_targetTemperatureCelsius stage)"
    "pred_option isDouble (tql_bandCelsius (pd_targetQualification (doc_program d)))"
    "pred_option isDouble (pcp_coolingTargetCelsius (pd_completion (doc_program d)))"
    using dbl by (simp_all add: doublesOfProgram_def stages)
  show ?thesis
    unfolding wr readProgram_def writeProgramIdentityAndFlags_def writeProgramStagesAndLimits_def Let_def
      v readProgramSchema_def readProgramTexts_def readProgramFlags_def
      readProgramLimitsAndCompletion_def
    apply (simp only: append_Cons append_Nil append_assoc list.map stages list.size
        versions if_True orFail_then orFail_return)
    by (rule decodes_nest decodes_seq decodes_ret ids codes_intros doubles program_equalities
        | simp add: st versions texts stages v initialProgramDefinition_def)+
qed

end
