(* ===== verification/RunPersistenceContract.thy ===== *)
theory RunPersistenceContract
  imports RunCommandActions
begin

text \<open>
  What is stored of a run (\<open>run_persistence_contract.cpp\<close>): the projection of the command state that a
  checkpoint keeps, its validation, and the restoration of a command state from it. The arrays of the
  revisions and of the persisted command ids are lists, with the number of their elements in use.
\<close>

section \<open>Types\<close>

definition kMaximumPersistedRunCommandIds :: nat where "kMaximumPersistedRunCommandIds = 32"

definition kMaximumRunPersistencePayloadBytes :: nat where "kMaximumRunPersistencePayloadBytes = 8192"

definition kDefaultRunCheckpointIntervalMinutes :: u16 where "kDefaultRunCheckpointIntervalMinutes = 5"

definition kMinimumRunCheckpointIntervalMinutes :: u16 where "kMinimumRunCheckpointIntervalMinutes = 1"

definition kMaximumRunCheckpointIntervalMinutes :: u16 where "kMaximumRunCheckpointIntervalMinutes = 60"

definition kCurrentRunPersistenceSchema :: u32 where "kCurrentRunPersistenceSchema = 6"

definition kActiveFaultIntroducedInSchema :: u32 where "kActiveFaultIntroducedInSchema = 3"

datatype RunCheckpointVariant = RCV_ProgramRun | RCV_ManualRun | RCV_NoActiveRun

record RunCheckpointTime =
  rct_monotonicMillis :: u64
  rct_utcUnixSeconds :: "64 word option"

record RunPersistenceSnapshot =
  rsn_variant :: RunCheckpointVariant
  rsn_trigger :: RunCheckpointTrigger
  rsn_checkpointMonotonicMillis :: u64
  rsn_intervalMinutes :: u16
  rsn_activeRunId :: string
  rsn_activeRunSensorMode :: "RunSensorMode option"
  rsn_sensorSelection :: "PersistedSensorSelectionState option"
  rsn_program :: "RunProgramSnapshot option"
  rsn_revisions :: "RunRevision list"
  rsn_revisionCount :: nat
  rsn_manual :: "ManualRunPlan option"
  rsn_processRunSnapshot :: "ProcessRunSnapshot option"
  rsn_actuatorPlannerParametersSnapshot :: "ActuatorPlannerParameters option"
  rsn_processState :: ProcessRuntimeState
  rsn_runRevision :: u32
  rsn_persistedRunCommandIds :: "u64 list"
  rsn_persistedRunCommandCount :: nat
  rsn_pendingRecoveryAnchor :: "PendingRecoveryAnchor option"
  rsn_recoveryBootAnchorMonotonicMillis :: "u64 option"
  rsn_recoveryTemperatureEvidence :: RecoveryTemperatureEvidence
  rsn_lastRecoveryEpisodeEvidence :: "RecoveryEpisodeEvidence option"
  rsn_priorBootPhaseElapsed :: "TaggedPriorBootPhaseElapsed option"
  rsn_nominalRecoveryAdjustment :: "NominalRecoveryAdjustmentState option"
  rsn_recoveryEpisodeRevision :: u32
  rsn_runProgress :: RunProgressState

section \<open>Validation\<close>

definition knownRunPersistenceSchema :: "u32 \<Rightarrow> bool" where
  "knownRunPersistenceSchema schemaVersion \<longleftrightarrow>
     schemaVersion = 1 \<or> schemaVersion = 2 \<or> schemaVersion = 3 \<or> schemaVersion = 4 \<or>
     schemaVersion = 5 \<or> schemaVersion = kCurrentRunPersistenceSchema"

definition isPersistedRunCommand :: "CommandKind \<Rightarrow> bool" where
  "isPersistedRunCommand k =
     (case k of
        CK_StartProgram \<Rightarrow> True | CK_StartManualHolding \<Rightarrow> True | CK_AbortAndTurnOff \<Rightarrow> True
      | CK_AbortAndCool \<Rightarrow> True | CK_AcknowledgeCompletion \<Rightarrow> True | CK_CoolAfterCompletion \<Rightarrow> True
      | CK_AdjustRun \<Rightarrow> True | CK_ApplyRecoveryTimeCorrection \<Rightarrow> True
      | CK_ApplySensorSelectionAction \<Rightarrow> True
      | CK_AcknowledgeMessage \<Rightarrow> False | CK_MuteMessage \<Rightarrow> False)"

definition validStateFor :: "RunCheckpointVariant \<Rightarrow> ProcessState \<Rightarrow> bool" where
  "validStateFor variant st =
     (case variant of
        RCV_ProgramRun \<Rightarrow>
          (case st of
             PS_Preheating \<Rightarrow> True | PS_WaitingForProduct \<Rightarrow> True | PS_ReachingTarget \<Rightarrow> True
           | PS_QualifyingTarget \<Rightarrow> True | PS_Fermenting \<Rightarrow> True | PS_Cooling \<Rightarrow> True
           | PS_CoolHolding \<Rightarrow> True | PS_Completed \<Rightarrow> True | PS_Fault \<Rightarrow> True
           | PS_RecoveryEvaluation \<Rightarrow> True | _ \<Rightarrow> False)
      | RCV_ManualRun \<Rightarrow>
          (case st of
             PS_Preheating \<Rightarrow> True | PS_WaitingForProduct \<Rightarrow> True | PS_ReachingTarget \<Rightarrow> True
           | PS_QualifyingTarget \<Rightarrow> True | PS_ManualHolding \<Rightarrow> True | PS_Completed \<Rightarrow> True
           | PS_Fault \<Rightarrow> True | PS_RecoveryEvaluation \<Rightarrow> True | _ \<Rightarrow> False)
      | RCV_NoActiveRun \<Rightarrow> st = PS_Standby)"

text \<open>No id is zero and none is there twice: the two loops over the ids in use.\<close>

definition validIds :: "RunPersistenceSnapshot \<Rightarrow> bool" where
  "validIds s \<longleftrightarrow>
     \<not> rsn_persistedRunCommandCount s > kMaximumPersistedRunCommandIds \<and>
     0 \<notin> set (take (rsn_persistedRunCommandCount s) (rsn_persistedRunCommandIds s)) \<and>
     distinct (take (rsn_persistedRunCommandCount s) (rsn_persistedRunCommandIds s))"

definition validSensorSelectionCrossFields ::
  "PersistedSensorSelectionState \<Rightarrow> RunSensorMode \<Rightarrow> u32 \<Rightarrow> bool" where
  "validSensorSelectionCrossFields persisted activeMode runRevision =
     (if (per_lastDecisionCause persisted = SDC_None) \<noteq> (per_lastDecisionRunRevision persisted = 0)
      then False
      else if per_lastDecisionRunRevision persisted > runRevision then False
      else if per_provenance persisted = SPV_FallbackActive \<and> activeMode \<noteq> RSM_Air then False
      else if per_provenance persisted = SPV_ReturnedToProduct \<and> activeMode \<noteq> RSM_Product then False
      else True)"

definition noActiveRunHasNoRecoveryFields :: "RunPersistenceSnapshot \<Rightarrow> bool" where
  "noActiveRunHasNoRecoveryFields s \<longleftrightarrow>
     rsn_pendingRecoveryAnchor s = None \<and> rsn_recoveryBootAnchorMonotonicMillis s = None \<and>
     rsn_lastRecoveryEpisodeEvidence s = None \<and> rsn_priorBootPhaseElapsed s = None \<and>
     rsn_nominalRecoveryAdjustment s = None \<and> rpg_weightedProgress (rsn_runProgress s) = None"

definition validPendingRecoveryAnchorContext :: "RunPersistenceSnapshot \<Rightarrow> bool" where
  "validPendingRecoveryAnchorContext s =
     (let st = rt_state (rsn_processState s) in
      if st = PS_RecoveryEvaluation then
        (case rsn_pendingRecoveryAnchor s of
           None \<Rightarrow> False
         | Some anchor \<Rightarrow>
             if rsn_recoveryBootAnchorMonotonicMillis s = None then False
             else stateUsesRunSnapshot (rt_state (pra_originalProcessState anchor)) \<and>
               (case rsn_processRunSnapshot s of None \<Rightarrow> False
                | Some snapshot \<Rightarrow>
                    stateMatchesRunSnapshot (rt_state (pra_originalProcessState anchor)) snapshot))
      else if rsn_pendingRecoveryAnchor s = None then True
      else if st \<noteq> PS_WaitingForProduct \<and> st \<noteq> PS_Fermenting \<and> st \<noteq> PS_CoolHolding then False
      else rsn_recoveryBootAnchorMonotonicMillis s \<noteq> None \<and>
        (case rsn_priorBootPhaseElapsed s of None \<Rightarrow> False
         | Some prior \<Rightarrow> tpe_taggedState prior = st \<and>
             prior_upperBoundSeconds (tpe_elapsed prior) = None))"

definition validPriorBootPhaseElapsedBounds :: "PriorBootPhaseElapsed \<Rightarrow> bool" where
  "validPriorBootPhaseElapsedBounds prior =
     (case prior_upperBoundSeconds prior of None \<Rightarrow> True
      | Some upper \<Rightarrow> upper \<ge> prior_lowerBoundSeconds prior)"

definition validFirstAfterRestartRoleEvidence :: "RoleTemperatureEvidence option \<Rightarrow> bool" where
  "validFirstAfterRestartRoleEvidence role =
     (case role of None \<Rightarrow> True
      | Some e \<Rightarrow> rte_quality e = SQ_Valid \<and> rte_filteredCelsius e \<noteq> None)"

definition validFirstAfterRestartEvidence :: "FirstAfterRestartEvidence \<Rightarrow> bool" where
  "validFirstAfterRestartEvidence e \<longleftrightarrow>
     validFirstAfterRestartRoleEvidence (far_air e) \<and>
     validFirstAfterRestartRoleEvidence (far_product e) \<and>
     validFirstAfterRestartRoleEvidence (far_cooling e)"

definition validPriorBootPhaseElapsedTag :: "RunPersistenceSnapshot \<Rightarrow> bool" where
  "validPriorBootPhaseElapsedTag s =
     (case rsn_priorBootPhaseElapsed s of
        None \<Rightarrow> True
      | Some prior \<Rightarrow>
          if rt_state (rsn_processState s) \<noteq> PS_RecoveryEvaluation then
            tpe_taggedState prior = rt_state (rsn_processState s)
          else (case rsn_pendingRecoveryAnchor s of None \<Rightarrow> False
            | Some anchor \<Rightarrow> tpe_taggedState prior = rt_state (pra_originalProcessState anchor)))"

definition validWeightedProgressRoleConfidence :: "WeightedProgressProvenance \<Rightarrow> bool" where
  "validWeightedProgressRoleConfidence p =
     (case wpp_lastSourceRole p of
        RSM_Product \<Rightarrow> wpp_confidence p = WPC_ProductPreferred \<or> wpp_confidence p = WPC_AirReduced
      | RSM_Air \<Rightarrow> wpp_confidence p = WPC_AirReduced
      | RSM_other _ \<Rightarrow> False)"

definition validWeightedProgressState :: "WeightedProgressState \<Rightarrow> bool" where
  "validWeightedProgressState weighted =
     (if (case wps_lastApplied weighted of None \<Rightarrow> False
          | Some p \<Rightarrow> wpp_modelRevision p = 0 \<or> wpp_lastAppliedSegmentId p = 0 \<or>
              \<not> validWeightedProgressRoleConfidence p)
      then False
      else (case wps_coverage weighted of
        WPV_Complete \<Rightarrow> wps_lastApplied weighted \<noteq> None \<and>
          (case wpb_upperBoundSeconds (wps_cumulative weighted) of None \<Rightarrow> False
           | Some upper \<Rightarrow> upper \<ge> wpb_lowerBoundSeconds (wps_cumulative weighted))
      | WPV_PartialUnknown \<Rightarrow> wpb_upperBoundSeconds (wps_cumulative weighted) = None \<and>
          (wps_lastApplied weighted \<noteq> None \<or> wpb_lowerBoundSeconds (wps_cumulative weighted) = 0)))"

definition validRecoveryFieldsForSnapshot :: "RunPersistenceSnapshot \<Rightarrow> bool" where
  "validRecoveryFieldsForSnapshot s =
     (if rsn_variant s = RCV_NoActiveRun then noActiveRunHasNoRecoveryFields s
      else if \<not> validPendingRecoveryAnchorContext s \<or> \<not> validPriorBootPhaseElapsedTag s then False
      else if (case rsn_pendingRecoveryAnchor s of None \<Rightarrow> False
           | Some anchor \<Rightarrow> \<not> validPriorBootPhaseElapsedBounds (pra_accumulatedBeforeEpisode anchor))
        then False
      else if (case rsn_priorBootPhaseElapsed s of None \<Rightarrow> False
           | Some prior \<Rightarrow> \<not> validPriorBootPhaseElapsedBounds (tpe_elapsed prior)) then False
      else if (case rsn_lastRecoveryEpisodeEvidence s of None \<Rightarrow> False
           | Some e \<Rightarrow> ree_weightedProgressSegmentId e = Some 0 \<or>
               \<not> validFirstAfterRestartEvidence (ree_firstAfterRestart e)) then False
      else (case rpg_weightedProgress (rsn_runProgress s) of None \<Rightarrow> True
        | Some weighted \<Rightarrow> validWeightedProgressState weighted))"

definition validProgramPart :: "RunPersistenceSnapshot \<Rightarrow> ProcessRunSnapshot \<Rightarrow> bool" where
  "validProgramPart s processRunSnapshot =
     (case rsn_program s of
        None \<Rightarrow> False
      | Some p \<Rightarrow>
          if rsn_manual s \<noteq> None \<or> rsn_revisionCount s > kMaximumRunRevisions \<or>
             snap_kind processRunSnapshot \<noteq> PK_Timed then False
          else (case validateRunProgramSnapshotInto p (rsn_revisions s) (rsn_revisionCount s) of
            None \<Rightarrow> False
          | Some effectiveValues \<Rightarrow>
              (case makeProcessRunSnapshot p effectiveValues of
                 None \<Rightarrow> False
               | Some expectedProcess \<Rightarrow>
                   validateProcessRuntimeForCheckpoint (rsn_processState s) (Some processRunSnapshot)
                     (rsn_checkpointMonotonicMillis s) \<and>
                   equalProcessRunSnapshot expectedProcess processRunSnapshot)))"

definition validManualPart :: "RunPersistenceSnapshot \<Rightarrow> ProcessRunSnapshot \<Rightarrow> RunSensorMode \<Rightarrow> bool" where
  "validManualPart s processRunSnapshot activeMode =
     (case rsn_manual s of
        None \<Rightarrow> False
      | Some plan \<Rightarrow>
          (case makeManualProcessSnapshot plan of
             None \<Rightarrow> False
           | Some expectedProcess \<Rightarrow>
               rsn_program s = None \<and> rsn_revisionCount s = 0 \<and>
               snap_kind processRunSnapshot = PK_ManualHolding \<and>
               mpr_runId (mpl_values plan) = rsn_activeRunId s \<and>
               mpr_sensorMode (mpl_values plan) = activeMode \<and> validateManualRunPlan plan \<and>
               equalProcessRunSnapshot expectedProcess processRunSnapshot \<and>
               validateProcessRuntimeForCheckpoint (rsn_processState s) (Some processRunSnapshot)
                 (rsn_checkpointMonotonicMillis s)))"

definition validActivePart :: "RunPersistenceSnapshot \<Rightarrow> bool" where
  "validActivePart s =
     (case (rsn_activeRunSensorMode s, rsn_processRunSnapshot s, rsn_sensorSelection s) of
        (Some mode, Some processRunSnapshot, Some selection) \<Rightarrow>
          if \<not> validRunId (rsn_activeRunId s) \<or>
             \<not> validSensorSelectionCrossFields selection mode (rsn_runRevision s) \<or>
             \<not> validRecoveryFieldsForSnapshot s then False
          else if (case rsn_actuatorPlannerParametersSnapshot s of None \<Rightarrow> False
               | Some p \<Rightarrow> classifyActuatorPlannerParameters p \<noteq> APV_Valid) then False
          else if rsn_variant s = RCV_ProgramRun then validProgramPart s processRunSnapshot
          else validManualPart s processRunSnapshot mode
      | _ \<Rightarrow> False)"

definition validateRunPersistenceSnapshot :: "RunPersistenceSnapshot \<Rightarrow> bool" where
  "validateRunPersistenceSnapshot s =
     (if rsn_intervalMinutes s < kMinimumRunCheckpointIntervalMinutes \<or>
         rsn_intervalMinutes s > kMaximumRunCheckpointIntervalMinutes \<or>
         \<not> validIds s \<or> \<not> validStateFor (rsn_variant s) (rt_state (rsn_processState s)) then False
      else if rsn_variant s = RCV_NoActiveRun then
        rsn_activeRunId s = [] \<and> rsn_activeRunSensorMode s = None \<and> rsn_sensorSelection s = None \<and>
        rsn_program s = None \<and> rsn_revisionCount s = 0 \<and> rsn_manual s = None \<and>
        rsn_processRunSnapshot s = None \<and> rsn_actuatorPlannerParametersSnapshot s = None \<and>
        validRecoveryFieldsForSnapshot s \<and>
        validateProcessRuntimeForCheckpoint (rsn_processState s) None (rsn_checkpointMonotonicMillis s)
      else validActivePart s)"

definition validateRunPersistenceSnapshotForSchema :: "RunPersistenceSnapshot \<Rightarrow> u32 \<Rightarrow> bool" where
  "validateRunPersistenceSnapshotForSchema s schemaVersion =
     (if \<not> knownRunPersistenceSchema schemaVersion then False
      else if schemaVersion < 5 \<and> map_option rps_sourceKind (rsn_program s) = Some PSK_ManualTimed
        then False
      else if schemaVersion < kActiveFaultIntroducedInSchema \<and> rsn_variant s \<noteq> RCV_NoActiveRun \<and>
         rt_state (rsn_processState s) = PS_Fault then False
      else validateRunPersistenceSnapshot s)"

section \<open>Projection and restoration\<close>

definition makeRunPersistenceSnapshot ::
  "RunCommandState \<Rightarrow> u64 list \<Rightarrow> nat \<Rightarrow> RunCheckpointTrigger \<Rightarrow> RunCheckpointTime \<Rightarrow> u16 \<Rightarrow>
     RunPersistenceSnapshot option" where
  "makeRunPersistenceSnapshot st ids idCount trigger time intervalMinutes =
     (let hasProgram = rcs_activeProgramRun st \<noteq> None; hasManual = rcs_activeManualRun st \<noteq> None;
          active = (hasProgram \<or> hasManual) in
      if hasProgram \<and> hasManual then None
      else if \<not> hasProgram \<and> \<not> hasManual \<and>
         (rcs_activeRunId st \<noteq> [] \<or> rcs_activeRunSensorMode st \<noteq> None \<or>
          rcs_processRunSnapshot st \<noteq> None) then None
      else if active \<and> rcs_sensorSelection st = None then None
      else
        (let s =
           \<lparr>rsn_variant = (if hasProgram then RCV_ProgramRun
              else if hasManual then RCV_ManualRun else RCV_NoActiveRun),
            rsn_trigger = trigger, rsn_checkpointMonotonicMillis = rct_monotonicMillis time,
            rsn_intervalMinutes = intervalMinutes,
            rsn_activeRunId = (if active then rcs_activeRunId st else []),
            rsn_activeRunSensorMode = (if active then rcs_activeRunSensorMode st else None),
            rsn_sensorSelection = (if active then rcs_sensorSelection st else None),
            rsn_program = map_option arn_snapshot (rcs_activeProgramRun st),
            rsn_revisions = (case rcs_activeProgramRun st of None \<Rightarrow> [] | Some run \<Rightarrow> arn_revisions run),
            rsn_revisionCount =
              (case rcs_activeProgramRun st of None \<Rightarrow> 0 | Some run \<Rightarrow> arn_revisionCount run),
            rsn_manual = rcs_activeManualRun st,
            rsn_processRunSnapshot = (if active then rcs_processRunSnapshot st else None),
            rsn_actuatorPlannerParametersSnapshot =
              (if active then rcs_actuatorPlannerParametersSnapshot st else None),
            rsn_processState = rcs_processState st, rsn_runRevision = rcs_runRevision st,
            rsn_persistedRunCommandIds = ids, rsn_persistedRunCommandCount = idCount,
            rsn_pendingRecoveryAnchor = (if active then rcs_pendingRecoveryAnchor st else None),
            rsn_recoveryBootAnchorMonotonicMillis =
              (if active then rcs_recoveryBootAnchorMonotonicMillis st else None),
            rsn_recoveryTemperatureEvidence = rcs_recoveryTemperatureEvidence st,
            rsn_lastRecoveryEpisodeEvidence =
              (if active then rcs_lastRecoveryEpisodeEvidence st else None),
            rsn_priorBootPhaseElapsed = (if active then rcs_priorBootPhaseElapsed st else None),
            rsn_nominalRecoveryAdjustment =
              (if active then rcs_nominalRecoveryAdjustment st else None),
            rsn_recoveryEpisodeRevision = rcs_recoveryEpisodeRevision st,
            rsn_runProgress = (if active then rcs_runProgress st else initialRunProgress)\<rparr> in
         if validateRunPersistenceSnapshot s then Some s else None))"

text \<open>The restoration writes the projection into a command state; messages, safety events and the
  window of the processed commands stay. The selection of a restored run waits for its revalidation.\<close>

definition restoredSelectionRuntime :: SensorSelectionRuntimeState where
  "restoredSelectionRuntime = initialSensorSelectionRuntime
     \<lparr>ssr_phase := SSP_RestartRevalidationPending, ssr_permission := SPP_Blocked\<rparr>"

definition restoreRunPersistenceSnapshotInto ::
  "RunPersistenceSnapshot \<Rightarrow> RunCommandState \<Rightarrow> RunCommandState option" where
  "restoreRunPersistenceSnapshotInto s destination =
     (if \<not> validateRunPersistenceSnapshot s then None
      else
        (let d = (clearActiveRunState destination)
               \<lparr>rcs_processState := rsn_processState s, rcs_runRevision := rsn_runRevision s,
                rcs_recoveryTemperatureEvidence := rsn_recoveryTemperatureEvidence s,
                rcs_recoveryEpisodeRevision := rsn_recoveryEpisodeRevision s\<rparr>;
             active = (\<lambda>d. d
               \<lparr>rcs_activeRunId := rsn_activeRunId s,
                rcs_activeRunSensorMode := rsn_activeRunSensorMode s,
                rcs_sensorSelection := rsn_sensorSelection s,
                rcs_processRunSnapshot := rsn_processRunSnapshot s,
                rcs_actuatorPlannerParametersSnapshot := rsn_actuatorPlannerParametersSnapshot s,
                rcs_pendingRecoveryAnchor := rsn_pendingRecoveryAnchor s,
                rcs_recoveryBootAnchorMonotonicMillis := rsn_recoveryBootAnchorMonotonicMillis s,
                rcs_lastRecoveryEpisodeEvidence := rsn_lastRecoveryEpisodeEvidence s,
                rcs_priorBootPhaseElapsed := rsn_priorBootPhaseElapsed s,
                rcs_nominalRecoveryAdjustment := rsn_nominalRecoveryAdjustment s,
                rcs_runProgress := rsn_runProgress s,
                rcs_sensorSelectionRuntime := restoredSelectionRuntime\<rparr>) in
         case rsn_variant s of
           RCV_ProgramRun \<Rightarrow>
             (case rsn_program s of
                None \<Rightarrow> None
              | Some p \<Rightarrow>
                  (case restoreRun p (rsn_revisions s) (rsn_revisionCount s) of
                     None \<Rightarrow> None
                   | Some run \<Rightarrow> Some (active (d\<lparr>rcs_activeProgramRun := Some run\<rparr>))))
         | RCV_ManualRun \<Rightarrow> Some (active (d\<lparr>rcs_activeManualRun := rsn_manual s\<rparr>))
         | RCV_NoActiveRun \<Rightarrow> Some d))"

definition restoreRunPersistenceSnapshot :: "RunPersistenceSnapshot \<Rightarrow> RunCommandState option" where
  "restoreRunPersistenceSnapshot s = restoreRunPersistenceSnapshotInto s initialCommandState"

end
