(* ===== verification/RunCheckpointCodec.thy ===== *)
theory RunCheckpointCodec
  imports ProgramDocumentCodec RunPersistenceContract
begin

text \<open>
  The wire format of the parts of a checkpoint (\<open>run_persistence_codec.cpp\<close>): one writer and one reader
  per enumeration and record. A reader \<open>read(a) && read(b)\<close> fills the fields of its argument one after
  the other; here it returns the record of the values it read.
\<close>

section \<open>Enumerations\<close>

definition writeEnum_RunCheckpointVariant :: "RunCheckpointVariant \<Rightarrow> writer" where
  "writeEnum_RunCheckpointVariant = writeEnum
     [(RCV_ProgramRun, 1), (RCV_ManualRun, 2), (RCV_NoActiveRun, 3)]"

definition readVariant :: "RunCheckpointVariant read" where
  "readVariant = readEnum
     [(1, RCV_ProgramRun), (2, RCV_ManualRun), (3, RCV_NoActiveRun)]"

definition writeEnum_RunCheckpointTrigger :: "RunCheckpointTrigger \<Rightarrow> writer" where
  "writeEnum_RunCheckpointTrigger = writeEnum
     [(RCT_Command, 1), (RCT_Transition, 2), (RCT_Periodic, 3), (RCT_SensorSelection, 4)]"

definition readTrigger :: "RunCheckpointTrigger read" where
  "readTrigger = readEnum
     [(1, RCT_Command), (2, RCT_Transition), (3, RCT_Periodic), (4, RCT_SensorSelection)]"

definition writeEnum_SensorSelectionProvenance :: "SensorSelectionProvenance \<Rightarrow> writer" where
  "writeEnum_SensorSelectionProvenance = writeEnum
     [(SPV_InitialSelection, 1), (SPV_FallbackActive, 2), (SPV_ReturnedToProduct, 3),
      (SPV_LegacyUnknown, 4)]"

definition readProvenance :: "SensorSelectionProvenance read" where
  "readProvenance = readEnum
     [(1, SPV_InitialSelection), (2, SPV_FallbackActive), (3, SPV_ReturnedToProduct),
      (4, SPV_LegacyUnknown)]"

definition writeEnum_SensorSelectionDecisionCause :: "SensorSelectionDecisionCause \<Rightarrow> writer" where
  "writeEnum_SensorSelectionDecisionCause = writeEnum
     [(SDC_None, 1), (SDC_StartSelection, 2), (SDC_ProductFailureBlock, 3),
      (SDC_FallbackToAir, 4), (SDC_ManualUserFallback, 5), (SDC_AutomaticValidatedReturn, 6),
      (SDC_ManualUserReturn, 7), (SDC_RecoveryRevalidation, 8), (SDC_SafeStateEntry, 9),
      (SDC_ReturnValidationAborted, 10)]"

definition readDecisionCause :: "SensorSelectionDecisionCause read" where
  "readDecisionCause = readEnum
     [(1, SDC_None), (2, SDC_StartSelection), (3, SDC_ProductFailureBlock),
      (4, SDC_FallbackToAir), (5, SDC_ManualUserFallback), (6, SDC_AutomaticValidatedReturn),
      (7, SDC_ManualUserReturn), (8, SDC_RecoveryRevalidation), (9, SDC_SafeStateEntry),
      (10, SDC_ReturnValidationAborted)]"

definition writeEnum_RunSensorMode :: "RunSensorMode \<Rightarrow> writer" where
  "writeEnum_RunSensorMode = writeEnum
     [(RSM_Product, 1), (RSM_Air, 2)]"

definition readSensor :: "RunSensorMode read" where
  "readSensor = readEnum
     [(1, RSM_Product), (2, RSM_Air)]"

definition writeEnum_CommandSource :: "CommandSource \<Rightarrow> writer" where
  "writeEnum_CommandSource = writeEnum
     [(CSO_LocalDisplay, 1), (CSO_WebInterface, 2)]"

definition readCommandSource :: "CommandSource read" where
  "readCommandSource = readEnum
     [(1, CSO_LocalDisplay), (2, CSO_WebInterface)]"

definition writeEnum_ProcessKind :: "ProcessKind \<Rightarrow> writer" where
  "writeEnum_ProcessKind = writeEnum
     [(PK_Timed, 1), (PK_ManualHolding, 2)]"

definition readProcessKind :: "ProcessKind read" where
  "readProcessKind = readEnum
     [(1, PK_Timed), (2, PK_ManualHolding)]"

definition writeEnum_CompletionMode :: "CompletionMode \<Rightarrow> writer" where
  "writeEnum_CompletionMode = writeEnum
     [(CM_FinishWithoutCooling, 1), (CM_CoolThenFinish, 2), (CM_CoolAndHoldForDuration, 3),
      (CM_CoolAndHoldUntilManualStop, 4)]"

definition readCompletion :: "CompletionMode read" where
  "readCompletion = readEnum
     [(1, CM_FinishWithoutCooling), (2, CM_CoolThenFinish), (3, CM_CoolAndHoldForDuration),
      (4, CM_CoolAndHoldUntilManualStop)]"

definition writeEnum_ProcessState :: "ProcessState \<Rightarrow> writer" where
  "writeEnum_ProcessState = writeEnum
     [(PS_Boot, 1), (PS_SafeBoot, 2), (PS_Standby, 3), (PS_Preheating, 4),
      (PS_WaitingForProduct, 5), (PS_ReachingTarget, 6), (PS_QualifyingTarget, 7),
      (PS_Fermenting, 8), (PS_Cooling, 9), (PS_CoolHolding, 10), (PS_ManualHolding, 11),
      (PS_Completed, 12), (PS_RecoveryEvaluation, 13), (PS_Fault, 14), (PS_ServiceMode, 15)]"

definition readProcessState :: "ProcessState read" where
  "readProcessState = readEnum
     [(1, PS_Boot), (2, PS_SafeBoot), (3, PS_Standby), (4, PS_Preheating),
      (5, PS_WaitingForProduct), (6, PS_ReachingTarget), (7, PS_QualifyingTarget),
      (8, PS_Fermenting), (9, PS_Cooling), (10, PS_CoolHolding), (11, PS_ManualHolding),
      (12, PS_Completed), (13, PS_RecoveryEvaluation), (14, PS_Fault), (15, PS_ServiceMode)]"

definition writeEnum_ProgramSourceKind :: "ProgramSourceKind \<Rightarrow> writer" where
  "writeEnum_ProgramSourceKind = writeEnum
     [(PSK_FactoryCatalog, 1), (PSK_UserProgram, 2), (PSK_ManualTimed, 3)]"

definition readProgramSource :: "ProgramSourceKind read" where
  "readProgramSource = readEnum
     [(1, PSK_FactoryCatalog), (2, PSK_UserProgram), (3, PSK_ManualTimed)]"

definition writeEnum_RunAdjustmentEffect :: "RunAdjustmentEffect \<Rightarrow> writer" where
  "writeEnum_RunAdjustmentEffect = writeEnum
     [(RAE_None, 1), (RAE_RestartTargetQualification, 2),
      (RAE_ContinueFermentationWithoutRequalification, 3)]"

definition readEffect :: "RunAdjustmentEffect read" where
  "readEffect = readEnum
     [(1, RAE_None), (2, RAE_RestartTargetQualification),
      (3, RAE_ContinueFermentationWithoutRequalification)]"

definition writeEnum_RunChangeSource :: "RunChangeSource \<Rightarrow> writer" where
  "writeEnum_RunChangeSource = writeEnum
     [(RCS_LocalDisplay, 1), (RCS_WebInterface, 2), (RCS_Recovery, 3)]"

definition readChangeSource :: "RunChangeSource read" where
  "readChangeSource = readEnum
     [(1, RCS_LocalDisplay), (2, RCS_WebInterface), (3, RCS_Recovery)]"

definition writeEnum_RunChangeReason :: "RunChangeReason \<Rightarrow> writer" where
  "writeEnum_RunChangeReason = writeEnum
     [(RCR_UserAdjustment, 1), (RCR_RecoveryCorrection, 2)]"

definition readChangeReason :: "RunChangeReason read" where
  "readChangeReason = readEnum
     [(1, RCR_UserAdjustment), (2, RCR_RecoveryCorrection)]"

definition writeEnum_SensorQuality :: "SensorQuality \<Rightarrow> writer" where
  "writeEnum_SensorQuality = writeEnum
     [(SQ_Valid, 1), (SQ_Stale, 2), (SQ_Failed, 3)]"

definition readQuality :: "SensorQuality read" where
  "readQuality = readEnum
     [(1, SQ_Valid), (2, SQ_Stale), (3, SQ_Failed)]"

definition writeEnum_RunProgressBasis :: "RunProgressBasis \<Rightarrow> writer" where
  "writeEnum_RunProgressBasis = writeEnum
     [(RPB_KnownTotal, 1), (RPB_PartialUnknownHistory, 2)]"

definition readProgressBasis :: "RunProgressBasis read" where
  "readProgressBasis = readEnum
     [(1, RPB_KnownTotal), (2, RPB_PartialUnknownHistory)]"

definition writeEnum_WeightedProgressConfidence :: "WeightedProgressConfidence \<Rightarrow> writer" where
  "writeEnum_WeightedProgressConfidence = writeEnum
     [(WPC_ProductPreferred, 1), (WPC_AirReduced, 2)]"

definition readWeightedProgressConfidence :: "WeightedProgressConfidence read" where
  "readWeightedProgressConfidence = readEnum
     [(1, WPC_ProductPreferred), (2, WPC_AirReduced)]"

definition writeEnum_WeightedProgressCoverage :: "WeightedProgressCoverage \<Rightarrow> writer" where
  "writeEnum_WeightedProgressCoverage = writeEnum
     [(WPV_Complete, 1), (WPV_PartialUnknown, 2)]"

definition readWeightedProgressCoverage :: "WeightedProgressCoverage read" where
  "readWeightedProgressCoverage = readEnum
     [(1, WPV_Complete), (2, WPV_PartialUnknown)]"

section \<open>Records\<close>

definition writePersistedSensorSelectionState :: "PersistedSensorSelectionState \<Rightarrow> writer" where
  "writePersistedSensorSelectionState v =
     writeAll
       [writeEnum_SensorSelectionProvenance (per_provenance v),
        writeEnum_SensorSelectionDecisionCause (per_lastDecisionCause v),
        writeUint32 (per_lastDecisionRunRevision v)]"

definition readPersistedSensorSelectionState :: "PersistedSensorSelectionState read" where
  "readPersistedSensorSelectionState =
     readThen readProvenance (\<lambda>a. readThen readDecisionCause (\<lambda>b.
     readThen readUint32 (\<lambda>c.
       readReturn \<lparr>per_provenance = a, per_lastDecisionCause = b, per_lastDecisionRunRevision = c\<rparr>)))"

definition writeManualTimedSource :: "ManualTimedRunSource \<Rightarrow> writer" where
  "writeManualTimedSource v =
     writeAll
       [writeOptionalDouble (stg_targetTemperatureCelsius (mts_stage v)),
        writeOptionalUint32 (stg_durationMinutes (mts_stage v)),
        writeBool (mts_preheatEnabled v),
        writeOptionalUint32 (mts_maximumProductWaitMinutes v),
        writeOptionalDouble (tql_bandCelsius (mts_targetQualification v)),
        writeOptionalUint32 (tql_durationMinutes (mts_targetQualification v)),
        writeOptionalUint32 (mts_maximumTargetReachMinutes v),
        writeEnum_CompletionMode (pcp_mode (mts_completion v)),
        writeOptionalDouble (pcp_coolingTargetCelsius (mts_completion v)),
        writeOptionalUint32 (pcp_holdDurationMinutes (mts_completion v))]"

definition readManualTimedSource :: "ManualTimedRunSource read" where
  "readManualTimedSource =
     readThen readOptionalDouble (\<lambda>target. readThen readOptionalUint32 (\<lambda>duration.
     readThen readBool (\<lambda>preheat. readThen readOptionalUint32 (\<lambda>wait.
     readThen readOptionalDouble (\<lambda>band. readThen readOptionalUint32 (\<lambda>stay.
     readThen readOptionalUint32 (\<lambda>reach. readThen readCompletion (\<lambda>mode.
     readThen readOptionalDouble (\<lambda>cooling. readThen readOptionalUint32 (\<lambda>hold.
       readReturn \<lparr>mts_stage = \<lparr>stg_targetTemperatureCelsius = target, stg_durationMinutes = duration\<rparr>,
         mts_preheatEnabled = preheat, mts_maximumProductWaitMinutes = wait,
         mts_targetQualification = \<lparr>tql_bandCelsius = band, tql_durationMinutes = stay\<rparr>,
         mts_maximumTargetReachMinutes = reach,
         mts_completion = \<lparr>pcp_mode = mode, pcp_coolingTargetCelsius = cooling,
           pcp_holdDurationMinutes = hold\<rparr>\<rparr>))))))))))"

definition writeValues :: "EffectiveRunValues \<Rightarrow> writer" where
  "writeValues v =
     writeAll
       [encodeBinary64 (erv_targetTemperatureCelsius v),
        writeUint32 (erv_remainingDurationMinutes v)]"

definition readValues :: "EffectiveRunValues read" where
  "readValues =
     readThen decodeBinary64 (\<lambda>a. readThen readUint32 (\<lambda>b.
       readReturn \<lparr>erv_targetTemperatureCelsius = a, erv_remainingDurationMinutes = b\<rparr>))"

definition writeRevision :: "RunRevision \<Rightarrow> writer" where
  "writeRevision v w =
     (if rrv_stageIndex v > 4294967295 \<or> rrv_completedStageCount v > 4294967295 then (False, w)
      else writeAll
        [writeUint32 (rrv_sequence v), writeUint32 (rrv_monotonicEpoch v),
         writeUint32 (of_nat (rrv_stageIndex v)), writeUint32 (of_nat (rrv_completedStageCount v)),
         writeValues (rrv_before v), writeValues (rrv_after v),
         writeBool (rrv_targetTemperatureChanged v), writeBool (rrv_remainingDurationChanged v),
         writeEnum_RunAdjustmentEffect (rrv_effect v), writeEnum_RunChangeSource (rrv_source v),
         writeEnum_RunChangeReason (rrv_reason v),
         writeUint64 (rts_monotonicMillis (rrv_timestamp v)),
         writeOptionalInt64 (rts_unixTimeSeconds (rrv_timestamp v))] w)"

definition readRevision :: "RunRevision read" where
  "readRevision =
     readThen readUint32 (\<lambda>sequence. readThen readUint32 (\<lambda>epoch.
     readThen readUint32 (\<lambda>index. readThen readUint32 (\<lambda>completed.
     readThen readValues (\<lambda>before. readThen readValues (\<lambda>after.
     readThen readBool (\<lambda>target. readThen readBool (\<lambda>duration.
     readThen readEffect (\<lambda>effect. readThen readChangeSource (\<lambda>source.
     readThen readChangeReason (\<lambda>reason. readThen readUint64 (\<lambda>millis.
     readThen readOptionalInt64 (\<lambda>unix.
       readReturn \<lparr>rrv_sequence = sequence, rrv_monotonicEpoch = epoch, rrv_stageIndex = unat index,
         rrv_completedStageCount = unat completed, rrv_before = before, rrv_after = after,
         rrv_targetTemperatureChanged = target, rrv_remainingDurationChanged = duration,
         rrv_effect = effect, rrv_source = source, rrv_reason = reason,
         rrv_timestamp = \<lparr>rts_monotonicMillis = millis, rts_unixTimeSeconds = unix\<rparr>\<rparr>)))))))))))))"

definition writeProcessSnapshot :: "ProcessRunSnapshot \<Rightarrow> writer" where
  "writeProcessSnapshot v =
     writeAll
       [writeEnum_ProcessKind (snap_kind v), writeBool (snap_preheatEnabled v),
        writeEnum_CompletionMode (snap_completionMode v),
        writeUint32 (snap_qualificationDurationMinutes v),
        writeUint32 (snap_maximumTargetReachMinutes v),
        writeOptionalUint32 (snap_maximumProductWaitMinutes v),
        writeOptionalUint32 (snap_fermentationDurationMinutes v),
        writeOptionalUint32 (snap_holdDurationMinutes v)]"

definition readProcessSnapshotFields :: "ProcessRunSnapshot read" where
  "readProcessSnapshotFields =
     readThen readProcessKind (\<lambda>kind. readThen readBool (\<lambda>preheat.
     readThen readCompletion (\<lambda>mode. readThen readUint32 (\<lambda>stay.
     readThen readUint32 (\<lambda>reach. readThen readOptionalUint32 (\<lambda>wait.
     readThen readOptionalUint32 (\<lambda>duration. readThen readOptionalUint32 (\<lambda>hold.
       readReturn \<lparr>snap_kind = kind, snap_preheatEnabled = preheat, snap_completionMode = mode,
         snap_qualificationDurationMinutes = stay, snap_maximumTargetReachMinutes = reach,
         snap_maximumProductWaitMinutes = wait, snap_fermentationDurationMinutes = duration,
         snap_holdDurationMinutes = hold\<rparr>))))))))"

definition readProcessSnapshot :: "ProcessRunSnapshot read" where
  "readProcessSnapshot = readCheck validateProcessRunSnapshot readProcessSnapshotFields"

definition writeRuntime :: "ProcessRuntimeState \<Rightarrow> writer" where
  "writeRuntime v =
     writeAll
       [writeEnum_ProcessState (rt_state v), writeUint64 (rt_stateEnteredAtMillis v),
        writeUint64 (rt_targetReachStartedAtMillis v),
        writeOptionalUint64 (rt_qualificationValidSinceMillis v),
        writeBool (rt_targetReachWarningIssued v), writeUint32 (rt_transitionSequence v)]"

definition readRuntime :: "ProcessRuntimeState read" where
  "readRuntime =
     readThen readProcessState (\<lambda>st. readThen readUint64 (\<lambda>entered.
     readThen readUint64 (\<lambda>started. readThen readOptionalUint64 (\<lambda>since.
     readThen readBool (\<lambda>warned. readThen readUint32 (\<lambda>sequence.
       readReturn \<lparr>rt_state = st, rt_stateEnteredAtMillis = entered, rt_targetReachStartedAtMillis = started,
         rt_qualificationValidSinceMillis = since, rt_targetReachWarningIssued = warned,
         rt_transitionSequence = sequence\<rparr>))))))"

definition writeManual :: "ManualRunPlan \<Rightarrow> writer" where
  "writeManual v =
     writeAll
       [encodeBinary64 (mpr_targetTemperatureCelsius (mpl_values v)),
        writeEnum_RunSensorMode (mpr_sensorMode (mpl_values v)),
        writeBool (mpr_preheatEnabled (mpl_values v)),
        writeOptionalUint32 (mpr_maximumProductWaitMinutes (mpl_values v)),
        encodeBinary64 (mpr_qualificationBandCelsius (mpl_values v)),
        writeUint32 (mpr_qualificationDurationMinutes (mpl_values v)),
        writeUint32 (mpr_maximumTargetReachMinutes (mpl_values v)),
        writeEnum_CommandSource (mpl_source v), writeUint64 (mpl_createdAtMonotonicMillis v),
        writeEnum_ProcessKind (mpl_kind v)]"

definition readManual :: "string \<Rightarrow> ManualRunPlan read" where
  "readManual runId =
     readThen decodeBinary64 (\<lambda>target. readThen readSensor (\<lambda>mode.
     readThen readBool (\<lambda>preheat. readThen readOptionalUint32 (\<lambda>wait.
     readThen decodeBinary64 (\<lambda>band. readThen readUint32 (\<lambda>stay.
     readThen readUint32 (\<lambda>reach. readThen readCommandSource (\<lambda>source.
     readThen readUint64 (\<lambda>created. readThen readProcessKind (\<lambda>kind.
       readReturn \<lparr>mpl_values = \<lparr>mpr_runId = runId, mpr_targetTemperatureCelsius = target,
           mpr_sensorMode = mode, mpr_preheatEnabled = preheat, mpr_maximumProductWaitMinutes = wait,
           mpr_qualificationBandCelsius = band, mpr_qualificationDurationMinutes = stay,
           mpr_maximumTargetReachMinutes = reach\<rparr>,
         mpl_source = source, mpl_createdAtMonotonicMillis = created, mpl_kind = kind\<rparr>))))))))))"

definition writeRoleEvidence :: "RoleTemperatureEvidence \<Rightarrow> writer" where
  "writeRoleEvidence v =
     writeAll
       [writeOptionalDouble (rte_filteredCelsius v), writeEnum_SensorQuality (rte_quality v)]"

definition readRoleEvidence :: "RoleTemperatureEvidence read" where
  "readRoleEvidence =
     readThen readOptionalDouble (\<lambda>celsius. readThen readQuality (\<lambda>quality.
       readReturn \<lparr>rte_filteredCelsius = celsius, rte_quality = quality\<rparr>))"

definition writeCrossRoleEvidence :: "CrossRoleEvidence \<Rightarrow> writer" where
  "writeCrossRoleEvidence v =
     writeAll
       [writeRoleEvidence (cre_air v), writeRoleEvidence (cre_product v),
        writeRoleEvidence (cre_cooling v)]"

definition readCrossRoleEvidence :: "CrossRoleEvidence read" where
  "readCrossRoleEvidence =
     readThen readRoleEvidence (\<lambda>air. readThen readRoleEvidence (\<lambda>product.
     readThen readRoleEvidence (\<lambda>cooling.
       readReturn \<lparr>cre_air = air, cre_product = product, cre_cooling = cooling\<rparr>)))"

definition writeOptionalRoleEvidence :: "RoleTemperatureEvidence option \<Rightarrow> writer" where
  "writeOptionalRoleEvidence = writeOptional writeRoleEvidence"

definition readOptionalRoleEvidence :: "RoleTemperatureEvidence option read" where
  "readOptionalRoleEvidence = readOptional readRoleEvidence"

definition writeFirstAfterRestartEvidence :: "FirstAfterRestartEvidence \<Rightarrow> writer" where
  "writeFirstAfterRestartEvidence v =
     writeAll
       [writeOptionalRoleEvidence (far_air v), writeOptionalRoleEvidence (far_product v),
        writeOptionalRoleEvidence (far_cooling v)]"

definition readFirstAfterRestartEvidence :: "FirstAfterRestartEvidence read" where
  "readFirstAfterRestartEvidence =
     readThen readOptionalRoleEvidence (\<lambda>air.
     readThen readOptionalRoleEvidence (\<lambda>product.
     readThen readOptionalRoleEvidence (\<lambda>cooling.
       readReturn \<lparr>far_air = air, far_product = product, far_cooling = cooling\<rparr>)))"

definition writeRecoveryEpisodeEvidence :: "RecoveryEpisodeEvidence \<Rightarrow> writer" where
  "writeRecoveryEpisodeEvidence v =
     writeAll
       [writeCrossRoleEvidence (ree_beforeOutage v),
        writeFirstAfterRestartEvidence (ree_firstAfterRestart v),
        writeOptionalUint32 (ree_weightedProgressSegmentId v)]"

definition readRecoveryEpisodeEvidence :: "RecoveryEpisodeEvidence read" where
  "readRecoveryEpisodeEvidence =
     readThen readCrossRoleEvidence (\<lambda>outage.
     readThen readFirstAfterRestartEvidence (\<lambda>restart.
     readThen readOptionalUint32 (\<lambda>segment.
       readReturn \<lparr>ree_beforeOutage = outage, ree_firstAfterRestart = restart,
         ree_weightedProgressSegmentId = segment\<rparr>)))"

definition writeOptionalRecoveryEpisodeEvidence :: "RecoveryEpisodeEvidence option \<Rightarrow> writer" where
  "writeOptionalRecoveryEpisodeEvidence = writeOptional writeRecoveryEpisodeEvidence"

definition readOptionalRecoveryEpisodeEvidence :: "RecoveryEpisodeEvidence option read" where
  "readOptionalRecoveryEpisodeEvidence = readOptional readRecoveryEpisodeEvidence"

definition writePendingRecoveryAnchor :: "PendingRecoveryAnchor \<Rightarrow> writer" where
  "writePendingRecoveryAnchor v =
     writeAll
       [writeRuntime (pra_originalProcessState v),
        writeUint64 (pra_knownPhaseSecondsAtOriginalCheckpoint v),
        writeOptionalInt64 (pra_originalCheckpointUtc v),
        writeEnum_RunCheckpointTrigger (pra_originalCheckpointTrigger v),
        writeUint32 (pra_originalCheckpointIntervalMinutes v),
        writeUint32 (prior_lowerBoundSeconds (pra_accumulatedBeforeEpisode v)),
        writeOptionalUint32 (prior_upperBoundSeconds (pra_accumulatedBeforeEpisode v)),
        writeUint64 (pra_knownSecondsSinceOriginalCheckpoint v)]"

definition readPendingRecoveryAnchor :: "PendingRecoveryAnchor read" where
  "readPendingRecoveryAnchor =
     readThen readRuntime (\<lambda>original. readThen readUint64 (\<lambda>known.
     readThen readOptionalInt64 (\<lambda>utc. readThen readTrigger (\<lambda>trigger.
     readThen readUint32 (\<lambda>interval. readThen readUint32 (\<lambda>lower.
     readThen readOptionalUint32 (\<lambda>upper. readThen readUint64 (\<lambda>since.
       readReturn \<lparr>pra_originalProcessState = original, pra_knownPhaseSecondsAtOriginalCheckpoint = known,
         pra_originalCheckpointUtc = utc, pra_originalCheckpointTrigger = trigger,
         pra_originalCheckpointIntervalMinutes = interval,
         pra_accumulatedBeforeEpisode =
           \<lparr>prior_lowerBoundSeconds = lower, prior_upperBoundSeconds = upper\<rparr>,
         pra_knownSecondsSinceOriginalCheckpoint = since\<rparr>))))))))"

definition writeOptionalPendingRecoveryAnchor :: "PendingRecoveryAnchor option \<Rightarrow> writer" where
  "writeOptionalPendingRecoveryAnchor = writeOptional writePendingRecoveryAnchor"

definition readOptionalPendingRecoveryAnchor :: "PendingRecoveryAnchor option read" where
  "readOptionalPendingRecoveryAnchor = readOptional readPendingRecoveryAnchor"

definition writeTaggedPriorBootPhaseElapsed :: "TaggedPriorBootPhaseElapsed \<Rightarrow> writer" where
  "writeTaggedPriorBootPhaseElapsed v =
     writeAll
       [writeEnum_ProcessState (tpe_taggedState v),
        writeUint32 (prior_lowerBoundSeconds (tpe_elapsed v)),
        writeOptionalUint32 (prior_upperBoundSeconds (tpe_elapsed v))]"

definition readTaggedPriorBootPhaseElapsed :: "TaggedPriorBootPhaseElapsed read" where
  "readTaggedPriorBootPhaseElapsed =
     readThen readProcessState (\<lambda>st. readThen readUint32 (\<lambda>lower.
     readThen readOptionalUint32 (\<lambda>upper.
       readReturn \<lparr>tpe_taggedState = st,
         tpe_elapsed = \<lparr>prior_lowerBoundSeconds = lower, prior_upperBoundSeconds = upper\<rparr>\<rparr>)))"

definition writeOptionalTaggedPriorBootPhaseElapsed :: "TaggedPriorBootPhaseElapsed option \<Rightarrow> writer" where
  "writeOptionalTaggedPriorBootPhaseElapsed = writeOptional writeTaggedPriorBootPhaseElapsed"

definition readOptionalTaggedPriorBootPhaseElapsed :: "TaggedPriorBootPhaseElapsed option read" where
  "readOptionalTaggedPriorBootPhaseElapsed = readOptional readTaggedPriorBootPhaseElapsed"

definition writeNominalRecoveryAdjustmentState :: "NominalRecoveryAdjustmentState \<Rightarrow> writer" where
  "writeNominalRecoveryAdjustmentState v =
     writeAll
       [writeUint32 (nra_cumulativeAppliedSeconds v),
        writeUint32 (nra_lastAppliedEpisodeRevision v),
        writeUint32 (nra_lastAppliedEpisodeDelta v)]"

definition readNominalRecoveryAdjustmentState :: "NominalRecoveryAdjustmentState read" where
  "readNominalRecoveryAdjustmentState =
     readThen readUint32 (\<lambda>a. readThen readUint32 (\<lambda>b.
     readThen readUint32 (\<lambda>c.
       readReturn \<lparr>nra_cumulativeAppliedSeconds = a, nra_lastAppliedEpisodeRevision = b,
         nra_lastAppliedEpisodeDelta = c\<rparr>)))"

definition writeOptionalNominalRecoveryAdjustmentState :: "NominalRecoveryAdjustmentState option \<Rightarrow> writer" where
  "writeOptionalNominalRecoveryAdjustmentState = writeOptional writeNominalRecoveryAdjustmentState"

definition readOptionalNominalRecoveryAdjustmentState :: "NominalRecoveryAdjustmentState option read" where
  "readOptionalNominalRecoveryAdjustmentState = readOptional readNominalRecoveryAdjustmentState"

definition writeWeightedProgressProvenance :: "WeightedProgressProvenance \<Rightarrow> writer" where
  "writeWeightedProgressProvenance v =
     writeAll
       [writeEnum_RunSensorMode (wpp_lastSourceRole v),
        writeEnum_WeightedProgressConfidence (wpp_confidence v),
        writeUint32 (wpp_modelRevision v), writeUint32 (wpp_lastAppliedSegmentId v)]"

definition readWeightedProgressProvenance :: "WeightedProgressProvenance read" where
  "readWeightedProgressProvenance =
     readThen readSensor (\<lambda>role.
     readThen readWeightedProgressConfidence (\<lambda>confidence.
     readThen readUint32 (\<lambda>revision. readThen readUint32 (\<lambda>segment.
       readReturn \<lparr>wpp_lastSourceRole = role, wpp_confidence = confidence, wpp_modelRevision = revision,
         wpp_lastAppliedSegmentId = segment\<rparr>))))"

definition writeOptionalWeightedProgressProvenance :: "WeightedProgressProvenance option \<Rightarrow> writer" where
  "writeOptionalWeightedProgressProvenance = writeOptional writeWeightedProgressProvenance"

definition readOptionalWeightedProgressProvenance :: "WeightedProgressProvenance option read" where
  "readOptionalWeightedProgressProvenance = readOptional readWeightedProgressProvenance"

definition writeWeightedProgressState :: "WeightedProgressState \<Rightarrow> writer" where
  "writeWeightedProgressState v =
     writeAll
       [writeUint64 (wpb_lowerBoundSeconds (wps_cumulative v)),
        writeOptionalUint64 (wpb_upperBoundSeconds (wps_cumulative v)),
        writeEnum_WeightedProgressCoverage (wps_coverage v),
        writeOptionalWeightedProgressProvenance (wps_lastApplied v)]"

definition readWeightedProgressState :: "WeightedProgressState read" where
  "readWeightedProgressState =
     readThen readUint64 (\<lambda>lower. readThen readOptionalUint64 (\<lambda>upper.
     readThen readWeightedProgressCoverage (\<lambda>coverage.
     readThen readOptionalWeightedProgressProvenance (\<lambda>applied.
       readReturn \<lparr>wps_cumulative = \<lparr>wpb_lowerBoundSeconds = lower, wpb_upperBoundSeconds = upper\<rparr>,
         wps_coverage = coverage, wps_lastApplied = applied\<rparr>))))"

definition writeOptionalWeightedProgressState :: "WeightedProgressState option \<Rightarrow> writer" where
  "writeOptionalWeightedProgressState = writeOptional writeWeightedProgressState"

definition readOptionalWeightedProgressState :: "WeightedProgressState option read" where
  "readOptionalWeightedProgressState = readOptional readWeightedProgressState"

definition writeRunProgressState :: "RunProgressState \<Rightarrow> writer" where
  "writeRunProgressState v =
     writeAll
       [writeEnum_RunProgressBasis (rpg_basis v), writeUint32 (rpg_observedRunSeconds v),
        writeOptionalWeightedProgressState (rpg_weightedProgress v)]"

definition readRunProgressState :: "RunProgressState read" where
  "readRunProgressState =
     readThen readProgressBasis (\<lambda>basis. readThen readUint32 (\<lambda>observed.
     readThen readOptionalWeightedProgressState (\<lambda>weighted.
       readReturn \<lparr>rpg_basis = basis, rpg_observedRunSeconds = observed, rpg_weightedProgress = weighted\<rparr>)))"

definition writePlannerParameterFields :: "ActuatorPlannerParameters \<Rightarrow> writer" where
  "writePlannerParameterFields v =
     writeAll
       [writeUint64 (par_switchingWindowMillis v), writeUint64 (par_minimumOnMillis v),
        writeUint64 (par_minimumOffMillis v), writeUint64 (par_polarityDeadTimeMillis v),
        writeUint64 (par_pulseAccumulatorCapMillis v),
        encodeBinary64 (par_counterDirectionQuoteThreshold v),
        writeUint64 (par_counterDirectionDurationMillis v),
        writeUint64 (par_requestWatchdogMillis v), writeUint64 (par_outerFanPostRunMillis v),
        writeUint64 (par_innerFanPostRunMillis v)]"

definition readPlannerParameterFields :: "ActuatorPlannerParameters read" where
  "readPlannerParameterFields =
     readThen readUint64 (\<lambda>a. readThen readUint64 (\<lambda>b.
     readThen readUint64 (\<lambda>c. readThen readUint64 (\<lambda>d.
     readThen readUint64 (\<lambda>e. readThen decodeBinary64 (\<lambda>f.
     readThen readUint64 (\<lambda>g. readThen readUint64 (\<lambda>h.
     readThen readUint64 (\<lambda>i. readThen readUint64 (\<lambda>j.
       readReturn \<lparr>par_switchingWindowMillis = a, par_minimumOnMillis = b,
         par_minimumOffMillis = c, par_polarityDeadTimeMillis = d,
         par_pulseAccumulatorCapMillis = e, par_counterDirectionQuoteThreshold = f,
         par_counterDirectionDurationMillis = g, par_requestWatchdogMillis = h,
         par_outerFanPostRunMillis = i, par_innerFanPostRunMillis = j\<rparr>))))))))))"

text \<open>Only parameters that are valid are written, and only such are read.\<close>

definition validParameters :: "ActuatorPlannerParameters \<Rightarrow> bool" where
  "validParameters p \<longleftrightarrow> classifyActuatorPlannerParameters p = APV_Valid"

definition writeOptionalActuatorPlannerParameters ::
  "ActuatorPlannerParameters option \<Rightarrow> writer" where
  "writeOptionalActuatorPlannerParameters =
     writeOptional (\<lambda>p. if validParameters p then writePlannerParameterFields p else writeFail)"

definition readOptionalActuatorPlannerParameters :: "ActuatorPlannerParameters option read" where
  "readOptionalActuatorPlannerParameters =
     readOptional (readCheck validParameters readPlannerParameterFields)"

section \<open>What is written is read\<close>

lemmas persisted_equalities =
  PersistedSensorSelectionState.equality ManualTimedRunSource.equality FermentationStage.equality
  TargetQualification.equality ProgramCompletion.equality EffectiveRunValues.equality
  RunRevision.equality RunTimestamp.equality ProcessRunSnapshot.equality ProcessRuntimeState.equality
  ManualRunPlan.equality ManualRunPlanRequest.equality RoleTemperatureEvidence.equality
  CrossRoleEvidence.equality FirstAfterRestartEvidence.equality RecoveryEpisodeEvidence.equality
  PendingRecoveryAnchor.equality PriorBootPhaseElapsed.equality TaggedPriorBootPhaseElapsed.equality
  NominalRecoveryAdjustmentState.equality WeightedProgressProvenance.equality
  WeightedProgressBounds.equality WeightedProgressState.equality RunProgressState.equality
  ActuatorPlannerParameters.equality

text \<open>Every temperature of a record is a double.\<close>

definition doublesOfManualSource :: "ManualTimedRunSource \<Rightarrow> bool" where
  "doublesOfManualSource v \<longleftrightarrow>
     pred_option isDouble (stg_targetTemperatureCelsius (mts_stage v)) \<and>
     pred_option isDouble (tql_bandCelsius (mts_targetQualification v)) \<and>
     pred_option isDouble (pcp_coolingTargetCelsius (mts_completion v))"

definition doublesOfRevision :: "RunRevision \<Rightarrow> bool" where
  "doublesOfRevision v \<longleftrightarrow> isDouble (erv_targetTemperatureCelsius (rrv_before v)) \<and>
     isDouble (erv_targetTemperatureCelsius (rrv_after v))"

definition doublesOfManualPlan :: "ManualRunPlan \<Rightarrow> bool" where
  "doublesOfManualPlan v \<longleftrightarrow> isDouble (mpr_targetTemperatureCelsius (mpl_values v)) \<and>
     isDouble (mpr_qualificationBandCelsius (mpl_values v))"

definition doublesOfEvidence :: "CrossRoleEvidence \<Rightarrow> bool" where
  "doublesOfEvidence v \<longleftrightarrow> pred_option isDouble (rte_filteredCelsius (cre_air v)) \<and>
     pred_option isDouble (rte_filteredCelsius (cre_product v)) \<and>
     pred_option isDouble (rte_filteredCelsius (cre_cooling v))"

definition doublesOfRole :: "RoleTemperatureEvidence \<Rightarrow> bool" where
  "doublesOfRole v \<longleftrightarrow> pred_option isDouble (rte_filteredCelsius v)"

definition doublesOfEpisode :: "RecoveryEpisodeEvidence \<Rightarrow> bool" where
  "doublesOfEpisode v \<longleftrightarrow> doublesOfEvidence (ree_beforeOutage v) \<and>
     pred_option doublesOfRole (far_air (ree_firstAfterRestart v)) \<and>
     pred_option doublesOfRole (far_product (ree_firstAfterRestart v)) \<and>
     pred_option doublesOfRole (far_cooling (ree_firstAfterRestart v))"

lemma codes_RunCheckpointVariant [codes_intros]: "codes (writeEnum_RunCheckpointVariant v) readVariant v"
  unfolding writeEnum_RunCheckpointVariant_def readVariant_def by (rule codes_enum) (auto split: if_splits)

lemma codes_RunCheckpointTrigger [codes_intros]: "codes (writeEnum_RunCheckpointTrigger v) readTrigger v"
  unfolding writeEnum_RunCheckpointTrigger_def readTrigger_def by (rule codes_enum) (auto split: if_splits)

lemma codes_SensorSelectionProvenance [codes_intros]: "codes (writeEnum_SensorSelectionProvenance v) readProvenance v"
  unfolding writeEnum_SensorSelectionProvenance_def readProvenance_def by (rule codes_enum) (auto split: if_splits)

lemma codes_SensorSelectionDecisionCause [codes_intros]: "codes (writeEnum_SensorSelectionDecisionCause v) readDecisionCause v"
  unfolding writeEnum_SensorSelectionDecisionCause_def readDecisionCause_def by (rule codes_enum) (auto split: if_splits)

lemma codes_RunSensorMode [codes_intros]: "codes (writeEnum_RunSensorMode v) readSensor v"
  unfolding writeEnum_RunSensorMode_def readSensor_def by (rule codes_enum) (auto split: if_splits)

lemma codes_CommandSource [codes_intros]: "codes (writeEnum_CommandSource v) readCommandSource v"
  unfolding writeEnum_CommandSource_def readCommandSource_def by (rule codes_enum) (auto split: if_splits)

lemma codes_ProcessKind [codes_intros]: "codes (writeEnum_ProcessKind v) readProcessKind v"
  unfolding writeEnum_ProcessKind_def readProcessKind_def by (rule codes_enum) (auto split: if_splits)

lemma codes_CompletionMode [codes_intros]: "codes (writeEnum_CompletionMode v) readCompletion v"
  unfolding writeEnum_CompletionMode_def readCompletion_def by (rule codes_enum) (auto split: if_splits)

lemma codes_ProcessState [codes_intros]: "codes (writeEnum_ProcessState v) readProcessState v"
  unfolding writeEnum_ProcessState_def readProcessState_def by (rule codes_enum) (auto split: if_splits)

lemma codes_ProgramSourceKind [codes_intros]: "codes (writeEnum_ProgramSourceKind v) readProgramSource v"
  unfolding writeEnum_ProgramSourceKind_def readProgramSource_def by (rule codes_enum) (auto split: if_splits)

lemma codes_RunAdjustmentEffect [codes_intros]: "codes (writeEnum_RunAdjustmentEffect v) readEffect v"
  unfolding writeEnum_RunAdjustmentEffect_def readEffect_def by (rule codes_enum) (auto split: if_splits)

lemma codes_RunChangeSource [codes_intros]: "codes (writeEnum_RunChangeSource v) readChangeSource v"
  unfolding writeEnum_RunChangeSource_def readChangeSource_def by (rule codes_enum) (auto split: if_splits)

lemma codes_RunChangeReason [codes_intros]: "codes (writeEnum_RunChangeReason v) readChangeReason v"
  unfolding writeEnum_RunChangeReason_def readChangeReason_def by (rule codes_enum) (auto split: if_splits)

lemma codes_SensorQuality [codes_intros]: "codes (writeEnum_SensorQuality v) readQuality v"
  unfolding writeEnum_SensorQuality_def readQuality_def by (rule codes_enum) (auto split: if_splits)

lemma codes_RunProgressBasis [codes_intros]: "codes (writeEnum_RunProgressBasis v) readProgressBasis v"
  unfolding writeEnum_RunProgressBasis_def readProgressBasis_def by (rule codes_enum) (auto split: if_splits)

lemma codes_WeightedProgressConfidence [codes_intros]: "codes (writeEnum_WeightedProgressConfidence v) readWeightedProgressConfidence v"
  unfolding writeEnum_WeightedProgressConfidence_def readWeightedProgressConfidence_def by (rule codes_enum) (auto split: if_splits)

lemma codes_WeightedProgressCoverage [codes_intros]: "codes (writeEnum_WeightedProgressCoverage v) readWeightedProgressCoverage v"
  unfolding writeEnum_WeightedProgressCoverage_def readWeightedProgressCoverage_def by (rule codes_enum) (auto split: if_splits)

lemma codes_PersistedSensorSelectionState [codes_intros]:
  "codes (writePersistedSensorSelectionState v) readPersistedSensorSelectionState v"
  unfolding writePersistedSensorSelectionState_def readPersistedSensorSelectionState_def by (rule codes_intros persisted_equalities | simp)+

lemma codes_ManualTimedSource [codes_intros]:
  "doublesOfManualSource v \<Longrightarrow> codes (writeManualTimedSource v) readManualTimedSource v"
  unfolding writeManualTimedSource_def readManualTimedSource_def doublesOfManualSource_def
  by (rule codes_intros persisted_equalities | simp)+

lemma codes_Values [codes_intros]:
  "isDouble (erv_targetTemperatureCelsius v) \<Longrightarrow> codes (writeValues v) readValues v"
  unfolding writeValues_def readValues_def 
  by (rule codes_intros persisted_equalities | simp)+

lemma codes_Revision [codes_intros]:
  assumes "doublesOfRevision v"
  shows "codes (writeRevision v) readRevision v"
proof (cases "rrv_stageIndex v > 4294967295 \<or> rrv_completedStageCount v > 4294967295")
  case True
  then show ?thesis by (simp add: codes_def writeRevision_def)
next
  case False
  then have n: "unat (of_nat (rrv_stageIndex v) :: u32) = rrv_stageIndex v"
    "unat (of_nat (rrv_completedStageCount v) :: u32) = rrv_completedStageCount v"
    by (simp_all add: unat_of_nat)
  have d: "isDouble (erv_targetTemperatureCelsius (rrv_before v))"
    "isDouble (erv_targetTemperatureCelsius (rrv_after v))"
    using assms by (simp_all add: doublesOfRevision_def)
  have "codes (\<lambda>w. writeRevision v w) readRevision v"
    unfolding writeRevision_def readRevision_def if_not_P [OF False]
    by (rule codes_intros persisted_equalities | simp add: n d)+
  then show ?thesis .
qed

lemma codes_ProcessSnapshotFields [codes_intros]:
  "codes (writeProcessSnapshot v) readProcessSnapshotFields v"
  unfolding writeProcessSnapshot_def readProcessSnapshotFields_def by (rule codes_intros persisted_equalities | simp)+

lemma codes_ProcessSnapshot [codes_intros]:
  "validateProcessRunSnapshot v \<Longrightarrow> codes (writeProcessSnapshot v) readProcessSnapshot v"
  unfolding readProcessSnapshot_def by (rule codes_intros)+

lemma codes_Runtime [codes_intros]:
  "codes (writeRuntime v) readRuntime v"
  unfolding writeRuntime_def readRuntime_def by (rule codes_intros persisted_equalities | simp)+

lemma codes_Manual [codes_intros]:
  "doublesOfManualPlan v \<Longrightarrow> mpr_runId (mpl_values v) = runId \<Longrightarrow> codes (writeManual v) (readManual runId) v"
  unfolding writeManual_def readManual_def doublesOfManualPlan_def
  by (rule codes_intros persisted_equalities | simp)+

lemma codes_RoleEvidence [codes_intros]:
  "pred_option isDouble (rte_filteredCelsius v) \<Longrightarrow> codes (writeRoleEvidence v) readRoleEvidence v"
  unfolding writeRoleEvidence_def readRoleEvidence_def 
  by (rule codes_intros persisted_equalities | simp)+

lemma codes_CrossRoleEvidence [codes_intros]:
  "doublesOfEvidence v \<Longrightarrow> codes (writeCrossRoleEvidence v) readCrossRoleEvidence v"
  unfolding writeCrossRoleEvidence_def readCrossRoleEvidence_def doublesOfEvidence_def
  by (rule codes_intros persisted_equalities | simp)+

lemma codes_OptionalRoleEvidence [codes_intros]:
  "pred_option doublesOfRole v \<Longrightarrow> codes (writeOptionalRoleEvidence v) readOptionalRoleEvidence v"
  unfolding writeOptionalRoleEvidence_def readOptionalRoleEvidence_def
  by (rule codes_intros | simp add: doublesOfRole_def)+

lemma codes_FirstAfterRestartEvidence [codes_intros]:
  "pred_option doublesOfRole (far_air v) \<Longrightarrow> pred_option doublesOfRole (far_product v) \<Longrightarrow>
    pred_option doublesOfRole (far_cooling v) \<Longrightarrow> codes (writeFirstAfterRestartEvidence v) readFirstAfterRestartEvidence v"
  unfolding writeFirstAfterRestartEvidence_def readFirstAfterRestartEvidence_def by (rule codes_intros persisted_equalities | simp)+

lemma codes_RecoveryEpisodeEvidence [codes_intros]:
  "doublesOfEpisode v \<Longrightarrow> codes (writeRecoveryEpisodeEvidence v) readRecoveryEpisodeEvidence v"
  unfolding writeRecoveryEpisodeEvidence_def readRecoveryEpisodeEvidence_def doublesOfEpisode_def
  by (rule codes_intros persisted_equalities | simp)+

lemma codes_OptionalRecoveryEpisodeEvidence [codes_intros]:
  "pred_option doublesOfEpisode v \<Longrightarrow> codes (writeOptionalRecoveryEpisodeEvidence v) readOptionalRecoveryEpisodeEvidence v"
  unfolding writeOptionalRecoveryEpisodeEvidence_def readOptionalRecoveryEpisodeEvidence_def
  by (rule codes_intros | simp)+

lemma codes_PendingRecoveryAnchor [codes_intros]:
  "codes (writePendingRecoveryAnchor v) readPendingRecoveryAnchor v"
  unfolding writePendingRecoveryAnchor_def readPendingRecoveryAnchor_def by (rule codes_intros persisted_equalities | simp)+

lemma codes_OptionalPendingRecoveryAnchor [codes_intros]:
  "codes (writeOptionalPendingRecoveryAnchor v) readOptionalPendingRecoveryAnchor v"
  unfolding writeOptionalPendingRecoveryAnchor_def readOptionalPendingRecoveryAnchor_def
  by (rule codes_intros | simp)+

lemma codes_TaggedPriorBootPhaseElapsed [codes_intros]:
  "codes (writeTaggedPriorBootPhaseElapsed v) readTaggedPriorBootPhaseElapsed v"
  unfolding writeTaggedPriorBootPhaseElapsed_def readTaggedPriorBootPhaseElapsed_def by (rule codes_intros persisted_equalities | simp)+

lemma codes_OptionalTaggedPriorBootPhaseElapsed [codes_intros]:
  "codes (writeOptionalTaggedPriorBootPhaseElapsed v) readOptionalTaggedPriorBootPhaseElapsed v"
  unfolding writeOptionalTaggedPriorBootPhaseElapsed_def readOptionalTaggedPriorBootPhaseElapsed_def
  by (rule codes_intros | simp)+

lemma codes_NominalRecoveryAdjustmentState [codes_intros]:
  "codes (writeNominalRecoveryAdjustmentState v) readNominalRecoveryAdjustmentState v"
  unfolding writeNominalRecoveryAdjustmentState_def readNominalRecoveryAdjustmentState_def by (rule codes_intros persisted_equalities | simp)+

lemma codes_OptionalNominalRecoveryAdjustmentState [codes_intros]:
  "codes (writeOptionalNominalRecoveryAdjustmentState v) readOptionalNominalRecoveryAdjustmentState v"
  unfolding writeOptionalNominalRecoveryAdjustmentState_def readOptionalNominalRecoveryAdjustmentState_def
  by (rule codes_intros | simp)+

lemma codes_WeightedProgressProvenance [codes_intros]:
  "codes (writeWeightedProgressProvenance v) readWeightedProgressProvenance v"
  unfolding writeWeightedProgressProvenance_def readWeightedProgressProvenance_def by (rule codes_intros persisted_equalities | simp)+

lemma codes_OptionalWeightedProgressProvenance [codes_intros]:
  "codes (writeOptionalWeightedProgressProvenance v) readOptionalWeightedProgressProvenance v"
  unfolding writeOptionalWeightedProgressProvenance_def readOptionalWeightedProgressProvenance_def
  by (rule codes_intros | simp)+

lemma codes_WeightedProgressState [codes_intros]:
  "codes (writeWeightedProgressState v) readWeightedProgressState v"
  unfolding writeWeightedProgressState_def readWeightedProgressState_def by (rule codes_intros persisted_equalities | simp)+

lemma codes_OptionalWeightedProgressState [codes_intros]:
  "codes (writeOptionalWeightedProgressState v) readOptionalWeightedProgressState v"
  unfolding writeOptionalWeightedProgressState_def readOptionalWeightedProgressState_def
  by (rule codes_intros | simp)+

lemma codes_RunProgressState [codes_intros]:
  "codes (writeRunProgressState v) readRunProgressState v"
  unfolding writeRunProgressState_def readRunProgressState_def by (rule codes_intros persisted_equalities | simp)+

lemma codes_PlannerParameterFields [codes_intros]:
  "isDouble (par_counterDirectionQuoteThreshold v) \<Longrightarrow> codes (writePlannerParameterFields v) readPlannerParameterFields v"
  unfolding writePlannerParameterFields_def readPlannerParameterFields_def by (rule codes_intros persisted_equalities | simp)+

lemma codes_OptionalActuatorPlannerParameters [codes_intros]:
  assumes "\<And>p. v = Some p \<Longrightarrow> isDouble (par_counterDirectionQuoteThreshold p)"
  shows "codes (writeOptionalActuatorPlannerParameters v) readOptionalActuatorPlannerParameters v"
  unfolding writeOptionalActuatorPlannerParameters_def readOptionalActuatorPlannerParameters_def
proof (rule codes_optional)
  fix p assume "v = Some p"
  with assms have "isDouble (par_counterDirectionQuoteThreshold p)" .
  then show "codes (if validParameters p then writePlannerParameterFields p else writeFail)
      (readCheck validParameters readPlannerParameterFields) p"
    by (cases "validParameters p") (simp_all add: codes_check codes_PlannerParameterFields codes_fail)
qed

end
