(* ===== verification/RunPersistenceCodec.thy ===== *)
theory RunPersistenceCodec
  imports RunCheckpointCodec
begin

text \<open>
  The payload of a checkpoint (\<open>run_persistence_codec.cpp\<close>). The encoder writes the current schema; the
  decoder reads the schemas 1 to 6 into a destination: it resets the optional parts of the
  destination, then fills it part by part. The arrays of the destination keep their elements past the
  number that was read. What a failed decoder leaves in its destination is not used by its callers.
\<close>

datatype RunPersistenceCodecStatus =
    RPC_InvalidSnapshot | RPC_CapacityExceeded | RPC_Truncated | RPC_TrailingBytes
  | RPC_InvalidWireValue | RPC_UnsupportedSchema

definition kMaximumCheckpointPayloadBytes :: nat where
  "kMaximumCheckpointPayloadBytes = kMaximumRunPersistencePayloadBytes"

definition kSensorSelectionFieldIntroducedInSchema :: u32 where
  "kSensorSelectionFieldIntroducedInSchema = 2"

definition kRecoveryFieldsIntroducedInSchema :: u32 where
  "kRecoveryFieldsIntroducedInSchema = 3"

definition encodeProgramDocumentPayload :: "ProgramDocument \<Rightarrow> ConfigurationCodecStatus + bytes" where
  "encodeProgramDocumentPayload = encodeSingleProgramDocumentPayload"

definition decodeProgramDocumentPayload :: "bytes \<Rightarrow> ConfigurationCodecStatus + ProgramDocument" where
  "decodeProgramDocumentPayload = decodeSingleProgramDocumentPayload"

section \<open>Encoder\<close>

definition headerWrites :: "RunPersistenceSnapshot \<Rightarrow> writer list" where
  "headerWrites s =
     [writeEnum_RunCheckpointVariant (rsn_variant s), writeEnum_RunCheckpointTrigger (rsn_trigger s),
      writeUint64 (rsn_checkpointMonotonicMillis s), writeUint16 (rsn_intervalMinutes s),
      writeUint32 (rsn_runRevision s), writeString (stringBytes (rsn_activeRunId s))]"

definition selectionWrites :: "RunPersistenceSnapshot \<Rightarrow> writer list" where
  "selectionWrites s =
     (if rsn_variant s \<noteq> RCV_NoActiveRun then
        [writeEnum_RunSensorMode (the (rsn_activeRunSensorMode s)),
         writeOptional writePersistedSensorSelectionState (rsn_sensorSelection s)]
      else [])"

definition programWrites :: "RunProgramSnapshot \<Rightarrow> writer list" where
  "programWrites p =
     (if rps_sourceKind p = PSK_ManualTimed then
        [writeEnum_ProgramSourceKind (rps_sourceKind p),
         writeOptionalTag (rps_sourceProgramRevision p \<noteq> None),
         (case (rps_sourceProgramRevision p, rps_source p) of
            (None, PRS_ManualTimed source) \<Rightarrow> writeManualTimedSource source
          | _ \<Rightarrow> writeFail)]
      else
        [writeEnum_ProgramSourceKind (rps_sourceKind p),
         writeOptionalTag (rps_sourceProgramRevision p \<noteq> None),
         (case rps_sourceProgramRevision p of Some revision \<Rightarrow> writeUint64 revision
          | None \<Rightarrow> writeFail),
         (case rps_source p of
            PRS_Program d \<Rightarrow>
              (case encodeProgramDocumentPayload d of Inr program \<Rightarrow> writeString program
               | Inl _ \<Rightarrow> writeFail)
          | PRS_ManualTimed _ \<Rightarrow> writeFail)])"

definition runWrites :: "RunPersistenceSnapshot \<Rightarrow> writer list" where
  "runWrites s =
     (if rsn_variant s = RCV_ProgramRun then
        programWrites (the (rsn_program s)) @
        [writeUint8 (of_nat (rsn_revisionCount s)),
         writeAll (map writeRevision (take (rsn_revisionCount s) (rsn_revisions s)))]
      else if rsn_variant s = RCV_ManualRun then [writeManual (the (rsn_manual s))]
      else [])"

definition processWrites :: "RunPersistenceSnapshot \<Rightarrow> writer list" where
  "processWrites s =
     (if rsn_variant s \<noteq> RCV_NoActiveRun
      then [writeProcessSnapshot (the (rsn_processRunSnapshot s))] else []) @
     [writeRuntime (rsn_processState s), writeUint8 (of_nat (rsn_persistedRunCommandCount s)),
      writeAll (map writeUint64
        (take (rsn_persistedRunCommandCount s) (rsn_persistedRunCommandIds s)))]"

definition recoveryWrites :: "RunPersistenceSnapshot \<Rightarrow> writer list" where
  "recoveryWrites s =
     [writeOptionalPendingRecoveryAnchor (rsn_pendingRecoveryAnchor s),
      writeOptionalUint64 (rsn_recoveryBootAnchorMonotonicMillis s),
      writeCrossRoleEvidence (rtv_lastKnown (rsn_recoveryTemperatureEvidence s)),
      writeOptionalRecoveryEpisodeEvidence (rsn_lastRecoveryEpisodeEvidence s),
      writeOptionalTaggedPriorBootPhaseElapsed (rsn_priorBootPhaseElapsed s),
      writeOptionalNominalRecoveryAdjustmentState (rsn_nominalRecoveryAdjustment s),
      writeUint32 (rsn_recoveryEpisodeRevision s), writeRunProgressState (rsn_runProgress s)] @
     (if rsn_variant s = RCV_NoActiveRun then []
      else [writeOptionalActuatorPlannerParameters (rsn_actuatorPlannerParametersSnapshot s)])"

definition encodeRunPersistenceSnapshot ::
  "RunPersistenceSnapshot \<Rightarrow> RunPersistenceCodecStatus + bytes" where
  "encodeRunPersistenceSnapshot s =
     (if \<not> validateRunPersistenceSnapshot s then Inl RPC_InvalidSnapshot
      else case writeAll (headerWrites s @ selectionWrites s @ runWrites s @ processWrites s @
          recoveryWrites s) (newWriter kMaximumCheckpointPayloadBytes) of
        (ok, w) \<Rightarrow> if ok then Inr (bw_buffer w) else Inl RPC_CapacityExceeded)"

section \<open>Decoder\<close>

type_synonym 'a part = "(RunPersistenceCodecStatus, 'a) parser"

definition initialCrossRoleEvidence :: CrossRoleEvidence where
  "initialCrossRoleEvidence =
     (let role = \<lparr>rte_filteredCelsius = None, rte_quality = SQ_Stale\<rparr> in
      \<lparr>cre_air = role, cre_product = role, cre_cooling = role\<rparr>)"

definition initialRunPersistenceSnapshot :: RunPersistenceSnapshot where
  "initialRunPersistenceSnapshot =
     \<lparr>rsn_variant = RCV_NoActiveRun, rsn_trigger = RCT_Command, rsn_checkpointMonotonicMillis = 0,
      rsn_intervalMinutes = kDefaultRunCheckpointIntervalMinutes, rsn_activeRunId = [],
      rsn_activeRunSensorMode = None, rsn_sensorSelection = None, rsn_program = None,
      rsn_revisions = replicate kMaximumRunRevisions emptyRunRevision, rsn_revisionCount = 0,
      rsn_manual = None, rsn_processRunSnapshot = None,
      rsn_actuatorPlannerParametersSnapshot = None,
      rsn_processState = initialProcessRuntimeState, rsn_runRevision = 0,
      rsn_persistedRunCommandIds = replicate kMaximumPersistedRunCommandIds 0,
      rsn_persistedRunCommandCount = 0, rsn_pendingRecoveryAnchor = None,
      rsn_recoveryBootAnchorMonotonicMillis = None,
      rsn_recoveryTemperatureEvidence = \<lparr>rtv_lastKnown = initialCrossRoleEvidence\<rparr>,
      rsn_lastRecoveryEpisodeEvidence = None, rsn_priorBootPhaseElapsed = None,
      rsn_nominalRecoveryAdjustment = None, rsn_recoveryEpisodeRevision = 0,
      rsn_runProgress = initialRunProgress\<rparr>"

definition resetDestination :: "RunPersistenceSnapshot \<Rightarrow> RunPersistenceSnapshot" where
  "resetDestination d = d
     \<lparr>rsn_activeRunId := [], rsn_activeRunSensorMode := None, rsn_sensorSelection := None,
      rsn_program := None, rsn_revisionCount := 0, rsn_manual := None,
      rsn_processRunSnapshot := None, rsn_actuatorPlannerParametersSnapshot := None,
      rsn_pendingRecoveryAnchor := None, rsn_recoveryBootAnchorMonotonicMillis := None,
      rsn_recoveryTemperatureEvidence := \<lparr>rtv_lastKnown = initialCrossRoleEvidence\<rparr>,
      rsn_lastRecoveryEpisodeEvidence := None, rsn_priorBootPhaseElapsed := None,
      rsn_nominalRecoveryAdjustment := None, rsn_recoveryEpisodeRevision := 0,
      rsn_runProgress := initialRunProgress\<rparr>"

definition decodeHeader :: "RunPersistenceSnapshot \<Rightarrow> RunPersistenceSnapshot part" where
  "decodeHeader s =
     orFail RPC_InvalidWireValue readVariant (\<lambda>variant.
     orFail RPC_InvalidWireValue readTrigger (\<lambda>trigger.
     orFail RPC_Truncated readUint64 (\<lambda>millis.
     orFail RPC_Truncated readUint16 (\<lambda>interval.
     orFail RPC_Truncated readUint32 (\<lambda>revision.
     orFail RPC_Truncated (readString 48) (\<lambda>runId.
       parseReturn (s\<lparr>rsn_variant := variant, rsn_trigger := trigger,
         rsn_checkpointMonotonicMillis := millis, rsn_intervalMinutes := interval,
         rsn_runRevision := revision, rsn_activeRunId := bytesString runId\<rparr>)))))))"

definition legacySensorSelection :: PersistedSensorSelectionState where
  "legacySensorSelection =
     \<lparr>per_provenance = SPV_LegacyUnknown, per_lastDecisionCause = SDC_None,
      per_lastDecisionRunRevision = 0\<rparr>"

definition decodeSelection :: "u32 \<Rightarrow> RunPersistenceSnapshot \<Rightarrow> RunPersistenceSnapshot part" where
  "decodeSelection schemaVersion s =
     (if rsn_variant s \<noteq> RCV_NoActiveRun then
        orFail RPC_InvalidWireValue readSensor (\<lambda>mode.
          if schemaVersion \<ge> kSensorSelectionFieldIntroducedInSchema then
            orFail RPC_InvalidWireValue (readOptional readPersistedSensorSelectionState) (\<lambda>selection.
              parseReturn (s\<lparr>rsn_activeRunSensorMode := Some mode, rsn_sensorSelection := selection\<rparr>))
          else parseReturn (s\<lparr>rsn_activeRunSensorMode := Some mode,
            rsn_sensorSelection := Some legacySensorSelection\<rparr>))
      else parseReturn s)"

text \<open>The source of a program run: a stored document, or the values of a timed manual run.\<close>

definition decodeStoredSource :: "ProgramSourceKind \<Rightarrow> u64 \<Rightarrow> RunProgramSnapshot part" where
  "decodeStoredSource kind revision =
     orFail RPC_InvalidWireValue (readString kMaximumCheckpointPayloadBytes) (\<lambda>program.
       case decodeProgramDocumentPayload program of
         Inl _ \<Rightarrow> parseFail RPC_InvalidWireValue
       | Inr d \<Rightarrow> parseReturn \<lparr>rps_source = PRS_Program d, rps_sourceKind = kind,
           rps_sourceProgramRevision = Some revision\<rparr>)"

definition decodeProgramSource :: "RunProgramSnapshot part" where
  "decodeProgramSource =
     orFail RPC_InvalidWireValue readProgramSource (\<lambda>kind.
     orFail RPC_InvalidWireValue readOptionalTag (\<lambda>revisionPresent.
       if revisionPresent then
         orFail RPC_InvalidWireValue (readCheck (\<lambda>r. r \<noteq> 0) readUint64) (\<lambda>revision.
           if kind = PSK_ManualTimed then parseFail RPC_InvalidWireValue
           else decodeStoredSource kind revision)
       else if kind = PSK_ManualTimed then
         orFail RPC_InvalidWireValue readManualTimedSource (\<lambda>source.
           parseReturn \<lparr>rps_source = PRS_ManualTimed source, rps_sourceKind = kind,
             rps_sourceProgramRevision = None\<rparr>)
       else parseFail RPC_InvalidWireValue))"

definition decodeLegacyProgramSource :: "u32 \<Rightarrow> RunProgramSnapshot part" where
  "decodeLegacyProgramSource schemaVersion =
     orFail RPC_Truncated
       (if schemaVersion \<ge> 4 then readUint64
        else readThen readUint32 (\<lambda>legacy. readReturn (ucast legacy))) (\<lambda>revision.
       if revision = 0 then parseFail RPC_InvalidWireValue
       else orFail RPC_InvalidWireValue (readCheck (\<lambda>kind. kind \<noteq> PSK_ManualTimed) readProgramSource)
         (\<lambda>kind. decodeStoredSource kind revision))"

definition decodeRun :: "u32 \<Rightarrow> RunPersistenceSnapshot \<Rightarrow> RunPersistenceSnapshot part" where
  "decodeRun schemaVersion s =
     (if rsn_variant s = RCV_ProgramRun then
        parseThen (if schemaVersion \<ge> 5 then decodeProgramSource
          else decodeLegacyProgramSource schemaVersion) (\<lambda>p.
        orFail RPC_InvalidWireValue (readCheck (\<lambda>n. unat n \<le> kMaximumRunRevisions) readUint8)
          (\<lambda>count.
        orFail RPC_InvalidWireValue (readTimes (unat count) readRevision) (\<lambda>revisions.
          parseReturn (s\<lparr>rsn_program := Some p, rsn_revisionCount := unat count,
            rsn_revisions := revisions @ drop (unat count) (rsn_revisions s)\<rparr>))))
      else if rsn_variant s = RCV_ManualRun then
        orFail RPC_InvalidWireValue (readManual (rsn_activeRunId s)) (\<lambda>plan.
          parseReturn (s\<lparr>rsn_manual := Some plan\<rparr>))
      else parseReturn s)"

definition decodeProcess :: "RunPersistenceSnapshot \<Rightarrow> RunPersistenceSnapshot part" where
  "decodeProcess s =
     parseThen
       (if rsn_variant s \<noteq> RCV_NoActiveRun then
          orFail RPC_InvalidWireValue readProcessSnapshot (\<lambda>p. parseReturn (Some p))
        else parseReturn (rsn_processRunSnapshot s)) (\<lambda>p.
     orFail RPC_InvalidWireValue readRuntime (\<lambda>runtime.
     orFail RPC_InvalidWireValue (readCheck (\<lambda>n. unat n \<le> kMaximumPersistedRunCommandIds) readUint8)
       (\<lambda>count.
     orFail RPC_Truncated (readTimes (unat count) readUint64) (\<lambda>ids.
       parseReturn (s\<lparr>rsn_processRunSnapshot := p, rsn_processState := runtime,
         rsn_persistedRunCommandCount := unat count,
         rsn_persistedRunCommandIds :=
           ids @ drop (unat count) (rsn_persistedRunCommandIds s)\<rparr>)))))"

text \<open>An active run of an older schema starts with an unknown history.\<close>

definition decodeRecovery :: "u32 \<Rightarrow> RunPersistenceSnapshot \<Rightarrow> RunPersistenceSnapshot part" where
  "decodeRecovery schemaVersion s =
     (if schemaVersion \<ge> kRecoveryFieldsIntroducedInSchema then
        orFail RPC_InvalidWireValue readOptionalPendingRecoveryAnchor (\<lambda>anchor.
        orFail RPC_InvalidWireValue readOptionalUint64 (\<lambda>bootAnchor.
        orFail RPC_InvalidWireValue readCrossRoleEvidence (\<lambda>lastKnown.
        orFail RPC_InvalidWireValue readOptionalRecoveryEpisodeEvidence (\<lambda>episode.
        orFail RPC_InvalidWireValue readOptionalTaggedPriorBootPhaseElapsed (\<lambda>prior.
        orFail RPC_InvalidWireValue readOptionalNominalRecoveryAdjustmentState (\<lambda>adjustment.
        orFail RPC_InvalidWireValue readUint32 (\<lambda>revision.
        orFail RPC_InvalidWireValue readRunProgressState (\<lambda>progress.
          parseReturn (s\<lparr>rsn_pendingRecoveryAnchor := anchor,
            rsn_recoveryBootAnchorMonotonicMillis := bootAnchor,
            rsn_recoveryTemperatureEvidence := \<lparr>rtv_lastKnown = lastKnown\<rparr>,
            rsn_lastRecoveryEpisodeEvidence := episode, rsn_priorBootPhaseElapsed := prior,
            rsn_nominalRecoveryAdjustment := adjustment, rsn_recoveryEpisodeRevision := revision,
            rsn_runProgress := progress\<rparr>)))))))))
      else if rsn_variant s \<noteq> RCV_NoActiveRun then
        parseReturn (s\<lparr>rsn_runProgress := (rsn_runProgress s)
          \<lparr>rpg_basis := RPB_PartialUnknownHistory,
           rpg_weightedProgress := Some \<lparr>wps_cumulative =
               \<lparr>wpb_lowerBoundSeconds = 0, wpb_upperBoundSeconds = None\<rparr>,
             wps_coverage = WPV_PartialUnknown, wps_lastApplied = None\<rparr>\<rparr>\<rparr>)
      else parseReturn s)"

definition decodeParameters :: "u32 \<Rightarrow> RunPersistenceSnapshot \<Rightarrow> RunPersistenceSnapshot part" where
  "decodeParameters schemaVersion s =
     (if schemaVersion \<ge> 6 \<and> rsn_variant s \<noteq> RCV_NoActiveRun then
        orFail RPC_InvalidWireValue readOptionalActuatorPlannerParameters (\<lambda>p.
          parseReturn (s\<lparr>rsn_actuatorPlannerParametersSnapshot := p\<rparr>))
      else parseReturn s)"

definition decodeParts :: "u32 \<Rightarrow> RunPersistenceSnapshot \<Rightarrow> RunPersistenceSnapshot part" where
  "decodeParts schemaVersion s =
     parseThen (decodeHeader s) (\<lambda>s. parseThen (decodeSelection schemaVersion s) (\<lambda>s.
     parseThen (decodeRun schemaVersion s) (\<lambda>s. parseThen (decodeProcess s) (\<lambda>s.
     parseThen (decodeRecovery schemaVersion s) (decodeParameters schemaVersion)))))"

definition decodeRunPersistenceSnapshotInto ::
  "bytes \<Rightarrow> u32 \<Rightarrow> RunPersistenceSnapshot \<Rightarrow> RunPersistenceCodecStatus + RunPersistenceSnapshot" where
  "decodeRunPersistenceSnapshotInto payload schemaVersion destination =
     (if length payload > kMaximumCheckpointPayloadBytes then Inl RPC_CapacityExceeded
      else case decodeParts schemaVersion (resetDestination destination) (newReader payload) of
        Inl st \<Rightarrow> Inl st
      | Inr (s, r) \<Rightarrow>
          if remaining r \<noteq> 0 then Inl RPC_TrailingBytes
          else if \<not> validateRunPersistenceSnapshotForSchema s schemaVersion
          then Inl RPC_InvalidWireValue
          else Inr s)"

definition decodeRunPersistenceSnapshot ::
  "bytes \<Rightarrow> u32 \<Rightarrow> RunPersistenceCodecStatus + RunPersistenceSnapshot" where
  "decodeRunPersistenceSnapshot payload schemaVersion =
     decodeRunPersistenceSnapshotInto payload schemaVersion initialRunPersistenceSnapshot"

end
