(* ===== verification/ProgramDocumentProofs.thy ===== *)
theory ProgramDocumentProofs
  imports ProgramDocumentCodec RunProofs
begin

text \<open>
  A program that can be run is written in a payload that the reader turns back into the same
  document, provided its texts are no longer than the reader accepts.
\<close>

lemma masked_present:
  assumes "m AND fieldMask f \<noteq> 0"
  shows "m AND fieldMask f = fieldMask f"
proof -
  have "bit m (programFieldBit f)"
  proof (rule ccontr)
    assume "\<not> bit m (programFieldBit f)"
    then have "m AND fieldMask f = 0"
      by (intro bit_word_eqI) (auto simp: fieldMask_def bit_simps)
    with assms show False by simp
  qed
  then show ?thesis by (intro bit_word_eqI) (auto simp: fieldMask_def bit_simps)
qed

lemma masked_or: "m AND a = a \<Longrightarrow> m AND b = b \<Longrightarrow> m AND (a OR b) = (a OR b :: u64)"
  by (simp add: bit.conj_disj_distrib)

lemma fields_status:
  assumes "validateFields schema = []" and "psm_version schema = kCurrentProgramSchemaVersion"
  shows "programSchemaStatus schema = CCS_Success"
proof -
  have "\<forall>(f, n)\<in>set kRequiredFields. psm_presentFields schema AND fieldMask f \<noteq> 0"
    and known: "psm_presentFields schema AND NOT kCurrentKnownProgramFields = 0"
    using assms(1) by (auto simp: validateFields_def errorIf_Nil)
  then have "psm_presentFields schema AND fieldMask f = fieldMask f"
    if "f \<in> fst ` set kRequiredFields" for f
    using that by (intro masked_present) auto
  then have "psm_presentFields schema AND kCurrentRequiredProgramFields = kCurrentRequiredProgramFields"
    unfolding kCurrentRequiredProgramFields_def kSchema5RequiredProgramFields_def
      kSchema4RequiredProgramFields_def kSchema3RequiredProgramFields_def
    by (intro masked_or) (simp_all add: kRequiredFields_def)
  with known show ?thesis
    using assms(2) by (simp add: programSchemaStatus_def Let_def kCurrentProgramSchemaVersion_def
        kMinimumMigratableProgramSchemaVersion_def kProductWaitFieldIntroducedInSchema_def)
qed

text \<open>How much a step of the sizing adds at most.\<close>

definition grows :: "nat \<Rightarrow> sizing \<Rightarrow> bool" where
  "grows k f \<longleftrightarrow> (\<forall>s n. f s = Inr n \<longrightarrow> n \<le> s + k)"

lemma grows_addSize: "grows n (addSize n)"
  by (auto simp: grows_def addSize_def checkedAddSize_def split: option.splits if_splits)

lemma grows_Nil: "grows 0 (addSizes [])"
  by (simp add: grows_def)

lemma grows_Cons:
  assumes "grows a f" and "grows b (addSizes fs)"
  shows "grows (a + b) (addSizes (f # fs))"
  unfolding grows_def
proof (intro allI impI)
  fix s n assume "addSizes (f # fs) s = Inr n"
  then obtain m where "f s = Inr m" "addSizes fs m = Inr n" by (cases "f s") auto
  with assms have "m \<le> s + a" "n \<le> m + b" by (auto simp: grows_def)
  then show "n \<le> s + (a + b)" by simp
qed

lemma grows_mono: "grows a f \<Longrightarrow> a \<le> b \<Longrightarrow> grows b f"
  unfolding grows_def by (meson add_left_mono le_trans)

lemma grows_guarded: "grows k f \<Longrightarrow> grows k (\<lambda>s. if c then Inl e else f s)"
  by (simp add: grows_def)

lemma grows_option: "grows (1 + n) (addOptionalPayloadSize present n)"
proof -
  have "grows (1 + (n + 0)) (addSizes [addSize 1, addSize n])"
    by (intro grows_Cons grows_addSize grows_Nil)
  moreover have "grows (1 + 0) (addSizes [addSize 1])"
    by (intro grows_Cons grows_addSize grows_Nil)
  ultimately show ?thesis
    unfolding addOptionalPayloadSize_def by (cases present) (auto elim: grows_mono)
qed

lemma grows_string: "length v \<le> n \<Longrightarrow> grows (2 + n) (addStringPayloadSize v)"
proof -
  assume n: "length v \<le> n"
  have "grows (2 + (length v + 0)) (addSizes [addSize 2, addSize (length v)])"
    by (intro grows_Cons grows_addSize grows_Nil)
  then have "grows (2 + (length v + 0)) (\<lambda>s. addStringPayloadSize v s)"
    unfolding addStringPayloadSize_def by (rule grows_guarded)
  then show ?thesis using n by (auto elim: grows_mono)
qed

lemma grows_tail: "grows k (addSizes xs) \<Longrightarrow> grows k (addSizes (if c then xs else []))"
  by (cases c) (auto simp: grows_def)

lemmas grows_intros = grows_Cons grows_Nil grows_tail grows_addSize grows_option

lemma grows_identity:
  assumes "readableTexts (doc_program d)"
  shows "grows 1210 (addProgramIdentityAndFlagsPayloadSize d)"
proof -
  have t: "grows (2 + kMaximumProgramIdBytes) (addStringPayloadSize (stringBytes (pd_id (doc_program d))))"
    "grows (2 + kMaximumVisibleNameBytes) (addStringPayloadSize (stringBytes (pd_name (doc_program d))))"
    "grows (2 + kMaximumNotesBytes) (addStringPayloadSize (stringBytes (pd_notes (doc_program d))))"
    by (rule grows_string, use assms in \<open>simp add: readableTexts_def\<close>)+
  show ?thesis
    unfolding addProgramIdentityAndFlagsPayloadSize_def Let_def append_Cons append_Nil
    by (rule grows_mono, (rule t grows_intros)+)
      (simp add: kMaximumProgramIdBytes_def kMaximumVisibleNameBytes_def kMaximumNotesBytes_def)
qed

lemma grows_stages:
  assumes "pd_fermentationStages (doc_program d) = [stage]"
  shows "grows 45 (addProgramStagesAndLimitsPayloadSize d)"
proof -
  have s: "grows 14 (addStagePayloadSize stage)"
    unfolding addStagePayloadSize_def by (rule grows_mono, (rule grows_intros)+) simp
  have "grows 45 (\<lambda>s. addProgramStagesAndLimitsPayloadSize d s)"
    unfolding addProgramStagesAndLimitsPayloadSize_def Let_def assms list.map append_Cons append_Nil
    by (rule grows_guarded, rule grows_mono, (rule s grows_intros)+) simp
  then show ?thesis .
qed

lemma payload_bounded:
  assumes "addProgramPayloadSize d 0 = Inr n" and "readableTexts (doc_program d)"
    and "pd_fermentationStages (doc_program d) = [stage]"
  shows "n \<le> 1270"
proof -
  have "grows 1270 (\<lambda>s. addProgramPayloadSize d s)"
    unfolding addProgramPayloadSize_def Let_def
    by (rule grows_guarded, rule grows_mono,
      (rule grows_identity [OF assms(2)] grows_stages [OF assms(3)] grows_intros)+) simp
  with assms(1) show ?thesis unfolding grows_def by fastforce
qed

lemma program_payload_decodes:
  assumes "encodeSingleProgramDocumentPayload d = Inr bs"
    and "readableTexts (doc_program d)" and "doublesOfProgram (doc_program d)"
  shows "decodeSingleProgramDocumentPayload bs = Inr d \<and> length bs \<le> 1270"
proof -
  from assms(1) obtain n w where valid: "programIsValid d VP_Runnable"
    and n: "addProgramPayloadSize d 0 = Inr n" "n = length bs"
    and w: "writeProgram d (newWriter n) = (True, w)" "bw_buffer w = bs"
    unfolding encodeSingleProgramDocumentPayload_def
    by (auto split: if_splits sum.splits prod.splits)
  from valid have schema: "psm_version (doc_schema d) = kCurrentProgramSchemaVersion"
    "validateFields (doc_schema d) = []"
    by (auto simp: programIsValid_def validateProgram_def addError_def split: if_splits)
  obtain stage where stage: "pd_fermentationStages (doc_program d) = [stage]"
    using runnable_one_stage [OF valid] by blast
  have "decodes (writeProgram d) readProgram d"
    by (rule decodes_program [OF fields_status [OF schema(2,1)] schema(1) stage assms(2,3)])
  from decodes_payload(1) [OF this w(1)] w(2) obtain r
    where "readProgram (newReader bs) = Inr (d, r)" "remaining r = 0" by blast
  with payload_bounded [OF n(1) assms(2) stage] n(2) show ?thesis
    by (simp add: decodeSingleProgramDocumentPayload_def kMaximumProgramCatalogPayloadBytes_def)
qed

end
