(* ===== verification/RunPersistenceCodecProofs.thy ===== *)
theory RunPersistenceCodecProofs
  imports RunPersistenceCodec ProgramDocumentProofs
begin

text \<open>
  A valid checkpoint is read back as it was written: each part of the payload is decoded to the fields
  it was written from, and the parts compose.
\<close>

lemma decodes_fail: "decodes (writeAll (writeFail # fs)) p v"
  by (simp add: decodes_def writeFail_def andThen_def)

section \<open>The parts\<close>

lemma decodes_header:
  assumes "length (rsn_activeRunId s) \<le> 48"
  shows "decodes (writeAll (headerWrites s)) (decodeHeader t)
    (t\<lparr>rsn_variant := rsn_variant s, rsn_trigger := rsn_trigger s,
       rsn_checkpointMonotonicMillis := rsn_checkpointMonotonicMillis s,
       rsn_intervalMinutes := rsn_intervalMinutes s, rsn_runRevision := rsn_runRevision s,
       rsn_activeRunId := rsn_activeRunId s\<rparr>)"
  unfolding headerWrites_def decodeHeader_def
  by (rule decodes_seq decodes_ret codes_intros | simp add: assms)+

lemma decodes_selection:
  assumes "rsn_variant t = rsn_variant s"
    and "rsn_variant s \<noteq> RCV_NoActiveRun \<Longrightarrow> rsn_activeRunSensorMode s = Some mode"
  shows "decodes (writeAll (selectionWrites s)) (decodeSelection 6 t)
    (if rsn_variant s \<noteq> RCV_NoActiveRun then t\<lparr>rsn_activeRunSensorMode := Some mode,
       rsn_sensorSelection := rsn_sensorSelection s\<rparr> else t)"
proof (cases "rsn_variant s = RCV_NoActiveRun")
  case True
  then show ?thesis unfolding selectionWrites_def decodeSelection_def assms(1)
    by (simp add: decodes_ret)
next
  case False
  then show ?thesis using assms(2)
    unfolding selectionWrites_def decodeSelection_def assms(1)
    by (simp add: kSensorSelectionFieldIntroducedInSchema_def)
      (rule decodes_seq decodes_ret codes_intros | simp)+
qed

definition readableProgram :: "RunProgramSnapshot \<Rightarrow> bool" where
  "readableProgram p \<longleftrightarrow>
     (case rps_source p of
        PRS_Program d \<Rightarrow> readableTexts (doc_program d) \<and> doublesOfProgram (doc_program d)
      | PRS_ManualTimed m \<Rightarrow> doublesOfManualSource m)"

lemma decodes_stored:
  assumes "readableTexts (doc_program d)" and "doublesOfProgram (doc_program d)"
  shows "decodes (writeAll [case encodeProgramDocumentPayload d of Inr program \<Rightarrow> writeString program
       | Inl _ \<Rightarrow> writeFail]) (decodeStoredSource kind revision)
    \<lparr>rps_source = PRS_Program d, rps_sourceKind = kind, rps_sourceProgramRevision = Some revision\<rparr>"
proof (cases "encodeProgramDocumentPayload d")
  case (Inl st)
  then show ?thesis by (simp add: decodes_fail)
next
  case (Inr program)
  then have d: "decodeProgramDocumentPayload program = Inr d"
    and n: "length program \<le> kMaximumCheckpointPayloadBytes"
    using program_payload_decodes [OF _ assms]
    by (simp_all add: encodeProgramDocumentPayload_def decodeProgramDocumentPayload_def
        kMaximumCheckpointPayloadBytes_def kMaximumRunPersistencePayloadBytes_def)
  show ?thesis unfolding decodeStoredSource_def Inr sum.case
    by (rule decodes_seq decodes_ret codes_string n | simp add: d)+
qed

definition sourceConsistent :: "RunProgramSnapshot \<Rightarrow> bool" where
  "sourceConsistent p \<longleftrightarrow>
     (case rps_source p of
        PRS_Program d \<Rightarrow> rps_sourceKind p \<noteq> PSK_ManualTimed \<and>
          (\<exists>r. rps_sourceProgramRevision p = Some r \<and> r \<noteq> 0)
      | PRS_ManualTimed m \<Rightarrow> rps_sourceKind p = PSK_ManualTimed \<and>
          rps_sourceProgramRevision p = None)"

lemma decodes_source:
  assumes "sourceConsistent p" and "readableProgram p"
  shows "decodes (writeAll (programWrites p)) decodeProgramSource p"
proof (cases "rps_source p")
  case (PRS_Program d)
  with assms obtain r where r: "rps_sourceProgramRevision p = Some r" "r \<noteq> 0"
    "rps_sourceKind p \<noteq> PSK_ManualTimed"
    and t: "readableTexts (doc_program d)" "doublesOfProgram (doc_program d)"
    by (auto simp: sourceConsistent_def readableProgram_def)
  have p: "p = \<lparr>rps_source = PRS_Program d, rps_sourceKind = rps_sourceKind p,
      rps_sourceProgramRevision = Some r\<rparr>"
    using PRS_Program r(1) by simp
  have w: "programWrites p = [writeEnum_ProgramSourceKind (rps_sourceKind p), writeOptionalTag True,
      writeUint64 r, (case encodeProgramDocumentPayload d of Inr program \<Rightarrow> writeString program
               | Inl _ \<Rightarrow> writeFail)]"
    using PRS_Program r by (simp add: programWrites_def)
  have "decodes (writeAll (programWrites p)) decodeProgramSource
      \<lparr>rps_source = PRS_Program d, rps_sourceKind = rps_sourceKind p,
        rps_sourceProgramRevision = Some r\<rparr>"
    unfolding w decodeProgramSource_def
    by (rule decodes_seq codes_intros decodes_stored [OF t] | simp add: r)+
  with p show ?thesis by simp
next
  case (PRS_ManualTimed m)
  with assms have r: "rps_sourceKind p = PSK_ManualTimed" "rps_sourceProgramRevision p = None"
    and d: "doublesOfManualSource m"
    by (auto simp: sourceConsistent_def readableProgram_def)
  have p: "p = \<lparr>rps_source = PRS_ManualTimed m, rps_sourceKind = PSK_ManualTimed,
      rps_sourceProgramRevision = None\<rparr>"
    using PRS_ManualTimed r by simp
  have w: "programWrites p = [writeEnum_ProgramSourceKind PSK_ManualTimed, writeOptionalTag False,
      writeManualTimedSource m]"
    using PRS_ManualTimed r by (simp add: programWrites_def)
  have "decodes (writeAll (programWrites p)) decodeProgramSource
      \<lparr>rps_source = PRS_ManualTimed m, rps_sourceKind = PSK_ManualTimed,
        rps_sourceProgramRevision = None\<rparr>"
    unfolding w decodeProgramSource_def
    by (rule decodes_seq decodes_ret codes_intros d | simp)+
  with p show ?thesis by simp
qed

lemma byte_count: "n \<le> 255 \<Longrightarrow> unat (of_nat n :: u8) = n"
  by (simp add: unat_of_nat)

lemma decodes_run:
  assumes v: "rsn_variant t = rsn_variant s" "rsn_activeRunId t = rsn_activeRunId s"
    and p: "rsn_variant s = RCV_ProgramRun \<Longrightarrow> rsn_program s = Some p \<and> sourceConsistent p \<and>
      readableProgram p \<and> rsn_revisionCount s \<le> kMaximumRunRevisions \<and>
      rsn_revisionCount s \<le> length (rsn_revisions s) \<and>
      (\<forall>r\<in>set (take (rsn_revisionCount s) (rsn_revisions s)). doublesOfRevision r)"
    and m: "rsn_variant s = RCV_ManualRun \<Longrightarrow> rsn_manual s = Some m \<and> doublesOfManualPlan m \<and>
      mpr_runId (mpl_values m) = rsn_activeRunId s"
  shows "decodes (writeAll (runWrites s)) (decodeRun 6 t)
    (case rsn_variant s of
       RCV_ProgramRun \<Rightarrow> t\<lparr>rsn_program := rsn_program s, rsn_revisionCount := rsn_revisionCount s,
         rsn_revisions := take (rsn_revisionCount s) (rsn_revisions s) @
           drop (rsn_revisionCount s) (rsn_revisions t)\<rparr>
     | RCV_ManualRun \<Rightarrow> t\<lparr>rsn_manual := rsn_manual s\<rparr>
     | RCV_NoActiveRun \<Rightarrow> t)"
proof (cases "rsn_variant s")
  case RCV_ProgramRun
  note p = p [OF RCV_ProgramRun]
  let ?n = "rsn_revisionCount s"
  have n: "unat (of_nat ?n :: u8) = ?n" "?n \<le> kMaximumRunRevisions"
    using p by (auto intro!: byte_count simp: kMaximumRunRevisions_def)
  define q :: "RunProgramSnapshot \<Rightarrow> RunPersistenceSnapshot part" where
    "q = (\<lambda>p. orFail RPC_InvalidWireValue (readCheck (\<lambda>n. unat n \<le> kMaximumRunRevisions) readUint8)
        (\<lambda>count. orFail RPC_InvalidWireValue (readTimes (unat count) readRevision) (\<lambda>revisions.
          parseReturn (t\<lparr>rsn_program := Some p, rsn_revisionCount := unat count,
            rsn_revisions := revisions @ drop (unat count) (rsn_revisions t)\<rparr>))))"
  have "decodes (writeAll [writeUint8 (of_nat ?n), writeAll (map writeRevision (take ?n (rsn_revisions s)))])
      (q p) (t\<lparr>rsn_program := Some p, rsn_revisionCount := ?n,
         rsn_revisions := take ?n (rsn_revisions s) @ drop ?n (rsn_revisions t)\<rparr>)"
    unfolding q_def by (rule decodes_seq decodes_ret codes_intros | use p in \<open>simp add: n\<close>)+
  with p have "decodes (writeAll (programWrites p @ [writeUint8 (of_nat ?n),
        writeAll (map writeRevision (take ?n (rsn_revisions s)))])) (parseThen decodeProgramSource q)
      (t\<lparr>rsn_program := Some p, rsn_revisionCount := ?n,
         rsn_revisions := take ?n (rsn_revisions s) @ drop ?n (rsn_revisions t)\<rparr>)"
    by (intro decodes_then) (simp_all add: decodes_source)
  then show ?thesis using p v(1) RCV_ProgramRun by (simp add: runWrites_def decodeRun_def q_def)
next
  case RCV_ManualRun
  note m = m [OF RCV_ManualRun]
  have "decodes (writeAll [writeManual m])
      (orFail RPC_InvalidWireValue (readManual (rsn_activeRunId s)) (\<lambda>plan.
          parseReturn (t\<lparr>rsn_manual := Some plan\<rparr>))) (t\<lparr>rsn_manual := Some m\<rparr>)"
    by (rule decodes_seq decodes_ret codes_intros | use m in simp)+
  then show ?thesis using m v RCV_ManualRun by (simp add: runWrites_def decodeRun_def)
next
  case RCV_NoActiveRun
  then show ?thesis using v by (simp add: runWrites_def decodeRun_def decodes_ret)
qed

lemma decodes_process:
  assumes v: "rsn_variant t = rsn_variant s"
    and p: "rsn_variant s \<noteq> RCV_NoActiveRun \<Longrightarrow>
      rsn_processRunSnapshot s = Some p \<and> validateProcessRunSnapshot p"
    and no: "rsn_variant s = RCV_NoActiveRun \<Longrightarrow> rsn_processRunSnapshot t = rsn_processRunSnapshot s"
    and n: "rsn_persistedRunCommandCount s \<le> kMaximumPersistedRunCommandIds"
      "rsn_persistedRunCommandCount s \<le> length (rsn_persistedRunCommandIds s)"
  shows "decodes (writeAll (processWrites s)) (decodeProcess t)
    (t\<lparr>rsn_processRunSnapshot := rsn_processRunSnapshot s, rsn_processState := rsn_processState s,
       rsn_persistedRunCommandCount := rsn_persistedRunCommandCount s,
       rsn_persistedRunCommandIds :=
         take (rsn_persistedRunCommandCount s) (rsn_persistedRunCommandIds s) @
         drop (rsn_persistedRunCommandCount s) (rsn_persistedRunCommandIds t)\<rparr>)"
proof -
  let ?n = "rsn_persistedRunCommandCount s"
  have c: "unat (of_nat ?n :: u8) = ?n"
    using n by (intro byte_count) (simp add: kMaximumPersistedRunCommandIds_def)
  show ?thesis
  proof (cases "rsn_variant s = RCV_NoActiveRun")
    case True
    then show ?thesis unfolding processWrites_def decodeProcess_def
      by (simp add: v no parser_simps)
        (rule decodes_seq decodes_ret codes_intros | simp add: c n True no)+
  next
    case False
    note p = p [OF False]
    show ?thesis using False unfolding processWrites_def decodeProcess_def
      by (simp add: v p parser_simps)
        (rule decodes_seq decodes_ret codes_intros | use p in \<open>simp add: c n\<close>)+
  qed
qed

definition doublesOfRecovery :: "RunPersistenceSnapshot \<Rightarrow> bool" where
  "doublesOfRecovery s \<longleftrightarrow>
     doublesOfEvidence (rtv_lastKnown (rsn_recoveryTemperatureEvidence s)) \<and>
     pred_option doublesOfEpisode (rsn_lastRecoveryEpisodeEvidence s) \<and>
     pred_option (\<lambda>p. isDouble (par_counterDirectionQuoteThreshold p))
       (rsn_actuatorPlannerParametersSnapshot s)"

lemma decodes_recovery:
  assumes v: "rsn_variant t = rsn_variant s" and d: "doublesOfRecovery s"
    and no: "rsn_variant s = RCV_NoActiveRun \<Longrightarrow>
      rsn_actuatorPlannerParametersSnapshot t = rsn_actuatorPlannerParametersSnapshot s"
  shows "decodes (writeAll (recoveryWrites s)) (parseThen (decodeRecovery 6 t) (decodeParameters 6))
    (t\<lparr>rsn_pendingRecoveryAnchor := rsn_pendingRecoveryAnchor s,
       rsn_recoveryBootAnchorMonotonicMillis := rsn_recoveryBootAnchorMonotonicMillis s,
       rsn_recoveryTemperatureEvidence := rsn_recoveryTemperatureEvidence s,
       rsn_lastRecoveryEpisodeEvidence := rsn_lastRecoveryEpisodeEvidence s,
       rsn_priorBootPhaseElapsed := rsn_priorBootPhaseElapsed s,
       rsn_nominalRecoveryAdjustment := rsn_nominalRecoveryAdjustment s,
       rsn_recoveryEpisodeRevision := rsn_recoveryEpisodeRevision s,
       rsn_runProgress := rsn_runProgress s,
       rsn_actuatorPlannerParametersSnapshot := rsn_actuatorPlannerParametersSnapshot s\<rparr>)"
proof -
  have d: "doublesOfEvidence (rtv_lastKnown (rsn_recoveryTemperatureEvidence s))"
    "pred_option doublesOfEpisode (rsn_lastRecoveryEpisodeEvidence s)"
    "rsn_actuatorPlannerParametersSnapshot s = Some p \<Longrightarrow> isDouble (par_counterDirectionQuoteThreshold p)"
    for p using d by (simp_all add: doublesOfRecovery_def)
  have e: "\<lparr>rtv_lastKnown = rtv_lastKnown (rsn_recoveryTemperatureEvidence s)\<rparr> =
      rsn_recoveryTemperatureEvidence s" by simp
  show ?thesis
  proof (cases "rsn_variant s = RCV_NoActiveRun")
    case True
    show ?thesis unfolding recoveryWrites_def decodeRecovery_def decodeParameters_def
      by (simp add: v True kRecoveryFieldsIntroducedInSchema_def parser_simps)
        (rule decodes_seq decodes_ret codes_intros | use no [OF True] in \<open>simp add: d\<close>)+
  next
    case False
    show ?thesis unfolding recoveryWrites_def decodeRecovery_def decodeParameters_def
      by (simp add: v False kRecoveryFieldsIntroducedInSchema_def parser_simps)
        (rule decodes_seq decodes_ret codes_intros | simp add: d)+
  qed
qed

section \<open>The whole payload\<close>

definition readableSnapshot :: "RunPersistenceSnapshot \<Rightarrow> bool" where
  "readableSnapshot s \<longleftrightarrow>
     doublesOfRecovery s \<and> pred_option readableProgram (rsn_program s) \<and>
     (\<forall>r\<in>set (take (rsn_revisionCount s) (rsn_revisions s)). doublesOfRevision r) \<and>
     pred_option doublesOfManualPlan (rsn_manual s) \<and>
     rsn_revisionCount s \<le> length (rsn_revisions s) \<and>
     rsn_persistedRunCommandCount s \<le> length (rsn_persistedRunCommandIds s)"

text \<open>The written fields over the arrays of a destination.\<close>

definition writtenOver :: "RunPersistenceSnapshot \<Rightarrow> RunPersistenceSnapshot \<Rightarrow> RunPersistenceSnapshot" where
  "writtenOver t s = s
     \<lparr>rsn_revisions := take (rsn_revisionCount s) (rsn_revisions s) @
        drop (rsn_revisionCount s) (rsn_revisions t),
      rsn_persistedRunCommandIds :=
        take (rsn_persistedRunCommandCount s) (rsn_persistedRunCommandIds s) @
        drop (rsn_persistedRunCommandCount s) (rsn_persistedRunCommandIds t)\<rparr>"

lemma writtenOver_sel [simp]:
  "rsn_variant (writtenOver t s) = rsn_variant s"
  "rsn_checkpointMonotonicMillis (writtenOver t s) = rsn_checkpointMonotonicMillis s"
  "rsn_intervalMinutes (writtenOver t s) = rsn_intervalMinutes s"
  "rsn_activeRunId (writtenOver t s) = rsn_activeRunId s"
  "rsn_activeRunSensorMode (writtenOver t s) = rsn_activeRunSensorMode s"
  "rsn_sensorSelection (writtenOver t s) = rsn_sensorSelection s"
  "rsn_program (writtenOver t s) = rsn_program s"
  "rsn_revisionCount (writtenOver t s) = rsn_revisionCount s"
  "rsn_manual (writtenOver t s) = rsn_manual s"
  "rsn_processRunSnapshot (writtenOver t s) = rsn_processRunSnapshot s"
  "rsn_actuatorPlannerParametersSnapshot (writtenOver t s) = rsn_actuatorPlannerParametersSnapshot s"
  "rsn_processState (writtenOver t s) = rsn_processState s"
  "rsn_runRevision (writtenOver t s) = rsn_runRevision s"
  "rsn_persistedRunCommandCount (writtenOver t s) = rsn_persistedRunCommandCount s"
  "rsn_pendingRecoveryAnchor (writtenOver t s) = rsn_pendingRecoveryAnchor s"
  "rsn_recoveryBootAnchorMonotonicMillis (writtenOver t s) = rsn_recoveryBootAnchorMonotonicMillis s"
  "rsn_lastRecoveryEpisodeEvidence (writtenOver t s) = rsn_lastRecoveryEpisodeEvidence s"
  "rsn_priorBootPhaseElapsed (writtenOver t s) = rsn_priorBootPhaseElapsed s"
  "rsn_nominalRecoveryAdjustment (writtenOver t s) = rsn_nominalRecoveryAdjustment s"
  "rsn_recoveryTemperatureEvidence (writtenOver t s) = rsn_recoveryTemperatureEvidence s"
  "rsn_recoveryEpisodeRevision (writtenOver t s) = rsn_recoveryEpisodeRevision s"
  "rsn_trigger (writtenOver t s) = rsn_trigger s"
  "rsn_runProgress (writtenOver t s) = rsn_runProgress s"
  by (simp_all add: writtenOver_def)

lemma validateRunProgramSnapshotInto_cong:
  "(\<And>i. i < n \<Longrightarrow> revs ! i = revs' ! i) \<Longrightarrow>
    validateRunProgramSnapshotInto p revs n = validateRunProgramSnapshotInto p revs' n"
  using checkRevisions_cong [of n revs revs' p]
  by (simp add: validateRunProgramSnapshotInto_def split: option.split)

lemma writtenOver_valid:
  assumes "rsn_revisionCount s \<le> length (rsn_revisions s)"
    and "rsn_persistedRunCommandCount s \<le> length (rsn_persistedRunCommandIds s)"
  shows "validateRunPersistenceSnapshot (writtenOver t s) = validateRunPersistenceSnapshot s"
proof -
  have ids: "validIds (writtenOver t s) = validIds s"
    using assms(2) by (simp add: validIds_def) (simp add: writtenOver_def)
  have "validPendingRecoveryAnchorContext (writtenOver t s) = validPendingRecoveryAnchorContext s"
    "validPriorBootPhaseElapsedTag (writtenOver t s) = validPriorBootPhaseElapsedTag s"
    "noActiveRunHasNoRecoveryFields (writtenOver t s) = noActiveRunHasNoRecoveryFields s"
    unfolding validPendingRecoveryAnchorContext_def validPriorBootPhaseElapsedTag_def
        noActiveRunHasNoRecoveryFields_def writtenOver_sel by (rule refl)+
  then have recovery: "validRecoveryFieldsForSnapshot (writtenOver t s) = validRecoveryFieldsForSnapshot s"
    unfolding validRecoveryFieldsForSnapshot_def writtenOver_sel by simp
  have revs: "validateRunProgramSnapshotInto p (rsn_revisions (writtenOver t s)) (rsn_revisionCount s) =
      validateRunProgramSnapshotInto p (rsn_revisions s) (rsn_revisionCount s)" for p
    using assms(1) by (intro validateRunProgramSnapshotInto_cong) (simp add: writtenOver_def nth_append)
  have program: "validProgramPart (writtenOver t s) p = validProgramPart s p" for p
    unfolding validProgramPart_def writtenOver_sel revs by (rule refl)
  have manual: "validManualPart (writtenOver t s) p m = validManualPart s p m" for p m
    unfolding validManualPart_def writtenOver_sel by simp
  have "validActivePart (writtenOver t s) = validActivePart s"
    unfolding validActivePart_def writtenOver_sel recovery program manual by (rule refl)
  then show ?thesis unfolding validateRunPersistenceSnapshot_def writtenOver_sel ids recovery by simp
qed

lemma accepted_source:
  assumes "validateRunProgramSnapshotInto p revs n = Some v"
  shows "sourceConsistent p"
proof -
  have k: "rps_sourceKind p = programSourceKind (rps_source p)"
    and "makeInitialEffectiveRunValues (rps_source p) (rps_sourceProgramRevision p) \<noteq> None"
    using assms by (auto simp: validateRunProgramSnapshotInto_def split: if_splits option.splits)
  then show ?thesis
    by (auto simp: sourceConsistent_def makeInitialEffectiveRunValues_def Let_def programSourceKind_def
        split: ProgramRunSource.splits if_splits)
qed

lemma valid_parts:
  assumes "validateRunPersistenceSnapshot s"
  shows "length (rsn_activeRunId s) \<le> 48"
    "rsn_persistedRunCommandCount s \<le> kMaximumPersistedRunCommandIds"
    "rsn_variant s = RCV_NoActiveRun \<Longrightarrow> rsn_activeRunId s = [] \<and> rsn_activeRunSensorMode s = None \<and>
       rsn_sensorSelection s = None \<and> rsn_program s = None \<and> rsn_revisionCount s = 0 \<and>
       rsn_manual s = None \<and> rsn_processRunSnapshot s = None \<and>
       rsn_actuatorPlannerParametersSnapshot s = None"
    "rsn_variant s \<noteq> RCV_NoActiveRun \<Longrightarrow> rsn_activeRunSensorMode s \<noteq> None \<and>
       (\<exists>p. rsn_processRunSnapshot s = Some p \<and> validateProcessRunSnapshot p)"
    "rsn_variant s = RCV_ProgramRun \<Longrightarrow> rsn_manual s = None \<and>
       rsn_revisionCount s \<le> kMaximumRunRevisions \<and>
       (\<exists>p. rsn_program s = Some p \<and> sourceConsistent p)"
    "rsn_variant s = RCV_ManualRun \<Longrightarrow> rsn_program s = None \<and> rsn_revisionCount s = 0 \<and>
       (\<exists>m. rsn_manual s = Some m \<and> mpr_runId (mpl_values m) = rsn_activeRunId s)"
proof -
  have runtime: "validateProcessRuntimeForCheckpoint st (Some p) now \<Longrightarrow> validateProcessRunSnapshot p"
    for st p now by (auto simp: validateProcessRuntimeForCheckpoint_def split: if_splits)
  have active: "validActivePart s" if "rsn_variant s \<noteq> RCV_NoActiveRun"
    using assms that by (simp add: validateRunPersistenceSnapshot_def split: if_splits)
  show none: "rsn_variant s = RCV_NoActiveRun \<Longrightarrow> rsn_activeRunId s = [] \<and> rsn_activeRunSensorMode s = None \<and>
       rsn_sensorSelection s = None \<and> rsn_program s = None \<and> rsn_revisionCount s = 0 \<and>
       rsn_manual s = None \<and> rsn_processRunSnapshot s = None \<and>
       rsn_actuatorPlannerParametersSnapshot s = None"
    using assms by (simp add: validateRunPersistenceSnapshot_def split: if_splits)
  show "rsn_persistedRunCommandCount s \<le> kMaximumPersistedRunCommandIds"
    using assms by (simp add: validateRunPersistenceSnapshot_def validIds_def split: if_splits)
  show "length (rsn_activeRunId s) \<le> 48"
  proof (cases "rsn_variant s = RCV_NoActiveRun")
    case True
    then show ?thesis using none by simp
  next
    case False
    then show ?thesis using active
      by (auto simp: validActivePart_def validRunId_def kMaximumRunIdBytes_def
          split: option.splits if_splits)
  qed
  show "rsn_variant s = RCV_ProgramRun \<Longrightarrow> rsn_manual s = None \<and>
       rsn_revisionCount s \<le> kMaximumRunRevisions \<and>
       (\<exists>p. rsn_program s = Some p \<and> sourceConsistent p)"
    using active
    by (auto simp: validActivePart_def validProgramPart_def dest: accepted_source
        split: option.splits if_splits)
  show "rsn_variant s = RCV_ManualRun \<Longrightarrow> rsn_program s = None \<and> rsn_revisionCount s = 0 \<and>
       (\<exists>m. rsn_manual s = Some m \<and> mpr_runId (mpl_values m) = rsn_activeRunId s)"
    using active
    by (auto simp: validActivePart_def validManualPart_def split: option.splits if_splits)
  show "rsn_variant s \<noteq> RCV_NoActiveRun \<Longrightarrow> rsn_activeRunSensorMode s \<noteq> None \<and>
       (\<exists>p. rsn_processRunSnapshot s = Some p \<and> validateProcessRunSnapshot p)"
    using active
    by (auto simp: validActivePart_def validManualPart_def validProgramPart_def dest: runtime
        split: option.splits if_splits)
qed

theorem snapshot_payload_decodes:
  assumes "encodeRunPersistenceSnapshot s = Inr bs" and r: "readableSnapshot s"
  shows "decodeRunPersistenceSnapshotInto bs 6 t = Inr (writtenOver t s) \<and>
    length bs \<le> kMaximumRunPersistencePayloadBytes"
proof -
  define fs where "fs = headerWrites s @ selectionWrites s @ runWrites s @ processWrites s @ recoveryWrites s"
  from assms(1) obtain w where valid: "validateRunPersistenceSnapshot s"
    and w: "writeAll fs (newWriter kMaximumCheckpointPayloadBytes) = (True, w)" "bw_buffer w = bs"
    by (auto simp: encodeRunPersistenceSnapshot_def fs_def split: if_splits prod.splits)
  note parts = valid_parts [OF valid]
  define mode where "mode = the (rsn_activeRunSensorMode s)"
  define p where "p = the (rsn_program s)"
  define m where "m = the (rsn_manual s)"
  define ps where "ps = the (rsn_processRunSnapshot s)"
  have prog: "rsn_variant s = RCV_ProgramRun \<Longrightarrow> rsn_program s = Some p \<and> sourceConsistent p \<and>
      readableProgram p \<and> rsn_revisionCount s \<le> kMaximumRunRevisions \<and>
      rsn_revisionCount s \<le> length (rsn_revisions s) \<and>
      (\<forall>r\<in>set (take (rsn_revisionCount s) (rsn_revisions s)). doublesOfRevision r)"
    using parts(5) r by (auto simp: p_def readableSnapshot_def)
  have man: "rsn_variant s = RCV_ManualRun \<Longrightarrow> rsn_manual s = Some m \<and> doublesOfManualPlan m \<and>
      mpr_runId (mpl_values m) = rsn_activeRunId s"
    using parts(6) r by (auto simp: m_def readableSnapshot_def)
  have proc: "rsn_variant s \<noteq> RCV_NoActiveRun \<Longrightarrow>
      rsn_processRunSnapshot s = Some ps \<and> validateProcessRunSnapshot ps"
    using parts(4) by (auto simp: ps_def)
  have sel: "rsn_variant s \<noteq> RCV_NoActiveRun \<Longrightarrow> rsn_activeRunSensorMode s = Some mode"
    using parts(4) by (auto simp: mode_def)
  have counts: "rsn_persistedRunCommandCount s \<le> kMaximumPersistedRunCommandIds"
    "rsn_persistedRunCommandCount s \<le> length (rsn_persistedRunCommandIds s)"
    "rsn_revisionCount s \<le> length (rsn_revisions s)" and rec: "doublesOfRecovery s"
    using parts(2) r by (simp_all add: readableSnapshot_def)
  have dec: "decodes (writeAll fs) (decodeParts 6 (resetDestination t)) (writtenOver t s)"
    unfolding fs_def decodeParts_def
    apply (rule decodes_result)
     apply (rule decodes_then, rule decodes_header [OF parts(1)])
     apply (rule decodes_then, rule decodes_selection [where mode = mode])
       apply simp
      apply (erule sel)
     apply (rule decodes_then, rule decodes_run [where p = p and m = m])
         apply simp
        apply simp
       apply (erule prog)
      apply (erule man)
     apply (rule decodes_then, rule decodes_process [where p = ps])
          apply (simp split: RunCheckpointVariant.split)
         apply (erule proc)
        apply (simp add: resetDestination_def parts(3))
       apply (rule counts)
      apply (rule counts)
     apply (rule decodes_recovery [OF _ rec])
      apply (simp split: RunCheckpointVariant.split)
     apply (simp add: resetDestination_def parts(3))
    by (cases "rsn_variant s") (use parts prog man proc sel in \<open>auto simp: writtenOver_def resetDestination_def
          intro!: RunPersistenceSnapshot.equality\<close>)
  have "knownRunPersistenceSchema 6"
    by (simp add: knownRunPersistenceSchema_def kCurrentRunPersistenceSchema_def)
  then have ok: "validateRunPersistenceSnapshotForSchema (writtenOver t s) 6"
    using writtenOver_valid [OF counts(3,2)] valid
    by (simp add: validateRunPersistenceSnapshotForSchema_def kActiveFaultIntroducedInSchema_def)
  from decodes_payload(1) [OF dec w(1)] w(2) obtain r
    where "decodeParts 6 (resetDestination t) (newReader bs) = Inr (writtenOver t s, r)" "remaining r = 0"
    by blast
  moreover have "length bs \<le> kMaximumCheckpointPayloadBytes"
    using decodes_payload(2) [OF dec w(1)] w(2) by simp
  ultimately show ?thesis using ok
    by (simp add: decodeRunPersistenceSnapshotInto_def kMaximumCheckpointPayloadBytes_def)
qed

end
