(* ===== verification/RunPersistenceRecords.thy ===== *)
theory RunPersistenceRecords
  imports RunPersistenceCodecProofs StorageProperties
begin

text \<open>
  The record of the head and the record of a checkpoint (second half of \<open>run_persistence_codec.cpp\<close>):
  references to checkpoint slots, the head in its two states, and the envelopes around both.
\<close>

definition kCheckpointRecordType :: u16 where "kCheckpointRecordType = 7"

definition kHeadRecordType :: u16 where "kHeadRecordType = 8"

definition kMaximumCheckpointRecordBytes :: nat where "kMaximumCheckpointRecordBytes = 8240"

definition kMaximumHeadRecordBytes :: nat where "kMaximumHeadRecordBytes = 256"

section \<open>Types\<close>

record RunCheckpointReference =
  ref_slot :: u8
  ref_schemaVersion :: u32
  ref_storageEpoch :: u64
  ref_checkpointRevision :: u64
  ref_payloadLength :: u32
  ref_payloadCrc :: u32
  ref_variant :: RunCheckpointVariant

datatype RunPersistenceHeadState = RHS_Prepared | RHS_Committed

datatype RunPersistenceMutationKind =
    RMK_Command | RMK_Transition | RMK_SensorSelection | RMK_Recovery

record RunPersistenceHead =
  hd_state :: RunPersistenceHeadState
  hd_revision :: u64
  hd_current :: RunCheckpointReference
  hd_fallback :: "RunCheckpointReference option"
  hd_preparedCurrent :: "RunCheckpointReference option"
  hd_preparedFallback :: "RunCheckpointReference option"
  hd_target :: RunCheckpointReference
  hd_mutationKind :: RunPersistenceMutationKind
  hd_commandId :: "u64 option"
  hd_commandIdHighWater :: "u64 option"
  hd_oldRunRevision :: u32
  hd_newRunRevision :: u32
  hd_oldTransitionSequence :: u32
  hd_newTransitionSequence :: u32
  hd_bytes :: bytes

definition initialReference :: RunCheckpointReference where
  "initialReference =
     \<lparr>ref_slot = 0, ref_schemaVersion = 0, ref_storageEpoch = 0, ref_checkpointRevision = 0,
      ref_payloadLength = 0, ref_payloadCrc = 0, ref_variant = RCV_NoActiveRun\<rparr>"

definition initialHead :: RunPersistenceHead where
  "initialHead =
     \<lparr>hd_state = RHS_Prepared, hd_revision = 0, hd_current = initialReference, hd_fallback = None,
      hd_preparedCurrent = None, hd_preparedFallback = None, hd_target = initialReference,
      hd_mutationKind = RMK_Command, hd_commandId = None, hd_commandIdHighWater = None,
      hd_oldRunRevision = 0, hd_newRunRevision = 0, hd_oldTransitionSequence = 0,
      hd_newTransitionSequence = 0, hd_bytes = []\<rparr>"

record RunPersistenceRawRecord =
  raw_bytes :: bytes
  raw_snapshot :: RunPersistenceSnapshot
  raw_checkpointRevision :: u64
  raw_utcUnixSeconds :: "64 word option"

section \<open>References\<close>

definition writeReference :: "RunCheckpointReference \<Rightarrow> writer" where
  "writeReference ref =
     writeAll
       [writeUint8 (ref_slot ref), writeUint32 (ref_schemaVersion ref),
        writeUint64 (ref_storageEpoch ref), writeUint64 (ref_checkpointRevision ref),
        writeUint32 (ref_payloadLength ref), writeUint32 (ref_payloadCrc ref),
        writeEnum_RunCheckpointVariant (ref_variant ref)]"

definition readReference :: "RunCheckpointReference read" where
  "readReference =
     readCheck (\<lambda>ref. knownRunPersistenceSchema (ref_schemaVersion ref) \<and>
       ref_storageEpoch ref \<noteq> 0 \<and> ref_checkpointRevision ref \<noteq> 0)
       (readThen (readCheck (\<lambda>slot. slot \<le> 1) readUint8) (\<lambda>slot.
        readThen readUint32 (\<lambda>schemaVersion. readThen readUint64 (\<lambda>epoch.
        readThen readUint64 (\<lambda>revision. readThen readUint32 (\<lambda>payloadLength.
        readThen readUint32 (\<lambda>payloadCrc. readThen readVariant (\<lambda>variant.
          readReturn \<lparr>ref_slot = slot, ref_schemaVersion = schemaVersion, ref_storageEpoch = epoch,
            ref_checkpointRevision = revision, ref_payloadLength = payloadLength,
            ref_payloadCrc = payloadCrc, ref_variant = variant\<rparr>))))))))"

definition validReference :: "RunCheckpointReference \<Rightarrow> u64 \<Rightarrow> bool" where
  "validReference ref epoch \<longleftrightarrow>
     \<not> (ref_slot ref > 1 \<or> \<not> knownRunPersistenceSchema (ref_schemaVersion ref) \<or>
        ref_storageEpoch ref \<noteq> epoch \<or> ref_checkpointRevision ref = 0 \<or>
        unat (ref_payloadLength ref) > kMaximumRunPersistencePayloadBytes)"

section \<open>Head\<close>

definition writeHeadState :: "RunPersistenceHeadState \<Rightarrow> writer" where
  "writeHeadState = writeEnum [(RHS_Prepared, 1), (RHS_Committed, 2)]"

definition readHeadState :: "RunPersistenceHeadState read" where
  "readHeadState = readEnum [(1, RHS_Prepared), (2, RHS_Committed)]"

definition writeMutationKind :: "RunPersistenceMutationKind \<Rightarrow> writer" where
  "writeMutationKind = writeEnum
     [(RMK_Command, 1), (RMK_Transition, 2), (RMK_SensorSelection, 3), (RMK_Recovery, 4)]"

definition readMutationKind :: "u32 \<Rightarrow> RunPersistenceMutationKind read" where
  "readMutationKind schemaVersion = readEnum
     ([(1, RMK_Command), (2, RMK_Transition), (3, RMK_SensorSelection)] @
      (if schemaVersion < 3 then [] else [(4, RMK_Recovery)]))"

definition writeOptionalCommandHighWater :: "u64 option \<Rightarrow> writer" where
  "writeOptionalCommandHighWater = writeOptional writeUint64"

definition readOptionalCommandHighWater :: "u64 option read" where
  "readOptionalCommandHighWater = readOptional readUint64"

definition validPreparedHead :: "RunPersistenceHead \<Rightarrow> u64 \<Rightarrow> bool" where
  "validPreparedHead head epoch =
     (if \<not> validReference (hd_target head) epoch \<or> hd_fallback head \<noteq> None \<or>
         ref_schemaVersion (hd_current head) \<noteq> 0 \<or>
         hd_newRunRevision head < hd_oldRunRevision head \<or>
         hd_newTransitionSequence head < hd_oldTransitionSequence head \<or>
         (hd_mutationKind head = RMK_Command) \<noteq> (hd_commandId head \<noteq> None) then False
      else if hd_commandId head = Some 0 then False
      else
        (let slotOfTarget = ref_slot (hd_target head);
             validFallback = (\<lambda>f. validReference f epoch);
             validSameSlotRecovery = (hd_mutationKind head = RMK_Recovery \<and>
               (case hd_preparedFallback head of None \<Rightarrow> False
                | Some f \<Rightarrow> validFallback f \<and> ref_slot f \<noteq> slotOfTarget)) in
         if (case hd_preparedCurrent head of None \<Rightarrow> False
             | Some c \<Rightarrow> \<not> validReference c epoch \<or>
                 (ref_slot c = slotOfTarget \<and> \<not> validSameSlotRecovery) \<or>
                 (ref_variant c = RCV_NoActiveRun \<and> hd_preparedFallback head \<noteq> None)) then False
         else if hd_preparedCurrent head = None \<and> slotOfTarget \<noteq> 0 then False
         else (case hd_preparedFallback head of None \<Rightarrow> True
           | Some f \<Rightarrow> (case hd_preparedCurrent head of None \<Rightarrow> False
               | Some c \<Rightarrow> validFallback f \<and> ref_slot f \<noteq> ref_slot c))))"

definition validCommittedHead :: "RunPersistenceHead \<Rightarrow> u64 \<Rightarrow> bool" where
  "validCommittedHead head epoch =
     (if \<not> validReference (hd_current head) epoch \<or> hd_preparedCurrent head \<noteq> None \<or>
         hd_preparedFallback head \<noteq> None \<or> ref_schemaVersion (hd_target head) \<noteq> 0 \<or>
         hd_commandId head \<noteq> None \<or> hd_oldRunRevision head \<noteq> 0 \<or> hd_newRunRevision head \<noteq> 0 \<or>
         hd_oldTransitionSequence head \<noteq> 0 \<or> hd_newTransitionSequence head \<noteq> 0 then False
      else if ref_variant (hd_current head) = RCV_NoActiveRun then hd_fallback head = None
      else (case hd_fallback head of None \<Rightarrow> True
        | Some f \<Rightarrow> validReference f epoch \<and> ref_slot f \<noteq> ref_slot (hd_current head)))"

text \<open>A condition in the middle of a chain of writes.\<close>

definition writeGuard :: "bool \<Rightarrow> writer" where
  "writeGuard c w = (c, w)"

definition preparedWrites :: "RunPersistenceHead \<Rightarrow> u64 \<Rightarrow> writer list" where
  "preparedWrites head epoch =
     [writeGuard (validPreparedHead head epoch),
      writeOptional writeReference (hd_preparedCurrent head),
      writeOptional writeReference (hd_preparedFallback head), writeReference (hd_target head),
      writeMutationKind (hd_mutationKind head),
      writeOptional (\<lambda>commandId. if commandId \<noteq> 0 then writeUint64 commandId else writeFail)
        (hd_commandId head),
      writeUint32 (hd_oldRunRevision head), writeUint32 (hd_newRunRevision head),
      writeUint32 (hd_oldTransitionSequence head), writeUint32 (hd_newTransitionSequence head),
      writeGuard (hd_newRunRevision head \<ge> hd_oldRunRevision head),
      writeGuard (hd_newTransitionSequence head \<ge> hd_oldTransitionSequence head),
      writeOptionalCommandHighWater (hd_commandIdHighWater head)]"

definition committedWrites :: "RunPersistenceHead \<Rightarrow> u64 \<Rightarrow> writer list" where
  "committedWrites head epoch =
     [writeGuard (validCommittedHead head epoch), writeReference (hd_current head),
      writeOptional writeReference (hd_fallback head),
      writeOptionalCommandHighWater (hd_commandIdHighWater head)]"

definition encodeRunPersistenceHead :: "RunPersistenceHead \<Rightarrow> u64 \<Rightarrow> bytes option" where
  "encodeRunPersistenceHead head epoch =
     (if hd_revision head = 0 \<or> epoch = 0 then None
      else case writeAll (writeHeadState (hd_state head) #
          (if hd_state head = RHS_Prepared then preparedWrites head epoch
           else committedWrites head epoch)) (newWriter 200) of
        (ok, w) \<Rightarrow>
          if \<not> ok then None
          else (case encodeEnvelope \<lparr>env_recordTypeId = kHeadRecordType,
              env_schemaVersion = kCurrentRunPersistenceSchema, env_storageEpoch = epoch,
              env_versionValue = hd_revision head, env_utcUnixSeconds = None,
              env_payload = bw_buffer w\<rparr> kMaximumHeadRecordBytes of
            (EES_Success, Some bs) \<Rightarrow> Some bs | _ \<Rightarrow> None))"

definition readPreparedHead :: "u32 \<Rightarrow> u64 \<Rightarrow> RunPersistenceHead \<Rightarrow> RunPersistenceHead read" where
  "readPreparedHead schemaVersion epoch head =
     readThen (readOptional readReference) (\<lambda>preparedCurrent.
     readThen (readOptional readReference) (\<lambda>preparedFallback.
     readThen readReference (\<lambda>target.
     readThen (readMutationKind schemaVersion) (\<lambda>kind.
     readThen (readOptional (readCheck (\<lambda>commandId. commandId \<noteq> 0) readUint64)) (\<lambda>commandId.
     readThen readUint32 (\<lambda>oldRevision. readThen readUint32 (\<lambda>newRevision.
     readThen readUint32 (\<lambda>oldSequence. readThen readUint32 (\<lambda>newSequence.
       (let head = head\<lparr>hd_preparedCurrent := preparedCurrent,
              hd_preparedFallback := preparedFallback, hd_target := target,
              hd_mutationKind := kind, hd_commandId := commandId,
              hd_oldRunRevision := oldRevision, hd_newRunRevision := newRevision,
              hd_oldTransitionSequence := oldSequence, hd_newTransitionSequence := newSequence\<rparr> in
        if newRevision < oldRevision \<or> newSequence < oldSequence \<or> \<not> validPreparedHead head epoch
        then readFail
        else readThen (if schemaVersion \<ge> 4 then readOptionalCommandHighWater else readReturn None)
          (\<lambda>highWater. readReturn (head\<lparr>hd_commandIdHighWater := highWater\<rparr>))))))))))))"

definition readCommittedHead :: "u32 \<Rightarrow> RunPersistenceHead \<Rightarrow> RunPersistenceHead read" where
  "readCommittedHead schemaVersion head =
     readThen readReference (\<lambda>current. readThen (readOptional readReference) (\<lambda>fallback.
     readThen (if schemaVersion \<ge> 4 then readOptionalCommandHighWater else readReturn None)
       (\<lambda>highWater. readReturn (head\<lparr>hd_current := current, hd_fallback := fallback,
          hd_commandIdHighWater := highWater\<rparr>))))"

definition readHeadFields :: "u32 \<Rightarrow> u64 \<Rightarrow> u64 \<Rightarrow> RunPersistenceHead read" where
  "readHeadFields schemaVersion epoch revision =
     readThen readHeadState (\<lambda>st.
       (let head = initialHead\<lparr>hd_revision := revision, hd_state := st\<rparr> in
        if st = RHS_Prepared then readPreparedHead schemaVersion epoch head
        else readCommittedHead schemaVersion head))"

definition knownEnvelope :: "u16 \<Rightarrow> u64 \<Rightarrow> StorageEnvelope \<Rightarrow> bool" where
  "knownEnvelope recordType epoch e \<longleftrightarrow>
     env_recordTypeId e = recordType \<and> knownRunPersistenceSchema (env_schemaVersion e) \<and>
     env_storageEpoch e = epoch \<and> env_versionValue e \<noteq> 0"

definition decodeRunPersistenceHead :: "bytes \<Rightarrow> u64 \<Rightarrow> RunPersistenceHead option" where
  "decodeRunPersistenceHead bs epoch =
     (case edr_envelope (decodeEnvelope bs) of
        None \<Rightarrow> None
      | Some e \<Rightarrow>
          if \<not> knownEnvelope kHeadRecordType epoch e then None
          else (case readHeadFields (env_schemaVersion e) epoch (env_versionValue e)
              (newReader (env_payload e)) of
            (None, _) \<Rightarrow> None
          | (Some head, r) \<Rightarrow>
              if remaining r \<noteq> 0 \<or>
                 (hd_state head = RHS_Committed \<and> \<not> validCommittedHead head epoch)
              then None else Some (head\<lparr>hd_bytes := bs\<rparr>)))"

section \<open>Checkpoint records\<close>

definition decodeRunPersistenceRecordInto ::
  "bytes \<Rightarrow> u64 \<Rightarrow> RunPersistenceRawRecord \<Rightarrow> RunPersistenceRawRecord option" where
  "decodeRunPersistenceRecordInto bs epoch destination =
     (case edr_envelope (decodeEnvelope bs) of
        None \<Rightarrow> None
      | Some e \<Rightarrow>
          if \<not> knownEnvelope kCheckpointRecordType epoch e then None
          else (case decodeRunPersistenceSnapshotInto (env_payload e) (env_schemaVersion e)
              (raw_snapshot destination) of
            Inl _ \<Rightarrow> None
          | Inr snapshot \<Rightarrow> Some \<lparr>raw_bytes = bs, raw_snapshot = snapshot,
              raw_checkpointRevision = env_versionValue e,
              raw_utcUnixSeconds = map_option word_of_int (env_utcUnixSeconds e)\<rparr>))"

definition runCheckpointReferenceMatches ::
  "RunCheckpointReference \<Rightarrow> RunPersistenceRawRecord \<Rightarrow> nat \<Rightarrow> bool" where
  "runCheckpointReferenceMatches ref rec slot =
     (case edr_envelope (decodeEnvelope (raw_bytes rec)) of
        None \<Rightarrow> False
      | Some e \<Rightarrow> unat (ref_slot ref) = slot \<and> ref_schemaVersion ref = env_schemaVersion e \<and>
          ref_storageEpoch ref = env_storageEpoch e \<and>
          ref_checkpointRevision ref = raw_checkpointRevision rec \<and>
          unat (ref_payloadLength ref) = length (env_payload e) \<and>
          ref_payloadCrc ref = computeCrc32IsoHdlc (env_payload e) \<and>
          ref_variant ref = rsn_variant (raw_snapshot rec))"

definition makeRunCheckpointReference ::
  "nat \<Rightarrow> RunPersistenceRawRecord \<Rightarrow> u64 \<Rightarrow> RunCheckpointReference" where
  "makeRunCheckpointReference slot rec epoch =
     (let e = the (edr_envelope (decodeEnvelope (raw_bytes rec))) in
      \<lparr>ref_slot = of_nat slot, ref_schemaVersion = env_schemaVersion e, ref_storageEpoch = epoch,
       ref_checkpointRevision = raw_checkpointRevision rec,
       ref_payloadLength = of_nat (length (env_payload e)),
       ref_payloadCrc = computeCrc32IsoHdlc (env_payload e),
       ref_variant = rsn_variant (raw_snapshot rec)\<rparr>)"

section \<open>Round trips\<close>

lemma codes_guard: "(c \<Longrightarrow> codes (writeAll fs) m v) \<Longrightarrow> codes (writeAll (writeGuard c # fs)) m v"
  by (cases c) (simp_all add: codes_def writeGuard_def andThen_def appends_def)

lemma codes_reference [codes_intros]:
  assumes "validReference ref epoch" and "epoch \<noteq> 0"
  shows "codes (writeReference ref) readReference ref"
proof -
  have v: "ref_slot ref \<le> 1" "knownRunPersistenceSchema (ref_schemaVersion ref)"
    "ref_storageEpoch ref \<noteq> 0" "ref_checkpointRevision ref \<noteq> 0"
    using assms by (auto simp: validReference_def)
  show ?thesis
    unfolding writeReference_def readReference_def
    by (rule codes_seq codes_check codes_ret codes_uint8 codes_uint32 codes_uint64
        codes_RunCheckpointVariant conjI v | simp)+
qed

lemma codes_head_state: "codes (writeHeadState v) readHeadState v"
  unfolding writeHeadState_def readHeadState_def by (rule codes_enum) (auto split: if_splits)

lemma codes_mutation_kind: "codes (writeMutationKind v) (readMutationKind 6) v"
  unfolding writeMutationKind_def readMutationKind_def by (rule codes_enum) (auto split: if_splits)

lemma codes_high_water: "codes (writeOptionalCommandHighWater v) readOptionalCommandHighWater v"
  unfolding writeOptionalCommandHighWater_def readOptionalCommandHighWater_def
  by (rule codes_intros)+

text \<open>What a head does not write has its initial value.\<close>

definition canonicalHead :: "RunPersistenceHead \<Rightarrow> bool" where
  "canonicalHead h \<longleftrightarrow>
     (if hd_state h = RHS_Prepared then hd_current h = initialReference
      else hd_target h = initialReference \<and> hd_mutationKind h = RMK_Command)"

lemma codes_optional_reference:
  "(\<And>r. v = Some r \<Longrightarrow> validReference r epoch) \<Longrightarrow> epoch \<noteq> 0 \<Longrightarrow>
    codes (writeOptional writeReference v) (readOptional readReference) v"
  by (rule codes_optional) (auto intro: codes_reference)

lemma prepared_references:
  assumes "validPreparedHead h epoch"
  shows "validReference (hd_target h) epoch" "hd_fallback h = None" "hd_commandId h \<noteq> Some 0"
    "hd_preparedCurrent h = Some c \<Longrightarrow> validReference c epoch"
    "hd_preparedFallback h = Some f \<Longrightarrow> validReference f epoch"
    "hd_oldRunRevision h \<le> hd_newRunRevision h"
    "hd_oldTransitionSequence h \<le> hd_newTransitionSequence h"
  using assms by (auto simp: validPreparedHead_def Let_def split: if_splits option.splits)

lemma committed_references:
  assumes "validCommittedHead h epoch"
  shows "validReference (hd_current h) epoch" "hd_preparedCurrent h = None"
    "hd_preparedFallback h = None" "hd_commandId h = None" "hd_oldRunRevision h = 0"
    "hd_newRunRevision h = 0" "hd_oldTransitionSequence h = 0" "hd_newTransitionSequence h = 0"
    "hd_fallback h = Some f \<Longrightarrow> validReference f epoch"
  using assms by (auto simp: validCommittedHead_def split: if_splits option.splits)

lemma validPreparedHead_cong:
  "validPreparedHead (h\<lparr>hd_commandIdHighWater := x, hd_bytes := y\<rparr>) epoch = validPreparedHead h epoch"
proof -
  let ?k = "h\<lparr>hd_commandIdHighWater := x, hd_bytes := y\<rparr>"
  have sel: "hd_target ?k = hd_target h" "hd_fallback ?k = hd_fallback h"
    "hd_current ?k = hd_current h" "hd_newRunRevision ?k = hd_newRunRevision h"
    "hd_oldRunRevision ?k = hd_oldRunRevision h"
    "hd_newTransitionSequence ?k = hd_newTransitionSequence h"
    "hd_oldTransitionSequence ?k = hd_oldTransitionSequence h"
    "hd_mutationKind ?k = hd_mutationKind h" "hd_commandId ?k = hd_commandId h"
    "hd_preparedFallback ?k = hd_preparedFallback h" "hd_preparedCurrent ?k = hd_preparedCurrent h"
    by simp_all
  show ?thesis unfolding validPreparedHead_def sel by (rule refl)
qed

lemma codes_prepared:
  assumes s: "hd_state h = RHS_Prepared" and c: "hd_current h = initialReference" and e: "epoch \<noteq> 0"
  shows "codes (writeAll (preparedWrites h epoch)) (readPreparedHead 6 epoch
    (initialHead\<lparr>hd_revision := hd_revision h, hd_state := RHS_Prepared\<rparr>)) (h\<lparr>hd_bytes := []\<rparr>)"
  unfolding preparedWrites_def
proof (rule codes_guard)
  assume v: "validPreparedHead h epoch"
  note r = prepared_references [OF v]
  define k where "k = initialHead
     \<lparr>hd_revision := hd_revision h, hd_state := RHS_Prepared,
      hd_preparedCurrent := hd_preparedCurrent h, hd_preparedFallback := hd_preparedFallback h,
      hd_target := hd_target h, hd_mutationKind := hd_mutationKind h, hd_commandId := hd_commandId h,
      hd_oldRunRevision := hd_oldRunRevision h, hd_newRunRevision := hd_newRunRevision h,
      hd_oldTransitionSequence := hd_oldTransitionSequence h,
      hd_newTransitionSequence := hd_newTransitionSequence h\<rparr>"
  have k: "k\<lparr>hd_commandIdHighWater := hd_commandIdHighWater h\<rparr> = h\<lparr>hd_bytes := []\<rparr>"
    by (rule RunPersistenceHead.equality) (simp_all add: k_def initialHead_def s c r(2))
  have "k = h\<lparr>hd_commandIdHighWater := None, hd_bytes := []\<rparr>"
    by (rule RunPersistenceHead.equality) (simp_all add: k_def initialHead_def s c r(2))
  then have vk: "validPreparedHead k epoch" using v validPreparedHead_cong by simp
  have id: "codes (writeOptional (\<lambda>commandId. if commandId \<noteq> 0 then writeUint64 commandId else writeFail)
      (hd_commandId h)) (readOptional (readCheck (\<lambda>commandId. commandId \<noteq> 0) readUint64)) (hd_commandId h)"
    using r(3) by (intro codes_optional) (auto intro!: codes_check codes_uint64)
  show "codes (writeAll [writeOptional writeReference (hd_preparedCurrent h),
      writeOptional writeReference (hd_preparedFallback h), writeReference (hd_target h),
      writeMutationKind (hd_mutationKind h),
      writeOptional (\<lambda>commandId. if commandId \<noteq> 0 then writeUint64 commandId else writeFail)
        (hd_commandId h),
      writeUint32 (hd_oldRunRevision h), writeUint32 (hd_newRunRevision h),
      writeUint32 (hd_oldTransitionSequence h), writeUint32 (hd_newTransitionSequence h),
      writeGuard (hd_newRunRevision h \<ge> hd_oldRunRevision h),
      writeGuard (hd_newTransitionSequence h \<ge> hd_oldTransitionSequence h),
      writeOptionalCommandHighWater (hd_commandIdHighWater h)]) (readPreparedHead 6 epoch
    (initialHead\<lparr>hd_revision := hd_revision h, hd_state := RHS_Prepared\<rparr>)) (h\<lparr>hd_bytes := []\<rparr>)"
    unfolding readPreparedHead_def Let_def
    apply (rule codes_seq, rule codes_optional_reference [OF r(4) e], assumption)
    apply (rule codes_seq, rule codes_optional_reference [OF r(5) e], assumption)
    apply (rule codes_seq, rule codes_reference [OF r(1) e])
    apply (rule codes_seq, rule codes_mutation_kind)
    apply (rule codes_seq, rule id)
    apply (rule codes_seq, rule codes_uint32)+
    apply (simp only: k_def [symmetric])
    apply (rule codes_guard)+
    apply (simp add: vk leD [OF r(6)] leD [OF r(7)])
    apply (rule codes_seq, rule codes_high_water)
    apply (rule codes_ret)
    by (rule k [symmetric])
qed

lemma codes_committed:
  assumes s: "hd_state h = RHS_Committed" and c: "hd_target h = initialReference"
    "hd_mutationKind h = RMK_Command" and e: "epoch \<noteq> 0"
  shows "codes (writeAll (committedWrites h epoch)) (readCommittedHead 6
    (initialHead\<lparr>hd_revision := hd_revision h, hd_state := RHS_Committed\<rparr>)) (h\<lparr>hd_bytes := []\<rparr>)"
  unfolding committedWrites_def
proof (rule codes_guard)
  assume v: "validCommittedHead h epoch"
  note r = committed_references [OF v]
  have k: "h\<lparr>hd_bytes := []\<rparr> = initialHead
     \<lparr>hd_revision := hd_revision h, hd_state := RHS_Committed, hd_current := hd_current h,
      hd_fallback := hd_fallback h, hd_commandIdHighWater := hd_commandIdHighWater h\<rparr>"
    by (rule RunPersistenceHead.equality) (simp_all add: initialHead_def s c r(2-8))
  show "codes (writeAll [writeReference (hd_current h), writeOptional writeReference (hd_fallback h),
      writeOptionalCommandHighWater (hd_commandIdHighWater h)]) (readCommittedHead 6
    (initialHead\<lparr>hd_revision := hd_revision h, hd_state := RHS_Committed\<rparr>)) (h\<lparr>hd_bytes := []\<rparr>)"
    unfolding readCommittedHead_def
    apply (rule codes_seq, rule codes_reference [OF r(1) e])
    apply (rule codes_seq, rule codes_optional_reference [OF r(9) e], assumption)
    apply simp
    apply (rule codes_seq, rule codes_high_water)
    apply (rule codes_ret)
    by (simp add: k)
qed

lemma codes_payload:
  assumes "codes f m v" and "f (newWriter n) = (True, w)"
  shows "\<exists>r. m (newReader (bw_buffer w)) = (Some v, r) \<and> remaining r = 0"
proof -
  from assms obtain bs where bs: "appends f (newWriter n) bs" "readsAs bs m v"
    unfolding codes_def by (metis fst_conv)
  then have b: "bw_buffer w = bs" using assms(2) by (simp add: appends_def newWriter_def)
  have "m (newReader bs) = (Some v, advance (length bs) (newReader bs))"
    using bs(2) unfolding readsAs_def by (auto simp: rest_def newReader_def)
  then show ?thesis using b by (simp add: remaining_def newReader_def)
qed

lemma head_decodes:
  assumes "encodeRunPersistenceHead h epoch = Some bs" and c: "canonicalHead h"
  shows "decodeRunPersistenceHead bs epoch = Some (h\<lparr>hd_bytes := bs\<rparr>)"
proof -
  define fs where "fs = writeHeadState (hd_state h) #
    (if hd_state h = RHS_Prepared then preparedWrites h epoch else committedWrites h epoch)"
  define e where "e = (\<lambda>w :: ByteWriter. \<lparr>env_recordTypeId = kHeadRecordType,
    env_schemaVersion = kCurrentRunPersistenceSchema, env_storageEpoch = epoch,
    env_versionValue = hd_revision h, env_utcUnixSeconds = None, env_payload = bw_buffer w\<rparr>)"
  from assms(1) obtain w where n: "hd_revision h \<noteq> 0" "epoch \<noteq> 0"
    and w: "writeAll fs (newWriter 200) = (True, w)"
    and enc: "encodeEnvelope (e w) kMaximumHeadRecordBytes = (EES_Success, Some bs)"
    by (auto simp: encodeRunPersistenceHead_def fs_def e_def
        split: if_splits prod.splits option.splits EnvelopeEncodeStatus.splits)
  from enc have env: "edr_envelope (decodeEnvelope bs) = Some (e w)"
    by (auto simp: encode_success valid_env_def e_def decode_envBytes)
  have six: "kCurrentRunPersistenceSchema = 6" by (simp add: kCurrentRunPersistenceSchema_def)
  have valid: "hd_state h = RHS_Committed \<Longrightarrow> validCommittedHead h epoch"
    using w by (auto simp: fs_def committedWrites_def writeGuard_def andThen_def split: if_splits)
  have "codes (writeAll fs) (readHeadFields 6 epoch (hd_revision h)) (h\<lparr>hd_bytes := []\<rparr>)"
    unfolding fs_def readHeadFields_def Let_def
  proof (rule codes_seq [OF codes_head_state])
    show "codes (writeAll (if hd_state h = RHS_Prepared then preparedWrites h epoch
          else committedWrites h epoch))
        (if hd_state h = RHS_Prepared
         then readPreparedHead 6 epoch (initialHead\<lparr>hd_revision := hd_revision h, hd_state := hd_state h\<rparr>)
         else readCommittedHead 6 (initialHead\<lparr>hd_revision := hd_revision h, hd_state := hd_state h\<rparr>))
        (h\<lparr>hd_bytes := []\<rparr>)"
      using codes_prepared [of h epoch] codes_committed [of h epoch] c n(2)
      by (cases "hd_state h") (simp_all add: canonicalHead_def)
  qed
  from codes_payload [OF this w] obtain r where r:
    "readHeadFields 6 epoch (hd_revision h) (newReader (bw_buffer w)) = (Some (h\<lparr>hd_bytes := []\<rparr>), r)"
    "remaining r = 0" by blast
  have "validCommittedHead (h\<lparr>hd_bytes := []\<rparr>) epoch = validCommittedHead h epoch"
  proof -
    let ?k = "h\<lparr>hd_bytes := []\<rparr>"
    have sel: "hd_current ?k = hd_current h" "hd_preparedCurrent ?k = hd_preparedCurrent h"
      "hd_preparedFallback ?k = hd_preparedFallback h" "hd_target ?k = hd_target h"
      "hd_commandId ?k = hd_commandId h" "hd_oldRunRevision ?k = hd_oldRunRevision h"
      "hd_newRunRevision ?k = hd_newRunRevision h" "hd_fallback ?k = hd_fallback h"
      "hd_oldTransitionSequence ?k = hd_oldTransitionSequence h"
      "hd_newTransitionSequence ?k = hd_newTransitionSequence h" by simp_all
    show ?thesis unfolding validCommittedHead_def sel by (rule refl)
  qed
  then show ?thesis using env r valid n
    by (auto simp: decodeRunPersistenceHead_def e_def knownEnvelope_def six knownRunPersistenceSchema_def)
qed

text \<open>The record of a checkpoint, and the reference to it.\<close>

definition checkpointEnvelope :: "u64 \<Rightarrow> u64 \<Rightarrow> 64 word option \<Rightarrow> bytes \<Rightarrow> StorageEnvelope" where
  "checkpointEnvelope epoch revision utc payload =
     \<lparr>env_recordTypeId = kCheckpointRecordType, env_schemaVersion = kCurrentRunPersistenceSchema,
      env_storageEpoch = epoch, env_versionValue = revision,
      env_utcUnixSeconds = map_option sint utc, env_payload = payload\<rparr>"

lemma record_envelope:
  assumes "encodeEnvelope (checkpointEnvelope epoch revision utc payload) m = (EES_Success, Some bs)"
  shows "edr_envelope (decodeEnvelope bs) = Some (checkpointEnvelope epoch revision utc payload)"
    "epoch \<noteq> 0" "revision \<noteq> 0"
proof -
  have "valid_env (checkpointEnvelope epoch revision utc payload)"
    using assms sint_lt [where 'a = 64] sint_ge [where 'a = 64]
    by (auto simp: encode_success valid_env_def checkpointEnvelope_def)
  then show "edr_envelope (decodeEnvelope bs) = Some (checkpointEnvelope epoch revision utc payload)"
    using assms by (simp add: encode_success decode_envBytes)
  show "epoch \<noteq> 0" "revision \<noteq> 0"
    using assms by (auto simp: encode_success fields_ok_def checkpointEnvelope_def)
qed

lemma record_decodes:
  assumes "encodeRunPersistenceSnapshot s = Inr payload" and "readableSnapshot s"
    and e: "encodeEnvelope (checkpointEnvelope epoch revision utc payload) m = (EES_Success, Some bs)"
  shows "decodeRunPersistenceRecordInto bs epoch d = Some \<lparr>raw_bytes = bs,
      raw_snapshot = writtenOver (raw_snapshot d) s, raw_checkpointRevision = revision,
      raw_utcUnixSeconds = utc\<rparr>"
    and "slot \<le> 1 \<Longrightarrow> runCheckpointReferenceMatches
      (makeRunCheckpointReference slot \<lparr>raw_bytes = bs, raw_snapshot = s,
         raw_checkpointRevision = revision, raw_utcUnixSeconds = utc\<rparr> epoch)
      \<lparr>raw_bytes = bs, raw_snapshot = writtenOver t s, raw_checkpointRevision = revision,
         raw_utcUnixSeconds = utc\<rparr> slot"
proof -
  note env = record_envelope [OF e]
  have six: "kCurrentRunPersistenceSchema = 6" by (simp add: kCurrentRunPersistenceSchema_def)
  have "map_option word_of_int (map_option sint utc) = utc"
    by (cases utc) simp_all
  then show "decodeRunPersistenceRecordInto bs epoch d = Some \<lparr>raw_bytes = bs,
      raw_snapshot = writtenOver (raw_snapshot d) s, raw_checkpointRevision = revision,
      raw_utcUnixSeconds = utc\<rparr>"
    using snapshot_payload_decodes [OF assms(1,2)] env
    by (simp add: decodeRunPersistenceRecordInto_def knownEnvelope_def checkpointEnvelope_def six
        knownRunPersistenceSchema_def)
  have "length payload \<le> 8192"
    using snapshot_payload_decodes [OF assms(1,2)] by (simp add: kMaximumRunPersistencePayloadBytes_def)
  then have "unat (of_nat (length payload) :: u32) = length payload"
    by (simp add: unat_of_nat)
  moreover have "unat (of_nat slot :: u8) = slot" if "slot \<le> 1"
    using that by (simp add: unat_of_nat)
  ultimately show "slot \<le> 1 \<Longrightarrow> runCheckpointReferenceMatches
      (makeRunCheckpointReference slot \<lparr>raw_bytes = bs, raw_snapshot = s,
         raw_checkpointRevision = revision, raw_utcUnixSeconds = utc\<rparr> epoch)
      \<lparr>raw_bytes = bs, raw_snapshot = writtenOver t s, raw_checkpointRevision = revision,
         raw_utcUnixSeconds = utc\<rparr> slot"
    using env by (simp add: runCheckpointReferenceMatches_def makeRunCheckpointReference_def
        checkpointEnvelope_def)
qed

end
