(* ===== verification/RunPersistenceStore.thy ===== *)
theory RunPersistenceStore
  imports RunPersistenceRecords
begin

text \<open>
  The three keys of the run persistence and their exact writes (\<open>run_persistence_store.cpp\<close>), the
  schedule of the periodic checkpoints (\<open>run_checkpoint_schedule.cpp\<close>), and the state of the
  coordinator with its load after a boot (\<open>run_persistence_coordinator.cpp\<close>). The port of the store is
  a pair of functions on a world \<open>'w\<close>, as in \<open>SlotCandidates\<close>.
\<close>

type_synonym 'w reader = "bytes \<Rightarrow> nat \<Rightarrow> 'w \<Rightarrow> StateStoreReadResult \<times> 'w"

type_synonym 'w writing = "bytes \<Rightarrow> bytes \<Rightarrow> 'w \<Rightarrow> StateStoreWriteStatus \<times> 'w"

section \<open>Store\<close>

datatype RunPersistenceStoreWriteResult =
    SWR_Written | SWR_NotWritten | SWR_WriteError | SWR_CapacityError | SWR_Indeterminate

definition slotKey :: "nat \<Rightarrow> bytes" where
  "slotKey slot = (if slot = 0 then stringBytes ''rc0'' else stringBytes ''rc1'')"

definition headKey :: bytes where "headKey = stringBytes ''rh0''"

text \<open>Only an unknown outcome is resolved by reading back.\<close>

definition writeExact ::
  "'w reader \<Rightarrow> 'w writing \<Rightarrow> bytes \<Rightarrow> bytes \<Rightarrow> bytes option \<Rightarrow> nat \<Rightarrow> 'w \<Rightarrow>
     RunPersistenceStoreWriteResult \<times> 'w" where
  "writeExact read write key bs old maxBytes w =
     (case write key bs w of
        (SWS_Success, w) \<Rightarrow> (SWR_Written, w)
      | (SWS_WriteError, w) \<Rightarrow> (SWR_WriteError, w)
      | (SWS_CapacityError, w) \<Rightarrow> (SWR_CapacityError, w)
      | (SWS_CommitOutcomeUnknown, w) \<Rightarrow>
          (case read key maxBytes w of (r, w) \<Rightarrow>
             (if srr_status r = SRS_Success then
                if srr_value r = bs then SWR_Written
                else if old = Some (srr_value r) then SWR_NotWritten
                else SWR_Indeterminate
              else if srr_status r = SRS_NotFound \<and> old = None then SWR_NotWritten
              else SWR_Indeterminate, w)))"

section \<open>Schedule\<close>

datatype RunCheckpointScheduleStatus =
    RSS_Success | RSS_NotDue | RSS_TimeWentBackwards | RSS_InvalidInterval

record RunCheckpointSchedule =
  sch_intervalMinutes :: u16
  sch_lastConfirmedMillis :: "u64 option"

definition scheduleValidate :: "RunCheckpointSchedule \<Rightarrow> u64 \<Rightarrow> RunCheckpointScheduleStatus" where
  "scheduleValidate s now =
     (if sch_intervalMinutes s < kMinimumRunCheckpointIntervalMinutes \<or>
         sch_intervalMinutes s > kMaximumRunCheckpointIntervalMinutes then RSS_InvalidInterval
      else if (case sch_lastConfirmedMillis s of None \<Rightarrow> False | Some confirmed \<Rightarrow> now < confirmed)
      then RSS_TimeWentBackwards
      else RSS_Success)"

definition scheduleConfirm ::
  "RunCheckpointSchedule \<Rightarrow> u64 \<Rightarrow> RunCheckpointScheduleStatus \<times> RunCheckpointSchedule" where
  "scheduleConfirm s now =
     (if scheduleValidate s now \<noteq> RSS_Success then (scheduleValidate s now, s)
      else (RSS_Success, s\<lparr>sch_lastConfirmedMillis := Some now\<rparr>))"

definition scheduleDue :: "RunCheckpointSchedule \<Rightarrow> u64 \<Rightarrow> RunCheckpointScheduleStatus" where
  "scheduleDue s now =
     (if sch_intervalMinutes s < kMinimumRunCheckpointIntervalMinutes \<or>
         sch_intervalMinutes s > kMaximumRunCheckpointIntervalMinutes then RSS_InvalidInterval
      else case sch_lastConfirmedMillis s of
        None \<Rightarrow> RSS_NotDue
      | Some confirmed \<Rightarrow>
          if now < confirmed then RSS_TimeWentBackwards
          else (let minutes = ucast (sch_intervalMinutes s) :: u64 in
            if minutes > u64_max div 60000 then RSS_InvalidInterval
            else if now - confirmed \<ge> minutes * 60000 then RSS_Success else RSS_NotDue))"

definition scheduleReset :: "RunCheckpointSchedule \<Rightarrow> RunCheckpointSchedule" where
  "scheduleReset s = s\<lparr>sch_lastConfirmedMillis := None\<rparr>"

section \<open>Coordinator\<close>

datatype RunPersistenceCoordinatorState =
    CST_Uninitialized | CST_ReadyEmpty | CST_LoadedActiveRun | CST_Ready | CST_Busy
  | CST_BlockedIndeterminate | CST_FallbackRecoveryPending | CST_PersistenceCommittedApplyFailed

datatype RunPersistenceResultStatus =
    RPR_Applied | RPR_CheckpointWritten | RPR_AlreadyProcessed | RPR_AlreadyPersisted
  | RPR_NotEligible | RPR_NotAllowedInState | RPR_NotInitialized | RPR_RecoveryPending | RPR_Busy
  | RPR_InvalidDecision | RPR_StaleDecision | RPR_TimeMismatch | RPR_TimeWentBackwards
  | RPR_CounterOverflow | RPR_WriteFailed | RPR_CapacityExceeded | RPR_PersistenceIndeterminate
  | RPR_PersistenceCommittedApplyFailed | RPR_Blocked | RPR_NotDue | RPR_NoActiveRun

datatype RunPersistenceStep =
    PST_None | PST_CandidateApply | PST_PreparedHead | PST_CheckpointSlot | PST_CommittedHead
  | PST_RamApply | PST_LoadHead | PST_LoadCurrent | PST_LoadFallback

datatype RunPersistenceTechnicalReason =
    PTR_None | PTR_StoreWriteError | PTR_StoreCapacityError | PTR_StoreReadError
  | PTR_StoreNotWritten | PTR_StoreOutcomeUnknown | PTR_CodecError | PTR_InvalidProjection
  | PTR_TrustedAbsoluteTimeRequired

datatype RunPersistenceDurability = PDU_Unchanged | PDU_Changed | PDU_MayHaveChanged

text \<open>The effects, messages and notices of a result are filled by the callers of the write core.\<close>

record RunPersistenceResult =
  rpr_status :: RunPersistenceResultStatus
  rpr_step :: RunPersistenceStep
  rpr_technicalReason :: RunPersistenceTechnicalReason
  rpr_durability :: RunPersistenceDurability
  rpr_coordinatorState :: RunPersistenceCoordinatorState

datatype RunPersistenceLoadStatus =
    LST_NoPersistedRun | LST_Current | LST_NoActiveRun | LST_FallbackRecovered
  | LST_PreparedInterrupted | LST_NotReconstructible | LST_NotReconstructibleOrphanedState
  | LST_ReadFailed | LST_CapacityExceeded | LST_UnsupportedSchema | LST_ForeignEpoch
  | LST_AlreadyInitialized

record RunPersistenceLoadResult =
  plr_status :: RunPersistenceLoadStatus
  plr_snapshot :: "RunPersistenceSnapshot option"

text \<open>Of the working set only the record lives longer than an operation.\<close>

record RunPersistenceCoordinator =
  rpc_epoch :: u64
  rpc_schedule :: RunCheckpointSchedule
  rpc_workingRecord :: RunPersistenceRawRecord
  rpc_commandBorrowed :: bool
  rpc_state :: RunPersistenceCoordinatorState
  rpc_slots :: "RunPersistenceRawRecord option list"
  rpc_currentHead :: "RunPersistenceHead option"
  rpc_persistedIds :: "u64 list"
  rpc_persistedIdCount :: nat
  rpc_nextCheckpointRevision :: u64
  rpc_nextHeadRevision :: u64
  rpc_pendingR1CheckpointRevision :: "u64 option"
  rpc_pendingR1RunRevision :: "u32 option"

definition newRunPersistenceCoordinator ::
  "u64 \<Rightarrow> RunCheckpointSchedule \<Rightarrow> RunPersistenceCoordinator" where
  "newRunPersistenceCoordinator epoch schedule =
     \<lparr>rpc_epoch = epoch, rpc_schedule = schedule,
      rpc_workingRecord = \<lparr>raw_bytes = [], raw_snapshot = initialRunPersistenceSnapshot,
        raw_checkpointRevision = 0, raw_utcUnixSeconds = None\<rparr>,
      rpc_commandBorrowed = False, rpc_state = CST_Uninitialized, rpc_slots = [None, None],
      rpc_currentHead = None, rpc_persistedIds = replicate kMaximumPersistedRunCommandIds 0,
      rpc_persistedIdCount = 0, rpc_nextCheckpointRevision = 1, rpc_nextHeadRevision = 1,
      rpc_pendingR1CheckpointRevision = None, rpc_pendingR1RunRevision = None\<rparr>"

text \<open>\<open>result\<close> reports the state of the coordinator at the time it is called.\<close>

definition persistenceResult ::
  "RunPersistenceCoordinator \<Rightarrow> RunPersistenceResultStatus \<Rightarrow> RunPersistenceStep \<Rightarrow>
     RunPersistenceTechnicalReason \<Rightarrow> RunPersistenceDurability \<Rightarrow> RunPersistenceResult" where
  "persistenceResult c status step reason durability =
     \<lparr>rpr_status = status, rpr_step = step, rpr_technicalReason = reason,
      rpr_durability = durability, rpr_coordinatorState = rpc_state c\<rparr>"

abbreviation plainResult ::
  "RunPersistenceCoordinator \<Rightarrow> RunPersistenceResultStatus \<Rightarrow> RunPersistenceResult" where
  "plainResult c status \<equiv> persistenceResult c status PST_None PTR_None PDU_Unchanged"

definition enterBlockedIndeterminate :: "RunPersistenceCoordinator \<Rightarrow> RunPersistenceCoordinator" where
  "enterBlockedIndeterminate c = c\<lparr>rpc_state := CST_BlockedIndeterminate\<rparr>"

definition unavailableResult :: "RunPersistenceCoordinator \<Rightarrow> RunPersistenceResult" where
  "unavailableResult c =
     (if rpc_state c = CST_Uninitialized then plainResult c RPR_NotInitialized
      else if rpc_state c = CST_Busy then plainResult c RPR_Busy
      else if rpc_state c = CST_PersistenceCommittedApplyFailed
      then plainResult c RPR_PersistenceCommittedApplyFailed
      else if rpc_state c = CST_LoadedActiveRun \<or> rpc_state c = CST_FallbackRecoveryPending
      then plainResult c RPR_RecoveryPending
      else plainResult c RPR_Blocked)"

definition commandIdHighWater :: "RunPersistenceCoordinator \<Rightarrow> u64 option" where
  "commandIdHighWater c =
     (let committedState = rpc_state c = CST_Ready \<or> rpc_state c = CST_ReadyEmpty \<or>
            rpc_state c = CST_LoadedActiveRun \<or> rpc_state c = CST_FallbackRecoveryPending in
      case rpc_currentHead c of
        Some head \<Rightarrow>
          if committedState \<and> hd_state head = RHS_Committed then hd_commandIdHighWater head else None
      | None \<Rightarrow> if rpc_state c = CST_ReadyEmpty then Some 0 else None)"

definition sameRunIdentity :: "RunPersistenceSnapshot \<Rightarrow> RunPersistenceSnapshot \<Rightarrow> bool" where
  "sameRunIdentity l r \<longleftrightarrow>
     rsn_variant l \<noteq> RCV_NoActiveRun \<and> rsn_variant r = rsn_variant l \<and> rsn_activeRunId l \<noteq> [] \<and>
     rsn_activeRunId l = rsn_activeRunId r"

definition successorRevision :: "u64 \<Rightarrow> u64" where
  "successorRevision revision = (if revision = u64_max then 0 else revision + 1)"

section \<open>Load after a boot\<close>

text \<open>A referenced checkpoint: the slot that the reference names must hold exactly that record. The
  status is \<open>Current\<close> exactly when it does; the record is then the working record.\<close>

definition loadReference ::
  "'w reader \<Rightarrow> RunCheckpointReference \<Rightarrow> RunPersistenceCoordinator \<Rightarrow> 'w \<Rightarrow>
     RunPersistenceLoadStatus \<times> RunPersistenceCoordinator \<times> 'w" where
  "loadReference read ref c w =
     (let slot = unat (ref_slot ref) in
      case read (slotKey slot) kMaximumCheckpointRecordBytes w of (r, w) \<Rightarrow>
        if srr_status r = SRS_NotFound then (LST_NotReconstructible, c, w)
        else if srr_status r = SRS_CapacityError then (LST_CapacityExceeded, c, w)
        else if srr_status r \<noteq> SRS_Success then (LST_ReadFailed, c, w)
        else
          (let envelope = edr_envelope (decodeEnvelope (srr_value r)) in
           if (case envelope of None \<Rightarrow> False | Some e \<Rightarrow> env_storageEpoch e \<noteq> rpc_epoch c)
           then (LST_ForeignEpoch, c, w)
           else if (case envelope of None \<Rightarrow> False
                | Some e \<Rightarrow> \<not> knownRunPersistenceSchema (env_schemaVersion e))
           then (LST_UnsupportedSchema, c, w)
           else (case decodeRunPersistenceRecordInto (srr_value r) (rpc_epoch c) (rpc_workingRecord c) of
               None \<Rightarrow> (LST_NotReconstructible, c, w)
             | Some rec \<Rightarrow>
                 (if runCheckpointReferenceMatches ref rec slot then LST_Current
                  else LST_NotReconstructible, c\<lparr>rpc_workingRecord := rec\<rparr>, w))))"

definition knownPhysicalEnvelope :: "u64 \<Rightarrow> bytes \<Rightarrow> StorageEnvelope option" where
  "knownPhysicalEnvelope epoch bs =
     (case edr_envelope (decodeEnvelope bs) of
        None \<Rightarrow> None
      | Some e \<Rightarrow> if knownEnvelope kCheckpointRecordType epoch e then Some e else None)"

text \<open>The loop over both slots raises the next checkpoint revision above every stored record; the flag
  says that a record has the last revision.\<close>

fun scanPhysicalSlots ::
  "'w reader \<Rightarrow> nat \<Rightarrow> nat list \<Rightarrow> bool \<Rightarrow> RunPersistenceCoordinator \<Rightarrow> 'w \<Rightarrow>
     (RunPersistenceLoadStatus + bool) \<times> RunPersistenceCoordinator \<times> 'w" where
  "scanPhysicalSlots read current [] overflow c w = (Inr overflow, c, w)"
| "scanPhysicalSlots read current (slot # slots) overflow c w =
     (let judge = (\<lambda>bs w.
            case knownPhysicalEnvelope (rpc_epoch c) bs of
              None \<Rightarrow> (Inl LST_NotReconstructible, c, w)
            | Some e \<Rightarrow>
                if env_versionValue e = u64_max then scanPhysicalSlots read current slots True c w
                else if \<not> overflow then
                  scanPhysicalSlots read current slots overflow
                    (c\<lparr>rpc_nextCheckpointRevision :=
                       max (rpc_nextCheckpointRevision c) (env_versionValue e + 1)\<rparr>) w
                else scanPhysicalSlots read current slots overflow c w) in
      if slot = current then judge (raw_bytes (rpc_workingRecord c)) w
      else (case read (slotKey slot) kMaximumCheckpointRecordBytes w of (r, w) \<Rightarrow>
        if srr_status r = SRS_NotFound then scanPhysicalSlots read current slots overflow c w
        else if srr_status r = SRS_CapacityError then (Inl LST_CapacityExceeded, c, w)
        else if srr_status r \<noteq> SRS_Success then (Inl LST_ReadFailed, c, w)
        else judge (srr_value r) w))"

type_synonym 'w loading = "RunPersistenceLoadResult \<times> RunPersistenceCoordinator \<times> 'w"

definition loadBlocked ::
  "RunPersistenceLoadStatus \<Rightarrow> RunPersistenceCoordinator \<Rightarrow> 'w \<Rightarrow> 'w loading" where
  "loadBlocked status c w =
     (\<lparr>plr_status = status, plr_snapshot = None\<rparr>, enterBlockedIndeterminate c, w)"

definition persistedIdsFrom ::
  "RunPersistenceSnapshot \<Rightarrow> RunPersistenceCoordinator \<Rightarrow> RunPersistenceCoordinator" where
  "persistedIdsFrom s c = c\<lparr>rpc_persistedIds := rsn_persistedRunCommandIds s,
     rpc_persistedIdCount := rsn_persistedRunCommandCount s\<rparr>"

text \<open>The current checkpoint is loaded and in the working record.\<close>

definition loadCurrent ::
  "'w reader \<Rightarrow> RunPersistenceHead \<Rightarrow> RunPersistenceCoordinator \<Rightarrow> 'w \<Rightarrow> 'w loading" where
  "loadCurrent read head c w =
     (let rec = rpc_workingRecord c;
          snap = raw_snapshot rec;
          currentSlot = unat (ref_slot (hd_current head));
          c = c\<lparr>rpc_slots := (rpc_slots c)[currentSlot := Some rec]\<rparr>;
          (conflict, c, w) =
            (case hd_fallback head of
               None \<Rightarrow> (False, c, w)
             | Some fallback \<Rightarrow>
                 (case loadReference read fallback c w of (status, c, w) \<Rightarrow>
                    (status = LST_Current \<and>
                     sameRunIdentity snap (raw_snapshot (rpc_workingRecord c)) \<and>
                     rsn_actuatorPlannerParametersSnapshot snap \<noteq>
                       rsn_actuatorPlannerParametersSnapshot (raw_snapshot (rpc_workingRecord c)),
                     c, w))) in
      if conflict then loadBlocked LST_NotReconstructible c w
      else
        (let c = c\<lparr>rpc_workingRecord := rec\<rparr>;
             c = c\<lparr>rpc_nextCheckpointRevision := successorRevision (raw_checkpointRevision rec)\<rparr>;
             c = persistedIdsFrom snap c in
         case scanPhysicalSlots read currentSlot [0, 1] False c w of
           (Inl status, c, w) \<Rightarrow> loadBlocked status c w
         | (Inr overflow, c, w) \<Rightarrow>
             (let c = (if overflow then c\<lparr>rpc_nextCheckpointRevision := 0\<rparr> else c) in
              if rsn_variant snap = RCV_NoActiveRun then
                (\<lparr>plr_status = LST_NoActiveRun, plr_snapshot = Some snap\<rparr>,
                 c\<lparr>rpc_state := CST_ReadyEmpty\<rparr>, w)
              else
                (\<lparr>plr_status = LST_Current, plr_snapshot = Some snap\<rparr>,
                 c\<lparr>rpc_state := CST_LoadedActiveRun\<rparr>, w))))"

definition raiseCheckpointHighWatermark ::
  "u64 \<Rightarrow> RunPersistenceCoordinator \<Rightarrow> RunPersistenceCoordinator" where
  "raiseCheckpointHighWatermark revision c =
     (if rpc_nextCheckpointRevision c = 0 \<or> revision = u64_max
      then c\<lparr>rpc_nextCheckpointRevision := 0\<rparr>
      else c\<lparr>rpc_nextCheckpointRevision := max (rpc_nextCheckpointRevision c) (revision + 1)\<rparr>)"

definition loadFallback ::
  "'w reader \<Rightarrow> RunPersistenceHead \<Rightarrow> RunPersistenceLoadStatus \<Rightarrow> RunPersistenceCoordinator \<Rightarrow> 'w \<Rightarrow>
     'w loading" where
  "loadFallback read head currentStatus c w =
     (case hd_fallback head of
        None \<Rightarrow> loadBlocked currentStatus c w
      | Some fallback \<Rightarrow>
          (case loadReference read fallback c w of (fallbackStatus, c, w) \<Rightarrow>
             if fallbackStatus = LST_Current then
               (let rec = rpc_workingRecord c in
                if rsn_variant (raw_snapshot rec) = RCV_NoActiveRun
                then loadBlocked LST_NotReconstructible c w
                else
                  (let c = c\<lparr>rpc_slots := (rpc_slots c)[unat (ref_slot fallback) := Some rec]\<rparr>;
                       c = raiseCheckpointHighWatermark (raw_checkpointRevision rec) c;
                       c = raiseCheckpointHighWatermark (ref_checkpointRevision (hd_current head)) c;
                       c = raiseCheckpointHighWatermark (ref_checkpointRevision fallback) c;
                       c = persistedIdsFrom (raw_snapshot rec) c in
                   (\<lparr>plr_status = LST_FallbackRecovered, plr_snapshot = Some (raw_snapshot rec)\<rparr>,
                    c\<lparr>rpc_state := CST_FallbackRecoveryPending\<rparr>, w)))
             else if fallbackStatus = LST_ReadFailed \<or> fallbackStatus = LST_CapacityExceeded \<or>
                  fallbackStatus = LST_ForeignEpoch \<or> fallbackStatus = LST_UnsupportedSchema
             then loadBlocked fallbackStatus c w
             else loadBlocked currentStatus c w))"

text \<open>No head: the store is empty only if both slots are absent too.\<close>

fun probeSlots ::
  "'w reader \<Rightarrow> nat list \<Rightarrow> bool \<Rightarrow> 'w \<Rightarrow> (RunPersistenceLoadStatus + bool) \<times> 'w" where
  "probeSlots read [] present w = (Inr present, w)"
| "probeSlots read (slot # slots) present w =
     (case read (slotKey slot) kMaximumCheckpointRecordBytes w of (r, w) \<Rightarrow>
        if srr_status r = SRS_Success then probeSlots read slots True w
        else if srr_status r = SRS_NotFound then probeSlots read slots present w
        else if srr_status r = SRS_CapacityError then (Inl LST_CapacityExceeded, w)
        else (Inl LST_ReadFailed, w))"

definition loadWithoutHead ::
  "'w reader \<Rightarrow> RunPersistenceCoordinator \<Rightarrow> 'w \<Rightarrow> 'w loading" where
  "loadWithoutHead read c w =
     (case probeSlots read [0, 1] False w of
        (Inl status, w) \<Rightarrow> loadBlocked status c w
      | (Inr present, w) \<Rightarrow>
          if present then loadBlocked LST_NotReconstructibleOrphanedState c w
          else (\<lparr>plr_status = LST_NoPersistedRun, plr_snapshot = None\<rparr>,
            c\<lparr>rpc_state := CST_ReadyEmpty\<rparr>, w))"

definition loadHead ::
  "'w reader \<Rightarrow> bytes \<Rightarrow> RunPersistenceCoordinator \<Rightarrow> 'w \<Rightarrow> 'w loading" where
  "loadHead read bs c w =
     (let envelope = edr_envelope (decodeEnvelope bs) in
      if (case envelope of None \<Rightarrow> False | Some e \<Rightarrow> env_storageEpoch e \<noteq> rpc_epoch c)
      then loadBlocked LST_ForeignEpoch c w
      else if (case envelope of None \<Rightarrow> False
           | Some e \<Rightarrow> \<not> knownRunPersistenceSchema (env_schemaVersion e))
      then loadBlocked LST_UnsupportedSchema c w
      else case decodeRunPersistenceHead bs (rpc_epoch c) of
        None \<Rightarrow> loadBlocked LST_NotReconstructible c w
      | Some head \<Rightarrow>
          (let c = c\<lparr>rpc_currentHead := Some head,
                 rpc_nextHeadRevision := successorRevision (hd_revision head)\<rparr> in
           if hd_state head = RHS_Prepared then loadBlocked LST_PreparedInterrupted c w
           else (case loadReference read (hd_current head) c w of (currentStatus, c, w) \<Rightarrow>
               if currentStatus = LST_Current then loadCurrent read head c w
               else loadFallback read head currentStatus c w)))"

definition loadAndInitialize ::
  "'w reader \<Rightarrow> RunPersistenceCoordinator \<Rightarrow> 'w \<Rightarrow> 'w loading" where
  "loadAndInitialize read c w =
     (let already = \<lparr>plr_status = LST_AlreadyInitialized, plr_snapshot = None\<rparr> in
      if rpc_commandBorrowed c then (already, c, w)
      else
        (let c = c\<lparr>rpc_pendingR1CheckpointRevision := None, rpc_pendingR1RunRevision := None\<rparr> in
         if rpc_state c \<noteq> CST_Uninitialized then (already, c, w)
         else
           (let c = c\<lparr>rpc_schedule := scheduleReset (rpc_schedule c), rpc_currentHead := None,
                  rpc_slots := [None, None], rpc_persistedIdCount := 0\<rparr> in
            case read headKey kMaximumHeadRecordBytes w of (r, w) \<Rightarrow>
              if srr_status r = SRS_NotFound then loadWithoutHead read c w
              else if srr_status r = SRS_CapacityError then loadBlocked LST_CapacityExceeded c w
              else if srr_status r \<noteq> SRS_Success then loadBlocked LST_ReadFailed c w
              else loadHead read (srr_value r) c w)))"

end
