(* ===== verification/RunPersistenceTransaction.thy ===== *)
theory RunPersistenceTransaction
  imports RunPersistenceStore
begin

text \<open>
  The write of a checkpoint (\<open>writeSnapshotCore\<close>, \<open>prepareSnapshotRecord\<close> and
  \<open>writeSnapshotTransaction\<close> of \<open>run_persistence_coordinator.cpp\<close>). A mutation writes three times: the
  prepared head, the checkpoint in the slot that is not current, the committed head. A periodic
  checkpoint has no prepared head.
\<close>

datatype RunPersistenceFallbackMode =
    FBM_UseStandardFallback | FBM_SetExplicitReference | FBM_ClearFallback

record RunPersistenceFallbackDirective =
  fbd_mode :: RunPersistenceFallbackMode
  fbd_reference :: "RunCheckpointReference option"

definition standardFallback :: RunPersistenceFallbackDirective where
  "standardFallback = \<lparr>fbd_mode = FBM_UseStandardFallback, fbd_reference = None\<rparr>"

record RunPersistenceBefore =
  rpb_runRevision :: u32
  rpb_transitionSequence :: u32

datatype SnapshotRecordPreparation = SRP_Success | SRP_InvalidSnapshot | SRP_CapacityExceeded

type_synonym 'w persisting = "RunPersistenceResult \<times> RunPersistenceCoordinator \<times> 'w"

definition isActiveFermentingSnapshot :: "RunPersistenceSnapshot \<Rightarrow> bool" where
  "isActiveFermentingSnapshot s \<longleftrightarrow>
     (rsn_variant s = RCV_ProgramRun \<or> rsn_variant s = RCV_ManualRun) \<and>
     rt_state (rsn_processState s) = PS_Fermenting"

definition prepareSnapshotRecord ::
  "RunPersistenceSnapshot \<Rightarrow> RunCheckpointTime \<Rightarrow> RunPersistenceCoordinator \<Rightarrow>
     SnapshotRecordPreparation \<times> RunPersistenceCoordinator" where
  "prepareSnapshotRecord snapshot time c =
     (case encodeRunPersistenceSnapshot snapshot of
        Inl _ \<Rightarrow> (SRP_InvalidSnapshot, c)
      | Inr payload \<Rightarrow>
          (case encodeEnvelope (checkpointEnvelope (rpc_epoch c) (rpc_nextCheckpointRevision c)
              (rct_utcUnixSeconds time) payload) kMaximumCheckpointRecordBytes of
             (EES_Success, Some bs) \<Rightarrow>
               (SRP_Success, c\<lparr>rpc_workingRecord := \<lparr>raw_bytes = bs, raw_snapshot = snapshot,
                  raw_checkpointRevision = rpc_nextCheckpointRevision c,
                  raw_utcUnixSeconds = rct_utcUnixSeconds time\<rparr>\<rparr>)
           | _ \<Rightarrow> (SRP_CapacityExceeded, c)))"

section \<open>Heads of a write\<close>

definition newFallback ::
  "RunPersistenceSnapshot \<Rightarrow> RunPersistenceFallbackDirective \<Rightarrow> RunPersistenceHead option \<Rightarrow>
     RunCheckpointReference option" where
  "newFallback snapshot directive currentHead =
     (if rsn_variant snapshot \<noteq> RCV_NoActiveRun then
        (case currentHead of
           None \<Rightarrow> None
         | Some head \<Rightarrow>
             if fbd_mode directive = FBM_SetExplicitReference then fbd_reference directive
             else if fbd_mode directive = FBM_UseStandardFallback then Some (hd_current head)
             else None)
      else None)"

definition committedHead ::
  "RunPersistenceSnapshot \<Rightarrow> RunPersistenceFallbackDirective \<Rightarrow> RunPersistenceHead option \<Rightarrow>
     RunCheckpointReference \<Rightarrow> u64 option \<Rightarrow> u64 \<Rightarrow> RunPersistenceHead" where
  "committedHead snapshot directive currentHead ref highWater revision = initialHead
     \<lparr>hd_state := RHS_Committed, hd_revision := revision, hd_current := ref,
      hd_commandIdHighWater := highWater,
      hd_fallback := newFallback snapshot directive currentHead\<rparr>"

definition preparedHead ::
  "RunPersistenceSnapshot \<Rightarrow> RunPersistenceBefore \<Rightarrow> RunPersistenceMutationKind \<Rightarrow> u64 option \<Rightarrow>
     RunPersistenceHead option \<Rightarrow> RunCheckpointReference \<Rightarrow> u64 option \<Rightarrow> u64 \<Rightarrow>
     RunPersistenceHead" where
  "preparedHead snapshot before kind commandId currentHead ref highWater revision = initialHead
     \<lparr>hd_state := RHS_Prepared, hd_revision := revision, hd_target := ref, hd_mutationKind := kind,
      hd_commandId := commandId, hd_oldRunRevision := rpb_runRevision before,
      hd_newRunRevision := rsn_runRevision snapshot,
      hd_oldTransitionSequence := rpb_transitionSequence before,
      hd_newTransitionSequence := rt_transitionSequence (rsn_processState snapshot),
      hd_preparedCurrent := map_option hd_current currentHead,
      hd_preparedFallback := (case currentHead of None \<Rightarrow> None | Some head \<Rightarrow> hd_fallback head),
      hd_commandIdHighWater := highWater\<rparr>"

section \<open>Failures and the end of a write\<close>

definition writeFailure ::
  "RunPersistenceStoreWriteResult \<Rightarrow> RunPersistenceStep \<Rightarrow> RunPersistenceDurability \<Rightarrow>
     RunPersistenceCoordinator \<Rightarrow> 'w \<Rightarrow> 'w persisting" where
  "writeFailure written step durability c w =
     (if written = SWR_Indeterminate then
        (let c = enterBlockedIndeterminate c in
         (persistenceResult c RPR_PersistenceIndeterminate step PTR_StoreOutcomeUnknown
            (if durability = PDU_Unchanged then PDU_MayHaveChanged else PDU_Changed), c, w))
      else if written = SWR_CapacityError then
        (persistenceResult c RPR_CapacityExceeded step PTR_StoreCapacityError durability, c, w)
      else
        (persistenceResult c RPR_WriteFailed step
           (if written = SWR_NotWritten then PTR_StoreNotWritten else PTR_StoreWriteError)
           durability, c, w))"

definition readyState ::
  "RunPersistenceStoreWriteResult \<Rightarrow> RunPersistenceCoordinatorState \<Rightarrow> RunPersistenceCoordinator \<Rightarrow>
     RunPersistenceCoordinator" where
  "readyState written rollbackState c =
     (if written \<noteq> SWR_Indeterminate then c\<lparr>rpc_state := rollbackState\<rparr> else c)"

definition slotWritten :: "nat \<Rightarrow> RunPersistenceCoordinator \<Rightarrow> RunPersistenceCoordinator" where
  "slotWritten target c =
     c\<lparr>rpc_slots := (rpc_slots c)[target := Some (rpc_workingRecord c)],
       rpc_nextCheckpointRevision :=
         successorRevision (raw_checkpointRevision (rpc_workingRecord c))\<rparr>"

definition headCommitted ::
  "bool \<Rightarrow> RunPersistenceSnapshot \<Rightarrow> RunPersistenceHead \<Rightarrow> bytes \<Rightarrow> RunPersistenceCoordinator \<Rightarrow> 'w \<Rightarrow>
     'w persisting" where
  "headCommitted periodic snapshot head bs c w =
     (let c = c\<lparr>rpc_currentHead := Some (head\<lparr>hd_bytes := bs\<rparr>),
            rpc_nextHeadRevision := successorRevision (hd_revision head),
            rpc_state := (if rsn_variant snapshot = RCV_NoActiveRun then CST_ReadyEmpty
              else CST_Ready)\<rparr>;
          (confirmed, schedule) =
            scheduleConfirm (rpc_schedule c) (rsn_checkpointMonotonicMillis snapshot);
          c = c\<lparr>rpc_schedule := schedule\<rparr> in
      if confirmed \<noteq> RSS_Success then
        (let c = enterBlockedIndeterminate c in
         (persistenceResult c RPR_TimeWentBackwards PST_CommittedHead PTR_InvalidProjection
            PDU_Changed, c, w))
      else
        (persistenceResult c (if periodic then RPR_CheckpointWritten else RPR_Applied)
           PST_CommittedHead PTR_None PDU_Changed, c, w))"

section \<open>The writes\<close>

definition writePeriodic ::
  "'w reader \<Rightarrow> 'w writing \<Rightarrow> RunPersistenceSnapshot \<Rightarrow> RunPersistenceHead \<Rightarrow> bytes \<Rightarrow> nat \<Rightarrow>
     bytes option \<Rightarrow> bytes option \<Rightarrow> RunPersistenceCoordinatorState \<Rightarrow> RunPersistenceCoordinator \<Rightarrow>
     'w \<Rightarrow> 'w persisting" where
  "writePeriodic read write snapshot head committedBytes target oldHead oldSlot rollbackState c w =
     (case writeExact read write (slotKey target) (raw_bytes (rpc_workingRecord c)) oldSlot
         kMaximumCheckpointRecordBytes w of (slotWrite, w) \<Rightarrow>
        if slotWrite \<noteq> SWR_Written then
          writeFailure slotWrite PST_CheckpointSlot PDU_Unchanged
            (readyState slotWrite rollbackState c) w
        else
          (let c = slotWritten target c in
           case writeExact read write headKey committedBytes oldHead kMaximumHeadRecordBytes w of
             (headWrite, w) \<Rightarrow>
               if headWrite \<noteq> SWR_Written then
                 writeFailure headWrite PST_CommittedHead PDU_Changed
                   (readyState headWrite rollbackState c) w
               else headCommitted True snapshot head committedBytes c w))"

definition writeMutation ::
  "'w reader \<Rightarrow> 'w writing \<Rightarrow> RunPersistenceSnapshot \<Rightarrow> RunPersistenceHead \<Rightarrow> bytes \<Rightarrow> bytes \<Rightarrow> nat \<Rightarrow>
     bytes option \<Rightarrow> bytes option \<Rightarrow> RunPersistenceCoordinatorState \<Rightarrow> RunPersistenceCoordinator \<Rightarrow>
     'w \<Rightarrow> 'w persisting" where
  "writeMutation read write snapshot head preparedBytes committedBytes target oldHead oldSlot
       rollbackState c w =
     (case writeExact read write headKey preparedBytes oldHead kMaximumHeadRecordBytes w of
        (preparedWrite, w) \<Rightarrow>
          if preparedWrite \<noteq> SWR_Written then
            writeFailure preparedWrite PST_PreparedHead PDU_Unchanged
              (readyState preparedWrite rollbackState c) w
          else
            (case writeExact read write (slotKey target) (raw_bytes (rpc_workingRecord c)) oldSlot
                kMaximumCheckpointRecordBytes w of (slotWrite, w) \<Rightarrow>
               if slotWrite \<noteq> SWR_Written then
                 writeFailure slotWrite PST_CheckpointSlot PDU_Changed
                   (enterBlockedIndeterminate c) w
               else
                 (let c = slotWritten target c in
                  case writeExact read write headKey committedBytes (Some preparedBytes)
                      kMaximumHeadRecordBytes w of (committedWrite, w) \<Rightarrow>
                    if committedWrite \<noteq> SWR_Written then
                      writeFailure committedWrite PST_CommittedHead PDU_Changed
                        (enterBlockedIndeterminate c) w
                    else headCommitted False snapshot head committedBytes c w)))"

text \<open>The old bytes of the target are read before anything is written.\<close>

definition writeSnapshotTransaction ::
  "'w reader \<Rightarrow> 'w writing \<Rightarrow> RunPersistenceSnapshot \<Rightarrow> bool \<Rightarrow> RunPersistenceBefore \<Rightarrow>
     RunPersistenceMutationKind \<Rightarrow> u64 option \<Rightarrow> RunPersistenceFallbackDirective \<Rightarrow>
     RunPersistenceCoordinatorState \<Rightarrow> nat \<Rightarrow> u64 option \<Rightarrow> RunPersistenceCoordinator \<Rightarrow> 'w \<Rightarrow>
     'w persisting" where
  "writeSnapshotTransaction read write snapshot periodic before kind commandId directive
       rollbackState target highWater c w =
     (let ref = makeRunCheckpointReference target (rpc_workingRecord c) (rpc_epoch c);
          currentHead = rpc_currentHead c;
          first = rpc_nextHeadRevision c;
          committed = committedHead snapshot directive currentHead ref highWater
            (if periodic then first else first + 1);
          preparedBytes = encodeRunPersistenceHead
            (preparedHead snapshot before kind commandId currentHead ref highWater first)
            (rpc_epoch c);
          committedBytes = encodeRunPersistenceHead committed (rpc_epoch c) in
      if committedBytes = None \<or> (\<not> periodic \<and> preparedBytes = None) then
        (let c = c\<lparr>rpc_state := rollbackState\<rparr> in
         (persistenceResult c RPR_CapacityExceeded
            (if \<not> periodic \<and> preparedBytes = None then PST_PreparedHead else PST_CommittedHead)
            PTR_CodecError PDU_Unchanged, c, w))
      else
        (case read (slotKey target) kMaximumCheckpointRecordBytes w of (r, w) \<Rightarrow>
           if srr_status r \<noteq> SRS_Success \<and> srr_status r \<noteq> SRS_NotFound then
             (let c = enterBlockedIndeterminate c in
              (persistenceResult c
                 (if srr_status r = SRS_CapacityError then RPR_CapacityExceeded
                  else RPR_PersistenceIndeterminate)
                 PST_CheckpointSlot PTR_StoreReadError PDU_Unchanged, c, w))
           else
             (let oldSlot = (if srr_status r = SRS_Success then Some (srr_value r) else None);
                  oldHead = map_option hd_bytes currentHead in
              if periodic then
                writePeriodic read write snapshot committed (the committedBytes) target oldHead
                  oldSlot rollbackState c w
              else
                writeMutation read write snapshot committed (the preparedBytes) (the committedBytes)
                  target oldHead oldSlot rollbackState c w)))"

section \<open>The checks before the writes\<close>

definition clearFallbackAllowed :: "RunPersistenceSnapshot \<Rightarrow> bool" where
  "clearFallbackAllowed snapshot \<longleftrightarrow>
     rsn_variant snapshot = RCV_NoActiveRun \<or>
     rsn_variant snapshot \<noteq> RCV_NoActiveRun \<and> rt_state (rsn_processState snapshot) = PS_Fault"

definition explicitFallbackValid ::
  "RunPersistenceFallbackDirective \<Rightarrow> nat \<Rightarrow> RunPersistenceHead option \<Rightarrow> bool" where
  "explicitFallbackValid directive target currentHead \<longleftrightarrow>
     fbd_mode directive = FBM_SetExplicitReference \<and>
     (case (fbd_reference directive, currentHead) of
        (Some ref, Some head) \<Rightarrow> unat (ref_slot ref) \<noteq> target \<and> hd_fallback head = Some ref
      | _ \<Rightarrow> False)"

definition directiveValid ::
  "RunPersistenceFallbackDirective \<Rightarrow> RunPersistenceSnapshot \<Rightarrow> nat \<Rightarrow> RunPersistenceHead option \<Rightarrow>
     bool" where
  "directiveValid directive snapshot target currentHead \<longleftrightarrow>
     fbd_mode directive = FBM_UseStandardFallback \<and> fbd_reference directive = None \<or>
     fbd_mode directive = FBM_ClearFallback \<and> fbd_reference directive = None \<and>
       clearFallbackAllowed snapshot \<or>
     explicitFallbackValid directive target currentHead"

text \<open>The command ids grow: the next high water, or why the command is refused.\<close>

definition nextHighWater ::
  "u64 option \<Rightarrow> RunPersistenceCoordinator \<Rightarrow> RunPersistenceResult + u64 option" where
  "nextHighWater commandId c =
     (let previous = (case rpc_currentHead c of
            Some head \<Rightarrow> hd_commandIdHighWater head
          | None \<Rightarrow> if rpc_state c = CST_ReadyEmpty then Some 0 else None);
          refused = persistenceResult c RPR_Blocked PST_CandidateApply PTR_InvalidProjection
            PDU_Unchanged in
      case commandId of
        None \<Rightarrow> Inr previous
      | Some commandId \<Rightarrow>
          (case previous of
             None \<Rightarrow> Inl refused
           | Some high \<Rightarrow>
               if commandId = 0 then Inl refused
               else if high = u64_max then
                 Inl (persistenceResult c RPR_CounterOverflow PST_CandidateApply PTR_None PDU_Unchanged)
               else if high \<noteq> 0 \<and> commandId \<le> high then Inl refused
               else Inr (Some (max high commandId))))"

definition writeSnapshotCore ::
  "'w reader \<Rightarrow> 'w writing \<Rightarrow> RunPersistenceSnapshot \<Rightarrow> RunCheckpointTime \<Rightarrow> bool \<Rightarrow>
     RunPersistenceBefore \<Rightarrow> RunPersistenceMutationKind \<Rightarrow> u64 option \<Rightarrow> nat option \<Rightarrow>
     RunPersistenceFallbackDirective \<Rightarrow> RunPersistenceCoordinatorState \<Rightarrow>
     RunPersistenceCoordinator \<Rightarrow> 'w \<Rightarrow> 'w persisting" where
  "writeSnapshotCore read write snapshot time periodic before kind commandId targetSlotOverride
       directive rollbackState c w =
     (if isActiveFermentingSnapshot snapshot \<and> rct_utcUnixSeconds time = None then
        (persistenceResult c RPR_Blocked PST_CandidateApply PTR_TrustedAbsoluteTimeRequired
           PDU_Unchanged, c, w)
      else if rpc_nextCheckpointRevision c = 0 \<or> rpc_nextHeadRevision c = 0 \<or>
         (\<not> periodic \<and> rpc_nextHeadRevision c = u64_max) then
        (plainResult c RPR_CounterOverflow, c, w)
      else if scheduleValidate (rpc_schedule c) (rct_monotonicMillis time) = RSS_TimeWentBackwards then
        (plainResult c RPR_TimeWentBackwards, c, w)
      else if scheduleValidate (rpc_schedule c) (rct_monotonicMillis time) \<noteq> RSS_Success then
        (plainResult c RPR_InvalidDecision, c, w)
      else case nextHighWater commandId c of
        Inl refused \<Rightarrow> (refused, c, w)
      | Inr highWater \<Rightarrow>
          (let c = c\<lparr>rpc_state := CST_Busy\<rparr>;
               currentHead = rpc_currentHead c;
               target = (case targetSlotOverride of
                   Some slot \<Rightarrow> slot
                 | None \<Rightarrow> (case currentHead of
                     Some head \<Rightarrow> 1 - unat (ref_slot (hd_current head)) | None \<Rightarrow> 0));
               sameCurrentSlot = (case currentHead of
                   None \<Rightarrow> False | Some head \<Rightarrow> target = unat (ref_slot (hd_current head)));
               validFallbackRecoverySameSlot =
                 (\<not> periodic \<and> rollbackState = CST_FallbackRecoveryPending \<and> kind = RMK_Recovery \<and>
                  sameCurrentSlot \<and>
                  (case currentHead of None \<Rightarrow> False | Some head \<Rightarrow> hd_fallback head \<noteq> None) \<and>
                  (fbd_mode directive = FBM_ClearFallback \<and> clearFallbackAllowed snapshot \<or>
                   explicitFallbackValid directive target currentHead)) in
           if target > 1 \<or> \<not> directiveValid directive snapshot target currentHead \<or>
              (sameCurrentSlot \<and> \<not> validFallbackRecoverySameSlot) then
             (let c = c\<lparr>rpc_state := rollbackState\<rparr> in
              (persistenceResult c RPR_InvalidDecision PST_CandidateApply PTR_InvalidProjection
                 PDU_Unchanged, c, w))
           else (case prepareSnapshotRecord snapshot time c of (encoded, c) \<Rightarrow>
             if encoded \<noteq> SRP_Success then
               (let c = c\<lparr>rpc_state := rollbackState\<rparr> in
                (persistenceResult c
                   (if encoded = SRP_InvalidSnapshot then RPR_InvalidDecision
                    else RPR_CapacityExceeded)
                   PST_CheckpointSlot PTR_CodecError PDU_Unchanged, c, w))
             else
               writeSnapshotTransaction read write snapshot periodic before kind commandId directive
                 rollbackState target highWater c w)))"

definition writeSnapshot ::
  "'w reader \<Rightarrow> 'w writing \<Rightarrow> RunPersistenceSnapshot \<Rightarrow> RunCheckpointTime \<Rightarrow> bool \<Rightarrow>
     RunPersistenceBefore \<Rightarrow> RunPersistenceMutationKind \<Rightarrow> u64 option \<Rightarrow>
     RunPersistenceCoordinator \<Rightarrow> 'w \<Rightarrow> 'w persisting" where
  "writeSnapshot read write snapshot time periodic before kind commandId c w =
     (if rpc_state c \<noteq> CST_Ready \<and> rpc_state c \<noteq> CST_ReadyEmpty then (unavailableResult c, c, w)
      else writeSnapshotCore read write snapshot time periodic before kind commandId None
        standardFallback (rpc_state c) c w)"

end
