(* ===== verification/RunPersistenceCrash.thy ===== *)
theory RunPersistenceCrash
  imports RunPersistenceTransaction
begin

text \<open>
  What the store holds after a write of a checkpoint, whatever the port answers, and what a boot loads
  from it. A power loss during a write is a call of the port whose outcome stays unknown, and a power
  loss between two writes is a call that was refused: so every state of the store that an interruption
  leaves is also left by some return of the transaction.
\<close>

section \<open>The contract of the store\<close>

text \<open>The port promises nothing about a value whose write was interrupted. A head or checkpoint is
  framed with a checksum, so an interrupted write leaves the old value, the new one, none, or bytes
  that are no envelope.\<close>

definition interrupted :: "bytes option \<Rightarrow> bytes \<Rightarrow> bytes option \<Rightarrow> bool" where
  "interrupted old v new \<longleftrightarrow>
     new = old \<or> new = Some v \<or> new = None \<or>
     (\<exists>bs. new = Some bs \<and> edr_envelope (decodeEnvelope bs) = None)"

locale checkpoint_store = state_store read "write" stored
  for read :: "'w reader" and "write" :: "'w writing" and stored :: "bytes \<Rightarrow> 'w \<Rightarrow> bytes option" +
  assumes write_unknown:
    "write k v w = (SWS_CommitOutcomeUnknown, w') \<Longrightarrow> interrupted (stored k w) v (stored k w')"
begin

lemma exact_write:
  assumes "writeExact read write k bs old n w = (res, w')"
  shows "x \<noteq> k \<Longrightarrow> stored x w' = stored x w"
    and "interrupted (stored k w) bs (stored k w')"
    and "res = SWR_Written \<Longrightarrow> stored k w' = Some bs"
proof -
  obtain st w1 where w1: "write k bs w = (st, w1)" by fastforce
  have "(x \<noteq> k \<longrightarrow> stored x w' = stored x w) \<and> interrupted (stored k w) bs (stored k w') \<and>
      (res = SWR_Written \<longrightarrow> stored k w' = Some bs)"
  proof (cases st)
    case SWS_CommitOutcomeUnknown
    obtain r w2 where r: "read k n w1 = (r, w2)" by fastforce
    have w': "w' = w2" and res: "res = SWR_Written \<longrightarrow> srr_status r = SRS_Success \<and> srr_value r = bs"
      using assms w1 r SWS_CommitOutcomeUnknown by (auto simp: writeExact_def split: if_splits)
    have k: "stored y w' = stored y w1" for y using read_keeps [OF r] w' by simp
    show ?thesis
      using k res write_unknown [OF w1 [unfolded SWS_CommitOutcomeUnknown]]
        write_frame [OF w1, of x] read_success [OF r] by auto
  next
    case SWS_Success
    then show ?thesis using assms w1 write_success [of k bs w w1] write_frame [OF w1, of x]
      by (auto simp: writeExact_def interrupted_def)
  next
    case SWS_WriteError
    then show ?thesis using assms w1 write_refused [OF w1]
      by (auto simp: writeExact_def interrupted_def)
  next
    case SWS_CapacityError
    then show ?thesis using assms w1 write_refused [OF w1]
      by (auto simp: writeExact_def interrupted_def)
  qed
  then show "x \<noteq> k \<Longrightarrow> stored x w' = stored x w" "interrupted (stored k w) bs (stored k w')"
    "res = SWR_Written \<Longrightarrow> stored k w' = Some bs" by blast+
qed

text \<open>The three stages of a mutation.\<close>

lemma mutation_stages:
  assumes "writeMutation read write snapshot head P C target oldHead oldSlot st c w = (res, c', w')"
    and t: "slotKey target \<noteq> headKey"
  defines "R \<equiv> raw_bytes (rpc_workingRecord c)"
  shows "x \<noteq> headKey \<Longrightarrow> x \<noteq> slotKey target \<Longrightarrow> stored x w' = stored x w"
    and "(interrupted (stored headKey w) P (stored headKey w') \<and>
        stored (slotKey target) w' = stored (slotKey target) w) \<or>
      stored headKey w' = Some P \<or>
      (interrupted (Some P) C (stored headKey w') \<and> stored (slotKey target) w' = Some R)"
    and "rpr_status res = RPR_Applied \<or> rpr_status res = RPR_TimeWentBackwards \<Longrightarrow>
      stored headKey w' = Some C \<and> stored (slotKey target) w' = Some R"
proof -
  obtain r1 w1 where 1: "writeExact read write headKey P oldHead kMaximumHeadRecordBytes w = (r1, w1)"
    by fastforce
  obtain r2 w2 where 2: "writeExact read write (slotKey target) R oldSlot
      kMaximumCheckpointRecordBytes w1 = (r2, w2)" by fastforce
  obtain r3 w3 where 3: "writeExact read write headKey C (Some P) kMaximumHeadRecordBytes w2 = (r3, w3)"
    by fastforce
  note e1 = exact_write [OF 1] and e2 = exact_write [OF 2] and e3 = exact_write [OF 3]
  have fail: "writeFailure a b d e v = (res, c', w') \<Longrightarrow> w' = v \<and>
      rpr_status res \<noteq> RPR_Applied \<and> rpr_status res \<noteq> RPR_TimeWentBackwards" for a b d e v
    by (auto simp: writeFailure_def Let_def persistenceResult_def split: if_splits)
  consider (a) "r1 \<noteq> SWR_Written" "w' = w1" "rpr_status res \<noteq> RPR_Applied"
        "rpr_status res \<noteq> RPR_TimeWentBackwards"
    | (b) "r1 = SWR_Written" "r2 \<noteq> SWR_Written" "w' = w2" "rpr_status res \<noteq> RPR_Applied"
        "rpr_status res \<noteq> RPR_TimeWentBackwards"
    | (c) "r1 = SWR_Written" "r2 = SWR_Written" "r3 \<noteq> SWR_Written" "w' = w3"
        "rpr_status res \<noteq> RPR_Applied" "rpr_status res \<noteq> RPR_TimeWentBackwards"
    | (d) "r1 = SWR_Written" "r2 = SWR_Written" "r3 = SWR_Written" "w' = w3"
  proof (cases "r1 = SWR_Written")
    case False
    then show ?thesis using a assms(1) 1 fail by (auto simp: writeMutation_def)
  next
    case r1: True
    show ?thesis
    proof (cases "r2 = SWR_Written")
      case False
      then show ?thesis using b r1 assms(1) 1 2 fail by (auto simp: writeMutation_def R_def)
    next
      case r2: True
      have w: "raw_bytes (rpc_workingRecord (slotWritten target c)) = R"
        by (simp add: slotWritten_def R_def)
      show ?thesis
      proof (cases "r3 = SWR_Written")
        case False
        then show ?thesis using c r1 r2 assms(1) 1 2 3 fail by (auto simp: writeMutation_def R_def)
      next
        case True
        then show ?thesis using d r1 r2 assms(1) 1 2 3
          by (auto simp: writeMutation_def R_def headCommitted_def Let_def case_prod_beta split: if_splits)
      qed
    qed
  qed
  note stages = this
  show "x \<noteq> headKey \<Longrightarrow> x \<noteq> slotKey target \<Longrightarrow> stored x w' = stored x w"
    using e1(1) [of x] e2(1) [of x] e3(1) [of x] by (cases rule: stages) auto
  show "(interrupted (stored headKey w) P (stored headKey w') \<and>
        stored (slotKey target) w' = stored (slotKey target) w) \<or>
      stored headKey w' = Some P \<or>
      (interrupted (Some P) C (stored headKey w') \<and> stored (slotKey target) w' = Some R)"
    using e1 e2 e3 t e2(1) [of headKey] e3(1) [of "slotKey target"] e1(1) [of "slotKey target"]
    by (cases rule: stages) auto
  show "rpr_status res = RPR_Applied \<or> rpr_status res = RPR_TimeWentBackwards \<Longrightarrow>
      stored headKey w' = Some C \<and> stored (slotKey target) w' = Some R"
    using e2(3) e3(3) t e3(1) [of "slotKey target"] by (cases rule: stages) auto
qed

end

section \<open>What a load delivers\<close>

text \<open>\<open>s\<close> is the snapshot of the checkpoint that \<open>ref\<close> names, read over the record \<open>d\<close>.\<close>

definition checkpointOf ::
  "(bytes \<Rightarrow> 'w \<Rightarrow> bytes option) \<Rightarrow> RunCheckpointReference \<Rightarrow> u64 \<Rightarrow> RunPersistenceRawRecord \<Rightarrow> 'w \<Rightarrow>
     RunPersistenceSnapshot \<Rightarrow> bool" where
  "checkpointOf stored ref epoch d w s \<longleftrightarrow>
     (\<exists>bs rec. stored (slotKey (unat (ref_slot ref))) w = Some bs \<and>
        decodeRunPersistenceRecordInto bs epoch d = Some rec \<and>
        runCheckpointReferenceMatches ref rec (unat (ref_slot ref)) \<and> s = raw_snapshot rec)"

lemma loadBlocked_simps [simp]:
  "plr_snapshot (fst (loadBlocked status c w)) = None"
  "loadBlocked status c w = (r, c', w') \<Longrightarrow> plr_snapshot r = None"
  by (auto simp: loadBlocked_def)

text \<open>The load of the current checkpoint in two steps: the comparison with the fallback of the same run,
  and the scan of the slots.\<close>

definition withCurrentSlot ::
  "RunPersistenceHead \<Rightarrow> RunPersistenceCoordinator \<Rightarrow> RunPersistenceCoordinator" where
  "withCurrentSlot head c = c\<lparr>rpc_slots := (rpc_slots c)[unat (ref_slot (hd_current head)) :=
     Some (rpc_workingRecord c)]\<rparr>"

definition fallbackConflict ::
  "'w reader \<Rightarrow> RunPersistenceHead \<Rightarrow> RunPersistenceSnapshot \<Rightarrow> RunPersistenceCoordinator \<Rightarrow> 'w \<Rightarrow>
     bool \<times> RunPersistenceCoordinator \<times> 'w" where
  "fallbackConflict read head snap c w = (case hd_fallback head of
      None \<Rightarrow> (False, c, w)
    | Some f \<Rightarrow> (case loadReference read f c w of
        (status, c1, w) \<Rightarrow>
          (status = LST_Current \<and> sameRunIdentity snap (raw_snapshot (rpc_workingRecord c1)) \<and>
           rsn_actuatorPlannerParametersSnapshot snap \<noteq>
             rsn_actuatorPlannerParametersSnapshot (raw_snapshot (rpc_workingRecord c1)), c1, w)))"

definition beforeScan ::
  "RunPersistenceRawRecord \<Rightarrow> RunPersistenceCoordinator \<Rightarrow> RunPersistenceCoordinator" where
  "beforeScan rec c = persistedIdsFrom (raw_snapshot rec) (c\<lparr>rpc_workingRecord := rec,
     rpc_nextCheckpointRevision := successorRevision (raw_checkpointRevision rec)\<rparr>)"

lemma loadCurrent_steps:
  assumes "fallbackConflict read head (raw_snapshot (rpc_workingRecord c)) (withCurrentSlot head c) w =
      (b, c1, w1)"
    and "scanPhysicalSlots read (unat (ref_slot (hd_current head))) [0, 1] False
      (beforeScan (rpc_workingRecord c) c1) w1 = (q, c3, w3)"
  shows "loadCurrent read head c w = (if b then loadBlocked LST_NotReconstructible c1 w1 else
    case q of Inl status \<Rightarrow> loadBlocked status c3 w3
    | Inr overflow \<Rightarrow>
        (let c' = (if overflow then c3\<lparr>rpc_nextCheckpointRevision := 0\<rparr> else c3);
             snap = raw_snapshot (rpc_workingRecord c) in
         if rsn_variant snap = RCV_NoActiveRun then
           (\<lparr>plr_status = LST_NoActiveRun, plr_snapshot = Some snap\<rparr>,
            c'\<lparr>rpc_state := CST_ReadyEmpty\<rparr>, w3)
         else
           (\<lparr>plr_status = LST_Current, plr_snapshot = Some snap\<rparr>,
            c'\<lparr>rpc_state := CST_LoadedActiveRun\<rparr>, w3)))"
  using assms(2)
  unfolding loadCurrent_def Let_def withCurrentSlot_def [symmetric]
    fallbackConflict_def [where c = "withCurrentSlot head c", symmetric] assms(1)
  by (cases q) (simp_all add: beforeScan_def persistedIdsFrom_def del: scanPhysicalSlots.simps One_nat_def)

lemma loadCurrent_delivers:
  assumes "loadCurrent read head c w = (r, c', w')" and "plr_snapshot r = Some s"
  shows "s = raw_snapshot (rpc_workingRecord c) \<and>
    plr_status r = (if rsn_variant s = RCV_NoActiveRun then LST_NoActiveRun else LST_Current)"
proof -
  obtain b c1 w1 where u: "fallbackConflict read head (raw_snapshot (rpc_workingRecord c))
      (withCurrentSlot head c) w = (b, c1, w1)" by (metis prod_cases3)
  obtain q c3 w3 where q: "scanPhysicalSlots read (unat (ref_slot (hd_current head))) [0, 1] False
      (beforeScan (rpc_workingRecord c) c1) w1 = (q, c3, w3)" by (metis prod_cases3)
  from loadCurrent_steps [OF u q] assms show ?thesis
    by (auto simp: Let_def loadBlocked_def split: if_splits sum.splits)
qed

context checkpoint_store
begin

lemma loadReference_world:
  assumes "loadReference read ref c w = (status, c', w')"
  shows "stored k w' = stored k w" and "rpc_epoch c' = rpc_epoch c"
  using assms read_keeps
  by (auto simp: loadReference_def Let_def split: prod.splits if_splits option.splits)

lemma loadReference_current:
  assumes "loadReference read ref c w = (LST_Current, c', w')"
  shows "checkpointOf stored ref (rpc_epoch c) (rpc_workingRecord c) w (raw_snapshot (rpc_workingRecord c'))"
  using assms read_success
  by (auto simp: checkpointOf_def loadReference_def Let_def split: prod.splits if_splits option.splits)

lemma loadFallback_delivers:
  assumes "loadFallback read head status c w = (r, c', w')" and "plr_snapshot r = Some s"
  shows "plr_status r = LST_FallbackRecovered \<and> (\<exists>f. hd_fallback head = Some f \<and>
    checkpointOf stored f (rpc_epoch c) (rpc_workingRecord c) w s)"
proof (cases "hd_fallback head")
  case None
  then show ?thesis using assms by (auto simp: loadFallback_def)
next
  case (Some f)
  obtain st c1 w1 where l: "loadReference read f c w = (st, c1, w1)" by (metis prod_cases3)
  show ?thesis using assms Some l loadReference_current [of f c w c1 w1]
    by (auto simp: loadFallback_def loadBlocked_def Let_def persistedIdsFrom_def
        raiseCheckpointHighWatermark_def split: if_splits)
qed

text \<open>A delivered snapshot is that of a checkpoint that a committed head names.\<close>

lemma load_sound:
  assumes "loadAndInitialize read c w = (r, c', w')" and "plr_snapshot r = Some s"
  shows "\<exists>bs head. stored headKey w = Some bs \<and>
    decodeRunPersistenceHead bs (rpc_epoch c) = Some head \<and> hd_state head = RHS_Committed \<and>
    ((plr_status r = LST_Current \<or> plr_status r = LST_NoActiveRun) \<and>
       checkpointOf stored (hd_current head) (rpc_epoch c) (rpc_workingRecord c) w s \<or>
     plr_status r = LST_FallbackRecovered \<and>
       (\<exists>f d. hd_fallback head = Some f \<and> checkpointOf stored f (rpc_epoch c) d w s))"
proof -
  note def = loadAndInitialize_def [of read c w]
  have ready: "rpc_commandBorrowed c = False" "rpc_state c = CST_Uninitialized"
    using assms by (auto simp: def Let_def split: if_splits)
  define c1 where "c1 = c\<lparr>rpc_pendingR1CheckpointRevision := None, rpc_pendingR1RunRevision := None,
    rpc_schedule := scheduleReset (rpc_schedule c), rpc_currentHead := None,
    rpc_slots := [None, None], rpc_persistedIdCount := 0\<rparr>"
  obtain q w1 where q: "read headKey kMaximumHeadRecordBytes w = (q, w1)" by fastforce
  have head: "loadHead read (srr_value q) c1 w1 = (r, c', w')" and ok: "srr_status q = SRS_Success"
    using assms ready q
    by (auto simp: def Let_def c1_def loadWithoutHead_def split: if_splits prod.splits sum.splits)
  have st: "stored headKey w = Some (srr_value q)" and w1: "stored k w1 = stored k w" for k
    using read_success [OF q ok] read_keeps [OF q] by simp_all
  obtain h where h: "decodeRunPersistenceHead (srr_value q) (rpc_epoch c) = Some h"
    and committed: "hd_state h = RHS_Committed"
    and l: "(case loadReference read (hd_current h) (c1\<lparr>rpc_currentHead := Some h,
        rpc_nextHeadRevision := successorRevision (hd_revision h)\<rparr>) w1 of (currentStatus, c, w) \<Rightarrow>
      if currentStatus = LST_Current then loadCurrent read h c w
      else loadFallback read h currentStatus c w) = (r, c', w')"
  proof (cases "decodeRunPersistenceHead (srr_value q) (rpc_epoch c)")
    case None
    then show thesis using head assms(2) by (auto simp: loadHead_def Let_def c1_def split: if_splits)
  next
    case (Some h)
    have "hd_state h = RHS_Committed"
      using head assms(2) Some by (cases "hd_state h") (auto simp: loadHead_def Let_def c1_def split: if_splits)
    then show thesis using that [OF Some] head assms(2) Some
      by (auto simp: loadHead_def Let_def c1_def split: if_splits)
  qed
  define c2 where "c2 = c1\<lparr>rpc_currentHead := Some h,
    rpc_nextHeadRevision := successorRevision (hd_revision h)\<rparr>"
  obtain s3 c3 w3 where l3: "loadReference read (hd_current h) c2 w1 = (s3, c3, w3)" by (metis prod_cases3)
  have c2: "rpc_epoch c2 = rpc_epoch c" "rpc_workingRecord c2 = rpc_workingRecord c"
    by (simp_all add: c2_def c1_def)
  have same: "checkpointOf stored f e d w3 s = checkpointOf stored f e d w s"
    "checkpointOf stored f e d w1 s = checkpointOf stored f e d w s" for f e d s
    using loadReference_world(1) [OF l3] w1 by (simp_all add: checkpointOf_def)
  show ?thesis
  proof (cases "s3 = LST_Current")
    case True
    then have "loadCurrent read h c3 w3 = (r, c', w')" using l l3 by (simp add: c2_def)
    from loadCurrent_delivers [OF this assms(2)] loadReference_current [OF l3 [unfolded True]]
    show ?thesis using st h committed c2 same by auto
  next
    case False
    then have "loadFallback read h s3 c3 w3 = (r, c', w')" using l l3 by (simp add: c2_def)
    from loadFallback_delivers [OF this assms(2)] loadReference_world(2) [OF l3]
    show ?thesis using st h committed c2 same by auto
  qed
qed

end

section \<open>A write and a boot\<close>

text \<open>The heads of a mutation and its record; the two heads are encoded.\<close>

record MutationWrite =
  mw_target :: nat
  mw_record :: RunPersistenceRawRecord
  mw_prepared :: RunPersistenceHead
  mw_committed :: RunPersistenceHead
  mw_preparedBytes :: bytes
  mw_committedBytes :: bytes

definition mutationWrite ::
  "RunPersistenceSnapshot \<Rightarrow> RunPersistenceFallbackDirective \<Rightarrow> RunPersistenceCoordinator \<Rightarrow>
     RunCheckpointTime \<Rightarrow> MutationWrite \<Rightarrow> bool" where
  "mutationWrite snapshot directive c time m \<longleftrightarrow>
     (\<exists>payload highWater. mw_target m \<le> 1 \<and> encodeRunPersistenceSnapshot snapshot = Inr payload \<and>
        encodeEnvelope (checkpointEnvelope (rpc_epoch c) (rpc_nextCheckpointRevision c)
          (rct_utcUnixSeconds time) payload) kMaximumCheckpointRecordBytes =
            (EES_Success, Some (raw_bytes (mw_record m))) \<and>
        mw_record m = \<lparr>raw_bytes = raw_bytes (mw_record m), raw_snapshot = snapshot,
          raw_checkpointRevision = rpc_nextCheckpointRevision c,
          raw_utcUnixSeconds = rct_utcUnixSeconds time\<rparr> \<and>
        hd_state (mw_prepared m) = RHS_Prepared \<and> canonicalHead (mw_prepared m) \<and>
        mw_committed m = committedHead snapshot directive (rpc_currentHead c)
          (makeRunCheckpointReference (mw_target m) (mw_record m) (rpc_epoch c)) highWater
          (rpc_nextHeadRevision c + 1) \<and>
        encodeRunPersistenceHead (mw_prepared m) (rpc_epoch c) = Some (mw_preparedBytes m) \<and>
        encodeRunPersistenceHead (mw_committed m) (rpc_epoch c) = Some (mw_committedBytes m))"

lemma preparedHead_canonical:
  "hd_state (preparedHead s b k i h ref hw revisionision) = RHS_Prepared"
  "canonicalHead (preparedHead s b k i h ref hw revisionision)"
  by (simp_all add: preparedHead_def canonicalHead_def initialHead_def)

lemma committedHead_canonical:
  "hd_state (committedHead s d h ref hw revisionision) = RHS_Committed"
  "canonicalHead (committedHead s d h ref hw revisionision)"
  "hd_current (committedHead s d h ref hw revisionision) = ref"
  "hd_fallback (committedHead s d h ref hw revisionision) = newFallback s d h"
  by (simp_all add: committedHead_def canonicalHead_def initialHead_def)

lemma refused_not_applied:
  "nextHighWater commandId c = Inl res \<Longrightarrow> rpr_status res \<noteq> RPR_Applied"
  by (auto simp: nextHighWater_def Let_def persistenceResult_def split: option.splits if_splits)

lemma persistenceResult_status [simp]: "rpr_status (persistenceResult c s st t d) = s"
  by (simp add: persistenceResult_def)

text \<open>Either nothing is written, or the record is prepared and the transaction entered.\<close>

lemma core_reaches:
  assumes "writeSnapshotCore read write snapshot time False before kind commandId override directive
    rollback c w = (res, c', w')"
  shows "w' = w \<and> rpr_status res \<noteq> RPR_Applied \<or>
    (\<exists>target highWater c1. target \<le> 1 \<and>
       prepareSnapshotRecord snapshot time (c\<lparr>rpc_state := CST_Busy\<rparr>) = (SRP_Success, c1) \<and>
       writeSnapshotTransaction read write snapshot False before kind commandId directive rollback
         target highWater c1 w = (res, c', w'))"
proof (cases "nextHighWater commandId c")
  case (Inl x)
  then show ?thesis using assms refused_not_applied [OF Inl]
    by (auto simp: writeSnapshotCore_def split: if_splits)
next
  case (Inr y)
  define target where "target = (case override of Some slot \<Rightarrow> slot | None \<Rightarrow>
    (case rpc_currentHead (c\<lparr>rpc_state := CST_Busy\<rparr>) of
       Some head \<Rightarrow> 1 - unat (ref_slot (hd_current head)) | None \<Rightarrow> 0))"
  obtain e c1 where p: "prepareSnapshotRecord snapshot time (c\<lparr>rpc_state := CST_Busy\<rparr>) = (e, c1)"
    by fastforce
  note def = writeSnapshotCore_def [of read "write" snapshot time False before kind commandId override
    directive rollback c w, unfolded Let_def, folded target_def]
  have "w' = w \<and> rpr_status res \<noteq> RPR_Applied \<or> target \<le> 1 \<and> e = SRP_Success \<and>
      writeSnapshotTransaction read write snapshot False before kind commandId directive rollback
        target y c1 w = (res, c', w')"
    using assms Inr p unfolding def by (auto split: if_splits)
  then show ?thesis using p by auto
qed

lemma prepared_record:
  assumes "prepareSnapshotRecord snapshot time c = (SRP_Success, c1)"
  shows "\<exists>payload bs. encodeRunPersistenceSnapshot snapshot = Inr payload \<and>
    encodeEnvelope (checkpointEnvelope (rpc_epoch c) (rpc_nextCheckpointRevision c)
      (rct_utcUnixSeconds time) payload) kMaximumCheckpointRecordBytes = (EES_Success, Some bs) \<and>
    c1 = c\<lparr>rpc_workingRecord := \<lparr>raw_bytes = bs, raw_snapshot = snapshot,
      raw_checkpointRevision = rpc_nextCheckpointRevision c,
      raw_utcUnixSeconds = rct_utcUnixSeconds time\<rparr>\<rparr>"
  using assms
  by (auto simp: prepareSnapshotRecord_def split: sum.splits prod.splits option.splits
      EnvelopeEncodeStatus.splits)

context checkpoint_store
begin

lemma core_writes:
  assumes "writeSnapshotCore read write snapshot time False before kind commandId override directive
    rollback c w = (res, c', w')"
  shows "(\<forall>k. stored k w' = stored k w) \<and> rpr_status res \<noteq> RPR_Applied \<or>
    (\<exists>m c1 oldHead oldSlot w1. mutationWrite snapshot directive c time m \<and>
       (\<forall>k. stored k w1 = stored k w) \<and> rpc_workingRecord c1 = mw_record m \<and>
       writeMutation read write snapshot (mw_committed m) (mw_preparedBytes m) (mw_committedBytes m)
         (mw_target m) oldHead oldSlot rollback c1 w1 = (res, c', w'))"
  using core_reaches [OF assms]
proof (elim disjE exE conjE)
  assume "w' = w" "rpr_status res \<noteq> RPR_Applied"
  then show ?thesis by simp
next
  fix target highWater c1
  assume t: "target \<le> 1"
    and p: "prepareSnapshotRecord snapshot time (c\<lparr>rpc_state := CST_Busy\<rparr>) = (SRP_Success, c1)"
    and tr: "writeSnapshotTransaction read write snapshot False before kind commandId directive rollback
      target highWater c1 w = (res, c', w')"
  from prepared_record [OF p] obtain payload bs where
    payload: "encodeRunPersistenceSnapshot snapshot = Inr payload" and
    env: "encodeEnvelope (checkpointEnvelope (rpc_epoch c) (rpc_nextCheckpointRevision c)
      (rct_utcUnixSeconds time) payload) kMaximumCheckpointRecordBytes = (EES_Success, Some bs)" and
    c1: "c1 = c\<lparr>rpc_state := CST_Busy, rpc_workingRecord := \<lparr>raw_bytes = bs, raw_snapshot = snapshot,
      raw_checkpointRevision = rpc_nextCheckpointRevision c,
      raw_utcUnixSeconds = rct_utcUnixSeconds time\<rparr>\<rparr>" by auto
  define ref where "ref = makeRunCheckpointReference target (rpc_workingRecord c1) (rpc_epoch c1)"
  define prep where "prep = preparedHead snapshot before kind commandId (rpc_currentHead c1) ref highWater
    (rpc_nextHeadRevision c1)"
  define com where "com = committedHead snapshot directive (rpc_currentHead c1) ref highWater
    (rpc_nextHeadRevision c1 + 1)"
  obtain q w1 where q: "read (slotKey target) kMaximumCheckpointRecordBytes w = (q, w1)" by fastforce
  have same: "stored k w1 = stored k w" for k using read_keeps [OF q] .
  note def = writeSnapshotTransaction_def [of read "write" snapshot False before kind commandId directive
    rollback target highWater c1 w, unfolded Let_def if_False, folded ref_def, folded prep_def com_def]
  show ?thesis
  proof (cases "encodeRunPersistenceHead prep (rpc_epoch c1) = None \<or>
      encodeRunPersistenceHead com (rpc_epoch c1) = None")
    case True
    then show ?thesis using tr unfolding def by auto
  next
    case False
    then obtain P C where P: "encodeRunPersistenceHead prep (rpc_epoch c1) = Some P"
      and C: "encodeRunPersistenceHead com (rpc_epoch c1) = Some C" by auto
    show ?thesis
    proof (cases "srr_status q = SRS_Success \<or> srr_status q = SRS_NotFound")
      case False
      then show ?thesis using tr P C q same unfolding def by (auto split: if_splits)
    next
      case True
      define m where "m = \<lparr>mw_target = target, mw_record = rpc_workingRecord c1, mw_prepared = prep,
        mw_committed = com, mw_preparedBytes = P, mw_committedBytes = C\<rparr>"
      have "mutationWrite snapshot directive c time m"
        unfolding mutationWrite_def
        using t payload env P C preparedHead_canonical
        by (intro exI [of _ payload] exI [of _ highWater])
          (simp add: m_def c1 prep_def com_def ref_def)
      moreover have "writeMutation read write snapshot (mw_committed m) (mw_preparedBytes m)
          (mw_committedBytes m) (mw_target m) (map_option hd_bytes (rpc_currentHead c1))
          (if srr_status q = SRS_Success then Some (srr_value q) else None) rollback c1 w1 = (res, c', w')"
        using tr P C q True unfolding def m_def by auto
      moreover have "rpc_workingRecord c1 = mw_record m" by (simp add: m_def)
      ultimately show ?thesis using same by blast
    qed
  qed
qed

end

text \<open>What the two heads and the record decode to.\<close>

lemma mutationWrite_decodes:
  assumes "mutationWrite snapshot directive c time m" and r: "readableSnapshot snapshot"
  shows "decodeRunPersistenceHead (mw_preparedBytes m) (rpc_epoch c) = Some h \<Longrightarrow> hd_state h = RHS_Prepared"
    and "decodeRunPersistenceHead (mw_committedBytes m) (rpc_epoch c) =
      Some ((mw_committed m)\<lparr>hd_bytes := mw_committedBytes m\<rparr>)"
    and "hd_current (mw_committed m) =
      makeRunCheckpointReference (mw_target m) (mw_record m) (rpc_epoch c)"
    and "hd_fallback (mw_committed m) = newFallback snapshot directive (rpc_currentHead c)"
    and "unat (ref_slot (hd_current (mw_committed m))) = mw_target m"
    and "decodeRunPersistenceRecordInto (raw_bytes (mw_record m)) (rpc_epoch c) d =
      Some ((mw_record m)\<lparr>raw_snapshot := writtenOver (raw_snapshot d) snapshot\<rparr>)"
    and "runCheckpointReferenceMatches (hd_current (mw_committed m))
      ((mw_record m)\<lparr>raw_snapshot := writtenOver t snapshot\<rparr>) (mw_target m)"
proof -
  obtain payload highWater where t: "mw_target m \<le> 1"
    and payload: "encodeRunPersistenceSnapshot snapshot = Inr payload"
    and env: "encodeEnvelope (checkpointEnvelope (rpc_epoch c) (rpc_nextCheckpointRevision c)
      (rct_utcUnixSeconds time) payload) kMaximumCheckpointRecordBytes =
        (EES_Success, Some (raw_bytes (mw_record m)))"
    and rec: "mw_record m = \<lparr>raw_bytes = raw_bytes (mw_record m), raw_snapshot = snapshot,
      raw_checkpointRevision = rpc_nextCheckpointRevision c,
      raw_utcUnixSeconds = rct_utcUnixSeconds time\<rparr>"
    and prep: "hd_state (mw_prepared m) = RHS_Prepared" "canonicalHead (mw_prepared m)"
    and com: "mw_committed m = committedHead snapshot directive (rpc_currentHead c)
      (makeRunCheckpointReference (mw_target m) (mw_record m) (rpc_epoch c)) highWater
      (rpc_nextHeadRevision c + 1)"
    and P: "encodeRunPersistenceHead (mw_prepared m) (rpc_epoch c) = Some (mw_preparedBytes m)"
    and C: "encodeRunPersistenceHead (mw_committed m) (rpc_epoch c) = Some (mw_committedBytes m)"
    using assms(1) unfolding mutationWrite_def by blast
  show "decodeRunPersistenceHead (mw_preparedBytes m) (rpc_epoch c) = Some h \<Longrightarrow> hd_state h = RHS_Prepared"
    using head_decodes [OF P prep(2)] prep(1) by auto
  show "decodeRunPersistenceHead (mw_committedBytes m) (rpc_epoch c) =
      Some ((mw_committed m)\<lparr>hd_bytes := mw_committedBytes m\<rparr>)"
    using head_decodes [OF C] com by (simp add: committedHead_canonical)
  show "hd_current (mw_committed m) =
      makeRunCheckpointReference (mw_target m) (mw_record m) (rpc_epoch c)"
    "hd_fallback (mw_committed m) = newFallback snapshot directive (rpc_currentHead c)"
    by (simp_all add: com committedHead_canonical)
  show "unat (ref_slot (hd_current (mw_committed m))) = mw_target m"
    using t by (simp add: com committedHead_canonical makeRunCheckpointReference_def Let_def unat_of_nat)
  have d: "(mw_record m)\<lparr>raw_snapshot := x\<rparr> = \<lparr>raw_bytes = raw_bytes (mw_record m), raw_snapshot = x,
      raw_checkpointRevision = rpc_nextCheckpointRevision c,
      raw_utcUnixSeconds = rct_utcUnixSeconds time\<rparr>" for x by (subst rec) simp
  show "decodeRunPersistenceRecordInto (raw_bytes (mw_record m)) (rpc_epoch c) d =
      Some ((mw_record m)\<lparr>raw_snapshot := writtenOver (raw_snapshot d) snapshot\<rparr>)"
    unfolding d by (rule record_decodes(1) [OF payload r env])
  show "runCheckpointReferenceMatches (hd_current (mw_committed m))
      ((mw_record m)\<lparr>raw_snapshot := writtenOver t snapshot\<rparr>) (mw_target m)"
    using record_decodes(2) [OF payload r env t, of t] unfolding d
    by (simp add: com committedHead_canonical rec [symmetric])
qed

lemma mutationWrite_target: "mutationWrite snapshot directive c time m \<Longrightarrow> mw_target m \<le> 1"
  by (auto simp: mutationWrite_def)

lemma slotKey_neq: "slotKey n \<noteq> headKey" "slotKey 0 \<noteq> slotKey (Suc 0)"
  by (simp_all add: slotKey_def headKey_def stringBytes_def)

lemma validCommittedHead_bytes: "validCommittedHead (h\<lparr>hd_bytes := bs\<rparr>) epoch = validCommittedHead h epoch"
proof -
  let ?k = "h\<lparr>hd_bytes := bs\<rparr>"
  have sel: "hd_current ?k = hd_current h" "hd_preparedCurrent ?k = hd_preparedCurrent h"
    "hd_preparedFallback ?k = hd_preparedFallback h" "hd_target ?k = hd_target h"
    "hd_commandId ?k = hd_commandId h" "hd_oldRunRevision ?k = hd_oldRunRevision h"
    "hd_newRunRevision ?k = hd_newRunRevision h" "hd_fallback ?k = hd_fallback h"
    "hd_oldTransitionSequence ?k = hd_oldTransitionSequence h"
    "hd_newTransitionSequence ?k = hd_newTransitionSequence h" by simp_all
  show ?thesis unfolding validCommittedHead_def sel by (rule refl)
qed

lemma committed_fallback_slot:
  assumes "decodeRunPersistenceHead bs epoch = Some h" "hd_state h = RHS_Committed"
    and "hd_fallback h = Some f"
  shows "unat (ref_slot f) \<le> 1 \<and> ref_slot f \<noteq> ref_slot (hd_current h)"
proof -
  have v: "validCommittedHead h epoch"
    using assms(1,2) unfolding decodeRunPersistenceHead_def
    by (auto split: option.splits if_splits prod.splits simp: validCommittedHead_bytes)
  then have "validReference f epoch" "ref_slot f \<noteq> ref_slot (hd_current h)"
    using assms(3) by (auto simp: validCommittedHead_def split: if_splits option.splits)
  then show ?thesis by (simp add: validReference_def not_less word_le_nat_alt)
qed

text \<open>Three outcomes for the next boot: the store is as it was, the new snapshot is the current one, or
  the reads of the current checkpoint failed and the fallback of the new head is delivered, in the slot
  that the write did not touch.\<close>

context checkpoint_store
begin

lemma boot_after_mutation:
  assumes m: "mutationWrite snapshot directive c time m" and r: "readableSnapshot snapshot"
    and rec: "rpc_workingRecord c1 = mw_record m"
    and wr: "writeMutation read write snapshot (mw_committed m) (mw_preparedBytes m)
      (mw_committedBytes m) (mw_target m) oldHead oldSlot rollback c1 w = (res, c', w')"
    and epoch: "rpc_epoch c0 = rpc_epoch c" and same: "\<And>k. stored k w2 = stored k w'"
    and boot: "loadAndInitialize read c0 w2 = (lr, c3, w3)" "plr_snapshot lr = Some s"
  shows "(\<forall>k. stored k w2 = stored k w) \<or>
    (plr_status lr = LST_Current \<or> plr_status lr = LST_NoActiveRun) \<and>
      s = writtenOver (raw_snapshot (rpc_workingRecord c0)) snapshot \<or>
    plr_status lr = LST_FallbackRecovered \<and> (\<exists>f d.
      newFallback snapshot directive (rpc_currentHead c) = Some f \<and>
      checkpointOf stored f (rpc_epoch c) d w s)"
proof -
  note stages = mutation_stages [OF wr slotKey_neq(1), unfolded rec]
  note dec = mutationWrite_decodes [OF m r]
  obtain bs h where bs: "stored headKey w2 = Some bs" "decodeRunPersistenceHead bs (rpc_epoch c) = Some h"
    and committed: "hd_state h = RHS_Committed" and from_head:
    "(plr_status lr = LST_Current \<or> plr_status lr = LST_NoActiveRun) \<and>
       checkpointOf stored (hd_current h) (rpc_epoch c) (rpc_workingRecord c0) w2 s \<or>
     plr_status lr = LST_FallbackRecovered \<and>
       (\<exists>f d. hd_fallback h = Some f \<and> checkpointOf stored f (rpc_epoch c) d w2 s)"
    using load_sound [OF boot] epoch by auto
  have frame: "edr_envelope (decodeEnvelope bs) \<noteq> None"
    using bs(2) by (auto simp: decodeRunPersistenceHead_def split: option.splits)
  have noP: "bs \<noteq> mw_preparedBytes m" using dec(1) [of h] bs(2) committed by auto
  consider (old) "stored headKey w' = stored headKey w"
      "stored (slotKey (mw_target m)) w' = stored (slotKey (mw_target m)) w"
    | (new) "bs = mw_committedBytes m"
      "stored (slotKey (mw_target m)) w' = Some (raw_bytes (mw_record m))"
    using stages(2) bs(1) frame noP same [of headKey] by (auto simp: interrupted_def)
  then show ?thesis
  proof cases
    case old
    then have "stored k w2 = stored k w" for k
      using same [of k] stages(1) [of k] by (cases "k = headKey \<or> k = slotKey (mw_target m)") auto
    then show ?thesis by simp
  next
    case new
    then have h: "h = (mw_committed m)\<lparr>hd_bytes := mw_committedBytes m\<rparr>" using bs(2) dec(2) by simp
    have slot: "stored (slotKey (mw_target m)) w2 = Some (raw_bytes (mw_record m))"
      using new(2) same by simp
    have cur: "s = writtenOver (raw_snapshot (rpc_workingRecord c0)) snapshot"
      if "checkpointOf stored (hd_current h) (rpc_epoch c) (rpc_workingRecord c0) w2 s"
      using that slot dec(5) dec(6) [of "rpc_workingRecord c0"] by (auto simp: checkpointOf_def h)
    have fall: "newFallback snapshot directive (rpc_currentHead c) = Some f \<and>
        checkpointOf stored f (rpc_epoch c) d w s"
      if f: "hd_fallback h = Some f" and c: "checkpointOf stored f (rpc_epoch c) d w2 s" for f d
    proof -
      have neq: "unat (ref_slot f) \<le> 1" "unat (ref_slot f) \<noteq> mw_target m"
        using committed_fallback_slot [OF bs(2) committed f] unfolding dec(5) [symmetric] h
        by (simp_all add: word_unat_eq_iff)
      then have "slotKey (unat (ref_slot f)) \<noteq> slotKey (mw_target m)"
        using mutationWrite_target [OF m] slotKey_neq(2)
        by (metis One_nat_def le_Suc_eq le_zero_eq)
      then have "stored (slotKey (unat (ref_slot f))) w2 = stored (slotKey (unat (ref_slot f))) w"
        using same stages(1) slotKey_neq(1) by metis
      then show ?thesis using c f dec(4) by (simp add: checkpointOf_def h)
    qed
    show ?thesis using from_head cur fall by blast
  qed
qed

lemma boot_after_write:
  assumes core: "writeSnapshotCore read write snapshot time False before kind commandId override
      directive rollback c w = (res, c', w')" and r: "readableSnapshot snapshot"
    and epoch: "rpc_epoch c0 = rpc_epoch c" and same: "\<And>k. stored k w2 = stored k w'"
    and boot: "loadAndInitialize read c0 w2 = (lr, c3, w3)" "plr_snapshot lr = Some s"
  shows "(\<forall>k. stored k w2 = stored k w) \<or>
    (plr_status lr = LST_Current \<or> plr_status lr = LST_NoActiveRun) \<and>
      s = writtenOver (raw_snapshot (rpc_workingRecord c0)) snapshot \<or>
    plr_status lr = LST_FallbackRecovered \<and> (\<exists>f d.
      newFallback snapshot directive (rpc_currentHead c) = Some f \<and>
      checkpointOf stored f (rpc_epoch c) d w s)"
  using core_writes [OF core]
proof (elim disjE exE conjE)
  assume "\<forall>k. stored k w' = stored k w"
  then show ?thesis using same by simp
next
  fix m c1 oldHead oldSlot w1
  assume m: "mutationWrite snapshot directive c time m" and w1: "\<forall>k. stored k w1 = stored k w"
    and rec: "rpc_workingRecord c1 = mw_record m"
    and wr: "writeMutation read write snapshot (mw_committed m) (mw_preparedBytes m)
      (mw_committedBytes m) (mw_target m) oldHead oldSlot rollback c1 w1 = (res, c', w')"
  have "checkpointOf stored f e d w1 s = checkpointOf stored f e d w s" for f e d
    using w1 by (simp add: checkpointOf_def)
  then show ?thesis using boot_after_mutation [OF m r rec wr epoch same boot] w1 by simp
qed

end

section \<open>A boot after a write that was applied\<close>

text \<open>A port that reads back what is stored.\<close>

definition faithfulRead :: "(bytes \<Rightarrow> 'w \<Rightarrow> bytes option) \<Rightarrow> 'w reader" where
  "faithfulRead stored key n w =
     (case stored key w of
        None \<Rightarrow> (\<lparr>srr_status = SRS_NotFound, srr_value = []\<rparr>, w)
      | Some bs \<Rightarrow>
          (if length bs \<le> n then \<lparr>srr_status = SRS_Success, srr_value = bs\<rparr>
           else \<lparr>srr_status = SRS_CapacityError, srr_value = []\<rparr>, w))"

lemma faithfulRead_simps [simp]:
  "stored key w = None \<Longrightarrow>
    faithfulRead stored key n w = (\<lparr>srr_status = SRS_NotFound, srr_value = []\<rparr>, w)"
  "stored key w = Some bs \<Longrightarrow> length bs \<le> n \<Longrightarrow>
    faithfulRead stored key n w = (\<lparr>srr_status = SRS_Success, srr_value = bs\<rparr>, w)"
  by (simp_all add: faithfulRead_def)

text \<open>A slot that the scan of a boot accepts.\<close>

definition slotScannable :: "(bytes \<Rightarrow> 'w \<Rightarrow> bytes option) \<Rightarrow> u64 \<Rightarrow> 'w \<Rightarrow> nat \<Rightarrow> bool" where
  "slotScannable stored epoch w slot \<longleftrightarrow>
     (case stored (slotKey slot) w of None \<Rightarrow> True
      | Some bs \<Rightarrow> length bs \<le> kMaximumCheckpointRecordBytes \<and> knownPhysicalEnvelope epoch bs \<noteq> None)"

lemma scan_accepts:
  assumes "\<And>slot. slot \<in> set slots \<Longrightarrow> slot \<noteq> current \<Longrightarrow> slotScannable stored (rpc_epoch c) w slot"
    and "knownPhysicalEnvelope (rpc_epoch c) (raw_bytes (rpc_workingRecord c)) \<noteq> None"
  shows "\<exists>overflow' c'. scanPhysicalSlots (faithfulRead stored) current slots overflow c w =
    (Inr overflow', c', w)"
  using assms
proof (induction slots arbitrary: overflow c)
  case (Cons slot slots)
  have step: "\<exists>overflow' c'. scanPhysicalSlots (faithfulRead stored) current slots overflow
      (c\<lparr>rpc_nextCheckpointRevision := r\<rparr>) w = (Inr overflow', c', w)" for overflow r
    by (rule Cons.IH) (use Cons.prems in auto)
  have step0: "\<exists>overflow' c'. scanPhysicalSlots (faithfulRead stored) current slots overflow c w =
      (Inr overflow', c', w)" for overflow
    by (rule Cons.IH) (use Cons.prems in auto)
  show ?case
  proof (cases "slot = current")
    case True
    then show ?thesis using Cons.prems(2) step step0 by (auto simp: Let_def)
  next
    case False
    then have "slotScannable stored (rpc_epoch c) w slot" using Cons.prems(1) by simp
    then show ?thesis using False step step0
      by (auto simp: Let_def slotScannable_def split: option.splits)
  qed
qed simp

lemma faithful_store: "checkpoint_store (faithfulRead stored) (\<lambda>k v w. (SWS_WriteError, w)) stored"
  by unfold_locales (auto simp: faithfulRead_def split: option.splits if_splits)

lemma decoded_head_known:
  assumes "decodeRunPersistenceHead bs epoch = Some h"
  shows "\<exists>e. edr_envelope (decodeEnvelope bs) = Some e \<and> env_storageEpoch e = epoch \<and>
    knownRunPersistenceSchema (env_schemaVersion e)"
  using assms by (auto simp: decodeRunPersistenceHead_def knownEnvelope_def split: option.splits if_splits)

lemma decoded_record_known:
  assumes "decodeRunPersistenceRecordInto bs epoch d = Some rec"
  shows "\<exists>e. edr_envelope (decodeEnvelope bs) = Some e \<and> env_storageEpoch e = epoch \<and>
    knownRunPersistenceSchema (env_schemaVersion e)" and "knownPhysicalEnvelope epoch bs \<noteq> None"
    "raw_bytes rec = bs"
  using assms by (auto simp: decodeRunPersistenceRecordInto_def knownEnvelope_def
      knownPhysicalEnvelope_def split: option.splits if_splits sum.splits)

lemma mutationWrite_fits:
  assumes "mutationWrite snapshot directive c time m"
  shows "length (mw_committedBytes m) \<le> kMaximumHeadRecordBytes"
    and "length (raw_bytes (mw_record m)) \<le> kMaximumCheckpointRecordBytes"
  using assms
  by (auto simp: mutationWrite_def encodeRunPersistenceHead_def encode_success
      split: if_splits prod.splits option.splits EnvelopeEncodeStatus.splits)

lemma loadReference_finds:
  assumes "stored (slotKey (unat (ref_slot ref))) w = Some bs" and "length bs \<le> kMaximumCheckpointRecordBytes"
    and "decodeRunPersistenceRecordInto bs (rpc_epoch c) (rpc_workingRecord c) = Some rec"
    and "runCheckpointReferenceMatches ref rec (unat (ref_slot ref))"
  shows "loadReference (faithfulRead stored) ref c w = (LST_Current, c\<lparr>rpc_workingRecord := rec\<rparr>, w)"
  using assms decoded_record_known(1) [OF assms(3)]
  by (auto simp: loadReference_def Let_def)

text \<open>After a completed mutation a fresh coordinator loads its snapshot.\<close>

lemma boot_loads:
  assumes m: "mutationWrite snapshot directive c time m" and r: "readableSnapshot snapshot"
    and head: "stored headKey w = Some (mw_committedBytes m)"
    and slot: "stored (slotKey (mw_target m)) w = Some (raw_bytes (mw_record m))"
    and other: "\<And>k. k \<le> 1 \<Longrightarrow> k \<noteq> mw_target m \<Longrightarrow> slotScannable stored (rpc_epoch c) w k"
    and params: "\<And>f d s. newFallback snapshot directive (rpc_currentHead c) = Some f \<Longrightarrow>
      checkpointOf stored f (rpc_epoch c) d w s \<Longrightarrow> sameRunIdentity snapshot s \<Longrightarrow>
      rsn_actuatorPlannerParametersSnapshot snapshot = rsn_actuatorPlannerParametersSnapshot s"
  shows "fst (loadAndInitialize (faithfulRead stored)
      (newRunPersistenceCoordinator (rpc_epoch c) schedule) w) =
    \<lparr>plr_status = (if rsn_variant snapshot = RCV_NoActiveRun then LST_NoActiveRun else LST_Current),
     plr_snapshot = Some (writtenOver initialRunPersistenceSnapshot snapshot)\<rparr>"
proof -
  note dec = mutationWrite_decodes [OF m r] and fits = mutationWrite_fits [OF m]
  define h where "h = (mw_committed m)\<lparr>hd_bytes := mw_committedBytes m\<rparr>"
  have h: "decodeRunPersistenceHead (mw_committedBytes m) (rpc_epoch c) = Some h"
    "hd_state h \<noteq> RHS_Prepared" "unat (ref_slot (hd_current h)) = mw_target m"
    "hd_current h = hd_current (mw_committed m)"
    "hd_fallback h = newFallback snapshot directive (rpc_currentHead c)"
    using dec(2,4,5) m by (auto simp: h_def mutationWrite_def committedHead_canonical)
  define c0 where "c0 = newRunPersistenceCoordinator (rpc_epoch c) schedule"
  define c1 where "c1 = c0\<lparr>rpc_pendingR1CheckpointRevision := None, rpc_pendingR1RunRevision := None,
    rpc_schedule := scheduleReset (rpc_schedule c0), rpc_currentHead := None,
    rpc_slots := [None, None], rpc_persistedIdCount := 0\<rparr>"
  define c2 where "c2 = c1\<lparr>rpc_currentHead := Some h,
    rpc_nextHeadRevision := successorRevision (hd_revision h)\<rparr>"
  define rec where "rec = (mw_record m)\<lparr>raw_snapshot := writtenOver initialRunPersistenceSnapshot snapshot\<rparr>"
  define c3 where "c3 = c2\<lparr>rpc_workingRecord := rec\<rparr>"
  have c: "rpc_epoch c2 = rpc_epoch c" "rpc_epoch c3 = rpc_epoch c" "rpc_workingRecord c3 = rec"
    "raw_snapshot (rpc_workingRecord c2) = initialRunPersistenceSnapshot"
    "rpc_epoch c0 = rpc_epoch c" "rpc_epoch c1 = rpc_epoch c"
    by (simp_all add: c3_def c2_def c1_def c0_def newRunPersistenceCoordinator_def)
  have rec: "decodeRunPersistenceRecordInto (raw_bytes (mw_record m)) (rpc_epoch c) d = Some rec"
    if "raw_snapshot d = initialRunPersistenceSnapshot" for d
    using dec(6) [of d] that by (simp add: rec_def)
  have cur: "loadReference (faithfulRead stored) (hd_current h) c2 w = (LST_Current, c3, w)"
    unfolding c3_def
  proof (rule loadReference_finds)
    show "stored (slotKey (unat (ref_slot (hd_current h)))) w = Some (raw_bytes (mw_record m))"
      using slot h(3) by simp
    show "length (raw_bytes (mw_record m)) \<le> kMaximumCheckpointRecordBytes" by (rule fits(2))
    show "decodeRunPersistenceRecordInto (raw_bytes (mw_record m)) (rpc_epoch c2)
        (rpc_workingRecord c2) = Some rec" using rec c by simp
    show "runCheckpointReferenceMatches (hd_current h) rec (unat (ref_slot (hd_current h)))"
      using dec(7) h(3,4) by (simp add: rec_def)
  qed
  have "loadAndInitialize (faithfulRead stored) c0 w = loadHead (faithfulRead stored) (mw_committedBytes m) c1 w"
    using head fits(1) unfolding loadAndInitialize_def Let_def
    by (simp add: c1_def) (simp add: c0_def newRunPersistenceCoordinator_def)
  also have "\<dots> = loadCurrent (faithfulRead stored) h c3 w"
    using decoded_head_known [OF h(1)] h(1,2) cur c
    by (auto simp: loadHead_def Let_def c2_def [symmetric])
  finally have load: "loadAndInitialize (faithfulRead stored) c0 w = loadCurrent (faithfulRead stored) h c3 w" .
  have "\<exists>c4. fallbackConflict (faithfulRead stored) h (raw_snapshot rec) (withCurrentSlot h c3) w =
      (False, c4, w) \<and> rpc_epoch c4 = rpc_epoch c"
  proof (cases "hd_fallback h")
    case None
    then show ?thesis using c by (simp add: fallbackConflict_def withCurrentSlot_def)
  next
    case (Some f)
    define d where "d = withCurrentSlot h c3"
    obtain st c4 w4 where l: "loadReference (faithfulRead stored) f d w = (st, c4, w4)" by (metis prod_cases3)
    note store = faithful_store [of stored]
    have w4: "w4 = w" using l
      by (auto simp: loadReference_def faithfulRead_def Let_def split: option.splits if_splits prod.splits)
    have e: "rpc_epoch d = rpc_epoch c" using c by (simp add: d_def withCurrentSlot_def)
    have "rsn_actuatorPlannerParametersSnapshot (raw_snapshot rec) =
        rsn_actuatorPlannerParametersSnapshot (raw_snapshot (rpc_workingRecord c4))"
      if "st = LST_Current" "sameRunIdentity (raw_snapshot rec) (raw_snapshot (rpc_workingRecord c4))"
    proof -
      have "checkpointOf stored f (rpc_epoch c) (rpc_workingRecord d) w (raw_snapshot (rpc_workingRecord c4))"
        using checkpoint_store.loadReference_current [OF store l [unfolded that(1)]] e by simp
      moreover have "sameRunIdentity snapshot (raw_snapshot (rpc_workingRecord c4))"
        using that(2) by (auto simp: sameRunIdentity_def rec_def)
      ultimately show ?thesis using params [of f] Some h(5) by (simp add: rec_def)
    qed
    then show ?thesis using l Some w4 e checkpoint_store.loadReference_world(2) [OF store l]
      by (auto simp: fallbackConflict_def d_def [symmetric])
  qed
  then obtain c4 where conflict: "fallbackConflict (faithfulRead stored) h (raw_snapshot rec)
      (withCurrentSlot h c3) w = (False, c4, w)" and e4: "rpc_epoch c4 = rpc_epoch c" by blast
  have b: "rpc_epoch (beforeScan rec c4) = rpc_epoch c" "rpc_workingRecord (beforeScan rec c4) = rec"
    by (simp_all add: beforeScan_def persistedIdsFrom_def e4)
  have "raw_bytes rec = raw_bytes (mw_record m)" by (simp add: rec_def)
  with decoded_record_known(2) [OF rec [OF c(4)]] b
  have known: "knownPhysicalEnvelope (rpc_epoch (beforeScan rec c4))
      (raw_bytes (rpc_workingRecord (beforeScan rec c4))) \<noteq> None" by simp
  obtain ov c5 where "scanPhysicalSlots (faithfulRead stored) (unat (ref_slot (hd_current h))) [0, 1] False
      (beforeScan rec c4) w = (Inr ov, c5, w)"
    using scan_accepts [OF _ known, of "[0, 1]" "mw_target m" stored w False] other b h(3) by auto
  from loadCurrent_steps [OF conflict [folded c(3)] this [folded c(3)]]
  show ?thesis unfolding c0_def [symmetric] load
    by (simp add: Let_def c(3) rec_def)
qed

text \<open>A write that reports success is durable.\<close>

context checkpoint_store
begin

lemma applied_is_loaded:
  assumes core: "writeSnapshotCore read write snapshot time False before kind commandId override
      directive rollback c w = (res, c', w')" and applied: "rpr_status res = RPR_Applied"
    and r: "readableSnapshot snapshot" and same: "\<And>k. stored k w2 = stored k w'"
    and slots: "\<And>k. k \<le> 1 \<Longrightarrow> slotScannable stored (rpc_epoch c) w k"
    and params: "\<And>f d s. newFallback snapshot directive (rpc_currentHead c) = Some f \<Longrightarrow>
      checkpointOf stored f (rpc_epoch c) d w s \<Longrightarrow> sameRunIdentity snapshot s \<Longrightarrow>
      rsn_actuatorPlannerParametersSnapshot snapshot = rsn_actuatorPlannerParametersSnapshot s"
  shows "fst (loadAndInitialize (faithfulRead stored)
      (newRunPersistenceCoordinator (rpc_epoch c) schedule) w2) =
    \<lparr>plr_status = (if rsn_variant snapshot = RCV_NoActiveRun then LST_NoActiveRun else LST_Current),
     plr_snapshot = Some (writtenOver initialRunPersistenceSnapshot snapshot)\<rparr>"
proof -
  obtain m c1 oldHead oldSlot w1 where m: "mutationWrite snapshot directive c time m"
    and w1: "\<And>k. stored k w1 = stored k w" and rec: "rpc_workingRecord c1 = mw_record m"
    and wr: "writeMutation read write snapshot (mw_committed m) (mw_preparedBytes m)
      (mw_committedBytes m) (mw_target m) oldHead oldSlot rollback c1 w1 = (res, c', w')"
    using core_writes [OF core] applied by blast
  note stages = mutation_stages [OF wr slotKey_neq(1), unfolded rec]
  have head: "stored headKey w2 = Some (mw_committedBytes m)"
    and slot: "stored (slotKey (mw_target m)) w2 = Some (raw_bytes (mw_record m))"
    using stages(3) applied same by simp_all
  have other: "stored (slotKey k) w2 = stored (slotKey k) w" if "k \<le> 1" "k \<noteq> mw_target m" for k
  proof -
    have "slotKey k \<noteq> slotKey (mw_target m)"
      using that mutationWrite_target [OF m] slotKey_neq(2) by (metis One_nat_def le_Suc_eq le_zero_eq)
    then show ?thesis using stages(1) slotKey_neq(1) same w1 by simp
  qed
  have newSlot: "checkpointOf stored f (rpc_epoch c) d w s"
    if f: "newFallback snapshot directive (rpc_currentHead c) = Some f"
      and cp: "checkpointOf stored f (rpc_epoch c) d w2 s" for f d s
  proof -
    note dec = mutationWrite_decodes [OF m r]
    have "hd_state (mw_committed m) = RHS_Committed" using m by (auto simp: mutationWrite_def committedHead_canonical)
    then have "unat (ref_slot f) \<le> 1" "unat (ref_slot f) \<noteq> mw_target m"
      using committed_fallback_slot [OF dec(2), of f] f dec(4) unfolding dec(5) [symmetric]
      by (simp_all add: word_unat_eq_iff)
    then show ?thesis using cp other by (simp add: checkpointOf_def)
  qed
  show ?thesis
  proof (rule boot_loads [where stored = stored, OF m r head slot])
    fix k assume "k \<le> (1::nat)" "k \<noteq> mw_target m"
    then show "slotScannable stored (rpc_epoch c) w2 k"
      using slots [of k] other [of k] by (simp add: slotScannable_def)
  next
    fix f d s assume "newFallback snapshot directive (rpc_currentHead c) = Some f"
      "checkpointOf stored f (rpc_epoch c) d w2 s" "sameRunIdentity snapshot s"
    then show "rsn_actuatorPlannerParametersSnapshot snapshot = rsn_actuatorPlannerParametersSnapshot s"
      using params newSlot by blast
  qed
qed

end

text \<open>The simulated store keeps the contract.\<close>

interpretation checkpoints: checkpoint_store simRead simWrite "\<lambda>k s. sim_committed s k"
  by unfold_locales (auto simp: interrupted_def simWrite_def Let_def split: if_splits)

end
