(* ===== verification/RunPersistenceExample.thy ===== *)
theory RunPersistenceExample
  imports RunPersistenceCrash RunCommandProperties
begin

text \<open>
  A started run of the firmware, its checkpoint and the first write of it, on which the properties of
  the stored run are shown to apply. That its writers succeed follows from the room that they need; the
  bytes and checksums are not computed.
\<close>

section \<open>A started run and its checkpoint\<close>

definition startedAt :: RunCheckpointTime where
  "startedAt = \<lparr>rct_monotonicMillis = 6000, rct_utcUnixSeconds = None\<rparr>"

definition exampleProcess :: ProcessRunSnapshot where
  "exampleProcess = processSnapshotOf (arn_snapshot exampleRun) (arn_effectiveValues exampleRun)"

lemma exampleProcess_made:
  "makeActiveRunProcessSnapshot exampleRun = Some exampleProcess" "validateProcessRunSnapshot exampleProcess"
  using invariant_makes [OF reachable_invariant [OF exampleRun_reachable]]
  by (simp_all add: makeActiveRunProcessSnapshot_def exampleProcess_def)

definition reachingRuntime :: ProcessRuntimeState where
  "reachingRuntime = (runtimeIn PS_ReachingTarget 5000)
     \<lparr>rt_transitionSequence := 2, rt_targetReachStartedAtMillis := 5000\<rparr>"

lemma started_state:
  "startedState = programRunStarted standbyState startRequest (resolveStartMode startRequest)
     exampleRun exampleProcess reachingRuntime"
  using start_proposed
proof (rule decideProgramStart_proposed, goal_cases)
  case (1 run snapshot c)
  have run: "run = exampleRun" using 1(7) exampleRun_starts by (simp add: startRequest_def)
  have snap: "snapshot = exampleProcess" using 1(8) exampleProcess_made by (simp add: run)
  have heat: "snap_preheatEnabled exampleProcess = False"
    by (simp add: exampleProcess_def processSnapshotOf_def exampleRun_fields exampleManualSource_def)
  obtain d where d: "d = decideProcessTransition (rcs_processState standbyState) (Some exampleProcess) noSignals
      \<lparr>req_event = PE_StartRun, req_recoveredState = None\<rparr> 5000 noPriorBootPhaseElapsed"
    and p: "proposed d" and c: "rcs_processState c = dec_after d"
    using 1(11) by (rule applyTransition_decided) (simp add: startRequest_def firstCommand_def snap)
  from p d have "d = decideStandbyEvent (rcs_processState standbyState) (Some exampleProcess) PE_StartRun 5000"
    by (auto simp: decideProcessTransition_def decideExplicitEvent_def noSignals_def standbyState_def
        runtimeIn_def split: if_splits)
  then have "dec_after d = reachingRuntime"
    by (simp add: decideStandbyEvent_def heat Let_def reachingRuntime_def standbyState_def example_defs
        initializeTargetReach_def propose_def stateHasTargetReachTimer_def result_def)
  then show ?case using 1(12) c snap run by (simp add: startedState_def handleCommand_eq)
qed

definition startedSnapshot :: RunPersistenceSnapshot where
  "startedSnapshot = initialRunPersistenceSnapshot
     \<lparr>rsn_variant := RCV_ProgramRun, rsn_checkpointMonotonicMillis := 6000, rsn_activeRunId := ''run-1'',
      rsn_activeRunSensorMode := Some RSM_Air,
      rsn_sensorSelection := Some \<lparr>per_provenance = SPV_InitialSelection,
        per_lastDecisionCause = SDC_StartSelection, per_lastDecisionRunRevision = 1\<rparr>,
      rsn_program := Some (arn_snapshot exampleRun), rsn_revisions := arn_revisions exampleRun,
      rsn_processRunSnapshot := Some exampleProcess, rsn_processState := reachingRuntime,
      rsn_runRevision := 1, rsn_persistedRunCommandIds := []\<rparr>"

lemma started_parts:
  "validateRunProgramSnapshotInto (arn_snapshot exampleRun) (arn_revisions exampleRun) 0 =
    Some (arn_effectiveValues exampleRun)"
  "makeProcessRunSnapshot (arn_snapshot exampleRun) (arn_effectiveValues exampleRun) = Some exampleProcess"
  "snap_kind exampleProcess = PK_Timed" "stateMatchesRunSnapshot PS_ReachingTarget exampleProcess"
  "length (arn_revisions exampleRun) = kMaximumRunRevisions"
proof -
  have inv: "runInvariant exampleRun" by (rule reachable_invariant) (rule exampleRun_reachable)
  then have "validateRunProgramSnapshotInto (arn_snapshot exampleRun) (arn_revisions exampleRun)
      (arn_revisionCount exampleRun) = Some (arn_effectiveValues exampleRun)"
    unfolding validate_iff by (simp add: runInvariant_def)
  then show "validateRunProgramSnapshotInto (arn_snapshot exampleRun) (arn_revisions exampleRun) 0 =
      Some (arn_effectiveValues exampleRun)" by (simp add: exampleRun_fields(2))
  show "makeProcessRunSnapshot (arn_snapshot exampleRun) (arn_effectiveValues exampleRun) = Some exampleProcess"
    using exampleProcess_made(1) by (simp add: makeActiveRunProcessSnapshot_def)
  show k: "snap_kind exampleProcess = PK_Timed"
    by (simp add: exampleProcess_def processSnapshotOf_def exampleRun_fields exampleManualSource_def)
  then show "stateMatchesRunSnapshot PS_ReachingTarget exampleProcess"
    by (simp add: stateMatchesRunSnapshot_def)
  show "length (arn_revisions exampleRun) = kMaximumRunRevisions"
    by (simp add: exampleRun_eq newActiveRun_def)
qed

lemma started_valid: "validateRunPersistenceSnapshot startedSnapshot"
proof -
  have "validProgramPart startedSnapshot exampleProcess"
    using started_parts exampleProcess_made(2)
    by (simp add: validProgramPart_def startedSnapshot_def initialRunPersistenceSnapshot_def
        validateProcessRuntimeForCheckpoint_def runtime_iffs reachingRuntime_def example_defs
        equalProcessRunSnapshot_refl stateUsesRunSnapshot_def)
  moreover have "validRecoveryFieldsForSnapshot startedSnapshot"
    by (simp add: validRecoveryFieldsForSnapshot_def startedSnapshot_def initialRunPersistenceSnapshot_def
        validPendingRecoveryAnchorContext_def validPriorBootPhaseElapsedTag_def reachingRuntime_def
        example_defs initialRunProgress_def)
  ultimately show ?thesis
    by (simp add: validateRunPersistenceSnapshot_def validActivePart_def)
      (simp add: startedSnapshot_def initialRunPersistenceSnapshot_def validIds_def validStateFor_def
        reachingRuntime_def example_defs validRunId_def kMinimumRunIdBytes_def kMaximumRunIdBytes_def
        validSensorSelectionCrossFields_def kMinimumRunCheckpointIntervalMinutes_def
        kMaximumRunCheckpointIntervalMinutes_def kDefaultRunCheckpointIntervalMinutes_def)
qed

lemma started_projection:
  "makeRunPersistenceSnapshot startedState [] 0 RCT_Command startedAt
     kDefaultRunCheckpointIntervalMinutes = Some startedSnapshot"
  using started_valid unfolding started_state startedSnapshot_def
  by (simp add: makeRunPersistenceSnapshot_def programRunStarted_def Let_def recorded_def
      rememberProcessedCommand_def startSensorSelectionOutcome_def resolveStartMode_def resolution_def
      startRequest_def exampleManualSource_def standbyState_def initialCommandState_def
      startedAt_def initialRunPersistenceSnapshot_def initialCrossRoleEvidence_def staleRoleEvidence_def
      exampleRun_fields(2))

section \<open>Writers that fit\<close>

text \<open>\<open>fits f n\<close>: where \<open>n\<close> bytes are left, the writer succeeds and takes at most these. The bytes
  themselves need not be computed.\<close>

definition fits :: "writer \<Rightarrow> nat \<Rightarrow> bool" where
  "fits f n \<longleftrightarrow> (\<forall>w. length (bw_buffer w) + n \<le> bw_capacity w \<longrightarrow>
     fst (f w) \<and> (\<exists>bs. snd (f w) = w\<lparr>bw_buffer := bw_buffer w @ bs\<rparr> \<and> length bs \<le> n))"

named_theorems fits_intros \<open>the room that a writer needs\<close>

lemma fits_bytes:
  assumes "\<And>w. f w = writeBytes bs w" and "length bs \<le> n"
  shows "fits f n"
  using assms(2) unfolding fits_def by (auto simp: writeBytes_def assms(1) intro!: exI [of _ bs])

lemma fits_nil [fits_intros]: "fits (writeAll []) 0"
  by (simp add: fits_def)

lemma fits_andThen:
  assumes f: "fits f m" and g: "fits g n" and h: "\<And>w. h w = andThen (f w) g"
  shows "fits h (m + n)"
  unfolding fits_def
proof (intro allI impI)
  fix w :: ByteWriter assume room: "length (bw_buffer w) + (m + n) \<le> bw_capacity w"
  then obtain bs where bs: "fst (f w)" "snd (f w) = w\<lparr>bw_buffer := bw_buffer w @ bs\<rparr>" "length bs \<le> m"
    using f unfolding fits_def by (auto dest!: spec [of _ w])
  with room g obtain cs where "fst (g (snd (f w)))"
    "snd (g (snd (f w))) = w\<lparr>bw_buffer := (bw_buffer w @ bs) @ cs\<rparr>" "length cs \<le> n"
    unfolding fits_def by (auto dest!: spec [of _ "w\<lparr>bw_buffer := bw_buffer w @ bs\<rparr>"])
  with bs show "fst (h w) \<and> (\<exists>bs. snd (h w) = w\<lparr>bw_buffer := bw_buffer w @ bs\<rparr> \<and> length bs \<le> m + n)"
    by (intro conjI exI [of _ "bs @ cs"]) (auto simp: andThen_def h)
qed

lemma fits_cons [fits_intros]:
  "fits f m \<Longrightarrow> fits (writeAll fs) n \<Longrightarrow> fits (writeAll (f # fs)) (m + n)"
  by (erule (1) fits_andThen) simp

lemma fits_append:
  "fits (writeAll fs) m \<Longrightarrow> fits (writeAll gs) n \<Longrightarrow> fits (writeAll (fs @ gs)) (m + n)"
  by (erule (1) fits_andThen) (rule writeAll_append)

lemma fits_words [fits_intros]:
  "fits (writeUint8 a) 1" "fits (writeUint16 b) 2" "fits (writeUint32 c) 4" "fits (writeUint64 d) 8"
  "fits (writeBool e) 1" "fits (writeOptionalTag e) 1"
  by (rule fits_bytes [where bs = "[a]"] fits_bytes [where bs = "be16 b"]
      fits_bytes [where bs = "be32 c"] fits_bytes [where bs = "be64 d"]
      fits_bytes [where bs = "[if e then 1 else 0]"];
      simp add: write_be writeUint8_def writeByte_def writeBool_def writeOptionalTag_def be_length)+

lemma fits_int64 [fits_intros]: "fits (writeInt64 i) 8"
  by (rule fits_bytes [where bs = "be64 (word_of_int i)"]) (simp_all add: writeInt64_def write_be be_length)

lemma fits_double [fits_intros]: "isfinite x \<Longrightarrow> fits (encodeBinary64 x) 8"
  by (rule fits_bytes [where bs = "be64 (toBits x)"]) (simp_all add: encodeBinary64_def write_be be_length)

lemma fits_string [fits_intros]: "length v \<le> 65535 \<Longrightarrow> fits (writeString v) (2 + (length v + 0))"
proof -
  assume v: "length v \<le> 65535"
  have "fits (writeAll [writeUint16 (of_nat (length v)), writeBytes v]) (2 + (length v + 0))"
    by (rule fits_intros fits_bytes [OF refl] order_refl)+
  then show ?thesis using v by (simp add: fits_def writeString_def)
qed

lemma fits_enum [fits_intros]: "map_of tbl v \<noteq> None \<Longrightarrow> fits (writeEnum tbl v) 1"
  by (auto simp: writeEnum_def simp del: One_nat_def intro: fits_intros)

lemma fits_one: "fits f n \<Longrightarrow> fits (writeAll [f]) n"
  using fits_cons [OF _ fits_nil, of f n] by simp

lemma fits_none [fits_intros]: "fits (writeOptional f None) 1"
  using fits_one [OF fits_words(6)] by (simp add: writeOptional_def)

lemma fits_some [fits_intros]: "fits (f x) n \<Longrightarrow> fits (writeOptional f (Some x)) (1 + n)"
  using fits_cons [OF fits_words(6) fits_one] by (simp add: writeOptional_def)

lemma fits_within: "fits f m \<Longrightarrow> m \<le> n \<Longrightarrow> fits f n"
  unfolding fits_def by force

lemma fits_runs: "fits f n \<Longrightarrow> n \<le> c \<Longrightarrow> fst (f (newWriter c))"
  by (simp add: fits_def newWriter_def)

lemma started_readable: "readableSnapshot startedSnapshot"
proof -
  have d: "isDouble (F64 30)" "isDouble (F64 1)"
    using round64_of_int [of 30] round64_of_int [of 1] by (simp_all add: isDouble_def)
  show ?thesis
    by (simp add: readableSnapshot_def startedSnapshot_def initialRunPersistenceSnapshot_def
        doublesOfRecovery_def initialCrossRoleEvidence_def Let_def exampleRun_fields exampleManualSource_def
        readableProgram_def doublesOfManualSource_def doublesOfEvidence_def d)
qed

lemmas started_writes = headerWrites_def selectionWrites_def runWrites_def programWrites_def
  processWrites_def recoveryWrites_def startedSnapshot_def initialRunPersistenceSnapshot_def
  exampleRun_fields exampleManualSource_def initialCrossRoleEvidence_def exampleProcess_def
  processSnapshotOf_def reachingRuntime_def example_defs initialRunProgress_def

lemmas writer_defs = writePersistedSensorSelectionState_def writeManualTimedSource_def
  writeProcessSnapshot_def writeRuntime_def writeCrossRoleEvidence_def writeRoleEvidence_def
  writeRunProgressState_def writeOptionalDouble_def writeOptionalUint32_def writeOptionalUint64_def
  writeOptionalInt64_def writeOptionalPendingRecoveryAnchor_def writeOptionalRecoveryEpisodeEvidence_def
  writeOptionalTaggedPriorBootPhaseElapsed_def writeOptionalNominalRecoveryAdjustmentState_def
  writeOptionalActuatorPlannerParameters_def writeOptionalWeightedProgressState_def

lemmas enum_writer_defs = writeEnum_RunCheckpointVariant_def writeEnum_RunCheckpointTrigger_def
  writeEnum_RunSensorMode_def writeEnum_SensorSelectionProvenance_def
  writeEnum_SensorSelectionDecisionCause_def writeEnum_ProgramSourceKind_def writeEnum_CompletionMode_def
  writeEnum_ProcessKind_def writeEnum_ProcessState_def writeEnum_SensorQuality_def
  writeEnum_RunProgressBasis_def

lemma started_fits:
  "fits (writeAll (headerWrites startedSnapshot)) 100"
  "fits (writeAll (selectionWrites startedSnapshot)) 100"
  "fits (writeAll (runWrites startedSnapshot)) 100"
  "fits (writeAll (processWrites startedSnapshot)) 100"
  "fits (writeAll (recoveryWrites startedSnapshot)) 100"
  by (rule fits_within, simp add: started_writes Let_def del: One_nat_def,
    (rule fits_intros | simp add: writer_defs isfinite_def stringBytes_def del: One_nat_def |
      simp add: enum_writer_defs del: One_nat_def)+)+

lemma started_encodes: "\<exists>bs. encodeRunPersistenceSnapshot startedSnapshot = Inr bs"
proof -
  have "fits (writeAll (headerWrites startedSnapshot @ selectionWrites startedSnapshot @
      runWrites startedSnapshot @ processWrites startedSnapshot @ recoveryWrites startedSnapshot))
      (100 + (100 + (100 + (100 + 100))))"
    by (intro fits_append started_fits)
  then have "fst (writeAll (headerWrites startedSnapshot @ selectionWrites startedSnapshot @
      runWrites startedSnapshot @ processWrites startedSnapshot @ recoveryWrites startedSnapshot)
      (newWriter kMaximumCheckpointPayloadBytes))"
    by (rule fits_runs)
      (simp add: kMaximumCheckpointPayloadBytes_def kMaximumRunPersistencePayloadBytes_def)
  then show ?thesis using started_valid by (auto simp: encodeRunPersistenceSnapshot_def split: prod.split)
qed

section \<open>The first write of that run\<close>

lemma fits_result:
  assumes "fits f n" and "n \<le> c"
  obtains bs where "f (newWriter c) = (True, (newWriter c)\<lparr>bw_buffer := bs\<rparr>)" and "length bs \<le> n"
proof -
  obtain bs where "fst (f (newWriter c))" "snd (f (newWriter c)) = (newWriter c)\<lparr>bw_buffer := bs\<rparr>"
    "length bs \<le> n"
    using assms by (auto simp: fits_def newWriter_def dest!: spec [of _ "newWriter c"])
  then show thesis using that [of bs] by (metis prod.collapse)
qed

lemma head_encodes:
  assumes "hd_revision head \<noteq> 0" and "epoch \<noteq> 0"
    and f: "fits (writeAll (writeHeadState (hd_state head) # (if hd_state head = RHS_Prepared
      then preparedWrites head epoch else committedWrites head epoch))) 200"
  shows "encodeRunPersistenceHead head epoch \<noteq> None"
proof -
  obtain bs where bs: "writeAll (writeHeadState (hd_state head) # (if hd_state head = RHS_Prepared
      then preparedWrites head epoch else committedWrites head epoch)) (newWriter 200) =
      (True, (newWriter 200)\<lparr>bw_buffer := bs\<rparr>)" "length bs \<le> 200"
    using fits_result [OF f order_refl] by metis
  let ?e = "\<lparr>env_recordTypeId = kHeadRecordType, env_schemaVersion = kCurrentRunPersistenceSchema,
    env_storageEpoch = epoch, env_versionValue = hd_revision head, env_utcUnixSeconds = None,
    env_payload = bs\<rparr>"
  have "encodeEnvelope ?e kMaximumHeadRecordBytes = (EES_Success, Some (envBytes ?e))"
    using assms(1,2) bs(2)
    by (simp add: encode_success fields_ok_def envBytes_length kMaximumHeadRecordBytes_def
        kHeadRecordType_def kCurrentRunPersistenceSchema_def)
  then show ?thesis using assms(1,2) unfolding encodeRunPersistenceHead_def bs(1) by simp
qed

lemma fits_guard [fits_intros]: "c \<Longrightarrow> fits (writeGuard c) 0"
  by (simp add: fits_def writeGuard_def)

definition freshCoordinator :: RunPersistenceCoordinator where
  "freshCoordinator = (newRunPersistenceCoordinator 1
     \<lparr>sch_intervalMinutes = kDefaultRunCheckpointIntervalMinutes, sch_lastConfirmedMillis = None\<rparr>)
     \<lparr>rpc_state := CST_ReadyEmpty\<rparr>"

lemma freshCoordinator_sel:
  "rpc_currentHead freshCoordinator = None" "rpc_state freshCoordinator = CST_ReadyEmpty"
  "rpc_epoch freshCoordinator = 1" "rpc_nextCheckpointRevision freshCoordinator = 1"
  "rpc_nextHeadRevision freshCoordinator = 1"
  "rpc_schedule freshCoordinator = \<lparr>sch_intervalMinutes = kDefaultRunCheckpointIntervalMinutes,
     sch_lastConfirmedMillis = None\<rparr>"
  by (simp_all add: freshCoordinator_def newRunPersistenceCoordinator_def)

definition firstRecord :: "bytes \<Rightarrow> RunPersistenceRawRecord" where
  "firstRecord bs = \<lparr>raw_bytes = bs, raw_snapshot = startedSnapshot, raw_checkpointRevision = 1,
     raw_utcUnixSeconds = None\<rparr>"

abbreviation simStored :: "bytes \<Rightarrow> bytes SimulatedPersistentStateStore \<Rightarrow> bytes option" where
  "simStored k s \<equiv> sim_committed s k"

definition firstWrite ::
  "RunPersistenceResult \<times> RunPersistenceCoordinator \<times> bytes SimulatedPersistentStateStore" where
  "firstWrite = writeSnapshotCore (faithfulRead simStored) simWrite startedSnapshot startedAt False
     \<lparr>rpb_runRevision = 0, rpb_transitionSequence = 1\<rparr> RMK_Command (Some 7) None standardFallback
     CST_ReadyEmpty freshCoordinator newSimulatedStore"

text \<open>The record and the two heads of the write are encoded.\<close>

lemma first_encodes:
  obtains bs P C where
    "prepareSnapshotRecord startedSnapshot startedAt (freshCoordinator\<lparr>rpc_state := CST_Busy\<rparr>) =
       (SRP_Success, (freshCoordinator\<lparr>rpc_state := CST_Busy\<rparr>)\<lparr>rpc_workingRecord := firstRecord bs\<rparr>)"
    and "encodeRunPersistenceHead (preparedHead startedSnapshot
       \<lparr>rpb_runRevision = 0, rpb_transitionSequence = 1\<rparr> RMK_Command (Some 7) None
       (makeRunCheckpointReference 0 (firstRecord bs) 1) (Some 7) 1) 1 = Some P"
    and "encodeRunPersistenceHead (committedHead startedSnapshot standardFallback None
       (makeRunCheckpointReference 0 (firstRecord bs) 1) (Some 7) 2) 1 = Some C"
proof -
  obtain payload where payload: "encodeRunPersistenceSnapshot startedSnapshot = Inr payload"
    using started_encodes by blast
  have n: "length payload \<le> 8192"
    using snapshot_payload_decodes [OF payload started_readable]
    by (simp add: kMaximumRunPersistencePayloadBytes_def)
  define e where "e = checkpointEnvelope 1 1 None payload"
  have e: "encodeEnvelope e kMaximumCheckpointRecordBytes = (EES_Success, Some (envBytes e))"
    using n by (simp add: e_def encode_success fields_ok_def envBytes_length checkpointEnvelope_def
        kMaximumCheckpointRecordBytes_def kCheckpointRecordType_def kCurrentRunPersistenceSchema_def)
  define ref where "ref = makeRunCheckpointReference 0 (firstRecord (envBytes e)) 1"
  have "edr_envelope (decodeEnvelope (envBytes e)) = Some e"
    using record_envelope [OF e [unfolded e_def]] by (simp add: e_def)
  then have ref: "validReference ref 1" "ref_slot ref = 0" "ref_variant ref = RCV_ProgramRun"
    using n by (simp_all add: ref_def firstRecord_def makeRunCheckpointReference_def e_def checkpointEnvelope_def
        validReference_def knownRunPersistenceSchema_def kCurrentRunPersistenceSchema_def
        kMaximumRunPersistencePayloadBytes_def unat_of_nat startedSnapshot_def)
  define prep where "prep = preparedHead startedSnapshot
    \<lparr>rpb_runRevision = 0, rpb_transitionSequence = 1\<rparr> RMK_Command (Some 7) None ref (Some 7) 1"
  define com where "com = committedHead startedSnapshot standardFallback None ref (Some 7) 2"
  have prep: "hd_state prep = RHS_Prepared" "hd_preparedCurrent prep = None" "hd_preparedFallback prep = None"
    "hd_target prep = ref" "hd_mutationKind prep = RMK_Command" "hd_commandId prep = Some 7"
    "hd_oldRunRevision prep = 0" "hd_newRunRevision prep = 1" "hd_oldTransitionSequence prep = 1"
    "hd_newTransitionSequence prep = 2" "hd_commandIdHighWater prep = Some 7" "hd_revision prep = 1"
    "hd_fallback prep = None" "ref_schemaVersion (hd_current prep) = 0"
    by (simp_all add: prep_def preparedHead_def initialHead_def initialReference_def startedSnapshot_def
        initialRunPersistenceSnapshot_def reachingRuntime_def)
  have com: "hd_state com = RHS_Committed" "hd_current com = ref" "hd_fallback com = None"
    "hd_commandIdHighWater com = Some 7" "hd_revision com = 2" "hd_preparedCurrent com = None"
    "hd_preparedFallback com = None" "ref_schemaVersion (hd_target com) = 0" "hd_commandId com = None"
    "hd_oldRunRevision com = 0" "hd_newRunRevision com = 0" "hd_oldTransitionSequence com = 0"
    "hd_newTransitionSequence com = 0"
    by (simp_all add: com_def committedHead_def initialHead_def initialReference_def newFallback_def)
  have guards: "validPreparedHead prep 1" "validCommittedHead com 1"
    using ref by (simp_all add: validPreparedHead_def prep validCommittedHead_def com)
  have fits_ref: "fits (writeReference ref) 100"
    unfolding writeReference_def ref writeEnum_RunCheckpointVariant_def
    by (rule fits_within, (rule fits_intros | simp)+)
  have "encodeRunPersistenceHead prep 1 \<noteq> None"
  proof (rule head_encodes)
    show "fits (writeAll (writeHeadState (hd_state prep) # (if hd_state prep = RHS_Prepared
      then preparedWrites prep 1 else committedWrites prep 1))) 200"
      unfolding preparedWrites_def prep if_True simp_thms writeHeadState_def writeMutationKind_def
        writeOptionalCommandHighWater_def
      by (rule fits_within, (rule fits_intros fits_ref guards | simp del: One_nat_def)+)
  qed (simp_all add: prep)
  then obtain P where P: "encodeRunPersistenceHead prep 1 = Some P" by blast
  have "encodeRunPersistenceHead com 1 \<noteq> None"
  proof (rule head_encodes)
    show "fits (writeAll (writeHeadState (hd_state com) # (if hd_state com = RHS_Prepared
      then preparedWrites com 1 else committedWrites com 1))) 200"
      unfolding committedWrites_def com if_False RunPersistenceHeadState.distinct simp_thms writeHeadState_def
        writeOptionalCommandHighWater_def
      by (rule fits_within, (rule fits_intros fits_ref guards | simp del: One_nat_def)+)
  qed (simp_all add: com)
  then obtain C where C: "encodeRunPersistenceHead com 1 = Some C" by blast
  have "prepareSnapshotRecord startedSnapshot startedAt (freshCoordinator\<lparr>rpc_state := CST_Busy\<rparr>) =
       (SRP_Success, (freshCoordinator\<lparr>rpc_state := CST_Busy\<rparr>)
         \<lparr>rpc_workingRecord := firstRecord (envBytes e)\<rparr>)"
    using payload e by (simp add: prepareSnapshotRecord_def freshCoordinator_sel startedAt_def e_def
        firstRecord_def)
  then show thesis using P C unfolding prep_def com_def ref_def by (rule that)
qed

lemma first_applied: "rpr_status (fst firstWrite) = RPR_Applied"
proof -
  obtain bs P C where prepared:
    "prepareSnapshotRecord startedSnapshot startedAt (freshCoordinator\<lparr>rpc_state := CST_Busy\<rparr>) =
       (SRP_Success, (freshCoordinator\<lparr>rpc_state := CST_Busy\<rparr>)\<lparr>rpc_workingRecord := firstRecord bs\<rparr>)"
    and P: "encodeRunPersistenceHead (preparedHead startedSnapshot
       \<lparr>rpb_runRevision = 0, rpb_transitionSequence = 1\<rparr> RMK_Command (Some 7) None
       (makeRunCheckpointReference 0 (firstRecord bs) 1) (Some 7) 1) 1 = Some P"
    and C: "encodeRunPersistenceHead (committedHead startedSnapshot standardFallback None
       (makeRunCheckpointReference 0 (firstRecord bs) 1) (Some 7) 2) 1 = Some C"
    by (rule first_encodes)
  define c where "c = freshCoordinator\<lparr>rpc_state := CST_Busy\<rparr>"
  define com where "com = committedHead startedSnapshot standardFallback None
    (makeRunCheckpointReference 0 (firstRecord bs) 1) (Some 7) 2"
  note fresh = freshCoordinator_sel
  have valid: "scheduleValidate (rpc_schedule freshCoordinator) m = RSS_Success" for m
    by (simp add: fresh scheduleValidate_def kMinimumRunCheckpointIntervalMinutes_def
        kMaximumRunCheckpointIntervalMinutes_def kDefaultRunCheckpointIntervalMinutes_def)
  have ferm: "\<not> isActiveFermentingSnapshot startedSnapshot"
    by (simp add: isActiveFermentingSnapshot_def startedSnapshot_def reachingRuntime_def runtimeIn_def)
  have directive: "directiveValid standardFallback snapshot 0 None" for snapshot
    by (simp add: directiveValid_def standardFallback_def)
  have high: "nextHighWater (Some 7) freshCoordinator = Inr (Some 7)"
    by (simp add: nextHighWater_def fresh)
  have tr: "firstWrite = writeSnapshotTransaction (faithfulRead simStored) simWrite startedSnapshot False
      \<lparr>rpb_runRevision = 0, rpb_transitionSequence = 1\<rparr> RMK_Command (Some 7) standardFallback
      CST_ReadyEmpty 0 (Some 7) (c\<lparr>rpc_workingRecord := firstRecord bs\<rparr>) newSimulatedStore"
    unfolding firstWrite_def writeSnapshotCore_def Let_def c_def [symmetric] high
    using prepared [folded c_def] by (simp add: ferm directive valid [unfolded fresh] fresh c_def)
  have r: "faithfulRead simStored (slotKey 0) kMaximumCheckpointRecordBytes newSimulatedStore =
      (\<lparr>srr_status = SRS_NotFound, srr_value = []\<rparr>, newSimulatedStore)"
    by (simp add: newSimulatedStore_def)
  have mut: "firstWrite = writeMutation (faithfulRead simStored) simWrite startedSnapshot com P C 0 None None CST_ReadyEmpty
      (c\<lparr>rpc_workingRecord := firstRecord bs\<rparr>) newSimulatedStore"
    unfolding tr writeSnapshotTransaction_def Let_def
    by (simp add: c_def fresh P C com_def r)
  show ?thesis unfolding mut
    by (simp add: writeMutation_def writeExact_def simWrite_def newSimulatedStore_def Let_def
        headCommitted_def slotWritten_def c_def scheduleConfirm_def fresh valid [unfolded fresh])
qed

lemma simStored_checkpoints: "checkpoint_store (faithfulRead simStored) simWrite simStored"
  by unfold_locales
    (auto simp: interrupted_def simWrite_def faithfulRead_def Let_def split: if_splits option.splits)

text \<open>The first write of a run, a restart, and the boot that finds it.\<close>

definition firstBoot ::
  "RunPersistenceLoadResult \<times> RunPersistenceCoordinator \<times> bytes SimulatedPersistentStateStore" where
  "firstBoot = loadAndInitialize (faithfulRead simStored)
     (newRunPersistenceCoordinator 1 (rpc_schedule freshCoordinator)) (simRestart (snd (snd firstWrite)))"

lemma first_boot:
  "fst firstBoot = \<lparr>plr_status = LST_Current,
     plr_snapshot = Some (writtenOver initialRunPersistenceSnapshot startedSnapshot)\<rparr>"
proof -
  obtain res c' w' where w: "firstWrite = (res, c', w')" by (metis prod_cases3)
  have "rpr_status res = RPR_Applied" using first_applied unfolding w by simp
  moreover have "rsn_variant startedSnapshot \<noteq> RCV_NoActiveRun" by (simp add: startedSnapshot_def)
  ultimately show ?thesis
    using checkpoint_store.applied_is_loaded [OF simStored_checkpoints w [unfolded firstWrite_def] _
        started_readable, of "simRestart w'" "rpc_schedule freshCoordinator"]
    unfolding firstBoot_def w
    by (simp add: freshCoordinator_sel simRestart_def slotScannable_def newSimulatedStore_def
        newFallback_def)
qed

end
