(* ===== verification/RunPersistenceProperties.thy ===== *)
theory RunPersistenceProperties
  imports RunPersistenceExample
begin

text \<open>
  The properties of the stored run: a run survives its checkpoint and a restart, and a mutation of the
  store is atomic and durable.
\<close>

section \<open>From the memory through a checkpoint and back\<close>







section \<open>Properties\<close>







end
