(* ===== verification/Spec2Isabelle.thy ===== *)
theory Spec2Isabelle
  imports ProcessProperties SensorProperties StorageProperties QualificationProperties
    PipelineProperties ActuationChain RunCommandProperties RunPersistenceProperties
begin

text \<open>
  A verification development for the firmware of a fermentation cabinet (ESP32, C++): a Peltier
  element heats or cools a chamber, two fans move the air, sensors for air, cooler and product report
  temperatures, and a program or a manual run says what is to happen. The application logic is in
  \<open>src/lib/fermentation_app/src\<close>, the device platform in \<open>src/lib/device_platform/src\<close>, its adapters to
  the ESP-IDF in \<open>src/lib/device_platform_esp_idf/src\<close>.

  \<^bold>\<open>How the program works.\<close> Raw readings pass a quality pipeline per sensor, which gives a snapshot with
  a quality and a filtered value. The process state machine keeps the phase of the run (standby,
  preheating, waiting for the product, reaching and qualifying the target, fermenting, cooling, holding,
  completed, fault, safe boot). Commands of the user start, adjust and end runs; the sensor selection
  decides which sensor leads and whether the Peltier element is permitted. From this command state the
  control context (target, role, revisions) is resolved; the target qualification decides when the target
  counts as reached; the temperature control turns context and snapshots into a control request; the
  actuation interlock turns the evidence of all producers into a permission; the actuator planner turns
  request and permission into physical directions with minimum times and dead times; a driver and a
  bridge set the pins. Records are stored in two slots each, framed and protected by a CRC.

  \<^bold>\<open>Conventions\<close> (\<open>Prelude\<close>). An enumeration is a datatype; a struct is a record, its fields with a
  prefix; a fixed-width integer is a word, so sums wrap as in the code; \<open>size_t\<close> is \<open>nat\<close>;
  \<open>std::optional\<close> and a pointer that may be null are options; an object with methods is a state that
  each operation takes and returns; a virtual call and \<open>std::exp\<close> are parameters of the operations that
  make them, with their documented contract as a hypothesis or as a locale. A constructor \<open>X_other\<close> is a
  byte outside the enumeration, kept where the code tests for it. \<open>double\<close> is the type \<open>f64\<close> of
  \<open>Binary64\<close>: correctly rounded binary64 arithmetic over rationals, infinities and NaN, with the two
  zeros as one value.

  \<^bold>\<open>Models and what is shown of them.\<close> A model theory has the definitions of its source file in the order
  of the code; a theory \<open>XProofs\<close> has its lemmas and \<open>XProperties\<close> what it promises.
  \<^item> \<open>DomainTypes\<close>, \<open>ProgramLimits\<close>, \<open>ProgramModel\<close> (\<open>program_model.cpp\<close>): the document of a program,
    its validation and its migration from older schemas. \<open>ProgramProperties\<close>: the validation accepts
    exactly the programs that can be run; the migration ends and its result is given field by field.
  \<^item> \<open>RunSnapshot\<close> (\<open>run_snapshot.cpp\<close>): a run with its immutable source and its log of revisions.
    \<open>RunProofs\<close>, \<open>RunProperties\<close>: the invariant of reachable runs; a stored run is restored; a proposed
    adjustment is applied exactly once.
  \<^item> \<open>ProcessStateMachine\<close> (\<open>process_state_machine.cpp\<close>): decision and independent commit of a phase
    transition. \<open>ProcessProofs\<close>, \<open>ProcessProperties\<close>: the commit accepts what is decided and refines an
    abstract graph of the phases (\<open>phase_edge\<close>); invariant of the runtime state; a critical fault always
    wins; the end of the fermentation.
  \<^item> \<open>SensorTypes\<close>, \<open>SensorSelection\<close> (\<open>sensor_selection.cpp\<close>): leading sensor, fallback, return and
    permission. \<open>SensorProofs\<close>, \<open>SensorProperties\<close>: permission rests on evidence; the recheck defect.
  \<^item> \<open>SensorFilters\<close>, \<open>SensorPipeline\<close> (\<open>sensor_median_filter.cpp\<close>, \<open>sensor_lowpass_filter.cpp\<close>,
    \<open>sensor_quality_pipeline.cpp\<close>). \<open>PipelineProofs\<close>, \<open>PipelineProperties\<close>: a valid snapshot is earned by
    a streak of samples, a sensor recovers, values stay finite (\<open>Binary64Bounds\<close>).
  \<^item> \<open>RunState\<close>, \<open>RunCommands\<close>, \<open>RunCommandActions\<close>, \<open>RunMutations\<close> (\<open>run_commands.cpp\<close>,
    \<open>run_progress_weighting.cpp\<close>, \<open>persistTransition\<close> and \<open>persistSensorSelection\<close> of
    \<open>run_persistence_coordinator.cpp\<close>): the command state, the decision and application of every command
    and the mutations around them. \<open>RunCommandProofs\<close> and \<open>RunCommandOutcomes\<close> give what a proposed
    decision of each command is; \<open>RunCommandInvariants\<close> and \<open>RunCommandReachable\<close> the invariant of the
    states that any commands, transitions and sensor decisions reach from boot; \<open>RunCommandProperties\<close>
    the promises on guards, repetition, safety, start, stop and correction.
  \<^item> \<open>ControlContext\<close> (\<open>control_context.cpp\<close>), \<open>ControlContextProofs\<close>: the context of a reachable state is
    valid exactly in the controlled phases and has the effective target of the run.
  \<^item> \<open>TargetQualification\<close> (\<open>target_qualification.cpp\<close>), \<open>QualificationProofs\<close>,
    \<open>QualificationProperties\<close>: completion is never reported early.
  \<^item> \<open>ControlTypes\<close>, \<open>TemperatureControl\<close> (\<open>temperature_control.cpp\<close>), \<open>ControlProofs\<close>,
    \<open>ControlProperties\<close>: bounds of quote and integral, direction, anti-windup and request numbers.
  \<^item> \<open>ActuatorPlanner\<close> (\<open>actuator_planner.cpp\<close>): the planner, with \<open>PlannerWindow\<close>, \<open>PlannerStages\<close>,
    \<open>PlannerProofs\<close>, \<open>PlannerBookkeeping\<close> (window, stages of a tick, invariant, book-keeping of the
    requests) and \<open>PlannerProperties\<close>: closed gate, minimum times, dead time, no direct reversal.
  \<^item> \<open>ActuationInterlock\<close> (\<open>actuation_interlock.cpp\<close>), \<open>InterlockProperties\<close>: the permission as an exact
    condition on the evidence.
  \<^item> \<open>ActuatorOutputs\<close> (\<open>actuator_plan_sink_driver.cpp\<close>, \<open>shared_enable_bridge_sink.cpp\<close>, ESP-IDF
    adapters), \<open>OutputsProofs\<close>, \<open>OutputsProperties\<close>: never both legs, for all driver answers, in the
    locale \<open>binary_outputs\<close>, interpreted on the modelled outputs.
  \<^item> \<open>ActuationChain\<close>: control, planner, interlock and bridge composed, from the evidence to the pins.
  \<^item> \<open>StorageCodec\<close>, \<open>StorageEnvelope\<close>, \<open>SlotCandidates\<close> (\<open>crc32.cpp\<close>, \<open>storage_envelope.cpp\<close>,
    \<open>storage_slot_candidates.cpp\<close>) with \<open>StorageCodecProofs\<close>, \<open>EnvelopeProofs\<close>, \<open>StorageProperties\<close>:
    round trip, detection of any changed byte, the CRC against its bitwise reference, loading after
    writing, in the locale \<open>state_store\<close>, interpreted on the simulated store.
  \<^item> \<open>Binary64Codec\<close> (\<open>binary64_codec.hpp\<close>), \<open>WireCodec\<close>, \<open>ProgramDocumentCodec\<close>
    (\<open>configuration_document_codec.cpp\<close>, a single program), \<open>RunCheckpointCodec\<close>,
    \<open>RunPersistenceCodec\<close>, \<open>RunPersistenceRecords\<close> (\<open>run_persistence_codec.cpp\<close>): the bytes of a
    checkpoint and of the heads. A chain of reads or writes joined by \<open>&&\<close> is written with small
    combinators; a codec and its inverse are shown together by the rules \<open>codes_intros\<close>, in
    \<open>ProgramDocumentProofs\<close> and \<open>RunPersistenceCodecProofs\<close>.
  \<^item> \<open>RunPersistenceContract\<close> (\<open>run_persistence_contract.cpp\<close>): the snapshot of a run, its validation, the
    projection of the command state and the restore.
  \<^item> \<open>RunPersistenceStore\<close>, \<open>RunPersistenceTransaction\<close> (\<open>run_persistence_store.cpp\<close>,
    \<open>run_checkpoint_schedule.cpp\<close>, \<open>run_persistence_coordinator.cpp\<close>): exact writes, the schedule, the
    load after a boot and the write of a checkpoint. \<open>RunPersistenceCrash\<close>: the locale
    \<open>checkpoint_store\<close>, which extends \<open>state_store\<close> by what an interrupted write may leave, what the
    store holds after a transaction and what a boot loads from it; interpreted on the simulated store.
    \<open>RunPersistenceExample\<close>, \<open>RunPersistenceProperties\<close>: a run survives its checkpoint and a restart, a
    mutation is atomic, and an applied one is durable. \<open>ActuationInterlock\<close> has the result enumerations
    of the coordinator a second time, with the bytes outside them.

  \<^bold>\<open>Bounds and fuel.\<close> No definition has fuel: loops recurse on lists or numbers, with a measure for the
  migration (the number of schemas left) and for the count of the fields of a mask. Lists that stand for
  arrays keep the capacities of the code (32 processed commands, 32 revisions, two slots). Absence of
  wrap-around is proved where it is claimed, else the wrap-around is the one of the code.

  \<^bold>\<open>Not modelled.\<close> Display, network, web interface, the parsers of JSON and the drivers are input and
  output around the logic above. The configuration service enters the interlock by its results. Of the
  persistence coordinator the recovery dialogue (\<open>run_recovery.cpp\<close>, \<open>activateLoadedRun\<close> and its
  siblings), the hand-over between epochs and the callers that join a decision and its write are not
  modelled. The wiring of the application calls the components in sequence.
\<close>

end
